(* ===== verification/RL_Prelude.thy ===== *)
theory RL_Prelude
  imports Main "HOL-Library.AList" "HOL-Library.Word" "HOL-Library.Char_ord"
begin

text \<open>
  Shared vocabulary of the development: the machine integers, byte strings, clocks and hash
  maps the Rust code uses, with the lemmas every component relies on.

  \<^item> \<open>u8\<close>, \<open>u16\<close>, \<open>u32\<close>, \<open>u64\<close> are words of that width; \<open>usize\<close> lengths are \<open>nat\<close>.
  \<^item> A Rust \<open>String\<close> is the \<open>string\<close> of its UTF-8 bytes, so \<open>length\<close> is \<open>String::len\<close>.
  \<^item> \<open>DateTime<Utc>\<close> is an \<open>int\<close> (nanoseconds since the Unix epoch), \<open>Instant\<close> and
    \<open>Duration\<close> are \<open>nat\<close> (nanoseconds): \<open>nat\<close> subtraction is \<open>saturating_sub\<close>.
  \<^item> A \<open>HashMap\<close> is an association list with distinct keys; its order is the (unspecified)
    iteration order, so a theorem about every list is a theorem about every order.
  \<^item> \<open>Result<T, E>\<close> is \<open>'e + 't\<close> with \<open>Inl\<close> the error.
\<close>

type_synonym u8 = "8 word"
type_synonym u16 = "16 word"
type_synonym u32 = "32 word"
type_synonym u64 = "64 word"
type_synonym bytes = "u8 list"
type_synonym datetime = int
type_synonym instant = nat
type_synonym duration = nat
type_synonym ('k, 'v) hashmap = "('k \<times> 'v) list"

named_theorems hm \<open>hash map laws\<close>
named_theorems wf_intro \<open>well-formedness of the maps an operation returns\<close>

section \<open>Durations\<close>

abbreviation secs :: "nat \<Rightarrow> nat" where
  "secs n \<equiv> n * 1000000000"

abbreviation millis :: "nat \<Rightarrow> nat" where
  "millis n \<equiv> n * 1000000"

definition as_secs :: "duration \<Rightarrow> nat" where
  "as_secs d = d div 1000000000"

definition as_micros :: "duration \<Rightarrow> nat" where
  "as_micros d = d div 1000"

text \<open>\<open>DateTime::timestamp\<close>: whole seconds, rounded towards minus infinity.\<close>

definition timestamp :: "datetime \<Rightarrow> int" where
  "timestamp t = t div 1000000000"

lemma as_secs_secs [simp]: "as_secs (secs n) = n"
  by (simp add: as_secs_def)

lemma as_secs_mono: "a \<le> b \<Longrightarrow> as_secs a \<le> as_secs b"
  by (simp add: as_secs_def div_le_mono)

lemma timestamp_mono: "a \<le> b \<Longrightarrow> timestamp a \<le> timestamp b"
  by (simp add: timestamp_def zdiv_mono1)

section \<open>Checked and saturating word arithmetic\<close>

definition sat_add :: "'a::len word \<Rightarrow> 'a word \<Rightarrow> 'a word" where
  "sat_add a b = (if unat a + unat b < 2 ^ LENGTH('a) then a + b else - 1)"

definition sat_sub :: "'a::len word \<Rightarrow> 'a word \<Rightarrow> 'a word" where
  "sat_sub a b = (if b \<le> a then a - b else 0)"

definition checked_add :: "'a::len word \<Rightarrow> 'a word \<Rightarrow> 'a word option" where
  "checked_add a b = (if unat a + unat b < 2 ^ LENGTH('a) then Some (a + b) else None)"

lemma unat_sat_add: "unat (sat_add a (b::'a::len word)) = min (unat a + unat b) (2 ^ LENGTH('a) - 1)"
proof (cases "unat a + unat b < 2 ^ LENGTH('a)")
  case True
  then show ?thesis by (simp add: sat_add_def unat_word_ariths)
next
  case False
  moreover have "unat (- 1 :: 'a word) = 2 ^ LENGTH('a) - 1" by (simp add: unsigned_minus_1_eq_mask mask_eq_exp_minus_1)
  ultimately show ?thesis by (simp add: sat_add_def)
qed

lemma unat_sat_sub: "unat (sat_sub a (b::'a::len word)) = unat a - unat b"
  by (simp add: sat_sub_def unat_sub word_le_nat_alt)

lemma sat_add_Suc:
  assumes "c < (m :: 'a::len word)"
  shows "unat (sat_add c 1) = Suc (unat c)"
proof -
  have "unat c < unat m" using assms by (simp add: word_less_nat_alt)
  moreover have "unat m < 2 ^ LENGTH('a)" by simp
  ultimately have lt: "Suc (unat c) < 2 ^ LENGTH('a)" by linarith
  then have "unat (1 :: 'a word) = 1" by simp
  with lt show ?thesis by (simp add: unat_sat_add)
qed

lemma checked_add_Some:
  "checked_add a (b::'a::len word) = Some c \<longleftrightarrow> unat c = unat a + unat b"
proof
  assume "checked_add a b = Some c"
  then show "unat c = unat a + unat b"
    by (auto simp: checked_add_def unat_word_ariths split: if_splits)
next
  assume c: "unat c = unat a + unat b"
  then have lt: "unat a + unat b < 2 ^ LENGTH('a)" by (metis unsigned_less)
  then have "unat (a + b) = unat c" by (simp add: c unat_word_ariths)
  then have "a + b = c" by (simp add: word_unat_eq_iff)
  with lt show "checked_add a b = Some c" by (simp add: checked_add_def)
qed

lemma checked_add_None:
  "checked_add a (b::'a::len word) = None \<longleftrightarrow> 2 ^ LENGTH('a) \<le> unat a + unat b"
  by (auto simp: checked_add_def)

section \<open>Hash maps\<close>

abbreviation hget :: "('k, 'v) hashmap \<Rightarrow> 'k \<Rightarrow> 'v option" where
  "hget m k \<equiv> map_of m k"

abbreviation hput :: "'k \<Rightarrow> 'v \<Rightarrow> ('k, 'v) hashmap \<Rightarrow> ('k, 'v) hashmap" where
  "hput k v m \<equiv> AList.update k v m"

abbreviation hdel :: "'k \<Rightarrow> ('k, 'v) hashmap \<Rightarrow> ('k, 'v) hashmap" where
  "hdel k m \<equiv> AList.delete k m"

definition hwf :: "('k, 'v) hashmap \<Rightarrow> bool" where
  "hwf m \<longleftrightarrow> distinct (map fst m)"

text \<open>\<open>values_mut\<close>: apply a function to every value, in place.\<close>

definition hmap_values :: "('v \<Rightarrow> 'w) \<Rightarrow> ('k, 'v) hashmap \<Rightarrow> ('k, 'w) hashmap" where
  "hmap_values f m = map (\<lambda>(k, v). (k, f v)) m"

text \<open>\<open>iter().filter(..).collect()\<close>: the keys whose entry satisfies a predicate.\<close>

definition hkeys_where :: "('k \<Rightarrow> 'v \<Rightarrow> bool) \<Rightarrow> ('k, 'v) hashmap \<Rightarrow> 'k list" where
  "hkeys_where P m = map fst (filter (\<lambda>(k, v). P k v) m)"

declare update_conv' [simp, hm] delete_conv' [simp, hm]

lemma hget_hmap_values [simp, hm]: "hget (hmap_values f m) k = map_option f (hget m k)"
  by (induction m) (auto simp: hmap_values_def)

lemma hwf_Nil [simp, wf_intro]: "hwf []"
  by (simp add: hwf_def)

lemma hwf_hput [simp, wf_intro]: "hwf m \<Longrightarrow> hwf (hput k v m)"
  by (simp add: hwf_def distinct_update)

lemma hwf_hdel [simp, wf_intro]: "hwf m \<Longrightarrow> hwf (hdel k m)"
  by (simp add: hwf_def distinct_delete)

lemma map_fst_hmap_values [simp]: "map fst (hmap_values f m) = map fst m"
  by (induction m) (auto simp: hmap_values_def)

lemma hwf_hmap_values [simp, wf_intro]: "hwf (hmap_values f m) = hwf m"
  by (simp add: hwf_def)

lemma hget_iff_mem: "hwf m \<Longrightarrow> hget m k = Some v \<longleftrightarrow> (k, v) \<in> set m"
  by (auto simp: hwf_def dest: map_of_SomeD)

lemma set_hkeys_where:
  "hwf m \<Longrightarrow> k \<in> set (hkeys_where P m) \<longleftrightarrow> (\<exists>v. hget m k = Some v \<and> P k v)"
  by (force simp: hkeys_where_def hget_iff_mem)

lemma distinct_hkeys_where: "hwf m \<Longrightarrow> distinct (hkeys_where P m)"
  unfolding hwf_def hkeys_where_def by (rule distinct_map_filter)

text \<open>
  The interface of a hash map, as the components use it: lookup after insert and remove,
  and iteration that visits exactly the stored entries. What follows for code that removes a
  collected list of keys is proved once here.
\<close>

locale hash_map =
  fixes get :: "'m \<Rightarrow> 'k \<Rightarrow> 'v option"
    and put :: "'k \<Rightarrow> 'v \<Rightarrow> 'm \<Rightarrow> 'm"
    and del :: "'k \<Rightarrow> 'm \<Rightarrow> 'm"
    and iter :: "'m \<Rightarrow> ('k \<times> 'v) list"
    and wf :: "'m \<Rightarrow> bool"
  assumes get_put: "get (put k v m) k' = (if k' = k then Some v else get m k')"
    and get_del: "get (del k m) k' = (if k' = k then None else get m k')"
    and iter_get: "wf m \<Longrightarrow> (k, v) \<in> set (iter m) \<longleftrightarrow> get m k = Some v"
    and wf_put: "wf m \<Longrightarrow> wf (put k v m)"
    and wf_del: "wf m \<Longrightarrow> wf (del k m)"
begin

lemma get_del_list: "get (foldl (\<lambda>m k. del k m) m ks) k' = (if k' \<in> set ks then None else get m k')"
  by (induction ks arbitrary: m) (auto simp: get_del)

lemma wf_del_list: "wf m \<Longrightarrow> wf (foldl (\<lambda>m k. del k m) m ks)"
  by (induction ks arbitrary: m) (auto simp: wf_del)

lemma get_del_where:
  assumes "wf m" and "ks = map fst (filter (\<lambda>(k, v). P k v) (iter m))"
  shows "get (foldl (\<lambda>m k. del k m) m ks) k' =
    (case get m k' of None \<Rightarrow> None | Some v \<Rightarrow> if P k' v then None else Some v)"
proof -
  have "k' \<in> set ks \<longleftrightarrow> (\<exists>v. get m k' = Some v \<and> P k' v)"
    using assms by (force simp: iter_get)
  then show ?thesis by (auto simp: get_del_list split: option.splits)
qed

lemma put_del_cancel: "get (del k (put k v m)) = get (del k m)"
  by (rule ext) (simp add: get_put get_del)

end

interpretation hmap: hash_map hget hput hdel "\<lambda>m. m" hwf
  by unfold_locales (auto simp: hget_iff_mem)

definition hdel_all :: "'k list \<Rightarrow> ('k, 'v) hashmap \<Rightarrow> ('k, 'v) hashmap" where
  "hdel_all ks m = foldl (\<lambda>m k. hdel k m) m ks"

lemma hget_hdel_all [hm]: "hget (hdel_all ks m) k = (if k \<in> set ks then None else hget m k)"
  by (simp only: hdel_all_def hmap.get_del_list)

lemma hwf_hdel_all [wf_intro]: "hwf m \<Longrightarrow> hwf (hdel_all ks m)"
  by (simp only: hdel_all_def hmap.wf_del_list)

lemma hget_hdel_all_where:
  "hwf m \<Longrightarrow> hget (hdel_all (hkeys_where P m) m) k =
    (case hget m k of None \<Rightarrow> None | Some v \<Rightarrow> if P k v then None else Some v)"
  unfolding hdel_all_def by (rule hmap.get_del_where) (simp_all add: hkeys_where_def)

section \<open>Strings\<close>

text \<open>Decimal rendering of an unsigned integer (\<open>Display\<close> of the Rust integer types).\<close>

fun show_nat :: "nat \<Rightarrow> string" where
  "show_nat n = (if n < 10 then [char_of (48 + n)] else show_nat (n div 10) @ [char_of (48 + n mod 10)])"

declare show_nat.simps [simp del]

fun show_bool :: "bool \<Rightarrow> string" where
  "show_bool True = ''true''"
| "show_bool False = ''false''"

abbreviation show_word :: "'a::len word \<Rightarrow> string" where
  "show_word w \<equiv> show_nat (unat w)"

definition utf8_bytes :: "string \<Rightarrow> bytes" where
  "utf8_bytes s = map of_char s"

lemma unat_of_char: "unat (of_char c :: u8) = of_char c"
proof -
  have "(of_char c :: u8) = word_of_nat (of_char c)" by (metis of_nat_of_char)
  moreover have "(of_char c :: nat) < 2 ^ LENGTH(8)" by (rule less_le_trans [OF nat_of_char_less_256]) simp
  ultimately show ?thesis by (simp add: unsigned_of_nat take_bit_nat_eq_self)
qed

lemma of_char_word_inject: "(of_char c :: u8) = of_char d \<longleftrightarrow> c = d"
  using unat_of_char by (metis of_char_eq_iff)

lemma utf8_bytes_inject [simp]: "utf8_bytes s = utf8_bytes t \<longleftrightarrow> s = t"
  by (simp add: utf8_bytes_def inj_map_eq_map inj_def of_char_word_inject)

lemma length_utf8_bytes [simp]: "length (utf8_bytes s) = length s"
  by (simp add: utf8_bytes_def)

text \<open>
  \<open>str::trim\<close> strips Unicode \<open>White_Space\<close> at both ends. The list holds the UTF-8 encoding of
  every such code point; on valid UTF-8, stripping a matching byte prefix (suffix) is
  stripping that character.
\<close>

definition white_space_codes :: "nat list list" where
  "white_space_codes =
     [[9], [10], [11], [12], [13], [32], [0xC2, 0x85], [0xC2, 0xA0], [0xE1, 0x9A, 0x80]] @
     map (\<lambda>n. [0xE2, 0x80, n]) [0x80 ..< 0x8B] @
     [[0xE2, 0x80, 0xA8], [0xE2, 0x80, 0xA9], [0xE2, 0x80, 0xAF], [0xE2, 0x81, 0x9F],
      [0xE3, 0x80, 0x80]]"

definition white_space :: "string list" where
  "white_space = map (map char_of) white_space_codes"

definition starts_with :: "string \<Rightarrow> string \<Rightarrow> bool" where
  "starts_with s p \<longleftrightarrow> take (length p) s = p"

definition strip_prefix :: "string \<Rightarrow> string \<Rightarrow> string option" where
  "strip_prefix p s = (if starts_with s p then Some (drop (length p) s) else None)"

text \<open>\<open>str::to_ascii_lowercase\<close>.\<close>

definition ascii_lower :: "string \<Rightarrow> string" where
  "ascii_lower s = map (\<lambda>c. if 65 \<le> (of_char c :: nat) \<and> (of_char c :: nat) \<le> 90 then char_of ((of_char c :: nat) + 32) else c) s"

function strip_start :: "string list \<Rightarrow> string \<Rightarrow> string" where
  "strip_start ws s =
     (case find (\<lambda>w. w \<noteq> [] \<and> starts_with s w) ws of
        None \<Rightarrow> s | Some w \<Rightarrow> strip_start ws (drop (length w) s))"
  by pat_completeness auto
termination
  by (relation "measure (\<lambda>(ws, s). length s)")
     (auto simp: find_Some_iff starts_with_def intro!: diff_less)

declare strip_start.simps [simp del]

definition trim_start :: "string \<Rightarrow> string" where
  "trim_start s = strip_start white_space s"

definition trim :: "string \<Rightarrow> string" where
  "trim s = rev (strip_start (map rev white_space) (rev (trim_start s)))"

lemma strip_start_id: "find (\<lambda>w. w \<noteq> [] \<and> starts_with s w) ws = None \<Longrightarrow> strip_start ws s = s"
  by (simp add: strip_start.simps)

lemma length_strip_start: "length (strip_start ws s) \<le> length s"
proof (induction ws s rule: strip_start.induct)
  case (1 ws s)
  show ?case
  proof (cases "find (\<lambda>w. w \<noteq> [] \<and> starts_with s w) ws")
    case None
    then show ?thesis by (simp add: strip_start_id)
  next
    case (Some w)
    then have "strip_start ws s = strip_start ws (drop (length w) s)"
      by (simp add: strip_start.simps [of ws s])
    with "1.IH" [OF Some] show ?thesis by simp
  qed
qed

lemma strip_start_idem: "strip_start ws (strip_start ws s) = strip_start ws s"
proof (induction ws s rule: strip_start.induct)
  case (1 ws s)
  show ?case
  proof (cases "find (\<lambda>w. w \<noteq> [] \<and> starts_with s w) ws")
    case None
    then show ?thesis by (simp add: strip_start_id)
  next
    case (Some w)
    with "1.IH" [OF Some] show ?thesis by (simp add: strip_start.simps [of ws s])
  qed
qed

lemma length_trim: "length (trim s) \<le> length s"
proof -
  have "length (trim s) \<le> length (rev (trim_start s))"
    unfolding trim_def by (metis length_rev length_strip_start)
  then show ?thesis by (metis length_rev length_strip_start order_trans trim_start_def)
qed

text \<open>
  Trimming leaves a string alone when both its end bytes are visible ASCII characters; this
  is also how a closed \<open>trim\<close> is evaluated.
\<close>

definition visible :: "char \<Rightarrow> bool" where
  "visible c \<longleftrightarrow> 33 \<le> (of_char c :: nat) \<and> (of_char c :: nat) < 127"

lemma white_space_ends: "w \<in> set white_space \<Longrightarrow> w \<noteq> [] \<and> \<not> visible (hd w) \<and> \<not> visible (last w)"
  by (auto simp: white_space_def white_space_codes_def visible_def)

lemma starts_with_hd: "starts_with s w \<Longrightarrow> w \<noteq> [] \<Longrightarrow> s \<noteq> [] \<and> hd s = hd w"
  by (cases s; cases w) (auto simp: starts_with_def)

lemma char_of_space: "(CHR '' '' = char_of n) \<longleftrightarrow> n mod 256 = (32::nat)"
  by (auto simp: char_of_eq_iff [symmetric] eq_commute [of _ "char_of n"] char_of_eq_iff take_bit_eq_mod)

lemma white_space_blank: "w \<in> set white_space \<Longrightarrow> hd w = CHR '' '' \<Longrightarrow> w = [CHR '' '']"
  by (auto simp: white_space_def white_space_codes_def char_of_space eq_commute [of "char_of _"])

lemma blank_white_space: "[CHR '' ''] \<in> set white_space"
  by (simp add: white_space_def white_space_codes_def char_of_space)

lemma trim_start_visible:
  assumes "s = [] \<or> visible (hd s)"
  shows "trim_start s = s"
proof -
  have "find (\<lambda>w. w \<noteq> [] \<and> starts_with s w) white_space = None"
    using assms by (metis (no_types, lifting) find_None_iff starts_with_hd white_space_ends)
  then show ?thesis by (simp add: trim_start_def strip_start_id)
qed

lemma trim_visible:
  assumes "s = [] \<or> visible (hd s) \<and> visible (last s)"
  shows "trim s = s"
proof -
  have "find (\<lambda>w. w \<noteq> [] \<and> starts_with (rev s) w) (map rev white_space) = None"
  proof -
    have "\<not> starts_with (rev s) (rev w)" if "w \<in> set white_space" for w
    proof
      assume "starts_with (rev s) (rev w)"
      moreover from that have "rev w \<noteq> []" "\<not> visible (last w)" by (auto dest: white_space_ends)
      ultimately have "s \<noteq> []" "last s = last w" by (auto dest: starts_with_hd simp: hd_rev)
      with assms \<open>\<not> visible (last w)\<close> show False by auto
    qed
    then show ?thesis by (auto simp: find_None_iff)
  qed
  moreover have "trim_start s = s" using assms by (auto intro: trim_start_visible)
  ultimately show ?thesis by (simp add: trim_def strip_start_id)
qed

lemma trim_Nil [simp]: "trim [] = []"
  by (simp add: trim_visible)

end
