(* ===== verification/Protocol.thy ===== *)
theory Protocol
  imports RL_Prelude
begin

text \<open>
  The signaling vocabulary (\<open>packages/protocol/src/message.rs\<close>), the size limits on decoded
  messages (\<open>limits.rs\<close>, \<open>error.rs\<close>) and the encode/decode entry points (\<open>lib.rs\<close>).

  \<open>serde_json\<close> is third-party code. A \<open>serde_json::Value\<close> is the type variable \<open>'j\<close>, and the
  functions of \<open>serde_json\<close> the code calls are the fields of a record \<open>'j json_api\<close> that is an
  argument of the definitions using them; a \<open>serde_json::Error\<close> is its rendered text.
\<close>

section \<open>Messages\<close>

datatype role = Host | Viewer

datatype session_mode = Otp | Unattended | Password

datatype otp_prefilter_status = PrefilterNone | PrefilterOk | PrefilterSkipped

datatype reject_reason = Busy | Auth | Policy

record hello_auth =
  device_token :: string

record ice_candidate =
  candidate :: string
  sdp_mid :: "string option"
  sdp_m_line_index :: "u16 option"
  username_fragment :: "string option"

text \<open>The variants of \<open>SignalMessage\<close>, their fields in the source's order.\<close>

datatype 'j signal_message =
    Hello role u32 hello_auth
  | HelloOk string 'j
  | SessionIntent string u64 string session_mode 'j
  | SessionIncoming string u64 'j session_mode otp_prefilter_status
  | AuthChallenge string u64 'j
  | AuthResponse string u64 'j
  | SessionAccept string u64
  | SessionReject string u64 reject_reason
  | SessionOffer string u64 string string
  | SessionAnswer string u64 string
  | IceCandidate string u64 ice_candidate
  | MediaRestart string u64
  | Renegotiate string u64
  | SessionEnd string u64 string
  | Stats string u64 'j
  | Error string string

definition PROTOCOL_VERSION :: u32 where
  "PROTOCOL_VERSION = 1"

fun session_id_of :: "'j signal_message \<Rightarrow> string option" where
  "session_id_of (SessionIntent sid _ _ _ _) = Some sid"
| "session_id_of (SessionIncoming sid _ _ _ _) = Some sid"
| "session_id_of (AuthChallenge sid _ _) = Some sid"
| "session_id_of (AuthResponse sid _ _) = Some sid"
| "session_id_of (SessionAccept sid _) = Some sid"
| "session_id_of (SessionReject sid _ _) = Some sid"
| "session_id_of (SessionOffer sid _ _ _) = Some sid"
| "session_id_of (SessionAnswer sid _ _) = Some sid"
| "session_id_of (IceCandidate sid _ _) = Some sid"
| "session_id_of (MediaRestart sid _) = Some sid"
| "session_id_of (Renegotiate sid _) = Some sid"
| "session_id_of (SessionEnd sid _ _) = Some sid"
| "session_id_of (Stats sid _ _) = Some sid"
| "session_id_of (Hello _ _ _) = None"
| "session_id_of (HelloOk _ _) = None"
| "session_id_of (Error _ _) = None"

fun signal_seq_of :: "'j signal_message \<Rightarrow> u64 option" where
  "signal_seq_of (SessionIntent _ q _ _ _) = Some q"
| "signal_seq_of (SessionIncoming _ q _ _ _) = Some q"
| "signal_seq_of (AuthChallenge _ q _) = Some q"
| "signal_seq_of (AuthResponse _ q _) = Some q"
| "signal_seq_of (SessionAccept _ q) = Some q"
| "signal_seq_of (SessionReject _ q _) = Some q"
| "signal_seq_of (SessionOffer _ q _ _) = Some q"
| "signal_seq_of (SessionAnswer _ q _) = Some q"
| "signal_seq_of (IceCandidate _ q _) = Some q"
| "signal_seq_of (MediaRestart _ q) = Some q"
| "signal_seq_of (Renegotiate _ q) = Some q"
| "signal_seq_of (SessionEnd _ q _) = Some q"
| "signal_seq_of (Stats _ q _) = Some q"
| "signal_seq_of (Hello _ _ _) = None"
| "signal_seq_of (HelloOk _ _) = None"
| "signal_seq_of (Error _ _) = None"

text \<open>\<open>{:?}\<close> renderings used in error texts.\<close>

fun debug_session_mode :: "session_mode \<Rightarrow> string" where
  "debug_session_mode Otp = ''Otp''"
| "debug_session_mode Unattended = ''Unattended''"
| "debug_session_mode Password = ''Password''"

fun debug_role :: "role \<Rightarrow> string" where
  "debug_role Host = ''Host''"
| "debug_role Viewer = ''Viewer''"

fun debug_reject_reason :: "reject_reason \<Rightarrow> string" where
  "debug_reject_reason Busy = ''Busy''"
| "debug_reject_reason Auth = ''Auth''"
| "debug_reject_reason Policy = ''Policy''"

section \<open>Errors and limits\<close>

datatype protocol_error =
    Json string
  | PayloadTooLarge string nat nat

definition too_large :: "string \<Rightarrow> nat \<Rightarrow> nat \<Rightarrow> protocol_error" where
  "too_large field len lim = PayloadTooLarge field len lim"

fun show_protocol_error :: "protocol_error \<Rightarrow> string" where
  "show_protocol_error (Json e) = ''json error: '' @ e"
| "show_protocol_error (PayloadTooLarge field len lim) =
     ''payload too large: '' @ field @ '' is '' @ show_nat len @ '' bytes (max '' @ show_nat lim @ '')''"

definition MAX_SDP_BYTES :: nat where
  "MAX_SDP_BYTES = 64 * 1024"

definition MAX_ICE_CANDIDATE_BYTES :: nat where
  "MAX_ICE_CANDIDATE_BYTES = 4 * 1024"

definition MAX_FINGERPRINT_SIG_BYTES :: nat where
  "MAX_FINGERPRINT_SIG_BYTES = 8 * 1024"

definition MAX_OPAQUE_PAYLOAD_BYTES :: nat where
  "MAX_OPAQUE_PAYLOAD_BYTES = 16 * 1024"

lemmas limit_defs = MAX_SDP_BYTES_def MAX_ICE_CANDIDATE_BYTES_def MAX_FINGERPRINT_SIG_BYTES_def
  MAX_OPAQUE_PAYLOAD_BYTES_def

text \<open>
  The functions of \<open>serde_json\<close> the code calls: \<open>to_string\<close> on a value and on a message,
  \<open>from_str\<close> on a message, and building and reading the values the server makes itself. The last
  field is \<open>core::fmt\<close>'s \<open>Debug\<close> rendering of a \<open>str\<close>, whose Unicode tables are not modelled.
\<close>

record 'j json_api =
  value_to_string :: "'j \<Rightarrow> string + string"
  msg_to_string :: "'j signal_message \<Rightarrow> string + string"
  msg_from_str :: "string \<Rightarrow> string + 'j signal_message"
  json_null :: 'j
  json_bool :: "bool \<Rightarrow> 'j"
  json_int :: "int \<Rightarrow> 'j"
  json_str :: "string \<Rightarrow> 'j"
  json_object :: "(string \<times> 'j) list \<Rightarrow> 'j"
  json_array :: "'j list \<Rightarrow> 'j"
  json_get :: "'j \<Rightarrow> string \<Rightarrow> 'j option"
  json_as_str :: "'j \<Rightarrow> string option"
  debug_str :: "string \<Rightarrow> string"

text \<open>A concrete instance, for evaluating the definitions on examples: a value is its text.\<close>

definition text_json :: "string json_api" where
  "text_json = \<lparr>value_to_string = Inr, msg_to_string = (\<lambda>_. Inr ''{}''),
     msg_from_str = (\<lambda>s. if s = ''ping'' then Inr (Error ''ping'' s) else Inl ''expected value''),
     json_null = ''null'', json_bool = (\<lambda>b. if b then ''true'' else ''false''), json_int = (\<lambda>_. ''0''),
     json_str = (\<lambda>s. s), json_object = (\<lambda>_. ''{}''), json_array = (\<lambda>_. ''[]''), json_get = (\<lambda>_ _. None),
     json_as_str = Some, debug_str = (\<lambda>s. s)\<rparr>"

definition check_str :: "string \<Rightarrow> string \<Rightarrow> nat \<Rightarrow> protocol_error + unit" where
  "check_str field value lim =
     (if length value > lim then Inl (too_large field (length value) lim) else Inr ())"

definition check_json_value :: "'j json_api \<Rightarrow> string \<Rightarrow> 'j \<Rightarrow> protocol_error + unit" where
  "check_json_value J field value =
     (case value_to_string J value of
        Inl e \<Rightarrow> Inl (Json e)
      | Inr encoded \<Rightarrow> check_str field encoded MAX_OPAQUE_PAYLOAD_BYTES)"

fun validate_message_limits :: "'j json_api \<Rightarrow> 'j signal_message \<Rightarrow> protocol_error + unit" where
  "validate_message_limits J (SessionIntent _ _ _ _ prefilter) = check_json_value J ''prefilter'' prefilter"
| "validate_message_limits J (SessionIncoming _ _ viewer_info _ _) = check_json_value J ''viewer_info'' viewer_info"
| "validate_message_limits J (AuthChallenge _ _ payload) = check_json_value J ''payload'' payload"
| "validate_message_limits J (AuthResponse _ _ payload) = check_json_value J ''payload'' payload"
| "validate_message_limits J (Stats _ _ payload) = check_json_value J ''payload'' payload"
| "validate_message_limits J (SessionOffer _ _ sdp sig) =
     (case check_str ''sdp'' sdp MAX_SDP_BYTES of
        Inl e \<Rightarrow> Inl e
      | Inr _ \<Rightarrow> check_str ''fingerprint_sig'' sig MAX_FINGERPRINT_SIG_BYTES)"
| "validate_message_limits J (SessionAnswer _ _ sdp) = check_str ''sdp'' sdp MAX_SDP_BYTES"
| "validate_message_limits J (IceCandidate _ _ c) = check_str ''candidate'' (candidate c) MAX_ICE_CANDIDATE_BYTES"
| "validate_message_limits J (Hello _ _ _) = Inr ()"
| "validate_message_limits J (HelloOk _ _) = Inr ()"
| "validate_message_limits J (SessionAccept _ _) = Inr ()"
| "validate_message_limits J (SessionReject _ _ _) = Inr ()"
| "validate_message_limits J (MediaRestart _ _) = Inr ()"
| "validate_message_limits J (Renegotiate _ _) = Inr ()"
| "validate_message_limits J (SessionEnd _ _ _) = Inr ()"
| "validate_message_limits J (Error _ _) = Inr ()"

section \<open>Encode and decode\<close>

definition encode_message :: "'j json_api \<Rightarrow> 'j signal_message \<Rightarrow> protocol_error + string" where
  "encode_message J msg = (case msg_to_string J msg of Inl e \<Rightarrow> Inl (Json e) | Inr s \<Rightarrow> Inr s)"

definition decode_message :: "'j json_api \<Rightarrow> string \<Rightarrow> protocol_error + 'j signal_message" where
  "decode_message J s =
     (case msg_from_str J s of
        Inl e \<Rightarrow> Inl (Json e)
      | Inr msg \<Rightarrow>
          (case validate_message_limits J msg of Inl e \<Rightarrow> Inl e | Inr _ \<Rightarrow> Inr msg))"

section \<open>What the limits promise\<close>

text \<open>
  The contract of \<open>validate_message_limits\<close>, stated without its control flow: the bounded
  fields of a message with their bounds, and the opaque values it carries.
\<close>

fun bounded_fields :: "'j signal_message \<Rightarrow> (string \<times> nat) list" where
  "bounded_fields (SessionOffer _ _ sdp sig) = [(sdp, MAX_SDP_BYTES), (sig, MAX_FINGERPRINT_SIG_BYTES)]"
| "bounded_fields (SessionAnswer _ _ sdp) = [(sdp, MAX_SDP_BYTES)]"
| "bounded_fields (IceCandidate _ _ c) = [(candidate c, MAX_ICE_CANDIDATE_BYTES)]"
| "bounded_fields _ = []"

fun opaque_values :: "'j signal_message \<Rightarrow> 'j list" where
  "opaque_values (SessionIntent _ _ _ _ v) = [v]"
| "opaque_values (SessionIncoming _ _ v _ _) = [v]"
| "opaque_values (AuthChallenge _ _ v) = [v]"
| "opaque_values (AuthResponse _ _ v) = [v]"
| "opaque_values (Stats _ _ v) = [v]"
| "opaque_values _ = []"

definition within_limits :: "'j json_api \<Rightarrow> 'j signal_message \<Rightarrow> bool" where
  "within_limits J msg \<longleftrightarrow>
     list_all (\<lambda>(s, lim). length s \<le> lim) (bounded_fields msg) \<and>
     list_all (\<lambda>v. case value_to_string J v of Inl _ \<Rightarrow> False
       | Inr s \<Rightarrow> length s \<le> MAX_OPAQUE_PAYLOAD_BYTES) (opaque_values msg)"

lemma check_str_Inr [simp]: "check_str f s lim = Inr () \<longleftrightarrow> length s \<le> lim"
  by (simp add: check_str_def)

lemma check_json_value_Inr [simp]:
  "check_json_value J f v = Inr () \<longleftrightarrow>
     (case value_to_string J v of Inl _ \<Rightarrow> False | Inr s \<Rightarrow> length s \<le> MAX_OPAQUE_PAYLOAD_BYTES)"
  by (simp add: check_json_value_def split: sum.splits)

lemma validate_iff_within_limits: "validate_message_limits J msg = Inr () \<longleftrightarrow> within_limits J msg"
  by (cases msg) (auto simp: within_limits_def check_str_def check_json_value_def split: sum.splits if_splits)

lemma decode_message_Inr:
  "decode_message J s = Inr msg \<longleftrightarrow> msg_from_str J s = Inr msg \<and> within_limits J msg"
  by (auto simp: decode_message_def validate_iff_within_limits [symmetric] split: sum.splits)

text \<open>
  \<open>decode_message\<close> accepts exactly the texts that parse to a message all of whose bounded
  fields respect their documented limits: an SDP of at most 64 KiB, an ICE candidate of at most
  4 KiB, a fingerprint signature of at most 8 KiB, and opaque values whose serialization is at
  most 16 KiB. Every other text is an error, so no oversized field reaches a handler.
\<close>

theorem decode_message_bounds:
  "decode_message J s = Inr msg \<longleftrightarrow> msg_from_str J s = Inr msg \<and> within_limits J msg"
  by (rule decode_message_Inr)

end
