(* ===== verification/Session_Registry.thy ===== *)
theory Session_Registry
  imports Protocol
begin

text \<open>
  The in-memory session and presence registry of the signaling server
  (\<open>apps/server/src/session.rs\<close>): live connections, host presence, the single-session busy
  lock per host, strict signal sequence numbers, session time-outs and viewer tokens.

  Every operation of the code holds the registry's one mutex from its first access to its
  last, so each is one atomic step of the model: a function from the state (and the clock
  reading \<open>now\<close> it takes) to its result and the new state. A \<open>ConnTx\<close> is the number of an
  unbounded channel; \<open>chans\<close> holds, for each channel, whether its receiver is alive and every
  message sent so far. The process-wide \<open>NEXT\<close> counter of \<open>ConnId::new\<close> is \<open>next_conn\<close>.
\<close>

section \<open>State\<close>

datatype conn_id = ConnId u64

datatype session_state = Pending | Active | Closed

definition PENDING_SESSION_TTL :: int where
  "PENDING_SESSION_TTL = 2 * 60 * 1000000000"

definition ACTIVE_SESSION_TTL :: int where
  "ACTIVE_SESSION_TTL = 8 * 3600 * 1000000000"

definition VIEWER_TOKEN_TTL :: int where
  "VIEWER_TOKEN_TTL = 15 * 60 * 1000000000"

record session =
  s_session_id :: string
  s_host_public_id :: string
  s_host_device_id :: int
  s_host_conn :: conn_id
  s_viewer_conn :: conn_id
  s_mode :: session_mode
  s_state :: session_state
  s_next_signal_seq :: u64
  s_created_at :: datetime
  s_expires_at :: datetime

record peer_identity =
  p_role :: role
  p_device_public_id :: "string option"
  p_device_id :: "int option"
  p_anonymous :: bool

record 'j chan =
  rx_alive :: bool
  sent :: "'j signal_message list"

record 'j registry =
  conns :: "(conn_id, nat) hashmap"
  host_by_public_id :: "(string, conn_id) hashmap"
  peers :: "(conn_id, peer_identity) hashmap"
  sessions :: "(string, session) hashmap"
  host_busy :: "(string, string) hashmap"
  viewer_tokens :: "(string, datetime) hashmap"
  pending_ttl :: int
  active_ttl :: int
  next_conn :: u64
  chans :: "(nat, 'j chan) hashmap"

record 'j create_pending =
  cp_viewer_conn :: conn_id
  cp_session_id :: string
  cp_host_public_id :: string
  cp_host_device_id :: int
  cp_mode :: session_mode
  cp_signal_seq :: u64
  cp_viewer_info :: 'j

definition with_ttls :: "int \<Rightarrow> int \<Rightarrow> 'j registry" where
  "with_ttls pending active = \<lparr>conns = [], host_by_public_id = [], peers = [], sessions = [],
     host_busy = [], viewer_tokens = [], pending_ttl = pending, active_ttl = active,
     next_conn = 1, chans = []\<rparr>"

definition new_registry :: "'j registry" where
  "new_registry = with_ttls PENDING_SESSION_TTL ACTIVE_SESSION_TTL"

definition error_msg :: "string \<Rightarrow> string \<Rightarrow> 'j signal_message" where
  "error_msg code message = Error code message"

fun debug_session_state :: "session_state \<Rightarrow> string" where
  "debug_session_state Pending = ''Pending''"
| "debug_session_state Active = ''Active''"
| "debug_session_state Closed = ''Closed''"

section \<open>Channels\<close>

text \<open>
  \<open>UnboundedSender::send\<close> fails exactly when the receiver has been dropped; \<open>notify\<close> is the
  code's \<open>if let Some(tx) = g.conns.get(&c) { let _ = tx.send(msg); }\<close>.
\<close>

definition chan_send :: "nat \<Rightarrow> 'j signal_message \<Rightarrow> 'j registry \<Rightarrow> bool \<times> 'j registry" where
  "chan_send tx msg g =
     (case hget (chans g) tx of
        None \<Rightarrow> (False, g)
      | Some c \<Rightarrow>
          if rx_alive c then (True, g\<lparr>chans := hput tx (c\<lparr>sent := sent c @ [msg]\<rparr>) (chans g)\<rparr>)
          else (False, g))"

definition notify :: "conn_id \<Rightarrow> 'j signal_message \<Rightarrow> 'j registry \<Rightarrow> 'j registry" where
  "notify c msg g = (case hget (conns g) c of None \<Rightarrow> g | Some tx \<Rightarrow> snd (chan_send tx msg g))"

text \<open>The connection task ends and drops its receiver half.\<close>

definition drop_receiver :: "nat \<Rightarrow> 'j registry \<Rightarrow> 'j registry" where
  "drop_receiver tx g =
     (case hget (chans g) tx of None \<Rightarrow> g
      | Some c \<Rightarrow> g\<lparr>chans := hput tx (c\<lparr>rx_alive := False\<rparr>) (chans g)\<rparr>)"

section \<open>Operations\<close>

definition register_conn :: "'j registry \<Rightarrow> conn_id \<times> 'j registry" where
  "register_conn g =
     (let cid = ConnId (next_conn g); tx = length (chans g) in
      (cid, g\<lparr>next_conn := next_conn g + 1,
              conns := hput cid tx (conns g),
              chans := hput tx \<lparr>rx_alive = True, sent = []\<rparr> (chans g)\<rparr>))"

definition close_session_locked :: "string \<Rightarrow> 'j registry \<Rightarrow> string \<Rightarrow> 'j registry" where
  "close_session_locked reason g session_id =
     (case hget (sessions g) session_id of
        None \<Rightarrow> g
      | Some s \<Rightarrow>
          let g1 = g\<lparr>sessions := hdel session_id (sessions g),
                     host_busy := hdel (s_host_public_id s) (host_busy g)\<rparr> in
          if s_state s = Closed then g1
          else
            let msg = SessionEnd session_id (s_next_signal_seq s) reason in
            notify (s_viewer_conn s) msg (notify (s_host_conn s) msg g1))"

definition unregister_conn_locked :: "conn_id \<Rightarrow> string \<Rightarrow> 'j registry \<Rightarrow> 'j registry" where
  "unregister_conn_locked conn end_reason g =
     (let g1 = g\<lparr>conns := hdel conn (conns g), peers := hdel conn (peers g)\<rparr>;
          host_ids = hkeys_where (\<lambda>_ cid. cid = conn) (host_by_public_id g1);
          g2 = g1\<lparr>host_by_public_id := hdel_all host_ids (host_by_public_id g1)\<rparr>;
          affected = hkeys_where (\<lambda>_ s. s_host_conn s = conn \<or> s_viewer_conn s = conn) (sessions g2)
      in foldl (close_session_locked end_reason) g2 affected)"

definition unregister_conn :: "conn_id \<Rightarrow> 'j registry \<Rightarrow> 'j registry" where
  "unregister_conn conn g = unregister_conn_locked conn ''peer_disconnected'' g"

text \<open>The host branch of \<open>bind_peer\<close>: publish presence, replacing an older socket of the host.\<close>

definition publish_host :: "conn_id \<Rightarrow> string \<Rightarrow> 'j registry \<Rightarrow> 'j registry" where
  "publish_host conn public_id g =
     (let g1 = g\<lparr>host_by_public_id := hput public_id conn (host_by_public_id g)\<rparr> in
      case hget (host_by_public_id g) public_id of
        None \<Rightarrow> g1
      | Some old \<Rightarrow>
          if old = conn then g1
          else
            let g2 = g1\<lparr>sessions := hmap_values
                  (\<lambda>s. if s_host_conn s = old \<and> s_host_public_id s = public_id
                       then s\<lparr>s_host_conn := conn\<rparr> else s) (sessions g1)\<rparr>;
                g3 = g2\<lparr>conns := hdel old (conns g2)\<rparr>;
                g4 = (case hget (conns g2) old of
                        None \<Rightarrow> g3
                      | Some tx \<Rightarrow> snd (chan_send tx
                          (Error ''connection_replaced'' ''host reconnected on another socket'') g3))
            in g4\<lparr>peers := hdel old (peers g4)\<rparr>)"

definition bind_peer :: "conn_id \<Rightarrow> peer_identity \<Rightarrow> 'j registry \<Rightarrow> 'j registry" where
  "bind_peer conn identity g =
     (let g1 = (if p_role identity = Host
                then case p_device_public_id identity of
                       None \<Rightarrow> g | Some public_id \<Rightarrow> publish_host conn public_id g
                else g)
      in g1\<lparr>peers := hput conn identity (peers g1)\<rparr>)"

definition peer :: "conn_id \<Rightarrow> 'j registry \<Rightarrow> peer_identity option" where
  "peer conn g = hget (peers g) conn"

definition send_to :: "conn_id \<Rightarrow> 'j signal_message \<Rightarrow> 'j registry \<Rightarrow> bool \<times> 'j registry" where
  "send_to conn msg g =
     (case hget (conns g) conn of None \<Rightarrow> (False, g) | Some tx \<Rightarrow> chan_send tx msg g)"

text \<open>\<open>hash\<close> is \<open>credentials::hash_token\<close>, \<open>body\<close> the fresh random token body.\<close>

definition mint_viewer_token ::
  "(string \<Rightarrow> string) \<Rightarrow> string \<Rightarrow> datetime \<Rightarrow> 'j registry \<Rightarrow> string \<times> 'j registry" where
  "mint_viewer_token hash body now g =
     (let token = ''rl_vt_'' @ body in
      (token, g\<lparr>viewer_tokens := hput (hash token) (now + VIEWER_TOKEN_TTL) (viewer_tokens g)\<rparr>))"

definition validate_viewer_token :: "(string \<Rightarrow> string) \<Rightarrow> string \<Rightarrow> datetime \<Rightarrow> 'j registry \<Rightarrow> bool" where
  "validate_viewer_token hash token now g =
     (if token = [] then False
      else case hget (viewer_tokens g) (hash token) of None \<Rightarrow> False | Some r \<Rightarrow> r \<ge> now)"

definition reap_expired_locked :: "datetime \<Rightarrow> 'j registry \<Rightarrow> nat \<times> 'j registry" where
  "reap_expired_locked now g =
     (let expired = hkeys_where (\<lambda>_ s. s_state s \<noteq> Closed \<and> s_expires_at s \<le> now) (sessions g) in
      (length expired, foldl (close_session_locked ''session_ttl'') g expired))"

abbreviation reap :: "datetime \<Rightarrow> 'j registry \<Rightarrow> 'j registry" where
  "reap now g \<equiv> snd (reap_expired_locked now g)"

definition create_pending_session ::
  "'j create_pending \<Rightarrow> datetime \<Rightarrow> 'j registry \<Rightarrow> ('j signal_message + unit) \<times> 'j registry" where
  "create_pending_session req now g0 =
     (let g = reap now g0; sid = cp_session_id req; host = cp_host_public_id req in
      if hget (sessions g) sid \<noteq> None then
        (Inl (error_msg ''conflict'' (''session_id '' @ sid @ '' already exists'')), g)
      else if hget (host_busy g) host \<noteq> None then
        (Inl (SessionReject sid (sat_add (cp_signal_seq req) 1) Busy), g)
      else case hget (host_by_public_id g) host of
        None \<Rightarrow> (Inl (error_msg ''host_offline'' (''host '' @ host @ '' is not connected'')), g)
      | Some host_conn \<Rightarrow>
        (case checked_add (cp_signal_seq req) 1 of
           None \<Rightarrow> (Inl (error_msg ''bad_request'' ''signal_seq overflow; start a new session''), g)
         | Some incoming_seq \<Rightarrow>
           (case checked_add incoming_seq 1 of
              None \<Rightarrow> (Inl (error_msg ''bad_request'' ''signal_seq overflow; start a new session''), g)
            | Some next_seq \<Rightarrow>
              let s = \<lparr>s_session_id = sid, s_host_public_id = host,
                       s_host_device_id = cp_host_device_id req, s_host_conn = host_conn,
                       s_viewer_conn = cp_viewer_conn req, s_mode = cp_mode req,
                       s_state = Pending, s_next_signal_seq = next_seq,
                       s_created_at = now, s_expires_at = now + pending_ttl g\<rparr>;
                  g1 = g\<lparr>host_busy := hput host sid (host_busy g),
                         sessions := hput sid s (sessions g)\<rparr>;
                  incoming = SessionIncoming sid incoming_seq (cp_viewer_info req) (cp_mode req)
                    PrefilterSkipped;
                  (delivered, g2) = send_to host_conn incoming g1
              in if delivered then (Inr (), g2)
                 else
                   let g3 = (case hget (sessions g2) sid of None \<Rightarrow> g2
                             | Some s' \<Rightarrow> g2\<lparr>sessions := hdel sid (sessions g2),
                                 host_busy := hdel (s_host_public_id s') (host_busy g2)\<rparr>)
                   in (Inl (error_msg ''host_offline'' ''host disconnected before session_incoming''), g3))))"

definition stale_error :: "u64 \<Rightarrow> u64 \<Rightarrow> 'j signal_message" where
  "stale_error signal_seq next_seq = error_msg ''stale_signal_seq''
     (''signal_seq '' @ show_word signal_seq @ '' < next '' @ show_word next_seq)"

definition accept_session ::
  "conn_id \<Rightarrow> string \<Rightarrow> u64 \<Rightarrow> datetime \<Rightarrow> 'j registry \<Rightarrow> ('j signal_message + unit) \<times> 'j registry" where
  "accept_session host_conn session_id signal_seq now g0 =
     (let g = reap now g0 in
      case hget (sessions g) session_id of
        None \<Rightarrow> (Inl (error_msg ''not_found'' ''unknown session_id''), g)
      | Some s \<Rightarrow>
        if s_host_conn s \<noteq> host_conn then
          (Inl (error_msg ''unauthorized'' ''not the host for this session''), g)
        else if s_state s \<noteq> Pending then
          (Inl (error_msg ''invalid_state''
             (''session is '' @ debug_session_state (s_state s) @ '', expected pending'')), g)
        else if signal_seq < s_next_signal_seq s then
          (Inl (stale_error signal_seq (s_next_signal_seq s)), g)
        else
          let s' = s\<lparr>s_state := Active, s_expires_at := now + active_ttl g,
                     s_next_signal_seq := sat_add signal_seq 1\<rparr>;
              g1 = g\<lparr>sessions := hput session_id s' (sessions g)\<rparr>
          in (Inr (), notify (s_viewer_conn s) (SessionAccept session_id signal_seq) g1))"

definition reject_session ::
  "conn_id \<Rightarrow> string \<Rightarrow> u64 \<Rightarrow> reject_reason \<Rightarrow> datetime \<Rightarrow> 'j registry
     \<Rightarrow> ('j signal_message + unit) \<times> 'j registry" where
  "reject_session host_conn session_id signal_seq reason now g0 =
     (let g = reap now g0 in
      case hget (sessions g) session_id of
        None \<Rightarrow> (Inl (error_msg ''not_found'' ''unknown session_id''), g)
      | Some s \<Rightarrow>
        if s_host_conn s \<noteq> host_conn then
          (Inl (error_msg ''unauthorized'' ''not the host for this session''), g)
        else if s_state s \<noteq> Pending then
          (Inl (error_msg ''invalid_state''
             (''session is '' @ debug_session_state (s_state s) @ '', expected pending'')), g)
        else if signal_seq < s_next_signal_seq s then
          (Inl (stale_error signal_seq (s_next_signal_seq s)), g)
        else
          let g1 = g\<lparr>host_busy := hdel (s_host_public_id s) (host_busy g),
                     sessions := hdel session_id (sessions g)\<rparr>
          in (Inr (), notify (s_viewer_conn s) (SessionReject session_id signal_seq reason) g1))"

definition end_session ::
  "conn_id \<Rightarrow> string \<Rightarrow> u64 \<Rightarrow> string \<Rightarrow> datetime \<Rightarrow> 'j registry
     \<Rightarrow> ('j signal_message + unit) \<times> 'j registry" where
  "end_session conn session_id signal_seq reason now g0 =
     (let g = reap now g0 in
      case hget (sessions g) session_id of
        None \<Rightarrow> (Inl (error_msg ''not_found'' ''unknown session_id''), g)
      | Some s \<Rightarrow>
        if s_host_conn s \<noteq> conn \<and> s_viewer_conn s \<noteq> conn then
          (Inl (error_msg ''unauthorized'' ''not a party to this session''), g)
        else if s_state s = Closed then (Inr (), g)
        else if signal_seq < s_next_signal_seq s then
          (Inl (stale_error signal_seq (s_next_signal_seq s)), g)
        else
          let g1 = g\<lparr>host_busy := hdel (s_host_public_id s) (host_busy g),
                     sessions := hdel session_id (sessions g)\<rparr>;
              other = (if s_host_conn s = conn then s_viewer_conn s else s_host_conn s)
          in (Inr (), notify other (SessionEnd session_id signal_seq reason) g1))"

definition force_disconnect :: "string \<Rightarrow> string \<Rightarrow> datetime \<Rightarrow> 'j registry \<Rightarrow> bool \<times> 'j registry" where
  "force_disconnect session_id reason now g0 =
     (let g = reap now g0 in
      case hget (sessions g) session_id of
        None \<Rightarrow> (False, g)
      | Some s \<Rightarrow>
        if s_state s = Closed then (False, g\<lparr>sessions := hdel session_id (sessions g)\<rparr>)
        else (True, close_session_locked reason g session_id))"

definition busy_session_for_host :: "string \<Rightarrow> datetime \<Rightarrow> 'j registry \<Rightarrow> string option \<times> 'j registry" where
  "busy_session_for_host host now g0 = (let g = reap now g0 in (hget (host_busy g) host, g))"

definition session_state_of :: "string \<Rightarrow> datetime \<Rightarrow> 'j registry \<Rightarrow> session_state option \<times> 'j registry" where
  "session_state_of session_id now g0 =
     (let g = reap now g0 in (map_option s_state (hget (sessions g) session_id), g))"

definition next_signal_seq_of :: "string \<Rightarrow> 'j registry \<Rightarrow> u64 option" where
  "next_signal_seq_of session_id g = map_option s_next_signal_seq (hget (sessions g) session_id)"

text \<open>The two clock readings of \<open>force_expire_session\<close> are \<open>now1\<close> and \<open>now2\<close>.\<close>

definition force_expire_session :: "string \<Rightarrow> datetime \<Rightarrow> datetime \<Rightarrow> 'j registry \<Rightarrow> bool \<times> 'j registry" where
  "force_expire_session session_id now1 now2 g =
     (case hget (sessions g) session_id of
        None \<Rightarrow> (False, g)
      | Some s \<Rightarrow>
          (True, reap now2 (g\<lparr>sessions :=
             hput session_id (s\<lparr>s_expires_at := now1 - 1000000000\<rparr>) (sessions g)\<rparr>)))"

fun relay_fields :: "'j signal_message \<Rightarrow> (string \<times> u64) option" where
  "relay_fields (SessionOffer sid q _ _) = Some (sid, q)"
| "relay_fields (SessionAnswer sid q _) = Some (sid, q)"
| "relay_fields (IceCandidate sid q _) = Some (sid, q)"
| "relay_fields (MediaRestart sid q) = Some (sid, q)"
| "relay_fields (Renegotiate sid q) = Some (sid, q)"
| "relay_fields (AuthChallenge sid q _) = Some (sid, q)"
| "relay_fields (AuthResponse sid q _) = Some (sid, q)"
| "relay_fields (Stats sid q _) = Some (sid, q)"
| "relay_fields _ = None"

fun is_offer :: "'j signal_message \<Rightarrow> bool" where
  "is_offer (SessionOffer _ _ _ _) = True" | "is_offer _ = False"

fun is_answer :: "'j signal_message \<Rightarrow> bool" where
  "is_answer (SessionAnswer _ _ _) = True" | "is_answer _ = False"

fun is_ice :: "'j signal_message \<Rightarrow> bool" where
  "is_ice (IceCandidate _ _ _) = True" | "is_ice _ = False"

definition debug_opt_str :: "'j json_api \<Rightarrow> string option \<Rightarrow> string" where
  "debug_opt_str J s = (case s of None \<Rightarrow> ''None'' | Some t \<Rightarrow> ''Some('' @ debug_str J t @ '')'')"

definition relay_media_signal ::
  "'j json_api \<Rightarrow> conn_id \<Rightarrow> 'j signal_message \<Rightarrow> datetime \<Rightarrow> 'j registry
     \<Rightarrow> ('j signal_message + unit) \<times> 'j registry" where
  "relay_media_signal J from_conn msg now g0 =
     (case relay_fields msg of
        None \<Rightarrow> (Inl (error_msg ''protocol_error''
          (''relay_media_signal: unsupported type (session_id='' @
             debug_opt_str J (session_id_of msg) @ '')'')), g0)
      | Some (session_id, signal_seq) \<Rightarrow>
        let g = reap now g0 in
        case hget (sessions g) session_id of
          None \<Rightarrow> (Inl (error_msg ''not_found'' ''unknown session_id''), g)
        | Some s \<Rightarrow>
          if s_host_conn s \<noteq> from_conn \<and> s_viewer_conn s \<noteq> from_conn then
            (Inl (error_msg ''unauthorized'' ''not a party to this session''), g)
          else if s_state s \<noteq> Active then
            (Inl (error_msg ''invalid_state''
               (''session is '' @ debug_session_state (s_state s) @ '', expected active for media relay'')), g)
          else if signal_seq < s_next_signal_seq s then
            (if is_ice msg then (Inr (), g)
             else (Inl (stale_error signal_seq (s_next_signal_seq s)), g))
          else
            let is_host = (s_host_conn s = from_conn) in
            if is_offer msg \<and> \<not> is_host then
              (Inl (error_msg ''unauthorized'' ''only the host may send session_offer''), g)
            else if is_answer msg \<and> is_host then
              (Inl (error_msg ''unauthorized'' ''only the viewer may send session_answer''), g)
            else
              let other = (if is_host then s_viewer_conn s else s_host_conn s);
                  g1 = g\<lparr>sessions := hput session_id
                           (s\<lparr>s_next_signal_seq := sat_add signal_seq 1\<rparr>) (sessions g)\<rparr>
              in case hget (conns g1) other of
                   None \<Rightarrow> (Inl (error_msg ''peer_offline''
                     ''peer not connected; could not relay media signal''), g1)
                 | Some tx \<Rightarrow>
                     let (ok, g2) = chan_send tx msg g1 in
                     if ok then (Inr (), g2)
                     else (Inl (error_msg ''peer_offline''
                       ''peer disconnected; could not relay media signal''), g2))"

definition default_viewer_info :: "'j json_api \<Rightarrow> peer_identity \<Rightarrow> 'j" where
  "default_viewer_info J p = json_object J
     [(''anonymous'', json_bool J (p_anonymous p)),
      (''device_public_id'',
         case p_device_public_id p of None \<Rightarrow> json_null J | Some i \<Rightarrow> json_str J i)]"

end
