(* ===== verification/Session_Lock.thy ===== *)
theory Session_Lock
  imports Session_Registry
begin

text \<open>
  The busy lock of the session registry: the invariant that ties the \<open>sessions\<close> map to the
  \<open>host_busy\<close> map, its preservation by every operation, the reachable states, the abstract
  lock the registry implements, and what closing, reaping, unregistering and reconnecting do.
\<close>

section \<open>What an operation leaves alone\<close>

lemma chan_send_frame [simp]:
  "conns (snd (chan_send tx msg g)) = conns g"
  "host_by_public_id (snd (chan_send tx msg g)) = host_by_public_id g"
  "peers (snd (chan_send tx msg g)) = peers g"
  "sessions (snd (chan_send tx msg g)) = sessions g"
  "host_busy (snd (chan_send tx msg g)) = host_busy g"
  "viewer_tokens (snd (chan_send tx msg g)) = viewer_tokens g"
  "pending_ttl (snd (chan_send tx msg g)) = pending_ttl g"
  "active_ttl (snd (chan_send tx msg g)) = active_ttl g"
  "next_conn (snd (chan_send tx msg g)) = next_conn g"
  by (auto simp: chan_send_def split: option.splits)

lemma notify_frame [simp]:
  "conns (notify c msg g) = conns g"
  "host_by_public_id (notify c msg g) = host_by_public_id g"
  "peers (notify c msg g) = peers g"
  "sessions (notify c msg g) = sessions g"
  "host_busy (notify c msg g) = host_busy g"
  "viewer_tokens (notify c msg g) = viewer_tokens g"
  "pending_ttl (notify c msg g) = pending_ttl g"
  "active_ttl (notify c msg g) = active_ttl g"
  "next_conn (notify c msg g) = next_conn g"
  by (auto simp: notify_def split: option.splits)

lemma send_to_frame [simp]:
  "conns (snd (send_to c msg g)) = conns g"
  "host_by_public_id (snd (send_to c msg g)) = host_by_public_id g"
  "peers (snd (send_to c msg g)) = peers g"
  "sessions (snd (send_to c msg g)) = sessions g"
  "host_busy (snd (send_to c msg g)) = host_busy g"
  "pending_ttl (snd (send_to c msg g)) = pending_ttl g"
  "active_ttl (snd (send_to c msg g)) = active_ttl g"
  by (auto simp: send_to_def split: option.splits)

lemma close_session_frame [simp]:
  "conns (close_session_locked r g sid) = conns g"
  "host_by_public_id (close_session_locked r g sid) = host_by_public_id g"
  "peers (close_session_locked r g sid) = peers g"
  "viewer_tokens (close_session_locked r g sid) = viewer_tokens g"
  "pending_ttl (close_session_locked r g sid) = pending_ttl g"
  "active_ttl (close_session_locked r g sid) = active_ttl g"
  by (auto simp: close_session_locked_def Let_def split: option.splits)

text \<open>Closing a list of sessions, as the reaper and \<open>unregister_conn\<close> do.\<close>

definition close_all :: "string \<Rightarrow> string list \<Rightarrow> 'j registry \<Rightarrow> 'j registry" where
  "close_all r sids g = foldl (close_session_locked r) g sids"

lemma close_all_frame [simp]:
  "conns (close_all r sids g) = conns g"
  "host_by_public_id (close_all r sids g) = host_by_public_id g"
  "peers (close_all r sids g) = peers g"
  "pending_ttl (close_all r sids g) = pending_ttl g"
  "active_ttl (close_all r sids g) = active_ttl g"
  by (induction sids arbitrary: g) (auto simp: close_all_def)

lemma sessions_close [simp]:
  "sessions (close_session_locked r g sid) = hdel sid (sessions g)"
proof (cases "hget (sessions g) sid")
  case None
  then have "sid \<notin> fst ` set (sessions g)" by (simp add: map_of_eq_None_iff)
  then show ?thesis by (simp add: close_session_locked_def None)
next
  case (Some s)
  then show ?thesis by (simp add: close_session_locked_def Let_def)
qed

lemma busy_close:
  "host_busy (close_session_locked r g sid) =
     (case hget (sessions g) sid of None \<Rightarrow> host_busy g
      | Some s \<Rightarrow> hdel (s_host_public_id s) (host_busy g))"
  by (auto simp: close_session_locked_def Let_def split: option.splits)

lemma sessions_close_all [simp]: "sessions (close_all r sids g) = hdel_all sids (sessions g)"
  by (induction sids arbitrary: g) (auto simp: close_all_def hdel_all_def)

section \<open>The invariant\<close>

text \<open>
  The maps agree: a stored session is not \<open>Closed\<close>, is stored under its own id, and holds its
  host's lock; a lock names a stored session of that host.
\<close>

definition lock_ok :: "(string \<rightharpoonup> session) \<Rightarrow> (string \<rightharpoonup> string) \<Rightarrow> bool" where
  "lock_ok S B \<longleftrightarrow>
     (\<forall>sid s. S sid = Some s \<longrightarrow>
        s_session_id s = sid \<and> s_state s \<noteq> Closed \<and> B (s_host_public_id s) = Some sid) \<and>
     (\<forall>h sid. B h = Some sid \<longrightarrow> (\<exists>s. S sid = Some s \<and> s_host_public_id s = h))"

definition reg_inv :: "'j registry \<Rightarrow> bool" where
  "reg_inv g \<longleftrightarrow> hwf (conns g) \<and> hwf (host_by_public_id g) \<and> hwf (peers g) \<and> hwf (sessions g) \<and>
     hwf (host_busy g) \<and> lock_ok (hget (sessions g)) (hget (host_busy g))"

lemma lock_okD:
  assumes "lock_ok S B"
  shows "S sid = Some s \<Longrightarrow> s_session_id s = sid"
    and "S sid = Some s \<Longrightarrow> s_state s \<noteq> Closed"
    and "S sid = Some s \<Longrightarrow> B (s_host_public_id s) = Some sid"
    and "B h = Some sid \<Longrightarrow> \<exists>s. S sid = Some s \<and> s_host_public_id s = h"
  using assms by (auto simp: lock_ok_def)

lemma lock_ok_empty [simp]: "lock_ok (\<lambda>_. None) (\<lambda>_. None)"
  by (simp add: lock_ok_def)

lemma lock_ok_remove:
  assumes ok: "lock_ok S B" and s: "S sid = Some s"
  shows "lock_ok (S(sid := None)) (B(s_host_public_id s := None))"
  unfolding lock_ok_def
proof (intro conjI allI impI)
  fix k t assume "(S(sid := None)) k = Some t"
  then have k: "k \<noteq> sid" "S k = Some t" by (auto split: if_splits)
  then show "s_session_id t = k" "s_state t \<noteq> Closed" using lock_okD [OF ok] by auto
  have "s_host_public_id t \<noteq> s_host_public_id s"
    using k s lock_okD(3) [OF ok] by (metis option.inject)
  then show "(B(s_host_public_id s := None)) (s_host_public_id t) = Some k"
    using k lock_okD(3) [OF ok] by auto
next
  fix h k assume "(B(s_host_public_id s := None)) h = Some k"
  then have h: "h \<noteq> s_host_public_id s" "B h = Some k" by (auto split: if_splits)
  with lock_okD(4) [OF ok] obtain t where t: "S k = Some t" "s_host_public_id t = h" by blast
  with h s have "k \<noteq> sid" by auto
  with t show "\<exists>t. (S(sid := None)) k = Some t \<and> s_host_public_id t = h" by auto
qed

lemma lock_okI:
  assumes "\<And>sid s. S sid = Some s \<Longrightarrow> s_session_id s = sid"
    and "\<And>sid s. S sid = Some s \<Longrightarrow> s_state s \<noteq> Closed"
    and "\<And>sid s. S sid = Some s \<Longrightarrow> B (s_host_public_id s) = Some sid"
    and "\<And>h sid. B h = Some sid \<Longrightarrow> \<exists>s. S sid = Some s \<and> s_host_public_id s = h"
  shows "lock_ok S B"
  using assms unfolding lock_ok_def by blast

lemma lock_ok_add:
  assumes ok: "lock_ok S B" and new: "S sid = None" and free: "B h = None"
    and s: "s_session_id s = sid" "s_host_public_id s = h" "s_state s \<noteq> Closed"
  shows "lock_ok (S(sid \<mapsto> s)) (B(h \<mapsto> sid))"
proof (rule lock_okI)
  fix k t assume k: "(S(sid \<mapsto> s)) k = Some t"
  then have "k = sid \<and> t = s \<or> k \<noteq> sid \<and> S k = Some t" by (auto split: if_splits)
  moreover have "s_host_public_id t \<noteq> h" if "S k = Some t"
    using lock_okD(3) [OF ok that] free by auto
  ultimately show "s_session_id t = k" "s_state t \<noteq> Closed" "(B(h \<mapsto> sid)) (s_host_public_id t) = Some k"
    using s lock_okD [OF ok] by auto
next
  fix h' k assume "(B(h \<mapsto> sid)) h' = Some k"
  then show "\<exists>t. (S(sid \<mapsto> s)) k = Some t \<and> s_host_public_id t = h'"
    using s new lock_okD(4) [OF ok] by (cases "h' = h") fastforce+
qed

lemma lock_ok_update:
  assumes ok: "lock_ok S B" and s: "S sid = Some s" and t: "s_state t \<noteq> Closed"
    "s_session_id t = s_session_id s" "s_host_public_id t = s_host_public_id s"
  shows "lock_ok (S(sid \<mapsto> t)) B"
proof (rule lock_okI)
  fix k u assume "(S(sid \<mapsto> t)) k = Some u"
  then show "s_session_id u = k" "s_state u \<noteq> Closed" "B (s_host_public_id u) = Some k"
    using s t lock_okD [OF ok] by (auto split: if_splits)
next
  fix h k assume "B h = Some k"
  then show "\<exists>u. (S(sid \<mapsto> t)) k = Some u \<and> s_host_public_id u = h"
    using s t lock_okD(4) [OF ok] by (cases "k = sid") force+
qed

lemma lock_ok_map:
  assumes ok: "lock_ok S B"
    and f: "\<And>s. s_session_id (f s) = s_session_id s" "\<And>s. s_host_public_id (f s) = s_host_public_id s"
      "\<And>s. s_state (f s) = s_state s"
  shows "lock_ok (\<lambda>k. map_option f (S k)) B"
proof (rule lock_okI)
  fix k u assume "map_option f (S k) = Some u"
  then show "s_session_id u = k" "s_state u \<noteq> Closed" "B (s_host_public_id u) = Some k"
    using f lock_okD [OF ok] by auto
next
  fix h k assume "B h = Some k"
  then show "\<exists>u. map_option f (S k) = Some u \<and> s_host_public_id u = h"
    using f lock_okD(4) [OF ok] by force
qed

lemma lock_ok_hmap:
  assumes "lock_ok (hget m) B"
    and "\<And>s. s_session_id (f s) = s_session_id s" "\<And>s. s_host_public_id (f s) = s_host_public_id s"
      "\<And>s. s_state (f s) = s_state s"
  shows "lock_ok (hget (hmap_values f m)) B"
proof -
  have "hget (hmap_values f m) = (\<lambda>k. map_option f (hget m k))" by (rule ext) simp
  with lock_ok_map [of "hget m" B f] assms show ?thesis by simp
qed

lemma reg_invD:
  assumes "reg_inv g"
  shows "hwf (sessions g)" and "hwf (host_busy g)" and "lock_ok (hget (sessions g)) (hget (host_busy g))"
  using assms by (auto simp: reg_inv_def)

lemma reg_inv_cong:
  assumes "reg_inv g" and "conns g' = conns g" and "host_by_public_id g' = host_by_public_id g"
    and "peers g' = peers g" and "sessions g' = sessions g" and "host_busy g' = host_busy g"
  shows "reg_inv g'"
  using assms by (simp add: reg_inv_def)

section \<open>Every operation keeps the invariant\<close>

lemma reg_inv_new [simp]: "reg_inv (with_ttls p a)"
  by (simp add: reg_inv_def with_ttls_def)

lemma reg_inv_notify [simp]: "reg_inv (notify c msg g) = reg_inv g"
  by (simp add: reg_inv_def)

lemma reg_inv_chan_send [simp]: "reg_inv (snd (chan_send tx msg g)) = reg_inv g"
  by (simp add: reg_inv_def)

lemma reg_inv_send_to [simp]: "reg_inv (snd (send_to c msg g)) = reg_inv g"
  by (simp add: reg_inv_def)

lemma reg_inv_drop_receiver [simp]: "reg_inv (drop_receiver tx g) = reg_inv g"
  by (simp add: reg_inv_def drop_receiver_def split: option.splits)

lemma reg_inv_drop_session:
  assumes "reg_inv g" and "hget (sessions g) sid = Some s"
  shows "reg_inv (g\<lparr>sessions := hdel sid (sessions g), host_busy := hdel (s_host_public_id s) (host_busy g)\<rparr>)"
  using assms lock_ok_remove [OF reg_invD(3) [OF assms(1)] assms(2)]
  by (simp add: reg_inv_def fun_upd_def)

lemma reg_inv_close:
  assumes "reg_inv g"
  shows "reg_inv (close_session_locked r g sid)"
proof (cases "hget (sessions g) sid")
  case None
  with assms show ?thesis by (simp add: close_session_locked_def)
next
  case (Some s)
  with reg_inv_drop_session [OF assms Some] show ?thesis
    by (simp add: close_session_locked_def Let_def)
qed

lemma reg_inv_close_all: "reg_inv g \<Longrightarrow> reg_inv (close_all r sids g)"
  by (induction sids arbitrary: g) (auto simp: close_all_def reg_inv_close)

lemma reap_close_all:
  "reap now g = close_all ''session_ttl''
     (hkeys_where (\<lambda>_ s. s_state s \<noteq> Closed \<and> s_expires_at s \<le> now) (sessions g)) g"
  by (simp add: reap_expired_locked_def close_all_def Let_def)

lemma reg_inv_reap: "reg_inv g \<Longrightarrow> reg_inv (reap now g)"
  by (simp only: reap_close_all reg_inv_close_all)

lemma reap_frame [simp]:
  "conns (reap now g) = conns g" "host_by_public_id (reap now g) = host_by_public_id g"
  "peers (reap now g) = peers g" "pending_ttl (reap now g) = pending_ttl g"
  "active_ttl (reap now g) = active_ttl g"
  by (simp_all add: reap_close_all)

lemma reg_inv_register: "reg_inv g \<Longrightarrow> reg_inv (snd (register_conn g))"
  by (auto simp: reg_inv_def register_conn_def Let_def intro: wf_intro)

lemma unregister_close_all:
  "unregister_conn_locked conn r g =
     close_all r (hkeys_where (\<lambda>_ s. s_host_conn s = conn \<or> s_viewer_conn s = conn) (sessions g))
       (g\<lparr>conns := hdel conn (conns g), peers := hdel conn (peers g),
          host_by_public_id := hdel_all (hkeys_where (\<lambda>_ cid. cid = conn) (host_by_public_id g))
            (host_by_public_id g)\<rparr>)"
  by (simp add: unregister_conn_locked_def close_all_def Let_def)

lemma reg_inv_unregister: "reg_inv g \<Longrightarrow> reg_inv (unregister_conn_locked conn r g)"
  unfolding unregister_close_all
  by (rule reg_inv_close_all) (auto simp: reg_inv_def intro: wf_intro)

lemma reg_inv_publish: "reg_inv g \<Longrightarrow> reg_inv (publish_host conn pid g)"
  by (auto simp: publish_host_def Let_def reg_inv_def intro!: lock_ok_hmap split: option.splits)

lemma reg_inv_bind:
  assumes "reg_inv g"
  shows "reg_inv (bind_peer conn idn g)"
proof -
  have "reg_inv (g'\<lparr>peers := hput conn idn (peers g')\<rparr>)" if "reg_inv g'" for g' :: "'a registry"
    using that by (auto simp: reg_inv_def intro: wf_intro)
  with assms reg_inv_publish show ?thesis
    by (auto simp: bind_peer_def Let_def split: option.splits)
qed

section \<open>The abstract lock\<close>

text \<open>
  What the registry promises about a host: at most one session holds it, a session is taken
  free, activated once while pending, and released; nothing else happens.
\<close>

type_synonym lock_state = "string \<rightharpoonup> string \<times> session_state"

inductive lock_step :: "lock_state \<Rightarrow> lock_state \<Rightarrow> bool" where
  acquire: "L h = None \<Longrightarrow> (\<And>h' st. L h' \<noteq> Some (sid, st)) \<Longrightarrow> lock_step L (L(h \<mapsto> (sid, Pending)))"
| activate: "L h = Some (sid, Pending) \<Longrightarrow> lock_step L (L(h \<mapsto> (sid, Active)))"
| release: "L h = Some x \<Longrightarrow> lock_step L (L(h := None))"

definition lock_view :: "'j registry \<Rightarrow> lock_state" where
  "lock_view g h = (case hget (host_busy g) h of None \<Rightarrow> None
     | Some sid \<Rightarrow> map_option (\<lambda>s. (sid, s_state s)) (hget (sessions g) sid))"

text \<open>An operation that keeps the invariant and is, seen from outside, steps of the lock.\<close>

definition lock_sim :: "'j registry \<Rightarrow> 'j registry \<Rightarrow> bool" where
  "lock_sim g g' \<longleftrightarrow> reg_inv g' \<and> lock_step\<^sup>*\<^sup>* (lock_view g) (lock_view g')"

named_theorems sim \<open>operations simulate the abstract lock\<close>

lemma lock_sim_refl [simp]: "reg_inv g \<Longrightarrow> lock_sim g g"
  by (simp add: lock_sim_def)

lemma lock_sim_trans: "lock_sim g g' \<Longrightarrow> lock_sim g' g'' \<Longrightarrow> lock_sim g g''"
  by (auto simp: lock_sim_def)

lemma lock_sim_inv: "lock_sim g g' \<Longrightarrow> reg_inv g'"
  by (simp add: lock_sim_def)

lemma lock_view_cong:
  "sessions g' = sessions g \<Longrightarrow> host_busy g' = host_busy g \<Longrightarrow> lock_view g' = lock_view g"
  by (rule ext) (simp add: lock_view_def cong: option.case_cong)

lemma lock_view_frame [simp]:
  "lock_view (notify c msg g) = lock_view g"
  "lock_view (snd (chan_send tx msg g)) = lock_view g"
  "lock_view (snd (send_to c msg g)) = lock_view g"
  by (rule lock_view_cong; simp)+

lemma lock_sim_notify [simp]: "lock_sim g (notify c msg g') = lock_sim g g'"
  by (simp add: lock_sim_def)

lemma lock_sim_chan_send [simp]: "lock_sim g (snd (chan_send tx msg g')) = lock_sim g g'"
  by (simp add: lock_sim_def)

lemma lock_sim_send_to [simp]: "lock_sim g (snd (send_to c msg g')) = lock_sim g g'"
  by (simp add: lock_sim_def)

lemma sim_drop:
  assumes "reg_inv g" and s: "hget (sessions g) sid = Some s"
  shows "lock_sim g (g\<lparr>sessions := hdel sid (sessions g), host_busy := hdel (s_host_public_id s) (host_busy g)\<rparr>)"
    (is "lock_sim g ?g'")
proof -
  note ok = lock_okD [OF reg_invD(3) [OF assms(1)]]
  have "lock_view ?g' = (lock_view g)(s_host_public_id s := None)"
  proof
    fix h
    show "lock_view ?g' h = ((lock_view g)(s_host_public_id s := None)) h"
    proof (cases "h = s_host_public_id s")
      case False
      then have "hget (host_busy g) h \<noteq> Some sid" using ok(4) [of h sid] s by auto
      with False show ?thesis by (auto simp: lock_view_def split: option.splits)
    qed (simp add: lock_view_def)
  qed
  moreover have "lock_view g (s_host_public_id s) = Some (sid, s_state s)"
    using ok(3) [OF s] s by (simp add: lock_view_def)
  ultimately show ?thesis
    using reg_inv_drop_session [OF assms] lock_step.release by (metis lock_sim_def r_into_rtranclp)
qed

lemma sim_drop':
  assumes "reg_inv g" and "hget (sessions g) sid = Some s"
  shows "lock_sim g (g\<lparr>host_busy := hdel (s_host_public_id s) (host_busy g), sessions := hdel sid (sessions g)\<rparr>)"
  using sim_drop [OF assms] by (cases g) simp

lemma sim_add:
  assumes "reg_inv g" and new: "hget (sessions g) sid = None" and free: "hget (host_busy g) h = None"
    and s: "s_session_id s = sid" "s_host_public_id s = h" "s_state s = Pending"
  shows "lock_sim g (g\<lparr>host_busy := hput h sid (host_busy g), sessions := hput sid s (sessions g)\<rparr>)"
    (is "lock_sim g ?g'")
proof -
  note ok = reg_invD(3) [OF assms(1)]
  have "reg_inv ?g'"
    using assms(1) lock_ok_add [OF ok new free s(1,2)] s(3) by (auto simp: reg_inv_def fun_upd_def)
  moreover have "lock_view ?g' = (lock_view g)(h \<mapsto> (sid, Pending))"
  proof
    fix h'
    have "hget (host_busy g) h' \<noteq> Some sid" using lock_okD(4) [OF ok, of h' sid] new by auto
    then show "lock_view ?g' h' = ((lock_view g)(h \<mapsto> (sid, Pending))) h'"
      using s by (auto simp: lock_view_def split: option.splits)
  qed
  moreover have "lock_step (lock_view g) ((lock_view g)(h \<mapsto> (sid, Pending)))"
    using free new by (intro lock_step.acquire) (auto simp: lock_view_def split: option.splits)
  ultimately show ?thesis by (auto simp: lock_sim_def)
qed

lemma sim_update:
  assumes "reg_inv g" and s: "hget (sessions g) sid = Some s"
    and t: "s_state t \<noteq> Closed" "s_session_id t = s_session_id s" "s_host_public_id t = s_host_public_id s"
    and st: "s_state t = s_state s \<or> s_state s = Pending"
  shows "lock_sim g (g\<lparr>sessions := hput sid t (sessions g)\<rparr>)" (is "lock_sim g ?g'")
proof -
  note ok = reg_invD(3) [OF assms(1)]
  have "reg_inv ?g'"
    using assms(1) lock_ok_update [OF ok s t] by (auto simp: reg_inv_def fun_upd_def)
  have view: "lock_view ?g' = (lock_view g)(s_host_public_id s \<mapsto> (sid, s_state t))"
  proof
    fix h
    show "lock_view ?g' h = ((lock_view g)(s_host_public_id s \<mapsto> (sid, s_state t))) h"
    proof (cases "h = s_host_public_id s")
      case True
      with lock_okD(3) [OF ok s] show ?thesis by (simp add: lock_view_def)
    next
      case False
      then have "hget (host_busy g) h \<noteq> Some sid" using lock_okD(4) [OF ok, of h sid] s by auto
      with False show ?thesis by (cases "hget (host_busy g) h") (simp_all add: lock_view_def)
    qed
  qed
  have old: "lock_view g (s_host_public_id s) = Some (sid, s_state s)"
    using lock_okD(3) [OF ok s] s by (simp add: lock_view_def)
  show ?thesis
  proof (cases "s_state t = s_state s")
    case True
    with old view have "lock_view ?g' = lock_view g" by auto
    with \<open>reg_inv ?g'\<close> show ?thesis by (simp add: lock_sim_def)
  next
    case False
    with st t(1) have "s_state s = Pending" "s_state t = Active" by (cases "s_state t"; auto)+
    with old view have "lock_step (lock_view g) (lock_view ?g')"
      using lock_step.activate [of "lock_view g" "s_host_public_id s" sid] by simp
    with \<open>reg_inv ?g'\<close> show ?thesis by (auto simp: lock_sim_def)
  qed
qed

section \<open>Every operation simulates the abstract lock\<close>

lemma sim_close [sim]:
  assumes "reg_inv g"
  shows "lock_sim g (close_session_locked r g sid)"
proof (cases "hget (sessions g) sid")
  case None
  with assms show ?thesis by (simp add: close_session_locked_def)
next
  case (Some s)
  with sim_drop [OF assms Some] show ?thesis by (simp add: close_session_locked_def Let_def)
qed

lemma sim_close_all [sim]: "reg_inv g \<Longrightarrow> lock_sim g (close_all r sids g)"
proof (induction sids arbitrary: g)
  case Nil
  then show ?case by (simp add: close_all_def)
next
  case (Cons sid sids)
  have "lock_sim (close_session_locked r g sid) (close_all r sids (close_session_locked r g sid))"
    using Cons.IH Cons.prems by (simp add: reg_inv_close)
  with sim_close [OF Cons.prems] have "lock_sim g (close_all r sids (close_session_locked r g sid))"
    by (rule lock_sim_trans)
  then show ?case by (simp add: close_all_def)
qed

lemma sim_reap [sim]: "reg_inv g \<Longrightarrow> lock_sim g (reap now g)"
  by (simp only: reap_close_all sim_close_all)

lemma sim_after_reap:
  assumes "reg_inv g" and "reg_inv (reap now g) \<Longrightarrow> lock_sim (reap now g) g'"
  shows "lock_sim g g'"
  using assms lock_sim_trans reg_inv_reap sim_reap by blast

lemma sim_frame:
  assumes "reg_inv g'" and "sessions g' = sessions g" and "host_busy g' = host_busy g"
  shows "lock_sim g g'"
  using assms lock_view_cong [of g' g] by (simp add: lock_sim_def)

lemma sim_register [sim]: "reg_inv g \<Longrightarrow> lock_sim g (snd (register_conn g))"
  by (rule sim_frame [OF reg_inv_register]) (simp_all add: register_conn_def Let_def)

lemma sim_unregister [sim]:
  assumes "reg_inv g"
  shows "lock_sim g (unregister_conn_locked conn r g)"
proof -
  let ?h = "g\<lparr>conns := hdel conn (conns g), peers := hdel conn (peers g),
          host_by_public_id := hdel_all (hkeys_where (\<lambda>_ cid. cid = conn) (host_by_public_id g))
            (host_by_public_id g)\<rparr>"
  have "reg_inv ?h" using assms by (auto simp: reg_inv_def intro: wf_intro)
  then have "lock_sim g ?h" by (rule sim_frame) simp_all
  with \<open>reg_inv ?h\<close> show ?thesis unfolding unregister_close_all by (blast intro: lock_sim_trans sim_close_all)
qed

text \<open>Publishing only re-points sessions of the host at its new socket.\<close>

definition repoint :: "conn_id \<Rightarrow> conn_id \<Rightarrow> string \<Rightarrow> session \<Rightarrow> session" where
  "repoint old conn pid s = (if s_host_conn s = old \<and> s_host_public_id s = pid
     then s\<lparr>s_host_conn := conn\<rparr> else s)"

lemma repoint_frame [simp]:
  "s_session_id (repoint old conn pid s) = s_session_id s"
  "s_host_public_id (repoint old conn pid s) = s_host_public_id s"
  "s_state (repoint old conn pid s) = s_state s"
  "s_next_signal_seq (repoint old conn pid s) = s_next_signal_seq s"
  "s_viewer_conn (repoint old conn pid s) = s_viewer_conn s"
  "s_expires_at (repoint old conn pid s) = s_expires_at s"
  by (simp_all add: repoint_def)

lemma publish_host_busy [simp]: "host_busy (publish_host conn pid g) = host_busy g"
  by (simp add: publish_host_def Let_def split: option.splits)

lemma publish_sessions:
  "hget (sessions (publish_host conn pid g)) sid =
     map_option (case hget (host_by_public_id g) pid of None \<Rightarrow> (\<lambda>s. s)
       | Some old \<Rightarrow> if old = conn then (\<lambda>s. s) else repoint old conn pid) (hget (sessions g) sid)"
  by (simp add: publish_host_def Let_def repoint_def [abs_def] option.map_ident split: option.splits)

lemma sim_publish [sim]:
  assumes "reg_inv g"
  shows "lock_sim g (publish_host conn pid g)"
proof -
  have "lock_view (publish_host conn pid g) = lock_view g"
  proof
    fix h
    show "lock_view (publish_host conn pid g) h = lock_view g h"
      by (auto simp: lock_view_def publish_sessions option.map_comp comp_def split: option.split)
  qed
  with reg_inv_publish [OF assms] show ?thesis by (simp add: lock_sim_def)
qed

lemma sim_bind [sim]:
  assumes "reg_inv g"
  shows "lock_sim g (bind_peer conn idn g)"
proof -
  have put: "lock_sim g' (g'\<lparr>peers := hput conn idn (peers g')\<rparr>)" if "reg_inv g'" for g' :: "'a registry"
    using that by (intro sim_frame) (auto simp: reg_inv_def)
  have "lock_sim g (let g1 = publish_host conn pid g in g1\<lparr>peers := hput conn idn (peers g1)\<rparr>)" for pid
    using lock_sim_trans [OF sim_publish [OF assms] put [OF reg_inv_publish [OF assms]]] by (simp add: Let_def)
  with put [OF assms] show ?thesis by (simp add: bind_peer_def Let_def split: option.splits)
qed

text \<open>The end of \<open>create_pending_session\<close>: undo the insertion when the host is gone.\<close>

lemma sim_undo:
  assumes "lock_sim g g1"
  shows "lock_sim g (case hget (sessions g1) sid of None \<Rightarrow> g1
     | Some s \<Rightarrow> g1\<lparr>sessions := hdel sid (sessions g1), host_busy := hdel (s_host_public_id s) (host_busy g1)\<rparr>)"
  using assms sim_drop [of g1 sid] lock_sim_inv [OF assms] lock_sim_trans [OF assms]
  by (auto split: option.splits)

lemma sim_create [sim]:
  assumes "reg_inv g"
  shows "lock_sim g (snd (create_pending_session req now g))"
proof (rule sim_after_reap [OF assms])
  let ?g = "reap now g" and ?sid = "cp_session_id req" and ?h = "cp_host_public_id req"
  assume inv: "reg_inv ?g"
  show "lock_sim ?g (snd (create_pending_session req now g))"
  proof (cases "hget (sessions ?g) ?sid = None \<and> hget (host_busy ?g) ?h = None")
    case False
    with inv show ?thesis by (auto simp: create_pending_session_def Let_def)
  next
    case True
    have add: "lock_sim ?g (snd (send_to c m (?g\<lparr>host_busy := hput ?h ?sid (host_busy ?g), sessions := hput ?sid s (sessions ?g)\<rparr>)))"
      if "s_session_id s = ?sid" "s_host_public_id s = ?h" "s_state s = Pending" for s c m
      using sim_add [OF inv _ _ that] True by simp
    have undo: "lock_sim ?g ((snd (send_to c m (?g\<lparr>host_busy := hput ?h ?sid (host_busy ?g), sessions := hput ?sid s (sessions ?g)\<rparr>)))
        \<lparr>sessions := hdel ?sid (hput ?sid s (sessions ?g)), host_busy := hdel ?h (hput ?h ?sid (host_busy ?g))\<rparr>)"
      if "s_session_id s = ?sid" "s_host_public_id s = ?h" "s_state s = Pending" for s c m
      using sim_undo [OF add [OF that], where sid = ?sid] that by simp
    show ?thesis
      unfolding create_pending_session_def Let_def prod.case_eq_if using inv True
      by (auto split: option.split simp del: lock_sim_send_to intro!: add undo)
  qed
qed

lemma sim_accept [sim]:
  assumes "reg_inv g"
  shows "lock_sim g (snd (accept_session c sid q now g))"
proof (rule sim_after_reap [OF assms])
  assume "reg_inv (reap now g)"
  then show "lock_sim (reap now g) (snd (accept_session c sid q now g))"
    using sim_update [of "reap now g" sid]
    by (auto simp: accept_session_def Let_def split: option.split)
qed

lemma sim_reject [sim]:
  assumes "reg_inv g"
  shows "lock_sim g (snd (reject_session c sid q r now g))"
proof (rule sim_after_reap [OF assms])
  assume "reg_inv (reap now g)"
  then show "lock_sim (reap now g) (snd (reject_session c sid q r now g))"
    using sim_drop' [of "reap now g" sid]
    by (auto simp: reject_session_def Let_def split: option.split)
qed

lemma sim_end [sim]:
  assumes "reg_inv g"
  shows "lock_sim g (snd (end_session c sid q r now g))"
proof (rule sim_after_reap [OF assms])
  assume "reg_inv (reap now g)"
  then show "lock_sim (reap now g) (snd (end_session c sid q r now g))"
    using sim_drop' [of "reap now g" sid]
    by (auto simp: end_session_def Let_def split: option.split)
qed

lemma sim_force_disconnect [sim]:
  assumes "reg_inv g"
  shows "lock_sim g (snd (force_disconnect sid r now g))"
proof (rule sim_after_reap [OF assms])
  assume inv: "reg_inv (reap now g)"
  then show "lock_sim (reap now g) (snd (force_disconnect sid r now g))"
    using lock_okD(2) [OF reg_invD(3) [OF inv], of sid]
    by (auto simp: force_disconnect_def Let_def sim_close split: option.split)
qed

lemma sim_busy_session [sim]: "reg_inv g \<Longrightarrow> lock_sim g (snd (busy_session_for_host h now g))"
  by (simp add: busy_session_for_host_def Let_def sim_reap)

lemma sim_state_of [sim]: "reg_inv g \<Longrightarrow> lock_sim g (snd (session_state_of sid now g))"
  by (simp add: session_state_of_def Let_def sim_reap)

lemma sim_force_expire [sim]:
  assumes "reg_inv g"
  shows "lock_sim g (snd (force_expire_session sid now1 now2 g))"
proof (cases "hget (sessions g) sid")
  case (Some s)
  then have "lock_sim g (g\<lparr>sessions := hput sid (s\<lparr>s_expires_at := now1 - 1000000000\<rparr>) (sessions g)\<rparr>)"
    using lock_okD(2) [OF reg_invD(3) [OF assms] Some] by (intro sim_update [OF assms Some]) auto
  then show ?thesis
    using lock_sim_trans sim_reap [OF lock_sim_inv] by (fastforce simp: force_expire_session_def Some)
qed (simp add: assms force_expire_session_def)

lemma sim_relay [sim]:
  assumes "reg_inv g"
  shows "lock_sim g (snd (relay_media_signal J c msg now g))"
proof (cases "relay_fields msg")
  case (Some f)
  obtain sid q where f: "f = (sid, q)" by fastforce
  show ?thesis
  proof (rule sim_after_reap [OF assms])
    assume "reg_inv (reap now g)"
    then show "lock_sim (reap now g) (snd (relay_media_signal J c msg now g))"
      using sim_update [of "reap now g" sid] Some f
      by (auto simp: relay_media_signal_def Let_def prod.case_eq_if split: option.split)
  qed
qed (simp add: assms relay_media_signal_def)

lemma sim_mint [sim]: "reg_inv g \<Longrightarrow> lock_sim g (snd (mint_viewer_token hash body now g))"
  by (intro sim_frame) (auto simp: mint_viewer_token_def Let_def reg_inv_def)

lemma sim_drop_receiver [sim]: "reg_inv g \<Longrightarrow> lock_sim g (drop_receiver tx g)"
  by (intro sim_frame) (auto simp: drop_receiver_def reg_inv_def split: option.split)

lemma sim_send_to [sim]: "reg_inv g \<Longrightarrow> lock_sim g (snd (send_to c msg g))"
  by simp

section \<open>Steps and reachable states\<close>

text \<open>
  One call of the registry, or the end of a connection task. \<open>J\<close> and \<open>hash\<close> are the JSON
  library and the token hash; arguments, clock readings and random tokens are arbitrary.
\<close>

inductive reg_step :: "'j json_api \<Rightarrow> (string \<Rightarrow> string) \<Rightarrow> 'j registry \<Rightarrow> 'j registry \<Rightarrow> bool"
  for J :: "'j json_api" and hash :: "string \<Rightarrow> string" where
  step_register: "reg_step J hash g (snd (register_conn g))"
| step_unregister: "reg_step J hash g (unregister_conn c g)"
| step_bind: "reg_step J hash g (bind_peer c idn g)"
| step_send: "reg_step J hash g (snd (send_to c msg g))"
| step_mint: "reg_step J hash g (snd (mint_viewer_token hash body now g))"
| step_create: "reg_step J hash g (snd (create_pending_session req now g))"
| step_accept: "reg_step J hash g (snd (accept_session c sid q now g))"
| step_reject: "reg_step J hash g (snd (reject_session c sid q r now g))"
| step_end: "reg_step J hash g (snd (end_session c sid q why now g))"
| step_force: "reg_step J hash g (snd (force_disconnect sid why now g))"
| step_busy: "reg_step J hash g (snd (busy_session_for_host h now g))"
| step_state: "reg_step J hash g (snd (session_state_of sid now g))"
| step_expire: "reg_step J hash g (snd (force_expire_session sid now now' g))"
| step_relay: "reg_step J hash g (snd (relay_media_signal J c msg now g))"
| step_drop: "reg_step J hash g (drop_receiver tx g)"

lemma reg_step_sim: "reg_step J hash g g' \<Longrightarrow> reg_inv g \<Longrightarrow> lock_sim g g'"
  by (induction rule: reg_step.induct) (simp_all add: sim unregister_conn_def)

text \<open>
  A system whose sessions hold an exclusive lock on a resource: \<open>holder\<close> is the lock table,
  \<open>resource_of\<close> the table of sessions, and the laws say that they agree and that steps keep
  them so.
\<close>

locale exclusive_lock =
  fixes holder :: "'g \<Rightarrow> 'h \<Rightarrow> 'k option"
    and resource_of :: "'g \<Rightarrow> 'k \<Rightarrow> 'h option"
    and inv :: "'g \<Rightarrow> bool"
    and init :: "'g \<Rightarrow> bool"
    and step :: "'g \<Rightarrow> 'g \<Rightarrow> bool"
  assumes agree: "inv g \<Longrightarrow> holder g h = Some k \<longleftrightarrow> resource_of g k = Some h"
    and inv_init: "init g \<Longrightarrow> inv g"
    and inv_step: "inv g \<Longrightarrow> step g g' \<Longrightarrow> inv g'"
begin

lemma inv_steps: "step\<^sup>*\<^sup>* g g' \<Longrightarrow> inv g \<Longrightarrow> inv g'"
  by (induction rule: rtranclp_induct) (auto intro: inv_step)

lemma reachable_inv: "init g \<Longrightarrow> step\<^sup>*\<^sup>* g g' \<Longrightarrow> inv g'"
  using inv_init inv_steps by blast

lemma one_per_resource:
  "inv g \<Longrightarrow> resource_of g k = Some h \<Longrightarrow> resource_of g k' = Some h \<Longrightarrow> k = k'"
  by (metis agree option.inject)

lemma one_resource_per_holder:
  "inv g \<Longrightarrow> holder g h = Some k \<Longrightarrow> holder g h' = Some k \<Longrightarrow> h = h'"
  by (metis agree option.inject)

lemma free_iff: "inv g \<Longrightarrow> holder g h = None \<longleftrightarrow> (\<forall>k. resource_of g k \<noteq> Some h)"
  by (metis agree not_None_eq)

end

definition host_of_session :: "'j registry \<Rightarrow> string \<Rightarrow> string option" where
  "host_of_session g sid = map_option s_host_public_id (hget (sessions g) sid)"

interpretation reg_lock: exclusive_lock "\<lambda>g. hget (host_busy g)" host_of_session reg_inv
  "\<lambda>g. \<exists>p a. g = with_ttls p a" "reg_step J hash"
proof unfold_locales
  fix g :: "'a registry" and h k
  assume "reg_inv g"
  from lock_okD [OF reg_invD(3) [OF this]]
  show "hget (host_busy g) h = Some k \<longleftrightarrow> host_of_session g k = Some h"
    by (auto simp: host_of_session_def)
next
  fix g g' :: "'a registry"
  assume "reg_inv g" and "reg_step J hash g g'"
  then show "reg_inv g'" using reg_step_sim lock_sim_inv by blast
qed auto

definition reg_reachable :: "'j json_api \<Rightarrow> (string \<Rightarrow> string) \<Rightarrow> 'j registry \<Rightarrow> bool" where
  "reg_reachable J hash g \<longleftrightarrow> (\<exists>p a. (reg_step J hash)\<^sup>*\<^sup>* (with_ttls p a) g)"

lemma reg_reachable_inv: "reg_reachable J hash g \<Longrightarrow> reg_inv g"
  unfolding reg_reachable_def using reg_lock.reachable_inv by blast

lemma reg_reachable_init: "reg_reachable J hash (with_ttls p a)"
  unfolding reg_reachable_def by blast

lemma reg_reachable_step: "reg_reachable J hash g \<Longrightarrow> reg_step J hash g g' \<Longrightarrow> reg_reachable J hash g'"
  unfolding reg_reachable_def by (meson rtranclp.rtrancl_into_rtrancl)

end
