(* ===== verification/Session_Props.thy ===== *)
theory Session_Props
  imports Session_Lock
begin

text \<open>
  What the session registry promises its callers: one session per host, the refused and the
  successful session request, the release of a lost connection's sessions, reconnection without
  loss, and expiry. A short worked history (a host and a viewer connect, a session is requested,
  accepted) is evaluated at the start and used by the examples.
\<close>

section \<open>A worked history\<close>

definition demo_host :: peer_identity where
  "demo_host = \<lparr>p_role = Host, p_device_public_id = Some ''H'', p_device_id = Some 7, p_anonymous = False\<rparr>"

definition demo_request :: "string create_pending" where
  "demo_request = \<lparr>cp_viewer_conn = ConnId 2, cp_session_id = ''S'', cp_host_public_id = ''H'',
     cp_host_device_id = 7, cp_mode = Otp, cp_signal_seq = 1, cp_viewer_info = ''null''\<rparr>"

definition demo_ready :: "string registry" where
  "demo_ready = snd (register_conn (bind_peer (ConnId 1) demo_host (snd (register_conn new_registry))))"

definition demo_pending :: "string registry" where
  "demo_pending = snd (create_pending_session demo_request 0 demo_ready)"

definition demo_active :: "string registry" where
  "demo_active = snd (accept_session (ConnId 1) ''S'' 3 1 demo_pending)"

lemmas eval_registry = Let_def register_conn_def bind_peer_def publish_host_def hmap_values_def
  create_pending_session_def accept_session_def reap_expired_locked_def hkeys_where_def
  send_to_def chan_send_def notify_def checked_add_def sat_add_def new_registry_def with_ttls_def
  PENDING_SESSION_TTL_def ACTIVE_SESSION_TTL_def

lemma demo_ready_eq: "demo_ready =
  \<lparr>conns = [(ConnId 1, 0), (ConnId 2, 1)], host_by_public_id = [(''H'', ConnId 1)],
   peers = [(ConnId 1, demo_host)], sessions = [], host_busy = [], viewer_tokens = [],
   pending_ttl = 120000000000, active_ttl = 28800000000000, next_conn = 3,
   chans = [(0, \<lparr>rx_alive = True, sent = []\<rparr>), (1, \<lparr>rx_alive = True, sent = []\<rparr>)]\<rparr>"
  by (simp add: demo_ready_def demo_host_def eval_registry)

lemma demo_pending_eq: "demo_pending =
  \<lparr>conns = [(ConnId 1, 0), (ConnId 2, 1)], host_by_public_id = [(''H'', ConnId 1)],
   peers = [(ConnId 1, demo_host)],
   sessions = [(''S'', \<lparr>s_session_id = ''S'', s_host_public_id = ''H'', s_host_device_id = 7,
     s_host_conn = ConnId 1, s_viewer_conn = ConnId 2, s_mode = Otp, s_state = Pending,
     s_next_signal_seq = 3, s_created_at = 0, s_expires_at = 120000000000\<rparr>)],
   host_busy = [(''H'', ''S'')], viewer_tokens = [],
   pending_ttl = 120000000000, active_ttl = 28800000000000, next_conn = 3,
   chans = [(0, \<lparr>rx_alive = True, sent = [SessionIncoming ''S'' 2 ''null'' Otp PrefilterSkipped]\<rparr>),
            (1, \<lparr>rx_alive = True, sent = []\<rparr>)]\<rparr>"
  by (simp add: demo_pending_def demo_ready_eq demo_request_def eval_registry)

lemma demo_active_eq: "demo_active =
  \<lparr>conns = [(ConnId 1, 0), (ConnId 2, 1)], host_by_public_id = [(''H'', ConnId 1)],
   peers = [(ConnId 1, demo_host)],
   sessions = [(''S'', \<lparr>s_session_id = ''S'', s_host_public_id = ''H'', s_host_device_id = 7,
     s_host_conn = ConnId 1, s_viewer_conn = ConnId 2, s_mode = Otp, s_state = Active,
     s_next_signal_seq = 4, s_created_at = 0, s_expires_at = 28800000000001\<rparr>)],
   host_busy = [(''H'', ''S'')], viewer_tokens = [],
   pending_ttl = 120000000000, active_ttl = 28800000000000, next_conn = 3,
   chans = [(0, \<lparr>rx_alive = True, sent = [SessionIncoming ''S'' 2 ''null'' Otp PrefilterSkipped]\<rparr>),
            (1, \<lparr>rx_alive = True, sent = [SessionAccept ''S'' 3]\<rparr>)]\<rparr>"
  by (simp add: demo_active_def demo_pending_eq eval_registry)

lemma demo_ready_reachable: "reg_reachable text_json id demo_ready"
  unfolding demo_ready_def new_registry_def
  by (intro reg_reachable_step [OF _ step_register] reg_reachable_step [OF _ step_bind] reg_reachable_init)

lemma demo_pending_reachable: "reg_reachable text_json id demo_pending"
  unfolding demo_pending_def by (rule reg_reachable_step [OF demo_ready_reachable step_create])

lemma demo_active_reachable: "reg_reachable text_json id demo_active"
  unfolding demo_active_def by (rule reg_reachable_step [OF demo_pending_reachable step_accept])

section \<open>The lock\<close>



text \<open>
  C15. In every reachable state the two maps agree: a host is marked busy with a session exactly
  when that session is stored and is a session of that host; so a host has at most one
  session, and no closed session is ever stored.
\<close>

theorem one_session_per_host:
  assumes "reg_reachable J hash g"
  shows "(hget (host_busy g) h = Some sid \<longleftrightarrow> host_of_session g sid = Some h) \<and>
    (host_of_session g sid = Some h \<and> host_of_session g sid' = Some h \<longrightarrow> sid = sid') \<and>
    map_option s_state (hget (sessions g) sid) \<noteq> Some Closed"
  using reg_lock.agree [OF reg_reachable_inv [OF assms]] reg_lock.one_per_resource [OF reg_reachable_inv [OF assms]]
    lock_okD(2) [OF reg_invD(3) [OF reg_reachable_inv [OF assms]]]
  by auto

theorem one_session_per_host_witness:
  "hget (host_busy demo_pending) ''H'' = Some ''S'' \<and> host_of_session demo_pending ''S'' = Some ''H''"
  using one_session_per_host [OF demo_pending_reachable, of "''H''" "''S''" "''S''"]
  by (simp add: demo_pending_eq)

section \<open>Expiry, lost connections and reconnection\<close>

definition expired :: "datetime \<Rightarrow> session \<Rightarrow> bool" where
  "expired now s \<longleftrightarrow> s_state s \<noteq> Closed \<and> s_expires_at s \<le> now"

lemma sessions_reap:
  "hwf (sessions g) \<Longrightarrow> hget (sessions (reap now g)) sid =
     (case hget (sessions g) sid of None \<Rightarrow> None | Some s \<Rightarrow> if expired now s then None else Some s)"
  by (simp add: reap_close_all hget_hdel_all_where expired_def split: option.split)

lemma busy_iff_session:
  "reg_inv g \<Longrightarrow> hget (host_busy g) h = Some sid \<longleftrightarrow>
     (\<exists>s. hget (sessions g) sid = Some s \<and> s_host_public_id s = h)"
  using reg_lock.agree [of g h sid] by (simp add: host_of_session_def)

lemma busy_by_sessions:
  assumes "reg_inv g" and "reg_inv g'"
    and "hget (host_busy g) h = Some sid" and "hget (sessions g') sid = hget (sessions g) sid"
  shows "hget (host_busy g') h = Some sid"
  using assms by (simp add: busy_iff_session)

lemma busy_free:
  assumes "reg_inv g" and "\<And>sid s. hget (sessions g) sid = Some s \<Longrightarrow> s_host_public_id s \<noteq> h"
  shows "hget (host_busy g) h = None"
  using assms busy_iff_session [of g h] by (meson not_None_eq)

text \<open>
  The reaper. At clock reading \<open>now\<close> it removes exactly the sessions whose deadline has
  passed (\<open>expires_at <= now\<close>), keeps the others unchanged, and leaves a host busy exactly when
  its session survives.
\<close>

theorem reap_removes_exactly_expired:
  assumes "reg_reachable J hash g"
  shows "(hget (sessions (reap now g)) sid = Some s \<longleftrightarrow> hget (sessions g) sid = Some s \<and> now < s_expires_at s) \<and>
    (hget (host_busy (reap now g)) h = Some sid \<longleftrightarrow>
      (\<exists>s. hget (sessions g) sid = Some s \<and> s_host_public_id s = h \<and> now < s_expires_at s))"
proof -
  note inv = reg_reachable_inv [OF assms]
  have *: "hget (sessions (reap now g)) sid = Some s \<longleftrightarrow> hget (sessions g) sid = Some s \<and> now < s_expires_at s" for s
    using lock_okD(2) [OF reg_invD(3) [OF inv], of sid]
    by (auto simp: sessions_reap [OF reg_invD(1) [OF inv]] expired_def split: option.splits)
  moreover have "hget (host_busy (reap now g)) h = Some sid \<longleftrightarrow>
      (\<exists>s. hget (sessions g) sid = Some s \<and> s_host_public_id s = h \<and> now < s_expires_at s)"
    using * by (auto simp: busy_iff_session [OF reg_inv_reap [OF inv]])
  ultimately show ?thesis by blast
qed

theorem reap_removes_exactly_expired_witness:
  "hget (host_busy (reap 119999999999 demo_pending)) ''H'' = Some ''S'' \<and>
   hget (host_busy (reap 120000000000 demo_pending)) ''H'' \<noteq> Some ''S''"
  using reap_removes_exactly_expired [OF demo_pending_reachable]
  by (simp add: demo_pending_eq)

definition party :: "conn_id \<Rightarrow> session \<Rightarrow> bool" where
  "party c s \<longleftrightarrow> s_host_conn s = c \<or> s_viewer_conn s = c"

lemma sessions_unregister:
  "hwf (sessions g) \<Longrightarrow> hget (sessions (unregister_conn c g)) sid =
     (case hget (sessions g) sid of None \<Rightarrow> None | Some s \<Rightarrow> if party c s then None else Some s)"
  by (simp add: unregister_conn_def unregister_close_all hget_hdel_all_where party_def split: option.split)

lemma unregister_maps:
  "conns (unregister_conn c g) = hdel c (conns g)" "peers (unregister_conn c g) = hdel c (peers g)"
  "host_by_public_id (unregister_conn c g) =
     hdel_all (hkeys_where (\<lambda>_ cid. cid = c) (host_by_public_id g)) (host_by_public_id g)"
  by (simp_all add: unregister_conn_def unregister_close_all)

text \<open>
  When a connection is lost, exactly the sessions it is a party of are gone and their hosts
  are free again, every other session stays as it was, and the connection is neither
  registered, bound to an identity, nor published as any host.
\<close>

theorem unregister_releases:
  assumes "reg_reachable J hash g"
  shows "(hget (sessions (unregister_conn c g)) sid = Some s \<longleftrightarrow> hget (sessions g) sid = Some s \<and> \<not> party c s) \<and>
    (hget (sessions g) sid = Some s \<and> party c s \<longrightarrow> hget (host_busy (unregister_conn c g)) (s_host_public_id s) = None) \<and>
    hget (conns (unregister_conn c g)) c = None \<and> peer c (unregister_conn c g) = None \<and>
    hget (host_by_public_id (unregister_conn c g)) h \<noteq> Some c"
proof -
  note inv = reg_reachable_inv [OF assms]
  have inv': "reg_inv (unregister_conn c g)" by (simp add: unregister_conn_def reg_inv_unregister inv)
  have sess: "hget (sessions (unregister_conn c g)) k = Some t \<longleftrightarrow> hget (sessions g) k = Some t \<and> \<not> party c t" for k t
    by (auto simp: sessions_unregister [OF reg_invD(1) [OF inv]] split: option.splits)
  moreover have "hget (host_busy (unregister_conn c g)) (s_host_public_id s) = None"
    if "hget (sessions g) sid = Some s" "party c s"
  proof (rule busy_free [OF inv'])
    fix k t assume "hget (sessions (unregister_conn c g)) k = Some t"
    with sess have t: "hget (sessions g) k = Some t" "\<not> party c t" by auto
    show "s_host_public_id t \<noteq> s_host_public_id s"
      using reg_lock.one_per_resource [OF inv, of k "s_host_public_id s" sid] that t
      by (auto simp: host_of_session_def)
  qed
  moreover have "hget (host_by_public_id (unregister_conn c g)) h \<noteq> Some c"
    using inv by (auto simp: unregister_maps reg_inv_def hget_hdel_all_where split: option.splits)
  ultimately show ?thesis by (simp add: unregister_maps peer_def)
qed

theorem unregister_releases_witness:
  "hget (host_busy (unregister_conn (ConnId 2) demo_pending)) ''H'' = None"
  using unregister_releases [OF demo_pending_reachable, of "ConnId 2" "''S''"
    "the (hget (sessions demo_pending) ''S'')"]
  by (simp add: demo_pending_eq party_def)

lemma bind_host:
  assumes "p_role idn = Host" and "p_device_public_id idn = Some pid"
  shows "sessions (bind_peer c idn g) = sessions (publish_host c pid g)"
    and "host_by_public_id (bind_peer c idn g) = hput pid c (host_by_public_id g)"
  using assms by (simp_all add: bind_peer_def Let_def publish_host_def split: option.split)

text \<open>
  A host that reconnects keeps its sessions. Binding the host's identity on a new socket
  moves each of its sessions to that socket and republishes the host there; when the
  old socket's task then unregisters itself, those sessions and the host's lock survive.
\<close>

theorem reconnect_keeps_sessions:
  assumes "reg_reachable J hash g"
    and "p_role idn = Host" and "p_device_public_id idn = Some pid"
    and "hget (host_by_public_id g) pid = Some old" and "old \<noteq> c"
    and "hget (sessions g) sid = Some s" and "s_host_public_id s = pid"
    and "s_host_conn s = old" and "s_viewer_conn s \<noteq> old"
  shows "hget (sessions (unregister_conn old (bind_peer c idn g))) sid = Some (s\<lparr>s_host_conn := c\<rparr>) \<and>
    hget (host_busy (unregister_conn old (bind_peer c idn g))) pid = Some sid \<and>
    hget (host_by_public_id (unregister_conn old (bind_peer c idn g))) pid = Some c"
proof -
  let ?b = "bind_peer c idn g"
  have inv: "reg_inv ?b" by (rule reg_inv_bind [OF reg_reachable_inv [OF assms(1)]])
  then have inv': "reg_inv (unregister_conn old ?b)" by (simp add: unregister_conn_def reg_inv_unregister)
  have "hget (sessions ?b) sid = Some (s\<lparr>s_host_conn := c\<rparr>)"
    using assms by (simp add: bind_host publish_sessions repoint_def)
  then have sess: "hget (sessions (unregister_conn old ?b)) sid = Some (s\<lparr>s_host_conn := c\<rparr>)"
    using assms by (simp add: sessions_unregister [OF reg_invD(1) [OF inv]] party_def)
  moreover from sess have "hget (host_busy (unregister_conn old ?b)) pid = Some sid"
    using assms by (simp add: busy_iff_session [OF inv'])
  moreover have "hget (host_by_public_id (unregister_conn old ?b)) pid = Some c"
    using inv assms by (simp add: unregister_maps reg_inv_def hget_hdel_all_where bind_host)
  ultimately show ?thesis by blast
qed

theorem reconnect_keeps_sessions_witness:
  "hget (host_busy (unregister_conn (ConnId 1) (bind_peer (ConnId 3) demo_host demo_active))) ''H'' = Some ''S''"
  using reconnect_keeps_sessions [OF demo_active_reachable, of demo_host "''H''" "ConnId 1" "ConnId 3" "''S''"
    "the (hget (sessions demo_active) ''S'')"]
  by (simp add: demo_active_eq demo_host_def)

section \<open>Requesting a session\<close>

text \<open>
  A host in a live session is busy. A request under a new session id for a host one of
  whose sessions has not expired is answered by a rejection with reason \<open>busy\<close>, and that
  session and the host's lock are unchanged.
\<close>

theorem create_refused_while_busy:
  assumes "reg_reachable J hash g"
    and "hget (sessions g) sid = Some s" and "now < s_expires_at s"
    and "cp_host_public_id req = s_host_public_id s"
    and "hget (sessions g) (cp_session_id req) = None"
  shows "fst (create_pending_session req now g) =
      Inl (SessionReject (cp_session_id req) (sat_add (cp_signal_seq req) 1) Busy) \<and>
    hget (sessions (snd (create_pending_session req now g))) sid = Some s \<and>
    hget (host_busy (snd (create_pending_session req now g))) (s_host_public_id s) = Some sid"
proof -
  note inv = reg_reachable_inv [OF assms(1)]
  have sess: "hget (sessions (reap now g)) sid = Some s"
    using assms by (simp add: sessions_reap [OF reg_invD(1) [OF inv]] expired_def)
  then have busy: "hget (host_busy (reap now g)) (s_host_public_id s) = Some sid"
    by (simp add: busy_iff_session [OF reg_inv_reap [OF inv]])
  have "hget (sessions (reap now g)) (cp_session_id req) = None"
    using assms by (simp add: sessions_reap [OF reg_invD(1) [OF inv]])
  with sess busy assms(4) show ?thesis by (simp add: create_pending_session_def Let_def)
qed

theorem create_refused_while_busy_witness:
  "fst (create_pending_session (demo_request\<lparr>cp_session_id := ''T''\<rparr>) 5 demo_pending) =
     Inl (SessionReject ''T'' (sat_add 1 1) Busy)"
  using create_refused_while_busy [OF demo_pending_reachable, of "''S''"
    "the (hget (sessions demo_pending) ''S'')" 5 "demo_request\<lparr>cp_session_id := ''T''\<rparr>"]
  by (simp add: demo_pending_eq demo_request_def)

text \<open>
  A refused session request leaves no trace: whatever the error (conflict, busy, offline
  host, sequence overflow, or a host whose socket died before it could be told), the stored
  sessions and the locks are those of the reaped registry.
\<close>

theorem create_failure_no_trace:
  assumes "fst (create_pending_session req now g) = Inl e"
  shows "hget (sessions (snd (create_pending_session req now g))) = hget (sessions (reap now g)) \<and>
    hget (host_busy (snd (create_pending_session req now g))) = hget (host_busy (reap now g))"
proof (cases "hget (sessions (reap now g)) (cp_session_id req) = None \<and>
    hget (host_busy (reap now g)) (cp_host_public_id req) = None")
  case False
  then show ?thesis by (auto simp: create_pending_session_def Let_def)
next
  case True
  then show ?thesis using assms
    by (auto simp: create_pending_session_def Let_def prod.case_eq_if fun_eq_iff split: option.splits if_splits)
qed

theorem create_failure_no_trace_witness:
  "hget (host_busy (snd (create_pending_session (demo_request\<lparr>cp_host_public_id := ''X''\<rparr>) 5 demo_ready))) ''X'' = None"
  using create_failure_no_trace [of "demo_request\<lparr>cp_host_public_id := ''X''\<rparr>" 5 demo_ready
    "Error ''host_offline'' ''host X is not connected''"]
  by (simp add: demo_ready_eq demo_request_def eval_registry error_msg_def)

text \<open>What a connection has been sent so far, and whether it can still receive.\<close>

definition inbox :: "'j registry \<Rightarrow> conn_id \<Rightarrow> 'j signal_message list option" where
  "inbox g c = (case hget (conns g) c of None \<Rightarrow> None
     | Some tx \<Rightarrow> (case hget (chans g) tx of None \<Rightarrow> None | Some ch \<Rightarrow> Some (sent ch)))"

lemma send_to_True:
  assumes "fst (send_to c msg g)"
  shows "\<exists>old. inbox g c = Some old \<and> inbox (snd (send_to c msg g)) c = Some (old @ [msg])"
  using assms by (auto simp: send_to_def chan_send_def inbox_def split: option.splits if_splits)

lemma inbox_frame [simp]:
  "inbox (g\<lparr>host_busy := B\<rparr>) c = inbox g c" "inbox (g\<lparr>sessions := S\<rparr>) c = inbox g c"
  by (simp_all add: inbox_def split: option.split)

text \<open>
  A granted session request. If \<open>create_pending_session\<close> returns \<open>Ok\<close>, the host was
  connected, not busy and the session id unused; the session is now stored as \<open>Pending\<close> and
  holds the host's lock until the pending time-out, every other session is as the reaper left
  it, the host's connection was sent exactly one message, the \<open>session_incoming\<close> with the
  viewer's sequence number plus one, and the next number expected is that plus one, neither
  having wrapped.
\<close>

theorem create_success:
  assumes "fst (create_pending_session req now g) = Inr ()"
  shows "\<exists>c incoming next old. hget (host_by_public_id g) (cp_host_public_id req) = Some c \<and>
    hget (sessions (reap now g)) (cp_session_id req) = None \<and>
    hget (host_busy (reap now g)) (cp_host_public_id req) = None \<and>
    unat incoming = unat (cp_signal_seq req) + 1 \<and> unat next = unat (cp_signal_seq req) + 2 \<and>
    hget (sessions (snd (create_pending_session req now g))) = (hget (sessions (reap now g)))(cp_session_id req \<mapsto>
      \<lparr>s_session_id = cp_session_id req, s_host_public_id = cp_host_public_id req,
       s_host_device_id = cp_host_device_id req, s_host_conn = c, s_viewer_conn = cp_viewer_conn req,
       s_mode = cp_mode req, s_state = Pending, s_next_signal_seq = next, s_created_at = now,
       s_expires_at = now + pending_ttl g\<rparr>) \<and>
    hget (host_busy (snd (create_pending_session req now g))) =
      (hget (host_busy (reap now g)))(cp_host_public_id req \<mapsto> cp_session_id req) \<and>
    inbox (reap now g) c = Some old \<and>
    inbox (snd (create_pending_session req now g)) c = Some (old @
      [SessionIncoming (cp_session_id req) incoming (cp_viewer_info req) (cp_mode req) PrefilterSkipped])"
proof -
  let ?g = "reap now g" and ?sid = "cp_session_id req" and ?h = "cp_host_public_id req"
  obtain c i n where c: "hget (sessions ?g) ?sid = None" "hget (host_busy ?g) ?h = None"
      "hget (host_by_public_id g) ?h = Some c"
      "checked_add (cp_signal_seq req) 1 = Some i" "checked_add i 1 = Some n"
    using assms by (auto simp: create_pending_session_def Let_def split: option.splits if_splits)
  let ?s = "\<lparr>s_session_id = ?sid, s_host_public_id = ?h, s_host_device_id = cp_host_device_id req,
       s_host_conn = c, s_viewer_conn = cp_viewer_conn req, s_mode = cp_mode req, s_state = Pending,
       s_next_signal_seq = n, s_created_at = now, s_expires_at = now + pending_ttl g\<rparr>"
  let ?g1 = "?g\<lparr>host_busy := hput ?h ?sid (host_busy ?g), sessions := hput ?sid ?s (sessions ?g)\<rparr>"
  let ?m = "SessionIncoming ?sid i (cp_viewer_info req) (cp_mode req) PrefilterSkipped"
  have ok: "fst (send_to c ?m ?g1)"
    using assms c by (simp add: create_pending_session_def Let_def prod.case_eq_if split: if_splits)
  then have res: "snd (create_pending_session req now g) = snd (send_to c ?m ?g1)"
    using c by (simp add: create_pending_session_def Let_def prod.case_eq_if)
  from send_to_True [OF ok] obtain old where "inbox ?g c = Some old"
      "inbox (snd (send_to c ?m ?g1)) c = Some (old @ [?m])" by auto
  then show ?thesis
    using c by (intro exI [of _ c] exI [of _ i] exI [of _ n] exI [of _ old])
      (simp add: res checked_add_Some fun_eq_iff)
qed

theorem create_success_witness:
  "\<exists>c incoming old. hget (host_by_public_id demo_ready) ''H'' = Some c \<and>
    unat incoming = 2 \<and> inbox demo_pending c =
      Some (old @ [SessionIncoming ''S'' incoming ''null'' Otp PrefilterSkipped])"
proof -
  have "fst (create_pending_session demo_request 0 demo_ready) = Inr ()"
    by (simp add: demo_ready_eq demo_request_def eval_registry)
  from create_success [OF this] show ?thesis
    by (auto simp: demo_request_def demo_pending_def)
qed

section \<open>A dead session does not block its host\<close>

text \<open>The receiving half of a connection's channel is alive.\<close>

definition listening :: "conn_id \<Rightarrow> 'j registry \<Rightarrow> bool" where
  "listening c g \<longleftrightarrow> (\<exists>tx ch. hget (conns g) c = Some tx \<and> hget (chans g) tx = Some ch \<and> rx_alive ch)"

lemma listening_chan_send [simp]: "listening c (snd (chan_send tx m g)) = listening c g"
  by (auto simp: listening_def chan_send_def split: option.split)

lemma listening_notify [simp]: "listening c (notify c' m g) = listening c g"
  by (simp add: notify_def split: option.split)

lemma listening_update [simp]:
  "listening c (g\<lparr>sessions := S\<rparr>) = listening c g" "listening c (g\<lparr>host_busy := B\<rparr>) = listening c g"
  by (simp_all add: listening_def)

lemma listening_close [simp]: "listening c (close_session_locked r g sid) = listening c g"
  by (auto simp: close_session_locked_def Let_def split: option.split)

lemma listening_close_all: "listening c (foldl (close_session_locked r) g sids) = listening c g"
  by (induction sids arbitrary: g) simp_all

lemma listening_reap [simp]: "listening c (reap now g) = listening c g"
  by (simp add: reap_expired_locked_def Let_def listening_close_all)

lemma send_to_listening: "listening c g \<Longrightarrow> fst (send_to c m g)"
  by (auto simp: listening_def send_to_def chan_send_def)

text \<open>
  A dead session does not block its host. In every reachable registry, once the deadlines of all a
  host's sessions have passed, an unused session id and sequence numbers with room to count are enough for a
  request to that host to be granted, if the host's connection is listening: no abandoned
  session keeps a host busy forever.
\<close>

theorem host_available_after_timeout:
  assumes "reg_reachable J hash g"
    and "\<And>sid s. hget (sessions g) sid = Some s \<Longrightarrow> s_host_public_id s = cp_host_public_id req \<Longrightarrow> s_expires_at s \<le> now"
    and "hget (sessions g) (cp_session_id req) = None"
    and "hget (host_by_public_id g) (cp_host_public_id req) = Some c" and "listening c g"
    and "unat (cp_signal_seq req) + 2 < 2 ^ 64"
  shows "fst (create_pending_session req now g) = Inr () \<and>
    hget (host_busy (snd (create_pending_session req now g))) (cp_host_public_id req) = Some (cp_session_id req)"
proof -
  note inv = reg_reachable_inv [OF assms(1)]
  have sess: "hget (sessions (reap now g)) sid = Some s \<Longrightarrow> hget (sessions g) sid = Some s \<and> \<not> expired now s" for sid s
    by (auto simp: sessions_reap [OF reg_invD(1) [OF inv]] split: option.splits if_splits)
  have "hget (host_busy (reap now g)) (cp_host_public_id req) = None"
  proof (rule busy_free [OF reg_inv_reap [OF inv]])
    fix sid s assume "hget (sessions (reap now g)) sid = Some s"
    from sess [OF this] assms(2) [of sid s] lock_okD(2) [OF reg_invD(3) [OF inv], of sid s]
    show "s_host_public_id s \<noteq> cp_host_public_id req" by (auto simp: expired_def)
  qed
  moreover have "hget (sessions (reap now g)) (cp_session_id req) = None"
    using sess assms(3) by (cases "hget (sessions (reap now g)) (cp_session_id req)") auto
  moreover obtain q n where "checked_add (cp_signal_seq req) 1 = Some q" "checked_add q 1 = Some n"
  proof -
    have "checked_add (cp_signal_seq req) 1 \<noteq> None" using assms(6) by (simp add: checked_add_None)
    then obtain q where q: "checked_add (cp_signal_seq req) 1 = Some q" by blast
    then have "unat q = unat (cp_signal_seq req) + 1" by (simp add: checked_add_Some)
    then have "checked_add q 1 \<noteq> None" using assms(6) by (simp add: checked_add_None)
    with q that show thesis by blast
  qed
  moreover have "fst (send_to c m (g'\<lparr>host_busy := B, sessions := S\<rparr>))" if "listening c g'" for m B S and g' :: "'a registry"
    using that by (intro send_to_listening) simp
  ultimately show ?thesis using assms(4,5)
    by (simp add: create_pending_session_def Let_def prod.case_eq_if)
qed

theorem host_available_after_timeout_witness:
  "fst (create_pending_session (demo_request\<lparr>cp_session_id := ''T''\<rparr>) 120000000000 demo_pending) = Inr ()"
  by (rule host_available_after_timeout [where c = "ConnId 1", OF demo_pending_reachable, THEN conjunct1])
    (auto simp: demo_pending_eq demo_request_def listening_def split: if_splits)

end
