(* ===== verification/Session_Signal.thy ===== *)
theory Session_Signal
  imports Session_Props
begin

text \<open>
  Signaling inside a session: the relay of media messages between the two parties, the strict
  signal sequence numbers, and the accepted, rejected and ended session.
\<close>

section \<open>The relay\<close>

definition other_party :: "conn_id \<Rightarrow> session \<Rightarrow> conn_id" where
  "other_party c s = (if s_host_conn s = c then s_viewer_conn s else s_host_conn s)"

text \<open>
  The one way a message goes through: the session is live and active, the sender is a party of
  it in the right role, and the number is not below the expected one.
\<close>

definition relay_admits :: "conn_id \<Rightarrow> 'j signal_message \<Rightarrow> u64 \<Rightarrow> session \<Rightarrow> bool" where
  "relay_admits c msg q s \<longleftrightarrow> party c s \<and> s_state s = Active \<and> s_next_signal_seq s \<le> q \<and>
     (is_offer msg \<longrightarrow> s_host_conn s = c) \<and> (is_answer msg \<longrightarrow> s_host_conn s \<noteq> c)"

definition advance :: "string \<Rightarrow> u64 \<Rightarrow> session \<Rightarrow> 'j registry \<Rightarrow> 'j registry" where
  "advance sid q s g = g\<lparr>sessions := hput sid (s\<lparr>s_next_signal_seq := sat_add q 1\<rparr>) (sessions g)\<rparr>"

lemma relay_admitted:
  assumes "relay_fields msg = Some (sid, q)" and "hget (sessions (reap now g)) sid = Some s"
    and "relay_admits c msg q s"
  shows "relay_media_signal J c msg now g =
    (case hget (conns g) (other_party c s) of
       None \<Rightarrow> (Inl (error_msg ''peer_offline'' ''peer not connected; could not relay media signal''),
                advance sid q s (reap now g))
     | Some tx \<Rightarrow> (let (ok, g2) = chan_send tx msg (advance sid q s (reap now g)) in
         if ok then (Inr (), g2)
         else (Inl (error_msg ''peer_offline'' ''peer disconnected; could not relay media signal''), g2)))"
proof -
  from assms(3) have "\<not> q < s_next_signal_seq s" by (simp add: relay_admits_def not_less)
  with assms show ?thesis
    by (auto simp: relay_media_signal_def relay_admits_def party_def other_party_def advance_def Let_def
        split: option.split)
qed

lemma relay_not_admitted:
  assumes "relay_fields msg = Some (sid, q)" and "hget (sessions (reap now g)) sid = Some s"
    and "\<not> relay_admits c msg q s"
  shows "snd (relay_media_signal J c msg now g) = reap now g \<and>
    (fst (relay_media_signal J c msg now g) = Inr () \<longrightarrow>
      is_ice msg \<and> q < s_next_signal_seq s \<and> party c s \<and> s_state s = Active)"
  using assms by (auto simp: relay_media_signal_def relay_admits_def party_def Let_def not_less)

lemma relay_unknown:
  assumes "relay_fields msg = Some (sid, q)" and "hget (sessions (reap now g)) sid = None"
  shows "relay_media_signal J c msg now g = (Inl (error_msg ''not_found'' ''unknown session_id''), reap now g)"
  using assms by (simp add: relay_media_signal_def Let_def)

lemma relay_unsupported:
  assumes "relay_fields msg = None"
  shows "snd (relay_media_signal J c msg now g) = g \<and> fst (relay_media_signal J c msg now g) \<noteq> Inr ()"
  using assms by (simp add: relay_media_signal_def)

lemma chan_send_True:
  assumes "fst (chan_send tx msg g)"
  shows "\<exists>ch. hget (chans g) tx = Some ch \<and> rx_alive ch \<and>
    chans (snd (chan_send tx msg g)) = hput tx (ch\<lparr>sent := sent ch @ [msg]\<rparr>) (chans g)"
  using assms by (auto simp: chan_send_def split: option.splits if_splits)

lemma chan_send_False: "\<not> fst (chan_send tx msg g) \<Longrightarrow> snd (chan_send tx msg g) = g"
  by (auto simp: chan_send_def split: option.splits if_splits)

text \<open>
  A relayed message is delivered verbatim, to the other party only. If
  \<open>relay_media_signal\<close> returns \<open>Ok\<close>, the sender is a party of the live, active session; a late
  ICE candidate is dropped and nothing changes; otherwise its number was not below the
  expected one, offers come from the host and answers from the viewer, the expected number
  becomes the message's number plus one (saturating), no other session changes, and the
  message is appended to the channel of the other party and to no other channel.
\<close>

theorem relay_delivers_to_peer:
  assumes "fst (relay_media_signal J c msg now g) = Inr ()" and "relay_fields msg = Some (sid, q)"
  shows "\<exists>s. hget (sessions (reap now g)) sid = Some s \<and> party c s \<and> s_state s = Active \<and>
    (is_ice msg \<and> q < s_next_signal_seq s \<and> snd (relay_media_signal J c msg now g) = reap now g \<or>
     s_next_signal_seq s \<le> q \<and> (is_offer msg \<longrightarrow> s_host_conn s = c) \<and> (is_answer msg \<longrightarrow> s_host_conn s \<noteq> c) \<and>
     hget (sessions (snd (relay_media_signal J c msg now g))) =
       (hget (sessions (reap now g)))(sid \<mapsto> s\<lparr>s_next_signal_seq := sat_add q 1\<rparr>) \<and>
     (\<exists>tx ch. hget (conns g) (other_party c s) = Some tx \<and> hget (chans (reap now g)) tx = Some ch \<and> rx_alive ch \<and>
       hget (chans (snd (relay_media_signal J c msg now g))) =
         (hget (chans (reap now g)))(tx \<mapsto> ch\<lparr>sent := sent ch @ [msg]\<rparr>)))"
proof -
  obtain s where s: "hget (sessions (reap now g)) sid = Some s"
    using assms relay_unknown [OF assms(2), of now g J c] by (cases "hget (sessions (reap now g)) sid") auto
  show ?thesis
  proof (cases "relay_admits c msg q s")
    case False
    with relay_not_admitted [OF assms(2) s False, of J] assms(1) s show ?thesis by auto
  next
    case True
    note eq = relay_admitted [OF assms(2) s True, of J]
    from assms(1) eq obtain tx where tx: "hget (conns g) (other_party c s) = Some tx"
      and ok: "fst (chan_send tx msg (advance sid q s (reap now g)))"
      by (auto split: option.splits if_splits simp: prod.case_eq_if)
    then have snd: "snd (relay_media_signal J c msg now g) = snd (chan_send tx msg (advance sid q s (reap now g)))"
      by (simp add: eq prod.case_eq_if)
    from chan_send_True [OF ok] True s tx show ?thesis
      by (auto simp: snd advance_def relay_admits_def fun_eq_iff)
  qed
qed

theorem relay_delivers_to_peer_witness:
  "\<exists>s. hget (sessions (reap 2 demo_active)) ''S'' = Some s \<and> party (ConnId 2) s \<and> s_host_conn s \<noteq> ConnId 2"
proof -
  have "fst (relay_media_signal text_json (ConnId 2) (SessionAnswer ''S'' 9 ''sdp'') 2 demo_active) = Inr ()"
    by (simp add: demo_active_eq relay_media_signal_def eval_registry)
  from relay_delivers_to_peer [OF this, of "''S''" 9] show ?thesis by auto
qed

text \<open>
  A failed relay is silent. If \<open>relay_media_signal\<close> returns an error, no channel receives
  anything beyond what the reaper sent, and the sessions are those the reaper left, except that
  when only the peer was unreachable the message's number is used up.
\<close>

theorem relay_error_is_silent:
  assumes "fst (relay_media_signal J c msg now g) = Inl e" and "relay_fields msg = Some (sid, q)"
  shows "chans (snd (relay_media_signal J c msg now g)) = chans (reap now g) \<and>
    (snd (relay_media_signal J c msg now g) = reap now g \<or>
     (\<exists>s. hget (sessions (reap now g)) sid = Some s \<and> relay_admits c msg q s \<and>
        snd (relay_media_signal J c msg now g) = advance sid q s (reap now g)))"
proof (cases "hget (sessions (reap now g)) sid")
  case None
  then show ?thesis using relay_unknown [OF assms(2) None] by simp
next
  case (Some s)
  show ?thesis
  proof (cases "relay_admits c msg q s")
    case False
    then show ?thesis using relay_not_admitted [OF assms(2) Some] by simp
  next
    case True
    then show ?thesis
      using assms(1) Some relay_admitted [OF assms(2) Some True, of J]
      by (auto simp: prod.case_eq_if advance_def dest: chan_send_False split: option.splits if_splits)
  qed
qed

theorem relay_error_is_silent_witness:
  "chans (snd (relay_media_signal text_json (ConnId 2) (SessionOffer ''S'' 9 ''sdp'' ''sig'') 2 demo_active)) =
   chans (reap 2 demo_active)"
proof -
  have "fst (relay_media_signal text_json (ConnId 2) (SessionOffer ''S'' 9 ''sdp'' ''sig'') 2 demo_active) =
      Inl (error_msg ''unauthorized'' ''only the host may send session_offer'')"
    by (simp add: demo_active_eq relay_media_signal_def eval_registry)
  from relay_error_is_silent [OF this, of "''S''" 9] show ?thesis by simp
qed

section \<open>Strict sequence numbers\<close>

lemma sat_add_1_ge: "(q::u64) \<le> sat_add q 1"
proof -
  have "unat q < 2 ^ 64" using unsigned_less [of q] by simp
  then show ?thesis unfolding word_le_nat_alt by (simp add: unat_sat_add)
qed

lemma sat_add_1_less:
  assumes "sat_add (a::u64) 1 \<le> b"
  shows "a < b \<or> a = - 1 \<and> b = - 1"
proof (cases "unat a + 1 < 2 ^ 64")
  case True
  with assms show ?thesis by (simp add: word_le_nat_alt word_less_nat_alt unat_sat_add)
next
  case False
  have "unat b < 2 ^ 64" "unat a < 2 ^ 64" using unsigned_less [of a] unsigned_less [of b] by simp_all
  with False assms have "unat a = 2 ^ 64 - 1" "unat b = 2 ^ 64 - 1"
    by (simp_all add: word_le_nat_alt unat_sat_add)
  then have "a = - 1" "b = - 1"
    by (simp_all add: word_unat_eq_iff unsigned_minus_1_eq_mask mask_eq_exp_minus_1)
  then show ?thesis by simp
qed

text \<open>
  The sequence number under which a relay call delivers its message, and the numbers one
  session delivers over any run of relay calls of any connections, with any clock readings.
\<close>

definition delivered :: "'j json_api \<Rightarrow> conn_id \<times> 'j signal_message \<times> datetime \<Rightarrow> 'j registry \<Rightarrow> (string \<times> u64) option" where
  "delivered J call g = (case call of (c, msg, now) \<Rightarrow>
     (case relay_fields msg of None \<Rightarrow> None
      | Some (sid, q) \<Rightarrow>
          (case hget (sessions (reap now g)) sid of None \<Rightarrow> None
           | Some s \<Rightarrow> if fst (relay_media_signal J c msg now g) = Inr () \<and> s_next_signal_seq s \<le> q
                       then Some (sid, q) else None)))"

primrec relay_log :: "'j json_api \<Rightarrow> string \<Rightarrow> (conn_id \<times> 'j signal_message \<times> datetime) list \<Rightarrow> 'j registry \<Rightarrow> u64 list" where
  "relay_log J sid [] g = []"
| "relay_log J sid (call # calls) g =
     (case delivered J call g of None \<Rightarrow> [] | Some (sid', q) \<Rightarrow> if sid' = sid then [q] else []) @
     relay_log J sid calls (snd (relay_media_signal J (fst call) (fst (snd call)) (snd (snd call)) g))"

lemma sessions_relay:
  "hget (sessions (snd (relay_media_signal J c msg now g))) sid = hget (sessions (reap now g)) sid \<or>
   hget (sessions (snd (relay_media_signal J c msg now g))) sid = hget (sessions g) sid \<or>
   (\<exists>q s. relay_fields msg = Some (sid, q) \<and> hget (sessions (reap now g)) sid = Some s \<and> s_next_signal_seq s \<le> q \<and>
     hget (sessions (snd (relay_media_signal J c msg now g))) sid = Some (s\<lparr>s_next_signal_seq := sat_add q 1\<rparr>))"
proof (cases "relay_fields msg")
  case None
  then show ?thesis using relay_unsupported by metis
next
  case (Some f)
  then obtain sid' q where f: "relay_fields msg = Some (sid', q)" by (cases f) auto
  show ?thesis
  proof (cases "hget (sessions (reap now g)) sid'")
    case None
    then show ?thesis using relay_unknown [OF f] by simp
  next
    case (Some s)
    show ?thesis
    proof (cases "relay_admits c msg q s")
      case False
      then show ?thesis using relay_not_admitted [OF f Some] by simp
    next
      case True
      have "sessions (snd (relay_media_signal J c msg now g)) =
          hput sid' (s\<lparr>s_next_signal_seq := sat_add q 1\<rparr>) (sessions (reap now g))"
        by (simp add: relay_admitted [OF f Some True] advance_def prod.case_eq_if split: option.split)
      with f Some True show ?thesis by (auto simp: relay_admits_def)
    qed
  qed
qed

text \<open>The number expected next never falls while the session lives, and a dead one stays dead.\<close>

lemma next_seq_relay:
  assumes "hwf (sessions g)"
    and "hget (sessions (snd (relay_media_signal J c msg now g))) sid = Some s'"
  shows "\<exists>s. hget (sessions g) sid = Some s \<and> s_next_signal_seq s \<le> s_next_signal_seq s'"
  using sessions_relay [of J c msg now g sid] assms(2) sat_add_1_ge
  by (auto simp: sessions_reap [OF assms(1)] split: option.splits if_splits intro: order_trans)

lemma delivered_Some:
  assumes "delivered J (c, msg, now) g = Some (sid, q)"
  shows "\<exists>s. relay_fields msg = Some (sid, q) \<and> hget (sessions (reap now g)) sid = Some s \<and> s_next_signal_seq s \<le> q \<and>
    hget (sessions (snd (relay_media_signal J c msg now g))) sid = Some (s\<lparr>s_next_signal_seq := sat_add q 1\<rparr>)"
proof -
  from assms obtain s where s: "relay_fields msg = Some (sid, q)" "hget (sessions (reap now g)) sid = Some s"
      "fst (relay_media_signal J c msg now g) = Inr ()" "s_next_signal_seq s \<le> q"
    by (auto simp: delivered_def split: option.splits if_splits)
  then have "relay_admits c msg q s"
    using relay_not_admitted [OF s(1,2), of c J] by force
  from relay_admitted [OF s(1,2) this, of J] s show ?thesis
    by (simp add: advance_def prod.case_eq_if split: option.split)
qed

lemma hwf_sessions_relay: "reg_inv g \<Longrightarrow> reg_inv (snd (relay_media_signal J c msg now g))"
  using lock_sim_inv sim_relay by blast

lemma relay_log_lower:
  assumes "reg_inv g" and "q \<in> set (relay_log J sid calls g)"
  shows "\<exists>s. hget (sessions g) sid = Some s \<and> s_next_signal_seq s \<le> q"
  using assms
proof (induction calls arbitrary: g)
  case (Cons call calls)
  obtain c msg now where call: "call = (c, msg, now)" by (cases call)
  let ?g' = "snd (relay_media_signal J c msg now g)"
  note wf = reg_invD(1) [OF Cons.prems(1)]
  from Cons.prems(2) call consider "delivered J call g = Some (sid, q)" | "q \<in> set (relay_log J sid calls ?g')"
    by (auto split: option.splits if_splits)
  then show ?case
  proof cases
    case 1
    then show ?thesis unfolding call
      by (auto dest!: delivered_Some simp: sessions_reap [OF wf] split: option.splits if_splits)
  next
    case 2
    from Cons.IH [OF hwf_sessions_relay [OF Cons.prems(1)] 2] next_seq_relay [OF wf, of J c msg now sid]
    show ?thesis using order_trans by blast
  qed
qed simp

lemma relay_log_sorted:
  "reg_inv g \<Longrightarrow> sorted_wrt (\<lambda>a b. a < b \<or> a = - 1 \<and> b = - 1) (relay_log J sid calls g)"
proof (induction calls arbitrary: g)
  case (Cons call calls)
  obtain c msg now where call: "call = (c, msg, now)" by (cases call)
  let ?g' = "snd (relay_media_signal J c msg now g)"
  note inv' = hwf_sessions_relay [OF Cons.prems, of J c msg now]
  have "q < q' \<or> q = - 1 \<and> q' = - 1"
    if "delivered J call g = Some (sid, q)" "q' \<in> set (relay_log J sid calls ?g')" for q q'
    using delivered_Some [OF that(1) [unfolded call]] relay_log_lower [OF inv' that(2)] sat_add_1_less
    by fastforce
  with Cons.IH [OF inv'] call show ?case by (auto split: option.split)
qed simp

text \<open>
  Strict sequence numbers. Over any run of relay calls, by any connections and at any times,
  the numbers one session delivers strictly increase, so no message is delivered twice and
  none is delivered out of order; the only exception is the greatest \<open>u64\<close>, where the counter
  saturates and may be delivered again.
\<close>

theorem relay_log_strict:
  assumes "reg_reachable J hash g"
  shows "sorted_wrt (\<lambda>a b. a < b \<or> a = - 1 \<and> b = - 1) (relay_log J sid calls g)"
  by (rule relay_log_sorted [OF reg_reachable_inv [OF assms]])

text \<open>Three relayed messages, the second with a number already used: two are delivered.\<close>

definition demo_calls :: "(conn_id \<times> string signal_message \<times> datetime) list" where
  "demo_calls = [(ConnId 1, SessionOffer ''S'' 4 ''o'' ''f'', 2), (ConnId 2, SessionAnswer ''S'' 4 ''a'', 3),
     (ConnId 2, SessionAnswer ''S'' 5 ''a'', 4)]"

lemma demo_log: "relay_log text_json ''S'' demo_calls demo_active = [4, 5]"
  by (simp add: demo_calls_def demo_active_eq delivered_def relay_media_signal_def eval_registry)

theorem relay_log_strict_witness:
  "relay_log text_json ''S'' demo_calls demo_active = [4, 5] \<and>
   sorted_wrt (\<lambda>a b. a < b \<or> a = - 1 \<and> b = - 1) (relay_log text_json ''S'' demo_calls demo_active)"
  using relay_log_strict [OF demo_active_reachable] demo_log by blast

text \<open>At the greatest number the same message goes through twice.\<close>

theorem relay_repeats_at_max:
  "relay_log text_json ''S'' [(ConnId 1, MediaRestart ''S'' (- 1), 2), (ConnId 1, MediaRestart ''S'' (- 1), 3)]
     demo_active = [- 1, - 1]"
  by (simp add: demo_active_eq delivered_def relay_media_signal_def eval_registry)

section \<open>Accepting and ending a session\<close>

text \<open>
  \<open>accept_session\<close> returns \<open>Ok\<close> exactly when the session is live and pending, the caller is its
  host connection and the number is not below the expected one; then the session is active
  until \<open>active_ttl\<close> from now with the next number expected, no other session and no lock
  changes. In every other case the sessions and locks are those the reaper left.
\<close>

theorem accept_session_spec:
  "(fst (accept_session c sid q now g) = Inr () \<longleftrightarrow>
     (\<exists>s. hget (sessions (reap now g)) sid = Some s \<and> s_host_conn s = c \<and> s_state s = Pending \<and> s_next_signal_seq s \<le> q)) \<and>
   hget (host_busy (snd (accept_session c sid q now g))) = hget (host_busy (reap now g)) \<and>
   hget (sessions (snd (accept_session c sid q now g))) =
     (if fst (accept_session c sid q now g) = Inr ()
      then (hget (sessions (reap now g)))(sid := map_option (\<lambda>s. s\<lparr>s_state := Active,
        s_expires_at := now + active_ttl g, s_next_signal_seq := sat_add q 1\<rparr>) (hget (sessions (reap now g)) sid))
      else hget (sessions (reap now g)))"
  by (auto simp: accept_session_def Let_def not_less fun_eq_iff split: option.split)

text \<open>
  A session ended by one of its parties is over. If \<open>end_session\<close> returns \<open>Ok\<close> in a
  reachable state, the caller was a party, the session is no longer stored, its host is free at
  once, every other session is as the reaper left it, and the other party (if its connection is
  live) was sent the \<open>session_end\<close> with the same number and reason.
\<close>

theorem end_session_frees_host:
  assumes "reg_reachable J hash g" and "fst (end_session c sid q why now g) = Inr ()"
  shows "\<exists>s. hget (sessions g) sid = Some s \<and> party c s \<and>
    hget (sessions (snd (end_session c sid q why now g))) = (hget (sessions (reap now g)))(sid := None) \<and>
    hget (host_busy (snd (end_session c sid q why now g))) (s_host_public_id s) = None \<and>
    chans (snd (end_session c sid q why now g)) =
      chans (notify (other_party c s) (SessionEnd sid q why) (reap now g))"
proof -
  note inv = reg_inv_reap [OF reg_reachable_inv [OF assms(1)], of now]
  obtain s where s: "hget (sessions (reap now g)) sid = Some s" "party c s" "\<not> q < s_next_signal_seq s"
    using assms(2) lock_okD(2) [OF reg_invD(3) [OF inv], of sid]
    by (auto simp: end_session_def Let_def party_def split: option.splits if_splits)
  have st: "s_state s \<noteq> Closed" using lock_okD(2) [OF reg_invD(3) [OF inv] s(1)] .
  have old: "hget (sessions g) sid = Some s"
    using s(1) by (auto simp: sessions_reap [OF reg_invD(1) [OF reg_reachable_inv [OF assms(1)]]]
        split: option.splits if_splits)
  have nchan: "chans (notify k m (r\<lparr>host_busy := B, sessions := S\<rparr>)) = chans (notify k m r)"
    for k m B S and r :: "'a registry"
    by (auto simp: notify_def chan_send_def split: option.split)
  have eq: "snd (end_session c sid q why now g) = notify (other_party c s) (SessionEnd sid q why)
      ((reap now g)\<lparr>host_busy := hdel (s_host_public_id s) (host_busy (reap now g)),
                   sessions := hdel sid (sessions (reap now g))\<rparr>)"
    using s st by (auto simp: end_session_def Let_def party_def other_party_def)
  show ?thesis using old s(2) by (auto simp: eq nchan fun_eq_iff)
qed

theorem end_session_frees_host_witness:
  "hget (host_busy (snd (end_session (ConnId 2) ''S'' 4 ''bye'' 9 demo_active))) ''H'' = None"
proof -
  have "fst (end_session (ConnId 2) ''S'' 4 ''bye'' 9 demo_active) = Inr ()"
    by (simp add: demo_active_eq end_session_def eval_registry)
  from end_session_frees_host [OF demo_active_reachable this] show ?thesis
    by (auto simp: demo_active_eq)
qed

section \<open>Viewer tokens\<close>

text \<open>
  A minted viewer token is honoured for exactly its fifteen minutes, the last instant
  included, whatever else was minted before, and the empty token never is.
\<close>

theorem viewer_token_window:
  "(validate_viewer_token hash (fst (mint_viewer_token hash body now g)) now'
      (snd (mint_viewer_token hash body now g)) \<longleftrightarrow> now' \<le> now + VIEWER_TOKEN_TTL) \<and>
   \<not> validate_viewer_token hash [] now' g"
  by (simp add: validate_viewer_token_def mint_viewer_token_def Let_def)

end
