(* ===== verification/Otp_Auth.thy ===== *)
theory Otp_Auth
  imports RL_Prelude
begin

text \<open>
  The auth package's errors (\<open>packages/auth/src/error.rs\<close>) and the Mode A one-time codes
  (\<open>packages/auth/src/otp.rs\<close>): generation, format check, hashing, verification, consume-once.

  The RustCrypto functions (SHA-256, HMAC-SHA256), \<open>hex\<close> and the Ed25519 library are third-party:
  they are the fields of a record \<open>crypto\<close>, an argument of the definitions that use them.
  \<open>ct_eq\<close> on byte arrays is equality. Random draws (salts, digits) are arguments.
\<close>

section \<open>Errors\<close>

datatype auth_error =
    InvalidDeviceId string
  | InvalidOtpFormat string
  | OtpVerify string
  | ChallengeMacMismatch
  | PasswordError string
  | FingerprintSigInvalid
  | IdentityBind string
  | SessionNotAuthorized
  | InputNotAllowed bool bool
  | Crypto string

fun show_auth_error :: "auth_error \<Rightarrow> string" where
  "show_auth_error (InvalidDeviceId e) = ''invalid device public ID: '' @ e"
| "show_auth_error (InvalidOtpFormat e) = ''invalid OTP format: '' @ e"
| "show_auth_error (OtpVerify e) = ''OTP verification failed: '' @ e"
| "show_auth_error ChallengeMacMismatch = ''challenge MAC verification failed''"
| "show_auth_error (PasswordError e) = ''password operation failed: '' @ e"
| "show_auth_error FingerprintSigInvalid = ''fingerprint signature verification failed''"
| "show_auth_error (IdentityBind e) = ''identity bind failed: '' @ e"
| "show_auth_error SessionNotAuthorized = ''session not authorized''"
| "show_auth_error (InputNotAllowed b a) = ''input not allowed: identity_bound='' @ show_bool b @
     '' session_authorized='' @ show_bool a"
| "show_auth_error (Crypto e) = ''crypto error: '' @ e"

record crypto =
  sha256 :: "bytes \<Rightarrow> bytes"
  hmac_sha256 :: "bytes \<Rightarrow> bytes \<Rightarrow> bytes"
  hex_encode :: "bytes \<Rightarrow> string"
  hex_decode :: "string \<Rightarrow> string + bytes"

section \<open>Codes\<close>

definition OTP_MIN_DIGITS :: nat where "OTP_MIN_DIGITS = 6"
definition OTP_MAX_DIGITS :: nat where "OTP_MAX_DIGITS = 8"
definition OTP_DEFAULT_DIGITS :: nat where "OTP_DEFAULT_DIGITS = 6"
definition OTP_SALT_LEN :: nat where "OTP_SALT_LEN = 16"

definition OTP_HASH_DOMAIN :: bytes where
  "OTP_HASH_DOMAIN = utf8_bytes ''remotelink-otp-v1:''"

lemmas otp_limits = OTP_MIN_DIGITS_def OTP_MAX_DIGITS_def OTP_DEFAULT_DIGITS_def OTP_SALT_LEN_def

record otp_hash =
  digest :: bytes
  salt :: bytes
  keyed :: bool

definition otp_hash_ct_eq :: "otp_hash \<Rightarrow> otp_hash \<Rightarrow> bool" where
  "otp_hash_ct_eq a b \<longleftrightarrow> digest a = digest b \<and> salt a = salt b \<and> keyed a = keyed b"

definition is_ascii_digit :: "char \<Rightarrow> bool" where
  "is_ascii_digit c \<longleftrightarrow> 48 \<le> (of_char c :: nat) \<and> (of_char c :: nat) \<le> 57"

text \<open>\<open>draws i\<close> is the \<open>i\<close>-th value of \<open>rng.gen_range(0..10u8)\<close>.\<close>

definition generate_otp_with_rng :: "nat \<Rightarrow> (nat \<Rightarrow> u8) \<Rightarrow> auth_error + string" where
  "generate_otp_with_rng digits draws =
     (if \<not> (OTP_MIN_DIGITS \<le> digits \<and> digits \<le> OTP_MAX_DIGITS) then
        Inl (InvalidOtpFormat (''digits must be '' @ show_nat OTP_MIN_DIGITS @ ''..='' @
          show_nat OTP_MAX_DIGITS @ '', got '' @ show_nat digits))
      else Inr (map (\<lambda>i. char_of (48 + unat (draws i))) [0 ..< digits]))"

definition validate_otp_format :: "string \<Rightarrow> auth_error + unit" where
  "validate_otp_format code =
     (if \<not> (OTP_MIN_DIGITS \<le> length code \<and> length code \<le> OTP_MAX_DIGITS) then
        Inl (InvalidOtpFormat (''length must be '' @ show_nat OTP_MIN_DIGITS @ ''..='' @
          show_nat OTP_MAX_DIGITS @ '', got '' @ show_nat (length code)))
      else if \<not> list_all is_ascii_digit code then
        Inl (InvalidOtpFormat ''OTP must be numeric digits only'')
      else Inr ())"

section \<open>Hashing and verification\<close>

definition hash_otp_with_salt :: "crypto \<Rightarrow> string \<Rightarrow> bytes \<Rightarrow> bytes \<Rightarrow> auth_error + otp_hash" where
  "hash_otp_with_salt K code pepper sl =
     (case validate_otp_format code of Inl e \<Rightarrow> Inl e
      | Inr _ \<Rightarrow>
        if pepper = [] then Inl (Crypto ''OTP pepper must be non-empty for keyed hashing'')
        else if length sl \<noteq> OTP_SALT_LEN then
          Inl (Crypto (''OTP salt must be '' @ show_nat OTP_SALT_LEN @ '' bytes, got '' @ show_nat (length sl)))
        else Inr \<lparr>digest = hmac_sha256 K pepper (OTP_HASH_DOMAIN @ sl @ utf8_bytes code),
                  salt = sl, keyed = True\<rparr>)"

definition hash_otp :: "crypto \<Rightarrow> string \<Rightarrow> bytes \<Rightarrow> bytes \<Rightarrow> auth_error + otp_hash" where
  "hash_otp K code pepper random_salt =
     (if pepper = [] then Inl (Crypto ''OTP pepper must be non-empty for keyed hashing'')
      else hash_otp_with_salt K code pepper random_salt)"

definition hash_otp_unkeyed :: "crypto \<Rightarrow> string \<Rightarrow> auth_error + otp_hash" where
  "hash_otp_unkeyed K code =
     (case validate_otp_format code of Inl e \<Rightarrow> Inl e
      | Inr _ \<Rightarrow> Inr \<lparr>digest = sha256 K (OTP_HASH_DOMAIN @ utf8_bytes code),
                      salt = replicate OTP_SALT_LEN 0, keyed = False\<rparr>)"

definition verify_otp :: "crypto \<Rightarrow> string \<Rightarrow> bytes \<Rightarrow> otp_hash \<Rightarrow> auth_error + unit" where
  "verify_otp K code pepper expected =
     (case (if keyed expected then hash_otp_with_salt K code pepper (salt expected)
            else hash_otp_unkeyed K code) of
        Inl e \<Rightarrow> Inl e
      | Inr cand \<Rightarrow> if digest cand = digest expected then Inr () else Inl (OtpVerify ''code mismatch''))"

definition mint_otp :: "crypto \<Rightarrow> nat \<Rightarrow> (nat \<Rightarrow> u8) \<Rightarrow> bytes \<Rightarrow> bytes \<Rightarrow> auth_error + (string \<times> otp_hash)" where
  "mint_otp K digits draws pepper random_salt =
     (case generate_otp_with_rng digits draws of Inl e \<Rightarrow> Inl e
      | Inr code \<Rightarrow> (case hash_otp K code pepper random_salt of Inl e \<Rightarrow> Inl e | Inr h \<Rightarrow> Inr (code, h)))"

section \<open>Records\<close>

record otp_record =
  or_hash :: otp_hash
  or_expires_at_unix :: u64
  or_consumed :: bool

definition new_otp_record :: "otp_hash \<Rightarrow> u64 \<Rightarrow> otp_record" where
  "new_otp_record h expires = \<lparr>or_hash = h, or_expires_at_unix = expires, or_consumed = False\<rparr>"

definition is_expired :: "otp_record \<Rightarrow> u64 \<Rightarrow> bool" where
  "is_expired r now_unix \<longleftrightarrow> now_unix \<ge> or_expires_at_unix r"

definition verify_record :: "crypto \<Rightarrow> otp_record \<Rightarrow> string \<Rightarrow> bytes \<Rightarrow> u64 \<Rightarrow> auth_error + unit" where
  "verify_record K r code pepper now_unix =
     (if or_consumed r then Inl (OtpVerify ''already consumed'')
      else if is_expired r now_unix then Inl (OtpVerify ''expired'')
      else verify_otp K code pepper (or_hash r))"

definition verify_and_consume ::
  "crypto \<Rightarrow> string \<Rightarrow> bytes \<Rightarrow> u64 \<Rightarrow> otp_record \<Rightarrow> (auth_error + unit) \<times> otp_record" where
  "verify_and_consume K code pepper now_unix r =
     (case verify_record K r code pepper now_unix of
        Inl e \<Rightarrow> (Inl e, r)
      | Inr _ \<Rightarrow> (Inr (), r\<lparr>or_consumed := True\<rparr>))"

definition mark_consumed :: "otp_record \<Rightarrow> otp_record" where
  "mark_consumed r = r\<lparr>or_consumed := True\<rparr>"

definition mint_otp_record ::
  "crypto \<Rightarrow> nat \<Rightarrow> (nat \<Rightarrow> u8) \<Rightarrow> bytes \<Rightarrow> bytes \<Rightarrow> u64 \<Rightarrow> auth_error + (string \<times> otp_record)" where
  "mint_otp_record K digits draws pepper random_salt expires =
     (case mint_otp K digits draws pepper random_salt of Inl e \<Rightarrow> Inl e
      | Inr (code, h) \<Rightarrow> Inr (code, new_otp_record h expires))"

section \<open>Properties\<close>

definition well_formed_code :: "string \<Rightarrow> bool" where
  "well_formed_code code \<longleftrightarrow> 6 \<le> length code \<and> length code \<le> 8 \<and> list_all is_ascii_digit code"

lemma validate_otp_format_iff [simp]: "validate_otp_format code = Inr () \<longleftrightarrow> well_formed_code code"
  by (auto simp: validate_otp_format_def well_formed_code_def otp_limits)

lemma validate_otp_format_Inl: "\<not> well_formed_code code \<Longrightarrow> \<exists>e. validate_otp_format code = Inl e"
  by (metis (full_types) old.unit.exhaust sum.exhaust validate_otp_format_iff)

lemma validate_cases:
  obtains "well_formed_code code" "validate_otp_format code = Inr ()"
  | e where "\<not> well_formed_code code" "validate_otp_format code = Inl e"
  using validate_otp_format_Inl validate_otp_format_iff by blast

lemma hash_otp_with_salt_Inr:
  "hash_otp_with_salt K code pepper sl = Inr h \<longleftrightarrow>
     well_formed_code code \<and> pepper \<noteq> [] \<and> length sl = 16 \<and>
     h = \<lparr>digest = hmac_sha256 K pepper (OTP_HASH_DOMAIN @ sl @ utf8_bytes code), salt = sl, keyed = True\<rparr>"
  by (cases code rule: validate_cases) (auto simp: hash_otp_with_salt_def otp_limits simp del: validate_otp_format_iff)

lemma hash_otp_unkeyed_Inr:
  "hash_otp_unkeyed K code = Inr h \<longleftrightarrow>
     well_formed_code code \<and>
     h = \<lparr>digest = sha256 K (OTP_HASH_DOMAIN @ utf8_bytes code), salt = replicate 16 0, keyed = False\<rparr>"
  by (cases code rule: validate_cases) (auto simp: hash_otp_unkeyed_def otp_limits simp del: validate_otp_format_iff)

lemma verify_otp_keyed:
  assumes "keyed h"
  shows "verify_otp K code pepper h = Inr () \<longleftrightarrow>
    well_formed_code code \<and> pepper \<noteq> [] \<and> length (salt h) = 16 \<and>
    hmac_sha256 K pepper (OTP_HASH_DOMAIN @ salt h @ utf8_bytes code) = digest h"
  using assms
  by (cases code rule: validate_cases)
    (auto simp: verify_otp_def hash_otp_with_salt_def otp_limits simp del: validate_otp_format_iff split: if_splits)

lemma preimage_inject:
  "length s = length t \<Longrightarrow> OTP_HASH_DOMAIN @ s @ utf8_bytes a = OTP_HASH_DOMAIN @ t @ utf8_bytes b \<longleftrightarrow> s = t \<and> a = b"
  by simp

lemma digit_char: "d < 10 \<Longrightarrow> is_ascii_digit (char_of (48 + d))" for d :: nat
  by (simp add: is_ascii_digit_def)

text \<open>
  A freshly generated code (of any of the allowed lengths, from draws below ten) is well
  formed, has the requested length, and hashing it under a non-empty pepper with a 16-byte salt
  succeeds and gives a hash it verifies against.
\<close>

theorem mint_otp_verifies:
  assumes "6 \<le> digits" and "digits \<le> 8" and "\<And>i. unat (draws i) < 10"
    and "pepper \<noteq> []" and "length sl = 16"
  shows "\<exists>code h. mint_otp K digits draws pepper sl = Inr (code, h) \<and> length code = digits \<and>
    well_formed_code code \<and> verify_otp K code pepper h = Inr ()"
proof -
  let ?code = "map (\<lambda>i. char_of (48 + unat (draws i))) [0 ..< digits] :: string"
  have gen: "generate_otp_with_rng digits draws = Inr ?code"
    using assms by (simp add: generate_otp_with_rng_def otp_limits)
  have wf: "well_formed_code ?code"
    using assms digit_char by (simp add: well_formed_code_def list_all_iff)
  then obtain h where h: "hash_otp_with_salt K ?code pepper sl = Inr h"
    using hash_otp_with_salt_Inr assms by blast
  then have "verify_otp K ?code pepper h = Inr ()"
    using verify_otp_keyed [of h] wf assms(4) by (auto simp: hash_otp_with_salt_Inr)
  with gen wf h assms(4) show ?thesis by (simp add: mint_otp_def hash_otp_def)
qed

text \<open>A concrete instance of the libraries, for evaluating examples.\<close>

definition toy_crypto :: crypto where
  "toy_crypto = \<lparr>sha256 = (\<lambda>m. m), hmac_sha256 = (\<lambda>k m. k @ m), hex_encode = map (\<lambda>b. char_of (unat b)), hex_decode = (\<lambda>s. Inr (utf8_bytes s))\<rparr>"

theorem mint_otp_verifies_witness:
  "\<exists>code h. mint_otp toy_crypto 6 (\<lambda>i. if i = 0 then 7 else 3) [1] (replicate 16 5) = Inr (code, h) \<and>
    length code = 6 \<and> well_formed_code code \<and> verify_otp toy_crypto code [1] h = Inr ()"
  by (rule mint_otp_verifies) simp_all

text \<open>
  What a stored hash accepts. A code verifies against the hash of another code only if
  both are well formed and their HMAC inputs collide under the same pepper; the inputs (domain,
  salt, code) of different codes are different, so acceptance of a wrong code is a collision of
  HMAC-SHA256 itself, never an ambiguity of the encoding. A code that is not six to eight
  digits never verifies.
\<close>

theorem verify_otp_only_collisions:
  assumes "hash_otp_with_salt K code pepper sl = Inr h"
  shows "verify_otp K code' pepper h = Inr () \<longleftrightarrow>
    code' = code \<or>
    (well_formed_code code' \<and> OTP_HASH_DOMAIN @ sl @ utf8_bytes code' \<noteq> OTP_HASH_DOMAIN @ sl @ utf8_bytes code \<and>
     hmac_sha256 K pepper (OTP_HASH_DOMAIN @ sl @ utf8_bytes code') =
     hmac_sha256 K pepper (OTP_HASH_DOMAIN @ sl @ utf8_bytes code))"
  using assms verify_otp_keyed [of h K code' pepper] by (auto simp: hash_otp_with_salt_Inr)

theorem verify_otp_only_collisions_witness:
  "\<exists>h. hash_otp_with_salt toy_crypto ''123456'' [1] (replicate 16 5) = Inr h \<and>
     verify_otp toy_crypto ''123457'' [1] h \<noteq> Inr ()"
proof -
  obtain h where h: "hash_otp_with_salt toy_crypto ''123456'' [1] (replicate 16 5) = Inr h"
    using hash_otp_with_salt_Inr [of toy_crypto "''123456''" "[1]" "replicate 16 5"]
    by (auto simp: well_formed_code_def is_ascii_digit_def)
  with verify_otp_only_collisions [OF h, of "''123457''"] show ?thesis
    by (auto simp: toy_crypto_def)
qed

text \<open>Calls of \<open>verify_and_consume\<close> on one record: their results in order.\<close>

primrec consume_run :: "crypto \<Rightarrow> (string \<times> bytes \<times> u64) list \<Rightarrow> otp_record \<Rightarrow> (auth_error + unit) list" where
  "consume_run K [] r = []"
| "consume_run K (call # calls) r =
     (let (res, r') = verify_and_consume K (fst call) (fst (snd call)) (snd (snd call)) r
      in res # consume_run K calls r')"

lemma consume_run_consumed:
  "or_consumed r \<Longrightarrow> count_list (consume_run K calls r) (Inr ()) = 0"
  by (induction calls) (auto simp: Let_def verify_and_consume_def verify_record_def)

text \<open>
  Consume-once. Among any sequence of \<open>verify_and_consume\<close> calls on one record, with any codes,
  peppers and clock readings, at most one succeeds.
\<close>

theorem verify_and_consume_at_most_once:
  "count_list (consume_run K calls r) (Inr ()) \<le> 1"
proof (induction calls arbitrary: r)
  case (Cons call calls)
  show ?case
  proof (cases "fst (verify_and_consume K (fst call) (fst (snd call)) (snd (snd call)) r) = Inr ()")
    case True
    then have "or_consumed (snd (verify_and_consume K (fst call) (fst (snd call)) (snd (snd call)) r))"
      by (auto simp: verify_and_consume_def split: sum.splits)
    then show ?thesis by (simp add: prod.case_eq_if Let_def consume_run_consumed)
  next
    case False
    then show ?thesis using Cons.IH by (simp add: prod.case_eq_if Let_def)
  qed
qed simp

end
