(* ===== verification/Otp_Store.thy ===== *)
theory Otp_Store
  imports Otp_Auth
begin

text \<open>
  The server's store of one-time-code hashes (\<open>apps/server/src/otp.rs\<close>): mint with a single
  active window per host, the rate-limited prefilter that binds a code to a session, and the
  consumption on accept. Row ids come from an \<open>AtomicI64\<close>; they are an \<open>int\<close> here, the counter
  being far from its end.
\<close>

section \<open>State\<close>

definition DEFAULT_OTP_TTL_SECS :: u64 where "DEFAULT_OTP_TTL_SECS = 900"
definition MAX_OTP_TTL_SECS :: u64 where "MAX_OTP_TTL_SECS = 3600"
definition MAX_OTP_ATTEMPTS :: u32 where "MAX_OTP_ATTEMPTS = 5"

definition DEFAULT_OTP_PEPPER :: bytes where
  "DEFAULT_OTP_PEPPER = utf8_bytes ''remotelink-otp-server-pepper-v1!''"

record stored_otp =
  so_id :: int
  so_host_device_id :: int
  so_hash :: otp_hash
  so_expires_at :: datetime
  so_consumed_at :: "datetime option"
  so_session_intent_id :: "string option"
  so_attempts :: u32
  so_created_at :: datetime

datatype otp_prefilter_result = OtpOk | NoActiveOtp | OtpReject

datatype otp_store_error = NotFound | Unavailable | VerifyFailed | BadHash string

fun show_otp_store_error :: "otp_store_error \<Rightarrow> string" where
  "show_otp_store_error NotFound = ''no active OTP for host''"
| "show_otp_store_error Unavailable = ''OTP already consumed or expired''"
| "show_otp_store_error VerifyFailed = ''OTP verification failed''"
| "show_otp_store_error (BadHash e) = ''invalid OTP hash material: '' @ e"

record otp_store =
  by_id :: "(int, stored_otp) hashmap"
  by_host :: "(int, int list) hashmap"
  next_id :: int

definition new_otp_store :: otp_store where
  "new_otp_store = \<lparr>by_id = [], by_host = [], next_id = 0\<rparr>"

section \<open>Operations\<close>

definition store_hash :: "int \<Rightarrow> otp_hash \<Rightarrow> datetime \<Rightarrow> datetime \<Rightarrow> otp_store \<Rightarrow> stored_otp \<times> otp_store" where
  "store_hash host h expires now g =
     (let id = next_id g + 1;
          row = \<lparr>so_id = id, so_host_device_id = host, so_hash = h, so_expires_at = expires,
                 so_consumed_at = None, so_session_intent_id = None, so_attempts = 0,
                 so_created_at = now\<rparr>;
          old_ids = (case hget (by_host g) host of None \<Rightarrow> [] | Some ids \<Rightarrow> ids)
      in (row, g\<lparr>next_id := id, by_host := hput host [id] (hdel host (by_host g)),
                 by_id := hput id row (hdel_all old_ids (by_id g))\<rparr>))"

definition store_from_parts ::
  "int \<Rightarrow> bytes \<Rightarrow> bytes \<Rightarrow> bool \<Rightarrow> datetime \<Rightarrow> datetime \<Rightarrow> otp_store \<Rightarrow> stored_otp \<times> otp_store" where
  "store_from_parts host dig sl k expires now g =
     store_hash host \<lparr>digest = dig, salt = sl, keyed = k\<rparr> expires now g"

definition mint_for_tests ::
  "crypto \<Rightarrow> int \<Rightarrow> string \<Rightarrow> bytes \<Rightarrow> bytes \<Rightarrow> u64 \<Rightarrow> datetime \<Rightarrow> otp_store
     \<Rightarrow> (otp_store_error + stored_otp) \<times> otp_store" where
  "mint_for_tests K host code pepper random_salt ttl_secs now g =
     (case hash_otp K code pepper random_salt of
        Inl e \<Rightarrow> (Inl (BadHash (show_auth_error e)), g)
      | Inr h \<Rightarrow> (let (row, g') = store_hash host h (now + sint ttl_secs * 1000000000) now g in (Inr row, g')))"

text \<open>The loop of \<open>prefilter_bind\<close> over the host's row ids, newest first.\<close>

fun prefilter_loop ::
  "crypto \<Rightarrow> string \<Rightarrow> bytes \<Rightarrow> string \<Rightarrow> datetime \<Rightarrow> int list \<Rightarrow> otp_store \<Rightarrow> otp_prefilter_result \<times> otp_store" where
  "prefilter_loop K code pepper sid now [] g = (NoActiveOtp, g)"
| "prefilter_loop K code pepper sid now (oid # ids) g =
     (case hget (by_id g) oid of
        None \<Rightarrow> prefilter_loop K code pepper sid now ids g
      | Some row \<Rightarrow>
        if so_consumed_at row \<noteq> None then prefilter_loop K code pepper sid now ids g
        else if so_expires_at row \<le> now then prefilter_loop K code pepper sid now ids g
        else if so_attempts row \<ge> MAX_OTP_ATTEMPTS then (OtpReject, g)
        else
          let row1 = row\<lparr>so_attempts := sat_add (so_attempts row) 1\<rparr> in
          if timestamp (so_expires_at row1) \<le> timestamp now then
            (OtpReject, g\<lparr>by_id := hput oid row1 (by_id g)\<rparr>)
          else (case verify_otp K code pepper (so_hash row1) of
             Inr _ \<Rightarrow> (OtpOk, g\<lparr>by_id := hput oid (row1\<lparr>so_session_intent_id := Some sid,
                so_attempts := sat_sub (so_attempts row1) 1\<rparr>) (by_id g)\<rparr>)
           | Inl _ \<Rightarrow> (OtpReject, g\<lparr>by_id := hput oid row1 (by_id g)\<rparr>)))"

definition prefilter_bind ::
  "crypto \<Rightarrow> int \<Rightarrow> string \<Rightarrow> bytes \<Rightarrow> string \<Rightarrow> datetime \<Rightarrow> otp_store \<Rightarrow> otp_prefilter_result \<times> otp_store" where
  "prefilter_bind K host code pepper sid now g =
     (case hget (by_host g) host of
        None \<Rightarrow> (NoActiveOtp, g)
      | Some ids \<Rightarrow> prefilter_loop K code pepper sid now (rev ids) g)"

fun consume_loop :: "string \<Rightarrow> datetime \<Rightarrow> int list \<Rightarrow> otp_store \<Rightarrow> (otp_store_error + unit) \<times> otp_store" where
  "consume_loop sid now [] g = (Inl NotFound, g)"
| "consume_loop sid now (oid # ids) g =
     (case hget (by_id g) oid of
        None \<Rightarrow> consume_loop sid now ids g
      | Some row \<Rightarrow>
        if so_session_intent_id row = Some sid then
          if so_consumed_at row \<noteq> None then (Inl Unavailable, g)
          else if so_expires_at row \<le> now then (Inl Unavailable, g)
          else (Inr (), g\<lparr>by_id := hput oid (row\<lparr>so_consumed_at := Some now\<rparr>) (by_id g)\<rparr>)
        else consume_loop sid now ids g)"

definition consume_for_session ::
  "int \<Rightarrow> string \<Rightarrow> datetime \<Rightarrow> otp_store \<Rightarrow> (otp_store_error + unit) \<times> otp_store" where
  "consume_for_session host sid now g =
     consume_loop sid now (case hget (by_host g) host of None \<Rightarrow> [] | Some ids \<Rightarrow> ids) g"

fun first_active :: "datetime \<Rightarrow> int list \<Rightarrow> otp_store \<Rightarrow> stored_otp option" where
  "first_active now [] g = None"
| "first_active now (oid # ids) g =
     (case hget (by_id g) oid of
        None \<Rightarrow> first_active now ids g
      | Some row \<Rightarrow> if so_consumed_at row = None \<and> so_expires_at row > now then Some row
                   else first_active now ids g)"

definition active_for_host :: "int \<Rightarrow> datetime \<Rightarrow> otp_store \<Rightarrow> stored_otp option" where
  "active_for_host host now g =
     (case hget (by_host g) host of None \<Rightarrow> None | Some ids \<Rightarrow> first_active now (rev ids) g)"

definition otp_get :: "int \<Rightarrow> otp_store \<Rightarrow> stored_otp option" where
  "otp_get oid g = hget (by_id g) oid"

section \<open>Requests\<close>

record otp_mint_request =
  digest_hex :: string
  salt_hex :: string
  req_keyed :: bool
  expires_in_secs :: "u64 option"

definition parse_hex_exact :: "crypto \<Rightarrow> nat \<Rightarrow> string \<Rightarrow> string + bytes" where
  "parse_hex_exact K n s =
     (case hex_decode K (trim s) of
        Inl e \<Rightarrow> Inl e
      | Inr bs \<Rightarrow> if length bs \<noteq> n
                 then Inl (''expected '' @ show_nat n @ '' bytes, got '' @ show_nat (length bs))
                 else Inr bs)"

definition parse_hash :: "crypto \<Rightarrow> otp_mint_request \<Rightarrow> otp_store_error + otp_hash" where
  "parse_hash K req =
     (case parse_hex_exact K 32 (digest_hex req) of
        Inl e \<Rightarrow> Inl (BadHash (''digest: '' @ e))
      | Inr d \<Rightarrow>
        (case parse_hex_exact K OTP_SALT_LEN (salt_hex req) of
           Inl e \<Rightarrow> Inl (BadHash (''salt: '' @ e))
         | Inr sl \<Rightarrow> Inr \<lparr>digest = d, salt = sl, keyed = req_keyed req\<rparr>))"

definition ttl_secs :: "otp_mint_request \<Rightarrow> otp_store_error + u64" where
  "ttl_secs req =
     (let secs = (case expires_in_secs req of None \<Rightarrow> DEFAULT_OTP_TTL_SECS | Some s \<Rightarrow> s) in
      if secs = 0 \<or> secs > MAX_OTP_TTL_SECS then
        Inl (BadHash (''expires_in_secs must be 1..='' @ show_word MAX_OTP_TTL_SECS))
      else Inr secs)"

section \<open>One window per host\<close>

text \<open>
  Each host has at most one row, listed under it; ids are below the counter; failed attempts
  never pass the cap.
\<close>

definition otp_inv :: "otp_store \<Rightarrow> bool" where
  "otp_inv g \<longleftrightarrow>
     (\<forall>h ids. hget (by_host g) h = Some ids \<longrightarrow>
        (\<exists>i row. ids = [i] \<and> hget (by_id g) i = Some row \<and> so_host_device_id row = h)) \<and>
     (\<forall>i row. hget (by_id g) i = Some row \<longrightarrow>
        hget (by_host g) (so_host_device_id row) = Some [i] \<and> i \<le> next_id g \<and> so_attempts row \<le> MAX_OTP_ATTEMPTS)"

lemma otp_invD:
  assumes "otp_inv g"
  shows "hget (by_host g) h = Some ids \<Longrightarrow> \<exists>i row. ids = [i] \<and> hget (by_id g) i = Some row \<and> so_host_device_id row = h"
    and "hget (by_id g) i = Some row \<Longrightarrow> hget (by_host g) (so_host_device_id row) = Some [i]"
    and "hget (by_id g) i = Some row \<Longrightarrow> i \<le> next_id g"
    and "hget (by_id g) i = Some row \<Longrightarrow> so_attempts row \<le> MAX_OTP_ATTEMPTS"
  using assms by (auto simp: otp_inv_def)

lemma otp_inv_new: "otp_inv new_otp_store"
  by (simp add: otp_inv_def new_otp_store_def)

text \<open>An update of one row in place that keeps its host and the cap.\<close>

lemma otp_inv_put:
  assumes inv: "otp_inv g" and row: "hget (by_id g) i = Some row"
    and row': "so_host_device_id row' = so_host_device_id row" "so_attempts row' \<le> MAX_OTP_ATTEMPTS"
  shows "otp_inv (g\<lparr>by_id := hput i row' (by_id g)\<rparr>)"
proof -
  have "\<exists>j r. ids = [j] \<and> hget (hput i row' (by_id g)) j = Some r \<and> so_host_device_id r = h"
    if h: "hget (by_host g) h = Some ids" for h ids
  proof -
    from otp_invD(1) [OF inv h] obtain j r where jr: "ids = [j]" "hget (by_id g) j = Some r" "so_host_device_id r = h"
      by blast
    with row row'(1) show ?thesis by (cases "j = i") auto
  qed
  with otp_invD(2-4) [OF inv] row row' show ?thesis unfolding otp_inv_def by auto
qed

lemma otp_inv_store:
  assumes inv: "otp_inv g"
  shows "otp_inv (snd (store_hash host h expires now g))"
proof -
  let ?n = "next_id g + 1"
  let ?old = "case hget (by_host g) host of None \<Rightarrow> [] | Some ids \<Rightarrow> ids"
  let ?row = "\<lparr>so_id = ?n, so_host_device_id = host, so_hash = h, so_expires_at = expires,
      so_consumed_at = None, so_session_intent_id = None, so_attempts = 0, so_created_at = now\<rparr>"
  let ?by_id = "hput ?n ?row (hdel_all ?old (by_id g))" and ?by_host = "hput host [?n] (hdel host (by_host g))"
  have old: "i \<in> set ?old \<longleftrightarrow> (\<exists>r. hget (by_id g) i = Some r \<and> so_host_device_id r = host)" for i
  proof (cases "hget (by_host g) host")
    case None
    then show ?thesis using otp_invD(2) [OF inv, of i] by auto
  next
    case (Some ids)
    from otp_invD(1) [OF inv this] Some show ?thesis using otp_invD(2) [OF inv, of i] by auto
  qed
  have get: "hget ?by_id i = Some r \<longleftrightarrow> i = ?n \<and> r = ?row \<or> i \<noteq> ?n \<and> hget (by_id g) i = Some r \<and> so_host_device_id r \<noteq> host"
    for i r using old [of i] by (auto simp: hget_hdel_all)
  have "\<exists>i r. ids = [i] \<and> hget ?by_id i = Some r \<and> so_host_device_id r = h'"
    if "hget ?by_host h' = Some ids" for h' ids
  proof (cases "h' = host")
    case True
    with that show ?thesis by (auto intro!: exI [of _ ?n])
  next
    case False
    with that have "hget (by_host g) h' = Some ids" by simp
    from otp_invD(1) [OF inv this] obtain i r where "ids = [i]" "hget (by_id g) i = Some r" "so_host_device_id r = h'"
      by blast
    moreover from this otp_invD(3) [OF inv, of i r] have "i \<noteq> ?n" by auto
    ultimately show ?thesis using get [of i r] False by auto
  qed
  moreover have "hget ?by_host (so_host_device_id r) = Some [i] \<and> i \<le> ?n \<and> so_attempts r \<le> MAX_OTP_ATTEMPTS"
    if "hget ?by_id i = Some r" for i r
    using that [unfolded get] otp_invD(2-4) [OF inv, of i r] by (auto simp: MAX_OTP_ATTEMPTS_def)
  ultimately show ?thesis by (simp add: otp_inv_def store_hash_def Let_def del: update_conv' delete_conv')
qed

text \<open>With one row per host, the loops look at that row only.\<close>

definition host_row :: "otp_store \<Rightarrow> int \<Rightarrow> (int \<times> stored_otp) option" where
  "host_row g host = (case hget (by_host g) host of
     Some [i] \<Rightarrow> map_option (\<lambda>r. (i, r)) (hget (by_id g) i) | _ \<Rightarrow> None)"

lemma host_row_cases:
  assumes "otp_inv g"
  obtains "hget (by_host g) host = None" "host_row g host = None"
  | i row where "hget (by_host g) host = Some [i]" "hget (by_id g) i = Some row" "so_host_device_id row = host"
      "host_row g host = Some (i, row)"
  using otp_invD(1) [OF assms, of host]
  by (cases "hget (by_host g) host") (fastforce simp: host_row_def)+

definition set_row :: "int \<Rightarrow> stored_otp \<Rightarrow> otp_store \<Rightarrow> otp_store" where
  "set_row i row g = g\<lparr>by_id := hput i row (by_id g)\<rparr>"

text \<open>The contract of one prefilter call, over the host's row.\<close>

definition prefilter_spec ::
  "crypto \<Rightarrow> string \<Rightarrow> bytes \<Rightarrow> string \<Rightarrow> datetime \<Rightarrow> stored_otp \<Rightarrow> otp_prefilter_result \<times> stored_otp" where
  "prefilter_spec K code pepper sid now row =
     (if so_consumed_at row \<noteq> None \<or> so_expires_at row \<le> now then (NoActiveOtp, row)
      else if so_attempts row \<ge> MAX_OTP_ATTEMPTS then (OtpReject, row)
      else if timestamp (so_expires_at row) \<le> timestamp now \<or> verify_otp K code pepper (so_hash row) \<noteq> Inr ()
      then (OtpReject, row\<lparr>so_attempts := so_attempts row + 1\<rparr>)
      else (OtpOk, row\<lparr>so_session_intent_id := Some sid\<rparr>))"

lemma attempts_word:
  assumes "\<not> (MAX_OTP_ATTEMPTS \<le> a)"
  shows "sat_add a 1 = a + 1" "sat_sub (a + 1) 1 = a" "a + 1 \<le> MAX_OTP_ATTEMPTS"
proof -
  from assms have lt: "unat a < 5" by (simp add: MAX_OTP_ATTEMPTS_def word_le_nat_alt)
  then show add: "sat_add a 1 = a + 1" by (simp add: sat_add_def)
  from lt have u: "unat (a + 1) = unat a + 1" by (simp add: unat_word_ariths)
  then have "unat (sat_sub (a + 1) 1) = unat a" by (simp add: unat_sat_sub)
  then show "sat_sub (a + 1) 1 = a" by (simp add: word_unat_eq_iff)
  from u lt show "a + 1 \<le> MAX_OTP_ATTEMPTS" by (simp add: word_le_nat_alt MAX_OTP_ATTEMPTS_def)
qed

lemma prefilter_bind_spec:
  assumes "otp_inv g"
  shows "prefilter_bind K host code pepper sid now g =
    (case host_row g host of None \<Rightarrow> (NoActiveOtp, g)
     | Some (i, row) \<Rightarrow>
         (let (res, row') = prefilter_spec K code pepper sid now row in
          (res, if row' = row \<and> res \<noteq> OtpOk then g else set_row i row' g)))"
proof (cases rule: host_row_cases [OF assms, of host])
  case (2 i row)
  have ne: "row\<lparr>so_attempts := so_attempts row + 1\<rparr> \<noteq> row"
    by (metis add_cancel_left_right stored_otp.select_convs(7) stored_otp.surjective stored_otp.update_convs(7) zero_neq_one)
  show ?thesis
  proof (cases "so_consumed_at row \<noteq> None \<or> so_expires_at row \<le> now \<or> MAX_OTP_ATTEMPTS \<le> so_attempts row")
    case True
    with 2 show ?thesis by (auto simp: prefilter_bind_def prefilter_spec_def)
  next
    case False
    then show ?thesis using 2 ne attempts_word [of "so_attempts row"]
      by (cases "verify_otp K code pepper (so_hash row)")
        (auto simp: prefilter_bind_def prefilter_spec_def set_row_def Let_def)
  qed
qed (simp add: prefilter_bind_def)

lemma consume_for_session_spec:
  assumes "otp_inv g"
  shows "consume_for_session host sid now g =
    (case host_row g host of None \<Rightarrow> (Inl NotFound, g)
     | Some (i, row) \<Rightarrow>
         if so_session_intent_id row \<noteq> Some sid then (Inl NotFound, g)
         else if so_consumed_at row \<noteq> None \<or> so_expires_at row \<le> now then (Inl Unavailable, g)
         else (Inr (), set_row i (row\<lparr>so_consumed_at := Some now\<rparr>) g))"
  by (cases rule: host_row_cases [OF assms, of host]) (auto simp: consume_for_session_def set_row_def)

lemma prefilter_spec_frame:
  "so_host_device_id (snd (prefilter_spec K code pepper sid now row)) = so_host_device_id row"
  "so_consumed_at (snd (prefilter_spec K code pepper sid now row)) = so_consumed_at row"
  "so_expires_at (snd (prefilter_spec K code pepper sid now row)) = so_expires_at row"
  "so_hash (snd (prefilter_spec K code pepper sid now row)) = so_hash row"
  "so_attempts row \<le> MAX_OTP_ATTEMPTS \<Longrightarrow> so_attempts (snd (prefilter_spec K code pepper sid now row)) \<le> MAX_OTP_ATTEMPTS"
  using attempts_word [of "so_attempts row"] by (auto simp: prefilter_spec_def)

lemma otp_inv_set_row:
  assumes "otp_inv g" and "host_row g host = Some (i, row)"
    and "so_host_device_id row' = so_host_device_id row" and "so_attempts row' \<le> MAX_OTP_ATTEMPTS"
  shows "otp_inv (set_row i row' g)" and "host_row (set_row i row' g) host = Some (i, row')"
proof -
  have r: "hget (by_id g) i = Some row" "hget (by_host g) host = Some [i]"
    using assms(2) by (cases rule: host_row_cases [OF assms(1), of host]; simp)+
  then show "otp_inv (set_row i row' g)" using otp_inv_put [OF assms(1)] assms(3,4) by (simp add: set_row_def)
  from r show "host_row (set_row i row' g) host = Some (i, row')" by (simp add: host_row_def set_row_def)
qed

lemma host_row_attempts:
  "otp_inv g \<Longrightarrow> host_row g host = Some (i, row) \<Longrightarrow> so_attempts row \<le> MAX_OTP_ATTEMPTS"
  by (cases rule: host_row_cases [of g host]) (auto dest: otp_invD(4))

lemma prefilter_bind_row:
  assumes "otp_inv g" and "host_row g host = Some (i, row)"
  shows "fst (prefilter_bind K host code pepper sid now g) = fst (prefilter_spec K code pepper sid now row)"
    and "otp_inv (snd (prefilter_bind K host code pepper sid now g))"
    and "host_row (snd (prefilter_bind K host code pepper sid now g)) host =
      Some (i, snd (prefilter_spec K code pepper sid now row))"
  using otp_inv_set_row [OF assms, where row' = "snd (prefilter_spec K code pepper sid now row)"]
    host_row_attempts [OF assms] prefilter_spec_frame [where K = K and code = code and pepper = pepper and sid = sid and now = now and row = row] assms
  by (auto simp: prefilter_bind_spec [OF assms(1)] prod.case_eq_if Let_def)

lemma otp_inv_prefilter:
  assumes "otp_inv g"
  shows "otp_inv (snd (prefilter_bind K host code pepper sid now g))"
proof (cases "host_row g host")
  case None
  with assms show ?thesis by (simp add: prefilter_bind_spec [OF assms])
next
  case (Some ir)
  then obtain i row where "host_row g host = Some (i, row)" by (cases ir) auto
  from prefilter_bind_row(2) [OF assms this] show ?thesis .
qed

lemma otp_inv_consume:
  assumes "otp_inv g"
  shows "otp_inv (snd (consume_for_session host sid now g))"
  using otp_inv_set_row(1) [OF assms, of host] host_row_attempts [OF assms, of host] assms
  by (auto simp: consume_for_session_spec [OF assms] split: option.split)

inductive otp_step :: "crypto \<Rightarrow> otp_store \<Rightarrow> otp_store \<Rightarrow> bool" for K :: crypto where
  step_store: "otp_step K g (snd (store_hash host h expires now g))"
| step_prefilter: "otp_step K g (snd (prefilter_bind K host code pepper sid now g))"
| step_consume: "otp_step K g (snd (consume_for_session host sid now g))"

definition otp_reachable :: "crypto \<Rightarrow> otp_store \<Rightarrow> bool" where
  "otp_reachable K g \<longleftrightarrow> (otp_step K)\<^sup>*\<^sup>* new_otp_store g"

lemma otp_reachable_inv:
  assumes "otp_reachable K g"
  shows "otp_inv g"
  using assms unfolding otp_reachable_def
proof (induction rule: rtranclp_induct)
  case (step g g')
  from step.hyps(2) step.IH show ?case
    by (induction rule: otp_step.induct) (simp_all add: otp_inv_store otp_inv_prefilter otp_inv_consume)
qed (rule otp_inv_new)

lemma otp_reachable_init: "otp_reachable K new_otp_store"
  by (simp add: otp_reachable_def)

lemma otp_reachable_step: "otp_reachable K g \<Longrightarrow> otp_step K g g' \<Longrightarrow> otp_reachable K g'"
  unfolding otp_reachable_def by (rule rtranclp.rtrancl_into_rtrancl)

section \<open>Properties of the store\<close>

text \<open>
  In every reachable store a host has at most one row, whatever was minted, checked and
  consumed before, and no row has counted more than five failed attempts.
\<close>

theorem single_window_per_host:
  assumes "otp_reachable K g"
    and "otp_get i g = Some r" and "otp_get j g = Some s" and "so_host_device_id r = so_host_device_id s"
  shows "i = j \<and> so_attempts r \<le> 5"
  using otp_invD(2,4) [OF otp_reachable_inv [OF assms(1)]] assms(2-4)
  by (metis MAX_OTP_ATTEMPTS_def list.inject option.inject otp_get_def)

definition demo_hash :: otp_hash where
  "demo_hash = \<lparr>digest = [1] @ OTP_HASH_DOMAIN @ replicate 16 5 @ utf8_bytes ''123456'', salt = replicate 16 5, keyed = True\<rparr>"

text \<open>A store in which host 4 minted twice.\<close>

definition demo_store :: otp_store where
  "demo_store = snd (store_hash 4 demo_hash 300000000000 0 (snd (store_hash 4 demo_hash 200000000000 0 new_otp_store)))"

lemma demo_store_reachable: "otp_reachable toy_crypto demo_store"
  unfolding demo_store_def
  by (intro otp_reachable_step [OF _ step_store] otp_reachable_init)

lemma demo_store_eq: "demo_store = \<lparr>by_id = [(2, \<lparr>so_id = 2, so_host_device_id = 4, so_hash = demo_hash,
    so_expires_at = 300000000000, so_consumed_at = None, so_session_intent_id = None, so_attempts = 0,
    so_created_at = 0\<rparr>)], by_host = [(4, [2])], next_id = 2\<rparr>"
  by (simp add: demo_store_def store_hash_def new_otp_store_def hdel_all_def Let_def)

theorem single_window_per_host_witness:
  "\<exists>r. otp_get 2 demo_store = Some r \<and> so_host_device_id r = 4 \<and> so_attempts r \<le> 5"
  using single_window_per_host [OF demo_store_reachable, of 2 _ 2]
  by (simp add: demo_store_eq otp_get_def)

lemma demo_verify:
  "verify_otp toy_crypto code [1] demo_hash = Inr () \<longleftrightarrow> well_formed_code code \<and> code = ''123456''"
  by (simp add: verify_otp_keyed demo_hash_def toy_crypto_def)

text \<open>Prefilter calls of one host, one after the other; a guess is a code, pepper, session and time.\<close>

type_synonym guess = "string \<times> bytes \<times> string \<times> datetime"

primrec guess_run :: "crypto \<Rightarrow> int \<Rightarrow> guess list \<Rightarrow> otp_store \<Rightarrow> otp_store" where
  "guess_run K host [] g = g"
| "guess_run K host (c # cs) g =
     guess_run K host cs (snd (case c of (code, pepper, sid, now) \<Rightarrow> prefilter_bind K host code pepper sid now g))"

definition wrong_guess :: "crypto \<Rightarrow> stored_otp \<Rightarrow> guess \<Rightarrow> bool" where
  "wrong_guess K row c = (case c of (code, pepper, sid, now) \<Rightarrow>
     now < so_expires_at row \<and> verify_otp K code pepper (so_hash row) \<noteq> Inr ())"

lemma guess_run_counts:
  assumes "otp_inv g" and "host_row g host = Some (i, row)" and "so_consumed_at row = None"
    and "list_all (wrong_guess K row) cs"
  shows "otp_inv (guess_run K host cs g) \<and> (\<exists>row'. host_row (guess_run K host cs g) host = Some (i, row') \<and>
    unat (so_attempts row') = min 5 (unat (so_attempts row) + length cs))"
  using assms
proof (induction cs arbitrary: g row)
  case Nil
  then show ?case using host_row_attempts [of g host i row] by (auto simp: word_le_nat_alt MAX_OTP_ATTEMPTS_def)
next
  case (Cons c cs)
  obtain code pepper sid now where c: "c = (code, pepper, sid, now)" by (cases c)
  let ?row1 = "snd (prefilter_spec K code pepper sid now row)"
  note step = prefilter_bind_row [OF Cons.prems(1,2), of K code pepper sid now]
  note frame = prefilter_spec_frame [where K = K and code = code and pepper = pepper and sid = sid and now = now and row = row]
  have "list_all (wrong_guess K ?row1) cs"
    using Cons.prems(4) frame(3,4) by (auto simp: list_all_iff wrong_guess_def split: prod.splits)
  note IH = Cons.IH [OF step(2,3) frame(2) [unfolded Cons.prems(3)] this]
  have "unat (so_attempts ?row1) = min 5 (unat (so_attempts row) + 1)"
  proof (cases "MAX_OTP_ATTEMPTS \<le> so_attempts row")
    case True
    with host_row_attempts [OF Cons.prems(1,2)] Cons.prems(3,4) c show ?thesis
      by (auto simp: prefilter_spec_def wrong_guess_def MAX_OTP_ATTEMPTS_def word_le_nat_alt)
  next
    case False
    then have lt: "unat (so_attempts row) < 5" by (simp add: MAX_OTP_ATTEMPTS_def word_le_nat_alt)
    with False Cons.prems(3,4) c show ?thesis
      by (auto simp: prefilter_spec_def wrong_guess_def unat_word_ariths)
  qed
  with IH c show ?case by auto
qed



section \<open>Consume-once\<close>

datatype host_call = Prefilter string bytes string datetime | Consume string datetime

fun run_host_call :: "crypto \<Rightarrow> int \<Rightarrow> host_call \<Rightarrow> otp_store \<Rightarrow> bool \<times> otp_store" where
  "run_host_call K host (Prefilter code pepper sid now) g = (False, snd (prefilter_bind K host code pepper sid now g))"
| "run_host_call K host (Consume sid now) g =
     (let (res, g') = consume_for_session host sid now g in (res = Inr (), g'))"

text \<open>The number of successful consumptions in a run of calls for one host.\<close>

primrec consumptions :: "crypto \<Rightarrow> int \<Rightarrow> host_call list \<Rightarrow> otp_store \<Rightarrow> nat" where
  "consumptions K host [] g = 0"
| "consumptions K host (c # cs) g =
     (if fst (run_host_call K host c g) then 1 else 0) + consumptions K host cs (snd (run_host_call K host c g))"

lemma consumed_stays:
  assumes "otp_inv g" and "host_row g host = Some (i, row)" and "so_consumed_at row \<noteq> None"
  shows "consumptions K host cs g = 0"
  using assms
proof (induction cs arbitrary: g row)
  case (Cons c cs)
  show ?case
  proof (cases c)
    case (Prefilter code pepper sid now)
    have "snd (prefilter_spec K code pepper sid now row) = row"
      using Cons.prems(3) by (simp add: prefilter_spec_def)
    with Cons.IH [OF prefilter_bind_row(2,3) [OF Cons.prems(1,2)]] Cons.prems(3) Prefilter show ?thesis by simp
  next
    case (Consume sid now)
    with Cons show ?thesis by (auto simp: consume_for_session_spec [OF Cons.prems(1)])
  qed
qed simp

lemma consumptions_le_1:
  assumes "otp_inv g"
  shows "consumptions K host cs g \<le> 1"
  using assms
proof (induction cs arbitrary: g)
  case (Cons c cs)
  show ?case
  proof (cases c)
    case (Prefilter code pepper sid now)
    with Cons.IH [OF otp_inv_prefilter [OF Cons.prems]] show ?thesis by simp
  next
    case (Consume sid now)
    show ?thesis
    proof (cases "fst (consume_for_session host sid now g) = Inr ()")
      case True
      then obtain i row where row: "host_row g host = Some (i, row)"
        and g': "snd (consume_for_session host sid now g) = set_row i (row\<lparr>so_consumed_at := Some now\<rparr>) g"
        by (auto simp: consume_for_session_spec [OF Cons.prems] split: option.splits if_splits)
      have "host_row (set_row i (row\<lparr>so_consumed_at := Some now\<rparr>) g) host = Some (i, row\<lparr>so_consumed_at := Some now\<rparr>)"
        and "otp_inv (set_row i (row\<lparr>so_consumed_at := Some now\<rparr>) g)"
        using otp_inv_set_row [OF Cons.prems row] host_row_attempts [OF Cons.prems row] by simp_all
      then have "consumptions K host cs (snd (consume_for_session host sid now g)) = 0"
        using consumed_stays unfolding g' by fastforce
      with Consume True show ?thesis by (simp add: prod.case_eq_if)
    next
      case False
      with Consume Cons.IH [OF otp_inv_consume [OF Cons.prems]] show ?thesis by (simp add: prod.case_eq_if)
    qed
  qed
qed simp

text \<open>
  Consume-once. Between two mints of a host, in any run of prefilter and consume calls for it,
  at most one consumption succeeds: a code opens at most one session.
\<close>

theorem consume_at_most_once:
  assumes "otp_reachable K g"
  shows "consumptions K host calls g \<le> 1"
  by (rule consumptions_le_1 [OF otp_reachable_inv [OF assms]])

theorem consume_at_most_once_witness:
  "consumptions toy_crypto 4 [Prefilter ''123456'' [1] ''S'' 9, Consume ''S'' 10, Consume ''S'' 11] demo_store \<le> 1"
  by (rule consume_at_most_once [OF demo_store_reachable])

text \<open>
  Only the session the code was last bound to can consume it. In a reachable store a
  consumption succeeds exactly when the host's row is bound to that session, unconsumed and
  unexpired; afterwards the host has no active code.
\<close>

theorem consume_only_bound_session:
  assumes "otp_reachable K g"
  shows "(fst (consume_for_session host sid now g) = Inr () \<longleftrightarrow>
      (\<exists>i row. host_row g host = Some (i, row) \<and> so_session_intent_id row = Some sid \<and>
         so_consumed_at row = None \<and> now < so_expires_at row)) \<and>
    (fst (consume_for_session host sid now g) = Inr () \<longrightarrow>
      active_for_host host now' (snd (consume_for_session host sid now g)) = None)"
proof -
  note inv = otp_reachable_inv [OF assms]
  show ?thesis
    by (cases rule: host_row_cases [OF inv, of host])
      (auto simp: consume_for_session_spec [OF inv] active_for_host_def set_row_def not_le)
qed

theorem consume_only_bound_session_witness:
  "fst (consume_for_session 4 ''S'' 10 demo_store) \<noteq> Inr ()"
  using consume_only_bound_session [OF demo_store_reachable, of 4 "''S''" 10]
  by (simp add: demo_store_eq host_row_def)

end
