(* ===== verification/Auth_Attempts.thy ===== *)
theory Auth_Attempts
  imports RL_Prelude
begin

text \<open>
  The brute-force lockout of the server (\<open>apps/server/src/security/auth_attempts.rs\<close>): per key, a
  counter of consecutive failures and an exponentially growing lockout. The mutex makes every
  operation atomic; \<open>now\<close> is the \<open>Instant\<close> it is given.
\<close>

section \<open>State\<close>

record attempt_config =
  max_failures_before_lockout :: u32
  base_lockout :: duration
  max_lockout :: duration
  failure_window :: duration

definition default_attempt_config :: attempt_config where
  "default_attempt_config = \<lparr>max_failures_before_lockout = 5, base_lockout = secs 2,
     max_lockout = secs 3600, failure_window = secs (15 * 60)\<rparr>"

record lockout_active =
  la_retry_after :: duration
  la_failures :: u32

definition show_lockout_active :: "lockout_active \<Rightarrow> string" where
  "show_lockout_active e = ''too many auth attempts; retry after '' @
     show_nat (max (as_secs (la_retry_after e)) 1) @ ''s''"

record attempt_record =
  ar_failures :: u32
  ar_last_failure :: instant
  ar_locked_until :: "instant option"

record attempt_tracker =
  at_config :: attempt_config
  at_records :: "(string, attempt_record) hashmap"

definition new_tracker :: "attempt_config \<Rightarrow> attempt_tracker" where
  "new_tracker cfg = \<lparr>at_config = cfg, at_records = []\<rparr>"

definition key_ip :: "string \<Rightarrow> string" where
  "key_ip ip = ''ip:'' @ ip"

definition key_device :: "string \<Rightarrow> string" where
  "key_device device_public_id = ''device:'' @ device_public_id"

definition key_device_ip :: "string \<Rightarrow> string \<Rightarrow> string" where
  "key_device_ip device_public_id ip = ''device_ip:'' @ device_public_id @ '':'' @ ip"

section \<open>Operations\<close>

definition compute_lockout :: "duration \<Rightarrow> duration \<Rightarrow> u32 \<Rightarrow> duration" where
  "compute_lockout base cap over_threshold =
     (let mult = (2::nat) ^ min (unat over_threshold) 20;
          s = min (as_secs base * mult) (2 ^ 64 - 1)
      in secs (max (min s (as_secs cap)) 1))"

definition attempt_check :: "string \<Rightarrow> instant \<Rightarrow> attempt_tracker \<Rightarrow> (lockout_active + unit) \<times> attempt_tracker" where
  "attempt_check key now t =
     (case hget (at_records t) key of
        None \<Rightarrow> (Inr (), t)
      | Some rec \<Rightarrow>
        if ar_locked_until rec = None \<and> now - ar_last_failure rec > failure_window (at_config t) then
          (Inr (), t\<lparr>at_records := hdel key (at_records t)\<rparr>)
        else (case ar_locked_until rec of
           None \<Rightarrow> (Inr (), t)
         | Some until \<Rightarrow>
             if now < until then (Inl \<lparr>la_retry_after = until - now, la_failures = ar_failures rec\<rparr>, t)
             else (Inr (), t\<lparr>at_records := hput key (rec\<lparr>ar_locked_until := None\<rparr>) (at_records t)\<rparr>)))"

definition record_failure :: "string \<Rightarrow> instant \<Rightarrow> attempt_tracker \<Rightarrow> duration option \<times> attempt_tracker" where
  "record_failure key now t =
     (let rec0 = (case hget (at_records t) key of
                    None \<Rightarrow> \<lparr>ar_failures = 0, ar_last_failure = now, ar_locked_until = None\<rparr>
                  | Some r \<Rightarrow> r);
          rec1 = (if now - ar_last_failure rec0 > failure_window (at_config t)
                  then rec0\<lparr>ar_failures := 0, ar_locked_until := None\<rparr> else rec0);
          rec2 = rec1\<lparr>ar_failures := sat_add (ar_failures rec1) 1, ar_last_failure := now\<rparr>;
          put = (\<lambda>r. t\<lparr>at_records := hput key r (at_records t)\<rparr>)
      in if ar_failures rec2 \<ge> max_failures_before_lockout (at_config t) then
           let over = sat_sub (ar_failures rec2) (max_failures_before_lockout (at_config t));
               lockout = compute_lockout (base_lockout (at_config t)) (max_lockout (at_config t)) over
           in (Some lockout, put (rec2\<lparr>ar_locked_until := Some (now + lockout)\<rparr>))
         else (case ar_locked_until rec2 of
            Some until \<Rightarrow> if now < until then (Some (until - now), put rec2)
                          else (None, put (rec2\<lparr>ar_locked_until := None\<rparr>))
          | None \<Rightarrow> (None, put rec2)))"

definition record_success :: "string \<Rightarrow> attempt_tracker \<Rightarrow> attempt_tracker" where
  "record_success key t = t\<lparr>at_records := hdel key (at_records t)\<rparr>"

definition attempt_failures :: "string \<Rightarrow> attempt_tracker \<Rightarrow> u32" where
  "attempt_failures key t = (case hget (at_records t) key of None \<Rightarrow> 0 | Some r \<Rightarrow> ar_failures r)"

definition attempt_clear :: "attempt_tracker \<Rightarrow> attempt_tracker" where
  "attempt_clear t = t\<lparr>at_records := []\<rparr>"

section \<open>The lockout duration\<close>

lemma as_secs_compute_lockout:
  "as_secs (compute_lockout base cap over) =
     max (min (min (as_secs base * 2 ^ min (unat over) 20) (2 ^ 64 - 1)) (as_secs cap)) 1"
  by (simp add: compute_lockout_def Let_def)

lemma compute_lockout_mono:
  assumes "unat over \<le> unat over'"
  shows "compute_lockout base cap over \<le> compute_lockout base cap over'"
proof -
  have "(2::nat) ^ min (unat over) 20 \<le> 2 ^ min (unat over') 20"
    using assms by (intro power_increasing) auto
  then have "as_secs base * 2 ^ min (unat over) 20 \<le> as_secs base * 2 ^ min (unat over') 20" by simp
  then show ?thesis unfolding compute_lockout_def Let_def
    by (intro mult_le_mono1 max.mono min.mono order_refl)
qed

lemma compute_lockout_exact:
  assumes "as_secs cap < 2 ^ 64" "unat over \<le> 20" "1 \<le> as_secs base" "as_secs base * 2 ^ unat over \<le> as_secs cap"
  shows "compute_lockout base cap over = secs (as_secs base * 2 ^ unat over)"
proof -
  have "1 \<le> as_secs base * 2 ^ unat over" using assms(3) by (simp add: Suc_le_eq)
  with assms show ?thesis by (simp add: compute_lockout_def Let_def min_absorb1 max_absorb1)
qed

text \<open>
  The lockout is at least one second and at most the cap (when the cap is at least a
  second), does not shrink as failures accumulate, and is the base doubled once per failure over
  the threshold, up to twenty times, as long as that stays under the cap.
\<close>

theorem compute_lockout_bounds:
  "secs 1 \<le> compute_lockout base cap over \<and>
   compute_lockout base cap over \<le> secs (max (as_secs cap) 1) \<and>
   (unat over \<le> unat over' \<longrightarrow> compute_lockout base cap over \<le> compute_lockout base cap over') \<and>
   (as_secs cap < 2 ^ 64 \<and> unat over \<le> 20 \<and> 1 \<le> as_secs base \<and> as_secs base * 2 ^ unat over \<le> as_secs cap \<longrightarrow>
     compute_lockout base cap over = secs (as_secs base * 2 ^ unat over))"
  using compute_lockout_mono compute_lockout_exact by (simp add: compute_lockout_def Let_def)

theorem compute_lockout_bounds_witness:
  "compute_lockout (secs 2) (secs 3600) 3 = secs 16"
  using compute_lockout_bounds [of "secs 2" "secs 3600" 3 3] by (simp add: as_secs_def)

section \<open>The lock\<close>

lemma record_failure_locked:
  "case hget (at_records (snd (record_failure key now t))) key of None \<Rightarrow> False
   | Some r \<Rightarrow> ar_last_failure r = now \<and> ar_locked_until r = map_option (\<lambda>d. now + d) (fst (record_failure key now t))"
  by (auto simp: record_failure_def Let_def split: option.split)

lemma record_failure_config [simp]: "at_config (snd (record_failure key now t)) = at_config t"
  by (auto simp: record_failure_def Let_def split: option.split)

lemma attempt_check_config [simp]: "at_config (snd (attempt_check key now t)) = at_config t"
  by (auto simp: attempt_check_def split: option.split)

text \<open>
  The lockout that \<open>record_failure\<close> reports is the one \<open>check\<close> enforces: right after a failure
  at \<open>now\<close>, a check at \<open>now'\<close> fails exactly when a lockout was reported and has not run out, and
  the error then names the remaining time.
\<close>

theorem reported_lockout_is_enforced:
  "fst (attempt_check key now' (snd (record_failure key now t))) =
     (case fst (record_failure key now t) of
        None \<Rightarrow> Inr ()
      | Some d \<Rightarrow> if now' < now + d
                  then Inl \<lparr>la_retry_after = now + d - now',
                            la_failures = attempt_failures key (snd (record_failure key now t))\<rparr>
                  else Inr ())"
  using record_failure_locked [where key = key and now = now and t = t]
  by (cases "fst (record_failure key now t)") (auto simp: attempt_check_def attempt_failures_def split: option.splits)

lemma other_key:
  assumes "key \<noteq> key'"
  shows "hget (at_records (snd (attempt_check key now t))) key' = hget (at_records t) key'"
    and "hget (at_records (snd (record_failure key now t))) key' = hget (at_records t) key'"
    and "hget (at_records (record_success key t)) key' = hget (at_records t) key'"
  using assms by (auto simp: attempt_check_def record_failure_def record_success_def Let_def split: option.split)

lemma attempt_check_cong:
  assumes "hget (at_records t) key = hget (at_records t') key" and "at_config t = at_config t'"
  shows "fst (attempt_check key now t) = fst (attempt_check key now t')"
  using assms by (auto simp: attempt_check_def split: option.split)

text \<open>
  Keys are independent: a check, a failure and a success of one key leave the record of
  every other key, and so every later answer about it, unchanged.
\<close>

theorem keys_are_independent:
  assumes "key \<noteq> key'"
  shows "fst (attempt_check key' now' (snd (record_failure key now t))) = fst (attempt_check key' now' t) \<and>
    fst (attempt_check key' now' (snd (attempt_check key now t))) = fst (attempt_check key' now' t) \<and>
    fst (attempt_check key' now' (record_success key t)) = fst (attempt_check key' now' t) \<and>
    attempt_failures key' (snd (record_failure key now t)) = attempt_failures key' t"
  using other_key [OF assms] by (auto intro!: attempt_check_cong simp: attempt_failures_def record_success_def)

theorem keys_are_independent_witness:
  "fst (attempt_check (key_ip ''b'') 5 (snd (record_failure (key_ip ''a'') 0 (new_tracker default_attempt_config)))) = Inr ()"
  using keys_are_independent [of "key_ip ''a''" "key_ip ''b''" 5 0 "new_tracker default_attempt_config"]
  by (simp add: key_ip_def attempt_check_def new_tracker_def)

section \<open>A guarded run of failures\<close>

text \<open>
  The server's use: an attempt is admitted by \<open>check\<close> and, when it fails, recorded at the same
  instant. \<open>lockouts\<close> lists the lockouts reported over a run of failing attempts.
\<close>

definition failed_attempt :: "string \<Rightarrow> instant \<Rightarrow> attempt_tracker \<Rightarrow> duration option \<times> attempt_tracker" where
  "failed_attempt key now t =
     (case attempt_check key now t of
        (Inl _, t1) \<Rightarrow> (None, t1)
      | (Inr _, t1) \<Rightarrow> record_failure key now t1)"

primrec lockouts :: "string \<Rightarrow> instant list \<Rightarrow> attempt_tracker \<Rightarrow> duration option list" where
  "lockouts key [] t = []"
| "lockouts key (now # ts) t =
     fst (failed_attempt key now t) # lockouts key ts (snd (failed_attempt key now t))"

text \<open>
  Under the default configuration: at most fourteen failures are ever counted, a record
  with five or more is locked for its doubled base lockout, and the last failure is in the past.
\<close>

definition default_rec :: "instant \<Rightarrow> attempt_record \<Rightarrow> bool" where
  "default_rec now r \<longleftrightarrow> ar_last_failure r \<le> now \<and> unat (ar_failures r) \<le> 14 \<and>
     (unat (ar_failures r) < 5 \<longrightarrow> ar_locked_until r = None) \<and>
     (5 \<le> unat (ar_failures r) \<longrightarrow>
        ar_locked_until r = Some (ar_last_failure r + secs (2 * 2 ^ (unat (ar_failures r) - 5))))"

definition default_run :: "string \<Rightarrow> instant \<Rightarrow> attempt_tracker \<Rightarrow> bool" where
  "default_run key now t \<longleftrightarrow> at_config t = default_attempt_config \<and>
     (case hget (at_records t) key of None \<Rightarrow> True | Some r \<Rightarrow> default_rec now r)"

lemma default_lockout:
  assumes "unat over \<le> 9"
  shows "compute_lockout (secs 2) (secs 3600) over = secs (2 * 2 ^ unat over)"
proof -
  have "(2::nat) ^ unat over \<le> 2 ^ 9" using assms by (intro power_increasing) auto
  then show ?thesis using assms compute_lockout_exact [of "secs 3600" over "secs 2"]
    by (simp add: as_secs_def)
qed

text \<open>One failure counted on top of \<open>n < 14\<close> others.\<close>

lemma default_rec_failure:
  fixes f :: u32
  assumes "unat f \<le> 13"
    and "r' = (if sat_add f 1 \<ge> 5 then r\<lparr>ar_failures := sat_add f 1, ar_last_failure := now,
        ar_locked_until := Some (now + compute_lockout (secs 2) (secs 3600) (sat_sub (sat_add f 1) 5))\<rparr>
      else r\<lparr>ar_failures := sat_add f 1, ar_last_failure := now, ar_locked_until := None\<rparr>)"
  shows "default_rec now r'"
proof -
  have f1: "unat (sat_add f 1) = unat f + 1" using assms(1) by (simp add: unat_sat_add)
  have ge: "5 \<le> sat_add f 1 \<longleftrightarrow> 5 \<le> unat f + 1" by (simp add: word_le_nat_alt f1)
  show ?thesis
  proof (cases "5 \<le> unat f + 1")
    case True
    then have "compute_lockout (secs 2) (secs 3600) (sat_sub (sat_add f 1) 5) = secs (2 * 2 ^ (unat f + 1 - 5))"
      using assms(1) default_lockout [of "sat_sub (sat_add f 1) 5"] by (simp add: unat_sat_sub f1)
    with True assms f1 ge show ?thesis by (simp add: default_rec_def)
  next
    case False
    with assms f1 ge show ?thesis by (simp add: default_rec_def)
  qed
qed

lemma default_failure_step:
  assumes "at_config t = default_attempt_config"
    and "case hget (at_records t) key of None \<Rightarrow> True
         | Some r \<Rightarrow> ar_locked_until r = None \<and> unat (ar_failures r) \<le> 14 \<and>
             (unat (ar_failures r) = 14 \<longrightarrow> now - ar_last_failure r > secs 900)"
  shows "default_run key now (snd (record_failure key now t))"
proof -
  let ?r0 = "case hget (at_records t) key of
      None \<Rightarrow> \<lparr>ar_failures = 0, ar_last_failure = now, ar_locked_until = None\<rparr> | Some r \<Rightarrow> r"
  let ?r1 = "if now - ar_last_failure ?r0 > secs 900 then ?r0\<lparr>ar_failures := 0, ar_locked_until := None\<rparr> else ?r0"
  have r1: "unat (ar_failures ?r1) \<le> 13 \<and> ar_locked_until ?r1 = None"
    using assms(2) by (auto split: option.splits)
  let ?r2 = "if sat_add (ar_failures ?r1) 1 \<ge> 5
      then ?r1\<lparr>ar_failures := sat_add (ar_failures ?r1) 1, ar_last_failure := now, ar_locked_until :=
        Some (now + compute_lockout (secs 2) (secs 3600) (sat_sub (sat_add (ar_failures ?r1) 1) 5))\<rparr>
      else ?r1\<lparr>ar_failures := sat_add (ar_failures ?r1) 1, ar_last_failure := now, ar_locked_until := None\<rparr>"
  have win: "failure_window (at_config t) = secs 900" "max_failures_before_lockout (at_config t) = 5"
      "base_lockout (at_config t) = secs 2" "max_lockout (at_config t) = secs 3600"
    by (simp_all add: assms(1) default_attempt_config_def)
  have upd: "r\<lparr>ar_failures := a, ar_last_failure := b\<rparr> = r\<lparr>ar_failures := a, ar_last_failure := b, ar_locked_until := None\<rparr>"
    if "ar_locked_until r = None" for r a b
    using that by (cases r) simp
  have "hget (at_records (snd (record_failure key now t))) key = Some ?r2"
    unfolding record_failure_def win Let_def using r1 upd [of ?r1] by simp
  moreover have "default_rec now ?r2" using r1 by (intro default_rec_failure [OF _ refl]) simp
  ultimately show ?thesis by (simp add: default_run_def assms(1))
qed

lemma default_attempt_step:
  assumes "default_run key now0 t" and "now0 \<le> now"
  shows "default_run key now (snd (failed_attempt key now t))"
proof -
  have cfg: "at_config t = default_attempt_config" using assms(1) by (simp add: default_run_def)
  then have win: "failure_window (at_config t) = secs 900" by (simp add: default_attempt_config_def)
  show ?thesis
  proof (cases "fst (attempt_check key now t)")
    case (Inl e)
    with assms cfg show ?thesis
      by (auto simp: failed_attempt_def attempt_check_def default_run_def default_rec_def split: option.splits if_splits)
  next
    case (Inr u)
    let ?t1 = "snd (attempt_check key now t)"
    have "case hget (at_records ?t1) key of None \<Rightarrow> True
         | Some r \<Rightarrow> ar_locked_until r = None \<and> unat (ar_failures r) \<le> 14 \<and>
             (unat (ar_failures r) = 14 \<longrightarrow> now - ar_last_failure r > secs 900)"
      using assms(1) Inr win
      by (auto simp: attempt_check_def default_run_def default_rec_def split: option.splits if_splits)
    then have "default_run key now (snd (record_failure key now ?t1))"
      using cfg by (intro default_failure_step) simp_all
    with Inr show ?thesis by (cases "attempt_check key now t") (simp add: failed_attempt_def)
  qed
qed

lemma default_attempt_lockout:
  assumes "default_run key now (snd (failed_attempt key now t))" and "fst (failed_attempt key now t) = Some d"
  shows "d \<le> secs 1024"
proof -
  obtain t1 where t1: "failed_attempt key now t = record_failure key now t1"
    using assms(2) by (auto simp: failed_attempt_def split: prod.splits sum.splits)
  obtain r where r: "hget (at_records (snd (record_failure key now t1))) key = Some r"
      "ar_last_failure r = now" "ar_locked_until r = Some (now + d)"
    using record_failure_locked [where key = key and now = now and t = t1] assms(2)
    by (auto simp: t1 split: option.splits)
  with assms(1) have dr: "default_rec now r" by (simp add: t1 default_run_def)
  then have f: "5 \<le> unat (ar_failures r)" "d = secs (2 * 2 ^ (unat (ar_failures r) - 5))" "unat (ar_failures r) \<le> 14"
    using r by (auto simp: default_rec_def not_less [symmetric])
  then have "(2::nat) ^ (unat (ar_failures r) - 5) \<le> 2 ^ 9" by (intro power_increasing) auto
  with f(2) show ?thesis by simp
qed

lemma lockouts_default:
  assumes "default_run key now0 t" and "sorted (now0 # ts)" and "Some d \<in> set (lockouts key ts t)"
  shows "d \<le> secs 1024"
  using assms
proof (induction ts arbitrary: now0 t)
  case (Cons now ts)
  have step: "default_run key now (snd (failed_attempt key now t))"
    using Cons.prems(1,2) by (intro default_attempt_step) auto
  from Cons.prems(3) show ?case
    using default_attempt_lockout [OF step] Cons.IH [OF step] Cons.prems(2) by auto
qed simp

text \<open>
  The effective ceiling of the default policy. With the default configuration, over any run of
  guarded failing attempts on one key at non-decreasing times, every reported lockout is at
  most 1024 seconds: a longer one would outlast the 900-second failure window, so the next
  admitted failure starts counting from one again and the configured cap of an hour is
  never reached.
\<close>

theorem default_lockout_ceiling:
  assumes "sorted ts" and "Some d \<in> set (lockouts key ts (new_tracker default_attempt_config))"
  shows "d \<le> secs 1024"
proof (cases ts)
  case (Cons now ts')
  have "default_run key now (new_tracker default_attempt_config)" by (simp add: default_run_def new_tracker_def)
  from lockouts_default [OF this _ assms(2)] assms(1) Cons show ?thesis by simp
qed (use assms in simp)

definition demo_tracker :: "attempt_record list \<Rightarrow> attempt_tracker" where
  "demo_tracker rs = \<lparr>at_config = default_attempt_config, at_records = map (\<lambda>r. (''k'', r)) rs\<rparr>"

lemma demo_attempt_free:
  "failed_attempt ''k'' 0 (demo_tracker []) =
     (None, demo_tracker [\<lparr>ar_failures = 1, ar_last_failure = 0, ar_locked_until = None\<rparr>])"
  by (simp add: failed_attempt_def attempt_check_def record_failure_def demo_tracker_def default_attempt_config_def sat_add_def Let_def word_le_nat_alt)

lemma demo_attempt_count:
  assumes "unat f < 4"
  shows "failed_attempt ''k'' 0 (demo_tracker [\<lparr>ar_failures = f, ar_last_failure = 0, ar_locked_until = None\<rparr>]) =
     (None, demo_tracker [\<lparr>ar_failures = f + 1, ar_last_failure = 0, ar_locked_until = None\<rparr>])"
proof -
  from assms have "sat_add f 1 = f + 1" "\<not> 5 \<le> f + 1"
    by (simp_all add: sat_add_def word_le_nat_alt unat_word_ariths)
  then show ?thesis
    by (simp add: failed_attempt_def attempt_check_def record_failure_def demo_tracker_def default_attempt_config_def Let_def)
qed

lemma demo_attempt_lock:
  "fst (failed_attempt ''k'' 0 (demo_tracker [\<lparr>ar_failures = 4, ar_last_failure = 0, ar_locked_until = None\<rparr>])) = Some (secs 2)"
  by (simp add: failed_attempt_def attempt_check_def record_failure_def demo_tracker_def default_attempt_config_def
      sat_add_def sat_sub_def compute_lockout_def as_secs_def Let_def)

theorem default_lockout_ceiling_witness:
  "secs 2 \<le> secs 1024 \<and>
   lockouts ''k'' [0, 0, 0, 0, 0] (new_tracker default_attempt_config) = [None, None, None, None, Some (secs 2)]"
proof
  have new: "new_tracker default_attempt_config = demo_tracker []"
    by (simp add: new_tracker_def demo_tracker_def)
  show run: "lockouts ''k'' [0, 0, 0, 0, 0] (new_tracker default_attempt_config) = [None, None, None, None, Some (secs 2)]"
    by (simp add: new demo_attempt_free demo_attempt_count demo_attempt_lock)
  have "Some (secs 2) \<in> set (lockouts ''k'' [0, 0, 0, 0, 0] (new_tracker default_attempt_config))"
    unfolding run by simp
  then show "secs 2 \<le> secs 1024"
    by (rule default_lockout_ceiling [rotated]) simp
qed

end
