(* ===== verification/Device_Id.thy ===== *)
theory Device_Id
  imports Otp_Auth
begin

text \<open>
  Numeric public device ids with a Luhn check digit (\<open>packages/auth/src/device_id.rs\<close>). A
  \<open>DevicePublicId\<close> is its canonical digit string. The \<open>u32\<close> digit sum is a \<open>nat\<close>: it is at most
  nine per digit, so it only reaches the word's end beyond 477 million digits.
\<close>

definition DEVICE_ID_BODY_DIGITS :: nat where "DEVICE_ID_BODY_DIGITS = 9"
definition DEVICE_ID_TOTAL_DIGITS :: nat where "DEVICE_ID_TOTAL_DIGITS = DEVICE_ID_BODY_DIGITS + 1"

section \<open>Luhn\<close>

definition digit_value :: "char \<Rightarrow> nat" where
  "digit_value c = of_char c - 48"

text \<open>One step of the digit loop: a doubled digit has its own digits added.\<close>

definition luhn_term :: "bool \<Rightarrow> nat \<Rightarrow> nat" where
  "luhn_term double d = (if double then (if d * 2 > 9 then d * 2 - 9 else d * 2) else d)"

fun luhn_loop :: "bool \<Rightarrow> nat \<Rightarrow> string \<Rightarrow> nat" where
  "luhn_loop double acc [] = acc"
| "luhn_loop double acc (c # cs) = luhn_loop (\<not> double) (acc + luhn_term double (digit_value c)) cs"

definition luhn_check_digit :: "string \<Rightarrow> auth_error + nat" where
  "luhn_check_digit body_digits =
     (if body_digits = [] then Inl (InvalidDeviceId ''Luhn body must be non-empty'')
      else if \<not> list_all is_ascii_digit body_digits then
        Inl (InvalidDeviceId ''Luhn body must be numeric digits only'')
      else Inr ((10 - luhn_loop True 0 (rev body_digits) mod 10) mod 10))"

definition validate_luhn :: "string \<Rightarrow> bool" where
  "validate_luhn full_digits =
     (if full_digits = [] \<or> \<not> list_all is_ascii_digit full_digits then False
      else luhn_loop False 0 (rev full_digits) mod 10 = 0)"

section \<open>Public ids\<close>

definition digit_char :: "nat \<Rightarrow> char" where
  "digit_char d = char_of (48 + d)"

text \<open>\<open>draws i\<close> is the \<open>i\<close>-th random draw: below nine for the first digit, below ten after it.\<close>

definition generate_with_rng :: "(nat \<Rightarrow> nat) \<Rightarrow> string" where
  "generate_with_rng draws =
     (let body = map (\<lambda>i. if i = 0 then char_of (49 + draws i) else digit_char (draws i)) [0 ..< DEVICE_ID_BODY_DIGITS]
      in case luhn_check_digit body of Inl _ \<Rightarrow> [] | Inr check \<Rightarrow> body @ [digit_char check])"

text \<open>
  The filter of \<open>parse\<close>: drop every white-space character, dash and underscore. On UTF-8 bytes a
  white-space character is a prefix listed in \<open>white_space\<close>; every other byte is kept.
\<close>

function strip_separators :: "string \<Rightarrow> string" where
  "strip_separators [] = []"
| "strip_separators (c # cs) =
     (case find (\<lambda>w. w \<noteq> [] \<and> starts_with (c # cs) w) white_space of
        Some w \<Rightarrow> strip_separators (drop (length w) (c # cs))
      | None \<Rightarrow> if c = CHR ''-'' \<or> c = CHR ''_'' then strip_separators cs else c # strip_separators cs)"
  by pat_completeness auto
termination
  by (relation "measure length") (auto simp: find_Some_iff intro!: diff_less)

declare strip_separators.simps(2) [simp del]

definition parse_device_id :: "string \<Rightarrow> auth_error + string" where
  "parse_device_id input =
     (let digits = strip_separators input in
      if length digits \<noteq> DEVICE_ID_TOTAL_DIGITS then
        Inl (InvalidDeviceId (''expected '' @ show_nat DEVICE_ID_TOTAL_DIGITS @ '' digits, got '' @ show_nat (length digits)))
      else if \<not> list_all is_ascii_digit digits then Inl (InvalidDeviceId ''public ID must be numeric'')
      else if \<not> validate_luhn digits then Inl (InvalidDeviceId ''check digit mismatch'')
      else Inr digits)"

definition is_valid_device_id :: "string \<Rightarrow> bool" where
  "is_valid_device_id input = (case parse_device_id input of Inl _ \<Rightarrow> False | Inr _ \<Rightarrow> True)"

definition display_grouped :: "string \<Rightarrow> string" where
  "display_grouped d = take 3 d @ '' '' @ take 3 (drop 3 d) @ '' '' @ take 4 (drop 6 d)"

section \<open>The check digit\<close>

lemma is_ascii_digit_iff: "is_ascii_digit c \<longleftrightarrow> (\<exists>d < 10. c = digit_char d)"
proof
  assume "is_ascii_digit c"
  then have "c = digit_char (digit_value c)" "digit_value c < 10"
    by (auto simp: is_ascii_digit_def digit_char_def digit_value_def)
  then show "\<exists>d < 10. c = digit_char d" by blast
next
  assume "\<exists>d < 10. c = digit_char d"
  then show "is_ascii_digit c" by (auto simp: is_ascii_digit_def digit_char_def)
qed

lemma digit_value_char [simp]: "d < 10 \<Longrightarrow> digit_value (digit_char d) = d"
  by (simp add: digit_value_def digit_char_def)

lemma is_ascii_digit_char [simp]: "d < 10 \<Longrightarrow> is_ascii_digit (digit_char d)"
  by (auto simp: is_ascii_digit_iff)

lemma digit_value_less: "is_ascii_digit c \<Longrightarrow> digit_value c < 10"
  by (auto simp: is_ascii_digit_iff)

lemma digit_value_inject:
  "is_ascii_digit c \<Longrightarrow> is_ascii_digit d \<Longrightarrow> digit_value c = digit_value d \<longleftrightarrow> c = d"
  by (auto simp: is_ascii_digit_iff)

lemma luhn_loop_acc: "luhn_loop b n cs = n + luhn_loop b 0 cs"
proof (induction cs arbitrary: b n)
  case (Cons c cs)
  show ?case using Cons.IH [of "\<not> b" "n + luhn_term b (digit_value c)"] Cons.IH [of "\<not> b" "luhn_term b (digit_value c)"]
    by simp
qed simp

text \<open>The weight of a digit as a permutation of the digits.\<close>

lemma luhn_term_less: "d < 10 \<Longrightarrow> luhn_term b d < 10"
  by (auto simp: luhn_term_def)

lemma luhn_term_inject: "a < 10 \<Longrightarrow> d < 10 \<Longrightarrow> luhn_term b a = luhn_term b d \<Longrightarrow> a = d"
  by (auto simp: luhn_term_def split: if_splits) presburger+

lemma validate_luhn_snoc:
  assumes "body \<noteq> []" and "list_all is_ascii_digit body" and "d < 10"
  shows "validate_luhn (body @ [digit_char d]) \<longleftrightarrow> (d + luhn_loop True 0 (rev body)) mod 10 = 0"
  using assms luhn_loop_acc [of True d "rev body"] by (simp add: validate_luhn_def luhn_term_def)

lemma check_digit_small:
  fixes d m :: nat
  assumes "d < 10" and "m < 10"
  shows "(d + m) mod 10 = 0 \<longleftrightarrow> d = (10 - m) mod 10"
proof (cases "m = 0")
  case False
  then have "(10 - m) mod 10 = 10 - m" using assms by simp
  moreover have "(d + m) mod 10 = (if d + m < 10 then d + m else d + m - 10)"
    using assms by (simp add: mod_if)
  ultimately show ?thesis using assms False by auto
qed (use assms in simp)

lemma check_digit_unique: "d < 10 \<Longrightarrow> (d + n) mod 10 = 0 \<longleftrightarrow> d = (10 - n mod 10) mod (10::nat)"
  using check_digit_small [of d "n mod 10"] by (simp add: mod_add_right_eq)

lemma mod_sum_small:
  fixes a b x y :: nat
  assumes "a < 10" "b < 10" "(x + a + y) mod 10 = 0" "(x + b + y) mod 10 = 0"
  shows "a = b"
proof -
  have "(a + (x + y)) mod 10 = 0" "(b + (x + y)) mod 10 = 0"
    using assms(3,4) by (simp_all add: ac_simps)
  then show ?thesis using check_digit_unique [of a "x + y"] check_digit_unique [of b "x + y"] assms(1,2) by simp
qed

text \<open>
  The check digit is right and unique: a non-empty digit string followed by a digit passes the
  Luhn validation exactly when that digit is the one \<open>luhn_check_digit\<close> computes.
\<close>

theorem luhn_check_digit_unique:
  assumes "luhn_check_digit body = Inr check" and "d < 10"
  shows "validate_luhn (body @ [digit_char d]) \<longleftrightarrow> d = check"
proof -
  have "body \<noteq> []" "list_all is_ascii_digit body" "check = (10 - luhn_loop True 0 (rev body) mod 10) mod 10"
    using assms(1) by (auto simp: luhn_check_digit_def split: if_splits)
  then show ?thesis using validate_luhn_snoc [of body d] check_digit_unique assms(2) by simp
qed

theorem luhn_check_digit_unique_witness:
  "luhn_check_digit ''799'' = Inr 7 \<and> validate_luhn (''799'' @ [digit_char 7]) \<and> \<not> validate_luhn (''799'' @ [digit_char 3])"
proof -
  have run: "luhn_check_digit ''799'' = Inr 7"
    by (simp add: luhn_check_digit_def is_ascii_digit_def luhn_term_def digit_value_def)
  show ?thesis using run luhn_check_digit_unique [OF run, of 7] luhn_check_digit_unique [OF run, of 3] by simp
qed

lemma luhn_loop_append:
  "luhn_loop b n (u @ v) = luhn_loop (if even (length u) then b else \<not> b) (luhn_loop b n u) v"
  by (induction u arbitrary: b n) auto

text \<open>
  Every single mistyped digit is caught: if a number passes the validation, no number that
  differs from it in one digit does.
\<close>

theorem luhn_detects_single_error:
  assumes "validate_luhn (u @ a # v)" and "validate_luhn (u @ b # v)"
  shows "a = b"
proof -
  let ?s = "odd (length v)"
  let ?t = "\<lambda>c. luhn_term ?s (digit_value c)"
  have sum: "luhn_loop False 0 (rev (u @ c # v)) = luhn_loop False 0 (rev v) + ?t c + luhn_loop (\<not> ?s) 0 (rev u)" for c
    using luhn_loop_acc [of True "luhn_loop False 0 (rev v) + luhn_term False (digit_value c)" "rev u"]
      luhn_loop_acc [of False "luhn_loop False 0 (rev v) + luhn_term True (digit_value c)" "rev u"]
    by (cases "even (length v)") (simp_all add: luhn_loop_append)
  from assms have eqs: "(luhn_loop False 0 (rev v) + ?t a + luhn_loop (\<not> ?s) 0 (rev u)) mod 10 = 0"
    "(luhn_loop False 0 (rev v) + ?t b + luhn_loop (\<not> ?s) 0 (rev u)) mod 10 = 0"
    and d: "is_ascii_digit a" "is_ascii_digit b"
    unfolding validate_luhn_def sum by (auto split: if_splits)
  have "?t a < 10" "?t b < 10" using d luhn_term_less digit_value_less by blast+
  from mod_sum_small [OF this eqs] have "?t a = ?t b" .
  then have "digit_value a = digit_value b" using luhn_term_inject digit_value_less d by blast
  then show ?thesis using digit_value_inject d by blast
qed

theorem luhn_detects_single_error_witness:
  "validate_luhn ''7997'' \<and> \<not> validate_luhn ''7897''"
proof
  show v: "validate_luhn ''7997''"
    by (simp add: validate_luhn_def is_ascii_digit_def luhn_term_def digit_value_def)
  show "\<not> validate_luhn ''7897''"
    using luhn_detects_single_error [of "''7''" "CHR ''9''" "''97''" "CHR ''8''"] v by auto
qed

section \<open>Parsing\<close>

lemma strip_separators_visible:
  assumes "visible c"
  shows "strip_separators (c # cs) = (if c = CHR ''-'' \<or> c = CHR ''_'' then strip_separators cs else c # strip_separators cs)"
proof -
  have "find (\<lambda>w. w \<noteq> [] \<and> starts_with (c # cs) w) white_space = None"
    using assms by (metis (no_types, lifting) find_None_iff list.sel(1) starts_with_hd white_space_ends)
  then show ?thesis by (simp add: strip_separators.simps(2))
qed

lemma strip_separators_blank: "strip_separators (CHR '' '' # cs) = strip_separators cs"
proof (cases "find (\<lambda>w. w \<noteq> [] \<and> starts_with (CHR '' '' # cs) w) white_space")
  case None
  with blank_white_space show ?thesis by (auto simp: find_None_iff starts_with_def)
next
  case (Some w)
  then have "w \<in> set white_space" "w \<noteq> []" "starts_with (CHR '' '' # cs) w" by (auto simp: find_Some_iff)
  with starts_with_hd have "w = [CHR '' '']" by (metis list.sel(1) white_space_blank)
  with Some show ?thesis by (simp add: strip_separators.simps(2))
qed

lemma digit_visible: "is_ascii_digit c \<Longrightarrow> visible c \<and> c \<noteq> CHR ''-'' \<and> c \<noteq> CHR ''_''"
  by (auto simp: is_ascii_digit_def visible_def)

lemma strip_separators_digits:
  "list_all is_ascii_digit ds \<Longrightarrow> strip_separators (ds @ cs) = ds @ strip_separators cs"
  by (induction ds) (use digit_visible in \<open>auto simp: strip_separators_visible\<close>)

definition device_id :: "string \<Rightarrow> bool" where
  "device_id d \<longleftrightarrow> length d = 10 \<and> list_all is_ascii_digit d \<and> validate_luhn d"

lemma parse_device_id_digits:
  assumes "device_id d" and "strip_separators s = d"
  shows "parse_device_id s = Inr d"
  using assms by (simp add: parse_device_id_def device_id_def DEVICE_ID_TOTAL_DIGITS_def DEVICE_ID_BODY_DIGITS_def)

lemma parse_device_id_Inr: "parse_device_id s = Inr d \<Longrightarrow> device_id d"
  by (auto simp: parse_device_id_def device_id_def DEVICE_ID_TOTAL_DIGITS_def DEVICE_ID_BODY_DIGITS_def Let_def split: if_splits)

lemma generate_device_id:
  assumes "draws 0 < 9" and "\<And>i. draws i < 10"
  shows "device_id (generate_with_rng draws)"
proof -
  let ?body = "map (\<lambda>i. if i = 0 then char_of (49 + draws i) else digit_char (draws i)) [0 ..< 9] :: string"
  have first: "is_ascii_digit (char_of (49 + draws 0))" using assms(1) by (simp add: is_ascii_digit_def)
  have body: "?body \<noteq> []" "list_all is_ascii_digit ?body" "length ?body = 9"
    using first assms(2) by (auto simp: list_all_iff)
  obtain check where check: "luhn_check_digit ?body = Inr check" "check < 10"
    using body(1,2) by (simp add: luhn_check_digit_def)
  have "validate_luhn (?body @ [digit_char check])"
    using check body validate_luhn_snoc [of ?body check] check_digit_unique [of check]
    by (auto simp: luhn_check_digit_def split: if_splits)
  moreover have "generate_with_rng draws = ?body @ [digit_char check]"
    using check(1) by (simp add: generate_with_rng_def DEVICE_ID_BODY_DIGITS_def)
  ultimately show ?thesis using body check(2) by (simp add: device_id_def)
qed

text \<open>
  Generated ids round-trip. An id generated from any random draws is ten digits with a valid
  check digit, and both its plain form and the form shown to the user (groups of 3, 3 and 4)
  parse back to it.
\<close>

theorem generated_id_round_trip:
  assumes "draws 0 < 9" and "\<And>i. draws i < 10"
  shows "length (generate_with_rng draws) = 10 \<and>
    parse_device_id (generate_with_rng draws) = Inr (generate_with_rng draws) \<and>
    parse_device_id (display_grouped (generate_with_rng draws)) = Inr (generate_with_rng draws)"
proof -
  let ?d = "generate_with_rng draws"
  have dev: "device_id ?d" using assms by (rule generate_device_id)
  then have digits: "list_all is_ascii_digit ?d" and len: "length ?d = 10" by (auto simp: device_id_def)
  have parts: "list_all is_ascii_digit (take 3 ?d)" "list_all is_ascii_digit (take 3 (drop 3 ?d))"
    "list_all is_ascii_digit (take 4 (drop 6 ?d))"
    using digits by (auto simp: list_all_iff dest!: in_set_takeD in_set_dropD)
  have "take 3 (drop 3 ?d) @ drop 3 (drop 3 ?d) = drop 3 ?d" by (rule append_take_drop_id)
  moreover have "drop 3 (drop 3 ?d) = take 4 (drop 6 ?d)" using len by simp
  ultimately have join: "take 3 ?d @ take 3 (drop 3 ?d) @ take 4 (drop 6 ?d) = ?d"
    using append_take_drop_id [of 3 ?d] by simp
  have "strip_separators (display_grouped ?d) = ?d"
    using strip_separators_digits [OF parts(1)] strip_separators_digits [OF parts(2)]
      strip_separators_digits [OF parts(3), of "[]"] join
    by (simp add: display_grouped_def strip_separators_blank)
  moreover have "strip_separators ?d = ?d" using strip_separators_digits [OF digits, of "[]"] by simp
  ultimately show ?thesis using parse_device_id_digits [OF dev] len by blast
qed

theorem generated_id_round_trip_witness:
  "parse_device_id (display_grouped (generate_with_rng (\<lambda>i. i mod 9))) = Inr (generate_with_rng (\<lambda>i. i mod 9))"
proof -
  have "(i::nat) mod 9 < 10" for i using mod_less_divisor [of 9 i] by linarith
  then show ?thesis using generated_id_round_trip [of "\<lambda>i. i mod 9"] by simp
qed

end
