(* ===== verification/Device_Repo.thy ===== *)
theory Device_Repo
  imports Otp_Auth
begin

text \<open>
  Devices and credentials of the signaling server: the models (\<open>apps/server/src/models.rs\<close>), opaque
  tokens (\<open>credentials.rs\<close>), the repository interface (\<open>repo/mod.rs\<close>) and its in-memory
  implementation (\<open>repo/memory.rs\<close>). The store's mutex makes each operation atomic; poisoning is
  not modelled (no operation panics under the lock). Writing the JSON snapshot is I/O: each
  mutating operation takes the function \<open>save\<close> that gives its outcome, and, as in the code, keeps
  its in-memory effect when saving fails. Row ids are \<open>int\<close>, far from the ends of \<open>i64\<close>.
\<close>

unbundle bit_operations_syntax

section \<open>Models\<close>

datatype device_status = StatusActive | StatusDisabled | StatusDeleted

fun status_as_str :: "device_status \<Rightarrow> string" where
  "status_as_str StatusActive = ''active''"
| "status_as_str StatusDisabled = ''disabled''"
| "status_as_str StatusDeleted = ''deleted''"

definition status_parse :: "string \<Rightarrow> device_status option" where
  "status_parse s =
     (if s = ''active'' then Some StatusActive
      else if s = ''disabled'' then Some StatusDisabled
      else if s = ''deleted'' then Some StatusDeleted
      else None)"

record device =
  dv_id :: int
  dv_public_id :: string
  dv_display_name :: "string option"
  dv_public_key :: bytes
  dv_password_hash :: "string option"
  dv_protocol_version_last :: "int option"
  dv_created_at :: datetime
  dv_last_seen_at :: "datetime option"
  dv_status :: device_status
  dv_deleted_at :: "datetime option"

record device_credential =
  dc_id :: int
  dc_device_id :: int
  dc_token_hash :: string
  dc_refresh_token_hash :: string
  dc_access_expires_at :: datetime
  dc_expires_at :: datetime
  dc_revoked_at :: "datetime option"
  dc_created_at :: datetime

record new_device =
  nd_public_id :: string
  nd_display_name :: "string option"
  nd_public_key :: bytes
  nd_protocol_version_last :: "int option"

record new_credential =
  nc_device_id :: int
  nc_token_hash :: string
  nc_refresh_token_hash :: string
  nc_access_expires_at :: datetime
  nc_expires_at :: datetime

record issued_tokens =
  access_token :: string
  refresh_token :: string
  it_expires_at :: datetime

section \<open>Tokens\<close>

definition ACCESS_TOKEN_TTL :: int where "ACCESS_TOKEN_TTL = 24 * 3600 * 1000000000"
definition REFRESH_TOKEN_TTL :: int where "REFRESH_TOKEN_TTL = 30 * 24 * 3600 * 1000000000"

definition access_expires_at :: "datetime \<Rightarrow> datetime" where
  "access_expires_at now = now + ACCESS_TOKEN_TTL"

definition refresh_expires_at :: "datetime \<Rightarrow> datetime" where
  "refresh_expires_at now = now + REFRESH_TOKEN_TTL"

definition hash_token :: "crypto \<Rightarrow> string \<Rightarrow> string" where
  "hash_token K token = hex_encode K (sha256 K (utf8_bytes token))"

text \<open>\<open>body1\<close> and \<open>body2\<close> are the two fresh results of \<open>random_token_body\<close>.\<close>

definition mint_tokens :: "string \<Rightarrow> string \<Rightarrow> datetime \<Rightarrow> issued_tokens" where
  "mint_tokens body1 body2 now = \<lparr>access_token = ''rl_at_'' @ body1, refresh_token = ''rl_rt_'' @ body2,
     it_expires_at = access_expires_at now\<rparr>"

definition new_credential_from_issued :: "crypto \<Rightarrow> int \<Rightarrow> issued_tokens \<Rightarrow> datetime \<Rightarrow> new_credential" where
  "new_credential_from_issued K device_id issued now =
     \<lparr>nc_device_id = device_id, nc_token_hash = hash_token K (access_token issued),
      nc_refresh_token_hash = hash_token K (refresh_token issued),
      nc_access_expires_at = it_expires_at issued, nc_expires_at = refresh_expires_at now\<rparr>"

definition token_hash_eq :: "string \<Rightarrow> string \<Rightarrow> bool" where
  "token_hash_eq a b =
     (if length a \<noteq> length b then False
      else foldl (\<lambda>diff (x, y). diff OR (x XOR y)) 0 (zip (utf8_bytes a) (utf8_bytes b)) = 0)"

section \<open>The store\<close>

datatype repo_error = RepoNotFound | Conflict string | StaleCredential | Internal string

record device_store =
  devices :: "(int, device) hashmap"
  by_public_id :: "(string, int) hashmap"
  credentials :: "(int, device_credential) hashmap"
  next_device_id :: int
  next_cred_id :: int

type_synonym saver = "device_store \<Rightarrow> repo_error + unit"

definition new_device_store :: device_store where
  "new_device_store = \<lparr>devices = [], by_public_id = [], credentials = [], next_device_id = 0, next_cred_id = 0\<rparr>"

text \<open>\<open>self.save()?; Ok(r)\<close>.\<close>

definition saved :: "saver \<Rightarrow> 'r \<Rightarrow> device_store \<Rightarrow> (repo_error + 'r) \<times> device_store" where
  "saved save r g = (case save g of Inl e \<Rightarrow> (Inl e, g) | Inr _ \<Rightarrow> (Inr r, g))"

definition set_status :: "string \<Rightarrow> device_status \<Rightarrow> datetime \<Rightarrow> device_store \<Rightarrow> (repo_error + unit) \<times> device_store" where
  "set_status public_id status now g =
     (case hget (by_public_id g) public_id of
        None \<Rightarrow> (Inl RepoNotFound, g)
      | Some did \<Rightarrow> (case hget (devices g) did of
          None \<Rightarrow> (Inl RepoNotFound, g)
        | Some d \<Rightarrow>
            let d1 = d\<lparr>dv_status := status\<rparr>;
                d2 = (if status = StatusDeleted then d1\<lparr>dv_deleted_at := Some now\<rparr> else d1)
            in (Inr (), g\<lparr>devices := hput did d2 (devices g)\<rparr>)))"

definition insert_credential_locked ::
  "new_credential \<Rightarrow> datetime \<Rightarrow> device_store \<Rightarrow> (repo_error + device_credential) \<times> device_store" where
  "insert_credential_locked new created_at g =
     (if hget (devices g) (nc_device_id new) = None then (Inl RepoNotFound, g)
      else
        let id = next_cred_id g + 1;
            cred = \<lparr>dc_id = id, dc_device_id = nc_device_id new, dc_token_hash = nc_token_hash new,
              dc_refresh_token_hash = nc_refresh_token_hash new,
              dc_access_expires_at = nc_access_expires_at new, dc_expires_at = nc_expires_at new,
              dc_revoked_at = None, dc_created_at = created_at\<rparr>
        in (Inr cred, g\<lparr>next_cred_id := id, credentials := hput id cred (credentials g)\<rparr>))"

definition create_device ::
  "saver \<Rightarrow> new_device \<Rightarrow> datetime \<Rightarrow> device_store \<Rightarrow> (repo_error + device) \<times> device_store" where
  "create_device save new now g =
     (if hget (by_public_id g) (nd_public_id new) \<noteq> None then
        (Inl (Conflict (''public_id '' @ nd_public_id new @ '' already exists'')), g)
      else
        let id = next_device_id g + 1;
            device = \<lparr>dv_id = id, dv_public_id = nd_public_id new, dv_display_name = nd_display_name new,
              dv_public_key = nd_public_key new, dv_password_hash = None,
              dv_protocol_version_last = nd_protocol_version_last new, dv_created_at = now,
              dv_last_seen_at = None, dv_status = StatusActive, dv_deleted_at = None\<rparr>
        in saved save device (g\<lparr>next_device_id := id,
             by_public_id := hput (nd_public_id new) id (by_public_id g),
             devices := hput id device (devices g)\<rparr>))"

definition get_by_public_id :: "string \<Rightarrow> device_store \<Rightarrow> device option" where
  "get_by_public_id public_id g =
     (case hget (by_public_id g) public_id of None \<Rightarrow> None | Some did \<Rightarrow> hget (devices g) did)"

definition get_by_id :: "int \<Rightarrow> device_store \<Rightarrow> device option" where
  "get_by_id did g = hget (devices g) did"

definition soft_delete ::
  "saver \<Rightarrow> string \<Rightarrow> datetime \<Rightarrow> device_store \<Rightarrow> (repo_error + bool) \<times> device_store" where
  "soft_delete save public_id at g =
     (case hget (by_public_id g) public_id of
        None \<Rightarrow> (Inr False, g)
      | Some did \<Rightarrow> (case hget (devices g) did of
          None \<Rightarrow> (Inr False, g)
        | Some d \<Rightarrow>
            if dv_status d = StatusDeleted then (Inr True, g)
            else saved save True (g\<lparr>devices :=
              hput did (d\<lparr>dv_status := StatusDeleted, dv_deleted_at := Some at\<rparr>) (devices g)\<rparr>)))"

definition insert_credential ::
  "saver \<Rightarrow> new_credential \<Rightarrow> datetime \<Rightarrow> device_store \<Rightarrow> (repo_error + device_credential) \<times> device_store" where
  "insert_credential save new now g =
     (case insert_credential_locked new now g of
        (Inl e, g1) \<Rightarrow> (Inl e, g1)
      | (Inr cred, g1) \<Rightarrow> saved save cred g1)"

text \<open>\<open>credentials.values().find(..)\<close>: the first live row, in iteration order, with the hash.\<close>

definition find_credential :: "(device_credential \<Rightarrow> bool) \<Rightarrow> device_store \<Rightarrow> device_credential option" where
  "find_credential P g = find (\<lambda>c. dc_revoked_at c = None \<and> P c) (map snd (credentials g))"

definition with_device ::
  "device_credential option \<Rightarrow> device_store \<Rightarrow> repo_error + (device \<times> device_credential) option" where
  "with_device cred g =
     (case cred of
        None \<Rightarrow> Inr None
      | Some c \<Rightarrow> (case hget (devices g) (dc_device_id c) of
          None \<Rightarrow> Inl (Internal ''credential orphan'')
        | Some d \<Rightarrow> Inr (Some (d, c))))"

definition find_by_access_hash ::
  "string \<Rightarrow> device_store \<Rightarrow> repo_error + (device \<times> device_credential) option" where
  "find_by_access_hash h g = with_device (find_credential (\<lambda>c. token_hash_eq (dc_token_hash c) h) g) g"

definition find_by_refresh_hash ::
  "string \<Rightarrow> device_store \<Rightarrow> repo_error + (device \<times> device_credential) option" where
  "find_by_refresh_hash h g = with_device (find_credential (\<lambda>c. token_hash_eq (dc_refresh_token_hash c) h) g) g"

definition rotate_refresh ::
  "saver \<Rightarrow> string \<Rightarrow> new_credential \<Rightarrow> datetime \<Rightarrow> device_store
     \<Rightarrow> (repo_error + (device \<times> device_credential)) \<times> device_store" where
  "rotate_refresh save h new now g =
     (case find_credential (\<lambda>c. token_hash_eq (dc_refresh_token_hash c) h) g of
        None \<Rightarrow> (Inl StaleCredential, g)
      | Some c \<Rightarrow> let old_id = dc_id c in
        case hget (credentials g) old_id of
          None \<Rightarrow> (Inl StaleCredential, g)
        | Some old \<Rightarrow>
          if dc_expires_at old < now then (Inl StaleCredential, g)
          else let device_id = dc_device_id old in
          case hget (devices g) device_id of
            None \<Rightarrow> (Inl (Internal ''credential orphan''), g)
          | Some device \<Rightarrow>
            if dv_status device \<noteq> StatusActive then (Inl StaleCredential, g)
            else if nc_device_id new \<noteq> device_id then (Inl (Internal ''rotate_refresh device_id mismatch''), g)
            else if dc_revoked_at old \<noteq> None then (Inl StaleCredential, g)
            else
              let g1 = g\<lparr>credentials := hput old_id (old\<lparr>dc_revoked_at := Some now\<rparr>) (credentials g)\<rparr> in
              case insert_credential_locked new now g1 of
                (Inl e, g2) \<Rightarrow> (Inl e, g2)
              | (Inr inserted, g2) \<Rightarrow>
                  let g3 = (case hget (devices g2) device_id of
                      None \<Rightarrow> g2
                    | Some d \<Rightarrow> g2\<lparr>devices := hput device_id (d\<lparr>dv_last_seen_at := Some now\<rparr>) (devices g2)\<rparr>)
                  in saved save (device, inserted) g3)"

definition revoke_credential ::
  "saver \<Rightarrow> int \<Rightarrow> datetime \<Rightarrow> device_store \<Rightarrow> (repo_error + unit) \<times> device_store" where
  "revoke_credential save cid at g =
     (case hget (credentials g) cid of
        None \<Rightarrow> (Inl RepoNotFound, g)
      | Some c \<Rightarrow>
          if dc_revoked_at c \<noteq> None then (Inl RepoNotFound, g)
          else saved save () (g\<lparr>credentials := hput cid (c\<lparr>dc_revoked_at := Some at\<rparr>) (credentials g)\<rparr>))"

definition revoke_all_for_device ::
  "saver \<Rightarrow> int \<Rightarrow> datetime \<Rightarrow> device_store \<Rightarrow> (repo_error + unit) \<times> device_store" where
  "revoke_all_for_device save did at g =
     saved save () (g\<lparr>credentials := hmap_values
       (\<lambda>c. if dc_device_id c = did \<and> dc_revoked_at c = None then c\<lparr>dc_revoked_at := Some at\<rparr> else c)
       (credentials g)\<rparr>)"

definition touch_last_seen ::
  "saver \<Rightarrow> int \<Rightarrow> datetime \<Rightarrow> device_store \<Rightarrow> (repo_error + unit) \<times> device_store" where
  "touch_last_seen save did at g =
     (case hget (devices g) did of
        None \<Rightarrow> (Inl RepoNotFound, g)
      | Some d \<Rightarrow> saved save () (g\<lparr>devices := hput did (d\<lparr>dv_last_seen_at := Some at\<rparr>) (devices g)\<rparr>))"

text \<open>Rebuilding the store from a snapshot (\<open>open_or_create\<close> after parsing).\<close>

record persist_snapshot =
  snap_next_device_id :: int
  snap_next_cred_id :: int
  snap_devices :: "device list"
  snap_credentials :: "device_credential list"

definition snapshot_of :: "device_store \<Rightarrow> persist_snapshot" where
  "snapshot_of g = \<lparr>snap_next_device_id = next_device_id g, snap_next_cred_id = next_cred_id g,
     snap_devices = map snd (devices g), snap_credentials = map snd (credentials g)\<rparr>"

definition load_snapshot :: "persist_snapshot \<Rightarrow> device_store" where
  "load_snapshot snap =
     \<lparr>devices = foldl (\<lambda>m d. hput (dv_id d) d m) [] (snap_devices snap),
      by_public_id = foldl (\<lambda>m d. hput (dv_public_id d) (dv_id d) m) [] (snap_devices snap),
      credentials = foldl (\<lambda>m c. hput (dc_id c) c m) [] (snap_credentials snap),
      next_device_id = snap_next_device_id snap, next_cred_id = snap_next_cred_id snap\<rparr>"

section \<open>Hash comparison\<close>

lemma xor_zero_iff: "x XOR y = (0::u8) \<longleftrightarrow> x = y"
proof
  assume "x XOR y = 0"
  then have "x XOR (x XOR y) = x" by simp
  moreover have "x XOR (x XOR y) = y" by (simp add: xor.assoc [symmetric])
  ultimately show "x = y" by simp
qed simp

lemma or_fold_zero:
  "foldl (\<lambda>diff (x, y). diff OR (x XOR y)) d ps = (0::u8) \<longleftrightarrow> d = 0 \<and> list_all (\<lambda>(x, y). x = y) ps"
proof (induction ps arbitrary: d)
  case (Cons p ps)
  obtain x y where p: "p = (x, y)" by (cases p)
  have "d OR (x XOR y) = 0 \<longleftrightarrow> d = 0 \<and> x = y" by (simp add: or_eq_0_iff xor_zero_iff)
  with Cons show ?case by (auto simp: p)
qed simp

lemma zip_eq: "length xs = length ys \<Longrightarrow> list_all (\<lambda>(x, y). x = y) (zip xs ys) \<longleftrightarrow> xs = ys"
  by (induction xs ys rule: list_induct2) auto

lemma token_hash_eq_iff [simp]: "token_hash_eq a b \<longleftrightarrow> a = b"
  by (auto simp: token_hash_eq_def or_fold_zero zip_eq)

section \<open>The invariant\<close>

definition repo_inv :: "device_store \<Rightarrow> bool" where
  "repo_inv g \<longleftrightarrow> hwf (devices g) \<and> hwf (by_public_id g) \<and> hwf (credentials g) \<and>
     (\<forall>i d. hget (devices g) i = Some d \<longrightarrow>
        dv_id d = i \<and> hget (by_public_id g) (dv_public_id d) = Some i \<and> i \<le> next_device_id g) \<and>
     (\<forall>p i. hget (by_public_id g) p = Some i \<longrightarrow> (\<exists>d. hget (devices g) i = Some d \<and> dv_public_id d = p)) \<and>
     (\<forall>i c. hget (credentials g) i = Some c \<longrightarrow>
        dc_id c = i \<and> i \<le> next_cred_id g \<and> hget (devices g) (dc_device_id c) \<noteq> None)"

lemma repo_invD:
  assumes "repo_inv g"
  shows "hwf (devices g)" "hwf (by_public_id g)" "hwf (credentials g)"
    and "hget (devices g) i = Some d \<Longrightarrow> dv_id d = i"
    and "hget (devices g) i = Some d \<Longrightarrow> hget (by_public_id g) (dv_public_id d) = Some i"
    and "hget (devices g) i = Some d \<Longrightarrow> i \<le> next_device_id g"
    and "hget (by_public_id g) p = Some i \<Longrightarrow> \<exists>d. hget (devices g) i = Some d \<and> dv_public_id d = p"
    and "hget (credentials g) j = Some c \<Longrightarrow> dc_id c = j"
    and "hget (credentials g) j = Some c \<Longrightarrow> j \<le> next_cred_id g"
    and "hget (credentials g) j = Some c \<Longrightarrow> hget (devices g) (dc_device_id c) \<noteq> None"
  using assms unfolding repo_inv_def by blast+

lemma repo_invI:
  assumes "hwf (devices g)" "hwf (by_public_id g)" "hwf (credentials g)"
    and "\<And>i d. hget (devices g) i = Some d \<Longrightarrow>
        dv_id d = i \<and> hget (by_public_id g) (dv_public_id d) = Some i \<and> i \<le> next_device_id g"
    and "\<And>p i. hget (by_public_id g) p = Some i \<Longrightarrow> \<exists>d. hget (devices g) i = Some d \<and> dv_public_id d = p"
    and "\<And>i c. hget (credentials g) i = Some c \<Longrightarrow>
        dc_id c = i \<and> i \<le> next_cred_id g \<and> hget (devices g) (dc_device_id c) \<noteq> None"
  shows "repo_inv g"
  using assms unfolding repo_inv_def by blast

lemma repo_inv_new: "repo_inv new_device_store"
  by (simp add: repo_inv_def new_device_store_def)

lemma repo_inv_saved [simp]: "repo_inv (snd (saved save r g)) = repo_inv g"
  by (simp add: saved_def split: sum.split)

lemma saved_snd [simp]: "snd (saved save r g) = g"
  by (simp add: saved_def split: sum.split)

text \<open>A device row changed in place, keeping its ids.\<close>

lemma repo_inv_put_device:
  assumes inv: "repo_inv g" and d: "hget (devices g) i = Some d"
    and d': "dv_id d' = dv_id d" "dv_public_id d' = dv_public_id d"
  shows "repo_inv (g\<lparr>devices := hput i d' (devices g)\<rparr>)"
proof (rule repo_invI)
  fix j e assume "hget (devices (g\<lparr>devices := hput i d' (devices g)\<rparr>)) j = Some e"
  then have "j = i \<and> e = d' \<or> hget (devices g) j = Some e" by (auto split: if_splits)
  with repo_invD(4-6) [OF inv] d d' show "dv_id e = j \<and>
      hget (by_public_id (g\<lparr>devices := hput i d' (devices g)\<rparr>)) (dv_public_id e) = Some j \<and>
      j \<le> next_device_id (g\<lparr>devices := hput i d' (devices g)\<rparr>)" by auto
next
  fix p j assume "hget (by_public_id (g\<lparr>devices := hput i d' (devices g)\<rparr>)) p = Some j"
  with repo_invD(7) [OF inv, of p j] obtain e where "hget (devices g) j = Some e" "dv_public_id e = p" by auto
  with d d' show "\<exists>e. hget (devices (g\<lparr>devices := hput i d' (devices g)\<rparr>)) j = Some e \<and> dv_public_id e = p"
    by (cases "j = i") auto
next
  fix j c assume "hget (credentials (g\<lparr>devices := hput i d' (devices g)\<rparr>)) j = Some c"
  with repo_invD(8-10) [OF inv, of j c] show "dc_id c = j \<and>
      j \<le> next_cred_id (g\<lparr>devices := hput i d' (devices g)\<rparr>) \<and>
      hget (devices (g\<lparr>devices := hput i d' (devices g)\<rparr>)) (dc_device_id c) \<noteq> None" by auto
qed (use repo_invD(1-3) [OF inv] in auto)

text \<open>Credential rows changed in place, keeping their ids and devices.\<close>

lemma repo_inv_put_credential:
  assumes inv: "repo_inv g" and c: "hget (credentials g) i = Some c"
    and c': "dc_id c' = dc_id c" "dc_device_id c' = dc_device_id c"
  shows "repo_inv (g\<lparr>credentials := hput i c' (credentials g)\<rparr>)"
  using repo_invD [OF inv] c c' unfolding repo_inv_def by (auto split: if_splits)

lemma repo_inv_map_credentials:
  assumes inv: "repo_inv g" and f: "\<And>c. dc_id (f c) = dc_id c" "\<And>c. dc_device_id (f c) = dc_device_id c"
  shows "repo_inv (g\<lparr>credentials := hmap_values f (credentials g)\<rparr>)"
  using repo_invD [OF inv] f unfolding repo_inv_def by auto

lemma repo_inv_insert_credential:
  assumes inv: "repo_inv g"
  shows "repo_inv (snd (insert_credential_locked new now g))"
proof (cases "hget (devices g) (nc_device_id new)")
  case None
  with inv show ?thesis by (simp add: insert_credential_locked_def)
next
  case (Some d)
  have le: "i \<le> next_cred_id g + 1" if "hget (credentials g) i = Some c" for i c
    using repo_invD(9) [OF inv that] by simp
  show ?thesis
    using repo_invD(1-7) [OF inv] repo_invD(8,10) [OF inv] le Some unfolding repo_inv_def
    by (auto simp: insert_credential_locked_def Let_def split: if_splits)
qed

lemma repo_inv_create:
  assumes inv: "repo_inv g"
  shows "repo_inv (snd (create_device save new now g))"
proof (cases "hget (by_public_id g) (nd_public_id new)")
  case None
  let ?n = "next_device_id g + 1"
  have fresh: "hget (devices g) ?n = None"
    using repo_invD(6) [OF inv, of ?n] by (cases "hget (devices g) ?n") auto
  have le: "i \<le> ?n" if "hget (devices g) i = Some d" for i d
    using repo_invD(6) [OF inv that] by simp
  have other: "dv_public_id d \<noteq> nd_public_id new" if "hget (devices g) i = Some d" for i d
    using repo_invD(5) [OF inv that] None by auto
  have old: "\<exists>d. hget (devices g) i = Some d \<and> dv_public_id d = p \<and> i \<noteq> ?n" if "hget (by_public_id g) p = Some i" for p i
    using repo_invD(7) [OF inv that] fresh by auto
  show ?thesis
    using repo_invD(1-6,8-10) [OF inv] None fresh le other old unfolding repo_inv_def
    by (auto simp: create_device_def Let_def split: if_splits dest!: old)
qed (use inv in \<open>simp add: create_device_def\<close>)

lemma repo_inv_set_status: "repo_inv g \<Longrightarrow> repo_inv (snd (set_status p st now g))"
  by (auto simp: set_status_def Let_def split: option.split intro!: repo_inv_put_device)

lemma repo_inv_soft_delete: "repo_inv g \<Longrightarrow> repo_inv (snd (soft_delete save p at g))"
  by (auto simp: soft_delete_def split: option.split intro!: repo_inv_put_device)

lemma repo_inv_touch: "repo_inv g \<Longrightarrow> repo_inv (snd (touch_last_seen save i at g))"
  by (auto simp: touch_last_seen_def split: option.split intro!: repo_inv_put_device)

lemma repo_inv_insert: "repo_inv g \<Longrightarrow> repo_inv (snd (insert_credential save new now g))"
  using repo_inv_insert_credential [of g new now]
  by (auto simp: insert_credential_def split: prod.split sum.split)

lemma repo_inv_revoke: "repo_inv g \<Longrightarrow> repo_inv (snd (revoke_credential save i at g))"
  by (auto simp: revoke_credential_def split: option.split intro!: repo_inv_put_credential)

lemma repo_inv_revoke_all: "repo_inv g \<Longrightarrow> repo_inv (snd (revoke_all_for_device save i at g))"
  by (auto simp: revoke_all_for_device_def intro!: repo_inv_map_credentials)

lemma find_credential_Some:
  assumes "repo_inv g" and "find_credential P g = Some c"
  shows "hget (credentials g) (dc_id c) = Some c \<and> dc_revoked_at c = None \<and> P c"
proof -
  have "c \<in> snd ` set (credentials g)" "dc_revoked_at c = None" "P c"
    using assms(2) by (auto simp: find_credential_def find_Some_iff)
  moreover from this obtain i where "hget (credentials g) i = Some c"
    using hget_iff_mem [OF repo_invD(3) [OF assms(1)]] by fastforce
  ultimately show ?thesis using repo_invD(8) [OF assms(1)] by auto
qed

lemma find_credential_None:
  assumes "repo_inv g" and "find_credential P g = None" and "hget (credentials g) i = Some c"
  shows "\<not> (dc_revoked_at c = None \<and> P c)"
proof -
  have "c \<in> set (map snd (credentials g))"
    using assms(3) hget_iff_mem [OF repo_invD(3) [OF assms(1)]] by force
  with assms(2) show ?thesis unfolding find_credential_def find_None_iff by blast
qed

text \<open>The rows a successful rotation writes: the old one revoked, the new one, the device's visit.\<close>

lemma rotate_refresh_cases:
  assumes inv: "repo_inv g"
  obtains e where "rotate_refresh save h new now g = (Inl e, g)"
  | c d cred where "hget (credentials g) (dc_id c) = Some c" "dc_revoked_at c = None"
      "dc_refresh_token_hash c = h" "now \<le> dc_expires_at c" "hget (devices g) (dc_device_id c) = Some d"
      "dv_status d = StatusActive" "nc_device_id new = dc_device_id c"
      "insert_credential_locked new now (g\<lparr>credentials := hput (dc_id c) (c\<lparr>dc_revoked_at := Some now\<rparr>) (credentials g)\<rparr>) =
        (Inr cred, snd (insert_credential_locked new now
          (g\<lparr>credentials := hput (dc_id c) (c\<lparr>dc_revoked_at := Some now\<rparr>) (credentials g)\<rparr>)))"
      "rotate_refresh save h new now g = saved save (d, cred)
        ((snd (insert_credential_locked new now
          (g\<lparr>credentials := hput (dc_id c) (c\<lparr>dc_revoked_at := Some now\<rparr>) (credentials g)\<rparr>)))
         \<lparr>devices := hput (dc_device_id c) (d\<lparr>dv_last_seen_at := Some now\<rparr>) (devices g)\<rparr>)"
proof (cases "find_credential (\<lambda>c. token_hash_eq (dc_refresh_token_hash c) h) g")
  case None
  then show ?thesis using that(1) by (simp add: rotate_refresh_def)
next
  case (Some c)
  from find_credential_Some [OF inv Some] have c: "hget (credentials g) (dc_id c) = Some c" "dc_revoked_at c = None"
      "dc_refresh_token_hash c = h" by simp_all
  obtain d where d: "hget (devices g) (dc_device_id c) = Some d" using repo_invD(10) [OF inv c(1)] by auto
  show ?thesis
  proof (cases "dc_expires_at c < now \<or> dv_status d \<noteq> StatusActive \<or> nc_device_id new \<noteq> dc_device_id c")
    case True
    then have "\<exists>e. rotate_refresh save h new now g = (Inl e, g)"
      using Some c d by (auto simp: rotate_refresh_def Let_def)
    then show ?thesis using that(1) by blast
  next
    case False
    then show ?thesis using that(2) [of c d] Some c d
      by (simp add: rotate_refresh_def Let_def insert_credential_locked_def)
  qed
qed

lemma repo_inv_rotate:
  assumes inv: "repo_inv g"
  shows "repo_inv (snd (rotate_refresh save h new now g))"
proof (cases rule: rotate_refresh_cases [OF inv, of save h new now])
  case (1 e)
  with inv show ?thesis by simp
next
  case (2 c d cred)
  let ?g1 = "g\<lparr>credentials := hput (dc_id c) (c\<lparr>dc_revoked_at := Some now\<rparr>) (credentials g)\<rparr>"
  let ?g2 = "snd (insert_credential_locked new now ?g1)"
  have "repo_inv ?g2"
    by (intro repo_inv_insert_credential repo_inv_put_credential [OF inv 2(1)]) simp_all
  moreover have dev: "devices ?g2 = devices g" by (simp add: insert_credential_locked_def Let_def)
  ultimately have "repo_inv (?g2\<lparr>devices := hput (dc_device_id c) (d\<lparr>dv_last_seen_at := Some now\<rparr>) (devices ?g2)\<rparr>)"
    using 2(5) by (intro repo_inv_put_device) simp_all
  with 2(9) dev show ?thesis by simp
qed

inductive repo_step :: "saver \<Rightarrow> device_store \<Rightarrow> device_store \<Rightarrow> bool" for save :: saver where
  step_create: "repo_step save g (snd (create_device save new now g))"
| step_status: "repo_step save g (snd (set_status p st now g))"
| step_delete: "repo_step save g (snd (soft_delete save p at g))"
| step_insert: "repo_step save g (snd (insert_credential save nc now g))"
| step_rotate: "repo_step save g (snd (rotate_refresh save h nc now g))"
| step_revoke: "repo_step save g (snd (revoke_credential save i at g))"
| step_revoke_all: "repo_step save g (snd (revoke_all_for_device save i at g))"
| step_touch: "repo_step save g (snd (touch_last_seen save i at g))"

definition repo_reachable :: "saver \<Rightarrow> device_store \<Rightarrow> bool" where
  "repo_reachable save g \<longleftrightarrow> (repo_step save)\<^sup>*\<^sup>* new_device_store g"

lemma repo_step_inv: "repo_step save g g' \<Longrightarrow> repo_inv g \<Longrightarrow> repo_inv g'"
  by (induction rule: repo_step.induct)
    (simp_all add: repo_inv_create repo_inv_set_status repo_inv_soft_delete repo_inv_insert repo_inv_rotate
      repo_inv_revoke repo_inv_revoke_all repo_inv_touch)

lemma repo_reachable_inv: "repo_reachable save g \<Longrightarrow> repo_inv g"
  unfolding repo_reachable_def
  by (induction rule: rtranclp_induct) (auto intro: repo_inv_new repo_step_inv)

lemma repo_reachable_init: "repo_reachable save new_device_store"
  by (simp add: repo_reachable_def)

lemma repo_reachable_step: "repo_reachable save g \<Longrightarrow> repo_step save g g' \<Longrightarrow> repo_reachable save g'"
  unfolding repo_reachable_def by (rule rtranclp.rtrancl_into_rtrancl)

section \<open>Single-use refresh tokens\<close>

text \<open>
  A store of single-use grants, as the token-refresh endpoint relies on it: \<open>live g h\<close> counts the
  grants under a hash; a successful exchange uses one up and adds none under it, and no
  exchange adds any. Then a hash is exchanged at most as often as it was granted.
\<close>

locale single_use_store =
  fixes exchange :: "'h \<Rightarrow> 'n \<Rightarrow> 's \<Rightarrow> ('e + 'r) \<times> 's"
    and live :: "'s \<Rightarrow> 'h \<Rightarrow> nat"
    and fresh :: "'n \<Rightarrow> 'h \<Rightarrow> bool"
    and inv :: "'s \<Rightarrow> bool"
  assumes inv_exchange: "inv s \<Longrightarrow> inv (snd (exchange h n s))"
    and success_uses: "inv s \<Longrightarrow> fresh n h \<Longrightarrow> fst (exchange h n s) = Inr r \<Longrightarrow>
      Suc (live (snd (exchange h n s)) h) = live s h"
    and never_grants: "inv s \<Longrightarrow> fresh n h \<Longrightarrow> live (snd (exchange h n s)) h \<le> live s h"
begin

primrec successes :: "'h \<Rightarrow> 'n list \<Rightarrow> 's \<Rightarrow> nat" where
  "successes h [] s = 0"
| "successes h (n # ns) s =
     (case fst (exchange h n s) of Inl _ \<Rightarrow> 0 | Inr _ \<Rightarrow> 1) + successes h ns (snd (exchange h n s))"

lemma successes_bounded:
  "inv s \<Longrightarrow> list_all (\<lambda>n. fresh n h) ns \<Longrightarrow> successes h ns s \<le> live s h"
proof (induction ns arbitrary: s)
  case (Cons n ns)
  from Cons.prems have n: "fresh n h" "list_all (\<lambda>n. fresh n h) ns" by simp_all
  note IH = Cons.IH [OF inv_exchange [OF Cons.prems(1)] n(2), of h n]
  show ?case
  proof (cases "fst (exchange h n s)")
    case (Inl e)
    with IH never_grants [OF Cons.prems(1) n(1)] show ?thesis by simp
  next
    case (Inr r)
    with IH success_uses [OF Cons.prems(1) n(1) Inr] show ?thesis by simp
  qed
qed simp

end

text \<open>The live credentials under a refresh hash.\<close>

definition live_ids :: "string \<Rightarrow> device_store \<Rightarrow> int set" where
  "live_ids h g = {i. \<exists>c. hget (credentials g) i = Some c \<and> dc_revoked_at c = None \<and> dc_refresh_token_hash c = h}"

definition live_count :: "device_store \<Rightarrow> string \<Rightarrow> nat" where
  "live_count g h = card (live_ids h g)"

lemma finite_live_ids: "finite (live_ids h g)"
proof (rule finite_subset)
  show "live_ids h g \<subseteq> dom (hget (credentials g))" by (auto simp: live_ids_def)
qed (rule finite_dom_map_of)

lemma live_ids_saved [simp]: "live_ids h (g\<lparr>devices := D\<rparr>) = live_ids h g"
  by (simp add: live_ids_def)

lemma rotate_live_ids:
  assumes inv: "repo_inv g" and fresh: "nc_refresh_token_hash new \<noteq> h"
  shows "(\<exists>e. rotate_refresh save h new now g = (Inl e, g)) \<or>
    (\<exists>i \<in> live_ids h g. live_ids h (snd (rotate_refresh save h new now g)) = live_ids h g - {i})"
proof (cases rule: rotate_refresh_cases [OF inv, of save h new now])
  case (2 c d cred)
  have "dc_id c \<in> live_ids h g" using 2 by (auto simp: live_ids_def)
  moreover have "live_ids h (snd (rotate_refresh save h new now g)) = live_ids h g - {dc_id c}"
    using 2(5,7) fresh repo_invD(9) [OF inv] unfolding 2(9)
    by (force simp: live_ids_def insert_credential_locked_def Let_def)
  ultimately show ?thesis by blast
qed auto

type_synonym exchange_request = "saver \<times> new_credential \<times> datetime"

definition exchange_refresh ::
  "string \<Rightarrow> exchange_request \<Rightarrow> device_store \<Rightarrow> (repo_error + (device \<times> device_credential)) \<times> device_store" where
  "exchange_refresh h req g = (case req of (save, new, now) \<Rightarrow> rotate_refresh save h new now g)"

definition fresh_request :: "exchange_request \<Rightarrow> string \<Rightarrow> bool" where
  "fresh_request req h = (case req of (save, new, now) \<Rightarrow> nc_refresh_token_hash new \<noteq> h)"

lemma rotate_live_count:
  assumes "repo_inv g" and "nc_refresh_token_hash new \<noteq> h"
  shows "(\<exists>e. rotate_refresh save h new now g = (Inl e, g)) \<or>
    Suc (live_count (snd (rotate_refresh save h new now g)) h) = live_count g h"
  using rotate_live_ids [OF assms, of save now] card_Suc_Diff1 [OF finite_live_ids]
  unfolding live_count_def by metis

interpretation refresh: single_use_store exchange_refresh live_count fresh_request repo_inv
proof unfold_locales
  fix g :: device_store and h and req :: exchange_request
  assume inv: "repo_inv g"
  obtain save new now where req: "req = (save, new, now)" by (rule prod_cases3)
  have eq: "exchange_refresh h req g = rotate_refresh save h new now g" by (simp add: req exchange_refresh_def)
  show "repo_inv (snd (exchange_refresh h req g))" unfolding eq by (rule repo_inv_rotate [OF inv])
  assume "fresh_request req h"
  then have "nc_refresh_token_hash new \<noteq> h" by (simp add: req fresh_request_def)
  note cases = rotate_live_count [OF inv this, of save now, folded eq]
  from cases show "live_count (snd (exchange_refresh h req g)) h \<le> live_count g h" by force
  fix r
  assume "fst (exchange_refresh h req g) = Inr r"
  with cases show "Suc (live_count (snd (exchange_refresh h req g)) h) = live_count g h" by force
qed

primrec rotations :: "string \<Rightarrow> exchange_request list \<Rightarrow> device_store \<Rightarrow> nat" where
  "rotations h [] g = 0"
| "rotations h (req # reqs) g =
     (case fst (exchange_refresh h req g) of Inl _ \<Rightarrow> 0 | Inr _ \<Rightarrow> 1) +
     rotations h reqs (snd (exchange_refresh h req g))"

lemma rotations_successes: "rotations h reqs g = refresh.successes h reqs g"
  by (induction reqs arbitrary: g) simp_all

text \<open>
  Refresh tokens are single-use. In a reachable store, over any sequence of rotations with one
  refresh hash (any new credentials under other hashes, any clock readings, saved or not), no
  more succeed than there were live credentials under that hash: with one, at most one.
\<close>

theorem refresh_tokens_single_use:
  assumes "repo_reachable save g" and "list_all (\<lambda>req. fresh_request req h) reqs"
  shows "rotations h reqs g \<le> live_count g h"
  unfolding rotations_successes by (rule refresh.successes_bounded [OF repo_reachable_inv [OF assms(1)] assms(2)])

definition demo_save :: saver where
  "demo_save g = Inr ()"

definition demo_device :: new_device where
  "demo_device = \<lparr>nd_public_id = ''1234567897'', nd_display_name = None, nd_public_key = [], nd_protocol_version_last = Some 1\<rparr>"

definition demo_credential :: "string \<Rightarrow> new_credential" where
  "demo_credential h = \<lparr>nc_device_id = 1, nc_token_hash = ''a'', nc_refresh_token_hash = h,
     nc_access_expires_at = 10, nc_expires_at = 100\<rparr>"

text \<open>One enrolled device with one credential.\<close>

definition demo_devices :: device_store where
  "demo_devices = snd (insert_credential demo_save (demo_credential ''r'') 0
     (snd (create_device demo_save demo_device 0 new_device_store)))"

lemma demo_devices_reachable: "repo_reachable demo_save demo_devices"
  unfolding demo_devices_def
  by (intro repo_reachable_step [OF _ step_insert] repo_reachable_step [OF _ step_create] repo_reachable_init)

lemma demo_devices_eq: "demo_devices =
  \<lparr>devices = [(1, \<lparr>dv_id = 1, dv_public_id = ''1234567897'', dv_display_name = None, dv_public_key = [],
     dv_password_hash = None, dv_protocol_version_last = Some 1, dv_created_at = 0, dv_last_seen_at = None,
     dv_status = StatusActive, dv_deleted_at = None\<rparr>)],
   by_public_id = [(''1234567897'', 1)],
   credentials = [(1, \<lparr>dc_id = 1, dc_device_id = 1, dc_token_hash = ''a'', dc_refresh_token_hash = ''r'',
     dc_access_expires_at = 10, dc_expires_at = 100, dc_revoked_at = None, dc_created_at = 0\<rparr>)],
   next_device_id = 1, next_cred_id = 1\<rparr>"
  by (simp add: demo_devices_def create_device_def insert_credential_def insert_credential_locked_def saved_def
      demo_save_def demo_device_def demo_credential_def new_device_store_def Let_def)

lemma demo_live: "live_count demo_devices ''r'' = 1"
proof -
  have "live_ids ''r'' demo_devices = {1}" by (auto simp: live_ids_def demo_devices_eq split: if_splits)
  then show ?thesis by (simp add: live_count_def)
qed

theorem refresh_tokens_single_use_witness:
  "rotations ''r'' [(demo_save, demo_credential ''r2'', 5), (demo_save, demo_credential ''r3'', 6)] demo_devices \<le> 1 \<and>
   fst (rotate_refresh demo_save ''r'' (demo_credential ''r2'') 5 demo_devices) \<noteq> Inl StaleCredential"
proof
  show "rotations ''r'' [(demo_save, demo_credential ''r2'', 5), (demo_save, demo_credential ''r3'', 6)] demo_devices \<le> 1"
    using refresh_tokens_single_use [OF demo_devices_reachable, of "''r''"
      "[(demo_save, demo_credential ''r2'', 5), (demo_save, demo_credential ''r3'', 6)]"] demo_live
    by (simp add: fresh_request_def demo_credential_def)
  show "fst (rotate_refresh demo_save ''r'' (demo_credential ''r2'') 5 demo_devices) \<noteq> Inl StaleCredential"
    by (simp add: rotate_refresh_def find_credential_def demo_devices_eq demo_credential_def demo_save_def
        insert_credential_locked_def saved_def Let_def)
qed

lemma find_credential_device:
  "find_credential P (snd (revoke_all_for_device save did at g)) = find_credential (\<lambda>c. P c \<and> dc_device_id c \<noteq> did) g"
  if "\<And>c t. P (c\<lparr>dc_revoked_at := t\<rparr>) = P c" for P
proof -
  have "find (\<lambda>c. dc_revoked_at c = None \<and> P c)
      (map snd (map (\<lambda>(k, c). (k, if dc_device_id c = did \<and> dc_revoked_at c = None then c\<lparr>dc_revoked_at := Some at\<rparr> else c)) m)) =
    find (\<lambda>c. dc_revoked_at c = None \<and> P c \<and> dc_device_id c \<noteq> did) (map snd m)" for m :: "(int \<times> device_credential) list"
    by (induction m) auto
  then show ?thesis by (simp add: find_credential_def revoke_all_for_device_def hmap_values_def)
qed

text \<open>
  Revoking a device locks it out. After \<open>revoke_all_for_device\<close> (saved or not) in a reachable
  store, no access or refresh lookup returns that device, whatever the hash; a lookup that found
  another device's credential as the only live one under its hash still finds it.
\<close>

theorem revoke_all_locks_out:
  assumes "repo_reachable save' g"
  shows "find_by_access_hash h (snd (revoke_all_for_device save did at g)) =
      (case find_credential (\<lambda>c. dc_token_hash c = h \<and> dc_device_id c \<noteq> did) g of
         None \<Rightarrow> Inr None
       | Some c \<Rightarrow> Inr (Some (the (hget (devices g) (dc_device_id c)), c))) \<and>
    find_by_refresh_hash h (snd (revoke_all_for_device save did at g)) =
      (case find_credential (\<lambda>c. dc_refresh_token_hash c = h \<and> dc_device_id c \<noteq> did) g of
         None \<Rightarrow> Inr None
       | Some c \<Rightarrow> Inr (Some (the (hget (devices g) (dc_device_id c)), c)))"
proof -
  note inv = repo_reachable_inv [OF assms]
  have dev: "devices (snd (revoke_all_for_device save did at g)) = devices g"
    by (simp add: revoke_all_for_device_def)
  have found: "hget (devices g) (dc_device_id c) \<noteq> None" if "find_credential P g = Some c" for P c
    using find_credential_Some [OF inv that] repo_invD(10) [OF inv] by blast
  show ?thesis
    unfolding find_by_access_hash_def find_by_refresh_hash_def with_device_def dev
    by (auto simp: find_credential_device dest: found split: option.split)
qed

theorem revoke_all_locks_out_witness:
  "find_by_access_hash ''a'' (snd (revoke_all_for_device demo_save 1 7 demo_devices)) = Inr None \<and>
   find_by_access_hash ''a'' demo_devices \<noteq> Inr None"
proof
  show "find_by_access_hash ''a'' (snd (revoke_all_for_device demo_save 1 7 demo_devices)) = Inr None"
    using revoke_all_locks_out [OF demo_devices_reachable, of "''a''" demo_save 1 7]
    by (simp add: find_credential_def demo_devices_eq)
  show "find_by_access_hash ''a'' demo_devices \<noteq> Inr None"
    by (simp add: find_by_access_hash_def find_credential_def with_device_def demo_devices_eq)
qed

end
