(* ===== verification/Scancode.thy ===== *)
theory Scancode
  imports RL_Prelude
begin

text \<open>
  The key table (\<open>packages/protocol/src/scancode.rs\<close>): platform-agnostic key names, their Windows
  scan-set-1 codes, and the keys typed by ASCII characters. The constructors of \<open>named_key\<close> are the
  104 variants of \<open>NamedKey\<close> behind the prefix \<open>Key\<close>; \<open>named_keys\<close> lists them in their order.
\<close>

record scan_code =
  code :: u32
  extended :: bool

definition scan_new :: "u32 \<Rightarrow> scan_code" where
  "scan_new c = \<lparr>code = c, extended = False\<rparr>"

definition scan_extended :: "u32 \<Rightarrow> scan_code" where
  "scan_extended c = \<lparr>code = c, extended = True\<rparr>"

datatype (plugins only: size) named_key =
  KeyA | KeyB | KeyC | KeyD | KeyE | KeyF | KeyG | KeyH | KeyI | KeyJ | KeyK | KeyL | KeyM
  | KeyN | KeyO | KeyP | KeyQ | KeyR | KeyS | KeyT | KeyU | KeyV | KeyW | KeyX | KeyY | KeyZ
  | KeyDigit0 | KeyDigit1 | KeyDigit2 | KeyDigit3 | KeyDigit4 | KeyDigit5 | KeyDigit6
  | KeyDigit7 | KeyDigit8 | KeyDigit9 | KeyF1 | KeyF2 | KeyF3 | KeyF4 | KeyF5 | KeyF6 | KeyF7
  | KeyF8 | KeyF9 | KeyF10 | KeyF11 | KeyF12 | KeyControlLeft | KeyControlRight | KeyShiftLeft
  | KeyShiftRight | KeyAltLeft | KeyAltRight | KeyMetaLeft | KeyMetaRight | KeyCapsLock
  | KeyNumLock | KeyScrollLock | KeyEscape | KeyTab | KeySpace | KeyEnter | KeyBackspace
  | KeyInsert | KeyDelete | KeyHome | KeyEnd | KeyPageUp | KeyPageDown | KeyArrowUp
  | KeyArrowDown | KeyArrowLeft | KeyArrowRight | KeyMinus | KeyEqual | KeyBracketLeft
  | KeyBracketRight | KeyBackslash | KeySemicolon | KeyQuote | KeyBackquote | KeyComma
  | KeyPeriod | KeySlash | KeyNumpad0 | KeyNumpad1 | KeyNumpad2 | KeyNumpad3 | KeyNumpad4
  | KeyNumpad5 | KeyNumpad6 | KeyNumpad7 | KeyNumpad8 | KeyNumpad9 | KeyNumpadMultiply
  | KeyNumpadAdd | KeyNumpadSubtract | KeyNumpadDecimal | KeyNumpadDivide | KeyNumpadEnter
  | KeyPrintScreen | KeyPause | KeyContextMenu

definition named_keys :: "named_key list" where
  "named_keys =
     [KeyA, KeyB, KeyC, KeyD, KeyE, KeyF, KeyG, KeyH, KeyI, KeyJ, KeyK, KeyL, KeyM, KeyN,
      KeyO, KeyP, KeyQ, KeyR, KeyS, KeyT, KeyU, KeyV, KeyW, KeyX, KeyY, KeyZ, KeyDigit0,
      KeyDigit1, KeyDigit2, KeyDigit3, KeyDigit4, KeyDigit5, KeyDigit6, KeyDigit7, KeyDigit8,
      KeyDigit9, KeyF1, KeyF2, KeyF3, KeyF4, KeyF5, KeyF6, KeyF7, KeyF8, KeyF9, KeyF10,
      KeyF11, KeyF12, KeyControlLeft, KeyControlRight, KeyShiftLeft, KeyShiftRight,
      KeyAltLeft, KeyAltRight, KeyMetaLeft, KeyMetaRight, KeyCapsLock, KeyNumLock,
      KeyScrollLock, KeyEscape, KeyTab, KeySpace, KeyEnter, KeyBackspace, KeyInsert,
      KeyDelete, KeyHome, KeyEnd, KeyPageUp, KeyPageDown, KeyArrowUp, KeyArrowDown,
      KeyArrowLeft, KeyArrowRight, KeyMinus, KeyEqual, KeyBracketLeft, KeyBracketRight,
      KeyBackslash, KeySemicolon, KeyQuote, KeyBackquote, KeyComma, KeyPeriod, KeySlash,
      KeyNumpad0, KeyNumpad1, KeyNumpad2, KeyNumpad3, KeyNumpad4, KeyNumpad5, KeyNumpad6,
      KeyNumpad7, KeyNumpad8, KeyNumpad9, KeyNumpadMultiply, KeyNumpadAdd, KeyNumpadSubtract,
      KeyNumpadDecimal, KeyNumpadDivide, KeyNumpadEnter, KeyPrintScreen, KeyPause,
      KeyContextMenu]"

text \<open>The arms of \<open>lookup_scancode\<close>, in their order.\<close>

definition scan_table :: "(named_key \<times> scan_code) list" where
  "scan_table =
     [(KeyA, scan_new 0x1E), (KeyB, scan_new 0x30), (KeyC, scan_new 0x2E),
      (KeyD, scan_new 0x20), (KeyE, scan_new 0x12), (KeyF, scan_new 0x21),
      (KeyG, scan_new 0x22), (KeyH, scan_new 0x23), (KeyI, scan_new 0x17),
      (KeyJ, scan_new 0x24), (KeyK, scan_new 0x25), (KeyL, scan_new 0x26),
      (KeyM, scan_new 0x32), (KeyN, scan_new 0x31), (KeyO, scan_new 0x18),
      (KeyP, scan_new 0x19), (KeyQ, scan_new 0x10), (KeyR, scan_new 0x13),
      (KeyS, scan_new 0x1F), (KeyT, scan_new 0x14), (KeyU, scan_new 0x16),
      (KeyV, scan_new 0x2F), (KeyW, scan_new 0x11), (KeyX, scan_new 0x2D),
      (KeyY, scan_new 0x15), (KeyZ, scan_new 0x2C), (KeyDigit1, scan_new 0x02),
      (KeyDigit2, scan_new 0x03), (KeyDigit3, scan_new 0x04), (KeyDigit4, scan_new 0x05),
      (KeyDigit5, scan_new 0x06), (KeyDigit6, scan_new 0x07), (KeyDigit7, scan_new 0x08),
      (KeyDigit8, scan_new 0x09), (KeyDigit9, scan_new 0x0A), (KeyDigit0, scan_new 0x0B),
      (KeyF1, scan_new 0x3B), (KeyF2, scan_new 0x3C), (KeyF3, scan_new 0x3D),
      (KeyF4, scan_new 0x3E), (KeyF5, scan_new 0x3F), (KeyF6, scan_new 0x40),
      (KeyF7, scan_new 0x41), (KeyF8, scan_new 0x42), (KeyF9, scan_new 0x43),
      (KeyF10, scan_new 0x44), (KeyF11, scan_new 0x57), (KeyF12, scan_new 0x58),
      (KeyControlLeft, scan_new 0x1D), (KeyControlRight, scan_extended 0x1D),
      (KeyShiftLeft, scan_new 0x2A), (KeyShiftRight, scan_new 0x36),
      (KeyAltLeft, scan_new 0x38), (KeyAltRight, scan_extended 0x38),
      (KeyMetaLeft, scan_extended 0x5B), (KeyMetaRight, scan_extended 0x5C),
      (KeyCapsLock, scan_new 0x3A), (KeyNumLock, scan_new 0x45),
      (KeyScrollLock, scan_new 0x46), (KeyEscape, scan_new 0x01), (KeyTab, scan_new 0x0F),
      (KeySpace, scan_new 0x39), (KeyEnter, scan_new 0x1C), (KeyBackspace, scan_new 0x0E),
      (KeyInsert, scan_extended 0x52), (KeyDelete, scan_extended 0x53),
      (KeyHome, scan_extended 0x47), (KeyEnd, scan_extended 0x4F),
      (KeyPageUp, scan_extended 0x49), (KeyPageDown, scan_extended 0x51),
      (KeyArrowUp, scan_extended 0x48), (KeyArrowDown, scan_extended 0x50),
      (KeyArrowLeft, scan_extended 0x4B), (KeyArrowRight, scan_extended 0x4D),
      (KeyMinus, scan_new 0x0C), (KeyEqual, scan_new 0x0D),
      (KeyBracketLeft, scan_new 0x1A), (KeyBracketRight, scan_new 0x1B),
      (KeyBackslash, scan_new 0x2B), (KeySemicolon, scan_new 0x27),
      (KeyQuote, scan_new 0x28), (KeyBackquote, scan_new 0x29), (KeyComma, scan_new 0x33),
      (KeyPeriod, scan_new 0x34), (KeySlash, scan_new 0x35), (KeyNumpad0, scan_new 0x52),
      (KeyNumpad1, scan_new 0x4F), (KeyNumpad2, scan_new 0x50),
      (KeyNumpad3, scan_new 0x51), (KeyNumpad4, scan_new 0x4B),
      (KeyNumpad5, scan_new 0x4C), (KeyNumpad6, scan_new 0x4D),
      (KeyNumpad7, scan_new 0x47), (KeyNumpad8, scan_new 0x48),
      (KeyNumpad9, scan_new 0x49), (KeyNumpadMultiply, scan_new 0x37),
      (KeyNumpadAdd, scan_new 0x4E), (KeyNumpadSubtract, scan_new 0x4A),
      (KeyNumpadDecimal, scan_new 0x53), (KeyNumpadDivide, scan_extended 0x35),
      (KeyNumpadEnter, scan_extended 0x1C), (KeyPrintScreen, scan_extended 0x37),
      (KeyPause, scan_new 0x45), (KeyContextMenu, scan_extended 0x5D)]"

definition lookup_scancode :: "named_key \<Rightarrow> scan_code option" where
  "lookup_scancode key = map_of scan_table key"

text \<open>\<open>scancode_of\<close> panics on a key missing from the table; \<open>lookup_total\<close> below shows that none is.\<close>

definition scancode_of :: "named_key \<Rightarrow> scan_code option" where
  "scancode_of key = lookup_scancode key"

text \<open>The arms of \<open>named_key_from_char\<close>; a letter's two cases share an arm.\<close>

definition char_keys :: "(char \<times> named_key) list" where
  "char_keys =
     [(CHR ''a'', KeyA), (CHR ''A'', KeyA), (CHR ''b'', KeyB), (CHR ''B'', KeyB),
      (CHR ''c'', KeyC), (CHR ''C'', KeyC), (CHR ''d'', KeyD), (CHR ''D'', KeyD),
      (CHR ''e'', KeyE), (CHR ''E'', KeyE), (CHR ''f'', KeyF), (CHR ''F'', KeyF),
      (CHR ''g'', KeyG), (CHR ''G'', KeyG), (CHR ''h'', KeyH), (CHR ''H'', KeyH),
      (CHR ''i'', KeyI), (CHR ''I'', KeyI), (CHR ''j'', KeyJ), (CHR ''J'', KeyJ),
      (CHR ''k'', KeyK), (CHR ''K'', KeyK), (CHR ''l'', KeyL), (CHR ''L'', KeyL),
      (CHR ''m'', KeyM), (CHR ''M'', KeyM), (CHR ''n'', KeyN), (CHR ''N'', KeyN),
      (CHR ''o'', KeyO), (CHR ''O'', KeyO), (CHR ''p'', KeyP), (CHR ''P'', KeyP),
      (CHR ''q'', KeyQ), (CHR ''Q'', KeyQ), (CHR ''r'', KeyR), (CHR ''R'', KeyR),
      (CHR ''s'', KeyS), (CHR ''S'', KeyS), (CHR ''t'', KeyT), (CHR ''T'', KeyT),
      (CHR ''u'', KeyU), (CHR ''U'', KeyU), (CHR ''v'', KeyV), (CHR ''V'', KeyV),
      (CHR ''w'', KeyW), (CHR ''W'', KeyW), (CHR ''x'', KeyX), (CHR ''X'', KeyX),
      (CHR ''y'', KeyY), (CHR ''Y'', KeyY), (CHR ''z'', KeyZ), (CHR ''Z'', KeyZ),
      (CHR ''0'', KeyDigit0), (CHR ''1'', KeyDigit1), (CHR ''2'', KeyDigit2),
      (CHR ''3'', KeyDigit3), (CHR ''4'', KeyDigit4), (CHR ''5'', KeyDigit5),
      (CHR ''6'', KeyDigit6), (CHR ''7'', KeyDigit7), (CHR ''8'', KeyDigit8),
      (CHR ''9'', KeyDigit9), (CHR 0x20, KeySpace), (CHR 0x0A, KeyEnter),
      (CHR 0x0D, KeyEnter), (CHR 0x09, KeyTab)]"

definition named_key_from_char :: "char \<Rightarrow> named_key option" where
  "named_key_from_char c = map_of char_keys c"

section \<open>The table\<close>

text \<open>A scan code as one number: the code, plus 256 when extended.\<close>

definition wire :: "scan_code \<Rightarrow> nat" where
  "wire s = unat (code s) + (if extended s then 256 else 0)"

lemma scan_table_keys: "set (map fst scan_table) = set named_keys"
  by (simp add: scan_table_def named_keys_def insert_commute)

lemma distinct_scan_table: "distinct (map fst scan_table)"
  by (simp add: scan_table_def)

lemma scan_table_codes: "list_all (\<lambda>(k, s). unat (code s) \<le> 255) scan_table"
  by (simp add: scan_table_def scan_new_def scan_extended_def)

lemma distinct_wire: "distinct (map (wire \<circ> snd) (filter (\<lambda>(k, s). k \<noteq> KeyPause) scan_table))"
  by (simp add: scan_table_def scan_new_def scan_extended_def wire_def)

lemma lookup_iff: "lookup_scancode k = Some s \<longleftrightarrow> (k, s) \<in> set scan_table"
  by (simp add: lookup_scancode_def distinct_scan_table)

lemma wire_inj: "wire s = wire t \<Longrightarrow> unat (code s) \<le> 255 \<Longrightarrow> unat (code t) \<le> 255 \<Longrightarrow> s = t"
  by (cases s; cases t) (auto simp: wire_def word_unat_eq_iff split: if_splits)

lemma lookup_inject:
  assumes "lookup_scancode k = Some s" and "lookup_scancode k' = Some s"
    and "k \<noteq> KeyPause" and "k' \<noteq> KeyPause"
  shows "k = k'"
proof -
  have inj: "inj_on (wire \<circ> snd) (set (filter (\<lambda>(k, s). k \<noteq> KeyPause) scan_table))"
    using distinct_wire by (simp only: distinct_map)
  have mem: "(k, s) \<in> set (filter (\<lambda>(k, s). k \<noteq> KeyPause) scan_table)"
    "(k', s) \<in> set (filter (\<lambda>(k, s). k \<noteq> KeyPause) scan_table)"
    using assms by (auto simp: lookup_iff)
  from inj_onD [OF inj _ mem] show ?thesis by simp
qed

lemma lookup_Pause: "lookup_scancode KeyPause = lookup_scancode KeyNumLock"
  by (simp add: lookup_scancode_def scan_table_def)

lemma lookup_total: "\<exists>s. lookup_scancode k = Some s"
proof -
  have "k \<in> set (map fst scan_table)" unfolding scan_table_keys by (cases k) (simp_all add: named_keys_def)
  then show ?thesis by (auto simp: lookup_iff)
qed

text \<open>
  The key table is total and unambiguous. Every key has a scan code (so \<open>scancode_of\<close> never
  panics), and it fits a byte; two different keys share a code only when they are \<open>Pause\<close> and
  \<open>NumLock\<close> (the documented gap), so the host can tell every other key press apart.
\<close>

theorem scancode_table_unambiguous:
  "(\<exists>s. scancode_of k = Some s \<and> unat (code s) \<le> 255) \<and>
   (lookup_scancode k = Some s \<and> lookup_scancode k' = Some s \<longrightarrow>
      k = k' \<or> {k, k'} = {KeyPause, KeyNumLock})"
proof (intro conjI impI)
  show "\<exists>s. scancode_of k = Some s \<and> unat (code s) \<le> 255"
    using lookup_total [of k] scan_table_codes by (fastforce simp: lookup_iff list_all_iff scancode_of_def)
  assume s: "lookup_scancode k = Some s \<and> lookup_scancode k' = Some s"
  have num: "KeyNumLock \<noteq> KeyPause" by simp
  show "k = k' \<or> {k, k'} = {KeyPause, KeyNumLock}"
  proof (cases "k = KeyPause")
    case True
    then have "k' = KeyPause \<or> k' = KeyNumLock"
      using lookup_inject [of k' s KeyNumLock] s num lookup_Pause by metis
    with True show ?thesis by blast
  next
    case False
    then have "k' = KeyPause \<longrightarrow> k = KeyNumLock" and "k' \<noteq> KeyPause \<longrightarrow> k = k'"
      using lookup_inject [of k s KeyNumLock] lookup_inject [of k s k'] s num lookup_Pause by metis+
    then show ?thesis by blast
  qed
qed

theorem scancode_table_unambiguous_witness:
  "lookup_scancode KeyPause = Some (scan_new 0x45) \<and> lookup_scancode KeyA \<noteq> Some (scan_new 0x45)"
proof
  show p: "lookup_scancode KeyPause = Some (scan_new 0x45)"
    by (simp add: lookup_scancode_def scan_table_def)
  show "lookup_scancode KeyA \<noteq> Some (scan_new 0x45)"
  proof
    assume "lookup_scancode KeyA = Some (scan_new 0x45)"
    from mp [OF conjunct2 [OF scancode_table_unambiguous] conjI [OF this p]]
    show False by (simp add: doubleton_eq_iff)
  qed
qed

end
