(* ===== verification/Ipc_Message.thy ===== *)
theory Ipc_Message
  imports RL_Prelude
begin

text \<open>
  The control messages between the host service and the session agent
  (\<open>packages/platform-windows/src/ipc/message.rs\<close>): the payload structs, the message enum, its
  stable method names and the size limits of every field. No variant carries media bytes. A
  \<open>f64\<close> is only carried, never computed with: it is the word of its 64 IEEE bits.
\<close>

type_synonym f64 = "64 word"

definition CONTROL_IPC_VERSION :: u32 where "CONTROL_IPC_VERSION = 1"
definition MAX_SESSION_ID_LEN :: nat where "MAX_SESSION_ID_LEN = 128"
definition MAX_SHORT_STRING_LEN :: nat where "MAX_SHORT_STRING_LEN = 512"
definition MAX_SIGNAL_PAYLOAD_LEN :: nat where "MAX_SIGNAL_PAYLOAD_LEN = 128 * 1024"
definition MAX_TURN_URIS :: nat where "MAX_TURN_URIS = 16"
definition MAX_TURN_URI_LEN :: nat where "MAX_TURN_URI_LEN = 512"
definition MAX_FEATURE_EXTRA :: nat where "MAX_FEATURE_EXTRA = 32"
definition MAX_BOOT_SECRET_LEN :: nat where "MAX_BOOT_SECRET_LEN = 256"

section \<open>Payloads\<close>

record feature_flags =
  synthetic_media :: bool
  stats_export :: bool
  extra :: "string list"

record attach_session =
  as_session_id :: string
  as_viewer_label :: "string option"
  as_feature_flags :: feature_flags
  as_turn_uris :: "string list"
  as_boot_secret :: "string option"

record detach_session =
  ds_session_id :: string
  ds_reason :: "string option"

datatype signal_hop = HopService | HopAgent

record signal_forward =
  sf_session_id :: string
  sf_kind :: string
  sf_payload :: string
  sf_from :: signal_hop

record set_policy =
  sp_session_id :: string
  sp_enable_input :: bool
  sp_unattended :: bool
  sp_max_bitrate_bps :: u32
  sp_disable_hw_encode :: bool

record start_media =
  sm_session_id :: string
  sm_display_id :: "string option"

record stop_media =
  st_session_id :: string

record query_stats =
  qs_session_id :: "string option"

record stats_push =
  pu_session_id :: string
  pu_rtt_ms :: "f64 option"
  pu_video_bitrate_bps :: "u32 option"
  pu_audio_bitrate_bps :: "u32 option"
  pu_ice_path :: "string option"
  pu_av_skew_ms :: "f64 option"
  pu_fps :: "f64 option"
  pu_loss :: "f64 option"

record show_session_chrome =
  ch_session_id :: string
  ch_visible :: bool
  ch_label :: "string option"

record shutdown_session =
  sd_session_id :: string
  sd_reason :: "string option"

datatype kill_switch_source = Unspecified | Hotkey | Tray | PolicySource

record kill_switch =
  ks_session_id :: "string option"
  ks_disable_unattended :: bool
  ks_source :: kill_switch_source

record local_confirm_result =
  lc_session_id :: string
  lc_accepted :: bool
  lc_reason :: "string option"

record ack =
  ack_for_method :: "string option"
  ack_session_id :: "string option"

record control_error =
  ce_code :: string
  ce_message :: string
  ce_session_id :: "string option"

datatype control_message =
    AttachSession attach_session
  | DetachSession detach_session
  | SignalForward signal_forward
  | SetPolicy set_policy
  | StartMedia start_media
  | StopMedia stop_media
  | QueryStats query_stats
  | StatsPush stats_push
  | ShowSessionChrome show_session_chrome
  | ShutdownSession shutdown_session
  | KillSwitch kill_switch
  | LocalConfirmResult local_confirm_result
  | Ack ack
  | ControlError control_error

record control_envelope =
  env_v :: u32
  env_message :: control_message

definition new_envelope :: "control_message \<Rightarrow> control_envelope" where
  "new_envelope m = \<lparr>env_v = CONTROL_IPC_VERSION, env_message = m\<rparr>"

section \<open>Method names\<close>

fun method_name :: "control_message \<Rightarrow> string" where
  "method_name (AttachSession _) = ''attach_session''"
| "method_name (DetachSession _) = ''detach_session''"
| "method_name (SignalForward _) = ''signal_forward''"
| "method_name (SetPolicy _) = ''set_policy''"
| "method_name (StartMedia _) = ''start_media''"
| "method_name (StopMedia _) = ''stop_media''"
| "method_name (QueryStats _) = ''query_stats''"
| "method_name (StatsPush _) = ''stats_push''"
| "method_name (ShowSessionChrome _) = ''show_session_chrome''"
| "method_name (ShutdownSession _) = ''shutdown_session''"
| "method_name (KillSwitch _) = ''kill_switch''"
| "method_name (LocalConfirmResult _) = ''local_confirm_result''"
| "method_name (Ack _) = ''ack''"
| "method_name (ControlError _) = ''error''"

definition all_method_names :: "string list" where
  "all_method_names =
     [''attach_session'', ''detach_session'', ''signal_forward'', ''set_policy'', ''start_media'',
      ''stop_media'', ''query_stats'', ''stats_push'', ''show_session_chrome'', ''shutdown_session'',
      ''kill_switch'', ''local_confirm_result'', ''ack'', ''error'']"

definition FORBIDDEN_MEDIA_METHODS :: "string list" where
  "FORBIDDEN_MEDIA_METHODS =
     [''push_video_nalu'', ''push_audio_frame'', ''push_pcm'', ''on_rtcp_feedback'', ''inject_rtcp'',
      ''raw_frame'', ''media_bytes'']"

section \<open>Field limits\<close>

record field_limit_error =
  fl_field :: string
  fl_got :: nat
  fl_max :: nat

definition show_field_limit :: "field_limit_error \<Rightarrow> string" where
  "show_field_limit e = ''field `'' @ fl_field e @ ''` too large: '' @ show_nat (fl_got e) @
     '' (max '' @ show_nat (fl_max e) @ '')''"

text \<open>\<open>check(..)?; rest\<close>.\<close>

definition and_then :: "'e + unit \<Rightarrow> 'e + 'a \<Rightarrow> 'e + 'a" where
  "and_then r rest = (case r of Inl e \<Rightarrow> Inl e | Inr _ \<Rightarrow> rest)"

definition ipc_check_str :: "string \<Rightarrow> string \<Rightarrow> nat \<Rightarrow> field_limit_error + unit" where
  "ipc_check_str field value lim =
     (if length value > lim then Inl \<lparr>fl_field = field, fl_got = length value, fl_max = lim\<rparr> else Inr ())"

text \<open>The two shapes the checks come in: \<open>if let Some(v) = &field\<close> and \<open>for s in &list\<close>.\<close>

fun check_opt :: "string \<Rightarrow> string option \<Rightarrow> nat \<Rightarrow> field_limit_error + unit" where
  "check_opt field None lim = Inr ()"
| "check_opt field (Some v) lim = ipc_check_str field v lim"

fun check_each :: "string \<Rightarrow> string list \<Rightarrow> nat \<Rightarrow> field_limit_error + unit" where
  "check_each field [] lim = Inr ()"
| "check_each field (s # ss) lim = and_then (ipc_check_str field s lim) (check_each field ss lim)"

definition check_count :: "string \<Rightarrow> string list \<Rightarrow> nat \<Rightarrow> field_limit_error + unit" where
  "check_count field ss lim =
     (if length ss > lim then Inl \<lparr>fl_field = field, fl_got = length ss, fl_max = lim\<rparr> else Inr ())"

fun validate_field_limits :: "control_message \<Rightarrow> field_limit_error + unit" where
  "validate_field_limits (AttachSession m) =
     and_then (ipc_check_str ''session_id'' (as_session_id m) MAX_SESSION_ID_LEN)
    (and_then (check_opt ''viewer_label'' (as_viewer_label m) MAX_SHORT_STRING_LEN)
    (and_then (check_opt ''boot_secret'' (as_boot_secret m) MAX_BOOT_SECRET_LEN)
    (and_then (check_count ''turn_uris'' (as_turn_uris m) MAX_TURN_URIS)
    (and_then (check_each ''turn_uris[]'' (as_turn_uris m) MAX_TURN_URI_LEN)
    (and_then (check_count ''feature_flags.extra'' (extra (as_feature_flags m)) MAX_FEATURE_EXTRA)
              (check_each ''feature_flags.extra[]'' (extra (as_feature_flags m)) MAX_SHORT_STRING_LEN))))))"
| "validate_field_limits (DetachSession m) =
     and_then (ipc_check_str ''session_id'' (ds_session_id m) MAX_SESSION_ID_LEN)
              (check_opt ''reason'' (ds_reason m) MAX_SHORT_STRING_LEN)"
| "validate_field_limits (SignalForward m) =
     and_then (ipc_check_str ''session_id'' (sf_session_id m) MAX_SESSION_ID_LEN)
    (and_then (ipc_check_str ''kind'' (sf_kind m) MAX_SHORT_STRING_LEN)
              (ipc_check_str ''payload'' (sf_payload m) MAX_SIGNAL_PAYLOAD_LEN))"
| "validate_field_limits (SetPolicy m) = ipc_check_str ''session_id'' (sp_session_id m) MAX_SESSION_ID_LEN"
| "validate_field_limits (StartMedia m) =
     and_then (ipc_check_str ''session_id'' (sm_session_id m) MAX_SESSION_ID_LEN)
              (check_opt ''display_id'' (sm_display_id m) MAX_SHORT_STRING_LEN)"
| "validate_field_limits (StopMedia m) = ipc_check_str ''session_id'' (st_session_id m) MAX_SESSION_ID_LEN"
| "validate_field_limits (QueryStats m) = check_opt ''session_id'' (qs_session_id m) MAX_SESSION_ID_LEN"
| "validate_field_limits (StatsPush m) =
     and_then (ipc_check_str ''session_id'' (pu_session_id m) MAX_SESSION_ID_LEN)
              (check_opt ''ice_path'' (pu_ice_path m) MAX_SHORT_STRING_LEN)"
| "validate_field_limits (ShowSessionChrome m) =
     and_then (ipc_check_str ''session_id'' (ch_session_id m) MAX_SESSION_ID_LEN)
              (check_opt ''label'' (ch_label m) MAX_SHORT_STRING_LEN)"
| "validate_field_limits (ShutdownSession m) =
     and_then (ipc_check_str ''session_id'' (sd_session_id m) MAX_SESSION_ID_LEN)
              (check_opt ''reason'' (sd_reason m) MAX_SHORT_STRING_LEN)"
| "validate_field_limits (KillSwitch m) = check_opt ''session_id'' (ks_session_id m) MAX_SESSION_ID_LEN"
| "validate_field_limits (LocalConfirmResult m) =
     and_then (ipc_check_str ''session_id'' (lc_session_id m) MAX_SESSION_ID_LEN)
              (check_opt ''reason'' (lc_reason m) MAX_SHORT_STRING_LEN)"
| "validate_field_limits (Ack m) =
     and_then (check_opt ''for_method'' (ack_for_method m) MAX_SHORT_STRING_LEN)
              (check_opt ''session_id'' (ack_session_id m) MAX_SESSION_ID_LEN)"
| "validate_field_limits (ControlError m) =
     and_then (ipc_check_str ''code'' (ce_code m) MAX_SHORT_STRING_LEN)
    (and_then (ipc_check_str ''message'' (ce_message m) MAX_SHORT_STRING_LEN)
              (check_opt ''session_id'' (ce_session_id m) MAX_SESSION_ID_LEN))"

section \<open>What the limits promise\<close>

text \<open>The strings a message carries, however they are nested, and the sizes of its lists.\<close>

fun of_opt :: "'a option \<Rightarrow> 'a list" where
  "of_opt None = []"
| "of_opt (Some x) = [x]"

fun carried_strings :: "control_message \<Rightarrow> string list" where
  "carried_strings (AttachSession m) = as_session_id m # of_opt (as_viewer_label m) @
     of_opt (as_boot_secret m) @ as_turn_uris m @ extra (as_feature_flags m)"
| "carried_strings (DetachSession m) = ds_session_id m # of_opt (ds_reason m)"
| "carried_strings (SignalForward m) = [sf_session_id m, sf_kind m, sf_payload m]"
| "carried_strings (SetPolicy m) = [sp_session_id m]"
| "carried_strings (StartMedia m) = sm_session_id m # of_opt (sm_display_id m)"
| "carried_strings (StopMedia m) = [st_session_id m]"
| "carried_strings (QueryStats m) = of_opt (qs_session_id m)"
| "carried_strings (StatsPush m) = pu_session_id m # of_opt (pu_ice_path m)"
| "carried_strings (ShowSessionChrome m) = ch_session_id m # of_opt (ch_label m)"
| "carried_strings (ShutdownSession m) = sd_session_id m # of_opt (sd_reason m)"
| "carried_strings (KillSwitch m) = of_opt (ks_session_id m)"
| "carried_strings (LocalConfirmResult m) = lc_session_id m # of_opt (lc_reason m)"
| "carried_strings (Ack m) = of_opt (ack_for_method m) @ of_opt (ack_session_id m)"
| "carried_strings (ControlError m) = ce_code m # ce_message m # of_opt (ce_session_id m)"

definition carried_bytes :: "control_message \<Rightarrow> nat" where
  "carried_bytes msg = sum_list (map length (carried_strings msg))"

lemma and_then_Inr [simp]: "and_then r rest = Inr x \<longleftrightarrow> r = Inr () \<and> rest = Inr x"
  by (auto simp: and_then_def split: sum.splits)

lemma ipc_check_str_Inr [simp]: "ipc_check_str f s lim = Inr () \<longleftrightarrow> length s \<le> lim"
  by (simp add: ipc_check_str_def)

lemma check_opt_Inr [simp]: "check_opt f v lim = Inr () \<longleftrightarrow> list_all (\<lambda>s. length s \<le> lim) (of_opt v)"
  by (cases v) simp_all

lemma check_each_Inr [simp]: "check_each f ss lim = Inr () \<longleftrightarrow> list_all (\<lambda>s. length s \<le> lim) ss"
  by (induction ss) simp_all

lemma check_count_Inr [simp]: "check_count f ss lim = Inr () \<longleftrightarrow> length ss \<le> lim"
  by (simp add: check_count_def)

lemma sum_lengths_le: "list_all (\<lambda>s. length s \<le> lim) ss \<Longrightarrow> length ss \<le> n \<Longrightarrow> sum_list (map length ss) \<le> n * lim"
proof (induction ss arbitrary: n)
  case (Cons s ss)
  then obtain k where n: "n = Suc k" by (cases n) simp_all
  with Cons have "sum_list (map length ss) \<le> k * lim" by simp
  with Cons.prems show ?case by (simp add: n)
qed simp

lemma length_of_opt: "length (of_opt v) \<le> 1"
  by (cases v) simp_all

lemmas sum_of_opt_le = sum_lengths_le [OF _ length_of_opt, unfolded mult_1]

lemmas ipc_limit_defs = MAX_SESSION_ID_LEN_def MAX_SHORT_STRING_LEN_def MAX_SIGNAL_PAYLOAD_LEN_def
  MAX_TURN_URIS_def MAX_TURN_URI_LEN_def MAX_FEATURE_EXTRA_def MAX_BOOT_SECRET_LEN_def

text \<open>
  A message within its limits carries at most 131,712 bytes of text (a \<open>SignalForward\<close> at its
  limits), little more than the 128 KiB of one signaling payload.
\<close>

lemma carried_bytes_le:
  assumes "validate_field_limits msg = Inr ()"
  shows "carried_bytes msg \<le> 131712"
proof (cases msg)
  case (AttachSession m)
  have uris: "length (as_turn_uris m) \<le> 16" "list_all (\<lambda>s. length s \<le> 512) (as_turn_uris m)"
    and extras: "length (extra (as_feature_flags m)) \<le> 32" "list_all (\<lambda>s. length s \<le> 512) (extra (as_feature_flags m))"
    and rest: "length (as_session_id m) \<le> 128" "sum_list (map length (of_opt (as_viewer_label m))) \<le> 512"
      "sum_list (map length (of_opt (as_boot_secret m))) \<le> 256"
    using assms by (simp_all add: AttachSession ipc_limit_defs sum_of_opt_le)
  note sums = sum_lengths_le [OF uris(2) uris(1)] sum_lengths_le [OF extras(2) extras(1)]
  from rest sums AttachSession show ?thesis by (simp add: carried_bytes_def)
next
  case (SignalForward m)
  with assms show ?thesis by (simp add: carried_bytes_def ipc_limit_defs)
qed (use assms in \<open>fastforce simp: carried_bytes_def ipc_limit_defs dest!: sum_of_opt_le\<close>)+

text \<open>The wire tags: distinct for distinct variants, all listed, and none a media method.\<close>

lemma method_name_listed: "method_name msg \<in> set all_method_names"
  by (cases msg) (simp_all add: all_method_names_def)

lemma no_media_methods: "set all_method_names \<inter> set FORBIDDEN_MEDIA_METHODS = {}"
  by (simp add: all_method_names_def FORBIDDEN_MEDIA_METHODS_def)

end
