(* ===== verification/Transcript.thy ===== *)
theory Transcript
  imports Otp_Auth
begin

text \<open>
  Big-endian 32-bit lengths, length-prefixed fields (\<open>append_lp\<close> of
  \<open>packages/auth/src/challenge.rs\<close> and \<open>identity.rs\<close>) and lower-case hex (\<open>identity.rs\<close>), with the
  fact the signed and authenticated transcripts rest on: a sequence of length-prefixed
  fields can be read back, so different fields never give the same bytes.
\<close>

unbundle bit_operations_syntax

section \<open>Big-endian words\<close>

definition to_be_bytes :: "u32 \<Rightarrow> bytes" where
  "to_be_bytes w = [ucast (drop_bit 24 w), ucast (drop_bit 16 w), ucast (drop_bit 8 w), ucast w]"

fun from_be_bytes :: "bytes \<Rightarrow> u32" where
  "from_be_bytes [a, b, c, d] = push_bit 24 (ucast a) + push_bit 16 (ucast b) + push_bit 8 (ucast c) + ucast d"
| "from_be_bytes _ = 0"

lemma length_to_be_bytes [simp]: "length (to_be_bytes w) = 4"
  by (simp add: to_be_bytes_def)

lemma nat_be_bytes:
  fixes n :: nat
  assumes "n < 4294967296"
  shows "(n div 16777216 mod 256) * 16777216 + (n div 65536 mod 256) * 65536 + (n div 256 mod 256) * 256 + n mod 256 = n"
proof -
  have a: "n div 256 * 256 + n mod 256 = n" by (rule div_mult_mod_eq)
  have b: "n div 65536 * 256 + n div 256 mod 256 = n div 256"
    using div_mult_mod_eq [of "n div 256" 256] by (simp add: div_mult2_eq [symmetric])
  have c: "n div 16777216 * 256 + n div 65536 mod 256 = n div 65536"
    using div_mult_mod_eq [of "n div 65536" 256] by (simp add: div_mult2_eq [symmetric])
  have d: "n div 16777216 mod 256 = n div 16777216" using assms by simp
  show ?thesis unfolding d using a b c by linarith
qed

lemma from_to_be_bytes [simp]: "from_be_bytes (to_be_bytes w) = w"
proof -
  let ?n = "unat w"
  have lt: "?n < 4294967296" using unsigned_less [of w] by simp
  have byte: "unat (ucast (drop_bit k w) :: u8) = ?n div 2 ^ k mod 256" for k
  proof -
    have "unat (drop_bit k w) = drop_bit k ?n" by (rule unat_drop_bit_eq)
    then show ?thesis by (simp add: unsigned_ucast_eq unsigned_take_bit_eq take_bit_eq_mod drop_bit_eq_div [of _ ?n])
  qed
  have up: "(ucast (b :: u8) :: u32) = word_of_nat (unat b)" for b
    by (simp add: word_of_nat_eq_iff unsigned_ucast_eq word_unat_eq_iff)
  have "from_be_bytes (to_be_bytes w) =
      word_of_nat ((?n div 16777216 mod 256) * 16777216 + (?n div 65536 mod 256) * 65536 + (?n div 256 mod 256) * 256 + ?n mod 256)"
    using byte [of 0] by (simp add: to_be_bytes_def push_bit_eq_mult up byte)
  also have "\<dots> = w" unfolding nat_be_bytes [OF lt] by simp
  finally show ?thesis .
qed

lemma to_be_bytes_inject [simp]: "to_be_bytes v = to_be_bytes w \<longleftrightarrow> v = w"
  by (metis from_to_be_bytes)

lemma from_be_bytes_append: "from_be_bytes (take 4 (to_be_bytes w @ r)) = w"
  by simp

section \<open>Length-prefixed fields\<close>

text \<open>
  \<open>append_lp\<close>; the \<open>expect\<close> on \<open>u32::try_from\<close> panics for a field of 4 GiB or more, which is \<open>None\<close>.
\<close>

definition append_lp :: "bytes \<Rightarrow> bytes \<Rightarrow> bytes option" where
  "append_lp out field =
     (if length field < 2 ^ 32 then Some (out @ to_be_bytes (of_nat (length field)) @ field) else None)"

definition lp :: "bytes \<Rightarrow> bytes" where
  "lp field = to_be_bytes (of_nat (length field)) @ field"

lemma append_lp_Some: "append_lp out f = Some r \<longleftrightarrow> length f < 2 ^ 32 \<and> r = out @ lp f"
  by (auto simp: append_lp_def lp_def)

lemma unat_of_nat_length: "n < 2 ^ 32 \<Longrightarrow> unat (of_nat n :: u32) = n"
  by (simp add: unsigned_of_nat take_bit_nat_eq_self)

lemma lp_prefix:
  assumes "lp f @ r = lp g @ s" and "length f < 2 ^ 32" and "length g < 2 ^ 32"
  shows "f = g \<and> r = s"
proof -
  have "to_be_bytes (of_nat (length f)) @ f @ r = to_be_bytes (of_nat (length g)) @ g @ s"
    using assms(1) by (simp add: lp_def)
  then have "(of_nat (length f) :: u32) = of_nat (length g)" and rest: "f @ r = g @ s" by simp_all
  then have "length f = length g" using assms(2,3) by (metis unat_of_nat_length)
  with rest show ?thesis by simp
qed

text \<open>
  A code whose words can be recognised at the front of any input. A sequence of its words
  can be read back, so encodings of sequences of equal length are injective.
\<close>

locale prefix_code =
  fixes enc :: "'a \<Rightarrow> 'b list" and ok :: "'a \<Rightarrow> bool"
  assumes prefix: "enc a @ r = enc b @ s \<Longrightarrow> ok a \<Longrightarrow> ok b \<Longrightarrow> a = b \<and> r = s"
begin

lemma sequence_inject:
  "length as = length bs \<Longrightarrow> list_all ok as \<Longrightarrow> list_all ok bs \<Longrightarrow>
   concat (map enc as) @ r = concat (map enc bs) @ s \<Longrightarrow> as = bs \<and> r = s"
proof (induction as bs rule: list_induct2)
  case (Cons a as b bs)
  then have "enc a @ (concat (map enc as) @ r) = enc b @ (concat (map enc bs) @ s)" by simp
  from prefix [OF this] Cons.prems have "a = b" "concat (map enc as) @ r = concat (map enc bs) @ s" by auto
  with Cons show ?case by simp
qed simp

lemma concat_inject:
  "length as = length bs \<Longrightarrow> list_all ok as \<Longrightarrow> list_all ok bs \<Longrightarrow>
   concat (map enc as) = concat (map enc bs) \<Longrightarrow> as = bs"
  using sequence_inject [of as bs "[]" "[]"] by simp

end

interpretation lp_code: prefix_code lp "\<lambda>f. length f < 2 ^ 32"
  by unfold_locales (rule lp_prefix)

section \<open>Hex\<close>

definition hex_char :: "u8 \<Rightarrow> char" where
  "hex_char d = ''0123456789abcdef'' ! unat d"

fun bytes_to_hex :: "bytes \<Rightarrow> string" where
  "bytes_to_hex [] = []"
| "bytes_to_hex (b # bs) = hex_char (drop_bit 4 b) # hex_char (take_bit 4 b) # bytes_to_hex bs"

definition is_ascii_hexdigit :: "char \<Rightarrow> bool" where
  "is_ascii_hexdigit c = (let n = (of_char c :: nat) in 48 \<le> n \<and> n \<le> 57 \<or> 65 \<le> n \<and> n \<le> 70 \<or> 97 \<le> n \<and> n \<le> 102)"

definition hex_nibble :: "char \<Rightarrow> string + u8" where
  "hex_nibble c =
     (let n = (of_char c :: nat) in
      if 48 \<le> n \<and> n \<le> 57 then Inr (of_char c - 48)
      else if 97 \<le> n \<and> n \<le> 102 then Inr (of_char c - 97 + 10)
      else if 65 \<le> n \<and> n \<le> 70 then Inr (of_char c - 65 + 10)
      else Inl (''invalid hex digit '' @ (if n < 128 then [c] else [char_of (192 + n div 64), char_of (128 + n mod 64)])))"

text \<open>The loop of \<open>hex_to_bytes\<close> over pairs of digits; the length is even.\<close>

fun hex_pairs :: "string \<Rightarrow> string + bytes" where
  "hex_pairs (h # l # s) =
     (case hex_nibble h of Inl e \<Rightarrow> Inl e
      | Inr hi \<Rightarrow> (case hex_nibble l of Inl e \<Rightarrow> Inl e
        | Inr lo \<Rightarrow> (case hex_pairs s of Inl e \<Rightarrow> Inl e
          | Inr bs \<Rightarrow> Inr ((push_bit 4 hi OR lo) # bs))))"
| "hex_pairs _ = Inr []"

definition hex_to_bytes :: "string \<Rightarrow> string + bytes" where
  "hex_to_bytes hex0 =
     (let hex = trim hex0 in
      if length hex mod 2 \<noteq> 0 then Inl ''odd hex length'' else hex_pairs hex)"

lemma less_16: "k < (16::nat) \<Longrightarrow> k \<in> {0, 1, 2, 3, 4, 5, 6, 7, 8, 9, 10, 11, 12, 13, 14, 15}"
  by simp presburger

lemma hex_nibble_char_nat:
  "k < 16 \<Longrightarrow> hex_nibble (''0123456789abcdef'' ! k) = Inr (of_nat k)"
  by (drule less_16) (auto simp: hex_nibble_def Let_def)

lemma hex_nibble_char: "unat d < 16 \<Longrightarrow> hex_nibble (hex_char d) = Inr d"
  using hex_nibble_char_nat [of "unat d"] by (simp add: hex_char_def)

lemma nibbles_less:
  fixes b :: u8
  shows "unat (drop_bit 4 b) < 16" "unat (take_bit 4 b) < 16"
proof -
  have "unat b < 256" using unsigned_less [of b] by simp
  then show "unat (drop_bit 4 b) < 16" unfolding unat_drop_bit_eq by (simp add: drop_bit_eq_div)
  have "unat (take_bit 4 b) = take_bit 4 (unat b)" by (simp add: unsigned_take_bit_eq)
  then show "unat (take_bit 4 b) < 16" by (simp add: take_bit_eq_mod)
qed

lemma nibbles_join: "push_bit 4 (drop_bit 4 b) OR take_bit 4 b = (b :: u8)"
  by (rule bit_word_eqI) (auto simp: bit_simps)

lemma hex_pairs_bytes_to_hex: "hex_pairs (bytes_to_hex bs) = Inr bs"
  by (induction bs) (simp_all add: hex_nibble_char nibbles_less nibbles_join)

lemma length_bytes_to_hex [simp]: "length (bytes_to_hex bs) = 2 * length bs"
  by (induction bs) auto

lemma hex_char_visible_nat: "k < 16 \<Longrightarrow> visible (''0123456789abcdef'' ! k)"
  by (drule less_16) (auto simp: visible_def)

lemma hex_visible: "list_all visible (bytes_to_hex bs)"
  by (induction bs) (simp_all add: hex_char_def hex_char_visible_nat nibbles_less)

lemma trim_all_visible: "list_all visible s \<Longrightarrow> trim s = s"
  by (cases "s = []") (auto simp: list_all_iff intro: trim_visible)

lemma hex_round_trip [simp]: "hex_to_bytes (bytes_to_hex bs) = Inr bs"
  by (simp add: hex_to_bytes_def trim_all_visible hex_visible hex_pairs_bytes_to_hex)

text \<open>
  Hex round trip. Decoding the hex text of any bytes gives those bytes back, so the text is
  an injective encoding, of twice the length.
\<close>

theorem hex_to_bytes_round_trip:
  "hex_to_bytes (bytes_to_hex bs) = Inr bs \<and> length (bytes_to_hex bs) = 2 * length bs"
  by simp

end
