(* ===== verification/Ipc_Codec.thy ===== *)
theory Ipc_Codec
  imports Ipc_Message Transcript
begin

text \<open>
  The length-prefixed JSON frames of the control channel
  (\<open>packages/platform-windows/src/ipc/codec.rs\<close>): encoding and decoding in a buffer, and reading
  and writing on a blocking stream. \<open>serde_json\<close> is a parameter. A reader is the bytes it will
  still deliver and the error that ends it (the end of the stream is \<open>UnexpectedEof\<close>); a writer is
  the bytes written so far, how many more it accepts before it fails, and how flushing ends.
\<close>

definition MAX_FRAME_PAYLOAD :: u32 where "MAX_FRAME_PAYLOAD = 262144"

datatype io_error = UnexpectedEof | OtherIo string

datatype codec_error =
    FramePayloadTooLarge u32
  | Incomplete nat nat
  | HeaderTruncated
  | UnsupportedVersion u32
  | FieldLimit field_limit_error
  | JsonEncode string
  | JsonDecode string
  | Io io_error

text \<open>\<open>serde_json::to_vec\<close> and \<open>serde_json::from_slice\<close> at the type of the frame; an error is its text.\<close>

record 'a frame_json =
  to_vec :: "'a \<Rightarrow> string + bytes"
  from_slice :: "bytes \<Rightarrow> string + 'a"

section \<open>Buffers\<close>

definition encode_frame :: "'a frame_json \<Rightarrow> 'a \<Rightarrow> codec_error + bytes" where
  "encode_frame J value =
     (case to_vec J value of
        Inl e \<Rightarrow> Inl (JsonEncode e)
      | Inr payload \<Rightarrow>
          if length payload \<ge> 2 ^ 32 then Inl (FramePayloadTooLarge (- 1))
          else let len = (of_nat (length payload) :: u32) in
            if len > MAX_FRAME_PAYLOAD then Inl (FramePayloadTooLarge len)
            else Inr (to_be_bytes len @ payload))"

definition decode_frame :: "'a frame_json \<Rightarrow> bytes \<Rightarrow> codec_error + ('a \<times> nat)" where
  "decode_frame J buf =
     (if buf = [] then Inl HeaderTruncated
      else if length buf < 4 then Inl HeaderTruncated
      else let len = from_be_bytes [buf ! 0, buf ! 1, buf ! 2, buf ! 3] in
        if len > MAX_FRAME_PAYLOAD then Inl (FramePayloadTooLarge len)
        else let total = 4 + unat len in
          if length buf < total then Inl (Incomplete total (length buf))
          else (case from_slice J (drop 4 (take total buf)) of
              Inl e \<Rightarrow> Inl (JsonDecode e)
            | Inr v \<Rightarrow> Inr (v, total)))"

definition encode_control :: "control_envelope frame_json \<Rightarrow> control_message \<Rightarrow> codec_error + bytes" where
  "encode_control J msg =
     (case validate_field_limits msg of
        Inl e \<Rightarrow> Inl (FieldLimit e)
      | Inr _ \<Rightarrow> encode_frame J (new_envelope msg))"

text \<open>The checks on a decoded envelope, shared by \<open>decode_control\<close> and \<open>read_control\<close>.\<close>

definition open_envelope :: "control_envelope \<Rightarrow> codec_error + control_message" where
  "open_envelope env =
     (if env_v env \<noteq> CONTROL_IPC_VERSION then Inl (UnsupportedVersion (env_v env))
      else (case validate_field_limits (env_message env) of
          Inl e \<Rightarrow> Inl (FieldLimit e)
        | Inr _ \<Rightarrow> Inr (env_message env)))"

definition decode_control :: "control_envelope frame_json \<Rightarrow> bytes \<Rightarrow> codec_error + (control_message \<times> nat)" where
  "decode_control J buf =
     (case decode_frame J buf of
        Inl e \<Rightarrow> Inl e
      | Inr (env, consumed) \<Rightarrow>
          (case open_envelope env of Inl e \<Rightarrow> Inl e | Inr msg \<Rightarrow> Inr (msg, consumed)))"

section \<open>Streams\<close>

record reader =
  pending :: bytes
  ends_with :: io_error

record writer =
  written :: bytes
  room :: nat
  write_error :: io_error
  flush_error :: "io_error option"

definition read_exact :: "nat \<Rightarrow> reader \<Rightarrow> (io_error + bytes) \<times> reader" where
  "read_exact n r =
     (if n \<le> length (pending r) then (Inr (take n (pending r)), r\<lparr>pending := drop n (pending r)\<rparr>)
      else (Inl (ends_with r), r\<lparr>pending := []\<rparr>))"

definition write_all_flush :: "bytes \<Rightarrow> writer \<Rightarrow> (codec_error + unit) \<times> writer" where
  "write_all_flush bs w =
     (if length bs \<le> room w then
        (let w1 = w\<lparr>written := written w @ bs, room := room w - length bs\<rparr> in
         case flush_error w1 of None \<Rightarrow> (Inr (), w1) | Some e \<Rightarrow> (Inl (Io e), w1))
      else (Inl (Io (write_error w)), w\<lparr>written := written w @ take (room w) bs, room := 0\<rparr>))"

definition write_frame :: "'a frame_json \<Rightarrow> 'a \<Rightarrow> writer \<Rightarrow> (codec_error + unit) \<times> writer" where
  "write_frame J value w =
     (case encode_frame J value of Inl e \<Rightarrow> (Inl e, w) | Inr frame \<Rightarrow> write_all_flush frame w)"

definition write_control :: "control_envelope frame_json \<Rightarrow> control_message \<Rightarrow> writer \<Rightarrow> (codec_error + unit) \<times> writer" where
  "write_control J msg w =
     (case encode_control J msg of Inl e \<Rightarrow> (Inl e, w) | Inr frame \<Rightarrow> write_all_flush frame w)"

definition read_frame :: "'a frame_json \<Rightarrow> reader \<Rightarrow> (codec_error + 'a) \<times> reader" where
  "read_frame J r =
     (case read_exact 4 r of
        (Inl e, r1) \<Rightarrow> (if e = UnexpectedEof then (Inl HeaderTruncated, r1) else (Inl (Io e), r1))
      | (Inr header, r1) \<Rightarrow>
          let len = from_be_bytes header in
          if len > MAX_FRAME_PAYLOAD then (Inl (FramePayloadTooLarge len), r1)
          else if len > 0 then
            (case read_exact (unat len) r1 of
              (Inl e, r2) \<Rightarrow> (Inl (Io e), r2)
            | (Inr payload, r2) \<Rightarrow>
                (case from_slice J payload of Inl e \<Rightarrow> (Inl (JsonDecode e), r2) | Inr v \<Rightarrow> (Inr v, r2)))
          else (case from_slice J [] of Inl e \<Rightarrow> (Inl (JsonDecode e), r1) | Inr v \<Rightarrow> (Inr v, r1)))"

definition read_control :: "control_envelope frame_json \<Rightarrow> reader \<Rightarrow> (codec_error + control_message) \<times> reader" where
  "read_control J r =
     (case read_frame J r of
        (Inl e, r1) \<Rightarrow> (Inl e, r1)
      | (Inr env, r1) \<Rightarrow>
          (case open_envelope env of Inl e \<Rightarrow> (Inl e, r1) | Inr msg \<Rightarrow> (Inr msg, r1)))"

section \<open>Frames\<close>

lemma max_frame_lt: "len \<le> MAX_FRAME_PAYLOAD \<Longrightarrow> unat len \<le> 262144"
  by (simp add: MAX_FRAME_PAYLOAD_def word_le_nat_alt)

lemma encode_frame_Inr:
  assumes "encode_frame J v = Inr buf"
  obtains payload where "to_vec J v = Inr payload" "length payload \<le> 262144"
    "buf = to_be_bytes (of_nat (length payload)) @ payload" "unat (of_nat (length payload) :: u32) = length payload"
    "\<not> (of_nat (length payload) :: u32) > MAX_FRAME_PAYLOAD"
proof -
  from assms obtain payload where p: "to_vec J v = Inr payload" "length payload < 2 ^ 32"
      "\<not> (of_nat (length payload) :: u32) > MAX_FRAME_PAYLOAD"
      "buf = to_be_bytes (of_nat (length payload)) @ payload"
    by (auto simp: encode_frame_def Let_def split: sum.splits if_splits)
  have u: "unat (of_nat (length payload) :: u32) = length payload" by (rule unat_of_nat_length [OF p(2)])
  with p(3) have "length payload \<le> 262144" using max_frame_lt [of "of_nat (length payload)"] by simp
  with p u show thesis by (intro that)
qed

lemma header_bytes: "4 \<le> length buf \<Longrightarrow> [buf ! 0, buf ! 1, buf ! 2, buf ! 3] = take 4 buf"
  by (rule nth_equalityI) (auto simp: less_Suc_eq numeral_eq_Suc)

lemma decode_frame_take:
  "decode_frame J buf =
     (if length buf < 4 then Inl HeaderTruncated
      else let len = from_be_bytes (take 4 buf) in
        if len > MAX_FRAME_PAYLOAD then Inl (FramePayloadTooLarge len)
        else if length buf < 4 + unat len then Inl (Incomplete (4 + unat len) (length buf))
        else (case from_slice J (take (unat len) (drop 4 buf)) of
            Inl e \<Rightarrow> Inl (JsonDecode e)
          | Inr v \<Rightarrow> Inr (v, 4 + unat len)))"
proof (cases "length buf < 4")
  case True
  then show ?thesis by (simp add: decode_frame_def)
next
  case False
  then have "buf \<noteq> []" by auto
  with False show ?thesis
    unfolding decode_frame_def header_bytes [OF leI [OF False]] by (simp add: Let_def take_drop add.commute)
qed

lemma to_be_take [simp]: "take 4 (to_be_bytes w @ r) = to_be_bytes w"
  by simp

lemma to_be_drop [simp]: "drop 4 (to_be_bytes w @ r) = r"
  by simp

lemma decode_encoded_frame:
  assumes "encode_frame J v = Inr buf" "\<And>bs. to_vec J v = Inr bs \<Longrightarrow> from_slice J bs = Inr v"
  shows "decode_frame J (buf @ rest) = Inr (v, length buf)"
  using assms(1)
proof (rule encode_frame_Inr)
  fix payload
  assume p: "to_vec J v = Inr payload" "length payload \<le> 262144"
    "buf = to_be_bytes (of_nat (length payload)) @ payload" "unat (of_nat (length payload) :: u32) = length payload"
    "\<not> (of_nat (length payload) :: u32) > MAX_FRAME_PAYLOAD"
  show ?thesis
    by (simp add: decode_frame_take Let_def p(3) p(4) p(5) assms(2) [OF p(1)])
qed

lemma read_encoded_frame:
  assumes "encode_frame J v = Inr buf" "\<And>bs. to_vec J v = Inr bs \<Longrightarrow> from_slice J bs = Inr v"
  shows "read_frame J \<lparr>pending = buf @ rest, ends_with = e\<rparr> = (Inr v, \<lparr>pending = rest, ends_with = e\<rparr>)"
  using assms(1)
proof (rule encode_frame_Inr)
  fix payload
  assume p: "to_vec J v = Inr payload" "length payload \<le> 262144"
    "buf = to_be_bytes (of_nat (length payload)) @ payload" "unat (of_nat (length payload) :: u32) = length payload"
    "\<not> (of_nat (length payload) :: u32) > MAX_FRAME_PAYLOAD"
  have pos: "0 < (of_nat (length payload) :: u32) \<longleftrightarrow> payload \<noteq> []"
    using p(4) by (metis length_0_conv unat_0 unat_eq_zero word_gt_0)
  show ?thesis
    using assms(2) [OF p(1)]
    by (cases "payload = []") (simp_all add: read_frame_def read_exact_def p(3) p(4) p(5) pos Let_def)
qed

lemma open_new_envelope: "validate_field_limits msg = Inr () \<Longrightarrow> open_envelope (new_envelope msg) = Inr msg"
  by (simp add: open_envelope_def new_envelope_def)

lemma encode_control_Inr:
  "encode_control J msg = Inr buf \<longleftrightarrow> validate_field_limits msg = Inr () \<and> encode_frame J (new_envelope msg) = Inr buf"
  by (auto simp: encode_control_def split: sum.splits)

section \<open>A framed channel\<close>

text \<open>
  What the two ends of a channel promise each other: a frame at the front of the input is read as
  its message, and the rest of the input is left alone. Then any sequence of frames is read back
  in order, whatever follows it.
\<close>

locale framed_channel =
  fixes frame :: "'m \<Rightarrow> 'b list option" and recv :: "'s \<Rightarrow> ('e + 'm) \<times> 's"
    and feed :: "'b list \<Rightarrow> 's \<Rightarrow> 's" and ok :: "'m \<Rightarrow> bool"
  assumes recv_frame: "frame m = Some b \<Longrightarrow> ok m \<Longrightarrow> recv (feed b s) = (Inr m, s)"
    and feed_Nil: "feed [] s = s"
    and feed_append: "feed (a @ b) s = feed a (feed b s)"
begin

primrec recv_many :: "nat \<Rightarrow> 's \<Rightarrow> ('e + 'm) list \<times> 's" where
  "recv_many 0 s = ([], s)"
| "recv_many (Suc n) s =
     (let (m, s1) = recv s; (ms, s2) = recv_many n s1 in (m # ms, s2))"

lemma recv_many_frames:
  "list_all2 (\<lambda>m b. frame m = Some b) ms bs \<Longrightarrow> list_all ok ms \<Longrightarrow>
   recv_many (length ms) (feed (concat bs) s) = (map Inr ms, s)"
proof (induction ms bs rule: list_all2_induct)
  case (Cons m ms b bs)
  then have "recv (feed b (feed (concat bs) s)) = (Inr m, feed (concat bs) s)" by (intro recv_frame) simp_all
  with Cons show ?case by (simp add: feed_append)
qed (simp add: feed_Nil)

lemma frames_inject:
  assumes "list_all2 (\<lambda>m b. frame m = Some b) ms bs" "list_all2 (\<lambda>m b. frame m = Some b) ns cs"
    and "list_all ok ms" "list_all ok ns" "length ms = length ns" "concat bs = concat cs"
  shows "ms = ns"
proof -
  have "map (Inr :: 'm \<Rightarrow> 'e + 'm) ms = map Inr ns"
    using recv_many_frames [OF assms(1,3)] recv_many_frames [OF assms(2,4)] assms(5,6) by (metis fst_conv)
  then show ?thesis by (simp add: inj_map_eq_map)
qed

end

text \<open>The control channel, with a JSON library that reads back the envelope it wrote.\<close>

definition json_faithful :: "control_envelope frame_json \<Rightarrow> control_message \<Rightarrow> bool" where
  "json_faithful J msg \<longleftrightarrow>
     (case to_vec J (new_envelope msg) of Inl _ \<Rightarrow> True | Inr bs \<Rightarrow> from_slice J bs = Inr (new_envelope msg))"

definition frame_of :: "control_envelope frame_json \<Rightarrow> control_message \<Rightarrow> bytes option" where
  "frame_of J msg = (case encode_control J msg of Inl _ \<Rightarrow> None | Inr b \<Rightarrow> Some b)"

definition feed_reader :: "bytes \<Rightarrow> reader \<Rightarrow> reader" where
  "feed_reader bs r = r\<lparr>pending := bs @ pending r\<rparr>"

lemma json_faithfulD: "json_faithful J msg \<Longrightarrow> to_vec J (new_envelope msg) = Inr bs \<Longrightarrow> from_slice J bs = Inr (new_envelope msg)"
  by (simp add: json_faithful_def)

lemma decode_encoded_control:
  assumes "encode_control J msg = Inr buf" "json_faithful J msg"
  shows "decode_control J (buf @ rest) = Inr (msg, length buf)"
  using assms decode_encoded_frame [of J "new_envelope msg" buf rest]
  by (simp add: encode_control_Inr decode_control_def open_new_envelope json_faithfulD)

lemma read_encoded_control:
  assumes "encode_control J msg = Inr buf" "json_faithful J msg"
  shows "read_control J \<lparr>pending = buf @ rest, ends_with = e\<rparr> = (Inr msg, \<lparr>pending = rest, ends_with = e\<rparr>)"
  using assms read_encoded_frame [of J "new_envelope msg" buf rest e]
  by (simp add: encode_control_Inr read_control_def open_new_envelope json_faithfulD)

lemma frame_of_Some: "frame_of J msg = Some b \<longleftrightarrow> encode_control J msg = Inr b"
  by (simp add: frame_of_def split: sum.splits)

lemma read_fed_control:
  "encode_control J msg = Inr buf \<Longrightarrow> json_faithful J msg \<Longrightarrow> read_control J (feed_reader buf r) = (Inr msg, r)"
  by (cases r) (simp add: feed_reader_def read_encoded_control)

interpretation control_channel: framed_channel "frame_of J" "read_control J" feed_reader "json_faithful J" for J
  by unfold_locales (simp add: frame_of_Some read_fed_control, simp_all add: feed_reader_def)

text \<open>Reading a number of messages from a stream, one after the other.\<close>

primrec read_controls :: "control_envelope frame_json \<Rightarrow> nat \<Rightarrow> reader \<Rightarrow> (codec_error + control_message) list \<times> reader" where
  "read_controls J 0 r = ([], r)"
| "read_controls J (Suc n) r =
     (let (m, r1) = read_control J r; (ms, r2) = read_controls J n r1 in (m # ms, r2))"

text \<open>Writing messages one after the other, stopping at the first failure.\<close>

fun write_controls :: "control_envelope frame_json \<Rightarrow> control_message list \<Rightarrow> writer \<Rightarrow> (codec_error + unit) \<times> writer" where
  "write_controls J [] w = (Inr (), w)"
| "write_controls J (m # ms) w =
     (case write_control J m w of (Inl e, w1) \<Rightarrow> (Inl e, w1) | (Inr _, w1) \<Rightarrow> write_controls J ms w1)"

lemma write_control_Inr:
  assumes "write_control J m w = (Inr (), w1)"
  obtains b where "encode_control J m = Inr b" "written w1 = written w @ b"
  using assms by (auto simp: write_control_def write_all_flush_def Let_def split: sum.splits if_splits option.splits)

lemma write_controls_Inr:
  "write_controls J ms w = (Inr (), w1) \<Longrightarrow>
     \<exists>bs. list_all2 (\<lambda>m b. encode_control J m = Inr b) ms bs \<and> written w1 = written w @ concat bs"
proof (induction ms arbitrary: w)
  case (Cons m ms)
  then obtain w2 where w2: "write_control J m w = (Inr (), w2)" "write_controls J ms w2 = (Inr (), w1)"
    by (auto split: prod.splits sum.splits)
  from w2(1) obtain b where b: "encode_control J m = Inr b" "written w2 = written w @ b"
    by (rule write_control_Inr)
  from Cons.IH [OF w2(2)] obtain bs where bs: "list_all2 (\<lambda>m b. encode_control J m = Inr b) ms bs"
      "written w1 = written w2 @ concat bs" by blast
  with b have "list_all2 (\<lambda>m b. encode_control J m = Inr b) (m # ms) (b # bs)"
      "written w1 = written w @ concat (b # bs)" by simp_all
  then show ?case by blast
qed simp

lemma read_controls_recv_many: "read_controls J n r = control_channel.recv_many J n r"
  by (induction n arbitrary: r) (simp_all add: Let_def split: prod.split)

lemma read_controls_frames:
  assumes "list_all2 (\<lambda>m b. encode_control J m = Inr b) ms bs" "list_all (json_faithful J) ms"
  shows "read_controls J (length ms) \<lparr>pending = concat bs @ rest, ends_with = e\<rparr> =
    (map Inr ms, \<lparr>pending = rest, ends_with = e\<rparr>)"
  using control_channel.recv_many_frames [of J ms bs "\<lparr>pending = rest, ends_with = e\<rparr>"] assms
  by (simp add: read_controls_recv_many frame_of_Some feed_reader_def)

lemma decode_frame_Inr:
  assumes "decode_frame J buf = Inr (v, n)"
  obtains len where "n = 4 + unat len" "len \<le> MAX_FRAME_PAYLOAD" "n \<le> length buf"
    "len = from_be_bytes (take 4 buf)" "from_slice J (take (unat len) (drop 4 buf)) = Inr v"
  using assms by (auto simp: decode_frame_take Let_def split: if_splits sum.splits)

lemma decode_control_Inr:
  "decode_control J buf = Inr (msg, n) \<longleftrightarrow>
     (\<exists>env. decode_frame J buf = Inr (env, n) \<and> open_envelope env = Inr msg)"
  by (auto simp: decode_control_def split: sum.splits)

lemma open_envelope_Inr:
  "open_envelope env = Inr msg \<longleftrightarrow> env = new_envelope msg \<and> validate_field_limits msg = Inr ()"
  by (cases env) (auto simp: open_envelope_def new_envelope_def split: sum.splits)

lemma decode_frame_truncated:
  assumes "decode_frame J buf = Inr (v, n)" "k < n"
  shows "decode_frame J (take k buf) = Inl (if k < 4 then HeaderTruncated else Incomplete n k)"
  using assms(1)
proof (rule decode_frame_Inr)
  fix len
  assume l: "n = 4 + unat len" "len \<le> MAX_FRAME_PAYLOAD" "n \<le> length buf" "len = from_be_bytes (take 4 buf)"
  show ?thesis
  proof (cases "k < 4")
    case False
    then have "take 4 (take k buf) = take 4 buf" by (simp add: min_def)
    with False l assms(2) show ?thesis by (simp add: decode_frame_take Let_def del: take_take)
  next
    case True
    then have "length (take k buf) < 4" by simp
    then have "decode_frame J (take k buf) = Inl HeaderTruncated" unfolding decode_frame_take by (rule if_P)
    with True show ?thesis by simp
  qed
qed

lemma decode_frame_extend:
  assumes "decode_frame J buf = Inr (v, n)"
  shows "decode_frame J (take n buf @ rest) = Inr (v, n)"
  using assms
proof (rule decode_frame_Inr)
  fix len
  assume l: "n = 4 + unat len" "len \<le> MAX_FRAME_PAYLOAD" "n \<le> length buf" "len = from_be_bytes (take 4 buf)"
    "from_slice J (take (unat len) (drop 4 buf)) = Inr v"
  have "take 4 (take n buf @ rest) = take 4 buf" "take (unat len) (drop 4 (take n buf @ rest)) = take (unat len) (drop 4 buf)"
    using l(1,3) by (simp_all add: take_drop min_def)
  with l show ?thesis by (simp add: decode_frame_take Let_def)
qed

section \<open>Properties\<close>

text \<open>A JSON library for the examples: it only writes stop requests, as their session id.\<close>

definition demo_frame_json :: "control_envelope frame_json" where
  "demo_frame_json =
     \<lparr>to_vec = (\<lambda>env. case env_message env of StopMedia m \<Rightarrow> Inr (utf8_bytes (st_session_id m)) | _ \<Rightarrow> Inl ''unsupported''),
      from_slice = (\<lambda>bs. Inr (new_envelope (StopMedia \<lparr>st_session_id = map (\<lambda>b. char_of (unat b)) bs\<rparr>)))\<rparr>"

text \<open>
  C17. What is written is what is read: when \<open>write_control\<close> has accepted a sequence of messages,
  the peer's \<open>read_control\<close>s return exactly those messages, in that order, and leave whatever
  follows on the stream untouched. (The JSON library reads back the envelopes it wrote.)
\<close>

theorem control_stream_in_order:
  assumes "write_controls J msgs \<lparr>written = [], room = n, write_error = e, flush_error = fe\<rparr> = (Inr (), w)"
    and "list_all (json_faithful J) msgs"
  shows "read_controls J (length msgs) \<lparr>pending = written w @ rest, ends_with = e'\<rparr> =
    (map Inr msgs, \<lparr>pending = rest, ends_with = e'\<rparr>)"
proof -
  from write_controls_Inr [OF assms(1)] obtain bs where
    "list_all2 (\<lambda>m b. encode_control J m = Inr b) msgs bs" "written w = concat bs" by auto
  with read_controls_frames [OF this(1) assms(2)] show ?thesis by simp
qed

lemma demo_chars: "char_of (115::nat) = CHR ''s''" "char_of (49::nat) = CHR ''1''"
  by (simp_all add: char_of_eq_iff take_bit_eq_mod)

lemma demo_faithful: "json_faithful demo_frame_json (StopMedia \<lparr>st_session_id = ''s1''\<rparr>)"
  by (simp add: json_faithful_def demo_frame_json_def new_envelope_def utf8_bytes_def demo_chars)

lemma demo_frame:
  "encode_control demo_frame_json (StopMedia \<lparr>st_session_id = ''s1''\<rparr>) = Inr [0, 0, 0, 2, 115, 49]"
  by (simp add: encode_control_def encode_frame_def demo_frame_json_def new_envelope_def utf8_bytes_def
      ipc_check_str_def MAX_SESSION_ID_LEN_def MAX_FRAME_PAYLOAD_def to_be_bytes_def word_less_nat_alt)

theorem control_stream_in_order_witness:
  "read_controls demo_frame_json 2
     \<lparr>pending = [0, 0, 0, 2, 115, 49, 0, 0, 0, 2, 115, 49, 7], ends_with = UnexpectedEof\<rparr> =
   ([Inr (StopMedia \<lparr>st_session_id = ''s1''\<rparr>), Inr (StopMedia \<lparr>st_session_id = ''s1''\<rparr>)],
    \<lparr>pending = [7], ends_with = UnexpectedEof\<rparr>)"
proof -
  let ?m = "StopMedia \<lparr>st_session_id = ''s1''\<rparr>" and ?b = "[0, 0, 0, 2, 115, 49] :: bytes"
  have w: "write_controls demo_frame_json [?m, ?m] \<lparr>written = [], room = 20, write_error = OtherIo [], flush_error = None\<rparr> =
      (Inr (), \<lparr>written = ?b @ ?b, room = 8, write_error = OtherIo [], flush_error = None\<rparr>)"
    by (simp add: write_control_def demo_frame write_all_flush_def)
  show ?thesis
    using control_stream_in_order [OF w, of "[7]" UnexpectedEof] demo_faithful
    by (simp add: numeral_2_eq_2 del: read_controls.simps)
qed

text \<open>
  \<open>decode_control\<close> never accepts more than the protocol allows and never guesses: a message it
  returns came from a version-1 envelope and respects every field limit, so it carries at most
  131,712 bytes of text; it consumed one frame of at most 4 + 262,144 bytes; the bytes behind the frame
  have no influence; and cut anywhere, the frame is reported as truncated or incomplete.
\<close>

theorem decode_control_exact:
  assumes "decode_control J buf = Inr (msg, n)"
  shows "validate_field_limits msg = Inr () \<and> carried_bytes msg \<le> 131712 \<and>
    4 \<le> n \<and> n \<le> 262148 \<and> n \<le> length buf \<and>
    from_slice J (drop 4 (take n buf)) = Inr \<lparr>env_v = 1, env_message = msg\<rparr> \<and>
    decode_control J (take n buf @ rest) = Inr (msg, n) \<and>
    (k < n \<longrightarrow> decode_control J (take k buf) = Inl (if k < 4 then HeaderTruncated else Incomplete n k))"
proof (intro conjI impI)
  from assms obtain env where env: "decode_frame J buf = Inr (env, n)" "open_envelope env = Inr msg"
    by (auto simp: decode_control_Inr)
  from env(2) have msg: "env = new_envelope msg" "validate_field_limits msg = Inr ()"
    by (simp_all add: open_envelope_Inr)
  show "validate_field_limits msg = Inr ()" "carried_bytes msg \<le> 131712"
    using msg(2) carried_bytes_le by simp_all
  from env(1) obtain len where l: "n = 4 + unat len" "len \<le> MAX_FRAME_PAYLOAD" "n \<le> length buf"
      "from_slice J (take (unat len) (drop 4 buf)) = Inr env" by (rule decode_frame_Inr)
  show "4 \<le> n" "n \<le> 262148" "n \<le> length buf" using l max_frame_lt [OF l(2)] by simp_all
  show "from_slice J (drop 4 (take n buf)) = Inr \<lparr>env_v = 1, env_message = msg\<rparr>"
    using l(1,4) by (simp add: msg(1) new_envelope_def CONTROL_IPC_VERSION_def drop_take)
  show "decode_control J (take n buf @ rest) = Inr (msg, n)"
    using decode_frame_extend [OF env(1)] env(2) by (simp add: decode_control_def)
  show "decode_control J (take k buf) = Inl (if k < 4 then HeaderTruncated else Incomplete n k)" if "k < n"
    using decode_frame_truncated [OF env(1) that] by (simp add: decode_control_def)
qed

theorem decode_control_exact_witness:
  "decode_control demo_frame_json [0, 0, 0, 2, 115] = Inl (Incomplete 6 5) \<and>
   decode_control demo_frame_json [0, 0, 0, 2, 115, 49, 0, 0] = Inr (StopMedia \<lparr>st_session_id = ''s1''\<rparr>, 6)"
  using decode_control_exact [OF decode_encoded_control [OF demo_frame demo_faithful, of "[]"], of "[0, 0]" 5]
  by simp

end
