(* ===== verification/Host_Agent.thy ===== *)
theory Host_Agent
  imports Ipc_Message
begin

text \<open>
  The control state machine of the host's session agent (\<open>AgentSessionState\<close> in
  \<open>apps/host/src/agent.rs\<close>), the control sequences the service sends it
  (\<open>apps/host/src/service.rs\<close>) and the service's mandatory session indicator
  (\<open>apps/host/src/chrome.rs\<close>). A handler returns its reply and the new state.
\<close>

section \<open>The agent's control state\<close>

definition NOT_ATTACHED :: string where "NOT_ATTACHED = ''not_attached''"
definition SESSION_MISMATCH :: string where "SESSION_MISMATCH = ''session_mismatch''"
definition KILLED :: string where "KILLED = ''killed''"
definition BUSY :: string where "BUSY = ''busy''"
definition CHROME_MANDATORY :: string where "CHROME_MANDATORY = ''chrome_mandatory''"
definition UNATTENDED_DISABLED :: string where "UNATTENDED_DISABLED = ''unattended_disabled''"
definition UNEXPECTED :: string where "UNEXPECTED = ''unexpected''"
definition AUTH_FAILED :: string where "AUTH_FAILED = ''auth_failed''"

record agent_state =
  ag_session_id :: "string option"
  media_started :: bool
  enable_input :: bool
  unattended :: bool
  chrome_visible :: bool
  killed :: bool
  unattended_disabled :: bool

definition default_agent :: agent_state where
  "default_agent = \<lparr>ag_session_id = None, media_started = False, enable_input = False, unattended = False,
     chrome_visible = False, killed = False, unattended_disabled = False\<rparr>"

definition agent_ack :: "string \<Rightarrow> string option \<Rightarrow> control_message" where
  "agent_ack method sid = Ack \<lparr>ack_for_method = Some method, ack_session_id = sid\<rparr>"

definition agent_err :: "string \<Rightarrow> string \<Rightarrow> string option \<Rightarrow> control_message" where
  "agent_err code message sid = ControlError \<lparr>ce_code = code, ce_message = message, ce_session_id = sid\<rparr>"

definition clear_session_keep_unattended_latch :: "agent_state \<Rightarrow> agent_state" where
  "clear_session_keep_unattended_latch s = default_agent\<lparr>unattended_disabled := unattended_disabled s\<rparr>"

definition reenable_unattended_local :: "agent_state \<Rightarrow> agent_state" where
  "reenable_unattended_local s = s\<lparr>unattended_disabled := False\<rparr>"

definition require_session :: "agent_state \<Rightarrow> string \<Rightarrow> control_message option" where
  "require_session s sid =
     (case ag_session_id s of
        None \<Rightarrow> Some (agent_err NOT_ATTACHED ''no session attached'' (Some sid))
      | Some cur \<Rightarrow>
          if cur = sid then None
          else Some (agent_err SESSION_MISMATCH ''session id does not match attached session'' (Some sid)))"

definition require_not_killed :: "agent_state \<Rightarrow> string option \<Rightarrow> control_message option" where
  "require_not_killed s sid =
     (if killed s then Some (agent_err KILLED ''kill-switch is latched'' sid) else None)"

text \<open>\<open>if let Some(e) = check { return e; } rest\<close>.\<close>

definition checked :: "control_message option \<Rightarrow> agent_state \<Rightarrow> control_message \<times> agent_state \<Rightarrow> control_message \<times> agent_state" where
  "checked check s rest = (case check of Some e \<Rightarrow> (e, s) | None \<Rightarrow> rest)"

text \<open>The effect of a kill-switch that applies to this agent.\<close>

definition apply_kill_switch :: "kill_switch \<Rightarrow> agent_state \<Rightarrow> agent_state" where
  "apply_kill_switch k s =
     (let s1 = s\<lparr>killed := True, media_started := False, enable_input := False, unattended := False,
        chrome_visible := False\<rparr>
      in if ks_disable_unattended k then s1\<lparr>unattended_disabled := True\<rparr> else s1)"

fun agent_handle :: "control_message \<Rightarrow> agent_state \<Rightarrow> control_message \<times> agent_state" where
  "agent_handle (AttachSession a) s =
     (if ag_session_id s \<noteq> None \<and> \<not> killed s then
        (agent_err BUSY ''session already active on host'' (Some (as_session_id a)), s)
      else (agent_ack ''attach_session'' (Some (as_session_id a)),
        s\<lparr>ag_session_id := Some (as_session_id a), media_started := False, enable_input := False,
          unattended := False, chrome_visible := True, killed := False\<rparr>))"
| "agent_handle (DetachSession d) s =
     checked (require_session s (ds_session_id d)) s
       (agent_ack ''detach_session'' (Some (ds_session_id d)), clear_session_keep_unattended_latch s)"
| "agent_handle (SetPolicy p) s =
     checked (require_session s (sp_session_id p)) s
    (checked (require_not_killed s (Some (sp_session_id p))) s
       (if sp_unattended p \<and> unattended_disabled s then
          (agent_err UNATTENDED_DISABLED
             ''unattended disabled by local kill-switch until re-enabled on host'' (Some (sp_session_id p)), s)
        else (agent_ack ''set_policy'' (Some (sp_session_id p)),
          s\<lparr>enable_input := sp_enable_input p, unattended := sp_unattended p\<rparr>)))"
| "agent_handle (StartMedia m) s =
     checked (require_session s (sm_session_id m)) s
    (checked (require_not_killed s (Some (sm_session_id m))) s
       (agent_ack ''start_media'' (Some (sm_session_id m)), s\<lparr>media_started := True\<rparr>))"
| "agent_handle (StopMedia m) s =
     checked (require_session s (st_session_id m)) s
       (agent_ack ''stop_media'' (Some (st_session_id m)), s\<lparr>media_started := False\<rparr>)"
| "agent_handle (QueryStats q) s =
     checked (case qs_session_id q of
         Some sid \<Rightarrow> require_session s sid
       | None \<Rightarrow> if ag_session_id s = None then Some (agent_err NOT_ATTACHED ''no session attached'' None) else None) s
       (StatsPush \<lparr>pu_session_id = (case qs_session_id q of Some sid \<Rightarrow> sid
            | None \<Rightarrow> (case ag_session_id s of Some sid \<Rightarrow> sid | None \<Rightarrow> [])),
          pu_rtt_ms = None, pu_video_bitrate_bps = None, pu_audio_bitrate_bps = None, pu_ice_path = None,
          pu_av_skew_ms = None, pu_fps = None, pu_loss = None\<rparr>, s)"
| "agent_handle (ShowSessionChrome c) s =
     checked (require_session s (ch_session_id c)) s
       (if killed s then
          (agent_err KILLED ''kill-switch is latched; chrome commands refused until re-attach'' (Some (ch_session_id c)), s)
        else if \<not> ch_visible c then
          (agent_err CHROME_MANDATORY ''session chrome is mandatory while session is live'' (Some (ch_session_id c)),
           s\<lparr>chrome_visible := True\<rparr>)
        else (agent_ack ''show_session_chrome'' (Some (ch_session_id c)), s\<lparr>chrome_visible := True\<rparr>))"
| "agent_handle (ShutdownSession m) s =
     checked (require_session s (sd_session_id m)) s
       (agent_ack ''shutdown_session'' (Some (sd_session_id m)), clear_session_keep_unattended_latch s)"
| "agent_handle (KillSwitch k) s =
     (case (ks_session_id k, ag_session_id s) of
        (Some target, None) \<Rightarrow> (agent_err NOT_ATTACHED ''no session attached for kill-switch'' (Some target), s)
      | (Some target, Some cur) \<Rightarrow>
          if target \<noteq> cur then (agent_err SESSION_MISMATCH ''kill-switch session id does not match'' (Some target), s)
          else (agent_ack ''kill_switch'' (ks_session_id k), apply_kill_switch k s)
      | (None, _) \<Rightarrow> (agent_ack ''kill_switch'' (ks_session_id k), apply_kill_switch k s))"
| "agent_handle (SignalForward m) s =
     checked (require_session s (sf_session_id m)) s
    (checked (require_not_killed s (Some (sf_session_id m))) s
       (agent_ack ''signal_forward'' (Some (sf_session_id m)), s))"
| "agent_handle (LocalConfirmResult _) s =
     (agent_err UNEXPECTED ''message not expected as agent command'' (ag_session_id s), s)"
| "agent_handle (StatsPush _) s =
     (agent_err UNEXPECTED ''message not expected as agent command'' (ag_session_id s), s)"
| "agent_handle (Ack _) s =
     (agent_err UNEXPECTED ''message not expected as agent command'' (ag_session_id s), s)"
| "agent_handle (ControlError _) s =
     (agent_err UNEXPECTED ''message not expected as agent command'' (ag_session_id s), s)"

definition local_confirm :: "string \<Rightarrow> bool \<Rightarrow> control_message" where
  "local_confirm sid accepted = LocalConfirmResult \<lparr>lc_session_id = sid, lc_accepted = accepted,
     lc_reason = (if accepted then None else Some ''user_denied'')\<rparr>"

section \<open>What the service sends\<close>

definition build_session_start_sequence :: "string \<Rightarrow> bool \<Rightarrow> string option \<Rightarrow> control_message list" where
  "build_session_start_sequence sid input boot_secret =
     [AttachSession \<lparr>as_session_id = sid, as_viewer_label = None,
        as_feature_flags = \<lparr>synthetic_media = False, stats_export = False, extra = []\<rparr>, as_turn_uris = [],
        as_boot_secret = boot_secret\<rparr>,
      SetPolicy \<lparr>sp_session_id = sid, sp_enable_input = input, sp_unattended = False,
        sp_max_bitrate_bps = 0, sp_disable_hw_encode = False\<rparr>,
      StartMedia \<lparr>sm_session_id = sid, sm_display_id = None\<rparr>]"

definition signal_to_agent :: "string \<Rightarrow> string \<Rightarrow> string \<Rightarrow> control_message" where
  "signal_to_agent sid kind payload =
     SignalForward \<lparr>sf_session_id = sid, sf_kind = kind, sf_payload = payload, sf_from = HopService\<rparr>"

definition service_kill_switch :: "string option \<Rightarrow> control_message" where
  "service_kill_switch sid = KillSwitch \<lparr>ks_session_id = sid, ks_disable_unattended = True, ks_source = Tray\<rparr>"

section \<open>The service's session indicator\<close>

record session_indicator =
  connected :: bool
  active :: bool
  in_session_id :: "string option"
  in_viewer_label :: "string option"

definition default_indicator :: session_indicator where
  "default_indicator = \<lparr>connected = False, active = False, in_session_id = None, in_viewer_label = None\<rparr>"

definition indicator_is_active :: "session_indicator \<Rightarrow> bool" where
  "indicator_is_active i \<longleftrightarrow> active i \<and> connected i \<and> in_session_id i \<noteq> None"

definition indicator_is_connected :: "session_indicator \<Rightarrow> bool" where
  "indicator_is_connected i \<longleftrightarrow> connected i \<and> in_session_id i \<noteq> None"

definition begin_session ::
  "string \<Rightarrow> string option \<Rightarrow> session_indicator \<Rightarrow> (string + unit) \<times> session_indicator" where
  "begin_session sid label i =
     (if indicator_is_connected i then
        (Inl (case in_session_id i of Some s \<Rightarrow> s | None \<Rightarrow> ''unknown''), i)
      else (Inr (), i\<lparr>connected := True, active := False, in_session_id := Some sid, in_viewer_label := label\<rparr>))"

definition mark_active :: "session_indicator \<Rightarrow> session_indicator" where
  "mark_active i = (if connected i \<and> in_session_id i \<noteq> None then i\<lparr>active := True\<rparr> else i)"

definition indicator_end_session :: "session_indicator \<Rightarrow> session_indicator" where
  "indicator_end_session i = default_indicator"

definition apply_kill :: "session_indicator \<Rightarrow> session_indicator" where
  "apply_kill i = indicator_end_session i"

datatype session_chrome = Inactive | Active string "string option"

definition from_indicator :: "session_indicator \<Rightarrow> session_chrome" where
  "from_indicator i =
     (if indicator_is_active i then
        (case in_session_id i of Some sid \<Rightarrow> Active sid (in_viewer_label i) | None \<Rightarrow> Inactive)
      else Inactive)"

fun chrome_is_active :: "session_chrome \<Rightarrow> bool" where
  "chrome_is_active Inactive = False"
| "chrome_is_active (Active _ _) = True"

fun chrome_status_label :: "session_chrome \<Rightarrow> string" where
  "chrome_status_label Inactive = ''Inactive''"
| "chrome_status_label (Active _ _) = ''Active''"

fun display_session_chrome :: "session_chrome \<Rightarrow> string" where
  "display_session_chrome Inactive = ''SessionChrome::Inactive''"
| "display_session_chrome (Active sid (Some l)) = ''SessionChrome::Active(session='' @ sid @ '', label='' @ l @ '')''"
| "display_session_chrome (Active sid None) = ''SessionChrome::Active(session='' @ sid @ '')''"

definition status_line :: "session_indicator \<Rightarrow> string" where
  "status_line i = ''session_indicator connected='' @ show_bool (connected i) @ '' active='' @ show_bool (active i) @
     '' chrome='' @ chrome_status_label (from_indicator i) @ '' session_id='' @
     (case in_session_id i of Some s \<Rightarrow> s | None \<Rightarrow> ''-'')"

section \<open>The state machine of the agent\<close>

text \<open>A step is one control message, or the local command that re-enables unattended access.\<close>

inductive agent_step :: "agent_state \<Rightarrow> agent_state \<Rightarrow> bool" where
  command: "agent_step s (snd (agent_handle msg s))"
| local_reenable: "agent_step s (reenable_unattended_local s)"

definition agent_reachable :: "agent_state \<Rightarrow> bool" where
  "agent_reachable s \<longleftrightarrow> agent_step\<^sup>*\<^sup>* default_agent s"

inductive_cases agent_stepE: "agent_step s t"

definition agent_idle :: "agent_state \<Rightarrow> bool" where
  "agent_idle s \<longleftrightarrow> \<not> media_started s \<and> \<not> enable_input s \<and> \<not> unattended s"

definition agent_inv :: "agent_state \<Rightarrow> bool" where
  "agent_inv s \<longleftrightarrow>
     (ag_session_id s \<noteq> None \<and> \<not> killed s \<longrightarrow> chrome_visible s) \<and>
     (ag_session_id s = None \<or> killed s \<longrightarrow> agent_idle s \<and> \<not> chrome_visible s) \<and>
     (unattended_disabled s \<longrightarrow> \<not> unattended s)"

lemmas agent_defs = checked_def require_session_def require_not_killed_def apply_kill_switch_def
  clear_session_keep_unattended_latch_def default_agent_def agent_ack_def agent_err_def Let_def

fun is_error :: "control_message \<Rightarrow> bool" where
  "is_error (ControlError _) = True"
| "is_error _ = False"

lemma is_error_simps [simp]: "is_error (agent_err c m i)" "\<not> is_error (agent_ack c i)"
  by (simp_all add: agent_err_def agent_ack_def)

text \<open>The message targets the attached session: a command that names it, or a kill-switch for any.\<close>

fun targets :: "control_message \<Rightarrow> string \<Rightarrow> bool" where
  "targets (DetachSession m) sid = (ds_session_id m = sid)"
| "targets (SetPolicy m) sid = (sp_session_id m = sid)"
| "targets (StartMedia m) sid = (sm_session_id m = sid)"
| "targets (StopMedia m) sid = (st_session_id m = sid)"
| "targets (ShowSessionChrome m) sid = (ch_session_id m = sid)"
| "targets (ShutdownSession m) sid = (sd_session_id m = sid)"
| "targets (KillSwitch m) sid = (ks_session_id m = None \<or> ks_session_id m = Some sid)"
| "targets _ sid = False"

text \<open>Outcomes of a handler: a case split that every proof about \<open>agent_handle\<close> shares.\<close>

lemma checkedE:
  assumes "checked c s r = (m, t)"
  obtains "c = Some m" "t = s" | "c = None" "r = (m, t)"
  using assms by (auto simp: checked_def split: option.splits)

lemma require_session_cases:
  "require_session s sid = None \<longleftrightarrow> ag_session_id s = Some sid"
  "require_session s sid = Some m \<Longrightarrow> is_error m"
  by (auto simp: require_session_def split: option.splits if_splits)

lemma require_not_killed_cases:
  "require_not_killed s sid = None \<longleftrightarrow> \<not> killed s"
  "require_not_killed s sid = Some m \<Longrightarrow> is_error m"
  by (auto simp: require_not_killed_def split: if_splits)

lemma agent_handle_inv: "agent_inv s \<Longrightarrow> agent_inv (snd (agent_handle msg s))"
  by (cases msg) (auto simp: agent_inv_def agent_idle_def agent_defs split: option.splits if_splits)

lemma default_agent_inv: "agent_inv default_agent"
  by (simp add: agent_inv_def agent_idle_def default_agent_def)

lemma agent_step_inv: "agent_step s t \<Longrightarrow> agent_inv s \<Longrightarrow> agent_inv t"
  by (erule agent_stepE) (auto simp: agent_handle_inv, simp add: agent_inv_def agent_idle_def reenable_unattended_local_def)

lemma agent_reachable_inv: "agent_reachable s \<Longrightarrow> agent_inv s"
  unfolding agent_reachable_def
  by (induction rule: rtranclp_induct) (auto simp: default_agent_inv intro: agent_step_inv)

text \<open>Running a sequence of commands.\<close>

definition agent_run :: "control_message list \<Rightarrow> agent_state \<Rightarrow> agent_state" where
  "agent_run msgs s = foldl (\<lambda>t m. snd (agent_handle m t)) s msgs"

lemma agent_run_simps [simp]:
  "agent_run [] s = s" "agent_run (m # ms) s = agent_run ms (snd (agent_handle m s))"
  by (simp_all add: agent_run_def)

lemma agent_run_invariant:
  assumes "\<And>m s. m \<in> set msgs \<Longrightarrow> I s \<Longrightarrow> I (snd (agent_handle m s))" and "I s"
  shows "I (agent_run msgs s)"
  using assms by (induction msgs arbitrary: s) simp_all

fun is_attach :: "control_message \<Rightarrow> bool" where
  "is_attach (AttachSession _) = True"
| "is_attach _ = False"

text \<open>The two latches of the kill-switch, as invariants of the handlers.\<close>

definition down :: "agent_state \<Rightarrow> bool" where
  "down s \<longleftrightarrow> (ag_session_id s = None \<or> killed s) \<and> agent_idle s \<and> \<not> chrome_visible s"

lemma down_handle: "\<not> is_attach m \<Longrightarrow> down s \<Longrightarrow> down (snd (agent_handle m s))"
  by (cases m) (auto simp: down_def agent_idle_def agent_defs split: option.splits if_splits)

definition latched :: "agent_state \<Rightarrow> bool" where
  "latched s \<longleftrightarrow> unattended_disabled s \<and> \<not> unattended s"

lemma latched_handle: "latched s \<Longrightarrow> latched (snd (agent_handle m s))"
  by (cases m) (auto simp: latched_def agent_defs split: option.splits if_splits)

lemma kill_switch_acked:
  assumes "agent_handle (KillSwitch k) s = (reply, t)" "\<not> is_error reply"
  shows "t = apply_kill_switch k s"
  using assms by (auto simp: agent_defs split: option.splits if_splits)

section \<open>Properties of the agent\<close>

text \<open>
  C28. The agent's safety invariant holds after every sequence of control messages and local
  commands: while a session is attached and not killed its chrome is on screen, whatever the
  service asked; with no session, or after the kill-switch, nothing is on: no media, no input, no
  unattended access; and while the kill-switch has latched unattended access off, it is off.
\<close>

theorem agent_always_safe:
  assumes "agent_reachable s"
  shows "(ag_session_id s \<noteq> None \<and> \<not> killed s \<longrightarrow> chrome_visible s) \<and>
    (ag_session_id s = None \<or> killed s \<longrightarrow> \<not> media_started s \<and> \<not> enable_input s \<and> \<not> unattended s \<and> \<not> chrome_visible s) \<and>
    (unattended_disabled s \<longrightarrow> \<not> unattended s)"
  using agent_reachable_inv [OF assms] by (auto simp: agent_inv_def agent_idle_def)

definition demo_live_agent :: agent_state where
  "demo_live_agent = agent_run (build_session_start_sequence ''s1'' True None) default_agent"

definition demo_killed_agent :: agent_state where
  "demo_killed_agent = agent_run [service_kill_switch (Some ''s1'')] demo_live_agent"

lemma demo_live_agent_eq:
  "demo_live_agent = \<lparr>ag_session_id = Some ''s1'', media_started = True, enable_input = True, unattended = False,
     chrome_visible = True, killed = False, unattended_disabled = False\<rparr>"
  by (simp add: demo_live_agent_def build_session_start_sequence_def agent_defs)

lemma demo_killed_agent_eq:
  "demo_killed_agent = \<lparr>ag_session_id = Some ''s1'', media_started = False, enable_input = False, unattended = False,
     chrome_visible = False, killed = True, unattended_disabled = True\<rparr>"
  by (simp add: demo_killed_agent_def demo_live_agent_eq service_kill_switch_def agent_defs)

lemma agent_run_reachable: "agent_reachable s \<Longrightarrow> agent_reachable (agent_run msgs s)"
  by (rule agent_run_invariant) (auto simp: agent_reachable_def intro: rtranclp.rtrancl_into_rtrancl agent_step.command)

lemma demo_reachable: "agent_reachable demo_live_agent" "agent_reachable demo_killed_agent"
  by (simp_all add: demo_killed_agent_def demo_live_agent_def agent_run_reachable agent_reachable_def [of default_agent] del: agent_run_simps)

theorem agent_always_safe_witness:
  "chrome_visible demo_live_agent \<and> \<not> media_started demo_killed_agent \<and> \<not> unattended demo_killed_agent"
  using agent_always_safe [OF demo_reachable(1)] agent_always_safe [OF demo_reachable(2)]
  by (simp add: demo_live_agent_eq demo_killed_agent_eq)



text \<open>
  A refused command has no effect, and every effect is authorised: in a reachable state, an
  error reply leaves the state as it was, and a command that changed the state either attached a
  session to a free (or killed) agent, or targeted the session that is attached, or was a kill-switch for
  every session. So nobody but the controller of the attached session, or the local host, changes it.
\<close>

theorem agent_single_controller:
  assumes "agent_reachable s" and "agent_handle msg s = (reply, t)"
  shows "(is_error reply \<longrightarrow> t = s) \<and>
    (t \<noteq> s \<longrightarrow>
      (is_attach msg \<and> (ag_session_id s = None \<or> killed s)) \<or>
      (\<exists>sid. ag_session_id s = Some sid \<and> targets msg sid) \<or>
      (\<exists>k. msg = KillSwitch k \<and> ks_session_id k = None))"
  using assms(2) agent_reachable_inv [OF assms(1)]
  by (intro conjI [of "_ \<longrightarrow> _"]; cases msg; force simp: agent_inv_def agent_defs split: option.splits if_splits)

theorem agent_single_controller_witness:
  "snd (agent_handle (StopMedia \<lparr>st_session_id = ''s2''\<rparr>) demo_live_agent) = demo_live_agent \<and>
   targets (StopMedia \<lparr>st_session_id = ''s1''\<rparr>) ''s1''"
proof -
  have a: "agent_handle (StopMedia \<lparr>st_session_id = ''s2''\<rparr>) demo_live_agent =
      (agent_err SESSION_MISMATCH ''session id does not match attached session'' (Some ''s2''), demo_live_agent)"
    by (simp add: demo_live_agent_eq agent_defs)
  have b: "agent_handle (StopMedia \<lparr>st_session_id = ''s1''\<rparr>) demo_live_agent =
      (agent_ack ''stop_media'' (Some ''s1''), demo_live_agent\<lparr>media_started := False\<rparr>)"
    by (simp add: demo_live_agent_eq agent_defs)
  have "demo_live_agent\<lparr>media_started := False\<rparr> \<noteq> demo_live_agent" by (simp add: demo_live_agent_eq)
  with agent_single_controller [OF demo_reachable(1) a] agent_single_controller [OF demo_reachable(1) b] a
  show ?thesis by (auto simp: demo_live_agent_eq)
qed

section \<open>The indicator\<close>

text \<open>The tray shows a session exactly while one is bound and marked active; it clears on a kill.\<close>

lemma chrome_active_iff: "chrome_is_active (from_indicator i) \<longleftrightarrow> indicator_is_active i"
  by (auto simp: from_indicator_def indicator_is_active_def split: option.splits)

lemma chrome_names_session: "from_indicator i = Active sid l \<Longrightarrow> in_session_id i = Some sid \<and> in_viewer_label i = l"
  by (auto simp: from_indicator_def split: option.splits if_splits)

lemma kill_clears_chrome: "from_indicator (apply_kill i) = Inactive"
  by (simp add: from_indicator_def apply_kill_def indicator_end_session_def default_indicator_def indicator_is_active_def)

lemma begin_session_exclusive:
  "begin_session sid l i = (Inr (), j) \<Longrightarrow> \<not> indicator_is_connected i \<and> fst (begin_session sid' l' j) = Inl sid"
  by (auto simp: begin_session_def indicator_is_connected_def split: if_splits)

end
