(* ===== verification/Challenge.thy ===== *)
theory Challenge
  imports Transcript
begin

text \<open>
  Mode B challenge-response (\<open>packages/auth/src/challenge.rs\<close>) and the signed DTLS fingerprint
  binding (\<open>packages/auth/src/fingerprint.rs\<close>). The Ed25519 library is a record of functions; a
  panic (a field of 4 GiB or more) is \<open>None\<close>.
\<close>

section \<open>Host secret and nonce\<close>

definition CHALLENGE_NONCE_LEN :: nat where "CHALLENGE_NONCE_LEN = 32"
definition CHALLENGE_MAC_LEN :: nat where "CHALLENGE_MAC_LEN = 32"
definition HOST_SECRET_MIN_LEN :: nat where "HOST_SECRET_MIN_LEN = 16"

definition MAC_DOMAIN :: bytes where
  "MAC_DOMAIN = utf8_bytes ''remotelink-mode-b-mac-v1''"

datatype host_secret = HostSecret (secret_bytes: bytes)

definition host_secret_try_new :: "bytes \<Rightarrow> auth_error + host_secret" where
  "host_secret_try_new bs =
     (if length bs < HOST_SECRET_MIN_LEN then
        Inl (Crypto (''host secret must be at least '' @ show_nat HOST_SECRET_MIN_LEN @ '' bytes, got '' @ show_nat (length bs)))
      else Inr (HostSecret bs))"

datatype challenge_nonce = ChallengeNonce (nonce_bytes: bytes)

definition nonce_from_bytes :: "bytes \<Rightarrow> auth_error + challenge_nonce" where
  "nonce_from_bytes bs =
     (if bs = [] then Inl (Crypto ''nonce must be non-empty'') else Inr (ChallengeNonce bs))"

section \<open>The transcript and its MAC\<close>

record challenge_transcript =
  tr_session_id :: bytes
  tr_nonce :: bytes
  tr_fingerprint_host :: bytes
  tr_fingerprint_viewer :: bytes

definition encode_transcript :: "challenge_transcript \<Rightarrow> bytes option" where
  "encode_transcript t =
     Option.bind (append_lp MAC_DOMAIN (tr_session_id t)) (\<lambda>out1.
     Option.bind (append_lp out1 (tr_nonce t)) (\<lambda>out2.
     Option.bind (append_lp out2 (tr_fingerprint_host t)) (\<lambda>out3.
     append_lp out3 (tr_fingerprint_viewer t))))"

definition compute_challenge_mac :: "crypto \<Rightarrow> host_secret \<Rightarrow> challenge_transcript \<Rightarrow> bytes option" where
  "compute_challenge_mac K secret t =
     map_option (hmac_sha256 K (secret_bytes secret)) (encode_transcript t)"

definition verify_challenge_mac ::
  "crypto \<Rightarrow> host_secret \<Rightarrow> challenge_transcript \<Rightarrow> bytes \<Rightarrow> (auth_error + unit) option" where
  "verify_challenge_mac K secret t presented =
     (if length presented \<noteq> CHALLENGE_MAC_LEN then Some (Inl ChallengeMacMismatch)
      else map_option (\<lambda>expected. if expected = presented then Inr () else Inl ChallengeMacMismatch)
             (compute_challenge_mac K secret t))"

definition verify_response ::
  "crypto \<Rightarrow> challenge_nonce \<Rightarrow> host_secret \<Rightarrow> bytes \<Rightarrow> bytes \<Rightarrow> bytes \<Rightarrow> bytes \<Rightarrow> (auth_error + unit) option" where
  "verify_response K nonce secret session_id fp_host fp_viewer mac =
     verify_challenge_mac K secret \<lparr>tr_session_id = session_id, tr_nonce = nonce_bytes nonce,
       tr_fingerprint_host = fp_host, tr_fingerprint_viewer = fp_viewer\<rparr> mac"

definition respond_to_challenge ::
  "crypto \<Rightarrow> host_secret \<Rightarrow> bytes \<Rightarrow> bytes \<Rightarrow> bytes \<Rightarrow> bytes \<Rightarrow> bytes option" where
  "respond_to_challenge K secret session_id nonce fp_host fp_viewer =
     compute_challenge_mac K secret \<lparr>tr_session_id = session_id, tr_nonce = nonce,
       tr_fingerprint_host = fp_host, tr_fingerprint_viewer = fp_viewer\<rparr>"

section \<open>Signed fingerprints\<close>

definition BIND_DOMAIN :: bytes where
  "BIND_DOMAIN = utf8_bytes ''remotelink-fingerprint-bind-v1''"

text \<open>Signing keys are their seeds, verifying keys their encodings.\<close>

record ed25519 =
  ed_public :: "bytes \<Rightarrow> bytes"
  ed_sign :: "bytes \<Rightarrow> bytes \<Rightarrow> bytes"
  ed_verify :: "bytes \<Rightarrow> bytes \<Rightarrow> bytes \<Rightarrow> bool"
  ed_public_from_bytes :: "bytes \<Rightarrow> string + bytes"

definition encode_binding_message :: "bytes \<Rightarrow> bytes \<Rightarrow> bytes option" where
  "encode_binding_message session_id fingerprint =
     (if length session_id < 2 ^ 32 \<and> length fingerprint < 2 ^ 32 then
        Some (BIND_DOMAIN @ to_be_bytes (of_nat (length session_id)) @ session_id @
              to_be_bytes (of_nat (length fingerprint)) @ fingerprint)
      else None)"

definition sign_fingerprint_binding :: "ed25519 \<Rightarrow> bytes \<Rightarrow> bytes \<Rightarrow> bytes \<Rightarrow> bytes option" where
  "sign_fingerprint_binding E signing_key session_id fingerprint =
     map_option (ed_sign E signing_key) (encode_binding_message session_id fingerprint)"

definition verify_fingerprint_binding ::
  "ed25519 \<Rightarrow> bytes \<Rightarrow> bytes \<Rightarrow> bytes \<Rightarrow> bytes \<Rightarrow> (auth_error + unit) option" where
  "verify_fingerprint_binding E verifying_key session_id fingerprint signature =
     (if length signature \<noteq> 64 then Some (Inl FingerprintSigInvalid)
      else map_option (\<lambda>msg. if ed_verify E verifying_key msg signature then Inr () else Inl FingerprintSigInvalid)
             (encode_binding_message session_id fingerprint))"

definition verifying_key_from_bytes :: "ed25519 \<Rightarrow> bytes \<Rightarrow> auth_error + bytes" where
  "verifying_key_from_bytes E bs =
     (if length bs \<noteq> 32 then Inl (Crypto ''verifying key must be 32 bytes'')
      else case ed_public_from_bytes E bs of Inl e \<Rightarrow> Inl (Crypto e) | Inr k \<Rightarrow> Inr k)"

definition signing_key_from_bytes :: "bytes \<Rightarrow> auth_error + bytes" where
  "signing_key_from_bytes bs =
     (if length bs \<noteq> 32 then Inl (Crypto ''signing key must be 32 bytes'') else Inr bs)"

section \<open>Injectivity\<close>

definition small :: "bytes \<Rightarrow> bool" where
  "small f \<longleftrightarrow> length f < 2 ^ 32"

definition fields :: "challenge_transcript \<Rightarrow> bytes list" where
  "fields t = [tr_session_id t, tr_nonce t, tr_fingerprint_host t, tr_fingerprint_viewer t]"

lemma encode_transcript_Some:
  "encode_transcript t = Some m \<longleftrightarrow> list_all small (fields t) \<and> m = MAC_DOMAIN @ concat (map lp (fields t))"
  by (auto simp: encode_transcript_def append_lp_Some fields_def small_def bind_eq_Some_conv)

lemma fields_inject: "fields t = fields u \<longleftrightarrow> t = u"
  by (cases t; cases u) (auto simp: fields_def)

lemma lp_fields_inject:
  assumes "length fs = length gs" and "list_all small fs" and "list_all small gs"
    and "pre @ concat (map lp fs) = pre @ concat (map lp gs)"
  shows "fs = gs"
  using assms lp_code.concat_inject [of fs gs] by (simp add: small_def [abs_def])

lemma encode_transcript_inject:
  assumes "encode_transcript t = Some m" and "encode_transcript u = Some m"
  shows "t = u"
  using assms lp_fields_inject [of "fields t" "fields u" MAC_DOMAIN]
  by (auto simp: encode_transcript_Some fields_inject) (simp add: fields_def)

lemma encode_binding_Some:
  "encode_binding_message s f = Some m \<longleftrightarrow> small s \<and> small f \<and> m = BIND_DOMAIN @ concat (map lp [s, f])"
  by (auto simp: encode_binding_message_def lp_def small_def)

lemma encode_binding_inject:
  assumes "encode_binding_message s f = Some m" and "encode_binding_message s' f' = Some m"
  shows "s = s' \<and> f = f'"
  using assms lp_fields_inject [of "[s, f]" "[s', f']" BIND_DOMAIN] by (auto simp: encode_binding_Some)

text \<open>
  C23. A Mode B answer proves its own transcript. The host accepts the viewer's answer to its own
  challenge; and it accepts an answer computed for another session, nonce or pair of
  fingerprints only if HMAC-SHA256 collides under the secret, because different
  transcripts are different messages.
\<close>

theorem challenge_binds_transcript:
  assumes "respond_to_challenge K secret sid nonce fph fpv = Some mac" and "length mac = 32"
    and "small sid'" and "small nonce'" and "small fph'" and "small fpv'"
  shows "\<exists>m m'. encode_transcript \<lparr>tr_session_id = sid, tr_nonce = nonce, tr_fingerprint_host = fph, tr_fingerprint_viewer = fpv\<rparr> = Some m \<and>
    encode_transcript \<lparr>tr_session_id = sid', tr_nonce = nonce', tr_fingerprint_host = fph', tr_fingerprint_viewer = fpv'\<rparr> = Some m' \<and>
    (m = m' \<longleftrightarrow> sid = sid' \<and> nonce = nonce' \<and> fph = fph' \<and> fpv = fpv') \<and>
    (verify_response K (ChallengeNonce nonce') secret sid' fph' fpv' mac = Some (Inr ()) \<longleftrightarrow>
      hmac_sha256 K (secret_bytes secret) m = hmac_sha256 K (secret_bytes secret) m')"
proof -
  let ?t = "\<lparr>tr_session_id = sid, tr_nonce = nonce, tr_fingerprint_host = fph, tr_fingerprint_viewer = fpv\<rparr>"
  let ?u = "\<lparr>tr_session_id = sid', tr_nonce = nonce', tr_fingerprint_host = fph', tr_fingerprint_viewer = fpv'\<rparr>"
  obtain m where m: "encode_transcript ?t = Some m" "mac = hmac_sha256 K (secret_bytes secret) m"
    using assms(1) by (auto simp: respond_to_challenge_def compute_challenge_mac_def)
  obtain m' where m': "encode_transcript ?u = Some m'"
    using assms(3-6) by (auto simp: encode_transcript_Some fields_def)
  have "m = m' \<longleftrightarrow> sid = sid' \<and> nonce = nonce' \<and> fph = fph' \<and> fpv = fpv'"
    using encode_transcript_inject [of ?t m ?u] m(1) m' by auto
  with m m' assms(2) show ?thesis
    by (auto simp: verify_response_def verify_challenge_mac_def compute_challenge_mac_def CHALLENGE_MAC_LEN_def)
qed

text \<open>An instance with 32-byte tags, for examples: the tag is the zero-padded end of the message.\<close>

definition tag_crypto :: crypto where
  "tag_crypto = toy_crypto\<lparr>hmac_sha256 := (\<lambda>k m. take 32 (rev m @ replicate 32 0))\<rparr>"

lemma length_tag [simp]: "length (hmac_sha256 tag_crypto k m) = 32"
  by (simp add: tag_crypto_def)

theorem challenge_binds_transcript_witness:
  "\<exists>mac. respond_to_challenge tag_crypto (HostSecret [1]) [2] [3] [4] [5] = Some mac \<and>
    verify_response tag_crypto (ChallengeNonce [3]) (HostSecret [1]) [2] [4] [5] mac = Some (Inr ())"
proof -
  obtain mac where mac: "respond_to_challenge tag_crypto (HostSecret [1]) [2] [3] [4] [5] = Some mac"
    by (simp add: respond_to_challenge_def compute_challenge_mac_def encode_transcript_def append_lp_def)
  then have "length mac = 32" by (auto simp: respond_to_challenge_def compute_challenge_mac_def)
  from challenge_binds_transcript [OF mac this, of "[2]" "[3]" "[4]" "[5]"] mac show ?thesis
    by (auto simp: small_def)
qed

text \<open>
  Signed fingerprints. With a signature scheme that accepts its own 64-byte signatures, the
  viewer accepts the host's signature over its session and fingerprint; and any
  signature it accepts for a session and fingerprint is one the scheme accepts for a message
  that no other session or fingerprint encodes to.
\<close>

theorem fingerprint_binding_round_trip:
  assumes "\<And>sk m. ed_verify E (ed_public E sk) m (ed_sign E sk m)" and "\<And>sk m. length (ed_sign E sk m) = 64"
    and "sign_fingerprint_binding E sk sid fp = Some sig"
  shows "verify_fingerprint_binding E (ed_public E sk) sid fp sig = Some (Inr ()) \<and>
    (verify_fingerprint_binding E (ed_public E sk) sid' fp' sig = Some (Inr ()) \<longrightarrow>
      sid' = sid \<and> fp' = fp \<or>
      (\<exists>m m'. encode_binding_message sid fp = Some m \<and> encode_binding_message sid' fp' = Some m' \<and> m \<noteq> m' \<and>
        ed_verify E (ed_public E sk) m' (ed_sign E sk m)))"
proof -
  obtain m where m: "encode_binding_message sid fp = Some m" "sig = ed_sign E sk m"
    using assms(3) by (auto simp: sign_fingerprint_binding_def)
  moreover have "sid' = sid \<and> fp' = fp" if "encode_binding_message sid' fp' = Some m"
    using encode_binding_inject [OF m(1) that] by simp
  ultimately show ?thesis using assms(1,2) by (auto simp: verify_fingerprint_binding_def)
qed

definition toy_ed25519 :: ed25519 where
  "toy_ed25519 = \<lparr>ed_public = (\<lambda>sk. sk), ed_sign = (\<lambda>sk m. take 64 (rev m @ replicate 64 0)),
     ed_verify = (\<lambda>pk m s. s = take 64 (rev m @ replicate 64 0)), ed_public_from_bytes = Inr\<rparr>"

theorem fingerprint_binding_round_trip_witness:
  "\<exists>sig. sign_fingerprint_binding toy_ed25519 [9] [1, 2] [3] = Some sig \<and>
    verify_fingerprint_binding toy_ed25519 (ed_public toy_ed25519 [9]) [1, 2] [3] sig = Some (Inr ())"
proof -
  obtain sig where sig: "sign_fingerprint_binding toy_ed25519 [9] [1, 2] [3] = Some sig"
    by (simp add: sign_fingerprint_binding_def encode_binding_message_def)
  with fingerprint_binding_round_trip [OF _ _ sig] show ?thesis by (simp add: toy_ed25519_def)
qed

end
