(* ===== verification/Identity.thy ===== *)
theory Identity
  imports Challenge
begin

text \<open>
  Identity binding (\<open>packages/auth/src/identity.rs\<close>): the session bind keys, the two-flag input
  gate, the hex-encoded fingerprint signature, and the challenge and answer exchanged on the
  \<open>identity\<close> data channel, with their hand-written JSON. A panic is \<open>None\<close>.
\<close>

section \<open>Bind keys and the input gate\<close>

definition DC_BIND_DOMAIN :: bytes where
  "DC_BIND_DOMAIN = utf8_bytes ''remotelink-dc-identity-bind-v1''"

definition OTP_BIND_KEY_SALT :: bytes where
  "OTP_BIND_KEY_SALT = utf8_bytes ''remotelink-otp-bind-key-v1''"

definition DC_CHALLENGE_NONCE_LEN :: nat where "DC_CHALLENGE_NONCE_LEN = 32"
definition DC_BIND_MAC_LEN :: nat where "DC_BIND_MAC_LEN = 32"

datatype session_bind_key = SessionBindKey (bind_key_bytes: bytes)

definition bind_key_try_new :: "bytes \<Rightarrow> auth_error + session_bind_key" where
  "bind_key_try_new bs =
     (if bs = [] then Inl (Crypto ''session bind key must be non-empty'') else Inr (SessionBindKey bs))"

definition from_mode_a_otp :: "crypto \<Rightarrow> string \<Rightarrow> auth_error + session_bind_key" where
  "from_mode_a_otp K otp =
     (case validate_otp_format otp of Inl e \<Rightarrow> Inl e
      | Inr _ \<Rightarrow> Inr (SessionBindKey (hmac_sha256 K OTP_BIND_KEY_SALT (utf8_bytes otp))))"

definition from_mode_b_secret :: "host_secret \<Rightarrow> session_bind_key" where
  "from_mode_b_secret secret = SessionBindKey (secret_bytes secret)"

record identity_bind_state =
  ib_session_id :: string
  session_authorized :: bool
  identity_bound :: bool

definition new_identity :: "string \<Rightarrow> identity_bind_state" where
  "new_identity sid = \<lparr>ib_session_id = sid, session_authorized = False, identity_bound = False\<rparr>"

definition input_allowed :: "identity_bind_state \<Rightarrow> bool" where
  "input_allowed st \<longleftrightarrow> identity_bound st \<and> session_authorized st"

definition input_gate_error :: "identity_bind_state \<Rightarrow> auth_error" where
  "input_gate_error st = InputNotAllowed (identity_bound st) (session_authorized st)"

definition mark_authorized :: "identity_bind_state \<Rightarrow> identity_bind_state" where
  "mark_authorized st = st\<lparr>session_authorized := True\<rparr>"

definition mark_identity_bound :: "identity_bind_state \<Rightarrow> identity_bind_state" where
  "mark_identity_bound st = st\<lparr>identity_bound := True\<rparr>"

definition reset_flags :: "identity_bind_state \<Rightarrow> identity_bind_state" where
  "reset_flags st = st\<lparr>session_authorized := False, identity_bound := False\<rparr>"

section \<open>The signed fingerprint\<close>

definition sign_session_fingerprint :: "ed25519 \<Rightarrow> bytes \<Rightarrow> string \<Rightarrow> string \<Rightarrow> string option" where
  "sign_session_fingerprint E signing_key session_id material =
     map_option bytes_to_hex (sign_fingerprint_binding E signing_key (utf8_bytes session_id) (utf8_bytes material))"

definition verify_session_fingerprint ::
  "ed25519 \<Rightarrow> bytes \<Rightarrow> string \<Rightarrow> string \<Rightarrow> string \<Rightarrow> (auth_error + unit) option" where
  "verify_session_fingerprint E verifying_key session_id material sig_hex =
     (case hex_to_bytes sig_hex of
        Inl _ \<Rightarrow> Some (Inl FingerprintSigInvalid)
      | Inr sig \<Rightarrow> verify_fingerprint_binding E verifying_key (utf8_bytes session_id) (utf8_bytes material) sig)"

section \<open>Data-channel messages\<close>

datatype dc_identity_message =
    DcChallenge bytes
  | DcResponse bytes

definition encode_dc_challenge :: "bytes \<Rightarrow> bytes" where
  \<open>encode_dc_challenge nonce =
     utf8_bytes (''{"type":"dc_challenge","nonce":"'' @ bytes_to_hex nonce @ ''"}'')\<close>

definition encode_dc_response :: "bytes \<Rightarrow> bytes" where
  \<open>encode_dc_response mac =
     utf8_bytes (''{"type":"dc_response","mac":"'' @ bytes_to_hex mac @ ''"}'')\<close>

text \<open>\<open>std::str::from_utf8\<close>: well-formed UTF-8 (no overlong forms, no surrogates).\<close>

definition cont :: "nat \<Rightarrow> bool" where "cont n \<longleftrightarrow> 0x80 \<le> n \<and> n \<le> 0xBF"

fun utf8_valid :: "nat list \<Rightarrow> bool" where
  "utf8_valid [] = True"
| "utf8_valid (a # s) =
     (if a < 0x80 then utf8_valid s
      else if 0xC2 \<le> a \<and> a \<le> 0xDF then (case s of b # s \<Rightarrow> cont b \<and> utf8_valid s | _ \<Rightarrow> False)
      else if 0xE0 \<le> a \<and> a \<le> 0xEF then
        (case s of b # c # s \<Rightarrow>
           (if a = 0xE0 then 0xA0 \<le> b \<and> b \<le> 0xBF else if a = 0xED then 0x80 \<le> b \<and> b \<le> 0x9F else cont b) \<and>
           cont c \<and> utf8_valid s
         | _ \<Rightarrow> False)
      else if 0xF0 \<le> a \<and> a \<le> 0xF4 then
        (case s of b # c # d # s \<Rightarrow>
           (if a = 0xF0 then 0x90 \<le> b \<and> b \<le> 0xBF else if a = 0xF4 then 0x80 \<le> b \<and> b \<le> 0x8F else cont b) \<and>
           cont c \<and> cont d \<and> utf8_valid s
         | _ \<Rightarrow> False)
      else False)"

definition str_from_utf8 :: "bytes \<Rightarrow> string option" where
  "str_from_utf8 bs = (if utf8_valid (map unat bs) then Some (map (\<lambda>b. char_of (unat b)) bs) else None)"

text \<open>\<open>find\<close> and the slice after the match.\<close>

fun after_first :: "string \<Rightarrow> string \<Rightarrow> string option" where
  "after_first p [] = (if p = [] then Some [] else None)"
| "after_first p (c # cs) = (if starts_with (c # cs) p then Some (drop (length p) (c # cs)) else after_first p cs)"

text \<open>The character loop: a backslash takes the next character literally.\<close>

fun scan_string :: "string \<Rightarrow> string option" where
  "scan_string [] = None"
| "scan_string (c # cs) =
     (if c = CHR 0x5C then (case cs of [] \<Rightarrow> None | n # cs' \<Rightarrow> map_option ((#) n) (scan_string cs'))
      else if c = CHR 0x22 then Some []
      else map_option ((#) c) (scan_string cs))"

definition json_string_field :: "string \<Rightarrow> string \<Rightarrow> string option" where
  "json_string_field obj key =
     Option.bind (after_first ([CHR 0x22] @ key @ [CHR 0x22]) obj) (\<lambda>after_key.
     Option.bind (after_first '':'' after_key) (\<lambda>after_colon0.
       let after_colon = trim_start after_colon0 in
       if starts_with after_colon [CHR 0x22] then scan_string (tl after_colon) else None))"

definition parse_dc_json :: "string \<Rightarrow> auth_error + dc_identity_message" where
  "parse_dc_json s =
     (let trimmed = trim s in
      if \<not> starts_with trimmed ''{'' then Inl (IdentityBind ''expected JSON object'')
      else case json_string_field trimmed ''type'' of
        None \<Rightarrow> Inl (IdentityBind ''missing type'')
      | Some typ \<Rightarrow>
        if typ = ''dc_challenge'' then
          (case json_string_field trimmed ''nonce'' of
             None \<Rightarrow> Inl (IdentityBind ''missing nonce'')
           | Some nonce_hex \<Rightarrow> (case hex_to_bytes nonce_hex of
               Inl e \<Rightarrow> Inl (IdentityBind (''nonce hex: '' @ e))
             | Inr nonce \<Rightarrow> if nonce = [] then Inl (IdentityBind ''empty nonce'') else Inr (DcChallenge nonce)))
        else if typ = ''dc_response'' then
          (case json_string_field trimmed ''mac'' of
             None \<Rightarrow> Inl (IdentityBind ''missing mac'')
           | Some mac_hex \<Rightarrow> (case hex_to_bytes mac_hex of
               Inl e \<Rightarrow> Inl (IdentityBind (''mac hex: '' @ e))
             | Inr mac \<Rightarrow> if length mac \<noteq> DC_BIND_MAC_LEN
                 then Inl (IdentityBind (''mac must be '' @ show_nat DC_BIND_MAC_LEN @ '' bytes, got '' @ show_nat (length mac)))
                 else Inr (DcResponse mac)))
        else Inl (IdentityBind (''unknown type `'' @ typ @ ''`'')))"

definition parse_dc_message :: "bytes \<Rightarrow> auth_error + dc_identity_message" where
  "parse_dc_message data =
     (case str_from_utf8 data of None \<Rightarrow> Inl (IdentityBind ''invalid utf-8'') | Some s \<Rightarrow> parse_dc_json s)"

section \<open>The data-channel MAC\<close>

definition encode_dc_bind_message :: "bytes \<Rightarrow> bytes \<Rightarrow> bytes \<Rightarrow> bytes \<Rightarrow> bytes option" where
  "encode_dc_bind_message session_id nonce fp_host fp_viewer =
     Option.bind (append_lp DC_BIND_DOMAIN session_id) (\<lambda>out1.
     Option.bind (append_lp out1 nonce) (\<lambda>out2.
     Option.bind (append_lp out2 fp_host) (\<lambda>out3.
     append_lp out3 fp_viewer)))"

definition compute_dc_bind_mac ::
  "crypto \<Rightarrow> session_bind_key \<Rightarrow> bytes \<Rightarrow> bytes \<Rightarrow> bytes \<Rightarrow> bytes \<Rightarrow> bytes option" where
  "compute_dc_bind_mac K key session_id nonce fp_host fp_viewer =
     map_option (hmac_sha256 K (bind_key_bytes key)) (encode_dc_bind_message session_id nonce fp_host fp_viewer)"

definition verify_dc_bind_mac ::
  "crypto \<Rightarrow> session_bind_key \<Rightarrow> bytes \<Rightarrow> bytes \<Rightarrow> bytes \<Rightarrow> bytes \<Rightarrow> bytes \<Rightarrow> (auth_error + unit) option" where
  "verify_dc_bind_mac K key session_id nonce fp_host fp_viewer presented =
     (if length presented \<noteq> DC_BIND_MAC_LEN then
        Some (Inl (IdentityBind (''mac length '' @ show_nat (length presented) @ '', expected '' @ show_nat DC_BIND_MAC_LEN)))
      else map_option (\<lambda>expected. if expected = presented then Inr () else Inl (IdentityBind ''mac mismatch''))
             (compute_dc_bind_mac K key session_id nonce fp_host fp_viewer))"

definition respond_dc_challenge ::
  "crypto \<Rightarrow> session_bind_key \<Rightarrow> string \<Rightarrow> bytes \<Rightarrow> string \<Rightarrow> string \<Rightarrow> bytes option" where
  "respond_dc_challenge K key session_id nonce fp_host fp_viewer =
     compute_dc_bind_mac K key (utf8_bytes session_id) nonce (utf8_bytes fp_host) (utf8_bytes fp_viewer)"

definition complete_dc_bind ::
  "crypto \<Rightarrow> session_bind_key \<Rightarrow> bytes \<Rightarrow> bytes \<Rightarrow> string \<Rightarrow> string \<Rightarrow> identity_bind_state
     \<Rightarrow> ((auth_error + unit) \<times> identity_bind_state) option" where
  "complete_dc_bind K key nonce mac fp_host fp_viewer st =
     (case verify_dc_bind_mac K key (utf8_bytes (ib_session_id st)) nonce (utf8_bytes fp_host) (utf8_bytes fp_viewer) mac of
        None \<Rightarrow> None
      | Some (Inl e) \<Rightarrow> Some (Inl e, st)
      | Some (Inr _) \<Rightarrow> Some (Inr (), mark_identity_bound st))"

section \<open>Host verification hooks\<close>

definition authorize_mode_a ::
  "crypto \<Rightarrow> string \<Rightarrow> bytes \<Rightarrow> u64 \<Rightarrow> otp_record \<Rightarrow> (auth_error + session_bind_key) \<times> otp_record" where
  "authorize_mode_a K code pepper now_unix r =
     (case verify_and_consume K code pepper now_unix r of
        (Inl e, r') \<Rightarrow> (Inl e, r')
      | (Inr _, r') \<Rightarrow> (from_mode_a_otp K code, r'))"

definition authorize_mode_b ::
  "crypto \<Rightarrow> host_secret \<Rightarrow> challenge_nonce \<Rightarrow> string \<Rightarrow> bytes \<Rightarrow> bytes \<Rightarrow> bytes
     \<Rightarrow> (auth_error + session_bind_key) option" where
  "authorize_mode_b K secret challenge session_id fp_host fp_viewer mac =
     map_option (\<lambda>r. case r of Inl e \<Rightarrow> Inl e | Inr _ \<Rightarrow> Inr (from_mode_b_secret secret))
       (verify_response K challenge secret (utf8_bytes session_id) fp_host fp_viewer mac)"

definition mode_b_viewer_response ::
  "crypto \<Rightarrow> host_secret \<Rightarrow> string \<Rightarrow> bytes \<Rightarrow> bytes \<Rightarrow> bytes \<Rightarrow> bytes option" where
  "mode_b_viewer_response K secret session_id nonce fp_host fp_viewer =
     respond_to_challenge K secret (utf8_bytes session_id) nonce fp_host fp_viewer"

section \<open>Reading back the data-channel messages\<close>

lemma utf8_valid_ascii: "list_all (\<lambda>n. n < 128) ns \<Longrightarrow> utf8_valid ns"
  by (induction ns) auto

lemma str_from_utf8_ascii:
  assumes "list_all visible s"
  shows "str_from_utf8 (utf8_bytes s) = Some s"
proof -
  have "map unat (utf8_bytes s) = map of_char s" by (simp add: utf8_bytes_def unat_of_char)
  moreover have "list_all (\<lambda>n. n < 128) (map of_char s :: nat list)"
    using assms by (auto simp: list_all_iff visible_def)
  ultimately show ?thesis
    by (simp add: str_from_utf8_def utf8_valid_ascii) (simp add: utf8_bytes_def unat_of_char comp_def)
qed

lemma hex_char_plain_nat: "k < 16 \<Longrightarrow> ''0123456789abcdef'' ! k \<noteq> CHR 0x22 \<and> ''0123456789abcdef'' ! k \<noteq> CHR 0x5C"
  by (drule less_16) auto

lemma hex_char_plain: "unat d < 16 \<Longrightarrow> hex_char d \<noteq> CHR 0x22 \<and> hex_char d \<noteq> CHR 0x5C"
  using hex_char_plain_nat [of "unat d"] by (simp add: hex_char_def)

lemma scan_string_hex: "scan_string (bytes_to_hex bs @ CHR 0x22 # s) = Some (bytes_to_hex bs)"
  by (induction bs) (simp_all add: hex_char_plain nibbles_less)

lemma trim_start_quote: "trim_start (CHR 0x22 # s) = CHR 0x22 # s"
  by (simp add: trim_start_visible visible_def)

lemma starts_with_Cons: "starts_with (c # cs) (p # ps) \<longleftrightarrow> c = p \<and> starts_with cs ps"
  by (auto simp: starts_with_def)

lemma starts_with_Nil [simp]: "starts_with s []"
  by (simp add: starts_with_def)

lemmas scan_simps = json_string_field_def starts_with_Cons trim_start_quote scan_string_hex Let_def

lemma visible_hex_line: "list_all visible pre \<Longrightarrow> list_all visible post \<Longrightarrow> list_all visible (pre @ bytes_to_hex bs @ post)"
  using hex_visible by simp

lemma parse_encoded_challenge:
  assumes "nonce \<noteq> []"
  shows "parse_dc_message (encode_dc_challenge nonce) = Inr (DcChallenge nonce)"
proof -
  let ?s = \<open>''{"type":"dc_challenge","nonce":"'' @ bytes_to_hex nonce @ ''"}''\<close>
  have v: "list_all visible ?s" by (rule visible_hex_line) (simp_all add: visible_def)
  have "json_string_field ?s ''type'' = Some ''dc_challenge''" by (simp add: scan_simps)
  moreover have "json_string_field ?s ''nonce'' = Some (bytes_to_hex nonce)" by (simp add: scan_simps)
  moreover have "starts_with ?s ''{''" by (simp add: starts_with_Cons)
  ultimately have "parse_dc_json ?s = Inr (DcChallenge nonce)"
    unfolding parse_dc_json_def Let_def trim_all_visible [OF v] using assms by simp
  then show ?thesis unfolding parse_dc_message_def encode_dc_challenge_def str_from_utf8_ascii [OF v] by simp
qed

lemma parse_encoded_response:
  assumes "length mac = 32"
  shows "parse_dc_message (encode_dc_response mac) = Inr (DcResponse mac)"
proof -
  let ?s = \<open>''{"type":"dc_response","mac":"'' @ bytes_to_hex mac @ ''"}''\<close>
  have v: "list_all visible ?s" by (rule visible_hex_line) (simp_all add: visible_def)
  have "json_string_field ?s ''type'' = Some ''dc_response''" by (simp add: scan_simps)
  moreover have "json_string_field ?s ''mac'' = Some (bytes_to_hex mac)" by (simp add: scan_simps)
  moreover have "starts_with ?s ''{''" by (simp add: starts_with_Cons)
  ultimately have "parse_dc_json ?s = Inr (DcResponse mac)"
    unfolding parse_dc_json_def Let_def trim_all_visible [OF v] using assms by (simp add: DC_BIND_MAC_LEN_def)
  then show ?thesis unfolding parse_dc_message_def encode_dc_response_def str_from_utf8_ascii [OF v] by simp
qed

text \<open>
  The identity messages round-trip. What the host's challenge and the viewer's answer encode to
  parses back to the same nonce (any non-empty one) and the same tag (any of 32 bytes).
\<close>

theorem dc_message_round_trip:
  "(nonce \<noteq> [] \<longrightarrow> parse_dc_message (encode_dc_challenge nonce) = Inr (DcChallenge nonce)) \<and>
   (length mac = 32 \<longrightarrow> parse_dc_message (encode_dc_response mac) = Inr (DcResponse mac))"
  by (simp add: parse_encoded_challenge parse_encoded_response)

theorem dc_message_round_trip_witness:
  "parse_dc_message (encode_dc_challenge [0xAB, 1]) = Inr (DcChallenge [0xAB, 1])"
  using dc_message_round_trip [of "[0xAB, 1]" "[]"] by simp

section \<open>The bind and the gate\<close>

lemma encode_dc_bind_Some:
  "encode_dc_bind_message s n h v = Some m \<longleftrightarrow>
     list_all small [s, n, h, v] \<and> m = DC_BIND_DOMAIN @ concat (map lp [s, n, h, v])"
  by (auto simp: encode_dc_bind_message_def append_lp_Some small_def bind_eq_Some_conv)

lemma encode_dc_bind_inject:
  assumes "encode_dc_bind_message s n h v = Some m" and "encode_dc_bind_message s' n' h' v' = Some m"
  shows "s = s' \<and> n = n' \<and> h = h' \<and> v = v'"
  using assms lp_fields_inject [of "[s, n, h, v]" "[s', n', h', v']" DC_BIND_DOMAIN]
  by (auto simp: encode_dc_bind_Some)

text \<open>
  C24. The data-channel bind proves the host's own view. The host accepts the viewer's answer to its
  own challenge; and it accepts an answer computed under the same key for another session, nonce
  or pair of fingerprints (a relay in the middle) only if HMAC-SHA256 collides on those two
  different messages. Acceptance sets exactly the \<open>identity_bound\<close> flag, and a refusal changes
  nothing.
\<close>

theorem dc_bind_proves_same_view:
  assumes "respond_dc_challenge K key sid nonce fph fpv = Some mac" and "length mac = 32"
    and "complete_dc_bind K key nonce' mac fph' fpv' st = Some (res, st')"
  shows "(\<exists>m m'. encode_dc_bind_message (utf8_bytes sid) nonce (utf8_bytes fph) (utf8_bytes fpv) = Some m \<and>
      encode_dc_bind_message (utf8_bytes (ib_session_id st)) nonce' (utf8_bytes fph') (utf8_bytes fpv') = Some m' \<and>
      (m = m' \<longleftrightarrow> ib_session_id st = sid \<and> nonce' = nonce \<and> fph' = fph \<and> fpv' = fpv) \<and>
      (res = Inr () \<longleftrightarrow> hmac_sha256 K (bind_key_bytes key) m = hmac_sha256 K (bind_key_bytes key) m')) \<and>
    st' = (if res = Inr () then st\<lparr>identity_bound := True\<rparr> else st)"
proof (rule conjI)
  obtain m where m: "encode_dc_bind_message (utf8_bytes sid) nonce (utf8_bytes fph) (utf8_bytes fpv) = Some m"
      "mac = hmac_sha256 K (bind_key_bytes key) m"
    using assms(1) by (auto simp: respond_dc_challenge_def compute_dc_bind_mac_def)
  obtain m' where m': "encode_dc_bind_message (utf8_bytes (ib_session_id st)) nonce' (utf8_bytes fph') (utf8_bytes fpv') = Some m'"
      "res = Inr () \<longleftrightarrow> hmac_sha256 K (bind_key_bytes key) m' = mac"
    using assms(2,3)
    by (auto simp: complete_dc_bind_def verify_dc_bind_mac_def compute_dc_bind_mac_def DC_BIND_MAC_LEN_def
        split: option.splits sum.splits if_splits)
  have "m = m' \<longleftrightarrow> ib_session_id st = sid \<and> nonce' = nonce \<and> fph' = fph \<and> fpv' = fpv"
  proof
    assume eq: "m = m'"
    from encode_dc_bind_inject [OF m(1) m'(1) [folded eq]]
    show "ib_session_id st = sid \<and> nonce' = nonce \<and> fph' = fph \<and> fpv' = fpv" by simp
  next
    assume "ib_session_id st = sid \<and> nonce' = nonce \<and> fph' = fph \<and> fpv' = fpv"
    then show "m = m'" using m(1) m'(1) by simp
  qed
  moreover have "res = Inr () \<longleftrightarrow> hmac_sha256 K (bind_key_bytes key) m = hmac_sha256 K (bind_key_bytes key) m'"
    using m'(2) m(2) by auto
  ultimately show "\<exists>m m'. encode_dc_bind_message (utf8_bytes sid) nonce (utf8_bytes fph) (utf8_bytes fpv) = Some m \<and>
      encode_dc_bind_message (utf8_bytes (ib_session_id st)) nonce' (utf8_bytes fph') (utf8_bytes fpv') = Some m' \<and>
      (m = m' \<longleftrightarrow> ib_session_id st = sid \<and> nonce' = nonce \<and> fph' = fph \<and> fpv' = fpv) \<and>
      (res = Inr () \<longleftrightarrow> hmac_sha256 K (bind_key_bytes key) m = hmac_sha256 K (bind_key_bytes key) m')"
    using m(1) m'(1) by blast
  show "st' = (if res = Inr () then st\<lparr>identity_bound := True\<rparr> else st)"
    using assms(3) by (auto simp: complete_dc_bind_def mark_identity_bound_def split: option.splits sum.splits)
qed

theorem dc_bind_proves_same_view_witness:
  "\<exists>mac st'. respond_dc_challenge tag_crypto (SessionBindKey [1]) ''s'' [7] ''h'' ''v'' = Some mac \<and>
     complete_dc_bind tag_crypto (SessionBindKey [1]) [7] mac ''h'' ''v'' (new_identity ''s'') = Some (Inr (), st') \<and>
     identity_bound st'"
proof -
  obtain mac where mac: "respond_dc_challenge tag_crypto (SessionBindKey [1]) ''s'' [7] ''h'' ''v'' = Some mac"
      "length mac = 32"
    by (auto simp: respond_dc_challenge_def compute_dc_bind_mac_def encode_dc_bind_message_def append_lp_def)
  then have ok: "complete_dc_bind tag_crypto (SessionBindKey [1]) [7] mac ''h'' ''v'' (new_identity ''s'') =
      Some (Inr (), mark_identity_bound (new_identity ''s''))"
    by (simp add: complete_dc_bind_def verify_dc_bind_mac_def respond_dc_challenge_def DC_BIND_MAC_LEN_def new_identity_def)
  from dc_bind_proves_same_view [OF mac ok] mac ok show ?thesis by auto
qed

text \<open>
  Domain separation. The four messages the auth package authenticates (a one-time code's hash
  input, a Mode B transcript, a data-channel bind and a signed fingerprint) never coincide,
  whatever their fields: a tag or signature made for one is never valid for another.
\<close>

theorem domain_separation:
  "OTP_HASH_DOMAIN @ u \<noteq> MAC_DOMAIN @ v \<and> OTP_HASH_DOMAIN @ u \<noteq> DC_BIND_DOMAIN @ v \<and>
   OTP_HASH_DOMAIN @ u \<noteq> BIND_DOMAIN @ v \<and>
   encode_transcript t \<noteq> Some (DC_BIND_DOMAIN @ v) \<and> encode_transcript t \<noteq> Some (BIND_DOMAIN @ v) \<and>
   encode_dc_bind_message s n h w \<noteq> Some (BIND_DOMAIN @ v)"
  by (auto simp: encode_transcript_Some encode_dc_bind_Some OTP_HASH_DOMAIN_def MAC_DOMAIN_def DC_BIND_DOMAIN_def
      BIND_DOMAIN_def utf8_bytes_def)

text \<open>The host's calls on the gate: local authorization, a data-channel answer, a reset.\<close>

datatype gate_call = Authorize | Answer session_bind_key bytes bytes string string | Reset

fun gate_step :: "crypto \<Rightarrow> identity_bind_state \<Rightarrow> gate_call \<Rightarrow> identity_bind_state" where
  "gate_step K st Authorize = mark_authorized st"
| "gate_step K st (Answer key nonce mac fph fpv) =
     (case complete_dc_bind K key nonce mac fph fpv st of None \<Rightarrow> st | Some (_, st') \<Rightarrow> st')"
| "gate_step K st Reset = reset_flags st"

fun proves_bind :: "crypto \<Rightarrow> string \<Rightarrow> gate_call \<Rightarrow> bool" where
  "proves_bind K sid (Answer key nonce mac fph fpv) \<longleftrightarrow>
     verify_dc_bind_mac K key (utf8_bytes sid) nonce (utf8_bytes fph) (utf8_bytes fpv) mac = Some (Inr ())"
| "proves_bind K sid _ \<longleftrightarrow> False"

text \<open>The calls since the last reset.\<close>

definition since_reset :: "gate_call list \<Rightarrow> gate_call list" where
  "since_reset calls = takeWhile (\<lambda>c. c \<noteq> Reset) (rev calls)"

lemma gate_run:
  "ib_session_id (foldl (gate_step K) (new_identity sid) calls) = sid \<and>
   (session_authorized (foldl (gate_step K) (new_identity sid) calls) \<longleftrightarrow> Authorize \<in> set (since_reset calls)) \<and>
   (identity_bound (foldl (gate_step K) (new_identity sid) calls) \<longleftrightarrow> list_ex (proves_bind K sid) (since_reset calls))"
proof (induction calls rule: rev_induct)
  case Nil
  then show ?case by (simp add: new_identity_def since_reset_def)
next
  case (snoc c calls)
  then show ?case
    by (cases c)
      (auto simp: mark_authorized_def reset_flags_def since_reset_def complete_dc_bind_def mark_identity_bound_def
        split: option.split sum.split)
qed

text \<open>
  The input gate opens on both proofs only. After any sequence of authorizations, data-channel
  answers and resets on a fresh state, input is allowed exactly when, since the last reset, the
  session was authorized and some answer carried a valid tag for this very session.
\<close>

theorem input_allowed_iff_both_proofs:
  "input_allowed (foldl (gate_step K) (new_identity sid) calls) \<longleftrightarrow>
     Authorize \<in> set (since_reset calls) \<and> list_ex (proves_bind K sid) (since_reset calls)"
  using gate_run [of K sid calls] by (auto simp: input_allowed_def)

end
