(* ===== verification/Input_Inject.thy ===== *)
theory Input_Inject
  imports RL_Prelude
begin

text \<open>
  The input events of the viewer (\<open>packages/protocol/src/input.rs\<close>) and the host's rate-limited
  injector (\<open>packages/platform-windows/src/input/rate_limit.rs\<close>, with the recording stub of
  \<open>stub.rs\<close>). Coordinates and deltas are \<open>f32\<close>, carried as the word of their bits. The limiter wraps
  any backend: \<open>inject\<close> is the backend's one operation, and each call takes the clock readings the
  code makes, \<open>t\<close> for \<open>elapsed\<close> and \<open>t'\<close> for the restart of the window.
\<close>

type_synonym f32 = "32 word"

definition CTRL :: u32 where "CTRL = 1"
definition ALT :: u32 where "ALT = 2"
definition SHIFT :: u32 where "SHIFT = 4"
definition META :: u32 where "META = 8"

datatype mouse_button_kind = ButtonLeft | ButtonRight | ButtonMiddle | ButtonX1 | ButtonX2

record mouse_move =
  mm_x :: f32
  mm_y :: f32
  mm_display_id :: u32

record mouse_button =
  mb_button :: mouse_button_kind
  mb_pressed :: bool
  mb_x :: f32
  mb_y :: f32
  mb_display_id :: u32

record mouse_wheel =
  mw_delta_x :: f32
  mw_delta_y :: f32
  mw_precise :: bool
  mw_x :: f32
  mw_y :: f32
  mw_display_id :: u32

record key_event =
  ke_scancode :: u32
  ke_extended :: bool
  ke_pressed :: bool
  ke_modifiers :: u32

datatype input_payload =
    MouseMove mouse_move
  | MouseButton mouse_button
  | MouseWheel mouse_wheel
  | Key key_event

record input_event =
  client_ts_us :: u64
  in_seq :: u32
  in_payload :: input_payload

section \<open>Injectors\<close>

datatype inject_error = Unsupported string | InjectOs string | InvalidEvent string

type_synonym 'i backend = "input_event \<Rightarrow> 'i \<Rightarrow> (inject_error + unit) \<times> 'i"

record stub_injector =
  recorded :: "input_event list"
  screen_width :: u32
  screen_height :: u32

definition new_stub_injector :: "u32 \<Rightarrow> u32 \<Rightarrow> stub_injector" where
  "new_stub_injector w h = \<lparr>recorded = [], screen_width = max w 1, screen_height = max h 1\<rparr>"

definition stub_inject :: "stub_injector backend" where
  "stub_inject e i = (Inr (), i\<lparr>recorded := recorded i @ [e]\<rparr>)"

section \<open>The rate limiter\<close>

definition MAX_INPUT_EVENTS_PER_SEC :: u32 where "MAX_INPUT_EVENTS_PER_SEC = 200"

record input_metrics =
  accepted :: u64
  dropped_rate_limit :: u64

record 'i rate_limited =
  inner :: 'i
  max_per_sec :: u32
  window_start :: instant
  window_count :: u32
  metrics :: input_metrics

definition new_rate_limited :: "'i \<Rightarrow> u32 \<Rightarrow> instant \<Rightarrow> 'i rate_limited" where
  "new_rate_limited i limit now =
     \<lparr>inner = i, max_per_sec = max limit 1, window_start = now, window_count = 0,
      metrics = \<lparr>accepted = 0, dropped_rate_limit = 0\<rparr>\<rparr>"

definition roll_window_if_needed :: "instant \<Rightarrow> instant \<Rightarrow> 'i rate_limited \<Rightarrow> 'i rate_limited" where
  "roll_window_if_needed t t' r =
     (if as_secs (t - window_start r) \<ge> 1 then r\<lparr>window_start := t', window_count := 0\<rparr> else r)"

definition try_inject ::
  "'i backend \<Rightarrow> instant \<Rightarrow> instant \<Rightarrow> input_event \<Rightarrow> 'i rate_limited \<Rightarrow> (inject_error + bool) \<times> 'i rate_limited" where
  "try_inject inject t t' event r0 =
     (let r = roll_window_if_needed t t' r0 in
      if window_count r \<ge> max_per_sec r then
        (Inr False, r\<lparr>metrics := (metrics r)\<lparr>dropped_rate_limit := sat_add (dropped_rate_limit (metrics r)) 1\<rparr>\<rparr>)
      else
        (case inject event (inner r) of
           (Inl e, i) \<Rightarrow> (Inl e, r\<lparr>inner := i\<rparr>)
         | (Inr _, i) \<Rightarrow>
             (Inr True, r\<lparr>inner := i, window_count := sat_add (window_count r) 1,
                metrics := (metrics r)\<lparr>accepted := sat_add (accepted (metrics r)) 1\<rparr>\<rparr>)))"

section \<open>How many events pass\<close>

type_synonym timed_event = "instant \<times> instant \<times> input_event"

text \<open>A run of calls; the result counts the events that were injected.\<close>

fun inject_run :: "'i backend \<Rightarrow> timed_event list \<Rightarrow> 'i rate_limited \<Rightarrow> nat \<times> 'i rate_limited" where
  "inject_run inject [] r = (0, r)"
| "inject_run inject ((t, t', e) # calls) r =
     (let (res, r1) = try_inject inject t t' e r;
          (n, r2) = inject_run inject calls r1
      in ((if res = Inr True then Suc n else n), r2))"

definition left_in_window :: "'i rate_limited \<Rightarrow> nat" where
  "left_in_window r = unat (max_per_sec r) - unat (window_count r)"

lemma as_secs_ge_1: "Suc 0 \<le> as_secs d \<longleftrightarrow> secs 1 \<le> d"
  by (simp add: as_secs_def div_greater_zero_iff Suc_le_eq)

lemma try_inject_same_window:
  assumes "try_inject inject t t' e r = (res, r1)" "t < window_start r + secs 1"
  shows "window_start r1 = window_start r \<and> max_per_sec r1 = max_per_sec r \<and>
    (if res = Inr True then Suc (left_in_window r1) = left_in_window r else left_in_window r1 = left_in_window r)"
proof -
  have "roll_window_if_needed t t' r = r"
    using assms(2) by (auto simp: roll_window_if_needed_def as_secs_ge_1)
  with assms(1) show ?thesis
    by (auto simp: try_inject_def Let_def left_in_window_def sat_add_Suc word_less_nat_alt not_le
        split: if_splits prod.splits sum.splits)
qed

lemma inject_run_one_window:
  "list_all (\<lambda>(t, t', e). t < window_start r + secs 1) calls \<Longrightarrow> fst (inject_run inject calls r) \<le> left_in_window r"
proof (induction calls arbitrary: r)
  case (Cons c calls)
  obtain t t' e where c: "c = (t, t', e)" by (cases c)
  obtain res r1 where r1: "try_inject inject t t' e r = (res, r1)" by fastforce
  from Cons.prems have "t < window_start r + secs 1" by (simp add: c)
  from try_inject_same_window [OF r1 this] Cons.IH [of r1] Cons.prems show ?case
    by (auto simp: c r1 split: prod.splits if_splits)
qed simp

lemma roll_window_restarts:
  assumes "\<not> t < window_start r + secs 1"
  shows "roll_window_if_needed t t' r = r\<lparr>window_start := t', window_count := 0\<rparr>"
  using assms by (simp add: roll_window_if_needed_def as_secs_ge_1)

lemma try_inject_new_window:
  assumes "\<not> t < window_start r + secs 1"
  shows "try_inject inject t t' e r = try_inject inject t' t' e (r\<lparr>window_start := t', window_count := 0\<rparr>)"
proof -
  let ?r = "r\<lparr>window_start := t', window_count := 0\<rparr>"
  have "roll_window_if_needed t' t' ?r = ?r" by (simp add: roll_window_if_needed_def as_secs_def)
  with roll_window_restarts [OF assms, of t'] show ?thesis by (simp add: try_inject_def)
qed

text \<open>Any span of less than a second meets at most two windows.\<close>

lemma inject_run_span:
  "list_all (\<lambda>(t, t', e). a \<le> t \<and> t \<le> t' \<and> t < a + secs 1) calls \<Longrightarrow>
   fst (inject_run inject calls r) \<le> left_in_window r + unat (max_per_sec r)"
proof (induction calls arbitrary: r)
  case (Cons c calls)
  obtain t t' e where c: "c = (t, t', e)" by (cases c)
  show ?case
  proof (cases "t < window_start r + secs 1")
    case True
    obtain res r1 where r1: "try_inject inject t t' e r = (res, r1)" by fastforce
    from try_inject_same_window [OF r1 True] Cons.IH [of r1] Cons.prems show ?thesis
      by (auto simp: c r1 split: prod.splits if_splits)
  next
    case False
    let ?r = "r\<lparr>window_start := t', window_count := 0\<rparr>"
    have "fst (inject_run inject ((t', t', e) # calls) ?r) \<le> left_in_window ?r"
      using Cons.prems by (intro inject_run_one_window) (auto simp: c list_all_iff)
    moreover have "inject_run inject (c # calls) r = inject_run inject ((t', t', e) # calls) ?r"
      by (simp add: c try_inject_new_window [OF False])
    ultimately show ?thesis by (simp add: left_in_window_def)
  qed
qed simp

text \<open>
  The host's rate limit. Whatever the viewer sends and however it times it, within any span of
  less than one second at most twice the configured cap of events reaches the backend (a window boundary may fall inside
  the span), and within one window at most the cap does.
\<close>

theorem input_rate_bounded:
  assumes "list_all (\<lambda>(t, t', e). a \<le> t \<and> t \<le> t' \<and> t < a + secs 1) calls"
  shows "fst (inject_run inject calls r) \<le> 2 * unat (max_per_sec r) \<and>
    (a = window_start r \<longrightarrow> fst (inject_run inject calls r) \<le> unat (max_per_sec r))"
proof (intro conjI impI)
  show "fst (inject_run inject calls r) \<le> 2 * unat (max_per_sec r)"
    using inject_run_span [OF assms, of inject r] by (simp add: left_in_window_def)
  show "fst (inject_run inject calls r) \<le> unat (max_per_sec r)" if "a = window_start r"
  proof -
    have "list_all (\<lambda>(t, t', e). t < window_start r + secs 1) calls"
      using assms that by (auto simp: list_all_iff)
    from inject_run_one_window [OF this, of inject] show ?thesis by (simp add: left_in_window_def)
  qed
qed

definition demo_key :: input_event where
  "demo_key = \<lparr>client_ts_us = 0, in_seq = 1, in_payload = Key \<lparr>ke_scancode = 0x1E, ke_extended = False, ke_pressed = True, ke_modifiers = 0\<rparr>\<rparr>"

theorem input_rate_bounded_witness:
  "fst (inject_run stub_inject (replicate 5 (7, 7, demo_key)) (new_rate_limited (new_stub_injector 0 0) 2 7)) \<le> 2"
  using input_rate_bounded [of 7 "replicate 5 (7, 7, demo_key)" stub_inject "new_rate_limited (new_stub_injector 0 0) 2 7"]
  by (simp add: new_rate_limited_def list_all_iff max_def word_le_nat_alt)

text \<open>The stub records exactly the injected events, in order, and the metric counts them.\<close>

lemma stub_try_inject:
  "try_inject stub_inject t t' e r = (res, r1) \<Longrightarrow>
     recorded (inner r1) = recorded (inner r) @ (if res = Inr True then [e] else [])"
  by (auto simp: try_inject_def stub_inject_def roll_window_if_needed_def Let_def split: if_splits)

end
