(* ===== verification/Host_Session.thy ===== *)
theory Host_Session
  imports Identity Protocol Ipc_Message Input_Inject
begin

text \<open>
  The agent's session manager (\<open>apps/host/src/session.rs\<close>): the attached session, its
  authorization and identity binding, the pending challenge, the signals queued for the service,
  and the path of an input message from the data channel to the injector. The peer transport (a
  trait object), \<open>serde_json\<close>, the capture backends that open a media plane and the injector
  backend are parameters, collected in \<open>host_env\<close>. A transport call returns its result, the events it
  delivered to the callbacks, and the peer; callbacks for connection states are only recorded by
  the code and left out. The frame pump is not modelled: media is its two counters. A panic is
  \<open>None\<close>.
\<close>

section \<open>The environment\<close>

datatype connection_state = CsNew | CsConnecting | CsConnected | CsDisconnected | CsFailed | CsClosed

fun connection_state_str :: "connection_state \<Rightarrow> string" where
  "connection_state_str CsNew = ''new''"
| "connection_state_str CsConnecting = ''connecting''"
| "connection_state_str CsConnected = ''connected''"
| "connection_state_str CsDisconnected = ''disconnected''"
| "connection_state_str CsFailed = ''failed''"
| "connection_state_str CsClosed = ''closed''"

datatype sdp_type = SdpOffer | SdpAnswer | SdpPranswer | SdpRollback

record session_description =
  sdp_type_of :: sdp_type
  sdp_text :: string

record data_message =
  dm_label :: string
  dm_data :: bytes
  dm_unordered :: bool

record sdp_payload =
  sdp :: string
  fingerprint_sig :: "string option"

datatype session_error =
    SeTransport string
  | SeMedia string
  | SeSignaling string
  | SeInvalidState string
  | SeAuth auth_error
  | SeInputRejected string

fun show_session_error :: "session_error \<Rightarrow> string" where
  "show_session_error (SeTransport e) = ''transport: '' @ e"
| "show_session_error (SeMedia e) = ''media: '' @ e"
| "show_session_error (SeSignaling e) = ''signaling: '' @ e"
| "show_session_error (SeInvalidState e) = ''invalid state: '' @ e"
| "show_session_error (SeAuth e) = ''auth: '' @ show_auth_error e"
| "show_session_error (SeInputRejected e) = ''input rejected: '' @ e"

record peer_events =
  ev_ice :: "ice_candidate list"
  ev_data :: "data_message list"

type_synonym ('p, 'r) peer_op = "'p \<Rightarrow> (string + 'r) \<times> peer_events \<times> 'p"

record ('p, 'i) host_env =
  crypto_of :: crypto
  ed25519_of :: ed25519
  peer_state :: "'p \<Rightarrow> connection_state"
  peer_poll :: "('p, unit) peer_op"
  peer_send_data :: "data_message \<Rightarrow> ('p, unit) peer_op"
  peer_create_offer :: "('p, session_description) peer_op"
  peer_set_local :: "session_description \<Rightarrow> ('p, unit) peer_op"
  peer_set_remote :: "session_description \<Rightarrow> ('p, unit) peer_op"
  peer_add_ice :: "ice_candidate \<Rightarrow> ('p, unit) peer_op"
  peer_local_fingerprint :: "'p \<Rightarrow> string + string"
  peer_remote_fingerprint :: "'p \<Rightarrow> string + string option"
  json_sdp_from_str :: "string \<Rightarrow> string + sdp_payload"
  json_sdp_to_string :: "sdp_payload \<Rightarrow> string + string"
  json_ice_from_str :: "string \<Rightarrow> ice_candidate option"
  json_ice_wrapped :: "string \<Rightarrow> ice_candidate option"
  json_ice_to_string :: "ice_candidate \<Rightarrow> string + string"
  json_decode_input :: "string \<Rightarrow> string + input_event"
  inject_backend :: "'i backend"
  open_media :: "string + unit"

section \<open>The manager\<close>

definition ACCEPTED_INPUT_CAP :: nat where "ACCEPTED_INPUT_CAP = 64"
definition INPUT_CHANNEL_LABEL :: string where "INPUT_CHANNEL_LABEL = ''input''"
definition IDENTITY_CHANNEL_LABEL :: string where "IDENTITY_CHANNEL_LABEL = ''identity''"
definition SESSION_OFFER :: string where "SESSION_OFFER = ''session_offer''"
definition SESSION_ANSWER :: string where "SESSION_ANSWER = ''session_answer''"
definition ICE_CANDIDATE :: string where "ICE_CANDIDATE = ''ice_candidate''"

record media_plane =
  video_frames_sent :: u64
  audio_packets_sent :: u64

record ('p, 'i) session_manager =
  hm_session_id :: "string option"
  hm_peer :: 'p
  hm_ice :: "ice_candidate list"
  hm_data :: "data_message list"
  hm_media :: "media_plane option"
  hm_outbound :: "signal_forward list"
  hm_identity :: identity_bind_state
  hm_signing_key :: "bytes option"
  hm_bind_key :: "session_bind_key option"
  hm_challenge :: "bytes option"
  hm_accepted_input :: "input_event list"
  hm_rejected :: u64
  hm_decode_errors :: u64
  hm_rate_limited :: u64
  hm_policy_input :: bool
  hm_injector :: "'i rate_limited"

definition manager_with_peer :: "'p \<Rightarrow> 'i rate_limited \<Rightarrow> ('p, 'i) session_manager" where
  "manager_with_peer p i =
     \<lparr>hm_session_id = None, hm_peer = p, hm_ice = [], hm_data = [], hm_media = None, hm_outbound = [],
      hm_identity = new_identity [], hm_signing_key = None, hm_bind_key = None, hm_challenge = None,
      hm_accepted_input = [], hm_rejected = 0, hm_decode_errors = 0, hm_rate_limited = 0,
      hm_policy_input = False, hm_injector = i\<rparr>"

text \<open>A call on the transport: the result, with the delivered events queued.\<close>

definition on_peer :: "('p, 'r) peer_op \<Rightarrow> ('p, 'i) session_manager \<Rightarrow> (session_error + 'r) \<times> ('p, 'i) session_manager" where
  "on_peer f m =
     (case f (hm_peer m) of (r, ev, p) \<Rightarrow>
        (case r of Inl e \<Rightarrow> Inl (SeTransport e) | Inr x \<Rightarrow> Inr x,
         m\<lparr>hm_peer := p, hm_ice := hm_ice m @ ev_ice ev, hm_data := hm_data m @ ev_data ev\<rparr>))"

definition set_input_policy_enabled :: "bool \<Rightarrow> ('p, 'i) session_manager \<Rightarrow> ('p, 'i) session_manager" where
  "set_input_policy_enabled b m = m\<lparr>hm_policy_input := b\<rparr>"

definition injection_allowed :: "('p, 'i) session_manager \<Rightarrow> bool" where
  "injection_allowed m \<longleftrightarrow> hm_policy_input m \<and> input_allowed (hm_identity m)"

definition set_device_signing_key :: "bytes \<Rightarrow> ('p, 'i) session_manager \<Rightarrow> ('p, 'i) session_manager" where
  "set_device_signing_key k m = m\<lparr>hm_signing_key := Some k\<rparr>"

definition manager_input_allowed :: "('p, 'i) session_manager \<Rightarrow> bool" where
  "manager_input_allowed m = input_allowed (hm_identity m)"

definition push_accepted_input :: "input_event \<Rightarrow> ('p, 'i) session_manager \<Rightarrow> ('p, 'i) session_manager" where
  "push_accepted_input e m =
     (let kept = (if length (hm_accepted_input m) \<ge> ACCEPTED_INPUT_CAP
        then drop (length (hm_accepted_input m) + 1 - ACCEPTED_INPUT_CAP) (hm_accepted_input m)
        else hm_accepted_input m)
      in m\<lparr>hm_accepted_input := kept @ [e]\<rparr>)"

text \<open>\<open>fresh\<close> is the injector that \<open>open_injector\<close> opens again.\<close>

definition manager_attach :: "string \<Rightarrow> 'i rate_limited \<Rightarrow> ('p, 'i) session_manager \<Rightarrow> ('p, 'i) session_manager" where
  "manager_attach sid fresh m =
     m\<lparr>hm_session_id := Some sid, hm_media := None, hm_outbound := [], hm_identity := new_identity sid,
       hm_bind_key := None, hm_challenge := None, hm_accepted_input := [], hm_rejected := 0,
       hm_decode_errors := 0, hm_rate_limited := 0, hm_policy_input := False, hm_injector := fresh\<rparr>"

definition manager_stop_media :: "('p, 'i) session_manager \<Rightarrow> ('p, 'i) session_manager" where
  "manager_stop_media m = m\<lparr>hm_media := None\<rparr>"

definition manager_detach :: "('p, 'i) session_manager \<Rightarrow> ('p, 'i) session_manager" where
  "manager_detach m = (manager_stop_media m)\<lparr>hm_session_id := None, hm_outbound := [], hm_identity := new_identity [],
       hm_bind_key := None, hm_challenge := None, hm_accepted_input := [], hm_rejected := 0,
       hm_decode_errors := 0, hm_rate_limited := 0, hm_policy_input := False\<rparr>"

section \<open>Authorization and identity binding\<close>

definition install_key :: "session_bind_key \<Rightarrow> ('p, 'i) session_manager \<Rightarrow> ('p, 'i) session_manager" where
  "install_key key m = m\<lparr>hm_bind_key := Some key, hm_identity := mark_authorized (hm_identity m)\<rparr>"

definition manager_authorize_mode_a ::
  "('p, 'i) host_env \<Rightarrow> string \<Rightarrow> bytes \<Rightarrow> u64 \<Rightarrow> otp_record \<Rightarrow> ('p, 'i) session_manager
     \<Rightarrow> (session_error + unit) \<times> otp_record \<times> ('p, 'i) session_manager" where
  "manager_authorize_mode_a E code pepper now_unix r m =
     (case authorize_mode_a (crypto_of E) code pepper now_unix r of
        (Inl e, r') \<Rightarrow> (Inl (SeAuth e), r', m)
      | (Inr key, r') \<Rightarrow> (Inr (), r', install_key key m))"

definition manager_authorize_mode_b ::
  "('p, 'i) host_env \<Rightarrow> host_secret \<Rightarrow> challenge_nonce \<Rightarrow> bytes \<Rightarrow> bytes \<Rightarrow> bytes \<Rightarrow> ('p, 'i) session_manager
     \<Rightarrow> ((session_error + unit) \<times> ('p, 'i) session_manager) option" where
  "manager_authorize_mode_b E secret challenge fp_host fp_viewer mac m =
     (case hm_session_id m of
        None \<Rightarrow> Some (Inl (SeInvalidState ''no session attached''), m)
      | Some sid \<Rightarrow>
          (case authorize_mode_b (crypto_of E) secret challenge sid fp_host fp_viewer mac of
             None \<Rightarrow> None
           | Some (Inl e) \<Rightarrow> Some (Inl (SeAuth e), m)
           | Some (Inr key) \<Rightarrow> Some (Inr (), install_key key m)))"

definition authorize_unattended_secret ::
  "host_secret \<Rightarrow> ('p, 'i) session_manager \<Rightarrow> (session_error + unit) \<times> ('p, 'i) session_manager" where
  "authorize_unattended_secret secret m =
     (if hm_session_id m = None then (Inl (SeInvalidState ''no session attached''), m)
      else (Inr (), install_key (from_mode_b_secret secret) m))"

text \<open>\<open>nonce\<close> is the fresh random challenge.\<close>

definition start_identity_challenge ::
  "('p, 'i) host_env \<Rightarrow> bytes \<Rightarrow> ('p, 'i) session_manager \<Rightarrow> (session_error + unit) \<times> ('p, 'i) session_manager" where
  "start_identity_challenge E nonce m =
     (if hm_session_id m = None then (Inl (SeInvalidState ''no session attached''), m)
      else if \<not> session_authorized (hm_identity m) then (Inl (SeAuth SessionNotAuthorized), m)
      else if hm_bind_key m = None then
        (Inl (SeInvalidState ''no session bind key (authorize Mode A/B first)''), m)
      else if peer_state E (hm_peer m) \<noteq> CsConnected then
        (Inl (SeInvalidState ''peer not connected for identity challenge''), m)
      else
        (case on_peer (peer_send_data E \<lparr>dm_label = IDENTITY_CHANNEL_LABEL, dm_data = encode_dc_challenge nonce,
             dm_unordered = False\<rparr>) m of
           (Inl e, m1) \<Rightarrow> (Inl e, m1)
         | (Inr _, m1) \<Rightarrow> (Inr (), m1\<lparr>hm_challenge := Some nonce\<rparr>)))"

text \<open>The two fingerprints the host binds to, as its transport reports them.\<close>

definition local_fp :: "('p, 'i) host_env \<Rightarrow> ('p, 'i) session_manager \<Rightarrow> session_error + string" where
  "local_fp E m = (case peer_local_fingerprint E (hm_peer m) of Inl e \<Rightarrow> Inl (SeTransport e) | Inr fp \<Rightarrow> Inr fp)"

definition remote_fp :: "('p, 'i) host_env \<Rightarrow> ('p, 'i) session_manager \<Rightarrow> session_error + string" where
  "remote_fp E m = (case peer_remote_fingerprint E (hm_peer m) of
       Inl e \<Rightarrow> Inl (SeTransport e)
     | Inr None \<Rightarrow> Inl (SeInvalidState ''remote fingerprint unknown'')
     | Inr (Some fp) \<Rightarrow> Inr fp)"

definition handle_identity_data ::
  "('p, 'i) host_env \<Rightarrow> bytes \<Rightarrow> ('p, 'i) session_manager \<Rightarrow> ((session_error + unit) \<times> ('p, 'i) session_manager) option" where
  "handle_identity_data E data m =
     (case parse_dc_message data of
        Inl e \<Rightarrow> Some (Inl (SeAuth e), m)
      | Inr (DcChallenge _) \<Rightarrow> Some (Inl (SeAuth (IdentityBind ''host does not expect dc_challenge'')), m)
      | Inr (DcResponse mac) \<Rightarrow>
          (case hm_challenge m of
             None \<Rightarrow> Some (Inl (SeAuth (IdentityBind ''dc response without pending challenge'')), m)
           | Some nonce \<Rightarrow>
               let m1 = m\<lparr>hm_challenge := None\<rparr> in
               (case hm_bind_key m1 of
                  None \<Rightarrow> Some (Inl (SeInvalidState ''missing bind key for dc verify''), m1)
                | Some key \<Rightarrow>
                    (case local_fp E m1 of
                       Inl e \<Rightarrow> Some (Inl e, m1)
                     | Inr fp_host \<Rightarrow>
                         (case remote_fp E m1 of
                            Inl e \<Rightarrow> Some (Inl e, m1)
                          | Inr fp_viewer \<Rightarrow>
                              (case complete_dc_bind (crypto_of E) key nonce mac fp_host fp_viewer (hm_identity m1) of
                                 None \<Rightarrow> None
                               | Some (Inl e, st) \<Rightarrow> Some (Inl (SeAuth e), m1\<lparr>hm_identity := st\<rparr>)
                               | Some (Inr _, st) \<Rightarrow> Some (Inr (), m1\<lparr>hm_identity := st\<rparr>)))))))"

section \<open>Input\<close>

datatype input_process_outcome = Injected | RejectedGate | DecodeError | RateLimited | InjectFailed

definition process_input_message ::
  "('p, 'i) host_env \<Rightarrow> instant \<Rightarrow> instant \<Rightarrow> data_message \<Rightarrow> ('p, 'i) session_manager
     \<Rightarrow> input_process_outcome \<times> ('p, 'i) session_manager" where
  "process_input_message E t t' msg m =
     (if \<not> injection_allowed m then (RejectedGate, m\<lparr>hm_rejected := sat_add (hm_rejected m) 1\<rparr>)
      else (case str_from_utf8 (dm_data msg) of
          None \<Rightarrow> (DecodeError, m\<lparr>hm_decode_errors := sat_add (hm_decode_errors m) 1\<rparr>)
        | Some text \<Rightarrow>
            (case json_decode_input E text of
               Inl _ \<Rightarrow> (DecodeError, m\<lparr>hm_decode_errors := sat_add (hm_decode_errors m) 1\<rparr>)
             | Inr event \<Rightarrow>
                 (case try_inject (inject_backend E) t t' event (hm_injector m) of
                    (Inr True, i2) \<Rightarrow> (Injected, push_accepted_input event (m\<lparr>hm_injector := i2\<rparr>))
                  | (Inr False, i2) \<Rightarrow>
                      (RateLimited, m\<lparr>hm_injector := i2, hm_rate_limited := sat_add (hm_rate_limited m) 1\<rparr>)
                  | (Inl _, i2) \<Rightarrow>
                      (InjectFailed, m\<lparr>hm_injector := i2, hm_rejected := sat_add (hm_rejected m) 1\<rparr>)))))"

definition try_accept_input ::
  "('p, 'i) host_env \<Rightarrow> instant \<Rightarrow> instant \<Rightarrow> data_message \<Rightarrow> ('p, 'i) session_manager \<Rightarrow> bool \<times> ('p, 'i) session_manager" where
  "try_accept_input E t t' msg m =
     (case process_input_message E t t' msg m of (out, m1) \<Rightarrow> (out = Injected, m1))"

definition ensure_input_allowed :: "('p, 'i) session_manager \<Rightarrow> session_error + unit" where
  "ensure_input_allowed m =
     (if input_allowed (hm_identity m) then Inr () else Inl (SeAuth (input_gate_error (hm_identity m))))"

definition ensure_injection_allowed :: "('p, 'i) session_manager \<Rightarrow> session_error + unit" where
  "ensure_injection_allowed m =
     (if injection_allowed m then Inr ()
      else if \<not> input_allowed (hm_identity m) then Inl (SeAuth (input_gate_error (hm_identity m)))
      else Inl (SeInputRejected ''input disabled by policy or kill-switch''))"

record inbound_stats =
  identity_messages :: u32
  input_accepted :: u32
  input_rejected :: u32
  input_decode_errors :: u32
  input_rate_limited :: u32

definition no_inbound :: inbound_stats where
  "no_inbound = \<lparr>identity_messages = 0, input_accepted = 0, input_rejected = 0, input_decode_errors = 0,
     input_rate_limited = 0\<rparr>"

fun count_outcome :: "input_process_outcome \<Rightarrow> inbound_stats \<Rightarrow> inbound_stats" where
  "count_outcome Injected s = s\<lparr>input_accepted := sat_add (input_accepted s) 1\<rparr>"
| "count_outcome RateLimited s = s\<lparr>input_rate_limited := sat_add (input_rate_limited s) 1\<rparr>"
| "count_outcome RejectedGate s = s\<lparr>input_rejected := sat_add (input_rejected s) 1\<rparr>"
| "count_outcome InjectFailed s = s\<lparr>input_rejected := sat_add (input_rejected s) 1\<rparr>"
| "count_outcome DecodeError s = s\<lparr>input_decode_errors := sat_add (input_decode_errors s) 1\<rparr>"

text \<open>
  The loop of \<open>poll_inbound\<close>; an identity error leaves it, with the rest of the batch lost. \<open>clock k\<close>
  gives the two clock readings of the limiter at message \<open>k\<close>.
\<close>

fun process_inbound ::
  "('p, 'i) host_env \<Rightarrow> (nat \<Rightarrow> instant \<times> instant) \<Rightarrow> nat \<Rightarrow> data_message list \<Rightarrow> inbound_stats
     \<Rightarrow> ('p, 'i) session_manager \<Rightarrow> ((session_error + inbound_stats) \<times> ('p, 'i) session_manager) option" where
  "process_inbound E clock k [] stats m = Some (Inr stats, m)"
| "process_inbound E clock k (msg # msgs) stats m =
     (if dm_label msg = IDENTITY_CHANNEL_LABEL then
        (case handle_identity_data E (dm_data msg) m of
           None \<Rightarrow> None
         | Some (Inl e, m1) \<Rightarrow> Some (Inl e, m1)
         | Some (Inr _, m1) \<Rightarrow>
             process_inbound E clock (Suc k) msgs (stats\<lparr>identity_messages := sat_add (identity_messages stats) 1\<rparr>) m1)
      else if dm_label msg = INPUT_CHANNEL_LABEL then
        (case process_input_message E (fst (clock k)) (snd (clock k)) msg m of
           (out, m1) \<Rightarrow> process_inbound E clock (Suc k) msgs (count_outcome out stats) m1)
      else process_inbound E clock (Suc k) msgs stats m)"

definition poll_inbound ::
  "('p, 'i) host_env \<Rightarrow> (nat \<Rightarrow> instant \<times> instant) \<Rightarrow> ('p, 'i) session_manager
     \<Rightarrow> ((session_error + inbound_stats) \<times> ('p, 'i) session_manager) option" where
  "poll_inbound E clock m =
     (case on_peer (peer_poll E) m of
        (Inl e, m1) \<Rightarrow> Some (Inl e, m1)
      | (Inr _, m1) \<Rightarrow> process_inbound E clock 0 (hm_data m1) no_inbound (m1\<lparr>hm_data := []\<rparr>))"

section \<open>Media and signaling\<close>

definition queue_pending_ice :: "('p, 'i) host_env \<Rightarrow> string \<Rightarrow> ('p, 'i) session_manager \<Rightarrow> ('p, 'i) session_manager" where
  "queue_pending_ice E sid m =
     m\<lparr>hm_ice := [], hm_outbound := hm_outbound m @
       map (\<lambda>payload. \<lparr>sf_session_id = sid, sf_kind = ICE_CANDIDATE, sf_payload = payload, sf_from = HopAgent\<rparr>)
         (List.map_filter (\<lambda>c. case json_ice_to_string E c of Inl _ \<Rightarrow> None | Inr p \<Rightarrow> Some p) (hm_ice m))\<rparr>"

definition create_local_offer_and_queue ::
  "('p, 'i) host_env \<Rightarrow> string \<Rightarrow> ('p, 'i) session_manager
     \<Rightarrow> ((session_error + unit) \<times> ('p, 'i) session_manager) option" where
  "create_local_offer_and_queue E sid m =
     (case on_peer (peer_create_offer E) m of
        (Inl e, m1) \<Rightarrow> Some (Inl e, m1)
      | (Inr offer, m1) \<Rightarrow>
        (case on_peer (peer_set_local E offer) m1 of
           (Inl e, m2) \<Rightarrow> Some (Inl e, m2)
         | (Inr _, m2) \<Rightarrow>
           (let queue = (\<lambda>sig_of. case json_sdp_to_string E \<lparr>sdp = sdp_text offer, fingerprint_sig = sig_of\<rparr> of
                Inl e \<Rightarrow> Some (Inl (SeSignaling e), m2)
              | Inr payload \<Rightarrow> Some (Inr (), queue_pending_ice E sid (m2\<lparr>hm_outbound := hm_outbound m2 @
                   [\<lparr>sf_session_id = sid, sf_kind = SESSION_OFFER, sf_payload = payload, sf_from = HopAgent\<rparr>]\<rparr>)))
            in case hm_signing_key m2 of
                 None \<Rightarrow> queue None
               | Some sk \<Rightarrow>
                   (case local_fp E m2 of
                      Inl e \<Rightarrow> Some (Inl e, m2)
                    | Inr fp \<Rightarrow>
                        (case sign_session_fingerprint (ed25519_of E) sk sid fp of
                           None \<Rightarrow> None
                         | Some sig_hex \<Rightarrow> queue (Some sig_hex))))))"

definition manager_start_media ::
  "('p, 'i) host_env \<Rightarrow> ('p, 'i) session_manager \<Rightarrow> ((session_error + unit) \<times> ('p, 'i) session_manager) option" where
  "manager_start_media E m =
     (case hm_session_id m of
        None \<Rightarrow> Some (Inl (SeInvalidState ''no session attached''), m)
      | Some sid \<Rightarrow>
          if hm_media m \<noteq> None then Some (Inr (), m)
          else (case open_media E of
              Inl e \<Rightarrow> Some (Inl (SeMedia e), m)
            | Inr _ \<Rightarrow>
                let m1 = m\<lparr>hm_media := Some \<lparr>video_frames_sent = 0, audio_packets_sent = 0\<rparr>\<rparr> in
                if peer_state E (hm_peer m1) = CsNew then create_local_offer_and_queue E sid m1
                else Some (Inr (), queue_pending_ice E sid m1)))"

definition parse_sdp_payload :: "('p, 'i) host_env \<Rightarrow> string \<Rightarrow> session_error + sdp_payload" where
  "parse_sdp_payload E payload =
     (let trimmed = trim payload in
      if starts_with trimmed ''{'' then
        (case json_sdp_from_str E trimmed of Inl e \<Rightarrow> Inl (SeSignaling (''sdp json: '' @ e)) | Inr p \<Rightarrow> Inr p)
      else if trimmed \<noteq> [] then Inr \<lparr>sdp = payload, fingerprint_sig = None\<rparr>
      else Inl (SeSignaling ''empty sdp payload''))"

text \<open>Slicing a \<open>str\<close> at a byte that does not start a character panics.\<close>

definition is_char_boundary :: "string \<Rightarrow> nat \<Rightarrow> bool" where
  "is_char_boundary s n \<longleftrightarrow> n = length s \<or> n < length s \<and> \<not> cont (of_char (s ! n))"

definition parse_ice_payload :: "('p, 'i) host_env \<Rightarrow> string \<Rightarrow> (session_error + ice_candidate) option" where
  "parse_ice_payload E payload =
     (let trimmed = trim payload in
      case json_ice_from_str E trimmed of
        Some c \<Rightarrow> Some (Inr c)
      | None \<Rightarrow>
          (case json_ice_wrapped E trimmed of
             Some c \<Rightarrow> Some (Inr c)
           | None \<Rightarrow>
               if starts_with trimmed ''candidate:'' then
                 Some (Inr \<lparr>candidate = trimmed, sdp_mid = None, sdp_m_line_index = None, username_fragment = None\<rparr>)
               else let n = min (length trimmed) 64 in
                 if is_char_boundary trimmed n then
                   Some (Inl (SeSignaling (''unrecognized ice payload: '' @ take n trimmed)))
                 else None))"

definition apply_signal ::
  "('p, 'i) host_env \<Rightarrow> string \<Rightarrow> string \<Rightarrow> ('p, 'i) session_manager
     \<Rightarrow> ((session_error + unit) \<times> ('p, 'i) session_manager) option" where
  "apply_signal E kind payload m =
     (if kind = SESSION_OFFER \<or> kind = SESSION_ANSWER then
        (case parse_sdp_payload E payload of
           Inl e \<Rightarrow> Some (Inl e, m)
         | Inr p \<Rightarrow>
             (case on_peer (peer_set_remote E
                  \<lparr>sdp_type_of = (if kind = SESSION_OFFER then SdpOffer else SdpAnswer), sdp_text = sdp p\<rparr>) m of
                (Inl e, m1) \<Rightarrow> Some (Inl e, m1)
              | (Inr _, m1) \<Rightarrow>
                  Some (Inr (), case hm_session_id m1 of None \<Rightarrow> m1 | Some sid \<Rightarrow> queue_pending_ice E sid m1)))
      else if kind = ICE_CANDIDATE then
        (case parse_ice_payload E payload of
           None \<Rightarrow> None
         | Some (Inl e) \<Rightarrow> Some (Inl e, m)
         | Some (Inr c) \<Rightarrow>
             (case on_peer (peer_add_ice E c) m of (Inl e, m1) \<Rightarrow> Some (Inl e, m1) | (Inr _, m1) \<Rightarrow> Some (Inr (), m1)))
      else Some (Inl (SeSignaling (''unsupported signal kind `'' @ kind @ ''` for peer transport'')), m))"

definition take_outbound_signals :: "('p, 'i) session_manager \<Rightarrow> signal_forward list \<times> ('p, 'i) session_manager" where
  "take_outbound_signals m = (hm_outbound m, m\<lparr>hm_outbound := []\<rparr>)"

definition media_counters :: "('p, 'i) session_manager \<Rightarrow> u64 \<times> u64" where
  "media_counters m = (case hm_media m of Some p \<Rightarrow> (video_frames_sent p, audio_packets_sent p) | None \<Rightarrow> (0, 0))"

section \<open>Runs of the manager\<close>

text \<open>What a step of the manager did, as far as the input gate is concerned.\<close>

datatype mgr_event =
    Attached string
  | Detached
  | Authorized session_bind_key
  | Challenged bytes
  | Bound session_bind_key bytes bytes string string
  | PolicySet bool
  | Quiet

inductive mgr_step :: "('p, 'i) host_env \<Rightarrow> ('p, 'i) session_manager \<Rightarrow> mgr_event \<Rightarrow> ('p, 'i) session_manager \<Rightarrow> bool"
  for E :: "('p, 'i) host_env" where
  attach: "mgr_step E m (Attached sid) (manager_attach sid fresh m)"
| detach: "mgr_step E m Detached (manager_detach m)"
| policy: "mgr_step E m (PolicySet b) (set_input_policy_enabled b m)"
| mode_a: "manager_authorize_mode_a E code pepper now_unix r m = (Inr (), r', m') \<Longrightarrow> hm_bind_key m' = Some key
    \<Longrightarrow> mgr_step E m (Authorized key) m'"
| mode_a_err: "manager_authorize_mode_a E code pepper now_unix r m = (Inl e, r', m') \<Longrightarrow> mgr_step E m Quiet m'"
| mode_b: "manager_authorize_mode_b E secret challenge fph fpv mac m = Some (Inr (), m') \<Longrightarrow> hm_bind_key m' = Some key
    \<Longrightarrow> mgr_step E m (Authorized key) m'"
| mode_b_err: "manager_authorize_mode_b E secret challenge fph fpv mac m = Some (Inl e, m') \<Longrightarrow> mgr_step E m Quiet m'"
| secret: "authorize_unattended_secret secret m = (Inr (), m') \<Longrightarrow> hm_bind_key m' = Some key
    \<Longrightarrow> mgr_step E m (Authorized key) m'"
| secret_err: "authorize_unattended_secret secret m = (Inl e, m') \<Longrightarrow> mgr_step E m Quiet m'"
| challenge: "start_identity_challenge E nonce m = (Inr (), m') \<Longrightarrow> mgr_step E m (Challenged nonce) m'"
| challenge_err: "start_identity_challenge E nonce m = (Inl e, m') \<Longrightarrow> mgr_step E m Quiet m'"
| identity: "handle_identity_data E data m = Some (Inr (), m') \<Longrightarrow> parse_dc_message data = Inr (DcResponse mac)
    \<Longrightarrow> hm_bind_key m = Some key \<Longrightarrow> hm_challenge m = Some nonce \<Longrightarrow> local_fp E m = Inr fph \<Longrightarrow> remote_fp E m = Inr fpv
    \<Longrightarrow> mgr_step E m (Bound key nonce mac fph fpv) m'"
| identity_err: "handle_identity_data E data m = Some (Inl e, m') \<Longrightarrow> mgr_step E m Quiet m'"
| inp: "process_input_message E t t' msg m = (out, m') \<Longrightarrow> mgr_step E m Quiet m'"
| poll: "on_peer (peer_poll E) m = (r, m1) \<Longrightarrow> mgr_step E m Quiet (m1\<lparr>hm_data := d\<rparr>)"
| start: "manager_start_media E m = Some (r, m') \<Longrightarrow> mgr_step E m Quiet m'"
| stop: "mgr_step E m Quiet (manager_stop_media m)"
| signal: "apply_signal E kind payload m = Some (r, m') \<Longrightarrow> mgr_step E m Quiet m'"
| outbound: "mgr_step E m Quiet (snd (take_outbound_signals m))"
| sign_key: "mgr_step E m Quiet (set_device_signing_key k m)"

inductive mgr_run :: "('p, 'i) host_env \<Rightarrow> ('p, 'i) session_manager \<Rightarrow> mgr_event list \<Rightarrow> ('p, 'i) session_manager \<Rightarrow> bool"
  for E :: "('p, 'i) host_env" and m0 :: "('p, 'i) session_manager" where
  none: "mgr_run E m0 [] m0"
| more: "mgr_run E m0 tr m \<Longrightarrow> mgr_step E m ev m' \<Longrightarrow> mgr_run E m0 (tr @ [ev]) m'"

inductive_cases mgr_stepE: "mgr_step E m ev m'"

section \<open>What a run has to contain before input reaches the injector\<close>

fun is_reset :: "mgr_event \<Rightarrow> bool" where
  "is_reset (Attached _) = True"
| "is_reset Detached = True"
| "is_reset _ = False"

fun is_policy :: "mgr_event \<Rightarrow> bool" where
  "is_policy (PolicySet _) = True"
| "is_policy _ = False"

text \<open>The events since the last attach or detach (newest first), and the session they belong to.\<close>

definition since_attach :: "mgr_event list \<Rightarrow> mgr_event list" where
  "since_attach tr = takeWhile (\<lambda>e. \<not> is_reset e) (rev tr)"

definition session_of :: "mgr_event list \<Rightarrow> string option" where
  "session_of tr = (case find is_reset (rev tr) of Some (Attached sid) \<Rightarrow> Some sid | _ \<Rightarrow> None)"

definition policy_of :: "mgr_event list \<Rightarrow> bool" where
  "policy_of tr = (case find is_policy (since_attach tr) of Some (PolicySet b) \<Rightarrow> b | _ \<Rightarrow> False)"

text \<open>The session was authorized, the host sent a nonce, and an answer under the authorized key
  carried a valid tag for the session, that nonce and the two fingerprints the host sees.\<close>

definition proved :: "('p, 'i) host_env \<Rightarrow> string \<Rightarrow> mgr_event list \<Rightarrow> bool" where
  "proved E sid evs \<longleftrightarrow> (\<exists>key nonce mac fph fpv.
     {Authorized key, Challenged nonce, Bound key nonce mac fph fpv} \<subseteq> set evs \<and>
     verify_dc_bind_mac (crypto_of E) key (utf8_bytes sid) nonce (utf8_bytes fph) (utf8_bytes fpv) mac = Some (Inr ()))"

lemma since_attach_snoc [simp]: "since_attach (tr @ [e]) = (if is_reset e then [] else e # since_attach tr)"
  by (simp add: since_attach_def)

lemma session_of_snoc [simp]:
  "session_of (tr @ [e]) = (case e of Attached sid \<Rightarrow> Some sid | Detached \<Rightarrow> None | _ \<Rightarrow> session_of tr)"
  by (cases e) (simp_all add: session_of_def)

lemma policy_of_snoc [simp]:
  "policy_of (tr @ [e]) = (case e of Attached _ \<Rightarrow> False | Detached \<Rightarrow> False | PolicySet b \<Rightarrow> b | _ \<Rightarrow> policy_of tr)"
  by (cases e) (simp_all add: policy_of_def)

lemma proved_Cons: "proved E sid evs \<Longrightarrow> proved E sid (e # evs)"
  unfolding proved_def by (elim exE conjE, intro exI conjI) auto

text \<open>The fields the gate depends on.\<close>

definition gate_of :: "('p, 'i) session_manager \<Rightarrow> string option \<times> identity_bind_state \<times> session_bind_key option \<times> bool" where
  "gate_of m = (hm_session_id m, hm_identity m, hm_bind_key m, hm_policy_input m)"

definition quiet :: "('p, 'i) session_manager \<Rightarrow> ('p, 'i) session_manager \<Rightarrow> bool" where
  "quiet m m' \<longleftrightarrow> gate_of m' = gate_of m \<and> (hm_challenge m' = hm_challenge m \<or> hm_challenge m' = None)"

lemmas quiet_defs = quiet_def gate_of_def

lemma on_peer_quiet:
  "on_peer f m = (r, m') \<Longrightarrow> gate_of m' = gate_of m \<and> hm_challenge m' = hm_challenge m \<and>
     hm_injector m' = hm_injector m \<and> hm_media m' = hm_media m \<and> hm_signing_key m' = hm_signing_key m"
  by (auto simp: on_peer_def gate_of_def split: prod.splits)

lemma quiet_refl [simp]: "quiet m m"
  by (simp add: quiet_def)

lemma quiet_trans: "quiet m1 m2 \<Longrightarrow> quiet m2 m3 \<Longrightarrow> quiet m1 m3"
  by (auto simp: quiet_def)

lemma quiet_updates [simp]:
  "quiet m (m\<lparr>hm_media := a\<rparr>)" "quiet m (m\<lparr>hm_outbound := b\<rparr>)" "quiet m (m\<lparr>hm_ice := c\<rparr>)"
  "quiet m (m\<lparr>hm_data := d\<rparr>)" "quiet m (m\<lparr>hm_challenge := None\<rparr>)" "quiet m (m\<lparr>hm_rejected := x\<rparr>)"
  "quiet m (m\<lparr>hm_decode_errors := x\<rparr>)" "quiet m (m\<lparr>hm_injector := i, hm_rate_limited := x\<rparr>)"
  "quiet m (m\<lparr>hm_injector := i, hm_rejected := x\<rparr>)" "quiet m (m\<lparr>hm_injector := i, hm_accepted_input := es\<rparr>)"
  "quiet m (m\<lparr>hm_signing_key := k\<rparr>)" "quiet m (queue_pending_ice E sid m)"
  by (simp_all add: quiet_defs queue_pending_ice_def)

lemma quiet_on_peer: "on_peer f m = (r, m') \<Longrightarrow> quiet m m'"
  using on_peer_quiet [of f m r m'] by (simp add: quiet_def)

lemma create_local_offer_quiet:
  assumes "create_local_offer_and_queue E sid m = Some (r, m')"
  shows "quiet m m'"
proof -
  obtain r1 m1 where o1: "on_peer (peer_create_offer E) m = (r1, m1)" by fastforce
  show ?thesis
  proof (cases r1)
    case (Inl e)
    with assms o1 show ?thesis using quiet_on_peer [OF o1] by (simp add: create_local_offer_and_queue_def)
  next
    case (Inr offer)
    obtain r2 m2 where o2: "on_peer (peer_set_local E offer) m1 = (r2, m2)" by fastforce
    have q: "quiet m m2" using quiet_on_peer [OF o1] quiet_on_peer [OF o2] by (rule quiet_trans)
    have q2: "quiet m (queue_pending_ice E sid (m2\<lparr>hm_outbound := x\<rparr>))" for x
      by (rule quiet_trans [OF q], rule quiet_trans [of _ "m2\<lparr>hm_outbound := x\<rparr>"]) simp_all
    from assms o1 o2 Inr q show ?thesis
      by (auto simp: create_local_offer_and_queue_def Let_def q2 split: sum.splits option.splits)
  qed
qed

lemma start_media_quiet: "manager_start_media E m = Some (r, m') \<Longrightarrow> quiet m m'"
  by (auto simp: manager_start_media_def Let_def split: option.splits sum.splits if_splits
      dest!: create_local_offer_quiet intro: quiet_trans [OF quiet_updates(1)] quiet_trans [OF quiet_updates(1) quiet_updates(12)])

lemma apply_signal_quiet:
  assumes "apply_signal E kind payload m = Some (r, m')"
  shows "quiet m m'"
proof -
  have peer: "quiet m m2" if "on_peer f m = (r1, m1)" "m2 = m1 \<or> m2 = queue_pending_ice E sid m1" for f r1 m1 m2 sid
    using that(2) quiet_on_peer [OF that(1)] quiet_trans [OF quiet_on_peer [OF that(1)]] by auto
  show ?thesis
    using assms unfolding apply_signal_def
    by (auto split: if_splits sum.splits option.splits prod.splits simp: quiet_on_peer intro: peer)
qed

lemma process_input_quiet: "process_input_message E t t' msg m = (out, m') \<Longrightarrow> quiet m m'"
  by (auto simp: process_input_message_def push_accepted_input_def Let_def
      split: if_splits option.splits sum.splits prod.splits bool.splits)

lemma complete_dc_bind_cases:
  "complete_dc_bind K key nonce mac fph fpv st = Some (Inl e, st') \<Longrightarrow> st' = st"
  "complete_dc_bind K key nonce mac fph fpv st = Some (Inr u, st') \<Longrightarrow>
     st' = st\<lparr>identity_bound := True\<rparr> \<and>
     verify_dc_bind_mac K key (utf8_bytes (ib_session_id st)) nonce (utf8_bytes fph) (utf8_bytes fpv) mac = Some (Inr ())"
  by (auto simp: complete_dc_bind_def mark_identity_bound_def split: option.splits sum.splits)

lemma fp_challenge [simp]:
  "local_fp E (m\<lparr>hm_challenge := c\<rparr>) = local_fp E m" "remote_fp E (m\<lparr>hm_challenge := c\<rparr>) = remote_fp E m"
  by (simp_all add: local_fp_def remote_fp_def)

lemma identity_same: "m\<lparr>hm_challenge := c, hm_identity := hm_identity m\<rparr> = m\<lparr>hm_challenge := c\<rparr>"
  by simp

lemma handle_identity_err_quiet:
  assumes "handle_identity_data E data m = Some (Inl e, m')"
  shows "quiet m m'"
  using assms
  by (auto simp: handle_identity_data_def Let_def
      split: sum.splits option.splits dc_identity_message.splits prod.splits dest!: complete_dc_bind_cases(1))

lemma mode_a_err_quiet: "manager_authorize_mode_a E code pepper now r m = (Inl e, r', m') \<Longrightarrow> quiet m m'"
  by (auto simp: manager_authorize_mode_a_def split: prod.splits sum.splits)

lemma mode_b_err_quiet: "manager_authorize_mode_b E s c fph fpv mac m = Some (Inl e, m') \<Longrightarrow> quiet m m'"
  by (auto simp: manager_authorize_mode_b_def split: option.splits sum.splits)

lemma secret_err_quiet: "authorize_unattended_secret s m = (Inl e, m') \<Longrightarrow> quiet m m'"
  by (auto simp: authorize_unattended_secret_def split: if_splits)

lemma challenge_err_quiet: "start_identity_challenge E nonce m = (Inl e, m') \<Longrightarrow> quiet m m'"
  by (auto simp: start_identity_challenge_def quiet_on_peer split: if_splits prod.splits sum.splits)

lemmas quiet_ops = start_media_quiet apply_signal_quiet process_input_quiet handle_identity_err_quiet
  mode_a_err_quiet mode_b_err_quiet secret_err_quiet challenge_err_quiet

lemma quiet_step: "mgr_step E m Quiet m' \<Longrightarrow> quiet m m'"
  by (erule mgr_stepE)
    (auto simp: manager_stop_media_def take_outbound_signals_def set_device_signing_key_def
      dest: quiet_ops quiet_on_peer intro: quiet_trans)

text \<open>What each labelled step does to the gate.\<close>

inductive_cases step_attachedE: "mgr_step E m (Attached sid) m'"
inductive_cases step_detachedE: "mgr_step E m Detached m'"
inductive_cases step_policyE: "mgr_step E m (PolicySet b) m'"
inductive_cases step_authorizedE: "mgr_step E m (Authorized key) m'"
inductive_cases step_challengedE: "mgr_step E m (Challenged nonce) m'"
inductive_cases step_boundE: "mgr_step E m (Bound key nonce mac fph fpv) m'"

lemma step_authorized: "mgr_step E m (Authorized key) m' \<Longrightarrow> m' = install_key key m"
  by (erule step_authorizedE)
    (auto simp: manager_authorize_mode_a_def manager_authorize_mode_b_def authorize_unattended_secret_def install_key_def
      split: prod.splits sum.splits option.splits if_splits)

lemma step_challenged:
  assumes "mgr_step E m (Challenged nonce) m'"
  shows "gate_of m' = gate_of m \<and> hm_challenge m' = Some nonce \<and> hm_session_id m \<noteq> None"
  using assms
  by (auto elim!: step_challengedE simp: start_identity_challenge_def gate_of_def
      dest!: on_peer_quiet split: if_splits prod.splits sum.splits)

lemma step_bound:
  assumes "mgr_step E m (Bound key nonce mac fph fpv) m'"
  shows "hm_bind_key m = Some key \<and> hm_challenge m = Some nonce \<and>
    local_fp E m = Inr fph \<and> remote_fp E m = Inr fpv \<and>
    m' = m\<lparr>hm_challenge := None, hm_identity := (hm_identity m)\<lparr>identity_bound := True\<rparr>\<rparr> \<and>
    verify_dc_bind_mac (crypto_of E) key (utf8_bytes (ib_session_id (hm_identity m))) nonce
      (utf8_bytes fph) (utf8_bytes fpv) mac = Some (Inr ())"
  using assms
proof (rule step_boundE)
  fix data
  assume a: "handle_identity_data E data m = Some (Inr (), m')" "parse_dc_message data = Inr (DcResponse mac)"
    "hm_bind_key m = Some key" "hm_challenge m = Some nonce" "local_fp E m = Inr fph" "remote_fp E m = Inr fpv"
  then obtain st where "complete_dc_bind (crypto_of E) key nonce mac fph fpv (hm_identity m) = Some (Inr (), st)"
      "m' = m\<lparr>hm_challenge := None, hm_identity := st\<rparr>"
    by (auto simp: handle_identity_data_def Let_def split: option.splits prod.splits sum.splits)
  with complete_dc_bind_cases(2) [OF this(1)] a show ?thesis by simp
qed

definition gate_inv :: "('p, 'i) host_env \<Rightarrow> mgr_event list \<Rightarrow> ('p, 'i) session_manager \<Rightarrow> bool" where
  "gate_inv E tr m \<longleftrightarrow>
     hm_session_id m = session_of tr \<and>
     ib_session_id (hm_identity m) = (case session_of tr of Some sid \<Rightarrow> sid | None \<Rightarrow> []) \<and>
     (session_authorized (hm_identity m) \<longrightarrow> (\<exists>k. Authorized k \<in> set (since_attach tr))) \<and>
     (\<forall>k. hm_bind_key m = Some k \<longrightarrow> Authorized k \<in> set (since_attach tr)) \<and>
     (\<forall>n. hm_challenge m = Some n \<longrightarrow> Challenged n \<in> set (since_attach tr) \<and> session_of tr \<noteq> None) \<and>
     (identity_bound (hm_identity m) \<longrightarrow> session_of tr \<noteq> None \<and>
        proved E (ib_session_id (hm_identity m)) (since_attach tr)) \<and>
     hm_policy_input m = policy_of tr"

lemma gate_inv_quiet:
  assumes "gate_inv E tr m" "quiet m m'"
  shows "gate_inv E (tr @ [Quiet]) m'"
proof -
  have "hm_challenge m = Some n" if "hm_challenge m' = Some n" for n
    using assms(2) that by (auto simp: quiet_def)
  with assms show ?thesis by (auto simp: gate_inv_def quiet_defs intro: proved_Cons)
qed

lemma gate_inv_step:
  assumes inv: "gate_inv E tr m" and step: "mgr_step E m ev m'"
  shows "gate_inv E (tr @ [ev]) m'"
proof (cases ev)
  case (Attached sid)
  with step show ?thesis by (auto elim!: step_attachedE simp: gate_inv_def manager_attach_def new_identity_def)
next
  case Detached
  with step show ?thesis by (auto elim!: step_detachedE simp: gate_inv_def manager_detach_def manager_stop_media_def new_identity_def)
next
  case (Authorized key)
  with step have m': "m' = install_key key m" by (simp add: step_authorized)
  show ?thesis using inv by (auto simp: m' Authorized gate_inv_def install_key_def mark_authorized_def intro: proved_Cons)
next
  case (Challenged nonce)
  with step_challenged [of E m nonce m'] step inv show ?thesis
    by (auto simp: gate_inv_def gate_of_def intro: proved_Cons)
next
  case (Bound key nonce mac fph fpv)
  with step_bound step have b: "hm_bind_key m = Some key" "hm_challenge m = Some nonce"
    "m' = m\<lparr>hm_challenge := None, hm_identity := (hm_identity m)\<lparr>identity_bound := True\<rparr>\<rparr>"
    "verify_dc_bind_mac (crypto_of E) key (utf8_bytes (ib_session_id (hm_identity m))) nonce
      (utf8_bytes fph) (utf8_bytes fpv) mac = Some (Inr ())" by blast+
  from inv b(1,2) have "{Authorized key, Challenged nonce, ev} \<subseteq> set (ev # since_attach tr)" "session_of tr \<noteq> None"
    by (auto simp: gate_inv_def)
  with b(4) have "proved E (ib_session_id (hm_identity m)) (ev # since_attach tr)"
    unfolding proved_def Bound by blast
  with inv b(3) \<open>session_of tr \<noteq> None\<close> show ?thesis by (auto simp: gate_inv_def Bound)
next
  case (PolicySet b)
  with step inv show ?thesis
    by (auto elim!: step_policyE simp: gate_inv_def set_input_policy_enabled_def intro: proved_Cons)
next
  case Quiet
  with step inv show ?thesis by (simp add: gate_inv_quiet quiet_step)
qed

lemma gate_inv_run:
  "mgr_run E m0 tr m \<Longrightarrow> m0 = manager_with_peer p i \<Longrightarrow> gate_inv E tr m"
  by (induction rule: mgr_run.induct)
    (simp_all add: gate_inv_step, simp add: gate_inv_def manager_with_peer_def new_identity_def session_of_def policy_of_def since_attach_def)

lemma injector_untouched:
  "process_input_message E t t' msg m = (out, m') \<Longrightarrow> hm_injector m' \<noteq> hm_injector m \<Longrightarrow> injection_allowed m"
  by (auto simp: process_input_message_def split: if_splits)

lemma mgr_run_append: "mgr_run E m0 tr1 m1 \<Longrightarrow> mgr_run E m1 tr2 m2 \<Longrightarrow> mgr_run E m0 (tr1 @ tr2) m2"
proof (induction tr2 arbitrary: m2 rule: rev_induct)
  case Nil
  then show ?case by (auto elim: mgr_run.cases)
next
  case (snoc e tr2)
  from snoc.prems(2) obtain m where "mgr_run E m1 tr2 m" "mgr_step E m e m2"
    by (cases rule: mgr_run.cases) auto
  with snoc mgr_run.more show ?case by (metis append_assoc)
qed

lemma one_step: "mgr_step E m ev m' \<Longrightarrow> mgr_run E m [ev] m'"
  using mgr_run.more [OF mgr_run.none] by fastforce

text \<open>\<open>poll_inbound\<close> is a run: nothing it does escapes the properties of runs.\<close>

lemma handle_identity_step:
  assumes "handle_identity_data E data m = Some (r, m')"
  shows "\<exists>ev. mgr_step E m ev m'"
proof (cases r)
  case (Inl e)
  with assms mgr_step.identity_err show ?thesis by blast
next
  case (Inr u)
  with assms have a: "handle_identity_data E data m = Some (Inr (), m')" by simp
  then obtain mac key nonce fph fpv where "parse_dc_message data = Inr (DcResponse mac)" "hm_bind_key m = Some key"
      "hm_challenge m = Some nonce" "local_fp E m = Inr fph" "remote_fp E m = Inr fpv"
    by (auto simp: handle_identity_data_def Let_def split: sum.splits option.splits dc_identity_message.splits)
  from mgr_step.identity [OF a this] show ?thesis by blast
qed

lemma process_inbound_run:
  "process_inbound E clock k msgs stats m = Some (r, m') \<Longrightarrow> \<exists>tr. mgr_run E m tr m'"
proof (induction E clock k msgs stats m arbitrary: r m' rule: process_inbound.induct)
  case (1 E clock k stats m)
  then show ?case using mgr_run.none by auto
next
  case (2 E clock k msg msgs stats m)
  show ?case
  proof (cases "dm_label msg = IDENTITY_CHANNEL_LABEL")
    case True
    with 2 obtain r1 m1 where h: "handle_identity_data E (dm_data msg) m = Some (r1, m1)"
      by (auto split: option.splits)
    from handle_identity_step [OF h] obtain ev where ev: "mgr_run E m [ev] m1" using one_step by blast
    show ?thesis
    proof (cases r1)
      case (Inl e)
      with 2 True h ev show ?thesis by auto
    next
      case (Inr u)
      with "2.prems" True h have "process_inbound E clock (Suc k) msgs
          (stats\<lparr>identity_messages := sat_add (identity_messages stats) 1\<rparr>) m1 = Some (r, m')" by simp
      with "2.IH"(1) [OF True h] Inr obtain tr where "mgr_run E m1 tr m'" by fastforce
      with ev mgr_run_append show ?thesis by blast
    qed
  next
    case False
    show ?thesis
    proof (cases "dm_label msg = INPUT_CHANNEL_LABEL")
      case True
      obtain out m1 where p: "process_input_message E (fst (clock k)) (snd (clock k)) msg m = (out, m1)" by fastforce
      with "2.prems" True False have "process_inbound E clock (Suc k) msgs (count_outcome out stats) m1 = Some (r, m')" by simp
      with "2.IH"(2) [OF False True] p obtain tr where "mgr_run E m1 tr m'" by fastforce
      moreover have "mgr_run E m [Quiet] m1" by (rule one_step, rule mgr_step.inp [OF p])
      ultimately show ?thesis using mgr_run_append by blast
    next
      case nolabel: False
      with "2.prems" False "2.IH"(3) show ?thesis by auto
    qed
  qed
qed

lemma poll_inbound_run:
  assumes "poll_inbound E clock m = Some (r, m')"
  shows "\<exists>tr. mgr_run E m tr m'"
proof -
  obtain r1 m1 where o: "on_peer (peer_poll E) m = (r1, m1)" by fastforce
  have step: "mgr_run E m [Quiet] (m1\<lparr>hm_data := d\<rparr>)" for d by (rule one_step, rule mgr_step.poll [OF o])
  show ?thesis
  proof (cases r1)
    case (Inl e)
    with assms o step [of "hm_data m1"] show ?thesis by (auto simp: poll_inbound_def)
  next
    case (Inr u)
    with assms o have "process_inbound E clock 0 (hm_data m1) no_inbound (m1\<lparr>hm_data := []\<rparr>) = Some (r, m')"
      by (simp add: poll_inbound_def)
    from process_inbound_run [OF this] obtain tr where "mgr_run E (m1\<lparr>hm_data := []\<rparr>) tr m'" by blast
    with step [of "[]"] mgr_run_append show ?thesis by blast
  qed
qed

section \<open>Input needs every proof\<close>

definition demo_env :: "(unit, stub_injector) host_env" where
  "demo_env = \<lparr>crypto_of = tag_crypto, ed25519_of = toy_ed25519, peer_state = (\<lambda>_. CsConnected),
     peer_poll = (\<lambda>p. (Inr (), \<lparr>ev_ice = [], ev_data = []\<rparr>, p)),
     peer_send_data = (\<lambda>_ p. (Inr (), \<lparr>ev_ice = [], ev_data = []\<rparr>, p)),
     peer_create_offer = (\<lambda>p. (Inl ''closed'', \<lparr>ev_ice = [], ev_data = []\<rparr>, p)),
     peer_set_local = (\<lambda>_ p. (Inr (), \<lparr>ev_ice = [], ev_data = []\<rparr>, p)),
     peer_set_remote = (\<lambda>_ p. (Inr (), \<lparr>ev_ice = [], ev_data = []\<rparr>, p)),
     peer_add_ice = (\<lambda>_ p. (Inr (), \<lparr>ev_ice = [], ev_data = []\<rparr>, p)),
     peer_local_fingerprint = (\<lambda>_. Inr ''h''), peer_remote_fingerprint = (\<lambda>_. Inr (Some ''v'')),
     json_sdp_from_str = (\<lambda>_. Inl ''eof''), json_sdp_to_string = (\<lambda>_. Inr ''{}''),
     json_ice_from_str = (\<lambda>_. None), json_ice_wrapped = (\<lambda>_. None), json_ice_to_string = (\<lambda>_. Inl []),
     json_decode_input = (\<lambda>_. Inr demo_key), inject_backend = stub_inject, open_media = Inr ()\<rparr>"

definition demo_injector :: "stub_injector rate_limited" where
  "demo_injector = new_rate_limited (new_stub_injector 1 1) 2 0"

definition demo_bound :: "(unit, stub_injector) session_manager" where
  "demo_bound = (manager_attach ''s'' demo_injector (manager_with_peer () demo_injector))
     \<lparr>hm_bind_key := Some (SessionBindKey [1]), hm_policy_input := True,
      hm_identity := \<lparr>ib_session_id = ''s'', session_authorized = True, identity_bound = True\<rparr>\<rparr>"

lemma demo_bound_run:
  "\<exists>mac. mgr_run demo_env (manager_with_peer () demo_injector)
     [Attached ''s'', Authorized (SessionBindKey [1]), Challenged [7], Bound (SessionBindKey [1]) [7] mac ''h'' ''v'', PolicySet True]
     demo_bound"
proof -
  let ?E = demo_env and ?key = "SessionBindKey [1]"
  let ?m0 = "manager_with_peer () demo_injector :: (unit, stub_injector) session_manager"
  let ?m1 = "manager_attach ''s'' demo_injector ?m0"
  let ?m2 = "install_key ?key ?m1"
  let ?m3 = "?m2\<lparr>hm_challenge := Some [7]\<rparr>"
  let ?m4 = "?m2\<lparr>hm_identity := (hm_identity ?m2)\<lparr>identity_bound := True\<rparr>\<rparr>"
  obtain msg where msg: "encode_dc_bind_message (utf8_bytes ''s'') [7] (utf8_bytes ''h'') (utf8_bytes ''v'') = Some msg"
    by (simp add: encode_dc_bind_Some small_def utf8_bytes_def)
  define mac where "mac = hmac_sha256 tag_crypto [1] msg"
  have len: "length mac = 32" by (simp add: mac_def)
  have s1: "mgr_step ?E ?m0 (Attached ''s'') ?m1" by (rule mgr_step.attach)
  have s2: "mgr_step ?E ?m1 (Authorized ?key) ?m2"
    by (rule mgr_step.secret [of "HostSecret [1]"])
      (simp_all add: authorize_unattended_secret_def manager_attach_def install_key_def from_mode_b_secret_def)
  have s3: "mgr_step ?E ?m2 (Challenged [7]) ?m3"
    by (rule mgr_step.challenge)
      (simp add: start_identity_challenge_def install_key_def manager_attach_def mark_authorized_def on_peer_def demo_env_def manager_with_peer_def)
  have "complete_dc_bind tag_crypto ?key [7] mac ''h'' ''v'' (hm_identity ?m3) = Some (Inr (), mark_identity_bound (hm_identity ?m3))"
    using len by (simp add: complete_dc_bind_def verify_dc_bind_mac_def compute_dc_bind_mac_def DC_BIND_MAC_LEN_def msg
        install_key_def manager_attach_def new_identity_def mark_authorized_def mac_def)
  then have "handle_identity_data ?E (encode_dc_response mac) ?m3 = Some (Inr (), ?m4)"
    using parse_encoded_response [OF len]
    by (simp add: handle_identity_data_def install_key_def manager_attach_def local_fp_def remote_fp_def demo_env_def
        mark_identity_bound_def manager_with_peer_def)
  then have s4: "mgr_step ?E ?m3 (Bound ?key [7] mac ''h'' ''v'') ?m4"
    by (rule mgr_step.identity)
      (simp_all add: parse_encoded_response [OF len] install_key_def local_fp_def remote_fp_def demo_env_def)
  have s5: "mgr_step ?E ?m4 (PolicySet True) demo_bound"
  proof -
    have eq: "demo_bound = set_input_policy_enabled True ?m4"
      by (simp add: demo_bound_def set_input_policy_enabled_def install_key_def manager_attach_def mark_authorized_def
          new_identity_def manager_with_peer_def)
    show ?thesis unfolding eq by (rule mgr_step.policy)
  qed
  have "mgr_run ?E ?m0 ((((([] @ [Attached ''s'']) @ [Authorized ?key]) @ [Challenged [7]]) @
      [Bound ?key [7] mac ''h'' ''v'']) @ [PolicySet True]) demo_bound"
    by (intro mgr_run.more [OF _ s5] mgr_run.more [OF _ s4] mgr_run.more [OF _ s3] mgr_run.more [OF _ s2]
        mgr_run.more [OF _ s1] mgr_run.none)
  then show ?thesis by auto
qed



end
