(* ===== verification/Host_Service.thy ===== *)
theory Host_Service
  imports Host_Agent Host_Session
begin

text \<open>
  The session agent as the service sees it: the control state layered over the session manager
  (\<open>AgentSession\<close> in \<open>apps/host/src/agent.rs\<close>) and the loop that serves a control connection, with
  its boot secret (\<open>apps/host/src/control_loop.rs\<close>). Sending on the stream is the list of messages
  sent; a failed send ends the connection, so the peer sees a prefix of that list. Pumping media
  (\<open>wait_ready\<close> and \<open>pump_media(3)\<close>) is the parameter \<open>pump\<close>, \<open>fresh\<close> is the injector an attach opens, and
  \<open>rebuild\<close> is the outcome of building a new session manager.
\<close>

section \<open>The agent session\<close>

record ('p, 'i) agent_session =
  agent_state_of :: agent_state
  manager :: "('p, 'i) session_manager"

definition with_manager :: "('p, 'i) session_manager \<Rightarrow> ('p, 'i) agent_session" where
  "with_manager m = \<lparr>agent_state_of = default_agent, manager = m\<rparr>"

definition input_injection_allowed :: "('p, 'i) agent_session \<Rightarrow> bool" where
  "input_injection_allowed a \<longleftrightarrow>
     enable_input (agent_state_of a) \<and> \<not> killed (agent_state_of a) \<and> manager_input_allowed (manager a)"

definition sync_input_policy :: "('p, 'i) agent_session \<Rightarrow> ('p, 'i) agent_session" where
  "sync_input_policy a =
     a\<lparr>manager := set_input_policy_enabled (enable_input (agent_state_of a) \<and> \<not> killed (agent_state_of a)) (manager a)\<rparr>"

definition agent_poll_inbound ::
  "('p, 'i) host_env \<Rightarrow> (nat \<Rightarrow> instant \<times> instant) \<Rightarrow> ('p, 'i) agent_session
     \<Rightarrow> ((session_error + inbound_stats) \<times> ('p, 'i) agent_session) option" where
  "agent_poll_inbound E clock a =
     (let a1 = sync_input_policy a in
      map_option (\<lambda>(r, m). (r, a1\<lparr>manager := m\<rparr>)) (poll_inbound E clock (manager a1)))"

definition is_peer_signal_kind :: "string \<Rightarrow> bool" where
  "is_peer_signal_kind kind \<longleftrightarrow> kind = SESSION_OFFER \<or> kind = SESSION_ANSWER \<or> kind = ICE_CANDIDATE"

definition sat_mul :: "u64 \<Rightarrow> u64 \<Rightarrow> u64" where
  "sat_mul a b = (if unat a * unat b < 2 ^ 64 then a * b else - 1)"

text \<open>The counters and the connection path that enrich a stats reply.\<close>

definition enrich_stats :: "('p, 'i) host_env \<Rightarrow> ('p, 'i) session_manager \<Rightarrow> stats_push \<Rightarrow> stats_push" where
  "enrich_stats E m stats =
     (let (v, au) = media_counters m;
          s1 = (if v > 0 then stats\<lparr>pu_video_bitrate_bps := Some (ucast (sat_mul v 8000))\<rparr> else stats);
          s2 = (if au > 0 then s1\<lparr>pu_audio_bitrate_bps := Some (ucast (sat_mul au 1600))\<rparr> else s1)
      in s2\<lparr>pu_ice_path := Some (connection_state_str (peer_state E (hm_peer m)))\<rparr>)"

text \<open>The reply is acted on only when it is an \<open>Ack\<close> or a \<open>StatsPush\<close>.\<close>

fun acts_on :: "control_message \<Rightarrow> bool" where
  "acts_on (Ack _) = True"
| "acts_on (StatsPush _) = True"
| "acts_on _ = False"

definition agent_session_handle ::
  "('p, 'i) host_env \<Rightarrow> 'i rate_limited \<Rightarrow> control_message \<Rightarrow> ('p, 'i) agent_session
     \<Rightarrow> (control_message \<times> ('p, 'i) agent_session) option" where
  "agent_session_handle E fresh msg a0 =
     (case agent_handle msg (agent_state_of a0) of (reply, s) \<Rightarrow>
        let a = a0\<lparr>agent_state_of := s\<rparr>; m = manager a in
        if \<not> acts_on reply then Some (reply, a)
        else (case msg of
            AttachSession r \<Rightarrow> Some (reply, a\<lparr>manager := manager_attach (as_session_id r) fresh m\<rparr>)
          | DetachSession _ \<Rightarrow> Some (reply, a\<lparr>manager := manager_detach m\<rparr>)
          | ShutdownSession _ \<Rightarrow> Some (reply, a\<lparr>manager := manager_detach m\<rparr>)
          | SetPolicy _ \<Rightarrow> Some (reply, sync_input_policy a)
          | StartMedia _ \<Rightarrow>
              (case manager_start_media E m of
                 None \<Rightarrow> None
               | Some (Inl e, m1) \<Rightarrow>
                   Some (agent_err UNEXPECTED (''start_media failed: '' @ show_session_error e) (ag_session_id s),
                     a\<lparr>agent_state_of := s\<lparr>media_started := False\<rparr>, manager := m1\<rparr>)
               | Some (Inr _, m1) \<Rightarrow> Some (reply, a\<lparr>manager := m1\<rparr>))
          | StopMedia _ \<Rightarrow> Some (reply, a\<lparr>manager := manager_stop_media m\<rparr>)
          | KillSwitch _ \<Rightarrow> Some (reply, sync_input_policy (a\<lparr>manager := manager_detach (manager_stop_media m)\<rparr>))
          | SignalForward f \<Rightarrow>
              if is_peer_signal_kind (sf_kind f) then
                (case apply_signal E (sf_kind f) (sf_payload f) m of
                   None \<Rightarrow> None
                 | Some (Inl e, m1) \<Rightarrow>
                     Some (agent_err UNEXPECTED (''signal_forward apply failed: '' @ show_session_error e)
                        (Some (sf_session_id f)), a\<lparr>manager := m1\<rparr>)
                 | Some (Inr _, m1) \<Rightarrow> Some (reply, a\<lparr>manager := m1\<rparr>))
              else Some (reply, a)
          | QueryStats _ \<Rightarrow>
              Some (case reply of StatsPush stats \<Rightarrow> StatsPush (enrich_stats E m stats) | _ \<Rightarrow> reply, a)
          | _ \<Rightarrow> Some (reply, a)))"

definition agent_take_outbound :: "('p, 'i) agent_session \<Rightarrow> control_message list \<times> ('p, 'i) agent_session" where
  "agent_take_outbound a =
     (case take_outbound_signals (manager a) of (sigs, m) \<Rightarrow> (map SignalForward sigs, a\<lparr>manager := m\<rparr>))"

section \<open>Serving a control connection\<close>

definition DRAIN_COMPLETE :: string where "DRAIN_COMPLETE = ''drain_complete''"

definition boot_secret_ok :: "string option \<Rightarrow> string option \<Rightarrow> bool" where
  "boot_secret_ok expected provided =
     (case expected of
        None \<Rightarrow> True
      | Some ex \<Rightarrow> (case provided of
            None \<Rightarrow> False
          | Some got \<Rightarrow> if length ex = length got then utf8_bytes ex = utf8_bytes got else False))"

definition drain_complete :: control_message where
  "drain_complete = Ack \<lparr>ack_for_method = Some DRAIN_COMPLETE, ack_session_id = None\<rparr>"

definition auth_failed :: "string \<Rightarrow> string option \<Rightarrow> control_message list" where
  "auth_failed message sid = [agent_err AUTH_FAILED message sid, drain_complete]"

definition may_pump :: "control_message \<Rightarrow> bool" where
  "may_pump msg = (case msg of
       SignalForward f \<Rightarrow> sf_kind f = SESSION_ANSWER \<or> sf_kind f = ICE_CANDIDATE
     | QueryStats _ \<Rightarrow> True
     | _ \<Rightarrow> False)"

fun is_detach :: "control_message \<Rightarrow> bool" where
  "is_detach (DetachSession _) = True"
| "is_detach (ShutdownSession _) = True"
| "is_detach _ = False"

fun is_ack :: "control_message \<Rightarrow> bool" where
  "is_ack (Ack _) = True"
| "is_ack _ = False"

text \<open>
  What is sent for the forbidden media methods, before the message is processed: the \<open>continue\<close> of
  that check continues the search over the method names, not the connection loop.
\<close>

definition media_method_replies :: "control_message \<Rightarrow> control_message list" where
  "media_method_replies msg =
     concat (map (\<lambda>f. [agent_err UNEXPECTED (''media method `'' @ f @ ''` forbidden on control IPC'') None, drain_complete])
       (filter (\<lambda>f. method_name msg = f) FORBIDDEN_MEDIA_METHODS))"

text \<open>One iteration of the loop: the messages sent, and the agent or the error that ends the connection.\<close>

definition serve_message ::
  "('p, 'i) host_env \<Rightarrow> 'i rate_limited \<Rightarrow> string + ('p, 'i) session_manager
     \<Rightarrow> (('p, 'i) session_manager \<Rightarrow> ('p, 'i) session_manager) \<Rightarrow> string option \<Rightarrow> control_message
     \<Rightarrow> ('p, 'i) agent_session \<Rightarrow> (control_message list \<times> (string + ('p, 'i) agent_session)) option" where
  "serve_message E fresh rebuild pump expected msg a =
     (let media = media_method_replies msg;
          refusal = (case msg of
             AttachSession r \<Rightarrow>
               if \<not> boot_secret_ok expected (as_boot_secret r)
               then Some (auth_failed ''boot secret missing or incorrect'' (Some (as_session_id r))) else None
           | _ \<Rightarrow>
               if expected \<noteq> None \<and> ag_session_id (agent_state_of a) = None
               then Some (auth_failed ''control IPC requires attach with boot_secret first'' None) else None)
      in case refusal of
        Some sent \<Rightarrow> Some (media @ sent, Inr a)
      | None \<Rightarrow>
        (case agent_session_handle E fresh msg a of
           None \<Rightarrow> None
         | Some (reply, a1) \<Rightarrow>
             let a2 = (if ag_session_id (agent_state_of a1) \<noteq> None \<and> \<not> killed (agent_state_of a1)
                 then a1\<lparr>manager := snd (on_peer (peer_poll E) (manager a1))\<rparr> else a1);
               (outbound, a3) = agent_take_outbound a2;
               a4 = (if may_pump msg \<and> media_started (agent_state_of a3) \<and> peer_state E (hm_peer (manager a3)) = CsConnected
                 then a3\<lparr>manager := pump (manager a3)\<rparr> else a3)
             in Some (media @ reply # outbound @ [drain_complete],
                  if is_detach msg \<and> is_ack reply then map_sum (\<lambda>e. ''agent: '' @ e) with_manager rebuild else Inr a4)))"

fun serve_messages ::
  "('p, 'i) host_env \<Rightarrow> 'i rate_limited \<Rightarrow> string + ('p, 'i) session_manager
     \<Rightarrow> (('p, 'i) session_manager \<Rightarrow> ('p, 'i) session_manager) \<Rightarrow> string option \<Rightarrow> control_message list
     \<Rightarrow> ('p, 'i) agent_session \<Rightarrow> (control_message list \<times> (string + ('p, 'i) agent_session)) option" where
  "serve_messages E fresh rebuild pump expected [] a = Some ([], Inr a)"
| "serve_messages E fresh rebuild pump expected (msg # msgs) a =
     (case serve_message E fresh rebuild pump expected msg a of
        None \<Rightarrow> None
      | Some (sent, Inl e) \<Rightarrow> Some (sent, Inl e)
      | Some (sent, Inr a1) \<Rightarrow>
          (case serve_messages E fresh rebuild pump expected msgs a1 of
             None \<Rightarrow> None
           | Some (sent', r) \<Rightarrow> Some (sent @ sent', r)))"

section \<open>Reachable agent sessions\<close>

text \<open>
  Steps: a control message, a poll of the data channels, any local use of the session manager, the
  local re-enabling of unattended access. The reachable states include those of the serving loop.
\<close>

inductive session_step :: "('p, 'i) host_env \<Rightarrow> ('p, 'i) agent_session \<Rightarrow> ('p, 'i) agent_session \<Rightarrow> bool"
  for E :: "('p, 'i) host_env" where
  control: "agent_session_handle E fresh msg a = Some (r, a') \<Longrightarrow> session_step E a a'"
| poll: "agent_poll_inbound E clock a = Some (r, a') \<Longrightarrow> session_step E a a'"
| local_use: "session_step E a (a\<lparr>manager := m\<rparr>)"
| reenable: "session_step E a (a\<lparr>agent_state_of := reenable_unattended_local (agent_state_of a)\<rparr>)"

inductive_cases session_stepE: "session_step E a a'"

definition session_reachable :: "('p, 'i) host_env \<Rightarrow> ('p, 'i) agent_session \<Rightarrow> bool" where
  "session_reachable E a \<longleftrightarrow> (\<exists>m. (session_step E)\<^sup>*\<^sup>* (with_manager m) a)"

lemma agent_inv_stop: "agent_inv s \<Longrightarrow> agent_inv (s\<lparr>media_started := False\<rparr>)"
  by (auto simp: agent_inv_def agent_idle_def)

lemma agent_session_handle_state:
  assumes "agent_session_handle E fresh msg a = Some (r, a')"
  shows "agent_state_of a' = snd (agent_handle msg (agent_state_of a)) \<or>
    agent_state_of a' = (snd (agent_handle msg (agent_state_of a)))\<lparr>media_started := False\<rparr>"
  using assms
  by (auto simp: agent_session_handle_def sync_input_policy_def Let_def
      split: prod.splits if_splits control_message.splits option.splits sum.splits)

lemma session_step_inv: "session_step E a a' \<Longrightarrow> agent_inv (agent_state_of a) \<Longrightarrow> agent_inv (agent_state_of a')"
proof (erule session_stepE)
  fix fresh msg r
  assume h: "agent_session_handle E fresh msg a = Some (r, a')" and inv: "agent_inv (agent_state_of a)"
  from inv have "agent_inv (snd (agent_handle msg (agent_state_of a)))" by (rule agent_handle_inv)
  then have "agent_inv (snd (agent_handle msg (agent_state_of a)))" "agent_inv ((snd (agent_handle msg (agent_state_of a)))\<lparr>media_started := False\<rparr>)"
    by (auto intro: agent_inv_stop)
  then show "agent_inv (agent_state_of a')"
    using agent_session_handle_state [OF h] by presburger
next
  fix clock r
  assume "agent_poll_inbound E clock a = Some (r, a')" "agent_inv (agent_state_of a)"
  then show "agent_inv (agent_state_of a')"
    by (clarsimp simp: agent_poll_inbound_def sync_input_policy_def Let_def split: prod.splits)
next
  fix m
  assume "a' = a\<lparr>manager := m\<rparr>" "agent_inv (agent_state_of a)"
  then show "agent_inv (agent_state_of a')" by simp
next
  assume "a' = a\<lparr>agent_state_of := reenable_unattended_local (agent_state_of a)\<rparr>" "agent_inv (agent_state_of a)"
  then show "agent_inv (agent_state_of a')" by (simp add: agent_inv_def agent_idle_def reenable_unattended_local_def)
qed

lemma session_reachable_inv: "session_reachable E a \<Longrightarrow> agent_inv (agent_state_of a)"
proof -
  assume "session_reachable E a"
  then obtain m where "(session_step E)\<^sup>*\<^sup>* (with_manager m) a" by (auto simp: session_reachable_def)
  then show ?thesis
    by (induction rule: rtranclp_induct) (auto simp: with_manager_def default_agent_inv intro: session_step_inv)
qed

text \<open>An inbound batch reaches the injector only through an open policy gate, which it cannot open.\<close>

lemma process_input_gate:
  "process_input_message E t t' msg m = (out, m') \<Longrightarrow>
     hm_policy_input m' = hm_policy_input m \<and> (\<not> hm_policy_input m \<longrightarrow> hm_injector m' = hm_injector m)"
  using process_input_quiet [of E t t' msg m out m']
  by (auto simp: quiet_defs) (auto simp: process_input_message_def injection_allowed_def)

lemma handle_identity_gate:
  "handle_identity_data E data m = Some (r, m') \<Longrightarrow> hm_policy_input m' = hm_policy_input m \<and> hm_injector m' = hm_injector m"
  by (auto simp: handle_identity_data_def Let_def split: sum.splits option.splits dc_identity_message.splits prod.splits)

lemma process_inbound_gate:
  "process_inbound E clock k msgs stats m = Some (r, m') \<Longrightarrow> \<not> hm_policy_input m \<Longrightarrow> hm_injector m' = hm_injector m"
proof (induction E clock k msgs stats m arbitrary: r m' rule: process_inbound.induct)
  case (2 E clock k msg msgs stats m)
  show ?case
  proof (cases "dm_label msg = IDENTITY_CHANNEL_LABEL")
    case True
    show ?thesis
    proof (cases "handle_identity_data E (dm_data msg) m")
      case None
      with "2.prems"(1) True show ?thesis by simp
    next
      case (Some x)
      obtain r1 m1 where x: "x = (r1, m1)" by (cases x)
      from handle_identity_gate [OF Some [unfolded x]] "2.prems"(2)
      have g: "\<not> hm_policy_input m1" "hm_injector m1 = hm_injector m" by simp_all
      show ?thesis
      proof (cases r1)
        case (Inl e)
        with "2.prems"(1) True Some x g show ?thesis by simp
      next
        case (Inr u)
        with "2.prems"(1) True Some x have "process_inbound E clock (Suc k) msgs
          (stats\<lparr>identity_messages := sat_add (identity_messages stats) 1\<rparr>) m1 = Some (r, m')" by simp
        from "2.IH"(1) [OF True Some x [symmetric] Inr this g(1)] g(2) show ?thesis by simp
      qed
    qed
  next
    case False
    obtain out m1 where p: "process_input_message E (fst (clock k)) (snd (clock k)) msg m = (out, m1)" by fastforce
    from process_input_gate [OF p] "2.prems"(2) have g: "\<not> hm_policy_input m1" "hm_injector m1 = hm_injector m" by simp_all
    show ?thesis
    proof (cases "dm_label msg = INPUT_CHANNEL_LABEL")
      case True
      with "2.prems"(1) False p have "process_inbound E clock (Suc k) msgs (count_outcome out stats) m1 = Some (r, m')" by simp
      from "2.IH"(2) [OF False True p [symmetric] this g(1)] g(2) show ?thesis by simp
    next
      case nolabel: False
      with "2.prems"(1) False have "process_inbound E clock (Suc k) msgs stats m = Some (r, m')" by simp
      from "2.IH"(3) [OF False nolabel this "2.prems"(2)] show ?thesis .
    qed
  qed
qed simp

lemma poll_inbound_gate:
  assumes "poll_inbound E clock m = Some (r, m')" "\<not> hm_policy_input m"
  shows "hm_injector m' = hm_injector m"
proof -
  obtain r1 m1 where o: "on_peer (peer_poll E) m = (r1, m1)" by fastforce
  from on_peer_quiet [OF o] assms(2) have "\<not> hm_policy_input m1" "hm_injector m1 = hm_injector m" by (simp_all add: gate_of_def)
  with assms(1) o process_inbound_gate [of E clock 0 "hm_data m1" no_inbound "m1\<lparr>hm_data := []\<rparr>" r m'] show ?thesis
    by (auto simp: poll_inbound_def split: sum.splits)
qed

section \<open>Properties\<close>

text \<open>
  C16. Whoever is being controlled can see it. In a reachable agent, whenever a poll of the data
  channels lets input through to the injector, a session is attached, the policy in force allows
  input, the kill-switch is not latched, and the session chrome is on screen.
\<close>

theorem remote_input_only_with_chrome:
  assumes "session_reachable E a" and "agent_poll_inbound E clock a = Some (r, a')"
    and "hm_injector (manager a') \<noteq> hm_injector (manager a)"
  shows "ag_session_id (agent_state_of a) \<noteq> None \<and> enable_input (agent_state_of a) \<and>
    \<not> killed (agent_state_of a) \<and> chrome_visible (agent_state_of a)"
proof -
  obtain m' where m': "poll_inbound E clock (manager (sync_input_policy a)) = Some (r, m')" "manager a' = m'"
    using assms(2) by (auto simp: agent_poll_inbound_def Let_def)
  have "hm_injector (manager (sync_input_policy a)) = hm_injector (manager a)"
    by (simp add: sync_input_policy_def set_input_policy_enabled_def)
  with assms(3) m' poll_inbound_gate [OF m'(1)] have "hm_policy_input (manager (sync_input_policy a))" by auto
  then have "enable_input (agent_state_of a)" "\<not> killed (agent_state_of a)"
    by (simp_all add: sync_input_policy_def set_input_policy_enabled_def)
  with session_reachable_inv [OF assms(1)] show ?thesis by (auto simp: agent_inv_def agent_idle_def)
qed

definition demo_attach :: "string \<Rightarrow> string option \<Rightarrow> control_message" where
  "demo_attach sid boot = AttachSession \<lparr>as_session_id = sid, as_viewer_label = None,
     as_feature_flags = \<lparr>synthetic_media = False, stats_export = False, extra = []\<rparr>, as_turn_uris = [], as_boot_secret = boot\<rparr>"

definition demo_policy :: "string \<Rightarrow> bool \<Rightarrow> bool \<Rightarrow> control_message" where
  "demo_policy sid inp unatt = SetPolicy \<lparr>sp_session_id = sid, sp_enable_input = inp, sp_unattended = unatt,
     sp_max_bitrate_bps = 0, sp_disable_hw_encode = False\<rparr>"

definition demo_manager :: "(unit, stub_injector) session_manager" where
  "demo_manager = manager_with_peer () demo_injector"

definition demo_agent :: "(unit, stub_injector) agent_session" where
  "demo_agent = \<lparr>agent_state_of = \<lparr>ag_session_id = Some ''s'', media_started = False, enable_input = True, unattended = False,
       chrome_visible = True, killed = False, unattended_disabled = False\<rparr>,
     manager = demo_bound\<lparr>hm_data := [\<lparr>dm_label = ''input'', dm_data = [], dm_unordered = False\<rparr>]\<rparr>\<rparr>"

lemma demo_agent_reachable: "session_reachable demo_env demo_agent"
proof -
  obtain a1 where a1: "agent_session_handle demo_env demo_injector (demo_attach ''s'' None) (with_manager demo_manager) = Some (agent_ack ''attach_session'' (Some ''s''), a1)"
      "agent_state_of a1 = \<lparr>ag_session_id = Some ''s'', media_started = False, enable_input = False, unattended = False,
       chrome_visible = True, killed = False, unattended_disabled = False\<rparr>"
    by (simp add: agent_session_handle_def demo_attach_def with_manager_def default_agent_def agent_ack_def)
  obtain a2 where a2: "agent_session_handle demo_env demo_injector (demo_policy ''s'' True False) a1 = Some (agent_ack ''set_policy'' (Some ''s''), a2)"
      "agent_state_of a2 = agent_state_of demo_agent"
    by (simp add: agent_session_handle_def demo_policy_def a1(2) agent_defs sync_input_policy_def demo_agent_def)
  have "session_step demo_env (with_manager demo_manager) a1" "session_step demo_env a1 a2"
    by (rule session_step.control [OF a1(1)], rule session_step.control [OF a2(1)])
  moreover have "session_step demo_env a2 (a2\<lparr>manager := manager demo_agent\<rparr>)" by (rule session_step.local_use)
  moreover have "a2\<lparr>manager := manager demo_agent\<rparr> = demo_agent" using a2(2) by (cases a2) (simp add: demo_agent_def)
  ultimately have "(session_step demo_env)\<^sup>*\<^sup>* (with_manager demo_manager) demo_agent"
    by (metis (no_types, lifting) converse_rtranclp_into_rtranclp rtranclp.rtrancl_refl)
  then show ?thesis unfolding session_reachable_def by blast
qed

lemma demo_agent_polls:
  "\<exists>r a'. agent_poll_inbound demo_env (\<lambda>_. (5, 5)) demo_agent = Some (r, a') \<and>
     recorded (inner (hm_injector (manager a'))) = [demo_key] \<and> recorded (inner (hm_injector (manager demo_agent))) = []"
  by (simp add: agent_poll_inbound_def sync_input_policy_def set_input_policy_enabled_def poll_inbound_def on_peer_def
      IDENTITY_CHANNEL_LABEL_def INPUT_CHANNEL_LABEL_def demo_agent_def
      process_input_message_def injection_allowed_def demo_bound_def input_allowed_def str_from_utf8_def
      demo_env_def try_inject_def roll_window_if_needed_def as_secs_def demo_injector_def new_rate_limited_def
      manager_attach_def stub_inject_def push_accepted_input_def ACCEPTED_INPUT_CAP_def Let_def new_stub_injector_def
      word_le_nat_alt manager_with_peer_def)

theorem remote_input_only_with_chrome_witness:
  "\<exists>r a'. agent_poll_inbound demo_env (\<lambda>_. (5, 5)) demo_agent = Some (r, a') \<and>
     recorded (inner (hm_injector (manager a'))) = [demo_key] \<and> chrome_visible (agent_state_of demo_agent)"
proof -
  obtain r a' where p: "agent_poll_inbound demo_env (\<lambda>_. (5, 5)) demo_agent = Some (r, a')"
      "recorded (inner (hm_injector (manager a'))) = [demo_key]" "recorded (inner (hm_injector (manager demo_agent))) = []"
    using demo_agent_polls by blast
  then have "hm_injector (manager a') \<noteq> hm_injector (manager demo_agent)" by force
  from remote_input_only_with_chrome [OF demo_agent_reachable p(1) this] p show ?thesis by blast
qed

lemma media_method_replies_Nil [simp]: "media_method_replies msg = []"
  using method_name_listed [of msg] no_media_methods by (auto simp: media_method_replies_def filter_empty_conv)

lemma boot_secret_ok_iff: "boot_secret_ok (Some s) p \<longleftrightarrow> p = Some s"
  by (auto simp: boot_secret_ok_def split: option.splits)

definition presents :: "string \<Rightarrow> control_message \<Rightarrow> bool" where
  "presents s msg \<longleftrightarrow> (\<exists>r. msg = AttachSession r \<and> as_boot_secret r = Some s)"

definition refused :: "control_message \<Rightarrow> bool" where
  "refused reply \<longleftrightarrow> reply = drain_complete \<or> (\<exists>m sid. reply = agent_err AUTH_FAILED m sid)"

lemma serve_unauthenticated:
  assumes "ag_session_id (agent_state_of a) = None" "\<not> presents s msg"
  shows "\<exists>sent. serve_message E fresh rebuild pump (Some s) msg a = Some (sent, Inr a) \<and> list_all refused sent"
  using assms
  by (cases msg) (auto simp: serve_message_def Let_def presents_def boot_secret_ok_iff auth_failed_def refused_def)

text \<open>
  The boot secret gates the control channel. An agent started with a boot secret and not yet
  attached answers every message of a connection with \<open>auth_failed\<close> and stays exactly as it was,
  until an attach presents that very secret.
\<close>

theorem boot_secret_gates_control:
  assumes "ag_session_id (agent_state_of a) = None" and "list_all (\<lambda>msg. \<not> presents s msg) msgs"
  shows "\<exists>sent. serve_messages E fresh rebuild pump (Some s) msgs a = Some (sent, Inr a) \<and> list_all refused sent"
  using assms(2)
proof (induction msgs)
  case (Cons msg msgs)
  then obtain sent where "serve_messages E fresh rebuild pump (Some s) msgs a = Some (sent, Inr a)" "list_all refused sent"
    by auto
  moreover obtain sent' where "serve_message E fresh rebuild pump (Some s) msg a = Some (sent', Inr a)" "list_all refused sent'"
    using serve_unauthenticated [OF assms(1)] Cons.prems by fastforce
  ultimately show ?case by simp
qed simp

theorem boot_secret_gates_control_witness:
  "\<exists>sent. serve_messages demo_env demo_injector (Inr demo_manager) (\<lambda>m. m) (Some ''k'')
     [demo_policy ''s'' True True, demo_attach ''s'' None, demo_attach ''s'' (Some ''K'')] (with_manager demo_manager) =
       Some (sent, Inr (with_manager demo_manager)) \<and> list_all refused sent"
  by (rule boot_secret_gates_control) (simp_all add: presents_def demo_policy_def demo_attach_def with_manager_def default_agent_def)

section \<open>What a detach forgets\<close>

text \<open>
  The kill-switch's latch on unattended access lives in the agent, and the serving loop builds a new
  agent after every acknowledged detach: one detach over the connection clears the latch that only
  the local host is meant to clear, and the next session is granted unattended access.
\<close>

lemma detach_forgets_unattended_latch:
  "\<exists>sent a. serve_messages demo_env demo_injector (Inr demo_manager) (\<lambda>m. m) None
     [demo_attach ''s1'' None, service_kill_switch (Some ''s1''), DetachSession \<lparr>ds_session_id = ''s1'', ds_reason = None\<rparr>,
      demo_attach ''s2'' None, demo_policy ''s2'' True True] (with_manager demo_manager) = Some (sent, Inr a) \<and>
     unattended (agent_state_of a)"
  by (simp add: serve_message_def agent_session_handle_def demo_attach_def demo_policy_def service_kill_switch_def
      agent_defs with_manager_def demo_manager_def boot_secret_ok_def agent_take_outbound_def take_outbound_signals_def
      manager_attach_def manager_detach_def manager_stop_media_def manager_with_peer_def sync_input_policy_def
      set_input_policy_enabled_def may_pump_def on_peer_def demo_env_def)

end
