(* ===== verification/Double.thy ===== *)
theory Double
  imports RL_Prelude Complex_Main "HOL-Library.Log_Nat"
begin

text \<open>
  Double-precision arithmetic. A finite \<open>f64\<close> is the rational number it stands for, and an operation of
  the code rounds its exact result to the nearest representable number, ties to even (\<open>rnd64\<close>). The
  values of this development are far below the largest \<open>f64\<close>, so nothing overflows to an infinity,
  and no operand is a NaN.
\<close>

section \<open>Double precision\<close>

type_synonym double = rat

definition round_even :: "rat \<Rightarrow> int" where
  "round_even q =
     (let f = floor q; r = q - of_int f in
      if r < 1 / 2 then f else if r > 1 / 2 then f + 1 else if even f then f else f + 1)"

abbreviation pow2 :: "int \<Rightarrow> rat" where
  "pow2 e \<equiv> 2 powi e"

text \<open>The binary exponent of a positive number: \<open>pow2 (exponent q) \<le> q < pow2 (exponent q + 1)\<close>.\<close>

definition exponent :: "rat \<Rightarrow> int" where
  "exponent q =
     (case quotient_of q of (n, d) \<Rightarrow>
        let e = bitlen n - bitlen d in if pow2 e \<le> q then e else e - 1)"

definition rnd64 :: "rat \<Rightarrow> double" where
  "rnd64 q =
     (if q = 0 then 0
      else let e = max (exponent \<bar>q\<bar> - 52) (- 1074) in of_int (round_even (q / pow2 e)) * pow2 e)"

text \<open>
  \<open>Duration::as_secs_f64\<close>, and \<open>Duration::from_secs_f64\<close> for a number that is not negative and
  small enough (it rounds to the nearest nanosecond).
\<close>

definition as_secs_f64 :: "duration \<Rightarrow> double" where
  "as_secs_f64 d = rnd64 (rnd64 (of_nat (as_secs d)) + rnd64 (of_nat (d mod 1000000000) / 1000000000))"

definition from_secs_f64 :: "double \<Rightarrow> duration" where
  "from_secs_f64 s = nat (round_even (s * 1000000000))"

text \<open>The literal \<open>0.001\<close>.\<close>

definition milli :: double where
  "milli = rnd64 (1 / 1000)"

section \<open>Rounding\<close>

lemma round_even_int [simp]: "round_even (of_int z) = z"
  by (simp add: round_even_def)

lemma round_even_nonneg: "0 \<le> q \<Longrightarrow> 0 \<le> round_even q"
  by (auto simp: round_even_def Let_def)

lemma rnd64_0 [simp]: "rnd64 0 = 0"
  by (simp add: rnd64_def)

lemma rnd64_nonneg: "0 \<le> q \<Longrightarrow> 0 \<le> rnd64 q"
  by (auto simp: rnd64_def Let_def round_even_nonneg less_imp_le)

text \<open>An integer of up to 53 bits is representable, so it is its own rounding.\<close>

lemma exponent_int:
  assumes "0 < z" and "z < 2 ^ 53"
  shows "exponent (of_int z) \<le> 52"
proof -
  have q: "quotient_of (of_int z) = (z, 1)" by (simp add: quotient_of_int)
  have b1: "bitlen 1 = 1" by (simp add: bitlen_def floorlog_def)
  have "bitlen z \<le> 53" using bitlen_le_iff_power [of z 53] assms by simp
  then show ?thesis by (simp add: exponent_def q b1 Let_def)
qed

lemma rnd64_of_int:
  assumes "\<bar>z\<bar> < 2 ^ 53"
  shows "rnd64 (of_int z) = of_int z"
proof (cases "z = 0")
  case False
  define e where "e = max (exponent \<bar>of_int z\<bar> - 52) (- 1074)"
  have "exponent \<bar>of_int z\<bar> \<le> 52" using exponent_int [of "\<bar>z\<bar>"] False assms by simp
  then have e: "e \<le> 0" by (simp add: e_def)
  have p: "pow2 e = 1 / 2 ^ nat (- e)"
    using e by (cases "e = 0") (simp_all add: power_int_def power_inverse inverse_eq_divide power_one_over)
  have "of_int z / pow2 e = (of_int (z * 2 ^ nat (- e)) :: rat)" by (simp add: p)
  then have "rnd64 (of_int z) = of_int (z * 2 ^ nat (- e)) * pow2 e"
    using False by (simp only: rnd64_def Let_def e_def [symmetric] round_even_int if_False of_int_eq_0_iff)
  also have "\<dots> = of_int z" by (simp add: p)
  finally show ?thesis .
qed simp

lemma rnd64_of_nat: "n < 2 ^ 53 \<Longrightarrow> rnd64 (of_nat n) = of_nat n"
  using rnd64_of_int [of "int n"] by simp

text \<open>Rounding is monotone: each binade's results lie between its two ends.\<close>

lemma round_even_cases: "round_even q = floor q \<or> round_even q = floor q + 1"
  by (simp add: round_even_def Let_def)

lemma round_even_mono:
  assumes "p \<le> q"
  shows "round_even p \<le> round_even q"
proof (cases "floor p = floor q")
  case True
  with assms show ?thesis by (auto simp: round_even_def Let_def)
next
  case False
  with floor_mono [OF assms] have "floor p + 1 \<le> floor q" by simp
  then show ?thesis using round_even_cases [of p] round_even_cases [of q] by linarith
qed

lemma bitlen_powi: "0 < n \<Longrightarrow> pow2 (bitlen n - 1) \<le> of_int n \<and> of_int n < pow2 (bitlen n)"
proof -
  assume n: "0 < n"
  then have b: "0 < bitlen n" using bitlen_nonneg [of n] bitlen_eq_zero_iff [of n] by linarith
  from bitlen_bounds [OF n] have "2 ^ nat (bitlen n - 1) \<le> n" "n < 2 ^ nat (bitlen n)" by auto
  then have "(2 ^ nat (bitlen n - 1) :: rat) \<le> of_int n" "(of_int n :: rat) < 2 ^ nat (bitlen n)"
    by (metis of_int_le_iff of_int_numeral of_int_power, metis of_int_less_iff of_int_numeral of_int_power)
  with b show ?thesis by (simp add: power_int_def)
qed

lemma exponent_bounds:
  assumes "0 < q"
  shows "pow2 (exponent q) \<le> q \<and> q < pow2 (exponent q + 1)"
proof -
  obtain n d where nd: "quotient_of q = (n, d)" by (cases "quotient_of q")
  have d: "0 < d" and q: "q = of_int n / of_int d" and n: "0 < n"
    using quotient_of_denom_pos [OF nd] quotient_of_div [OF nd] assms
    by (auto simp: zero_less_divide_iff)
  let ?e = "bitlen n - bitlen d"
  have N: "pow2 (bitlen n - 1) \<le> of_int n" "of_int n < pow2 (bitlen n)"
    and D: "pow2 (bitlen d - 1) \<le> of_int d" "of_int d < pow2 (bitlen d)"
    using bitlen_powi [OF n] bitlen_powi [OF d] by auto
  have d': "(0::rat) < of_int d" using d by simp
  have "of_int n < pow2 (?e + 1) * pow2 (bitlen d - 1)"
    using N(2) by (simp flip: power_int_add)
  also have "\<dots> \<le> pow2 (?e + 1) * of_int d" using D(1) by (intro mult_left_mono) simp_all
  finally have up: "q < pow2 (?e + 1)" using d' by (simp add: q divide_less_eq)
  have "pow2 (?e - 1) * of_int d \<le> pow2 (?e - 1) * pow2 (bitlen d)"
    using D(2) by (intro mult_left_mono) simp_all
  also have "\<dots> \<le> of_int n" using N(1) by (simp flip: power_int_add)
  finally have "pow2 (?e - 1) \<le> q" using d' by (simp add: q le_divide_eq)
  with up show ?thesis by (auto simp: exponent_def nd Let_def)
qed

lemma rnd64_pos: "0 < q \<Longrightarrow> rnd64 q = of_int (round_even (q / pow2 (max (exponent q - 52) (- 1074)))) * pow2 (max (exponent q - 52) (- 1074))"
  by (simp add: rnd64_def Let_def)

lemma rnd64_below:
  assumes "0 < q" and "q \<le> pow2 k" and "- 1074 \<le> k" and "exponent q < k"
  shows "rnd64 q \<le> pow2 k"
proof -
  define e where "e = max (exponent q - 52) (- 1074)"
  have k: "0 \<le> k - e" using assms(3,4) by (auto simp: e_def)
  have "q / pow2 e \<le> pow2 (k - e)" using assms(2) by (simp add: power_int_diff divide_right_mono)
  also have "\<dots> = of_int (2 ^ nat (k - e))" using k by (simp add: power_int_def)
  finally have "round_even (q / pow2 e) \<le> 2 ^ nat (k - e)" using round_even_mono round_even_int by metis
  then have "of_int (round_even (q / pow2 e)) \<le> (of_int (2 ^ nat (k - e)) :: rat)" by (simp only: of_int_le_iff)
  also have "\<dots> = pow2 (k - e)" using k by (simp add: power_int_def)
  finally have "of_int (round_even (q / pow2 e)) * pow2 e \<le> pow2 (k - e) * pow2 e"
    by (intro mult_right_mono) simp_all
  then show ?thesis using assms(1) by (simp add: rnd64_pos e_def [symmetric] power_int_diff)
qed

lemma rnd64_above:
  assumes "0 < q" and "pow2 k \<le> q" and "k = exponent q" and "- 1074 \<le> k"
  shows "pow2 k \<le> rnd64 q"
proof -
  define e where "e = max (exponent q - 52) (- 1074)"
  have k: "0 \<le> k - e" using assms(3,4) by (auto simp: e_def)
  have "of_int (2 ^ nat (k - e)) = pow2 (k - e)" using k by (simp add: power_int_def)
  also have "\<dots> \<le> q / pow2 e" using assms(2) by (simp add: power_int_diff divide_right_mono)
  finally have "2 ^ nat (k - e) \<le> round_even (q / pow2 e)" using round_even_mono round_even_int by metis
  then have "(of_int (2 ^ nat (k - e)) :: rat) \<le> of_int (round_even (q / pow2 e))" by (simp only: of_int_le_iff)
  then have "pow2 (k - e) \<le> of_int (round_even (q / pow2 e))" using k by (simp add: power_int_def)
  then have "pow2 (k - e) * pow2 e \<le> of_int (round_even (q / pow2 e)) * pow2 e"
    by (intro mult_right_mono) simp_all
  then show ?thesis using assms(1) by (simp add: rnd64_pos e_def [symmetric] power_int_diff)
qed

lemma rnd64_mono:
  assumes "0 \<le> p" and "p \<le> q"
  shows "rnd64 p \<le> rnd64 q"
proof (cases "p = 0")
  case True
  with assms show ?thesis using rnd64_nonneg by simp
next
  case False
  with assms have p: "0 < p" and q: "0 < q" by simp_all
  have le: "exponent p \<le> exponent q"
  proof (rule ccontr)
    assume "\<not> exponent p \<le> exponent q"
    then have "pow2 (exponent q + 1) \<le> pow2 (exponent p)" by (intro power_int_increasing) auto
    with exponent_bounds [OF p] exponent_bounds [OF q] assms(2) show False by linarith
  qed
  show ?thesis
  proof (cases "max (exponent p - 52) (- 1074) = max (exponent q - 52) (- 1074)")
    case True
    have "p / pow2 (max (exponent p - 52) (- 1074)) \<le> q / pow2 (max (exponent p - 52) (- 1074))"
      using assms(2) by (simp add: divide_right_mono)
    from round_even_mono [OF this] show ?thesis
      by (simp add: rnd64_pos p q True [symmetric] mult_right_mono)
  next
    case False
    with le have k: "exponent p < exponent q" "- 1074 \<le> exponent q" by auto
    have "p < pow2 (exponent p + 1)" using exponent_bounds [OF p] by simp
    also have "\<dots> \<le> pow2 (exponent q)" using k(1) by (intro power_int_increasing) auto
    finally have "rnd64 p \<le> pow2 (exponent q)" using k by (intro rnd64_below [OF p]) auto
    also have "\<dots> \<le> rnd64 q" using exponent_bounds [OF q] k(2) by (intro rnd64_above [OF q]) auto
    finally show ?thesis .
  qed
qed

lemma as_secs_f64_0 [simp]: "as_secs_f64 0 = 0"
  by (simp add: as_secs_f64_def as_secs_def)
section \<open>Signs, order and conversions\<close>

lemma round_even_uminus: "round_even (- q) = - round_even q"
proof -
  let ?f = "floor q"
  have f: "of_int ?f \<le> q" "q < of_int ?f + 1" by linarith+
  show ?thesis
  proof (cases "q = of_int ?f")
    case True
    then show ?thesis by (metis of_int_minus round_even_int)
  next
    case False
    with f(1) have "of_int ?f < q" by linarith
    with f have "floor (- q) = - ?f - 1" by (intro floor_unique) auto
    then show ?thesis by (auto simp: round_even_def Let_def)
  qed
qed

lemma rnd64_uminus: "rnd64 (- q) = - rnd64 q"
  by (simp add: rnd64_def Let_def minus_divide_left [symmetric] round_even_uminus)

lemma rnd64_nonpos: "q \<le> 0 \<Longrightarrow> rnd64 q \<le> 0"
  using rnd64_nonneg [of "- q"] by (simp add: rnd64_uminus)

lemma rnd64_le: "p \<le> q \<Longrightarrow> rnd64 p \<le> rnd64 q"
proof (cases "0 \<le> p")
  case True
  assume "p \<le> q"
  with True show ?thesis by (rule rnd64_mono)
next
  case False
  assume pq: "p \<le> q"
  show ?thesis
  proof (cases "0 \<le> q")
    case True
    with False show ?thesis using rnd64_nonneg [of q] rnd64_nonpos [of p] by linarith
  next
    case nq: False
    with pq rnd64_mono [of "- q" "- p"] show ?thesis by (simp add: rnd64_uminus)
  qed
qed

lemma rnd64_1 [simp]: "rnd64 1 = 1"
  using rnd64_of_int [of 1] by simp

lemma rnd64_numeral: "numeral n < (2 ^ 53 :: int) \<Longrightarrow> rnd64 (numeral n) = numeral n"
  using rnd64_of_int [of "numeral n"] by simp

text \<open>Between two integers of up to 53 bits rounding stays between them.\<close>

lemma rnd64_between:
  assumes "of_int a \<le> q" "q \<le> of_int b" "\<bar>a\<bar> < 2 ^ 53" "\<bar>b\<bar> < 2 ^ 53"
  shows "of_int a \<le> rnd64 q" "rnd64 q \<le> of_int b"
  using rnd64_le [OF assms(1)] rnd64_le [OF assms(2)] assms(3,4) by (simp_all add: rnd64_of_int)

text \<open>\<open>f64::round\<close>: to the nearest integer, ties away from zero.\<close>

definition round_away :: "double \<Rightarrow> int" where
  "round_away q = (if 0 \<le> q then floor (q + 1 / 2) else - floor (- q + 1 / 2))"

lemma round_away_between:
  assumes "of_int a \<le> q" "q \<le> of_int b"
  shows "a \<le> round_away q" "round_away q \<le> b"
proof -
  have "a \<le> round_away q \<and> round_away q \<le> b"
  proof (cases "0 \<le> q")
    case True
    have "floor (q + 1 / 2) < b + 1" unfolding floor_less_iff using assms(2) by simp
    moreover have "a \<le> floor (q + 1 / 2)" unfolding le_floor_iff using assms(1) by simp
    ultimately show ?thesis using True by (simp add: round_away_def)
  next
    case False
    have "floor (- q + 1 / 2) < - a + 1" unfolding floor_less_iff using assms(1) by simp
    moreover have "- b \<le> floor (- q + 1 / 2)" unfolding le_floor_iff using assms(2) by simp
    ultimately show ?thesis using False by (simp add: round_away_def)
  qed
  then show "a \<le> round_away q" "round_away q \<le> b" by simp_all
qed

text \<open>\<open>as u64\<close> of an \<open>f64\<close>: towards zero, saturating.\<close>

definition to_u64 :: "double \<Rightarrow> u64" where
  "to_u64 q = (if q \<le> 0 then 0 else if q \<ge> 2 ^ 64 then - 1 else of_int (floor q))"

definition fclamp :: "double \<Rightarrow> double \<Rightarrow> double \<Rightarrow> double" where
  "fclamp lo hi q = (if q < lo then lo else if q > hi then hi else q)"

lemma fclamp_bounds: "lo \<le> hi \<Longrightarrow> lo \<le> fclamp lo hi q \<and> fclamp lo hi q \<le> hi"
  by (simp add: fclamp_def)

lemma fclamp_mono: "lo \<le> hi \<Longrightarrow> p \<le> q \<Longrightarrow> fclamp lo hi p \<le> fclamp lo hi q"
  by (auto simp: fclamp_def)

text \<open>Seconds of a duration below one second, and their order.\<close>

lemma as_secs_f64_small: "d < secs 1 \<Longrightarrow> as_secs_f64 d = rnd64 (rnd64 (of_nat d / 1000000000))"
  by (simp add: as_secs_f64_def as_secs_def)

lemma as_secs_f64_small_mono: "c \<le> d \<Longrightarrow> d < secs 1 \<Longrightarrow> as_secs_f64 c \<le> as_secs_f64 d"
  by (simp add: as_secs_f64_small rnd64_le divide_right_mono)

lemma as_secs_f64_nonneg: "0 \<le> as_secs_f64 d"
  by (simp add: as_secs_f64_def rnd64_nonneg)

end
