(* ===== verification/Freeze.thy ===== *)
theory Freeze
  imports Double
begin

text \<open>
  What the viewer does with the sound while the picture is frozen (\<open>packages/media/src/freeze.rs\<close>): hold,
  fade, silence. A sample is an \<open>i16\<close>, a gain an \<open>f64\<close>.
\<close>

type_synonym i16 = "16 word"

datatype audio_on_video_freeze = HoldFade | Duck | Continue

record freeze_config =
  freeze_threshold :: duration
  hold_duration :: duration
  fade_duration :: duration
  freeze_mode :: audio_on_video_freeze
  duck_q15 :: i16

definition default_freeze_config :: freeze_config where
  "default_freeze_config = \<lparr>freeze_threshold = millis 200, hold_duration = millis 100, fade_duration = millis 100,
     freeze_mode = HoldFade, duck_q15 = 8192\<rparr>"

datatype freeze_state = Normal | Holding duration | Fading duration | Silent | Ducked

record freeze_output =
  fo_state :: freeze_state
  fo_gain :: double
  hold_last_audio :: bool

record freeze_policy =
  fp_cfg :: freeze_config
  fp_state :: freeze_state
  last_video_pts :: "duration option"

definition new_freeze_policy :: "freeze_config \<Rightarrow> freeze_policy" where
  "new_freeze_policy cfg = \<lparr>fp_cfg = cfg, fp_state = Normal, last_video_pts = None\<rparr>"

definition on_video_frame :: "duration \<Rightarrow> freeze_policy \<Rightarrow> freeze_policy" where
  "on_video_frame now p = p\<lparr>last_video_pts := Some now, fp_state := Normal\<rparr>"

text \<open>The literal \<open>1e-9\<close>, and the gain while fading.\<close>

definition nano :: double where
  "nano = rnd64 (1 / 1000000000)"

definition fade_gain :: "duration \<Rightarrow> duration \<Rightarrow> double" where
  "fade_gain fade elapsed =
     (let t = rnd64 (as_secs_f64 elapsed / max (as_secs_f64 fade) nano) in fclamp 0 1 (rnd64 (1 - t)))"

definition freeze_tick :: "duration \<Rightarrow> freeze_policy \<Rightarrow> freeze_output \<times> freeze_policy" where
  "freeze_tick now p =
     (let cfg = fp_cfg p; pass = \<lparr>fo_state = Normal, fo_gain = 1, hold_last_audio = False\<rparr> in
      if freeze_mode cfg = Continue then (pass, p)
      else case last_video_pts p of
        None \<Rightarrow> (pass, p)
      | Some shown \<Rightarrow>
          (let frozen_for = now - shown in
           if frozen_for \<le> freeze_threshold cfg then (pass, p\<lparr>fp_state := Normal\<rparr>)
           else let since_freeze = frozen_for - freeze_threshold cfg in
             if freeze_mode cfg = Duck then
               (\<lparr>fo_state = Ducked, fo_gain = rnd64 (of_int (sint (duck_q15 cfg)) / 32768), hold_last_audio = False\<rparr>,
                p\<lparr>fp_state := Ducked\<rparr>)
             else if since_freeze < hold_duration cfg then
               (\<lparr>fo_state = Holding since_freeze, fo_gain = 1, hold_last_audio = True\<rparr>, p\<lparr>fp_state := Holding since_freeze\<rparr>)
             else let fade_elapsed = since_freeze - hold_duration cfg in
               if fade_elapsed < fade_duration cfg then
                 (\<lparr>fo_state = Fading fade_elapsed, fo_gain = fade_gain (fade_duration cfg) fade_elapsed, hold_last_audio = True\<rparr>,
                  p\<lparr>fp_state := Fading fade_elapsed\<rparr>)
               else (\<lparr>fo_state = Silent, fo_gain = 0, hold_last_audio = False\<rparr>, p\<lparr>fp_state := Silent\<rparr>)))"

text \<open>The literal \<open>1e-12\<close>, and one sample times the gain.\<close>

definition pico :: double where
  "pico = rnd64 (1 / 1000000000000)"

definition scale_sample :: "double \<Rightarrow> i16 \<Rightarrow> i16" where
  "scale_sample g s = of_int (max (- 32768) (min 32767 (round_away (rnd64 (of_int (sint s) * g)))))"

definition apply_gain :: "double \<Rightarrow> i16 list \<Rightarrow> i16 list" where
  "apply_gain gain pcm =
     (let g = fclamp 0 1 gain in
      if \<bar>rnd64 (g - 1)\<bar> < pico then pcm
      else if g \<le> 0 then map (\<lambda>_. 0) pcm
      else map (scale_sample g) pcm)"

section \<open>Fading\<close>

lemma sint_i16: "- 32768 \<le> sint (s :: i16)" "sint (s :: i16) \<le> 32767"
  using sint_ge [of s] sint_lt [of s] by simp_all

lemma sint_of_int_i16: "- 32768 \<le> z \<Longrightarrow> z \<le> 32767 \<Longrightarrow> sint (of_int z :: i16) = z"
  by (simp add: signed_of_int signed_take_bit_int_eq_self)

lemma scale_sample_amplitude:
  assumes "0 \<le> g" "g \<le> 1"
  shows "\<bar>sint (scale_sample g s)\<bar> \<le> \<bar>sint s\<bar>"
proof -
  define z where "z = sint s"
  define v where "v = round_away (rnd64 (of_int z * g))"
  have z: "- 32768 \<le> z" "z \<le> 32767" using sint_i16 by (simp_all add: z_def)
  have "of_int (- \<bar>z\<bar>) \<le> of_int z * g \<and> of_int z * g \<le> (of_int \<bar>z\<bar> :: rat)"
  proof (cases "0 \<le> z")
    case True
    then have "0 \<le> of_int z * g" "of_int z * g \<le> (of_int z :: rat)" "(0 :: rat) \<le> of_int z"
      using assms by (simp_all add: mult_left_le)
    then have "- of_int z \<le> of_int z * g" "of_int z * g \<le> (of_int z :: rat)" by linarith+
    with True show ?thesis by (simp only: abs_of_nonneg of_int_minus simp_thms)
  next
    case False
    then have "- (of_int z) * g \<le> - (of_int z :: rat) * 1" using assms by (intro mult_left_mono) simp_all
    moreover have "of_int z * g \<le> (0 :: rat)" using False assms by (simp add: mult_nonpos_nonneg)
    ultimately show ?thesis using False by simp
  qed
  then have "of_int (- \<bar>z\<bar>) \<le> rnd64 (of_int z * g)" "rnd64 (of_int z * g) \<le> of_int \<bar>z\<bar>"
    using rnd64_between [of "- \<bar>z\<bar>" "of_int z * g" "\<bar>z\<bar>"] z by auto
  from round_away_between [OF this] have v: "- \<bar>z\<bar> \<le> v" "v \<le> \<bar>z\<bar>" by (simp_all add: v_def)
  have "sint (scale_sample g s) = max (- 32768) (min 32767 v)"
    unfolding scale_sample_def z_def [symmetric] v_def [symmetric] by (rule sint_of_int_i16) auto
  with v z show ?thesis unfolding z_def [symmetric] by linarith
qed

lemma fade_gain_bounds: "0 \<le> fade_gain fade e" "fade_gain fade e \<le> 1"
  by (simp_all add: fade_gain_def Let_def fclamp_bounds)

lemma fade_gain_antimono:
  assumes "c \<le> d" "d < secs 1"
  shows "fade_gain fade d \<le> fade_gain fade c"
proof -
  have "0 \<le> max (as_secs_f64 fade) nano" using as_secs_f64_nonneg [of fade] by (simp add: max_def)
  then have "rnd64 (as_secs_f64 c / max (as_secs_f64 fade) nano) \<le> rnd64 (as_secs_f64 d / max (as_secs_f64 fade) nano)"
    using as_secs_f64_small_mono [OF assms] by (intro rnd64_le divide_right_mono)
  then show ?thesis by (simp add: fade_gain_def Let_def fclamp_mono rnd64_le)
qed

text \<open>The gain is a function of how long the picture has been frozen, whenever \<open>freeze_tick\<close> was called before.\<close>

definition gain_after :: "freeze_config \<Rightarrow> duration \<Rightarrow> double" where
  "gain_after cfg frozen =
     (if frozen < freeze_threshold cfg + hold_duration cfg \<or> frozen \<le> freeze_threshold cfg then 1
      else if frozen < freeze_threshold cfg + hold_duration cfg + fade_duration cfg
      then fade_gain (fade_duration cfg) (frozen - freeze_threshold cfg - hold_duration cfg)
      else 0)"

lemma tick_gain:
  assumes "freeze_mode (fp_cfg p) = HoldFade" "last_video_pts p = Some t"
  shows "fo_gain (fst (freeze_tick now p)) = gain_after (fp_cfg p) (now - t)"
proof -
  consider "now - t \<le> freeze_threshold (fp_cfg p)"
    | "freeze_threshold (fp_cfg p) < now - t" "now - t - freeze_threshold (fp_cfg p) < hold_duration (fp_cfg p)"
    | "freeze_threshold (fp_cfg p) < now - t" "hold_duration (fp_cfg p) \<le> now - t - freeze_threshold (fp_cfg p)"
    by linarith
  then show ?thesis
  proof cases
    case 1
    then show ?thesis using assms by (simp add: freeze_tick_def gain_after_def)
  next
    case 2
    then have "now - t < freeze_threshold (fp_cfg p) + hold_duration (fp_cfg p)" by linarith
    with 2 show ?thesis using assms by (simp add: freeze_tick_def gain_after_def Let_def)
  next
    case 3
    then have "\<not> now - t < freeze_threshold (fp_cfg p) + hold_duration (fp_cfg p)" by linarith
    moreover have "now - t - freeze_threshold (fp_cfg p) - hold_duration (fp_cfg p) < fade_duration (fp_cfg p) \<longleftrightarrow>
        now - t < freeze_threshold (fp_cfg p) + hold_duration (fp_cfg p) + fade_duration (fp_cfg p)" using 3 by linarith
    ultimately show ?thesis using assms 3 by (simp add: freeze_tick_def gain_after_def Let_def)
  qed
qed

lemma tick_keeps: "fp_cfg (snd (freeze_tick now p)) = fp_cfg p" "last_video_pts (snd (freeze_tick now p)) = last_video_pts p"
  by (auto simp: freeze_tick_def Let_def split: option.split)

lemma ticks_keep:
  "fp_cfg (fold (\<lambda>now p. snd (freeze_tick now p)) polls p) = fp_cfg p \<and>
   last_video_pts (fold (\<lambda>now p. snd (freeze_tick now p)) polls p) = last_video_pts p"
  by (induction polls arbitrary: p) (simp_all add: tick_keeps)

lemma gain_after_antimono:
  assumes "c \<le> d" "fade_duration cfg < secs 1"
  shows "gain_after cfg d \<le> gain_after cfg c"
proof (cases "freeze_threshold cfg + hold_duration cfg \<le> c \<and> freeze_threshold cfg < c \<and>
    d < freeze_threshold cfg + hold_duration cfg + fade_duration cfg")
  case True
  with assms fade_gain_antimono [of "c - freeze_threshold cfg - hold_duration cfg" "d - freeze_threshold cfg - hold_duration cfg"]
  show ?thesis by (auto simp: gain_after_def)
next
  case False
  with assms(1) show ?thesis by (auto simp: gain_after_def fade_gain_bounds)
qed

lemma gain_after_bounds: "0 \<le> gain_after cfg d" "gain_after cfg d \<le> 1"
  by (simp_all add: gain_after_def fade_gain_bounds)

lemma apply_gain_amplitude:
  assumes "0 \<le> g" "g \<le> 1"
  shows "list_all2 (\<lambda>x y. \<bar>sint y\<bar> \<le> \<bar>sint x\<bar>) pcm (apply_gain g pcm)"
  using assms
  by (auto simp: apply_gain_def Let_def fclamp_def list_all2_conv_all_nth scale_sample_amplitude)

lemma pico_le: "pico \<le> 1"
  using rnd64_le [of "1 / 1000000000000" 1] by (simp add: pico_def)

lemma apply_gain_0: "apply_gain 0 pcm = map (\<lambda>_. 0) pcm"
  using pico_le rnd64_uminus [of 1] by (simp add: apply_gain_def fclamp_def)

text \<open>
  A frozen picture fades the sound and nothing else. When the picture was last shown at \<open>t\<close>, the gain depends only on
  how long that is ago, however often the policy was polled in between: it never rises while the
  picture stays frozen, the samples never get louder than they were, and after threshold, hold and
  fade every sample is silent.
\<close>

theorem frozen_video_fades_audio:
  fixes t now1 now2 :: duration
  assumes "freeze_mode (fp_cfg p) = HoldFade" and "fade_duration (fp_cfg p) < secs 1" and "now1 \<le> now2"
  defines "q \<equiv> on_video_frame t p"
  defines "gain \<equiv> \<lambda>polls now. fo_gain (fst (freeze_tick now (fold (\<lambda>n q. snd (freeze_tick n q)) polls q)))"
  shows "gain polls2 now2 \<le> gain polls1 now1 \<and>
    list_all2 (\<lambda>x y. \<bar>sint y\<bar> \<le> \<bar>sint x\<bar>) pcm (apply_gain (gain polls1 now1) pcm) \<and>
    (freeze_threshold (fp_cfg p) + hold_duration (fp_cfg p) + fade_duration (fp_cfg p) < now2 - t \<longrightarrow>
       apply_gain (gain polls2 now2) pcm = map (\<lambda>_. 0) pcm)"
proof -
  have q: "fp_cfg q = fp_cfg p" "last_video_pts q = Some t" by (simp_all add: q_def on_video_frame_def)
  have g: "gain polls now = gain_after (fp_cfg p) (now - t)" for polls now
    using tick_gain [of "fold (\<lambda>n q. snd (freeze_tick n q)) polls q" t now] ticks_keep [of polls q] q assms(1)
    by (simp add: gain_def)
  have "now1 - t \<le> now2 - t" using assms(3) by simp
  from gain_after_antimono [OF this assms(2)] show ?thesis
    by (simp add: g apply_gain_amplitude gain_after_bounds) (auto simp: gain_after_def apply_gain_0)
qed

theorem frozen_video_fades_audio_witness:
  "apply_gain (fo_gain (fst (freeze_tick (millis 1401) (fold (\<lambda>n q. snd (freeze_tick n q)) [millis 1100, millis 1350]
       (on_video_frame (millis 1000) (new_freeze_policy default_freeze_config)))))) [1000, - 7] = [0, 0]"
  using frozen_video_fades_audio [where p = "new_freeze_policy default_freeze_config" and ?now1.0 = "millis 1350" and
      ?now2.0 = "millis 1401" and t = "millis 1000" and ?polls2.0 = "[millis 1100, millis 1350]" and pcm = "[1000, - 7]"]
  by (simp add: new_freeze_policy_def default_freeze_config_def)

end
