(* ===== verification/Skew.thy ===== *)
theory Skew
  imports Freeze
begin

text \<open>
  Keeping sound and picture together (\<open>packages/media/src/skew.rs\<close>): the controller that turns a measured skew into
  delay steps and a stretch ratio, and the linear resampler. A failed assertion is \<open>None\<close>.
\<close>

section \<open>The controller\<close>

record skew_config =
  deadband_ms :: double
  step_ms :: double
  max_adjust_rate_ms_per_s :: double
  max_stretch :: double

definition default_skew_config :: skew_config where
  "default_skew_config = \<lparr>deadband_ms = 15, step_ms = 5, max_adjust_rate_ms_per_s = 10, max_stretch = rnd64 (2 / 100)\<rparr>"

record skew_sample =
  audio_playout_host_equiv_ms :: double
  video_present_host_equiv_ms :: double

definition sample_skew_ms :: "skew_sample \<Rightarrow> double" where
  "sample_skew_ms s = rnd64 (audio_playout_host_equiv_ms s - video_present_host_equiv_ms s)"

record skew_decision =
  sd_skew_ms :: double
  sd_delay_adjust_ms :: double
  sd_resample_ratio :: double
  sd_in_deadband :: bool

record skew_controller =
  sk_cfg :: skew_config
  delay_offset_ms :: double
  last_step_wall_ms :: "double option"

definition new_skew_controller :: "skew_config \<Rightarrow> skew_controller" where
  "new_skew_controller cfg = \<lparr>sk_cfg = cfg, delay_offset_ms = 0, last_step_wall_ms = None\<rparr>"

definition with_defaults :: skew_controller where
  "with_defaults = new_skew_controller default_skew_config"

text \<open>\<open>f64::clamp\<close> panics when its bounds cross; the bounds here do not, as \<open>max_stretch\<close> is not negative.\<close>

definition stretch_ratio :: "skew_config \<Rightarrow> double \<Rightarrow> double" where
  "stretch_ratio cfg skew_ms =
     (let residual = (if skew_ms > 0 then rnd64 (skew_ms - deadband_ms cfg) else rnd64 (skew_ms + deadband_ms cfg));
          stretch = fclamp (- max_stretch cfg) (max_stretch cfg) (rnd64 (rnd64 (residual / 50) * max_stretch cfg))
      in fclamp (rnd64 (1 - max_stretch cfg)) (rnd64 (1 + max_stretch cfg)) (rnd64 (1 + stretch)))"

definition can_step :: "double \<Rightarrow> skew_controller \<Rightarrow> bool" where
  "can_step wall_ms c =
     (case last_step_wall_ms c of
        None \<Rightarrow> True
      | Some prev \<Rightarrow>
          rnd64 (max (rnd64 (wall_ms - prev)) 0 / 1000) \<ge> rnd64 (step_ms (sk_cfg c) / max_adjust_rate_ms_per_s (sk_cfg c)))"

definition skew_update :: "skew_sample \<Rightarrow> double \<Rightarrow> skew_controller \<Rightarrow> skew_decision \<times> skew_controller" where
  "skew_update sample wall_ms c =
     (let skew_ms = sample_skew_ms sample; cfg = sk_cfg c in
      if \<bar>skew_ms\<bar> \<le> deadband_ms cfg then
        (\<lparr>sd_skew_ms = skew_ms, sd_delay_adjust_ms = 0, sd_resample_ratio = 1, sd_in_deadband = True\<rparr>, c)
      else
        let step = (if can_step wall_ms c then (if skew_ms > 0 then step_ms cfg else - step_ms cfg) else 0);
            c1 = (if can_step wall_ms c
                  then c\<lparr>delay_offset_ms := rnd64 (delay_offset_ms c + step), last_step_wall_ms := Some wall_ms\<rparr> else c)
        in (\<lparr>sd_skew_ms = skew_ms, sd_delay_adjust_ms = step, sd_resample_ratio = stretch_ratio cfg skew_ms,
             sd_in_deadband = False\<rparr>, c1))"

definition skew_reset :: "skew_controller \<Rightarrow> skew_controller" where
  "skew_reset c = c\<lparr>delay_offset_ms := 0, last_step_wall_ms := None\<rparr>"

definition clamp_resample_ratio :: "double \<Rightarrow> double \<Rightarrow> double" where
  "clamp_resample_ratio ratio stretch = fclamp (rnd64 (1 - stretch)) (rnd64 (1 + stretch)) ratio"

section \<open>The resampler\<close>

text \<open>The sample of channel \<open>c\<close> in output frame \<open>k\<close>.\<close>

definition resample_at :: "i16 list \<Rightarrow> nat \<Rightarrow> nat \<Rightarrow> double \<Rightarrow> nat \<Rightarrow> nat \<Rightarrow> i16" where
  "resample_at input ch in_frames ratio k c =
     (let src = rnd64 (rnd64 (of_nat k) / ratio);
          j0 = nat (floor src);
          i1 = min (j0 + 1) (in_frames - 1);
          frac = fclamp 0 1 (rnd64 (src - rnd64 (of_nat j0)));
          i0 = min j0 (in_frames - 1);
          s0 = (of_int (sint (input ! (i0 * ch + c))) :: double);
          s1 = of_int (sint (input ! (i1 * ch + c)));
          v = rnd64 (s0 + rnd64 (rnd64 (s1 - s0) * frac))
      in of_int (max (- 32768) (min 32767 (round_away v))))"

definition linear_resample_i16 :: "i16 list \<Rightarrow> u16 \<Rightarrow> double \<Rightarrow> i16 list option" where
  "linear_resample_i16 input channels ratio0 =
     (if channels = 0 then None
      else if input = [] then Some []
      else let ch = unat channels in
        if length input mod ch \<noteq> 0 then None
        else let in_frames = length input div ch in
          if in_frames = 1 \<or> \<bar>rnd64 (ratio0 - 1)\<bar> < pico then Some input
          else let ratio = fclamp (rnd64 (1 / 1000000)) 1000000 ratio0;
                   out_frames = nat (max 1 (round_away (rnd64 (rnd64 (of_nat in_frames) * ratio))))
            in Some (concat (map (\<lambda>k. map (resample_at input ch in_frames ratio k) [0..<ch]) [0..<out_frames])))"

section \<open>What the controller promises\<close>

lemma stretch_bounds: "0 \<le> max_stretch cfg \<Longrightarrow>
    rnd64 (1 - max_stretch cfg) \<le> stretch_ratio cfg s \<and> stretch_ratio cfg s \<le> rnd64 (1 + max_stretch cfg)"
  by (simp add: stretch_ratio_def Let_def fclamp_bounds rnd64_le)

lemma default_stretch_pos: "0 \<le> max_stretch default_skew_config"
  by (simp add: default_skew_config_def rnd64_nonneg)

lemma skew_update_cfg [simp]: "sk_cfg (snd (skew_update s w c)) = sk_cfg c"
  by (simp add: skew_update_def Let_def)

text \<open>A run of updates, each with a sample and the wall clock.\<close>

definition skew_run :: "(skew_sample \<times> nat) list \<Rightarrow> skew_controller \<Rightarrow> skew_controller" where
  "skew_run us c = fold (\<lambda>(s, w) c. snd (skew_update s (of_nat w) c)) us c"

text \<open>The offset is a number of steps, and the steps are 500 ms apart.\<close>

definition stepped :: "nat \<Rightarrow> nat \<Rightarrow> skew_controller \<Rightarrow> bool" where
  "stepped start now c \<longleftrightarrow> sk_cfg c = default_skew_config \<and>
     (last_step_wall_ms c = None \<and> delay_offset_ms c = 0 \<or>
      (\<exists>w k. last_step_wall_ms c = Some (of_nat w) \<and> start \<le> w \<and> w \<le> now \<and> delay_offset_ms c = of_int (5 * k) \<and>
         \<bar>k\<bar> \<le> 1 + int ((w - start) div 500)))"

lemma half_second: "rnd64 (5 / 10) = 1 / 2" "rnd64 (499 / 1000) < 1 / 2"
  by code_simp+

lemma step_apart:
  assumes "w \<le> now" "now < 2 ^ 40" "sk_cfg c = default_skew_config" "last_step_wall_ms c = Some (of_nat w)"
    "can_step (of_nat now) c"
  shows "500 \<le> now - w"
proof (rule ccontr)
  assume "\<not> 500 \<le> now - w"
  then have lt: "now - w \<le> 499" by simp
  have d: "rnd64 (of_nat now - of_nat w :: rat) = of_nat (now - w)"
    using assms(1,2) rnd64_of_nat [of "now - w"] by (simp add: of_nat_diff)
  have "(of_nat (now - w) :: rat) \<le> of_nat 499" using lt by (simp only: of_nat_le_iff)
  then have "rnd64 (of_nat (now - w) / 1000) \<le> rnd64 (499 / 1000)" by (intro rnd64_le divide_right_mono) simp_all
  moreover have "max (of_nat (now - w)) 0 = (of_nat (now - w) :: rat)" by simp
  ultimately show False using assms(3-5) half_second by (simp add: can_step_def d default_skew_config_def)
qed

lemma skew_update_stepped:
  assumes "stepped start prev c" "start \<le> now" "prev \<le> now" "now < 2 ^ 40"
  shows "stepped start now (snd (skew_update s (of_nat now) c))"
proof (cases "\<bar>sample_skew_ms s\<bar> \<le> deadband_ms (sk_cfg c) \<or> \<not> can_step (of_nat now) c")
  case True
  then have "snd (skew_update s (of_nat now) c) = c" by (auto simp: skew_update_def Let_def)
  with assms(1,3) show ?thesis by (auto simp: stepped_def)
next
  case False
  have cfg: "sk_cfg c = default_skew_config" using assms(1) by (simp add: stepped_def)
  obtain j :: int where j: "\<bar>j\<bar> = 1" "snd (skew_update s (of_nat now) c) =
      c\<lparr>delay_offset_ms := rnd64 (delay_offset_ms c + of_int (5 * j)), last_step_wall_ms := Some (of_nat now)\<rparr>"
  proof (cases "sample_skew_ms s > 0")
    case True
    with False cfg that [of 1] show ?thesis by (simp add: skew_update_def Let_def default_skew_config_def)
  next
    case neg: False
    with False cfg that [of "- 1"] show ?thesis by (simp add: skew_update_def Let_def default_skew_config_def)
  qed
  obtain k where k: "delay_offset_ms c = of_int (5 * k)" "\<bar>k + j\<bar> \<le> 1 + int ((now - start) div 500)"
  proof (cases "last_step_wall_ms c")
    case None
    with assms(1) that [of 0] j(1) show ?thesis by (simp add: stepped_def)
  next
    case (Some v)
    then obtain w k where w: "last_step_wall_ms c = Some (of_nat w)" "start \<le> w" "w \<le> prev" "delay_offset_ms c = of_int (5 * k)"
        "\<bar>k\<bar> \<le> 1 + int ((w - start) div 500)"
      using assms(1) by (auto simp: stepped_def)
    have "500 \<le> now - w" using step_apart [of w now c] w assms(3,4) cfg False by auto
    then have "(w - start + 500) div 500 \<le> (now - start) div 500" using w(2) by (intro div_le_mono) linarith
    then have "1 + int ((w - start) div 500) \<le> int ((now - start) div 500)" by simp
    with w(4,5) j(1) show ?thesis by (intro that [of k]) linarith+
  qed
  have "(now - start) div 500 \<le> 1099511627776" using assms(4) by (simp add: div_le_mono)
  with k(2) have "\<bar>k + j\<bar> \<le> 1 + 1099511627776" by linarith
  then have "\<bar>5 * (k + j)\<bar> < 2 ^ 53" by simp
  from rnd64_of_int [OF this] have "rnd64 (delay_offset_ms c + of_int (5 * j)) = of_int (5 * (k + j))"
    by (simp only: k(1) of_int_add [symmetric] distrib_left [symmetric])
  with j(2) have c': "snd (skew_update s (of_nat now) c) =
      c\<lparr>delay_offset_ms := of_int (5 * (k + j)), last_step_wall_ms := Some (of_nat now)\<rparr>" by simp
  have "\<exists>w ka. Some (of_nat now :: double) = Some (of_nat w) \<and> start \<le> w \<and> w \<le> now \<and>
      (of_int (5 * (k + j)) :: rat) = of_int (5 * ka) \<and> \<bar>ka\<bar> \<le> 1 + int ((w - start) div 500)"
    using k(2) assms(2) by (intro exI [of _ now] exI [of _ "k + j"]) simp
  then show ?thesis using cfg unfolding stepped_def c' by simp
qed

lemma skew_run_stepped:
  "stepped start prev c \<Longrightarrow> start \<le> prev \<Longrightarrow> sorted (prev # map snd us) \<Longrightarrow> list_all (\<lambda>u. snd u < 2 ^ 40) us \<Longrightarrow>
     stepped start (last (prev # map snd us)) (skew_run us c)"
proof (induction us arbitrary: c prev)
  case (Cons u us)
  obtain s w where u: "u = (s, w)" by fastforce
  have "stepped start w (snd (skew_update s (of_nat w) c))"
    using Cons.prems u by (intro skew_update_stepped [OF Cons.prems(1)]) auto
  from Cons.IH [OF this] Cons.prems u show ?case by (simp add: skew_run_def)
qed (simp add: skew_run_def)

text \<open>
  Lip-sync is corrected gently. With the default settings, whatever skews are measured, the controller moves the audio
  delay by whole 5 ms steps at most once per half second (10 ms per second), and the stretch ratio it
  asks for stays within two per cent.
\<close>

theorem skew_correction_is_gentle:
  assumes "sorted (start # map snd us)" and "list_all (\<lambda>u. snd u < 2 ^ 40) us"
  defines "c \<equiv> skew_run us with_defaults"
  shows "(\<exists>k. delay_offset_ms c = of_int (5 * k) \<and> \<bar>k\<bar> \<le> 1 + int ((last (start # map snd us) - start) div 500)) \<and>
    rnd64 (1 - max_stretch default_skew_config) \<le> stretch_ratio default_skew_config s \<and>
    stretch_ratio default_skew_config s \<le> rnd64 (1 + max_stretch default_skew_config)"
proof -
  have "stepped start start with_defaults" by (simp add: stepped_def with_defaults_def new_skew_controller_def)
  from skew_run_stepped [OF this _ assms(1,2)] have st: "stepped start (last (start # map snd us)) c" by (simp add: c_def)
  have "\<exists>k. delay_offset_ms c = of_int (5 * k) \<and> \<bar>k\<bar> \<le> 1 + int ((last (start # map snd us) - start) div 500)"
  proof (cases "last_step_wall_ms c")
    case None
    with st show ?thesis by (intro exI [of _ 0]) (simp add: stepped_def)
  next
    case (Some v)
    with st obtain w k where w: "w \<le> last (start # map snd us)" "delay_offset_ms c = of_int (5 * k)"
        "\<bar>k\<bar> \<le> 1 + int ((w - start) div 500)" by (auto simp: stepped_def)
    have "(w - start) div 500 \<le> (last (start # map snd us) - start) div 500" using w(1) by (intro div_le_mono) linarith
    with w(2,3) show ?thesis by (intro exI [of _ k]) linarith
  qed
  with stretch_bounds [OF default_stretch_pos] show ?thesis by blast
qed

definition demo_skew :: "nat \<Rightarrow> skew_sample" where
  "demo_skew ms = \<lparr>audio_playout_host_equiv_ms = of_nat ms, video_present_host_equiv_ms = 0\<rparr>"

theorem skew_correction_is_gentle_witness:
  "\<exists>k. delay_offset_ms (skew_run [(demo_skew 40, 0), (demo_skew 40, 100), (demo_skew 40, 499)] with_defaults) = of_int (5 * k) \<and> \<bar>k\<bar> \<le> 1"
  using skew_correction_is_gentle [of 0 "[(demo_skew 40, 0), (demo_skew 40, 100), (demo_skew 40, 499)]"] by simp

section \<open>What the resampler promises\<close>

lemma resample_at_between:
  assumes "list_all (\<lambda>x. lo \<le> sint x \<and> sint x \<le> hi) input" "0 < ch" "c < ch" "0 < in_frames" "length input = in_frames * ch"
    "- 32768 \<le> lo" "hi \<le> 32767"
  shows "lo \<le> sint (resample_at input ch in_frames ratio k c) \<and> sint (resample_at input ch in_frames ratio k c) \<le> hi"
proof -
  define src where "src = rnd64 (rnd64 (of_nat k) / ratio)"
  define j0 where "j0 = nat (floor src)"
  define frac where "frac = fclamp 0 1 (rnd64 (src - rnd64 (of_nat j0)))"
  define s0 where "s0 = sint (input ! (min j0 (in_frames - 1) * ch + c))"
  define s1 where "s1 = sint (input ! (min (j0 + 1) (in_frames - 1) * ch + c))"
  have "i * ch + c < length input" if "i < in_frames" for i
  proof -
    have "i * ch + c < i * ch + ch" using assms(3) by simp
    also have "\<dots> = Suc i * ch" by simp
    also have "\<dots> \<le> in_frames * ch" using that by (intro mult_right_mono) auto
    finally show ?thesis by (simp add: assms(5))
  qed
  then have s: "lo \<le> s0" "s0 \<le> hi" "lo \<le> s1" "s1 \<le> hi"
    using assms(1,4) by (auto simp: s0_def s1_def list_all_length)
  have f: "0 \<le> frac" "frac \<le> 1" by (simp_all add: frac_def fclamp_bounds)
  have d: "rnd64 (of_int s1 - of_int s0) = of_int (s1 - s0)"
    using rnd64_of_int [of "s1 - s0"] s assms(6,7) by simp
  have "of_int (min 0 (s1 - s0)) \<le> of_int (s1 - s0) * frac \<and> of_int (s1 - s0) * frac \<le> of_int (max 0 (s1 - s0))"
  proof (cases "0 \<le> s1 - s0")
    case True
    then have p: "(0 :: rat) \<le> of_int (s1 - s0)" by (simp only: of_int_0_le_iff)
    with f have "0 \<le> of_int (s1 - s0) * frac" "of_int (s1 - s0) * frac \<le> of_int (s1 - s0)"
      by (simp_all only: mult_nonneg_nonneg mult_left_le)
    with True show ?thesis by (simp only: min_absorb1 max_absorb2 of_int_0 simp_thms)
  next
    case False
    then have p: "of_int (s1 - s0) \<le> (0 :: rat)" by simp
    then have "of_int (s1 - s0) * frac \<le> 0" using f(1) by (simp only: mult_nonpos_nonneg)
    moreover have "of_int (s1 - s0) * 1 \<le> of_int (s1 - s0) * frac" using p f(2) by (rule mult_left_mono_neg [rotated])
    moreover have "min 0 (s1 - s0) = s1 - s0" "max 0 (s1 - s0) = 0" using False by simp_all
    ultimately show ?thesis by (simp only: mult_1_right of_int_0 simp_thms)
  qed
  then have "of_int (min 0 (s1 - s0)) \<le> rnd64 (of_int (s1 - s0) * frac)" "rnd64 (of_int (s1 - s0) * frac) \<le> of_int (max 0 (s1 - s0))"
    using rnd64_between [of "min 0 (s1 - s0)" _ "max 0 (s1 - s0)"] s assms(6,7) by auto
  moreover have "(of_int lo :: rat) \<le> of_int s0 + of_int (min 0 (s1 - s0))" "of_int s0 + of_int (max 0 (s1 - s0)) \<le> (of_int hi :: rat)"
    using s by (simp_all only: of_int_add [symmetric] of_int_le_iff)
  ultimately have "of_int lo \<le> of_int s0 + rnd64 (of_int (s1 - s0) * frac)" "of_int s0 + rnd64 (of_int (s1 - s0) * frac) \<le> of_int hi"
    by linarith+
  then have v: "of_int lo \<le> rnd64 (of_int s0 + rnd64 (of_int (s1 - s0) * frac))" "rnd64 (of_int s0 + rnd64 (of_int (s1 - s0) * frac)) \<le> of_int hi"
    using rnd64_between [of lo _ hi] s assms(6,7) by auto
  define r where "r = round_away (rnd64 (of_int s0 + rnd64 (of_int (s1 - s0) * frac)))"
  have r: "lo \<le> r" "r \<le> hi" using round_away_between [OF v] by (simp_all add: r_def)
  have "resample_at input ch in_frames ratio k c = of_int (max (- 32768) (min 32767 r))"
    unfolding resample_at_def Let_def src_def [symmetric] j0_def [symmetric] frac_def [symmetric] s0_def [symmetric]
      s1_def [symmetric] d r_def by simp
  moreover have "max (- 32768) (min 32767 r) = r" using r assms(6,7) by simp
  ultimately show ?thesis using r assms(6,7) by (simp add: sint_of_int_i16)
qed

text \<open>
  Stretching sound never clips it. When the resampler returns, it returns whole frames of the same channels, and every
  output sample lies between the smallest and the largest input sample, whatever the ratio and in spite
  of the rounding: no overflow, no wrap to the opposite sign.
\<close>

theorem resampled_sound_never_clips:
  assumes "linear_resample_i16 input channels ratio = Some out"
    and "list_all (\<lambda>x. lo \<le> sint x \<and> sint x \<le> hi) input" and "- 32768 \<le> lo" and "hi \<le> 32767"
  shows "list_all (\<lambda>x. lo \<le> sint x \<and> sint x \<le> hi) out \<and> length out mod unat channels = 0"
proof -
  define ch where "ch = unat channels"
  have ch: "0 < ch" using assms(1) by (auto simp: linear_resample_i16_def ch_def unat_gt_0 split: if_splits)
  consider "out = input" "length input mod ch = 0"
    | n ratio' where "out = concat (map (\<lambda>k. map (resample_at input ch (length input div ch) ratio' k) [0..<ch]) [0..<n])"
        "length input mod ch = 0" "input \<noteq> []"
    using assms(1) by (auto simp: linear_resample_i16_def Let_def ch_def split: if_splits)
  then show ?thesis
  proof cases
    case 1
    with assms(2) show ?thesis by (simp add: ch_def)
  next
    case 2
    let ?f = "length input div ch"
    have len: "length input = ?f * ch" using 2(2) by (metis mod_0_imp_dvd dvd_div_mult_self)
    then have "0 < ?f" using 2(3) by (metis length_0_conv mult_zero_left neq0_conv)
    with resample_at_between [OF assms(2) ch _ _ len assms(3,4)]
    have "list_all (\<lambda>x. lo \<le> sint x \<and> sint x \<le> hi) out" by (auto simp: 2(1) list_all_iff)
    moreover have "length out = n * ch" by (simp add: 2(1) length_concat comp_def sum_list_triv)
    ultimately show ?thesis by (simp add: ch_def)
  qed
qed

lemma not_unity: "\<not> \<bar>rnd64 (3 / 2 - 1)\<bar> < pico"
  by code_simp

theorem resampled_sound_never_clips_witness:
  "\<exists>out. linear_resample_i16 [100, - 100, 300, - 300] 2 (3 / 2) = Some out \<and>
     list_all (\<lambda>x. - 300 \<le> sint x \<and> sint x \<le> 300) out \<and> length out mod 2 = 0"
proof -
  obtain out where out: "linear_resample_i16 [100, - 100, 300, - 300] 2 (3 / 2) = Some out"
    using not_unity by (simp add: linear_resample_i16_def Let_def)
  from resampled_sound_never_clips [OF this, of "- 300" 300] out show ?thesis by simp
qed

end
