(* ===== verification/Rtp_Clock.thy ===== *)
theory Rtp_Clock
  imports Double
begin

text \<open>
  RTP timestamps from the host's monotonic clock (\<open>packages/media/src/rtp_clock.rs\<close>): one epoch for sound and picture,
  a tick count in 128-bit arithmetic that is cut to 32 bits, and the way back through \<open>f64\<close>.
\<close>

definition VIDEO_CLOCK_HZ :: u32 where "VIDEO_CLOCK_HZ = 90000"
definition AUDIO_CLOCK_HZ :: u32 where "AUDIO_CLOCK_HZ = 48000"

datatype rtp_clock_rate = RateVideo | RateAudio

fun clock_hz :: "rtp_clock_rate \<Rightarrow> u32" where
  "clock_hz RateVideo = VIDEO_CLOCK_HZ"
| "clock_hz RateAudio = AUDIO_CLOCK_HZ"

definition host_mono_to_rtp_ts :: "duration \<Rightarrow> duration \<Rightarrow> u32 \<Rightarrow> u32" where
  "host_mono_to_rtp_ts host_mono t0 clock_rate_hz =
     of_nat (min ((host_mono - t0) * unat clock_rate_hz) (2 ^ 128 - 1) div 1000000000)"

definition rtp_ts_to_host_mono_ms :: "u32 \<Rightarrow> u32 \<Rightarrow> double" where
  "rtp_ts_to_host_mono_ms rtp_ts clock_rate_hz =
     (if clock_rate_hz = 0 then 0
      else rnd64 (rnd64 (of_nat (unat rtp_ts) * 1000) / of_nat (unat clock_rate_hz)))"

record rtp_epoch =
  epoch_t0 :: duration

definition host_mono_to_rtp :: "rtp_epoch \<Rightarrow> duration \<Rightarrow> rtp_clock_rate \<Rightarrow> u32" where
  "host_mono_to_rtp e host_mono rate = host_mono_to_rtp_ts host_mono (epoch_t0 e) (clock_hz rate)"

definition video_ts :: "rtp_epoch \<Rightarrow> duration \<Rightarrow> u32" where
  "video_ts e host_mono = host_mono_to_rtp e host_mono RateVideo"

definition audio_ts :: "rtp_epoch \<Rightarrow> duration \<Rightarrow> u32" where
  "audio_ts e host_mono = host_mono_to_rtp e host_mono RateAudio"

definition rtp_to_host_mono :: "rtp_epoch \<Rightarrow> u32 \<Rightarrow> rtp_clock_rate \<Rightarrow> duration" where
  "rtp_to_host_mono e rtp_ts rate =
     epoch_t0 e + unat (to_u64 (rnd64 (rtp_ts_to_host_mono_ms rtp_ts (clock_hz rate) * 1000000)))"

section \<open>Ticks\<close>

text \<open>Whole ticks of a clock in a span of nanoseconds.\<close>

definition ticks :: "u32 \<Rightarrow> duration \<Rightarrow> nat" where
  "ticks hz d = d * unat hz div 1000000000"

lemma rtp_ts_ticks:
  assumes "host_mono < secs (2 ^ 64)"
  shows "host_mono_to_rtp_ts host_mono t0 hz = of_nat (ticks hz (host_mono - t0))"
proof -
  have "unat hz < 2 ^ 32" using unsigned_less [of hz] by simp
  moreover have "host_mono - t0 < secs (2 ^ 64)" using assms by linarith
  ultimately have "(host_mono - t0) * unat hz < secs (2 ^ 64) * 2 ^ 32" by (intro mult_strict_mono) simp_all
  also have "\<dots> < 2 ^ 128" by simp
  finally show ?thesis by (simp add: host_mono_to_rtp_ts_def ticks_def)
qed

lemma ticks_bounds:
  "ticks hz d * 1000000000 \<le> d * unat hz" "d * unat hz < (ticks hz d + 1) * 1000000000"
  unfolding ticks_def by (simp, metis Suc_eq_plus1 dividend_less_div_times mult.commute mult_Suc zero_less_numeral)

lemma ticks_mono: "c \<le> d \<Longrightarrow> ticks hz c \<le> ticks hz d"
  by (simp add: ticks_def div_le_mono)

lemma tick_span:
  fixes a b c x y :: nat
  assumes "a = b + c" "x * 1000000000 \<le> b" "b < (x + 1) * 1000000000" "y * 1000000000 \<le> a" "a < (y + 1) * 1000000000" "x \<le> y"
  shows "c < (y - x + 1) * 1000000000" "(y - x) * 1000000000 < c + 1000000000"
proof -
  obtain k where k: "y = x + k" using assms(6) by (auto simp: le_iff_add)
  show "c < (y - x + 1) * 1000000000" "(y - x) * 1000000000 < c + 1000000000" using assms by (simp_all add: k)
qed

lemma clock_span:
  fixes v a d :: nat
  assumes "v * 1000000000 \<le> d * 90000" "d * 90000 < (v + 1) * 1000000000" "a * 1000000000 \<le> d * 48000" "d * 48000 < (a + 1) * 1000000000"
  shows "\<bar>int v * 48000 - int a * 90000\<bar> < 90000"
proof -
  have "v * 48000 < a * 90000 + 90000" "a * 90000 < v * 48000 + 48000" using assms by simp_all
  then show ?thesis by linarith
qed

text \<open>
  Timestamps measure time even when they wrap. For two moments of a session, the 32-bit difference of their
  timestamps is the number of ticks between them to within one tick, however often the counter has
  wrapped; and as long as it has not wrapped, the sound's and the picture's timestamps of the same moment agree to
  within one tick of the slower clock.
\<close>

theorem rtp_difference_is_elapsed:
  assumes "epoch_t0 e \<le> h1" and "h1 \<le> h2" and "h2 < secs (2 ^ 64)"
  shows "(\<exists>n. host_mono_to_rtp e h2 rate - host_mono_to_rtp e h1 rate = of_nat n \<and>
      (h2 - h1) * unat (clock_hz rate) < (n + 1) * 1000000000 \<and>
      n * 1000000000 < (h2 - h1) * unat (clock_hz rate) + 1000000000) \<and>
    (ticks VIDEO_CLOCK_HZ (h1 - epoch_t0 e) < 2 ^ 32 \<longrightarrow>
      \<bar>int (unat (video_ts e h1)) * 48000 - int (unat (audio_ts e h1)) * 90000\<bar> < 90000)"
proof (intro conjI impI)
  let ?hz = "clock_hz rate" and ?t0 = "epoch_t0 e"
  define n where "n = ticks ?hz (h2 - ?t0) - ticks ?hz (h1 - ?t0)"
  have le: "ticks ?hz (h1 - ?t0) \<le> ticks ?hz (h2 - ?t0)" using assms by (intro ticks_mono) simp
  have "(h2 - ?t0) * unat ?hz = (h1 - ?t0) * unat ?hz + (h2 - h1) * unat ?hz"
    using assms by (simp add: distrib_right [symmetric])
  from tick_span [OF this ticks_bounds ticks_bounds le]
  have "(h2 - h1) * unat ?hz < (n + 1) * 1000000000" "n * 1000000000 < (h2 - h1) * unat ?hz + 1000000000"
    unfolding n_def .
  moreover have "host_mono_to_rtp e h2 rate - host_mono_to_rtp e h1 rate = of_nat n"
    using assms le by (simp add: host_mono_to_rtp_def rtp_ts_ticks n_def of_nat_diff)
  ultimately show "\<exists>n. host_mono_to_rtp e h2 rate - host_mono_to_rtp e h1 rate = of_nat n \<and>
      (h2 - h1) * unat ?hz < (n + 1) * 1000000000 \<and> n * 1000000000 < (h2 - h1) * unat ?hz + 1000000000" by blast
next
  let ?d = "h1 - epoch_t0 e"
  assume small: "ticks VIDEO_CLOCK_HZ ?d < 2 ^ 32"
  have hz: "unat VIDEO_CLOCK_HZ = 90000" "unat AUDIO_CLOCK_HZ = 48000" by (simp_all add: VIDEO_CLOCK_HZ_def AUDIO_CLOCK_HZ_def)
  have "ticks AUDIO_CLOCK_HZ ?d \<le> ticks VIDEO_CLOCK_HZ ?d" by (simp add: ticks_def hz div_le_mono)
  with small have v: "unat (video_ts e h1) = ticks VIDEO_CLOCK_HZ ?d" "unat (audio_ts e h1) = ticks AUDIO_CLOCK_HZ ?d"
    using assms by (simp_all add: video_ts_def audio_ts_def host_mono_to_rtp_def rtp_ts_ticks unsigned_of_nat take_bit_nat_eq_self)
  from ticks_bounds [where hz = VIDEO_CLOCK_HZ and d = ?d] ticks_bounds [where hz = AUDIO_CLOCK_HZ and d = ?d]
  show "\<bar>int (unat (video_ts e h1)) * 48000 - int (unat (audio_ts e h1)) * 90000\<bar> < 90000"
    unfolding v hz by (rule clock_span)
qed

theorem rtp_difference_is_elapsed_witness:
  "\<exists>n. host_mono_to_rtp \<lparr>epoch_t0 = 5\<rparr> (secs 100000 + millis 10) RateVideo - host_mono_to_rtp \<lparr>epoch_t0 = 5\<rparr> (secs 100000) RateVideo =
      of_nat n \<and> 899 < n + 1 \<and> n < 901"
proof -
  obtain n where n: "host_mono_to_rtp \<lparr>epoch_t0 = 5\<rparr> (secs 100000 + millis 10) RateVideo - host_mono_to_rtp \<lparr>epoch_t0 = 5\<rparr> (secs 100000) RateVideo = of_nat n"
      "millis 10 * 90000 < (n + 1) * 1000000000" "n * 1000000000 < millis 10 * 90000 + 1000000000"
    using rtp_difference_is_elapsed [of "\<lparr>epoch_t0 = 5\<rparr>" "secs 100000" "secs 100000 + millis 10" RateVideo]
    by (auto simp: VIDEO_CLOCK_HZ_def)
  then show ?thesis by (intro exI [of _ n]) simp
qed

section \<open>And back\<close>

lemma round_even_error: "\<bar>of_int (round_even q) - q\<bar> \<le> 1 / 2"
proof -
  have "of_int (floor q) \<le> q" "q < of_int (floor q) + 1" by linarith+
  then show ?thesis by (simp add: round_even_def Let_def abs_le_iff)
qed

text \<open>The error of a rounding is at most half a unit in the last place.\<close>

lemma rnd64_error:
  assumes "0 \<le> q" "q < pow2 k" "- 1000 \<le> k"
  shows "\<bar>rnd64 q - q\<bar> \<le> pow2 (k - 54)"
proof (cases "q = 0")
  case False
  with assms(1) have q: "0 < q" by simp
  define e where "e = max (exponent q - 52) (- 1074)"
  have "pow2 (exponent q) < pow2 k" using exponent_bounds [OF q] assms(2) by linarith
  then have "exponent q < k" by (metis linorder_not_less power_int_increasing one_le_numeral)
  then have e: "e \<le> k - 53" using assms(3) by (simp add: e_def)
  have p: "(0 :: rat) < pow2 e" by simp
  have "rnd64 q - q = (of_int (round_even (q / pow2 e)) - q / pow2 e) * pow2 e"
    using q by (simp add: rnd64_pos e_def [symmetric] left_diff_distrib)
  then have "\<bar>rnd64 q - q\<bar> = \<bar>of_int (round_even (q / pow2 e)) - q / pow2 e\<bar> * pow2 e" by (simp add: abs_mult)
  also have "\<dots> \<le> 1 / 2 * pow2 e" using round_even_error p by (intro mult_right_mono) auto
  also have "\<dots> \<le> 1 / 2 * pow2 (k - 53)" using e by (intro mult_left_mono power_int_increasing) simp_all
  also have "\<dots> = pow2 (k - 54)" using power_int_add [of "2::rat" "k - 54" 1] by simp
  finally show ?thesis .
qed simp

lemma rtp_back_error:
  fixes n :: nat
  assumes "n < 2 ^ 32" "48000 \<le> hz" "hz < 2 ^ 53"
  defines "ms \<equiv> rnd64 (rnd64 (of_nat n * 1000) / of_nat hz)"
  shows "\<bar>rnd64 (ms * 1000000) - of_nat n * 1000000000 / of_nat hz\<bar> \<le> 1 / 16" "0 \<le> ms" "rnd64 (ms * 1000000) < 2 ^ 48"
proof -
  define x where "x = (of_nat n * 1000 / of_nat hz :: rat)"
  have nn: "n * 1000 < 2 ^ 53" using assms(1) by simp
  have r1: "rnd64 (of_nat n * 1000 :: rat) = of_nat n * 1000"
    using rnd64_of_nat [OF nn] by simp
  have "(of_nat n * 1000 :: rat) < 2 ^ 32 * 1000"
    using assms(1) by (metis mult_less_cancel_right_pos of_nat_less_iff of_nat_numeral of_nat_power zero_less_numeral)
  moreover have hz: "(48000 :: rat) \<le> of_nat hz" using assms(2) by (metis of_nat_le_iff of_nat_numeral)
  ultimately have x: "0 \<le> x" "x < 2 ^ 27"
    unfolding x_def by (simp, subst divide_less_eq, simp)
  have ms: "ms = rnd64 x" by (simp add: ms_def r1 x_def)
  have "\<bar>ms - x\<bar> \<le> pow2 (27 - 54)" unfolding ms using x by (intro rnd64_error) (simp_all add: power_int_def)
  moreover have "pow2 (27 - 54) = 1 / 134217728" by (simp add: power_int_def power_one_over)
  ultimately have "\<bar>ms - x\<bar> \<le> 1 / 134217728" by (simp only:)
  then have e1: "- 1000000 / 134217728 \<le> ms * 1000000 - x * 1000000" "ms * 1000000 - x * 1000000 \<le> 1000000 / 134217728"
    unfolding abs_le_iff by linarith+
  show ms0: "0 \<le> ms" unfolding ms by (rule rnd64_nonneg [OF x(1)])
  have "ms \<le> 2 ^ 27" unfolding ms using rnd64_le [of x "2 ^ 27"] x rnd64_of_int [of "2 ^ 27"] by simp
  then have b: "ms * 1000000 < pow2 47" using ms0 by (simp add: power_int_def)
  have "\<bar>rnd64 (ms * 1000000) - ms * 1000000\<bar> \<le> pow2 (47 - 54)" using ms0 b by (intro rnd64_error) simp_all
  moreover have "pow2 (47 - 54) = 1 / 128" by (simp add: power_int_def power_one_over)
  ultimately have "\<bar>rnd64 (ms * 1000000) - ms * 1000000\<bar> \<le> 1 / 128" by (simp only:)
  then have e2: "- 1 / 128 \<le> rnd64 (ms * 1000000) - ms * 1000000" "rnd64 (ms * 1000000) - ms * 1000000 \<le> 1 / 128"
    unfolding abs_le_iff by linarith+
  have "x * 1000000 = of_nat n * 1000000000 / of_nat hz" by (simp add: x_def)
  with e1 e2 show "\<bar>rnd64 (ms * 1000000) - of_nat n * 1000000000 / of_nat hz\<bar> \<le> 1 / 16"
    unfolding abs_le_iff by linarith
  show "rnd64 (ms * 1000000) < 2 ^ 48" using e2 b by (simp add: power_int_def)
qed

text \<open>
  A timestamp leads back to its moment. Within one wrap of the counter, converting a moment to a timestamp and
  the timestamp back through \<open>f64\<close> milliseconds returns a moment at most one tick and one nanosecond
  earlier, and never more than a nanosecond later: the double rounding costs less than a nanosecond.
\<close>

theorem rtp_timestamp_roundtrip:
  assumes "epoch_t0 e \<le> h" and "h < secs (2 ^ 64)" and "ticks (clock_hz rate) (h - epoch_t0 e) < 2 ^ 32"
  defines "returned \<equiv> rtp_to_host_mono e (host_mono_to_rtp e h rate) rate"
  shows "returned \<le> h + 1 \<and> h * unat (clock_hz rate) < (returned + 2) * unat (clock_hz rate) + 1000000000"
proof -
  define hz where "hz = unat (clock_hz rate)"
  define d where "d = h - epoch_t0 e"
  define n where "n = ticks (clock_hz rate) d"
  define ms where "ms = rnd64 (rnd64 (of_nat n * 1000) / of_nat hz)"
  have hz: "48000 \<le> hz" "hz < 2 ^ 53" "clock_hz rate \<noteq> 0"
    by (cases rate; simp add: hz_def VIDEO_CLOCK_HZ_def AUDIO_CLOCK_HZ_def)+
  have n: "n < 2 ^ 32" using assms(3) by (simp add: n_def d_def)
  have ts: "unat (host_mono_to_rtp e h rate) = n"
    using assms(2,3) by (simp add: host_mono_to_rtp_def rtp_ts_ticks n_def d_def unsigned_of_nat take_bit_nat_eq_self)
  note err = rtp_back_error [OF n hz(1,2), folded ms_def]
  define y where "y = rnd64 (ms * 1000000)"
  define x where "x = (of_nat n * 1000000000 / of_nat hz :: rat)"
  have y: "0 \<le> y" "y < 2 ^ 48" "x - 1 / 16 \<le> y" "y \<le> x + 1 / 16"
    using err rnd64_nonneg [of "ms * 1000000"] unfolding y_def [symmetric] x_def [symmetric] abs_le_iff by auto
  define b where "b = nat (floor y)"
  have b: "of_nat b \<le> y" "y < of_nat b + 1" using y(1) unfolding b_def by (simp_all, linarith)
  have "unat (to_u64 y) = b"
  proof (cases "y = 0")
    case False
    have "b < 2 ^ 48" using y(1,2) by (simp add: b_def nat_less_iff floor_less_iff)
    moreover have "to_u64 y = of_nat b" using False y(1,2) by (simp add: to_u64_def b_def)
    ultimately show ?thesis by (simp add: unsigned_of_nat take_bit_nat_eq_self)
  qed (simp add: to_u64_def b_def)
  then have returned: "returned = epoch_t0 e + b"
    by (simp add: returned_def rtp_to_host_mono_def rtp_ts_to_host_mono_ms_def hz(3) ts hz_def [symmetric] ms_def [symmetric] y_def [symmetric])
  have p: "(0 :: rat) < of_nat hz" using hz(1) by simp
  have t: "n * 1000000000 \<le> d * hz" "d * hz < (n + 1) * 1000000000"
    using ticks_bounds [where hz = "clock_hz rate" and d = d] by (simp_all add: n_def hz_def)
  have "(of_nat (n * 1000000000) :: rat) \<le> of_nat (d * hz)" "(of_nat (d * hz) :: rat) < of_nat ((n + 1) * 1000000000)"
    using t by (simp_all only: of_nat_le_iff of_nat_less_iff)
  then have x: "x \<le> of_nat d" "(of_nat d - x) * of_nat hz < 1000000000"
    using p by (simp_all add: x_def divide_le_eq left_diff_distrib)
  have "(of_nat b :: rat) < of_nat (d + 1)" using b(1) y(4) x(1) by simp
  then have b1: "b \<le> d" by (simp only: of_nat_less_iff)
  have "(of_nat d - of_nat b - 2) * of_nat hz \<le> (of_nat d - x) * (of_nat hz :: rat)"
    using b(2) y(3) p by (intro mult_right_mono) simp_all
  with x(2) have "(of_nat d :: rat) * of_nat hz < (of_nat b + 2) * of_nat hz + 1000000000" by (simp add: algebra_simps)
  then have "(of_nat (d * hz) :: rat) < of_nat ((b + 2) * hz + 1000000000)" by (simp add: distrib_right)
  then have "d * hz < (b + 2) * hz + 1000000000" by (simp only: of_nat_less_iff)
  moreover have "h = epoch_t0 e + d" using assms(1) by (simp add: d_def)
  ultimately show ?thesis using b1 by (simp add: returned hz_def [symmetric] distrib_right)
qed

theorem rtp_timestamp_roundtrip_witness:
  "\<exists>returned. rtp_to_host_mono \<lparr>epoch_t0 = 7\<rparr> (host_mono_to_rtp \<lparr>epoch_t0 = 7\<rparr> (secs 3600) RateVideo) RateVideo = returned \<and>
     returned \<le> secs 3600 + 1 \<and> secs 3600 < returned + 11114"
  using rtp_timestamp_roundtrip [of "\<lparr>epoch_t0 = 7\<rparr>" "secs 3600" RateVideo]
  by (simp add: ticks_def VIDEO_CLOCK_HZ_def)

end
