(* ===== verification/Media_Codec.thy ===== *)
theory Media_Codec
  imports Skew Rtp_Clock
begin

text \<open>
  Frames of sound and picture (\<open>packages/media/src/source.rs\<close>) and the sound codec in use (\<open>opus.rs\<close>): samples behind a
  little-endian header, with timestamps from the shared epoch or from a counter.
\<close>

section \<open>Little-endian numbers\<close>

primrec le_bytes :: "nat \<Rightarrow> nat \<Rightarrow> bytes" where
  "le_bytes 0 v = []"
| "le_bytes (Suc n) v = of_nat v # le_bytes n (v div 256)"

primrec le_value :: "bytes \<Rightarrow> nat" where
  "le_value [] = 0"
| "le_value (b # bs) = unat b + 256 * le_value bs"

lemma length_le_bytes [simp]: "length (le_bytes n v) = n"
  by (induction n arbitrary: v) simp_all

lemma le_value_bytes: "le_value (le_bytes n v) = v mod 256 ^ n"
proof (induction n arbitrary: v)
  case (Suc n)
  have "unat (of_nat v :: u8) = v mod 256" by (simp add: unsigned_of_nat take_bit_eq_mod)
  with Suc show ?case by (simp add: mod_mult2_eq)
qed simp

lemma le_u16 [simp]: "of_nat (le_value (le_bytes 2 (unat (w :: 16 word)))) = w"
proof -
  have "unat w < 2 ^ 16" by (rule order_less_le_trans [OF unsigned_less]) simp
  then show ?thesis by (simp add: le_value_bytes)
qed

lemma le_u32 [simp]: "of_nat (le_value (le_bytes 4 (unat (w :: u32)))) = w"
proof -
  have "unat w < 2 ^ 32" by (rule order_less_le_trans [OF unsigned_less]) simp
  then show ?thesis by (simp add: le_value_bytes)
qed

lemma le_u64 [simp]: "of_nat (le_value (le_bytes 8 (unat (w :: u64)))) = w"
proof -
  have "unat w < 2 ^ 64" by (rule order_less_le_trans [OF unsigned_less]) simp
  then show ?thesis by (simp add: le_value_bytes)
qed

section \<open>Frames\<close>

datatype pixel_format = Rgb24 | Rgba8 | Bgra8 | Gray8

fun bytes_per_pixel :: "pixel_format \<Rightarrow> nat" where
  "bytes_per_pixel Rgb24 = 3"
| "bytes_per_pixel Rgba8 = 4"
| "bytes_per_pixel Bgra8 = 4"
| "bytes_per_pixel Gray8 = 1"

datatype sample_format = S16Le | F32Le

record video_frame =
  vf_pts_host_mono :: duration
  vf_width :: u32
  vf_height :: u32
  vf_format :: pixel_format
  vf_data :: bytes

definition sat_usize :: "nat \<Rightarrow> nat" where
  "sat_usize n = min n (2 ^ 64 - 1)"

definition expected_len :: "video_frame \<Rightarrow> nat" where
  "expected_len f = sat_usize (sat_usize (unat (vf_width f) * unat (vf_height f)) * bytes_per_pixel (vf_format f))"

definition is_well_formed :: "video_frame \<Rightarrow> bool" where
  "is_well_formed f \<longleftrightarrow> vf_width f > 0 \<and> vf_height f > 0 \<and> length (vf_data f) = expected_len f"

record audio_frame =
  af_pts_host_mono :: duration
  af_sample_rate :: u32
  af_channels :: u16
  af_format :: sample_format
  af_pcm :: "i16 list"

definition frame_count :: "audio_frame \<Rightarrow> nat" where
  "frame_count f = (if af_channels f = 0 then 0 else length (af_pcm f) div unat (af_channels f))"

definition frame_duration :: "audio_frame \<Rightarrow> duration" where
  "frame_duration f =
     (if af_sample_rate f = 0 then 0
      else sat_usize (frame_count f * 1000000000) div unat (af_sample_rate f))"

definition from_s16 :: "duration \<Rightarrow> u32 \<Rightarrow> u16 \<Rightarrow> i16 list \<Rightarrow> audio_frame" where
  "from_s16 pts rate channels pcm =
     \<lparr>af_pts_host_mono = pts, af_sample_rate = rate, af_channels = channels, af_format = S16Le, af_pcm = pcm\<rparr>"

section \<open>The sound codec\<close>

datatype opus_error = InvalidPcm string | InvalidPacket string | OpusUnsupported string

fun show_opus_error :: "opus_error \<Rightarrow> string" where
  "show_opus_error (InvalidPcm m) = ''invalid PCM: '' @ m"
| "show_opus_error (InvalidPacket m) = ''invalid packet: '' @ m"
| "show_opus_error (OpusUnsupported m) = ''unsupported: '' @ m"

record opus_frame =
  of_pts_host_mono :: duration
  of_rtp_ts :: u32
  of_duration :: duration
  of_channels :: u16
  of_data :: bytes

definition MOCK_MAGIC :: bytes where
  "MOCK_MAGIC = utf8_bytes ''MOPU''"

record opus_encoder =
  next_rtp_ts :: u32
  oe_epoch :: "rtp_epoch option"

definition new_opus_encoder :: opus_encoder where
  "new_opus_encoder = \<lparr>next_rtp_ts = 0, oe_epoch = None\<rparr>"

definition with_epoch :: "rtp_epoch \<Rightarrow> opus_encoder" where
  "with_epoch e = \<lparr>next_rtp_ts = 0, oe_epoch = Some e\<rparr>"

definition set_epoch :: "rtp_epoch \<Rightarrow> opus_encoder \<Rightarrow> opus_encoder" where
  "set_epoch e enc = enc\<lparr>oe_epoch := Some e, next_rtp_ts := 0\<rparr>"

definition clear_epoch :: "opus_encoder \<Rightarrow> opus_encoder" where
  "clear_epoch enc = enc\<lparr>oe_epoch := None\<rparr>"

definition reset_rtp_ts :: "u32 \<Rightarrow> opus_encoder \<Rightarrow> opus_encoder" where
  "reset_rtp_ts ts enc = enc\<lparr>next_rtp_ts := ts\<rparr>"

definition seed_rtp_ts_from_pts :: "duration \<Rightarrow> opus_encoder \<Rightarrow> opus_encoder" where
  "seed_rtp_ts_from_pts pts enc =
     (case oe_epoch enc of None \<Rightarrow> enc | Some e \<Rightarrow> enc\<lparr>next_rtp_ts := audio_ts e pts\<rparr>)"

text \<open>\<open>as u32\<close> of a rounded \<open>f64\<close> that is not negative.\<close>

definition to_u32 :: "int \<Rightarrow> u32" where
  "to_u32 z = (if z \<le> 0 then 0 else if z \<ge> 2 ^ 32 then - 1 else of_int z)"

definition opus_encode :: "audio_frame \<Rightarrow> opus_encoder \<Rightarrow> (opus_error + opus_frame) \<times> opus_encoder" where
  "opus_encode f enc =
     (if af_channels f = 0 then (Inl (InvalidPcm ''channels == 0''), enc)
      else if length (af_pcm f) mod unat (af_channels f) \<noteq> 0 then
        (Inl (InvalidPcm ''pcm length not divisible by channels''), enc)
      else if af_sample_rate f = 0 then (Inl (InvalidPcm ''sample_rate == 0''), enc)
      else
        let count = (of_nat (frame_count f) :: u32);
            bs = MOCK_MAGIC @ le_bytes 4 (unat (af_sample_rate f)) @ le_bytes 2 (unat (af_channels f)) @
              le_bytes 4 (unat count) @ concat (map (\<lambda>s. le_bytes 2 (unat s)) (af_pcm f));
            (rtp_ts, advance) =
              (case oe_epoch enc of
                 Some e \<Rightarrow>
                   let ts = audio_ts e (af_pts_host_mono f) in
                   (ts, audio_ts e (af_pts_host_mono f + frame_duration f) - ts)
               | None \<Rightarrow>
                   (next_rtp_ts enc,
                    if af_sample_rate f = 48000 then count
                    else to_u32 (round_away (rnd64 (as_secs_f64 (frame_duration f) * 48000)))))
        in (Inr \<lparr>of_pts_host_mono = af_pts_host_mono f, of_rtp_ts = rtp_ts, of_duration = frame_duration f,
               of_channels = af_channels f, of_data = bs\<rparr>,
            enc\<lparr>next_rtp_ts := rtp_ts + advance\<rparr>))"

text \<open>The loop that reads the samples.\<close>

fun read_samples :: "bytes \<Rightarrow> i16 list" where
  "read_samples (a # b # r) = of_nat (le_value [a, b]) # read_samples r"
| "read_samples _ = []"

definition opus_decode :: "opus_frame \<Rightarrow> opus_error + audio_frame" where
  "opus_decode p =
     (let d = of_data p in
      if length d < 14 then Inl (InvalidPacket ''too short'')
      else if take 4 d \<noteq> MOCK_MAGIC then Inl (InvalidPacket ''not a mock Opus packet (real Opus TODO)'')
      else
        let rate = of_nat (le_value (take 4 (drop 4 d)));
            channels = of_nat (le_value (take 2 (drop 8 d)));
            count = (of_nat (le_value (take 4 (drop 10 d))) :: u32)
        in if length d \<noteq> 14 + unat count * unat (channels :: u16) * 2 then Inl (InvalidPacket ''pcm size mismatch'')
           else Inr (from_s16 (of_pts_host_mono p) rate channels (read_samples (drop 14 d))))"

section \<open>The codec loses nothing\<close>

lemma read_samples_concat: "read_samples (concat (map (\<lambda>s. le_bytes 2 (unat (s :: i16))) pcm)) = pcm"
proof (induction pcm)
  case (Cons s pcm)
  have "le_bytes 2 (unat s) = [of_nat (unat s), of_nat (unat s div 256)]" by (simp add: numeral_2_eq_2)
  moreover from this have "of_nat (le_value [of_nat (unat s), of_nat (unat s div 256)]) = s" by (metis le_u16)
  ultimately show ?case using Cons.IH by (simp del: le_value.simps)
qed simp

lemma length_samples: "length (concat (map (\<lambda>s. le_bytes 2 (unat (s :: i16))) pcm)) = 2 * length pcm"
  by (induction pcm) simp_all

lemma length_MOCK_MAGIC [simp]: "length MOCK_MAGIC = 4"
  by (simp add: MOCK_MAGIC_def utf8_bytes_def)

lemma header_14:
  assumes "length a = 4" "length b = 4" "length c = 2" "length d = 4"
  shows "take 4 (a @ b @ c @ d @ e) = a" "take 4 (drop 4 (a @ b @ c @ d @ e)) = b" "take 2 (drop 8 (a @ b @ c @ d @ e)) = c"
    "take 4 (drop 10 (a @ b @ c @ d @ e)) = d" "drop 14 (a @ b @ c @ d @ e) = e"
  using assms by simp_all

text \<open>
  What the host hears is what the viewer plays. Every accepted block of 16-bit sound comes back from the decoder exactly,
  with its time, rate and channels; and an encoder bound to the session's epoch stamps it with the epoch's
  timestamp, so that consecutive blocks are stamped without gap or overlap.
\<close>

theorem opus_roundtrip:
  assumes "opus_encode f enc = (Inr p, enc')" and "af_format f = S16Le" and "frame_count f < 2 ^ 32"
  shows "opus_decode p = Inr f \<and>
    (\<forall>e. oe_epoch enc = Some e \<longrightarrow> of_rtp_ts p = audio_ts e (af_pts_host_mono f) \<and>
       next_rtp_ts enc' = audio_ts e (af_pts_host_mono f + of_duration p))"
proof -
  define s where "s = concat (map (\<lambda>s. le_bytes 2 (unat s)) (af_pcm f))"
  define cw where "cw = (of_nat (frame_count f) :: u32)"
  define h where "h = [MOCK_MAGIC, le_bytes 4 (unat (af_sample_rate f)), le_bytes 2 (unat (af_channels f)),
      le_bytes 4 (unat cw)]"
  have ch: "af_channels f \<noteq> 0" "length (af_pcm f) mod unat (af_channels f) = 0" "af_sample_rate f \<noteq> 0"
    using assms(1) by (auto simp: opus_encode_def split: if_splits)
  have p: "of_data p = h ! 0 @ h ! 1 @ h ! 2 @ h ! 3 @ s" "of_pts_host_mono p = af_pts_host_mono f" "of_duration p = frame_duration f"
    using assms(1) ch by (auto simp: opus_encode_def Let_def h_def s_def cw_def split: prod.splits)
  have len: "length (h ! 0) = 4" "length (h ! 1) = 4" "length (h ! 2) = 2" "length (h ! 3) = 4" by (simp_all add: h_def)
  have count: "unat cw = frame_count f"
    using assms(3) by (simp add: cw_def unsigned_of_nat take_bit_nat_eq_self)
  have dec: "h ! 0 = MOCK_MAGIC" "of_nat (le_value (h ! 1)) = af_sample_rate f" "of_nat (le_value (h ! 2)) = af_channels f"
    "of_nat (le_value (h ! 3)) = cw" by (simp_all add: h_def)
  have "frame_count f * unat (af_channels f) = length (af_pcm f)"
    using ch by (simp add: frame_count_def mod_0_imp_dvd)
  then have size: "length (of_data p) = 14 + frame_count f * unat (af_channels f) * 2"
    using len by (simp add: p(1) s_def length_samples)
  have "opus_decode p = Inr (from_s16 (af_pts_host_mono f) (af_sample_rate f) (af_channels f) (af_pcm f))"
    unfolding opus_decode_def Let_def p(1) header_14 [OF len]
    using size [unfolded p(1)] by (simp add: p(2) dec [simplified] dec count) (simp add: s_def read_samples_concat)
  also have "\<dots> = Inr f" using assms(2) by (simp add: from_s16_def)
  finally have "opus_decode p = Inr f" .
  moreover have "of_rtp_ts p = audio_ts e (af_pts_host_mono f) \<and> next_rtp_ts enc' = audio_ts e (af_pts_host_mono f + of_duration p)"
    if "oe_epoch enc = Some e" for e
    using assms(1) ch that by (auto simp: opus_encode_def Let_def)
  ultimately show ?thesis by blast
qed

definition demo_sound :: audio_frame where
  "demo_sound = \<lparr>af_pts_host_mono = millis 10, af_sample_rate = 48000, af_channels = 2, af_format = S16Le, af_pcm = [1, - 1, 258, - 258]\<rparr>"

theorem opus_roundtrip_witness:
  "\<exists>p enc'. opus_encode demo_sound (with_epoch \<lparr>epoch_t0 = 0\<rparr>) = (Inr p, enc') \<and> opus_decode p = Inr demo_sound \<and>
     of_rtp_ts p = audio_ts \<lparr>epoch_t0 = 0\<rparr> (millis 10)"
proof -
  obtain p enc' where p: "opus_encode demo_sound (with_epoch \<lparr>epoch_t0 = 0\<rparr>) = (Inr p, enc')"
    by (simp add: opus_encode_def demo_sound_def Let_def with_epoch_def)
  have "af_format demo_sound = S16Le" "frame_count demo_sound < 2 ^ 32"
    by (simp_all add: demo_sound_def frame_count_def)
  from opus_roundtrip [OF p this] have "opus_decode p = Inr demo_sound"
    "of_rtp_ts p = audio_ts \<lparr>epoch_t0 = 0\<rparr> (af_pts_host_mono demo_sound)"
    by (simp_all add: with_epoch_def)
  moreover have "af_pts_host_mono demo_sound = millis 10" by (simp add: demo_sound_def)
  ultimately show ?thesis using p by metis
qed

end
