(* ===== verification/Single.thy ===== *)
theory Single
  imports Double "HOL-Library.Word"
begin

text \<open>
  Single-precision arithmetic on bit patterns. A \<open>f32\<close> is its 32-bit word; \<open>f32_value\<close> reads it as
  a NaN, an infinity or a signed finite number, the operations of the code work on those values, and \<open>f32_bits\<close> is the
  word of a result. A NaN result is the quiet NaN; the code never looks at a NaN's payload.
\<close>

section \<open>Values\<close>

datatype single = NaN | Inf bool | Fin bool rat

text \<open>The magnitude of a finite value is not negative; the flag is the sign bit.\<close>

fun sval :: "single \<Rightarrow> rat" where
  "sval (Fin s m) = (if s then - m else m)"
| "sval _ = 0"

definition f32_value :: "32 word \<Rightarrow> single" where
  "f32_value w =
     (let n = unat w; s = (n div 2 ^ 31 = 1); e = n div 2 ^ 23 mod 256; f = n mod 2 ^ 23 in
      if e = 255 then (if f = 0 then Inf s else NaN)
      else if e = 0 then Fin s (of_nat f * pow2 (- 149))
      else Fin s (of_nat (2 ^ 23 + f) * pow2 (int e - 150)))"

definition f32_word :: "bool \<Rightarrow> nat \<Rightarrow> nat \<Rightarrow> 32 word" where
  "f32_word s e f = of_nat ((if s then 2 ^ 31 else 0) + e * 2 ^ 23 + f)"

definition f32_bits :: "single \<Rightarrow> 32 word" where
  "f32_bits v =
     (case v of
        NaN \<Rightarrow> f32_word False 255 (2 ^ 22)
      | Inf s \<Rightarrow> f32_word s 255 0
      | Fin s m \<Rightarrow>
          if m = 0 then f32_word s 0 0
          else let k = exponent m in
            if k < - 126 then f32_word s 0 (nat (floor (m * pow2 149)))
            else f32_word s (nat (k + 127)) (nat (floor (m * pow2 (23 - k))) - 2 ^ 23))"

section \<open>Arithmetic\<close>

definition rnd32_mag :: "rat \<Rightarrow> rat" where
  "rnd32_mag q =
     (if q = 0 then 0
      else let e = max (exponent q - 23) (- 149) in of_int (round_even (q / pow2 e)) * pow2 e)"

definition rnd32 :: "bool \<Rightarrow> rat \<Rightarrow> single" where
  "rnd32 s q = (let m = rnd32_mag q in if m \<ge> pow2 128 then Inf s else Fin s m)"

fun fneg :: "single \<Rightarrow> single" where
  "fneg NaN = NaN"
| "fneg (Inf s) = Inf (\<not> s)"
| "fneg (Fin s m) = Fin (\<not> s) m"

fun fadd :: "single \<Rightarrow> single \<Rightarrow> single" where
  "fadd NaN y = NaN"
| "fadd x NaN = NaN"
| "fadd (Inf s) (Inf t) = (if s = t then Inf s else NaN)"
| "fadd (Inf s) (Fin t n) = Inf s"
| "fadd (Fin s m) (Inf t) = Inf t"
| "fadd (Fin s m) (Fin t n) =
     (let r = sval (Fin s m) + sval (Fin t n) in if r = 0 then Fin (s \<and> t) 0 else rnd32 (r < 0) \<bar>r\<bar>)"

definition fsub :: "single \<Rightarrow> single \<Rightarrow> single" where
  "fsub x y = fadd x (fneg y)"

fun fmul :: "single \<Rightarrow> single \<Rightarrow> single" where
  "fmul NaN y = NaN"
| "fmul x NaN = NaN"
| "fmul (Inf s) (Inf t) = Inf (s \<noteq> t)"
| "fmul (Inf s) (Fin t n) = (if n = 0 then NaN else Inf (s \<noteq> t))"
| "fmul (Fin s m) (Inf t) = (if m = 0 then NaN else Inf (s \<noteq> t))"
| "fmul (Fin s m) (Fin t n) = rnd32 (s \<noteq> t) (m * n)"

fun fdiv :: "single \<Rightarrow> single \<Rightarrow> single" where
  "fdiv NaN y = NaN"
| "fdiv x NaN = NaN"
| "fdiv (Inf s) (Inf t) = NaN"
| "fdiv (Inf s) (Fin t n) = Inf (s \<noteq> t)"
| "fdiv (Fin s m) (Inf t) = Fin (s \<noteq> t) 0"
| "fdiv (Fin s m) (Fin t n) =
     (if n = 0 then (if m = 0 then NaN else Inf (s \<noteq> t)) else rnd32 (s \<noteq> t) (m / n))"

fun flt :: "single \<Rightarrow> single \<Rightarrow> bool" where
  "flt NaN y = False"
| "flt x NaN = False"
| "flt (Inf s) (Inf t) = (s \<and> \<not> t)"
| "flt (Inf s) (Fin t n) = s"
| "flt (Fin s m) (Inf t) = (\<not> t)"
| "flt (Fin s m) (Fin t n) = (sval (Fin s m) < sval (Fin t n))"

text \<open>\<open>f32::clamp\<close> for bounds in order.\<close>

definition f32_clamp :: "single \<Rightarrow> single \<Rightarrow> single \<Rightarrow> single" where
  "f32_clamp lo hi x = (let y = if flt x lo then lo else x in if flt hi y then hi else y)"

text \<open>\<open>f32::min\<close> and \<open>f32::max\<close>, which return the other operand for a NaN.\<close>

definition f32_min :: "single \<Rightarrow> single \<Rightarrow> single" where
  "f32_min x y = (if x = NaN then y else if y = NaN then x else if flt y x then y else x)"

definition f32_max :: "single \<Rightarrow> single \<Rightarrow> single" where
  "f32_max x y = (if x = NaN then y else if y = NaN then x else if flt x y then y else x)"

text \<open>\<open>as f32\<close> of an unsigned integer, \<open>f32::round\<close> (ties away from zero), and the saturating \<open>as u32\<close>.\<close>

definition f32_of_nat :: "nat \<Rightarrow> single" where
  "f32_of_nat n = rnd32 False (of_nat n)"

fun f32_round :: "single \<Rightarrow> single" where
  "f32_round (Fin s m) = Fin s (of_int (floor (m + 1 / 2)))"
| "f32_round x = x"

fun u32_of_f32 :: "single \<Rightarrow> u32" where
  "u32_of_f32 NaN = 0"
| "u32_of_f32 (Inf s) = (if s then 0 else - 1)"
| "u32_of_f32 (Fin s m) = (if s then 0 else if floor m \<ge> 2 ^ 32 then - 1 else of_int (floor m))"

definition S0 :: single where "S0 = Fin False 0"
definition S1 :: single where "S1 = Fin False 1"

section \<open>Reading back a word\<close>

text \<open>The finite values a word can hold.\<close>

definition representable :: "rat \<Rightarrow> bool" where
  "representable m \<longleftrightarrow> (\<exists>n e. m = of_nat n * pow2 e \<and> n \<le> 2 ^ 24 \<and> - 149 \<le> e) \<and> m < pow2 128"

fun is_single :: "single \<Rightarrow> bool" where
  "is_single (Fin s m) = representable m"
| "is_single _ = True"

lemma representable_nonneg: "representable m \<Longrightarrow> 0 \<le> m"
  by (auto simp: representable_def)

lemma f32_word_value:
  assumes "e < 256" "f < 2 ^ 23"
  shows "f32_value (f32_word s e f) =
    (if e = 255 then (if f = 0 then Inf s else NaN)
     else if e = 0 then Fin s (of_nat f * pow2 (- 149))
     else Fin s (of_nat (2 ^ 23 + f) * pow2 (int e - 150)))"
proof -
  define b :: nat where "b = (if s then 1 else 0)"
  define n where "n = f + (b * 256 + e) * 8388608"
  have w: "f32_word s e f = of_nat n" by (simp add: f32_word_def n_def b_def add_ac)
  have b: "b < 2" by (simp add: b_def)
  with assms have lt: "n < 4294967296" by (simp add: n_def)
  then have u: "unat (of_nat n :: 32 word) = n" by (simp add: unsigned_of_nat take_bit_nat_eq_self)
  have d: "n div 8388608 = b * 256 + e" "n mod 8388608 = f"
    unfolding n_def div_mult_self1 [OF zero_neq_numeral [symmetric]] mod_mult_self1 using assms by simp_all
  have "n div 2147483648 = n div 8388608 div 256" by (simp flip: div_mult2_eq)
  also have "\<dots> = (e + b * 256) div 256" by (simp add: d add.commute)
  also have "\<dots> = b" using assms(1) by simp
  finally have "n div 2147483648 = b" .
  moreover have "n div 8388608 mod 256 = e" using assms(1) by (simp add: d)
  ultimately show ?thesis unfolding f32_value_def w u Let_def by (simp add: d b_def)
qed

lemma floor_nat: "x = of_nat n \<Longrightarrow> nat (floor x) = n"
  by simp

lemma pow2_nat: "0 \<le> k \<Longrightarrow> pow2 k = of_nat (2 ^ nat k)"
  by (simp add: power_int_def)

lemma scale_nat:
  assumes "0 \<le> e + j" shows "of_nat n * pow2 e * pow2 j = of_nat (n * 2 ^ nat (e + j))"
proof -
  have "of_nat n * pow2 e * pow2 j = of_nat n * pow2 (e + j)" by (simp add: power_int_add mult.assoc)
  with assms show ?thesis by (simp only: pow2_nat of_nat_mult)
qed

lemma f32_value_bits:
  assumes "is_single v" shows "f32_value (f32_bits v) = v"
proof (cases v)
  case NaN
  then show ?thesis by (simp add: f32_bits_def f32_word_value)
next
  case (Inf s)
  then show ?thesis by (simp add: f32_bits_def f32_word_value)
next
  case (Fin s m)
  with assms have r: "representable m" by simp
  then obtain n e where m: "m = of_nat n * pow2 e" "n \<le> 2 ^ 24" "- 149 \<le> e" "m < pow2 128"
    by (auto simp: representable_def)
  show ?thesis
  proof (cases "m = 0")
    case True
    with Fin show ?thesis by (simp add: f32_bits_def f32_word_value)
  next
    case False
    with representable_nonneg [OF r] have pos: "0 < m" by simp
    define k where "k = exponent m"
    have k: "pow2 k \<le> m" "m < pow2 (k + 1)" using exponent_bounds [OF pos] by (simp_all add: k_def)
    have shift: "a * pow2 x = b \<longleftrightarrow> a = b * pow2 (- x)" for a b x by (auto simp: power_int_minus field_simps)
    show ?thesis
    proof (cases "k < - 126")
      case True
      define f where "f = n * 2 ^ nat (e + 149)"
      have f: "m * pow2 149 = of_nat f" unfolding f_def m(1) using m(3) by (intro scale_nat) simp
      then have mf: "m = of_nat f * pow2 (- 149)" by (simp add: shift)
      have "of_nat f < pow2 (k + 1 + 149)" using k(2) by (simp add: f [symmetric] power_int_add)
      also have "\<dots> \<le> pow2 23" using True by (intro power_int_increasing) auto
      finally have "(of_nat f :: rat) < of_nat (2 ^ 23)" by simp
      then have "f < 2 ^ 23" by (simp only: of_nat_less_iff)
      then have "f32_value (f32_word s 0 f) = Fin s (of_nat f * pow2 (- 149))" by (subst f32_word_value) auto
      moreover have "f32_bits (Fin s m) = f32_word s 0 f"
        unfolding f32_bits_def single.case k_def [symmetric] Let_def f using False True by simp
      ultimately show ?thesis using Fin mf by simp
    next
      case big: False
      have k127: "k < 128"
      proof (rule ccontr)
        assume "\<not> k < 128"
        then have "pow2 128 \<le> pow2 k" by (intro power_int_increasing) auto
        with k(1) m(4) show False by linarith
      qed
      have "\<exists>g. m * pow2 (23 - k) = of_nat g"
      proof (cases "k - 23 \<le> e")
        case True
        then have "m * pow2 (23 - k) = of_nat (n * 2 ^ nat (e + (23 - k)))"
          unfolding m(1) by (intro scale_nat) simp
        then show ?thesis by blast
      next
        case False
        have "pow2 (k - e) * pow2 e \<le> of_nat n * pow2 e" using k(1) by (simp add: m(1) flip: power_int_add)
        then have "pow2 (k - e) \<le> of_nat n" by simp
        also have "\<dots> \<le> of_nat (2 ^ 24)" using m(2) by (simp only: of_nat_le_iff)
        also have "\<dots> = pow2 24" by simp
        finally have small: "pow2 (k - e) \<le> pow2 24" .
        have "k - e \<le> 24"
        proof (rule ccontr)
          assume "\<not> k - e \<le> 24"
          then have "pow2 25 \<le> pow2 (k - e)" by (intro power_int_increasing) auto
          with small show False by simp
        qed
        with False have "e = k - 24" by simp
        moreover from this \<open>pow2 (k - e) \<le> of_nat n\<close> have "of_nat (2 ^ 24) \<le> (of_nat n :: rat)" by simp
        then have "n = 2 ^ 24" using m(2) by (simp only: of_nat_le_iff)
        ultimately have "m * pow2 (23 - k) = of_nat (2 ^ 23)" by (simp add: m(1) flip: power_int_add)
        then show ?thesis by blast
      qed
      then obtain g where g: "m * pow2 (23 - k) = of_nat g" by blast
      have mg: "m = of_nat g * pow2 (k - 23)" using g by (simp add: shift)
      have "of_nat (2 ^ 23) = pow2 k * pow2 (23 - k)" by (simp flip: power_int_add)
      also have "\<dots> \<le> of_nat g" using k(1) by (simp only: g [symmetric]) simp
      finally have lo: "2 ^ 23 \<le> g" by (simp only: of_nat_le_iff)
      have "of_nat g < pow2 (k + 1) * pow2 (23 - k)" using k(2) by (simp only: g [symmetric]) simp
      also have "\<dots> = of_nat (2 ^ 24)" by (simp flip: power_int_add)
      finally have hi: "g < 2 ^ 24" by (simp only: of_nat_less_iff)
      have "f32_value (f32_word s (nat (k + 127)) (g - 2 ^ 23)) = Fin s (of_nat g * pow2 (k - 23))"
        using lo hi big k127 by (subst f32_word_value) auto
      then show ?thesis using Fin False big
        by (simp add: f32_bits_def k_def [symmetric] g mg [symmetric])
    qed
  qed
qed

lemma representable_rnd:
  assumes "0 \<le> q" "rnd32_mag q < pow2 128" shows "representable (rnd32_mag q)"
proof (cases "q = 0")
  case True
  then show ?thesis by (auto simp: rnd32_mag_def representable_def intro!: exI [of _ 0])
next
  case False
  with assms have q: "0 < q" by simp
  define e where "e = max (exponent q - 23) (- 149)"
  define n where "n = nat (round_even (q / pow2 e))"
  have "q < pow2 (exponent q + 1)" using exponent_bounds [OF q] by simp
  also have "\<dots> \<le> pow2 (24 + e)" by (intro power_int_increasing) (auto simp: e_def)
  finally have "q / pow2 e \<le> of_int (2 ^ 24)" by (simp add: divide_le_eq power_int_add)
  then have "round_even (q / pow2 e) \<le> 2 ^ 24" using round_even_mono round_even_int by metis
  moreover have "0 \<le> round_even (q / pow2 e)" using q by (simp add: round_even_nonneg)
  ultimately have n: "n \<le> 2 ^ 24" "of_int (round_even (q / pow2 e)) = (of_nat n :: rat)" by (simp_all add: n_def)
  have "rnd32_mag q = of_nat n * pow2 e" using False by (simp add: rnd32_mag_def Let_def e_def [symmetric] n(2))
  with n(1) assms(2) show ?thesis unfolding representable_def by (auto simp: e_def intro!: exI [of _ n] exI [of _ e])
qed

lemma is_single_rnd: "0 \<le> q \<Longrightarrow> is_single (rnd32 s q)"
  by (simp add: rnd32_def Let_def representable_rnd)

lemma f32_value_single: "is_single (f32_value w)"
proof -
  define n where "n = unat w"
  define e where "e = n div 2 ^ 23 mod 256"
  define f where "f = n mod 2 ^ 23"
  have f: "f < 2 ^ 23" and e: "e < 256" by (simp_all add: f_def e_def)
  have "representable (of_nat f * pow2 (- 149))"
  proof -
    have "of_nat f * pow2 (- 149) \<le> of_nat f * 1" by (intro mult_left_mono) simp_all
    also have "\<dots> < pow2 128" using f by (simp add: of_nat_less_iff [of f "2 ^ 128", simplified])
    finally show ?thesis using f unfolding representable_def by (auto intro!: exI [of _ f] exI [of _ "- 149"])
  qed
  moreover have "representable (of_nat (2 ^ 23 + f) * pow2 (int e - 150))" if "e \<noteq> 0" "e \<noteq> 255"
  proof -
    have "2 ^ 23 + f < 2 ^ 24" using f by simp
    then have "of_nat (2 ^ 23 + f) < (of_nat (2 ^ 24) :: rat)" by (simp only: of_nat_less_iff)
    then have "of_nat (2 ^ 23 + f) * pow2 (int e - 150) < pow2 24 * pow2 (int e - 150)"
      by (intro mult_strict_right_mono) simp_all
    also have "\<dots> = pow2 (24 + (int e - 150))" by (rule power_int_add [symmetric]) simp
    also have "\<dots> \<le> pow2 128" using e that by (intro power_int_increasing) auto
    finally show ?thesis using f that unfolding representable_def
      by (intro conjI exI [of _ "2 ^ 23 + f"] exI [of _ "int e - 150"]) auto
  qed
  ultimately show ?thesis
    unfolding f32_value_def Let_def n_def [symmetric] e_def [symmetric] f_def [symmetric] by simp
qed

lemma is_single_S [simp]: "is_single S0" "is_single S1"
proof -
  have "representable 1" unfolding representable_def by (intro conjI exI [of _ 1] exI [of _ 0]) auto
  then show "is_single S0" "is_single S1"
    by (auto simp: S0_def S1_def representable_def intro!: exI [of _ 0])
qed

lemma is_single_clamp: "is_single lo \<Longrightarrow> is_single hi \<Longrightarrow> is_single x \<Longrightarrow> is_single (f32_clamp lo hi x)"
  by (simp add: f32_clamp_def Let_def)

lemma is_single_neg [simp]: "is_single (fneg x) = is_single x"
  by (cases x) simp_all

lemma is_single_add: "is_single x \<Longrightarrow> is_single y \<Longrightarrow> is_single (fadd x y)"
  by (cases x; cases y) (auto simp: Let_def is_single_rnd simp del: sval.simps, auto simp: representable_def intro!: exI [of _ 0])

lemma is_single_sub: "is_single x \<Longrightarrow> is_single y \<Longrightarrow> is_single (fsub x y)"
  by (simp add: fsub_def is_single_add)

lemma representable_0: "representable 0"
  by (auto simp: representable_def intro!: exI [of _ 0])

lemma is_single_div: "is_single x \<Longrightarrow> is_single y \<Longrightarrow> is_single (fdiv x y)"
proof (cases x; cases y)
  fix s m t n assume "is_single x" "is_single y" and xy: "x = Fin s m" "y = Fin t n"
  then have "0 \<le> m / n" by (auto intro: divide_nonneg_nonneg representable_nonneg)
  then have "is_single (rnd32 (s \<noteq> t) (m / n))" by (rule is_single_rnd)
  with xy show ?thesis by simp
qed (auto simp: representable_0)

text \<open>A clamp to the unit interval lets a NaN through and nothing else out of the interval.\<close>

definition in_unit :: "32 word \<Rightarrow> bool" where
  "in_unit w = (case f32_value w of Fin s m \<Rightarrow> 0 \<le> sval (Fin s m) \<and> sval (Fin s m) \<le> 1 | _ \<Rightarrow> False)"

definition finite32 :: "32 word \<Rightarrow> bool" where
  "finite32 w = (case f32_value w of Fin s m \<Rightarrow> True | _ \<Rightarrow> False)"

lemma clamp_unit:
  "x \<noteq> NaN \<Longrightarrow> \<exists>s m. f32_clamp S0 S1 x = Fin s m \<and> 0 \<le> sval (Fin s m) \<and> sval (Fin s m) \<le> 1"
  by (cases x) (auto simp: f32_clamp_def Let_def S0_def S1_def)

lemma clamp_NaN [simp]: "f32_clamp lo hi NaN = NaN"
  by (cases hi) (auto simp: f32_clamp_def Let_def)

lemma clamp_in_unit: "is_single x \<Longrightarrow> in_unit (f32_bits (f32_clamp S0 S1 x)) \<longleftrightarrow> x \<noteq> NaN"
  using clamp_unit [of x] by (auto simp: in_unit_def f32_value_bits is_single_clamp)

lemma clamp_is_NaN: "is_single x \<Longrightarrow> f32_value (f32_bits (f32_clamp S0 S1 x)) = NaN \<longleftrightarrow> x = NaN"
  using clamp_unit [of x] by (cases "x = NaN") (auto simp: f32_value_bits is_single_clamp)

end
