(* ===== verification/H264_Mock.thy ===== *)
theory H264_Mock
  imports Media_Codec Single
begin

text \<open>
  The picture codec in use (\<open>packages/media/src/h264.rs\<close>): access units in Annex-B framing whose slices carry the pixels, and the
  decoder that finds them again by their start codes. A panic (a frame size no vector can have) is \<open>None\<close>.
\<close>

section \<open>Data\<close>

definition DEFAULT_TARGET_BITRATE_BPS :: u32 where "DEFAULT_TARGET_BITRATE_BPS = 4000000"

definition MOCK_H264_MAGIC :: bytes where "MOCK_H264_MAGIC = utf8_bytes ''MH264''"

datatype nalu_format = AnnexB | Avcc

record encoded_access_unit =
  au_pts_host_mono :: duration
  au_keyframe :: bool
  au_format :: nalu_format
  au_data :: bytes
  au_target_bitrate_bps :: u32

record h264_encoder_config =
  hc_width :: u32
  hc_height :: u32
  hc_fps :: u32
  hc_target_bitrate_bps :: u32

definition default_h264_config :: h264_encoder_config where
  "default_h264_config = \<lparr>hc_width = 0, hc_height = 0, hc_fps = 30, hc_target_bitrate_bps = DEFAULT_TARGET_BITRATE_BPS\<rparr>"

datatype h264_error = InvalidFrame string | InvalidBitstream string | H264Unsupported string

fun show_h264_error :: "h264_error \<Rightarrow> string" where
  "show_h264_error (InvalidFrame m) = ''invalid frame: '' @ m"
| "show_h264_error (InvalidBitstream m) = ''invalid bitstream: '' @ m"
| "show_h264_error (H264Unsupported m) = ''unsupported: '' @ m"

section \<open>The encoder\<close>

record mock_encoder =
  me_width :: u32
  me_height :: u32
  me_fps :: u32
  me_target_bitrate_bps :: u32
  me_frames_encoded :: u64
  me_keyframe_pending :: bool
  me_keyframe_interval :: u64

definition new_mock_encoder :: "h264_encoder_config \<Rightarrow> mock_encoder" where
  "new_mock_encoder c =
     \<lparr>me_width = hc_width c, me_height = hc_height c, me_fps = max (hc_fps c) 1,
      me_target_bitrate_bps = (if hc_target_bitrate_bps c = 0 then DEFAULT_TARGET_BITRATE_BPS else hc_target_bitrate_bps c),
      me_frames_encoded = 0, me_keyframe_pending = True, me_keyframe_interval = 30\<rparr>"

definition with_keyframe_interval :: "u64 \<Rightarrow> mock_encoder \<Rightarrow> mock_encoder" where
  "with_keyframe_interval n e = e\<lparr>me_keyframe_interval := n\<rparr>"

definition set_target_bitrate_bps :: "u32 \<Rightarrow> mock_encoder \<Rightarrow> mock_encoder" where
  "set_target_bitrate_bps bps e =
     e\<lparr>me_target_bitrate_bps := if bps = 0 then DEFAULT_TARGET_BITRATE_BPS else bps\<rparr>"

definition should_keyframe :: "bool \<Rightarrow> mock_encoder \<Rightarrow> bool" where
  "should_keyframe force e \<longleftrightarrow>
     force \<or> me_keyframe_pending e \<or> me_frames_encoded e = 0 \<or>
     me_keyframe_interval e > 0 \<and> me_frames_encoded e mod me_keyframe_interval e = 0"

definition validate_frame :: "video_frame \<Rightarrow> h264_error + unit" where
  "validate_frame f =
     (if \<not> is_well_formed f then Inl (InvalidFrame ''frame buffer does not match dimensions'')
      else case vf_format f of
        Gray8 \<Rightarrow> Inl (H264Unsupported ''Gray8 not supported by mock H.264'')
      | _ \<Rightarrow> Inr ())"

definition annexb_nal :: "bytes \<Rightarrow> bytes" where
  "annexb_nal nal = [0, 0, 0, 1] @ nal"

definition build_sps :: "mock_encoder \<Rightarrow> u32 \<Rightarrow> u32 \<Rightarrow> bytes" where
  "build_sps e w h =
     annexb_nal ([0x67] @ MOCK_H264_MAGIC @ le_bytes 4 (unat w) @ le_bytes 4 (unat h) @ le_bytes 4 (unat (me_fps e)) @
       le_bytes 4 (unat (me_target_bitrate_bps e)))"

definition build_pps :: bytes where
  "build_pps = annexb_nal [0x68, 0]"

record preview_sample =
  ps_width :: u32
  ps_height :: u32
  ps_bpp :: u8
  ps_pixels :: bytes

definition build_slice :: "mock_encoder \<Rightarrow> preview_sample \<Rightarrow> bool \<Rightarrow> u64 \<Rightarrow> bytes" where
  "build_slice e p keyframe index =
     annexb_nal ([if keyframe then 0x65 else 0x41] @ MOCK_H264_MAGIC @ le_bytes 8 (unat index) @
       le_bytes 4 (unat (ps_width p)) @ le_bytes 4 (unat (ps_height p)) @ [ps_bpp p] @
       le_bytes 4 (unat (me_target_bitrate_bps e)) @ le_bytes 4 (unat (of_nat (length (ps_pixels p)) :: u32)) @ ps_pixels p)"

definition MAX_PREVIEW_WIDTH :: nat where "MAX_PREVIEW_WIDTH = 1280"
definition MAX_PREVIEW_HEIGHT :: nat where "MAX_PREVIEW_HEIGHT = 720"

definition pixel_rgb :: "video_frame \<Rightarrow> nat \<Rightarrow> nat \<Rightarrow> nat \<Rightarrow> u32 list" where
  "pixel_rgb f sx sy src_bpp =
     (let si = (sy * unat (vf_width f) + sx) * src_bpp; d = (\<lambda>k. ucast (vf_data f ! (si + k)) :: u32) in
      if si + src_bpp > length (vf_data f) then [0, 0, 0]
      else case vf_format f of
        Rgb24 \<Rightarrow> [d 0, d 1, d 2]
      | Rgba8 \<Rightarrow> [d 0, d 1, d 2]
      | Bgra8 \<Rightarrow> [d 2, d 1, d 0]
      | Gray8 \<Rightarrow> [d 0, d 0, d 0])"

text \<open>The average of a channel over a box; the sums are \<open>u32\<close>.\<close>

definition box_average :: "u32 list list \<Rightarrow> bytes" where
  "box_average ps =
     map (\<lambda>ch. let n = (of_nat (length ps) :: u32); acc = sum_list (map (\<lambda>p. p ! ch) ps) in
       ucast (if n = 0 then 0 else acc div n)) [0, 1, 2]"

definition box_downscale_rgb :: "video_frame \<Rightarrow> u32 \<Rightarrow> u32 \<Rightarrow> nat \<Rightarrow> bytes" where
  "box_downscale_rgb f dw dh src_bpp =
     (let sw = unat (max (vf_width f) 1); sh = unat (max (vf_height f) 1) in
      concat (map (\<lambda>y.
        let sy0 = y * sh div unat dh; sy1 = max ((y + 1) * sh div unat dh) (sy0 + 1) in
        concat (map (\<lambda>x.
          let sx0 = x * sw div unat dw; sx1 = max ((x + 1) * sw div unat dw) (sx0 + 1) in
          box_average (concat (map (\<lambda>sy. map (\<lambda>sx. pixel_rgb f sx sy src_bpp) [sx0..<min sx1 sw]) [sy0..<min sy1 sh])))
          [0..<unat dw])) [0..<unat dh]))"

definition preview_pixels :: "video_frame \<Rightarrow> preview_sample" where
  "preview_pixels f =
     (let src_bpp = bytes_per_pixel (vf_format f) in
      if unat (vf_width f) \<le> MAX_PREVIEW_WIDTH \<and> unat (vf_height f) \<le> MAX_PREVIEW_HEIGHT \<and> vf_data f \<noteq> [] then
        \<lparr>ps_width = vf_width f, ps_height = vf_height f, ps_bpp = of_nat src_bpp, ps_pixels = vf_data f\<rparr>
      else
        let scale = f32_min (f32_min (fdiv (f32_of_nat MAX_PREVIEW_WIDTH) (f32_of_nat (unat (max (vf_width f) 1))))
                      (fdiv (f32_of_nat MAX_PREVIEW_HEIGHT) (f32_of_nat (unat (max (vf_height f) 1))))) S1;
            dw = u32_of_f32 (f32_max (f32_round (fmul (f32_of_nat (unat (vf_width f))) scale)) S1);
            dh = u32_of_f32 (f32_max (f32_round (fmul (f32_of_nat (unat (vf_height f))) scale)) S1)
        in \<lparr>ps_width = dw, ps_height = dh, ps_bpp = 3, ps_pixels = box_downscale_rgb f dw dh src_bpp\<rparr>)"

definition h264_encode :: "video_frame \<Rightarrow> bool \<Rightarrow> mock_encoder \<Rightarrow> (h264_error + encoded_access_unit) \<times> mock_encoder" where
  "h264_encode f force e =
     (case validate_frame f of
        Inl err \<Rightarrow> (Inl err, e)
      | Inr _ \<Rightarrow>
          let e1 = e\<lparr>me_width := if me_width e = 0 then vf_width f else me_width e,
                     me_height := if me_height e = 0 then vf_height f else me_height e\<rparr>;
              keyframe = should_keyframe force e1;
              p = preview_pixels f;
              bs = (if keyframe then build_sps e1 (ps_width p) (ps_height p) @ build_pps else []) @
                build_slice e1 p keyframe (me_frames_encoded e1);
              e2 = e1\<lparr>me_frames_encoded := sat_add (me_frames_encoded e1) 1,
                     me_keyframe_pending := if keyframe then False else me_keyframe_pending e1\<rparr>
          in (Inr \<lparr>au_pts_host_mono = vf_pts_host_mono f, au_keyframe = keyframe, au_format = AnnexB, au_data = bs,
                 au_target_bitrate_bps = me_target_bitrate_bps e2\<rparr>, e2))"

definition request_keyframe :: "mock_encoder \<Rightarrow> mock_encoder" where
  "request_keyframe e = e\<lparr>me_keyframe_pending := True\<rparr>"

section \<open>The decoder\<close>

record mock_slice_meta =
  sl_index :: u64
  sl_width :: u32
  sl_height :: u32
  sl_bpp :: u8
  sl_target_bitrate_bps :: u32
  sl_sample :: bytes
  sl_keyframe :: bool

record mock_decoder =
  md_frames_decoded :: u64
  md_last_sps :: "(u32 \<times> u32) option"
  md_last_fps :: "u32 option"

definition new_mock_decoder :: mock_decoder where
  "new_mock_decoder = \<lparr>md_frames_decoded = 0, md_last_sps = None, md_last_fps = None\<rparr>"

text \<open>\<open>find_nal_header_offsets\<close> from position \<open>i\<close>; the second argument is \<open>data[i..]\<close>.\<close>

function nal_offsets :: "nat \<Rightarrow> bytes \<Rightarrow> nat list" where
  "nal_offsets i d =
     (if length d \<le> 3 then []
      else if take 4 d = [0, 0, 0, 1] then (i + 4) # nal_offsets (i + 4) (drop 4 d)
      else if take 3 d = [0, 0, 1] then (i + 3) # nal_offsets (i + 3) (drop 3 d)
      else nal_offsets (i + 1) (drop 1 d))"
  by pat_completeness auto
termination
  by (relation "measure (\<lambda>(i, d). length d)") auto

declare nal_offsets.simps [simp del]

definition find_nal_header_offsets :: "bytes \<Rightarrow> nat list" where
  "find_nal_header_offsets d = nal_offsets 0 d"

definition slice_bytes :: "bytes \<Rightarrow> nat \<Rightarrow> nat \<Rightarrow> bytes" where
  "slice_bytes d a n = take n (drop a d)"

definition is_mock_bitstream :: "bytes \<Rightarrow> bool" where
  "is_mock_bitstream d \<longleftrightarrow>
     list_ex (\<lambda>hdr. hdr + 1 + 5 \<le> length d \<and> slice_bytes d (hdr + 1) 5 = MOCK_H264_MAGIC) (find_nal_header_offsets d) \<or>
     list_ex (\<lambda>i. i + 5 \<le> length d \<and> slice_bytes d i 5 = MOCK_H264_MAGIC) [0..<length d]"

fun sps_from :: "bytes \<Rightarrow> nat list \<Rightarrow> (u32 \<times> u32 \<times> u32) option" where
  "sps_from d [] = None"
| "sps_from d (hdr # hs) =
     (if hdr \<ge> length d then sps_from d hs
      else if unat (d ! hdr) mod 32 \<noteq> 7 then sps_from d hs
      else if hdr + 1 + 21 > length d then sps_from d hs
      else if slice_bytes d (hdr + 1) 5 \<noteq> MOCK_H264_MAGIC then sps_from d hs
      else Some (of_nat (le_value (slice_bytes d (hdr + 6) 4)), of_nat (le_value (slice_bytes d (hdr + 10) 4)),
                 of_nat (le_value (slice_bytes d (hdr + 14) 4))))"

definition find_mock_sps :: "bytes \<Rightarrow> (u32 \<times> u32 \<times> u32) option" where
  "find_mock_sps d = sps_from d (find_nal_header_offsets d)"

text \<open>One header of the loop of \<open>parse_mock_slice\<close>: skipped, or the slice read there.\<close>

definition is_slice :: "bytes \<Rightarrow> nat \<Rightarrow> bool" where
  "is_slice d hdr \<longleftrightarrow>
     hdr < length d \<and> unat (d ! hdr) mod 32 \<in> {1, 5} \<and> hdr + 1 + 30 \<le> length d \<and>
     slice_bytes d (hdr + 1) 5 = MOCK_H264_MAGIC"

definition slice_at :: "bytes \<Rightarrow> nat \<Rightarrow> h264_error + mock_slice_meta" where
  "slice_at d hdr =
     (let sample_len = unat (of_nat (le_value (slice_bytes d (hdr + 27) 4)) :: u32); off = hdr + 31 in
      if off + sample_len > length d then Inl (InvalidBitstream ''sample truncated'')
      else Inr \<lparr>sl_index = of_nat (le_value (slice_bytes d (hdr + 6) 8)),
             sl_width = of_nat (le_value (slice_bytes d (hdr + 14) 4)),
             sl_height = of_nat (le_value (slice_bytes d (hdr + 18) 4)),
             sl_bpp = d ! (hdr + 22),
             sl_target_bitrate_bps = of_nat (le_value (slice_bytes d (hdr + 23) 4)),
             sl_sample = slice_bytes d off sample_len,
             sl_keyframe = (unat (d ! hdr) mod 32 = 5)\<rparr>)"

fun slice_from :: "bytes \<Rightarrow> nat list \<Rightarrow> h264_error + mock_slice_meta" where
  "slice_from d [] = Inl (InvalidBitstream ''no MH264 slice NAL in access unit'')"
| "slice_from d (hdr # hs) = (if is_slice d hdr then slice_at d hdr else slice_from d hs)"

definition parse_mock_slice :: "bytes \<Rightarrow> h264_error + mock_slice_meta" where
  "parse_mock_slice d = slice_from d (find_nal_header_offsets d)"

text \<open>The loop that repeats a short sample over the frame.\<close>

function tile :: "nat \<Rightarrow> bytes \<Rightarrow> bytes" where
  "tile n s = (if n = 0 \<or> s = [] then [] else take n s @ tile (n - length s) s)"
  by pat_completeness auto
termination
  by (relation "measure (\<lambda>(n, s). n)") auto

declare tile.simps [simp del]

definition reconstruct_frame :: "mock_slice_meta \<Rightarrow> duration \<Rightarrow> (u32 \<times> u32) option \<Rightarrow> (h264_error + video_frame) option" where
  "reconstruct_frame m pts sps =
     (case if sl_width m > 0 \<and> sl_height m > 0 then Some (sl_width m, sl_height m) else sps of
        None \<Rightarrow> Some (Inl (InvalidBitstream ''missing geometry''))
      | Some (w, h) \<Rightarrow>
          if w = 0 \<or> h = 0 then Some (Inl (InvalidBitstream ''zero geometry''))
          else
            let fmt = (if sl_bpp m = 3 then Rgb24 else if sl_bpp m = 4 then Bgra8 else Rgb24);
                total = sat_usize (sat_usize (unat w * unat h) * bytes_per_pixel fmt);
                bs = (if sl_sample m = [] then replicate total 0
                      else if length (sl_sample m) = total then sl_sample m
                      else tile total (sl_sample m))
            in if total \<ge> 2 ^ 63 then None
               else Some (Inr \<lparr>vf_pts_host_mono = pts, vf_width = w, vf_height = h, vf_format = fmt, vf_data = bs\<rparr>))"

definition h264_decode ::
  "bytes \<Rightarrow> duration \<Rightarrow> mock_decoder \<Rightarrow> ((h264_error + video_frame option) \<times> mock_decoder) option" where
  "h264_decode d pts dec =
     (if d = [] then Some (Inr None, dec)
      else
        let dec1 = (case find_mock_sps d of
              Some (w, h, fps) \<Rightarrow> dec\<lparr>md_last_sps := Some (w, h), md_last_fps := Some fps\<rparr>
            | None \<Rightarrow> dec)
        in case parse_mock_slice d of
             Inl err \<Rightarrow> Some (Inl err, dec1)
           | Inr m \<Rightarrow>
               (case reconstruct_frame m pts (md_last_sps dec1) of
                  None \<Rightarrow> None
                | Some (Inl err) \<Rightarrow> Some (Inl err, dec1)
                | Some (Inr f) \<Rightarrow> Some (Inr (Some f), dec1\<lparr>md_frames_decoded := sat_add (md_frames_decoded dec1) 1\<rparr>)))"

section \<open>Finding the slice\<close>

lemma MOCK_H264_MAGIC_code: "MOCK_H264_MAGIC = [77, 72, 50, 54, 52]"
  by (simp add: MOCK_H264_MAGIC_def utf8_bytes_def)

lemma short_list: "length xs < 4 \<Longrightarrow> xs = [] \<or> (\<exists>a. xs = [a]) \<or> (\<exists>a b. xs = [a, b]) \<or> (\<exists>a b c. xs = [a, b, c])"
  by (auto simp: less_Suc_eq numeral_eq_Suc length_Suc_conv)

lemma start_code_found: "i + length xs + 4 \<in> set (nal_offsets i (xs @ [0, 0, 0, 1] @ ys))"
proof (induction "length xs" arbitrary: i xs rule: less_induct)
  case less
  let ?d = "xs @ [0, 0, 0, 1] @ ys"
  have skip: "i + length xs + 4 \<in> set (nal_offsets (i + k) (drop k ?d))" if "0 < k" "k \<le> length xs" for k
    using less [of "drop k xs" "i + k"] that by simp
  show ?case
  proof (cases "length xs < 4")
    case True
    from short_list [OF this] consider "xs = []" | a where "xs = [a]" | a b where "xs = [a, b]" | a b c where "xs = [a, b, c]"
      by blast
    then show ?thesis
    proof cases
      case 1
      then show ?thesis by (simp add: nal_offsets.simps [of i "0 # _"])
    next
      case (2 a)
      with skip [of 1] show ?thesis by (simp add: nal_offsets.simps [of i "a # _"])
    next
      case (3 a b)
      with skip [of 1] show ?thesis by (simp add: nal_offsets.simps [of i "a # _"])
    next
      case (4 a b c)
      with skip [of 1] skip [of 3] show ?thesis by (simp add: nal_offsets.simps [of i "a # _"])
    qed
  next
    case False
    with skip [of 4] skip [of 3] skip [of 1] show ?thesis by (simp add: nal_offsets.simps [of i "xs @ _"])
  qed
qed

lemma offsets_sorted: "sorted_wrt (<) (nal_offsets i d) \<and> (\<forall>h \<in> set (nal_offsets i d). i < h)"
proof (induction i d rule: nal_offsets.induct)
  case (1 i d)
  consider "length d \<le> 3" | "3 < length d" "take 4 d = [0, 0, 0, 1]"
    | "3 < length d" "take 4 d \<noteq> [0, 0, 0, 1]" "take 3 d = [0, 0, 1]"
    | "3 < length d" "take 4 d \<noteq> [0, 0, 0, 1]" "take 3 d \<noteq> [0, 0, 1]" by linarith
  then show ?case
  proof cases
    case 1
    then show ?thesis by (simp add: nal_offsets.simps [of i d])
  next
    case 2
    then have "nal_offsets i d = (i + 4) # nal_offsets (i + 4) (drop 4 d)" by (simp add: nal_offsets.simps [of i d])
    with "1.IH"(1) 2 show ?thesis by (auto dest!: bspec)
  next
    case 3
    then have "nal_offsets i d = (i + 3) # nal_offsets (i + 3) (drop 3 d)" by (simp add: nal_offsets.simps [of i d])
    with "1.IH"(2) 3 show ?thesis by (auto dest!: bspec)
  next
    case 4
    then have "nal_offsets i d = nal_offsets (i + 1) (drop 1 d)" by (simp add: nal_offsets.simps [of i d])
    with "1.IH"(3) 4 show ?thesis by (auto dest!: bspec)
  qed
qed

lemma slice_from_first:
  assumes "sorted_wrt (<) hs" "h \<in> set hs" "is_slice d h" "\<And>k. k < h \<Longrightarrow> \<not> is_slice d k"
  shows "slice_from d hs = slice_at d h"
  using assms(1,2)
proof (induction hs)
  case (Cons k hs)
  show ?case
  proof (cases "k = h")
    case False
    with Cons.prems have "k < h" "h \<in> set hs" by auto
    with Cons assms(4) show ?thesis by simp
  qed (use assms(3) in simp)
qed simp

lemma parse_first:
  assumes "is_slice (xs @ [0, 0, 0, 1] @ ys) (length xs + 4)" "\<And>k. k < length xs + 4 \<Longrightarrow> \<not> is_slice (xs @ [0, 0, 0, 1] @ ys) k"
  shows "parse_mock_slice (xs @ [0, 0, 0, 1] @ ys) = slice_at (xs @ [0, 0, 0, 1] @ ys) (length xs + 4)"
  unfolding parse_mock_slice_def find_nal_header_offsets_def
  by (rule slice_from_first) (use offsets_sorted [of 0] start_code_found [of 0 xs ys] assms in auto)

lemma is_slice_nth:
  assumes "is_slice d k"
  shows "d ! (k + 1) = 77" "d ! (k + 2) = 72" "d ! (k + 3) = 50" "d ! (k + 4) = 54" "d ! (k + 5) = 52"
    "unat (d ! k) mod 32 \<in> {1, 5}"
proof -
  have m: "take 5 (drop (k + 1) d) = [77, 72, 50, 54, 52]" and len: "k + 31 \<le> length d"
    and t: "unat (d ! k) mod 32 \<in> {1, 5}"
    using assms by (simp_all add: is_slice_def slice_bytes_def MOCK_H264_MAGIC_code)
  have "d ! (k + j) = [77, 72, 50, 54, 52] ! (j - 1)" if "1 \<le> j" "j \<le> 5" for j
  proof -
    have "take 5 (drop (k + 1) d) ! (j - 1) = d ! (k + j)" using that len by (simp add: nth_drop)
    then show ?thesis by (simp only: m)
  qed
  from this [of 1] this [of 2] this [of 3] this [of 4] this [of 5]
  show "d ! (k + 1) = 77" "d ! (k + 2) = 72" "d ! (k + 3) = 50" "d ! (k + 4) = 54" "d ! (k + 5) = 52"
    by simp_all
  show "unat (d ! k) mod 32 \<in> {1, 5}" by (rule t)
qed

text \<open>Nothing before the slice of an access unit is taken for one.\<close>

lemma no_slice_in_delta:
  assumes "k < 4" shows "\<not> is_slice ([0, 0, 0, 1] @ 0x41 # ys) k"
proof
  assume "is_slice ([0, 0, 0, 1] @ 0x41 # ys) k"
  from is_slice_nth(1) [OF this] assms show False
    by (simp add: numeral_eq_Suc less_Suc_eq) (elim disjE; simp)
qed

lemma no_slice_in_key:
  fixes a b c d e f :: u8
  defines "sps \<equiv> [0, 0, 0, 1, 0x67, 77, 72, 50, 54, 52, a, b, 0, 0, c, d, 0, 0, e, f, 0, 0]"
  assumes "k < 36"
  shows "\<not> is_slice ((sps @ [r, s, t, u] @ [0, 0, 0, 1, 0x68, 0]) @ [0, 0, 0, 1] @ 0x65 # ys) k"
proof
  assume "is_slice ((sps @ [r, s, t, u] @ [0, 0, 0, 1, 0x68, 0]) @ [0, 0, 0, 1] @ 0x65 # ys) k"
  note m = is_slice_nth [OF this]
  have "k \<in> {0..<36}" using assms by simp
  also have "{0..<36} = set [0..<36]" by simp
  also have "[0..<36] = [0,1,2,3,4,5,6,7,8,9,10,11,12,13,14,15,16,17,18,19,20,21,22,23,24,25,26,27,28,29,30,31,32,33,34,35]"
    by (simp add: upt_rec)
  finally show False using m by (simp add: sps_def) (elim disjE; simp)
qed

lemma slice_bytes_at: "slice_bytes (xs @ ys) (length xs + k) n = take n (drop k ys)"
  by (simp add: slice_bytes_def)

text \<open>The fields of a slice that stands where the encoder put it.\<close>

lemma slice_at_built:
  fixes xs :: bytes and b :: u8
  assumes "length I = 8" "length W = 4" "length H = 4" "length R = 4" "length L = 4"
    and "unat (of_nat (le_value L) :: u32) = length px" "unat t mod 32 \<in> {1, 5}"
  defines "d \<equiv> xs @ [t] @ MOCK_H264_MAGIC @ I @ W @ H @ [b] @ R @ L @ px"
  shows "is_slice d (length xs)"
    and "slice_at d (length xs) = Inr \<lparr>sl_index = of_nat (le_value I), sl_width = of_nat (le_value W), sl_height = of_nat (le_value H),
      sl_bpp = b, sl_target_bitrate_bps = of_nat (le_value R), sl_sample = px, sl_keyframe = (unat t mod 32 = 5)\<rparr>"
proof -
  have m: "length MOCK_H264_MAGIC = 5" by (simp add: MOCK_H264_MAGIC_code)
  note at = slice_bytes_at [of xs "[t] @ MOCK_H264_MAGIC @ I @ W @ H @ [b] @ R @ L @ px", folded d_def]
  have parts: "slice_bytes d (length xs + 1) 5 = MOCK_H264_MAGIC" "slice_bytes d (length xs + 6) 8 = I"
    "slice_bytes d (length xs + 14) 4 = W" "slice_bytes d (length xs + 18) 4 = H" "slice_bytes d (length xs + 23) 4 = R"
    "slice_bytes d (length xs + 27) 4 = L" "slice_bytes d (length xs + 31) (length px) = px"
    using assms(1-5) m unfolding at by (simp_all add: numeral_eq_Suc)
  have nth: "d ! length xs = t" "d ! (length xs + 22) = b"
    using assms(1-5) m by (simp_all add: d_def nth_append)
  have len: "length d = length xs + 31 + length px" using assms(1-5) m by (simp add: d_def)
  show "is_slice d (length xs)" using parts(1) nth(1) len assms(7) by (simp add: is_slice_def)
  show "slice_at d (length xs) = Inr \<lparr>sl_index = of_nat (le_value I), sl_width = of_nat (le_value W), sl_height = of_nat (le_value H),
      sl_bpp = b, sl_target_bitrate_bps = of_nat (le_value R), sl_sample = px, sl_keyframe = (unat t mod 32 = 5)\<rparr>"
    unfolding slice_at_def Let_def parts nth assms(6) using len parts(7) by simp
qed

lemma le_bytes_4: "le_bytes 4 v = [of_nat v, of_nat (v div 256), of_nat (v div 256 div 256), of_nat (v div 256 div 256 div 256)]"
proof -
  have "(4 :: nat) = Suc (Suc (Suc (Suc 0)))" by simp
  then show ?thesis by (simp only: le_bytes.simps)
qed

lemma le_bytes_small:
  assumes "v < 65536" shows "le_bytes 4 v = [of_nat v, of_nat (v div 256), 0, 0]"
proof -
  have "v div 256 < 256" using assms by simp
  then have "v div 256 div 256 = 0" by simp
  then show ?thesis by (simp add: le_bytes_4)
qed

text \<open>What the decoder reads off an access unit of the encoder.\<close>

lemma parse_encoded:
  assumes key: "kf \<Longrightarrow> unat (ps_width p) < 65536" "kf \<Longrightarrow> unat (ps_height p) < 65536" "kf \<Longrightarrow> unat (me_fps e) < 65536"
    and px: "length (ps_pixels p) < 2 ^ 32"
  shows "parse_mock_slice ((if kf then build_sps e (ps_width p) (ps_height p) @ build_pps else []) @ build_slice e p kf index) =
    Inr \<lparr>sl_index = index, sl_width = ps_width p, sl_height = ps_height p, sl_bpp = ps_bpp p,
      sl_target_bitrate_bps = me_target_bitrate_bps e, sl_sample = ps_pixels p, sl_keyframe = kf\<rparr>"
proof -
  define cw where "cw = (of_nat (length (ps_pixels p)) :: u32)"
  define pre where "pre = (if kf then build_sps e (ps_width p) (ps_height p) @ build_pps else [])"
  define t :: u8 where "t = (if kf then 0x65 else 0x41)"
  define rest where "rest = le_bytes 8 (unat index) @ le_bytes 4 (unat (ps_width p)) @ le_bytes 4 (unat (ps_height p)) @ [ps_bpp p] @
    le_bytes 4 (unat (me_target_bitrate_bps e)) @ le_bytes 4 (unat cw) @ ps_pixels p"
  define d where "d = (pre @ [0, 0, 0, 1]) @ [t] @ MOCK_H264_MAGIC @ rest"
  have hdr: "length (pre @ [0, 0, 0, 1 :: u8]) = length pre + 4" by simp
  have n: "unat (of_nat (le_value (le_bytes 4 (unat cw))) :: u32) = length (ps_pixels p)"
    using px unfolding le_u32 by (simp add: cw_def unsigned_of_nat take_bit_nat_eq_self)
  have t: "unat t mod 32 \<in> {1, 5}" "(unat t mod 32 = 5) = kf" by (simp_all add: t_def)
  note built = slice_at_built [of "le_bytes 8 (unat index)" "le_bytes 4 (unat (ps_width p))" "le_bytes 4 (unat (ps_height p))"
      "le_bytes 4 (unat (me_target_bitrate_bps e))" "le_bytes 4 (unat cw)" "ps_pixels p" t "pre @ [0, 0, 0, 1]" "ps_bpp p",
      OF length_le_bytes length_le_bytes length_le_bytes length_le_bytes length_le_bytes n t(1),
      folded rest_def, folded d_def, unfolded hdr le_u32 le_u64 t(2)]
  have first: "\<not> is_slice d k" if "k < length pre + 4" for k
  proof (cases kf)
    case False
    then show ?thesis using no_slice_in_delta [of k "MOCK_H264_MAGIC @ rest"] that by (simp add: d_def pre_def t_def)
  next
    case True
    note r = le_bytes_4 [of "unat (me_target_bitrate_bps e)"]
    have "length pre = 32" using True by (simp add: pre_def build_sps_def build_pps_def annexb_nal_def MOCK_H264_MAGIC_code)
    with that have k: "k < 36" by simp
    from no_slice_in_key [OF k] show ?thesis
      using True r le_bytes_small [OF key(1)] le_bytes_small [OF key(2)] le_bytes_small [OF key(3)]
      by (simp add: d_def pre_def t_def build_sps_def build_pps_def annexb_nal_def MOCK_H264_MAGIC_code)
  qed
  have "parse_mock_slice d = slice_at d (length pre + 4)"
    using parse_first [of pre "t # MOCK_H264_MAGIC @ rest"] built(1) first by (simp add: d_def)
  moreover have "d = pre @ build_slice e p kf index"
    by (simp add: d_def rest_def t_def cw_def build_slice_def annexb_nal_def)
  ultimately show ?thesis using built(2) by (simp add: pre_def)
qed

section \<open>Properties\<close>

lemma validate_frame_ok: "validate_frame f = Inr () \<longleftrightarrow> is_well_formed f \<and> vf_format f \<noteq> Gray8"
  by (cases "vf_format f") (auto simp: validate_frame_def)

lemma expected_len_small:
  assumes "unat (vf_width f) \<le> 1280" "unat (vf_height f) \<le> 720"
  shows "expected_len f = unat (vf_width f) * unat (vf_height f) * bytes_per_pixel (vf_format f)" "expected_len f < 2 ^ 32"
proof -
  have area: "unat (vf_width f) * unat (vf_height f) \<le> 1280 * 720" using assms by (rule mult_le_mono)
  have "bytes_per_pixel (vf_format f) \<le> 4" by (cases "vf_format f") simp_all
  with area have "unat (vf_width f) * unat (vf_height f) * bytes_per_pixel (vf_format f) \<le> 1280 * 720 * 4" by (rule mult_le_mono)
  with area show "expected_len f = unat (vf_width f) * unat (vf_height f) * bytes_per_pixel (vf_format f)" "expected_len f < 2 ^ 32"
    by (simp_all add: expected_len_def sat_usize_def)
qed

lemma bytes_per_pixel_bounds: "0 < bytes_per_pixel p" "bytes_per_pixel p \<le> 4"
  by (cases p; simp)+

text \<open>The label under which the decoder returns pixels of a format.\<close>

fun decoded_format :: "pixel_format \<Rightarrow> pixel_format" where
  "decoded_format Rgba8 = Bgra8"
| "decoded_format p = p"

lemma frame_survives:
  assumes "h264_encode f force e = (Inr au, e')" and "unat (vf_width f) \<le> 1280" and "unat (vf_height f) \<le> 720"
    and "unat (me_fps e) < 65536"
  shows "au_keyframe au = should_keyframe force e \<and>
    (\<exists>dec'. h264_decode (au_data au) pts dec =
       Some (Inr (Some (f\<lparr>vf_pts_host_mono := pts, vf_format := decoded_format (vf_format f)\<rparr>)), dec'))"
proof -
  from assms(1) have v: "is_well_formed f" "vf_format f \<noteq> Gray8"
    using validate_frame_ok [of f] by (auto simp: h264_encode_def split: sum.splits)
  have len: "length (vf_data f) = unat (vf_width f) * unat (vf_height f) * bytes_per_pixel (vf_format f)"
    "length (vf_data f) < 2 ^ 32" and dims: "vf_width f > 0" "vf_height f > 0" "vf_width f \<noteq> 0" "vf_height f \<noteq> 0"
    using v(1) expected_len_small [OF assms(2,3)] by (auto simp: is_well_formed_def)
  have ne: "vf_data f \<noteq> []"
    using len(1) dims bytes_per_pixel_bounds(1) [of "vf_format f"] by (auto simp: word_less_nat_alt)
  have p: "preview_pixels f = \<lparr>ps_width = vf_width f, ps_height = vf_height f,
      ps_bpp = of_nat (bytes_per_pixel (vf_format f)), ps_pixels = vf_data f\<rparr>"
    using assms(2,3) ne by (simp add: preview_pixels_def MAX_PREVIEW_WIDTH_def MAX_PREVIEW_HEIGHT_def)
  define e1 where "e1 = e\<lparr>me_width := if me_width e = 0 then vf_width f else me_width e,
    me_height := if me_height e = 0 then vf_height f else me_height e\<rparr>"
  define kf where "kf = should_keyframe force e"
  have kf: "should_keyframe force e1 = kf" by (simp add: kf_def e1_def should_keyframe_def)
  have fps: "unat (me_fps e1) < 65536" using assms(4) by (simp add: e1_def)
  have au: "au_keyframe au = kf"
    "au_data au = (if kf then build_sps e1 (vf_width f) (vf_height f) @ build_pps else []) @
       build_slice e1 (preview_pixels f) kf (me_frames_encoded e1)"
    using assms(1) v validate_frame_ok [of f] kf
    by (auto simp: h264_encode_def Let_def e1_def [symmetric] p split: sum.splits)
  have parse: "parse_mock_slice (au_data au) =
    Inr \<lparr>sl_index = me_frames_encoded e1, sl_width = vf_width f, sl_height = vf_height f,
      sl_bpp = of_nat (bytes_per_pixel (vf_format f)), sl_target_bitrate_bps = me_target_bitrate_bps e1,
      sl_sample = vf_data f, sl_keyframe = kf\<rparr>" (is "_ = Inr ?m")
    using parse_encoded [of kf "preview_pixels f" e1 "me_frames_encoded e1"] assms(2,3) fps len(2) by (cases kf) (simp_all add: au(2) p)
  have total: "sat_usize (sat_usize (unat (vf_width f) * unat (vf_height f)) * bytes_per_pixel (vf_format f)) = length (vf_data f)"
    using v(1) by (simp add: is_well_formed_def expected_len_def)
  have "reconstruct_frame ?m pts sps =
      Some (Inr (f\<lparr>vf_pts_host_mono := pts, vf_format := decoded_format (vf_format f)\<rparr>))" for sps
    using v(2) dims total len(2) ne by (cases "vf_format f") (simp_all add: reconstruct_frame_def Let_def)
  moreover have "au_data au \<noteq> []" by (simp add: au(2) build_slice_def annexb_nal_def)
  ultimately show ?thesis using parse au(1) kf_def by (auto simp: h264_decode_def Let_def)
qed

text \<open>
  C30. The picture survives the codec. Every valid frame of up to 1280 by 720 pixels, encoded at fewer than
  65536 frames a second, is found again by the decoder whatever its pixels are, start codes and magic included,
  and comes back with its size and every byte; the one change is that RGBA pixels come back labelled BGRA, with red
  and blue exchanged.
\<close>

theorem mock_video_roundtrip:
  assumes "h264_encode f force e = (Inr au, e')" and "unat (vf_width f) \<le> 1280" and "unat (vf_height f) \<le> 720"
    and "unat (me_fps e) < 65536"
  shows "au_keyframe au = should_keyframe force e \<and>
    (\<exists>dec'. h264_decode (au_data au) pts dec =
       Some (Inr (Some (f\<lparr>vf_pts_host_mono := pts, vf_format := decoded_format (vf_format f)\<rparr>)), dec'))"
  by (rule frame_survives [OF assms])

definition demo_frame :: video_frame where
  "demo_frame = \<lparr>vf_pts_host_mono = 0, vf_width = 1, vf_height = 2, vf_format = Rgb24, vf_data = [0, 0, 0, 1, 77, 72]\<rparr>"

theorem mock_video_roundtrip_witness:
  "\<exists>au e'. h264_encode demo_frame False (new_mock_encoder default_h264_config) = (Inr au, e') \<and> au_keyframe au \<and>
     (\<exists>dec'. h264_decode (au_data au) 7 new_mock_decoder = Some (Inr (Some (demo_frame\<lparr>vf_pts_host_mono := 7\<rparr>)), dec'))"
proof -
  have "is_well_formed demo_frame" by (simp add: demo_frame_def is_well_formed_def expected_len_def sat_usize_def)
  then have "validate_frame demo_frame = Inr ()" by (simp add: validate_frame_ok) (simp add: demo_frame_def)
  then obtain au e' where r: "h264_encode demo_frame False (new_mock_encoder default_h264_config) = (Inr au, e')"
    by (simp add: h264_encode_def Let_def)
  have h: "unat (vf_width demo_frame) \<le> 1280" "unat (vf_height demo_frame) \<le> 720"
    "unat (me_fps (new_mock_encoder default_h264_config)) < 65536" "vf_format demo_frame = Rgb24"
    by (simp_all add: demo_frame_def new_mock_encoder_def default_h264_config_def)
  have "should_keyframe False (new_mock_encoder default_h264_config)" by (simp add: should_keyframe_def new_mock_encoder_def)
  moreover have "demo_frame\<lparr>vf_pts_host_mono := 7, vf_format := decoded_format (vf_format demo_frame)\<rparr> = demo_frame\<lparr>vf_pts_host_mono := 7\<rparr>"
    by (simp add: demo_frame_def)
  ultimately show ?thesis using mock_video_roundtrip [OF r h(1-3), of 7 new_mock_decoder] r by auto
qed

text \<open>A slice of 35 bytes that claims a frame of more than the largest vector stops the decoder with a panic.\<close>

lemma huge_slice_panics:
  "\<exists>d. length d = 35 \<and> h264_decode d pts dec = None"
proof -
  define p where "p = \<lparr>ps_width = - 1, ps_height = - 1, ps_bpp = 3, ps_pixels = []\<rparr>"
  define d where "d = build_slice (new_mock_encoder default_h264_config) p False 0"
  have w: "unat (- 1 :: u32) = 4294967295" by (simp add: unsigned_minus_1_eq_mask mask_eq_exp_minus_1)
  have len: "length d = 35" by (simp add: d_def build_slice_def annexb_nal_def MOCK_H264_MAGIC_code p_def)
  have "parse_mock_slice d = Inr \<lparr>sl_index = 0, sl_width = - 1, sl_height = - 1, sl_bpp = 3,
      sl_target_bitrate_bps = me_target_bitrate_bps (new_mock_encoder default_h264_config), sl_sample = [], sl_keyframe = False\<rparr>"
    using parse_encoded [of False p "new_mock_encoder default_h264_config" 0] by (simp add: d_def) (simp add: p_def)
  moreover have "d \<noteq> []" using len by auto
  ultimately have "h264_decode d pts dec = None"
    by (simp add: h264_decode_def reconstruct_frame_def Let_def w sat_usize_def word_gt_0)
  with len show ?thesis by blast
qed

section \<open>Keyframes\<close>

text \<open>Calls of the encoder: keyframe requests, and frames with the caller's force flag; the flags of the units that come out.\<close>

datatype encoder_call = RequestKeyframe | EncodeFrame video_frame bool

fun encoder_run :: "encoder_call list \<Rightarrow> mock_encoder \<Rightarrow> bool list \<times> mock_encoder" where
  "encoder_run [] e = ([], e)"
| "encoder_run (RequestKeyframe # cs) e = encoder_run cs (request_keyframe e)"
| "encoder_run (EncodeFrame f force # cs) e =
     (case h264_encode f force e of
        (Inl err, e') \<Rightarrow> encoder_run cs e'
      | (Inr au, e') \<Rightarrow> (case encoder_run cs e' of (fl, e'') \<Rightarrow> (au_keyframe au # fl, e'')))"

text \<open>What the calls ask for: the flag of the \<open>n\<close>-th unit, given whether a request is pending.\<close>

fun wanted_keyframes :: "nat \<Rightarrow> nat \<Rightarrow> bool \<Rightarrow> encoder_call list \<Rightarrow> bool list" where
  "wanted_keyframes interval n pending [] = []"
| "wanted_keyframes interval n pending (RequestKeyframe # cs) = wanted_keyframes interval n True cs"
| "wanted_keyframes interval n pending (EncodeFrame f force # cs) =
     (if is_well_formed f \<and> vf_format f \<noteq> Gray8 then
        (let kf = (force \<or> pending \<or> n = 0 \<or> interval > 0 \<and> interval dvd n) in
         kf # wanted_keyframes interval (n + 1) (pending \<and> \<not> kf) cs)
      else wanted_keyframes interval n pending cs)"

lemma encode_flag:
  assumes "is_well_formed f" "vf_format f \<noteq> Gray8"
  shows "\<exists>au e'. h264_encode f force e = (Inr au, e') \<and> au_keyframe au = should_keyframe force e \<and>
    me_frames_encoded e' = sat_add (me_frames_encoded e) 1 \<and> me_keyframe_interval e' = me_keyframe_interval e \<and>
    me_keyframe_pending e' = (me_keyframe_pending e \<and> \<not> should_keyframe force e)"
  using assms validate_frame_ok [of f]
  by (auto simp: h264_encode_def Let_def should_keyframe_def)

lemma encode_invalid: "\<not> (is_well_formed f \<and> vf_format f \<noteq> Gray8) \<Longrightarrow> \<exists>err. h264_encode f force e = (Inl err, e)"
  using validate_frame_ok [of f] by (auto simp: h264_encode_def split: sum.splits)

lemma encoder_run_flags:
  "unat (me_frames_encoded e) + length cs < 2 ^ 64 \<Longrightarrow>
   fst (encoder_run cs e) = wanted_keyframes (unat (me_keyframe_interval e)) (unat (me_frames_encoded e)) (me_keyframe_pending e) cs"
proof (induction cs arbitrary: e)
  case (Cons c cs)
  show ?case
  proof (cases c)
    case RequestKeyframe
    with Cons.IH [of "request_keyframe e"] Cons.prems show ?thesis by (simp add: request_keyframe_def)
  next
    case (EncodeFrame f force)
    show ?thesis
    proof (cases "is_well_formed f \<and> vf_format f \<noteq> Gray8")
      case True
      then obtain au e' where r: "h264_encode f force e = (Inr au, e')" "au_keyframe au = should_keyframe force e"
        "me_frames_encoded e' = sat_add (me_frames_encoded e) 1" "me_keyframe_interval e' = me_keyframe_interval e"
        "me_keyframe_pending e' = (me_keyframe_pending e \<and> \<not> should_keyframe force e)"
        using encode_flag by blast
      have n: "unat (me_frames_encoded e') = unat (me_frames_encoded e) + 1"
        using Cons.prems by (simp add: r(3) unat_sat_add)
      have kf: "should_keyframe force e \<longleftrightarrow> force \<or> me_keyframe_pending e \<or> unat (me_frames_encoded e) = 0 \<or>
          unat (me_keyframe_interval e) > 0 \<and> unat (me_keyframe_interval e) dvd unat (me_frames_encoded e)"
        by (auto simp: should_keyframe_def word_gt_0 unat_gt_0 unat_eq_zero dvd_eq_mod_eq_0 simp flip: unat_mod)
      obtain fl e'' where "encoder_run cs e' = (fl, e'')" by fastforce
      then show ?thesis
        using Cons.IH [of e'] Cons.prems True EncodeFrame r n kf by (simp add: Let_def)
    next
      case False
      from encode_invalid [OF False] obtain err where "h264_encode f force e = (Inl err, e)" by blast
      with False EncodeFrame Cons.IH [of e] Cons.prems show ?thesis by auto
    qed
  qed
qed simp

text \<open>
  Keyframes come when they are due. Over any calls of a new encoder, requests and frames it refuses in between included,
  the unit it makes as number n is a keyframe exactly when it is the first one, the caller forced it, a keyframe was asked for since the
  last one, or n is a multiple of the interval; so no viewer waits longer than the interval for a
  picture it can decode.
\<close>

theorem keyframes_are_on_time:
  assumes "length cs < 2 ^ 64"
  shows "fst (encoder_run cs (with_keyframe_interval n (new_mock_encoder c))) = wanted_keyframes (unat n) 0 True cs"
  using encoder_run_flags [of "with_keyframe_interval n (new_mock_encoder c)" cs] assms
  by (simp add: with_keyframe_interval_def new_mock_encoder_def)

theorem keyframes_are_on_time_witness:
  "fst (encoder_run [EncodeFrame demo_frame False, EncodeFrame demo_frame False, EncodeFrame demo_frame False, RequestKeyframe,
      EncodeFrame demo_frame False] (with_keyframe_interval 2 (new_mock_encoder default_h264_config))) = [True, False, True, True]"
proof -
  have f: "is_well_formed demo_frame" "vf_format demo_frame \<noteq> Gray8"
    by (simp_all add: demo_frame_def is_well_formed_def expected_len_def sat_usize_def)
  show ?thesis
    by (subst keyframes_are_on_time) (simp_all add: f Let_def del: encoder_run.simps)
qed

end
