(* ===== verification/Host_Encode.thy ===== *)
theory Host_Encode
  imports H264_Mock
begin

text \<open>
  The picture encoder of the host (\<open>packages/platform-windows/src/capture/frame.rs\<close>, \<open>encode/h264.rs\<close>,
  \<open>encode/software.rs\<close>): captured frames with their row stride, the software encoder, and the choice among the encoders. The crate has
  its own copy of the encoder of packages/media; the section at the end shows that the viewer's decoder reads both. The Media Foundation
  encoder is a parameter.
\<close>

section \<open>Captured frames\<close>

datatype capture_format = CapBgra8 | CapRgba8 | CapRgb24

fun capture_bpp :: "capture_format \<Rightarrow> nat" where
  "capture_bpp CapBgra8 = 4"
| "capture_bpp CapRgba8 = 4"
| "capture_bpp CapRgb24 = 3"

record capture_frame =
  cf_pts_host_mono :: duration
  cf_width :: u32
  cf_height :: u32
  cf_stride :: u32
  cf_format :: capture_format
  cf_data :: bytes

definition capture_packed_len :: "capture_frame \<Rightarrow> nat" where
  "capture_packed_len f = sat_usize (sat_usize (unat (cf_width f) * unat (cf_height f)) * capture_bpp (cf_format f))"

definition capture_expected_len :: "capture_frame \<Rightarrow> nat" where
  "capture_expected_len f = sat_usize (unat (cf_stride f) * unat (cf_height f))"

definition capture_well_formed :: "capture_frame \<Rightarrow> bool" where
  "capture_well_formed f \<longleftrightarrow>
     cf_width f \<noteq> 0 \<and> cf_height f \<noteq> 0 \<and>
     \<not> unat (cf_stride f) < unat (cf_width f) * capture_bpp (cf_format f) \<and>
     length (cf_data f) = capture_expected_len f"

definition packed_frame :: "duration \<Rightarrow> u32 \<Rightarrow> u32 \<Rightarrow> capture_format \<Rightarrow> bytes \<Rightarrow> capture_frame" where
  "packed_frame pts width height format d =
     \<lparr>cf_pts_host_mono = pts, cf_width = width, cf_height = height,
      cf_stride = of_nat (min (unat width * capture_bpp format) (2 ^ 32 - 1)), cf_format = format, cf_data = d\<rparr>"

section \<open>Settings and errors\<close>

datatype encode_error =
    EeInvalidFrame string
  | EeClosed
  | EeHardwareUnavailable string
  | EeInvalidConfig string
  | EeOther string

fun show_encode_error :: "encode_error \<Rightarrow> string" where
  "show_encode_error (EeInvalidFrame m) = ''invalid frame: '' @ m"
| "show_encode_error EeClosed = ''encoder closed''"
| "show_encode_error (EeHardwareUnavailable m) = ''hardware H.264 encoder unavailable: '' @ m"
| "show_encode_error (EeInvalidConfig m) = ''invalid config: '' @ m"
| "show_encode_error (EeOther m) = ''encode error: '' @ m"

record encoder_config =
  ec_width :: u32
  ec_height :: u32
  ec_fps :: u32
  ec_target_bitrate_bps :: u32
  ec_disable_hw_encode :: bool
  ec_force_software :: bool

definition default_encoder_config :: encoder_config where
  "default_encoder_config = \<lparr>ec_width = 0, ec_height = 0, ec_fps = 30, ec_target_bitrate_bps = 4000000,
     ec_disable_hw_encode = False, ec_force_software = False\<rparr>"

definition prefer_software :: "encoder_config \<Rightarrow> bool" where
  "prefer_software c \<longleftrightarrow> ec_disable_hw_encode c \<or> ec_force_software c"

section \<open>The software encoder\<close>

text \<open>The access unit has the fields of the one in packages/media.\<close>

record soft_encoder =
  se_width :: u32
  se_height :: u32
  se_fps :: u32
  se_target_bitrate_bps :: u32
  se_frames_encoded :: u64
  se_keyframe_pending :: bool
  se_keyframe_interval :: u64

definition new_soft_encoder :: "encoder_config \<Rightarrow> soft_encoder" where
  "new_soft_encoder c =
     \<lparr>se_width = ec_width c, se_height = ec_height c, se_fps = max (ec_fps c) 1,
      se_target_bitrate_bps = (if ec_target_bitrate_bps c = 0 then 4000000 else ec_target_bitrate_bps c),
      se_frames_encoded = 0, se_keyframe_pending = True, se_keyframe_interval = 30\<rparr>"

definition soft_should_keyframe :: "bool \<Rightarrow> soft_encoder \<Rightarrow> bool" where
  "soft_should_keyframe force e =
     (if force \<or> se_keyframe_pending e then True
      else if se_frames_encoded e = 0 then True
      else if se_keyframe_interval e > 0 \<and> se_frames_encoded e mod se_keyframe_interval e = 0 then True
      else False)"

definition soft_validate_frame :: "capture_frame \<Rightarrow> encode_error + unit" where
  "soft_validate_frame f =
     (if \<not> capture_well_formed f then Inl (EeInvalidFrame ''frame buffer does not match dimensions/stride'') else Inr ())"

definition soft_annexb_nal :: "bytes \<Rightarrow> bytes" where
  "soft_annexb_nal nal = [0, 0, 0, 1] @ nal"

definition MOCK_SLICE_MAGIC :: bytes where "MOCK_SLICE_MAGIC = utf8_bytes ''MH264''"

definition soft_build_sps :: "soft_encoder \<Rightarrow> u32 \<Rightarrow> u32 \<Rightarrow> bytes" where
  "soft_build_sps e w h =
     soft_annexb_nal ([0x67] @ MOCK_SLICE_MAGIC @ le_bytes 4 (unat w) @ le_bytes 4 (unat h) @ le_bytes 4 (unat (se_fps e)) @
       le_bytes 4 (unat (se_target_bitrate_bps e)))"

definition soft_build_pps :: bytes where
  "soft_build_pps = soft_annexb_nal [0x68, 0]"

definition soft_build_slice :: "soft_encoder \<Rightarrow> preview_sample \<Rightarrow> bool \<Rightarrow> u64 \<Rightarrow> bytes" where
  "soft_build_slice e p keyframe index =
     soft_annexb_nal ([if keyframe then 0x65 else 0x41] @ MOCK_SLICE_MAGIC @ le_bytes 8 (unat index) @
       le_bytes 4 (unat (ps_width p)) @ le_bytes 4 (unat (ps_height p)) @ [ps_bpp p] @
       le_bytes 4 (unat (se_target_bitrate_bps e)) @ le_bytes 4 (unat (of_nat (length (ps_pixels p)) :: u32)) @ ps_pixels p)"

text \<open>The product of the row length is a \<open>u32\<close>; for a well-formed frame it does not wrap.\<close>

definition soft_pixel_rgb :: "capture_frame \<Rightarrow> nat \<Rightarrow> nat \<Rightarrow> nat \<Rightarrow> u32 list" where
  "soft_pixel_rgb f sx sy src_bpp =
     (let stride = unat (max (cf_stride f) (cf_width f * of_nat src_bpp));
          si = sy * stride + sx * src_bpp; d = (\<lambda>k. ucast (cf_data f ! (si + k)) :: u32) in
      if si + src_bpp > length (cf_data f) then [0, 0, 0]
      else case cf_format f of
        CapRgb24 \<Rightarrow> [d 0, d 1, d 2]
      | CapRgba8 \<Rightarrow> [d 0, d 1, d 2]
      | CapBgra8 \<Rightarrow> [d 2, d 1, d 0])"

definition soft_box_downscale_rgb :: "capture_frame \<Rightarrow> u32 \<Rightarrow> u32 \<Rightarrow> nat \<Rightarrow> bytes" where
  "soft_box_downscale_rgb f dw dh src_bpp =
     (let sw = unat (max (cf_width f) 1); sh = unat (max (cf_height f) 1) in
      concat (map (\<lambda>y.
        let sy0 = y * sh div unat dh; sy1 = max ((y + 1) * sh div unat dh) (sy0 + 1) in
        concat (map (\<lambda>x.
          let sx0 = x * sw div unat dw; sx1 = max ((x + 1) * sw div unat dw) (sx0 + 1) in
          box_average (concat (map (\<lambda>sy. map (\<lambda>sx. soft_pixel_rgb f sx sy src_bpp) [sx0..<min sx1 sw]) [sy0..<min sy1 sh])))
          [0..<unat dw])) [0..<unat dh]))"

definition soft_preview_pixels :: "capture_frame \<Rightarrow> preview_sample" where
  "soft_preview_pixels f =
     (let src_bpp = capture_bpp (cf_format f) in
      if unat (cf_width f) \<le> 1280 \<and> unat (cf_height f) \<le> 720 \<and> cf_data f \<noteq> [] then
        \<lparr>ps_width = cf_width f, ps_height = cf_height f, ps_bpp = of_nat src_bpp, ps_pixels = cf_data f\<rparr>
      else
        let scale = f32_min (f32_min (fdiv (f32_of_nat 1280) (f32_of_nat (unat (max (cf_width f) 1))))
                      (fdiv (f32_of_nat 720) (f32_of_nat (unat (max (cf_height f) 1))))) S1;
            dw = u32_of_f32 (f32_max (f32_round (fmul (f32_of_nat (unat (cf_width f))) scale)) S1);
            dh = u32_of_f32 (f32_max (f32_round (fmul (f32_of_nat (unat (cf_height f))) scale)) S1)
        in \<lparr>ps_width = dw, ps_height = dh, ps_bpp = 3, ps_pixels = soft_box_downscale_rgb f dw dh src_bpp\<rparr>)"

definition soft_encode :: "capture_frame \<Rightarrow> bool \<Rightarrow> soft_encoder \<Rightarrow> (encode_error + encoded_access_unit) \<times> soft_encoder" where
  "soft_encode f force e =
     (case soft_validate_frame f of
        Inl err \<Rightarrow> (Inl err, e)
      | Inr _ \<Rightarrow>
          let e1 = e\<lparr>se_width := if se_width e = 0 then cf_width f else se_width e,
                     se_height := if se_height e = 0 then cf_height f else se_height e\<rparr>;
              keyframe = soft_should_keyframe force e1;
              p = soft_preview_pixels f;
              bs = (if keyframe then soft_build_sps e1 (ps_width p) (ps_height p) @ soft_build_pps else []) @
                soft_build_slice e1 p keyframe (se_frames_encoded e1);
              e2 = e1\<lparr>se_frames_encoded := sat_add (se_frames_encoded e1) 1,
                     se_keyframe_pending := if keyframe then False else se_keyframe_pending e1\<rparr>
          in (Inr \<lparr>au_pts_host_mono = cf_pts_host_mono f, au_keyframe = keyframe, au_format = AnnexB, au_data = bs,
                 au_target_bitrate_bps = se_target_bitrate_bps e2\<rparr>, e2))"

definition soft_request_keyframe :: "soft_encoder \<Rightarrow> soft_encoder" where
  "soft_request_keyframe e = e\<lparr>se_keyframe_pending := True\<rparr>"

definition soft_set_bitrate :: "u32 \<Rightarrow> soft_encoder \<Rightarrow> soft_encoder" where
  "soft_set_bitrate bps e = e\<lparr>se_target_bitrate_bps := if bps = 0 then 4000000 else bps\<rparr>"

section \<open>The choice of an encoder\<close>

text \<open>
  \<open>mf_open\<close> is \<open>None\<close> where the build is not for Windows. The vendor encoder is a stub whose \<open>try_open\<close> always answers
  that it is unavailable (\<open>encode/hardware.rs\<close>), so no value of that kind exists.
\<close>

datatype 'm any_encoder = SoftwareEnc soft_encoder | MediaFoundationEnc 'm

record 'm media_foundation =
  mf_open :: "(encoder_config \<Rightarrow> encode_error + 'm) option"
  mf_encode :: "capture_frame \<Rightarrow> bool \<Rightarrow> 'm \<Rightarrow> (encode_error + encoded_access_unit) \<times> 'm"
  mf_request_keyframe :: "'m \<Rightarrow> 'm"
  mf_set_bitrate :: "u32 \<Rightarrow> 'm \<Rightarrow> 'm"

definition open_encoder :: "'m media_foundation \<Rightarrow> encoder_config \<Rightarrow> encode_error + 'm any_encoder" where
  "open_encoder M c =
     (if ec_fps c = 0 then Inl (EeInvalidConfig ''fps must be > 0'')
      else if prefer_software c then Inr (SoftwareEnc (new_soft_encoder c))
      else case mf_open M of
        None \<Rightarrow> Inr (SoftwareEnc (new_soft_encoder c))
      | Some try \<Rightarrow> (case try c of Inr mf \<Rightarrow> Inr (MediaFoundationEnc mf) | Inl _ \<Rightarrow> Inr (SoftwareEnc (new_soft_encoder c))))"

fun any_encode ::
  "'m media_foundation \<Rightarrow> capture_frame \<Rightarrow> bool \<Rightarrow> 'm any_encoder \<Rightarrow> (encode_error + encoded_access_unit) \<times> 'm any_encoder" where
  "any_encode M f force (SoftwareEnc e) = (case soft_encode f force e of (r, e1) \<Rightarrow> (r, SoftwareEnc e1))"
| "any_encode M f force (MediaFoundationEnc e) = (case mf_encode M f force e of (r, e1) \<Rightarrow> (r, MediaFoundationEnc e1))"

fun any_request_keyframe :: "'m media_foundation \<Rightarrow> 'm any_encoder \<Rightarrow> 'm any_encoder" where
  "any_request_keyframe M (SoftwareEnc e) = SoftwareEnc (soft_request_keyframe e)"
| "any_request_keyframe M (MediaFoundationEnc e) = MediaFoundationEnc (mf_request_keyframe M e)"

fun any_set_bitrate :: "'m media_foundation \<Rightarrow> u32 \<Rightarrow> 'm any_encoder \<Rightarrow> 'm any_encoder" where
  "any_set_bitrate M bps (SoftwareEnc e) = SoftwareEnc (soft_set_bitrate bps e)"
| "any_set_bitrate M bps (MediaFoundationEnc e) = MediaFoundationEnc (mf_set_bitrate M bps e)"

section \<open>The two encoders agree\<close>

fun capture_format_of :: "pixel_format \<Rightarrow> capture_format option" where
  "capture_format_of Bgra8 = Some CapBgra8"
| "capture_format_of Rgba8 = Some CapRgba8"
| "capture_format_of Rgb24 = Some CapRgb24"
| "capture_format_of Gray8 = None"

lemma capture_bpp_of: "capture_format_of p = Some c \<Longrightarrow> capture_bpp c = bytes_per_pixel p"
  by (cases p) auto

lemma capture_format_of_Some: "capture_format_of p \<noteq> None \<longleftrightarrow> p \<noteq> Gray8"
  by (cases p) auto

definition soft_twin :: "soft_encoder \<Rightarrow> mock_encoder" where
  "soft_twin e = \<lparr>me_width = se_width e, me_height = se_height e, me_fps = se_fps e, me_target_bitrate_bps = se_target_bitrate_bps e,
     me_frames_encoded = se_frames_encoded e, me_keyframe_pending = se_keyframe_pending e, me_keyframe_interval = se_keyframe_interval e\<rparr>"

definition capture_twin :: "video_frame \<Rightarrow> capture_format \<Rightarrow> capture_frame" where
  "capture_twin f c = packed_frame (vf_pts_host_mono f) (vf_width f) (vf_height f) c (vf_data f)"

lemma row_fits:
  assumes "unat (w :: u32) * n < 2 ^ 32"
  shows "unat (of_nat (min (unat w * n) (2 ^ 32 - 1)) :: u32) = unat w * n" "unat (w * of_nat n :: u32) = unat w * n"
proof -
  have fits: "unat (of_nat (unat w * n) :: u32) = unat w * n"
    using assms unfolding unsigned_of_nat by (simp add: take_bit_nat_eq_self)
  then show "unat (of_nat (min (unat w * n) (2 ^ 32 - 1)) :: u32) = unat w * n"
    using assms by (simp add: min_absorb1)
  have "(of_nat (unat w * n) :: u32) = w * of_nat n" by simp
  with fits show "unat (w * of_nat n :: u32) = unat w * n" by metis
qed

lemma twin_stride:
  assumes "capture_format_of (vf_format f) = Some c" "unat (vf_width f) * bytes_per_pixel (vf_format f) < 2 ^ 32"
  shows "unat (cf_stride (capture_twin f c)) = unat (vf_width f) * bytes_per_pixel (vf_format f)"
    "unat (max (cf_stride (capture_twin f c)) (vf_width f * of_nat (bytes_per_pixel (vf_format f)))) = unat (vf_width f) * bytes_per_pixel (vf_format f)"
  using row_fits [OF assms(2)] capture_bpp_of [OF assms(1)]
  by (auto simp: capture_twin_def packed_frame_def max_def)

lemma twin_pixel:
  assumes "capture_format_of (vf_format f) = Some c" "unat (vf_width f) * bytes_per_pixel (vf_format f) < 2 ^ 32"
  shows "soft_pixel_rgb (capture_twin f c) sx sy (bytes_per_pixel (vf_format f)) = pixel_rgb f sx sy (bytes_per_pixel (vf_format f))"
proof -
  have i: "sy * (unat (vf_width f) * b) + sx * b = (sy * unat (vf_width f) + sx) * b" for b by (simp add: algebra_simps)
  have "cf_width (capture_twin f c) = vf_width f" "cf_data (capture_twin f c) = vf_data f" "cf_format (capture_twin f c) = c"
    by (simp_all add: capture_twin_def packed_frame_def)
  then show ?thesis
    using assms(1) twin_stride(2) [OF assms] i
    by (cases "vf_format f") (simp_all add: soft_pixel_rgb_def pixel_rgb_def Let_def)
qed

lemma twin_preview:
  assumes "capture_format_of (vf_format f) = Some c" "unat (vf_width f) * bytes_per_pixel (vf_format f) < 2 ^ 32"
  shows "soft_preview_pixels (capture_twin f c) = preview_pixels f"
proof -
  have fields: "cf_width (capture_twin f c) = vf_width f" "cf_height (capture_twin f c) = vf_height f" "cf_data (capture_twin f c) = vf_data f"
    "cf_format (capture_twin f c) = c" by (simp_all add: capture_twin_def packed_frame_def)
  have "soft_box_downscale_rgb (capture_twin f c) dw dh (bytes_per_pixel (vf_format f)) = box_downscale_rgb f dw dh (bytes_per_pixel (vf_format f))"
    for dw dh unfolding soft_box_downscale_rgb_def box_downscale_rgb_def fields twin_pixel [OF assms] by (rule refl)
  then show ?thesis
    unfolding soft_preview_pixels_def preview_pixels_def fields capture_bpp_of [OF assms(1)] MAX_PREVIEW_WIDTH_def MAX_PREVIEW_HEIGHT_def Let_def
    by (simp only:)
qed

lemma twin_well_formed:
  assumes "capture_format_of (vf_format f) = Some c" "unat (vf_width f) * bytes_per_pixel (vf_format f) < 2 ^ 32"
  shows "capture_well_formed (capture_twin f c) = is_well_formed f"
proof -
  let ?b = "bytes_per_pixel (vf_format f)" and ?w = "unat (vf_width f)" and ?h = "unat (vf_height f)"
  have "unat x < 2 ^ 32" for x :: u32 by (rule order_less_le_trans [OF unsigned_less]) simp
  from this [of "vf_height f"] this [of "vf_width f"] have h: "?h \<le> 2 ^ 32 - 1" and w: "?w \<le> 2 ^ 32 - 1" by simp_all
  have "?w * ?h \<le> (2 ^ 32 - 1) * (2 ^ 32 - 1)" by (rule mult_le_mono [OF w h])
  then have "sat_usize (?w * ?h) = ?w * ?h" by (simp add: sat_usize_def)
  moreover have "?w * ?b * ?h = ?w * ?h * ?b" by (simp add: ac_simps)
  ultimately have "capture_expected_len (capture_twin f c) = expected_len f"
    using twin_stride(1) [OF assms] by (simp add: capture_expected_len_def expected_len_def) (simp add: capture_twin_def packed_frame_def ac_simps)
  then show ?thesis
    using twin_stride(1) [OF assms] capture_bpp_of [OF assms(1)]
    by (simp add: capture_well_formed_def is_well_formed_def word_gt_0) (simp add: capture_twin_def packed_frame_def)
qed

lemma twin_keyframe: "soft_should_keyframe force e = should_keyframe force (soft_twin e)"
  by (simp add: soft_should_keyframe_def should_keyframe_def soft_twin_def)

lemma twin_encode:
  assumes "capture_format_of (vf_format f) = Some c" "unat (vf_width f) * bytes_per_pixel (vf_format f) < 2 ^ 32"
    and "soft_encode (capture_twin f c) force e = (r, e')"
  shows "case r of
       Inr au \<Rightarrow> h264_encode f force (soft_twin e) = (Inr au, soft_twin e')
     | Inl _ \<Rightarrow> (\<exists>err. h264_encode f force (soft_twin e) = (Inl err, soft_twin e'))"
proof -
  have gray: "vf_format f \<noteq> Gray8" using assms(1) by auto
  have fields: "cf_width (capture_twin f c) = vf_width f" "cf_height (capture_twin f c) = vf_height f"
    "cf_pts_host_mono (capture_twin f c) = vf_pts_host_mono f" by (simp_all add: capture_twin_def packed_frame_def)
  define e1 where "e1 = e\<lparr>se_width := if se_width e = 0 then vf_width f else se_width e, se_height := if se_height e = 0 then vf_height f else se_height e\<rparr>"
  have e1: "soft_twin e1 = (soft_twin e)\<lparr>me_width := if me_width (soft_twin e) = 0 then vf_width f else me_width (soft_twin e),
      me_height := if me_height (soft_twin e) = 0 then vf_height f else me_height (soft_twin e)\<rparr>"
    by (simp add: e1_def soft_twin_def)
  have parts: "soft_build_sps e1 = build_sps (soft_twin e1)" "soft_build_slice e1 = build_slice (soft_twin e1)" "soft_build_pps = build_pps"
    by (intro ext; simp add: soft_build_sps_def build_sps_def soft_build_slice_def build_slice_def soft_annexb_nal_def annexb_nal_def
        MOCK_SLICE_MAGIC_def MOCK_H264_MAGIC_def soft_twin_def)
      (simp_all add: soft_build_slice_def build_slice_def soft_annexb_nal_def annexb_nal_def
        MOCK_SLICE_MAGIC_def MOCK_H264_MAGIC_def soft_twin_def soft_build_pps_def build_pps_def fun_eq_iff)
  show ?thesis
  proof (cases "is_well_formed f")
    case False
    then show ?thesis
      using assms(3) twin_well_formed [OF assms(1,2)] by (auto simp: soft_encode_def soft_validate_frame_def h264_encode_def validate_frame_def)
  next
    case True
    then have ok: "soft_validate_frame (capture_twin f c) = Inr ()" "validate_frame f = Inr ()"
      using gray twin_well_formed [OF assms(1,2)] by (cases "vf_format f"; simp add: soft_validate_frame_def validate_frame_def)+
    from assms(3) show ?thesis
      unfolding soft_encode_def h264_encode_def ok sum.case Let_def fields twin_preview [OF assms(1,2)] e1 [symmetric] e1_def [symmetric] parts twin_keyframe
      by (auto simp: soft_twin_def)
  qed
qed

text \<open>
  The viewer reads what the host encodes. The encoder of platform-windows is a second copy of the one of packages/media, with frames that carry
  a row stride. On every frame the host hands it, whose rows have fewer than \<open>2 ^ 32\<close> bytes, the two agree: both refuse, or both
  produce the same access unit and step to the same state, downscaled previews included. So the viewer's decoder finds the
  captured picture again, whole up to 1280 by 720 pixels.
\<close>

theorem viewer_reads_host_pictures:
  assumes "capture_format_of (vf_format f) = Some c" and "unat (vf_width f) * bytes_per_pixel (vf_format f) < 2 ^ 32"
    and "soft_encode (capture_twin f c) force e = (r, e')"
  shows "case r of
       Inl _ \<Rightarrow> \<exists>err. h264_encode f force (soft_twin e) = (Inl err, soft_twin e')
     | Inr au \<Rightarrow> h264_encode f force (soft_twin e) = (Inr au, soft_twin e') \<and>
         (unat (vf_width f) \<le> 1280 \<and> unat (vf_height f) \<le> 720 \<and> unat (se_fps e) < 65536 \<longrightarrow>
           (\<exists>dec'. h264_decode (au_data au) pts dec =
              Some (Inr (Some (f\<lparr>vf_pts_host_mono := pts, vf_format := decoded_format (vf_format f)\<rparr>)), dec')))"
proof (cases r)
  case (Inr au)
  with twin_encode [OF assms] have enc: "h264_encode f force (soft_twin e) = (Inr au, soft_twin e')" by simp
  have "me_fps (soft_twin e) = se_fps e" by (simp add: soft_twin_def)
  with enc Inr frame_survives [OF enc] show ?thesis by auto
qed (use twin_encode [OF assms] in simp)

definition demo_capture_frame :: video_frame where
  "demo_capture_frame = \<lparr>vf_pts_host_mono = 0, vf_width = 1, vf_height = 2, vf_format = Bgra8, vf_data = [0, 0, 0, 1, 77, 72, 50, 54]\<rparr>"

theorem viewer_reads_host_pictures_witness:
  "\<exists>au e'. soft_encode (capture_twin demo_capture_frame CapBgra8) False (new_soft_encoder default_encoder_config) = (Inr au, e') \<and>
     (\<exists>dec'. h264_decode (au_data au) 7 new_mock_decoder = Some (Inr (Some (demo_capture_frame\<lparr>vf_pts_host_mono := 7\<rparr>)), dec'))"
proof -
  let ?e = "new_soft_encoder default_encoder_config"
  have h: "capture_format_of (vf_format demo_capture_frame) = Some CapBgra8"
    "unat (vf_width demo_capture_frame) * bytes_per_pixel (vf_format demo_capture_frame) < 2 ^ 32" by (simp_all add: demo_capture_frame_def)
  have "is_well_formed demo_capture_frame" by (simp add: demo_capture_frame_def is_well_formed_def expected_len_def sat_usize_def)
  then obtain au e' where r: "soft_encode (capture_twin demo_capture_frame CapBgra8) False ?e = (Inr au, e')"
    using twin_well_formed [OF h] by (simp add: soft_encode_def soft_validate_frame_def Let_def)
  have same: "demo_capture_frame\<lparr>vf_pts_host_mono := 7, vf_format := decoded_format (vf_format demo_capture_frame)\<rparr> =
      demo_capture_frame\<lparr>vf_pts_host_mono := 7\<rparr>"
    "unat (vf_width demo_capture_frame) \<le> 1280" "unat (vf_height demo_capture_frame) \<le> 720" "unat (se_fps ?e) < 65536"
    by (simp_all add: demo_capture_frame_def new_soft_encoder_def default_encoder_config_def)
  from viewer_reads_host_pictures [OF h r, of 7 new_mock_decoder] r same show ?thesis by auto
qed

end
