(* ===== verification/Viewer_State.thy ===== *)
theory Viewer_State
  imports Host_Session
begin

text \<open>
  The viewer's connection machine (\<open>packages/viewer-core/src/state.rs\<close>): its phases, the events of
  transport and application that move it, and the exact condition under which input may leave the viewer.
\<close>

section \<open>Phases\<close>

datatype viewer_phase =
  VIdle | VConnecting | VAnswering | VConnected | VStreaming | VFailed string | VDisconnected | VClosed

fun phase_str :: "viewer_phase \<Rightarrow> string" where
  "phase_str VIdle = ''idle''"
| "phase_str VConnecting = ''connecting''"
| "phase_str VAnswering = ''answering''"
| "phase_str VConnected = ''connected''"
| "phase_str VStreaming = ''streaming''"
| "phase_str (VFailed _) = ''failed''"
| "phase_str VDisconnected = ''disconnected''"
| "phase_str VClosed = ''closed''"

fun is_active :: "viewer_phase \<Rightarrow> bool" where
  "is_active VConnecting = True"
| "is_active VAnswering = True"
| "is_active VConnected = True"
| "is_active VStreaming = True"
| "is_active _ = False"

fun can_play_media :: "viewer_phase \<Rightarrow> bool" where
  "can_play_media VConnected = True"
| "can_play_media VStreaming = True"
| "can_play_media _ = False"

fun can_send_input :: "viewer_phase \<Rightarrow> bool" where
  "can_send_input VConnected = True"
| "can_send_input VStreaming = True"
| "can_send_input _ = False"

section \<open>The machine\<close>

record connection_machine =
  cm_phase :: viewer_phase
  cm_transport :: connection_state
  cm_host_public_id :: "string option"
  cm_last_error :: "string option"

definition new_machine :: connection_machine where
  "new_machine = \<lparr>cm_phase = VIdle, cm_transport = CsNew, cm_host_public_id = None, cm_last_error = None\<rparr>"

definition begin_connect :: "string \<Rightarrow> connection_machine \<Rightarrow> connection_machine" where
  "begin_connect host m =
     m\<lparr>cm_host_public_id := Some host, cm_last_error := None, cm_phase := VConnecting, cm_transport := CsNew\<rparr>"

definition begin_answer :: "connection_machine \<Rightarrow> connection_machine" where
  "begin_answer m = (if cm_phase m \<in> {VConnecting, VAnswering} then m\<lparr>cm_phase := VAnswering\<rparr> else m)"

definition machine_fail :: "string \<Rightarrow> connection_machine \<Rightarrow> connection_machine" where
  "machine_fail reason m = m\<lparr>cm_last_error := Some reason, cm_phase := VFailed reason\<rparr>"

fun on_transport_state :: "connection_state \<Rightarrow> connection_machine \<Rightarrow> connection_machine" where
  "on_transport_state CsNew m = m\<lparr>cm_transport := CsNew\<rparr>"
| "on_transport_state CsConnecting m = m\<lparr>cm_transport := CsConnecting\<rparr>"
| "on_transport_state CsConnected m =
     (if cm_phase m \<in> {VConnecting, VAnswering, VConnected, VStreaming} \<and> cm_phase m \<noteq> VStreaming
      then m\<lparr>cm_transport := CsConnected, cm_phase := VConnected\<rparr> else m\<lparr>cm_transport := CsConnected\<rparr>)"
| "on_transport_state CsDisconnected m =
     (if is_active (cm_phase m) \<or> cm_phase m = VConnected
      then m\<lparr>cm_transport := CsDisconnected, cm_phase := VDisconnected\<rparr> else m\<lparr>cm_transport := CsDisconnected\<rparr>)"
| "on_transport_state CsFailed m = machine_fail ''transport failed'' (m\<lparr>cm_transport := CsFailed\<rparr>)"
| "on_transport_state CsClosed m = m\<lparr>cm_transport := CsClosed, cm_phase := VClosed\<rparr>"

definition on_media_received :: "connection_machine \<Rightarrow> connection_machine" where
  "on_media_received m = (if cm_phase m \<in> {VConnected, VStreaming} then m\<lparr>cm_phase := VStreaming\<rparr> else m)"

definition machine_reset :: "connection_machine \<Rightarrow> connection_machine" where
  "machine_reset m = new_machine"

definition machine_close :: "connection_machine \<Rightarrow> connection_machine" where
  "machine_close m = m\<lparr>cm_phase := VClosed, cm_transport := CsClosed\<rparr>"

section \<open>Runs\<close>

datatype viewer_event =
  BeginConnect string | BeginAnswer | TransportState connection_state | MediaReceived | Fail string | ResetMachine | CloseMachine

fun machine_step :: "viewer_event \<Rightarrow> connection_machine \<Rightarrow> connection_machine" where
  "machine_step (BeginConnect h) m = begin_connect h m"
| "machine_step BeginAnswer m = begin_answer m"
| "machine_step (TransportState s) m = on_transport_state s m"
| "machine_step MediaReceived m = on_media_received m"
| "machine_step (Fail r) m = machine_fail r m"
| "machine_step ResetMachine m = machine_reset m"
| "machine_step CloseMachine m = machine_close m"

abbreviation machine_run :: "viewer_event list \<Rightarrow> connection_machine \<Rightarrow> connection_machine" where
  "machine_run \<equiv> fold machine_step"

fun restarts :: "viewer_event \<Rightarrow> bool" where
  "restarts (BeginConnect _) = True"
| "restarts ResetMachine = True"
| "restarts _ = False"

text \<open>The events that end an attempt.\<close>

fun ends_link :: "viewer_event \<Rightarrow> bool" where
  "ends_link (TransportState s) = (s \<in> {CsDisconnected, CsFailed, CsClosed})"
| "ends_link (Fail _) = True"
| "ends_link CloseMachine = True"
| "ends_link _ = False"

text \<open>The phase of an attempt, read off its events alone.\<close>

fun attempt_phase :: "viewer_event list \<Rightarrow> viewer_phase" where
  "attempt_phase es =
     (if TransportState CsConnected \<in> set es then
        (if MediaReceived \<in> set (dropWhile (\<lambda>e. e \<noteq> TransportState CsConnected) es) then VStreaming else VConnected)
      else if BeginAnswer \<in> set es then VAnswering else VConnecting)"

lemmas machine_defs = begin_connect_def begin_answer_def machine_fail_def on_media_received_def machine_reset_def
  machine_close_def new_machine_def

declare attempt_phase.simps [simp del]

lemma dropWhile_absent: "x \<notin> set es \<Longrightarrow> dropWhile (\<lambda>e. e \<noteq> x) es = []"
  by (auto simp: dropWhile_eq_Nil_conv)

lemma dropWhile_media:
  "MediaReceived \<in> set (dropWhile (\<lambda>e. e \<noteq> TransportState CsConnected) (es @ [e])) \<longleftrightarrow>
     MediaReceived \<in> set (dropWhile (\<lambda>e. e \<noteq> TransportState CsConnected) es) \<or>
     TransportState CsConnected \<in> set es \<and> e = MediaReceived"
proof (cases "TransportState CsConnected \<in> set es")
  case True
  then show ?thesis by (auto simp: dropWhile_append1)
next
  case False
  then have "dropWhile (\<lambda>e. e \<noteq> TransportState CsConnected) (es @ [e]) = dropWhile (\<lambda>e. e \<noteq> TransportState CsConnected) [e]"
    by (intro dropWhile_append2) auto
  with False show ?thesis by (simp add: dropWhile_absent)
qed

lemma attempt_phase_step:
  assumes "\<not> restarts e" "\<not> ends_link e" and "cm_phase m = attempt_phase es"
  shows "cm_phase (machine_step e m) = attempt_phase (es @ [e])"
proof (cases e)
  case (TransportState s)
  with assms show ?thesis
    by (cases s) (auto simp: attempt_phase.simps dropWhile_media dropWhile_absent)
qed (use assms in \<open>auto simp: attempt_phase.simps dropWhile_media machine_defs\<close>)

text \<open>What an attempt that has ended can still become.\<close>

fun is_over :: "viewer_phase \<Rightarrow> bool" where
  "is_over (VFailed _) = True"
| "is_over VDisconnected = True"
| "is_over VClosed = True"
| "is_over VIdle = True"
| "is_over _ = False"

lemma over_stays:
  assumes "\<not> restarts e" "is_over (cm_phase m)" shows "is_over (cm_phase (machine_step e m))"
proof (cases e)
  case (TransportState s)
  with assms show ?thesis by (cases s; cases "cm_phase m") (auto simp: machine_defs)
qed (use assms in \<open>cases "cm_phase m"; auto simp: machine_defs\<close>)+

lemma end_is_over: "ends_link e \<Longrightarrow> is_over (cm_phase (machine_step e m))"
proof (cases e)
  case (TransportState s)
  assume "ends_link e"
  with TransportState show ?thesis by (cases s; cases "cm_phase m") (auto simp: machine_defs)
qed (auto simp: machine_defs)

lemma attempt_run:
  assumes "cm_phase m = VConnecting" "list_all (\<lambda>e. \<not> restarts e) es"
  shows "if list_ex ends_link es then is_over (cm_phase (machine_run es m)) else cm_phase (machine_run es m) = attempt_phase es"
  using assms(2)
proof (induction es rule: rev_induct)
  case Nil
  then show ?case using assms(1) by (simp add: attempt_phase.simps)
next
  case (snoc e es)
  then show ?case by (auto simp: end_is_over over_stays attempt_phase_step)
qed

lemma never_started_is_over:
  "list_all (\<lambda>e. \<not> (\<exists>h. e = BeginConnect h)) es \<Longrightarrow> is_over (cm_phase m) \<Longrightarrow> is_over (cm_phase (machine_run es m))"
proof (induction es rule: rev_induct)
  case (snoc e es)
  then show ?case by (cases "e = ResetMachine") (auto simp: machine_defs intro!: over_stays elim!: restarts.elims)
qed simp

lemma over_no_input: "is_over p \<Longrightarrow> \<not> can_send_input p \<and> \<not> can_play_media p \<and> \<not> is_active p"
  by (cases p) auto

section \<open>Properties\<close>

lemma run_from_connect:
  "list_all (\<lambda>e. \<not> restarts e) tail \<Longrightarrow>
   cm_phase (machine_run (old @ BeginConnect h # tail) m) =
     (if list_ex ends_link tail then cm_phase (machine_run (old @ BeginConnect h # tail) m) else attempt_phase tail) \<and>
   (list_ex ends_link tail \<longrightarrow> is_over (cm_phase (machine_run (old @ BeginConnect h # tail) m)))"
  using attempt_run [of "begin_connect h (machine_run old m)" tail] by (auto simp: begin_connect_def split: if_splits)

lemma split_at_connect:
  "(\<exists>old h tail. es = old @ BeginConnect h # tail \<and> list_all (\<lambda>e. \<not> restarts e) tail) \<or>
   is_over (cm_phase (machine_run es new_machine))"
proof (induction es rule: rev_induct)
  case Nil
  show ?case by (simp add: new_machine_def)
next
  case (snoc e es)
  show ?case
  proof (cases "restarts e")
    case True
    then consider h where "e = BeginConnect h" | "e = ResetMachine" by (cases e) auto
    then show ?thesis
    proof cases
      case 1
      then show ?thesis by (auto intro!: exI [of _ es])
    qed (simp add: machine_defs)
  next
    case False
    from snoc show ?thesis
    proof
      assume "\<exists>old h tail. es = old @ BeginConnect h # tail \<and> list_all (\<lambda>e. \<not> restarts e) tail"
      then obtain old h tail where "es = old @ BeginConnect h # tail" "list_all (\<lambda>e. \<not> restarts e) tail" by blast
      with False have "es @ [e] = old @ BeginConnect h # (tail @ [e]) \<and> list_all (\<lambda>e. \<not> restarts e) (tail @ [e])" by simp
      then show ?thesis by blast
    qed (simp add: over_stays False)
  qed
qed

lemma attempt_phase_input: "can_send_input (attempt_phase es) \<longleftrightarrow> TransportState CsConnected \<in> set es"
  by (simp add: attempt_phase.simps)

lemma input_link_iff:
  "can_send_input (cm_phase (machine_run es new_machine)) \<longleftrightarrow>
     (\<exists>old h tail. es = old @ BeginConnect h # tail \<and> TransportState CsConnected \<in> set tail \<and>
        \<not> list_ex restarts tail \<and> \<not> list_ex ends_link tail)"
proof
  assume input: "can_send_input (cm_phase (machine_run es new_machine))"
  then have "\<not> is_over (cm_phase (machine_run es new_machine))" using over_no_input by blast
  with split_at_connect obtain old h tail where es: "es = old @ BeginConnect h # tail" "list_all (\<lambda>e. \<not> restarts e) tail"
    by blast
  note run = run_from_connect [OF es(2), of old h new_machine, folded es(1)]
  from run \<open>\<not> is_over _\<close> have "\<not> list_ex ends_link tail" by blast
  moreover from this run have "cm_phase (machine_run es new_machine) = attempt_phase tail" by simp
  ultimately show "\<exists>old h tail. es = old @ BeginConnect h # tail \<and> TransportState CsConnected \<in> set tail \<and>
      \<not> list_ex restarts tail \<and> \<not> list_ex ends_link tail"
    using es input by (auto simp: attempt_phase_input list_ex_iff list_all_iff)
next
  assume "\<exists>old h tail. es = old @ BeginConnect h # tail \<and> TransportState CsConnected \<in> set tail \<and>
      \<not> list_ex restarts tail \<and> \<not> list_ex ends_link tail"
  then obtain old h tail where es: "es = old @ BeginConnect h # tail" "TransportState CsConnected \<in> set tail"
    "list_all (\<lambda>e. \<not> restarts e) tail" "\<not> list_ex ends_link tail" by (auto simp: list_ex_iff list_all_iff)
  from run_from_connect [OF es(3), of old h new_machine, folded es(1)] es(4)
  have "cm_phase (machine_run es new_machine) = attempt_phase tail" by simp
  with es(2) show "can_send_input (cm_phase (machine_run es new_machine))" by (simp add: attempt_phase_input)
qed

text \<open>
  When the viewer may send input. Over every history of connects, answers, transport states, media, failures, resets and
  closes: input may be sent exactly when the latest connect was followed by a transport report of
  \<open>Connected\<close> and, since that connect, by no reset, failure, disconnect or close. In
  particular media that arrives early opens nothing and an attempt that has failed or been disconnected never opens
  again by itself, whatever the transport still reports.
\<close>

theorem input_exactly_while_linked:
  "can_send_input (cm_phase (machine_run es new_machine)) \<longleftrightarrow>
     (\<exists>old h tail. es = old @ BeginConnect h # tail \<and> TransportState CsConnected \<in> set tail \<and>
        \<not> list_ex restarts tail \<and> \<not> list_ex ends_link tail)"
  by (rule input_link_iff)

text \<open>A failure the user has seen is hidden when the transport closes afterwards; the reason itself is kept.\<close>

lemma close_hides_failure:
  "cm_phase (on_transport_state CsClosed (machine_fail r m)) = VClosed \<and>
   cm_last_error (on_transport_state CsClosed (machine_fail r m)) = Some r"
  by (simp add: machine_fail_def)

end
