(* ===== verification/Viewer_Connect.thy ===== *)
theory Viewer_Connect
  imports Viewer_State Protocol
begin

text \<open>
  The viewer's connect request (\<open>packages/viewer-core/src/connect.rs\<close>): its checks, the prefilter that goes to the
  server, and the session intent. Errors are those of \<open>error.rs\<close>.
\<close>

datatype viewer_error =
    InvalidConnect string
  | VInvalidState string string
  | VTransport string
  | VProtocol protocol_error
  | VAuth auth_error
  | VMedia string
  | VInternal string

fun show_viewer_error :: "viewer_error \<Rightarrow> string" where
  "show_viewer_error (InvalidConnect m) = ''invalid connect: '' @ m"
| "show_viewer_error (VInvalidState e a) = ''invalid state: expected '' @ e @ '', actual '' @ a"
| "show_viewer_error (VTransport m) = ''transport: '' @ m"
| "show_viewer_error (VProtocol e) = ''protocol: '' @ show_protocol_error e"
| "show_viewer_error (VAuth e) = ''auth: '' @ show_auth_error e"
| "show_viewer_error (VMedia m) = ''media: '' @ m"
| "show_viewer_error (VInternal m) = ''internal: '' @ m"

section \<open>Requests\<close>

datatype connect_secret = SecretPassword string | SecretOtp string | SecretUnattended string

fun secret_str :: "connect_secret \<Rightarrow> string" where
  "secret_str (SecretPassword s) = s"
| "secret_str (SecretOtp s) = s"
| "secret_str (SecretUnattended s) = s"

fun secret_mode :: "connect_secret \<Rightarrow> session_mode" where
  "secret_mode (SecretPassword _) = Password"
| "secret_mode (SecretOtp _) = Otp"
| "secret_mode (SecretUnattended _) = Unattended"

record connect_request =
  cr_host_public_id :: string
  cr_secret :: connect_secret
  cr_viewer_label :: "string option"

definition password_request :: "string \<Rightarrow> string \<Rightarrow> connect_request" where
  "password_request h s = \<lparr>cr_host_public_id = h, cr_secret = SecretPassword s, cr_viewer_label = None\<rparr>"

definition otp_request :: "string \<Rightarrow> string \<Rightarrow> connect_request" where
  "otp_request h s = \<lparr>cr_host_public_id = h, cr_secret = SecretOtp s, cr_viewer_label = None\<rparr>"

definition unattended_request :: "string \<Rightarrow> string \<Rightarrow> connect_request" where
  "unattended_request h s = \<lparr>cr_host_public_id = h, cr_secret = SecretUnattended s, cr_viewer_label = None\<rparr>"

definition with_label :: "string \<Rightarrow> connect_request \<Rightarrow> connect_request" where
  "with_label l r = r\<lparr>cr_viewer_label := Some l\<rparr>"

definition validate_request :: "connect_request \<Rightarrow> viewer_error + unit" where
  "validate_request r =
     (if trim (cr_host_public_id r) = [] then Inl (InvalidConnect ''host public id is required'')
      else if trim (secret_str (cr_secret r)) = [] then
        Inl (InvalidConnect ''password, OTP, or unattended secret is required'')
      else case cr_secret r of
        SecretOtp otp \<Rightarrow>
          if length otp < 4 \<or> length otp > 16 then Inl (InvalidConnect ''OTP length must be between 4 and 16'') else Inr ()
      | SecretUnattended s \<Rightarrow>
          if length s < 8 then Inl (InvalidConnect ''unattended secret looks too short'') else Inr ()
      | SecretPassword _ \<Rightarrow> Inr ())"

definition prefilter_of :: "'j json_api \<Rightarrow> connect_request \<Rightarrow> 'j" where
  "prefilter_of J r =
     (case cr_secret r of
        SecretPassword p \<Rightarrow> json_object J [(''password_hint_len'', json_int J (int (length p)))]
      | SecretOtp o' \<Rightarrow> json_object J [(''otp'', json_str J o')]
      | SecretUnattended s \<Rightarrow> json_object J [(''unattended_hint_len'', json_int J (int (length s)))])"

definition session_intent_message ::
  "'j json_api \<Rightarrow> string \<Rightarrow> u64 \<Rightarrow> connect_request \<Rightarrow> viewer_error + 'j signal_message" where
  "session_intent_message J sid seq r =
     (case validate_request r of Inl e \<Rightarrow> Inl e
      | Inr _ \<Rightarrow> Inr (SessionIntent sid seq (cr_host_public_id r) (secret_mode (cr_secret r)) (prefilter_of J r)))"

text \<open>The last argument is \<open>serde_json::from_str\<close> into a value; the \<open>debug_assert\<close> is compiled out.\<close>

definition session_intent_stub ::
  "'j json_api \<Rightarrow> (string \<Rightarrow> string + 'j) \<Rightarrow> string \<Rightarrow> u64 \<Rightarrow> connect_request \<Rightarrow> viewer_error + 'j" where
  "session_intent_stub J value_from_str sid seq r =
     (case session_intent_message J sid seq r of Inl e \<Rightarrow> Inl e
      | Inr msg \<Rightarrow>
          (case encode_message J msg of Inl e \<Rightarrow> Inl (VProtocol e)
           | Inr wire \<Rightarrow>
               (case decode_message J wire of Inl e \<Rightarrow> Inl (VProtocol e)
                | Inr _ \<Rightarrow> (case value_from_str wire of Inl e \<Rightarrow> Inl (VInternal e) | Inr v \<Rightarrow> Inr v))))"

record connect_stub_result =
  cs_session_id :: string
  cs_accepted :: bool

definition is_ascii_alnum :: "char \<Rightarrow> bool" where
  "is_ascii_alnum c = (let n = (of_char c :: nat) in 48 \<le> n \<and> n \<le> 57 \<or> 65 \<le> n \<and> n \<le> 90 \<or> 97 \<le> n \<and> n \<le> 122)"

text \<open>One output character for each character, which is each byte that does not continue another.\<close>

definition sanitize_id :: "string \<Rightarrow> string" where
  "sanitize_id s =
     take 32 (map (\<lambda>c. if is_ascii_alnum c then c else CHR ''-'') (filter (\<lambda>c. \<not> cont (of_char c)) s))"

definition connect_stub :: "connect_request \<Rightarrow> viewer_error + connect_stub_result" where
  "connect_stub r =
     (case validate_request r of Inl e \<Rightarrow> Inl e
      | Inr _ \<Rightarrow> Inr \<lparr>cs_session_id = ''sess-stub-'' @ sanitize_id (cr_host_public_id r), cs_accepted = True\<rparr>)"

section \<open>Properties\<close>

text \<open>
  The long-lived secret stays on the viewer. Two requests to the same host whose
  passwords, or unattended secrets, have the same length and are both accepted produce the same intent, the same wire text and
  the same stub session: nothing the viewer sends at this stage depends on the secret beyond its length.
\<close>

theorem secret_stays_home:
  assumes "K \<in> {SecretPassword, SecretUnattended}" and "length s = length s'"
    and "r = \<lparr>cr_host_public_id = h, cr_secret = K s, cr_viewer_label = l\<rparr>"
    and "r' = \<lparr>cr_host_public_id = h, cr_secret = K s', cr_viewer_label = l\<rparr>"
    and "validate_request r = Inr ()" and "validate_request r' = Inr ()"
  shows "session_intent_message J sid seq r = session_intent_message J sid seq r' \<and>
    session_intent_stub J vf sid seq r = session_intent_stub J vf sid seq r' \<and> connect_stub r = connect_stub r'"
proof -
  have "prefilter_of J r = prefilter_of J r'" "secret_mode (cr_secret r) = secret_mode (cr_secret r')"
    using assms(1-4) by (auto simp: prefilter_of_def)
  then have "session_intent_message J sid seq r = session_intent_message J sid seq r'"
    using assms(3-6) by (simp add: session_intent_message_def)
  moreover have "connect_stub r = connect_stub r'" using assms(3-6) by (simp add: connect_stub_def)
  ultimately show ?thesis by (simp add: session_intent_stub_def)
qed

theorem secret_stays_home_witness:
  "session_intent_message text_json ''s'' 1 (unattended_request ''h'' ''aaaaaaaa'') =
   session_intent_message text_json ''s'' 1 (unattended_request ''h'' ''bbbbbbbb'')"
proof -
  have t: "trim ''h'' = ''h''" "trim ''aaaaaaaa'' = ''aaaaaaaa''" "trim ''bbbbbbbb'' = ''bbbbbbbb''"
    by (rule trim_all_visible, simp add: visible_def)+
  have v: "validate_request (unattended_request ''h'' ''aaaaaaaa'') = Inr ()" "validate_request (unattended_request ''h'' ''bbbbbbbb'') = Inr ()"
    by (simp_all add: validate_request_def unattended_request_def t)
  show ?thesis
    using secret_stays_home [of SecretUnattended "''aaaaaaaa''" "''bbbbbbbb''" "unattended_request ''h'' ''aaaaaaaa''" "''h''" None
        "unattended_request ''h'' ''bbbbbbbb''" text_json "''s''" 1, OF _ _ _ _ v]
    by (simp add: unattended_request_def)
qed

end
