(* ===== verification/Jitter.thy ===== *)
theory Jitter
  imports RL_Prelude "HOL-Library.Signed_Division" "HOL-Library.Multiset"
begin

text \<open>
  The jitter buffer (\<open>packages/media/src/jitter.rs\<close>): packets ordered by presentation time, held for a target
  delay that adapts to the measured jitter. Durations are nanoseconds; a cast to \<open>i64\<close> and the
  subtraction of two such numbers wrap, and so do the plain counters.
\<close>

section \<open>Configuration and state\<close>

record jitter_config =
  min_target :: duration
  max_target :: duration
  initial_target :: duration

definition wan_default :: jitter_config where
  "wan_default = \<lparr>min_target = millis 20, max_target = millis 40, initial_target = millis 30\<rparr>"

definition lan_video :: jitter_config where
  "lan_video = \<lparr>min_target = millis 10, max_target = millis 15, initial_target = millis 12\<rparr>"

definition lan_audio :: jitter_config where
  "lan_audio = \<lparr>min_target = millis 15, max_target = millis 25, initial_target = millis 20\<rparr>"

record jitter_stats =
  js_depth :: nat
  js_dropped :: u64
  js_released :: u64
  js_received :: u64

record 'a buffered_packet =
  bp_seq :: "u16 option"
  bp_pts :: duration
  bp_recv_time :: duration
  bp_payload :: 'a

record 'a jitter_buffer =
  jb_cfg :: jitter_config
  jb_target :: duration
  jb_queue :: "'a buffered_packet list"
  jb_stats :: jitter_stats
  last_recv :: "duration option"
  last_pts :: "duration option"
  last_seq :: "u16 option"
  jitter_us_ewma :: u64

definition clamp_duration :: "duration \<Rightarrow> duration \<Rightarrow> duration \<Rightarrow> duration" where
  "clamp_duration v lo hi = (if v < lo then lo else if v > hi then hi else v)"

definition jb_new :: "jitter_config \<Rightarrow> 'a jitter_buffer" where
  "jb_new cfg =
     \<lparr>jb_cfg = cfg, jb_target = clamp_duration (initial_target cfg) (min_target cfg) (max_target cfg), jb_queue = [],
      jb_stats = \<lparr>js_depth = 0, js_dropped = 0, js_released = 0, js_received = 0\<rparr>,
      last_recv = None, last_pts = None, last_seq = None, jitter_us_ewma = 0\<rparr>"

definition jb_stats_snapshot :: "'a jitter_buffer \<Rightarrow> jitter_stats" where
  "jb_stats_snapshot b = (jb_stats b)\<lparr>js_depth := length (jb_queue b)\<rparr>"

section \<open>Adaptation\<close>

definition wrap_i64 :: "int \<Rightarrow> int" where
  "wrap_i64 z = signed_take_bit 63 z"

definition sat_mul2 :: "u64 \<Rightarrow> u64" where
  "sat_mul2 w = (if 2 * unat w < 2 ^ 64 then w * 2 else - 1)"

text \<open>One transit observation, when both a receive and a presentation time are remembered.\<close>

definition apply_transit :: "duration \<Rightarrow> duration \<Rightarrow> 'a jitter_buffer \<Rightarrow> 'a jitter_buffer" where
  "apply_transit pts recv_time b =
     (case (last_recv b, last_pts b) of
        (Some lr, Some lp) \<Rightarrow>
          let d_recv = wrap_i64 (int (as_micros (recv_time - lr)));
              d_pts = wrap_i64 (int (as_micros (pts - lp)));
              transit = wrap_i64 (d_recv - d_pts);
              dev = (of_int \<bar>transit\<bar> :: u64);
              ewma = sat_add (jitter_us_ewma b) (sat_sub dev (jitter_us_ewma b) div 16);
              desired_us = sat_mul2 ewma;
              t_us = wrap_i64 (int (as_micros (jb_target b)));
              d_us = wrap_i64 (int (unat desired_us));
              nxt = wrap_i64 (t_us + wrap_i64 (d_us - t_us) sdiv 8)
          in b\<lparr>jitter_us_ewma := ewma,
               jb_target := clamp_duration (nat (max 0 nxt) * 1000) (min_target (jb_cfg b)) (max_target (jb_cfg b))\<rparr>
      | _ \<Rightarrow> b)"

definition adapt :: "u16 option \<Rightarrow> duration \<Rightarrow> duration \<Rightarrow> 'a jitter_buffer \<Rightarrow> 'a jitter_buffer" where
  "adapt seq pts recv_time b =
     (case seq of
        Some s \<Rightarrow>
          (let b1 = (case last_seq b of
                Some l \<Rightarrow> if s \<noteq> l + 1 then b else apply_transit pts recv_time b
              | None \<Rightarrow> apply_transit pts recv_time b)
           in b1\<lparr>last_seq := Some s, last_recv := Some recv_time, last_pts := Some pts\<rparr>)
      | None \<Rightarrow>
          (case last_pts b of
             Some lp \<Rightarrow> if pts \<le> lp then b else (apply_transit pts recv_time b)\<lparr>last_recv := Some recv_time, last_pts := Some pts\<rparr>
           | None \<Rightarrow> (apply_transit pts recv_time b)\<lparr>last_recv := Some recv_time, last_pts := Some pts\<rparr>))"

section \<open>Operations\<close>

text \<open>Inserting before the first packet with a later presentation time.\<close>

definition insert_by_pts :: "'a buffered_packet \<Rightarrow> 'a buffered_packet list \<Rightarrow> 'a buffered_packet list" where
  "insert_by_pts p q = takeWhile (\<lambda>x. bp_pts x \<le> bp_pts p) q @ p # dropWhile (\<lambda>x. bp_pts x \<le> bp_pts p) q"

definition push_inner :: "u16 option \<Rightarrow> duration \<Rightarrow> duration \<Rightarrow> 'a \<Rightarrow> 'a jitter_buffer \<Rightarrow> 'a jitter_buffer" where
  "push_inner seq pts recv_time payload b =
     (let b1 = b\<lparr>jb_stats := (jb_stats b)\<lparr>js_received := js_received (jb_stats b) + 1\<rparr>\<rparr>;
          b2 = adapt seq pts recv_time b1
      in b2\<lparr>jb_queue := insert_by_pts \<lparr>bp_seq = seq, bp_pts = pts, bp_recv_time = recv_time, bp_payload = payload\<rparr> (jb_queue b2)\<rparr>)"

definition jb_push :: "duration \<Rightarrow> duration \<Rightarrow> 'a \<Rightarrow> 'a jitter_buffer \<Rightarrow> 'a jitter_buffer" where
  "jb_push pts recv_time payload b = push_inner None pts recv_time payload b"

definition push_with_seq :: "u16 \<Rightarrow> duration \<Rightarrow> duration \<Rightarrow> 'a \<Rightarrow> 'a jitter_buffer \<Rightarrow> 'a jitter_buffer" where
  "push_with_seq seq pts recv_time payload b = push_inner (Some seq) pts recv_time payload b"

definition count_released :: "'a jitter_buffer \<Rightarrow> 'a jitter_buffer" where
  "count_released b = b\<lparr>jb_stats := (jb_stats b)\<lparr>js_released := js_released (jb_stats b) + 1\<rparr>\<rparr>"

definition pop_ready :: "duration \<Rightarrow> 'a jitter_buffer \<Rightarrow> 'a buffered_packet option \<times> 'a jitter_buffer" where
  "pop_ready now b =
     (case jb_queue b of
        [] \<Rightarrow> (None, b)
      | front # rest \<Rightarrow>
          if jb_target b \<le> now - bp_recv_time front then (Some front, (count_released b)\<lparr>jb_queue := rest\<rparr>) else (None, b))"

text \<open>The loop of \<open>drop_late\<close>: the queue left, and the number of packets dropped.\<close>

fun drop_late_loop :: "duration \<Rightarrow> duration \<Rightarrow> 'a buffered_packet list \<Rightarrow> u64 \<Rightarrow> 'a buffered_packet list \<times> u64" where
  "drop_late_loop now limit [] dropped = ([], dropped)"
| "drop_late_loop now limit (front # rest) dropped =
     (if limit < now - bp_recv_time front then drop_late_loop now limit rest (dropped + 1) else (front # rest, dropped))"

definition drop_late :: "duration \<Rightarrow> duration \<Rightarrow> 'a jitter_buffer \<Rightarrow> 'a jitter_buffer" where
  "drop_late now late_threshold b =
     (case drop_late_loop now (jb_target b + late_threshold) (jb_queue b) (js_dropped (jb_stats b)) of
        (q, n) \<Rightarrow> b\<lparr>jb_queue := q, jb_stats := (jb_stats b)\<lparr>js_dropped := n\<rparr>\<rparr>)"

definition jb_pop_front :: "'a jitter_buffer \<Rightarrow> 'a buffered_packet option \<times> 'a jitter_buffer" where
  "jb_pop_front b =
     (case jb_queue b of [] \<Rightarrow> (None, b) | p # rest \<Rightarrow> (Some p, (count_released b)\<lparr>jb_queue := rest\<rparr>))"

section \<open>Order\<close>

text \<open>Inserting one packet after another is a stable sort by presentation time.\<close>

lemma insert_by_pts_sorted:
  "sorted (map bp_pts q) \<Longrightarrow> sorted (map bp_pts (insert_by_pts p q))"
  by (induction q) (auto simp: insert_by_pts_def dest: set_takeWhileD set_dropWhileD)

lemma mset_insert_by_pts: "mset (insert_by_pts p q) = add_mset p (mset q)"
  unfolding insert_by_pts_def by (metis mset_append mset.simps(2) takeWhile_dropWhile_id union_mset_add_mset_right)

lemma insert_by_pts_stable:
  assumes "sorted (map bp_pts q)"
  shows "filter (\<lambda>x. bp_pts x = k) (insert_by_pts p q) = filter (\<lambda>x. bp_pts x = k) q @ (if bp_pts p = k then [p] else [])"
proof -
  let ?t = "takeWhile (\<lambda>x. bp_pts x \<le> bp_pts p) q" and ?d = "dropWhile (\<lambda>x. bp_pts x \<le> bp_pts p) q"
  have "filter (\<lambda>x. bp_pts x = bp_pts p) ?d = []"
    using assms
  proof (induction q)
    case (Cons x q)
    then show ?case by (auto simp: filter_empty_conv)
  qed simp
  then have "filter (\<lambda>x. bp_pts x = k) (insert_by_pts p q) =
      filter (\<lambda>x. bp_pts x = k) ?t @ filter (\<lambda>x. bp_pts x = k) ?d @ (if bp_pts p = k then [p] else [])"
    by (cases "bp_pts p = k") (simp_all add: insert_by_pts_def)
  also have "\<dots> = filter (\<lambda>x. bp_pts x = k) (?t @ ?d) @ (if bp_pts p = k then [p] else [])"
    by (simp only: filter_append append_assoc)
  finally show ?thesis by simp
qed

lemma fold_insert:
  "sorted (map bp_pts q) \<Longrightarrow>
     sorted (map bp_pts (fold insert_by_pts ps q)) \<and> mset (fold insert_by_pts ps q) = mset q + mset ps \<and>
     filter (\<lambda>x. bp_pts x = k) (fold insert_by_pts ps q) = filter (\<lambda>x. bp_pts x = k) q @ filter (\<lambda>x. bp_pts x = k) ps"
proof (induction ps arbitrary: q)
  case (Cons p ps)
  from Cons.IH [OF insert_by_pts_sorted [OF Cons.prems, of p]] show ?case
    by (simp add: mset_insert_by_pts insert_by_pts_stable [OF Cons.prems])
qed simp

lemma fold_insert_sort: "fold insert_by_pts ps [] = sort_key bp_pts ps"
proof -
  have "mset (fold insert_by_pts ps []) = mset ps" "sorted (map bp_pts (fold insert_by_pts ps []))"
    "\<And>k. filter (\<lambda>x. bp_pts x = k) (fold insert_by_pts ps []) = filter (\<lambda>x. bp_pts x = k) ps"
    using fold_insert [of "[]" ps] by simp_all
  then have "sort_key bp_pts ps = fold insert_by_pts ps []"
    by (intro properties_for_sort_key) (auto simp: eq_commute)
  then show ?thesis by simp
qed

text \<open>A packet pushed with its sequence number, presentation time, receive time and payload.\<close>

fun push_packet_of :: "'a buffered_packet \<Rightarrow> 'a jitter_buffer \<Rightarrow> 'a jitter_buffer" where
  "push_packet_of p b = push_inner (bp_seq p) (bp_pts p) (bp_recv_time p) (bp_payload p) b"

fun pop_all :: "nat \<Rightarrow> 'a jitter_buffer \<Rightarrow> 'a buffered_packet list" where
  "pop_all 0 b = []"
| "pop_all (Suc n) b = (case jb_pop_front b of (None, _) \<Rightarrow> [] | (Some p, b1) \<Rightarrow> p # pop_all n b1)"

lemma apply_transit_queue [simp]: "jb_queue (apply_transit pts r b) = jb_queue b" "jb_cfg (apply_transit pts r b) = jb_cfg b"
  "jb_stats (apply_transit pts r b) = jb_stats b"
  by (simp_all add: apply_transit_def Let_def split: option.split)

lemma adapt_queue [simp]: "jb_queue (adapt s pts r b) = jb_queue b" "jb_cfg (adapt s pts r b) = jb_cfg b"
  "jb_stats (adapt s pts r b) = jb_stats b"
  by (simp_all add: adapt_def Let_def split: option.split)

lemma push_packet_queue: "jb_queue (push_packet_of p b) = insert_by_pts p (jb_queue b)"
  by (cases p) (simp add: push_inner_def Let_def)

lemma fold_push_queue: "jb_queue (fold push_packet_of ps b) = fold insert_by_pts ps (jb_queue b)"
  by (induction ps arbitrary: b) (simp_all add: push_packet_queue del: push_packet_of.simps)

lemma pop_all_queue: "pop_all (length (jb_queue b)) b = jb_queue b"
proof (induction "jb_queue b" arbitrary: b)
  case (Cons p q)
  from Cons.hyps(2) [symmetric] show ?case
    using Cons.hyps(1) [of "(count_released b)\<lparr>jb_queue := q\<rparr>"] by (simp add: jb_pop_front_def)
qed simp

text \<open>
  C19. Playout order. However the network reorders them, the packets a burst leaves in an empty buffer come out
  sorted by presentation time, and packets of equal time come out in the order they arrived: emptying
  the buffer is a stable sort of what was pushed, with nothing lost and nothing repeated.
\<close>

theorem playout_is_stable_sort:
  "pop_all (length ps) (fold push_packet_of ps (jb_new cfg)) = sort_key bp_pts ps"
proof -
  have q: "jb_queue (fold push_packet_of ps (jb_new cfg)) = sort_key bp_pts ps"
    by (simp add: fold_push_queue fold_insert_sort jb_new_def)
  from pop_all_queue [of "fold push_packet_of ps (jb_new cfg)"] show ?thesis by (simp add: q)
qed

section \<open>What every state satisfies\<close>

inductive jb_step :: "'a jitter_buffer \<Rightarrow> 'a jitter_buffer \<Rightarrow> bool" where
  push: "jb_step b (push_inner seq pts recv_time payload b)"
| pop: "jb_step b (snd (pop_ready now b))"
| force: "jb_step b (snd (jb_pop_front b))"
| late: "jb_step b (drop_late now threshold b)"

definition jb_reachable :: "jitter_config \<Rightarrow> 'a jitter_buffer \<Rightarrow> bool" where
  "jb_reachable cfg b \<longleftrightarrow> jb_step\<^sup>*\<^sup>* (jb_new cfg) b"

definition jb_inv :: "jitter_config \<Rightarrow> 'a jitter_buffer \<Rightarrow> bool" where
  "jb_inv cfg b \<longleftrightarrow> jb_cfg b = cfg \<and> sorted (map bp_pts (jb_queue b)) \<and>
     min_target cfg \<le> jb_target b \<and> jb_target b \<le> max_target cfg \<and>
     js_received (jb_stats b) = js_released (jb_stats b) + js_dropped (jb_stats b) + of_nat (length (jb_queue b))"

lemma clamp_duration_bounds: "lo \<le> hi \<Longrightarrow> lo \<le> clamp_duration v lo hi \<and> clamp_duration v lo hi \<le> hi"
  by (simp add: clamp_duration_def)

lemma length_insert_by_pts [simp]: "length (insert_by_pts p q) = Suc (length q)"
  by (metis mset_insert_by_pts size_add_mset size_mset)

lemma apply_transit_target:
  "min_target (jb_cfg b) \<le> max_target (jb_cfg b) \<Longrightarrow> min_target (jb_cfg b) \<le> jb_target b \<Longrightarrow> jb_target b \<le> max_target (jb_cfg b) \<Longrightarrow>
     min_target (jb_cfg b) \<le> jb_target (apply_transit pts r b) \<and> jb_target (apply_transit pts r b) \<le> max_target (jb_cfg b)"
  by (auto simp: apply_transit_def Let_def clamp_duration_bounds split: option.split)

lemma adapt_target:
  "min_target (jb_cfg b) \<le> max_target (jb_cfg b) \<Longrightarrow> min_target (jb_cfg b) \<le> jb_target b \<Longrightarrow> jb_target b \<le> max_target (jb_cfg b) \<Longrightarrow>
     min_target (jb_cfg b) \<le> jb_target (adapt s pts r b) \<and> jb_target (adapt s pts r b) \<le> max_target (jb_cfg b)"
  using apply_transit_target [of b pts r] by (simp add: adapt_def Let_def split: option.split)

lemma drop_late_loop_spec:
  "drop_late_loop now limit q n = (q', n') \<Longrightarrow>
     \<exists>late. q = late @ q' \<and> n' = n + of_nat (length late) \<and> list_all (\<lambda>p. limit < now - bp_recv_time p) late \<and>
       (q' \<noteq> [] \<longrightarrow> now - bp_recv_time (hd q') \<le> limit)"
proof (induction q arbitrary: n)
  case (Cons p q)
  show ?case
  proof (cases "limit < now - bp_recv_time p")
    case True
    with Cons.prems Cons.IH [of "n + 1"] obtain late where
      "q = late @ q'" "n' = n + 1 + of_nat (length late)" "list_all (\<lambda>p. limit < now - bp_recv_time p) late"
      "q' \<noteq> [] \<longrightarrow> now - bp_recv_time (hd q') \<le> limit" by auto
    with True show ?thesis by (intro exI [of _ "p # late"]) (simp add: add.assoc)
  next
    case False
    with Cons.prems show ?thesis by (intro exI [of _ "[]"]) auto
  qed
qed simp

lemma jb_step_inv:
  assumes "jb_step b b'" and "jb_inv cfg b" and "min_target cfg \<le> max_target cfg"
  shows "jb_inv cfg b'"
  using assms(1)
proof cases
  case (push seq pts r x)
  let ?b1 = "b\<lparr>jb_stats := (jb_stats b)\<lparr>js_received := js_received (jb_stats b) + 1\<rparr>\<rparr>"
  have "min_target cfg \<le> jb_target (adapt seq pts r ?b1) \<and> jb_target (adapt seq pts r ?b1) \<le> max_target cfg"
    using adapt_target [of ?b1 seq pts r] assms(2,3) by (simp add: jb_inv_def)
  with assms(2) show ?thesis
    by (simp add: push push_inner_def Let_def jb_inv_def insert_by_pts_sorted)
next
  case (pop now)
  with assms(2) show ?thesis
    by (auto simp: pop_ready_def jb_inv_def count_released_def split: list.splits)
next
  case force
  with assms(2) show ?thesis
    by (auto simp: jb_pop_front_def jb_inv_def count_released_def split: list.splits)
next
  case (late now threshold)
  obtain q n where d: "drop_late_loop now (jb_target b + threshold) (jb_queue b) (js_dropped (jb_stats b)) = (q, n)" by fastforce
  from drop_late_loop_spec [OF d] obtain l where "jb_queue b = l @ q" "n = js_dropped (jb_stats b) + of_nat (length l)" by blast
  moreover have "b' = b\<lparr>jb_queue := q, jb_stats := (jb_stats b)\<lparr>js_dropped := n\<rparr>\<rparr>" by (simp add: late drop_late_def d)
  ultimately show ?thesis using assms(2) by (simp add: jb_inv_def sorted_append)
qed

lemma jb_new_inv: "min_target cfg \<le> max_target cfg \<Longrightarrow> jb_inv cfg (jb_new cfg)"
  by (simp add: jb_inv_def jb_new_def clamp_duration_bounds)

lemma jb_reachable_inv:
  assumes "jb_reachable cfg b" and "min_target cfg \<le> max_target cfg"
  shows "jb_inv cfg b"
proof -
  have "jb_step\<^sup>*\<^sup>* (jb_new cfg) b" using assms(1) by (simp add: jb_reachable_def)
  then show ?thesis by induction (auto intro: jb_step_inv jb_new_inv assms(2))
qed

text \<open>
  C35. The buffer never plays early and never out of order. In a reachable buffer the queue is sorted, the
  target is within its configured bounds, and every received packet is queued, released or dropped, exactly
  once; so what \<open>pop_ready\<close> releases has the least presentation time of all queued packets, and has been held for
  at least the configured minimum.
\<close>

theorem released_in_order_and_on_time:
  assumes "jb_reachable cfg b" and "min_target cfg \<le> max_target cfg"
  shows "js_received (jb_stats b) = js_released (jb_stats b) + js_dropped (jb_stats b) + of_nat (length (jb_queue b)) \<and>
    min_target cfg \<le> jb_target b \<and> jb_target b \<le> max_target cfg \<and>
    (pop_ready now b = (Some p, b') \<longrightarrow> p \<in> set (jb_queue b) \<and> (\<forall>x \<in> set (jb_queue b). bp_pts p \<le> bp_pts x) \<and>
       min_target cfg \<le> now - bp_recv_time p)"
  using jb_reachable_inv [OF assms] by (auto simp: jb_inv_def pop_ready_def split: list.splits if_splits)

definition demo_packet :: "nat \<Rightarrow> nat \<Rightarrow> nat buffered_packet" where
  "demo_packet pts r = \<lparr>bp_seq = None, bp_pts = millis pts, bp_recv_time = millis r, bp_payload = pts\<rparr>"

theorem released_in_order_and_on_time_witness:
  "\<exists>b'. pop_ready (millis 60) (fold push_packet_of [demo_packet 20 5, demo_packet 10 7] (jb_new wan_default)) =
      (Some (demo_packet 10 7), b') \<and> min_target wan_default \<le> millis 60 - bp_recv_time (demo_packet 10 7)"
proof -
  let ?b0 = "jb_new wan_default :: nat jitter_buffer" and ?p = "demo_packet 20 5" and ?q = "demo_packet 10 7"
  have "jb_step ?b0 (push_packet_of ?p ?b0)" "jb_step (push_packet_of ?p ?b0) (push_packet_of ?q (push_packet_of ?p ?b0))"
    by (simp_all add: jb_step.push)
  then have r: "jb_reachable wan_default (fold push_packet_of [?p, ?q] ?b0)"
    unfolding jb_reachable_def by (simp add: converse_rtranclp_into_rtranclp)
  obtain b' where p: "pop_ready (millis 60) (fold push_packet_of [?p, ?q] ?b0) = (Some ?q, b')"
    by (simp add: pop_ready_def push_inner_def Let_def demo_packet_def jb_new_def insert_by_pts_def adapt_def apply_transit_def
        wan_default_def clamp_duration_def)
  with released_in_order_and_on_time [OF r, of "millis 60" ?q b'] show ?thesis
    by (simp add: wan_default_def)
qed

section \<open>The estimate only grows\<close>

text \<open>Times within 2^60 microseconds (more than 36,000 years), where no cast wraps.\<close>

definition sane_time :: "duration \<Rightarrow> bool" where
  "sane_time d \<longleftrightarrow> as_micros d \<le> 2 ^ 60"

definition sane_times :: "'a buffered_packet \<Rightarrow> bool" where
  "sane_times p \<longleftrightarrow> sane_time (bp_pts p) \<and> sane_time (bp_recv_time p)"

definition sane_buffer :: "jitter_config \<Rightarrow> 'a jitter_buffer \<Rightarrow> bool" where
  "sane_buffer cfg b \<longleftrightarrow> jb_cfg b = cfg \<and> jb_target b \<le> max_target cfg \<and> unat (jitter_us_ewma b) \<le> 2 ^ 60"

lemma as_micros_mono: "c \<le> d \<Longrightarrow> as_micros c \<le> as_micros d"
  by (simp add: as_micros_def div_le_mono)

lemma as_micros_1000 [simp]: "as_micros (n * 1000) = n"
  by (simp add: as_micros_def)

lemma as_micros_clamp:
  "as_micros t \<le> as_micros v \<Longrightarrow> as_micros t \<le> as_micros hi \<Longrightarrow> as_micros t \<le> as_micros (clamp_duration v lo hi)"
  using as_micros_mono [of v lo] by (auto simp: clamp_duration_def)

lemma wrap_i64_id: "- (2 ^ 63) \<le> z \<Longrightarrow> z < 2 ^ 63 \<Longrightarrow> wrap_i64 z = z"
  by (simp add: wrap_i64_def signed_take_bit_int_eq_self)

lemma wrap_i64_nat: "n < 2 ^ 63 \<Longrightarrow> wrap_i64 (int n) = int n"
  by (simp add: wrap_i64_id)

lemma int_less_power: "n < 2 ^ k \<Longrightarrow> int n < 2 ^ k"
  by (metis of_nat_less_iff of_nat_numeral of_nat_power)

lemma unat_div_16: "unat (w div 16 :: u64) = unat w div 16"
  by (simp add: unat_div)

lemma ewma_grows:
  fixes e dev :: u64
  assumes "unat e \<le> 2 ^ 60" and "unat dev \<le> 2 ^ 60"
  shows "unat e \<le> unat (sat_add e (sat_sub dev e div 16))" "unat (sat_add e (sat_sub dev e div 16)) \<le> 2 ^ 60"
    "unat (sat_add e (sat_sub dev e div 16)) = unat e + (unat dev - unat e) div 16"
proof -
  have "unat e + (unat dev - unat e) div 16 \<le> 2 ^ 60" using assms by linarith
  then show "unat e \<le> unat (sat_add e (sat_sub dev e div 16))" "unat (sat_add e (sat_sub dev e div 16)) \<le> 2 ^ 60"
    "unat (sat_add e (sat_sub dev e div 16)) = unat e + (unat dev - unat e) div 16"
    by (simp_all add: unat_sat_add unat_sat_sub unat_div_16)
qed

lemma transit_bound:
  fixes lr lp :: duration
  assumes "sane_time pts" "sane_time r"
  defines "d_recv \<equiv> wrap_i64 (int (as_micros (r - lr)))" and "d_pts \<equiv> wrap_i64 (int (as_micros (pts - lp)))"
  shows "unat (of_int \<bar>wrap_i64 (d_recv - d_pts)\<bar> :: u64) \<le> 2 ^ 60"
proof -
  have a: "as_micros (r - lr) \<le> 2 ^ 60" "as_micros (pts - lp) \<le> 2 ^ 60"
    using as_micros_mono [of "r - lr" r] as_micros_mono [of "pts - lp" pts] assms(1,2) by (simp_all add: sane_time_def)
  then have d: "d_recv = int (as_micros (r - lr))" "d_pts = int (as_micros (pts - lp))"
    unfolding d_recv_def d_pts_def by (auto intro!: wrap_i64_id)
  with a have z: "\<bar>d_recv - d_pts\<bar> \<le> 2 ^ 60" by simp
  then have w: "wrap_i64 (d_recv - d_pts) = d_recv - d_pts" by (intro wrap_i64_id) auto
  define n where "n = nat \<bar>d_recv - d_pts\<bar>"
  have "n \<le> 2 ^ 60" using z by (simp add: n_def)
  moreover have "\<bar>d_recv - d_pts\<bar> = int n" by (simp add: n_def)
  ultimately show ?thesis by (simp only: w of_int_of_nat_eq) (simp add: unsigned_of_nat take_bit_nat_eq_self)
qed

lemma step_up:
  assumes "0 \<le> t" "t \<le> d" "d < 2 ^ 62"
  shows "t \<le> wrap_i64 (t + wrap_i64 (d - t) sdiv 8)" "wrap_i64 (t + wrap_i64 (d - t) sdiv 8) < 2 ^ 63"
proof -
  have w: "wrap_i64 (d - t) = d - t" using assms by (intro wrap_i64_id) auto
  have s: "(d - t) sdiv 8 = (d - t) div 8" using assms by (simp add: signed_divide_int_def sgn_if)
  have "0 \<le> (d - t) div 8" "t + (d - t) div 8 \<le> d" using assms by auto
  then show "t \<le> wrap_i64 (t + wrap_i64 (d - t) sdiv 8)" "wrap_i64 (t + wrap_i64 (d - t) sdiv 8) < 2 ^ 63"
    using assms by (simp_all add: w s wrap_i64_id)
qed

lemma apply_transit_grows:
  assumes "sane_buffer cfg b" "sane_time pts" "sane_time r" "min_target cfg \<le> max_target cfg" "sane_time (max_target cfg)"
  defines "b' \<equiv> apply_transit pts r b"
  shows "unat (jitter_us_ewma b) \<le> unat (jitter_us_ewma b')" "sane_buffer cfg b'"
    "as_micros (max_target cfg) \<le> 2 * unat (jitter_us_ewma b) \<Longrightarrow> as_micros (jb_target b) \<le> as_micros (jb_target b')"
proof -
  have "unat (jitter_us_ewma b) \<le> unat (jitter_us_ewma b') \<and> sane_buffer cfg b' \<and>
      (as_micros (max_target cfg) \<le> 2 * unat (jitter_us_ewma b) \<longrightarrow> as_micros (jb_target b) \<le> as_micros (jb_target b'))"
  proof (cases "last_recv b = None \<or> last_pts b = None")
    case True
    then have "b' = b" by (auto simp: b'_def apply_transit_def split: option.split)
    with assms(1) show ?thesis by simp
  next
    case False
    then obtain lr lp where l: "last_recv b = Some lr" "last_pts b = Some lp" by auto
    define dev where "dev = (of_int \<bar>wrap_i64 (wrap_i64 (int (as_micros (r - lr))) - wrap_i64 (int (as_micros (pts - lp))))\<bar> :: u64)"
    define ew where "ew = sat_add (jitter_us_ewma b) (sat_sub dev (jitter_us_ewma b) div 16)"
    define t where "t = int (as_micros (jb_target b))"
    define d where "d = int (2 * unat ew)"
    have e: "unat (jitter_us_ewma b) \<le> 2 ^ 60" and cfg: "jb_cfg b = cfg" "jb_target b \<le> max_target cfg"
      using assms(1) by (auto simp: sane_buffer_def)
    have g: "unat (jitter_us_ewma b) \<le> unat ew" "unat ew \<le> 2 ^ 60"
      using ewma_grows [OF e transit_bound [OF assms(2,3), of lr lp]] by (simp_all add: ew_def dev_def)
    have "as_micros (jb_target b) \<le> 2 ^ 60" using as_micros_mono [OF cfg(2)] assms(5) by (simp add: sane_time_def)
    then have t': "wrap_i64 (int (as_micros (jb_target b))) = t" by (simp add: wrap_i64_id t_def)
    have "unat (sat_mul2 ew) = 2 * unat ew" using g(2) by (simp add: sat_mul2_def unat_word_ariths)
    moreover have "2 * unat ew < 2 ^ 63" using g(2) by simp
    ultimately have d': "wrap_i64 (int (unat (sat_mul2 ew))) = d" by (simp only: d_def wrap_i64_nat)
    then have d': "wrap_i64 (uint (sat_mul2 ew)) = d" by simp
    have b': "b' = b\<lparr>jitter_us_ewma := ew, jb_target := clamp_duration (nat (max 0 (wrap_i64 (t + wrap_i64 (d - t) sdiv 8))) * 1000)
        (min_target cfg) (max_target cfg)\<rparr>"
      by (simp add: b'_def apply_transit_def l Let_def cfg dev_def [symmetric] ew_def [symmetric] t' d')
    have "as_micros (jb_target b) \<le> as_micros (jb_target b')" if "as_micros (max_target cfg) \<le> 2 * unat (jitter_us_ewma b)"
    proof -
      have "as_micros (jb_target b) \<le> 2 * unat ew" using as_micros_mono [OF cfg(2)] that g(1) by linarith
      then have "t \<le> d" unfolding t_def d_def by (rule of_nat_mono)
      moreover have "d < 2 ^ 62" unfolding d_def by (rule int_less_power) (use g(2) in simp)
      ultimately have "t \<le> wrap_i64 (t + wrap_i64 (d - t) sdiv 8)" by (intro step_up) (simp_all add: t_def)
      moreover define u where "u = wrap_i64 (t + wrap_i64 (d - t) sdiv 8)"
      ultimately have "int (as_micros (jb_target b)) \<le> u" by (simp add: t_def)
      then have "as_micros (jb_target b) \<le> as_micros (nat (max 0 u) * 1000)" unfolding as_micros_1000 by linarith
      moreover have "as_micros (jb_target b) \<le> as_micros (max_target cfg)" by (rule as_micros_mono [OF cfg(2)])
      ultimately show ?thesis by (simp add: b' u_def [symmetric] as_micros_clamp)
    qed
    with g assms(4) cfg(1) show ?thesis by (simp add: b' sane_buffer_def clamp_duration_bounds)
  qed
  then show "unat (jitter_us_ewma b) \<le> unat (jitter_us_ewma b')" "sane_buffer cfg b'"
    "as_micros (max_target cfg) \<le> 2 * unat (jitter_us_ewma b) \<Longrightarrow> as_micros (jb_target b) \<le> as_micros (jb_target b')" by blast+
qed

lemma adapt_cases:
  "\<exists>b1. (b1 = b \<or> b1 = apply_transit pts r b) \<and> jitter_us_ewma (adapt s pts r b) = jitter_us_ewma b1 \<and>
     jb_target (adapt s pts r b) = jb_target b1"
  by (auto simp: adapt_def Let_def split: option.split)

lemma push_grows:
  assumes "sane_buffer cfg b" "sane_times p" "min_target cfg \<le> max_target cfg" "sane_time (max_target cfg)"
  shows "unat (jitter_us_ewma b) \<le> unat (jitter_us_ewma (push_packet_of p b)) \<and> sane_buffer cfg (push_packet_of p b) \<and>
    (as_micros (max_target cfg) \<le> 2 * unat (jitter_us_ewma b) \<longrightarrow> as_micros (jb_target b) \<le> as_micros (jb_target (push_packet_of p b)))"
proof -
  define c where "c = b\<lparr>jb_stats := (jb_stats b)\<lparr>js_received := js_received (jb_stats b) + 1\<rparr>\<rparr>"
  have c: "sane_buffer cfg c" "jitter_us_ewma c = jitter_us_ewma b" "jb_target c = jb_target b" "jb_cfg c = jb_cfg b"
    using assms(1) by (simp_all add: c_def sane_buffer_def)
  obtain b1 where b1: "b1 = c \<or> b1 = apply_transit (bp_pts p) (bp_recv_time p) c"
    "jitter_us_ewma (push_packet_of p b) = jitter_us_ewma b1" "jb_target (push_packet_of p b) = jb_target b1"
    "jb_cfg (push_packet_of p b) = jb_cfg b"
    using adapt_cases [of c "bp_pts p" "bp_recv_time p" "bp_seq p"] c(4) by (auto simp: push_inner_def Let_def c_def [symmetric])
  have "sane_time (bp_pts p)" "sane_time (bp_recv_time p)" using assms(2) by (simp_all add: sane_times_def)
  from apply_transit_grows [OF c(1) this assms(3,4)] b1 c show ?thesis by (auto simp: sane_buffer_def)
qed

lemma pushes_grow:
  assumes "min_target cfg \<le> max_target cfg" "sane_time (max_target cfg)"
  shows "sane_buffer cfg b \<Longrightarrow> list_all sane_times ps \<Longrightarrow>
    unat (jitter_us_ewma b) \<le> unat (jitter_us_ewma (fold push_packet_of ps b)) \<and> sane_buffer cfg (fold push_packet_of ps b) \<and>
    (as_micros (max_target cfg) \<le> 2 * unat (jitter_us_ewma b) \<longrightarrow>
      as_micros (jb_target b) \<le> as_micros (jb_target (fold push_packet_of ps b)))"
proof (induction ps arbitrary: b)
  case (Cons p ps)
  from Cons.prems have p: "sane_times p" "list_all sane_times ps" by simp_all
  from push_grows [OF Cons.prems(1) p(1) assms] Cons.IH [OF _ p(2), of "push_packet_of p b"]
  show ?case unfolding fold.simps comp_def by linarith
qed simp

lemma new_sane: "min_target cfg \<le> max_target cfg \<Longrightarrow> sane_buffer cfg (jb_new cfg)"
  by (simp add: sane_buffer_def jb_new_def clamp_duration_bounds)

text \<open>
  A jitter spike is never forgotten. The comment promises the moving average of RFC 3550, which decays when
  the network is calm; the code subtracts with saturation before it divides, so the estimate never goes
  down, whatever is received later, and once it has reached half the maximal target the playout delay never goes
  down either.
\<close>

theorem jitter_estimate_never_decays:
  assumes "min_target cfg \<le> max_target cfg" "sane_time (max_target cfg)"
    and "list_all sane_times ps" "list_all sane_times qs"
  defines "before \<equiv> fold push_packet_of ps (jb_new cfg)" and "after \<equiv> fold push_packet_of (ps @ qs) (jb_new cfg)"
  shows "unat (jitter_us_ewma before) \<le> unat (jitter_us_ewma after) \<and>
    (as_micros (max_target cfg) \<le> 2 * unat (jitter_us_ewma before) \<longrightarrow>
      as_micros (jb_target before) \<le> as_micros (jb_target after))"
  using pushes_grow [OF assms(1,2) _ assms(4), of "fold push_packet_of ps (jb_new cfg)"]
    pushes_grow [OF assms(1,2) new_sane [OF assms(1)] assms(3)]
  by (simp add: before_def after_def)

text \<open>One packet delayed by 400 ms in a perfectly regular stream.\<close>

theorem jitter_estimate_never_decays_witness:
  "as_micros (max_target wan_default) \<le> 2 * unat (jitter_us_ewma (fold push_packet_of [demo_packet 0 0, demo_packet 20 420] (jb_new wan_default))) \<and>
   as_micros (jb_target (fold push_packet_of [demo_packet 0 0, demo_packet 20 420] (jb_new wan_default)))
     \<le> as_micros (jb_target (fold push_packet_of ([demo_packet 0 0, demo_packet 20 420] @ map (\<lambda>i. demo_packet i i) [421..<521]) (jb_new wan_default)))"
proof -
  let ?ps = "[demo_packet 0 0, demo_packet 20 420]"
  have "min_target wan_default \<le> max_target wan_default" "sane_time (max_target wan_default)" "list_all sane_times ?ps"
    "list_all sane_times (map (\<lambda>i. demo_packet i i) [421..<521])"
    by (auto simp: wan_default_def sane_time_def sane_times_def demo_packet_def as_micros_def list_all_iff)
  note t = jitter_estimate_never_decays [OF this]
  have w: "wrap_i64 400000 = 400000" "wrap_i64 20000 = 20000" "wrap_i64 420000 = 420000" by (simp_all add: wrap_i64_id)
  have "unat (jitter_us_ewma (fold push_packet_of ?ps (jb_new wan_default))) = 25000"
    by (simp add: push_inner_def Let_def adapt_def apply_transit_def jb_new_def demo_packet_def as_micros_def w
        sat_sub_def sat_add_def unat_div)
  with t show ?thesis by (simp add: wan_default_def as_micros_def)
qed

text \<open>
  \<open>drop_late\<close> looks at the front of the queue only: a packet that waited too long survives behind a
  reordered one that has just arrived.
\<close>

lemma late_packet_survives:
  "jb_queue (drop_late (millis 100) 0 (fold push_packet_of [demo_packet 5 0, demo_packet 3 100] (jb_new wan_default))) =
    [demo_packet 3 100, demo_packet 5 0]"
  by (simp add: drop_late_def push_inner_def Let_def adapt_def apply_transit_def jb_new_def demo_packet_def insert_by_pts_def)

end
