(* ===== verification/Viewer_Media.thy ===== *)
theory Viewer_Media
  imports Viewer_Connect H264_Mock Jitter "HOL-Library.Sublist"
begin

text \<open>
  What the viewer does with received media: the transport's packets (\<open>packages/net/src/types.rs\<close>), the playout
  queue and its sinks (\<open>packages/viewer-core/src/audio.rs\<close>), the video decode hooks (\<open>decode.rs\<close>) and the session
  statistics (\<open>stats.rs\<close>, without the text of the heads-up display). A panic of the picture codec is \<open>None\<close>.
\<close>

section \<open>Received packets\<close>

record video_nalu =
  vn_pts_host_mono :: duration
  vn_rtp_ts :: "u32 option"
  vn_keyframe :: bool
  vn_format :: nalu_format
  vn_data :: bytes

record audio_packet =
  ap_pts_host_mono :: duration
  ap_rtp_ts :: "u32 option"
  ap_sample_rate :: u32
  ap_channels :: u16
  ap_data :: bytes

datatype incoming_track = TrackVideo video_nalu | TrackAudio audio_packet

section \<open>Playout\<close>

record playout_packet =
  pp_pts_host_mono :: duration
  pp_frame :: audio_frame

type_synonym 's playout_sink = "playout_packet \<Rightarrow> 's \<Rightarrow> (viewer_error + unit) \<times> 's"

record mock_sink =
  ms_packets :: "playout_packet list"
  ms_samples_played :: u64

definition new_mock_sink :: mock_sink where
  "new_mock_sink = \<lparr>ms_packets = [], ms_samples_played = 0\<rparr>"

definition mock_sink_push :: "mock_sink playout_sink" where
  "mock_sink_push p s =
     (Inr (), s\<lparr>ms_samples_played := sat_add (ms_samples_played s) (of_nat (length (af_pcm (pp_frame p)))),
              ms_packets := ms_packets s @ [p]\<rparr>)"

definition mock_sink_drain :: "mock_sink \<Rightarrow> playout_packet list \<times> mock_sink" where
  "mock_sink_drain s = (ms_packets s, s\<lparr>ms_packets := []\<rparr>)"

definition null_sink_push :: "unit playout_sink" where
  "null_sink_push p s = (Inr (), s)"

record audio_queue =
  aq_queue :: "playout_packet list"
  aq_capacity :: nat
  aq_dropped :: u64
  aq_enqueued :: u64
  aq_mock_opus_decoded :: u64

definition new_audio_queue :: "nat \<Rightarrow> audio_queue" where
  "new_audio_queue capacity =
     \<lparr>aq_queue = [], aq_capacity = max capacity 1, aq_dropped = 0, aq_enqueued = 0, aq_mock_opus_decoded = 0\<rparr>"

text \<open>The loop that drops from the front until there is room.\<close>

fun make_room :: "nat \<Rightarrow> 'a list \<Rightarrow> u64 \<Rightarrow> 'a list \<times> u64" where
  "make_room cap [] dropped = ([], dropped)"
| "make_room cap (p # q) dropped =
     (if length (p # q) \<ge> cap then make_room cap q (sat_add dropped 1) else (p # q, dropped))"

definition push_frame :: "audio_frame \<Rightarrow> audio_queue \<Rightarrow> audio_queue" where
  "push_frame f q =
     (case make_room (aq_capacity q) (aq_queue q) (aq_dropped q) of (room, dropped) \<Rightarrow>
        q\<lparr>aq_queue := room @ [\<lparr>pp_pts_host_mono = af_pts_host_mono f, pp_frame = f\<rparr>], aq_dropped := dropped,
          aq_enqueued := sat_add (aq_enqueued q) 1\<rparr>)"

definition decode_audio_packet :: "audio_packet \<Rightarrow> viewer_error + audio_frame \<times> bool" where
  "decode_audio_packet p =
     (if take 4 (ap_data p) = MOCK_MAGIC then
        (case opus_decode \<lparr>of_pts_host_mono = ap_pts_host_mono p,
             of_rtp_ts = (case ap_rtp_ts p of Some t \<Rightarrow> t | None \<Rightarrow> 0), of_duration = millis 10,
             of_channels = ap_channels p, of_data = ap_data p\<rparr> of
           Inl e \<Rightarrow> Inl (VMedia (show_opus_error e))
         | Inr f \<Rightarrow> Inr (f, True))
      else if length (ap_data p) mod 2 \<noteq> 0 then Inl (VMedia ''raw audio payload length not multiple of 2'')
      else if ap_channels p = 0 then Inl (VMedia ''audio channels == 0'')
      else Inr (\<lparr>af_pts_host_mono = ap_pts_host_mono p,
             af_sample_rate = (if ap_sample_rate p = 0 then 48000 else ap_sample_rate p),
             af_channels = ap_channels p, af_format = S16Le, af_pcm = read_samples (ap_data p)\<rparr>, False))"

definition push_packet :: "audio_packet \<Rightarrow> audio_queue \<Rightarrow> (viewer_error + unit) \<times> audio_queue" where
  "push_packet p q =
     (case decode_audio_packet p of
        Inl e \<Rightarrow> (Inl e, q)
      | Inr (f, was_mopu) \<Rightarrow>
          (Inr (), push_frame f
             (if was_mopu then q\<lparr>aq_mock_opus_decoded := sat_add (aq_mock_opus_decoded q) 1\<rparr> else q)))"

definition pop_packet :: "audio_queue \<Rightarrow> playout_packet option \<times> audio_queue" where
  "pop_packet q = (case aq_queue q of [] \<Rightarrow> (None, q) | p # r \<Rightarrow> (Some p, q\<lparr>aq_queue := r\<rparr>))"

definition drain_queue :: "audio_queue \<Rightarrow> playout_packet list \<times> audio_queue" where
  "drain_queue q = (aq_queue q, q\<lparr>aq_queue := []\<rparr>)"

definition peek_pts :: "audio_queue \<Rightarrow> duration option" where
  "peek_pts q = (case aq_queue q of [] \<Rightarrow> None | p # _ \<Rightarrow> Some (pp_pts_host_mono p))"

text \<open>\<open>pump_to_sink\<close>: at most \<open>max\<close> packets; a packet the sink refuses has left the queue.\<close>

fun pump_to_sink ::
  "'s playout_sink \<Rightarrow> nat \<Rightarrow> nat \<Rightarrow> audio_queue \<Rightarrow> 's \<Rightarrow> (viewer_error + nat) \<times> audio_queue \<times> 's" where
  "pump_to_sink push n 0 q s = (Inr n, q, s)"
| "pump_to_sink push n (Suc left) q s =
     (case pop_packet q of
        (None, q') \<Rightarrow> (Inr n, q', s)
      | (Some p, q') \<Rightarrow>
          (case push p s of
             (Inl e, s') \<Rightarrow> (Inl e, q', s')
           | (Inr _, s') \<Rightarrow> pump_to_sink push (n + 1) left q' s'))"

section \<open>Video decode hooks\<close>

record decoded_video_frame =
  dv_pts_host_mono :: duration
  dv_keyframe :: bool
  dv_frame :: video_frame
  dv_encoded_len :: nat
  dv_from_mock_h264 :: bool

record synthetic_decoder =
  sy_width :: u32
  sy_height :: u32
  sy_frames_decoded :: u64
  sy_recorded :: "video_nalu list"

text \<open>\<open>SyntheticVideoDecoder::new\<close> asserts positive sizes.\<close>

definition new_synthetic_decoder :: "u32 \<Rightarrow> u32 \<Rightarrow> synthetic_decoder option" where
  "new_synthetic_decoder w h =
     (if w > 0 \<and> h > 0 then Some \<lparr>sy_width = w, sy_height = h, sy_frames_decoded = 0, sy_recorded = []\<rparr> else None)"

definition synthesize :: "video_nalu \<Rightarrow> u64 \<Rightarrow> synthetic_decoder \<Rightarrow> video_frame" where
  "synthesize n index d =
     (let px = (if vn_keyframe n then [32, 200, 64] else [32, 64, 180]);
          bs = concat (replicate (unat (sy_width d) * unat (sy_height d)) px)
      in \<lparr>vf_pts_host_mono = vn_pts_host_mono n, vf_width = sy_width d, vf_height = sy_height d, vf_format = Rgb24,
          vf_data = (if length bs \<ge> 8 then le_bytes 8 (unat index) @ drop 8 bs else bs)\<rparr>)"

definition synthetic_decode :: "video_nalu \<Rightarrow> synthetic_decoder \<Rightarrow> decoded_video_frame option \<times> synthetic_decoder" where
  "synthetic_decode n d =
     (if vn_data n = [] then (None, d)
      else
        let d1 = d\<lparr>sy_recorded := sy_recorded d @ [n], sy_frames_decoded := sat_add (sy_frames_decoded d) 1\<rparr> in
        (Some \<lparr>dv_pts_host_mono = vn_pts_host_mono n, dv_keyframe = vn_keyframe n,
           dv_frame = synthesize n (sy_frames_decoded d) d1, dv_encoded_len = length (vn_data n),
           dv_from_mock_h264 = False\<rparr>, d1))"

record mock_video_decoder =
  mv_inner :: mock_decoder
  mv_recorded :: "video_nalu list"

definition mock_video_decode :: "video_nalu \<Rightarrow> mock_video_decoder \<Rightarrow> (decoded_video_frame option \<times> mock_video_decoder) option" where
  "mock_video_decode n d =
     (if vn_data n = [] then Some (None, d)
      else if \<not> is_mock_bitstream (vn_data n) then Some (None, d)
      else
        let d1 = d\<lparr>mv_recorded := mv_recorded d @ [n]\<rparr> in
        (case h264_decode (vn_data n) (vn_pts_host_mono n) (mv_inner d1) of
           None \<Rightarrow> None
         | Some (Inr (Some f), dec') \<Rightarrow>
             Some (Some \<lparr>dv_pts_host_mono = vn_pts_host_mono n, dv_keyframe = vn_keyframe n, dv_frame = f,
                     dv_encoded_len = length (vn_data n), dv_from_mock_h264 = True\<rparr>, d1\<lparr>mv_inner := dec'\<rparr>)
         | Some (_, dec') \<Rightarrow> Some (None, d1\<lparr>mv_inner := dec'\<rparr>)))"

record mock_or_synthetic =
  mo_mock :: mock_video_decoder
  mo_synthetic :: synthetic_decoder
  mo_mock_only :: bool

definition new_mock_or_synthetic :: mock_or_synthetic where
  "new_mock_or_synthetic =
     \<lparr>mo_mock = \<lparr>mv_inner = new_mock_decoder, mv_recorded = []\<rparr>,
      mo_synthetic = \<lparr>sy_width = 64, sy_height = 36, sy_frames_decoded = 0, sy_recorded = []\<rparr>, mo_mock_only = False\<rparr>"

definition mock_only :: "mock_or_synthetic \<Rightarrow> mock_or_synthetic" where
  "mock_only d = d\<lparr>mo_mock_only := True\<rparr>"

definition mock_or_synthetic_decode ::
  "video_nalu \<Rightarrow> mock_or_synthetic \<Rightarrow> (decoded_video_frame option \<times> mock_or_synthetic) option" where
  "mock_or_synthetic_decode n d =
     (case mock_video_decode n (mo_mock d) of
        None \<Rightarrow> None
      | Some (Some f, m) \<Rightarrow> Some (Some f, d\<lparr>mo_mock := m\<rparr>)
      | Some (None, m) \<Rightarrow>
          let d1 = d\<lparr>mo_mock := m\<rparr> in
          if mo_mock_only d1 then Some (None, d1)
          else (case synthetic_decode n (mo_synthetic d1) of (r, sy) \<Rightarrow> Some (r, d1\<lparr>mo_synthetic := sy\<rparr>)))"

definition recording_decode :: "video_nalu \<Rightarrow> video_nalu list \<Rightarrow> decoded_video_frame option \<times> video_nalu list" where
  "recording_decode n ns = (None, ns @ [n])"

section \<open>Session statistics\<close>

datatype bind_status = Unbound | AuthorizedPending | Bound | BindFailed

fun bind_status_str :: "bind_status \<Rightarrow> string" where
  "bind_status_str Unbound = ''unbound''"
| "bind_status_str AuthorizedPending = ''authorized_pending''"
| "bind_status_str Bound = ''bound''"
| "bind_status_str BindFailed = ''failed''"

record session_stats =
  st_video_frames :: u64
  st_audio_packets :: u64
  st_input_events :: u64
  st_local_ice :: u64
  st_data_rx :: u64
  st_identity_messages :: u64
  st_skew_ms :: double
  st_skew_in_deadband :: bool
  st_resample_ratio :: double
  st_delay_offset_ms :: double
  st_video_jitter_target_ms :: double
  st_audio_jitter_target_ms :: double
  st_rtt_ms :: "double option"
  st_bind_status :: bind_status
  st_identity_bound :: bool
  st_mock_h264_frames :: u64
  st_mock_opus_packets :: u64
  st_audio_played :: u64
  st_video_bitrate_bps :: u64
  st_video_fps :: double

definition jitter_target_ms :: "jitter_config \<Rightarrow> double" where
  "jitter_target_ms c = rnd64 (as_secs_f64 (initial_target c) * 1000)"

definition default_stats :: session_stats where
  "default_stats =
     \<lparr>st_video_frames = 0, st_audio_packets = 0, st_input_events = 0, st_local_ice = 0, st_data_rx = 0,
      st_identity_messages = 0, st_skew_ms = 0, st_skew_in_deadband = True, st_resample_ratio = 1, st_delay_offset_ms = 0,
      st_video_jitter_target_ms = jitter_target_ms wan_default, st_audio_jitter_target_ms = jitter_target_ms wan_default,
      st_rtt_ms = None, st_bind_status = Unbound, st_identity_bound = False, st_mock_h264_frames = 0,
      st_mock_opus_packets = 0, st_audio_played = 0, st_video_bitrate_bps = 0, st_video_fps = 0\<rparr>"

definition with_jitter_targets :: "jitter_config \<Rightarrow> jitter_config \<Rightarrow> session_stats \<Rightarrow> session_stats" where
  "with_jitter_targets video audio s =
     s\<lparr>st_video_jitter_target_ms := jitter_target_ms video, st_audio_jitter_target_ms := jitter_target_ms audio\<rparr>"

definition apply_skew_decision :: "skew_decision \<Rightarrow> double \<Rightarrow> session_stats \<Rightarrow> session_stats" where
  "apply_skew_decision d delay s =
     s\<lparr>st_skew_ms := sd_skew_ms d, st_skew_in_deadband := sd_in_deadband d, st_resample_ratio := sd_resample_ratio d,
       st_delay_offset_ms := delay\<rparr>"

section \<open>The playout queue is a bounded queue\<close>

datatype queue_op = PushFrame audio_frame | PopPacket

fun queue_run :: "queue_op list \<Rightarrow> audio_queue \<Rightarrow> playout_packet list \<times> audio_queue" where
  "queue_run [] q = ([], q)"
| "queue_run (PushFrame f # ops) q = queue_run ops (push_frame f q)"
| "queue_run (PopPacket # ops) q =
     (case pop_packet q of (p, q') \<Rightarrow> case queue_run ops q' of (ps, q'') \<Rightarrow> (case p of None \<Rightarrow> ps | Some p \<Rightarrow> p # ps, q''))"

fun pushed_frames :: "queue_op list \<Rightarrow> audio_frame list" where
  "pushed_frames [] = []"
| "pushed_frames (PushFrame f # ops) = f # pushed_frames ops"
| "pushed_frames (PopPacket # ops) = pushed_frames ops"

lemma make_room_drops:
  "cap > 0 \<Longrightarrow> make_room cap q d = (r, d') \<Longrightarrow>
   \<exists>k. r = drop k q \<and> k \<le> length q \<and> length r < cap \<and> (unat d + length q < 2 ^ 64 \<longrightarrow> unat d' = unat d + k) \<and>
     (k = 0 \<or> length r = cap - 1)"
proof (induction q arbitrary: d)
  case (Cons p q)
  show ?case
  proof (cases "length (p # q) \<ge> cap")
    case True
    with Cons obtain k where k: "r = drop k q" "k \<le> length q" "length r < cap"
      "unat (sat_add d 1) + length q < 2 ^ 64 \<longrightarrow> unat d' = unat (sat_add d 1) + k" "k = 0 \<or> length r = cap - 1" by fastforce
    have "unat d + length (p # q) < 2 ^ 64 \<longrightarrow> unat (sat_add d 1) = Suc (unat d)" by (simp add: unat_sat_add)
    with k True show ?thesis by (intro exI [of _ "Suc k"]) auto
  qed (use Cons.prems in \<open>auto intro!: exI [of _ 0]\<close>)
qed simp

definition packet_of :: "audio_frame \<Rightarrow> playout_packet" where
  "packet_of f = \<lparr>pp_pts_host_mono = af_pts_host_mono f, pp_frame = f\<rparr>"

lemma push_frame_effect:
  assumes "0 < aq_capacity q" "length (aq_queue q) \<le> aq_capacity q"
  shows "\<exists>k \<le> length (aq_queue q). aq_queue (push_frame f q) = drop k (aq_queue q) @ [packet_of f] \<and>
    length (aq_queue (push_frame f q)) \<le> aq_capacity q \<and> aq_capacity (push_frame f q) = aq_capacity q \<and>
    aq_enqueued (push_frame f q) = sat_add (aq_enqueued q) 1 \<and>
    (unat (aq_dropped q) + length (aq_queue q) < 2 ^ 64 \<longrightarrow> unat (aq_dropped (push_frame f q)) = unat (aq_dropped q) + k)"
proof -
  obtain r d where r: "make_room (aq_capacity q) (aq_queue q) (aq_dropped q) = (r, d)" by fastforce
  from make_room_drops [OF assms(1) r] obtain k where "r = drop k (aq_queue q)" "k \<le> length (aq_queue q)"
    "length r < aq_capacity q" "unat (aq_dropped q) + length (aq_queue q) < 2 ^ 64 \<longrightarrow> unat d = unat (aq_dropped q) + k" by blast
  then show ?thesis by (intro exI [of _ k] conjI) (auto simp: push_frame_def r packet_of_def)
qed

definition fifo_run :: "audio_queue \<Rightarrow> queue_op list \<Rightarrow> playout_packet list \<Rightarrow> audio_queue \<Rightarrow> nat \<Rightarrow> bool" where
  "fifo_run q ops ps q' lost \<longleftrightarrow>
     length (aq_queue q') \<le> aq_capacity q \<and>
     lost + length ps + length (aq_queue q') = length (aq_queue q) + length (pushed_frames ops) \<and>
     (unat (aq_dropped q) + length (aq_queue q) + length ops < 2 ^ 64 \<longrightarrow> unat (aq_dropped q') = unat (aq_dropped q) + lost) \<and>
     subseq (ps @ aq_queue q') (aq_queue q @ map packet_of (pushed_frames ops)) \<and>
     suffix (aq_queue q') (aq_queue q @ map packet_of (pushed_frames ops))"

lemma queue_run_fifo:
  "0 < aq_capacity q \<Longrightarrow> length (aq_queue q) \<le> aq_capacity q \<Longrightarrow> queue_run ops q = (ps, q') \<Longrightarrow> \<exists>lost. fifo_run q ops ps q' lost"
proof (induction ops arbitrary: q ps)
  case Nil
  then show ?case by (auto simp: fifo_run_def)
next
  case (Cons op ops)
  show ?case
  proof (cases op)
    case (PushFrame f)
    define q1 where "q1 = push_frame f q"
    from push_frame_effect [OF Cons.prems(1,2), of f] obtain k where k: "k \<le> length (aq_queue q)"
      "aq_queue q1 = drop k (aq_queue q) @ [packet_of f]" "length (aq_queue q1) \<le> aq_capacity q" "aq_capacity q1 = aq_capacity q"
      "unat (aq_dropped q) + length (aq_queue q) < 2 ^ 64 \<longrightarrow> unat (aq_dropped q1) = unat (aq_dropped q) + k"
      unfolding q1_def by blast
    have "queue_run ops q1 = (ps, q')" using Cons.prems(3) PushFrame by (simp add: q1_def)
    with Cons.IH [of q1 ps] k Cons.prems(1) obtain lost where l: "fifo_run q1 ops ps q' lost" by auto
    have whole: "aq_queue q @ map packet_of (pushed_frames (op # ops)) =
        take k (aq_queue q) @ aq_queue q1 @ map packet_of (pushed_frames ops)" using PushFrame k(2) by simp
    have "subseq (ps @ aq_queue q') (aq_queue q @ map packet_of (pushed_frames (op # ops)))"
      unfolding whole by (rule list_emb_append2) (use l in \<open>simp add: fifo_run_def\<close>)
    moreover have "suffix (aq_queue q') (aq_queue q @ map packet_of (pushed_frames (op # ops)))"
      unfolding whole by (rule suffix_appendI) (use l in \<open>simp add: fifo_run_def\<close>)
    moreover have "unat (aq_dropped q') = unat (aq_dropped q) + (k + lost)"
      if "unat (aq_dropped q) + length (aq_queue q) + length (op # ops) < 2 ^ 64"
    proof -
      from that k(5) have d: "unat (aq_dropped q1) = unat (aq_dropped q) + k" by simp
      with that k(1,2) have "unat (aq_dropped q1) + length (aq_queue q1) + length ops < 2 ^ 64" by simp
      with l d show ?thesis by (simp add: fifo_run_def)
    qed
    moreover have "k + lost + length ps + length (aq_queue q') = length (aq_queue q) + length (pushed_frames (op # ops))"
    proof -
      have "lost + length ps + length (aq_queue q') = length (aq_queue q1) + length (pushed_frames ops)"
        using l by (simp only: fifo_run_def)
      moreover have "length (aq_queue q1) + k = length (aq_queue q) + 1" using k(1,2) by simp
      ultimately show ?thesis using PushFrame by simp
    qed
    moreover have "length (aq_queue q') \<le> aq_capacity q" using l k(4) by (simp add: fifo_run_def)
    ultimately have "fifo_run q (op # ops) ps q' (k + lost)" unfolding fifo_run_def by (intro conjI impI)
    then show ?thesis by blast
  next
    case PopPacket
    show ?thesis
    proof (cases "aq_queue q")
      case Nil
      then have "queue_run ops q = (ps, q')" using Cons.prems(3) PopPacket by (auto simp: pop_packet_def split: prod.splits)
      with Cons.IH [of q ps] Cons.prems obtain lost where "fifo_run q ops ps q' lost" by blast
      then have "fifo_run q (op # ops) ps q' lost" using PopPacket by (simp add: fifo_run_def)
      then show ?thesis by blast
    next
      case (Cons p r)
      note q = this
      obtain ps1 where run: "queue_run ops (q\<lparr>aq_queue := r\<rparr>) = (ps1, q')" and ps: "ps = p # ps1"
        using Cons.prems(3) PopPacket q by (auto simp: pop_packet_def split: prod.splits)
      have "length (aq_queue (q\<lparr>aq_queue := r\<rparr>)) \<le> aq_capacity (q\<lparr>aq_queue := r\<rparr>)" using Cons.prems(2) q by simp
      with Cons.IH [OF _ _ run] Cons.prems(1) obtain lost where "fifo_run (q\<lparr>aq_queue := r\<rparr>) ops ps1 q' lost" by auto
      then have "fifo_run q (op # ops) ps q' lost" using PopPacket q ps
        by (simp add: fifo_run_def suffix_ConsI)
      then show ?thesis by blast
    qed
  qed
qed

text \<open>
  The playout queue is a bounded queue that drops its oldest. Over any pushes and pops of a new queue, what is played
  and what is still queued is the pushed sound in its order with packets missing; the queue never holds more than its
  capacity and is always the most recent sound pushed; and every packet was played, is queued or is counted as dropped.
\<close>

theorem playout_queue_is_bounded_fifo:
  assumes "queue_run ops (new_audio_queue cap) = (ps, q)" and "length ops < 2 ^ 64"
  shows "subseq (ps @ aq_queue q) (map packet_of (pushed_frames ops)) \<and> suffix (aq_queue q) (map packet_of (pushed_frames ops)) \<and>
    length (aq_queue q) \<le> max cap 1 \<and>
    unat (aq_dropped q) + length ps + length (aq_queue q) = length (pushed_frames ops)"
proof -
  have "0 < aq_capacity (new_audio_queue cap)" "length (aq_queue (new_audio_queue cap)) \<le> aq_capacity (new_audio_queue cap)"
    by (simp_all add: new_audio_queue_def)
  from queue_run_fifo [OF this assms(1)] obtain lost where "fifo_run (new_audio_queue cap) ops ps q lost" by blast
  then show ?thesis using assms(2) by (simp add: fifo_run_def new_audio_queue_def)
qed

definition demo_block :: "nat \<Rightarrow> audio_frame" where
  "demo_block n = \<lparr>af_pts_host_mono = n, af_sample_rate = 48000, af_channels = 1, af_format = S16Le, af_pcm = [1]\<rparr>"

theorem playout_queue_is_bounded_fifo_witness:
  "\<exists>ps q. queue_run [PushFrame (demo_block 1), PushFrame (demo_block 2), PushFrame (demo_block 3), PopPacket] (new_audio_queue 2) = (ps, q) \<and>
     unat (aq_dropped q) + length ps + length (aq_queue q) = 3"
proof -
  obtain ps q where r: "queue_run [PushFrame (demo_block 1), PushFrame (demo_block 2), PushFrame (demo_block 3), PopPacket]
      (new_audio_queue 2) = (ps, q)" by fastforce
  show ?thesis using playout_queue_is_bounded_fifo [OF r] r by auto
qed

end
