(* ===== verification/Host_Pump.thy ===== *)
theory Host_Pump
  imports Host_Session Host_Encode Viewer_Media
begin

text \<open>
  The frame pump of the host (\<open>pump_media\<close> and its neighbours in \<open>apps/host/src/session.rs\<close>): three packets of sound and one picture per slot,
  taken from the capture sources, encoded, stamped by the session's clock and handed to the transport. The sources are a parameter, a
  function from their state to the next frame; the transport's two media calls are another.
\<close>

section \<open>Interfaces and state\<close>

record ('s, 'm, 'p) pump_env =
  pe_next_audio :: "'s \<Rightarrow> (string + audio_frame option) \<times> 's"
  pe_next_video :: "'s \<Rightarrow> (string + video_frame option) \<times> 's"
  pe_mf :: "'m media_foundation"
  pe_send_audio :: "audio_packet \<Rightarrow> ('p, unit) peer_op"
  pe_send_video :: "video_nalu \<Rightarrow> ('p, unit) peer_op"

text \<open>What the media plane holds besides its two counters, which are in the manager.\<close>

record ('s, 'm) capture_plane =
  cp_sources :: 's
  cp_opus :: opus_encoder
  cp_h264 :: "'m any_encoder"
  cp_epoch :: rtp_epoch

record pump_stats =
  video_sent :: u32
  audio_sent :: u32
  skipped_not_connected :: bool

definition default_pump_stats :: pump_stats where
  "default_pump_stats = \<lparr>video_sent = 0, audio_sent = 0, skipped_not_connected = False\<rparr>"

fun debug_pixel_format :: "pixel_format \<Rightarrow> string" where
  "debug_pixel_format Rgb24 = ''Rgb24''"
| "debug_pixel_format Rgba8 = ''Rgba8''"
| "debug_pixel_format Bgra8 = ''Bgra8''"
| "debug_pixel_format Gray8 = ''Gray8''"

definition media_frame_to_capture :: "video_frame \<Rightarrow> session_error + capture_frame" where
  "media_frame_to_capture f =
     (case capture_format_of (vf_format f) of
        None \<Rightarrow> Inl (SeMedia (''unsupported pixel format for H.264 encode: '' @ debug_pixel_format (vf_format f)))
      | Some c \<Rightarrow> Inr (packed_frame (vf_pts_host_mono f) (vf_width f) (vf_height f) c (vf_data f)))"

text \<open>
  The part of \<open>start_media\<close> that opens the sources and the encoder, for a capture size and the flag that forces the software encoder;
  \<open>open_sources\<close> is what the capture backends answer. The session's clock starts at 0.
\<close>

definition open_capture_plane ::
  "'m media_foundation \<Rightarrow> string + 's \<Rightarrow> bool \<Rightarrow> u32 \<Rightarrow> u32 \<Rightarrow> u32 \<Rightarrow> string + ('s, 'm) capture_plane" where
  "open_capture_plane M open_sources force_software width height fps =
     (case open_sources of
        Inl e \<Rightarrow> Inl e
      | Inr s \<Rightarrow>
          (case open_encoder M \<lparr>ec_width = width, ec_height = height, ec_fps = max fps 1, ec_target_bitrate_bps = 4000000,
                  ec_disable_hw_encode = force_software, ec_force_software = force_software\<rparr> of
             Inl e \<Rightarrow> Inl (show_encode_error e)
           | Inr h264 \<Rightarrow> Inr \<lparr>cp_sources = s, cp_opus = with_epoch \<lparr>epoch_t0 = 0\<rparr>, cp_h264 = h264, cp_epoch = \<lparr>epoch_t0 = 0\<rparr>\<rparr>))"

section \<open>One slot\<close>

definition count_audio :: "('p, 'i) session_manager \<Rightarrow> ('p, 'i) session_manager" where
  "count_audio m = m\<lparr>hm_media := map_option (\<lambda>p. p\<lparr>audio_packets_sent := audio_packets_sent p + 1\<rparr>) (hm_media m)\<rparr>"

definition count_video :: "('p, 'i) session_manager \<Rightarrow> ('p, 'i) session_manager" where
  "count_video m = m\<lparr>hm_media := map_option (\<lambda>p. p\<lparr>video_frames_sent := video_frames_sent p + 1\<rparr>) (hm_media m)\<rparr>"

text \<open>The result of a step tells whether something was sent.\<close>

type_synonym ('s, 'm, 'p, 'i) pump_result = "(session_error + bool) \<times> ('s, 'm) capture_plane \<times> ('p, 'i) session_manager"

definition pump_audio ::
  "('s, 'm, 'p) pump_env \<Rightarrow> ('s, 'm) capture_plane \<Rightarrow> ('p, 'i) session_manager \<Rightarrow> ('s, 'm, 'p, 'i) pump_result" where
  "pump_audio S c m =
     (case pe_next_audio S (cp_sources c) of
        (Inl e, s) \<Rightarrow> (Inl (SeMedia e), c\<lparr>cp_sources := s\<rparr>, m)
      | (Inr None, s) \<Rightarrow> (Inr False, c\<lparr>cp_sources := s\<rparr>, m)
      | (Inr (Some frame), s) \<Rightarrow>
          (case opus_encode frame (cp_opus c) of
             (Inl e, o1) \<Rightarrow> (Inl (SeMedia (show_opus_error e)), c\<lparr>cp_sources := s, cp_opus := o1\<rparr>, m)
           | (Inr opus, o1) \<Rightarrow>
               (case on_peer (pe_send_audio S \<lparr>ap_pts_host_mono = of_pts_host_mono opus, ap_rtp_ts = Some (of_rtp_ts opus),
                       ap_sample_rate = af_sample_rate frame, ap_channels = af_channels frame, ap_data = of_data opus\<rparr>) (count_audio m) of
                  (Inl e, m1) \<Rightarrow> (Inl e, c\<lparr>cp_sources := s, cp_opus := o1\<rparr>, m1)
                | (Inr _, m1) \<Rightarrow> (Inr True, c\<lparr>cp_sources := s, cp_opus := o1\<rparr>, m1))))"

text \<open>Up to \<open>n\<close> attempts to get a picture.\<close>

fun next_picture :: "('s \<Rightarrow> (string + video_frame option) \<times> 's) \<Rightarrow> nat \<Rightarrow> 's \<Rightarrow> (string + video_frame option) \<times> 's" where
  "next_picture nxt 0 s = (Inr None, s)"
| "next_picture nxt (Suc n) s =
     (case nxt s of
        (Inl e, s1) \<Rightarrow> (Inl e, s1)
      | (Inr (Some f), s1) \<Rightarrow> (Inr (Some f), s1)
      | (Inr None, s1) \<Rightarrow> next_picture nxt n s1)"

definition pump_video ::
  "('s, 'm, 'p) pump_env \<Rightarrow> ('s, 'm) capture_plane \<Rightarrow> ('p, 'i) session_manager \<Rightarrow> ('s, 'm, 'p, 'i) pump_result" where
  "pump_video S c m =
     (case next_picture (pe_next_video S) 8 (cp_sources c) of
        (Inl e, s) \<Rightarrow> (Inl (SeMedia e), c\<lparr>cp_sources := s\<rparr>, m)
      | (Inr None, s) \<Rightarrow> (Inr False, c\<lparr>cp_sources := s\<rparr>, m)
      | (Inr (Some frame), s) \<Rightarrow>
          (let force_key = (fst (media_counters m) mod 30 = 0);
               rtp_ts = video_ts (cp_epoch c) (vf_pts_host_mono frame)
           in case media_frame_to_capture frame of
                Inl e \<Rightarrow> (Inl e, c\<lparr>cp_sources := s\<rparr>, m)
              | Inr capture \<Rightarrow>
                  (case any_encode (pe_mf S) capture force_key (cp_h264 c) of
                     (Inl e, h1) \<Rightarrow> (Inl (SeMedia (show_encode_error e)), c\<lparr>cp_sources := s, cp_h264 := h1\<rparr>, m)
                   | (Inr au, h1) \<Rightarrow>
                       (case on_peer (pe_send_video S \<lparr>vn_pts_host_mono = au_pts_host_mono au, vn_rtp_ts = Some rtp_ts,
                               vn_keyframe = au_keyframe au, vn_format = au_format au, vn_data = au_data au\<rparr>) (count_video m) of
                          (Inl e, m1) \<Rightarrow> (Inl e, c\<lparr>cp_sources := s, cp_h264 := h1\<rparr>, m1)
                        | (Inr _, m1) \<Rightarrow> (Inr True, c\<lparr>cp_sources := s, cp_h264 := h1\<rparr>, m1)))))"

section \<open>The pump\<close>

fun pump_audios ::
  "('s, 'm, 'p) pump_env \<Rightarrow> nat \<Rightarrow> u32 \<Rightarrow> ('s, 'm) capture_plane \<Rightarrow> ('p, 'i) session_manager
     \<Rightarrow> (session_error + u32) \<times> ('s, 'm) capture_plane \<times> ('p, 'i) session_manager" where
  "pump_audios S 0 a c m = (Inr a, c, m)"
| "pump_audios S (Suc n) a c m =
     (case pump_audio S c m of
        (Inl e, c1, m1) \<Rightarrow> (Inl e, c1, m1)
      | (Inr sent, c1, m1) \<Rightarrow> pump_audios S n (if sent then a + 1 else a) c1 m1)"

fun pump_slots ::
  "('s, 'm, 'p) pump_env \<Rightarrow> nat \<Rightarrow> u32 \<Rightarrow> u32 \<Rightarrow> ('s, 'm) capture_plane \<Rightarrow> ('p, 'i) session_manager
     \<Rightarrow> (session_error + u32 \<times> u32) \<times> ('s, 'm) capture_plane \<times> ('p, 'i) session_manager" where
  "pump_slots S 0 v a c m = (Inr (v, a), c, m)"
| "pump_slots S (Suc n) v a c m =
     (case pump_audios S 3 a c m of
        (Inl e, c1, m1) \<Rightarrow> (Inl e, c1, m1)
      | (Inr a1, c1, m1) \<Rightarrow>
          (case pump_video S c1 m1 of
             (Inl e, c2, m2) \<Rightarrow> (Inl e, c2, m2)
           | (Inr sent, c2, m2) \<Rightarrow> pump_slots S n (if sent then v + 1 else v) a1 c2 m2))"

definition pump_media ::
  "('s, 'm, 'p) pump_env \<Rightarrow> ('p, 'i) host_env \<Rightarrow> u32 \<Rightarrow> ('s, 'm) capture_plane \<Rightarrow> ('p, 'i) session_manager
     \<Rightarrow> (session_error + pump_stats) \<times> ('s, 'm) capture_plane \<times> ('p, 'i) session_manager" where
  "pump_media S E video_frames c m =
     (if hm_media m = None then (Inl (SeInvalidState ''media not started''), c, m)
      else if peer_state E (hm_peer m) \<noteq> CsConnected then
        (Inr \<lparr>video_sent = 0, audio_sent = 0, skipped_not_connected = True\<rparr>, c, m)
      else case pump_slots S (unat video_frames) 0 0 c m of
        (Inl e, c1, m1) \<Rightarrow> (Inl e, c1, m1)
      | (Inr (v, a), c1, m1) \<Rightarrow>
          (Inr \<lparr>video_sent = v, audio_sent = a, skipped_not_connected = False\<rparr>, c1, snd (on_peer (peer_poll E) m1)))"

definition request_video_keyframe :: "'m media_foundation \<Rightarrow> ('s, 'm) capture_plane \<Rightarrow> ('s, 'm) capture_plane" where
  "request_video_keyframe M c = c\<lparr>cp_h264 := any_request_keyframe M (cp_h264 c)\<rparr>"

definition set_video_bitrate_bps :: "'m media_foundation \<Rightarrow> u32 \<Rightarrow> ('s, 'm) capture_plane \<Rightarrow> ('s, 'm) capture_plane" where
  "set_video_bitrate_bps M bps c = c\<lparr>cp_h264 := any_set_bitrate M bps (cp_h264 c)\<rparr>"

end
