(* ===== verification/Viewer_Input.thy ===== *)
theory Viewer_Input
  imports Host_Session Scancode Single
begin

text \<open>
  The viewer's input path (\<open>packages/viewer-core/src/input.rs\<close>): focus policy, normalisation over the
  capture rectangle, the coalescing of pointer moves, and the emitter that numbers and encodes the events. Instants are
  nanoseconds; \<open>duration_since\<close> saturates at zero, as the subtraction of \<open>nat\<close> does. The JSON encoder and
  the wall clock are arguments.
\<close>

section \<open>The capture rectangle\<close>

record capture_rect =
  cr_x :: f32
  cr_y :: f32
  cr_width :: f32
  cr_height :: f32

definition UNIT_RECT :: capture_rect where
  "UNIT_RECT = \<lparr>cr_x = f32_bits S0, cr_y = f32_bits S0, cr_width = f32_bits S1, cr_height = f32_bits S1\<rparr>"

definition rect_new :: "f32 \<Rightarrow> f32 \<Rightarrow> f32 \<Rightarrow> f32 \<Rightarrow> capture_rect" where
  "rect_new x y w h =
     \<lparr>cr_x = x, cr_y = y, cr_width = (if flt S0 (f32_value w) then w else f32_bits S1),
      cr_height = (if flt S0 (f32_value h) then h else f32_bits S1)\<rparr>"

definition clamp01 :: "f32 \<Rightarrow> f32" where
  "clamp01 x = f32_bits (f32_clamp S0 S1 (f32_value x))"

definition rect_axis :: "f32 \<Rightarrow> f32 \<Rightarrow> f32 \<Rightarrow> f32" where
  "rect_axis origin extent p =
     f32_bits (f32_clamp S0 S1 (fdiv (fsub (f32_value p) (f32_value origin)) (f32_value extent)))"

definition rect_normalize :: "capture_rect \<Rightarrow> f32 \<Rightarrow> f32 \<Rightarrow> f32 \<times> f32" where
  "rect_normalize r px py = (rect_axis (cr_x r) (cr_width r) px, rect_axis (cr_y r) (cr_height r) py)"

section \<open>Samples and captured events\<close>

datatype raw_input =
    RawMove f32 f32
  | RawButton mouse_button_kind bool f32 f32
  | RawWheel f32 f32 bool f32 f32
  | RawKeyNamed named_key bool u32
  | RawKeyScan u32 bool bool u32

datatype captured_input =
    CapMove f32 f32
  | CapButton mouse_button_kind bool f32 f32
  | CapWheel f32 f32 bool f32 f32
  | CapKey u32 bool bool u32

record input_capture_config =
  icc_always_capture :: bool
  icc_coalesce_hz :: f32
  icc_rect :: capture_rect

definition MIN_COALESCE_HZ :: single where "MIN_COALESCE_HZ = Fin False 60"
definition MAX_COALESCE_HZ :: single where "MAX_COALESCE_HZ = Fin False 120"
definition DEFAULT_COALESCE_HZ :: single where "DEFAULT_COALESCE_HZ = Fin False 90"

definition default_capture_config :: input_capture_config where
  "default_capture_config = \<lparr>icc_always_capture = False, icc_coalesce_hz = f32_bits DEFAULT_COALESCE_HZ, icc_rect = UNIT_RECT\<rparr>"

definition clamped_hz :: "f32 \<Rightarrow> f32" where
  "clamped_hz hz = f32_bits (f32_clamp MIN_COALESCE_HZ MAX_COALESCE_HZ (f32_value hz))"

text \<open>
  \<open>Duration::from_secs_f64(1.0 / f64::from(hz))\<close>, which panics (\<open>None\<close>) for a NaN rate; the clamp has removed
  the infinities and the zero.
\<close>

definition hz_interval :: "f32 \<Rightarrow> duration option" where
  "hz_interval hz =
     (case f32_value hz of
        Fin s m \<Rightarrow> Some (from_secs_f64 (rnd64 (1 / sval (Fin s m))))
      | _ \<Rightarrow> None)"

definition coalesce_interval :: "input_capture_config \<Rightarrow> duration option" where
  "coalesce_interval c = hz_interval (clamped_hz (icc_coalesce_hz c))"

section \<open>The coalescer\<close>

record coalescer =
  co_interval :: duration
  co_pending :: "(f32 \<times> f32) option"
  co_last_emit :: "instant option"
  co_accepted :: u64
  co_emitted :: u64
  co_coalesced_away :: u64
  co_discarded :: u64

definition new_coalescer :: "duration \<Rightarrow> coalescer" where
  "new_coalescer interval =
     \<lparr>co_interval = (if interval = 0 then millis 1 else interval), co_pending = None, co_last_emit = None,
      co_accepted = 0, co_emitted = 0, co_coalesced_away = 0, co_discarded = 0\<rparr>"

definition coalescer_from_hz :: "f32 \<Rightarrow> coalescer option" where
  "coalescer_from_hz hz = map_option new_coalescer (hz_interval (clamped_hz hz))"

definition co_next_poll_deadline :: "instant \<Rightarrow> coalescer \<Rightarrow> instant option" where
  "co_next_poll_deadline now c =
     (if co_pending c = None then None
      else Some (case co_last_emit c of Some t \<Rightarrow> t + co_interval c | None \<Rightarrow> now))"

definition discard_pending :: "coalescer \<Rightarrow> coalescer" where
  "discard_pending c =
     (if co_pending c \<noteq> None then c\<lparr>co_pending := None, co_discarded := sat_add (co_discarded c) 1\<rparr> else c)"

definition should_emit :: "instant \<Rightarrow> coalescer \<Rightarrow> bool" where
  "should_emit now c = (case co_last_emit c of None \<Rightarrow> True | Some t \<Rightarrow> now - t \<ge> co_interval c)"

definition take_emit :: "instant \<Rightarrow> coalescer \<Rightarrow> (f32 \<times> f32) option \<times> coalescer" where
  "take_emit now c =
     (case co_pending c of
        None \<Rightarrow> (None, c)
      | Some pos \<Rightarrow>
          (Some pos, c\<lparr>co_pending := None, co_last_emit := Some now, co_emitted := sat_add (co_emitted c) 1\<rparr>))"

definition co_push :: "f32 \<Rightarrow> f32 \<Rightarrow> instant \<Rightarrow> coalescer \<Rightarrow> (f32 \<times> f32) option \<times> coalescer" where
  "co_push x y now c =
     (let c1 = c\<lparr>co_accepted := sat_add (co_accepted c) 1\<rparr>;
          c2 = (if co_pending c1 \<noteq> None then c1\<lparr>co_coalesced_away := sat_add (co_coalesced_away c1) 1\<rparr> else c1)
                 \<lparr>co_pending := Some (x, y)\<rparr>
      in if should_emit now c2 then take_emit now c2 else (None, c2))"

definition co_poll :: "instant \<Rightarrow> coalescer \<Rightarrow> (f32 \<times> f32) option \<times> coalescer" where
  "co_poll now c = (if co_pending c \<noteq> None \<and> should_emit now c then take_emit now c else (None, c))"

definition co_flush :: "instant \<Rightarrow> coalescer \<Rightarrow> (f32 \<times> f32) option \<times> coalescer" where
  "co_flush now c = (if co_pending c \<noteq> None then take_emit now c else (None, c))"

section \<open>Capture\<close>

record input_capture =
  ic_config :: input_capture_config
  ic_focused :: bool
  ic_coalescer :: coalescer
  ic_blocked_unfocused :: u64
  ic_unmapped_keys :: u64

definition new_capture :: "input_capture_config \<Rightarrow> input_capture option" where
  "new_capture cfg =
     map_option (\<lambda>co. \<lparr>ic_config = cfg, ic_focused = False, ic_coalescer = co, ic_blocked_unfocused = 0, ic_unmapped_keys = 0\<rparr>)
       (coalescer_from_hz (clamped_hz (icc_coalesce_hz cfg)))"

definition set_rect :: "capture_rect \<Rightarrow> input_capture \<Rightarrow> input_capture" where
  "set_rect r c = c\<lparr>ic_config := (ic_config c)\<lparr>icc_rect := r\<rparr>\<rparr>"

definition always_capture :: "input_capture \<Rightarrow> bool" where
  "always_capture c = icc_always_capture (ic_config c)"

definition set_focused :: "bool \<Rightarrow> input_capture \<Rightarrow> input_capture" where
  "set_focused focused c =
     (if ic_focused c \<and> \<not> focused \<and> \<not> always_capture c then c\<lparr>ic_coalescer := discard_pending (ic_coalescer c)\<rparr> else c)
       \<lparr>ic_focused := focused\<rparr>"

definition set_always_capture :: "bool \<Rightarrow> input_capture \<Rightarrow> input_capture" where
  "set_always_capture always c =
     (let c1 = if always_capture c \<and> \<not> always \<and> \<not> ic_focused c
               then c\<lparr>ic_coalescer := discard_pending (ic_coalescer c)\<rparr> else c
      in c1\<lparr>ic_config := (ic_config c1)\<lparr>icc_always_capture := always\<rparr>\<rparr>)"

definition may_capture :: "input_capture \<Rightarrow> bool" where
  "may_capture c \<longleftrightarrow> always_capture c \<or> ic_focused c"

definition capture_next_poll_deadline :: "instant \<Rightarrow> input_capture \<Rightarrow> instant option" where
  "capture_next_poll_deadline now c = (if may_capture c then co_next_poll_deadline now (ic_coalescer c) else None)"

definition move_list :: "(f32 \<times> f32) option \<Rightarrow> captured_input list" where
  "move_list p = (case p of Some (x, y) \<Rightarrow> [CapMove x y] | None \<Rightarrow> [])"

text \<open>The flush before a reliable event, and the event after it.\<close>

definition flush_then :: "captured_input \<Rightarrow> instant \<Rightarrow> input_capture \<Rightarrow> captured_input list \<times> input_capture" where
  "flush_then e now c =
     (case co_flush now (ic_coalescer c) of (p, co) \<Rightarrow> (move_list p @ [e], c\<lparr>ic_coalescer := co\<rparr>))"

fun capture_push :: "raw_input \<Rightarrow> instant \<Rightarrow> input_capture \<Rightarrow> captured_input list \<times> input_capture" where
  "capture_push raw now c =
     (if \<not> may_capture c then ([], c\<lparr>ic_blocked_unfocused := sat_add (ic_blocked_unfocused c) 1\<rparr>)
      else case raw of
        RawMove px py \<Rightarrow>
          (case rect_normalize (icc_rect (ic_config c)) px py of (x, y) \<Rightarrow>
           case co_push x y now (ic_coalescer c) of (p, co) \<Rightarrow> (move_list p, c\<lparr>ic_coalescer := co\<rparr>))
      | RawButton b pressed px py \<Rightarrow>
          (case rect_normalize (icc_rect (ic_config c)) px py of (x, y) \<Rightarrow> flush_then (CapButton b pressed x y) now c)
      | RawWheel dx dy precise px py \<Rightarrow>
          (case rect_normalize (icc_rect (ic_config c)) px py of (x, y) \<Rightarrow> flush_then (CapWheel dx dy precise x y) now c)
      | RawKeyNamed key pressed mods \<Rightarrow>
          (case lookup_scancode key of
             None \<Rightarrow> ([], c\<lparr>ic_unmapped_keys := sat_add (ic_unmapped_keys c) 1\<rparr>)
           | Some sc \<Rightarrow> flush_then (CapKey (code sc) (extended sc) pressed mods) now c)
      | RawKeyScan sc ext pressed mods \<Rightarrow> flush_then (CapKey sc ext pressed mods) now c)"

definition capture_poll :: "instant \<Rightarrow> input_capture \<Rightarrow> captured_input option \<times> input_capture" where
  "capture_poll now c =
     (if \<not> may_capture c then (None, c)
      else case co_poll now (ic_coalescer c) of (p, co) \<Rightarrow>
        (map_option (\<lambda>(x, y). CapMove x y) p, c\<lparr>ic_coalescer := co\<rparr>))"

definition flush_pending_move :: "instant \<Rightarrow> input_capture \<Rightarrow> captured_input option \<times> input_capture" where
  "flush_pending_move now c =
     (if \<not> may_capture c then (None, c)
      else case co_flush now (ic_coalescer c) of (p, co) \<Rightarrow>
        (map_option (\<lambda>(x, y). CapMove x y) p, c\<lparr>ic_coalescer := co\<rparr>))"

section \<open>The emitter\<close>

record input_emitter =
  em_next_seq :: u32
  em_moves_unordered :: bool
  em_emitted :: u64

definition new_emitter :: input_emitter where
  "new_emitter = \<lparr>em_next_seq = 1, em_moves_unordered = True, em_emitted = 0\<rparr>"

definition make_event :: "u64 \<Rightarrow> input_payload \<Rightarrow> input_emitter \<Rightarrow> input_event \<times> input_emitter" where
  "make_event ts payload em =
     (\<lparr>client_ts_us = ts, in_seq = em_next_seq em, in_payload = payload\<rparr>, em\<lparr>em_next_seq := em_next_seq em + 1\<rparr>)"

text \<open>\<open>encode_message\<close>; its first argument is \<open>encode_input\<close>, a call of \<open>serde_json\<close>.\<close>

definition emitter_encode ::
  "(input_event \<Rightarrow> string + string) \<Rightarrow> input_event \<Rightarrow> input_emitter \<Rightarrow> (string + data_message) \<times> input_emitter" where
  "emitter_encode J e em =
     (case J e of
        Inl err \<Rightarrow> (Inl err, em)
      | Inr json \<Rightarrow>
          (Inr \<lparr>dm_label = INPUT_CHANNEL_LABEL, dm_data = utf8_bytes json,
             dm_unordered = ((\<exists>m. in_payload e = MouseMove m) \<and> em_moves_unordered em)\<rparr>,
           em\<lparr>em_emitted := sat_add (em_emitted em) 1\<rparr>))"

fun captured_payload :: "captured_input \<Rightarrow> input_payload" where
  "captured_payload (CapMove x y) = MouseMove \<lparr>mm_x = clamp01 x, mm_y = clamp01 y, mm_display_id = 0\<rparr>"
| "captured_payload (CapButton b pressed x y) =
     MouseButton \<lparr>mb_button = b, mb_pressed = pressed, mb_x = clamp01 x, mb_y = clamp01 y, mb_display_id = 0\<rparr>"
| "captured_payload (CapWheel dx dy precise x y) =
     MouseWheel \<lparr>mw_delta_x = dx, mw_delta_y = dy, mw_precise = precise, mw_x = clamp01 x, mw_y = clamp01 y, mw_display_id = 0\<rparr>"
| "captured_payload (CapKey sc ext pressed mods) =
     Key \<lparr>ke_scancode = sc, ke_extended = ext, ke_pressed = pressed, ke_modifiers = mods\<rparr>"

definition encode_captured ::
  "(input_event \<Rightarrow> string + string) \<Rightarrow> u64 \<Rightarrow> captured_input \<Rightarrow> input_emitter
     \<Rightarrow> (string + input_event \<times> data_message) \<times> input_emitter" where
  "encode_captured J ts captured em =
     (case make_event ts (captured_payload captured) em of (e, em1) \<Rightarrow>
        (case emitter_encode J e em1 of
           (Inl err, em2) \<Rightarrow> (Inl err, em2)
         | (Inr msg, em2) \<Rightarrow> (Inr (e, msg), em2)))"

text \<open>The direct calls clamp once more before \<open>encode_captured\<close> does.\<close>

definition em_mouse_move where
  "em_mouse_move J ts x y = encode_captured J ts (CapMove (clamp01 x) (clamp01 y))"

definition em_mouse_button where
  "em_mouse_button J ts b pressed x y = encode_captured J ts (CapButton b pressed (clamp01 x) (clamp01 y))"

definition em_mouse_wheel where
  "em_mouse_wheel J ts dx dy precise x y = encode_captured J ts (CapWheel dx dy precise (clamp01 x) (clamp01 y))"

definition em_key where
  "em_key J ts sc ext pressed mods = encode_captured J ts (CapKey sc ext pressed mods)"

section \<open>Coordinates and the wire\<close>

fun payload_coords :: "input_payload \<Rightarrow> f32 list" where
  "payload_coords (MouseMove m) = [mm_x m, mm_y m]"
| "payload_coords (MouseButton b) = [mb_x b, mb_y b]"
| "payload_coords (MouseWheel w) = [mw_x w, mw_y w]"
| "payload_coords (Key k) = []"

fun captured_coords :: "captured_input \<Rightarrow> f32 list" where
  "captured_coords (CapMove x y) = [x, y]"
| "captured_coords (CapButton b p x y) = [x, y]"
| "captured_coords (CapWheel dx dy p x y) = [x, y]"
| "captured_coords (CapKey sc ext p m) = []"

lemma payload_coords_captured: "payload_coords (captured_payload c) = map clamp01 (captured_coords c)"
  by (cases c) simp_all

lemma clamp01_unit: "in_unit (clamp01 x) \<longleftrightarrow> f32_value x \<noteq> NaN"
  by (simp add: clamp01_def clamp_in_unit f32_value_single)

lemma sub_finite: "x = Fin s m \<Longrightarrow> y = Fin t n \<Longrightarrow> fsub x y \<noteq> NaN"
  by (simp add: fsub_def rnd32_def Let_def)

lemma div_positive: "x \<noteq> NaN \<Longrightarrow> y = Fin t n \<Longrightarrow> n \<noteq> 0 \<Longrightarrow> fdiv x y \<noteq> NaN"
  by (cases x) (auto simp: rnd32_def Let_def)

lemma rect_axis_unit:
  assumes "finite32 p" "finite32 x" "finite32 w"
  shows "in_unit (rect_axis x (if flt S0 (f32_value w) then w else f32_bits S1) p)"
proof -
  define w' where "w' = (if flt S0 (f32_value w) then w else f32_bits S1)"
  from assms(3) obtain t n where w: "f32_value w = Fin t n" by (auto simp: finite32_def split: single.splits)
  have "\<exists>t n. f32_value w' = Fin t n \<and> n \<noteq> 0"
  proof (cases "flt S0 (f32_value w)")
    case True
    with w show ?thesis by (cases t) (auto simp: w'_def S0_def)
  next
    case False
    then have "f32_value w' = Fin False 1" by (simp add: w'_def f32_value_bits) (simp add: S1_def)
    then show ?thesis by (intro exI [of _ False] exI [of _ 1]) simp
  qed
  then obtain t' n' where w': "f32_value w' = Fin t' n'" "n' \<noteq> 0" by blast
  from assms(1,2) obtain s m u k where "f32_value p = Fin s m" "f32_value x = Fin u k"
    by (auto simp: finite32_def split: single.splits)
  then have "fsub (f32_value p) (f32_value x) \<noteq> NaN" by (rule sub_finite)
  then have "fdiv (fsub (f32_value p) (f32_value x)) (f32_value w') \<noteq> NaN" using w' by (rule div_positive)
  then show ?thesis unfolding rect_axis_def w'_def [symmetric]
    by (simp add: clamp_in_unit is_single_div is_single_sub f32_value_single)
qed

text \<open>
  What the viewer puts on the input channel. Each encoded event takes the next sequence number, goes out under the
  label \<open>input\<close>, may overtake others only when it is a pointer move, and carries every coordinate inside the unit
  interval unless the captured one was a NaN; and a finite pointer position over a rectangle built from finite
  numbers, of any size or sign, is captured inside the unit square.
\<close>

theorem sent_pointer_in_unit_square:
  assumes "encode_captured J ts cap em = (Inr (e, msg), em')"
  shows "in_seq e = em_next_seq em \<and> em_next_seq em' = em_next_seq em + 1 \<and> dm_label msg = INPUT_CHANNEL_LABEL \<and>
    (dm_unordered msg \<longrightarrow> (\<exists>x y. cap = CapMove x y)) \<and>
    list_all2 (\<lambda>b sent. in_unit sent \<or> f32_value b = NaN) (captured_coords cap) (payload_coords (in_payload e)) \<and>
    (\<forall>x y w h px py. list_all finite32 [x, y, w, h, px, py] \<longrightarrow>
       (case rect_normalize (rect_new x y w h) px py of (nx, ny) \<Rightarrow> in_unit nx \<and> in_unit ny))"
proof -
  have e: "in_seq e = em_next_seq em" "em_next_seq em' = em_next_seq em + 1" "dm_label msg = INPUT_CHANNEL_LABEL"
    "in_payload e = captured_payload cap" "dm_unordered msg \<Longrightarrow> \<exists>m. captured_payload cap = MouseMove m"
    using assms by (auto simp: encode_captured_def make_event_def emitter_encode_def split: sum.splits)
  have "\<exists>x y. cap = CapMove x y" if "dm_unordered msg" using e(5) [OF that] by (cases cap) auto
  moreover have "list_all2 (\<lambda>b sent. in_unit sent \<or> f32_value b = NaN) (captured_coords cap) (payload_coords (in_payload e))"
    by (simp add: e(4) payload_coords_captured list.rel_map clamp01_unit list.rel_refl)
  moreover have "case rect_normalize (rect_new x y w h) px py of (nx, ny) \<Rightarrow> in_unit nx \<and> in_unit ny"
    if "list_all finite32 [x, y, w, h, px, py]" for x y w h px py
    using that by (simp add: rect_normalize_def rect_new_def rect_axis_unit)
  ultimately show ?thesis using e by blast
qed

theorem sent_pointer_in_unit_square_witness:
  "\<exists>e msg em'. encode_captured (\<lambda>_. Inr ''{}'') 0 (CapMove (f32_bits S1) (f32_bits S0)) new_emitter = (Inr (e, msg), em') \<and>
     in_seq e = 1 \<and> em_next_seq em' = 2"
proof -
  obtain e msg em' where r: "encode_captured (\<lambda>_. Inr ''{}'') 0 (CapMove (f32_bits S1) (f32_bits S0)) new_emitter = (Inr (e, msg), em')"
    by (simp add: encode_captured_def make_event_def emitter_encode_def)
  have "em_next_seq new_emitter = 1" by (simp add: new_emitter_def)
  with sent_pointer_in_unit_square [OF r] r show ?thesis by auto
qed

section \<open>Runs of the capture stage\<close>

datatype capture_op =
  PushSample raw_input instant | PollCapture instant | FlushMove instant
  | SetFocus bool | SetAlways bool | SetRect capture_rect

fun capture_step :: "capture_op \<Rightarrow> input_capture \<Rightarrow> captured_input list \<times> input_capture" where
  "capture_step (PushSample raw now) c = capture_push raw now c"
| "capture_step (PollCapture now) c = (case capture_poll now c of (e, c') \<Rightarrow> (case e of Some e \<Rightarrow> [e] | None \<Rightarrow> [], c'))"
| "capture_step (FlushMove now) c = (case flush_pending_move now c of (e, c') \<Rightarrow> (case e of Some e \<Rightarrow> [e] | None \<Rightarrow> [], c'))"
| "capture_step (SetFocus b) c = ([], set_focused b c)"
| "capture_step (SetAlways b) c = ([], set_always_capture b c)"
| "capture_step (SetRect r) c = ([], set_rect r c)"

fun capture_run :: "capture_op list \<Rightarrow> input_capture \<Rightarrow> captured_input list \<times> input_capture" where
  "capture_run [] c = ([], c)"
| "capture_run (op # ops) c =
     (case capture_step op c of (es, c') \<Rightarrow> case capture_run ops c' of (es', c'') \<Rightarrow> (es @ es', c''))"

fun is_move :: "captured_input \<Rightarrow> bool" where
  "is_move (CapMove x y) = True"
| "is_move _ = False"

definition waiting :: "coalescer \<Rightarrow> nat" where
  "waiting c = (if co_pending c = None then 0 else 1)"

text \<open>The largest value of a counter; the books of a coalescer that has taken at most \<open>n\<close> samples and sent \<open>k\<close> moves.\<close>

definition COUNT_LIMIT :: nat where "COUNT_LIMIT = 2 ^ 64 - 1"

definition balanced :: "nat \<Rightarrow> nat \<Rightarrow> coalescer \<Rightarrow> bool" where
  "balanced n k c \<longleftrightarrow> unat (co_accepted c) \<le> n \<and> unat (co_emitted c) = k \<and>
     unat (co_accepted c) = k + unat (co_coalesced_away c) + unat (co_discarded c) + waiting c"

definition capture_inv :: "nat \<Rightarrow> nat \<Rightarrow> input_capture \<Rightarrow> bool" where
  "capture_inv n k c \<longleftrightarrow> balanced n k (ic_coalescer c) \<and> (\<not> may_capture c \<longrightarrow> co_pending (ic_coalescer c) = None)"

lemma sat_add_1: "unat w < COUNT_LIMIT \<Longrightarrow> unat (sat_add (w :: u64) 1) = Suc (unat w)"
  by (simp add: unat_sat_add COUNT_LIMIT_def)

lemma balanced_limits:
  assumes "balanced n k c" "n < COUNT_LIMIT"
  shows "unat (co_accepted c) < COUNT_LIMIT" "unat (co_emitted c) < COUNT_LIMIT"
    "unat (co_coalesced_away c) < COUNT_LIMIT" "unat (co_discarded c) < COUNT_LIMIT"
  using assms unfolding balanced_def by linarith+

lemma balanced_discard:
  assumes "balanced n k c" "n < COUNT_LIMIT"
  shows "balanced n k (discard_pending c) \<and> co_pending (discard_pending c) = None"
  using assms(1) balanced_limits [OF assms] by (cases "co_pending c") (simp_all add: balanced_def waiting_def discard_pending_def sat_add_1)

lemma balanced_take:
  assumes "balanced n k c" "n < COUNT_LIMIT" "take_emit now c = (p, c')"
  shows "balanced n (k + (if p = None then 0 else 1)) c' \<and> co_pending c' = None"
  using assms(1,3) balanced_limits [OF assms(1,2)]
  by (cases "co_pending c") (auto simp: balanced_def waiting_def take_emit_def sat_add_1)

lemma balanced_flush:
  assumes "balanced n k c" "n < COUNT_LIMIT" "co_flush now c = (p, c')"
  shows "balanced n (k + (if p = None then 0 else 1)) c' \<and> co_pending c' = None"
  using balanced_take [OF assms(1,2), of now p c'] assms(1,3)
  by (cases "co_pending c") (auto simp: co_flush_def split: if_splits)

lemma balanced_poll:
  assumes "balanced n k c" "n < COUNT_LIMIT" "co_poll now c = (p, c')"
  shows "balanced n (k + (if p = None then 0 else 1)) c'"
  using balanced_take [OF assms(1,2), of now p c'] assms(1,3) by (auto simp: co_poll_def split: if_splits)

lemma balanced_push:
  assumes "balanced n k c" "Suc n < COUNT_LIMIT" "co_push x y now c = (p, c')"
  shows "balanced (Suc n) (k + (if p = None then 0 else 1)) c'"
proof -
  define c2 where "c2 = (let c1 = c\<lparr>co_accepted := sat_add (co_accepted c) 1\<rparr> in
    (if co_pending c1 \<noteq> None then c1\<lparr>co_coalesced_away := sat_add (co_coalesced_away c1) 1\<rparr> else c1)
      \<lparr>co_pending := Some (x, y)\<rparr>)"
  have "n < COUNT_LIMIT" using assms(2) by simp
  with assms(1) have "balanced (Suc n) k c2" using balanced_limits [OF assms(1)]
    by (cases "co_pending c") (simp_all add: c2_def balanced_def waiting_def Let_def sat_add_1)
  moreover have "(if should_emit now c2 then take_emit now c2 else (None, c2)) = (p, c')"
    using assms(3) unfolding co_push_def c2_def Let_def .
  ultimately show ?thesis using balanced_take [of "Suc n" k c2 now p c'] assms(2) by (auto split: if_splits)
qed

lemma balanced_mono: "balanced n k c \<Longrightarrow> n \<le> m \<Longrightarrow> balanced m k c"
  by (auto simp: balanced_def)

lemma move_list_count: "length (filter is_move (move_list p)) = (if p = None then 0 else 1)"
  by (cases p) (auto simp: move_list_def)

lemma capture_step_inv:
  assumes "capture_inv n k c" "Suc n < COUNT_LIMIT" "capture_step op c = (es, c')"
  shows "capture_inv (Suc n) (k + length (filter is_move es)) c' \<and> (es \<noteq> [] \<longrightarrow> may_capture c)"
proof -
  have n: "n < COUNT_LIMIT" using assms(2) by simp
  have flush: "capture_inv (Suc n) (k + length (filter is_move es)) c'"
    if "flush_then e now c = (es, c')" "\<not> is_move e" "may_capture c" for e now
    using that assms(1) balanced_flush [of n k "ic_coalescer c" now] n
    by (auto simp: flush_then_def capture_inv_def move_list_count may_capture_def always_capture_def
        intro: balanced_mono split: prod.splits)
  show ?thesis
  proof (cases op)
    case (PushSample raw now)
    show ?thesis
    proof (cases "may_capture c")
      case False
      with PushSample assms(1,3) show ?thesis
        by (auto simp: capture_inv_def may_capture_def always_capture_def intro: balanced_mono)
    next
      case True
      show ?thesis
      proof (cases raw)
        case (RawMove px py)
        obtain x y where xy: "rect_normalize (icc_rect (ic_config c)) px py = (x, y)" by fastforce
        obtain p co where co: "co_push x y now (ic_coalescer c) = (p, co)" by fastforce
        with xy PushSample RawMove True assms(3) have "es = move_list p" "c' = c\<lparr>ic_coalescer := co\<rparr>" by auto
        moreover have "balanced (Suc n) (k + (if p = None then 0 else 1)) co"
          using assms(1,2) by (intro balanced_push [OF _ _ co]) (simp_all add: capture_inv_def)
        ultimately show ?thesis using True by (simp add: capture_inv_def move_list_count may_capture_def always_capture_def)
      next
        case (RawKeyNamed key pressed mods)
        obtain sc where "lookup_scancode key = Some sc" using lookup_total by blast
        with PushSample RawKeyNamed True assms(3) show ?thesis by (auto intro!: flush)
      qed (use PushSample True assms(3) in \<open>auto intro!: flush split: prod.splits\<close>)
    qed
  next
    case (PollCapture now)
    with assms n show ?thesis using balanced_poll [of n k "ic_coalescer c" now]
      by (auto simp: capture_poll_def capture_inv_def may_capture_def always_capture_def
          intro: balanced_mono split: prod.splits if_splits option.splits)
  next
    case (FlushMove now)
    with assms n show ?thesis using balanced_flush [of n k "ic_coalescer c" now]
      by (auto simp: flush_pending_move_def capture_inv_def may_capture_def always_capture_def
          intro: balanced_mono split: prod.splits if_splits option.splits)
  next
    case (SetFocus b)
    with assms n show ?thesis using balanced_discard [of n k "ic_coalescer c"]
      by (auto simp: set_focused_def capture_inv_def may_capture_def always_capture_def intro: balanced_mono split: if_splits)
  next
    case (SetAlways b)
    with assms n show ?thesis using balanced_discard [of n k "ic_coalescer c"]
      by (auto simp: set_always_capture_def Let_def capture_inv_def may_capture_def always_capture_def intro: balanced_mono split: if_splits)
  next
    case (SetRect r)
    with assms show ?thesis
      by (auto simp: set_rect_def capture_inv_def may_capture_def always_capture_def intro: balanced_mono)
  qed
qed

lemma capture_run_inv:
  "capture_inv n k c \<Longrightarrow> n + length ops < COUNT_LIMIT \<Longrightarrow> capture_run ops c = (es, c') \<Longrightarrow>
   capture_inv (n + length ops) (k + length (filter is_move es)) c'"
proof (induction ops arbitrary: n k c es c')
  case Nil
  then show ?case by simp
next
  case (Cons op ops)
  obtain e1 c1 where 1: "capture_step op c = (e1, c1)" by fastforce
  obtain e2 c2 where 2: "capture_run ops c1 = (e2, c2)" by fastforce
  from Cons.prems 1 have "capture_inv (Suc n) (k + length (filter is_move e1)) c1" using capture_step_inv by simp
  from Cons.IH [OF this _ 2] Cons.prems 1 2 show ?case by (auto simp: add.assoc)
qed

lemma new_capture_inv:
  assumes "new_capture cfg = Some c" shows "capture_inv 0 0 c" "\<not> ic_focused c"
  using assms by (auto simp: new_capture_def coalescer_from_hz_def new_coalescer_def capture_inv_def balanced_def waiting_def)

text \<open>
  The focus policy and the books of the pointer. From a fresh capture stage, after any mix of samples, polls,
  flushes and changes of focus, of the always flag and of the rectangle: every pointer position that was let in
  has been sent, replaced by a newer one, dropped with the focus, or is the one still waiting; the moves sent are exactly
  those counted; nothing waits while the policy forbids capturing, so no position from before a loss of focus is sent after it; and an operation
  that captures anything at all runs while the window is focused or always-capture is on.
\<close>

theorem pointer_books_balance:
  assumes "new_capture cfg = Some c0" and "length ops < COUNT_LIMIT" and "capture_run ops c0 = (es, c)"
  shows "unat (co_accepted (ic_coalescer c)) =
      length (filter is_move es) + unat (co_coalesced_away (ic_coalescer c)) + unat (co_discarded (ic_coalescer c)) +
      (if co_pending (ic_coalescer c) = None then 0 else 1) \<and>
    unat (co_emitted (ic_coalescer c)) = length (filter is_move es) \<and>
    (\<not> may_capture c \<longrightarrow> co_pending (ic_coalescer c) = None) \<and>
    (fst (capture_step op c) \<noteq> [] \<longrightarrow> may_capture c)"
proof -
  have inv: "capture_inv (0 + length ops) (0 + length (filter is_move es)) c"
    by (rule capture_run_inv [OF new_capture_inv(1) [OF assms(1)] _ assms(3)]) (simp add: assms(2))
  have "fst (capture_step op c) = []" if "\<not> may_capture c"
    using that by (cases op) (auto simp: capture_poll_def flush_pending_move_def)
  with inv show ?thesis by (auto simp: capture_inv_def balanced_def waiting_def)
qed

section \<open>Coalescing is invisible\<close>

text \<open>The capture stage without coalescing: every position goes out at once.\<close>

fun plain_step :: "capture_op \<Rightarrow> capture_rect \<Rightarrow> captured_input list \<times> capture_rect" where
  "plain_step (PushSample (RawMove px py) now) r = (case rect_normalize r px py of (x, y) \<Rightarrow> ([CapMove x y], r))"
| "plain_step (PushSample (RawButton b p px py) now) r = (case rect_normalize r px py of (x, y) \<Rightarrow> ([CapButton b p x y], r))"
| "plain_step (PushSample (RawWheel dx dy p px py) now) r = (case rect_normalize r px py of (x, y) \<Rightarrow> ([CapWheel dx dy p x y], r))"
| "plain_step (PushSample (RawKeyNamed key p m) now) r =
     (case lookup_scancode key of None \<Rightarrow> ([], r) | Some sc \<Rightarrow> ([CapKey (code sc) (extended sc) p m], r))"
| "plain_step (PushSample (RawKeyScan sc ext p m) now) r = ([CapKey sc ext p m], r)"
| "plain_step (SetRect r') r = ([], r')"
| "plain_step _ r = ([], r)"

fun plain_run :: "capture_op list \<Rightarrow> capture_rect \<Rightarrow> captured_input list" where
  "plain_run [] r = []"
| "plain_run (op # ops) r = (case plain_step op r of (es, r') \<Rightarrow> es @ plain_run ops r')"

text \<open>What a host sees that looks at the pointer when a button, wheel or key event arrives.\<close>

fun seen :: "(f32 \<times> f32) option \<Rightarrow> captured_input list \<Rightarrow> (captured_input \<times> (f32 \<times> f32) option) list" where
  "seen p [] = []"
| "seen p (CapMove x y # es) = seen (Some (x, y)) es"
| "seen p (e # es) = (e, p) # seen p es"

fun keeps_capturing :: "capture_op \<Rightarrow> bool" where
  "keeps_capturing (SetFocus b) = False"
| "keeps_capturing (SetAlways b) = False"
| "keeps_capturing _ = True"

definition pointer :: "(f32 \<times> f32) option \<Rightarrow> input_capture \<Rightarrow> (f32 \<times> f32) option" where
  "pointer p c = (case co_pending (ic_coalescer c) of Some q \<Rightarrow> Some q | None \<Rightarrow> p)"

lemma seen_move_list: "seen p (move_list q @ es) = seen (case q of Some q \<Rightarrow> Some q | None \<Rightarrow> p) es"
  by (cases q) (auto simp: move_list_def)

lemma seen_event: "\<not> is_move e \<Longrightarrow> seen p (e # es) = (e, p) # seen p es"
  by (cases e) auto

lemma seen_flush_then:
  assumes "flush_then e now c = (es, c')" "\<not> is_move e"
  shows "seen p (es @ rest) = (e, pointer p c) # seen (pointer p c) rest \<and> pointer (pointer p c) c' = pointer p c \<and>
    co_pending (ic_coalescer c') = None \<and> ic_config c' = ic_config c \<and> ic_focused c' = ic_focused c"
  using assms
  by (cases "co_pending (ic_coalescer c)")
     (auto simp: flush_then_def co_flush_def take_emit_def move_list_def pointer_def seen_event)

lemma push_move:
  assumes "co_push x y now co = (p, co')"
  shows "(p = Some (x, y) \<and> co_pending co' = None) \<or> (p = None \<and> co_pending co' = Some (x, y))"
  using assms by (auto simp: co_push_def Let_def take_emit_def split: if_splits)

definition step_agrees :: "(f32 \<times> f32) option \<Rightarrow> captured_input list \<Rightarrow> input_capture \<Rightarrow> captured_input list \<Rightarrow> input_capture \<Rightarrow> bool" where
  "step_agrees p es c es' c' \<longleftrightarrow>
     (\<exists>evs p'. (\<forall>rest. seen p (es @ rest) = evs @ seen p' rest) \<and>
        (\<forall>rest. seen (pointer p c) (es' @ rest) = evs @ seen (pointer p' c') rest))"

lemma agrees_event:
  assumes "flush_then e now c = (es, c')" "\<not> is_move e" shows "step_agrees p es c [e] c'"
  unfolding step_agrees_def
  by (intro exI [of _ "[(e, pointer p c)]"] exI [of _ "pointer p c"])
     (use seen_flush_then [OF assms] assms(2) in \<open>simp add: seen_event\<close>)

lemma agrees_emit:
  assumes "co_pending (ic_coalescer c) = q" "co_pending (ic_coalescer c') = None"
  shows "step_agrees p (move_list q) c [] c'"
  unfolding step_agrees_def using assms
  by (intro exI [of _ "[]"] exI [of _ "pointer p c"]) (auto simp: seen_move_list pointer_def split: option.splits)

lemma agrees_wait: "ic_coalescer c' = ic_coalescer c \<Longrightarrow> step_agrees p [] c [] c'"
  unfolding step_agrees_def by (intro exI [of _ "[]"] exI [of _ p]) (simp add: pointer_def)

lemma agrees_move:
  assumes "co_push x y now (ic_coalescer c) = (q, co)"
  shows "step_agrees p (move_list q) c [CapMove x y] (c\<lparr>ic_coalescer := co\<rparr>)"
  using push_move [OF assms]
proof (elim disjE conjE)
  assume "q = Some (x, y)" "co_pending co = None"
  then show ?thesis unfolding step_agrees_def
    by (intro exI [of _ "[]"] exI [of _ "Some (x, y)"]) (simp add: move_list_def pointer_def)
next
  assume "q = None" "co_pending co = Some (x, y)"
  then show ?thesis unfolding step_agrees_def
    by (intro exI [of _ "[]"] exI [of _ p]) (simp add: move_list_def pointer_def)
qed

lemma agrees_take:
  assumes "q = co_pending (ic_coalescer c) \<and> co_pending co = None \<or> q = None \<and> co = ic_coalescer c"
  shows "step_agrees p (move_list q) c [] (c\<lparr>ic_coalescer := co\<rparr>)"
  using assms
proof (elim disjE conjE)
  assume "q = None" "co = ic_coalescer c"
  then show ?thesis using agrees_wait [of "c\<lparr>ic_coalescer := co\<rparr>" c p] by (simp add: move_list_def)
qed (simp add: agrees_emit)

lemma take_emit_pending: "take_emit now co = (q, co') \<Longrightarrow> q = co_pending co \<and> co_pending co' = None"
  by (cases "co_pending co") (auto simp: take_emit_def)

lemma co_poll_takes: "co_poll now co = (q, co') \<Longrightarrow> q = co_pending co \<and> co_pending co' = None \<or> q = None \<and> co' = co"
  using take_emit_pending [of now co q co'] by (auto simp: co_poll_def split: if_splits)

lemma co_flush_takes: "co_flush now co = (q, co') \<Longrightarrow> q = co_pending co \<and> co_pending co' = None \<or> q = None \<and> co' = co"
  using take_emit_pending [of now co q co'] by (auto simp: co_flush_def split: if_splits)

lemma capture_step_seen:
  assumes "may_capture c" "keeps_capturing op" "capture_step op c = (es, c')" "plain_step op (icc_rect (ic_config c)) = (es', r')"
  shows "may_capture c' \<and> icc_rect (ic_config c') = r' \<and> step_agrees p es c es' c'"
proof -
  have flush: "may_capture c' \<and> icc_rect (ic_config c') = icc_rect (ic_config c) \<and> step_agrees p es c [e] c'"
    if "flush_then e now c = (es, c')" "\<not> is_move e" for e now
    using that assms(1) agrees_event [OF that] seen_flush_then [OF that]
    by (simp add: may_capture_def always_capture_def)
  show ?thesis
  proof (cases op)
    case (PushSample raw now)
    show ?thesis
    proof (cases raw)
      case (RawMove px py)
      obtain x y where xy: "rect_normalize (icc_rect (ic_config c)) px py = (x, y)" by fastforce
      obtain q co where co: "co_push x y now (ic_coalescer c) = (q, co)" by fastforce
      from agrees_move [OF co, of p] show ?thesis
        using assms co xy PushSample RawMove by (auto simp: may_capture_def always_capture_def)
    next
      case (RawKeyNamed key pressed mods)
      obtain sc where "lookup_scancode key = Some sc" using lookup_total by blast
      then show ?thesis using assms PushSample RawKeyNamed by (auto dest!: flush)
    qed (use assms PushSample in \<open>auto dest!: flush split: prod.splits\<close>)
  next
    case (PollCapture now)
    obtain q co where co: "co_poll now (ic_coalescer c) = (q, co)" by fastforce
    from agrees_take [OF co_poll_takes [OF this]] show ?thesis
      using assms co PollCapture by (cases q) (auto simp: capture_poll_def move_list_def may_capture_def always_capture_def)
  next
    case (FlushMove now)
    obtain q co where co: "co_flush now (ic_coalescer c) = (q, co)" by fastforce
    from agrees_take [OF co_flush_takes [OF this]] show ?thesis
      using assms co FlushMove by (cases q) (auto simp: flush_pending_move_def move_list_def may_capture_def always_capture_def)
  next
    case (SetRect r)
    then show ?thesis using assms by (auto simp: set_rect_def may_capture_def always_capture_def intro!: agrees_wait)
  qed (use assms in auto)
qed

lemma capture_run_seen:
  "may_capture c \<Longrightarrow> list_all keeps_capturing ops \<Longrightarrow>
   seen p (fst (capture_run ops c)) = seen (pointer p c) (plain_run ops (icc_rect (ic_config c)))"
proof (induction ops arbitrary: c p)
  case (Cons op ops)
  obtain es c' where 1: "capture_step op c = (es, c')" by fastforce
  obtain es' r' where 2: "plain_step op (icc_rect (ic_config c)) = (es', r')" by fastforce
  obtain rest c'' where 3: "capture_run ops c' = (rest, c'')" by fastforce
  from Cons.prems capture_step_seen [OF _ _ 1 2, of p] have step: "may_capture c'" "icc_rect (ic_config c') = r'"
    and "step_agrees p es c es' c'" by auto
  then obtain evs p' where "\<forall>rest. seen p (es @ rest) = evs @ seen p' rest"
    "\<forall>rest. seen (pointer p c) (es' @ rest) = evs @ seen (pointer p' c') rest" by (auto simp: step_agrees_def)
  moreover have "seen p' rest = seen (pointer p' c') (plain_run ops r')"
    using Cons.IH [OF step(1), of p'] Cons.prems step(2) 3 by simp
  ultimately show ?case using 1 2 3 by simp
qed simp

text \<open>
  C18. Coalescing loses nothing the host can act on. While the viewer keeps capturing, any mix of pointer, button, wheel and key
  samples, polls, flushes and changes of the rectangle reaches the host as if every pointer position had been sent at once: the same
  buttons, wheels and keys arrive in the same order, and at each of them the host's pointer
  is where the user's was.
\<close>

theorem coalescing_is_invisible:
  assumes "may_capture c" and "co_pending (ic_coalescer c) = None" and "list_all keeps_capturing ops"
  shows "seen p (fst (capture_run ops c)) = seen p (plain_run ops (icc_rect (ic_config c)))"
  using capture_run_seen [OF assms(1,3), of p] assms(2) by (simp add: pointer_def)

definition demo_capture :: input_capture where
  "demo_capture = \<lparr>ic_config = default_capture_config, ic_focused = True, ic_coalescer = new_coalescer (millis 10),
     ic_blocked_unfocused = 0, ic_unmapped_keys = 0\<rparr>"

definition demo_ops :: "capture_op list" where
  "demo_ops = [PushSample (RawMove (f32_bits S0) (f32_bits S0)) 0, PushSample (RawMove (f32_bits S1) (f32_bits S0)) 5,
     PushSample (RawMove (f32_bits S1) (f32_bits S1)) 6, PushSample (RawKeyScan 28 False True 0) 7]"

theorem coalescing_is_invisible_witness:
  "seen None (fst (capture_run demo_ops demo_capture)) = seen None (plain_run demo_ops UNIT_RECT)"
  using coalescing_is_invisible [of demo_capture demo_ops None]
  by (simp add: demo_capture_def demo_ops_def may_capture_def always_capture_def default_capture_config_def new_coalescer_def
      del: capture_run.simps plain_run.simps)

lemma new_default_capture: "\<exists>c0. new_capture default_capture_config = Some c0"
proof -
  have "representable (of_nat n)" if "n \<le> 2 ^ 24" for n
  proof -
    have "(of_nat n :: rat) \<le> of_nat (2 ^ 24)" using that by (simp only: of_nat_le_iff)
    also have "\<dots> < pow2 128" by simp
    finally show ?thesis using that unfolding representable_def by (intro conjI exI [of _ n] exI [of _ 0]) auto
  qed
  from this [of 60] this [of 90] this [of 120] have "is_single (Fin False 60)" "is_single (Fin False 90)" "is_single (Fin False 120)"
    by simp_all
  then have hz: "clamped_hz (f32_bits (Fin False 90)) = f32_bits (Fin False 90)" "f32_value (f32_bits (Fin False 90)) = Fin False 90"
    by (simp_all add: clamped_hz_def f32_value_bits MIN_COALESCE_HZ_def MAX_COALESCE_HZ_def f32_clamp_def)
  then show ?thesis
    by (simp add: new_capture_def default_capture_config_def DEFAULT_COALESCE_HZ_def coalescer_from_hz_def hz_interval_def)
qed

theorem pointer_books_balance_witness:
  "\<exists>c0. new_capture default_capture_config = Some c0 \<and>
     unat (co_emitted (ic_coalescer (snd (capture_run demo_ops c0)))) = length (filter is_move (fst (capture_run demo_ops c0)))"
proof -
  obtain c0 where c0: "new_capture default_capture_config = Some c0" using new_default_capture by blast
  have "length demo_ops < COUNT_LIMIT" by (simp add: demo_ops_def COUNT_LIMIT_def)
  from pointer_books_balance [OF c0 this, of "fst (capture_run demo_ops c0)" "snd (capture_run demo_ops c0)"] c0
  show ?thesis by auto
qed

end
