(* ===== verification/Viewer_Session.thy ===== *)
theory Viewer_Session
  imports Viewer_Media Viewer_Input Skew
begin

text \<open>
  The viewer's session (\<open>packages/viewer-core/src/session.rs\<close>): one peer transport, the connection machine, decoding and
  playout, the input gate and the viewer's half of the identity binding. The transport, the video hook and the playout sink are
  trait objects, so their methods are arguments; a transport method returns its result with the callbacks it made, which the session
  keeps in a buffer until it drains them. Instants are arguments. A panic is \<open>None\<close>.
\<close>

section \<open>The environment\<close>

record viewer_events =
  ve_ice :: "ice_candidate list"
  ve_states :: "connection_state list"
  ve_tracks :: "incoming_track list"
  ve_data :: "data_message list"

definition no_events :: viewer_events where
  "no_events = \<lparr>ve_ice = [], ve_states = [], ve_tracks = [], ve_data = []\<rparr>"

definition add_events :: "viewer_events \<Rightarrow> viewer_events \<Rightarrow> viewer_events" where
  "add_events a b =
     \<lparr>ve_ice = ve_ice a @ ve_ice b, ve_states = ve_states a @ ve_states b, ve_tracks = ve_tracks a @ ve_tracks b,
      ve_data = ve_data a @ ve_data b\<rparr>"

type_synonym ('p, 'r) viewer_op = "'p \<Rightarrow> (string + 'r) \<times> viewer_events \<times> 'p"

record ('p, 'v, 's) viewer_env =
  vp_crypto :: crypto
  vp_ed25519 :: ed25519
  vp_state :: "'p \<Rightarrow> connection_state"
  vp_poll :: "('p, unit) viewer_op"
  vp_send_data :: "data_message \<Rightarrow> ('p, unit) viewer_op"
  vp_create_answer :: "('p, session_description) viewer_op"
  vp_set_local :: "session_description \<Rightarrow> ('p, unit) viewer_op"
  vp_set_remote :: "session_description \<Rightarrow> ('p, unit) viewer_op"
  vp_add_ice :: "ice_candidate \<Rightarrow> ('p, unit) viewer_op"
  vp_local_fingerprint :: "'p \<Rightarrow> string + string"
  vp_remote_fingerprint :: "'p \<Rightarrow> string + string option"
  vp_decode :: "video_nalu \<Rightarrow> 'v \<Rightarrow> (decoded_video_frame option \<times> 'v) option"
  vp_sink_push :: "'s playout_sink"
  vp_sink_flush :: "'s \<Rightarrow> 's"
  vp_encode_input :: "input_event \<Rightarrow> string + string"

record ('p, 'v, 's) viewer_session =
  vs_machine :: connection_machine
  vs_transport :: "'p option"
  vs_buf :: viewer_events
  vs_video :: 'v
  vs_video_out :: "decoded_video_frame list"
  vs_video_out_cap :: nat
  vs_audio :: audio_queue
  vs_sink :: 's
  vs_input :: input_emitter
  vs_capture :: input_capture
  vs_pending_local_ice :: "ice_candidate list"
  vs_session_id :: "string option"
  vs_stats :: session_stats
  vs_recorded_video :: "video_nalu list"
  vs_recorded_audio :: "audio_packet list"
  vs_host_key :: "bytes option"
  vs_bind_key :: "session_bind_key option"
  vs_identity :: identity_bind_state
  vs_host_fp :: "string option"
  vs_require_identity :: bool
  vs_skew :: skew_controller
  vs_last_video_present_ms :: "double option"
  vs_last_audio_playout_ms :: "double option"
  vs_wall_origin :: "instant option"
  vs_last_video_pts :: "duration option"
  vs_video_jitter_cfg :: jitter_config
  vs_audio_jitter_cfg :: jitter_config
  vs_auto_playout :: bool
  vs_record_limit :: "nat option"

type_synonym ('p, 'v, 's, 'r) session_result =
  "((viewer_error + 'r) \<times> ('p, 'v, 's) viewer_session) option"

definition vs_new :: "'v \<Rightarrow> 's \<Rightarrow> ('p, 'v, 's) viewer_session option" where
  "vs_new video sink =
     map_option (\<lambda>cap.
       \<lparr>vs_machine = new_machine, vs_transport = None, vs_buf = no_events, vs_video = video, vs_video_out = [],
        vs_video_out_cap = 32, vs_audio = new_audio_queue 64, vs_sink = sink, vs_input = new_emitter, vs_capture = cap,
        vs_pending_local_ice = [], vs_session_id = None,
        vs_stats = (with_jitter_targets wan_default wan_default default_stats)\<lparr>st_rtt_ms := None\<rparr>,
        vs_recorded_video = [], vs_recorded_audio = [], vs_host_key = None, vs_bind_key = None,
        vs_identity = new_identity [], vs_host_fp = None, vs_require_identity = False, vs_skew = with_defaults,
        vs_last_video_present_ms = None, vs_last_audio_playout_ms = None, vs_wall_origin = None, vs_last_video_pts = None,
        vs_video_jitter_cfg = wan_default, vs_audio_jitter_cfg = wan_default, vs_auto_playout = True, vs_record_limit = None\<rparr>)
       (new_capture default_capture_config)"

section \<open>Settings and drains\<close>

definition set_record_limit :: "nat option \<Rightarrow> ('p, 'v, 's) viewer_session \<Rightarrow> ('p, 'v, 's) viewer_session" where
  "set_record_limit l s = s\<lparr>vs_record_limit := l\<rparr>"

definition set_playout_sink :: "'s \<Rightarrow> ('p, 'v, 's) viewer_session \<Rightarrow> ('p, 'v, 's) viewer_session" where
  "set_playout_sink k s = s\<lparr>vs_sink := k\<rparr>"

definition set_auto_playout :: "bool \<Rightarrow> ('p, 'v, 's) viewer_session \<Rightarrow> ('p, 'v, 's) viewer_session" where
  "set_auto_playout b s = s\<lparr>vs_auto_playout := b\<rparr>"

definition use_lan_jitter_profile :: "('p, 'v, 's) viewer_session \<Rightarrow> ('p, 'v, 's) viewer_session" where
  "use_lan_jitter_profile s =
     s\<lparr>vs_video_jitter_cfg := lan_video, vs_audio_jitter_cfg := lan_audio,
       vs_stats := with_jitter_targets lan_video lan_audio (vs_stats s)\<rparr>"

definition set_host_verifying_key :: "bytes \<Rightarrow> ('p, 'v, 's) viewer_session \<Rightarrow> ('p, 'v, 's) viewer_session" where
  "set_host_verifying_key k s = s\<lparr>vs_host_key := Some k\<rparr>"

definition set_bind_key :: "session_bind_key \<Rightarrow> ('p, 'v, 's) viewer_session \<Rightarrow> ('p, 'v, 's) viewer_session" where
  "set_bind_key k s = s\<lparr>vs_bind_key := Some k\<rparr>"

definition set_require_identity_for_input :: "bool \<Rightarrow> ('p, 'v, 's) viewer_session \<Rightarrow> ('p, 'v, 's) viewer_session" where
  "set_require_identity_for_input b s = s\<lparr>vs_require_identity := b\<rparr>"

definition take_pending_local_ice :: "('p, 'v, 's) viewer_session \<Rightarrow> ice_candidate list \<times> ('p, 'v, 's) viewer_session" where
  "take_pending_local_ice s = (vs_pending_local_ice s, s\<lparr>vs_pending_local_ice := []\<rparr>)"

definition drain_video_frames :: "('p, 'v, 's) viewer_session \<Rightarrow> decoded_video_frame list \<times> ('p, 'v, 's) viewer_session" where
  "drain_video_frames s = (vs_video_out s, s\<lparr>vs_video_out := []\<rparr>)"

definition drain_audio :: "('p, 'v, 's) viewer_session \<Rightarrow> playout_packet list \<times> ('p, 'v, 's) viewer_session" where
  "drain_audio s = (case drain_queue (vs_audio s) of (ps, q) \<Rightarrow> (ps, s\<lparr>vs_audio := q\<rparr>))"

definition pump_playout ::
  "('p, 'v, 's) viewer_env \<Rightarrow> nat \<Rightarrow> ('p, 'v, 's) viewer_session \<Rightarrow> (viewer_error + nat) \<times> ('p, 'v, 's) viewer_session" where
  "pump_playout E limit s =
     (case pump_to_sink (vp_sink_push E) 0 limit (vs_audio s) (vs_sink s) of
        (Inl e, q, k) \<Rightarrow> (Inl e, s\<lparr>vs_audio := q, vs_sink := k\<rparr>)
      | (Inr n, q, k) \<Rightarrow>
          (Inr n, s\<lparr>vs_audio := q, vs_sink := k,
             vs_stats := (vs_stats s)\<lparr>st_audio_played := sat_add (st_audio_played (vs_stats s)) (of_nat n)\<rparr>\<rparr>))"

section \<open>The transport\<close>

text \<open>The old transport's last callbacks land in the buffer, which is then emptied.\<close>

definition teardown_transport :: "('p, 'v, 's) viewer_session \<Rightarrow> ('p, 'v, 's) viewer_session" where
  "teardown_transport s = s\<lparr>vs_transport := None, vs_pending_local_ice := [], vs_buf := no_events\<rparr>"

definition attach_transport :: "'p \<Rightarrow> ('p, 'v, 's) viewer_session \<Rightarrow> ('p, 'v, 's) viewer_session" where
  "attach_transport p s = (teardown_transport s)\<lparr>vs_transport := Some p\<rparr>"

text \<open>The argument is what the transport factory made of the configuration.\<close>

definition attach_transport_from_config ::
  "string + 'p \<Rightarrow> ('p, 'v, 's) viewer_session \<Rightarrow> (viewer_error + unit) \<times> ('p, 'v, 's) viewer_session" where
  "attach_transport_from_config made s =
     (case made of Inl e \<Rightarrow> (Inl (VTransport e), s) | Inr p \<Rightarrow> (Inr (), attach_transport p s))"

definition on_transport :: "('p, 'r) viewer_op \<Rightarrow> ('p, 'v, 's) viewer_session \<Rightarrow> (viewer_error + 'r) \<times> ('p, 'v, 's) viewer_session" where
  "on_transport f s =
     (case vs_transport s of
        None \<Rightarrow> (Inl (VInvalidState ''attached transport'' ''no transport''), s)
      | Some p \<Rightarrow>
          (case f p of (r, ev, p') \<Rightarrow>
             (case r of Inl e \<Rightarrow> Inl (VTransport e) | Inr x \<Rightarrow> Inr x,
              s\<lparr>vs_transport := Some p', vs_buf := add_events (vs_buf s) ev\<rparr>)))"

definition sync_bind_status :: "('p, 'v, 's) viewer_session \<Rightarrow> ('p, 'v, 's) viewer_session" where
  "sync_bind_status s =
     s\<lparr>vs_stats := (vs_stats s)\<lparr>st_identity_bound := identity_bound (vs_identity s),
         st_bind_status := if identity_bound (vs_identity s) then Bound
           else if session_authorized (vs_identity s) then AuthorizedPending else Unbound\<rparr>\<rparr>"

definition vs_begin_connect ::
  "connect_request \<Rightarrow> ('p, 'v, 's) viewer_session \<Rightarrow> ('p, 'v, 's, connect_stub_result) session_result" where
  "vs_begin_connect req s =
     (case connect_stub req of
        Inl e \<Rightarrow> Some (Inl e, s)
      | Inr stub \<Rightarrow>
          let s1 = teardown_transport s;
              s2 = s1\<lparr>vs_machine := begin_connect (cr_host_public_id req) (vs_machine s1),
                     vs_session_id := Some (cs_session_id stub), vs_identity := new_identity (cs_session_id stub),
                     vs_host_fp := None,
                     vs_stats := with_jitter_targets (vs_video_jitter_cfg s1) (vs_audio_jitter_cfg s1) default_stats,
                     vs_recorded_video := [], vs_recorded_audio := [], vs_video_out := [], vs_audio := new_audio_queue 64,
                     vs_input := new_emitter\<rparr>
          in case new_capture (ic_config (vs_capture s2)) of
               None \<Rightarrow> None
             | Some cap \<Rightarrow>
                 Some (Inr stub, sync_bind_status (s2\<lparr>vs_capture := cap, vs_skew := skew_reset (vs_skew s2),
                   vs_last_video_present_ms := None, vs_last_audio_playout_ms := None, vs_wall_origin := None,
                   vs_last_video_pts := None\<rparr>)))"

section \<open>Media\<close>

definition duration_to_host_ms :: "duration \<Rightarrow> double" where
  "duration_to_host_ms d = rnd64 (as_secs_f64 d * 1000)"

definition push_recorded :: "nat option \<Rightarrow> 'a \<Rightarrow> 'a list \<Rightarrow> 'a list" where
  "push_recorded limit x buf =
     (case limit of
        None \<Rightarrow> buf @ [x]
      | Some 0 \<Rightarrow> buf
      | Some n \<Rightarrow> let b = buf @ [x] in drop (length b - n) b)"

definition note_wall :: "instant \<Rightarrow> ('p, 'v, 's) viewer_session \<Rightarrow> ('p, 'v, 's) viewer_session" where
  "note_wall now s = (if vs_wall_origin s = None then s\<lparr>vs_wall_origin := Some now\<rparr> else s)"

definition wall_ms :: "instant \<Rightarrow> ('p, 'v, 's) viewer_session \<Rightarrow> double" where
  "wall_ms now s = (case vs_wall_origin s of Some t \<Rightarrow> rnd64 (as_secs_f64 (now - t) * 1000) | None \<Rightarrow> 0)"

definition refresh_skew_stats :: "instant \<Rightarrow> ('p, 'v, 's) viewer_session \<Rightarrow> ('p, 'v, 's) viewer_session" where
  "refresh_skew_stats now s =
     (case (vs_last_audio_playout_ms s, vs_last_video_present_ms s) of
        (Some a, Some v) \<Rightarrow>
          (case skew_update \<lparr>audio_playout_host_equiv_ms = a,
              video_present_host_equiv_ms = rnd64 (v + st_video_jitter_target_ms (vs_stats s))\<rparr> (wall_ms now s) (vs_skew s) of
             (d, sk) \<Rightarrow> s\<lparr>vs_skew := sk, vs_stats := apply_skew_decision d (delay_offset_ms sk) (vs_stats s)\<rparr>)
      | _ \<Rightarrow> s)"

definition video_estimates :: "decoded_video_frame \<Rightarrow> duration option \<Rightarrow> session_stats \<Rightarrow> session_stats" where
  "video_estimates f prev_pts st =
     (let st1 = (if dv_from_mock_h264 f then st\<lparr>st_mock_h264_frames := sat_add (st_mock_h264_frames st) 1\<rparr> else st);
          st2 = (case prev_pts of
            None \<Rightarrow> st1
          | Some prev \<Rightarrow>
              let dt = as_secs_f64 (dv_pts_host_mono f - prev) in
              if dt > rnd64 (1 / 1000000) then st1\<lparr>st_video_fps := rnd64 (1 / dt)\<rparr> else st1)
      in if st_video_fps st2 > 0 then
           st2\<lparr>st_video_bitrate_bps :=
             to_u64 (of_int (round_away (rnd64 (rnd64 (rnd64 (of_nat (dv_encoded_len f)) * 8) * st_video_fps st2))))\<rparr>
         else st2)"

text \<open>The two instants are those of \<open>note_wall\<close> and of \<open>wall_ms\<close>.\<close>

definition handle_video ::
  "('p, 'v, 's) viewer_env \<Rightarrow> instant \<times> instant \<Rightarrow> video_nalu \<Rightarrow> ('p, 'v, 's) viewer_session \<Rightarrow> ('p, 'v, 's) viewer_session option" where
  "handle_video E ts n s =
     (let s1 = s\<lparr>vs_recorded_video := push_recorded (vs_record_limit s) n (vs_recorded_video s)\<rparr> in
      case vp_decode E n (vs_video s1) of
        None \<Rightarrow> None
      | Some (None, v) \<Rightarrow> Some (s1\<lparr>vs_video := v\<rparr>)
      | Some (Some f, v) \<Rightarrow>
          let st = video_estimates f (vs_last_video_pts s1) (vs_stats s1);
              room = drop (length (vs_video_out s1) + 1 - vs_video_out_cap s1) (vs_video_out s1);
              s2 = s1\<lparr>vs_video := v, vs_last_video_pts := Some (dv_pts_host_mono f),
                     vs_last_video_present_ms := Some (duration_to_host_ms (dv_pts_host_mono f)),
                     vs_video_out := room @ [f],
                     vs_stats := st\<lparr>st_video_frames := sat_add (st_video_frames st) 1\<rparr>,
                     vs_machine := on_media_received (vs_machine s1)\<rparr>
          in Some (refresh_skew_stats (snd ts) (note_wall (fst ts) s2)))"

definition handle_audio ::
  "('p, 'v, 's) viewer_env \<Rightarrow> instant \<times> instant \<Rightarrow> audio_packet \<Rightarrow> ('p, 'v, 's) viewer_session \<Rightarrow> ('p, 'v, 's) viewer_session" where
  "handle_audio E ts p s =
     (let s1 = s\<lparr>vs_recorded_audio := push_recorded (vs_record_limit s) p (vs_recorded_audio s)\<rparr> in
      case push_packet p (vs_audio s1) of
        (Inl _, q) \<Rightarrow> s1\<lparr>vs_audio := q\<rparr>
      | (Inr _, q) \<Rightarrow>
          let s2 = s1\<lparr>vs_audio := q,
                     vs_stats := (vs_stats s1)\<lparr>st_audio_packets := aq_enqueued q, st_mock_opus_packets := aq_mock_opus_decoded q\<rparr>,
                     vs_last_audio_playout_ms :=
                       Some (rnd64 (duration_to_host_ms (ap_pts_host_mono p) + st_audio_jitter_target_ms (vs_stats s1)))\<rparr>;
              s3 = (if vs_auto_playout s2 then
                      (case pop_packet (vs_audio s2) of
                         (None, q') \<Rightarrow> s2\<lparr>vs_audio := q'\<rparr>
                       | (Some pkt, q') \<Rightarrow>
                           (case vp_sink_push E pkt (vs_sink s2) of
                              (Inl _, k) \<Rightarrow> s2\<lparr>vs_audio := q', vs_sink := k\<rparr>
                            | (Inr _, k) \<Rightarrow>
                                s2\<lparr>vs_audio := q', vs_sink := k,
                                  vs_stats := (vs_stats s2)\<lparr>st_audio_played := sat_add (st_audio_played (vs_stats s2)) 1\<rparr>\<rparr>))
                    else s2)
          in refresh_skew_stats (snd ts) (note_wall (fst ts) (s3\<lparr>vs_machine := on_media_received (vs_machine s3)\<rparr>)))"

fun handle_track ::
  "('p, 'v, 's) viewer_env \<Rightarrow> instant \<times> instant \<Rightarrow> incoming_track \<Rightarrow> ('p, 'v, 's) viewer_session \<Rightarrow> ('p, 'v, 's) viewer_session option" where
  "handle_track E ts (TrackVideo n) s = handle_video E ts n s"
| "handle_track E ts (TrackAudio p) s = Some (handle_audio E ts p s)"

text \<open>The tracks of a drain, the \<open>i\<close>-th with its own pair of clock readings.\<close>

fun handle_tracks ::
  "('p, 'v, 's) viewer_env \<Rightarrow> (nat \<Rightarrow> instant \<times> instant) \<Rightarrow> nat \<Rightarrow> incoming_track list \<Rightarrow> ('p, 'v, 's) viewer_session
     \<Rightarrow> ('p, 'v, 's) viewer_session option" where
  "handle_tracks E clk i [] s = Some s"
| "handle_tracks E clk i (t # ts) s =
     (case handle_track E (clk i) t s of None \<Rightarrow> None | Some s' \<Rightarrow> handle_tracks E clk (Suc i) ts s')"

section \<open>Identity messages and the drain\<close>

definition handle_identity_message ::
  "('p, 'v, 's) viewer_env \<Rightarrow> bytes \<Rightarrow> ('p, 'v, 's) viewer_session \<Rightarrow> ('p, 'v, 's, unit) session_result" where
  "handle_identity_message E data s =
     (case parse_dc_message data of
        Inl e \<Rightarrow> Some (Inl (VAuth e), s)
      | Inr msg \<Rightarrow>
          let s1 = s\<lparr>vs_stats := (vs_stats s)\<lparr>st_identity_messages := sat_add (st_identity_messages (vs_stats s)) 1\<rparr>\<rparr> in
          (case msg of
             DcResponse _ \<Rightarrow> Some (Inl (VInvalidState ''dc_challenge from host'' ''dc_response''), s1)
           | DcChallenge challenge \<Rightarrow>
               (case (vs_bind_key s1, vs_session_id s1, vs_transport s1) of
                  (None, _, _) \<Rightarrow> Some (Inl (VInvalidState ''session bind key'' ''no bind key for dc challenge''), s1)
                | (Some key, None, _) \<Rightarrow> Some (Inl (VInvalidState ''session id'' ''none''), s1)
                | (Some key, Some sid, None) \<Rightarrow> Some (Inl (VInvalidState ''attached transport'' ''no transport''), s1)
                | (Some key, Some sid, Some p) \<Rightarrow>
                    (case vp_remote_fingerprint E p of
                       Inl e \<Rightarrow> Some (Inl (VTransport e), s1)
                     | Inr None \<Rightarrow> Some (Inl (VInvalidState ''remote host fingerprint'' ''unknown''), s1)
                     | Inr (Some fp_host) \<Rightarrow>
                         (case vp_local_fingerprint E p of
                            Inl e \<Rightarrow> Some (Inl (VTransport e), s1)
                          | Inr fp_viewer \<Rightarrow>
                              (case respond_dc_challenge (vp_crypto E) key sid challenge fp_host fp_viewer of
                                 None \<Rightarrow> None
                               | Some response \<Rightarrow>
                                   (case on_transport (vp_send_data E \<lparr>dm_label = IDENTITY_CHANNEL_LABEL,
                                        dm_data = encode_dc_response response, dm_unordered = False\<rparr>) s1 of
                                      (Inl e, s2) \<Rightarrow> Some (Inl e, s2)
                                    | (Inr _, s2) \<Rightarrow>
                                        Some (Inr (), sync_bind_status
                                          (s2\<lparr>vs_identity := mark_identity_bound (vs_identity s2)\<rparr>)))))))))"

fun handle_identity_messages ::
  "('p, 'v, 's) viewer_env \<Rightarrow> bytes list \<Rightarrow> ('p, 'v, 's) viewer_session \<Rightarrow> ('p, 'v, 's, unit) session_result" where
  "handle_identity_messages E [] s = Some (Inr (), s)"
| "handle_identity_messages E (d # ds) s =
     (case handle_identity_message E d s of
        None \<Rightarrow> None
      | Some (Inl e, s') \<Rightarrow> Some (Inl e, s')
      | Some (Inr _, s') \<Rightarrow> handle_identity_messages E ds s')"

definition count_ice :: "viewer_events \<Rightarrow> session_stats \<Rightarrow> session_stats" where
  "count_ice ev st = st\<lparr>st_local_ice := fold (\<lambda>_ n. sat_add n 1) (ve_ice ev) (st_local_ice st)\<rparr>"

definition drain_callback_buf ::
  "('p, 'v, 's) viewer_env \<Rightarrow> (nat \<Rightarrow> instant \<times> instant) \<Rightarrow> ('p, 'v, 's) viewer_session \<Rightarrow> ('p, 'v, 's, unit) session_result" where
  "drain_callback_buf E clk s =
     (let ev = vs_buf s;
          s1 = s\<lparr>vs_buf := no_events, vs_pending_local_ice := vs_pending_local_ice s @ ve_ice ev,
                 vs_stats := count_ice ev (vs_stats s),
                 vs_machine := fold on_transport_state (ve_states ev) (vs_machine s)\<rparr>
      in case handle_tracks E clk 0 (ve_tracks ev) s1 of
           None \<Rightarrow> None
         | Some s2 \<Rightarrow>
             let s3 = s2\<lparr>vs_stats := (vs_stats s2)\<lparr>st_data_rx := fold (\<lambda>_ n. sat_add n 1) (ve_data ev) (st_data_rx (vs_stats s2))\<rparr>\<rparr>
             in handle_identity_messages E (map dm_data (filter (\<lambda>d. dm_label d = IDENTITY_CHANNEL_LABEL) (ve_data ev))) s3)"

section \<open>Offers, candidates and polling\<close>

fun split_lines :: "string \<Rightarrow> string list" where
  "split_lines [] = []"
| "split_lines (c # s) =
     (if c = CHR 0x0A then [] # split_lines s
      else case split_lines s of [] \<Rightarrow> [[c]] | l # ls \<Rightarrow> (c # l) # ls)"

definition ascii_upper :: "string \<Rightarrow> string" where
  "ascii_upper s = map (\<lambda>c. if 97 \<le> (of_char c :: nat) \<and> (of_char c :: nat) \<le> 122 then char_of ((of_char c :: nat) - 32) else c) s"

text \<open>A word up to the next white space; \<open>split_whitespace\<close> skips white space before each word.\<close>

fun take_word :: "string \<Rightarrow> string \<times> string" where
  "take_word [] = ([], [])"
| "take_word (c # s) =
     (if list_ex (\<lambda>w. w \<noteq> [] \<and> starts_with (c # s) w) white_space then ([], c # s)
      else case take_word s of (w, r) \<Rightarrow> (c # w, r))"

definition next_word :: "string \<Rightarrow> (string \<times> string) option" where
  "next_word s = (let t = trim_start s in if t = [] then None else Some (take_word t))"

lemma no_blank_at_visible: "visible c \<Longrightarrow> \<not> list_ex (\<lambda>w. w \<noteq> [] \<and> starts_with (c # cs) w) white_space"
  by (auto simp: list_ex_iff dest!: starts_with_hd dest: white_space_ends)

lemma take_word_visible:
  assumes "list_all visible w" "s = [] \<or> (\<exists>r. s = CHR '' '' # r)"
  shows "take_word (w @ s) = (w, s)"
  using assms(1)
proof (induction w)
  case Nil
  have "list_ex (\<lambda>w. w \<noteq> [] \<and> starts_with (CHR '' '' # r) w) white_space" for r
    using blank_white_space by (auto simp: list_ex_iff starts_with_def intro!: bexI [of _ "[CHR '' '']"])
  with assms(2) show ?case by auto
qed (simp add: no_blank_at_visible)

lemma next_word_visible:
  assumes "list_all visible w" "w \<noteq> []" "s = [] \<or> (\<exists>r. s = CHR '' '' # r)"
  shows "next_word (w @ s) = Some (w, s)"
proof -
  have "trim_start (w @ s) = w @ s" using assms(1,2) by (cases w) (auto intro: trim_start_visible)
  with assms take_word_visible [OF assms(1,3)] show ?thesis by (simp add: next_word_def Let_def)
qed

lemma trim_start_blank: "trim_start (CHR '' '' # s) = trim_start s"
proof (cases "find (\<lambda>w. w \<noteq> [] \<and> starts_with (CHR '' '' # s) w) white_space")
  case None
  with blank_white_space show ?thesis by (auto simp: find_None_iff starts_with_def)
next
  case (Some w)
  then have "w \<in> set white_space" "w \<noteq> []" "starts_with (CHR '' '' # s) w" by (auto simp: find_Some_iff)
  with starts_with_hd have "w = [CHR '' '']" by (metis list.sel(1) white_space_blank)
  with Some show ?thesis by (simp add: trim_start_def strip_start.simps [of _ "CHR '' '' # s"])
qed

lemma next_word_blank: "next_word (CHR '' '' # s) = next_word s"
  by (simp add: next_word_def trim_start_blank)

definition fingerprint_line :: "string \<Rightarrow> string option" where
  "fingerprint_line l =
     (case strip_prefix ''a=fingerprint:'' (trim l) of
        None \<Rightarrow> None
      | Some r \<Rightarrow>
          (case next_word (trim r) of
             None \<Rightarrow> None
           | Some (algo, r1) \<Rightarrow>
               (case next_word r1 of
                  None \<Rightarrow> None
                | Some (v, r2) \<Rightarrow>
                    if ascii_lower algo = ''sha-256'' \<and> ascii_upper v \<noteq> [] then Some (ascii_lower algo @ '' '' @ ascii_upper v)
                    else None)))"

fun first_some :: "('a \<Rightarrow> 'b option) \<Rightarrow> 'a list \<Rightarrow> 'b option" where
  "first_some f [] = None"
| "first_some f (x # xs) = (case f x of Some y \<Rightarrow> Some y | None \<Rightarrow> first_some f xs)"

definition fingerprint_sign_material_from_sdp :: "string \<Rightarrow> string option" where
  "fingerprint_sign_material_from_sdp text = first_some fingerprint_line (split_lines text)"

text \<open>The check of \<open>fingerprint_sig\<close>, when there is a signature that is not empty.\<close>

definition check_offer_sig ::
  "('p, 'v, 's) viewer_env \<Rightarrow> string option \<Rightarrow> ('p, 'v, 's) viewer_session \<Rightarrow> (viewer_error + unit) option" where
  "check_offer_sig E sig s =
     (case sig of
        None \<Rightarrow> Some (Inr ())
      | Some g \<Rightarrow>
          if g = [] then Some (Inr ())
          else (case (vs_host_key s, vs_session_id s, vs_host_fp s) of
              (None, _, _) \<Rightarrow> Some (Inl (VInvalidState ''host verifying key'' ''none (set_host_verifying_key)''))
            | (Some vk, None, _) \<Rightarrow> Some (Inl (VInvalidState ''session id'' ''none''))
            | (Some vk, Some sid, None) \<Rightarrow> Some (Inl (VInvalidState ''host fingerprint in SDP'' ''missing a=fingerprint''))
            | (Some vk, Some sid, Some fp) \<Rightarrow>
                map_option (\<lambda>r. case r of Inl e \<Rightarrow> Inl (VAuth e) | Inr _ \<Rightarrow> Inr ())
                  (verify_session_fingerprint (vp_ed25519 E) vk sid fp g)))"

definition accept_offer_with_sig ::
  "('p, 'v, 's) viewer_env \<Rightarrow> (nat \<Rightarrow> instant \<times> instant) \<Rightarrow> session_description \<Rightarrow> string option \<Rightarrow> ('p, 'v, 's) viewer_session
     \<Rightarrow> ('p, 'v, 's, session_description) session_result" where
  "accept_offer_with_sig E clk offer sig s =
     (let s1 = (case fingerprint_sign_material_from_sdp (sdp_text offer) of
          Some fp \<Rightarrow> s\<lparr>vs_host_fp := Some fp\<rparr> | None \<Rightarrow> s)
      in case check_offer_sig E sig s1 of
           None \<Rightarrow> None
         | Some (Inl e) \<Rightarrow> Some (Inl e, s1)
         | Some (Inr _) \<Rightarrow>
             (if vs_transport s1 = None then Some (Inl (VInvalidState ''attached transport'' ''no transport''), s1)
              else
                let s2 = s1\<lparr>vs_machine := begin_answer (vs_machine s1)\<rparr> in
                (case on_transport (vp_set_remote E offer) s2 of
                   (Inl e, s3) \<Rightarrow> Some (Inl e, s3)
                 | (Inr _, s3) \<Rightarrow>
                     (case map_option (vp_remote_fingerprint E) (vs_transport s3) of
                        Some (Inl e) \<Rightarrow> Some (Inl (VTransport e), s3)
                      | other \<Rightarrow>
                          let s4 = (case other of Some (Inr (Some fp)) \<Rightarrow> s3\<lparr>vs_host_fp := Some fp\<rparr> | _ \<Rightarrow> s3) in
                          (case on_transport (vp_create_answer E) s4 of
                             (Inl e, s5) \<Rightarrow> Some (Inl e, s5)
                           | (Inr answer, s5) \<Rightarrow>
                               (case on_transport (vp_set_local E answer) s5 of
                                  (Inl e, s6) \<Rightarrow> Some (Inl e, s6)
                                | (Inr _, s6) \<Rightarrow>
                                    (case drain_callback_buf E clk s6 of
                                       None \<Rightarrow> None
                                     | Some (Inl e, s7) \<Rightarrow> Some (Inl e, s7)
                                     | Some (Inr _, s7) \<Rightarrow> Some (Inr answer, s7))))))))"

definition accept_offer where
  "accept_offer E clk offer s = accept_offer_with_sig E clk offer None s"

definition mark_session_authorized :: "('p, 'v, 's) viewer_session \<Rightarrow> ('p, 'v, 's) viewer_session" where
  "mark_session_authorized s = sync_bind_status (s\<lparr>vs_identity := mark_authorized (vs_identity s)\<rparr>)"

definition add_remote_ice ::
  "('p, 'v, 's) viewer_env \<Rightarrow> (nat \<Rightarrow> instant \<times> instant) \<Rightarrow> ice_candidate \<Rightarrow> ('p, 'v, 's) viewer_session \<Rightarrow> ('p, 'v, 's, unit) session_result" where
  "add_remote_ice E clk c s =
     (case on_transport (vp_add_ice E c) s of
        (Inl e, s1) \<Rightarrow> Some (Inl e, s1)
      | (Inr _, s1) \<Rightarrow> drain_callback_buf E clk s1)"

definition vs_poll ::
  "('p, 'v, 's) viewer_env \<Rightarrow> (nat \<Rightarrow> instant \<times> instant) \<Rightarrow> instant \<Rightarrow> ('p, 'v, 's) viewer_session \<Rightarrow> ('p, 'v, 's, unit) session_result" where
  "vs_poll E clk now s =
     (case (if vs_transport s = None then (Inr (), s) else on_transport (vp_poll E) s) of
        (Inl e, s1) \<Rightarrow> Some (Inl e, s1)
      | (Inr _, s1) \<Rightarrow>
          (case drain_callback_buf E clk s1 of
             None \<Rightarrow> None
           | Some (Inl e, s2) \<Rightarrow> Some (Inl e, s2)
           | Some (Inr _, s2) \<Rightarrow> Some (Inr (), sync_bind_status (refresh_skew_stats now s2))))"

section \<open>Input\<close>

definition vs_set_focused :: "bool \<Rightarrow> ('p, 'v, 's) viewer_session \<Rightarrow> ('p, 'v, 's) viewer_session" where
  "vs_set_focused b s = s\<lparr>vs_capture := set_focused b (vs_capture s)\<rparr>"

definition vs_set_always_capture :: "bool \<Rightarrow> ('p, 'v, 's) viewer_session \<Rightarrow> ('p, 'v, 's) viewer_session" where
  "vs_set_always_capture b s = s\<lparr>vs_capture := set_always_capture b (vs_capture s)\<rparr>"

definition vs_set_capture_rect :: "capture_rect \<Rightarrow> ('p, 'v, 's) viewer_session \<Rightarrow> ('p, 'v, 's) viewer_session" where
  "vs_set_capture_rect r s = s\<lparr>vs_capture := set_rect r (vs_capture s)\<rparr>"

definition ensure_can_send_input :: "('p, 'v, 's) viewer_session \<Rightarrow> viewer_error + unit" where
  "ensure_can_send_input s =
     (if \<not> can_send_input (cm_phase (vs_machine s)) then
        Inl (VInvalidState ''connected or streaming'' (phase_str (cm_phase (vs_machine s))))
      else if vs_require_identity s \<and> \<not> identity_bound (vs_identity s) then
        Inl (VInvalidState ''identity_bound'' ''identity not bound'')
      else Inr ())"

definition vs_send_data ::
  "('p, 'v, 's) viewer_env \<Rightarrow> data_message \<Rightarrow> ('p, 'v, 's) viewer_session \<Rightarrow> (viewer_error + unit) \<times> ('p, 'v, 's) viewer_session" where
  "vs_send_data E msg s = on_transport (vp_send_data E msg) s"

text \<open>An encoded event on its way out; a failed encoding is the JSON error of the protocol.\<close>

definition send_encoded ::
  "('p, 'v, 's) viewer_env \<Rightarrow> (input_emitter \<Rightarrow> (string + input_event \<times> data_message) \<times> input_emitter)
     \<Rightarrow> ('p, 'v, 's) viewer_session \<Rightarrow> (viewer_error + unit) \<times> ('p, 'v, 's) viewer_session" where
  "send_encoded E enc s =
     (case enc (vs_input s) of
        (Inl e, em) \<Rightarrow> (Inl (VProtocol (Json e)), s\<lparr>vs_input := em\<rparr>)
      | (Inr (ev, msg), em) \<Rightarrow>
          (case vs_send_data E msg (s\<lparr>vs_input := em\<rparr>) of
             (Inl e, s1) \<Rightarrow> (Inl e, s1)
           | (Inr _, s1) \<Rightarrow>
               (Inr (), s1\<lparr>vs_stats := (vs_stats s1)\<lparr>st_input_events := em_emitted (vs_input s1)\<rparr>\<rparr>)))"

definition send_captured where
  "send_captured E ts c s = send_encoded E (encode_captured (vp_encode_input E) ts c) s"

text \<open>The wall clock is read for each event: \<open>ts n\<close> when \<open>n\<close> events of the call have been sent.\<close>

fun send_all ::
  "('p, 'v, 's) viewer_env \<Rightarrow> (nat \<Rightarrow> u64) \<Rightarrow> captured_input list \<Rightarrow> nat \<Rightarrow> ('p, 'v, 's) viewer_session
     \<Rightarrow> (viewer_error + nat) \<times> ('p, 'v, 's) viewer_session" where
  "send_all E ts [] sent s = (Inr sent, s)"
| "send_all E ts (c # cs) sent s =
     (case send_captured E (ts sent) c s of
        (Inl e, s1) \<Rightarrow> (Inl e, s1)
      | (Inr _, s1) \<Rightarrow> send_all E ts cs (sat_usize (sent + 1)) s1)"

definition push_raw_input ::
  "('p, 'v, 's) viewer_env \<Rightarrow> (nat \<Rightarrow> u64) \<Rightarrow> instant \<Rightarrow> raw_input \<Rightarrow> ('p, 'v, 's) viewer_session
     \<Rightarrow> (viewer_error + nat) \<times> ('p, 'v, 's) viewer_session" where
  "push_raw_input E ts now raw s =
     (case ensure_can_send_input s of
        Inl e \<Rightarrow> (Inl e, s)
      | Inr _ \<Rightarrow>
          (case capture_push raw now (vs_capture s) of (cs, cap) \<Rightarrow> send_all E ts cs 0 (s\<lparr>vs_capture := cap\<rparr>)))"

text \<open>The \<open>while let\<close> of \<open>poll_input_capture\<close> ends because a poll that returns a move leaves none waiting.\<close>

definition is_waiting :: "('p, 'v, 's) viewer_session \<Rightarrow> nat" where
  "is_waiting s = waiting (ic_coalescer (vs_capture s))"

lemma capture_poll_waiting: "capture_poll now c = (Some e, c') \<Longrightarrow> waiting (ic_coalescer c') < waiting (ic_coalescer c)"
  by (auto simp: capture_poll_def co_poll_def take_emit_def waiting_def split: if_splits prod.splits)

lemma send_captured_capture: "send_captured E ts c s = (r, s') \<Longrightarrow> vs_capture s' = vs_capture s"
  by (auto simp: send_captured_def send_encoded_def vs_send_data_def on_transport_def
      split: prod.splits sum.splits option.splits)

function poll_moves ::
  "('p, 'v, 's) viewer_env \<Rightarrow> (nat \<Rightarrow> u64) \<Rightarrow> instant \<Rightarrow> nat \<Rightarrow> ('p, 'v, 's) viewer_session
     \<Rightarrow> (viewer_error + nat) \<times> ('p, 'v, 's) viewer_session" where
  "poll_moves E ts now sent s =
     (case capture_poll now (vs_capture s) of
        (None, cap) \<Rightarrow> (Inr sent, s\<lparr>vs_capture := cap\<rparr>)
      | (Some c, cap) \<Rightarrow>
          (case send_captured E (ts sent) c (s\<lparr>vs_capture := cap\<rparr>) of
             (Inl e, s1) \<Rightarrow> (Inl e, s1)
           | (Inr _, s1) \<Rightarrow> poll_moves E ts now (sat_usize (sent + 1)) s1))"
  by pat_completeness auto
termination
  by (relation "measure (\<lambda>(E, ts, now, sent, s). is_waiting s)")
     (auto simp: is_waiting_def dest!: sym [of _ "capture_poll _ _"] sym [of _ "send_captured _ _ _ _"] capture_poll_waiting send_captured_capture)

declare poll_moves.simps [simp del]

definition poll_input_capture ::
  "('p, 'v, 's) viewer_env \<Rightarrow> (nat \<Rightarrow> u64) \<Rightarrow> instant \<Rightarrow> ('p, 'v, 's) viewer_session
     \<Rightarrow> (viewer_error + nat) \<times> ('p, 'v, 's) viewer_session" where
  "poll_input_capture E ts now s =
     (case ensure_can_send_input s of Inl e \<Rightarrow> (Inl e, s) | Inr _ \<Rightarrow> poll_moves E ts now 0 s)"

text \<open>The \<open>send_*\<close> calls, which skip the capture stage.\<close>

definition send_direct ::
  "('p, 'v, 's) viewer_env \<Rightarrow> (input_emitter \<Rightarrow> (string + input_event \<times> data_message) \<times> input_emitter)
     \<Rightarrow> ('p, 'v, 's) viewer_session \<Rightarrow> (viewer_error + unit) \<times> ('p, 'v, 's) viewer_session" where
  "send_direct E enc s =
     (case ensure_can_send_input s of Inl e \<Rightarrow> (Inl e, s) | Inr _ \<Rightarrow> send_encoded E enc s)"

definition send_mouse_move where
  "send_mouse_move E ts x y s = send_direct E (em_mouse_move (vp_encode_input E) ts x y) s"

definition send_mouse_button where
  "send_mouse_button E ts b pressed x y s = send_direct E (em_mouse_button (vp_encode_input E) ts b pressed x y) s"

definition send_mouse_wheel where
  "send_mouse_wheel E ts dx dy precise x y s = send_direct E (em_mouse_wheel (vp_encode_input E) ts dx dy precise x y) s"

definition send_key where
  "send_key E ts sc ext pressed mods s = send_direct E (em_key (vp_encode_input E) ts sc ext pressed mods) s"

definition send_key_named ::
  "('p, 'v, 's) viewer_env \<Rightarrow> u64 \<Rightarrow> named_key \<Rightarrow> bool \<Rightarrow> u32 \<Rightarrow> ('p, 'v, 's) viewer_session
     \<Rightarrow> (viewer_error + unit) \<times> ('p, 'v, 's) viewer_session" where
  "send_key_named E ts key pressed mods s =
     (case ensure_can_send_input s of
        Inl e \<Rightarrow> (Inl e, s)
      | Inr _ \<Rightarrow>
          (case lookup_scancode key of
             None \<Rightarrow> (Inl (VInternal ''no scancode''), s)
           | Some sc \<Rightarrow> send_encoded E (em_key (vp_encode_input E) ts (code sc) (extended sc) pressed mods) s))"

definition vs_close :: "('p, 'v, 's) viewer_env \<Rightarrow> ('p, 'v, 's) viewer_session \<Rightarrow> ('p, 'v, 's) viewer_session" where
  "vs_close E s =
     (let s1 = teardown_transport s in s1\<lparr>vs_machine := machine_close (vs_machine s1), vs_sink := vp_sink_flush E (vs_sink s1)\<rparr>)"

end
