(* ===== verification/Peer_Mock.thy ===== *)
theory Peer_Mock
  imports Viewer_Session
begin

text \<open>
  The in-process peer transport (\<open>packages/net/src/mock.rs\<close>) with the fingerprints of \<open>types.rs\<close> and the
  errors of \<open>error.rs\<close>. Two peers share a wire of two queues; a peer's state and the wire it is plugged into form a \<open>mock_end\<close>,
  and an operation returns its result, the callbacks it made, and the new \<open>mock_end\<close>. Both senders of the wire live in the shared
  fabric and are dropped together, so one flag says whether the wire is open. A receiver lives as long as its peer,
  and a peer that goes away closes the wire first, so the case of a send to a dropped receiver does not arise.
\<close>

section \<open>Errors and fingerprints\<close>

datatype net_error =
    NeInvalidDescription string
  | NeInvalidCandidate string
  | NeInvalidFingerprint string
  | NeInvalidState string string
  | NeSendFailed string
  | NeClosed
  | NeBackendUnavailable string
  | NeInternal string

fun show_net_error :: "net_error \<Rightarrow> string" where
  "show_net_error (NeInvalidDescription e) = ''invalid session description: '' @ e"
| "show_net_error (NeInvalidCandidate e) = ''invalid ICE candidate: '' @ e"
| "show_net_error (NeInvalidFingerprint e) = ''invalid DTLS fingerprint: '' @ e"
| "show_net_error (NeInvalidState expected actual) = ''invalid state: expected '' @ expected @ '', was '' @ actual"
| "show_net_error (NeSendFailed e) = ''send failed: '' @ e"
| "show_net_error NeClosed = ''transport closed''"
| "show_net_error (NeBackendUnavailable e) = ''backend unavailable: '' @ e"
| "show_net_error (NeInternal e) = ''internal: '' @ e"

record dtls_fingerprint =
  fp_algorithm :: string
  fp_value :: string

text \<open>Pairs of digits in upper case with colons between them.\<close>

fun colon_pairs :: "string \<Rightarrow> string" where
  "colon_pairs (a # b # c # s) = ascii_upper [a, b] @ '':'' @ colon_pairs (c # s)"
| "colon_pairs s = ascii_upper s"

definition fingerprint_sha256 :: "string \<Rightarrow> net_error + dtls_fingerprint" where
  "fingerprint_sha256 raw =
     (let cleaned = filter is_ascii_hexdigit raw in
      if length cleaned \<noteq> 64 then
        Inl (NeInvalidFingerprint (''expected 64 hex digits (32 bytes), got '' @ show_nat (length cleaned)))
      else Inr \<lparr>fp_algorithm = ''sha-256'', fp_value = colon_pairs cleaned\<rparr>)"

definition sdp_attribute :: "dtls_fingerprint \<Rightarrow> string" where
  "sdp_attribute fp = fp_algorithm fp @ '' '' @ fp_value fp"

definition as_sign_material :: "dtls_fingerprint \<Rightarrow> string" where
  "as_sign_material fp = ascii_lower (fp_algorithm fp) @ '' '' @ ascii_upper (fp_value fp)"

definition digest_bytes :: "dtls_fingerprint \<Rightarrow> net_error + bytes" where
  "digest_bytes fp =
     (let cleaned = filter is_ascii_hexdigit (fp_value fp) in
      if length cleaned \<noteq> 64 then
        Inl (NeInvalidFingerprint (''value is not 32 bytes: '' @ show_nat (length cleaned) @ '' hex digits''))
      else (case hex_pairs cleaned of Inl e \<Rightarrow> Inl (NeInvalidFingerprint (''hex parse: '' @ e)) | Inr bs \<Rightarrow> Inr bs))"

section \<open>State\<close>

datatype wire_msg = WireVideo video_nalu | WireAudio audio_packet | WireData data_message

datatype pair_side = SideA | SideB

record mock_peer_config =
  mc_fingerprint :: "dtls_fingerprint option"
  mc_label :: string

definition default_mock_config :: mock_peer_config where
  "default_mock_config = \<lparr>mc_fingerprint = None, mc_label = ''mock''\<rparr>"

text \<open>A peer has a side exactly when it is plugged into a wire and has a queue to read.\<close>

record mock_peer =
  mp_config :: mock_peer_config
  mp_local_fp :: dtls_fingerprint
  mp_remote_fp :: "dtls_fingerprint option"
  mp_state :: connection_state
  mp_local_desc :: "session_description option"
  mp_remote_desc :: "session_description option"
  mp_side :: "pair_side option"
  mp_closed :: bool
  mp_ice_restarts :: u32
  mp_last_local_ice :: "ice_candidate option"

record loopback_wire =
  lw_to_a :: "wire_msg list"
  lw_to_b :: "wire_msg list"
  lw_open :: bool

type_synonym mock_end = "mock_peer \<times> loopback_wire"

type_synonym 'r mock_op = "mock_end \<Rightarrow> (net_error + 'r) \<times> viewer_events \<times> mock_end"

text \<open>\<open>synthetic\<close> is the fingerprint made from the clock, for a peer that is given none.\<close>

definition new_mock_peer :: "dtls_fingerprint \<Rightarrow> mock_peer_config \<Rightarrow> mock_peer" where
  "new_mock_peer synthetic cfg =
     \<lparr>mp_config = cfg, mp_local_fp = (case mc_fingerprint cfg of Some fp \<Rightarrow> fp | None \<Rightarrow> synthetic), mp_remote_fp = None,
      mp_state = CsNew, mp_local_desc = None, mp_remote_desc = None, mp_side = None, mp_closed = False,
      mp_ice_restarts = 0, mp_last_local_ice = None\<rparr>"

definition hex_digits :: "nat \<Rightarrow> nat \<Rightarrow> string" where
  "hex_digits n v = map (\<lambda>i. hex_char (of_nat (v div 16 ^ i mod 16))) (rev [0..<n])"

text \<open>The nanoseconds of the clock, which fit in 32 hex digits, twice.\<close>

definition generate_synthetic_fingerprint :: "nat \<Rightarrow> net_error + dtls_fingerprint" where
  "generate_synthetic_fingerprint nanos = fingerprint_sha256 (take 64 (hex_digits 32 nanos @ hex_digits 32 nanos))"

section \<open>Descriptions and candidates\<close>

definition crlf :: string where
  "crlf = [CHR 0x0D, CHR 0x0A]"

definition mock_sdp :: "sdp_type \<Rightarrow> mock_peer \<Rightarrow> session_description" where
  "mock_sdp ty p = \<lparr>sdp_type_of = ty, sdp_text =
     ''v=0'' @ crlf @
     ''o=- 0 0 IN IP4 127.0.0.1'' @ crlf @
     ''s=RemoteLinkMock-'' @ mc_label (mp_config p) @ crlf @
     ''t=0 0'' @ crlf @
     ''a=fingerprint:'' @ sdp_attribute (mp_local_fp p) @ crlf @
     ''a=setup:actpass'' @ crlf @
     ''m=video 9 UDP/TLS/RTP/SAVPF 96'' @ crlf @
     ''a=rtpmap:96 H264/90000'' @ crlf @
     ''m=audio 9 UDP/TLS/RTP/SAVPF 111'' @ crlf @
     ''a=rtpmap:111 opus/48000/2'' @ crlf @
     ''m=application 9 UDP/DTLS/SCTP webrtc-datachannel'' @ crlf @
     ''a=sctp-port:5000'' @ crlf\<rparr>"

text \<open>One line: not a fingerprint of two words (the next line is tried), or what \<open>sha256\<close> makes of the value.\<close>

definition sdp_fingerprint_line :: "string \<Rightarrow> (dtls_fingerprint option) option" where
  "sdp_fingerprint_line l =
     (case strip_prefix ''a=fingerprint:'' (trim l) of
        None \<Rightarrow> None
      | Some r \<Rightarrow>
          (case next_word r of
             None \<Rightarrow> None
           | Some (algo, r1) \<Rightarrow>
               (case next_word r1 of
                  None \<Rightarrow> None
                | Some (v, r2) \<Rightarrow> Some (case fingerprint_sha256 v of Inl e \<Rightarrow> None | Inr fp \<Rightarrow> Some fp))))"

definition parse_fingerprint_from_sdp :: "string \<Rightarrow> dtls_fingerprint option" where
  "parse_fingerprint_from_sdp text = (case first_some sdp_fingerprint_line (split_lines text) of None \<Rightarrow> None | Some r \<Rightarrow> r)"

definition ensure_open :: "mock_peer \<Rightarrow> net_error + unit" where
  "ensure_open p = (if mp_closed p \<or> mp_state p = CsClosed then Inl NeClosed else Inr ())"

definition emit_state :: "connection_state \<Rightarrow> mock_peer \<Rightarrow> viewer_events \<times> mock_peer" where
  "emit_state st p = (no_events\<lparr>ve_states := [st]\<rparr>, p\<lparr>mp_state := st\<rparr>)"

text \<open>The port is a sum of \<open>u32\<close>, which wraps.\<close>

definition local_candidate :: "mock_peer \<Rightarrow> ice_candidate" where
  "local_candidate p =
     \<lparr>candidate = ''candidate:1 1 UDP 2122252543 127.0.0.1 '' @ show_nat (unat (40000 + mp_ice_restarts p)) @ '' typ host'',
      sdp_mid = Some ''0'', sdp_m_line_index = Some 0, username_fragment = Some (''mock'' @ show_nat (unat (mp_ice_restarts p)))\<rparr>"

definition emit_local_host_candidate :: "mock_peer \<Rightarrow> viewer_events \<times> mock_peer" where
  "emit_local_host_candidate p =
     (no_events\<lparr>ve_ice := [local_candidate p]\<rparr>, p\<lparr>mp_last_local_ice := Some (local_candidate p)\<rparr>)"

definition try_connect :: "mock_peer \<Rightarrow> viewer_events \<times> mock_peer" where
  "try_connect p =
     (case (mp_local_desc p, mp_remote_desc p, mp_side p) of
        (Some _, Some remote, Some _) \<Rightarrow>
          let p1 = (case parse_fingerprint_from_sdp (sdp_text remote) of
                Some fp \<Rightarrow> p\<lparr>mp_remote_fp := Some fp\<rparr> | None \<Rightarrow> p)
          in if mp_state p1 \<noteq> CsConnected \<and> mp_state p1 \<noteq> CsClosed \<and> mp_state p1 \<noteq> CsDisconnected
             then emit_state CsConnected p1 else (no_events, p1)
      | _ \<Rightarrow> (no_events, p))"

text \<open>The first description moves a new peer to \<open>Connecting\<close>.\<close>

definition note_description :: "mock_peer \<Rightarrow> viewer_events \<times> mock_peer" where
  "note_description p = (if mp_state p = CsNew then emit_state CsConnecting p else (no_events, p))"

section \<open>The operations of the transport\<close>

definition mock_create_offer :: "session_description mock_op" where
  "mock_create_offer e = (case ensure_open (fst e) of
     Inl x \<Rightarrow> (Inl x, no_events, e) | Inr _ \<Rightarrow> (Inr (mock_sdp SdpOffer (fst e)), no_events, e))"

definition mock_create_answer :: "session_description mock_op" where
  "mock_create_answer e = (case ensure_open (fst e) of
     Inl x \<Rightarrow> (Inl x, no_events, e)
   | Inr _ \<Rightarrow>
       if mp_remote_desc (fst e) = None then
         (Inl (NeInvalidState ''remote offer set'' ''no remote description''), no_events, e)
       else (Inr (mock_sdp SdpAnswer (fst e)), no_events, e))"

definition mock_set_local :: "session_description \<Rightarrow> unit mock_op" where
  "mock_set_local desc e = (case ensure_open (fst e) of
     Inl x \<Rightarrow> (Inl x, no_events, e)
   | Inr _ \<Rightarrow>
       (case note_description ((fst e)\<lparr>mp_local_desc := Some desc\<rparr>) of (e1, p1) \<Rightarrow>
        case emit_local_host_candidate p1 of (e2, p2) \<Rightarrow>
        case try_connect p2 of (e3, p3) \<Rightarrow> (Inr (), add_events e1 (add_events e2 e3), p3, snd e)))"

definition mock_set_remote :: "session_description \<Rightarrow> unit mock_op" where
  "mock_set_remote desc e = (case ensure_open (fst e) of
     Inl x \<Rightarrow> (Inl x, no_events, e)
   | Inr _ \<Rightarrow>
       if sdp_text desc = [] then (Inl (NeInvalidDescription ''empty sdp''), no_events, e)
       else
         (case note_description ((fst e)\<lparr>mp_remote_desc := Some desc\<rparr>) of (e1, p1) \<Rightarrow>
          case try_connect p1 of (e2, p2) \<Rightarrow> (Inr (), add_events e1 e2, p2, snd e)))"

definition mock_add_ice :: "ice_candidate \<Rightarrow> unit mock_op" where
  "mock_add_ice c e = (case ensure_open (fst e) of
     Inl x \<Rightarrow> (Inl x, no_events, e)
   | Inr _ \<Rightarrow>
       if candidate c = [] then (Inl (NeInvalidCandidate ''empty candidate''), no_events, e)
       else (case try_connect (fst e) of (ev, p) \<Rightarrow> (Inr (), ev, p, snd e)))"

definition mock_restart_ice :: "unit mock_op" where
  "mock_restart_ice e = (case ensure_open (fst e) of
     Inl x \<Rightarrow> (Inl x, no_events, e)
   | Inr _ \<Rightarrow>
       let p = (fst e)\<lparr>mp_ice_restarts := sat_add (mp_ice_restarts (fst e)) 1\<rparr> in
       if mp_state p = CsConnected then
         (case emit_state CsConnecting p of (e1, p1) \<Rightarrow>
          case emit_local_host_candidate p1 of (e2, p2) \<Rightarrow>
          case emit_state CsConnected p2 of (e3, p3) \<Rightarrow> (Inr (), add_events e1 (add_events e2 e3), p3, snd e))
       else (case emit_local_host_candidate p of (ev, p1) \<Rightarrow> (Inr (), ev, p1, snd e)))"

definition local_fingerprint :: "mock_end \<Rightarrow> net_error + dtls_fingerprint" where
  "local_fingerprint e = Inr (mp_local_fp (fst e))"

definition remote_fingerprint :: "mock_end \<Rightarrow> net_error + dtls_fingerprint option" where
  "remote_fingerprint e = Inr (mp_remote_fp (fst e))"

definition put_wire :: "pair_side \<Rightarrow> wire_msg \<Rightarrow> loopback_wire \<Rightarrow> loopback_wire" where
  "put_wire side msg w = (case side of
     SideA \<Rightarrow> w\<lparr>lw_to_b := lw_to_b w @ [msg]\<rparr> | SideB \<Rightarrow> w\<lparr>lw_to_a := lw_to_a w @ [msg]\<rparr>)"

definition outbound_tx :: "mock_end \<Rightarrow> net_error + pair_side" where
  "outbound_tx e = (case mp_side (fst e) of
     None \<Rightarrow> Inl (NeInvalidState ''paired mock peer'' ''standalone'')
   | Some side \<Rightarrow> if lw_open (snd e) then Inr side else Inl (NeSendFailed ''peer disconnected''))"

definition send_wire :: "wire_msg \<Rightarrow> unit mock_op" where
  "send_wire msg e = (case ensure_open (fst e) of
     Inl x \<Rightarrow> (Inl x, no_events, e)
   | Inr _ \<Rightarrow>
       if mp_state (fst e) \<noteq> CsConnected then
         (Inl (NeInvalidState ''connected'' (connection_state_str (mp_state (fst e)))), no_events, e)
       else (case outbound_tx e of
          Inl x \<Rightarrow> (Inl x, no_events, e)
        | Inr side \<Rightarrow> (Inr (), no_events, fst e, put_wire side msg (snd e))))"

definition mock_send_video :: "video_nalu \<Rightarrow> unit mock_op" where
  "mock_send_video n = send_wire (WireVideo n)"

definition mock_send_audio :: "audio_packet \<Rightarrow> unit mock_op" where
  "mock_send_audio p = send_wire (WireAudio p)"

definition mock_send_data :: "data_message \<Rightarrow> unit mock_op" where
  "mock_send_data m = send_wire (WireData m)"

fun deliver :: "wire_msg \<Rightarrow> viewer_events" where
  "deliver (WireVideo v) = no_events\<lparr>ve_tracks := [TrackVideo v]\<rparr>"
| "deliver (WireAudio a) = no_events\<lparr>ve_tracks := [TrackAudio a]\<rparr>"
| "deliver (WireData d) = no_events\<lparr>ve_data := [d]\<rparr>"

text \<open>The receive loop: everything queued, then the end of the wire when its senders are gone.\<close>

definition deliver_all :: "wire_msg list \<Rightarrow> viewer_events" where
  "deliver_all ms = foldr (\<lambda>m. add_events (deliver m)) ms no_events"

definition mock_poll :: "unit mock_op" where
  "mock_poll e = (case e of (p, w) \<Rightarrow>
     if mp_closed p \<or> mp_state p = CsClosed then (Inl NeClosed, no_events, e)
     else (case mp_side p of
        None \<Rightarrow> (Inr (), no_events, e)
      | Some side \<Rightarrow>
          let ms = (case side of SideA \<Rightarrow> lw_to_a w | SideB \<Rightarrow> lw_to_b w);
              w1 = (case side of SideA \<Rightarrow> w\<lparr>lw_to_a := []\<rparr> | SideB \<Rightarrow> w\<lparr>lw_to_b := []\<rparr>)
          in if \<not> lw_open w \<and> (mp_state p = CsConnected \<or> mp_state p = CsConnecting) then
               (case emit_state CsDisconnected p of (ev, p1) \<Rightarrow> (Inr (), add_events (deliver_all ms) ev, p1, w1))
             else (Inr (), deliver_all ms, p, w1)))"

definition mock_close :: "unit mock_op" where
  "mock_close e = (case e of (p, w) \<Rightarrow>
     if mp_closed p then (Inr (), no_events, e)
     else (case emit_state CsClosed (p\<lparr>mp_closed := True\<rparr>) of
        (ev, p1) \<Rightarrow> (Inr (), ev, p1, if mp_side p = None then w else w\<lparr>lw_open := False\<rparr>)))"

section \<open>Pairs\<close>

record mock_pair =
  peer_a :: mock_peer
  peer_b :: mock_peer
  pair_wire :: loopback_wire

definition pair_with_configs :: "dtls_fingerprint \<Rightarrow> dtls_fingerprint \<Rightarrow> mock_peer_config \<Rightarrow> mock_peer_config \<Rightarrow> mock_pair" where
  "pair_with_configs syn_a syn_b a b =
     \<lparr>peer_a = (new_mock_peer syn_a a)\<lparr>mp_side := Some SideA\<rparr>, peer_b = (new_mock_peer syn_b b)\<lparr>mp_side := Some SideB\<rparr>,
      pair_wire = \<lparr>lw_to_a = [], lw_to_b = [], lw_open = True\<rparr>\<rparr>"

text \<open>The fixed fingerprints of the default pair.\<close>

definition new_pair :: "(net_error + mock_pair)" where
  "new_pair =
     (case (fingerprint_sha256 (replicate 64 (CHR ''A'')), fingerprint_sha256 (replicate 64 (CHR ''B''))) of
        (Inr a, Inr b) \<Rightarrow> Inr (pair_with_configs a b \<lparr>mc_fingerprint = Some a, mc_label = ''host''\<rparr>
                              \<lparr>mc_fingerprint = Some b, mc_label = ''viewer''\<rparr>)
      | (Inl e, _) \<Rightarrow> Inl e
      | (_, Inl e) \<Rightarrow> Inl e)"

text \<open>An operation on one side of a pair.\<close>

definition on_side :: "pair_side \<Rightarrow> 'r mock_op \<Rightarrow> mock_pair \<Rightarrow> (net_error + 'r) \<times> viewer_events \<times> mock_pair" where
  "on_side side f m =
     (case f (case side of SideA \<Rightarrow> peer_a m | SideB \<Rightarrow> peer_b m, pair_wire m) of
        (r, ev, p, w) \<Rightarrow> (r, ev, (case side of SideA \<Rightarrow> m\<lparr>peer_a := p, pair_wire := w\<rparr> | SideB \<Rightarrow> m\<lparr>peer_b := p, pair_wire := w\<rparr>)))"

text \<open>A sequence of calls with \<open>?\<close>: the first error ends it.\<close>

definition call_side :: "pair_side \<Rightarrow> 'r mock_op \<Rightarrow> (mock_pair \<Rightarrow> 'r \<Rightarrow> (net_error + 's) \<times> mock_pair) \<Rightarrow> mock_pair \<Rightarrow> (net_error + 's) \<times> mock_pair" where
  "call_side side f k m = (case on_side side f m of (Inl e, _, m1) \<Rightarrow> (Inl e, m1) | (Inr r, _, m1) \<Rightarrow> k m1 r)"

definition mock_handshake :: "mock_pair \<Rightarrow> (net_error + unit) \<times> mock_pair" where
  "mock_handshake m =
     call_side SideA mock_create_offer (\<lambda>m1 offer.
     call_side SideA (mock_set_local offer) (\<lambda>m2 _.
     call_side SideB (mock_set_remote offer) (\<lambda>m3 _.
     call_side SideB mock_create_answer (\<lambda>m4 answer.
     call_side SideB (mock_set_local answer) (\<lambda>m5 _.
     call_side SideA (mock_set_remote answer) (\<lambda>m6 _.
       (case (mp_last_local_ice (peer_a m6), mp_last_local_ice (peer_b m6)) of
          (None, _) \<Rightarrow> (Inl (NeInternal ''host emitted no ICE''), m6)
        | (Some _, None) \<Rightarrow> (Inl (NeInternal ''viewer emitted no ICE''), m6)
        | (Some cand_a, Some cand_b) \<Rightarrow>
            call_side SideA (mock_add_ice cand_b) (\<lambda>m7 _.
            call_side SideB (mock_add_ice cand_a) (\<lambda>m8 _. (Inr (), m8)) m7) m6)) m5) m4) m3) m2) m1) m"

definition mock_flush :: "mock_pair \<Rightarrow> (net_error + unit) \<times> mock_pair" where
  "mock_flush m = call_side SideA mock_poll (\<lambda>m1 _. call_side SideB mock_poll (\<lambda>m2 _. (Inr (), m2)) m1) m"

end
