(* ===== verification/Peer_Props.thy ===== *)
theory Peer_Props
  imports Peer_Mock
begin

text \<open>
  What the in-process transport guarantees: fingerprints have one text each, descriptions carry the fingerprint of
  the peer that made them, the handshake connects a pair, and the wire delivers each message once and in order.
\<close>

section \<open>Fingerprints\<close>

lemma hexdigit_cases: "is_ascii_hexdigit c \<Longrightarrow> c \<in> set ''0123456789abcdefABCDEF''"
proof -
  assume h: "is_ascii_hexdigit c"
  have "of_char c \<in> set [48..<58::nat] \<union> set [65..<71] \<union> set [97..<103]"
    unfolding set_upt using h by (auto simp: is_ascii_hexdigit_def Let_def)
  then have "c \<in> char_of ` (set [48..<58::nat] \<union> set [65..<71] \<union> set [97..<103])"
    by (metis char_of_char image_eqI)
  also have "char_of ` (set [48..<58::nat] \<union> set [65..<71] \<union> set [97..<103]) \<subseteq> set ''0123456789abcdefABCDEF''"
    by code_simp
  finally show ?thesis .
qed

text \<open>\<open>ascii_upper\<close> one character at a time; a digit in upper case is again a digit, of the same value, visible and no colon.\<close>

definition up :: "char \<Rightarrow> char" where
  "up c = hd (ascii_upper [c])"

lemma ascii_upper_up: "ascii_upper s = map up s"
  by (simp add: up_def ascii_upper_def)

definition digit_ok :: "char \<Rightarrow> bool" where
  "digit_ok c \<longleftrightarrow> is_ascii_hexdigit (up c) \<and> visible (up c) \<and> up (up c) = up c \<and>
     (case hex_nibble c of Inl _ \<Rightarrow> False | Inr k \<Rightarrow> hex_nibble (up c) = Inr k \<and> unat k < 16 \<and> up (hex_char k) = up c)"

lemma all_digits_ok: "list_all digit_ok ''0123456789abcdefABCDEF''"
  by code_simp

lemma hexdigit_ok: "is_ascii_hexdigit c \<Longrightarrow> digit_ok c"
  using hexdigit_cases all_digits_ok unfolding list_all_iff by blast

lemma hexdigit_up [simp]:
  assumes "is_ascii_hexdigit c"
  shows "is_ascii_hexdigit (up c)" "visible (up c)" "up (up c) = up c"
  using hexdigit_ok [OF assms] by (simp_all add: digit_ok_def)

lemma hexdigit_nibble:
  assumes "is_ascii_hexdigit c"
  obtains k where "hex_nibble c = Inr k" "hex_nibble (up c) = Inr k" "unat k < 16" "up (hex_char k) = up c"
  using hexdigit_ok [OF assms] by (auto simp: digit_ok_def split: sum.splits)

lemma colon [simp]: "up (CHR '':'') = CHR '':''" "\<not> is_ascii_hexdigit (CHR '':'')" "visible (CHR '':'')"
  by (simp_all add: up_def ascii_upper_def is_ascii_hexdigit_def visible_def)

abbreviation all_hex :: "string \<Rightarrow> bool" where
  "all_hex s \<equiv> list_all is_ascii_hexdigit s"

lemma filter_hex: "all_hex s \<Longrightarrow> filter is_ascii_hexdigit s = s"
  by (induction s) auto

lemma all_hex_filter: "all_hex (filter is_ascii_hexdigit s)"
  by (simp add: list_all_iff)

lemma colon_pairs_up: "all_hex s \<Longrightarrow> colon_pairs (map up s) = colon_pairs s"
  by (induction s rule: colon_pairs.induct) (auto simp: ascii_upper_up)

lemma colon_pairs_hex:
  "all_hex s \<Longrightarrow> filter is_ascii_hexdigit (colon_pairs s) = map up s \<and> map up (colon_pairs s) = colon_pairs s \<and>
    list_all visible (colon_pairs s) \<and> (s \<noteq> [] \<longrightarrow> colon_pairs s \<noteq> [])"
  by (induction s rule: colon_pairs.induct) (auto simp: ascii_upper_up)

lemma colon_pairs_length: "even (length s) \<Longrightarrow> s \<noteq> [] \<Longrightarrow> 2 * length (colon_pairs s) + 2 = 3 * length s"
  by (induction s rule: colon_pairs.induct) (auto simp: ascii_upper_up)

lemma nibbles_split:
  fixes x y :: u8
  assumes "unat x < 16" "unat y < 16"
  shows "drop_bit 4 (push_bit 4 x OR y) = x \<and> take_bit 4 (push_bit 4 x OR y) = y"
proof -
  have low: "bit z n \<Longrightarrow> n < 4" if "unat z < 16" for z :: u8 and n
  proof -
    have "take_bit 4 (unat z) = unat z" using that by (simp add: take_bit_nat_eq_self)
    then have "take_bit 4 z = z" by (metis unsigned_take_bit_eq word_eq_iff_unsigned)
    then show "bit z n \<Longrightarrow> n < 4" by (metis bit_take_bit_iff)
  qed
  have "bit (drop_bit 4 (push_bit 4 x OR y)) n = bit x n" for n
    using low [OF assms(1), of n] low [OF assms(2), of "4 + n"] by (auto simp: bit_simps)
  moreover have "bit (take_bit 4 (push_bit 4 x OR y)) n = bit y n" for n
    using low [OF assms(2), of n] by (auto simp: bit_simps)
  ultimately show ?thesis by (simp add: bit_eq_iff)
qed

lemma hex_pairs_ok:
  "all_hex s \<Longrightarrow> even (length s) \<Longrightarrow> \<exists>d. hex_pairs s = Inr d \<and> hex_pairs (map up s) = Inr d \<and> length s = 2 * length d \<and> map up (bytes_to_hex d) = map up s"
proof (induction s rule: hex_pairs.induct)
  case (1 h l s)
  obtain kh where h: "hex_nibble h = Inr kh" "hex_nibble (up h) = Inr kh" "unat kh < 16" "up (hex_char kh) = up h"
    using 1(2) by (auto elim: hexdigit_nibble)
  obtain kl where l: "hex_nibble l = Inr kl" "hex_nibble (up l) = Inr kl" "unat kl < 16" "up (hex_char kl) = up l"
    using 1(2) by (auto elim: hexdigit_nibble)
  from 1 h l obtain d where d: "hex_pairs s = Inr d" "hex_pairs (map up s) = Inr d" "length s = 2 * length d" "map up (bytes_to_hex d) = map up s"
    by auto
  have "drop_bit 4 (push_bit 4 kh OR kl) = kh \<and> take_bit 4 (push_bit 4 kh OR kl) = kl"
    by (rule nibbles_split) (rule h(3) l(3))+
  with h l d show ?case by simp
qed auto

lemma hex_char_digit: "unat k < 16 \<Longrightarrow> is_ascii_hexdigit (hex_char k)"
proof -
  have "list_all is_ascii_hexdigit ''0123456789abcdef''" by (simp add: is_ascii_hexdigit_def)
  then show "unat k < 16 \<Longrightarrow> is_ascii_hexdigit (hex_char k)" unfolding hex_char_def list_all_length by simp
qed

lemma all_hex_bytes: "all_hex (bytes_to_hex d)"
  by (induction d) (simp_all add: hex_char_digit nibbles_less)

lemma lower_sha: "ascii_lower ''sha-256'' = ''sha-256''"
  by (simp add: ascii_lower_def)

lemma sha256_facts:
  assumes "fingerprint_sha256 v = Inr fp"
  obtains d where "length d = 32" "digest_bytes fp = Inr d" "fingerprint_sha256 (bytes_to_hex d) = Inr fp" "length (fp_value fp) = 95"
    "fp_algorithm fp = ''sha-256''" "map up (fp_value fp) = fp_value fp" "list_all visible (fp_value fp)"
    "fingerprint_sha256 (fp_value fp) = Inr fp"
proof -
  define s where "s = filter is_ascii_hexdigit v"
  have fp: "fp = \<lparr>fp_algorithm = ''sha-256'', fp_value = colon_pairs s\<rparr>" and len: "length s = 64"
    using assms by (simp_all add: fingerprint_sha256_def Let_def s_def split: if_splits)
  have s: "all_hex s" by (simp add: s_def all_hex_filter)
  note cp = colon_pairs_hex [OF s] colon_pairs_up [OF s]
  have s0: "s \<noteq> []" using len by auto
  obtain d where d: "hex_pairs (map up s) = Inr d" "length s = 2 * length d" "map up (bytes_to_hex d) = map up s"
    using hex_pairs_ok [OF s] len by auto
  have "colon_pairs (bytes_to_hex d) = colon_pairs s"
    using colon_pairs_up [OF all_hex_bytes, of d] d(3) cp by simp
  then have 1: "fingerprint_sha256 (bytes_to_hex d) = Inr fp"
    using d(2) len by (simp add: fingerprint_sha256_def filter_hex [OF all_hex_bytes] fp)
  have 2: "digest_bytes fp = Inr d" using cp len d(1) by (simp add: digest_bytes_def fp)
  have 3: "length (fp_value fp) = 95" using colon_pairs_length [OF _ s0] len by (simp add: fp)
  have 4: "fingerprint_sha256 (fp_value fp) = Inr fp" using cp len by (simp add: fingerprint_sha256_def fp)
  have 5: "length d = 32" "fp_algorithm fp = ''sha-256''" "map up (fp_value fp) = fp_value fp" "list_all visible (fp_value fp)"
    using cp d(2) len by (simp_all add: fp)
  show ?thesis by (rule that [OF 5(1) 2 1 3 5(2-4) 4])
qed

lemma sha256_value:
  assumes "fingerprint_sha256 v = Inr fp"
  shows "list_all visible (fp_value fp)" "fp_value fp \<noteq> []" "map up (fp_value fp) = fp_value fp" "fingerprint_sha256 (fp_value fp) = Inr fp"
    "visible (last (fp_value fp))" "fp_algorithm fp = ''sha-256''"
proof -
  show vis: "list_all visible (fp_value fp)" by (rule sha256_facts [OF assms])
  have "length (fp_value fp) = 95" by (rule sha256_facts [OF assms])
  then show ne: "fp_value fp \<noteq> []" by auto
  show "map up (fp_value fp) = fp_value fp" by (rule sha256_facts [OF assms])
  show "fingerprint_sha256 (fp_value fp) = Inr fp" by (rule sha256_facts [OF assms])
  show "fp_algorithm fp = ''sha-256''" by (rule sha256_facts [OF assms])
  show "visible (last (fp_value fp))" using vis ne by (simp add: list_all_iff)
qed

lemma sign_material:
  assumes "fingerprint_sha256 v = Inr fp"
  shows "as_sign_material fp = ''sha-256 '' @ fp_value fp" "sdp_attribute fp = ''sha-256 '' @ fp_value fp"
  using sha256_value(3,6) [OF assms] by (simp_all add: as_sign_material_def sdp_attribute_def lower_sha ascii_upper_up)

text \<open>
  C27. A fingerprint has one text. What \<open>sha256\<close> makes of any text with 64 hex digits, colons and letter case aside, is 95 characters
  long, is its own sign material, stands for 32 bytes, and is made again from its own text and from the lower-case hex of those bytes; so
  two fingerprints are equal exactly when their digests are, and comparing the texts that are signed compares certificates.
\<close>

theorem fingerprint_text_is_canonical:
  assumes "fingerprint_sha256 v = Inr fp" and "fingerprint_sha256 v' = Inr fp'"
  shows "length (fp_value fp) = 95 \<and> as_sign_material fp = sdp_attribute fp \<and> fingerprint_sha256 (fp_value fp) = Inr fp \<and>
    (\<exists>d. length d = 32 \<and> digest_bytes fp = Inr d \<and> fingerprint_sha256 (bytes_to_hex d) = Inr fp) \<and>
    (fp = fp' \<longleftrightarrow> digest_bytes fp = digest_bytes fp') \<and> (fp = fp' \<longleftrightarrow> as_sign_material fp = as_sign_material fp')"
proof -
  obtain d where d: "length d = 32" "digest_bytes fp = Inr d" "fingerprint_sha256 (bytes_to_hex d) = Inr fp" "length (fp_value fp) = 95"
    "fingerprint_sha256 (fp_value fp) = Inr fp" by (rule sha256_facts [OF assms(1)])
  obtain d' where d': "digest_bytes fp' = Inr d'" "fingerprint_sha256 (bytes_to_hex d') = Inr fp'" by (rule sha256_facts [OF assms(2)])
  note m = sign_material [OF assms(1)] sign_material [OF assms(2)]
  have "fp_algorithm fp = ''sha-256''" by (rule sha256_facts [OF assms(1)])
  moreover have "fp_algorithm fp' = ''sha-256''" by (rule sha256_facts [OF assms(2)])
  ultimately have "fp = fp' \<longleftrightarrow> fp_value fp = fp_value fp'" by (cases fp, cases fp') simp
  then have e: "fp = fp' \<longleftrightarrow> as_sign_material fp = as_sign_material fp'" by (simp add: m)
  have "fp = fp' \<longleftrightarrow> digest_bytes fp = digest_bytes fp'" using d(2,3) d' by auto
  with d m e show ?thesis by simp
qed

theorem fingerprint_text_is_canonical_witness:
  "\<exists>fp. fingerprint_sha256 (replicate 64 (CHR ''a'')) = Inr fp \<and> length (fp_value fp) = 95"
proof -
  have "is_ascii_hexdigit (CHR ''a'')" by (simp add: is_ascii_hexdigit_def)
  then have "filter is_ascii_hexdigit (replicate 64 (CHR ''a'')) = replicate 64 (CHR ''a'')" by simp
  then obtain fp where fp: "fingerprint_sha256 (replicate 64 (CHR ''a'')) = Inr fp" by (simp add: fingerprint_sha256_def)
  from fingerprint_text_is_canonical [OF fp fp] fp show ?thesis by blast
qed

section \<open>Descriptions\<close>

lemma char_of_return: "(CHR 0x0D = char_of n) \<longleftrightarrow> n mod 256 = (13::nat)"
  by (auto simp: char_of_eq_iff [symmetric] eq_commute [of _ "char_of n"] char_of_eq_iff take_bit_eq_mod)

lemma white_space_return: "w \<in> set white_space \<Longrightarrow> last w = CHR 0x0D \<Longrightarrow> w = [CHR 0x0D]"
  by (auto simp: white_space_def white_space_codes_def char_of_return eq_commute [of "char_of _"])

lemma return_white_space: "[CHR 0x0D] \<in> set white_space"
  by (simp add: white_space_def white_space_codes_def char_of_return)

lemma trim_return:
  assumes "w \<noteq> []" "visible (hd w)" "visible (last w)"
  shows "trim (w @ [CHR 0x0D]) = w"
proof -
  let ?ws = "map rev white_space" and ?s = "CHR 0x0D # rev w"
  have "strip_start ?ws ?s = strip_start ?ws (rev w)"
  proof (cases "find (\<lambda>w. w \<noteq> [] \<and> starts_with ?s w) ?ws")
    case None
    with return_white_space show ?thesis by (force simp: find_None_iff starts_with_def)
  next
    case (Some v)
    then have v: "v \<in> rev ` set white_space" "v \<noteq> []" "starts_with ?s v" by (auto simp: find_Some_iff intro!: imageI)
    then have "hd v = CHR 0x0D" using starts_with_hd by fastforce
    with v(1,2) white_space_return have "v = [CHR 0x0D]" by (auto simp: hd_rev)
    with Some show ?thesis by (simp add: strip_start.simps [of _ "CHR 0x0D # _"])
  qed
  moreover have "trim_start (w @ [CHR 0x0D]) = w @ [CHR 0x0D]" "trim_start w = w" using assms by (auto intro: trim_start_visible)
  ultimately have "trim (w @ [CHR 0x0D]) = trim w" by (simp add: trim_def)
  with assms show ?thesis by (simp add: trim_visible)
qed

lemma split_lines_crlf: "CHR 0x0A \<notin> set l \<Longrightarrow> split_lines (l @ crlf @ s) = (l @ [CHR 0x0D]) # split_lines s"
  by (induction l) (auto simp: crlf_def)

text \<open>A plain line: it begins and ends with a visible character and holds no line feed.\<close>

definition plain :: "string \<Rightarrow> bool" where
  "plain l \<longleftrightarrow> l \<noteq> [] \<and> visible (hd l) \<and> visible (last l) \<and> CHR 0x0A \<notin> set l"

lemma first_line:
  assumes "plain l" shows "split_lines (l @ crlf @ s) = (l @ [CHR 0x0D]) # split_lines s" "trim (l @ [CHR 0x0D]) = l"
  using assms by (simp_all add: plain_def split_lines_crlf trim_return)

lemma visible_not_feed: "list_all visible s \<Longrightarrow> CHR 0x0A \<notin> set s"
  by (auto simp: list_all_iff visible_def)

text \<open>A peer with a fingerprint that \<open>sha256\<close> made and a label of visible characters.\<close>

definition good_peer :: "mock_peer \<Rightarrow> bool" where
  "good_peer p \<longleftrightarrow> (\<exists>v. fingerprint_sha256 v = Inr (mp_local_fp p)) \<and> list_all visible (mc_label (mp_config p))"

lemma mock_sdp_line:
  assumes "good_peer p"
    and "\<And>l. plain l \<Longrightarrow> \<not> starts_with l ''a=fingerprint:'' \<Longrightarrow> f (l @ [CHR 0x0D]) = None"
    and "f ((''a=fingerprint:'' @ sdp_attribute (mp_local_fp p)) @ [CHR 0x0D]) = Some r"
  shows "first_some f (split_lines (sdp_text (mock_sdp ty p))) = Some r"
proof -
  let ?label = "mc_label (mp_config p)" and ?fp = "''a=fingerprint:'' @ sdp_attribute (mp_local_fp p)"
  obtain v where v: "fingerprint_sha256 v = Inr (mp_local_fp p)" using assms(1) by (auto simp: good_peer_def)
  have fp: "plain ?fp" using visible_not_feed [OF sha256_value(1) [OF v]] sha256_value(2,5) [OF v] by (simp add: plain_def sign_material [OF v] visible_def)
  have label: "list_all visible ?label" using assms(1) by (simp add: good_peer_def)
  have 1: "plain ''v=0''" "plain ''o=- 0 0 IN IP4 127.0.0.1''" "plain ''t=0 0''" by (simp_all add: plain_def visible_def)
  have 2: "plain (''s=RemoteLinkMock-'' @ ?label)"
  proof -
    have "visible (last (''s=RemoteLinkMock-'' @ ?label))" using label by (cases "?label = []") (auto simp: visible_def list_all_iff)
    with visible_not_feed [OF label] show ?thesis by (simp add: plain_def visible_def)
  qed
  have 3: "\<not> starts_with ''v=0'' ''a=fingerprint:''" "\<not> starts_with ''o=- 0 0 IN IP4 127.0.0.1'' ''a=fingerprint:''"
    "\<not> starts_with ''t=0 0'' ''a=fingerprint:''" "\<not> starts_with (''s=RemoteLinkMock-'' @ ?label) ''a=fingerprint:''"
    by (simp_all add: starts_with_def)
  obtain rest where t: "sdp_text (mock_sdp ty p) = ''v=0'' @ crlf @ ''o=- 0 0 IN IP4 127.0.0.1'' @ crlf @ (''s=RemoteLinkMock-'' @ ?label) @ crlf @
      ''t=0 0'' @ crlf @ ?fp @ crlf @ rest" by (simp add: mock_sdp_def)
  show ?thesis unfolding t first_line(1) [OF 1(1)] first_line(1) [OF 1(2)] first_line(1) [OF 2] first_line(1) [OF 1(3)] first_line(1) [OF fp]
    using assms(2) [OF 1(1) 3(1)] assms(2) [OF 1(2) 3(2)] assms(2) [OF 2 3(4)] assms(2) [OF 1(3) 3(3)] assms(3) by simp
qed

lemma words_of_attribute:
  assumes "fingerprint_sha256 v = Inr fp"
  shows "next_word (sdp_attribute fp) = Some (''sha-256'', CHR '' '' # fp_value fp)"
    and "next_word (CHR '' '' # fp_value fp) = Some (fp_value fp, [])"
proof -
  from next_word_visible [OF sha256_value(1,2) [OF assms], of "[]"] show "next_word (CHR '' '' # fp_value fp) = Some (fp_value fp, [])"
    by (simp add: next_word_blank)
  show "next_word (sdp_attribute fp) = Some (''sha-256'', CHR '' '' # fp_value fp)"
    using next_word_visible [of "''sha-256''" "CHR '' '' # fp_value fp"] by (simp add: sign_material [OF assms] visible_def)
qed

lemma attribute_line:
  assumes "fingerprint_sha256 v = Inr fp"
  shows "trim ((''a=fingerprint:'' @ sdp_attribute fp) @ [CHR 0x0D]) = ''a=fingerprint:'' @ sdp_attribute fp"
    and "trim (sdp_attribute fp) = sdp_attribute fp"
proof -
  note ne = sha256_value(2) [OF assms] and l = sha256_value(5) [OF assms]
  show "trim (sdp_attribute fp) = sdp_attribute fp" using ne l
    by (intro trim_visible) (simp add: sign_material [OF assms] visible_def)
  show "trim ((''a=fingerprint:'' @ sdp_attribute fp) @ [CHR 0x0D]) = ''a=fingerprint:'' @ sdp_attribute fp"
    using l ne by (intro trim_return) (simp_all add: sign_material [OF assms] visible_def)
qed

lemma strip_own_prefix: "strip_prefix p (p @ s) = Some s"
  by (simp add: strip_prefix_def starts_with_def)

text \<open>What either end reads in a description: the fingerprint of the peer that made it.\<close>

lemma parse_own_sdp:
  assumes "good_peer p"
  shows "parse_fingerprint_from_sdp (sdp_text (mock_sdp ty p)) = Some (mp_local_fp p)"
proof -
  obtain v where v: "fingerprint_sha256 v = Inr (mp_local_fp p)" using assms by (auto simp: good_peer_def)
  note again = sha256_value(4) [OF v]
  have "first_some sdp_fingerprint_line (split_lines (sdp_text (mock_sdp ty p))) = Some (Some (mp_local_fp p))"
  proof (rule mock_sdp_line [OF assms])
    fix l assume "plain l" "\<not> starts_with l ''a=fingerprint:''"
    then show "sdp_fingerprint_line (l @ [CHR 0x0D]) = None" by (simp add: sdp_fingerprint_line_def first_line strip_prefix_def)
  next
    show "sdp_fingerprint_line ((''a=fingerprint:'' @ sdp_attribute (mp_local_fp p)) @ [CHR 0x0D]) = Some (Some (mp_local_fp p))"
      unfolding sdp_fingerprint_line_def attribute_line [OF v] strip_own_prefix
      by (simp add: words_of_attribute [OF v] again)
  qed
  then show ?thesis by (simp add: parse_fingerprint_from_sdp_def)
qed

lemma viewer_reads_own_sdp:
  assumes "good_peer p"
  shows "fingerprint_sign_material_from_sdp (sdp_text (mock_sdp ty p)) = Some (as_sign_material (mp_local_fp p))"
proof -
  obtain v where v: "fingerprint_sha256 v = Inr (mp_local_fp p)" using assms by (auto simp: good_peer_def)
  note u = sha256_value(3) [OF v] and ne = sha256_value(2) [OF v]
  have "first_some fingerprint_line (split_lines (sdp_text (mock_sdp ty p))) = Some (as_sign_material (mp_local_fp p))"
  proof (rule mock_sdp_line [OF assms])
    fix l assume "plain l" "\<not> starts_with l ''a=fingerprint:''"
    then show "fingerprint_line (l @ [CHR 0x0D]) = None" by (simp add: fingerprint_line_def first_line strip_prefix_def)
  next
    show "fingerprint_line ((''a=fingerprint:'' @ sdp_attribute (mp_local_fp p)) @ [CHR 0x0D]) = Some (as_sign_material (mp_local_fp p))"
      unfolding fingerprint_line_def attribute_line [OF v] strip_own_prefix option.case words_of_attribute [OF v] prod.case lower_sha ascii_upper_up u
      using ne by (simp add: sign_material [OF v])
  qed
  then show ?thesis by (simp add: fingerprint_sign_material_from_sdp_def)
qed

section \<open>The handshake\<close>

text \<open>A peer of a new pair, before and after the handshake.\<close>

definition fresh_peer :: "pair_side \<Rightarrow> mock_peer \<Rightarrow> bool" where
  "fresh_peer side p \<longleftrightarrow> good_peer p \<and> mp_side p = Some side \<and> mp_state p = CsNew \<and> \<not> mp_closed p \<and> mp_local_desc p = None \<and> mp_remote_desc p = None"

lemmas mock_ops = mock_create_offer_def mock_create_answer_def mock_set_local_def mock_set_remote_def mock_add_ice_def
  ensure_open_def note_description_def emit_state_def emit_local_host_candidate_def try_connect_def Let_def

lemma sdp_nonempty: "sdp_text (mock_sdp ty p) \<noteq> []"
  by (simp add: mock_sdp_def)

lemma mock_sdp_parts: "mp_local_fp q = mp_local_fp p \<Longrightarrow> mp_config q = mp_config p \<Longrightarrow> mock_sdp ty q = mock_sdp ty p"
  by (simp add: mock_sdp_def)

lemma candidate_nonempty: "candidate (local_candidate p) \<noteq> []"
  by (simp add: local_candidate_def)

text \<open>The operations of the handshake, one by one.\<close>

lemma offer_step: "mp_state p \<noteq> CsClosed \<Longrightarrow> \<not> mp_closed p \<Longrightarrow> mock_create_offer (p, w) = (Inr (mock_sdp SdpOffer p), no_events, p, w)"
  by (simp add: mock_ops)

lemma answer_step:
  "mp_state p \<noteq> CsClosed \<Longrightarrow> \<not> mp_closed p \<Longrightarrow> mp_remote_desc p \<noteq> None \<Longrightarrow> mock_create_answer (p, w) = (Inr (mock_sdp SdpAnswer p), no_events, p, w)"
  by (simp add: mock_ops)

lemma local_first_step:
  "mp_state p = CsNew \<Longrightarrow> \<not> mp_closed p \<Longrightarrow> mp_remote_desc p = None \<Longrightarrow>
   mock_set_local d (p, w) = (Inr (), \<lparr>ve_ice = [local_candidate p], ve_states = [CsConnecting], ve_tracks = [], ve_data = []\<rparr>,
     p\<lparr>mp_local_desc := Some d, mp_state := CsConnecting, mp_last_local_ice := Some (local_candidate p)\<rparr>, w)"
  by (simp add: mock_ops local_candidate_def add_events_def no_events_def)

lemma remote_first_step:
  "mp_state p = CsNew \<Longrightarrow> \<not> mp_closed p \<Longrightarrow> mp_local_desc p = None \<Longrightarrow> sdp_text d \<noteq> [] \<Longrightarrow>
   mock_set_remote d (p, w) = (Inr (), \<lparr>ve_ice = [], ve_states = [CsConnecting], ve_tracks = [], ve_data = []\<rparr>,
     p\<lparr>mp_remote_desc := Some d, mp_state := CsConnecting\<rparr>, w)"
  by (simp add: mock_ops add_events_def no_events_def)

lemma local_second_step:
  "mp_state p = CsConnecting \<Longrightarrow> \<not> mp_closed p \<Longrightarrow> mp_remote_desc p = Some r \<Longrightarrow> mp_side p \<noteq> None \<Longrightarrow>
   parse_fingerprint_from_sdp (sdp_text r) = Some fp \<Longrightarrow>
   mock_set_local d (p, w) = (Inr (), \<lparr>ve_ice = [local_candidate p], ve_states = [CsConnected], ve_tracks = [], ve_data = []\<rparr>,
     p\<lparr>mp_local_desc := Some d, mp_state := CsConnected, mp_last_local_ice := Some (local_candidate p), mp_remote_fp := Some fp\<rparr>, w)"
  by (auto simp add: mock_ops local_candidate_def add_events_def no_events_def)

lemma remote_second_step:
  "mp_state p = CsConnecting \<Longrightarrow> \<not> mp_closed p \<Longrightarrow> mp_local_desc p \<noteq> None \<Longrightarrow> mp_side p \<noteq> None \<Longrightarrow>
   sdp_text d \<noteq> [] \<Longrightarrow> parse_fingerprint_from_sdp (sdp_text d) = Some fp \<Longrightarrow>
   mock_set_remote d (p, w) = (Inr (), \<lparr>ve_ice = [], ve_states = [CsConnected], ve_tracks = [], ve_data = []\<rparr>,
     p\<lparr>mp_remote_desc := Some d, mp_state := CsConnected, mp_remote_fp := Some fp\<rparr>, w)"
  by (auto simp add: mock_ops add_events_def no_events_def)

lemma ice_step:
  "mp_state p = CsConnected \<Longrightarrow> \<not> mp_closed p \<Longrightarrow> mp_remote_desc p = Some r \<Longrightarrow> mp_remote_fp p = Some fp \<Longrightarrow>
   parse_fingerprint_from_sdp (sdp_text r) = Some fp \<Longrightarrow> candidate c \<noteq> [] \<Longrightarrow> mock_add_ice c (p, w) = (Inr (), no_events, p, w)"
  by (auto simp add: mock_ops split: option.splits)

text \<open>
  C21. The handshake connects and shows each peer the other's certificate. For any two peers of a new pair whose
  fingerprints were made by \<open>sha256\<close> and whose labels have visible characters only, offer, answer and the exchange of candidates succeed;
  afterwards both peers are connected, each reports as remote fingerprint the local one of the other, and nothing is
  on the wire yet.
\<close>

theorem handshake_connects_both:
  assumes "fresh_peer SideA (peer_a m)" and "fresh_peer SideB (peer_b m)"
  shows "\<exists>m'. mock_handshake m = (Inr (), m') \<and> mp_state (peer_a m') = CsConnected \<and> mp_state (peer_b m') = CsConnected \<and>
    mp_remote_fp (peer_a m') = Some (mp_local_fp (peer_b m)) \<and> mp_remote_fp (peer_b m') = Some (mp_local_fp (peer_a m)) \<and>
    pair_wire m' = pair_wire m"
proof -
  obtain a b w where m: "m = \<lparr>peer_a = a, peer_b = b, pair_wire = w\<rparr>" by (cases m)
  let ?offer = "mock_sdp SdpOffer a" and ?answer = "mock_sdp SdpAnswer b"
  define a1 where "a1 = a\<lparr>mp_local_desc := Some ?offer, mp_state := CsConnecting, mp_last_local_ice := Some (local_candidate a)\<rparr>"
  define b1 where "b1 = b\<lparr>mp_remote_desc := Some ?offer, mp_state := CsConnecting\<rparr>"
  define b2 where "b2 = b1\<lparr>mp_local_desc := Some ?answer, mp_state := CsConnected, mp_last_local_ice := Some (local_candidate b1),
      mp_remote_fp := Some (mp_local_fp a)\<rparr>"
  define a2 where "a2 = a1\<lparr>mp_remote_desc := Some ?answer, mp_state := CsConnected, mp_remote_fp := Some (mp_local_fp b)\<rparr>"
  have g: "good_peer a" "good_peer b" using assms by (simp_all add: fresh_peer_def m)
  have a: "mp_side a = Some SideA" "mp_state a = CsNew" "\<not> mp_closed a" "mp_remote_desc a = None"
    and b: "mp_side b = Some SideB" "mp_state b = CsNew" "\<not> mp_closed b" "mp_local_desc b = None" using assms by (simp_all add: fresh_peer_def m)
  note read = parse_own_sdp [OF g(1)] parse_own_sdp [OF g(2)]
  have ans: "mock_sdp SdpAnswer b1 = ?answer" by (rule mock_sdp_parts) (simp_all add: b1_def)
  have 1: "mock_create_offer (a, w) = (Inr ?offer, no_events, a, w)" using a by (intro offer_step) simp_all
  have 2: "\<exists>ev. mock_set_local ?offer (a, w) = (Inr (), ev, a1, w)" using a by (simp add: local_first_step a1_def)
  have 3: "\<exists>ev. mock_set_remote ?offer (b, w) = (Inr (), ev, b1, w)" using b by (simp add: remote_first_step sdp_nonempty b1_def)
  have 4: "mock_create_answer (b1, w) = (Inr ?answer, no_events, b1, w)" using b ans by (simp add: answer_step b1_def)
  have 5: "\<exists>ev. mock_set_local ?answer (b1, w) = (Inr (), ev, b2, w)"
    using local_second_step [of b1 ?offer "mp_local_fp a"] b read by (simp add: b1_def b2_def)
  have 6: "\<exists>ev. mock_set_remote ?answer (a1, w) = (Inr (), ev, a2, w)"
    using remote_second_step [of a1 ?answer "mp_local_fp b"] a read by (simp add: a1_def a2_def sdp_nonempty)
  have 7: "mock_add_ice (local_candidate b1) (a2, w) = (Inr (), no_events, a2, w)"
    using ice_step [of a2 ?answer "mp_local_fp b"] a read by (simp add: a1_def a2_def candidate_nonempty)
  have 8: "mock_add_ice (local_candidate a) (b2, w) = (Inr (), no_events, b2, w)"
    using ice_step [of b2 ?offer "mp_local_fp a"] b read by (simp add: b1_def b2_def candidate_nonempty)
  have ice: "mp_last_local_ice a2 = Some (local_candidate a)" "mp_last_local_ice b2 = Some (local_candidate b1)"
    by (simp_all add: a1_def a2_def b2_def)
  have "mock_handshake m = (Inr (), \<lparr>peer_a = a2, peer_b = b2, pair_wire = w\<rparr>)"
    using 1 2 3 4 5 6 7 8 ice by (auto simp: m mock_handshake_def call_side_def on_side_def)
  then show ?thesis by (simp add: m a2_def b2_def)
qed

theorem handshake_connects_both_witness:
  "\<exists>a b m'. fingerprint_sha256 (replicate 64 (CHR ''A'')) = Inr a \<and> fingerprint_sha256 (replicate 64 (CHR ''B'')) = Inr b \<and>
     mock_handshake (pair_with_configs a b default_mock_config default_mock_config) = (Inr (), m') \<and> mp_remote_fp (peer_a m') = Some b"
proof -
  have "\<exists>f. fingerprint_sha256 (replicate 64 c) = Inr f" if "is_ascii_hexdigit c" for c
    using that by (simp add: fingerprint_sha256_def)
  moreover have "is_ascii_hexdigit (CHR ''A'')" "is_ascii_hexdigit (CHR ''B'')" by (simp_all add: is_ascii_hexdigit_def)
  ultimately obtain a b where ab: "fingerprint_sha256 (replicate 64 (CHR ''A'')) = Inr a" "fingerprint_sha256 (replicate 64 (CHR ''B'')) = Inr b"
    by blast
  let ?m = "pair_with_configs a b default_mock_config default_mock_config"
  have "fresh_peer SideA (peer_a ?m)" "fresh_peer SideB (peer_b ?m)" using ab
    by (auto simp: fresh_peer_def good_peer_def pair_with_configs_def new_mock_peer_def default_mock_config_def visible_def)
  from handshake_connects_both [OF this] ab show ?thesis
    by (auto simp: pair_with_configs_def new_mock_peer_def default_mock_config_def)
qed

section \<open>The wire\<close>

datatype pair_op =
    OpSend pair_side wire_msg
  | OpPoll pair_side
  | OpClose pair_side
  | OpRestart pair_side
  | OpIce pair_side ice_candidate
  | OpLocal pair_side session_description
  | OpRemote pair_side session_description

fun pair_op_side :: "pair_op \<Rightarrow> pair_side" where
  "pair_op_side (OpSend s _) = s"
| "pair_op_side (OpPoll s) = s"
| "pair_op_side (OpClose s) = s"
| "pair_op_side (OpRestart s) = s"
| "pair_op_side (OpIce s _) = s"
| "pair_op_side (OpLocal s _) = s"
| "pair_op_side (OpRemote s _) = s"

fun pair_op_fun :: "pair_op \<Rightarrow> unit mock_op" where
  "pair_op_fun (OpSend _ msg) = send_wire msg"
| "pair_op_fun (OpPoll _) = mock_poll"
| "pair_op_fun (OpClose _) = mock_close"
| "pair_op_fun (OpRestart _) = mock_restart_ice"
| "pair_op_fun (OpIce _ c) = mock_add_ice c"
| "pair_op_fun (OpLocal _ d) = mock_set_local d"
| "pair_op_fun (OpRemote _ d) = mock_set_remote d"

text \<open>The queue that a side writes to, and a run: what that side had accepted, and what the other side was given.\<close>

definition queue_from :: "pair_side \<Rightarrow> loopback_wire \<Rightarrow> wire_msg list" where
  "queue_from s w = (case s of SideA \<Rightarrow> lw_to_b w | SideB \<Rightarrow> lw_to_a w)"

definition send_taken :: "pair_side \<Rightarrow> pair_op \<Rightarrow> net_error + unit \<Rightarrow> wire_msg list" where
  "send_taken s c r = (case c of OpSend s' msg \<Rightarrow> if s' = s \<and> r = Inr () then [msg] else [] | _ \<Rightarrow> [])"

fun pair_run :: "pair_side \<Rightarrow> pair_op list \<Rightarrow> mock_pair \<Rightarrow> wire_msg list \<times> viewer_events \<times> mock_pair" where
  "pair_run s [] m = ([], no_events, m)"
| "pair_run s (c # cs) m =
     (case on_side (pair_op_side c) (pair_op_fun c) m of (r, ev, m1) \<Rightarrow>
      case pair_run s cs m1 of (acc, got, m2) \<Rightarrow>
        (send_taken s c r @ acc,
         if pair_op_side c = s then got else add_events ev got, m2))"

definition media :: "viewer_events \<Rightarrow> incoming_track list \<times> data_message list" where
  "media ev = (ve_tracks ev, ve_data ev)"

definition media_append where
  "media_append a b = (fst a @ fst b, snd a @ snd b)"

lemma media_add: "media (add_events a b) = media_append (media a) (media b)"
  by (simp add: media_def media_append_def add_events_def)

lemma media_none [simp]: "media no_events = ([], [])" "media (no_events\<lparr>ve_states := st\<rparr>) = ([], [])" "media (no_events\<lparr>ve_ice := c\<rparr>) = ([], [])"
  by (simp_all add: media_def no_events_def)

lemma media_append_simps [simp]: "media_append ([], []) a = a" "media_append a ([], []) = a"
  "media_append (media_append a b) c = media_append a (media_append b c)"
  by (simp_all add: media_append_def)

lemma media_deliver_append: "media (deliver_all (xs @ ys)) = media_append (media (deliver_all xs)) (media (deliver_all ys))"
  by (induction xs) (simp_all add: deliver_all_def media_add)

definition well_paired :: "mock_pair \<Rightarrow> bool" where
  "well_paired m \<longleftrightarrow> mp_side (peer_a m) = Some SideA \<and> mp_side (peer_b m) = Some SideB"

lemma try_connect_media: "try_connect p = (ev, p') \<Longrightarrow> media ev = ([], []) \<and> mp_side p' = mp_side p"
  by (auto simp: try_connect_def emit_state_def Let_def split: option.splits if_splits)

lemma note_media: "note_description p = (ev, p') \<Longrightarrow> media ev = ([], []) \<and> mp_side p' = mp_side p"
  by (auto simp: note_description_def emit_state_def split: if_splits)

text \<open>Operations that are neither sends nor polls leave the queues alone and deliver nothing.\<close>

lemma signaling_media:
  assumes "c = OpClose s \<or> c = OpRestart s \<or> c = OpIce s i \<or> c = OpLocal s d \<or> c = OpRemote s d"
    and "pair_op_fun c (p, w) = (r, ev, p', w')"
  shows "media ev = ([], []) \<and> mp_side p' = mp_side p \<and> lw_to_a w' = lw_to_a w \<and> lw_to_b w' = lw_to_b w \<and> (lw_open w' \<longrightarrow> lw_open w)"
  using assms
  by (auto simp: mock_close_def mock_restart_ice_def mock_add_ice_def mock_set_local_def mock_set_remote_def emit_state_def Let_def
      emit_local_host_candidate_def media_add split: if_splits sum.splits prod.splits dest!: try_connect_media note_media)

lemma send_media:
  assumes "send_wire msg (p, w) = (r, ev, p', w')" "mp_side p = Some s"
  shows "media ev = ([], []) \<and> p' = p \<and> lw_open w' = lw_open w \<and> queue_from s w' = queue_from s w @ (if r = Inr () then [msg] else []) \<and>
    (\<forall>s'. s' \<noteq> s \<longrightarrow> queue_from s' w' = queue_from s' w) \<and> (r = Inr () \<longrightarrow> lw_open w)"
  using assms by (auto simp: send_wire_def outbound_tx_def put_wire_def queue_from_def split: sum.splits if_splits pair_side.splits)

lemma media_deliver_none [simp]: "media (deliver_all []) = ([], [])"
  by (simp add: deliver_all_def)

lemma poll_media:
  assumes "mock_poll (p, w) = (r, ev, p', w')" "mp_side p = Some s"
  shows "mp_side p' = Some s \<and> queue_from s w' = queue_from s w \<and> lw_open w' = lw_open w \<and>
    (\<forall>s'. s' \<noteq> s \<longrightarrow> media_append (media ev) (media (deliver_all (queue_from s' w'))) = media (deliver_all (queue_from s' w)))"
proof -
  from assms show ?thesis
    by (auto simp: mock_poll_def Let_def emit_state_def media_add queue_from_def split: if_splits pair_side.splits)
qed

text \<open>One operation, seen from the direction in which side \<open>s\<close> writes.\<close>

lemma op_media:
  assumes f: "pair_op_fun c (p, w) = (r, ev, p', w')" and side: "mp_side p = Some (pair_op_side c)"
  shows "mp_side p' = mp_side p \<and> (lw_open w' \<longrightarrow> lw_open w) \<and> (send_taken s c r \<noteq> [] \<longrightarrow> lw_open w) \<and>
      media_append (if pair_op_side c = s then ([], []) else media ev) (media (deliver_all (queue_from s w'))) =
        media (deliver_all (queue_from s w @ send_taken s c r))"
proof -
  have quiet: ?thesis if "media ev = ([], []) \<and> mp_side p' = mp_side p \<and> lw_to_a w' = lw_to_a w \<and> lw_to_b w' = lw_to_b w \<and> (lw_open w' \<longrightarrow> lw_open w)"
    "\<forall>r. send_taken s c r = []"
  proof -
    have "queue_from s w' = queue_from s w" using that(1) by (cases s) (simp_all add: queue_from_def)
    with that show ?thesis by simp
  qed
  show ?thesis
  proof (cases c)
    case (OpSend s' msg)
    then have "send_wire msg (p, w) = (r, ev, p', w')" "mp_side p = Some s'" using f side by simp_all
    from send_media [OF this] show ?thesis using OpSend by (cases "s' = s") (simp_all add: send_taken_def)
  next
    case (OpPoll s')
    then have "mock_poll (p, w) = (r, ev, p', w')" "mp_side p = Some s'" using f side by simp_all
    from poll_media [OF this] show ?thesis using OpPoll side by (cases "s' = s") (simp_all add: send_taken_def)
  next
    case (OpClose s')
    show ?thesis by (rule quiet, rule signaling_media [OF _ f, where s = s']) (simp_all add: OpClose send_taken_def)
  next
    case (OpRestart s')
    show ?thesis by (rule quiet, rule signaling_media [OF _ f, where s = s']) (simp_all add: OpRestart send_taken_def)
  next
    case (OpIce s' i)
    show ?thesis by (rule quiet, rule signaling_media [OF _ f, where s = s' and i = i]) (simp_all add: OpIce send_taken_def)
  next
    case (OpLocal s' d)
    show ?thesis by (rule quiet, rule signaling_media [OF _ f, where s = s' and d = d]) (simp_all add: OpLocal send_taken_def)
  next
    case (OpRemote s' d)
    show ?thesis by (rule quiet, rule signaling_media [OF _ f, where s = s' and d = d]) (simp_all add: OpRemote send_taken_def)
  qed
qed

lemma pair_step_media:
  assumes "on_side (pair_op_side c) (pair_op_fun c) m = (r, ev, m1)" and paired: "well_paired m"
  shows "well_paired m1 \<and> (lw_open (pair_wire m1) \<longrightarrow> lw_open (pair_wire m)) \<and> (send_taken s c r \<noteq> [] \<longrightarrow> lw_open (pair_wire m)) \<and>
      media_append (if pair_op_side c = s then ([], []) else media ev) (media (deliver_all (queue_from s (pair_wire m1)))) =
        media (deliver_all (queue_from s (pair_wire m) @ send_taken s c r))"
proof -
  define p where "p = (case pair_op_side c of SideA \<Rightarrow> peer_a m | SideB \<Rightarrow> peer_b m)"
  obtain p' w' where f: "pair_op_fun c (p, pair_wire m) = (r, ev, p', w')"
    and m1: "m1 = (case pair_op_side c of SideA \<Rightarrow> m\<lparr>peer_a := p', pair_wire := w'\<rparr> | SideB \<Rightarrow> m\<lparr>peer_b := p', pair_wire := w'\<rparr>)"
    using assms(1) by (auto simp: on_side_def p_def split: prod.splits)
  have side: "mp_side p = Some (pair_op_side c)" using paired by (simp add: p_def well_paired_def split: pair_side.split)
  have wire: "pair_wire m1 = w'" by (simp add: m1 split: pair_side.split)
  note o = op_media [OF f side, of s]
  have "well_paired m1" using paired side o by (cases "pair_op_side c") (simp_all add: m1 well_paired_def)
  with o show ?thesis by (simp add: wire)
qed

text \<open>
  C20. The wire delivers each message once, and in order. Over any operations of the two peers of a pair, in any interleaving, closes and restarts
  included: the tracks and the data messages the receiver was given, followed by those still queued for it, are those queued at the
  start followed by those whose send succeeded, nothing lost, repeated or exchanged; and once the wire is closed no
  send succeeds.
\<close>

theorem wire_delivers_in_order:
  assumes "well_paired m" and "pair_run s ops m = (took, got, m')"
  shows "media (add_events got (deliver_all (queue_from s (pair_wire m')))) = media (deliver_all (queue_from s (pair_wire m) @ took)) \<and>
    (\<not> lw_open (pair_wire m) \<longrightarrow> took = [])"
  using assms
proof (induction ops arbitrary: m took got m')
  case (Cons c cs)
  obtain r ev m1 where 1: "on_side (pair_op_side c) (pair_op_fun c) m = (r, ev, m1)" by (metis prod_cases3)
  obtain acc1 got1 m2 where 2: "pair_run s cs m1 = (acc1, got1, m2)" by (metis prod_cases3)
  let ?acc = "send_taken s c r"
  from pair_step_media [OF 1 Cons.prems(1), of s] have st: "well_paired m1" "lw_open (pair_wire m1) \<longrightarrow> lw_open (pair_wire m)"
    "?acc \<noteq> [] \<longrightarrow> lw_open (pair_wire m)"
    "media_append (if pair_op_side c = s then ([], []) else media ev) (media (deliver_all (queue_from s (pair_wire m1)))) =
        media (deliver_all (queue_from s (pair_wire m) @ ?acc))" by auto
  have run: "took = ?acc @ acc1" "got = (if pair_op_side c = s then got1 else add_events ev got1)" "m' = m2"
    using Cons.prems(2) 1 2 by auto
  from Cons.IH [OF st(1) 2] have ih: "media_append (media got1) (media (deliver_all (queue_from s (pair_wire m2)))) =
      media_append (media (deliver_all (queue_from s (pair_wire m1)))) (media (deliver_all acc1))"
    "\<not> lw_open (pair_wire m1) \<longrightarrow> acc1 = []" by (simp_all add: media_add media_deliver_append)
  have "media (add_events got (deliver_all (queue_from s (pair_wire m')))) =
      media_append (if pair_op_side c = s then ([], []) else media ev) (media_append (media got1) (media (deliver_all (queue_from s (pair_wire m2)))))"
    by (simp add: run media_add)
  also have "\<dots> = media_append (media_append (if pair_op_side c = s then ([], []) else media ev) (media (deliver_all (queue_from s (pair_wire m1)))))
      (media (deliver_all acc1))" by (simp only: ih(1) media_append_simps(3))
  also have "\<dots> = media (deliver_all (queue_from s (pair_wire m) @ took))" by (simp only: st(4) run media_deliver_append append_assoc media_append_simps(3))
  finally show ?case using ih(2) st(2,3) run(1) by auto
qed (simp add: media_add)

text \<open>A connected pair that sends a message each way, polls, closes, and tries once more.\<close>

definition demo_open_pair :: mock_pair where
  "demo_open_pair =
     (let p = new_mock_peer \<lparr>fp_algorithm = ''sha-256'', fp_value = []\<rparr> default_mock_config
      in \<lparr>peer_a = p\<lparr>mp_side := Some SideA, mp_state := CsConnected\<rparr>, peer_b = p\<lparr>mp_side := Some SideB, mp_state := CsConnected\<rparr>,
          pair_wire = \<lparr>lw_to_a = [], lw_to_b = [], lw_open = True\<rparr>\<rparr>)"

definition demo_message :: "8 word \<Rightarrow> wire_msg" where
  "demo_message b = WireData \<lparr>dm_label = ''control'', dm_data = [b], dm_unordered = False\<rparr>"

definition demo_pair_ops :: "pair_op list" where
  "demo_pair_ops = [OpSend SideA (demo_message 1), OpSend SideB (demo_message 9), OpPoll SideB, OpSend SideA (demo_message 2), OpClose SideB,
     OpSend SideA (demo_message 3)]"

lemma demo_pair_ops_run:
  "pair_run SideA demo_pair_ops demo_open_pair =
     ([demo_message 1, demo_message 2], fst (snd (pair_run SideA demo_pair_ops demo_open_pair)), snd (snd (pair_run SideA demo_pair_ops demo_open_pair)))"
  by (simp add: prod_eq_iff) (simp add: send_taken_def demo_pair_ops_def demo_open_pair_def demo_message_def Let_def new_mock_peer_def default_mock_config_def
      on_side_def send_wire_def ensure_open_def outbound_tx_def put_wire_def mock_poll_def mock_close_def emit_state_def)

theorem wire_delivers_in_order_witness:
  "\<exists>got m'. pair_run SideA demo_pair_ops demo_open_pair = ([demo_message 1, demo_message 2], got, m') \<and>
     media (add_events got (deliver_all (queue_from SideA (pair_wire m')))) = media (deliver_all [demo_message 1, demo_message 2])"
proof -
  have "well_paired demo_open_pair" and "queue_from SideA (pair_wire demo_open_pair) = []"
    by (simp_all add: well_paired_def demo_open_pair_def Let_def queue_from_def)
  with wire_delivers_in_order [OF _ demo_pair_ops_run] show ?thesis using demo_pair_ops_run by (metis append_Nil)
qed

end
