(* ===== verification/Viewer_Props.thy ===== *)
theory Viewer_Props
  imports Viewer_Session
begin

text \<open>
  Properties of the viewer's session: whose offers it answers, when input leaves it, that its proof satisfies the host, and that what it
  keeps stays bounded whatever it is sent.
\<close>

section \<open>Offers\<close>

lemma check_offer_sig_ok:
  "check_offer_sig E (Some g) s = Some (Inr ()) \<longleftrightarrow>
     g = [] \<or> (\<exists>vk sid fp. vs_host_key s = Some vk \<and> vs_session_id s = Some sid \<and> vs_host_fp s = Some fp \<and>
       verify_session_fingerprint (vp_ed25519 E) vk sid fp g = Some (Inr ()))"
proof -
  have unit: "z = Inr () \<longleftrightarrow> (\<forall>e. z \<noteq> Inl e)" for z :: "'e + unit" by (cases z) auto
  show ?thesis by (auto simp: check_offer_sig_def unit split: option.splits sum.splits)
qed

lemma verified_message:
  "verify_session_fingerprint D vk sid fp g = Some (Inr ()) \<Longrightarrow>
   \<exists>msg sig. encode_binding_message (utf8_bytes sid) (utf8_bytes fp) = Some msg \<and> ed_verify D vk msg sig"
  by (auto simp: verify_session_fingerprint_def verify_fingerprint_binding_def split: sum.splits if_splits)

lemma accept_offer_cases:
  assumes "accept_offer_with_sig E clk offer sig s = Some (r, s')"
    and "fingerprint_sign_material_from_sdp (sdp_text offer) = Some fp"
  shows "check_offer_sig E sig (s\<lparr>vs_host_fp := Some fp\<rparr>) = Some (Inr ()) \<or>
    (\<exists>e. check_offer_sig E sig (s\<lparr>vs_host_fp := Some fp\<rparr>) = Some (Inl e) \<and> r = Inl e \<and> s' = s\<lparr>vs_host_fp := Some fp\<rparr>)"
  using assms by (auto simp: accept_offer_with_sig_def Let_def split: option.splits sum.splits)

text \<open>
  C9. A substituted certificate is never answered. Say the enrolled key only verifies bindings the host signed.
  When a signed offer names a fingerprint and the viewer answers it, the host signed exactly that fingerprint for exactly
  this session; and when the check fails, nothing but the remembered fingerprint has
  changed: no description was given to the transport and the connection machine did not move.
\<close>

theorem only_the_hosts_certificate_is_answered:
  assumes "vs_host_key s = Some vk" and "vs_session_id s = Some sid"
    and unforged: "\<And>msg sig. ed_verify (vp_ed25519 E) vk msg sig \<Longrightarrow>
      \<exists>(sid', fp') \<in> host_signed. encode_binding_message (utf8_bytes sid') (utf8_bytes fp') = Some msg"
    and "g \<noteq> []" and "fingerprint_sign_material_from_sdp (sdp_text offer) = Some fp"
    and "accept_offer_with_sig E clk offer (Some g) s = Some (r, s')"
  shows "(sid, fp) \<in> host_signed \<or> (\<exists>e. r = Inl e \<and> s' = s\<lparr>vs_host_fp := Some fp\<rparr>)"
  using accept_offer_cases [OF assms(6,5)]
proof
  assume "check_offer_sig E (Some g) (s\<lparr>vs_host_fp := Some fp\<rparr>) = Some (Inr ())"
  then have "verify_session_fingerprint (vp_ed25519 E) vk sid fp g = Some (Inr ())"
    using assms(1,2,4) by (auto simp: check_offer_sig_ok)
  from verified_message [OF this] obtain msg sig where
    m: "encode_binding_message (utf8_bytes sid) (utf8_bytes fp) = Some msg" and "ed_verify (vp_ed25519 E) vk msg sig" by blast
  from unforged [OF this(2)] obtain sid' fp' where s: "(sid', fp') \<in> host_signed"
    and m': "encode_binding_message (utf8_bytes sid') (utf8_bytes fp') = Some msg" by blast
  from encode_binding_inject [OF m m'] have "sid' = sid \<and> fp' = fp" by simp
  with s show ?thesis by blast
qed auto

text \<open>
  An offer that names no fingerprint is checked against the one remembered from an earlier offer: the error
  \<open>missing a=fingerprint\<close> is reported only when nothing is remembered.
\<close>

lemma offer_without_fingerprint_passes:
  assumes "fingerprint_sign_material_from_sdp (sdp_text offer) = None"
    and "vs_host_key s = Some vk" "vs_session_id s = Some sid" "vs_host_fp s = Some old"
    and "verify_session_fingerprint (vp_ed25519 E) vk sid old g = Some (Inr ())"
  shows "check_offer_sig E (Some g) s = Some (Inr ())"
  using assms by (auto simp: check_offer_sig_ok)

section \<open>The input gate\<close>

datatype viewer_input_call =
    CallRaw instant raw_input
  | CallPoll instant
  | CallMove f32 f32
  | CallButton mouse_button_kind bool f32 f32
  | CallWheel f32 f32 bool f32 f32
  | CallKey u32 bool bool u32
  | CallKeyNamed named_key bool u32

definition unit_result :: "(viewer_error + unit) \<times> 'a \<Rightarrow> (viewer_error + nat) \<times> 'a" where
  "unit_result r = (case r of (Inl e, s) \<Rightarrow> (Inl e, s) | (Inr _, s) \<Rightarrow> (Inr 1, s))"

fun input_call ::
  "('p, 'v, 's) viewer_env \<Rightarrow> (nat \<Rightarrow> u64) \<Rightarrow> viewer_input_call \<Rightarrow> ('p, 'v, 's) viewer_session
     \<Rightarrow> (viewer_error + nat) \<times> ('p, 'v, 's) viewer_session" where
  "input_call E ts (CallRaw now raw) s = push_raw_input E ts now raw s"
| "input_call E ts (CallPoll now) s = poll_input_capture E ts now s"
| "input_call E ts (CallMove x y) s = unit_result (send_mouse_move E (ts 0) x y s)"
| "input_call E ts (CallButton b p x y) s = unit_result (send_mouse_button E (ts 0) b p x y s)"
| "input_call E ts (CallWheel dx dy p x y) s = unit_result (send_mouse_wheel E (ts 0) dx dy p x y s)"
| "input_call E ts (CallKey sc ext p m) s = unit_result (send_key E (ts 0) sc ext p m s)"
| "input_call E ts (CallKeyNamed k p m) s = unit_result (send_key_named E (ts 0) k p m s)"

lemmas input_call_defs = push_raw_input_def poll_input_capture_def send_mouse_move_def send_mouse_button_def
  send_mouse_wheel_def send_key_def send_key_named_def send_direct_def unit_result_def

lemma gate_closed:
  "ensure_can_send_input s = Inl e \<Longrightarrow> input_call E ts c s = (Inl e, s)"
  by (cases c) (simp_all add: input_call_defs)

lemma send_needs_transport:
  "send_encoded E enc s = (Inr (), s') \<Longrightarrow> vs_transport s \<noteq> None"
  by (auto simp: send_encoded_def vs_send_data_def on_transport_def split: prod.splits sum.splits option.splits)

lemma send_all_needs_transport:
  "send_all E ts cs sent s = (Inr n, s') \<Longrightarrow> sent < n \<Longrightarrow> vs_transport s \<noteq> None"
  using send_needs_transport by (cases cs) (fastforce simp: send_captured_def split: prod.splits sum.splits)+

lemma poll_moves_needs_transport:
  "poll_moves E ts now sent s = (Inr n, s') \<Longrightarrow> sent < n \<Longrightarrow> vs_transport s \<noteq> None"
proof -
  assume r: "poll_moves E ts now sent s = (Inr n, s')" and n: "sent < n"
  show ?thesis
  proof (cases "capture_poll now (vs_capture s)")
    case (Pair e cap)
    with r n obtain c where c: "e = Some c"
      by (cases e) (auto simp: poll_moves.simps [of E ts now sent s])
    obtain r1 s1 where 1: "send_captured E (ts sent) c (s\<lparr>vs_capture := cap\<rparr>) = (r1, s1)" by fastforce
    with r Pair c have "r1 = Inr ()" by (cases r1) (auto simp: poll_moves.simps [of E ts now sent s])
    with 1 send_needs_transport show ?thesis by (fastforce simp: send_captured_def)
  qed
qed

lemma gate_open:
  "ensure_can_send_input s = Inr () \<Longrightarrow> can_send_input (cm_phase (vs_machine s)) \<and> (vs_require_identity s \<longrightarrow> identity_bound (vs_identity s))"
  by (auto simp: ensure_can_send_input_def split: if_splits)

lemma input_sent_transport:
  assumes "input_call E ts c s = (Inr n, s')" "0 < n"
  shows "ensure_can_send_input s = Inr () \<and> vs_transport s \<noteq> None"
proof (cases "ensure_can_send_input s")
  case (Inl e)
  with gate_closed [OF Inl, of E ts c] assms(1) show ?thesis by simp
next
  case (Inr u)
  have push: "vs_transport s \<noteq> None" if "send_all E ts cs 0 (s\<lparr>vs_capture := cap\<rparr>) = (Inr n, s')" for cs cap
    using send_all_needs_transport [OF that] assms(2) by simp
  have direct: "vs_transport s \<noteq> None" if "unit_result (send_encoded E enc s) = (Inr n, s')" for enc
    using that send_needs_transport [of E enc s] by (auto simp: unit_result_def split: prod.splits sum.splits)
  have "vs_transport s \<noteq> None"
  proof (cases c)
    case (CallPoll now)
    with assms Inr poll_moves_needs_transport [of E ts now 0 s n s'] show ?thesis by (simp add: input_call_defs)
  next
    case (CallKeyNamed k p m)
    obtain sc where "lookup_scancode k = Some sc" using lookup_total by blast
    with CallKeyNamed assms Inr direct show ?thesis by (simp add: send_key_named_def)
  qed (use assms Inr push direct in \<open>auto simp: push_raw_input_def send_mouse_move_def send_mouse_button_def
      send_mouse_wheel_def send_key_def send_direct_def split: prod.splits\<close>)
  with Inr show ?thesis by simp
qed

text \<open>
  C8. Nothing the user does leaves an unlinked viewer. Whatever entry is used, a raw sample, a poll for a
  late move, or one of the direct calls: when the call reports that events were sent, a transport was attached, the identity was bound if that is required, and,
  in terms of what has happened to the connection machine, the latest connect was followed by
  \<open>Connected\<close> and by nothing that ends a link; and a call that the gate refuses changes nothing at all.
\<close>

theorem input_only_past_the_gate:
  assumes "vs_machine s = machine_run es new_machine" and "input_call E ts c s = (r, s')"
  shows "(\<forall>n > 0. r = Inr n \<longrightarrow> vs_transport s \<noteq> None \<and> (vs_require_identity s \<longrightarrow> identity_bound (vs_identity s)) \<and>
      (\<exists>old h tail. es = old @ BeginConnect h # tail \<and> TransportState CsConnected \<in> set tail \<and>
         \<not> list_ex restarts tail \<and> \<not> list_ex ends_link tail)) \<and>
    (\<forall>e. ensure_can_send_input s = Inl e \<longrightarrow> r = Inl e \<and> s' = s)"
proof (intro conjI allI impI)
  fix e assume "ensure_can_send_input s = Inl e"
  from gate_closed [OF this, of E ts c] assms(2) show "r = Inl e" "s' = s" by simp_all
next
  fix n assume "0 < n" "r = Inr n"
  with assms(2) input_sent_transport [of E ts c s n s'] have ok: "ensure_can_send_input s = Inr ()" "vs_transport s \<noteq> None"
    by auto
  note gate = gate_open [OF ok(1)]
  show "vs_transport s \<noteq> None" by (rule ok(2))
  show "identity_bound (vs_identity s)" if "vs_require_identity s" using that gate by blast
  show "\<exists>old h tail. es = old @ BeginConnect h # tail \<and> TransportState CsConnected \<in> set tail \<and>
      \<not> list_ex restarts tail \<and> \<not> list_ex ends_link tail"
    using gate assms(1) input_link_iff [of es] by simp
qed

subsection \<open>A concrete viewer\<close>

text \<open>A transport that accepts everything and remembers what was sent.\<close>

definition demo_viewer_env :: "(data_message list, unit, unit) viewer_env" where
  "demo_viewer_env = \<lparr>vp_crypto = tag_crypto, vp_ed25519 = toy_ed25519, vp_state = (\<lambda>_. CsConnected),
     vp_poll = (\<lambda>p. (Inr (), no_events, p)), vp_send_data = (\<lambda>m p. (Inr (), no_events, p @ [m])),
     vp_create_answer = (\<lambda>p. (Inr \<lparr>sdp_type_of = SdpAnswer, sdp_text = ''a''\<rparr>, no_events, p)),
     vp_set_local = (\<lambda>_ p. (Inr (), no_events, p)), vp_set_remote = (\<lambda>_ p. (Inr (), no_events, p)),
     vp_add_ice = (\<lambda>_ p. (Inr (), no_events, p)),
     vp_local_fingerprint = (\<lambda>_. Inr ''v''), vp_remote_fingerprint = (\<lambda>_. Inr (Some ''h'')),
     vp_decode = (\<lambda>_ v. Some (None, v)), vp_sink_push = null_sink_push, vp_sink_flush = id, vp_encode_input = (\<lambda>_. Inr ''{}'')\<rparr>"

definition demo_viewer :: "(data_message list, unit, unit) viewer_session" where
  "demo_viewer = \<lparr>vs_machine = machine_run [BeginConnect ''h'', BeginAnswer, TransportState CsConnected] new_machine,
     vs_transport = Some [], vs_buf = no_events, vs_video = (), vs_video_out = [], vs_video_out_cap = 32,
     vs_audio = new_audio_queue 64, vs_sink = (), vs_input = new_emitter, vs_capture = demo_capture, vs_pending_local_ice = [],
     vs_session_id = Some ''s'', vs_stats = default_stats, vs_recorded_video = [], vs_recorded_audio = [], vs_host_key = Some [9],
     vs_bind_key = Some (SessionBindKey [1]), vs_identity = new_identity ''s'', vs_host_fp = None, vs_require_identity = False,
     vs_skew = with_defaults, vs_last_video_present_ms = None, vs_last_audio_playout_ms = None, vs_wall_origin = None,
     vs_last_video_pts = None, vs_video_jitter_cfg = wan_default, vs_audio_jitter_cfg = wan_default, vs_auto_playout = True,
     vs_record_limit = Some 2\<rparr>"

theorem input_only_past_the_gate_witness:
  "\<exists>n s'. input_call demo_viewer_env (\<lambda>_. 0) (CallKey 28 False True 0) demo_viewer = (Inr n, s') \<and> 0 < n \<and> vs_transport demo_viewer \<noteq> None"
proof -
  define es where "es = [BeginConnect ''h'', BeginAnswer, TransportState CsConnected]"
  have m: "vs_machine demo_viewer = machine_run es new_machine" by (simp add: demo_viewer_def es_def)
  have "can_send_input (cm_phase (vs_machine demo_viewer))"
    by (simp add: demo_viewer_def machine_defs)
  then have "ensure_can_send_input demo_viewer = Inr ()" by (simp add: ensure_can_send_input_def) (simp add: demo_viewer_def)
  then obtain s' where c: "input_call demo_viewer_env (\<lambda>_. 0) (CallKey 28 False True 0) demo_viewer = (Inr 1, s')"
    by (simp add: send_key_def send_direct_def unit_result_def send_encoded_def em_key_def encode_captured_def make_event_def
        emitter_encode_def vs_send_data_def on_transport_def demo_viewer_env_def) (simp add: demo_viewer_def)
  from input_only_past_the_gate [OF m c] c show ?thesis by auto
qed

section \<open>Identity, end to end\<close>

text \<open>An answer computed over the host's session, key, nonce and certificates is accepted by the host.\<close>

lemma host_accepts_response:
  assumes "list_all (\<lambda>b. length b < 2 ^ 32) [utf8_bytes sid, nonce, utf8_bytes fp_host, utf8_bytes fp_viewer]"
    and "\<And>k b. length (hmac_sha256 K k b) = 32" and "ib_session_id st = sid"
  obtains response where "length response = 32" "respond_dc_challenge K key sid nonce fp_host fp_viewer = Some response"
    "complete_dc_bind K key nonce response fp_host fp_viewer st = Some (Inr (), mark_identity_bound st)"
proof -
  from assms(1) obtain msg where "encode_dc_bind_message (utf8_bytes sid) nonce (utf8_bytes fp_host) (utf8_bytes fp_viewer) = Some msg"
    by (simp add: encode_dc_bind_message_def append_lp_def)
  with assms(2,3) that [of "hmac_sha256 K (bind_key_bytes key) msg"] show thesis
    by (simp add: respond_dc_challenge_def compute_dc_bind_mac_def complete_dc_bind_def verify_dc_bind_mac_def DC_BIND_MAC_LEN_def)
qed

text \<open>
  C22. The viewer's proof satisfies the host. A host that has challenged its viewer, and a viewer that holds the same
  session and key and sees the two certificates the host sees, in the mirror order: the viewer answers the challenge with one
  message on the identity channel and marks itself bound, and the host, given the bytes of
  that message, accepts them and marks the session bound.
\<close>

theorem viewer_proof_satisfies_host:
  assumes host: "hm_challenge m = Some nonce" "hm_bind_key m = Some key" "ib_session_id (hm_identity m) = sid"
      "peer_local_fingerprint H (hm_peer m) = Inr fp_host" "peer_remote_fingerprint H (hm_peer m) = Inr (Some fp_viewer)"
    and viewer: "vs_bind_key s = Some key" "vs_session_id s = Some sid" "vs_transport s = Some p"
      "vp_remote_fingerprint E p = Inr (Some fp_host)" "vp_local_fingerprint E p = Inr fp_viewer"
    and same: "vp_crypto E = crypto_of H"
    and sends: "\<And>msg p. \<exists>ev p'. vp_send_data E msg p = (Inr (), ev, p') \<and> sent p' = sent p @ [msg]"
    and small: "list_all (\<lambda>b. length b < 2 ^ 32) [utf8_bytes sid, nonce, utf8_bytes fp_host, utf8_bytes fp_viewer]" "nonce \<noteq> []"
    and mac: "\<And>k b. length (hmac_sha256 (crypto_of H) k b) = 32"
  shows "\<exists>response s' p' m'.
    handle_identity_message E (encode_dc_challenge nonce) s = Some (Inr (), s') \<and> identity_bound (vs_identity s') \<and>
    vs_transport s' = Some p' \<and>
    sent p' = sent p @ [\<lparr>dm_label = IDENTITY_CHANNEL_LABEL, dm_data = encode_dc_response response, dm_unordered = False\<rparr>] \<and>
    handle_identity_data H (encode_dc_response response) m = Some (Inr (), m') \<and> identity_bound (hm_identity m')"
proof -
  obtain response where response: "length response = 32" "respond_dc_challenge (crypto_of H) key sid nonce fp_host fp_viewer = Some response"
    "complete_dc_bind (crypto_of H) key nonce response fp_host fp_viewer (hm_identity m) = Some (Inr (), mark_identity_bound (hm_identity m))"
    using host_accepts_response [OF small(1) mac host(3)] .
  let ?msg = "\<lparr>dm_label = IDENTITY_CHANNEL_LABEL, dm_data = encode_dc_response response, dm_unordered = False\<rparr>"
  obtain ev p' where p': "vp_send_data E ?msg p = (Inr (), ev, p')" "sent p' = sent p @ [?msg]" using sends by blast
  have "\<exists>s'. handle_identity_message E (encode_dc_challenge nonce) s = Some (Inr (), s') \<and> identity_bound (vs_identity s') \<and>
      vs_transport s' = Some p'"
    using viewer response(2) p'(1)
    by (simp add: handle_identity_message_def parse_encoded_challenge [OF small(2)] same Let_def on_transport_def
        sync_bind_status_def mark_identity_bound_def)
  moreover have "\<exists>m'. handle_identity_data H (encode_dc_response response) m = Some (Inr (), m') \<and> identity_bound (hm_identity m')"
    using host response(3) parse_encoded_response [OF response(1)]
    by (simp add: handle_identity_data_def Let_def local_fp_def remote_fp_def mark_identity_bound_def)
  ultimately show ?thesis using p'(2) by blast
qed

theorem viewer_proof_satisfies_host_witness:
  "\<exists>response s' m'. handle_identity_message demo_viewer_env (encode_dc_challenge [7]) demo_viewer = Some (Inr (), s') \<and>
     identity_bound (vs_identity s') \<and>
     handle_identity_data demo_env (encode_dc_response response) (demo_bound\<lparr>hm_challenge := Some [7]\<rparr>) = Some (Inr (), m')"
proof -
  let ?m = "demo_bound\<lparr>hm_challenge := Some [7]\<rparr>"
  have h: "hm_challenge ?m = Some [7]" "hm_bind_key ?m = Some (SessionBindKey [1])" "ib_session_id (hm_identity ?m) = ''s''"
    "peer_local_fingerprint demo_env (hm_peer ?m) = Inr ''h''" "peer_remote_fingerprint demo_env (hm_peer ?m) = Inr (Some ''v'')"
    by (simp_all add: demo_bound_def demo_env_def)
  have v: "vs_bind_key demo_viewer = Some (SessionBindKey [1])" "vs_session_id demo_viewer = Some ''s''" "vs_transport demo_viewer = Some []"
    "vp_remote_fingerprint demo_viewer_env [] = Inr (Some ''h'')" "vp_local_fingerprint demo_viewer_env [] = Inr ''v''"
    "vp_crypto demo_viewer_env = crypto_of demo_env"
    by (simp_all add: demo_viewer_def demo_viewer_env_def demo_env_def)
  have sends: "\<exists>ev p'. vp_send_data demo_viewer_env msg p = (Inr (), ev, p') \<and> id p' = id p @ [msg]" for msg p
    by (simp add: demo_viewer_env_def)
  have small: "list_all (\<lambda>b. length b < 2 ^ 32) [utf8_bytes ''s'', [7], utf8_bytes ''h'', utf8_bytes ''v'']" by simp
  have mac: "length (hmac_sha256 (crypto_of demo_env) k b) = 32" for k b by (simp add: demo_env_def)
  from viewer_proof_satisfies_host [OF h v(1-5) v(6) sends small _ mac] show ?thesis by blast
qed

subsection \<open>A signed offer\<close>

definition demo_offer :: session_description where
  "demo_offer = \<lparr>sdp_type_of = SdpOffer, sdp_text = ''v=0'' @ [CHR 0x0A] @ ''a=fingerprint:SHA-256 ab''\<rparr>"

lemma demo_offer_fingerprint: "fingerprint_sign_material_from_sdp (sdp_text demo_offer) = Some ''sha-256 AB''"
proof -
  have l: "split_lines (sdp_text demo_offer) = [''v=0'', ''a=fingerprint:SHA-256 ab'']" by (simp add: demo_offer_def)
  have t: "trim ''v=0'' = ''v=0''" "trim ''a=fingerprint:SHA-256 ab'' = ''a=fingerprint:SHA-256 ab''" "trim ''SHA-256 ab'' = ''SHA-256 ab''"
    by (rule trim_visible, simp add: visible_def)+
  have w: "next_word ''SHA-256 ab'' = Some (''SHA-256'', '' ab'')" "next_word '' ab'' = Some (''ab'', [])"
    using next_word_visible [of "''SHA-256''" "'' ab''"] next_word_visible [of "''ab''" "[]"]
    by (simp_all add: visible_def next_word_blank)
  have u: "ascii_lower ''SHA-256'' = ''sha-256''" "ascii_upper ''ab'' = ''AB''"
    by (simp_all add: ascii_lower_def ascii_upper_def char_of_def bit_iff_odd)
  show ?thesis
    by (simp add: fingerprint_sign_material_from_sdp_def l fingerprint_line_def t strip_prefix_def starts_with_def w u)
qed

definition demo_binding :: bytes where
  "demo_binding = the (encode_binding_message (utf8_bytes ''s'') (utf8_bytes ''sha-256 AB''))"

definition signing_viewer_env :: "(data_message list, unit, unit) viewer_env" where
  "signing_viewer_env = demo_viewer_env\<lparr>vp_ed25519 := toy_ed25519\<lparr>ed_verify := \<lambda>pk m g. m = demo_binding\<rparr>\<rparr>"

theorem only_the_hosts_certificate_is_answered_witness:
  "\<exists>r s'. accept_offer_with_sig signing_viewer_env (\<lambda>_. (0, 0)) demo_offer (Some (bytes_to_hex (replicate 64 0))) demo_viewer = Some (Inr r, s') \<and>
     (''s'', ''sha-256 AB'') \<in> {(''s'', ''sha-256 AB'')}"
proof -
  have b: "encode_binding_message (utf8_bytes ''s'') (utf8_bytes ''sha-256 AB'') = Some demo_binding"
    by (simp add: demo_binding_def encode_binding_message_def)
  have g: "bytes_to_hex (replicate 64 0) \<noteq> []" by (simp add: numeral_eq_Suc)
  have v: "verify_session_fingerprint (vp_ed25519 signing_viewer_env) [9] ''s'' ''sha-256 AB'' (bytes_to_hex (replicate 64 0)) = Some (Inr ())"
    by (simp add: verify_session_fingerprint_def hex_round_trip verify_fingerprint_binding_def b) (simp add: signing_viewer_env_def)
  then have "check_offer_sig signing_viewer_env (Some (bytes_to_hex (replicate 64 0))) (demo_viewer\<lparr>vs_host_fp := Some ''sha-256 AB''\<rparr>) = Some (Inr ())"
    by (auto simp: check_offer_sig_ok demo_viewer_def)
  then obtain r s' where r: "accept_offer_with_sig signing_viewer_env (\<lambda>_. (0, 0)) demo_offer (Some (bytes_to_hex (replicate 64 0))) demo_viewer = Some (Inr r, s')"
    by (simp add: accept_offer_with_sig_def demo_offer_fingerprint Let_def)
       (simp add: on_transport_def demo_viewer_def signing_viewer_env_def demo_viewer_env_def drain_callback_buf_def Let_def
          add_events_def no_events_def)
  have h: "vs_host_key demo_viewer = Some [9]" "vs_session_id demo_viewer = Some ''s''" by (simp_all add: demo_viewer_def)
  have "\<exists>(sid', fp') \<in> {(''s'', ''sha-256 AB'')}. encode_binding_message (utf8_bytes sid') (utf8_bytes fp') = Some msg"
    if "ed_verify (vp_ed25519 signing_viewer_env) [9] msg sig" for msg sig
    using that b by (simp add: signing_viewer_env_def)
  from only_the_hosts_certificate_is_answered [OF h this g demo_offer_fingerprint r] r show ?thesis by blast
qed

section \<open>Bounded memory\<close>

text \<open>The bounds of what a viewer keeps of its host's media, with a record limit of \<open>n\<close>.\<close>

definition bounded :: "nat \<Rightarrow> ('p, 'v, 's) viewer_session \<Rightarrow> bool" where
  "bounded n s \<longleftrightarrow> vs_record_limit s = Some n \<and> length (vs_recorded_video s) \<le> n \<and> length (vs_recorded_audio s) \<le> n \<and>
     vs_video_out_cap s = 32 \<and> length (vs_video_out s) \<le> 32 \<and> aq_capacity (vs_audio s) = 64 \<and> length (aq_queue (vs_audio s)) \<le> 64"

lemma push_recorded_bound: "length buf \<le> n \<Longrightarrow> length (push_recorded (Some n) x buf) \<le> n"
  by (cases n) (auto simp: push_recorded_def Let_def)

lemma push_frame_capacity:
  assumes "aq_capacity q = 64" "length (aq_queue q) \<le> 64"
  shows "aq_capacity (push_frame f q) = 64 \<and> length (aq_queue (push_frame f q)) \<le> 64"
  using push_frame_effect [of q f] assms by auto

lemma push_packet_capacity:
  assumes "aq_capacity q = 64" "length (aq_queue q) \<le> 64" "push_packet p q = (r, q')"
  shows "aq_capacity q' = 64 \<and> length (aq_queue q') \<le> 64"
  using assms push_frame_capacity by (auto simp: push_packet_def split: sum.splits prod.splits if_splits)

lemma pop_packet_capacity:
  assumes "aq_capacity q = 64" "length (aq_queue q) \<le> 64" "pop_packet q = (r, q')"
  shows "aq_capacity q' = 64 \<and> length (aq_queue q') \<le> 64"
  using assms by (auto simp: pop_packet_def split: list.splits)

lemma bounded_skew: "bounded n (refresh_skew_stats t s) = bounded n s" "bounded n (note_wall t s) = bounded n s"
  by (auto simp: refresh_skew_stats_def note_wall_def bounded_def split: option.splits prod.splits)

lemma handle_video_bounded:
  assumes "bounded n s" "handle_video E ts v s = Some s'" shows "bounded n s'"
  using assms push_recorded_bound
  by (auto simp: handle_video_def Let_def bounded_skew split: option.splits prod.splits) (auto simp: bounded_def push_recorded_bound)

lemma handle_audio_bounded:
  assumes "bounded n s" shows "bounded n (handle_audio E ts p s)"
proof -
  have q: "aq_capacity (vs_audio s) = 64" "length (aq_queue (vs_audio s)) \<le> 64" using assms by (auto simp: bounded_def)
  obtain r q1 where push: "push_packet p (vs_audio s) = (r, q1)" by fastforce
  note 1 = push_packet_capacity [OF q push]
  obtain r2 q2 where pop: "pop_packet q1 = (r2, q2)" by fastforce
  note 2 = pop_packet_capacity [OF conjunct1 [OF 1] conjunct2 [OF 1] pop]
  show ?thesis using assms 1 2 push pop
    by (auto simp: handle_audio_def Let_def bounded_skew split: sum.splits option.splits prod.splits)
       (auto simp: bounded_def push_recorded_bound)
qed

lemma handle_tracks_bounded:
  "bounded n s \<Longrightarrow> handle_tracks E clk i ts s = Some s' \<Longrightarrow> bounded n s'"
proof (induction ts arbitrary: i s)
  case (Cons t ts)
  then show ?case
    by (cases t) (auto split: option.splits intro: handle_video_bounded handle_audio_bounded)
qed simp

lemma on_transport_bounded: "on_transport f s = (r, s') \<Longrightarrow> bounded n s' = bounded n s"
  by (auto simp: on_transport_def bounded_def split: option.splits prod.splits sum.splits)

lemma bounded_parts:
  "bounded n (s\<lparr>vs_stats := st\<rparr>) = bounded n s"
  "bounded n (s\<lparr>vs_host_fp := f\<rparr>) = bounded n s"
  "bounded n (s\<lparr>vs_identity := i\<rparr>) = bounded n s"
  "bounded n (s\<lparr>vs_input := e\<rparr>) = bounded n s"
  "bounded n (s\<lparr>vs_capture := c\<rparr>) = bounded n s"
  "bounded n (s\<lparr>vs_machine := m\<rparr>) = bounded n s"
  "bounded n (s\<lparr>vs_buf := b\<rparr>) = bounded n s"
  "bounded n (s\<lparr>vs_pending_local_ice := ice\<rparr>) = bounded n s"
  "bounded n (s\<lparr>vs_transport := t\<rparr>) = bounded n s"
  "bounded n (s\<lparr>vs_sink := k\<rparr>) = bounded n s"
  "bounded n (sync_bind_status s) = bounded n s"
  "bounded n (teardown_transport s) = bounded n s"
  by (simp_all add: bounded_def sync_bind_status_def teardown_transport_def)

lemma handle_identity_bounded:
  "bounded n s \<Longrightarrow> handle_identity_message E d s = Some (r, s') \<Longrightarrow> bounded n s'"
  by (auto simp: handle_identity_message_def Let_def bounded_parts dest!: on_transport_bounded [of _ _ _ _ n]
        split: sum.splits dc_identity_message.splits option.splits prod.splits)

lemma handle_identities_bounded:
  "bounded n s \<Longrightarrow> handle_identity_messages E ds s = Some (r, s') \<Longrightarrow> bounded n s'"
proof (induction ds arbitrary: s)
  case (Cons d ds)
  then show ?case by (auto split: option.splits prod.splits sum.splits intro: handle_identity_bounded)
qed simp

lemma drain_bounded:
  assumes "bounded n s" "drain_callback_buf E clk s = Some (r, s')" shows "bounded n s'"
proof -
  let ?s1 = "s\<lparr>vs_buf := no_events, vs_pending_local_ice := vs_pending_local_ice s @ ve_ice (vs_buf s),
      vs_stats := count_ice (vs_buf s) (vs_stats s), vs_machine := fold on_transport_state (ve_states (vs_buf s)) (vs_machine s)\<rparr>"
  obtain s2 where 1: "handle_tracks E clk 0 (ve_tracks (vs_buf s)) ?s1 = Some s2"
    and 2: "\<exists>st ds. handle_identity_messages E ds (s2\<lparr>vs_stats := st\<rparr>) = Some (r, s')"
    using assms(2) by (auto simp: drain_callback_buf_def Let_def split: option.splits)
  have "bounded n ?s1" using assms(1) by (simp add: bounded_parts)
  from handle_tracks_bounded [OF this 1] have "bounded n (s2\<lparr>vs_stats := st\<rparr>)" for st by (simp add: bounded_parts)
  with 2 show ?thesis by (blast intro: handle_identities_bounded)
qed

lemma send_encoded_bounded: "send_encoded E enc s = (r, s') \<Longrightarrow> bounded n s' = bounded n s"
  by (auto simp: send_encoded_def vs_send_data_def bounded_parts dest!: on_transport_bounded [of _ _ _ _ n]
      split: prod.splits sum.splits)

lemma send_all_bounded: "send_all E ts cs sent s = (r, s') \<Longrightarrow> bounded n s' = bounded n s"
proof (induction cs arbitrary: sent s)
  case (Cons c cs)
  then show ?case
    by (auto simp: send_captured_def split: prod.splits sum.splits dest!: send_encoded_bounded [of _ _ _ _ _ n])
qed simp

lemma poll_moves_bounded: "poll_moves E ts now sent s = (r, s') \<Longrightarrow> bounded n s' = bounded n s"
proof (induction E ts now sent s rule: poll_moves.induct)
  case (1 E ts now sent s)
  obtain e cap where p: "capture_poll now (vs_capture s) = (e, cap)" by fastforce
  show ?case
  proof (cases e)
    case None
    with 1 p show ?thesis by (auto simp: poll_moves.simps [of E ts now sent s] bounded_parts)
  next
    case (Some c)
    obtain r1 s1 where q: "send_captured E (ts sent) c (s\<lparr>vs_capture := cap\<rparr>) = (r1, s1)" by fastforce
    then have s1: "bounded n s1 = bounded n s"
      using send_encoded_bounded [of E _ "s\<lparr>vs_capture := cap\<rparr>" r1 s1 n] by (simp add: send_captured_def bounded_parts)
    show ?thesis
    proof (cases r1)
      case (Inl x)
      with 1(2) p q Some s1 show ?thesis by (auto simp: poll_moves.simps [of E ts now sent s])
    next
      case (Inr u)
      have "bounded n s' = bounded n s1"
        using 1(2) p q Some Inr by (intro 1(1) [OF p [symmetric] Some q [symmetric] Inr]) (simp add: poll_moves.simps [of E ts now sent s])
      with s1 show ?thesis by simp
    qed
  qed
qed

lemma input_call_bounded: "input_call E ts c s = (r, s') \<Longrightarrow> bounded n s' = bounded n s"
proof -
  have unit: "bounded n s' = bounded n s" if "unit_result (send_encoded E enc s) = (r, s')" for enc s
    using that send_encoded_bounded [of E enc s _ _ n] by (auto simp: unit_result_def split: prod.splits sum.splits)
  have stop: "s' = s" if "unit_result (Inl e, s) = (r, s')" for e :: viewer_error and s
    using that by (simp add: unit_result_def)
  show "input_call E ts c s = (r, s') \<Longrightarrow> bounded n s' = bounded n s"
    by (cases c) (auto simp: push_raw_input_def poll_input_capture_def send_mouse_move_def send_mouse_button_def
      send_mouse_wheel_def send_key_def send_key_named_def send_direct_def bounded_parts
      split: sum.splits prod.splits option.splits dest: unit stop send_all_bounded [of _ _ _ _ _ _ _ n] poll_moves_bounded [of _ _ _ _ _ _ _ n])
qed

lemma pump_capacity:
  "pump_to_sink push n left q k = (r, q', k') \<Longrightarrow> aq_capacity q = 64 \<Longrightarrow> length (aq_queue q) \<le> 64 \<Longrightarrow>
   aq_capacity q' = 64 \<and> length (aq_queue q') \<le> 64"
proof (induction push n left q k rule: pump_to_sink.induct)
  case (2 push n left q k)
  then show ?case by (auto split: option.splits prod.splits sum.splits dest: pop_packet_capacity [rotated 2])
qed simp

lemma pump_playout_bounded:
  assumes "bounded n s" "pump_playout E limit s = (r, s')" shows "bounded n s'"
  using assms by (auto simp: pump_playout_def split: prod.splits sum.splits)
    (auto simp: bounded_def dest!: pump_capacity)

lemma offer_bounded:
  assumes "bounded n s" "accept_offer_with_sig E clk offer sig s = Some (r, s')" shows "bounded n s'"
proof -
  define s1 where "s1 = (case fingerprint_sign_material_from_sdp (sdp_text offer) of
      Some fp \<Rightarrow> s\<lparr>vs_host_fp := Some fp\<rparr> | None \<Rightarrow> s)"
  have "bounded n s1" using assms(1) by (simp add: s1_def bounded_parts split: option.splits)
  then show ?thesis using assms(2) unfolding accept_offer_with_sig_def s1_def [symmetric] Let_def
    by (auto simp: bounded_parts dest!: on_transport_bounded [of _ _ _ _ n] split: option.splits sum.splits prod.splits if_splits
        intro: drain_bounded)
qed

subsection \<open>Whatever the host sends, whatever the user does\<close>

datatype ('p, 's) viewer_step =
    StConnect connect_request
  | StAttach 'p
  | StOffer "nat \<Rightarrow> instant \<times> instant" session_description "string option"
  | StIce "nat \<Rightarrow> instant \<times> instant" ice_candidate
  | StPoll "nat \<Rightarrow> instant \<times> instant" instant
  | StAuthorized
  | StInput "nat \<Rightarrow> u64" viewer_input_call
  | StPlayout nat
  | StDrainVideo
  | StDrainAudio
  | StTakeIce
  | StClose

text \<open>The session after one call, whatever the call returned; \<open>None\<close> when it panics.\<close>

fun viewer_after :: "('p, 'v, 's) viewer_env \<Rightarrow> ('p, 's) viewer_step \<Rightarrow> ('p, 'v, 's) viewer_session \<Rightarrow> ('p, 'v, 's) viewer_session option" where
  "viewer_after E (StConnect req) s = map_option snd (vs_begin_connect req s)"
| "viewer_after E (StAttach p) s = Some (attach_transport p s)"
| "viewer_after E (StOffer clk offer sig) s = map_option snd (accept_offer_with_sig E clk offer sig s)"
| "viewer_after E (StIce clk c) s = map_option snd (add_remote_ice E clk c s)"
| "viewer_after E (StPoll clk now) s = map_option snd (vs_poll E clk now s)"
| "viewer_after E StAuthorized s = Some (mark_session_authorized s)"
| "viewer_after E (StInput ts c) s = Some (snd (input_call E ts c s))"
| "viewer_after E (StPlayout limit) s = Some (snd (pump_playout E limit s))"
| "viewer_after E StDrainVideo s = Some (snd (drain_video_frames s))"
| "viewer_after E StDrainAudio s = Some (snd (drain_audio s))"
| "viewer_after E StTakeIce s = Some (snd (take_pending_local_ice s))"
| "viewer_after E StClose s = Some (vs_close E s)"

fun viewer_run :: "('p, 'v, 's) viewer_env \<Rightarrow> ('p, 's) viewer_step list \<Rightarrow> ('p, 'v, 's) viewer_session \<Rightarrow> ('p, 'v, 's) viewer_session option" where
  "viewer_run E [] s = Some s"
| "viewer_run E (c # cs) s = (case viewer_after E c s of None \<Rightarrow> None | Some s' \<Rightarrow> viewer_run E cs s')"

lemma connect_bounded: "bounded n s \<Longrightarrow> vs_begin_connect req s = Some (r, s') \<Longrightarrow> bounded n s'"
  by (auto simp: vs_begin_connect_def Let_def split: sum.splits option.splits)
     (simp add: bounded_def sync_bind_status_def teardown_transport_def new_audio_queue_def)

lemma ice_bounded: "bounded n s \<Longrightarrow> add_remote_ice E clk c s = Some (r, s') \<Longrightarrow> bounded n s'"
  by (auto simp: add_remote_ice_def split: prod.splits sum.splits dest!: on_transport_bounded [of _ _ _ _ n] intro: drain_bounded)

lemma poll_bounded: "bounded n s \<Longrightarrow> vs_poll E clk now s = Some (r, s') \<Longrightarrow> bounded n s'"
  by (auto simp: vs_poll_def bounded_parts bounded_skew split: if_splits prod.splits sum.splits option.splits
      dest!: on_transport_bounded [of _ _ _ _ n] intro: drain_bounded)

lemma viewer_after_bounded:
  assumes "bounded n s" "viewer_after E c s = Some s'" shows "bounded n s'"
proof (cases c)
  case (StConnect req) with assms show ?thesis by (auto intro: connect_bounded)
next
  case (StAttach p) with assms show ?thesis by (auto simp: attach_transport_def bounded_parts)
next
  case (StOffer clk offer sig) with assms show ?thesis by (auto intro: offer_bounded)
next
  case (StIce clk i) with assms show ?thesis by (auto intro: ice_bounded)
next
  case (StPoll clk now) with assms show ?thesis by (auto intro: poll_bounded)
next
  case StAuthorized with assms show ?thesis by (auto simp: mark_session_authorized_def bounded_parts)
next
  case (StInput ts i)
  with assms show ?thesis by (cases "input_call E ts i s") (auto dest: input_call_bounded)
next
  case (StPlayout limit)
  with assms show ?thesis by (cases "pump_playout E limit s") (auto intro: pump_playout_bounded)
next
  case StClose with assms show ?thesis by (auto simp: vs_close_def Let_def bounded_parts)
qed (use assms in \<open>auto simp: drain_video_frames_def drain_audio_def drain_queue_def take_pending_local_ice_def bounded_def\<close>)

lemma viewer_run_bounded: "bounded n s \<Longrightarrow> viewer_run E cs s = Some s' \<Longrightarrow> bounded n s'"
  by (induction cs arbitrary: s) (auto split: option.splits intro: viewer_after_bounded)


lemma demo_connect_ok: "connect_stub (unattended_request ''h'' ''aaaaaaaa'') = Inr \<lparr>cs_session_id = ''sess-stub-h'', cs_accepted = True\<rparr>"
proof -
  have "trim ''h'' = ''h''" "trim ''aaaaaaaa'' = ''aaaaaaaa''" by (rule trim_all_visible, simp add: visible_def)+
  then show ?thesis
    by (simp add: connect_stub_def validate_request_def unattended_request_def sanitize_id_def is_ascii_alnum_def cont_def)
qed

definition demo_viewer_calls :: "(data_message list, unit) viewer_step list" where
  "demo_viewer_calls = [StAttach [], StPlayout 4, StDrainVideo, StAuthorized, StClose]"


section \<open>Starting again\<close>

text \<open>
  A new connect inherits nothing of the last session. Whatever state the viewer is in, a connect that is accepted leaves no
  transport, no undelivered events, frames, packets, records or candidates, an identity that is neither authorized nor
  bound, for the session just created, no remembered fingerprint, events that number from one, and
  a gate that refuses every kind of input.
\<close>

theorem reconnect_starts_clean:
  assumes "vs_begin_connect req s = Some (Inr stub, s')"
  shows "vs_transport s' = None \<and> vs_buf s' = no_events \<and> vs_pending_local_ice s' = [] \<and> vs_video_out s' = [] \<and>
    aq_queue (vs_audio s') = [] \<and> vs_recorded_video s' = [] \<and> vs_recorded_audio s' = [] \<and>
    vs_session_id s' = Some (cs_session_id stub) \<and> vs_identity s' = new_identity (cs_session_id stub) \<and>
    vs_host_fp s' = None \<and> vs_input s' = new_emitter \<and> (\<forall>E ts c. \<exists>e. input_call E ts c s' = (Inl e, s'))"
proof -
  have ph: "\<not> can_send_input (cm_phase (vs_machine s'))"
    using assms by (auto simp: vs_begin_connect_def Let_def sync_bind_status_def machine_defs split: sum.splits option.splits)
  then have "\<exists>e. ensure_can_send_input s' = Inl e" by (simp add: ensure_can_send_input_def)
  then have "\<forall>E ts c. \<exists>e. input_call E ts c s' = (Inl e, s')" using gate_closed by metis
  with assms show ?thesis
    by (auto simp: vs_begin_connect_def Let_def sync_bind_status_def teardown_transport_def new_audio_queue_def split: sum.splits option.splits)
qed

theorem reconnect_starts_clean_witness:
  "\<exists>s'. vs_begin_connect (unattended_request ''h'' ''aaaaaaaa'') (demo_viewer\<lparr>vs_capture := demo_capture\<rparr>) =
      Some (Inr \<lparr>cs_session_id = ''sess-stub-h'', cs_accepted = True\<rparr>, s') \<and> vs_transport s' = None \<and> vs_transport demo_viewer \<noteq> None"
proof -
  have "\<exists>c. new_capture (ic_config demo_capture) = Some c" using new_default_capture by (simp add: demo_capture_def)
  then obtain s' where s': "vs_begin_connect (unattended_request ''h'' ''aaaaaaaa'') (demo_viewer\<lparr>vs_capture := demo_capture\<rparr>) =
      Some (Inr \<lparr>cs_session_id = ''sess-stub-h'', cs_accepted = True\<rparr>, s')"
    by (auto simp: vs_begin_connect_def demo_connect_ok Let_def teardown_transport_def)
  from reconnect_starts_clean [OF s'] s' show ?thesis by (simp add: demo_viewer_def)
qed

section \<open>The last position arrives\<close>

lemma capture_poll_due:
  assumes "may_capture c" "co_pending (ic_coalescer c) = Some (x, y)" "co_next_poll_deadline t0 (ic_coalescer c) = Some d" "d \<le> now"
  shows "\<exists>c'. capture_poll now c = (Some (CapMove x y), c') \<and> co_pending (ic_coalescer c') = None"
  using assms by (auto simp: capture_poll_def co_poll_def take_emit_def should_emit_def co_next_poll_deadline_def split: option.splits)

lemma capture_poll_idle: "co_pending (ic_coalescer c) = None \<Longrightarrow> capture_poll now c = (None, c)"
  by (simp add: capture_poll_def co_poll_def)

lemma poll_moves_idle: "co_pending (ic_coalescer (vs_capture s)) = None \<Longrightarrow> poll_moves E ts now n s = (Inr n, s)"
  by (simp add: poll_moves.simps [of E ts now n s] capture_poll_idle)

lemma send_captured_delivers:
  assumes "vs_transport s = Some p" "vp_encode_input E (fst (make_event ts (captured_payload c) (vs_input s))) = Inr json"
    and "\<And>msg p. \<exists>ev p'. vp_send_data E msg p = (Inr (), ev, p') \<and> sent p' = sent p @ [msg]"
  shows "\<exists>s' p' unordered. send_captured E ts c s = (Inr (), s') \<and> vs_transport s' = Some p' \<and>
    sent p' = sent p @ [\<lparr>dm_label = INPUT_CHANNEL_LABEL, dm_data = utf8_bytes json, dm_unordered = unordered\<rparr>]"
proof -
  define e em where "e = fst (make_event ts (captured_payload c) (vs_input s))" and "em = snd (make_event ts (captured_payload c) (vs_input s))"
  define msg where "msg = \<lparr>dm_label = INPUT_CHANNEL_LABEL, dm_data = utf8_bytes json,
      dm_unordered = ((\<exists>m. in_payload e = MouseMove m) \<and> em_moves_unordered em)\<rparr>"
  obtain ev p' where "vp_send_data E msg p = (Inr (), ev, p')" "sent p' = sent p @ [msg]" using assms(3) by blast
  moreover have "encode_captured (vp_encode_input E) ts c (vs_input s) = (Inr (e, msg), em\<lparr>em_emitted := sat_add (em_emitted em) 1\<rparr>)"
    using assms(2) by (cases "make_event ts (captured_payload c) (vs_input s)")
      (simp add: encode_captured_def emitter_encode_def e_def em_def msg_def)
  ultimately show ?thesis using assms(1)
    by (simp add: send_captured_def send_encoded_def vs_send_data_def on_transport_def msg_def)
qed

text \<open>
  C37. The pointer's last position arrives. When a position is waiting, the gate is open, and the transport and the encoder
  work, a poll at or after the deadline that \<open>input_next_poll_deadline\<close> announced ends, reports one event,
  has given the transport one message on the input channel that encodes just that position with the next sequence
  number, and leaves nothing waiting: another poll sends nothing.
\<close>

theorem waiting_position_arrives:
  assumes gate: "ensure_can_send_input s = Inr ()" "vs_transport s = Some p" "may_capture (vs_capture s)"
    and waiting: "co_pending (ic_coalescer (vs_capture s)) = Some (x, y)"
      "co_next_poll_deadline t0 (ic_coalescer (vs_capture s)) = Some deadline" "deadline \<le> now"
    and sends: "\<And>msg p. \<exists>ev p'. vp_send_data E msg p = (Inr (), ev, p') \<and> sent p' = sent p @ [msg]"
    and encodes: "vp_encode_input E \<lparr>client_ts_us = ts 0, in_seq = em_next_seq (vs_input s),
      in_payload = MouseMove \<lparr>mm_x = clamp01 x, mm_y = clamp01 y, mm_display_id = 0\<rparr>\<rparr> = Inr json"
  shows "\<exists>s' p' unordered. poll_input_capture E ts now s = (Inr 1, s') \<and> vs_transport s' = Some p' \<and>
    sent p' = sent p @ [\<lparr>dm_label = INPUT_CHANNEL_LABEL, dm_data = utf8_bytes json, dm_unordered = unordered\<rparr>] \<and>
    (\<forall>ts later. poll_moves E ts later 0 s' = (Inr 0, s'))"
proof -
  obtain cap where cap: "capture_poll now (vs_capture s) = (Some (CapMove x y), cap)" "co_pending (ic_coalescer cap) = None"
    using capture_poll_due [OF gate(3) waiting] by blast
  have "vp_encode_input E (fst (make_event (ts 0) (captured_payload (CapMove x y)) (vs_input (s\<lparr>vs_capture := cap\<rparr>)))) = Inr json"
    using encodes by (simp add: make_event_def)
  from send_captured_delivers [OF _ this sends] gate(2) obtain s' p' unordered where
    s': "send_captured E (ts 0) (CapMove x y) (s\<lparr>vs_capture := cap\<rparr>) = (Inr (), s')" "vs_transport s' = Some p'"
      "sent p' = sent p @ [\<lparr>dm_label = INPUT_CHANNEL_LABEL, dm_data = utf8_bytes json, dm_unordered = unordered\<rparr>]" by auto
  have idle: "co_pending (ic_coalescer (vs_capture s')) = None" using send_captured_capture [OF s'(1)] cap(2) by simp
  have "poll_input_capture E ts now s = poll_moves E ts now (sat_usize 1) s'"
    by (simp add: poll_input_capture_def gate(1) poll_moves.simps [of E ts now 0 s] cap(1) s'(1))
  also have "\<dots> = (Inr 1, s')" by (simp add: poll_moves_idle [OF idle] sat_usize_def)
  finally show ?thesis using s'(2,3) poll_moves_idle [OF idle] by blast
qed

definition waiting_viewer :: "(data_message list, unit, unit) viewer_session" where
  "waiting_viewer = demo_viewer\<lparr>vs_capture := demo_capture\<lparr>ic_coalescer := (new_coalescer 5)\<lparr>co_pending := Some (0, 0), co_last_emit := Some 100\<rparr>\<rparr>\<rparr>"

theorem waiting_position_arrives_witness:
  "\<exists>s' p'. poll_input_capture demo_viewer_env (\<lambda>_. 0) 105 waiting_viewer = (Inr 1, s') \<and> vs_transport s' = Some p' \<and> length p' = 1"
proof -
  have g: "ensure_can_send_input waiting_viewer = Inr ()"
    by (simp add: ensure_can_send_input_def waiting_viewer_def) (simp add: demo_viewer_def machine_defs)
  have t: "vs_transport waiting_viewer = Some []" by (simp add: waiting_viewer_def demo_viewer_def)
  have m: "may_capture (vs_capture waiting_viewer)"
    by (simp add: waiting_viewer_def demo_capture_def may_capture_def always_capture_def)
  have w: "co_pending (ic_coalescer (vs_capture waiting_viewer)) = Some (0, 0)"
    "co_next_poll_deadline 0 (ic_coalescer (vs_capture waiting_viewer)) = Some 105"
    by (simp_all add: waiting_viewer_def co_next_poll_deadline_def new_coalescer_def)
  have sends: "\<exists>ev p'. vp_send_data demo_viewer_env msg p = (Inr (), ev, p') \<and> id p' = id p @ [msg]" for msg p
    by (simp add: demo_viewer_env_def)
  have enc: "vp_encode_input demo_viewer_env \<lparr>client_ts_us = 0, in_seq = em_next_seq (vs_input waiting_viewer),
      in_payload = MouseMove \<lparr>mm_x = clamp01 0, mm_y = clamp01 0, mm_display_id = 0\<rparr>\<rparr> = Inr ''{}''" by (simp add: demo_viewer_env_def)
  from waiting_position_arrives [OF g t m w order_refl sends, of "\<lambda>_. 0" "''{}''", OF enc] show ?thesis by fastforce
qed

end
