(* ===== verification/Loopback_Session.thy ===== *)
theory Loopback_Session
  imports Peer_Props Viewer_Props
begin

text \<open>
  Host and viewer together: the session manager of the host and the session of the viewer, each on its end of the in-process wire. Their
  transport methods are those of the mock peer, and a call of one side leaves what it put on the wire for the other.
\<close>

section \<open>The two environments\<close>

definition host_events :: "viewer_events \<Rightarrow> peer_events" where
  "host_events ev = \<lparr>ev_ice = ve_ice ev, ev_data = ve_data ev\<rparr>"

definition as_host_op :: "'r mock_op \<Rightarrow> (mock_end, 'r) peer_op" where
  "as_host_op f e = (case f e of (r, ev, e') \<Rightarrow> (map_sum show_net_error id r, host_events ev, e'))"

definition as_viewer_op :: "'r mock_op \<Rightarrow> (mock_end, 'r) viewer_op" where
  "as_viewer_op f e = (case f e of (r, ev, e') \<Rightarrow> (map_sum show_net_error id r, ev, e'))"

definition mock_local_fp :: "mock_end \<Rightarrow> string + string" where
  "mock_local_fp e = map_sum show_net_error as_sign_material (local_fingerprint e)"

definition mock_remote_fp :: "mock_end \<Rightarrow> string + string option" where
  "mock_remote_fp e = map_sum show_net_error (map_option as_sign_material) (remote_fingerprint e)"

definition mock_host_env :: "(mock_end, 'i) host_env \<Rightarrow> (mock_end, 'i) host_env" where
  "mock_host_env E = E\<lparr>peer_state := \<lambda>e. mp_state (fst e), peer_poll := as_host_op mock_poll,
     peer_send_data := \<lambda>m. as_host_op (mock_send_data m), peer_create_offer := as_host_op mock_create_offer,
     peer_set_local := \<lambda>d. as_host_op (mock_set_local d), peer_set_remote := \<lambda>d. as_host_op (mock_set_remote d),
     peer_add_ice := \<lambda>c. as_host_op (mock_add_ice c),
     peer_local_fingerprint := mock_local_fp, peer_remote_fingerprint := mock_remote_fp\<rparr>"

definition mock_viewer_env :: "(mock_end, 'v, 's) viewer_env \<Rightarrow> (mock_end, 'v, 's) viewer_env" where
  "mock_viewer_env V = V\<lparr>vp_state := \<lambda>e. mp_state (fst e), vp_poll := as_viewer_op mock_poll,
     vp_send_data := \<lambda>m. as_viewer_op (mock_send_data m), vp_create_answer := as_viewer_op mock_create_answer,
     vp_set_local := \<lambda>d. as_viewer_op (mock_set_local d), vp_set_remote := \<lambda>d. as_viewer_op (mock_set_remote d),
     vp_add_ice := \<lambda>c. as_viewer_op (mock_add_ice c),
     vp_local_fingerprint := mock_local_fp, vp_remote_fingerprint := mock_remote_fp\<rparr>"

lemma mock_host_env_sel [simp]:
  "peer_state (mock_host_env E) = (\<lambda>e. mp_state (fst e))" "peer_poll (mock_host_env E) = as_host_op mock_poll"
  "peer_send_data (mock_host_env E) = (\<lambda>m. as_host_op (mock_send_data m))"
  "peer_create_offer (mock_host_env E) = as_host_op mock_create_offer"
  "peer_set_local (mock_host_env E) = (\<lambda>d. as_host_op (mock_set_local d))"
  "peer_set_remote (mock_host_env E) = (\<lambda>d. as_host_op (mock_set_remote d))"
  "peer_local_fingerprint (mock_host_env E) = mock_local_fp" "peer_remote_fingerprint (mock_host_env E) = mock_remote_fp"
  "crypto_of (mock_host_env E) = crypto_of E" "ed25519_of (mock_host_env E) = ed25519_of E"
  "json_sdp_from_str (mock_host_env E) = json_sdp_from_str E" "json_sdp_to_string (mock_host_env E) = json_sdp_to_string E"
  "json_ice_to_string (mock_host_env E) = json_ice_to_string E"
  "json_decode_input (mock_host_env E) = json_decode_input E" "inject_backend (mock_host_env E) = inject_backend E"
  "open_media (mock_host_env E) = open_media E"
  by (simp_all add: mock_host_env_def)

lemma mock_viewer_env_sel [simp]:
  "vp_state (mock_viewer_env V) = (\<lambda>e. mp_state (fst e))" "vp_poll (mock_viewer_env V) = as_viewer_op mock_poll"
  "vp_send_data (mock_viewer_env V) = (\<lambda>m. as_viewer_op (mock_send_data m))"
  "vp_create_answer (mock_viewer_env V) = as_viewer_op mock_create_answer"
  "vp_set_local (mock_viewer_env V) = (\<lambda>d. as_viewer_op (mock_set_local d))"
  "vp_set_remote (mock_viewer_env V) = (\<lambda>d. as_viewer_op (mock_set_remote d))"
  "vp_local_fingerprint (mock_viewer_env V) = mock_local_fp" "vp_remote_fingerprint (mock_viewer_env V) = mock_remote_fp"
  "vp_crypto (mock_viewer_env V) = vp_crypto V" "vp_ed25519 (mock_viewer_env V) = vp_ed25519 V"
  "vp_decode (mock_viewer_env V) = vp_decode V" "vp_encode_input (mock_viewer_env V) = vp_encode_input V"
  by (simp_all add: mock_viewer_env_def)

section \<open>Two sides, one wire\<close>

record ('i, 'v, 's) linked =
  ln_host :: "(mock_end, 'i) session_manager"
  ln_viewer :: "(mock_end, 'v, 's) viewer_session"

definition host_does ::
  "((mock_end, 'i) session_manager \<Rightarrow> ('r \<times> (mock_end, 'i) session_manager) option) \<Rightarrow> ('i, 'v, 's) linked \<Rightarrow> ('r \<times> ('i, 'v, 's) linked) option" where
  "host_does f l = (case f (ln_host l) of
     None \<Rightarrow> None
   | Some (r, h) \<Rightarrow> Some (r, l\<lparr>ln_host := h,
       ln_viewer := (ln_viewer l)\<lparr>vs_transport := map_option (\<lambda>e. (fst e, snd (hm_peer h))) (vs_transport (ln_viewer l))\<rparr>\<rparr>))"

definition viewer_does ::
  "((mock_end, 'v, 's) viewer_session \<Rightarrow> ('r \<times> (mock_end, 'v, 's) viewer_session) option) \<Rightarrow> ('i, 'v, 's) linked \<Rightarrow> ('r \<times> ('i, 'v, 's) linked) option" where
  "viewer_does f l = (case f (ln_viewer l) of
     None \<Rightarrow> None
   | Some (r, v) \<Rightarrow> Some (r, l\<lparr>ln_viewer := v,
       ln_host := (ln_host l)\<lparr>hm_peer := (fst (hm_peer (ln_host l)),
         case vs_transport v of Some e \<Rightarrow> snd e | None \<Rightarrow> snd (hm_peer (ln_host l)))\<rparr>\<rparr>))"

text \<open>Both ends connected over an open wire with nothing on it and nothing left in the callback queues, each knowing the other's certificate.\<close>

definition wire_of :: "wire_msg list \<Rightarrow> wire_msg list \<Rightarrow> loopback_wire" where
  "wire_of to_a to_b = \<lparr>lw_to_a = to_a, lw_to_b = to_b, lw_open = True\<rparr>"

definition joined :: "mock_peer \<Rightarrow> mock_peer \<Rightarrow> ('i, 'v, 's) linked \<Rightarrow> bool" where
  "joined a b l \<longleftrightarrow>
     hm_peer (ln_host l) = (a, wire_of [] []) \<and> vs_transport (ln_viewer l) = Some (b, wire_of [] []) \<and>
     mp_side a = Some SideA \<and> mp_side b = Some SideB \<and> mp_state a = CsConnected \<and> mp_state b = CsConnected \<and>
     \<not> mp_closed a \<and> \<not> mp_closed b \<and> mp_remote_fp a = Some (mp_local_fp b) \<and> mp_remote_fp b = Some (mp_local_fp a) \<and>
     hm_data (ln_host l) = [] \<and> vs_buf (ln_viewer l) = no_events"

section \<open>The identity exchange\<close>

lemma refresh_skew_keeps [simp]:
  "vs_transport (refresh_skew_stats now s) = vs_transport s" "vs_buf (refresh_skew_stats now s) = vs_buf s"
  "vs_identity (refresh_skew_stats now s) = vs_identity s" "vs_machine (refresh_skew_stats now s) = vs_machine s"
  "vs_session_id (refresh_skew_stats now s) = vs_session_id s" "vs_bind_key (refresh_skew_stats now s) = vs_bind_key s"
  "vs_require_identity (refresh_skew_stats now s) = vs_require_identity s" "vs_input (refresh_skew_stats now s) = vs_input s"
  by (simp_all add: refresh_skew_stats_def split: option.split prod.split)

lemma sync_keeps [simp]:
  "vs_transport (sync_bind_status s) = vs_transport s" "vs_buf (sync_bind_status s) = vs_buf s"
  "vs_identity (sync_bind_status s) = vs_identity s" "vs_machine (sync_bind_status s) = vs_machine s"
  "vs_session_id (sync_bind_status s) = vs_session_id s" "vs_bind_key (sync_bind_status s) = vs_bind_key s"
  "vs_require_identity (sync_bind_status s) = vs_require_identity s" "vs_input (sync_bind_status s) = vs_input s"
  by (simp_all add: sync_bind_status_def)

text \<open>One message each way.\<close>

lemma send_connected:
  "mp_state p = CsConnected \<Longrightarrow> \<not> mp_closed p \<Longrightarrow> mp_side p = Some side \<Longrightarrow>
   mock_send_data m (p, wire_of x y) = (Inr (), no_events, p, put_wire side (WireData m) (wire_of x y))"
  by (simp add: mock_send_data_def send_wire_def ensure_open_def outbound_tx_def wire_of_def)

lemma put_wire_of [simp]:
  "put_wire SideA m (wire_of x y) = wire_of x (y @ [m])" "put_wire SideB m (wire_of x y) = wire_of (x @ [m]) y"
  by (simp_all add: put_wire_def wire_of_def)

lemma poll_connected:
  "mp_state p = CsConnected \<Longrightarrow> \<not> mp_closed p \<Longrightarrow> mp_side p = Some SideA \<Longrightarrow> mock_poll (p, wire_of x y) = (Inr (), deliver_all x, p, wire_of [] y)"
  "mp_state p = CsConnected \<Longrightarrow> \<not> mp_closed p \<Longrightarrow> mp_side p = Some SideB \<Longrightarrow> mock_poll (p, wire_of x y) = (Inr (), deliver_all y, p, wire_of x [])"
  by (simp_all add: mock_poll_def wire_of_def)

lemma deliver_one_data: "deliver_all [WireData d] = \<lparr>ve_ice = [], ve_states = [], ve_tracks = [], ve_data = [d]\<rparr>"
  by (simp add: deliver_all_def add_events_def no_events_def)

abbreviation identity_data :: "bytes \<Rightarrow> data_message" where
  "identity_data d \<equiv> \<lparr>dm_label = IDENTITY_CHANNEL_LABEL, dm_data = d, dm_unordered = False\<rparr>"

lemma challenge_sent:
  assumes "hm_peer h = (a, wire_of [] [])" "mp_side a = Some SideA" "mp_state a = CsConnected" "\<not> mp_closed a"
    and "hm_session_id h = Some sid" "session_authorized (hm_identity h)" "hm_bind_key h = Some key"
  shows "start_identity_challenge (mock_host_env E) nonce h =
    (Inr (), h\<lparr>hm_peer := (a, wire_of [] [WireData (identity_data (encode_dc_challenge nonce))]), hm_challenge := Some nonce\<rparr>)"
  using assms by (simp add: start_identity_challenge_def on_peer_def as_host_op_def send_connected host_events_def no_events_def)

text \<open>The viewer reads one data message off the wire.\<close>

lemma viewer_polls_one:
  assumes "vs_transport v = Some (b, wire_of [] [WireData d])" "mp_side b = Some SideB" "mp_state b = CsConnected" "\<not> mp_closed b"
    and "vs_buf v = no_events"
  obtains st where "on_transport (vp_poll (mock_viewer_env V)) v = (Inr (), v\<lparr>vs_transport := Some (b, wire_of [] []),
      vs_buf := \<lparr>ve_ice = [], ve_states = [], ve_tracks = [], ve_data = [d]\<rparr>\<rparr>)"
    "drain_callback_buf (mock_viewer_env V) clk (v\<lparr>vs_transport := Some (b, wire_of [] []),
      vs_buf := \<lparr>ve_ice = [], ve_states = [], ve_tracks = [], ve_data = [d]\<rparr>\<rparr>) =
      handle_identity_messages (mock_viewer_env V) (map dm_data (filter (\<lambda>d. dm_label d = IDENTITY_CHANNEL_LABEL) [d]))
        (v\<lparr>vs_transport := Some (b, wire_of [] []), vs_buf := no_events, vs_stats := st\<rparr>)"
proof -
  let ?s = "v\<lparr>vs_transport := Some (b, wire_of [] []), vs_buf := \<lparr>ve_ice = [], ve_states = [], ve_tracks = [], ve_data = [d]\<rparr>\<rparr>"
  let ?st = "(count_ice \<lparr>ve_ice = [], ve_states = [], ve_tracks = [], ve_data = [d]\<rparr> (vs_stats v))"
  have 1: "on_transport (vp_poll (mock_viewer_env V)) v = (Inr (), ?s)"
    using assms by (simp add: on_transport_def as_viewer_op_def poll_connected deliver_one_data add_events_def no_events_def)
  have 2: "drain_callback_buf (mock_viewer_env V) clk ?s =
      handle_identity_messages (mock_viewer_env V) (map dm_data (filter (\<lambda>d. dm_label d = IDENTITY_CHANNEL_LABEL) [d]))
        (v\<lparr>vs_transport := Some (b, wire_of [] []), vs_buf := no_events, vs_stats := ?st\<lparr>st_data_rx := sat_add (st_data_rx ?st) 1\<rparr>\<rparr>)"
    using assms(5) by (simp add: drain_callback_buf_def Let_def)
  from that [OF 1 2] show thesis .
qed

text \<open>The challenge of the host, the answer of the viewer and its check, each over the wire.\<close>

definition bind_round ::
  "(mock_end, 'i) host_env \<Rightarrow> (mock_end, 'v, 's) viewer_env \<Rightarrow> bytes \<Rightarrow> (nat \<Rightarrow> instant \<times> instant) \<Rightarrow> instant \<Rightarrow> (nat \<Rightarrow> instant \<times> instant)
     \<Rightarrow> ('i, 'v, 's) linked \<Rightarrow> (inbound_stats \<times> ('i, 'v, 's) linked) option" where
  "bind_round E V nonce clk now clock l =
     (case host_does (\<lambda>h. Some (start_identity_challenge (mock_host_env E) nonce h)) l of
        Some (Inr _, l1) \<Rightarrow>
          (case viewer_does (vs_poll (mock_viewer_env V) clk now) l1 of
             Some (Inr _, l2) \<Rightarrow>
               (case host_does (poll_inbound (mock_host_env E) clock) l2 of
                  Some (Inr stats, l3) \<Rightarrow> Some (stats, l3)
                | _ \<Rightarrow> None)
           | _ \<Rightarrow> None)
      | _ \<Rightarrow> None)"

lemma identity_answered:
  assumes v: "vs_transport v = Some (b, wire_of [] [])" "mp_side b = Some SideB" "mp_state b = CsConnected" "\<not> mp_closed b"
      "mp_remote_fp b = Some (mp_local_fp a)" "vs_bind_key v = Some key" "vs_session_id v = Some sid"
    and response: "respond_dc_challenge (vp_crypto V) key sid nonce (as_sign_material (mp_local_fp a)) (as_sign_material (mp_local_fp b)) = Some response"
    and "nonce \<noteq> []"
  obtains v' where "handle_identity_message (mock_viewer_env V) (encode_dc_challenge nonce) v = Some (Inr (), v')"
    "vs_transport v' = Some (b, wire_of [WireData (identity_data (encode_dc_response response))] [])" "identity_bound (vs_identity v')"
    "vs_buf v' = vs_buf v" "vs_machine v' = vs_machine v" "vs_input v' = vs_input v"
proof -
  have "vs_buf (v\<lparr>vs_buf := add_events (vs_buf v) no_events\<rparr>) = vs_buf v" by (simp add: add_events_def no_events_def)
  then have "\<exists>v'. handle_identity_message (mock_viewer_env V) (encode_dc_challenge nonce) v = Some (Inr (), v') \<and>
    vs_transport v' = Some (b, wire_of [WireData (identity_data (encode_dc_response response))] []) \<and> identity_bound (vs_identity v') \<and>
    vs_buf v' = vs_buf v \<and> vs_machine v' = vs_machine v \<and> vs_input v' = vs_input v"
    using v response by (simp add: handle_identity_message_def parse_encoded_challenge [OF \<open>nonce \<noteq> []\<close>] Let_def on_transport_def
        mock_remote_fp_def mock_local_fp_def local_fingerprint_def remote_fingerprint_def as_viewer_op_def send_connected mark_identity_bound_def)
  with that show thesis by blast
qed

text \<open>The first two steps, whatever the host will make of the answer.\<close>

lemma challenge_crosses:
  assumes "joined a b l"
    and host: "hm_session_id (ln_host l) = Some sid" "session_authorized (hm_identity (ln_host l))" "hm_bind_key (ln_host l) = Some key"
    and viewer: "vs_bind_key (ln_viewer l) = Some vkey" "vs_session_id (ln_viewer l) = Some vsid"
    and response: "respond_dc_challenge (vp_crypto V) vkey vsid nonce (as_sign_material (mp_local_fp a)) (as_sign_material (mp_local_fp b)) = Some response"
    and "nonce \<noteq> []"
  obtains l1 v where "host_does (\<lambda>h. Some (start_identity_challenge (mock_host_env E) nonce h)) l = Some (Inr (), l1)"
    "viewer_does (vs_poll (mock_viewer_env V) clk now) l1 = Some (Inr (),
       \<lparr>ln_host = (ln_host l)\<lparr>hm_peer := (a, wire_of [WireData (identity_data (encode_dc_response response))] []), hm_challenge := Some nonce\<rparr>,
        ln_viewer = v\<rparr>)"
    "vs_transport v = Some (b, wire_of [WireData (identity_data (encode_dc_response response))] [])" "identity_bound (vs_identity v)"
    "vs_buf v = no_events" "vs_machine v = vs_machine (ln_viewer l)" "vs_input v = vs_input (ln_viewer l)" "st_identity_bound (vs_stats v)"
proof -
  let ?E = "mock_host_env E" and ?V = "mock_viewer_env V" and ?h = "ln_host l" and ?v = "ln_viewer l"
  note j = \<open>joined a b l\<close> [unfolded joined_def]
  let ?c = "WireData (identity_data (encode_dc_challenge nonce))" and ?r = "identity_data (encode_dc_response response)"
  let ?h1 = "?h\<lparr>hm_peer := (a, wire_of [] [?c]), hm_challenge := Some nonce\<rparr>"
  let ?v1 = "?v\<lparr>vs_transport := Some (b, wire_of [] [?c])\<rparr>"
  have 1: "host_does (\<lambda>h. Some (start_identity_challenge ?E nonce h)) l = Some (Inr (), \<lparr>ln_host = ?h1, ln_viewer = ?v1\<rparr>)"
    using j host by (simp add: host_does_def challenge_sent)
  obtain st where poll: "on_transport (vp_poll ?V) ?v1 = (Inr (), ?v1\<lparr>vs_transport := Some (b, wire_of [] []),
      vs_buf := \<lparr>ve_ice = [], ve_states = [], ve_tracks = [], ve_data = [identity_data (encode_dc_challenge nonce)]\<rparr>\<rparr>)"
    and drain: "drain_callback_buf ?V clk (?v1\<lparr>vs_transport := Some (b, wire_of [] []),
      vs_buf := \<lparr>ve_ice = [], ve_states = [], ve_tracks = [], ve_data = [identity_data (encode_dc_challenge nonce)]\<rparr>\<rparr>) =
      handle_identity_messages ?V [encode_dc_challenge nonce]
        (?v1\<lparr>vs_transport := Some (b, wire_of [] []), vs_buf := no_events, vs_stats := st\<rparr>)"
    using viewer_polls_one [of ?v1 b "identity_data (encode_dc_challenge nonce)" V clk] j by (auto simp: IDENTITY_CHANNEL_LABEL_def)
  let ?v2 = "?v1\<lparr>vs_transport := Some (b, wire_of [] []), vs_buf := no_events, vs_stats := st\<rparr>"
  obtain v3 where v3: "handle_identity_message ?V (encode_dc_challenge nonce) ?v2 = Some (Inr (), v3)"
    "vs_transport v3 = Some (b, wire_of [WireData ?r] [])" "identity_bound (vs_identity v3)" "vs_buf v3 = no_events"
    "vs_machine v3 = vs_machine ?v" "vs_input v3 = vs_input ?v"
    using identity_answered [of ?v2 b a vkey vsid V nonce response] j viewer response \<open>nonce \<noteq> []\<close> by auto
  let ?v4 = "sync_bind_status (refresh_skew_stats now v3)"
  have "vs_poll ?V clk now ?v1 = Some (Inr (), ?v4)"
    using drain v3(1) poll by (simp add: vs_poll_def)
  then have 2: "viewer_does (vs_poll ?V clk now) \<lparr>ln_host = ?h1, ln_viewer = ?v1\<rparr> =
      Some (Inr (), \<lparr>ln_host = ?h\<lparr>hm_peer := (a, wire_of [WireData ?r] []), hm_challenge := Some nonce\<rparr>, ln_viewer = ?v4\<rparr>)"
    using v3(2) by (simp add: viewer_does_def)
  have "st_identity_bound (vs_stats ?v4)" using v3(3) by (simp add: sync_bind_status_def)
  from that [OF 1 2 _ _ _ _ _ this] v3(2-6) show thesis by simp
qed

text \<open>
  The identity exchange. Host and viewer are joined, the session is authorized at the host with a key and the viewer holds the same
  key and the same session id; then the challenge the host sends, one poll of the viewer and one poll of the
  host leave the session bound at both sides, with the two still joined and nothing left on the wire.
\<close>

lemma identity_binds_over_the_wire:
  assumes "joined a b l"
    and host: "hm_session_id (ln_host l) = Some sid" "ib_session_id (hm_identity (ln_host l)) = sid"
      "session_authorized (hm_identity (ln_host l))" "hm_bind_key (ln_host l) = Some key"
    and viewer: "vs_bind_key (ln_viewer l) = Some key" "vs_session_id (ln_viewer l) = Some sid"
    and same: "vp_crypto V = crypto_of E" and mac: "\<And>k m. length (hmac_sha256 (crypto_of E) k m) = 32"
    and small: "list_all (\<lambda>b. length b < 2 ^ 32)
      [utf8_bytes sid, nonce, utf8_bytes (as_sign_material (mp_local_fp a)), utf8_bytes (as_sign_material (mp_local_fp b))]" "nonce \<noteq> []"
  shows "\<exists>stats l'. bind_round E V nonce clk now clock l = Some (stats, l') \<and> joined a b l' \<and> identity_messages stats = 1 \<and>
    identity_bound (vs_identity (ln_viewer l')) \<and> vs_machine (ln_viewer l') = vs_machine (ln_viewer l) \<and>
    vs_input (ln_viewer l') = vs_input (ln_viewer l) \<and> hm_injector (ln_host l') = hm_injector (ln_host l) \<and>
    hm_identity (ln_host l') = mark_identity_bound (hm_identity (ln_host l)) \<and> hm_policy_input (ln_host l') = hm_policy_input (ln_host l)"
proof -
  let ?E = "mock_host_env E" and ?V = "mock_viewer_env V"
  let ?h = "ln_host l" and ?fa = "as_sign_material (mp_local_fp a)" and ?fb = "as_sign_material (mp_local_fp b)"
  note j = \<open>joined a b l\<close> [unfolded joined_def]
  obtain response where response: "length response = 32" "respond_dc_challenge (crypto_of E) key sid nonce ?fa ?fb = Some response"
    "complete_dc_bind (crypto_of E) key nonce response ?fa ?fb (hm_identity ?h) = Some (Inr (), mark_identity_bound (hm_identity ?h))"
    using host_accepts_response [OF small(1) mac host(2)] .
  let ?r = "WireData (identity_data (encode_dc_response response))"
  let ?h2 = "?h\<lparr>hm_peer := (a, wire_of [?r] []), hm_challenge := Some nonce\<rparr>"
  from response(2) same have r: "respond_dc_challenge (vp_crypto V) key sid nonce ?fa ?fb = Some response" by simp
  obtain l1 v where 1: "host_does (\<lambda>h. Some (start_identity_challenge ?E nonce h)) l = Some (Inr (), l1)"
    and 2: "viewer_does (vs_poll ?V clk now) l1 = Some (Inr (), \<lparr>ln_host = ?h2, ln_viewer = v\<rparr>)"
    and v: "vs_transport v = Some (b, wire_of [?r] [])" "identity_bound (vs_identity v)" "vs_buf v = no_events"
      "vs_machine v = vs_machine (ln_viewer l)" "vs_input v = vs_input (ln_viewer l)"
    by (rule challenge_crosses [OF assms(1) host(1,3,4) viewer r small(2)])
  let ?h3 = "?h\<lparr>hm_peer := (a, wire_of [] []), hm_challenge := None, hm_identity := mark_identity_bound (hm_identity ?h)\<rparr>"
  have "poll_inbound ?E clock ?h2 = Some (Inr (no_inbound\<lparr>identity_messages := 1\<rparr>), ?h3)"
    using j host response parse_encoded_response [OF response(1)]
    by (simp add: poll_inbound_def on_peer_def as_host_op_def poll_connected deliver_one_data host_events_def handle_identity_data_def Let_def
        local_fp_def remote_fp_def mock_local_fp_def mock_remote_fp_def local_fingerprint_def remote_fingerprint_def no_inbound_def sat_add_def)
  then have 3: "host_does (poll_inbound ?E clock) \<lparr>ln_host = ?h2, ln_viewer = v\<rparr> =
      Some (Inr (no_inbound\<lparr>identity_messages := 1\<rparr>), \<lparr>ln_host = ?h3, ln_viewer = v\<lparr>vs_transport := Some (b, wire_of [] [])\<rparr>\<rparr>)"
    using v(1) by (simp add: host_does_def)
  show ?thesis using 1 2 3 j v
    by (simp add: bind_round_def joined_def mark_identity_bound_def)
qed

section \<open>Input\<close>

definition input_round ::
  "(mock_end, 'i) host_env \<Rightarrow> (mock_end, 'v, 's) viewer_env \<Rightarrow> u64 \<Rightarrow> captured_input \<Rightarrow> (nat \<Rightarrow> instant \<times> instant)
     \<Rightarrow> ('i, 'v, 's) linked \<Rightarrow> (inbound_stats \<times> ('i, 'v, 's) linked) option" where
  "input_round E V ts c clock l =
     (case viewer_does (\<lambda>v. Some (send_direct (mock_viewer_env V) (encode_captured (vp_encode_input V) ts c) v)) l of
        Some (Inr _, l1) \<Rightarrow>
          (case host_does (poll_inbound (mock_host_env E) clock) l1 of
             Some (Inr stats, l2) \<Rightarrow> Some (stats, l2)
           | _ \<Rightarrow> None)
      | _ \<Rightarrow> None)"

lemma input_message_processed:
  assumes "str_from_utf8 (dm_data msg) = Some js" "json_decode_input E js = Inr ev"
    and "try_inject (inject_backend E) t t' ev (hm_injector h) = (Inr True, rl)" "injection_allowed h"
  shows "process_input_message (mock_host_env E) t t' msg h = (Injected, push_accepted_input ev (h\<lparr>hm_injector := rl\<rparr>))"
  using assms by (simp add: process_input_message_def)

lemma push_accepted_keeps [simp]:
  "hm_peer (push_accepted_input e h) = hm_peer h" "hm_data (push_accepted_input e h) = hm_data h"
  "hm_injector (push_accepted_input e h) = hm_injector h" "last (hm_accepted_input (push_accepted_input e h)) = e"
  by (simp_all add: push_accepted_input_def Let_def)

text \<open>
  Input from the viewer to the injector. Host and viewer are joined and the viewer may send; serde reads back the event the viewer
  wrote, and the injector and its rate limit accept it. Then the event that the viewer sends is, after one poll of the
  host, the last one injected, if the host's policy and identity gate are open; if either is
  shut it is counted as rejected and the injector is not touched.
\<close>

lemma input_crosses_the_wire:
  assumes "joined a b l" and can: "ensure_can_send_input (ln_viewer l) = Inr ()"
    and ev: "fst (make_event ts (captured_payload c) (vs_input (ln_viewer l))) = ev"
    and json: "vp_encode_input V ev = Inr js" "str_from_utf8 (utf8_bytes js) = Some js" "json_decode_input E js = Inr ev"
    and limiter: "try_inject (inject_backend E) (fst (clock 0)) (snd (clock 0)) ev (hm_injector (ln_host l)) = (Inr True, rl)"
  shows "\<exists>stats l'. input_round E V ts c clock l = Some (stats, l') \<and> joined a b l' \<and>
    (if injection_allowed (ln_host l)
     then input_accepted stats = 1 \<and> hm_injector (ln_host l') = rl \<and> last (hm_accepted_input (ln_host l')) = ev
     else input_rejected stats = 1 \<and> hm_injector (ln_host l') = hm_injector (ln_host l) \<and>
       hm_accepted_input (ln_host l') = hm_accepted_input (ln_host l))"
proof -
  let ?h = "ln_host l" and ?v = "ln_viewer l"
  note j = \<open>joined a b l\<close> [unfolded joined_def]
  obtain em msg where enc: "encode_captured (vp_encode_input V) ts c (vs_input ?v) = (Inr (ev, msg), em)" "dm_data msg = utf8_bytes js"
    "dm_label msg = INPUT_CHANNEL_LABEL"
    using ev json(1) by (auto simp: encode_captured_def make_event_def emitter_encode_def)
  obtain v1 where v1: "send_direct (mock_viewer_env V) (encode_captured (vp_encode_input V) ts c) ?v = (Inr (), v1)"
    "vs_transport v1 = Some (b, wire_of [WireData msg] [])" "vs_buf v1 = no_events"
    using j can enc by (simp add: send_direct_def send_encoded_def vs_send_data_def on_transport_def as_viewer_op_def send_connected
        add_events_def no_events_def)
  let ?h1 = "?h\<lparr>hm_peer := (a, wire_of [WireData msg] [])\<rparr>" and ?h2 = "?h\<lparr>hm_peer := (a, wire_of [] []), hm_data := []\<rparr>"
  have 1: "viewer_does (\<lambda>v. Some (send_direct (mock_viewer_env V) (encode_captured (vp_encode_input V) ts c) v)) l =
      Some (Inr (), \<lparr>ln_host = ?h1, ln_viewer = v1\<rparr>)" using j v1 by (simp add: viewer_does_def)
  have allowed: "injection_allowed ?h2 = injection_allowed ?h" by (simp add: injection_allowed_def)
  obtain out h3 where out: "process_input_message (mock_host_env E) (fst (clock 0)) (snd (clock 0)) msg ?h2 = (out, h3)" by fastforce
  have poll: "poll_inbound (mock_host_env E) clock ?h1 = Some (Inr (count_outcome out no_inbound), h3)"
    using j enc(3) out
    by (simp add: poll_inbound_def on_peer_def as_host_op_def poll_connected deliver_one_data host_events_def INPUT_CHANNEL_LABEL_def IDENTITY_CHANNEL_LABEL_def)
  have res: "if injection_allowed ?h then out = Injected \<and> h3 = push_accepted_input ev (?h2\<lparr>hm_injector := rl\<rparr>)
      else out = RejectedGate \<and> h3 = ?h2\<lparr>hm_rejected := sat_add (hm_rejected ?h2) 1\<rparr>"
  proof (cases "injection_allowed ?h")
    case True
    with allowed limiter input_message_processed [of msg js E ev "fst (clock 0)" "snd (clock 0)" ?h2 rl] json(2,3) enc(2) out show ?thesis by simp
  next
    case False
    with allowed out show ?thesis by (simp add: process_input_message_def)
  qed
  then have peer: "hm_peer h3 = (a, wire_of [] [])" "hm_data h3 = []" using j by (auto split: if_splits)
  with poll v1 have 2: "host_does (poll_inbound (mock_host_env E) clock) \<lparr>ln_host = ?h1, ln_viewer = v1\<rparr> =
      Some (Inr (count_outcome out no_inbound), \<lparr>ln_host = h3, ln_viewer = v1\<lparr>vs_transport := Some (b, wire_of [] [])\<rparr>\<rparr>)"
    by (simp add: host_does_def)
  show ?thesis using 1 2 j v1(3) peer res
    by (auto simp: input_round_def joined_def no_inbound_def sat_add_def split: if_splits)
qed

section \<open>The negotiation\<close>

text \<open>
  The calls of \<open>ws_session.rs\<close> at the host and of \<open>ws_connect.rs\<close> at the viewer, in their order: start the media, take the
  offer, accept it, apply the answer. Between them a signature travels as a string, where an empty one stands for none.
\<close>

definition relayed_sig :: "string option \<Rightarrow> string option" where
  "relayed_sig sig = (case sig of None \<Rightarrow> None | Some g \<Rightarrow> if g = [] then None else Some g)"

definition bring_up ::
  "(mock_end, 'i) host_env \<Rightarrow> (mock_end, 'v, 's) viewer_env \<Rightarrow> (nat \<Rightarrow> instant \<times> instant) \<Rightarrow> ('i, 'v, 's) linked \<Rightarrow> ('i, 'v, 's) linked option" where
  "bring_up E V clk l =
     (case host_does (manager_start_media (mock_host_env E)) l of
        Some (Inr _, l1) \<Rightarrow>
          (case take_outbound_signals (ln_host l1) of (out, h) \<Rightarrow>
           case find (\<lambda>s. sf_kind s = SESSION_OFFER) out of
             None \<Rightarrow> None
           | Some s \<Rightarrow>
               (case parse_sdp_payload (mock_host_env E) (sf_payload s) of
                  Inl _ \<Rightarrow> None
                | Inr p \<Rightarrow>
                    (case viewer_does (accept_offer_with_sig (mock_viewer_env V) clk \<lparr>sdp_type_of = SdpOffer, sdp_text = sdp p\<rparr>
                            (relayed_sig (fingerprint_sig p))) (l1\<lparr>ln_host := h\<rparr>) of
                       Some (Inr answer, l2) \<Rightarrow>
                         (case json_sdp_to_string E \<lparr>sdp = sdp_text answer, fingerprint_sig = None\<rparr> of
                            Inl _ \<Rightarrow> None
                          | Inr payload \<Rightarrow>
                              (case host_does (apply_signal (mock_host_env E) SESSION_ANSWER payload) l2 of
                                 Some (Inr _, l3) \<Rightarrow> Some l3
                               | _ \<Rightarrow> None))
                     | _ \<Rightarrow> None)))
      | _ \<Rightarrow> None)"

text \<open>What serde promises for the payload type.\<close>

definition sdp_json_faithful :: "(mock_end, 'i) host_env \<Rightarrow> bool" where
  "sdp_json_faithful E \<longleftrightarrow> (\<forall>p. case json_sdp_to_string E p of
     Inl _ \<Rightarrow> False | Inr t \<Rightarrow> starts_with (trim t) ''{'' \<and> json_sdp_from_str E (trim t) = Inr p)"

lemma sdp_json:
  assumes "sdp_json_faithful E"
  obtains t where "json_sdp_to_string E p = Inr t" "parse_sdp_payload (mock_host_env E) t = Inr p"
proof -
  have "case json_sdp_to_string E p of Inl _ \<Rightarrow> False | Inr t \<Rightarrow> starts_with (trim t) ''{'' \<and> json_sdp_from_str E (trim t) = Inr p"
    using assms by (simp add: sdp_json_faithful_def)
  then obtain t where "json_sdp_to_string E p = Inr t" "starts_with (trim t) ''{''" "json_sdp_from_str E (trim t) = Inr p"
    by (cases "json_sdp_to_string E p") auto
  with that show thesis by (simp add: parse_sdp_payload_def)
qed

lemma signed_binding:
  assumes "\<And>m. ed_verify V pk m (ed_sign E sk m)" "\<And>m. length (ed_sign E sk m) = 64"
    and "length (utf8_bytes sid) < 2 ^ 32" "length (utf8_bytes fp) < 2 ^ 32"
  obtains g where "sign_session_fingerprint E sk sid fp = Some g" "g \<noteq> []" "verify_session_fingerprint V pk sid fp g = Some (Inr ())"
proof -
  obtain m where m: "encode_binding_message (utf8_bytes sid) (utf8_bytes fp) = Some m" using assms(3,4) by (simp add: encode_binding_message_def)
  let ?g = "bytes_to_hex (ed_sign E sk m)"
  have "ed_sign E sk m \<noteq> []" using assms(2) [of m] by auto
  then have "?g \<noteq> []" by (cases "ed_sign E sk m") simp_all
  with that [of ?g] m assms(1,2) show thesis
    by (simp add: sign_session_fingerprint_def sign_fingerprint_binding_def verify_session_fingerprint_def hex_round_trip verify_fingerprint_binding_def)
qed

lemma mock_sdp_type: "\<lparr>sdp_type_of = SdpOffer, sdp_text = sdp_text (mock_sdp SdpOffer a)\<rparr> = mock_sdp SdpOffer a"
  by (simp add: mock_sdp_def)

text \<open>The host's side up to its offer.\<close>

lemma host_offers:
  assumes "hm_peer h = (a, w)" "mp_state a = CsNew" "\<not> mp_closed a" "mp_remote_desc a = None" "hm_session_id h = Some sid" "hm_media h = None"
    and "open_media E = Inr ()" "hm_outbound h = []"
    and sig: "case hm_signing_key h of None \<Rightarrow> sig_of = None
      | Some sk \<Rightarrow> (\<exists>g. sign_session_fingerprint (ed25519_of E) sk sid (as_sign_material (mp_local_fp a)) = Some g \<and> sig_of = Some g)"
    and json: "json_sdp_to_string E \<lparr>sdp = sdp_text (mock_sdp SdpOffer a), fingerprint_sig = sig_of\<rparr> = Inr t"
  obtains h1 out where "manager_start_media (mock_host_env E) h = Some (Inr (), h1)"
    "hm_peer h1 = (a\<lparr>mp_local_desc := Some (mock_sdp SdpOffer a), mp_state := CsConnecting, mp_last_local_ice := Some (local_candidate a)\<rparr>, w)"
    "take_outbound_signals h1 = (\<lparr>sf_session_id = sid, sf_kind = SESSION_OFFER, sf_payload = t, sf_from = HopAgent\<rparr> # out, h1\<lparr>hm_outbound := []\<rparr>)"
    "hm_data h1 = hm_data h" "hm_session_id h1 = Some sid" "hm_injector h1 = hm_injector h" "hm_identity h1 = hm_identity h"
proof -
  let ?a1 = "a\<lparr>mp_local_desc := Some (mock_sdp SdpOffer a), mp_state := CsConnecting, mp_last_local_ice := Some (local_candidate a)\<rparr>"
  let ?h1 = "h\<lparr>hm_media := Some \<lparr>video_frames_sent = 0, audio_packets_sent = 0\<rparr>, hm_peer := (?a1, w), hm_ice := hm_ice h @ [local_candidate a]\<rparr>"
  let ?h2 = "queue_pending_ice (mock_host_env E) sid (?h1\<lparr>hm_outbound := [\<lparr>sf_session_id = sid, sf_kind = SESSION_OFFER, sf_payload = t, sf_from = HopAgent\<rparr>]\<rparr>)"
  have fp: "as_sign_material (mp_local_fp ?a1) = as_sign_material (mp_local_fp a)" by simp
  have "manager_start_media (mock_host_env E) h = Some (Inr (), ?h2)"
    using assms by (auto simp: manager_start_media_def create_local_offer_and_queue_def on_peer_def as_host_op_def offer_step local_first_step host_events_def
        no_events_def local_fp_def mock_local_fp_def local_fingerprint_def Let_def split: option.splits)
  with that [of ?h2] assms(5) show thesis by (simp add: queue_pending_ice_def take_outbound_signals_def)
qed

text \<open>The viewer's side: its answer to an offer whose signature holds.\<close>

lemma viewer_answers:
  fixes v :: "(mock_end, 'v, 's) viewer_session"
  assumes v: "vs_transport v = Some (b, w)" "vs_buf v = no_events" "cm_phase (vs_machine v) = VConnecting"
    and b: "mp_side b = Some SideB" "mp_state b = CsNew" "\<not> mp_closed b" "mp_local_desc b = None" "mp_remote_fp b = None"
    and a: "good_peer a"
    and sig: "check_offer_sig (mock_viewer_env V) g (v\<lparr>vs_host_fp := Some (as_sign_material (mp_local_fp a))\<rparr>) = Some (Inr ())"
  obtains v1 b2 where "accept_offer_with_sig (mock_viewer_env V) clk (mock_sdp SdpOffer a) g v = Some (Inr (mock_sdp SdpAnswer b), v1)"
    "vs_transport v1 = Some (b2, w)" "vs_buf v1 = no_events" "vs_host_fp v1 = Some (as_sign_material (mp_local_fp a))"
    "cm_phase (vs_machine v1) = VConnected" "mp_side b2 = Some SideB" "mp_state b2 = CsConnected" "\<not> mp_closed b2"
    "mp_remote_fp b2 = Some (mp_local_fp a)" "mp_local_fp b2 = mp_local_fp b"
    "vs_session_id v1 = vs_session_id v" "vs_bind_key v1 = vs_bind_key v" "vs_identity v1 = vs_identity v" "vs_input v1 = vs_input v"
    "vs_require_identity v1 = vs_require_identity v"
proof -
  let ?offer = "mock_sdp SdpOffer a" and ?answer = "mock_sdp SdpAnswer b"
  let ?b1 = "b\<lparr>mp_remote_desc := Some ?offer, mp_state := CsConnecting\<rparr>"
  let ?b2 = "?b1\<lparr>mp_local_desc := Some ?answer, mp_state := CsConnected, mp_last_local_ice := Some (local_candidate ?b1), mp_remote_fp := Some (mp_local_fp a)\<rparr>"
  have answer: "mock_sdp SdpAnswer ?b1 = ?answer" by (rule mock_sdp_parts) simp_all
  have 1: "mock_set_remote ?offer (b, w) = (Inr (), \<lparr>ve_ice = [], ve_states = [CsConnecting], ve_tracks = [], ve_data = []\<rparr>, ?b1, w)"
    using b by (simp add: remote_first_step sdp_nonempty)
  have 2: "mock_create_answer (?b1, w) = (Inr ?answer, no_events, ?b1, w)" using b answer by (simp add: answer_step)
  have 3: "mock_set_local ?answer (?b1, w) =
      (Inr (), \<lparr>ve_ice = [local_candidate ?b1], ve_states = [CsConnected], ve_tracks = [], ve_data = []\<rparr>, ?b2, w)"
    using local_second_step [of ?b1 ?offer "mp_local_fp a" ?answer w] b parse_own_sdp [OF a] by simp
  let ?v0 = "v\<lparr>vs_host_fp := Some (as_sign_material (mp_local_fp a)), vs_machine := begin_answer (vs_machine v)\<rparr>"
  let ?ev = "\<lparr>ve_ice = [local_candidate ?b1], ve_states = [CsConnecting, CsConnected], ve_tracks = [], ve_data = []\<rparr>"
  have "\<exists>v1. accept_offer_with_sig (mock_viewer_env V) clk ?offer g v = Some (Inr ?answer, v1) \<and>
    vs_transport v1 = Some (?b2, w) \<and> vs_buf v1 = no_events \<and> vs_host_fp v1 = Some (as_sign_material (mp_local_fp a)) \<and>
    cm_phase (vs_machine v1) = VConnected \<and> vs_session_id v1 = vs_session_id v \<and> vs_bind_key v1 = vs_bind_key v \<and> vs_identity v1 = vs_identity v \<and>
    vs_input v1 = vs_input v \<and> vs_require_identity v1 = vs_require_identity v"
    using v b sig 1 2 3
    by (simp add: accept_offer_with_sig_def viewer_reads_own_sdp [OF a] Let_def on_transport_def as_viewer_op_def mock_remote_fp_def
        remote_fingerprint_def drain_callback_buf_def add_events_def no_events_def begin_answer_def)
  with that [of _ ?b2] b show thesis by auto
qed

text \<open>The host's side again: the answer connects it.\<close>

lemma host_takes_answer:
  assumes "hm_peer h = (a, w)" "mp_state a = CsConnecting" "\<not> mp_closed a" "mp_local_desc a \<noteq> None" "mp_side a = Some SideA"
    and "good_peer b" and parse: "parse_sdp_payload (mock_host_env E) t = Inr \<lparr>sdp = sdp_text (mock_sdp SdpAnswer b), fingerprint_sig = None\<rparr>"
  obtains h1 a2 where "apply_signal (mock_host_env E) SESSION_ANSWER t h = Some (Inr (), h1)" "hm_peer h1 = (a2, w)"
    "mp_state a2 = CsConnected" "\<not> mp_closed a2" "mp_side a2 = Some SideA" "mp_local_fp a2 = mp_local_fp a" "mp_remote_fp a2 = Some (mp_local_fp b)"
    "hm_data h1 = hm_data h" "hm_session_id h1 = hm_session_id h" "hm_injector h1 = hm_injector h" "hm_identity h1 = hm_identity h"
proof -
  let ?answer = "\<lparr>sdp_type_of = SdpAnswer, sdp_text = sdp_text (mock_sdp SdpAnswer b)\<rparr>"
  let ?a2 = "a\<lparr>mp_remote_desc := Some ?answer, mp_state := CsConnected, mp_remote_fp := Some (mp_local_fp b)\<rparr>"
  have "mock_set_remote ?answer (a, w) = (Inr (), \<lparr>ve_ice = [], ve_states = [CsConnected], ve_tracks = [], ve_data = []\<rparr>, ?a2, w)"
    using remote_second_step [of a ?answer "mp_local_fp b" w] assms(2-5) parse_own_sdp [OF assms(6)] by (simp add: sdp_nonempty)
  then have "\<exists>h1. apply_signal (mock_host_env E) SESSION_ANSWER t h = Some (Inr (), h1) \<and> hm_peer h1 = (?a2, w) \<and> hm_data h1 = hm_data h \<and>
      hm_session_id h1 = hm_session_id h \<and> hm_injector h1 = hm_injector h \<and> hm_identity h1 = hm_identity h"
    using assms(1) parse by (simp add: apply_signal_def SESSION_ANSWER_def SESSION_OFFER_def on_peer_def as_host_op_def host_events_def
        queue_pending_ice_def split: option.split)
  with that [of _ ?a2] assms(3,5) show thesis by auto
qed

lemma sign_text_small: "good_peer p \<Longrightarrow> length (utf8_bytes (as_sign_material (mp_local_fp p))) = 103"
proof -
  assume "good_peer p"
  then obtain v where v: "fingerprint_sha256 v = Inr (mp_local_fp p)" by (auto simp: good_peer_def)
  have "length (fp_value (mp_local_fp p)) = 95" by (rule sha256_facts [OF v])
  then show ?thesis by (simp add: sign_material [OF v] utf8_bytes_def)
qed

text \<open>
  The signed negotiation. A host whose manager is attached to a session and a viewer that has begun to connect under the same
  session id, each with a fresh peer: the host's offer, signed under its device key, is accepted and answered by the viewer, and
  the two end up joined, the viewer holding the host's certificate.
\<close>

lemma negotiation_joins:
  assumes peers: "fresh_peer SideA a" "fresh_peer SideB b" "mp_remote_fp b = None"
    and h: "hm_peer (ln_host l) = (a, wire_of [] [])" "hm_session_id (ln_host l) = Some sid" "hm_media (ln_host l) = None"
      "hm_outbound (ln_host l) = []" "hm_data (ln_host l) = []" "hm_signing_key (ln_host l) = Some sk" "open_media E = Inr ()"
    and v: "vs_transport (ln_viewer l) = Some (b, wire_of [] [])" "vs_buf (ln_viewer l) = no_events" "cm_phase (vs_machine (ln_viewer l)) = VConnecting"
      "vs_host_key (ln_viewer l) = Some pk" "vs_session_id (ln_viewer l) = Some sid"
    and ed: "\<And>m. ed_verify (vp_ed25519 V) pk m (ed_sign (ed25519_of E) sk m)" "\<And>m. length (ed_sign (ed25519_of E) sk m) = 64"
    and json: "sdp_json_faithful E" and small: "length (utf8_bytes sid) < 2 ^ 32"
  obtains a' b' l' where "bring_up E V clk l = Some l'" "joined a' b' l'" "mp_local_fp a' = mp_local_fp a" "mp_local_fp b' = mp_local_fp b"
    "cm_phase (vs_machine (ln_viewer l')) = VConnected" "vs_host_fp (ln_viewer l') = Some (as_sign_material (mp_local_fp a))"
    "hm_session_id (ln_host l') = Some sid" "hm_injector (ln_host l') = hm_injector (ln_host l)" "hm_identity (ln_host l') = hm_identity (ln_host l)"
    "vs_session_id (ln_viewer l') = Some sid" "vs_bind_key (ln_viewer l') = vs_bind_key (ln_viewer l)" "vs_identity (ln_viewer l') = vs_identity (ln_viewer l)"
    "vs_input (ln_viewer l') = vs_input (ln_viewer l)" "vs_require_identity (ln_viewer l') = vs_require_identity (ln_viewer l)"
proof -
  let ?E = "mock_host_env E" and ?V = "mock_viewer_env V" and ?h = "ln_host l" and ?v = "ln_viewer l" and ?fa = "as_sign_material (mp_local_fp a)"
  have good: "good_peer a" "good_peer b" and a: "mp_side a = Some SideA" "mp_state a = CsNew" "\<not> mp_closed a" "mp_remote_desc a = None"
    and b: "mp_side b = Some SideB" "mp_state b = CsNew" "\<not> mp_closed b" "mp_local_desc b = None" using peers by (simp_all add: fresh_peer_def)
  have fa: "length (utf8_bytes ?fa) < 2 ^ 32" using sign_text_small [OF good(1)] by simp
  obtain g where g: "sign_session_fingerprint (ed25519_of E) sk sid ?fa = Some g" "g \<noteq> []" "verify_session_fingerprint (vp_ed25519 V) pk sid ?fa g = Some (Inr ())"
    using signed_binding [OF ed small fa] .
  obtain t where t: "json_sdp_to_string E \<lparr>sdp = sdp_text (mock_sdp SdpOffer a), fingerprint_sig = Some g\<rparr> = Inr t"
    "parse_sdp_payload ?E t = Inr \<lparr>sdp = sdp_text (mock_sdp SdpOffer a), fingerprint_sig = Some g\<rparr>" using sdp_json [OF json] .
  obtain t2 where t2: "json_sdp_to_string E \<lparr>sdp = sdp_text (mock_sdp SdpAnswer b), fingerprint_sig = None\<rparr> = Inr t2"
    "parse_sdp_payload ?E t2 = Inr \<lparr>sdp = sdp_text (mock_sdp SdpAnswer b), fingerprint_sig = None\<rparr>" using sdp_json [OF json] .
  let ?a1 = "a\<lparr>mp_local_desc := Some (mock_sdp SdpOffer a), mp_state := CsConnecting, mp_last_local_ice := Some (local_candidate a)\<rparr>"
  obtain h1 out where h1: "manager_start_media ?E ?h = Some (Inr (), h1)" "hm_peer h1 = (?a1, wire_of [] [])"
    "take_outbound_signals h1 = (\<lparr>sf_session_id = sid, sf_kind = SESSION_OFFER, sf_payload = t, sf_from = HopAgent\<rparr> # out, h1\<lparr>hm_outbound := []\<rparr>)"
    "hm_data h1 = hm_data ?h" "hm_session_id h1 = Some sid" "hm_injector h1 = hm_injector ?h" "hm_identity h1 = hm_identity ?h"
    using host_offers [OF h(1) a(2-4) h(2,3,7,4), of "Some g" t] g(1) h(6) t(1) by auto
  have l1: "host_does (manager_start_media ?E) l = Some (Inr (), \<lparr>ln_host = h1, ln_viewer = ?v\<rparr>)"
    using h1(1,2) v(1) by (simp add: host_does_def)
  have sig: "check_offer_sig ?V (Some g) (?v\<lparr>vs_host_fp := Some ?fa\<rparr>) = Some (Inr ())"
    using v(4,5) g(2,3) by (auto simp: check_offer_sig_ok)
  obtain v1 b2 where v1: "accept_offer_with_sig ?V clk (mock_sdp SdpOffer a) (Some g) ?v = Some (Inr (mock_sdp SdpAnswer b), v1)"
    "vs_transport v1 = Some (b2, wire_of [] [])" "vs_buf v1 = no_events" "vs_host_fp v1 = Some ?fa"
    "cm_phase (vs_machine v1) = VConnected" "mp_side b2 = Some SideB" "mp_state b2 = CsConnected" "\<not> mp_closed b2"
    "mp_remote_fp b2 = Some (mp_local_fp a)" "mp_local_fp b2 = mp_local_fp b"
    "vs_session_id v1 = vs_session_id ?v" "vs_bind_key v1 = vs_bind_key ?v" "vs_identity v1 = vs_identity ?v" "vs_input v1 = vs_input ?v"
    "vs_require_identity v1 = vs_require_identity ?v"
    using viewer_answers [OF v(1-3) b peers(3) good(1) sig] .
  let ?h2 = "h1\<lparr>hm_outbound := []\<rparr>"
  have l2: "viewer_does (accept_offer_with_sig ?V clk (mock_sdp SdpOffer a) (Some g)) \<lparr>ln_host = ?h2, ln_viewer = ?v\<rparr> =
      Some (Inr (mock_sdp SdpAnswer b), \<lparr>ln_host = ?h2, ln_viewer = v1\<rparr>)"
    using v1(1,2) h1(2) by (simp add: viewer_does_def)
  have h2: "hm_peer ?h2 = (?a1, wire_of [] [])" "mp_state ?a1 = CsConnecting" "\<not> mp_closed ?a1" "mp_local_desc ?a1 \<noteq> None" "mp_side ?a1 = Some SideA"
    using h1(2) a by simp_all
  obtain h3 a2 where h3: "apply_signal ?E SESSION_ANSWER t2 ?h2 = Some (Inr (), h3)" "hm_peer h3 = (a2, wire_of [] [])"
    "mp_state a2 = CsConnected" "\<not> mp_closed a2" "mp_side a2 = Some SideA" "mp_local_fp a2 = mp_local_fp ?a1" "mp_remote_fp a2 = Some (mp_local_fp b)"
    "hm_data h3 = hm_data ?h2" "hm_session_id h3 = hm_session_id ?h2" "hm_injector h3 = hm_injector ?h2" "hm_identity h3 = hm_identity ?h2"
    using host_takes_answer [OF h2 good(2) t2(2)] .
  have l3: "host_does (apply_signal ?E SESSION_ANSWER t2) \<lparr>ln_host = ?h2, ln_viewer = v1\<rparr> = Some (Inr (), \<lparr>ln_host = h3, ln_viewer = v1\<rparr>)"
    using h3(1,2) v1(2) by (simp add: host_does_def)
  have up: "bring_up E V clk l = Some \<lparr>ln_host = h3, ln_viewer = v1\<rparr>"
    using l1 l2 l3 h1(3) t t2 g(2) by (simp add: bring_up_def relayed_sig_def mock_sdp_type)
  have "joined a2 b2 \<lparr>ln_host = h3, ln_viewer = v1\<rparr>"
    using h3 v1 h1 h(5) by (simp add: joined_def)
  from that [OF up this] h3 v1 h1 v(5) show thesis by simp
qed

section \<open>A session, from the offer to the injector\<close>

text \<open>The host's manager attached to a session, with the device key, on one end of a fresh wire.\<close>

definition host_at_start :: "bytes \<Rightarrow> string \<Rightarrow> 'i rate_limited \<Rightarrow> mock_peer \<Rightarrow> (mock_end, 'i) session_manager" where
  "host_at_start sk sid r a = set_device_signing_key sk (manager_attach sid r (manager_with_peer (a, wire_of [] []) r))"

text \<open>The viewer after a connect, on the other end, told to require the binding.\<close>

definition viewer_at_start :: "bytes \<Rightarrow> session_bind_key \<Rightarrow> mock_peer \<Rightarrow> (mock_end, 'v, 's) viewer_session \<Rightarrow> (mock_end, 'v, 's) viewer_session" where
  "viewer_at_start pk key b v =
     attach_transport (b, wire_of [] []) (set_require_identity_for_input True (set_bind_key key (set_host_verifying_key pk v)))"

lemma viewer_at_start_connect:
  assumes "vs_begin_connect req v0 = Some (Inr stub, v1)"
  shows "vs_transport (viewer_at_start pk key b v1) = Some (b, wire_of [] [])" "vs_buf (viewer_at_start pk key b v1) = no_events"
    "cm_phase (vs_machine (viewer_at_start pk key b v1)) = VConnecting" "vs_host_key (viewer_at_start pk key b v1) = Some pk"
    "vs_session_id (viewer_at_start pk key b v1) = Some (cs_session_id stub)" "vs_bind_key (viewer_at_start pk key b v1) = Some key"
    "vs_require_identity (viewer_at_start pk key b v1)" "\<not> identity_bound (vs_identity (viewer_at_start pk key b v1))"
    "vs_input (viewer_at_start pk key b v1) = new_emitter"
  using assms by (auto simp: viewer_at_start_def attach_transport_def teardown_transport_def set_require_identity_for_input_def set_bind_key_def
      set_host_verifying_key_def vs_begin_connect_def Let_def sync_bind_status_def begin_connect_def new_identity_def split: sum.splits option.splits)

text \<open>
  C10. A session works from end to end. Host and viewer have two fresh peers of one wire; the host is attached under the session id of the viewer's connect and signs with
  a device key that the viewer verifies; the viewer holds the key derived from the code that the host consumes; and serde reads back what it writes.
  Then the signed offer and its answer join the two; before the binding the viewer refuses to send input; the challenge round binds both;
  and from then on an event the viewer sends is the one the host injects.
\<close>

theorem session_end_to_end:
  assumes peers: "fresh_peer SideA a" "fresh_peer SideB b" "mp_remote_fp b = None"
    and connect: "vs_begin_connect req v0 = Some (Inr stub, v1)" and media: "open_media E = Inr ()"
    and ed: "\<And>m. ed_verify (vp_ed25519 V) pk m (ed_sign (ed25519_of E) sk m)" "\<And>m. length (ed_sign (ed25519_of E) sk m) = 64"
    and json: "sdp_json_faithful E"
    and code: "verify_and_consume (crypto_of E) otp pepper t0 r = (Inr ok, r')" "from_mode_a_otp (crypto_of E) otp = Inr key"
    and same: "vp_crypto V = crypto_of E" and mac: "\<And>k m. length (hmac_sha256 (crypto_of E) k m) = 32"
    and small: "length (utf8_bytes (cs_session_id stub)) < 2 ^ 32" "nonce \<noteq> []" "length nonce < 2 ^ 32"
    and event: "ev = fst (make_event ts (captured_payload c) new_emitter)" "vp_encode_input V ev = Inr js"
      "str_from_utf8 (utf8_bytes js) = Some js" "json_decode_input E js = Inr ev"
    and limiter: "try_inject (inject_backend E) (fst (clock' 0)) (snd (clock' 0)) ev rl = (Inr True, rl')"
  shows "\<exists>l1 h stats l2 stats' l3.
    bring_up E V clk \<lparr>ln_host = host_at_start sk (cs_session_id stub) rl a, ln_viewer = viewer_at_start pk key b v1\<rparr> = Some l1 \<and>
    vs_host_fp (ln_viewer l1) = Some (as_sign_material (mp_local_fp a)) \<and> ensure_can_send_input (ln_viewer l1) \<noteq> Inr () \<and>
    manager_authorize_mode_a (mock_host_env E) otp pepper t0 r (ln_host l1) = (Inr (), r', h) \<and>
    bind_round E V nonce clk2 now clock (l1\<lparr>ln_host := set_input_policy_enabled True h\<rparr>) = Some (stats, l2) \<and>
    identity_bound (hm_identity (ln_host l2)) \<and> identity_bound (vs_identity (ln_viewer l2)) \<and>
    input_round E V ts c clock' l2 = Some (stats', l3) \<and> input_accepted stats' = 1 \<and>
    hm_injector (ln_host l3) = rl' \<and> last (hm_accepted_input (ln_host l3)) = ev"
proof -
  let ?sid = "cs_session_id stub" and ?l = "\<lparr>ln_host = host_at_start sk (cs_session_id stub) rl a, ln_viewer = viewer_at_start pk key b v1\<rparr>"
  note v = viewer_at_start_connect [OF connect, of pk key b]
  have h: "hm_peer (ln_host ?l) = (a, wire_of [] [])" "hm_session_id (ln_host ?l) = Some ?sid" "hm_media (ln_host ?l) = None"
      "hm_outbound (ln_host ?l) = []" "hm_data (ln_host ?l) = []" "hm_signing_key (ln_host ?l) = Some sk" "hm_injector (ln_host ?l) = rl"
      "hm_identity (ln_host ?l) = new_identity ?sid"
    by (simp_all add: host_at_start_def set_device_signing_key_def manager_attach_def manager_with_peer_def)
  obtain a1 b1 l1 where l1: "bring_up E V clk ?l = Some l1" "joined a1 b1 l1" "mp_local_fp a1 = mp_local_fp a" "mp_local_fp b1 = mp_local_fp b"
    "cm_phase (vs_machine (ln_viewer l1)) = VConnected" "vs_host_fp (ln_viewer l1) = Some (as_sign_material (mp_local_fp a))"
    "hm_session_id (ln_host l1) = Some ?sid" "hm_injector (ln_host l1) = rl" "hm_identity (ln_host l1) = new_identity ?sid"
    "vs_session_id (ln_viewer l1) = Some ?sid" "vs_bind_key (ln_viewer l1) = Some key" "\<not> identity_bound (vs_identity (ln_viewer l1))"
    "vs_input (ln_viewer l1) = new_emitter" "vs_require_identity (ln_viewer l1)"
    by (rule negotiation_joins [OF peers h(1-6) media _ _ _ _ _ ed json small(1), where clk = clk]) (use v h(7,8) in simp_all)
  let ?h = "install_key key (ln_host l1)"
  have auth: "manager_authorize_mode_a (mock_host_env E) otp pepper t0 r (ln_host l1) = (Inr (), r', ?h)"
    using code by (simp add: manager_authorize_mode_a_def authorize_mode_a_def)
  let ?l1 = "l1\<lparr>ln_host := set_input_policy_enabled True ?h\<rparr>"
  have j1: "joined a1 b1 ?l1" using l1(2) by (simp add: joined_def set_input_policy_enabled_def install_key_def)
  have h1: "hm_session_id (ln_host ?l1) = Some ?sid" "ib_session_id (hm_identity (ln_host ?l1)) = ?sid"
      "session_authorized (hm_identity (ln_host ?l1))" "hm_bind_key (ln_host ?l1) = Some key" "hm_policy_input (ln_host ?l1)" "hm_injector (ln_host ?l1) = rl"
    using l1(7-9) by (simp_all add: set_input_policy_enabled_def install_key_def mark_authorized_def new_identity_def)
  have good: "good_peer a" "good_peer b" using peers by (simp_all add: fresh_peer_def)
  have sizes: "list_all (\<lambda>b. length b < 2 ^ 32) [utf8_bytes ?sid, nonce, utf8_bytes (as_sign_material (mp_local_fp a1)), utf8_bytes (as_sign_material (mp_local_fp b1))]"
    using sign_text_small [OF good(1)] sign_text_small [OF good(2)] small l1(3,4) by simp
  obtain stats l2 where l2: "bind_round E V nonce clk2 now clock ?l1 = Some (stats, l2)" "joined a1 b1 l2"
    "identity_bound (vs_identity (ln_viewer l2))" "vs_machine (ln_viewer l2) = vs_machine (ln_viewer l1)" "vs_input (ln_viewer l2) = new_emitter"
    "hm_injector (ln_host l2) = rl" "hm_identity (ln_host l2) = mark_identity_bound (hm_identity (ln_host ?l1))" "hm_policy_input (ln_host l2)"
    using identity_binds_over_the_wire [OF j1 h1(1-4) _ _ same mac sizes small(2), of clk2 now clock] l1(10,11,13) h1(5,6) by auto
  have can: "ensure_can_send_input (ln_viewer l2) = Inr ()" "injection_allowed (ln_host l2)" "identity_bound (hm_identity (ln_host l2))"
    using l2 l1(5) h1(3) by (simp_all add: ensure_can_send_input_def injection_allowed_def input_allowed_def mark_identity_bound_def)
  have "fst (make_event ts (captured_payload c) (vs_input (ln_viewer l2))) = ev" using event(1) l2(5) by simp
  from input_crosses_the_wire [OF l2(2) can(1) this event(2-4), of clock' rl'] limiter can(2) l2(6)
  obtain stats' l3 where l3: "input_round E V ts c clock' l2 = Some (stats', l3)" "input_accepted stats' = 1" "hm_injector (ln_host l3) = rl'"
    "last (hm_accepted_input (ln_host l3)) = ev" by auto
  have "ensure_can_send_input (ln_viewer l1) \<noteq> Inr ()" using l1(5,12,14) by (simp add: ensure_can_send_input_def)
  with l1(1,6) auth l2(1,3) can(3) l3 show ?thesis by blast
qed

subsection \<open>A concrete session\<close>

text \<open>A text for a payload that can be read back: the description's length in unary, the description and the signature, in braces.\<close>

definition demo_sdp_text :: "sdp_payload \<Rightarrow> string" where
  "demo_sdp_text p = ''{'' @ replicate (length (sdp p)) (CHR ''x'') @ '','' @ sdp p @
     (case fingerprint_sig p of None \<Rightarrow> [] | Some g \<Rightarrow> CHR ''+'' # g) @ ''}''"

definition demo_sdp_read :: "string \<Rightarrow> sdp_payload" where
  "demo_sdp_read s =
     (let t = tl (butlast s); n = length (takeWhile ((=) (CHR ''x'')) t); body = drop (Suc n) t
      in \<lparr>sdp = take n body, fingerprint_sig = (case drop n body of [] \<Rightarrow> None | _ # g \<Rightarrow> Some g)\<rparr>)"

lemma demo_sdp_round: "demo_sdp_read (demo_sdp_text p) = p"
proof -
  let ?n = "length (sdp p)" and ?r = "sdp p @ (case fingerprint_sig p of None \<Rightarrow> [] | Some g \<Rightarrow> CHR ''+'' # g)"
  have "tl (butlast (demo_sdp_text p)) = replicate ?n (CHR ''x'') @ CHR '','' # ?r"
    by (simp add: demo_sdp_text_def butlast_append split: option.split)
  moreover have "takeWhile ((=) (CHR ''x'')) (replicate ?n (CHR ''x'') @ CHR '','' # ?r) = replicate ?n (CHR ''x'')"
    by (subst takeWhile_append2) auto
  ultimately have "demo_sdp_read (demo_sdp_text p) = \<lparr>sdp = sdp p, fingerprint_sig = fingerprint_sig p\<rparr>"
    by (simp add: demo_sdp_read_def Let_def split: option.split)
  then show ?thesis by simp
qed

lemma demo_sdp_trim: "trim (demo_sdp_text p) = demo_sdp_text p" "starts_with (demo_sdp_text p) ''{''"
proof -
  have "hd (demo_sdp_text p) = CHR ''{''" "last (demo_sdp_text p) = CHR ''}''" by (simp_all add: demo_sdp_text_def)
  then show "trim (demo_sdp_text p) = demo_sdp_text p" by (intro trim_visible) (simp add: visible_def)
  show "starts_with (demo_sdp_text p) ''{''" by (simp add: demo_sdp_text_def starts_with_def)
qed

definition loop_key_event :: input_event where
  "loop_key_event = fst (make_event 0 (captured_payload (CapKey 28 False True 0)) new_emitter)"

definition loop_host_env :: "(mock_end, stub_injector) host_env" where
  "loop_host_env = \<lparr>crypto_of = tag_crypto, ed25519_of = toy_ed25519, peer_state = (\<lambda>e. mp_state (fst e)),
     peer_poll = as_host_op mock_poll, peer_send_data = (\<lambda>m. as_host_op (mock_send_data m)),
     peer_create_offer = as_host_op mock_create_offer, peer_set_local = (\<lambda>d. as_host_op (mock_set_local d)),
     peer_set_remote = (\<lambda>d. as_host_op (mock_set_remote d)), peer_add_ice = (\<lambda>c. as_host_op (mock_add_ice c)),
     peer_local_fingerprint = mock_local_fp, peer_remote_fingerprint = mock_remote_fp,
     json_sdp_from_str = (\<lambda>s. Inr (demo_sdp_read s)), json_sdp_to_string = (\<lambda>p. Inr (demo_sdp_text p)),
     json_ice_from_str = (\<lambda>_. None), json_ice_wrapped = (\<lambda>_. None), json_ice_to_string = (\<lambda>_. Inl []),
     json_decode_input = (\<lambda>_. Inr loop_key_event), inject_backend = stub_inject, open_media = Inr ()\<rparr>"

definition loop_viewer_env :: "(mock_end, unit, unit) viewer_env" where
  "loop_viewer_env = \<lparr>vp_crypto = tag_crypto, vp_ed25519 = toy_ed25519, vp_state = (\<lambda>e. mp_state (fst e)),
     vp_poll = as_viewer_op mock_poll, vp_send_data = (\<lambda>m. as_viewer_op (mock_send_data m)),
     vp_create_answer = as_viewer_op mock_create_answer, vp_set_local = (\<lambda>d. as_viewer_op (mock_set_local d)),
     vp_set_remote = (\<lambda>d. as_viewer_op (mock_set_remote d)), vp_add_ice = (\<lambda>c. as_viewer_op (mock_add_ice c)),
     vp_local_fingerprint = mock_local_fp, vp_remote_fingerprint = mock_remote_fp,
     vp_decode = (\<lambda>_ v. Some (None, v)), vp_sink_push = null_sink_push, vp_sink_flush = id, vp_encode_input = (\<lambda>_. Inr ''{}'')\<rparr>"

lemma demo_code:
  obtains hash key where "verify_and_consume tag_crypto ''123456'' [1] 0 (new_otp_record hash 10) = (Inr (), (new_otp_record hash 10)\<lparr>or_consumed := True\<rparr>)"
    "from_mode_a_otp tag_crypto ''123456'' = Inr key"
proof -
  have code: "well_formed_code ''123456''" by (simp add: well_formed_code_def is_ascii_digit_def)
  let ?h = "\<lparr>digest = hmac_sha256 tag_crypto [1] (OTP_HASH_DOMAIN @ replicate 16 5 @ utf8_bytes ''123456''), salt = replicate 16 5, keyed = True\<rparr>"
  have v: "verify_otp tag_crypto ''123456'' [1] ?h = Inr ()" using code by (simp add: verify_otp_keyed)
  have 1: "verify_and_consume tag_crypto ''123456'' [1] 0 (new_otp_record ?h 10) = (Inr (), (new_otp_record ?h 10)\<lparr>or_consumed := True\<rparr>)"
    using v by (simp add: verify_and_consume_def verify_record_def new_otp_record_def is_expired_def)
  have 2: "\<exists>key. from_mode_a_otp tag_crypto ''123456'' = Inr key"
    using code by (simp add: from_mode_a_otp_def validate_otp_format_iff [THEN iffD2])
  from 2 obtain key where "from_mode_a_otp tag_crypto ''123456'' = Inr key" by blast
  from that [OF 1 this] show thesis .
qed

lemma demo_fresh_peers:
  obtains a b where "fresh_peer SideA a" "fresh_peer SideB b" "mp_remote_fp b = None"
proof -
  have "is_ascii_hexdigit (CHR ''A'')" by (simp add: is_ascii_hexdigit_def)
  then obtain fp where fp: "fingerprint_sha256 (replicate 64 (CHR ''A'')) = Inr fp" by (auto simp: fingerprint_sha256_def)
  let ?p = "new_mock_peer fp default_mock_config"
  have "good_peer ?p" using fp by (auto simp: good_peer_def new_mock_peer_def default_mock_config_def visible_def)
  with that [of "?p\<lparr>mp_side := Some SideA\<rparr>" "?p\<lparr>mp_side := Some SideB\<rparr>"] show thesis
    by (simp add: fresh_peer_def good_peer_def new_mock_peer_def)
qed

theorem session_end_to_end_witness:
  "\<exists>a b key v1 l1 l2 stats l3.
     bring_up loop_host_env loop_viewer_env (\<lambda>_. (0, 0))
       \<lparr>ln_host = host_at_start [9] ''sess-stub-h'' demo_injector a, ln_viewer = viewer_at_start [9] key b v1\<rparr> = Some l1 \<and>
     input_round loop_host_env loop_viewer_env 0 (CapKey 28 False True 0) (\<lambda>_. (0, 0)) l2 = Some (stats, l3) \<and>
     input_accepted stats = 1 \<and> last (hm_accepted_input (ln_host l3)) = loop_key_event"
proof -
  obtain a b where p: "fresh_peer SideA a" "fresh_peer SideB b" "mp_remote_fp b = None" by (rule demo_fresh_peers)
  obtain hash key where k: "verify_and_consume tag_crypto ''123456'' [1] 0 (new_otp_record hash 10) = (Inr (), (new_otp_record hash 10)\<lparr>or_consumed := True\<rparr>)"
    "from_mode_a_otp tag_crypto ''123456'' = Inr key" by (rule demo_code)
  obtain v0 :: "(mock_end, unit, unit) viewer_session" where v0: "vs_new () () = Some v0" "ic_config (vs_capture v0) = default_capture_config"
    using new_default_capture by (auto simp: vs_new_def new_capture_def)
  then obtain v1 where v1: "vs_begin_connect (unattended_request ''h'' ''aaaaaaaa'') v0 = Some (Inr \<lparr>cs_session_id = ''sess-stub-h'', cs_accepted = True\<rparr>, v1)"
    using new_default_capture by (auto simp: vs_begin_connect_def demo_connect_ok Let_def teardown_transport_def)
  have media: "open_media loop_host_env = Inr ()" by (simp add: loop_host_env_def)
  have ed: "ed_verify (vp_ed25519 loop_viewer_env) [9] m (ed_sign (ed25519_of loop_host_env) [9] m)"
    "length (ed_sign (ed25519_of loop_host_env) [9] m) = 64" for m
    by (simp_all add: loop_host_env_def loop_viewer_env_def toy_ed25519_def)
  have json: "sdp_json_faithful loop_host_env" by (simp add: sdp_json_faithful_def loop_host_env_def demo_sdp_trim demo_sdp_round)
  have code: "verify_and_consume (crypto_of loop_host_env) ''123456'' [1] 0 (new_otp_record hash 10) = (Inr (), (new_otp_record hash 10)\<lparr>or_consumed := True\<rparr>)"
    "from_mode_a_otp (crypto_of loop_host_env) ''123456'' = Inr key" using k by (simp_all add: loop_host_env_def)
  have same: "vp_crypto loop_viewer_env = crypto_of loop_host_env" by (simp add: loop_host_env_def loop_viewer_env_def)
  have mac: "length (hmac_sha256 (crypto_of loop_host_env) k m) = 32" for k m by (simp add: loop_host_env_def)
  have small: "length (utf8_bytes (cs_session_id \<lparr>cs_session_id = ''sess-stub-h'', cs_accepted = True\<rparr>)) < 2 ^ 32" "[7 :: u8] \<noteq> []" "length [7 :: u8] < 2 ^ 32"
    by (simp_all add: utf8_bytes_def)
  have json_text: "str_from_utf8 (utf8_bytes ''{}'') = Some ''{}''" by code_simp
  have event: "vp_encode_input loop_viewer_env loop_key_event = Inr ''{}''" "json_decode_input loop_host_env ''{}'' = Inr loop_key_event"
    by (simp_all add: loop_host_env_def loop_viewer_env_def)
  obtain rl' where limiter: "try_inject (inject_backend loop_host_env) (fst (0 :: nat, 0 :: nat)) (snd (0 :: nat, 0 :: nat)) loop_key_event demo_injector = (Inr True, rl')"
    by (simp add: loop_host_env_def try_inject_def roll_window_if_needed_def as_secs_def demo_injector_def new_rate_limited_def stub_inject_def
        new_stub_injector_def Let_def word_le_nat_alt)
  from session_end_to_end [where clk = "\<lambda>_. (0, 0)" and ?clk2.0 = "\<lambda>_. (0, 0)" and clock = "\<lambda>_. (0, 0)" and clock' = "\<lambda>_. (0, 0)" and now = 0,
      OF p v1 media ed json code same mac small loop_key_event_def event(1) json_text event(2) limiter]
  show ?thesis unfolding connect_stub_result.simps by (elim exE conjE) (intro exI conjI)
qed

end
