(* ===== verification/Host_Pump_Props.thy ===== *)
theory Host_Pump_Props
  imports Host_Pump Loopback_Session
begin

text \<open>
  What the pump of \<open>Host_Pump\<close> puts on the in-process wire: every picture taken from the source, once, in order, as an access unit that the viewer's
  decoder turns into that picture.
\<close>

definition mock_pump_env :: "('s, 'm, mock_end) pump_env \<Rightarrow> ('s, 'm, mock_end) pump_env" where
  "mock_pump_env S = S\<lparr>pe_send_audio := \<lambda>a. as_host_op (mock_send_audio a), pe_send_video := \<lambda>n. as_host_op (mock_send_video n)\<rparr>"

lemma mock_pump_env_sel [simp]:
  "pe_next_audio (mock_pump_env S) = pe_next_audio S" "pe_next_video (mock_pump_env S) = pe_next_video S" "pe_mf (mock_pump_env S) = pe_mf S"
  "pe_send_audio (mock_pump_env S) = (\<lambda>a. as_host_op (mock_send_audio a))"
  "pe_send_video (mock_pump_env S) = (\<lambda>n. as_host_op (mock_send_video n))"
  by (simp_all add: mock_pump_env_def)

text \<open>A run of the sources from one state to another, with the pictures it yielded.\<close>

inductive draws :: "('s, 'm, 'p) pump_env \<Rightarrow> 's \<Rightarrow> video_frame list \<Rightarrow> 's \<Rightarrow> bool" for S where
  none: "draws S s [] s"
| sound: "pe_next_audio S s = (r, s1) \<Longrightarrow> draws S s1 fs s2 \<Longrightarrow> draws S s fs s2"
| idle: "pe_next_video S s = (Inr None, s1) \<Longrightarrow> draws S s1 fs s2 \<Longrightarrow> draws S s fs s2"
| picture: "pe_next_video S s = (Inr (Some f), s1) \<Longrightarrow> draws S s1 fs s2 \<Longrightarrow> draws S s (f # fs) s2"

lemma draws_trans: "draws S s fs s1 \<Longrightarrow> draws S s1 gs s2 \<Longrightarrow> draws S s (fs @ gs) s2"
  by (induction rule: draws.induct) (auto intro: draws.intros)

lemma next_picture_draws:
  "next_picture (pe_next_video S) n s = (Inr r, s1) \<Longrightarrow> draws S s (case r of None \<Rightarrow> [] | Some f \<Rightarrow> [f]) s1"
  by (induction n arbitrary: s) (auto split: prod.splits sum.splits option.splits intro: draws.intros)

section \<open>The sending side of the wire\<close>

text \<open>The host's peer is connected and the wire is open.\<close>

definition sending :: "mock_peer \<Rightarrow> (mock_end, 'i) session_manager \<Rightarrow> bool" where
  "sending a m \<longleftrightarrow> fst (hm_peer m) = a \<and> mp_side a = Some SideA \<and> mp_state a = CsConnected \<and> \<not> mp_closed a \<and>
     lw_open (snd (hm_peer m)) \<and> hm_media m \<noteq> None"

definition on_wire :: "(mock_end, 'i) session_manager \<Rightarrow> wire_msg list" where
  "on_wire m = lw_to_b (snd (hm_peer m))"

definition pictures :: "wire_msg list \<Rightarrow> video_nalu list" where
  "pictures ws = List.map_filter (\<lambda>w. case w of WireVideo n \<Rightarrow> Some n | _ \<Rightarrow> None) ws"

lemma pictures_append [simp]: "pictures (xs @ ys) = pictures xs @ pictures ys"
  by (induction xs) (simp_all add: pictures_def List.map_filter_def)

lemma pictures_one [simp]: "pictures [] = []" "pictures [WireVideo n] = [n]" "pictures [WireAudio a] = []"
  by (simp_all add: pictures_def List.map_filter_def)

lemma sending_count [simp]: "sending a (count_audio m) = sending a m" "sending a (count_video m) = sending a m"
  "on_wire (count_audio m) = on_wire m" "on_wire (count_video m) = on_wire m"
  by (simp_all add: sending_def on_wire_def count_audio_def count_video_def)

lemma send_sending:
  assumes "sending a m"
  shows "\<exists>m'. on_peer (as_host_op (send_wire w)) m = (Inr (), m') \<and> sending a m' \<and> on_wire m' = on_wire m @ [w]"
proof -
  obtain p x where p: "hm_peer m = (p, x)" by (cases "hm_peer m")
  with assms show ?thesis
    by (simp add: sending_def on_wire_def on_peer_def as_host_op_def send_wire_def ensure_open_def outbound_tx_def put_wire_def host_events_def)
qed

lemma poll_sending:
  assumes "sending a m"
  shows "on_wire (snd (on_peer (peer_poll (mock_host_env E)) m)) = on_wire m"
  using assms by (cases "hm_peer m") (simp add: sending_def on_wire_def on_peer_def as_host_op_def mock_poll_def Let_def)

section \<open>One slot\<close>

lemma pump_audio_keeps:
  assumes "pump_audio (mock_pump_env S) c m = (Inr b, c', m')" "sending a m"
  shows "sending a m' \<and> pictures (on_wire m') = pictures (on_wire m) \<and> draws S (cp_sources c) [] (cp_sources c') \<and> cp_h264 c' = cp_h264 c"
proof -
  obtain r s where r: "pe_next_audio S (cp_sources c) = (r, s)" by (cases "pe_next_audio S (cp_sources c)")
  then have d: "draws S (cp_sources c) [] s" by (intro sound [OF _ none])
  show ?thesis
  proof (cases r)
    case (Inr f)
    show ?thesis
    proof (cases f)
      case None
      with assms r d Inr show ?thesis by (auto simp: pump_audio_def)
    next
      case (Some frame)
      with assms(1) r Inr obtain opus o1 m1 where e: "opus_encode frame (cp_opus c) = (Inr opus, o1)"
        and s: "on_peer (as_host_op (send_wire (WireAudio \<lparr>ap_pts_host_mono = of_pts_host_mono opus, ap_rtp_ts = Some (of_rtp_ts opus),
            ap_sample_rate = af_sample_rate frame, ap_channels = af_channels frame, ap_data = of_data opus\<rparr>))) (count_audio m) = (Inr (), m')"
        and c': "c' = c\<lparr>cp_sources := s, cp_opus := o1\<rparr>"
        by (auto simp: pump_audio_def mock_send_audio_def split: prod.splits sum.splits)
      from send_sending [of a "count_audio m"] assms(2) s have "sending a m' \<and> pictures (on_wire m') = pictures (on_wire m)"
        by (auto simp: on_wire_def [symmetric]) (metis append_Nil2 pictures_append pictures_one(3) prod.inject)+
      with d c' show ?thesis by simp
    qed
  qed (use assms(1) r in \<open>simp add: pump_audio_def\<close>)
qed

lemma pump_audios_keep:
  assumes "pump_audios (mock_pump_env S) n k c m = (Inr k', c', m')" "sending a m"
  shows "sending a m' \<and> pictures (on_wire m') = pictures (on_wire m) \<and> draws S (cp_sources c) [] (cp_sources c') \<and> cp_h264 c' = cp_h264 c"
  using assms
proof (induction n arbitrary: k c m)
  case (Suc n)
  then obtain b c1 m1 where 1: "pump_audio (mock_pump_env S) c m = (Inr b, c1, m1)"
    and 2: "pump_audios (mock_pump_env S) n (if b then k + 1 else k) c1 m1 = (Inr k', c', m')"
    by (auto split: prod.splits sum.splits)
  note a = pump_audio_keeps [OF 1 Suc.prems(2)]
  with Suc.IH [OF 2] draws_trans [of S "cp_sources c" "[]" "cp_sources c1" "[]"] show ?case by simp
qed (simp add: none)

lemma pump_audio_epoch: "pump_audio S c m = (Inr b, c', m') \<Longrightarrow> cp_epoch c' = cp_epoch c"
  by (auto simp: pump_audio_def split: prod.splits sum.splits option.splits)

lemma pump_audios_epoch: "pump_audios S n k c m = (Inr k', c', m') \<Longrightarrow> cp_epoch c' = cp_epoch c"
  by (induction n arbitrary: k c m) (auto split: prod.splits sum.splits dest: pump_audio_epoch)

text \<open>A unit that the viewer's decoder, whatever it decoded before, turns into the picture, stamped with the picture's time on the video clock.\<close>

definition carries :: "rtp_epoch \<Rightarrow> video_frame \<Rightarrow> video_nalu \<Rightarrow> bool" where
  "carries ep f n \<longleftrightarrow> vn_pts_host_mono n = vf_pts_host_mono f \<and> vn_rtp_ts n = Some (video_ts ep (vf_pts_host_mono f)) \<and>
     (\<forall>pts dec. \<exists>dec'. h264_decode (vn_data n) pts dec =
        Some (Inr (Some (f\<lparr>vf_pts_host_mono := pts, vf_format := decoded_format (vf_format f)\<rparr>)), dec'))"

definition soft_plane :: "('s, 'm) capture_plane \<Rightarrow> bool" where
  "soft_plane c \<longleftrightarrow> (\<exists>e. cp_h264 c = SoftwareEnc e \<and> unat (se_fps e) < 65536)"

definition small_pictures :: "('s, 'm, 'p) pump_env \<Rightarrow> bool" where
  "small_pictures S \<longleftrightarrow> (\<forall>s f s1. pe_next_video S s = (Inr (Some f), s1) \<longrightarrow> unat (vf_width f) \<le> 1280 \<and> unat (vf_height f) \<le> 720)"

lemma next_picture_small:
  "small_pictures S \<Longrightarrow> next_picture (pe_next_video S) n s = (Inr (Some f), s1) \<Longrightarrow> unat (vf_width f) \<le> 1280 \<and> unat (vf_height f) \<le> 720"
  by (induction n arbitrary: s) (auto simp: small_pictures_def split: prod.splits sum.splits option.splits)

lemma soft_encode_fps: "soft_encode f force e = (r, e') \<Longrightarrow> se_fps e' = se_fps e"
  by (auto simp: soft_encode_def Let_def split: sum.splits)

lemma soft_encode_carries:
  assumes "capture_format_of (vf_format f) = Some c" "soft_encode (capture_twin f c) force e = (Inr au, e')" "unat (se_fps e) < 65536"
    and "unat (vf_width f) \<le> 1280" "unat (vf_height f) \<le> 720"
  shows "au_pts_host_mono au = vf_pts_host_mono f \<and> (\<exists>dec'. h264_decode (au_data au) pts dec =
      Some (Inr (Some (f\<lparr>vf_pts_host_mono := pts, vf_format := decoded_format (vf_format f)\<rparr>)), dec'))"
proof -
  have "bytes_per_pixel (vf_format f) \<le> 4" by (cases "vf_format f") simp_all
  with assms(4) have "unat (vf_width f) * bytes_per_pixel (vf_format f) \<le> 1280 * 4" by (rule mult_le_mono)
  then have w: "unat (vf_width f) * bytes_per_pixel (vf_format f) < 2 ^ 32" by simp
  have fps: "unat (me_fps (soft_twin e)) < 65536" using assms(3) by (simp add: soft_twin_def)
  from twin_encode [OF assms(1) w assms(2)] have h: "h264_encode f force (soft_twin e) = (Inr au, soft_twin e')" by simp
  from frame_survives [OF h assms(4,5) fps, of pts dec]
  have "\<exists>dec'. h264_decode (au_data au) pts dec = Some (Inr (Some (f\<lparr>vf_pts_host_mono := pts, vf_format := decoded_format (vf_format f)\<rparr>)), dec')"
    by blast
  moreover have "au_pts_host_mono au = vf_pts_host_mono f"
    using h by (auto simp: h264_encode_def Let_def split: sum.splits)
  ultimately show ?thesis by blast
qed

lemma pump_video_sends:
  assumes "pump_video (mock_pump_env S) c m = (Inr b, c', m')" "sending a m" "soft_plane c" "small_pictures S"
  shows "sending a m' \<and> soft_plane c' \<and> cp_epoch c' = cp_epoch c \<and>
    (\<exists>fs ns. draws S (cp_sources c) fs (cp_sources c') \<and> pictures (on_wire m') = pictures (on_wire m) @ ns \<and>
      list_all2 (carries (cp_epoch c)) fs ns \<and> length ns = (if b then 1 else 0))"
proof -
  obtain r s where r: "next_picture (pe_next_video S) 8 (cp_sources c) = (r, s)" by (cases "next_picture (pe_next_video S) 8 (cp_sources c)")
  with assms(1) obtain f where f: "r = Inr f" by (cases r) (simp_all add: pump_video_def)
  note d = next_picture_draws [OF r [unfolded f]]
  obtain e where e: "cp_h264 c = SoftwareEnc e" "unat (se_fps e) < 65536" using assms(3) by (auto simp: soft_plane_def)
  show ?thesis
  proof (cases f)
    case None
    with r f assms(1) have "\<not> b" "c' = c\<lparr>cp_sources := s\<rparr>" "m' = m" by (simp_all add: pump_video_def)
    with None assms(2,3) d show ?thesis by (auto simp: soft_plane_def)
  next
    case (Some frame)
    let ?k = "fst (media_counters m) mod 30 = 0"
    from Some assms(1) r f e(1) obtain cf au e1 where cf: "capture_format_of (vf_format frame) = Some cf"
      and enc: "soft_encode (capture_twin frame cf) ?k e = (Inr au, e1)"
      by (auto simp: pump_video_def Let_def media_frame_to_capture_def capture_twin_def [symmetric] split: prod.splits sum.splits option.splits)
    let ?n = "\<lparr>vn_pts_host_mono = au_pts_host_mono au, vn_rtp_ts = Some (video_ts (cp_epoch c) (vf_pts_host_mono frame)),
      vn_keyframe = au_keyframe au, vn_format = au_format au, vn_data = au_data au\<rparr>"
    obtain m1 where send: "on_peer (as_host_op (send_wire (WireVideo ?n))) (count_video m) = (Inr (), m1)" "sending a m1"
      "on_wire m1 = on_wire m @ [WireVideo ?n]"
      using send_sending [of a "count_video m" "WireVideo ?n"] assms(2) by auto
    from assms(1) r f Some e(1) cf enc send(1) have out: "b" "m' = m1" "c' = c\<lparr>cp_sources := s, cp_h264 := SoftwareEnc e1\<rparr>"
      by (simp_all add: pump_video_def Let_def media_frame_to_capture_def capture_twin_def [symmetric] mock_send_video_def)
    have "unat (vf_width frame) \<le> 1280 \<and> unat (vf_height frame) \<le> 720"
      using next_picture_small [OF assms(4)] r f Some by blast
    with soft_encode_carries [OF cf enc e(2)] have "carries (cp_epoch c) frame ?n" by (simp add: carries_def)
    moreover have "soft_plane c'" using soft_encode_fps [OF enc] e(2) out(3) by (simp add: soft_plane_def)
    ultimately show ?thesis
      using d out send(2,3) Some by (intro conjI) (auto intro!: exI [of _ "[frame]"])
  qed
qed

lemma pump_slots_send:
  assumes "pump_slots (mock_pump_env S) n v k c m = (Inr (v', k'), c', m')" "sending a m" "soft_plane c" "small_pictures S"
  shows "sending a m' \<and>
    (\<exists>fs ns. draws S (cp_sources c) fs (cp_sources c') \<and> pictures (on_wire m') = pictures (on_wire m) @ ns \<and>
      list_all2 (carries (cp_epoch c)) fs ns \<and> length ns \<le> n \<and> v' = v + of_nat (length ns))"
  using assms
proof (induction n arbitrary: v k c m)
  case (Suc n)
  then obtain k1 c1 m1 b c2 m2 where 1: "pump_audios (mock_pump_env S) 3 k c m = (Inr k1, c1, m1)"
    and 2: "pump_video (mock_pump_env S) c1 m1 = (Inr b, c2, m2)"
    and 3: "pump_slots (mock_pump_env S) n (if b then v + 1 else v) k1 c2 m2 = (Inr (v', k'), c', m')"
    by (auto split: prod.splits sum.splits)
  note a1 = pump_audios_keep [OF 1 Suc.prems(2)]
  then have up: "sending a m1" by simp
  have ep: "cp_epoch c1 = cp_epoch c" using pump_audios_epoch [OF 1] .
  have "soft_plane c1" using Suc.prems(3) a1 by (simp add: soft_plane_def)
  from pump_video_sends [OF 2 up this Suc.prems(4)] a1 ep obtain fs ns where b: "sending a m2" "soft_plane c2" "cp_epoch c2 = cp_epoch c"
    "draws S (cp_sources c1) fs (cp_sources c2)" "pictures (on_wire m2) = pictures (on_wire m) @ ns" "list_all2 (carries (cp_epoch c)) fs ns"
    "length ns = (if b then 1 else 0)" by auto
  from Suc.IH [OF 3 b(1,2) Suc.prems(4)] b(3) obtain fs' ns' where c: "sending a m'" "draws S (cp_sources c2) fs' (cp_sources c')"
    "pictures (on_wire m') = pictures (on_wire m2) @ ns'" "list_all2 (carries (cp_epoch c)) fs' ns'" "length ns' \<le> n"
    "v' = (if b then v + 1 else v) + of_nat (length ns')" by auto
  have "draws S (cp_sources c) (fs @ fs') (cp_sources c')"
    using draws_trans [OF draws_trans [of S "cp_sources c" "[]" "cp_sources c1"] c(2)] a1 b(4) by fastforce
  moreover have "list_all2 (carries (cp_epoch c)) (fs @ fs') (ns @ ns')" using b(6) c(4) by (rule list_all2_appendI)
  moreover have "length (ns @ ns') \<le> Suc n" "v' = v + of_nat (length (ns @ ns'))" using b(7) c(5,6) by (auto split: if_splits)
  moreover have "pictures (on_wire m') = pictures (on_wire m) @ ns @ ns'" using b(5) c(3) by simp
  ultimately show ?case using c(1) by blast
qed (auto intro: none)


text \<open>A source of listed pictures and no sound.\<close>

definition listed_source :: "(video_frame list, unit, mock_end) pump_env" where
  "listed_source =
     \<lparr>pe_next_audio = \<lambda>s. (Inr None, s),
      pe_next_video = \<lambda>s. (case s of f # fs \<Rightarrow> if unat (vf_width f) \<le> 1280 \<and> unat (vf_height f) \<le> 720 then (Inr (Some f), fs) else (Inr None, fs)
        | [] \<Rightarrow> (Inr None, [])),
      pe_mf = \<lparr>mf_open = None, mf_encode = \<lambda>f k m. (Inl EeClosed, m), mf_request_keyframe = id, mf_set_bitrate = \<lambda>b. id\<rparr>,
      pe_send_audio = \<lambda>p e. (Inr (), \<lparr>ev_ice = [], ev_data = []\<rparr>, e), pe_send_video = \<lambda>n e. (Inr (), \<lparr>ev_ice = [], ev_data = []\<rparr>, e)\<rparr>"

definition demo_plane :: "(video_frame list, unit) capture_plane" where
  "demo_plane = \<lparr>cp_sources = [demo_capture_frame], cp_opus = new_opus_encoder, cp_h264 = SoftwareEnc (new_soft_encoder default_encoder_config),
     cp_epoch = \<lparr>epoch_t0 = 0\<rparr>\<rparr>"

definition demo_streaming :: "(mock_end, stub_injector) session_manager" where
  "demo_streaming = (manager_with_peer
      ((new_mock_peer \<lparr>fp_algorithm = [], fp_value = []\<rparr> default_mock_config)\<lparr>mp_side := Some SideA, mp_state := CsConnected\<rparr>, wire_of [] [])
      demo_injector)\<lparr>hm_media := Some \<lparr>video_frames_sent = 0, audio_packets_sent = 0\<rparr>\<rparr>"

lemma demo_pump:
  "\<exists>stats c' m'. pump_media (mock_pump_env listed_source) (mock_host_env loop_host_env) 1 demo_plane demo_streaming = (Inr stats, c', m') \<and>
     \<not> skipped_not_connected stats \<and> video_sent stats = 1"
proof -
  let ?e = "new_soft_encoder default_encoder_config"
  have "is_well_formed demo_capture_frame" by (simp add: demo_capture_frame_def is_well_formed_def expected_len_def sat_usize_def)
  moreover have "capture_format_of (vf_format demo_capture_frame) = Some CapBgra8"
    "unat (vf_width demo_capture_frame) * bytes_per_pixel (vf_format demo_capture_frame) < 2 ^ 32" by (simp_all add: demo_capture_frame_def)
  note twin_well_formed [OF this]
  ultimately obtain au e1 where enc: "soft_encode (capture_twin demo_capture_frame CapBgra8) True ?e = (Inr au, e1)"
    by (simp add: soft_encode_def soft_validate_frame_def Let_def)
  have up: "sending (fst (hm_peer demo_streaming)) demo_streaming"
    by (simp add: sending_def demo_streaming_def manager_with_peer_def new_mock_peer_def wire_of_def)
  let ?n = "\<lparr>vn_pts_host_mono = au_pts_host_mono au, vn_rtp_ts = Some (video_ts \<lparr>epoch_t0 = 0\<rparr> (vf_pts_host_mono demo_capture_frame)),
      vn_keyframe = au_keyframe au, vn_format = au_format au, vn_data = au_data au\<rparr>"
  obtain m1 where send: "on_peer (as_host_op (send_wire (WireVideo ?n))) (count_video demo_streaming) = (Inr (), m1)"
    using send_sending [of _ "count_video demo_streaming" "WireVideo ?n"] up by auto
  have "pe_next_video listed_source [demo_capture_frame] = (Inr (Some demo_capture_frame), [])"
    by (simp add: listed_source_def demo_capture_frame_def)
  then have "next_picture (pe_next_video listed_source) (Suc 7) [demo_capture_frame] = (Inr (Some demo_capture_frame), [])"
    by (simp only: next_picture.simps prod.case sum.case option.case)
  moreover have "(8 :: nat) = Suc 7" by simp
  ultimately have drawn: "next_picture (pe_next_video listed_source) 8 [demo_capture_frame] = (Inr (Some demo_capture_frame), [])"
    by (simp only:)
  have "fst (media_counters demo_streaming) = 0" by (simp add: media_counters_def demo_streaming_def)
  moreover have "media_frame_to_capture demo_capture_frame = Inr (capture_twin demo_capture_frame CapBgra8)"
    by (simp add: media_frame_to_capture_def capture_twin_def demo_capture_frame_def)
  ultimately have "\<exists>c2. pump_video (mock_pump_env listed_source) demo_plane demo_streaming = (Inr True, c2, m1)"
    using enc send drawn by (simp add: pump_video_def demo_plane_def Let_def mock_send_video_def)
  moreover have "pump_audio (mock_pump_env listed_source) demo_plane demo_streaming = (Inr False, demo_plane, demo_streaming)"
    by (simp add: pump_audio_def) (simp add: listed_source_def)
  then have "pump_audios (mock_pump_env listed_source) 3 0 demo_plane demo_streaming = (Inr 0, demo_plane, demo_streaming)"
    by (simp add: numeral_3_eq_3)
  ultimately have "\<exists>c2. pump_slots (mock_pump_env listed_source) (unat (1 :: u32)) 0 0 demo_plane demo_streaming = (Inr (1, 0), c2, m1)" by auto
  then show ?thesis using up by (auto simp: pump_media_def sending_def)
qed


end
