(* ===== verification/Host_Policy.thy ===== *)
theory Host_Policy
  imports Host_Session
begin

text \<open>
  The host's local policy (\<open>apps/host/src/policy.rs\<close>): its settings, the one active window of a
  one-time code with the code shown to the user, the Mode B secret, and the decision on an incoming session.
  Methods on \<open>&mut self\<close> return the result with the new state; the clock, the random digits and the
  salt are arguments.
\<close>

section \<open>Settings and state\<close>

definition DEFAULT_HOST_OTP_PEPPER :: bytes where
  "DEFAULT_HOST_OTP_PEPPER = utf8_bytes ''remotelink-otp-server-pepper-v1!''"

definition HOST_OTP_TTL_SECS :: u64 where
  "HOST_OTP_TTL_SECS = 900"

record host_local_config =
  unattended_enabled :: bool
  confirm_sessions :: bool
  otp_digits :: nat
  otp_ttl_secs :: u64

definition default_local_config :: host_local_config where
  "default_local_config = \<lparr>unattended_enabled = False, confirm_sessions = False,
     otp_digits = OTP_DEFAULT_DIGITS, otp_ttl_secs = HOST_OTP_TTL_SECS\<rparr>"

record active_otp_window =
  aw_record :: otp_record
  aw_hash :: otp_hash
  aw_expires_at_unix :: u64

definition window_is_expired :: "active_otp_window \<Rightarrow> u64 \<Rightarrow> bool" where
  "window_is_expired w now_unix = is_expired (aw_record w) now_unix"

datatype confirm_decision = AutoAccept | Accepted | Denied | ConfirmPending

datatype policy_error =
    PeUnattendedDisabled
  | PeUnattendedSecretMissing
  | PeNoActiveOtp
  | PeAuth string

fun show_policy_error :: "policy_error \<Rightarrow> string" where
  "show_policy_error PeUnattendedDisabled = ''unattended Mode B is disabled (set unattended_enabled)''"
| "show_policy_error PeUnattendedSecretMissing = ''unattended enabled but host secret is not configured''"
| "show_policy_error PeNoActiveOtp = ''no active OTP window''"
| "show_policy_error (PeAuth e) = ''auth: '' @ e"

record host_auth =
  ha_config :: host_local_config
  ha_otp_pepper :: bytes
  ha_host_secret :: "host_secret option"
  ha_active_otp :: "active_otp_window option"
  ha_last_otp_code :: "string option"

definition new_host_auth :: "host_local_config \<Rightarrow> bytes \<Rightarrow> host_auth" where
  "new_host_auth config pepper = \<lparr>ha_config = config, ha_otp_pepper = pepper, ha_host_secret = None,
     ha_active_otp = None, ha_last_otp_code = None\<rparr>"

definition default_host_auth :: host_auth where
  "default_host_auth = new_host_auth default_local_config DEFAULT_HOST_OTP_PEPPER"

definition set_unattended_enabled :: "bool \<Rightarrow> host_auth \<Rightarrow> host_auth" where
  "set_unattended_enabled enabled a = a\<lparr>ha_config := (ha_config a)\<lparr>unattended_enabled := enabled\<rparr>\<rparr>"

definition set_confirm_sessions :: "bool \<Rightarrow> host_auth \<Rightarrow> host_auth" where
  "set_confirm_sessions enabled a = a\<lparr>ha_config := (ha_config a)\<lparr>confirm_sessions := enabled\<rparr>\<rparr>"

definition set_host_secret :: "host_secret \<Rightarrow> host_auth \<Rightarrow> host_auth" where
  "set_host_secret secret a = a\<lparr>ha_host_secret := Some secret\<rparr>"

text \<open>\<open>random\<close> is the 32 bytes of \<open>HostSecret::generate\<close>.\<close>

definition enable_unattended_with_generated_secret :: "bytes \<Rightarrow> host_auth \<Rightarrow> host_auth" where
  "enable_unattended_with_generated_secret random a =
     (let a1 = a\<lparr>ha_host_secret := Some (HostSecret random)\<rparr>
      in a1\<lparr>ha_config := (ha_config a1)\<lparr>unattended_enabled := True\<rparr>\<rparr>)"

section \<open>Decisions\<close>

definition policy_allows_mode :: "session_mode \<Rightarrow> host_auth \<Rightarrow> policy_error + unit" where
  "policy_allows_mode mode a =
     (case mode of
        Otp \<Rightarrow> Inr ()
      | Password \<Rightarrow> Inr ()
      | Unattended \<Rightarrow>
          if unattended_enabled (ha_config a) then
            (if ha_host_secret a \<noteq> None then Inr () else Inl PeUnattendedSecretMissing)
          else Inl PeUnattendedDisabled)"

definition decide_confirm :: "bool option \<Rightarrow> host_auth \<Rightarrow> confirm_decision" where
  "decide_confirm user_accepted a =
     (if \<not> confirm_sessions (ha_config a) then AutoAccept
      else case user_accepted of Some True \<Rightarrow> Accepted | Some False \<Rightarrow> Denied | None \<Rightarrow> ConfirmPending)"

definition policy_mint_otp ::
  "crypto \<Rightarrow> u64 \<Rightarrow> (nat \<Rightarrow> u8) \<Rightarrow> bytes \<Rightarrow> host_auth \<Rightarrow> (policy_error + string) \<times> host_auth" where
  "policy_mint_otp K now draws random_salt a =
     (let expires = sat_add now (max (otp_ttl_secs (ha_config a)) 1) in
      case mint_otp_record K (otp_digits (ha_config a)) draws (ha_otp_pepper a) random_salt expires of
        Inl e \<Rightarrow> (Inl (PeAuth (show_auth_error e)), a)
      | Inr (code, rec) \<Rightarrow>
          (Inr code, a\<lparr>ha_last_otp_code := Some code,
             ha_active_otp := Some \<lparr>aw_record = rec, aw_hash = or_hash rec, aw_expires_at_unix = expires\<rparr>\<rparr>))"

definition hash_otp_for_server :: "crypto \<Rightarrow> string \<Rightarrow> bytes \<Rightarrow> host_auth \<Rightarrow> policy_error + otp_hash" where
  "hash_otp_for_server K code random_salt a =
     (case hash_otp K code (ha_otp_pepper a) random_salt of
        Inl e \<Rightarrow> Inl (PeAuth (show_auth_error e)) | Inr h \<Rightarrow> Inr h)"

definition otp_hash_wire :: "crypto \<Rightarrow> otp_hash \<Rightarrow> string \<times> string" where
  "otp_hash_wire K h = (hex_encode K (digest h), hex_encode K (salt h))"

text \<open>A failed attempt leaves the window with the record the attempt updated in place.\<close>

definition consume_otp ::
  "crypto \<Rightarrow> string \<Rightarrow> u64 \<Rightarrow> host_auth \<Rightarrow> (policy_error + session_bind_key) \<times> host_auth" where
  "consume_otp K code now_unix a =
     (case ha_active_otp a of
        None \<Rightarrow> (Inl PeNoActiveOtp, a)
      | Some w \<Rightarrow>
          (case authorize_mode_a K code (ha_otp_pepper a) now_unix (aw_record w) of
             (Inl e, r) \<Rightarrow> (Inl (PeAuth (show_auth_error e)), a\<lparr>ha_active_otp := Some (w\<lparr>aw_record := r\<rparr>)\<rparr>)
           | (Inr key, r) \<Rightarrow> (Inr key, a\<lparr>ha_active_otp := None\<rparr>)))"

definition authorize_session_mode_a ::
  "('p, 'i) host_env \<Rightarrow> string \<Rightarrow> u64 \<Rightarrow> host_auth \<Rightarrow> ('p, 'i) session_manager
     \<Rightarrow> (session_error + unit) \<times> host_auth \<times> ('p, 'i) session_manager" where
  "authorize_session_mode_a E code now_unix a mgr =
     (case ha_active_otp a of
        None \<Rightarrow> (Inl (SeInvalidState ''no active OTP window''), a, mgr)
      | Some w \<Rightarrow>
          (case manager_authorize_mode_a E code (ha_otp_pepper a) now_unix (aw_record w) mgr of
             (Inl e, r, mgr1) \<Rightarrow> (Inl e, a\<lparr>ha_active_otp := Some (w\<lparr>aw_record := r\<rparr>)\<rparr>, mgr1)
           | (Inr _, r, mgr1) \<Rightarrow> (Inr (), a\<lparr>ha_active_otp := None\<rparr>, mgr1)))"

definition authorize_session_mode_b ::
  "('p, 'i) host_env \<Rightarrow> challenge_nonce \<Rightarrow> bytes \<Rightarrow> bytes \<Rightarrow> bytes \<Rightarrow> host_auth \<Rightarrow> ('p, 'i) session_manager
     \<Rightarrow> ((session_error + unit) \<times> ('p, 'i) session_manager) option" where
  "authorize_session_mode_b E challenge fp_host fp_viewer mac a mgr =
     (case policy_allows_mode Unattended a of
        Inl e \<Rightarrow> Some (Inl (SeInvalidState (show_policy_error e)), mgr)
      | Inr _ \<Rightarrow>
          (case ha_host_secret a of
             None \<Rightarrow> Some (Inl (SeInvalidState ''host secret missing''), mgr)
           | Some secret \<Rightarrow> manager_authorize_mode_b E secret challenge fp_host fp_viewer mac mgr))"

definition verify_mode_b ::
  "crypto \<Rightarrow> challenge_nonce \<Rightarrow> string \<Rightarrow> bytes \<Rightarrow> bytes \<Rightarrow> bytes \<Rightarrow> host_auth
     \<Rightarrow> (policy_error + session_bind_key) option" where
  "verify_mode_b K challenge session_id fp_host fp_viewer mac a =
     (case policy_allows_mode Unattended a of
        Inl e \<Rightarrow> Some (Inl e)
      | Inr _ \<Rightarrow>
          (case ha_host_secret a of
             None \<Rightarrow> Some (Inl PeUnattendedSecretMissing)
           | Some secret \<Rightarrow>
               (case authorize_mode_b K secret challenge session_id fp_host fp_viewer mac of
                  None \<Rightarrow> None
                | Some (Inl e) \<Rightarrow> Some (Inl (PeAuth (show_auth_error e)))
                | Some (Inr key) \<Rightarrow> Some (Inr key))))"

datatype session_accept_decision =
    Allow "session_bind_key option"
  | NeedConfirm
  | NeedOtpCode
  | Deny reject_reason

fun decision_eq :: "session_accept_decision \<Rightarrow> session_accept_decision \<Rightarrow> bool" where
  "decision_eq NeedConfirm NeedConfirm = True"
| "decision_eq NeedOtpCode NeedOtpCode = True"
| "decision_eq (Allow a) (Allow b) = ((a \<noteq> None) = (b \<noteq> None))"
| "decision_eq (Deny a) (Deny b) = (a = b)"
| "decision_eq _ _ = False"

definition decide_session_accept ::
  "crypto \<Rightarrow> session_mode \<Rightarrow> otp_prefilter_status \<Rightarrow> string option \<Rightarrow> bool option \<Rightarrow> u64 \<Rightarrow> host_auth
     \<Rightarrow> session_accept_decision \<times> host_auth" where
  "decide_session_accept K mode prefilter otp_code user_accepted now_unix a =
     (case decide_confirm user_accepted a of
        Denied \<Rightarrow> (Deny Policy, a)
      | ConfirmPending \<Rightarrow> (NeedConfirm, a)
      | _ \<Rightarrow>
        (case mode of
           Unattended \<Rightarrow>
             (case policy_allows_mode Unattended a of
                Inr _ \<Rightarrow> (Allow None, a)
              | Inl PeUnattendedDisabled \<Rightarrow> (Deny Policy, a)
              | Inl PeUnattendedSecretMissing \<Rightarrow> (Deny Policy, a)
              | Inl _ \<Rightarrow> (Deny Auth, a))
         | Password \<Rightarrow> (Allow None, a)
         | Otp \<Rightarrow>
             (case (case otp_code of None \<Rightarrow> None | Some c \<Rightarrow> let t = trim c in if t = [] then None else Some t) of
                None \<Rightarrow>
                  (case ha_active_otp a of
                     None \<Rightarrow> (Deny Auth, a)
                   | Some w \<Rightarrow> if window_is_expired w now_unix then (Deny Auth, a) else (NeedOtpCode, a))
              | Some code \<Rightarrow>
                  (case consume_otp K code now_unix a of
                     (Inr key, a1) \<Rightarrow> (Allow (Some key), a1)
                   | (Inl _, a1) \<Rightarrow> (Deny Auth, a1)))))"

section \<open>What the policy lets in\<close>

lemma decide_confirm_cases:
  "decide_confirm ua a = Denied \<or> decide_confirm ua a = ConfirmPending \<or>
   (decide_confirm ua a \<in> {AutoAccept, Accepted} \<and> (confirm_sessions (ha_config a) \<longrightarrow> ua = Some True))"
  by (auto simp: decide_confirm_def split: option.splits bool.splits)

lemma consume_otp_Inr:
  assumes "consume_otp K code now a = (Inr key, a')"
  shows "\<exists>w. ha_active_otp a = Some w \<and> verify_record K (aw_record w) code (ha_otp_pepper a) now = Inr () \<and>
    from_mode_a_otp K code = Inr key \<and> a' = a\<lparr>ha_active_otp := None\<rparr>"
proof (cases "ha_active_otp a")
  case None
  with assms show ?thesis by (simp add: consume_otp_def)
next
  case (Some w)
  show ?thesis
  proof (cases "verify_record K (aw_record w) code (ha_otp_pepper a) now")
    case (Inl e)
    with assms Some show ?thesis by (simp add: consume_otp_def authorize_mode_a_def verify_and_consume_def)
  next
    case (Inr u)
    with assms Some show ?thesis
      by (simp add: consume_otp_def authorize_mode_a_def verify_and_consume_def split: sum.splits)
  qed
qed

lemma decide_allow_confirm:
  "decide_session_accept K mode prefilter otp_code ua now a = (Allow k, a') \<Longrightarrow> confirm_sessions (ha_config a) \<Longrightarrow> ua = Some True"
  using decide_confirm_cases [of ua a] by (auto simp: decide_session_accept_def)

lemma decide_modes:
  "decide_session_accept K Unattended prefilter otp_code ua now a = (Allow k, a') \<Longrightarrow>
     unattended_enabled (ha_config a) \<and> ha_host_secret a \<noteq> None \<and> k = None \<and> a' = a"
  "decide_session_accept K Password prefilter otp_code ua now a = (Allow k, a') \<Longrightarrow> k = None \<and> a' = a"
  by (auto simp: decide_session_accept_def policy_allows_mode_def split: confirm_decision.splits policy_error.splits if_splits)

lemma decide_otp:
  assumes "decide_session_accept K Otp prefilter otp_code ua now a = (Allow k, a')"
  shows "\<exists>c key. otp_code = Some c \<and> trim c \<noteq> [] \<and> k = Some key \<and> consume_otp K (trim c) now a = (Inr key, a')"
proof (cases "case otp_code of None \<Rightarrow> None | Some c \<Rightarrow> let t = trim c in if t = [] then None else Some t")
  case None
  with assms show ?thesis
    by (simp add: decide_session_accept_def split: confirm_decision.splits option.splits if_splits)
next
  case (Some code)
  then obtain c where c: "otp_code = Some c" "trim c = code" "code \<noteq> []"
    by (auto simp: Let_def split: option.splits if_splits)
  obtain r a1 where r: "consume_otp K code now a = (r, a1)" by fastforce
  from assms Some r c show ?thesis
    by (cases r) (auto simp: decide_session_accept_def split: confirm_decision.splits)
qed

text \<open>The methods that touch the policy, other than minting a code.\<close>

datatype policy_call =
    CallDecide session_mode otp_prefilter_status "string option" "bool option" u64
  | CallConsume string u64
  | CallUnattended bool
  | CallConfirm bool
  | CallSecret host_secret

text \<open>Whether the call opened a session with a one-time code, and the policy after it.\<close>

fun policy_run_call :: "crypto \<Rightarrow> policy_call \<Rightarrow> host_auth \<Rightarrow> bool \<times> host_auth" where
  "policy_run_call K (CallDecide mode prefilter code ua now) a =
     (case decide_session_accept K mode prefilter code ua now a of (d, a') \<Rightarrow> (\<exists>key. d = Allow (Some key), a'))"
| "policy_run_call K (CallConsume code now) a =
     (case consume_otp K code now a of (r, a') \<Rightarrow> (\<exists>key. r = Inr key, a'))"
| "policy_run_call K (CallUnattended b) a = (False, set_unattended_enabled b a)"
| "policy_run_call K (CallConfirm b) a = (False, set_confirm_sessions b a)"
| "policy_run_call K (CallSecret s) a = (False, set_host_secret s a)"

primrec code_uses :: "crypto \<Rightarrow> policy_call list \<Rightarrow> host_auth \<Rightarrow> nat" where
  "code_uses K [] a = 0"
| "code_uses K (c # cs) a = (case policy_run_call K c a of (b, a') \<Rightarrow> (if b then 1 else 0) + code_uses K cs a')"

lemma decide_no_window:
  assumes "ha_active_otp a = None"
  shows "snd (decide_session_accept K mode prefilter code ua now a) = a \<and>
    fst (decide_session_accept K mode prefilter code ua now a) \<noteq> Allow (Some key)"
  using assms
  by (cases "decide_confirm ua a"; cases mode; cases "policy_allows_mode Unattended a")
    (auto simp: decide_session_accept_def consume_otp_def Let_def split: policy_error.splits option.splits)

lemma no_window_step:
  assumes "ha_active_otp a = None"
  shows "\<not> fst (policy_run_call K c a) \<and> ha_active_otp (snd (policy_run_call K c a)) = None"
proof (cases c)
  case (CallDecide mode prefilter code ua now)
  then show ?thesis
    using assms decide_no_window [OF assms, of K mode prefilter code ua now]
    by (auto simp: prod.case_eq_if prod_eq_iff)
qed (use assms in \<open>auto simp: consume_otp_def set_unattended_enabled_def set_confirm_sessions_def set_host_secret_def\<close>)

lemma code_uses_no_window: "ha_active_otp a = None \<Longrightarrow> code_uses K cs a = 0"
proof (induction cs arbitrary: a)
  case (Cons c cs)
  then show ?case using no_window_step [OF Cons.prems, of K c] by (auto split: prod.splits)
qed simp

lemma digits_visible: "well_formed_code code \<Longrightarrow> list_all visible code"
  unfolding well_formed_code_def list_all_iff is_ascii_digit_def visible_def by force

lemma trim_code: "well_formed_code code \<Longrightarrow> trim code = code"
  using digits_visible [of code] by (intro trim_visible) (auto simp: list_all_iff intro: hd_in_set last_in_set)

lemma policy_mint_otp_Inr:
  assumes "policy_mint_otp K now draws random_salt a = (Inr code, a')"
  shows "\<exists>h. mint_otp K (otp_digits (ha_config a)) draws (ha_otp_pepper a) random_salt = Inr (code, h) \<and>
    a' = a\<lparr>ha_last_otp_code := Some code,
      ha_active_otp := Some \<lparr>aw_record = new_otp_record h (sat_add now (max (otp_ttl_secs (ha_config a)) 1)),
        aw_hash = h, aw_expires_at_unix = sat_add now (max (otp_ttl_secs (ha_config a)) 1)\<rparr>\<rparr>"
  using assms by (auto simp: policy_mint_otp_def mint_otp_record_def new_otp_record_def Let_def split: sum.splits)

lemma minted_record_verifies:
  assumes "mint_otp K digits draws pepper sl = Inr (code, h)" and "now < expires"
  shows "well_formed_code code \<and> verify_record K (new_otp_record h expires) code pepper now = Inr ()"
proof -
  from assms(1) have "hash_otp_with_salt K code pepper sl = Inr h"
    by (auto simp: mint_otp_def hash_otp_def split: sum.splits if_splits)
  then have h: "well_formed_code code \<and> pepper \<noteq> [] \<and> length sl = 16 \<and>
      h = \<lparr>digest = hmac_sha256 K pepper (OTP_HASH_DOMAIN @ sl @ utf8_bytes code), salt = sl, keyed = True\<rparr>"
    by (simp add: hash_otp_with_salt_Inr)
  then have "verify_otp K code pepper h = Inr ()" by (subst verify_otp_keyed) simp_all
  with h assms(2) show ?thesis by (simp add: verify_record_def new_otp_record_def is_expired_def)
qed

lemma consume_minted:
  assumes "ha_active_otp a = Some w" and "verify_record K (aw_record w) code (ha_otp_pepper a) now = Inr ()"
    and "well_formed_code code"
  shows "\<exists>key. from_mode_a_otp K code = Inr key \<and> consume_otp K code now a = (Inr key, a\<lparr>ha_active_otp := None\<rparr>)"
  using assms
  by (simp add: consume_otp_def authorize_mode_a_def verify_and_consume_def from_mode_a_otp_def validate_otp_format_iff [THEN iffD2])

lemma well_formed_nonempty: "well_formed_code code \<Longrightarrow> code \<noteq> []"
  by (auto simp: well_formed_code_def)



end
