(* ===== verification/Signaling_Client.thy ===== *)
theory Signaling_Client
  imports Protocol
begin

text \<open>
  The signaling client of hosts and viewers (\<open>packages/signaling/src/client.rs\<close>): a WebSocket and the
  number of the next message. The socket is the list of what arrives on it, the frames sent, and
  the outcomes of the next sends (none listed: they succeed). Among the arrivals, \<open>Elapsed\<close> marks where a
  caller's timer fires; a receive that runs out of arrivals waits until its timer fires.
\<close>

section \<open>State\<close>

datatype client_frame = CfText string | CfBinary bytes | CfPing bytes | CfPong bytes | CfClose | CfRaw

datatype arrival = Arrives client_frame | ReadFails string | StreamEnds | Elapsed

datatype signaling_error =
    SgConnect string
  | SgProtocol string
  | SgTimeout string
  | SgServer string string
  | SgClosed

fun show_signaling_error :: "signaling_error \<Rightarrow> string" where
  "show_signaling_error (SgConnect e) = ''connect: '' @ e"
| "show_signaling_error (SgProtocol e) = ''protocol: '' @ e"
| "show_signaling_error (SgTimeout e) = ''timeout: '' @ e"
| "show_signaling_error (SgServer c m) = ''server error '' @ c @ '': '' @ m"
| "show_signaling_error SgClosed = ''connection closed''"

fun is_stale_signal_seq :: "signaling_error \<Rightarrow> bool" where
  "is_stale_signal_seq (SgServer c m) = (c = ''stale_signal_seq'')"
| "is_stale_signal_seq _ = False"

record signaling_client =
  cl_arrivals :: "arrival list"
  cl_sent :: "client_frame list"
  cl_send_outcomes :: "string option list"
  next_seq :: u64

definition client_connected :: "arrival list \<Rightarrow> string option list \<Rightarrow> signaling_client" where
  "client_connected arrivals outcomes = \<lparr>cl_arrivals = arrivals, cl_sent = [], cl_send_outcomes = outcomes, next_seq = 1\<rparr>"

section \<open>Sending and numbering\<close>

definition ws_send :: "client_frame \<Rightarrow> signaling_client \<Rightarrow> (signaling_error + unit) \<times> signaling_client" where
  "ws_send f c =
     (case cl_send_outcomes c of
        Some e # os \<Rightarrow> (Inl (SgConnect e), c\<lparr>cl_send_outcomes := os\<rparr>)
      | os \<Rightarrow> (Inr (), c\<lparr>cl_send_outcomes := tl os, cl_sent := cl_sent c @ [f]\<rparr>))"

definition client_send ::
  "'j json_api \<Rightarrow> 'j signal_message \<Rightarrow> signaling_client \<Rightarrow> (signaling_error + unit) \<times> signaling_client" where
  "client_send J msg c =
     (case encode_message J msg of
        Inl e \<Rightarrow> (Inl (SgProtocol (show_protocol_error e)), c)
      | Inr text \<Rightarrow> ws_send (CfText text) c)"

definition client_close :: "signaling_client \<Rightarrow> signaling_client" where
  "client_close sig = snd (ws_send CfClose sig)"

definition take_seq :: "signaling_client \<Rightarrow> u64 \<times> signaling_client" where
  "take_seq c = (next_seq c, c\<lparr>next_seq := sat_add (next_seq c) 1\<rparr>)"

definition observe_seq :: "u64 \<Rightarrow> signaling_client \<Rightarrow> signaling_client" where
  "observe_seq signal_seq c =
     (let nxt = sat_add signal_seq 1 in if nxt > next_seq c then c\<lparr>next_seq := nxt\<rparr> else c)"

section \<open>Receiving\<close>

definition observe_message :: "'j signal_message \<Rightarrow> signaling_client \<Rightarrow> signaling_client" where
  "observe_message msg c = (case signal_seq_of msg of Some seq \<Rightarrow> observe_seq seq c | None \<Rightarrow> c)"

text \<open>The read loop over what arrives; \<open>None\<close> when it still waits as the timer fires.\<close>

fun recv_loop ::
  "'j json_api \<Rightarrow> arrival list \<Rightarrow> signaling_client \<Rightarrow> (signaling_error + 'j signal_message) option \<times> signaling_client" where
  "recv_loop J [] c = (None, c\<lparr>cl_arrivals := []\<rparr>)"
| "recv_loop J (Elapsed # as) c = (None, c\<lparr>cl_arrivals := as\<rparr>)"
| "recv_loop J (StreamEnds # as) c = (Some (Inl SgClosed), c\<lparr>cl_arrivals := as\<rparr>)"
| "recv_loop J (ReadFails e # as) c = (Some (Inl (SgConnect e)), c\<lparr>cl_arrivals := as\<rparr>)"
| "recv_loop J (Arrives (CfText t) # as) c =
     (let c1 = c\<lparr>cl_arrivals := as\<rparr> in
      case decode_message J t of
        Inl e \<Rightarrow> (Some (Inl (SgProtocol (show_protocol_error e))), c1)
      | Inr msg \<Rightarrow>
          (case msg of
             Error code message \<Rightarrow> (Some (Inl (SgServer code message)), observe_message msg c1)
           | _ \<Rightarrow> (Some (Inr msg), observe_message msg c1)))"
| "recv_loop J (Arrives (CfPing p) # as) c =
     (case ws_send (CfPong p) c of
        (Inl e, c1) \<Rightarrow> (Some (Inl e), c1\<lparr>cl_arrivals := as\<rparr>)
      | (Inr _, c1) \<Rightarrow> recv_loop J as c1)"
| "recv_loop J (Arrives (CfPong p) # as) c = recv_loop J as c"
| "recv_loop J (Arrives CfClose # as) c = (Some (Inl SgClosed), c\<lparr>cl_arrivals := as\<rparr>)"
| "recv_loop J (Arrives (CfBinary b) # as) c =
     (Some (Inl (SgProtocol ''binary frames not supported'')), c\<lparr>cl_arrivals := as\<rparr>)"
| "recv_loop J (Arrives CfRaw # as) c = recv_loop J as c"

definition recv_timeout ::
  "'j json_api \<Rightarrow> signaling_client \<Rightarrow> (signaling_error + 'j signal_message) \<times> signaling_client" where
  "recv_timeout J c =
     (case recv_loop J (cl_arrivals c) c of
        (None, c1) \<Rightarrow> (Inl (SgTimeout ''waiting for signaling message''), c1)
      | (Some r, c1) \<Rightarrow> (r, c1))"

lemma recv_loop_shorter:
  "length (cl_arrivals (snd (recv_loop J as c))) \<le> length as \<and>
   (fst (recv_loop J as c) = Some (Inr msg) \<longrightarrow> length (cl_arrivals (snd (recv_loop J as c))) < length as)"
proof (induction J as c rule: recv_loop.induct)
  case (5 J t as c)
  then show ?case
    by (auto simp: Let_def observe_message_def observe_seq_def split: sum.split signal_message.split option.split)
next
  case (6 J p as c)
  then show ?case by (auto split: prod.split sum.split)
qed auto

lemma recv_timeout_shorter:
  "recv_timeout J c = (Inr msg, c1) \<Longrightarrow> length (cl_arrivals c1) < length (cl_arrivals c)"
  using recv_loop_shorter [of J "cl_arrivals c" c msg]
  by (auto simp: recv_timeout_def split: prod.splits option.splits)

text \<open>
  The loop of \<open>recv_until\<close>: \<open>clock i\<close> is its \<open>i\<close>-th reading of the clock, \<open>deadline\<close> the first plus the timeout.
\<close>

function recv_until_loop ::
  "'j json_api \<Rightarrow> (nat \<Rightarrow> instant) \<Rightarrow> instant \<Rightarrow> ('j signal_message \<Rightarrow> bool) \<Rightarrow> nat \<Rightarrow> signaling_client
     \<Rightarrow> (signaling_error + 'j signal_message) \<times> signaling_client" where
  "recv_until_loop J clock deadline pred i c =
     (if deadline \<le> clock i then (Inl (SgTimeout ''recv_until deadline exceeded''), c)
      else case recv_timeout J c of
        (Inl e, c1) \<Rightarrow> (Inl e, c1)
      | (Inr msg, c1) \<Rightarrow> if pred msg then (Inr msg, c1) else recv_until_loop J clock deadline pred (Suc i) c1)"
  by pat_completeness auto
termination
  by (relation "measure (\<lambda>(J, clock, deadline, pred, i, c). length (cl_arrivals c))")
    (auto dest: recv_timeout_shorter [OF sym])

declare recv_until_loop.simps [simp del]

definition recv_until ::
  "'j json_api \<Rightarrow> (nat \<Rightarrow> instant) \<Rightarrow> duration \<Rightarrow> ('j signal_message \<Rightarrow> bool) \<Rightarrow> signaling_client
     \<Rightarrow> (signaling_error + 'j signal_message) \<times> signaling_client" where
  "recv_until J clock timeout pred c = recv_until_loop J clock (clock 0 + timeout) pred 1 c"

section \<open>The hello\<close>

text \<open>\<open>dbg\<close> is the derived \<open>Debug\<close> text of a message.\<close>

definition client_hello ::
  "'j json_api \<Rightarrow> ('j signal_message \<Rightarrow> string) \<Rightarrow> role \<Rightarrow> string \<Rightarrow> signaling_client
     \<Rightarrow> (signaling_error + 'j signal_message) \<times> signaling_client" where
  "client_hello J dbg role token c =
     (case client_send J (Hello role PROTOCOL_VERSION \<lparr>device_token = token\<rparr>) c of
        (Inl e, c1) \<Rightarrow> (Inl e, c1)
      | (Inr _, c1) \<Rightarrow>
          (case recv_timeout J c1 of
             (Inl e, c2) \<Rightarrow> (Inl e, c2)
           | (Inr msg, c2) \<Rightarrow>
               (case msg of
                  HelloOk _ _ \<Rightarrow> (Inr msg, c2)
                | Error code message \<Rightarrow> (Inl (SgServer code message), c2)
                | _ \<Rightarrow> (Inl (SgProtocol (''expected hello_ok, got '' @ dbg msg)), c2))))"

definition hello_host ::
  "'j json_api \<Rightarrow> ('j signal_message \<Rightarrow> string) \<Rightarrow> string \<Rightarrow> signaling_client
     \<Rightarrow> (signaling_error + 'j signal_message) \<times> signaling_client" where
  "hello_host J dbg token = client_hello J dbg Host token"

definition hello_viewer_anonymous ::
  "'j json_api \<Rightarrow> ('j signal_message \<Rightarrow> string) \<Rightarrow> signaling_client
     \<Rightarrow> (signaling_error + 'j signal_message) \<times> signaling_client" where
  "hello_viewer_anonymous J dbg = client_hello J dbg Viewer []"

section \<open>Numbers are fresh\<close>

lemma sat_add_1_greater: "q < sat_add q 1 \<or> sat_add q 1 = (- 1 :: u64)"
proof (cases "unat q + 1 < 2 ^ 64")
  case True
  then have "unat (q + 1) = unat q + 1" by (simp add: unat_word_ariths)
  with True show ?thesis by (simp add: sat_add_def word_less_nat_alt)
next
  case False
  then show ?thesis by (simp add: sat_add_def)
qed

lemma word_max_le: "(- 1 :: u64) \<le> n \<Longrightarrow> n = - 1"
  using word_n1_ge [of n] by simp

lemma observe_message_seq:
  "next_seq c \<le> next_seq (observe_message msg c) \<and>
   (signal_seq_of msg = Some q \<longrightarrow> q < next_seq (observe_message msg c) \<or> next_seq (observe_message msg c) = - 1)"
  using sat_add_1_greater [of q] word_max_le [of "next_seq c"]
  by (auto simp: observe_message_def observe_seq_def Let_def not_less split: option.split)

lemma ws_send_seq: "next_seq (snd (ws_send f c)) = next_seq c"
  by (simp add: ws_send_def split: list.split option.split)

lemma recv_loop_seq:
  "next_seq c \<le> next_seq (snd (recv_loop J as c)) \<and>
   (fst (recv_loop J as c) = Some (Inr msg) \<and> signal_seq_of msg = Some q \<longrightarrow>
      q < next_seq (snd (recv_loop J as c)) \<or> next_seq (snd (recv_loop J as c)) = - 1)"
proof (induction J as c rule: recv_loop.induct)
  case (5 J t as c)
  show ?case
  proof (cases "decode_message J t")
    case (Inr m)
    with observe_message_seq [of "c\<lparr>cl_arrivals := as\<rparr>" m q] show ?thesis
      by (auto simp: Let_def split: signal_message.split)
  qed (simp add: Let_def)
next
  case (6 J p as c)
  obtain r c1 where s: "ws_send (CfPong p) c = (r, c1)" by fastforce
  with ws_send_seq [of "CfPong p" c] 6 show ?case by (cases r) auto
qed auto

lemma recv_timeout_seq:
  assumes "recv_timeout J c = (r, c1)"
  shows "next_seq c \<le> next_seq c1"
    and "r = Inr msg \<Longrightarrow> signal_seq_of msg = Some q \<Longrightarrow> q < next_seq c1 \<or> next_seq c1 = - 1"
  using assms recv_loop_seq [of c J "cl_arrivals c" msg q]
  by (auto simp: recv_timeout_def split: prod.splits option.splits)

text \<open>What a client does with its numbers: taking one, or receiving a message that carries one.\<close>

datatype client_call = TakeNumber | ReceiveMessage

text \<open>The numbers of a run, each with the mark whether the client took it.\<close>

fun number_trace :: "'j json_api \<Rightarrow> client_call list \<Rightarrow> signaling_client \<Rightarrow> (bool \<times> u64) list" where
  "number_trace J [] c = []"
| "number_trace J (TakeNumber # cs) c = (case take_seq c of (n, c1) \<Rightarrow> (True, n) # number_trace J cs c1)"
| "number_trace J (ReceiveMessage # cs) c =
     (case recv_timeout J c of
        (Inl _, c1) \<Rightarrow> number_trace J cs c1
      | (Inr msg, c1) \<Rightarrow>
          (case signal_seq_of msg of Some q \<Rightarrow> [(False, q)] | None \<Rightarrow> []) @ number_trace J cs c1)"

definition fresh_after :: "bool \<times> u64 \<Rightarrow> bool \<times> u64 \<Rightarrow> bool" where
  "fresh_after e e' \<longleftrightarrow> (fst e' \<longrightarrow> snd e < snd e' \<or> snd e' = - 1)"

lemma number_trace_from: "\<forall>(b, n) \<in> set (number_trace J cs c). b \<longrightarrow> next_seq c \<le> n"
proof (induction J cs c rule: number_trace.induct)
  case (2 J cs c)
  have "next_seq c \<le> sat_add (next_seq c) 1" using sat_add_1_greater [of "next_seq c"] by auto
  with 2 show ?case by (force simp: take_seq_def)
next
  case (3 J cs c)
  obtain r c1 where r: "recv_timeout J c = (r, c1)" by fastforce
  note le = recv_timeout_seq(1) [OF r]
  show ?case
  proof (cases r)
    case (Inl e)
    with 3(1) [OF r [symmetric]] r le show ?thesis by (fastforce intro: order_trans)
  next
    case (Inr msg)
    with 3(2) [OF r [symmetric]] r le show ?thesis by (fastforce intro: order_trans split: option.splits)
  qed
qed simp

text \<open>
  A client numbers its messages freshly. Whatever it sends and receives, in any order, a number the client takes is
  greater than every number it took or saw before, until the numbers are used up.
\<close>

theorem client_numbers_are_fresh:
  "sorted_wrt fresh_after (number_trace J calls c)"
proof (induction J calls c rule: number_trace.induct)
  case (2 J cs c)
  have "fresh_after (True, next_seq c) (b, n)" if "b \<longrightarrow> sat_add (next_seq c) 1 \<le> n" for b n
    using that sat_add_1_greater [of "next_seq c"] word_max_le [of n] by (auto simp: fresh_after_def)
  with 2 number_trace_from [of J cs "c\<lparr>next_seq := sat_add (next_seq c) 1\<rparr>"] show ?case by (fastforce simp: take_seq_def)
next
  case (3 J cs c)
  obtain r c1 where r: "recv_timeout J c = (r, c1)" by fastforce
  show ?case
  proof (cases r)
    case (Inl e)
    with 3(1) [OF r [symmetric]] r show ?thesis by simp
  next
    case (Inr msg)
    have "fresh_after (False, q) (b, n)" if "signal_seq_of msg = Some q" "b \<longrightarrow> next_seq c1 \<le> n" for q b n
      using recv_timeout_seq(2) [OF r Inr that(1)] that(2) word_max_le [of n] by (auto simp: fresh_after_def)
    with 3(2) [OF r [symmetric]] Inr r number_trace_from [of J cs c1] show ?thesis by (fastforce split: option.splits)
  qed
qed simp

end
