(* ===== verification/Ws_Host.thy ===== *)
theory Ws_Host
  imports Host_Policy Signaling_Client
begin

text \<open>
  How the host serves a session over the signaling socket when the media runs in its own process
  (\<open>apps/host/src/ws_session.rs\<close>): the one-time code hub, accepting the incoming session, relaying the
  offer, the answer and the ICE candidates, and the authorization of the viewer. A bounded wait is
  given the number of iterations its deadline allows; \<open>ends i\<close> tells whether the tray asks for the end at the
  \<open>i\<close>-th look. A panic is \<open>None\<close>.
\<close>

section \<open>The code hub\<close>

definition new_live_hub :: host_auth where
  "new_live_hub = new_host_auth default_local_config DEFAULT_HOST_OTP_PEPPER"

definition hub_enable_unattended :: "string \<Rightarrow> host_auth \<Rightarrow> (string + unit) \<times> host_auth" where
  "hub_enable_unattended secret hub =
     (case host_secret_try_new (utf8_bytes secret) of
        Inl e \<Rightarrow> (Inl (''unattended secret: '' @ show_auth_error e), hub)
      | Inr host_secret \<Rightarrow> (Inr (), set_unattended_enabled True (set_host_secret host_secret hub)))"

text \<open>The two lines that open the gate of an authorized session: input policy and identity challenge.\<close>

definition open_gate ::
  "('p, 'i) host_env \<Rightarrow> bytes \<Rightarrow> ('p, 'i) session_manager \<Rightarrow> (string + unit) \<times> ('p, 'i) session_manager" where
  "open_gate E nonce mgr =
     (case start_identity_challenge E nonce (set_input_policy_enabled True mgr) of
        (Inl e, m) \<Rightarrow> (Inl (''identity challenge: '' @ show_session_error e), m)
      | (Inr _, m) \<Rightarrow> (Inr (), m))"

definition hub_authorize_unattended ::
  "('p, 'i) host_env \<Rightarrow> bytes \<Rightarrow> host_auth \<Rightarrow> ('p, 'i) session_manager \<Rightarrow> (string + unit) \<times> ('p, 'i) session_manager" where
  "hub_authorize_unattended E nonce hub mgr =
     (case ha_host_secret hub of
        None \<Rightarrow> (Inl ''unattended enabled but host secret missing'', mgr)
      | Some secret \<Rightarrow>
          (case authorize_unattended_secret secret mgr of
             (Inl e, m) \<Rightarrow> (Inl (''authorize unattended: '' @ show_session_error e), m)
           | (Inr _, m) \<Rightarrow> open_gate E nonce m))"

definition hub_mint_local ::
  "crypto \<Rightarrow> u64 \<Rightarrow> (nat \<Rightarrow> u8) \<Rightarrow> bytes \<Rightarrow> host_auth \<Rightarrow> (string + string \<times> otp_hash) \<times> host_auth" where
  "hub_mint_local K now draws random_salt hub =
     (case policy_mint_otp K now draws random_salt hub of
        (Inl e, h) \<Rightarrow> (Inl (''mint_otp: '' @ show_policy_error e), h)
      | (Inr code, h) \<Rightarrow>
          (case ha_active_otp h of
             None \<Rightarrow> (Inl ''OTP window missing after mint'', h)
           | Some w \<Rightarrow> (Inr (code, aw_hash w), h)))"

definition hub_authorize_live ::
  "('p, 'i) host_env \<Rightarrow> u64 \<Rightarrow> bytes \<Rightarrow> host_auth \<Rightarrow> ('p, 'i) session_manager
     \<Rightarrow> (string + unit) \<times> host_auth \<times> ('p, 'i) session_manager" where
  "hub_authorize_live E now nonce hub mgr =
     (case ha_last_otp_code hub of
        None \<Rightarrow> (Inl ''no OTP minted'', hub, mgr)
      | Some code \<Rightarrow>
          (case authorize_session_mode_a E code now hub mgr of
             (Inl e, h, m) \<Rightarrow> (Inl (''authorize mode a: '' @ show_session_error e), h, m)
           | (Inr _, h, m) \<Rightarrow> (case open_gate E nonce m of (r, m1) \<Rightarrow> (r, h, m1))))"

section \<open>Accepting and ending\<close>

fun is_incoming :: "'j signal_message \<Rightarrow> bool" where
  "is_incoming (SessionIncoming _ _ _ _ _) = True"
| "is_incoming _ = False"

definition accept_incoming_session ::
  "'j json_api \<Rightarrow> (nat \<Rightarrow> instant) \<Rightarrow> duration \<Rightarrow> signaling_client
     \<Rightarrow> (string + string \<times> session_mode) \<times> signaling_client" where
  "accept_incoming_session J clock wait_incoming sig =
     (case recv_until J clock wait_incoming is_incoming sig of
        (Inl e, s) \<Rightarrow> (Inl (''wait incoming: '' @ show_signaling_error e), s)
      | (Inr (SessionIncoming session_id incoming_seq _ incoming_mode _), s) \<Rightarrow>
          (case take_seq (s\<lparr>next_seq := sat_add incoming_seq 1\<rparr>) of
             (accept_seq, s1) \<Rightarrow>
               (case client_send J (SessionAccept session_id accept_seq) s1 of
                  (Inl e, s2) \<Rightarrow> (Inl (''accept: '' @ show_signaling_error e), s2)
                | (Inr _, s2) \<Rightarrow> (Inr (session_id, incoming_mode), s2)))
      | (Inr _, s) \<Rightarrow> (Inl ''unreachable'', s))"

definition end_wss_session :: "'j json_api \<Rightarrow> string \<Rightarrow> string \<Rightarrow> signaling_client \<Rightarrow> signaling_client" where
  "end_wss_session J session_id reason sig =
     (case take_seq sig of (end_seq, s) \<Rightarrow> snd (client_send J (SessionEnd session_id end_seq reason) s))"

section \<open>Relaying the negotiation\<close>

text \<open>Sending one queued candidate under a fresh number.\<close>

definition send_candidate ::
  "'j json_api \<Rightarrow> ('p, 'i) host_env \<Rightarrow> string \<Rightarrow> signal_forward \<Rightarrow> signaling_client
     \<Rightarrow> ((string + unit) \<times> signaling_client) option" where
  "send_candidate J E session_id ice sig =
     (case parse_ice_payload E (sf_payload ice) of
        None \<Rightarrow> None
      | Some (Inl e) \<Rightarrow> Some (Inl (show_session_error e), sig)
      | Some (Inr c) \<Rightarrow>
          (case take_seq sig of
             (ice_seq, s) \<Rightarrow>
               (case client_send J (IceCandidate session_id ice_seq c) s of
                  (Inl e, s1) \<Rightarrow> Some (Inl (''send host ice: '' @ show_signaling_error e), s1)
                | (Inr _, s1) \<Rightarrow> Some (Inr (), s1))))"

fun send_candidates ::
  "'j json_api \<Rightarrow> ('p, 'i) host_env \<Rightarrow> string \<Rightarrow> signal_forward list \<Rightarrow> signaling_client
     \<Rightarrow> ((string + unit) \<times> signaling_client) option" where
  "send_candidates J E session_id [] sig = Some (Inr (), sig)"
| "send_candidates J E session_id (ice # rest) sig =
     (case send_candidate J E session_id ice sig of
        None \<Rightarrow> None
      | Some (Inl e, s) \<Rightarrow> Some (Inl e, s)
      | Some (Inr _, s) \<Rightarrow> send_candidates J E session_id rest s)"

text \<open>Serializing a message for the manager and applying it there.\<close>

definition apply_text ::
  "('p, 'i) host_env \<Rightarrow> string \<Rightarrow> string \<Rightarrow> string + string \<Rightarrow> ('p, 'i) session_manager
     \<Rightarrow> ((string + unit) \<times> ('p, 'i) session_manager) option" where
  "apply_text E kind what payload mgr =
     (case payload of
        Inl e \<Rightarrow> Some (Inl e, mgr)
      | Inr p \<Rightarrow>
          (case apply_signal E kind p mgr of
             None \<Rightarrow> None
           | Some (Inl e, m) \<Rightarrow> Some (Inl (what @ show_session_error e), m)
           | Some (Inr _, m) \<Rightarrow> Some (Inr (), m)))"

text \<open>Waiting for the answer: the flag says whether it came before the deadline.\<close>

fun answer_loop ::
  "'j json_api \<Rightarrow> ('p, 'i) host_env \<Rightarrow> nat \<Rightarrow> signaling_client \<Rightarrow> ('p, 'i) session_manager
     \<Rightarrow> ((string + bool) \<times> signaling_client \<times> ('p, 'i) session_manager) option" where
  "answer_loop J E 0 sig mgr = Some (Inr False, sig, mgr)"
| "answer_loop J E (Suc n) sig mgr =
     (case recv_timeout J sig of
        (Inl (SgTimeout _), s) \<Rightarrow> answer_loop J E n s mgr
      | (Inl e, s) \<Rightarrow> Some (Inl (''recv: '' @ show_signaling_error e), s, mgr)
      | (Inr (SessionAnswer _ _ answer), s) \<Rightarrow>
          (case apply_text E SESSION_ANSWER ''apply answer: ''
                 (json_sdp_to_string E \<lparr>sdp = answer, fingerprint_sig = None\<rparr>) mgr of
             None \<Rightarrow> None
           | Some (Inl e, m) \<Rightarrow> Some (Inl e, s, m)
           | Some (Inr _, m) \<Rightarrow> Some (Inr True, s, m))
      | (Inr (IceCandidate _ _ c), s) \<Rightarrow>
          (case apply_text E ICE_CANDIDATE ''apply ice: '' (json_ice_to_string E c) mgr of
             None \<Rightarrow> None
           | Some (Inl e, m) \<Rightarrow> Some (Inl e, s, m)
           | Some (Inr _, m) \<Rightarrow> answer_loop J E n s m)
      | (Inr _, s) \<Rightarrow> answer_loop J E n s mgr)"

definition is_ice_forward :: "signal_forward \<Rightarrow> bool" where
  "is_ice_forward s \<longleftrightarrow> sf_kind s = ICE_CANDIDATE"

text \<open>Polling the peer without going through the manager's own polling.\<close>

definition poll_peer :: "('p, 'i) host_env \<Rightarrow> ('p, 'i) session_manager \<Rightarrow> ('p, 'i) session_manager" where
  "poll_peer E mgr = snd (on_peer (peer_poll E) mgr)"

fun trickle_loop ::
  "'j json_api \<Rightarrow> ('p, 'i) host_env \<Rightarrow> (nat \<Rightarrow> bool) \<Rightarrow> string \<Rightarrow> nat \<Rightarrow> signaling_client \<Rightarrow> ('p, 'i) session_manager
     \<Rightarrow> ((string + unit) \<times> signaling_client \<times> ('p, 'i) session_manager) option" where
  "trickle_loop J E ends session_id 0 sig mgr = Some (Inr (), sig, mgr)"
| "trickle_loop J E ends session_id (Suc n) sig mgr =
     (if ends n then Some (Inl ''session ended from tray'', sig, mgr)
      else case take_outbound_signals (poll_peer E mgr) of
        (out, m) \<Rightarrow>
          (case send_candidates J E session_id (filter is_ice_forward out) sig of
             None \<Rightarrow> None
           | Some (Inl e, s) \<Rightarrow> Some (Inl e, s, m)
           | Some (Inr _, s) \<Rightarrow>
               (case (case recv_timeout J s of
                        (Inr (IceCandidate _ _ c), s1) \<Rightarrow>
                          map_option (\<lambda>(r, m1). (r, s1, m1)) (apply_text E ICE_CANDIDATE ''apply ice: '' (json_ice_to_string E c) m)
                      | (_, s1) \<Rightarrow> Some (Inr (), s1, m)) of
                  None \<Rightarrow> None
                | Some (Inl e, s1, m1) \<Rightarrow> Some (Inl e, s1, m1)
                | Some (Inr _, s1, m1) \<Rightarrow>
                    if peer_state E (hm_peer m1) = CsConnected then Some (Inr (), s1, m1)
                    else trickle_loop J E ends session_id n s1 m1)))"

definition relay_offer_answer_ice_local ::
  "'j json_api \<Rightarrow> ('p, 'i) host_env \<Rightarrow> (nat \<Rightarrow> bool) \<Rightarrow> nat \<Rightarrow> nat \<Rightarrow> string \<Rightarrow> sdp_payload \<Rightarrow> signal_forward list
     \<Rightarrow> signaling_client \<Rightarrow> ('p, 'i) session_manager
     \<Rightarrow> ((string + unit) \<times> signaling_client \<times> ('p, 'i) session_manager) option" where
  "relay_offer_answer_ice_local J E ends answer_ticks ice_ticks session_id offer pending sig mgr =
     (case take_seq sig of (offer_seq, s0) \<Rightarrow>
      case client_send J (SessionOffer session_id offer_seq (sdp offer)
             (case fingerprint_sig offer of None \<Rightarrow> [] | Some f \<Rightarrow> f)) s0 of
        (Inl e, s1) \<Rightarrow> Some (Inl (''send offer: '' @ show_signaling_error e), s1, mgr)
      | (Inr _, s1) \<Rightarrow>
        (case answer_loop J E answer_ticks s1 mgr of
           None \<Rightarrow> None
         | Some (Inl e, s2, m) \<Rightarrow> Some (Inl e, s2, m)
         | Some (Inr False, s2, m) \<Rightarrow> Some (Inl ''timeout waiting for session_answer'', s2, m)
         | Some (Inr True, s2, m) \<Rightarrow>
             (case take_outbound_signals (poll_peer E m) of
                (out, m1) \<Rightarrow>
                  (case send_candidates J E session_id (pending @ filter is_ice_forward out) s2 of
                     None \<Rightarrow> None
                   | Some (Inl e, s3) \<Rightarrow> Some (Inl e, s3, m1)
                   | Some (Inr _, s3) \<Rightarrow> trickle_loop J E ends session_id ice_ticks s3 m1))))"

section \<open>Authorizing the viewer\<close>

definition force_identity_bound_for_tests :: "('p, 'i) session_manager \<Rightarrow> ('p, 'i) session_manager" where
  "force_identity_bound_for_tests m = m\<lparr>hm_identity := mark_identity_bound (mark_authorized (hm_identity m))\<rparr>"

text \<open>Up to \<open>n\<close> polls, until the viewer has proved its identity.\<close>

fun bind_polls ::
  "('p, 'i) host_env \<Rightarrow> (nat \<Rightarrow> nat \<Rightarrow> instant \<times> instant) \<Rightarrow> nat \<Rightarrow> ('p, 'i) session_manager \<Rightarrow> ('p, 'i) session_manager option" where
  "bind_polls E clock 0 mgr = Some mgr"
| "bind_polls E clock (Suc n) mgr =
     (case poll_inbound E (clock n) mgr of
        None \<Rightarrow> None
      | Some (_, m) \<Rightarrow> if identity_bound (hm_identity m) then Some m else bind_polls E clock n m)"

definition authorize_viewer ::
  "('p, 'i) host_env \<Rightarrow> (nat \<Rightarrow> nat \<Rightarrow> instant \<times> instant) \<Rightarrow> u64 \<Rightarrow> bytes \<Rightarrow> session_mode \<Rightarrow> host_auth
     \<Rightarrow> ('p, 'i) session_manager \<Rightarrow> (host_auth \<times> ('p, 'i) session_manager) option" where
  "authorize_viewer E clock now nonce incoming_mode hub mgr =
     (case (if incoming_mode = Unattended
            then (case hub_authorize_unattended E nonce hub mgr of (r, m) \<Rightarrow> (r, hub, m))
            else hub_authorize_live E now nonce hub mgr) of
        (Inr _, h, m) \<Rightarrow> map_option (Pair h) (bind_polls E clock 40 m)
      | (Inl _, h, m) \<Rightarrow> Some (h, set_input_policy_enabled True (force_identity_bound_for_tests m)))"

end
