(* ===== verification/Host_Tray.thy ===== *)
theory Host_Tray
  imports Host_Agent Protocol
begin

text \<open>
  What the host shows its user (\<open>apps/host/src/tray.rs\<close>): the state behind the console panel, the status file and the notification icon,
  and the two requests the user can make there. A call of the tray is a function on its state; printing the panel and writing the file follow
  each of them and their failures are only logged, so a tray is its state and the list of events published.
\<close>

section \<open>Requests\<close>

text \<open>The flags the menu sets and the service takes once.\<close>

record tray_commands =
  tc_end_session :: bool
  tc_exit :: bool

definition request_end_session :: "tray_commands \<Rightarrow> tray_commands" where
  "request_end_session c = c\<lparr>tc_end_session := True\<rparr>"

definition request_exit :: "tray_commands \<Rightarrow> tray_commands" where
  "request_exit c = c\<lparr>tc_exit := True\<rparr>"

definition take_end_session :: "tray_commands \<Rightarrow> bool \<times> tray_commands" where
  "take_end_session c = (tc_end_session c, c\<lparr>tc_end_session := False\<rparr>)"

definition take_exit :: "tray_commands \<Rightarrow> bool \<times> tray_commands" where
  "take_exit c = (tc_exit c, c\<lparr>tc_exit := False\<rparr>)"

section \<open>State\<close>

record tray_state =
  ts_display_name :: string
  ts_public_id :: "string option"
  ts_otp_code :: "string option"
  ts_otp_expires_at :: "string option"
  ts_ux :: session_indicator
  ts_last_event :: "string option"

definition tray_publish :: "string \<Rightarrow> tray_state \<Rightarrow> tray_state" where
  "tray_publish event s = s\<lparr>ts_last_event := Some event\<rparr>"

definition new_tray :: "string \<Rightarrow> tray_state" where
  "new_tray display_name = tray_publish ''tray_start'' \<lparr>ts_display_name = display_name, ts_public_id = None, ts_otp_code = None,
     ts_otp_expires_at = None, ts_ux = default_indicator, ts_last_event = None\<rparr>"

definition tray_set_identity :: "string \<Rightarrow> string option \<Rightarrow> tray_state \<Rightarrow> tray_state" where
  "tray_set_identity public_id display_name s =
     (let s1 = s\<lparr>ts_public_id := Some public_id\<rparr> in
      tray_publish ''identity''
        (case display_name of Some n \<Rightarrow> if n \<noteq> [] then s1\<lparr>ts_display_name := n\<rparr> else s1 | None \<Rightarrow> s1))"

definition tray_set_otp :: "string \<Rightarrow> string \<Rightarrow> tray_state \<Rightarrow> tray_state" where
  "tray_set_otp code expires_at s =
     tray_publish ''otp_minted'' (s\<lparr>ts_otp_code := Some code, ts_otp_expires_at := Some expires_at\<rparr>)"

definition tray_clear_otp :: "tray_state \<Rightarrow> tray_state" where
  "tray_clear_otp s = tray_publish ''otp_cleared'' (s\<lparr>ts_otp_code := None, ts_otp_expires_at := None\<rparr>)"

definition tray_begin_session :: "string \<Rightarrow> string option \<Rightarrow> tray_state \<Rightarrow> tray_state" where
  "tray_begin_session session_id viewer_label s =
     tray_publish ''session_begin'' (s\<lparr>ts_ux := snd (begin_session session_id viewer_label (ts_ux s))\<rparr>)"

definition tray_mark_session_active :: "tray_state \<Rightarrow> tray_state" where
  "tray_mark_session_active s = tray_publish ''session_active'' (s\<lparr>ts_ux := mark_active (ts_ux s)\<rparr>)"

definition tray_end_session :: "tray_state \<Rightarrow> tray_state" where
  "tray_end_session s = tray_publish ''session_end'' (s\<lparr>ts_ux := indicator_end_session (ts_ux s)\<rparr>)"

definition tray_apply_kill :: "tray_state \<Rightarrow> tray_state" where
  "tray_apply_kill s = tray_publish ''kill_switch'' (s\<lparr>ts_ux := apply_kill (ts_ux s)\<rparr>)"

definition otp_for_clipboard :: "tray_state \<Rightarrow> string option" where
  "otp_for_clipboard s = ts_otp_code s"

section \<open>Texts\<close>

text \<open>The number of characters of UTF-8 text, and its first \<open>n\<close>.\<close>

definition starts_char :: "char \<Rightarrow> bool" where
  "starts_char c \<longleftrightarrow> \<not> (128 \<le> (of_char c :: nat) \<and> (of_char c :: nat) < 192)"

definition char_count :: "string \<Rightarrow> nat" where
  "char_count s = length (filter starts_char s)"

fun first_chars :: "nat \<Rightarrow> string \<Rightarrow> string" where
  "first_chars n [] = []"
| "first_chars n (c # s) =
     (if \<not> starts_char c then c # first_chars n s else if n = 0 then [] else c # first_chars (n - 1) s)"

definition ELLIPSIS :: string where "ELLIPSIS = [CHR 0xE2, CHR 0x80, CHR 0xA6]"
definition MIDDLE_DOT :: string where "MIDDLE_DOT = [CHR 0xC2, CHR 0xB7]"
definition EM_DASH :: string where "EM_DASH = [CHR 0xE2, CHR 0x80, CHR 0x94]"

definition truncate_chars :: "string \<Rightarrow> nat \<Rightarrow> string" where
  "truncate_chars s n = (if char_count s \<le> n then s else first_chars (n - 1) s @ ELLIPSIS)"

definition tooltip :: "tray_state \<Rightarrow> string" where
  "tooltip s =
     (let pub = (case ts_public_id s of Some i \<Rightarrow> i | None \<Rightarrow> EM_DASH);
          line = (case from_indicator (ts_ux s) of
            Active session_id label \<Rightarrow>
              ''RemoteLink IN SESSION '' @ MIDDLE_DOT @ '' '' @ (case label of Some l \<Rightarrow> l | None \<Rightarrow> ''viewer'') @ '' '' @ MIDDLE_DOT @ '' '' @ session_id
          | Inactive \<Rightarrow>
              (case ts_otp_code s of
                 Some otp \<Rightarrow> ''RemoteLink ready '' @ MIDDLE_DOT @ '' id='' @ pub @ '' '' @ MIDDLE_DOT @ '' OTP '' @ otp
               | None \<Rightarrow> ''RemoteLink ready '' @ MIDDLE_DOT @ '' id='' @ pub))
      in truncate_chars line 127)"

definition opt_str :: "'j json_api \<Rightarrow> string option \<Rightarrow> 'j" where
  "opt_str J v = (case v of None \<Rightarrow> json_null J | Some s \<Rightarrow> json_str J s)"

definition to_status_json :: "'j json_api \<Rightarrow> tray_state \<Rightarrow> 'j" where
  "to_status_json J s =
     (let (session_id, viewer_label, chrome_label) =
            (case from_indicator (ts_ux s) of
               Active sid label \<Rightarrow> (Some sid, label, ''Active'')
             | Inactive \<Rightarrow> (None, None, ''Inactive''))
      in json_object J
        [(''display_name'', json_str J (ts_display_name s)), (''public_id'', opt_str J (ts_public_id s)),
         (''otp_code'', opt_str J (ts_otp_code s)), (''otp_expires_at'', opt_str J (ts_otp_expires_at s)),
         (''chrome'', json_str J chrome_label), (''session_id'', opt_str J session_id), (''viewer_label'', opt_str J viewer_label),
         (''connected'', json_bool J (connected (ts_ux s))), (''active'', json_bool J (active (ts_ux s))),
         (''last_event'', opt_str J (ts_last_event s)), (''tooltip'', json_str J (tooltip s))])"

text \<open>The notification area takes 127 characters, and a text that fits is shown whole.\<close>

lemma first_chars_count: "char_count (first_chars n s) \<le> n"
proof (induction n s rule: first_chars.induct)
  case (2 n c s)
  then show ?case by (cases "starts_char c"; cases n) (auto simp: char_count_def)
qed (simp add: char_count_def)

lemma tooltip_fits: "char_count (tooltip s) \<le> 127"
proof -
  have "char_count (x @ ELLIPSIS) = char_count x + 1" for x by (simp add: char_count_def ELLIPSIS_def starts_char_def)
  then have "char_count (truncate_chars x 127) \<le> 127" for x
    using first_chars_count [of 126 x] by (simp add: truncate_chars_def)
  then show ?thesis by (simp add: tooltip_def Let_def)
qed

end
