(* ===== verification/Net_Factory.thy ===== *)
theory Net_Factory
  imports Peer_Mock
begin

text \<open>
  Which peer transport a process uses (\<open>packages/net/src/factory.rs\<close>). The backends that are compiled in
  (cargo features) are a record; the constructors of the live and WebRTC peers are parameters. Reaching \<open>unreachable!\<close> is \<open>None\<close>.
\<close>

section \<open>Roles and modes\<close>

datatype peer_role = Offerer | Answerer

fun peer_role_str :: "peer_role \<Rightarrow> string" where
  "peer_role_str Offerer = ''offerer''"
| "peer_role_str Answerer = ''answerer''"

definition peer_role_from_str :: "string \<Rightarrow> net_error + peer_role" where
  "peer_role_from_str s =
     (let t = ascii_lower (trim s) in
      if t \<in> {''offerer'', ''offer'', ''host'', ''agent''} then Inr Offerer
      else if t \<in> {''answerer'', ''answer'', ''viewer''} then Inr Answerer
      else Inl (NeInternal (''unknown peer role `'' @ t @ ''` (expected offerer|answerer)'')))"

datatype transport_mode = ModeMock | ModeLive | ModeWebrtc | ModeAuto

fun transport_mode_str :: "transport_mode \<Rightarrow> string" where
  "transport_mode_str ModeMock = ''mock''"
| "transport_mode_str ModeLive = ''live''"
| "transport_mode_str ModeWebrtc = ''webrtc''"
| "transport_mode_str ModeAuto = ''auto''"

definition transport_mode_from_str :: "string \<Rightarrow> net_error + transport_mode" where
  "transport_mode_from_str s =
     (let t = ascii_lower (trim s) in
      if t \<in> {''mock'', ''synthetic''} then Inr ModeMock
      else if t \<in> {''live'', ''tcp'', ''loopback''} then Inr ModeLive
      else if t \<in> {''webrtc'', ''webrtc-rs'', ''webrtc_rs''} then Inr ModeWebrtc
      else if t = ''auto'' then Inr ModeAuto
      else Inl (NeBackendUnavailable (''unknown transport mode `'' @ t @ ''` (expected mock|live|webrtc|auto)'')))"

record transport_config =
  tc_mode :: transport_mode

definition default_transport_config :: transport_config where
  "default_transport_config = \<lparr>tc_mode = ModeMock\<rparr>"

text \<open>\<open>REMOTELINK_TRANSPORT\<close>, when it is set to Unicode text.\<close>

definition transport_config_from_env :: "string option \<Rightarrow> transport_config" where
  "transport_config_from_env var =
     (case var of
        Some v \<Rightarrow>
          if trim v \<noteq> [] then
            (case transport_mode_from_str v of Inr m \<Rightarrow> \<lparr>tc_mode = m\<rparr> | Inl _ \<Rightarrow> default_transport_config)
          else default_transport_config
      | None \<Rightarrow> default_transport_config)"

definition transport_config_parse :: "string \<Rightarrow> net_error + transport_config" where
  "transport_config_parse s = (case transport_mode_from_str s of Inl e \<Rightarrow> Inl e | Inr m \<Rightarrow> Inr \<lparr>tc_mode = m\<rparr>)"

section \<open>Backends\<close>

record net_features =
  feat_mock :: bool
  feat_live :: bool
  feat_webrtc :: bool

definition resolved :: "net_features \<Rightarrow> transport_mode \<Rightarrow> transport_mode" where
  "resolved F m = (case m of
     ModeAuto \<Rightarrow> if feat_webrtc F then ModeWebrtc else if feat_live F then ModeLive else ModeMock
   | other \<Rightarrow> other)"

definition for_multi_process :: "net_features \<Rightarrow> transport_mode \<Rightarrow> transport_mode" where
  "for_multi_process F m = (case m of ModeMock \<Rightarrow> resolved F ModeAuto | ModeAuto \<Rightarrow> resolved F ModeAuto | other \<Rightarrow> other)"

datatype ('l, 'w) peer_transport = MockTransport mock_peer | LiveTransport 'l | WebrtcTransport 'w

record ('l, 'w) backends =
  new_live :: "peer_role \<Rightarrow> net_error + 'l"
  new_webrtc :: "peer_role \<Rightarrow> net_error + 'w"

definition create_mock :: "net_features \<Rightarrow> dtls_fingerprint \<Rightarrow> peer_role \<Rightarrow> net_error + ('l, 'w) peer_transport" where
  "create_mock F synthetic role =
     (if feat_mock F then
        Inr (MockTransport (new_mock_peer synthetic
          \<lparr>mc_fingerprint = None, mc_label = (case role of Offerer \<Rightarrow> ''mock-offerer'' | Answerer \<Rightarrow> ''mock-answerer'')\<rparr>))
      else Inl (NeBackendUnavailable ''mock backend not compiled (enable feature `mock`)''))"

definition create_live :: "net_features \<Rightarrow> ('l, 'w) backends \<Rightarrow> peer_role \<Rightarrow> net_error + ('l, 'w) peer_transport" where
  "create_live F B role =
     (if feat_live F then (case new_live B role of Inl e \<Rightarrow> Inl e | Inr p \<Rightarrow> Inr (LiveTransport p))
      else Inl (NeBackendUnavailable ''live TCP backend not compiled (enable feature `live`)''))"

definition create_webrtc :: "net_features \<Rightarrow> ('l, 'w) backends \<Rightarrow> peer_role \<Rightarrow> net_error + ('l, 'w) peer_transport" where
  "create_webrtc F B role =
     (if feat_webrtc F then (case new_webrtc B role of Inl e \<Rightarrow> Inl e | Inr p \<Rightarrow> Inr (WebrtcTransport p))
      else Inl (NeBackendUnavailable ''webrtc-rs backend not compiled (enable feature `webrtc-rs`)''))"

definition create_peer_transport_with_config ::
  "net_features \<Rightarrow> ('l, 'w) backends \<Rightarrow> dtls_fingerprint \<Rightarrow> peer_role \<Rightarrow> transport_config \<Rightarrow> (net_error + ('l, 'w) peer_transport) option" where
  "create_peer_transport_with_config F B synthetic role cfg =
     (case resolved F (tc_mode cfg) of
        ModeMock \<Rightarrow> Some (create_mock F synthetic role)
      | ModeLive \<Rightarrow> Some (create_live F B role)
      | ModeWebrtc \<Rightarrow> Some (create_webrtc F B role)
      | ModeAuto \<Rightarrow> None)"

definition create_peer_transport where
  "create_peer_transport F B synthetic role var = create_peer_transport_with_config F B synthetic role (transport_config_from_env var)"

section \<open>Properties\<close>

lemma lower_mode: "ascii_lower (transport_mode_str m) = transport_mode_str m"
  by (cases m) (simp_all add: ascii_lower_def)

lemma trim_mode: "trim (transport_mode_str m) = transport_mode_str m"
  by (rule trim_all_visible) (cases m, simp_all add: visible_def)

lemma mode_text: "transport_mode_from_str (transport_mode_str m) = Inr m"
  by (cases m) (simp_all add: transport_mode_from_str_def trim_mode [of ModeMock, simplified] trim_mode [of ModeLive, simplified]
      trim_mode [of ModeWebrtc, simplified] trim_mode [of ModeAuto, simplified] lower_mode [of ModeMock, simplified]
      lower_mode [of ModeLive, simplified] lower_mode [of ModeWebrtc, simplified] lower_mode [of ModeAuto, simplified])

text \<open>
  The choice of a transport. The name of a mode is read back as that mode; a resolved mode is never \<open>Auto\<close>, so creating a transport
  never reaches the panic; a mode that is not \<open>Auto\<close> is never replaced by another; and across processes the mock is used only when it or
  \<open>Auto\<close> was asked for and no other backend is compiled in.
\<close>

theorem transport_choice:
  "transport_mode_from_str (transport_mode_str m) = Inr m \<and>
   resolved F m \<noteq> ModeAuto \<and> create_peer_transport_with_config F B syn role cfg \<noteq> None \<and>
   (resolved F m = m \<or> m = ModeAuto) \<and>
   (for_multi_process F m = ModeMock \<longleftrightarrow> (m = ModeMock \<or> m = ModeAuto) \<and> \<not> feat_live F \<and> \<not> feat_webrtc F)"
  by (cases m; cases "tc_mode cfg") (simp_all add: mode_text [of ModeMock, simplified] mode_text [of ModeLive, simplified]
      mode_text [of ModeWebrtc, simplified] mode_text [of ModeAuto, simplified] resolved_def for_multi_process_def create_peer_transport_with_config_def)

end
