(* ===== verification/Signaling_Http.thy ===== *)
theory Signaling_Http
  imports Signaling_Client
begin

text \<open>
  The other half of \<open>packages/signaling/src\<close>: enrollment and tokens over HTTP (\<open>register.rs\<close>, \<open>http_api.rs\<close>), the credential
  file of a host (\<open>creds.rs\<close>), and the ICE servers announced in a hello (\<open>ice.rs\<close>). The HTTP client, the URL parser, \<open>serde_json\<close>, the file
  system and the environment variables are parameters; a call on them takes and returns the world \<open>'w\<close>.
\<close>

section \<open>Requests\<close>

datatype register_error = RegHttp string | RegStatus nat string | RegParse string

fun show_register_error :: "register_error \<Rightarrow> string" where
  "show_register_error (RegHttp e) = ''http: '' @ e"
| "show_register_error (RegStatus status body) = ''register failed ('' @ show_nat status @ ''): '' @ body"
| "show_register_error (RegParse e) = ''parse: '' @ e"

record device_registration =
  dr_public_id :: string
  dr_display_name :: "string option"
  dr_access_token :: string
  dr_refresh_token :: string
  dr_expires_at :: string

record token_http_response =
  tr_access_token :: string
  tr_refresh_token :: string
  tr_expires_at :: string
  tr_token_type :: "string option"

record otp_mint_http_response =
  om_expires_at :: string
  om_otp_id :: int

text \<open>
  \<open>hc_post\<close> sends a body to a URL with an optional authorization header and gives the status and the text of the reply, or the error of either;
  the \<open>hc_parse\<close> fields are \<open>serde_json::from_str\<close> at the reply types.
\<close>

record ('j, 'w) http_client =
  hc_build :: "string + unit"
  hc_post :: "string \<Rightarrow> string option \<Rightarrow> 'j \<Rightarrow> 'w \<Rightarrow> (string + nat \<times> (string + string)) \<times> 'w"
  hc_parse_registration :: "string \<Rightarrow> string + device_registration"
  hc_parse_tokens :: "string \<Rightarrow> string + token_http_response"
  hc_parse_otp :: "string \<Rightarrow> string + otp_mint_http_response"
  hc_base64 :: "bytes \<Rightarrow> string"

definition trim_slashes :: "string \<Rightarrow> string" where
  "trim_slashes s = rev (dropWhile ((=) (CHR ''/'')) (rev s))"

text \<open>The first \<open>n\<close> characters of UTF-8 text; a byte that continues a character goes with it.\<close>

fun take_chars :: "nat \<Rightarrow> string \<Rightarrow> string" where
  "take_chars n [] = []"
| "take_chars n (c # s) =
     (if 128 \<le> (of_char c :: nat) \<and> (of_char c :: nat) < 192 then c # take_chars n s
      else if n = 0 then [] else c # take_chars (n - 1) s)"

definition post_json ::
  "('j, 'w) http_client \<Rightarrow> (string \<Rightarrow> string + 'r) \<Rightarrow> string \<Rightarrow> string option \<Rightarrow> 'j \<Rightarrow> 'w \<Rightarrow> (register_error + 'r) \<times> 'w" where
  "post_json H parse url auth body w =
     (case hc_build H of
        Inl e \<Rightarrow> (Inl (RegHttp e), w)
      | Inr _ \<Rightarrow>
          (case hc_post H url auth body w of
             (Inl e, w1) \<Rightarrow> (Inl (RegHttp e), w1)
           | (Inr (status, Inl e), w1) \<Rightarrow> (Inl (RegHttp e), w1)
           | (Inr (status, Inr text), w1) \<Rightarrow>
               if \<not> (200 \<le> status \<and> status < 300) then (Inl (RegStatus status (take_chars 256 text)), w1)
               else (case parse text of Inl e \<Rightarrow> (Inl (RegParse e), w1) | Inr x \<Rightarrow> (Inr x, w1))))"

definition opt_json_str :: "'j json_api \<Rightarrow> string option \<Rightarrow> 'j" where
  "opt_json_str J v = (case v of None \<Rightarrow> json_null J | Some s \<Rightarrow> json_str J s)"

definition client_register_device ::
  "'j json_api \<Rightarrow> ('j, 'w) http_client \<Rightarrow> string \<Rightarrow> bytes \<Rightarrow> string option \<Rightarrow> 'w \<Rightarrow> (register_error + device_registration) \<times> 'w" where
  "client_register_device J H http_base public_key_raw display_name =
     post_json H (hc_parse_registration H) (trim_slashes http_base @ ''/v1/devices/register'') None
       (json_object J [(''public_key'', json_str J (hc_base64 H public_key_raw)), (''display_name'', opt_json_str J display_name),
          (''protocol_version'', json_int J (uint PROTOCOL_VERSION))])"

definition client_refresh_device_token ::
  "'j json_api \<Rightarrow> ('j, 'w) http_client \<Rightarrow> string \<Rightarrow> string \<Rightarrow> string \<Rightarrow> 'w \<Rightarrow> (register_error + token_http_response) \<times> 'w" where
  "client_refresh_device_token J H http_base public_id refresh_token =
     post_json H (hc_parse_tokens H) (trim_slashes http_base @ ''/v1/devices/'' @ public_id @ ''/token/refresh'') None
       (json_object J [(''refresh_token'', json_str J refresh_token)])"

definition post_otp_hash ::
  "'j json_api \<Rightarrow> ('j, 'w) http_client \<Rightarrow> string \<Rightarrow> string \<Rightarrow> string \<Rightarrow> string \<Rightarrow> string \<Rightarrow> bool \<Rightarrow> u64 option
     \<Rightarrow> 'w \<Rightarrow> (register_error + otp_mint_http_response) \<times> 'w" where
  "post_otp_hash J H http_base public_id access_token digest_hex salt_hex is_keyed expires_in_secs =
     post_json H (hc_parse_otp H) (trim_slashes http_base @ ''/v1/devices/'' @ public_id @ ''/otp'') (Some (''Bearer '' @ access_token))
       (json_object J [(''digest_hex'', json_str J digest_hex), (''salt_hex'', json_str J salt_hex), (''keyed'', json_bool J is_keyed),
          (''expires_in_secs'', case expires_in_secs of None \<Rightarrow> json_null J | Some n \<Rightarrow> json_int J (uint n))])"

definition apply_refresh :: "string \<Rightarrow> string option \<Rightarrow> token_http_response \<Rightarrow> device_registration" where
  "apply_refresh public_id display_name tokens =
     \<lparr>dr_public_id = public_id, dr_display_name = display_name, dr_access_token = tr_access_token tokens,
      dr_refresh_token = tr_refresh_token tokens, dr_expires_at = tr_expires_at tokens\<rparr>"

section \<open>The WebSocket address\<close>

record 'u url_api =
  url_parse :: "string \<Rightarrow> string + 'u"
  url_scheme :: "'u \<Rightarrow> string"
  url_set_scheme :: "string \<Rightarrow> 'u \<Rightarrow> 'u option"
  url_set_path :: "string \<Rightarrow> 'u \<Rightarrow> 'u"
  url_drop_query :: "'u \<Rightarrow> 'u"
  url_drop_fragment :: "'u \<Rightarrow> 'u"
  url_text :: "'u \<Rightarrow> string"

fun contains :: "string \<Rightarrow> string \<Rightarrow> bool" where
  "contains p [] = (p = [])"
| "contains p (c # s) = (starts_with (c # s) p \<or> contains p s)"

definition http_to_ws_url :: "'u url_api \<Rightarrow> string \<Rightarrow> register_error + string" where
  "http_to_ws_url U http_base =
     (let s = trim http_base in
      if starts_with s ''ws://'' \<or> starts_with s ''wss://'' then
        (if contains ''/v1/ws'' s then Inr s else Inr (trim_slashes s @ ''/v1/ws''))
      else (case url_parse U s of
          Inl e \<Rightarrow> Inl (RegParse (''url: '' @ e))
        | Inr url \<Rightarrow>
            (let finish = (\<lambda>u. Inr (url_text U (url_drop_fragment U (url_drop_query U (url_set_path U ''/v1/ws'' u))))) in
             if url_scheme U url = ''http'' then
               (case url_set_scheme U ''ws'' url of None \<Rightarrow> Inl (RegParse ''cannot set ws scheme'') | Some u \<Rightarrow> finish u)
             else if url_scheme U url = ''https'' then
               (case url_set_scheme U ''wss'' url of None \<Rightarrow> Inl (RegParse ''cannot set wss scheme'') | Some u \<Rightarrow> finish u)
             else Inl (RegParse (''unsupported scheme `'' @ url_scheme U url @ ''` (use http/https/ws/wss)'')))))"

section \<open>The credential file\<close>

record host_credential_file =
  hf_schema :: u32
  hf_server :: string
  hf_public_id :: string
  hf_display_name :: "string option"
  hf_access_token :: string
  hf_refresh_token :: string
  hf_expires_at :: "string option"

definition DEFAULT_CREDS_PATH :: string where
  "DEFAULT_CREDS_PATH = ''.remotelink-host.json''"

definition creds_from_registration :: "string \<Rightarrow> device_registration \<Rightarrow> host_credential_file" where
  "creds_from_registration server reg =
     \<lparr>hf_schema = 1, hf_server = trim_slashes server, hf_public_id = dr_public_id reg, hf_display_name = dr_display_name reg,
      hf_access_token = dr_access_token reg, hf_refresh_token = dr_refresh_token reg, hf_expires_at = Some (dr_expires_at reg)\<rparr>"

text \<open>The second argument is \<open>REMOTELINK_HOST_CREDS\<close>.\<close>

definition resolve_path :: "string option \<Rightarrow> string option \<Rightarrow> string" where
  "resolve_path explicit var =
     (case explicit of
        Some p \<Rightarrow> p
      | None \<Rightarrow> (case var of Some p \<Rightarrow> if trim p \<noteq> [] then p else DEFAULT_CREDS_PATH | None \<Rightarrow> DEFAULT_CREDS_PATH))"

text \<open>Files and paths as the operating system has them.\<close>

record 'w file_system =
  fs_exists :: "string \<Rightarrow> 'w \<Rightarrow> bool"
  fs_read :: "string \<Rightarrow> 'w \<Rightarrow> string + string"
  fs_create_dir_all :: "string \<Rightarrow> 'w \<Rightarrow> (string + unit) \<times> 'w"
  fs_write :: "string \<Rightarrow> string \<Rightarrow> 'w \<Rightarrow> (string + unit) \<times> 'w"
  fs_rename :: "string \<Rightarrow> string \<Rightarrow> 'w \<Rightarrow> (string + unit) \<times> 'w"
  path_parent :: "string \<Rightarrow> string option"
  path_tmp :: "string \<Rightarrow> string"
  path_display :: "string \<Rightarrow> string"
  creds_parse :: "string \<Rightarrow> string + host_credential_file"
  creds_print :: "host_credential_file \<Rightarrow> string + string"

definition creds_load :: "'w file_system \<Rightarrow> string \<Rightarrow> 'w \<Rightarrow> register_error + host_credential_file" where
  "creds_load F path w =
     (case fs_read F path w of
        Inl e \<Rightarrow> Inl (RegHttp (''read creds '' @ path_display F path @ '': '' @ e))
      | Inr text \<Rightarrow> (case creds_parse F text of Inl e \<Rightarrow> Inl (RegParse (''creds json: '' @ e)) | Inr c \<Rightarrow> Inr c))"

definition creds_save :: "'w file_system \<Rightarrow> string \<Rightarrow> host_credential_file \<Rightarrow> 'w \<Rightarrow> (register_error + unit) \<times> 'w" where
  "creds_save F path c w =
     (case (case path_parent F path of
              Some parent \<Rightarrow>
                if parent \<noteq> [] then
                  (case fs_create_dir_all F parent w of
                     (Inl e, w1) \<Rightarrow> (Inl (RegHttp (''create creds dir '' @ path_display F parent @ '': '' @ e)), w1)
                   | (Inr _, w1) \<Rightarrow> (Inr (), w1))
                else (Inr (), w)
            | None \<Rightarrow> (Inr (), w)) of
        (Inl e, w1) \<Rightarrow> (Inl e, w1)
      | (Inr _, w1) \<Rightarrow>
          (case creds_print F c of
             Inl e \<Rightarrow> (Inl (RegParse (''encode creds: '' @ e)), w1)
           | Inr text \<Rightarrow>
               (case fs_write F (path_tmp F path) text w1 of
                  (Inl e, w2) \<Rightarrow> (Inl (RegHttp (''write creds tmp: '' @ e)), w2)
                | (Inr _, w2) \<Rightarrow>
                    (case fs_rename F (path_tmp F path) path w2 of
                       (Inr _, w3) \<Rightarrow> (Inr (), w3)
                     | (Inl _, w3) \<Rightarrow>
                         (case fs_write F path text w3 of
                            (Inl e, w4) \<Rightarrow> (Inl (RegHttp (''write creds: '' @ e)), w4)
                          | (Inr _, w4) \<Rightarrow> (Inr (), w4))))))"

section \<open>ICE servers\<close>

text \<open>The variables set: the STUN addresses, and the TURN user with its password.\<close>

record ice_env =
  webrtc_stun :: "string option"
  webrtc_turn_user :: "string option"
  webrtc_turn_pass :: "string option"

definition ice_urls :: "'j json_api \<Rightarrow> ('j \<Rightarrow> 'j list option) \<Rightarrow> 'j \<Rightarrow> string list" where
  "ice_urls J as_array server =
     (case json_get J server ''urls'' of
        None \<Rightarrow> []
      | Some v \<Rightarrow>
          (case as_array v of
             None \<Rightarrow> []
           | Some us \<Rightarrow> List.map_filter (\<lambda>u. case json_as_str J u of Some s \<Rightarrow> if s \<noteq> [] then Some s else None | None \<Rightarrow> None) us))"

definition ice_text :: "'j json_api \<Rightarrow> string \<Rightarrow> 'j \<Rightarrow> string \<Rightarrow> string" where
  "ice_text J key server old =
     (case json_get J server key of
        None \<Rightarrow> old
      | Some v \<Rightarrow> (case json_as_str J v of Some s \<Rightarrow> if s \<noteq> [] then s else old | None \<Rightarrow> old))"

fun join_commas :: "string list \<Rightarrow> string" where
  "join_commas [] = []"
| "join_commas [s] = s"
| "join_commas (s # t # ss) = s @ '','' @ join_commas (t # ss)"

definition apply_ice_servers_from_hello ::
  "'j json_api \<Rightarrow> ('j \<Rightarrow> 'j list option) \<Rightarrow> 'j signal_message \<Rightarrow> ice_env \<Rightarrow> ice_env" where
  "apply_ice_servers_from_hello J as_array msg env =
     (case msg of
        HelloOk _ feature_flags \<Rightarrow>
          (case (case json_get J feature_flags ''ice_servers'' of None \<Rightarrow> None | Some v \<Rightarrow> as_array v) of
             None \<Rightarrow> env
           | Some servers \<Rightarrow>
               (let urls = concat (map (ice_urls J as_array) servers);
                    user = fold (ice_text J ''username'') servers [];
                    pass = fold (ice_text J ''credential'') servers []
                in if urls = [] then env
                   else let env1 = env\<lparr>webrtc_stun := Some (join_commas urls)\<rparr>
                     in if user = [] then env1 else env1\<lparr>webrtc_turn_user := Some user, webrtc_turn_pass := Some pass\<rparr>))
      | _ \<Rightarrow> env)"

section \<open>Saved credentials are found again\<close>

text \<open>What the file system and serde promise: a file reads back what was written or moved to it, and the text of a record is read as that record.\<close>

definition file_laws :: "'w file_system \<Rightarrow> bool" where
  "file_laws F \<longleftrightarrow>
     (\<forall>p t w w'. fs_write F p t w = (Inr (), w') \<longrightarrow> fs_read F p w' = Inr t) \<and>
     (\<forall>p q t w w'. fs_rename F p q w = (Inr (), w') \<longrightarrow> fs_read F p w = Inr t \<longrightarrow> fs_read F q w' = Inr t) \<and>
     (\<forall>c t. creds_print F c = Inr t \<longrightarrow> creds_parse F t = Inr c)"

text \<open>
  Whichever way the file was written, over a temporary file or directly, a successful \<open>save\<close> leaves a file that \<open>load\<close> reads as the same credentials.
\<close>

lemma creds_save_load:
  assumes "file_laws F" "creds_save F path c w = (Inr (), w')"
  shows "creds_load F path w' = Inr c"
proof -
  obtain w1 js w2 where "creds_print F c = Inr js" and w2: "fs_write F (path_tmp F path) js w1 = (Inr (), w2)"
    and fin: "(\<exists>w3. fs_rename F (path_tmp F path) path w2 = (Inr (), w') ) \<or> (\<exists>w3. fs_write F path js w3 = (Inr (), w'))"
    using assms(2) unfolding creds_save_def by (auto split: sum.splits prod.splits option.splits if_splits)
  then have parse: "creds_parse F js = Inr c" and tmp: "fs_read F (path_tmp F path) w2 = Inr js"
    using assms(1) unfolding file_laws_def by blast+
  from fin tmp assms(1) have "fs_read F path w' = Inr js" unfolding file_laws_def by blast
  with parse show ?thesis by (simp add: creds_load_def)
qed

text \<open>Of the body of a refusal at most 256 characters are kept.\<close>

lemma take_chars_bound: "length (filter (\<lambda>c. \<not> (128 \<le> (of_char c :: nat) \<and> (of_char c :: nat) < 192)) (take_chars n s)) \<le> n"
  by (induction n s rule: take_chars.induct) auto

lemma post_json_status:
  assumes "post_json H parse url auth body w = (Inl (RegStatus status text), w')"
  shows "\<not> (200 \<le> status \<and> status < 300) \<and> (\<exists>full. text = take_chars 256 full)"
  using assms by (auto simp: post_json_def split: sum.splits prod.splits if_splits)

end
