(* ===== verification/Service_Client.thy ===== *)
theory Service_Client
  imports Host_Service Ipc_Codec
begin

text \<open>
  The service's side of a control connection (\<open>ServiceAgentClient\<close> in \<open>apps/host/src/control_loop.rs\<close>,
  \<open>ControlStream\<close> and \<open>ControlEndpoint\<close> in \<open>packages/platform-windows/src/ipc/transport.rs\<close>, the pipe
  names of \<open>ipc/pipe.rs\<close>): sending a command, reading the reply and what the agent had queued up to the
  end-of-drain mark; the start of a session; and the texts that name an endpoint. The flag
  \<open>win\<close> says whether the build is for Windows.
\<close>

section \<open>The client\<close>

datatype transport_error = TeIo io_error | TeCodec codec_error | TeUnsupported

datatype control_loop_error =
    ClTransport transport_error
  | ClProtocol string
  | ClAgent string
  | ClAuth string

record service_client =
  sc_reader :: reader
  sc_writer :: writer
  sc_boot_secret :: "string option"

definition stream_send ::
  "control_envelope frame_json \<Rightarrow> control_message \<Rightarrow> service_client \<Rightarrow> (transport_error + unit) \<times> service_client" where
  "stream_send J msg c =
     (case encode_control J msg of
        Inl e \<Rightarrow> (Inl (TeCodec e), c)
      | Inr frame \<Rightarrow>
          (case write_all_flush frame (sc_writer c) of
             (Inl (Io e), w) \<Rightarrow> (Inl (TeIo e), c\<lparr>sc_writer := w\<rparr>)
           | (Inl e, w) \<Rightarrow> (Inl (TeCodec e), c\<lparr>sc_writer := w\<rparr>)
           | (Inr _, w) \<Rightarrow> (Inr (), c\<lparr>sc_writer := w\<rparr>)))"

definition stream_recv ::
  "control_envelope frame_json \<Rightarrow> service_client \<Rightarrow> (transport_error + control_message) \<times> service_client" where
  "stream_recv J c =
     (case read_control J (sc_reader c) of
        (Inl e, r) \<Rightarrow> (Inl (TeCodec e), c\<lparr>sc_reader := r\<rparr>)
      | (Inr msg, r) \<Rightarrow> (Inr msg, c\<lparr>sc_reader := r\<rparr>))"

lemma read_control_shorter:
  assumes "read_control J r = (Inr msg, r1)"
  shows "length (pending r1) < length (pending r)"
proof -
  have "length (pending r2) < length (pending r)" if "read_frame J r = (Inr env, r2)" for env r2
    using that by (auto simp: read_frame_def read_exact_def Let_def split: if_splits prod.splits sum.splits)
  with assms show ?thesis by (auto simp: read_control_def split: prod.splits sum.splits)
qed

fun is_drain_complete :: "control_message \<Rightarrow> bool" where
  "is_drain_complete (Ack a) = (ack_for_method a = Some DRAIN_COMPLETE)"
| "is_drain_complete _ = False"

fun is_queued :: "control_message \<Rightarrow> bool" where
  "is_queued (SignalForward _) = True"
| "is_queued (StatsPush _) = True"
| "is_queued (LocalConfirmResult _) = True"
| "is_queued _ = False"

text \<open>The loop that reads what the agent had queued; \<open>acc\<close> is what it has read.\<close>

function drain_outbound ::
  "control_envelope frame_json \<Rightarrow> control_message list \<Rightarrow> service_client
     \<Rightarrow> (control_loop_error + control_message list) \<times> service_client" where
  "drain_outbound J acc c =
     (case stream_recv J c of
        (Inl e, c1) \<Rightarrow> (Inl (ClTransport e), c1)
      | (Inr nxt, c1) \<Rightarrow>
          if is_drain_complete nxt then (Inr acc, c1)
          else if is_queued nxt then drain_outbound J (acc @ [nxt]) c1
          else (Inl (ClProtocol (''unexpected message while draining outbound: '' @ method_name nxt)), c1))"
  by pat_completeness auto
termination
  by (relation "measure (\<lambda>(J, acc, c). length (pending (sc_reader c)))")
    (auto simp: stream_recv_def split: prod.splits sum.splits dest: read_control_shorter)

declare drain_outbound.simps [simp del]

definition agent_request ::
  "control_envelope frame_json \<Rightarrow> control_message \<Rightarrow> service_client
     \<Rightarrow> (control_loop_error + control_message \<times> control_message list) \<times> service_client" where
  "agent_request J msg c =
     (case stream_send J msg c of
        (Inl e, c1) \<Rightarrow> (Inl (ClTransport e), c1)
      | (Inr _, c1) \<Rightarrow>
          (case stream_recv J c1 of
             (Inl e, c2) \<Rightarrow> (Inl (ClTransport e), c2)
           | (Inr reply, c2) \<Rightarrow>
               (case drain_outbound J [] c2 of
                  (Inl e, c3) \<Rightarrow> (Inl e, c3)
                | (Inr outbound, c3) \<Rightarrow> (Inr (reply, outbound), c3))))"

text \<open>\<open>dbg\<close> is the derived \<open>Debug\<close> text of a reply.\<close>

fun run_start_sequence ::
  "control_envelope frame_json \<Rightarrow> (control_message \<Rightarrow> string) \<Rightarrow> control_message list \<Rightarrow> control_message list \<Rightarrow> service_client
     \<Rightarrow> (control_loop_error + control_message list) \<times> service_client" where
  "run_start_sequence J dbg [] acc c = (Inr acc, c)"
| "run_start_sequence J dbg (msg # msgs) acc c =
     (case agent_request J msg c of
        (Inl e, c1) \<Rightarrow> (Inl e, c1)
      | (Inr (reply, outbound), c1) \<Rightarrow>
          (case reply of
             Ack _ \<Rightarrow> run_start_sequence J dbg msgs (acc @ outbound) c1
           | ControlError e \<Rightarrow>
               (Inl ((if ce_code e = AUTH_FAILED then ClAuth else ClProtocol)
                  (''agent rejected '' @ method_name msg @ '': '' @ dbg reply)), c1)
           | _ \<Rightarrow> (Inl (ClProtocol (''agent rejected '' @ method_name msg @ '': '' @ dbg reply)), c1)))"

definition start_session ::
  "control_envelope frame_json \<Rightarrow> (control_message \<Rightarrow> string) \<Rightarrow> string \<Rightarrow> bool \<Rightarrow> service_client
     \<Rightarrow> (control_loop_error + control_message list) \<times> service_client" where
  "start_session J dbg session_id input c =
     run_start_sequence J dbg (build_session_start_sequence session_id input (sc_boot_secret c)) [] c"

section \<open>Naming an endpoint\<close>

datatype control_endpoint = TcpLocalhost u16 | NamedPipe string

definition PIPE_PREFIX :: string where "PIPE_PREFIX = [CHR 0x5C, CHR 0x5C, CHR ''.'', CHR 0x5C] @ ''pipe'' @ [CHR 0x5C]"
definition PIPE_PREFIX_UPPER :: string where
  "PIPE_PREFIX_UPPER = [CHR 0x5C, CHR 0x5C, CHR ''.'', CHR 0x5C] @ ''PIPE'' @ [CHR 0x5C]"
definition DEFAULT_PIPE_NAME :: string where "DEFAULT_PIPE_NAME = ''remotelink-host-control''"

definition normalize_pipe_path :: "string \<Rightarrow> string" where
  "normalize_pipe_path name =
     (let s = map (\<lambda>c. if c = CHR ''/'' then CHR 0x5C else c) (trim name) in
      if starts_with (ascii_lower s) PIPE_PREFIX then s
      else case strip_prefix PIPE_PREFIX s of
        Some rest \<Rightarrow> PIPE_PREFIX @ rest
      | None \<Rightarrow> (case strip_prefix PIPE_PREFIX_UPPER s of
          Some rest \<Rightarrow> PIPE_PREFIX @ rest
        | None \<Rightarrow> PIPE_PREFIX @ dropWhile (\<lambda>c. c = CHR 0x5C) s))"

text \<open>\<open>str::parse::<u16>\<close>: an optional plus sign and decimal digits, at most 65535.\<close>

fun digits_value :: "nat \<Rightarrow> string \<Rightarrow> nat option" where
  "digits_value acc [] = Some acc"
| "digits_value acc (c # s) =
     (if is_ascii_digit c \<and> acc * 10 + (of_char c - 48) < 65536 then digits_value (acc * 10 + (of_char c - 48)) s else None)"

definition parse_u16 :: "string \<Rightarrow> u16 option" where
  "parse_u16 s =
     (let ds = (case s of c # r \<Rightarrow> if c = CHR ''+'' \<and> r \<noteq> [] then r else s | [] \<Rightarrow> s) in
      if ds = [] then None else map_option of_nat (digits_value 0 ds))"

definition bad_endpoint :: "string \<Rightarrow> control_loop_error" where
  "bad_endpoint s = ClProtocol (''invalid control endpoint `'' @ s @ ''` (expected tcp:PORT or pipe[:name])'')"

definition parse_tcp_part :: "string \<Rightarrow> control_loop_error + control_endpoint" where
  "parse_tcp_part s =
     (let port_str = (case strip_prefix ''tcp:'' s of Some r \<Rightarrow> r
          | None \<Rightarrow> (case strip_prefix ''TCP:'' s of Some r \<Rightarrow> r | None \<Rightarrow> s)) in
      case parse_u16 port_str of None \<Rightarrow> Inl (bad_endpoint s) | Some port \<Rightarrow> Inr (TcpLocalhost port))"

definition parse_control_endpoint :: "bool \<Rightarrow> string \<Rightarrow> control_loop_error + control_endpoint" where
  "parse_control_endpoint win text =
     (let s = trim text; low = ascii_lower s in
      if s = [] then Inl (ClProtocol ''empty control endpoint (expected tcp:PORT or pipe[:name])'')
      else if win then
        (if low = ''pipe'' \<or> low = ''named-pipe'' then Inr (NamedPipe (normalize_pipe_path DEFAULT_PIPE_NAME))
         else case (case strip_prefix ''pipe:'' s of Some r \<Rightarrow> Some r | None \<Rightarrow> strip_prefix ''PIPE:'' s) of
           Some name \<Rightarrow>
             Inr (NamedPipe (normalize_pipe_path (if trim name = [] then DEFAULT_PIPE_NAME else trim name)))
         | None \<Rightarrow>
             if starts_with low PIPE_PREFIX \<or> starts_with low ''//./pipe/'' then Inr (NamedPipe (normalize_pipe_path s))
             else parse_tcp_part s)
      else if low = ''pipe'' \<or> low = ''named-pipe'' \<or> starts_with low ''pipe:'' \<or> starts_with low PIPE_PREFIX then
        Inl (ClProtocol ''named pipe control endpoints are only supported on Windows'')
      else parse_tcp_part s)"

fun format_endpoint :: "control_endpoint \<Rightarrow> string" where
  "format_endpoint (TcpLocalhost port) = ''tcp:'' @ show_word port"
| "format_endpoint (NamedPipe path) =
     (case (case strip_prefix PIPE_PREFIX path of Some r \<Rightarrow> Some r | None \<Rightarrow> strip_prefix PIPE_PREFIX_UPPER path) of
        Some leaf \<Rightarrow> ''pipe:'' @ leaf
      | None \<Rightarrow> path)"

section \<open>Client and agent stay in step\<close>

text \<open>The bytes the agent writes for a list of messages.\<close>

definition frames :: "control_envelope frame_json \<Rightarrow> control_message list \<Rightarrow> bytes \<Rightarrow> bool" where
  "frames J msgs bs \<longleftrightarrow> list_all (json_faithful J) msgs \<and>
     (\<exists>parts. list_all2 (\<lambda>m b. encode_control J m = Inr b) msgs parts \<and> bs = concat parts)"

lemma frames_Nil: "frames J [] bs \<longleftrightarrow> bs = []"
  by (auto simp: frames_def)

lemma frames_Cons: "frames J (m # ms) bs \<Longrightarrow> \<exists>b bs'. bs = b @ bs' \<and> encode_control J m = Inr b \<and> json_faithful J m \<and> frames J ms bs'"
  by (auto simp: frames_def list_all2_Cons1)

lemma frames_append: "frames J (ms @ ns) bs \<Longrightarrow> \<exists>b1 b2. bs = b1 @ b2 \<and> frames J ms b1 \<and> frames J ns b2"
  by (auto simp: frames_def list_all2_append1) (metis concat_append)

lemma stream_recv_frame:
  assumes "frames J (m # ms) bs" and "pending (sc_reader c) = bs @ rest"
  shows "\<exists>bs'. frames J ms bs' \<and> stream_recv J c = (Inr m, c\<lparr>sc_reader := (sc_reader c)\<lparr>pending := bs' @ rest\<rparr>\<rparr>)"
proof -
  from frames_Cons [OF assms(1)] obtain b bs' where b: "bs = b @ bs'" "encode_control J m = Inr b" "json_faithful J m" "frames J ms bs'"
    by blast
  have "sc_reader c = feed_reader b ((sc_reader c)\<lparr>pending := bs' @ rest\<rparr>)"
    using assms(2) b(1) by (cases "sc_reader c") (simp add: feed_reader_def)
  then have "read_control J (sc_reader c) = (Inr m, (sc_reader c)\<lparr>pending := bs' @ rest\<rparr>)"
    using read_fed_control [OF b(2,3), of "(sc_reader c)\<lparr>pending := bs' @ rest\<rparr>"] by simp
  with b(4) show ?thesis by (auto simp: stream_recv_def)
qed

lemma drain_frames:
  assumes "list_all is_queued out"
  shows "frames J (out @ drain_complete # ms) bs \<Longrightarrow> pending (sc_reader c) = bs @ rest \<Longrightarrow>
    \<exists>bs'. frames J ms bs' \<and> drain_outbound J acc c = (Inr (acc @ out), c\<lparr>sc_reader := (sc_reader c)\<lparr>pending := bs' @ rest\<rparr>\<rparr>)"
  using assms
proof (induction out arbitrary: bs acc c)
  case Nil
  from Nil stream_recv_frame [of J drain_complete ms bs c rest] show ?case
    by (auto simp: drain_outbound.simps [of J acc c] drain_complete_def)
next
  case (Cons m out)
  from Cons.prems(1) have "frames J (m # out @ drain_complete # ms) bs" by simp
  from stream_recv_frame [OF this Cons.prems(2)] obtain bs1 where
    r: "frames J (out @ drain_complete # ms) bs1" "stream_recv J c = (Inr m, c\<lparr>sc_reader := (sc_reader c)\<lparr>pending := bs1 @ rest\<rparr>\<rparr>)" by blast
  have "\<not> is_drain_complete m" using Cons.prems(3) by (cases m) auto
  with r(2) Cons.prems(3) have "drain_outbound J acc c = drain_outbound J (acc @ [m]) (c\<lparr>sc_reader := (sc_reader c)\<lparr>pending := bs1 @ rest\<rparr>\<rparr>)"
    by (subst drain_outbound.simps) simp
  with Cons.IH [OF r(1), of "c\<lparr>sc_reader := (sc_reader c)\<lparr>pending := bs1 @ rest\<rparr>\<rparr>" "acc @ [m]"] Cons.prems(3) show ?case
    by simp
qed

lemma stream_send_frame: "stream_send J msg c = (r, c1) \<Longrightarrow> sc_reader c1 = sc_reader c \<and> sc_boot_secret c1 = sc_boot_secret c"
  by (auto simp: stream_send_def split: sum.splits prod.splits codec_error.splits)

lemma request_frames:
  assumes "stream_send J msg c = (Inr (), c1)" and "list_all is_queued out"
    and "frames J (reply # out @ drain_complete # ms) bs" and "pending (sc_reader c) = bs @ rest"
  shows "\<exists>bs' c'. frames J ms bs' \<and> agent_request J msg c = (Inr (reply, out), c') \<and> pending (sc_reader c') = bs' @ rest \<and>
    sc_writer c' = sc_writer c1 \<and> sc_boot_secret c' = sc_boot_secret c"
proof -
  have c1: "sc_reader c1 = sc_reader c" "sc_boot_secret c1 = sc_boot_secret c" using stream_send_frame [OF assms(1)] by auto
  with assms(4) have "pending (sc_reader c1) = bs @ rest" by simp
  from stream_recv_frame [OF assms(3) this] obtain bs1 where
    r: "frames J (out @ drain_complete # ms) bs1" "stream_recv J c1 = (Inr reply, c1\<lparr>sc_reader := (sc_reader c1)\<lparr>pending := bs1 @ rest\<rparr>\<rparr>)" by blast
  from drain_frames [OF assms(2) r(1), of "c1\<lparr>sc_reader := (sc_reader c1)\<lparr>pending := bs1 @ rest\<rparr>\<rparr>" rest "[]"] r(2) assms(1) c1
  show ?thesis by (auto simp: agent_request_def)
qed

text \<open>What the agent sends for a message: one reply, the queued signals, the end-of-drain mark.\<close>

lemma serve_message_shape:
  assumes "serve_message E fresh rebuild pump expected msg a = Some (sent, res)"
  shows "\<exists>reply out. sent = reply # out @ [drain_complete] \<and> list_all is_queued out"
  using assms
  by (auto simp: serve_message_def media_method_replies_Nil auth_failed_def agent_take_outbound_def take_outbound_signals_def
      Let_def list_all_iff split: option.splits if_splits control_message.splits prod.splits)

text \<open>
  Client and agent stay in step. Whatever command the service sends and whatever state the agent is in, refusals
  included, the client's request returns exactly the agent's reply to that command and the signals the agent
  had queued, and leaves on the stream only what the agent sends later.
\<close>

theorem request_gets_its_reply:
  assumes "serve_message E fresh rebuild pump expected msg a = Some (sent, res)"
    and "stream_send J msg c = (Inr (), c1)" and "frames J sent bs" and "pending (sc_reader c) = bs @ rest"
  shows "\<exists>reply out c'. agent_request J msg c = (Inr (reply, out), c') \<and> sent = reply # out @ [drain_complete] \<and>
    pending (sc_reader c') = rest"
proof -
  from serve_message_shape [OF assms(1)] obtain reply out where s: "sent = reply # out @ [drain_complete]" "list_all is_queued out"
    by blast
  from request_frames [OF assms(2) s(2), of reply "[]" bs rest] assms(3,4) s(1) show ?thesis by (auto simp: frames_Nil)
qed

text \<open>A JSON library for the examples: it writes the messages of a table as their index.\<close>

definition table_json :: "control_message list \<Rightarrow> control_envelope frame_json" where
  "table_json ms =
     \<lparr>to_vec = (\<lambda>env. if env_message env \<in> set ms then Inr [of_nat (length (takeWhile (\<lambda>m. m \<noteq> env_message env) ms))]
        else Inl ''unsupported''),
      from_slice = (\<lambda>bs. Inr (new_envelope (ms ! unat (hd bs))))\<rparr>"

lemma table_faithful:
  assumes "m \<in> set ms" "length ms \<le> 256"
  shows "json_faithful (table_json ms) m"
proof -
  have "length (takeWhile (\<lambda>x. x \<noteq> m) xs) < length xs" if "m \<in> set xs" for xs using that
    by (induction xs) auto
  with assms(1) have "length (takeWhile (\<lambda>x. x \<noteq> m) ms) < length ms" by blast
  moreover from this have "ms ! length (takeWhile (\<lambda>x. x \<noteq> m) ms) = m"
    using nth_length_takeWhile by blast
  ultimately show ?thesis using assms(2)
    by (simp add: json_faithful_def table_json_def new_envelope_def unsigned_of_nat take_bit_nat_eq_self)
qed

lemma table_encode:
  "m \<in> set ms \<Longrightarrow> validate_field_limits m = Inr () \<Longrightarrow>
     encode_control (table_json ms) m = Inr [0, 0, 0, 1, of_nat (length (takeWhile (\<lambda>x. x \<noteq> m) ms))]"
  by (simp add: encode_control_def encode_frame_def table_json_def new_envelope_def MAX_FRAME_PAYLOAD_def to_be_bytes_def
      word_less_nat_alt)

lemma frames_single:
  "encode_control J m = Inr b \<Longrightarrow> json_faithful J m \<Longrightarrow> frames J ms bs \<Longrightarrow> frames J (m # ms) (b @ bs)"
  by (auto simp: frames_def list_all2_Cons1)

lemma table_frames:
  assumes "set out \<subseteq> set ms" "length ms \<le> 256" "list_all (\<lambda>m. validate_field_limits m = Inr ()) out"
  shows "\<exists>bs. frames (table_json ms) out bs"
  using assms
proof (induction out)
  case Nil
  then show ?case by (auto simp: frames_Nil)
next
  case (Cons m out)
  then obtain bs where "frames (table_json ms) out bs" by auto
  with frames_single [OF table_encode [of m ms] table_faithful [of m ms]] Cons.prems show ?case by auto
qed

definition demo_stop :: control_message where "demo_stop = StopMedia \<lparr>st_session_id = ''s''\<rparr>"

definition demo_refusal :: control_message where
  "demo_refusal = agent_err AUTH_FAILED ''control IPC requires attach with boot_secret first'' None"

definition demo_client :: "bytes \<Rightarrow> service_client" where
  "demo_client bs = \<lparr>sc_reader = \<lparr>pending = bs, ends_with = UnexpectedEof\<rparr>,
     sc_writer = \<lparr>written = [], room = 100, write_error = OtherIo [], flush_error = None\<rparr>, sc_boot_secret = None\<rparr>"

lemmas demo_message_defs = demo_stop_def demo_refusal_def agent_err_def agent_ack_def drain_complete_def
  DRAIN_COMPLETE_def AUTH_FAILED_def ipc_limit_defs

theorem request_gets_its_reply_witness:
  "\<exists>c'. agent_request (table_json [demo_stop, demo_refusal, drain_complete]) demo_stop
      (demo_client ([0, 0, 0, 1, 1, 0, 0, 0, 1, 2] @ [7])) = (Inr (demo_refusal, []), c') \<and> pending (sc_reader c') = [7]"
proof -
  let ?t = "[demo_stop, demo_refusal, drain_complete]" and ?bs = "[0, 0, 0, 1, 1, 0, 0, 0, 1, 2] :: bytes"
  let ?J = "table_json ?t"
  have a: "serve_message demo_env demo_injector (Inr demo_manager) (\<lambda>m. m) (Some ''k'') demo_stop (with_manager demo_manager) =
      Some ([demo_refusal, drain_complete], Inr (with_manager demo_manager))"
    by (simp add: serve_message_def demo_stop_def with_manager_def default_agent_def auth_failed_def demo_refusal_def)
  have enc: "encode_control ?J demo_stop = Inr [0, 0, 0, 1, 0]"
      "encode_control ?J demo_refusal = Inr [0, 0, 0, 1, 1]" "encode_control ?J drain_complete = Inr [0, 0, 0, 1, 2]"
    by (subst table_encode; simp add: demo_message_defs)+
  have faithful: "json_faithful ?J demo_refusal" "json_faithful ?J drain_complete" by (simp_all add: table_faithful)
  have bs: "frames ?J [demo_refusal, drain_complete] ?bs"
    using frames_single [OF enc(2) faithful(1) frames_single [OF enc(3) faithful(2), of "[]" "[]"]] by (simp add: frames_Nil)
  have send: "stream_send ?J demo_stop (demo_client (?bs @ [7])) =
      (Inr (), (demo_client (?bs @ [7]))\<lparr>sc_writer := \<lparr>written = [0, 0, 0, 1, 0], room = 95, write_error = OtherIo [], flush_error = None\<rparr>\<rparr>)"
    by (simp add: stream_send_def enc write_all_flush_def demo_client_def)
  obtain reply out c' where "agent_request ?J demo_stop (demo_client (?bs @ [7])) = (Inr (reply, out), c')"
      "[demo_refusal, drain_complete] = reply # out @ [drain_complete]" "pending (sc_reader c') = [7]"
    using request_gets_its_reply [OF a send bs, of "[7]"] by (auto simp: demo_client_def)
  then show ?thesis by simp
qed

section \<open>Starting a session\<close>

lemma stream_send_write:
  "write_control J msg (sc_writer c) = (Inr (), w) \<Longrightarrow> stream_send J msg c = (Inr (), c\<lparr>sc_writer := w\<rparr>)"
  by (auto simp: write_control_def stream_send_def split: sum.splits prod.splits codec_error.splits)

text \<open>What an unrefused message other than a detach does to the agent, and what is sent for it.\<close>

lemma serve_handled:
  assumes "serve_message E fresh rebuild pump expected msg a = Some (sent, Inr a')"
    and "case msg of AttachSession r \<Rightarrow> boot_secret_ok expected (as_boot_secret r) | _ \<Rightarrow> ag_session_id (agent_state_of a) \<noteq> None"
    and "\<not> is_detach msg"
  shows "\<exists>reply a1 out. agent_session_handle E fresh msg a = Some (reply, a1) \<and> agent_state_of a' = agent_state_of a1 \<and>
    sent = reply # out @ [drain_complete] \<and> list_all is_queued out"
proof -
  from assms obtain reply a1 where h: "agent_session_handle E fresh msg a = Some (reply, a1)"
    by (cases "agent_session_handle E fresh msg a") (auto simp: serve_message_def Let_def split: control_message.splits)
  from serve_message_shape [OF assms(1)] obtain r out where s: "sent = r # out @ [drain_complete]" "list_all is_queued out" by blast
  have "r = reply \<and> agent_state_of a' = agent_state_of a1"
    using assms h s(1)
    by (auto simp: serve_message_def Let_def agent_take_outbound_def split: control_message.splits if_splits prod.splits)
  with h s show ?thesis by blast
qed

lemma attach_reply:
  assumes "agent_session_handle E fresh (AttachSession r) a = Some (reply, a1)"
    and "ag_session_id (agent_state_of a) = None \<or> killed (agent_state_of a)"
  shows "is_ack reply \<and> ag_session_id (agent_state_of a1) = Some (as_session_id r) \<and> \<not> killed (agent_state_of a1) \<and>
    chrome_visible (agent_state_of a1)"
  using assms by (auto simp: agent_session_handle_def agent_ack_def)

lemma policy_reply:
  assumes "agent_session_handle E fresh (SetPolicy p) a = Some (reply, a1)"
    and "ag_session_id (agent_state_of a) = Some (sp_session_id p)" "\<not> killed (agent_state_of a)" "\<not> sp_unattended p"
  shows "is_ack reply \<and> agent_state_of a1 = (agent_state_of a)\<lparr>enable_input := sp_enable_input p, unattended := False\<rparr>"
  using assms
  by (auto simp: agent_session_handle_def agent_ack_def checked_def require_session_def require_not_killed_def sync_input_policy_def)

lemma start_reply:
  assumes "agent_session_handle E fresh (StartMedia m) a = Some (reply, a1)"
    and "ag_session_id (agent_state_of a) = Some (sm_session_id m)" "\<not> killed (agent_state_of a)"
    and "media_started (agent_state_of a1)"
  shows "is_ack reply \<and> agent_state_of a1 = (agent_state_of a)\<lparr>media_started := True\<rparr>"
  using assms
  by (auto simp: agent_session_handle_def agent_ack_def checked_def require_session_def require_not_killed_def Let_def
      split: option.splits prod.splits sum.splits)

lemma run_step:
  assumes "sent = reply # out @ [drain_complete]" "list_all is_queued out" "is_ack reply"
    and "frames J (sent @ later) bs" "pending (sc_reader c) = bs @ rest"
    and "write_control J msg (sc_writer c) = (Inr (), w)"
  shows "\<exists>bs' c1. frames J later bs' \<and> pending (sc_reader c1) = bs' @ rest \<and> sc_writer c1 = w \<and>
    run_start_sequence J dbg (msg # msgs) acc c = run_start_sequence J dbg msgs (acc @ out) c1"
proof -
  from request_frames [OF stream_send_write [OF assms(6)] assms(2), of reply later bs rest] assms(1,4,5)
  obtain bs' c1 where "frames J later bs'" "agent_request J msg c = (Inr (reply, out), c1)"
      "pending (sc_reader c1) = bs' @ rest" "sc_writer c1 = w" by auto
  moreover obtain x where "reply = Ack x" using assms(3) by (cases reply) auto
  ultimately show ?thesis by auto
qed



section \<open>Endpoints\<close>

lemma digits_value_snoc:
  "digits_value acc (s @ [c]) = (case digits_value acc s of None \<Rightarrow> None | Some v \<Rightarrow> digits_value v [c])"
  by (induction s arbitrary: acc) (auto split: option.splits)

lemma decimal_char: "d < 10 \<Longrightarrow> is_ascii_digit (char_of (48 + d)) \<and> of_char (char_of (48 + d :: nat) :: char) = 48 + d"
  by (simp add: is_ascii_digit_def)

lemma digits_value_show: "n < 65536 \<Longrightarrow> digits_value 0 (show_nat n) = Some n"
proof (induction n rule: show_nat.induct)
  case (1 n)
  show ?case
  proof (cases "n < 10")
    case True
    with decimal_char [of n] 1(2) show ?thesis by (simp add: show_nat.simps [of n])
  next
    case False
    with 1 decimal_char [of "n mod 10"] show ?thesis
      by (simp add: show_nat.simps [of n] digits_value_snoc)
  qed
qed

lemma show_nat_digits: "c \<in> set (show_nat n) \<Longrightarrow> is_ascii_digit c"
proof (induction n rule: show_nat.induct)
  case (1 n)
  then show ?case using decimal_char [of n] decimal_char [of "n mod 10"]
    by (subst (asm) (2) show_nat.simps) (auto split: if_splits)
qed

lemma show_nat_not_Nil: "show_nat n \<noteq> []"
  by (simp add: show_nat.simps [of n])

lemma parse_u16_show: "parse_u16 (show_word p) = Some (p :: u16)"
proof -
  have v: "digits_value 0 (show_word p) = Some (unat p)"
    using digits_value_show [of "unat p"] unsigned_less [of p] by simp
  have "hd (show_word p) \<noteq> CHR ''+''"
    using show_nat_digits [of "hd (show_word p)" "unat p"] show_nat_not_Nil by (auto simp: is_ascii_digit_def)
  with v show_nat_not_Nil [of "unat p"] show ?thesis
    by (cases "show_word p") (auto simp: parse_u16_def Let_def)
qed

text \<open>
  The text of a TCP endpoint names that endpoint again, on every platform and with any white space around it
  stripped, so the address the agent prints is the address the service dials.
\<close>

theorem tcp_endpoint_roundtrip:
  "parse_control_endpoint win (format_endpoint (TcpLocalhost p)) = Inr (TcpLocalhost p)"
proof -
  let ?s = "''tcp:'' @ show_word p"
  have "visible (last (show_word p))"
    using show_nat_digits [of "last (show_word p)" "unat p"] show_nat_not_Nil [of "unat p"]
    by (auto simp: is_ascii_digit_def visible_def)
  then have "trim ?s = ?s"
    using show_nat_not_Nil [of "unat p"] by (intro trim_visible) (simp add: visible_def)
  moreover have "ascii_lower ?s = ''tcp:'' @ ascii_lower (show_word p)" by (simp add: ascii_lower_def)
  ultimately show ?thesis
    by (simp add: parse_control_endpoint_def parse_tcp_part_def strip_prefix_def starts_with_def PIPE_PREFIX_def parse_u16_show Let_def)
qed

end
