(* ===== verification/Ws_Service.thy ===== *)
theory Ws_Service
  imports Ws_Host Host_Pump Host_Tray Net_Factory Signaling_Http Service_Client
begin

text \<open>
  The host service (the rest of \<open>apps/host/src/ws_session.rs\<close>): its settings, the enrolment of the device, the one-time code it shows, and one session
  served with the media in its own process. \<open>Ws_Agent\<close> serves a session with the agent, \<open>Ws_Loop\<close> is the long-lived loop around both.
  A panic is \<open>None\<close>; bounded waits are given their number of iterations, as in \<open>Ws_Host\<close>.
\<close>

section \<open>Settings\<close>

record existing_host_creds =
  ex_public_id :: string
  ex_access_token :: string
  ex_refresh_token :: "string option"

record ws_host_config =
  wh_server :: string
  wh_display_name :: string
  wh_transport :: transport_mode
  wh_video_frames :: u32
  wh_wait_incoming :: duration
  wh_existing :: "existing_host_creds option"
  wh_max_sessions :: u32
  wh_reconnect :: bool
  wh_reconnect_backoff :: duration
  wh_creds_path :: string
  wh_load_creds :: bool
  wh_save_creds :: bool
  wh_mint_otp :: bool
  wh_agent_control :: "control_endpoint option"
  wh_tray :: bool
  wh_os_tray :: bool
  wh_status_path :: "string option"
  wh_boot_secret :: "string option"
  wh_unattended_secret :: "string option"

definition DEFAULT_LAB_SERVER :: string where
  "DEFAULT_LAB_SERVER = ''http://127.0.0.1:18080''"

text \<open>The argument is \<open>cfg!(windows)\<close>.\<close>

definition default_ws_host_config :: "bool \<Rightarrow> ws_host_config" where
  "default_ws_host_config win =
     \<lparr>wh_server = DEFAULT_LAB_SERVER, wh_display_name = ''remotelink-host'', wh_transport = ModeLive, wh_video_frames = 5,
      wh_wait_incoming = 120000000000, wh_existing = None, wh_max_sessions = 1, wh_reconnect = False,
      wh_reconnect_backoff = 2000000000, wh_creds_path = DEFAULT_CREDS_PATH, wh_load_creds = True, wh_save_creds = True,
      wh_mint_otp = True, wh_agent_control = None, wh_tray = True, wh_os_tray = win, wh_status_path = None,
      wh_boot_secret = None, wh_unattended_secret = None\<rparr>"

definition coerce_transport :: "net_features \<Rightarrow> transport_mode \<Rightarrow> transport_mode" where
  "coerce_transport F mode = for_multi_process F mode"

definition is_builtin_lab_server :: "string \<Rightarrow> bool" where
  "is_builtin_lab_server server \<longleftrightarrow>
     server \<in> {''http://127.0.0.1:8080'', ''http://localhost:8080'', ''http://127.0.0.1:18080'', ''http://localhost:18080''}"

section \<open>Enrolment\<close>

record enrolled_host =
  eh_public_id :: string
  eh_access_token :: string
  eh_refresh_token :: "string option"

text \<open>A new device under the verifying key \<open>pk\<close> of a fresh key pair.\<close>

definition enroll_new ::
  "'j json_api \<Rightarrow> ('j, 'w) http_client \<Rightarrow> 'w file_system \<Rightarrow> bytes \<Rightarrow> ws_host_config \<Rightarrow> 'w \<Rightarrow> (string + enrolled_host) \<times> 'w" where
  "enroll_new J H FS pk cfg w =
     (case client_register_device J H (wh_server cfg) pk (Some (wh_display_name cfg)) w of
        (Inl e, w1) \<Rightarrow> (Inl (''register: '' @ show_register_error e), w1)
      | (Inr reg, w1) \<Rightarrow>
          (let host = \<lparr>eh_public_id = dr_public_id reg, eh_access_token = dr_access_token reg, eh_refresh_token = Some (dr_refresh_token reg)\<rparr> in
           if wh_save_creds cfg then
             (case creds_save FS (wh_creds_path cfg) (creds_from_registration (wh_server cfg) reg) w1 of
                (Inl e, w2) \<Rightarrow> (Inl (''save creds: '' @ show_register_error e), w2)
              | (Inr _, w2) \<Rightarrow> (Inr host, w2))
           else (Inr host, w1)))"

definition creds_server :: "ws_host_config \<Rightarrow> host_credential_file \<Rightarrow> string" where
  "creds_server cfg file =
     (if \<not> is_builtin_lab_server (wh_server cfg) then wh_server cfg
      else if hf_server file \<noteq> [] then hf_server file else wh_server cfg)"

definition host_of_file :: "host_credential_file \<Rightarrow> enrolled_host" where
  "host_of_file file = \<lparr>eh_public_id = hf_public_id file, eh_access_token = hf_access_token file, eh_refresh_token = Some (hf_refresh_token file)\<rparr>"

definition enroll_or_reuse ::
  "'j json_api \<Rightarrow> ('j, 'w) http_client \<Rightarrow> 'w file_system \<Rightarrow> bytes \<Rightarrow> ws_host_config \<Rightarrow> 'w \<Rightarrow> (string + enrolled_host) \<times> 'w" where
  "enroll_or_reuse J H FS pk cfg w =
     (case wh_existing cfg of
        Some ex \<Rightarrow> (Inr \<lparr>eh_public_id = ex_public_id ex, eh_access_token = ex_access_token ex, eh_refresh_token = ex_refresh_token ex\<rparr>, w)
      | None \<Rightarrow>
          if wh_load_creds cfg \<and> fs_exists FS (wh_creds_path cfg) w then
            (case creds_load FS (wh_creds_path cfg) w of
               Inl _ \<Rightarrow> enroll_new J H FS pk cfg w
             | Inr file \<Rightarrow>
                 let server = creds_server cfg file in
                 if hf_refresh_token file = [] then (Inr (host_of_file file), w)
                 else (case client_refresh_device_token J H server (hf_public_id file) (hf_refresh_token file) w of
                     (Inl _, w1) \<Rightarrow> enroll_new J H FS pk cfg w1
                   | (Inr tokens, w1) \<Rightarrow>
                       let file1 = file\<lparr>hf_access_token := tr_access_token tokens, hf_refresh_token := tr_refresh_token tokens,
                             hf_expires_at := Some (tr_expires_at tokens), hf_server := server\<rparr>;
                           w2 = (if wh_save_creds cfg then snd (creds_save FS (wh_creds_path cfg) file1 w1) else w1)
                       in (Inr (host_of_file file1), w2)))
          else enroll_new J H FS pk cfg w)"

section \<open>The code shown to the user\<close>

record minted_otp =
  mo_code :: string
  mo_expires_at :: string

text \<open>The draws that a fresh code is made of.\<close>

record mint_draws =
  md_now :: u64
  md_digits :: "nat \<Rightarrow> u8"
  md_salt :: bytes

definition maybe_mint_otp ::
  "'j json_api \<Rightarrow> ('j, 'w) http_client \<Rightarrow> crypto \<Rightarrow> ws_host_config \<Rightarrow> enrolled_host \<Rightarrow> mint_draws \<Rightarrow> host_auth \<Rightarrow> 'w
     \<Rightarrow> (string + minted_otp option) \<times> host_auth \<times> 'w" where
  "maybe_mint_otp J H K cfg enrolled dr hub w =
     (if \<not> wh_mint_otp cfg then (Inr None, hub, w)
      else case hub_mint_local K (md_now dr) (md_digits dr) (md_salt dr) hub of
        (Inl e, h) \<Rightarrow> (Inl e, h, w)
      | (Inr (otp_code, hash), h) \<Rightarrow>
          (case post_otp_hash J H (wh_server cfg) (eh_public_id enrolled) (eh_access_token enrolled) (bytes_to_hex (digest hash))
                  (bytes_to_hex (salt hash)) (keyed hash) (Some HOST_OTP_TTL_SECS) w of
             (Inl e, w1) \<Rightarrow> (Inl (''post otp hash: '' @ show_register_error e), h, w1)
           | (Inr resp, w1) \<Rightarrow> (Inr (Some \<lparr>mo_code = otp_code, mo_expires_at = om_expires_at resp\<rparr>), h, w1)))"

section \<open>A session with the media in this process\<close>

text \<open>
  \<open>lh_create\<close> makes the offering peer under the ICE variables, \<open>lh_injector\<close> opens the injector of an ordinary or a live session, and \<open>lh_sources\<close> opens
  the capture sources of the configured backends or, in the second try, of the mock desktop.
\<close>

record ('j, 'p, 'i, 's, 'm) local_host =
  lh_json :: "'j json_api"
  lh_env :: "('p, 'i) host_env"
  lh_pump :: "('s, 'm, 'p) pump_env"
  lh_create :: "ice_env \<Rightarrow> transport_config \<Rightarrow> net_error + 'p"
  lh_injector :: "bool \<Rightarrow> 'i rate_limited"
  lh_sources :: "bool \<Rightarrow> string + 's"

text \<open>\<open>PeerTransport::wait_ready\<close>, the default of the trait.\<close>

fun wait_ready ::
  "('p, 'i) host_env \<Rightarrow> nat \<Rightarrow> ('p, 'i) session_manager \<Rightarrow> (session_error + unit) \<times> ('p, 'i) session_manager" where
  "wait_ready E 0 m = (Inl (SeTransport (show_net_error (NeInternal
       (''wait_ready timeout (state='' @ connection_state_str (peer_state E (hm_peer m)) @ '')'')))), m)"
| "wait_ready E (Suc n) m =
     (case on_peer (peer_poll E) m of
        (Inl e, m1) \<Rightarrow> (Inl e, m1)
      | (Inr _, m1) \<Rightarrow>
          (let st = peer_state E (hm_peer m1) in
           if st = CsConnected then (Inr (), m1)
           else if st \<in> {CsFailed, CsClosed, CsDisconnected} then
             (Inl (SeTransport (show_net_error (NeInternal (''wait_ready: ended in '' @ connection_state_str st)))), m1)
           else wait_ready E n m1))"

text \<open>What \<open>configure_session_media\<close> chooses: the software encoder or not, and the size and rate of the pictures.\<close>

definition configure_session_media :: "bool \<Rightarrow> bool \<times> u32 \<times> u32 \<times> u32" where
  "configure_session_media live = (if live then (True, 1280, 720, 20) else (False, 64, 36, 30))"

text \<open>\<open>start_media\<close> of the manager with the sources it opens; the plane is the one of the first start that got as far as opening it.\<close>

definition start_capture ::
  "('j, 'p, 'i, 's, 'm) local_host \<Rightarrow> bool \<Rightarrow> bool \<Rightarrow> ('s, 'm) capture_plane option \<Rightarrow> ('p, 'i) session_manager
     \<Rightarrow> ((session_error + unit) \<times> ('s, 'm) capture_plane option \<times> ('p, 'i) session_manager) option" where
  "start_capture L live configured plane mgr =
     (case configure_session_media live of (soft, width, height, fps) \<Rightarrow>
      let opened = open_capture_plane (pe_mf (lh_pump L)) (lh_sources L configured) soft width height fps;
          plane1 = (if hm_session_id mgr \<noteq> None \<and> hm_media mgr = None then (case opened of Inr c \<Rightarrow> Some c | Inl _ \<Rightarrow> plane) else plane)
      in map_option (\<lambda>(r, m). (r, plane1, m)) (manager_start_media ((lh_env L)\<lparr>open_media := map_sum id (\<lambda>_. ()) opened\<rparr>) mgr))"

text \<open>The first start, and in a live session the second with the mock desktop.\<close>

definition start_local_media ::
  "('j, 'p, 'i, 's, 'm) local_host \<Rightarrow> bool \<Rightarrow> ('p, 'i) session_manager
     \<Rightarrow> ((string + unit) \<times> ('s, 'm) capture_plane option \<times> ('p, 'i) session_manager) option" where
  "start_local_media L live mgr =
     (case start_capture L live True None mgr of
        None \<Rightarrow> None
      | Some (Inr _, c, m) \<Rightarrow> Some (Inr (), c, m)
      | Some (Inl e, c, m) \<Rightarrow>
          if live then
            map_option (\<lambda>(r, c1, m1). (case r of Inl e1 \<Rightarrow> Inl (''start_media (mock fallback): '' @ show_session_error e1) | Inr _ \<Rightarrow> Inr (), c1, m1))
              (start_capture L live False c m)
          else Some (Inl (''start_media: '' @ show_session_error e), c, m))"

section \<open>The media loop\<close>

definition peer_message_end :: "string \<Rightarrow> string" where
  "peer_message_end reason = (if reason = [] then ''viewer_session_end'' else reason)"

definition add_pump_stats :: "pump_stats \<Rightarrow> pump_stats \<Rightarrow> pump_stats" where
  "add_pump_stats totals s = totals\<lparr>video_sent := sat_add (video_sent totals) (video_sent s), audio_sent := sat_add (audio_sent totals) (audio_sent s)\<rparr>"

text \<open>The second half of an iteration: poll, pump one slot; the reason when that ends the session.\<close>

definition drive_tick ::
  "('j, 'p, 'i, 's, 'm) local_host \<Rightarrow> (nat \<Rightarrow> instant \<times> instant) \<Rightarrow> pump_stats \<Rightarrow> ('s, 'm) capture_plane \<Rightarrow> ('p, 'i) session_manager
     \<Rightarrow> (string option \<times> pump_stats \<times> ('s, 'm) capture_plane \<times> ('p, 'i) session_manager) option" where
  "drive_tick L clock totals c mgr =
     (case poll_inbound (lh_env L) clock mgr of
        None \<Rightarrow> None
      | Some (_, m) \<Rightarrow>
          (case pump_media (lh_pump L) (lh_env L) 1 c m of
             (Inr s, c1, m1) \<Rightarrow>
               Some (if skipped_not_connected s then Some ''peer_disconnected'' else None, add_pump_stats totals s, c1, m1)
           | (Inl e, c1, m1) \<Rightarrow>
               let msg = show_session_error e in
               Some (if contains ''idle'' msg \<or> contains ''audio source ended'' msg then None else Some (''pump:'' @ msg), totals, c1, m1)))"

fun drive_live ::
  "('j, 'p, 'i, 's, 'm) local_host \<Rightarrow> (nat \<Rightarrow> nat \<Rightarrow> instant \<times> instant) \<Rightarrow> (nat \<Rightarrow> bool) \<Rightarrow> nat \<Rightarrow> pump_stats \<Rightarrow> signaling_client
     \<Rightarrow> ('s, 'm) capture_plane \<Rightarrow> ('p, 'i) session_manager
     \<Rightarrow> (string option \<times> pump_stats \<times> signaling_client \<times> ('s, 'm) capture_plane \<times> ('p, 'i) session_manager) option" where
  "drive_live L clock ends 0 totals sig c mgr = Some (None, totals, sig, c, mgr)"
| "drive_live L clock ends (Suc n) totals sig c mgr =
     (if ends n then Some (Some ''tray_end_session'', totals, sig, c, mgr)
      else if peer_state (lh_env L) (hm_peer mgr) \<noteq> CsConnected then Some (Some ''peer_disconnected'', totals, sig, c, mgr)
      else
        (let go = (\<lambda>s m. case drive_tick L (clock n) totals c m of
               None \<Rightarrow> None
             | Some (Some reason, t, c1, m1) \<Rightarrow> Some (Some reason, t, s, c1, m1)
             | Some (None, t, c1, m1) \<Rightarrow> drive_live L clock ends n t s c1 m1)
         in case recv_timeout (lh_json L) sig of
              (Inr (SessionEnd _ _ reason), s) \<Rightarrow> Some (Some (peer_message_end reason), totals, s, c, mgr)
            | (Inr (IceCandidate _ _ cand), s) \<Rightarrow>
                (case apply_signal (lh_env L) ICE_CANDIDATE (case json_ice_to_string (lh_env L) cand of Inr t \<Rightarrow> t | Inl _ \<Rightarrow> []) mgr of
                   None \<Rightarrow> None
                 | Some (_, m) \<Rightarrow> go s m)
            | (Inr _, s) \<Rightarrow> go s mgr
            | (Inl (SgTimeout _), s) \<Rightarrow> go s mgr
            | (Inl e, s) \<Rightarrow>
                if is_stale_signal_seq e then go s mgr else Some (Some (''signaling:'' @ show_signaling_error e), totals, s, c, mgr)))"

text \<open>The result is \<open>None\<close> while a live session goes on after the given number of iterations.\<close>

definition drive_local_media ::
  "('j, 'p, 'i, 's, 'm) local_host \<Rightarrow> (nat \<Rightarrow> nat \<Rightarrow> instant \<times> instant) \<Rightarrow> (nat \<Rightarrow> bool) \<Rightarrow> nat \<Rightarrow> u32 \<Rightarrow> signaling_client
     \<Rightarrow> ('s, 'm) capture_plane \<Rightarrow> ('p, 'i) session_manager
     \<Rightarrow> ((string + pump_stats \<times> string) option \<times> signaling_client \<times> ('s, 'm) capture_plane \<times> ('p, 'i) session_manager) option" where
  "drive_local_media L clock ends rounds video_frames sig c mgr =
     (if video_frames > 0 then
        (case pump_media (lh_pump L) (lh_env L) video_frames c mgr of
           (Inl e, c1, m) \<Rightarrow> Some (Some (Inl (''pump: '' @ show_session_error e)), sig, c1, m)
         | (Inr pump, c1, m) \<Rightarrow> Some (Some (Inr (pump, ''host_media_complete'')), sig, c1, m))
      else map_option (\<lambda>(r, totals, s, c1, m). (map_option (\<lambda>reason. Inr (totals, reason)) r, s, c1, m))
             (drive_live L clock ends rounds default_pump_stats sig c mgr))"

section \<open>One session\<close>

text \<open>What one session reads from the outside: clocks, the requests of the tray at each look, the numbers of iterations, and random bytes.\<close>

record session_readings =
  sr_accept_clock :: "nat \<Rightarrow> instant"
  sr_relay_ends :: "nat \<Rightarrow> bool"
  sr_media_ends :: "nat \<Rightarrow> bool"
  sr_answer_ticks :: nat
  sr_ice_ticks :: nat
  sr_ready_ticks :: nat
  sr_media_ticks :: nat
  sr_bind_clock :: "nat \<Rightarrow> nat \<Rightarrow> instant \<times> instant"
  sr_media_clock :: "nat \<Rightarrow> nat \<Rightarrow> instant \<times> instant"
  sr_now :: u64
  sr_nonce :: bytes

abbreviation on_tray :: "(tray_state \<Rightarrow> tray_state) \<Rightarrow> tray_state option \<Rightarrow> tray_state option" where
  "on_tray f tray \<equiv> map_option f tray"

text \<open>From the connection on: authorization, media, and the orderly end, after which the manager is dropped with its peer.\<close>

definition finish_session ::
  "('j, 'p, 'i, 's, 'm) local_host \<Rightarrow> session_readings \<Rightarrow> string \<Rightarrow> transport_mode \<Rightarrow> u32 \<Rightarrow> string \<Rightarrow> session_mode
     \<Rightarrow> signaling_client \<Rightarrow> tray_state option \<Rightarrow> host_auth \<Rightarrow> ('s, 'm) capture_plane \<Rightarrow> ('p, 'i) session_manager
     \<Rightarrow> ((string + string) option \<times> signaling_client \<times> tray_state option \<times> host_auth) option" where
  "finish_session L R public_id mode video_frames session_id incoming_mode sig tray hub c mgr =
     (case (if video_frames = 0 then authorize_viewer (lh_env L) (sr_bind_clock R) (sr_now R) (sr_nonce R) incoming_mode hub mgr else Some (hub, mgr)) of
        None \<Rightarrow> None
      | Some (hub1, mgr1) \<Rightarrow>
      (case drive_local_media L (sr_media_clock R) (sr_media_ends R) (sr_media_ticks R) video_frames sig c mgr1 of
        None \<Rightarrow> None
      | Some (None, s, c1, m) \<Rightarrow> Some (None, s, tray, hub1)
      | Some (Some (Inl e), s, c1, m) \<Rightarrow> Some (Some (Inl e), s, tray, hub1)
      | Some (Some (Inr (pump, end_reason)), s, c1, m) \<Rightarrow>
          if skipped_not_connected pump \<or> video_frames > 0 \<and> video_sent pump = 0 then
            Some (Some (Inl (''pump failed (skipped='' @ show_bool (skipped_not_connected pump) @ '' video_sent='' @ show_nat (unat (video_sent pump)) @ '')'')),
              s, on_tray tray_end_session tray, hub1)
          else (case peer_local_fingerprint (lh_env L) (hm_peer m) of
              Inl e \<Rightarrow> Some (Some (Inl e), s, tray, hub1)
            | Inr fp \<Rightarrow>
                let (v_tx, a_tx) = media_counters m;
                    summary = ''ws-host ok public_id='' @ public_id @ '' session='' @ session_id @ '' media=local transport='' @ transport_mode_str mode @
                      '' video_tx='' @ show_nat (max (unat v_tx) (unat (video_sent pump))) @ '' audio_tx='' @ show_nat (max (unat a_tx) (unat (audio_sent pump))) @
                      '' live='' @ show_bool (video_frames = 0) @ '' reason='' @ end_reason @ '' fp='' @ fp
                in Some (Some (Inr summary), end_wss_session (lh_json L) session_id end_reason s, on_tray tray_end_session tray, hub1))))"

text \<open>The negotiation of an accepted session, up to the connection.\<close>

definition connect_session ::
  "('j, 'p, 'i, 's, 'm) local_host \<Rightarrow> session_readings \<Rightarrow> ice_env \<Rightarrow> transport_config \<Rightarrow> u32 \<Rightarrow> string \<Rightarrow> signaling_client \<Rightarrow> tray_state option
     \<Rightarrow> ((string + ('s, 'm) capture_plane \<times> ('p, 'i) session_manager) \<times> signaling_client \<times> tray_state option) option" where
  "connect_session L R ice transport_cfg video_frames session_id sig tray =
     (case lh_create L ice transport_cfg of
        Inl e \<Rightarrow> Some (Inl (''create offerer: '' @ show_net_error e), sig, tray)
      | Inr offerer \<Rightarrow>
      (let live = (video_frames = 0); inj = lh_injector L live in
       case start_local_media L live (manager_attach session_id inj (manager_with_peer offerer inj)) of
        None \<Rightarrow> None
      | Some (Inl e, c, m) \<Rightarrow> Some (Inl e, sig, tray)
      | Some (Inr _, c, m) \<Rightarrow>
      (case take_outbound_signals m of (outbound, m1) \<Rightarrow>
       case List.find (\<lambda>s. sf_kind s = SESSION_OFFER) outbound of
        None \<Rightarrow> Some (Inl ''no session_offer from SessionManager'', sig, tray)
      | Some offer_sig \<Rightarrow>
      (case parse_sdp_payload (lh_env L) (sf_payload offer_sig) of
        Inl e \<Rightarrow> Some (Inl (show_session_error e), sig, tray)
      | Inr offer \<Rightarrow>
      (case relay_offer_answer_ice_local (lh_json L) (lh_env L) (sr_relay_ends R) (sr_answer_ticks R) (sr_ice_ticks R) session_id offer
              (filter is_ice_forward outbound) sig m1 of
        None \<Rightarrow> None
      | Some (Inl e, s, m2) \<Rightarrow>
          Some (Inl e, s, on_tray (if contains ''tray'' e then tray_apply_kill else tray_end_session) tray)
      | Some (Inr _, s, m2) \<Rightarrow>
      (case wait_ready (lh_env L) (sr_ready_ticks R) m2 of
        (Inl e, m3) \<Rightarrow> Some (Inl (''wait_ready: '' @ show_session_error e), s, on_tray tray_end_session tray)
      | (Inr _, m3) \<Rightarrow> map_option (\<lambda>c1. (Inr (c1, m3), s, on_tray tray_mark_session_active tray)) c))))))"

text \<open>The result is \<open>None\<close> while the session goes on.\<close>

definition handle_one_session_local ::
  "('j, 'p, 'i, 's, 'm) local_host \<Rightarrow> session_readings \<Rightarrow> ice_env \<Rightarrow> string \<Rightarrow> transport_mode \<Rightarrow> transport_config \<Rightarrow> u32 \<Rightarrow> duration
     \<Rightarrow> signaling_client \<Rightarrow> tray_state option \<Rightarrow> host_auth
     \<Rightarrow> ((string + string) option \<times> signaling_client \<times> tray_state option \<times> host_auth) option" where
  "handle_one_session_local L R ice public_id mode transport_cfg video_frames wait_incoming sig tray hub =
     (case accept_incoming_session (lh_json L) (sr_accept_clock R) wait_incoming sig of
        (Inl e, s) \<Rightarrow> Some (Some (Inl e), s, tray, hub)
      | (Inr (session_id, incoming_mode), s) \<Rightarrow>
      (case connect_session L R ice transport_cfg video_frames session_id s (on_tray (tray_begin_session session_id None) tray) of
        None \<Rightarrow> None
      | Some (Inl e, s1, tray1) \<Rightarrow> Some (Some (Inl e), s1, tray1, hub)
      | Some (Inr (c, mgr), s1, tray1) \<Rightarrow>
          finish_session L R public_id mode video_frames session_id incoming_mode s1 tray1 hub c mgr))"

end
