(* ===== verification/Ws_Agent.thy ===== *)
theory Ws_Agent
  imports Ws_Service
begin

text \<open>
  One session with the media in the agent process (\<open>handle_one_session_agent\<close> and \<open>drive_agent_live\<close> of \<open>apps/host/src/ws_session.rs\<close>): the service
  relays between the server's socket and the control connection. \<open>dbg\<close> is the derived \<open>Debug\<close> text of a control message; a panic is \<open>None\<close>.
\<close>

section \<open>Errors of the control connection\<close>

fun show_io_error :: "io_error \<Rightarrow> string" where
  "show_io_error UnexpectedEof = ''failed to fill whole buffer''"
| "show_io_error (OtherIo e) = e"

fun show_codec_error :: "codec_error \<Rightarrow> string" where
  "show_codec_error (FramePayloadTooLarge n) = ''frame payload too large: '' @ show_nat (unat n) @ '' bytes (max 262144)''"
| "show_codec_error (Incomplete need have_bytes) = ''incomplete frame: need '' @ show_nat need @ '' bytes, have '' @ show_nat have_bytes"
| "show_codec_error HeaderTruncated = ''frame header truncated''"
| "show_codec_error (UnsupportedVersion v) =
     ''unsupported control IPC version '' @ show_nat (unat v) @ '' (want '' @ show_nat (unat CONTROL_IPC_VERSION) @ '')''"
| "show_codec_error (FieldLimit e) = show_field_limit e"
| "show_codec_error (JsonEncode e) = ''json encode: '' @ e"
| "show_codec_error (JsonDecode e) = ''json decode: '' @ e"
| "show_codec_error (Io e) = ''io: '' @ show_io_error e"

fun show_transport_error :: "transport_error \<Rightarrow> string" where
  "show_transport_error (TeIo e) = ''io: '' @ show_io_error e"
| "show_transport_error (TeCodec e) = ''codec: '' @ show_codec_error e"
| "show_transport_error TeUnsupported = ''unsupported control endpoint on this platform''"

fun show_control_loop_error :: "control_loop_error \<Rightarrow> string" where
  "show_control_loop_error (ClTransport e) = ''transport: '' @ show_transport_error e"
| "show_control_loop_error (ClProtocol e) = ''protocol: '' @ e"
| "show_control_loop_error (ClAgent e) = ''agent: '' @ e"
| "show_control_loop_error (ClAuth e) = ''auth: '' @ e"

section \<open>Relaying candidates\<close>

record ('j, 'p, 'i) agent_host =
  gh_json :: "'j json_api"
  gh_env :: "('p, 'i) host_env"
  gh_ipc :: "control_envelope frame_json"
  gh_debug :: "control_message \<Rightarrow> string"

fun forward_agent_ice_to_wss ::
  "('j, 'p, 'i) agent_host \<Rightarrow> string \<Rightarrow> control_message list \<Rightarrow> signaling_client \<Rightarrow> ((string + unit) \<times> signaling_client) option" where
  "forward_agent_ice_to_wss G session_id [] sig = Some (Inr (), sig)"
| "forward_agent_ice_to_wss G session_id (msg # msgs) sig =
     (case msg of
        SignalForward s \<Rightarrow>
          if sf_kind s = ICE_CANDIDATE then
            (case parse_ice_payload (gh_env G) (sf_payload s) of
               None \<Rightarrow> None
             | Some (Inl e) \<Rightarrow> Some (Inl (show_session_error e), sig)
             | Some (Inr c) \<Rightarrow>
                 (case take_seq sig of (ice_seq, s1) \<Rightarrow>
                  case client_send (gh_json G) (IceCandidate session_id ice_seq c) s1 of
                    (Inl e, s2) \<Rightarrow> Some (Inl (''send agent ice: '' @ show_signaling_error e), s2)
                  | (Inr _, s2) \<Rightarrow> forward_agent_ice_to_wss G session_id msgs s2))
          else forward_agent_ice_to_wss G session_id msgs sig
      | _ \<Rightarrow> forward_agent_ice_to_wss G session_id msgs sig)"

fun is_ack :: "control_message \<Rightarrow> bool" where
  "is_ack (Ack _) = True"
| "is_ack _ = False"

text \<open>A candidate of the viewer, handed to the agent; what the agent had queued goes to the viewer.\<close>

definition viewer_ice_to_agent ::
  "('j, 'p, 'i) agent_host \<Rightarrow> string \<Rightarrow> ice_candidate \<Rightarrow> signaling_client \<Rightarrow> service_client
     \<Rightarrow> ((string + unit) \<times> signaling_client \<times> service_client) option" where
  "viewer_ice_to_agent G session_id cand sig agent =
     (case json_ice_to_string (gh_env G) cand of
        Inl e \<Rightarrow> Some (Inl e, sig, agent)
      | Inr payload \<Rightarrow>
          (case agent_request (gh_ipc G) (signal_to_agent session_id ICE_CANDIDATE payload) agent of
             (Inl e, a) \<Rightarrow> Some (Inl (''agent ice: '' @ show_control_loop_error e), sig, a)
           | (Inr (reply, queued), a) \<Rightarrow>
               if \<not> is_ack reply then Some (Inl (''agent rejected ice: '' @ gh_debug G reply), sig, a)
               else map_option (\<lambda>(r, s). (r, s, a)) (forward_agent_ice_to_wss G session_id queued sig)))"

fun viewer_ices_to_agent ::
  "('j, 'p, 'i) agent_host \<Rightarrow> string \<Rightarrow> ice_candidate list \<Rightarrow> signaling_client \<Rightarrow> service_client
     \<Rightarrow> ((string + unit) \<times> signaling_client \<times> service_client) option" where
  "viewer_ices_to_agent G session_id [] sig agent = Some (Inr (), sig, agent)"
| "viewer_ices_to_agent G session_id (cand # cands) sig agent =
     (case viewer_ice_to_agent G session_id cand sig agent of
        None \<Rightarrow> None
      | Some (Inl e, s, a) \<Rightarrow> Some (Inl e, s, a)
      | Some (Inr _, s, a) \<Rightarrow> viewer_ices_to_agent G session_id cands s a)"

section \<open>Offer and answer\<close>

text \<open>What the start of the session brought: the last offer and the candidates.\<close>

fun agent_offer ::
  "('p, 'i) host_env \<Rightarrow> control_message list \<Rightarrow> sdp_payload option \<Rightarrow> signal_forward list
     \<Rightarrow> string + sdp_payload option \<times> signal_forward list" where
  "agent_offer E [] offer ices = Inr (offer, ices)"
| "agent_offer E (msg # msgs) offer ices =
     (case msg of
        SignalForward s \<Rightarrow>
          if sf_kind s = SESSION_OFFER then
            (case parse_sdp_payload E (sf_payload s) of
               Inl e \<Rightarrow> Inl (''parse offer: '' @ show_session_error e)
             | Inr p \<Rightarrow> agent_offer E msgs (Some p) ices)
          else if sf_kind s = ICE_CANDIDATE then agent_offer E msgs offer (ices @ [s])
          else agent_offer E msgs offer ices
      | _ \<Rightarrow> agent_offer E msgs offer ices)"

definition forwarded_ices :: "control_message list \<Rightarrow> signal_forward list" where
  "forwarded_ices msgs = List.map_filter (\<lambda>m. case m of SignalForward s \<Rightarrow> if sf_kind s = ICE_CANDIDATE then Some s else None | _ \<Rightarrow> None) msgs"

text \<open>Waiting for the answer: the candidates of the viewer that came before it, and those of the agent that came with it. The flag says whether it came.\<close>

fun agent_answer_loop ::
  "('j, 'p, 'i) agent_host \<Rightarrow> string \<Rightarrow> nat \<Rightarrow> ice_candidate list \<Rightarrow> signaling_client \<Rightarrow> service_client
     \<Rightarrow> (string + bool \<times> ice_candidate list \<times> signal_forward list) \<times> signaling_client \<times> service_client" where
  "agent_answer_loop G session_id 0 early sig agent = (Inr (False, early, []), sig, agent)"
| "agent_answer_loop G session_id (Suc n) early sig agent =
     (case recv_timeout (gh_json G) sig of
        (Inl (SgTimeout _), s) \<Rightarrow> agent_answer_loop G session_id n early s agent
      | (Inl e, s) \<Rightarrow> (Inl (''recv: '' @ show_signaling_error e), s, agent)
      | (Inr (SessionAnswer _ _ answer), s) \<Rightarrow>
          (case json_sdp_to_string (gh_env G) \<lparr>sdp = answer, fingerprint_sig = None\<rparr> of
             Inl e \<Rightarrow> (Inl e, s, agent)
           | Inr payload \<Rightarrow>
               (case agent_request (gh_ipc G) (signal_to_agent session_id SESSION_ANSWER payload) agent of
                  (Inl e, a) \<Rightarrow> (Inl (''agent answer: '' @ show_control_loop_error e), s, a)
                | (Inr (reply, queued), a) \<Rightarrow>
                    if \<not> is_ack reply then (Inl (''agent rejected answer: '' @ gh_debug G reply), s, a)
                    else (Inr (True, early, forwarded_ices queued), s, a)))
      | (Inr (IceCandidate _ _ cand), s) \<Rightarrow> agent_answer_loop G session_id n (early @ [cand]) s agent
      | (Inr _, s) \<Rightarrow> agent_answer_loop G session_id n early s agent)"

section \<open>Waiting for the agent's media\<close>

definition detach_agent :: "('j, 'p, 'i) agent_host \<Rightarrow> string \<Rightarrow> string \<Rightarrow> service_client \<Rightarrow> service_client" where
  "detach_agent G session_id reason agent =
     snd (agent_request (gh_ipc G) (DetachSession \<lparr>ds_session_id = session_id, ds_reason = Some reason\<rparr>) agent)"

definition query_agent ::
  "('j, 'p, 'i) agent_host \<Rightarrow> string \<Rightarrow> service_client \<Rightarrow> (control_loop_error + control_message \<times> control_message list) \<times> service_client" where
  "query_agent G session_id agent = agent_request (gh_ipc G) (QueryStats \<lparr>qs_session_id = Some session_id\<rparr>) agent"

text \<open>Whether the statistics show a connection, and whether they show video.\<close>

fun shows_connected :: "control_message \<Rightarrow> bool" where
  "shows_connected (StatsPush s) = (pu_ice_path s = Some ''connected'')"
| "shows_connected _ = False"

fun shows_video :: "control_message \<Rightarrow> bool" where
  "shows_video (StatsPush s) = (case pu_video_bitrate_bps s of Some n \<Rightarrow> n > 0 | None \<Rightarrow> False)"
| "shows_video _ = False"

text \<open>The loop's flags say whether the agent was seen connected and whether it was seen to send video.\<close>

fun agent_media_loop ::
  "('j, 'p, 'i) agent_host \<Rightarrow> (nat \<Rightarrow> bool) \<Rightarrow> string \<Rightarrow> nat \<Rightarrow> bool \<Rightarrow> bool \<Rightarrow> signaling_client \<Rightarrow> service_client
     \<Rightarrow> ((string + bool \<times> bool) \<times> signaling_client \<times> service_client) option" where
  "agent_media_loop G ends session_id 0 conn video sig agent = Some (Inr (conn, video), sig, agent)"
| "agent_media_loop G ends session_id (Suc n) conn video sig agent =
     (if ends n then Some (Inl ''session ended from tray'', sig, detach_agent G session_id ''tray_end_session'' agent)
      else
        (case (case recv_timeout (gh_json G) sig of
                 (Inr (IceCandidate _ _ cand), s) \<Rightarrow> viewer_ice_to_agent G session_id cand s agent
               | (_, s) \<Rightarrow> Some (Inr (), s, agent)) of
           None \<Rightarrow> None
         | Some (Inl e, s, a) \<Rightarrow> Some (Inl e, s, a)
         | Some (Inr _, s, a) \<Rightarrow>
             (case query_agent G session_id a of
                (Inl e, a1) \<Rightarrow> Some (Inl (''agent query_stats: '' @ show_control_loop_error e), s, a1)
              | (Inr (reply, queued), a1) \<Rightarrow>
                  (case forward_agent_ice_to_wss G session_id queued s of
                     None \<Rightarrow> None
                   | Some (Inl e, s1) \<Rightarrow> Some (Inl e, s1, a1)
                   | Some (Inr _, s1) \<Rightarrow>
                       let conn1 = (conn \<or> shows_connected reply); video1 = (video \<or> shows_video reply) in
                       if conn1 \<and> video1 then Some (Inr (True, True), s1, a1)
                       else agent_media_loop G ends session_id n conn1 video1 s1 a1))))"

section \<open>The live loop\<close>

text \<open>The inner \<open>None\<close>: still going on after the given iterations.\<close>

fun drive_agent_live ::
  "('j, 'p, 'i) agent_host \<Rightarrow> (nat \<Rightarrow> bool) \<Rightarrow> string \<Rightarrow> nat \<Rightarrow> signaling_client \<Rightarrow> service_client
     \<Rightarrow> ((string + string) option \<times> signaling_client \<times> service_client) option" where
  "drive_agent_live G ends session_id 0 sig agent = Some (None, sig, agent)"
| "drive_agent_live G ends session_id (Suc n) sig agent =
     (if ends n then Some (Some (Inr ''tray_end_session''), sig, agent)
      else
        (let go = (\<lambda>s a. drive_agent_live G ends session_id n s (snd (query_agent G session_id a)))
         in case recv_timeout (gh_json G) sig of
              (Inr (SessionEnd _ _ reason), s) \<Rightarrow> Some (Some (Inr (peer_message_end reason)), s, agent)
            | (Inr (IceCandidate _ _ cand), s) \<Rightarrow>
                (case json_ice_to_string (gh_env G) cand of
                   Inl e \<Rightarrow> Some (Some (Inl e), s, agent)
                 | Inr payload \<Rightarrow>
                     (case agent_request (gh_ipc G) (signal_to_agent session_id ICE_CANDIDATE payload) agent of
                        (Inl e, a) \<Rightarrow> Some (Some (Inl (''agent ice: '' @ show_control_loop_error e)), s, a)
                      | (Inr (reply, queued), a) \<Rightarrow>
                          if \<not> is_ack reply then Some (Some (Inr ''agent_rejected_ice''), s, a)
                          else (case forward_agent_ice_to_wss G session_id queued s of None \<Rightarrow> None | Some (_, s1) \<Rightarrow> go s1 a)))
            | (Inr _, s) \<Rightarrow> go s agent
            | (Inl (SgTimeout _), s) \<Rightarrow> go s agent
            | (Inl e, s) \<Rightarrow> Some (Some (Inr (''signaling:'' @ show_signaling_error e)), s, agent)))"

section \<open>One session\<close>

text \<open>From the answer on.\<close>

definition agent_media ::
  "('j, 'p, 'i) agent_host \<Rightarrow> session_readings \<Rightarrow> string \<Rightarrow> transport_mode \<Rightarrow> u32 \<Rightarrow> string \<Rightarrow> ice_candidate list \<Rightarrow> signal_forward list
     \<Rightarrow> signaling_client \<Rightarrow> service_client \<Rightarrow> tray_state option
     \<Rightarrow> ((string + string) option \<times> signaling_client \<times> service_client \<times> tray_state option) option" where
  "agent_media G R public_id mode video_frames session_id early held sig agent tray =
     (case send_candidates (gh_json G) (gh_env G) session_id held sig of
        None \<Rightarrow> None
      | Some (Inl e, s) \<Rightarrow> Some (Some (Inl e), s, agent, tray)
      | Some (Inr _, s) \<Rightarrow>
      (case viewer_ices_to_agent G session_id early s agent of
        None \<Rightarrow> None
      | Some (Inl e, s1, a) \<Rightarrow> Some (Some (Inl e), s1, a, tray)
      | Some (Inr _, s1, a) \<Rightarrow>
      (case agent_media_loop G (sr_relay_ends R) session_id (sr_ice_ticks R) False False s1 a of
        None \<Rightarrow> None
      | Some (Inl e, s2, a1) \<Rightarrow>
          Some (Some (Inl e), s2, a1, if e = ''session ended from tray'' then on_tray tray_apply_kill tray else tray)
      | Some (Inr (conn, video), s2, a1) \<Rightarrow>
          if \<not> conn then
            Some (Some (Inl ''agent media plane never reached Connected''), s2, detach_agent G session_id ''agent_not_connected'' a1,
              on_tray tray_end_session tray)
          else
            (let tray1 = on_tray tray_mark_session_active tray in
             case (if \<not> video \<and> video_frames > 0 then
                     (case query_agent G session_id a1 of
                        (Inl e, a2) \<Rightarrow> (Inl (''agent query_stats: '' @ show_control_loop_error e), a2)
                      | (Inr (reply, _), a2) \<Rightarrow> (Inr (shows_video reply), a2))
                   else (Inr video, a1)) of
               (Inl e, a2) \<Rightarrow> Some (Some (Inl e), s2, a2, tray1)
             | (Inr False, a2) \<Rightarrow>
                 Some (Some (Inl ''agent connected but pumped no video''), s2, detach_agent G session_id ''agent_no_video'' a2, on_tray tray_end_session tray1)
             | (Inr True, a2) \<Rightarrow>
                 (case (if video_frames = 0 then drive_agent_live G (sr_media_ends R) session_id (sr_media_ticks R) s2 a2
                        else Some (Some (Inr ''host_media_complete''), s2, a2)) of
                    None \<Rightarrow> None
                  | Some (None, s3, a3) \<Rightarrow> Some (None, s3, a3, tray1)
                  | Some (Some (Inl e), s3, a3) \<Rightarrow> Some (Some (Inl e), s3, a3, tray1)
                  | Some (Some (Inr end_reason), s3, a3) \<Rightarrow>
                      Some (Some (Inr (''ws-host ok public_id='' @ public_id @ '' session='' @ session_id @ '' media=agent transport='' @
                          transport_mode_str mode @ '' video_tx>='' @ show_nat (unat (min video_frames 3)))),
                        end_wss_session (gh_json G) session_id end_reason s3, detach_agent G session_id end_reason a3,
                        on_tray tray_end_session tray1))))))"

definition handle_one_session_agent ::
  "('j, 'p, 'i) agent_host \<Rightarrow> session_readings \<Rightarrow> string \<Rightarrow> transport_mode \<Rightarrow> u32 \<Rightarrow> duration \<Rightarrow> signaling_client \<Rightarrow> service_client
     \<Rightarrow> tray_state option \<Rightarrow> ((string + string) option \<times> signaling_client \<times> service_client \<times> tray_state option) option" where
  "handle_one_session_agent G R public_id mode video_frames wait_incoming sig agent tray =
     (case accept_incoming_session (gh_json G) (sr_accept_clock R) wait_incoming sig of
        (Inl e, s) \<Rightarrow> Some (Some (Inl e), s, agent, tray)
      | (Inr (session_id, _), s) \<Rightarrow>
      (let tray1 = on_tray (tray_begin_session session_id None) tray in
       case start_session (gh_ipc G) (gh_debug G) session_id False agent of
        (Inl e, a) \<Rightarrow> Some (Some (Inl (''agent start_session: '' @ show_control_loop_error e)), s, a, tray1)
      | (Inr outbound, a) \<Rightarrow>
      (case agent_offer (gh_env G) outbound None [] of
        Inl e \<Rightarrow> Some (Some (Inl e), s, a, tray1)
      | Inr (None, _) \<Rightarrow> Some (Some (Inl ''agent did not emit session_offer''), s, a, tray1)
      | Inr (Some offer, ices) \<Rightarrow>
      (case take_seq s of (offer_seq, s0) \<Rightarrow>
       case client_send (gh_json G) (SessionOffer session_id offer_seq (sdp offer) (case fingerprint_sig offer of None \<Rightarrow> [] | Some f \<Rightarrow> f)) s0 of
        (Inl e, s1) \<Rightarrow> Some (Some (Inl (''send offer: '' @ show_signaling_error e)), s1, a, tray1)
      | (Inr _, s1) \<Rightarrow>
      (case agent_answer_loop G session_id (sr_answer_ticks R) [] s1 a of
        (Inl e, s2, a1) \<Rightarrow> Some (Some (Inl e), s2, a1, tray1)
      | (Inr (False, _, _), s2, a1) \<Rightarrow>
          Some (Some (Inl ''timeout waiting for session_answer''), s2, detach_agent G session_id ''answer_timeout'' a1, on_tray tray_end_session tray1)
      | (Inr (True, early, queued), s2, a1) \<Rightarrow>
          agent_media G R public_id mode video_frames session_id early (ices @ queued) s2 a1 tray1)))))"

end
