(* ===== verification/Ws_Loop.thy ===== *)
theory Ws_Loop
  imports Ws_Agent
begin

text \<open>
  The long-lived host service (\<open>run_ws_host_service\<close> of \<open>apps/host/src/ws_session.rs\<close>): one enrolment, then connections to the server, each serving
  sessions until the wanted number is done or the connection is given up, with a pause that doubles before every new connection.
  What is printed is left out. A panic is \<open>None\<close>, the pauses are recorded in \<open>sv_sleeps\<close>, and the loops have fuel: running out of it is a service that still
  runs (\<open>None\<close> as the outcome).
\<close>

section \<open>State and surroundings\<close>

record ('j, 'u, 'p, 'i, 's, 'm, 'w) host_app =
  ho_local :: "('j, 'p, 'i, 's, 'm) local_host"
  ho_agent :: "('j, 'p, 'i) agent_host"
  ho_http :: "('j, 'w) http_client"
  ho_files :: "'w file_system"
  ho_crypto :: crypto
  ho_url :: "'u url_api"
  ho_features :: net_features
  ho_debug :: "'j signal_message \<Rightarrow> string"
  ho_as_array :: "'j \<Rightarrow> 'j list option"
  ho_dial_agent :: "control_endpoint \<Rightarrow> transport_error + reader \<times> writer"

abbreviation ho_json :: "('j, 'u, 'p, 'i, 's, 'm, 'w) host_app \<Rightarrow> 'j json_api" where
  "ho_json A \<equiv> lh_json (ho_local A)"

text \<open>What the service reads from outside: its key pair, the sockets it gets, and for the \<open>j\<close>-th session of the \<open>k\<close>-th connection the readings of that session,
  whether the tray asks to exit after it, and the draws of the next code.\<close>

record host_readings =
  hr_public_key :: bytes
  hr_first_mint :: mint_draws
  hr_connect :: "string \<Rightarrow> nat \<Rightarrow> signaling_error + signaling_client"
  hr_session :: "nat \<Rightarrow> nat \<Rightarrow> session_readings"
  hr_exit :: "nat \<Rightarrow> nat \<Rightarrow> bool"
  hr_mint :: "nat \<Rightarrow> nat \<Rightarrow> mint_draws"

record 'w service =
  sv_hub :: host_auth
  sv_tray :: "tray_state option"
  sv_agent :: "service_client option"
  sv_completed :: u32
  sv_summary :: string
  sv_ice :: ice_env
  sv_sleeps :: "duration list"
  sv_world :: 'w

definition unlimited :: "ws_host_config \<Rightarrow> bool" where
  "unlimited cfg \<longleftrightarrow> wh_max_sessions cfg = 0"

definition sessions_done :: "ws_host_config \<Rightarrow> 'w service \<Rightarrow> bool" where
  "sessions_done cfg sv \<longleftrightarrow> \<not> unlimited cfg \<and> sv_completed sv \<ge> wh_max_sessions cfg"

text \<open>The condition under which a failed session does not end the service at once.\<close>

definition keeps_serving :: "ws_host_config \<Rightarrow> bool" where
  "keeps_serving cfg \<longleftrightarrow> wh_reconnect cfg \<or> unlimited cfg \<or> wh_max_sessions cfg > 1"

section \<open>One session of the service\<close>

text \<open>Without a tray nobody asks for the end of a session.\<close>

definition tray_readings :: "tray_state option \<Rightarrow> session_readings \<Rightarrow> session_readings" where
  "tray_readings tray R = (if tray = None then R\<lparr>sr_relay_ends := \<lambda>_. False, sr_media_ends := \<lambda>_. False\<rparr> else R)"

definition serve_one ::
  "('j, 'u, 'p, 'i, 's, 'm, 'w) host_app \<Rightarrow> ws_host_config \<Rightarrow> session_readings \<Rightarrow> string \<Rightarrow> transport_mode \<Rightarrow> signaling_client \<Rightarrow> 'w service
     \<Rightarrow> ((string + string) option \<times> signaling_client \<times> 'w service) option" where
  "serve_one A cfg R public_id mode sig sv =
     (case sv_agent sv of
        Some agent \<Rightarrow>
          map_option (\<lambda>(r, s, a, tray). (r, s, sv\<lparr>sv_agent := Some a, sv_tray := tray\<rparr>))
            (handle_one_session_agent (ho_agent A) (tray_readings (sv_tray sv) R) public_id mode (wh_video_frames cfg) (wh_wait_incoming cfg)
               sig agent (sv_tray sv))
      | None \<Rightarrow>
          map_option (\<lambda>(r, s, tray, hub). (r, s, sv\<lparr>sv_tray := tray, sv_hub := hub\<rparr>))
            (handle_one_session_local (ho_local A) (tray_readings (sv_tray sv) R) (sv_ice sv) public_id mode \<lparr>tc_mode = mode\<rparr>
               (wh_video_frames cfg) (wh_wait_incoming cfg) sig (sv_tray sv) (sv_hub sv)))"

text \<open>What a failed session does to the connection; \<open>exit\<close> is the tray's request to exit.\<close>

datatype error_course = KeepsConnection | LeavesConnection | BreaksConnection

definition after_error :: "ws_host_config \<Rightarrow> bool \<Rightarrow> string \<Rightarrow> error_course" where
  "after_error cfg exit e =
     (if contains ''ended from tray'' e then
        if exit then LeavesConnection
        else if keeps_serving cfg then KeepsConnection
        else LeavesConnection
      else if keeps_serving cfg then
        if contains ''connection closed'' e \<or> contains ''connect'' e \<or> contains ''ws '' e \<or> contains ''agent control'' e then BreaksConnection
        else if contains ''wait incoming'' e \<or> contains ''timeout'' e then
          if \<not> wh_reconnect cfg \<and> \<not> unlimited cfg \<and> wh_max_sessions cfg \<le> 1 then BreaksConnection else KeepsConnection
        else BreaksConnection
      else BreaksConnection)"

definition remint_after :: "ws_host_config \<Rightarrow> string + string \<Rightarrow> bool" where
  "remint_after cfg r \<longleftrightarrow> wh_video_frames cfg = 0 \<and> wh_mint_otp cfg \<and>
     (case r of Inr _ \<Rightarrow> True | Inl e \<Rightarrow> \<not> contains ''wait incoming'' e \<and> \<not> contains ''timeout waiting'' e)"

text \<open>The next code; a failure to mint is only printed.\<close>

definition remint ::
  "('j, 'u, 'p, 'i, 's, 'm, 'w) host_app \<Rightarrow> ws_host_config \<Rightarrow> enrolled_host \<Rightarrow> mint_draws \<Rightarrow> 'w service \<Rightarrow> 'w service" where
  "remint A cfg enrolled dr sv =
     (case maybe_mint_otp (ho_json A) (ho_http A) (ho_crypto A) cfg enrolled dr (sv_hub sv) (sv_world sv) of
        (Inr (Some otp), hub, w) \<Rightarrow>
          sv\<lparr>sv_hub := hub, sv_world := w, sv_tray := on_tray (tray_set_otp (mo_code otp) (mo_expires_at otp)) (sv_tray sv)\<rparr>
      | (_, hub, w) \<Rightarrow> sv\<lparr>sv_hub := hub, sv_world := w\<rparr>)"

definition finish_completed :: "string \<Rightarrow> 'w service \<Rightarrow> 'w service" where
  "finish_completed summary sv = sv\<lparr>sv_summary := summary, sv_completed := sat_add (sv_completed sv) 1\<rparr>"

section \<open>Serving a connection\<close>

fun serve ::
  "('j, 'u, 'p, 'i, 's, 'm, 'w) host_app \<Rightarrow> ws_host_config \<Rightarrow> host_readings \<Rightarrow> enrolled_host \<Rightarrow> transport_mode \<Rightarrow> nat \<Rightarrow> nat \<Rightarrow> nat
     \<Rightarrow> signaling_client \<Rightarrow> 'w service \<Rightarrow> ((string + unit) option \<times> signaling_client \<times> 'w service) option" where
  "serve A cfg H enrolled mode k 0 j sig sv = Some (None, sig, sv)"
| "serve A cfg H enrolled mode k (Suc n) j sig sv =
     (if sessions_done cfg sv then Some (Some (Inr ()), client_close sig, sv)
      else case serve_one A cfg (hr_session H k j) (eh_public_id enrolled) mode sig sv of
        None \<Rightarrow> None
      | Some (None, s, sv1) \<Rightarrow> Some (None, s, sv1)
      | Some (Some r, s, sv1) \<Rightarrow>
          (let exit = (sv_tray sv1 \<noteq> None \<and> hr_exit H k j) in
           case r of
             Inl e \<Rightarrow>
               (case after_error cfg exit e of
                  KeepsConnection \<Rightarrow> serve A cfg H enrolled mode k n (Suc j) s sv1
                | LeavesConnection \<Rightarrow> Some (Some (Inr ()), client_close s, sv1)
                | BreaksConnection \<Rightarrow> Some (Some (Inl e), client_close s, sv1))
           | Inr summary \<Rightarrow>
               (let sv2 = finish_completed summary sv1;
                    sv3 = (if remint_after cfg r then remint A cfg enrolled (hr_mint H k j) sv2 else sv2)
                in if exit then Some (Some (Inr ()), client_close s, sv3)
                   else serve A cfg H enrolled mode k n (Suc j) s sv3)))"

text \<open>One connection; the sessions of it have their own fuel.\<close>

definition connect_and_serve ::
  "('j, 'u, 'p, 'i, 's, 'm, 'w) host_app \<Rightarrow> ws_host_config \<Rightarrow> host_readings \<Rightarrow> enrolled_host \<Rightarrow> transport_mode \<Rightarrow> string \<Rightarrow> nat \<Rightarrow> nat \<Rightarrow> 'w service
     \<Rightarrow> ((string + unit) option \<times> 'w service) option" where
  "connect_and_serve A cfg H enrolled mode ws_url n k sv =
     (case hr_connect H ws_url k of
        Inl e \<Rightarrow> Some (Some (Inl (''ws connect: '' @ show_signaling_error e)), sv)
      | Inr sig \<Rightarrow>
      (case hello_host (ho_json A) (ho_debug A) (eh_access_token enrolled) sig of
        (Inl e, _) \<Rightarrow> Some (Some (Inl (''hello: '' @ show_signaling_error e)), sv)
      | (Inr hello, s) \<Rightarrow>
          map_option (\<lambda>(r, _, sv1). (r, sv1))
            (serve A cfg H enrolled mode k n 0 s
              (sv\<lparr>sv_ice := apply_ice_servers_from_hello (ho_json A) (ho_as_array A) hello (sv_ice sv)\<rparr>))))"

section \<open>The service\<close>

definition BACKOFF_CAP :: duration where "BACKOFF_CAP = 60 * 1000000000"

text \<open>A duration of \<open>2 ^ 64\<close> seconds does not exist: doubling into it panics.\<close>

definition next_backoff :: "duration \<Rightarrow> duration option" where
  "next_backoff backoff = (if 2 * backoff < 2 ^ 64 * 1000000000 then Some (min (2 * backoff) BACKOFF_CAP) else None)"

fun service_loop ::
  "('j, 'u, 'p, 'i, 's, 'm, 'w) host_app \<Rightarrow> ws_host_config \<Rightarrow> host_readings \<Rightarrow> enrolled_host \<Rightarrow> transport_mode \<Rightarrow> string \<Rightarrow> nat \<Rightarrow> nat \<Rightarrow> nat \<Rightarrow> duration
     \<Rightarrow> 'w service \<Rightarrow> ((string + unit) option \<times> 'w service) option" where
  "service_loop A cfg H enrolled mode ws_url rounds 0 k backoff sv = Some (None, sv)"
| "service_loop A cfg H enrolled mode ws_url rounds (Suc n) k backoff sv =
     (if sessions_done cfg sv then Some (Some (Inr ()), sv)
      else case connect_and_serve A cfg H enrolled mode ws_url rounds k sv of
        None \<Rightarrow> None
      | Some (None, sv1) \<Rightarrow> Some (None, sv1)
      | Some (Some (Inr _), sv1) \<Rightarrow> Some (Some (Inr ()), sv1)
      | Some (Some (Inl e), sv1) \<Rightarrow>
          if \<not> wh_reconnect cfg then Some (Some (Inl e), sv1)
          else (case next_backoff backoff of
              None \<Rightarrow> None
            | Some backoff1 \<Rightarrow>
                service_loop A cfg H enrolled mode ws_url rounds n (Suc k) backoff1 (sv1\<lparr>sv_sleeps := sv_sleeps sv1 @ [backoff]\<rparr>)))"

definition exit_text :: "string \<Rightarrow> 'w service \<Rightarrow> string" where
  "exit_text public_id sv =
     (if sv_summary sv = [] then ''ws-host service exit public_id='' @ public_id @ '' sessions='' @ show_nat (unat (sv_completed sv))
      else sv_summary sv @ ''; service sessions_completed='' @ show_nat (unat (sv_completed sv)))"

definition connect_with_secret ::
  "(control_endpoint \<Rightarrow> transport_error + reader \<times> writer) \<Rightarrow> control_endpoint \<Rightarrow> string option \<Rightarrow> control_loop_error + service_client" where
  "connect_with_secret dial endpoint boot_secret =
     (case dial endpoint of
        Inl e \<Rightarrow> Inl (ClTransport e)
      | Inr (r, w) \<Rightarrow> Inr \<lparr>sc_reader = r, sc_writer = w, sc_boot_secret = boot_secret\<rparr>)"

text \<open>What stands before the loop, after the enrolment: the tray, the hub with its first code, and the agent.\<close>

definition start_service ::
  "('j, 'u, 'p, 'i, 's, 'm, 'w) host_app \<Rightarrow> ws_host_config \<Rightarrow> host_readings \<Rightarrow> enrolled_host \<Rightarrow> ice_env \<Rightarrow> 'w \<Rightarrow> (string + 'w service) \<times> 'w" where
  "start_service A cfg H enrolled ice w =
     (let tray = (if wh_tray cfg then Some (tray_set_identity (eh_public_id enrolled) (Some (wh_display_name cfg)) (new_tray (wh_display_name cfg))) else None) in
      case (case wh_unattended_secret cfg of None \<Rightarrow> (Inr (), new_live_hub) | Some secret \<Rightarrow> hub_enable_unattended secret new_live_hub) of
        (Inl e, _) \<Rightarrow> (Inl e, w)
      | (Inr _, hub) \<Rightarrow>
      (case maybe_mint_otp (ho_json A) (ho_http A) (ho_crypto A) cfg enrolled (hr_first_mint H) hub w of
        (Inl e, _, w1) \<Rightarrow> (Inl e, w1)
      | (Inr otp, hub1, w1) \<Rightarrow>
          (let tray1 = (case otp of None \<Rightarrow> tray | Some m \<Rightarrow> on_tray (tray_set_otp (mo_code m) (mo_expires_at m)) tray);
               ready = (\<lambda>agent. \<lparr>sv_hub = hub1, sv_tray = tray1, sv_agent = agent, sv_completed = 0, sv_summary = [], sv_ice = ice, sv_sleeps = [], sv_world = w1\<rparr>)
           in case wh_agent_control cfg of
                None \<Rightarrow> (Inr (ready None), w1)
              | Some ep \<Rightarrow>
                  (case connect_with_secret (ho_dial_agent A) ep (wh_boot_secret cfg) of
                     Inl e \<Rightarrow> (Inl (''agent control connect: '' @ show_control_loop_error e), w1)
                   | Inr c \<Rightarrow> (Inr (ready (Some c)), w1)))))"

text \<open>The outcome is \<open>None\<close> while the service runs; \<open>connections\<close> and \<open>rounds\<close> bound the connections and the sessions of one.\<close>

definition run_ws_host_service ::
  "('j, 'u, 'p, 'i, 's, 'm, 'w) host_app \<Rightarrow> host_readings \<Rightarrow> nat \<Rightarrow> nat \<Rightarrow> ice_env \<Rightarrow> ws_host_config \<Rightarrow> 'w
     \<Rightarrow> ((string + string) option \<times> 'w) option" where
  "run_ws_host_service A H connections rounds ice cfg w =
     (let mode = coerce_transport (ho_features A) (wh_transport cfg) in
      case enroll_or_reuse (ho_json A) (ho_http A) (ho_files A) (hr_public_key H) cfg w of
        (Inl e, w1) \<Rightarrow> Some (Some (Inl e), w1)
      | (Inr enrolled, w1) \<Rightarrow>
      (case http_to_ws_url (ho_url A) (wh_server cfg) of
        Inl e \<Rightarrow> Some (Some (Inl (''ws url: '' @ show_register_error e)), w1)
      | Inr ws_url \<Rightarrow>
      (case start_service A cfg H enrolled ice w1 of
        (Inl e, w2) \<Rightarrow> Some (Some (Inl e), w2)
      | (Inr sv, _) \<Rightarrow>
          map_option (\<lambda>(r, sv1). (map_option (\<lambda>x. case x of Inl e \<Rightarrow> Inl e | Inr _ \<Rightarrow> Inr (exit_text (eh_public_id enrolled) sv1)) r, sv_world sv1))
            (service_loop A cfg H enrolled mode ws_url rounds connections 0 (wh_reconnect_backoff cfg) sv))))"

definition run_ws_host ::
  "('j, 'u, 'p, 'i, 's, 'm, 'w) host_app \<Rightarrow> host_readings \<Rightarrow> nat \<Rightarrow> nat \<Rightarrow> ice_env \<Rightarrow> ws_host_config \<Rightarrow> 'w
     \<Rightarrow> ((string + string) option \<times> 'w) option" where
  "run_ws_host A H connections rounds ice cfg w =
     run_ws_host_service A H connections rounds ice (cfg\<lparr>wh_max_sessions := 1, wh_reconnect := False\<rparr>) w"

text \<open>The entry of the host program, once its runtime is built.\<close>

definition run_ws_host_blocking ::
  "('j, 'u, 'p, 'i, 's, 'm, 'w) host_app \<Rightarrow> host_readings \<Rightarrow> nat \<Rightarrow> nat \<Rightarrow> ice_env \<Rightarrow> ws_host_config \<Rightarrow> 'w
     \<Rightarrow> ((string + string) option \<times> 'w) option" where
  "run_ws_host_blocking A H connections rounds ice cfg w =
     (if wh_reconnect cfg \<or> wh_max_sessions cfg \<noteq> 1 then run_ws_host_service A H connections rounds ice cfg w
      else run_ws_host A H connections rounds ice cfg w)"

end
