(* ===== verification/Blocklist.thy ===== *)
theory Blocklist
  imports Otp_Auth
begin

text \<open>
  The per-host blocklist of the server (\<open>apps/server/src/security/blocklist.rs\<close>): entries under
  their ids, an index by host, kind and hashed subject, and the check made before a
  session is offered. The mutex makes each operation atomic; no operation panics under it, so it is
  never poisoned and \<open>BlInternal\<close> does not occur here.
\<close>

section \<open>State and operations\<close>

datatype block_subject_type = SubjectIp | SubjectViewerFingerprint | SubjectDevice

fun subject_as_str :: "block_subject_type \<Rightarrow> string" where
  "subject_as_str SubjectIp = ''ip''"
| "subject_as_str SubjectViewerFingerprint = ''viewer_fingerprint''"
| "subject_as_str SubjectDevice = ''device''"

definition subject_parse :: "string \<Rightarrow> block_subject_type option" where
  "subject_parse s =
     (if s = ''ip'' then Some SubjectIp
      else if s = ''viewer_fingerprint'' then Some SubjectViewerFingerprint
      else if s = ''device'' then Some SubjectDevice
      else None)"

record blocklist_entry =
  bl_id :: int
  bl_host_device_id :: int
  bl_subject_type :: block_subject_type
  bl_subject_hash :: string
  bl_created_at :: datetime

record new_blocklist_entry =
  nb_host_device_id :: int
  nb_subject_type :: block_subject_type
  nb_subject_hash :: string

datatype blocklist_error = BlNotFound | BlConflict string | BlInternal string

definition hash_subject :: "crypto \<Rightarrow> string \<Rightarrow> string" where
  "hash_subject K subject = hex_encode K (sha256 K (utf8_bytes (trim subject)))"

type_synonym block_key = "int \<times> block_subject_type \<times> string"

record blocklist =
  bl_entries :: "(int, blocklist_entry) hashmap"
  bl_index :: "(block_key, int) hashmap"
  bl_next_id :: int

definition new_blocklist :: blocklist where
  "new_blocklist = \<lparr>bl_entries = [], bl_index = [], bl_next_id = 0\<rparr>"

definition blocklist_add ::
  "new_blocklist_entry \<Rightarrow> datetime \<Rightarrow> blocklist \<Rightarrow> (blocklist_error + blocklist_entry) \<times> blocklist" where
  "blocklist_add new now g =
     (let key = (nb_host_device_id new, nb_subject_type new, nb_subject_hash new) in
      if hget (bl_index g) key \<noteq> None then (Inl (BlConflict ''subject already blocked for host''), g)
      else
        let id = bl_next_id g + 1;
            row = \<lparr>bl_id = id, bl_host_device_id = nb_host_device_id new,
              bl_subject_type = nb_subject_type new, bl_subject_hash = nb_subject_hash new,
              bl_created_at = now\<rparr>
        in (Inr row, g\<lparr>bl_index := hput key id (bl_index g), bl_entries := hput id row (bl_entries g),
              bl_next_id := id\<rparr>))"

text \<open>
  The list is sorted by falling creation time, and by falling id among equal times: the reverse
  of a stable sort by id and then by time.
\<close>

definition list_for_host :: "int \<Rightarrow> blocklist \<Rightarrow> blocklist_entry list" where
  "list_for_host host g =
     rev (sort_key bl_created_at (sort_key bl_id
       (filter (\<lambda>e. bl_host_device_id e = host) (map snd (bl_entries g)))))"

definition is_blocked :: "int \<Rightarrow> block_subject_type \<Rightarrow> string \<Rightarrow> blocklist \<Rightarrow> bool" where
  "is_blocked host ty h g \<longleftrightarrow> hget (bl_index g) (host, ty, h) \<noteq> None"

definition blocklist_remove ::
  "int \<Rightarrow> int \<Rightarrow> blocklist \<Rightarrow> (blocklist_error + unit) \<times> blocklist" where
  "blocklist_remove host entry_id g =
     (case hget (bl_entries g) entry_id of
        None \<Rightarrow> (Inl BlNotFound, g)
      | Some e \<Rightarrow>
          if bl_host_device_id e \<noteq> host then (Inl BlNotFound, g)
          else (Inr (), g\<lparr>bl_entries := hdel entry_id (bl_entries g),
            bl_index := hdel (bl_host_device_id e, bl_subject_type e, bl_subject_hash e) (bl_index g)\<rparr>))"

fun any_blocked :: "int \<Rightarrow> (block_subject_type \<times> string) list \<Rightarrow> blocklist \<Rightarrow> (block_subject_type \<times> string) option" where
  "any_blocked host [] g = None"
| "any_blocked host ((ty, h) # subjects) g =
     (if is_blocked host ty h g then Some (ty, h) else any_blocked host subjects g)"

section \<open>The index follows the entries\<close>

definition entry_key :: "blocklist_entry \<Rightarrow> block_key" where
  "entry_key e = (bl_host_device_id e, bl_subject_type e, bl_subject_hash e)"

definition block_inv :: "blocklist \<Rightarrow> bool" where
  "block_inv g \<longleftrightarrow> hwf (bl_entries g) \<and>
     (\<forall>k i. hget (bl_index g) k = Some i \<longleftrightarrow> (\<exists>e. hget (bl_entries g) i = Some e \<and> entry_key e = k)) \<and>
     (\<forall>i e. hget (bl_entries g) i = Some e \<longrightarrow> bl_id e = i \<and> i \<le> bl_next_id g)"

lemma block_invD:
  assumes "block_inv g"
  shows "hwf (bl_entries g)"
    and "hget (bl_index g) k = Some i \<longleftrightarrow> (\<exists>e. hget (bl_entries g) i = Some e \<and> entry_key e = k)"
    and "hget (bl_entries g) i = Some e \<Longrightarrow> bl_id e = i"
    and "hget (bl_entries g) i = Some e \<Longrightarrow> i \<le> bl_next_id g"
  using assms unfolding block_inv_def by blast+

lemma block_inv_new: "block_inv new_blocklist"
  by (simp add: block_inv_def new_blocklist_def)

lemma any_blocked_None: "any_blocked host subjects g = None \<longleftrightarrow> (\<forall>(ty, h) \<in> set subjects. \<not> is_blocked host ty h g)"
  by (induction subjects) (auto split: if_splits)

lemma any_blocked_Some: "any_blocked host subjects g = Some (ty, h) \<Longrightarrow> (ty, h) \<in> set subjects \<and> is_blocked host ty h g"
  by (induction subjects) (auto split: if_splits)

lemma block_inv_add:
  assumes inv: "block_inv g"
  shows "block_inv (snd (blocklist_add new now g))"
proof -
  let ?k = "(nb_host_device_id new, nb_subject_type new, nb_subject_hash new)" and ?n = "bl_next_id g + 1"
  let ?row = "\<lparr>bl_id = ?n, bl_host_device_id = nb_host_device_id new, bl_subject_type = nb_subject_type new,
    bl_subject_hash = nb_subject_hash new, bl_created_at = now\<rparr>"
  show ?thesis
  proof (cases "hget (bl_index g) ?k")
    case None
    have fresh: "hget (bl_entries g) ?n = None"
    proof (rule ccontr)
      assume "hget (bl_entries g) ?n \<noteq> None"
      then obtain e where "hget (bl_entries g) ?n = Some e" by blast
      from block_invD(4) [OF inv this] show False by simp
    qed
    have unused: "entry_key e \<noteq> ?k" if "hget (bl_entries g) i = Some e" for i e
      using that None block_invD(2) [OF inv, of ?k i] by auto
    have "hget (hput ?k ?n (bl_index g)) k = Some i \<longleftrightarrow>
        (\<exists>e. hget (hput ?n ?row (bl_entries g)) i = Some e \<and> entry_key e = k)" for k i
      using fresh unused [of i] block_invD(2) [OF inv, of k i]
      by (cases "k = ?k"; cases "i = ?n") (auto simp: entry_key_def)
    moreover have "bl_id e = i \<and> i \<le> ?n" if "hget (hput ?n ?row (bl_entries g)) i = Some e" for i e
      using that block_invD(3,4) [OF inv, of i e] by (auto split: if_splits)
    ultimately show ?thesis using None block_invD(1) [OF inv]
      by (simp add: block_inv_def blocklist_add_def Let_def del: update_conv')
  qed (simp add: blocklist_add_def inv)
qed

lemma block_inv_remove:
  assumes inv: "block_inv g"
  shows "block_inv (snd (blocklist_remove host i g))"
proof (cases "hget (bl_entries g) i")
  case (Some e)
  have "hget (hdel (entry_key e) (bl_index g)) k = Some j \<longleftrightarrow>
      (\<exists>e'. hget (hdel i (bl_entries g)) j = Some e' \<and> entry_key e' = k)" for k j
  proof (cases "k = entry_key e")
    case True
    have "j = i" if "hget (bl_entries g) j = Some e'" "entry_key e' = entry_key e" for e'
      using that Some block_invD(2) [OF inv, of "entry_key e" j] block_invD(2) [OF inv, of "entry_key e" i] by auto
    with True show ?thesis by auto
  next
    case False
    with Some block_invD(2) [OF inv, of k j] show ?thesis by (cases "j = i") auto
  qed
  moreover have "bl_id e' = j \<and> j \<le> bl_next_id g" if "hget (hdel i (bl_entries g)) j = Some e'" for j e'
    using that block_invD(3,4) [OF inv, of j e'] by (auto split: if_splits)
  ultimately have "block_inv (g\<lparr>bl_entries := hdel i (bl_entries g), bl_index := hdel (entry_key e) (bl_index g)\<rparr>)"
    using block_invD(1) [OF inv] by (simp add: block_inv_def del: delete_conv')
  then show ?thesis by (auto simp: blocklist_remove_def entry_key_def Some inv)
qed (simp add: blocklist_remove_def inv)

inductive block_step :: "blocklist \<Rightarrow> blocklist \<Rightarrow> bool" where
  add: "block_step g (snd (blocklist_add new now g))"
| remove: "block_step g (snd (blocklist_remove host i g))"

definition block_reachable :: "blocklist \<Rightarrow> bool" where
  "block_reachable g \<longleftrightarrow> block_step\<^sup>*\<^sup>* new_blocklist g"

lemma block_reachable_inv: "block_reachable g \<Longrightarrow> block_inv g"
  unfolding block_reachable_def
  by (induction rule: rtranclp_induct) (auto simp: block_inv_new block_inv_add block_inv_remove elim: block_step.cases)

section \<open>What a host's list says\<close>

lemma is_blocked_iff:
  assumes "block_inv g"
  shows "is_blocked host ty h g \<longleftrightarrow>
    (\<exists>e \<in> set (list_for_host host g). bl_subject_type e = ty \<and> bl_subject_hash e = h)"
proof -
  have "(\<exists>i. hget (bl_index g) (host, ty, h) = Some i) \<longleftrightarrow>
      (\<exists>i e. (i, e) \<in> set (bl_entries g) \<and> entry_key e = (host, ty, h))"
    by (simp add: block_invD(2) [OF assms] hget_iff_mem [OF block_invD(1) [OF assms]])
  then show ?thesis by (force simp: is_blocked_def list_for_host_def entry_key_def)
qed

text \<open>
  The blocklist does what its owner sees. In a reachable store a subject is blocked for a host
  exactly when the host's list shows it; adding blocks that subject for that host and nobody else;
  removing an entry of the host unblocks exactly its subject; and another host's entry cannot be removed.
\<close>

theorem blocklist_follows_list:
  assumes "block_reachable g"
  shows "(is_blocked host ty h g \<longleftrightarrow>
      (\<exists>e \<in> set (list_for_host host g). bl_subject_type e = ty \<and> bl_subject_hash e = h)) \<and>
    (fst (blocklist_add new now g) = Inr row \<longrightarrow>
      (is_blocked host ty h (snd (blocklist_add new now g)) \<longleftrightarrow>
        is_blocked host ty h g \<or> (host, ty, h) = entry_key row)) \<and>
    (fst (blocklist_remove owner i g) = Inr () \<longrightarrow>
      (\<exists>e \<in> set (list_for_host owner g). bl_id e = i \<and>
        (is_blocked host ty h (snd (blocklist_remove owner i g)) \<longleftrightarrow>
          is_blocked host ty h g \<and> (host, ty, h) \<noteq> entry_key e))) \<and>
    (\<forall>e. fst (blocklist_remove owner i g) = Inl e \<longrightarrow> snd (blocklist_remove owner i g) = g)"
proof -
  have inv: "block_inv g" by (rule block_reachable_inv [OF assms])
  have rem: "\<exists>e \<in> set (list_for_host owner g). bl_id e = i \<and>
        (is_blocked host ty h (snd (blocklist_remove owner i g)) \<longleftrightarrow>
          is_blocked host ty h g \<and> (host, ty, h) \<noteq> entry_key e)"
    if "fst (blocklist_remove owner i g) = Inr ()"
  proof -
    from that obtain e where e: "hget (bl_entries g) i = Some e" "bl_host_device_id e = owner"
      by (auto simp: blocklist_remove_def split: option.splits if_splits)
    then have "e \<in> set (list_for_host owner g)"
      using hget_iff_mem [OF block_invD(1) [OF inv]] by (force simp: list_for_host_def)
    moreover have "bl_id e = i" by (rule block_invD(3) [OF inv e(1)])
    ultimately show ?thesis using e
      by (intro bexI [of _ e]) (auto simp: blocklist_remove_def is_blocked_def entry_key_def)
  qed
  show ?thesis
    using is_blocked_iff [OF inv] rem
    by (auto simp: blocklist_add_def blocklist_remove_def is_blocked_def entry_key_def Let_def split: option.splits if_splits)
qed

end
