(* ===== verification/Audit_Log.thy ===== *)
theory Audit_Log
  imports RL_Prelude
begin

text \<open>
  The in-memory audit log of the server (\<open>apps/server/src/security/audit.rs\<close>). The meta data of an
  event is a value of the JSON library's type \<open>'j\<close>. \<open>audit_best_effort\<close> ignores a failed append; the
  in-memory append fails only on a poisoned mutex, which does not occur.
\<close>

datatype audit_event_type =
    EvRegister | EvLoginFail | EvLoginSuccess | EvSessionIntent | EvSessionAccept | EvSessionReject
  | EvSessionEnd | EvDelete | EvBlocklistAdd | EvBlocklistRemove | EvOtpMint | EvOtpPrefilter

fun event_as_str :: "audit_event_type \<Rightarrow> string" where
  "event_as_str EvRegister = ''register''"
| "event_as_str EvLoginFail = ''login_fail''"
| "event_as_str EvLoginSuccess = ''login_success''"
| "event_as_str EvSessionIntent = ''session_intent''"
| "event_as_str EvSessionAccept = ''session_accept''"
| "event_as_str EvSessionReject = ''session_reject''"
| "event_as_str EvSessionEnd = ''session_end''"
| "event_as_str EvDelete = ''delete''"
| "event_as_str EvBlocklistAdd = ''blocklist_add''"
| "event_as_str EvBlocklistRemove = ''blocklist_remove''"
| "event_as_str EvOtpMint = ''otp_mint''"
| "event_as_str EvOtpPrefilter = ''otp_prefilter''"

definition event_parse :: "string \<Rightarrow> audit_event_type option" where
  "event_parse s =
     (if s = ''register'' then Some EvRegister
      else if s = ''login_fail'' then Some EvLoginFail
      else if s = ''login_success'' then Some EvLoginSuccess
      else if s = ''session_intent'' then Some EvSessionIntent
      else if s = ''session_accept'' then Some EvSessionAccept
      else if s = ''session_reject'' then Some EvSessionReject
      else if s = ''session_end'' then Some EvSessionEnd
      else if s = ''delete'' then Some EvDelete
      else if s = ''blocklist_add'' then Some EvBlocklistAdd
      else if s = ''blocklist_remove'' then Some EvBlocklistRemove
      else if s = ''otp_mint'' then Some EvOtpMint
      else if s = ''otp_prefilter'' then Some EvOtpPrefilter
      else None)"

lemma event_parse_as_str: "event_parse s = Some t \<longleftrightarrow> s = event_as_str t"
  by (cases t) (auto simp: event_parse_def)

record 'j audit_event =
  ev_id :: int
  ev_device_id :: "int option"
  ev_session_id :: "string option"
  ev_type :: audit_event_type
  ev_meta :: 'j
  ev_created_at :: datetime

record 'j new_audit_event =
  ne_device_id :: "int option"
  ne_session_id :: "string option"
  ne_type :: audit_event_type
  ne_meta :: 'j

record 'j audit_store =
  au_next_id :: int
  au_events :: "'j audit_event list"
  au_by_device :: "(int, int list) hashmap"

definition new_audit_store :: "'j audit_store" where
  "new_audit_store = \<lparr>au_next_id = 0, au_events = [], au_by_device = []\<rparr>"

definition audit_append :: "'j new_audit_event \<Rightarrow> datetime \<Rightarrow> 'j audit_store \<Rightarrow> 'j audit_event \<times> 'j audit_store" where
  "audit_append event now g =
     (let id = au_next_id g + 1;
          row = \<lparr>ev_id = id, ev_device_id = ne_device_id event, ev_session_id = ne_session_id event,
            ev_type = ne_type event, ev_meta = ne_meta event, ev_created_at = now\<rparr>;
          g1 = g\<lparr>au_next_id := id, au_events := au_events g @ [row]\<rparr>
      in (row, case ev_device_id row of
            None \<Rightarrow> g1
          | Some d \<Rightarrow> g1\<lparr>au_by_device := hput d
              ((case hget (au_by_device g1) d of None \<Rightarrow> [] | Some ids \<Rightarrow> ids) @ [id]) (au_by_device g1)\<rparr>))"

definition audit_best_effort :: "'j new_audit_event \<Rightarrow> datetime \<Rightarrow> 'j audit_store \<Rightarrow> 'j audit_store" where
  "audit_best_effort event now g = snd (audit_append event now g)"

text \<open>Newest first: the reverse of a stable sort by id and then by time; then at most 500 rows.\<close>

definition audit_list_for_device :: "int \<Rightarrow> nat \<Rightarrow> 'j audit_store \<Rightarrow> 'j audit_event list" where
  "audit_list_for_device device_id limit g =
     take (min (max limit 1) 500)
       (rev (sort_key ev_created_at (sort_key ev_id
         (filter (\<lambda>e. ev_device_id e = Some device_id) (au_events g)))))"

lemma audit_append_events:
  "au_events (snd (audit_append event now g)) = au_events g @ [fst (audit_append event now g)]"
  by (simp add: audit_append_def Let_def split: option.split)

lemma sorted_wrt_take: "sorted_wrt R xs \<Longrightarrow> sorted_wrt R (take n xs)"
  by (metis append_take_drop_id sorted_wrt_append)

text \<open>
  What a device's owner is shown: only events of that device, newest first, at most 500 of them, and
  none is left out that is newer than one that is shown.
\<close>

theorem audit_list_newest:
  "(\<forall>e \<in> set (audit_list_for_device d limit g). e \<in> set (au_events g) \<and> ev_device_id e = Some d) \<and>
   sorted_wrt (\<lambda>a b. ev_created_at b \<le> ev_created_at a) (audit_list_for_device d limit g) \<and>
   length (audit_list_for_device d limit g) \<le> 500 \<and>
   (\<forall>e \<in> set (au_events g). ev_device_id e = Some d \<longrightarrow> e \<notin> set (audit_list_for_device d limit g) \<longrightarrow>
      (\<forall>e' \<in> set (audit_list_for_device d limit g). ev_created_at e \<le> ev_created_at e'))"
proof -
  define all where "all = rev (sort_key ev_created_at (sort_key ev_id
    (filter (\<lambda>e. ev_device_id e = Some d) (au_events g))))"
  define n where "n = min (max limit 1) 500"
  have l: "audit_list_for_device d limit g = take n all" by (simp add: audit_list_for_device_def all_def n_def)
  have set: "set all = {e \<in> set (au_events g). ev_device_id e = Some d}" by (auto simp: all_def)
  have "sorted (map ev_created_at (sort_key ev_created_at (sort_key ev_id
      (filter (\<lambda>e. ev_device_id e = Some d) (au_events g)))))" by (rule sorted_sort_key)
  then have sorted: "sorted_wrt (\<lambda>a b. ev_created_at b \<le> ev_created_at a) all"
    by (simp add: all_def sorted_wrt_rev sorted_map)
  have "ev_created_at e \<le> ev_created_at e'" if "e \<in> set all" "e \<notin> set (take n all)" "e' \<in> set (take n all)" for e e'
  proof -
    have "sorted_wrt (\<lambda>a b. ev_created_at b \<le> ev_created_at a) (take n all @ drop n all)" using sorted by simp
    moreover have "e \<in> set (drop n all)" using that by (metis append_take_drop_id set_append UnE)
    ultimately show ?thesis using that(3) unfolding sorted_wrt_append by blast
  qed
  with set sorted show ?thesis unfolding l
    by (auto simp: n_def dest: in_set_takeD intro: sorted_wrt_take)
qed

end
