(* ===== verification/Rate_Limit.thy ===== *)
theory Rate_Limit
  imports Double
begin

text \<open>
  The server's token buckets (\<open>apps/server/src/security/rate_limit.rs\<close>). Tokens are \<open>f64\<close>: a finite
  \<open>f64\<close> is the rational number it stands for, and every operation rounds its exact result to the
  nearest representable number, ties to even (\<open>rnd64\<close>). All values here are far below the
  largest \<open>f64\<close> (capacities fit a \<open>u32\<close> and elapsed times are durations), so nothing overflows to an
  infinity, and no operand is a NaN.
\<close>

section \<open>State and operations\<close>

record rate_limit_config =
  rl_capacity :: double
  refill_per_sec :: double

definition per_window :: "u32 \<Rightarrow> duration \<Rightarrow> rate_limit_config" where
  "per_window max_events window =
     (let s = max (as_secs_f64 window) milli; capacity = of_nat (unat max_events)
      in \<lparr>rl_capacity = capacity, refill_per_sec = rnd64 (capacity / s)\<rparr>)"

definition default_register_config :: rate_limit_config where
  "default_register_config = per_window 30 (secs 60)"

definition default_refresh_config :: rate_limit_config where
  "default_refresh_config = per_window 60 (secs 60)"

definition default_session_intent_config :: rate_limit_config where
  "default_session_intent_config = per_window 20 (secs 60)"

definition default_admin_config :: rate_limit_config where
  "default_admin_config = per_window 20 (secs 60)"

record rate_limit_exceeded =
  rl_retry_after :: duration

definition show_rate_limit_exceeded :: "rate_limit_exceeded \<Rightarrow> string" where
  "show_rate_limit_exceeded e =
     ''rate limit exceeded; retry after '' @ show_nat (max (as_secs (rl_retry_after e)) 1) @ ''s''"

record bucket =
  tokens :: double
  last_refill :: instant

record rate_limiter =
  rl_config :: rate_limit_config
  rl_buckets :: "(string, bucket) hashmap"

definition new_rate_limiter :: "rate_limit_config \<Rightarrow> rate_limiter" where
  "new_rate_limiter cfg = \<lparr>rl_config = cfg, rl_buckets = []\<rparr>"

definition refill :: "rate_limit_config \<Rightarrow> instant \<Rightarrow> bucket \<Rightarrow> bucket" where
  "refill cfg now b =
     (let elapsed = as_secs_f64 (now - last_refill b) in
      if elapsed > 0 then
        b\<lparr>tokens := min (rnd64 (tokens b + rnd64 (elapsed * refill_per_sec cfg))) (rl_capacity cfg),
          last_refill := now\<rparr>
      else b)"

definition rate_check ::
  "string \<Rightarrow> instant \<Rightarrow> rate_limiter \<Rightarrow> (rate_limit_exceeded + unit) \<times> rate_limiter" where
  "rate_check key now r =
     (let cfg = rl_config r;
          b0 = (case hget (rl_buckets r) key of
                  None \<Rightarrow> \<lparr>tokens = rl_capacity cfg, last_refill = now\<rparr> | Some b \<Rightarrow> b);
          b = refill cfg now b0;
          put = (\<lambda>b. r\<lparr>rl_buckets := hput key b (rl_buckets r)\<rparr>)
      in if tokens b \<ge> 1 then (Inr (), put (b\<lparr>tokens := rnd64 (tokens b - 1)\<rparr>))
         else
           let need = rnd64 (1 - tokens b);
               s = (if refill_per_sec cfg > 0 then rnd64 (need / refill_per_sec cfg) else 60)
           in (Inl \<lparr>rl_retry_after = from_secs_f64 (max s milli)\<rparr>, put b))"

definition rate_tokens :: "string \<Rightarrow> instant \<Rightarrow> rate_limiter \<Rightarrow> double \<times> rate_limiter" where
  "rate_tokens key now r =
     (case hget (rl_buckets r) key of
        None \<Rightarrow> (rl_capacity (rl_config r), r)
      | Some b0 \<Rightarrow> let b = refill (rl_config r) now b0
                  in (tokens b, r\<lparr>rl_buckets := hput key b (rl_buckets r)\<rparr>))"

definition rate_clear :: "rate_limiter \<Rightarrow> rate_limiter" where
  "rate_clear r = r\<lparr>rl_buckets := []\<rparr>"

record rate_limiters =
  lim_register :: rate_limiter
  lim_refresh :: rate_limiter
  lim_session_intent :: rate_limiter
  lim_admin :: rate_limiter

definition with_configs :: "rate_limit_config \<Rightarrow> rate_limit_config \<Rightarrow> rate_limit_config \<Rightarrow> rate_limiters" where
  "with_configs register refresh session_intent =
     \<lparr>lim_register = new_rate_limiter register, lim_refresh = new_rate_limiter refresh,
      lim_session_intent = new_rate_limiter session_intent,
      lim_admin = new_rate_limiter default_admin_config\<rparr>"

definition new_rate_limiters :: rate_limiters where
  "new_rate_limiters = with_configs default_register_config default_refresh_config default_session_intent_config"

definition with_admin :: "rate_limit_config \<Rightarrow> rate_limiters \<Rightarrow> rate_limiters" where
  "with_admin admin l = l\<lparr>lim_admin := new_rate_limiter admin\<rparr>"



section \<open>Buckets\<close>

text \<open>A bucket is settled at an instant when a check then would not refill it.\<close>

definition settled :: "instant \<Rightarrow> bucket \<Rightarrow> bool" where
  "settled now b \<longleftrightarrow> as_secs_f64 (now - last_refill b) \<le> 0"

lemma refill_settled [simp]: "settled now b \<Longrightarrow> refill cfg now b = b"
  by (simp add: refill_def settled_def Let_def)

lemma settled_refill: "settled now (refill cfg now b)"
  by (simp add: refill_def settled_def Let_def not_less)

lemma settled_tokens [simp]: "settled now (b\<lparr>tokens := t\<rparr>) = settled now b"
  by (simp add: settled_def)

definition rate_inv :: "rate_limiter \<Rightarrow> bool" where
  "rate_inv r \<longleftrightarrow> (\<forall>key b. hget (rl_buckets r) key = Some b \<longrightarrow> tokens b \<le> rl_capacity (rl_config r))"

definition rate_ready :: "string \<Rightarrow> instant \<Rightarrow> rate_limiter \<Rightarrow> bucket" where
  "rate_ready key now r = refill (rl_config r) now
     (case hget (rl_buckets r) key of None \<Rightarrow> \<lparr>tokens = rl_capacity (rl_config r), last_refill = now\<rparr> | Some b \<Rightarrow> b)"

lemma refill_le: "tokens b \<le> rl_capacity cfg \<Longrightarrow> tokens (refill cfg now b) \<le> rl_capacity cfg"
  by (simp add: refill_def Let_def)

lemma ready_le: "rate_inv r \<Longrightarrow> tokens (rate_ready key now r) \<le> rl_capacity (rl_config r)"
  by (auto simp: rate_ready_def rate_inv_def intro!: refill_le split: option.split)

lemma rate_check_bucket:
  "fst (rate_check key now r) = Inr () \<longleftrightarrow> 1 \<le> tokens (rate_ready key now r)"
  "rl_config (snd (rate_check key now r)) = rl_config r"
  "rl_buckets (snd (rate_check key now r)) = hput key
     (if 1 \<le> tokens (rate_ready key now r)
      then (rate_ready key now r)\<lparr>tokens := rnd64 (tokens (rate_ready key now r) - 1)\<rparr>
      else rate_ready key now r) (rl_buckets r)"
  by (simp_all add: rate_check_def rate_ready_def Let_def)

text \<open>A run of checks of one key at one instant: how many are admitted.\<close>

fun burst :: "string \<Rightarrow> instant \<Rightarrow> nat \<Rightarrow> rate_limiter \<Rightarrow> nat \<times> rate_limiter" where
  "burst key now 0 r = (0, r)"
| "burst key now (Suc m) r =
     (case rate_check key now r of (res, r1) \<Rightarrow>
        case burst key now m r1 of (k, r2) \<Rightarrow> (if res = Inr () then Suc k else k, r2))"

lemma fst_burst_Suc:
  "fst (burst key now (Suc m) r) =
     (if 1 \<le> tokens (rate_ready key now r) then 1 else 0) + fst (burst key now m (snd (rate_check key now r)))"
  using rate_check_bucket(1) [of key now r] by (auto split: prod.splits)

lemma ready_check:
  "rate_ready key now (snd (rate_check key now r)) =
     (if 1 \<le> tokens (rate_ready key now r)
      then (rate_ready key now r)\<lparr>tokens := rnd64 (tokens (rate_ready key now r) - 1)\<rparr>
      else rate_ready key now r)"
proof -
  have "settled now (rate_ready key now r)" by (simp add: rate_ready_def settled_refill)
  then show ?thesis by (subst rate_ready_def) (simp add: rate_check_bucket(2,3))
qed

lemma burst_le:
  assumes "tokens (rate_ready key now r) \<le> of_nat j" and "j < 2 ^ 53"
  shows "fst (burst key now m r) \<le> j"
  using assms
proof (induction m arbitrary: j r)
  case (Suc m)
  show ?case
  proof (cases "1 \<le> tokens (rate_ready key now r)")
    case True
    with Suc.prems(1) have j: "0 < j" by (cases j) auto
    have "rnd64 (tokens (rate_ready key now r) - 1) \<le> rnd64 (of_nat (j - 1))"
      using True Suc.prems(1) j by (intro rnd64_mono) (simp_all add: of_nat_diff)
    also have "\<dots> = of_nat (j - 1)" using Suc.prems(2) by (intro rnd64_of_nat) simp
    finally have "fst (burst key now m (snd (rate_check key now r))) \<le> j - 1"
      using Suc.prems(2) by (intro Suc.IH) (simp_all add: ready_check True)
    with j show ?thesis by (simp only: fst_burst_Suc True if_True)
  next
    case False
    with Suc.IH [of "snd (rate_check key now r)" j] Suc.prems show ?thesis
      by (simp only: fst_burst_Suc ready_check if_False add_0)
  qed
qed simp

lemma burst_eq:
  assumes "tokens (rate_ready key now r) = of_nat j" and "j < 2 ^ 53"
  shows "fst (burst key now m r) = min j m"
  using assms
proof (induction m arbitrary: j r)
  case (Suc m)
  show ?case
  proof (cases j)
    case 0
    with Suc.prems Suc.IH [of "snd (rate_check key now r)" 0] show ?thesis
      by (simp only: fst_burst_Suc ready_check) simp
  next
    case (Suc i)
    with Suc.prems have one: "1 \<le> tokens (rate_ready key now r)" by simp
    have "tokens (rate_ready key now (snd (rate_check key now r))) = of_nat i"
      using Suc.prems Suc one by (simp add: ready_check rnd64_of_nat)
    from Suc.IH [OF this] Suc.prems Suc show ?thesis by (simp only: fst_burst_Suc one) simp
  qed
qed simp

inductive rate_step :: "rate_limiter \<Rightarrow> rate_limiter \<Rightarrow> bool" where
  check: "rate_step r (snd (rate_check key now r))"
| tokens: "rate_step r (snd (rate_tokens key now r))"
| clear: "rate_step r (rate_clear r)"

lemma rate_step_inv:
  assumes "rate_step r r'" and "rate_inv r" and "rl_capacity (rl_config r) = of_nat n" and "n < 2 ^ 53"
  shows "rate_inv r' \<and> rl_config r' = rl_config r"
  using assms(1)
proof cases
  case (check key now)
  have "rnd64 (tokens (rate_ready key now r) - 1) \<le> of_nat n" if "1 \<le> tokens (rate_ready key now r)"
    using rnd64_mono [of "tokens (rate_ready key now r) - 1" "of_nat n"] ready_le [OF assms(2), of key now] that
    by (simp add: assms(3) rnd64_of_nat [OF assms(4)])
  with ready_le [OF assms(2), of key now] assms(2) show ?thesis
    by (auto simp: check rate_inv_def rate_check_bucket(2,3) assms(3) simp del: One_nat_def)
next
  case (tokens key now)
  with assms(2) show ?thesis
    by (auto simp: rate_tokens_def rate_inv_def Let_def refill_le split: option.splits)
next
  case clear
  then show ?thesis by (simp add: rate_clear_def rate_inv_def)
qed

definition rate_reachable :: "rate_limit_config \<Rightarrow> rate_limiter \<Rightarrow> bool" where
  "rate_reachable cfg r \<longleftrightarrow> rate_step\<^sup>*\<^sup>* (new_rate_limiter cfg) r"

lemma rate_reachable_inv:
  assumes "rate_reachable cfg r" and "rl_capacity cfg = of_nat n" and "n < 2 ^ 53"
  shows "rate_inv r \<and> rl_config r = cfg"
  using assms(1) unfolding rate_reachable_def
proof (induction rule: rtranclp_induct)
  case base
  then show ?case by (simp add: rate_inv_def new_rate_limiter_def)
next
  case (step r r')
  with rate_step_inv [OF step.hyps(2)] assms(2,3) show ?case by simp
qed

text \<open>
  The burst limit holds exactly. However a limiter of \<open>n\<close> events per window was used before, at one
  instant no more than \<open>n\<close> checks of a key are admitted, rounding errors of the refills included; and
  of a key it has not seen, exactly the first \<open>n\<close> are.
\<close>

theorem rate_burst_bounded:
  assumes "rate_reachable (per_window n window) r"
  shows "fst (burst key now m r) \<le> unat n \<and>
    (hget (rl_buckets r) key = None \<longrightarrow> fst (burst key now m r) = min (unat n) m)"
proof -
  have n: "unat n < 2 ^ 53" by (rule less_trans [OF unsigned_less]) simp
  have cap: "rl_capacity (per_window n window) = of_nat (unat n)" by (simp add: per_window_def Let_def)
  from rate_reachable_inv [OF assms cap n] have inv: "rate_inv r" and cfg: "rl_config r = per_window n window" by auto
  have "tokens (rate_ready key now r) \<le> of_nat (unat n)" using ready_le [OF inv, of key now] by (simp add: cfg cap)
  then have "fst (burst key now m r) \<le> unat n" using n by (rule burst_le)
  moreover have "fst (burst key now m r) = min (unat n) m" if "hget (rl_buckets r) key = None"
    using that n by (intro burst_eq) (simp_all add: rate_ready_def refill_def cfg cap)
  ultimately show ?thesis by blast
qed

theorem rate_burst_bounded_witness:
  "fst (burst ''k'' 5 30 (new_rate_limiter default_session_intent_config)) = 20"
  using rate_burst_bounded [of 20 "secs 60" "new_rate_limiter default_session_intent_config" "''k''" 5 30]
  by (simp add: default_session_intent_config_def rate_reachable_def new_rate_limiter_def)

end
