(* ===== verification/Client_Ip.thy ===== *)
theory Client_Ip
  imports RL_Prelude
begin

text \<open>
  Which address the server keys its limits on (\<open>apps/server/src/security/client_ip.rs\<close>). An address is a value
  of the standard library's \<open>IpAddr\<close>, represented by its octets; parsing and printing of
  addresses are the two fields of \<open>ip_api\<close>, arguments of the definitions. A header map is the list of its
  headers in order, names in lower case.
\<close>

datatype ip_addr = V4 bytes | V6 bytes

record ip_api =
  parse_ip :: "string \<Rightarrow> ip_addr option"
  show_ip :: "ip_addr \<Rightarrow> string"

type_synonym header_map = "(string \<times> string) list"

text \<open>\<open>HeaderValue::to_str\<close> succeeds exactly on visible ASCII, space and tab.\<close>

definition header_to_str :: "string \<Rightarrow> string option" where
  "header_to_str v =
     (if list_all (\<lambda>c. (32 \<le> (of_char c :: nat) \<and> (of_char c :: nat) < 127) \<or> (of_char c :: nat) = 9) v
      then Some v else None)"

definition header :: "string \<Rightarrow> header_map \<Rightarrow> string option" where
  "header name hs = (case map_of hs name of None \<Rightarrow> None | Some v \<Rightarrow> header_to_str v)"

text \<open>\<open>str::split(',').next()\<close>.\<close>

definition first_hop :: "string \<Rightarrow> string" where
  "first_hop v = takeWhile (\<lambda>c. c \<noteq> CHR '','') v"

definition is_plausible_ip_token :: "ip_api \<Rightarrow> string \<Rightarrow> bool" where
  "is_plausible_ip_token I s \<longleftrightarrow> parse_ip I s \<noteq> None"

definition plausible_token :: "ip_api \<Rightarrow> string \<Rightarrow> string option" where
  "plausible_token I s = (let ip = trim s in if ip \<noteq> [] \<and> is_plausible_ip_token I ip then Some ip else None)"

definition proxy_client_ip :: "ip_api \<Rightarrow> header_map \<Rightarrow> string option" where
  "proxy_client_ip I headers =
     (case (case header ''x-forwarded-for'' headers of
              None \<Rightarrow> None | Some v \<Rightarrow> plausible_token I (first_hop v)) of
        Some ip \<Rightarrow> Some ip
      | None \<Rightarrow> (case header ''x-real-ip'' headers of
          None \<Rightarrow> None | Some v \<Rightarrow> plausible_token I v))"

text \<open>\<open>Ipv6Addr::to_ipv4_mapped\<close>: an address of the form \<open>::ffff:a.b.c.d\<close>.\<close>

definition to_ipv4_mapped :: "bytes \<Rightarrow> bytes option" where
  "to_ipv4_mapped o6 = (if take 12 o6 = replicate 10 0 @ [255, 255] then Some (drop 12 o6) else None)"

fun ip_key :: "ip_api \<Rightarrow> ip_addr \<Rightarrow> string" where
  "ip_key I (V6 o6) = (case to_ipv4_mapped o6 of Some v4 \<Rightarrow> show_ip I (V4 v4) | None \<Rightarrow> show_ip I (V6 o6))"
| "ip_key I (V4 o4) = show_ip I (V4 o4)"

definition resolve_client_ip :: "ip_api \<Rightarrow> header_map \<Rightarrow> ip_addr option \<Rightarrow> bool \<Rightarrow> string" where
  "resolve_client_ip I headers peer trust_proxy =
     (case (if trust_proxy then proxy_client_ip I headers else None) of
        Some ip \<Rightarrow> ip
      | None \<Rightarrow> (case peer of Some addr \<Rightarrow> ip_key I addr | None \<Rightarrow> ''unknown''))"

definition env_truthy :: "string option \<Rightarrow> bool" where
  "env_truthy v = (case v of None \<Rightarrow> False
     | Some s \<Rightarrow> ascii_lower (trim s) \<in> {''1'', ''true'', ''yes'', ''on''})"

lemma plausible_token_Some: "plausible_token I s = Some ip \<Longrightarrow> parse_ip I ip \<noteq> None"
  by (auto simp: plausible_token_def is_plausible_ip_token_def Let_def split: if_splits)

text \<open>
  The key cannot be forged by a header. Without a trusted proxy the headers have no influence, and an
  IPv4 peer has the same key whether it connects natively or mapped into IPv6. With one, the key
  is the peer's own or the text of a header that parses as an address, never free text.
\<close>

theorem client_key_not_spoofable:
  "resolve_client_ip I headers peer False = resolve_client_ip I [] peer trust \<and>
   (length o4 = 4 \<longrightarrow>
      resolve_client_ip I headers (Some (V6 (replicate 10 0 @ [255, 255] @ o4))) False =
      resolve_client_ip I headers (Some (V4 o4)) False) \<and>
   (resolve_client_ip I headers peer trust = resolve_client_ip I [] peer False \<or>
    parse_ip I (resolve_client_ip I headers peer trust) \<noteq> None)"
proof -
  have empty: "proxy_client_ip I [] = None" by (simp add: proxy_client_ip_def header_def)
  have "parse_ip I ip \<noteq> None" if "proxy_client_ip I headers = Some ip" for ip
    using that plausible_token_Some by (auto simp: proxy_client_ip_def split: option.splits)
  with empty show ?thesis
    by (auto simp: resolve_client_ip_def to_ipv4_mapped_def split: option.split)
qed

end
