(* ===== verification/Server_State.thy ===== *)
theory Server_State
  imports Session_Signal Otp_Store Auth_Attempts Device_Repo Blocklist Audit_Log Rate_Limit Client_Ip
begin

text \<open>
  The server's shared state (\<open>apps/server/src/state.rs\<close>) and the ICE servers it advertises
  (\<open>ice.rs\<close>). Each field of \<open>app_state\<close> is a component behind its own mutex; the fields that never
  change while the server runs, and the third-party functions, are \<open>server_env\<close>. A handler is a
  function on \<open>app_state\<close> that runs its component operations one after the other; it takes its clock readings,
  random token bodies and the outcomes of saving the device file from a record \<open>readings\<close>, by the number
  of the reading. Other handlers may run between two operations of one handler: \<open>server_op\<close>
  is one operation of one component, and what is proved for states reachable by \<open>server_op\<close> holds
  under every interleaving.
\<close>

section \<open>Configuration\<close>

record ice_config =
  stun_urls :: "string list"
  turn_urls :: "string list"
  turn_secret :: "string option"

text \<open>\<open>srv_turn_mac\<close> is the base64 text of the HMAC-SHA1 under the given key.\<close>

record 'j server_env =
  srv_json :: "'j json_api"
  srv_crypto :: crypto
  srv_rfc3339 :: "datetime \<Rightarrow> string"
  srv_ip :: ip_api
  srv_turn_mac :: "string \<Rightarrow> string \<Rightarrow> string"
  srv_pepper :: bytes
  srv_trust_proxy :: bool
  srv_admin_token :: "string option"
  srv_ice :: ice_config

definition ADMIN_TOKEN_MIN_LEN :: nat where
  "ADMIN_TOKEN_MIN_LEN = 16"

definition with_admin_token :: "string \<Rightarrow> 'j server_env \<Rightarrow> 'j server_env" where
  "with_admin_token t E = E\<lparr>srv_admin_token := (if length t \<ge> ADMIN_TOKEN_MIN_LEN then Some t else None)\<rparr>"

definition with_admin_token_from_env :: "string option \<Rightarrow> 'j server_env \<Rightarrow> 'j server_env" where
  "with_admin_token_from_env v E =
     (case v of Some t \<Rightarrow> if length t \<ge> ADMIN_TOKEN_MIN_LEN then with_admin_token t E else E | None \<Rightarrow> E)"

definition TURN_TTL_SECS :: u64 where
  "TURN_TTL_SECS = 24 * 3600"

definition has_servers :: "ice_config \<Rightarrow> bool" where
  "has_servers c \<longleftrightarrow> stun_urls c \<noteq> [] \<or> turn_urls c \<noteq> []"

fun split_on :: "char \<Rightarrow> string \<Rightarrow> string list" where
  "split_on sep [] = [[]]"
| "split_on sep (c # s) =
     (if c = sep then [] # split_on sep s
      else case split_on sep s of [] \<Rightarrow> [[c]] | part # parts \<Rightarrow> (c # part) # parts)"

definition split_urls :: "string option \<Rightarrow> string list" where
  "split_urls raw = filter (\<lambda>u. u \<noteq> []) (map trim (split_on CHR '','' (case raw of None \<Rightarrow> [] | Some s \<Rightarrow> s)))"

definition mint_turn_rest_cred :: "(string \<Rightarrow> string \<Rightarrow> string) \<Rightarrow> string \<Rightarrow> u64 \<Rightarrow> u64 \<Rightarrow> string \<times> string" where
  "mint_turn_rest_cred mac secret ttl now_secs =
     (let exp = sat_add now_secs ttl; username = show_word exp @ '':rl'' in (username, mac secret username))"

definition feature_flag_value :: "'j json_api \<Rightarrow> (string \<Rightarrow> string \<Rightarrow> string) \<Rightarrow> u64 \<Rightarrow> ice_config \<Rightarrow> 'j" where
  "feature_flag_value J mac now_secs c =
     json_array J
       (map (\<lambda>u. json_object J [(''urls'', json_array J [json_str J u])]) (stun_urls c) @
        (if turn_urls c = [] then []
         else
           let (username, credential) = (case turn_secret c of
                 Some secret \<Rightarrow> mint_turn_rest_cred mac secret TURN_TTL_SECS now_secs | None \<Rightarrow> ([], []));
               urls = (''urls'', json_array J (map (json_str J) (turn_urls c)))
           in [json_object J (if username = [] then [urls]
                 else [urls, (''username'', json_str J username), (''credential'', json_str J credential)])]))"

section \<open>State\<close>

record 'j app_state =
  st_repo :: device_store
  st_sessions :: "'j registry"
  st_limits :: rate_limiters
  st_attempts :: attempt_tracker
  st_audit :: "'j audit_store"
  st_blocklist :: blocklist
  st_otp :: otp_store

definition new_app_state :: "device_store \<Rightarrow> 'j app_state" where
  "new_app_state repo = \<lparr>st_repo = repo, st_sessions = new_registry, st_limits = new_rate_limiters,
     st_attempts = new_tracker default_attempt_config, st_audit = new_audit_store,
     st_blocklist = new_blocklist, st_otp = new_otp_store\<rparr>"

record readings =
  utc :: "nat \<Rightarrow> datetime"
  mono_clock :: "nat \<Rightarrow> instant"
  random_body :: "nat \<Rightarrow> string"
  save_outcome :: "nat \<Rightarrow> saver"

text \<open>Appending an audit event, as every handler does it.\<close>

definition log_event ::
  "int option \<Rightarrow> string option \<Rightarrow> audit_event_type \<Rightarrow> 'j \<Rightarrow> datetime \<Rightarrow> 'j app_state \<Rightarrow> 'j app_state" where
  "log_event device session_id ty meta now st =
     st\<lparr>st_audit := audit_best_effort
       \<lparr>ne_device_id = device, ne_session_id = session_id, ne_type = ty, ne_meta = meta\<rparr> now (st_audit st)\<rparr>"

text \<open>A string or null, as \<open>json!\<close> renders an \<open>Option<String>\<close>.\<close>

definition json_opt :: "'j json_api \<Rightarrow> string option \<Rightarrow> 'j" where
  "json_opt J s = (case s of None \<Rightarrow> json_null J | Some t \<Rightarrow> json_str J t)"

section \<open>One operation of one component\<close>

inductive server_op :: "'j server_env \<Rightarrow> 'j app_state \<Rightarrow> 'j app_state \<Rightarrow> bool" for E :: "'j server_env" where
  op_repo: "repo_step save (st_repo st) r \<Longrightarrow> server_op E st (st\<lparr>st_repo := r\<rparr>)"
| op_sessions: "reg_step (srv_json E) (hash_token (srv_crypto E)) (st_sessions st) g \<Longrightarrow> server_op E st (st\<lparr>st_sessions := g\<rparr>)"
| op_limits: "server_op E st (st\<lparr>st_limits := l\<rparr>)"
| op_attempts: "server_op E st (st\<lparr>st_attempts := t\<rparr>)"
| op_audit: "server_op E st (st\<lparr>st_audit := audit_best_effort ev now (st_audit st)\<rparr>)"
| op_block: "block_step (st_blocklist st) b \<Longrightarrow> server_op E st (st\<lparr>st_blocklist := b\<rparr>)"
| op_otp: "otp_step (srv_crypto E) (st_otp st) s \<Longrightarrow> server_op E st (st\<lparr>st_otp := s\<rparr>)"

definition server_reachable :: "'j server_env \<Rightarrow> 'j app_state \<Rightarrow> bool" where
  "server_reachable E st \<longleftrightarrow> (server_op E)\<^sup>*\<^sup>* (new_app_state new_device_store) st"

text \<open>Whether saving succeeds does not change what an operation leaves in memory.\<close>

lemma snd_save_irrelevant:
  "snd (rotate_refresh save h nc now g) = snd (rotate_refresh save' h nc now g)"
  "snd (insert_credential save nc now g) = snd (insert_credential save' nc now g)"
  "snd (create_device save nd now g) = snd (create_device save' nd now g)"
  "snd (soft_delete save p now g) = snd (soft_delete save' p now g)"
  "snd (revoke_credential save i now g) = snd (revoke_credential save' i now g)"
  "snd (revoke_all_for_device save i now g) = snd (revoke_all_for_device save' i now g)"
  "snd (touch_last_seen save i now g) = snd (touch_last_seen save' i now g)"
  by (simp_all add: rotate_refresh_def insert_credential_def create_device_def soft_delete_def revoke_credential_def
      revoke_all_for_device_def touch_last_seen_def Let_def split: option.split prod.split sum.split)

lemma repo_step_any_save: "repo_step save g g' \<Longrightarrow> repo_step save' g g'"
  by (induction rule: repo_step.induct)
     (simp_all only: snd_save_irrelevant [where save = save and save' = save'] repo_step.intros)

text \<open>Whatever ran before, in whatever order, each component is in a state its own theory speaks of.\<close>

lemma server_reachable_components:
  assumes "server_reachable E st"
  shows "reg_reachable (srv_json E) (hash_token (srv_crypto E)) (st_sessions st) \<and>
    otp_reachable (srv_crypto E) (st_otp st) \<and> repo_reachable save (st_repo st) \<and> block_reachable (st_blocklist st)"
  using assms unfolding server_reachable_def
proof (induction rule: rtranclp_induct)
  case base
  show ?case
    by (simp add: new_app_state_def new_registry_def reg_reachable_init otp_reachable_init repo_reachable_init block_reachable_def)
next
  case (step st st')
  from step.hyps(2) step.IH show ?case
    by cases (auto simp: block_reachable_def intro: reg_reachable_step otp_reachable_step repo_reachable_step
        repo_step_any_save rtranclp.rtrancl_into_rtrancl)
qed

end
