(* ===== verification/Server_Ws.thy ===== *)
theory Server_Ws
  imports Server_State
begin

text \<open>
  The signaling endpoint of the server (\<open>apps/server/src/routes/ws.rs\<close>): the hello that binds an identity to
  a connection, and the handling of every later message. A socket is the list of what its stream yields;
  its end (the list is empty) and a read error are the code's \<open>None\<close> and \<open>Some(Err)\<close>.
  \<open>Inl\<close> is the message the code sends back as an error.
\<close>

datatype ws_frame = WsText string | WsBinary bytes | WsPing | WsPong | WsClose

datatype ws_event = WsFrame ws_frame | WsReadError

section \<open>Authentication\<close>

definition resolve_device_token ::
  "'j server_env \<Rightarrow> string \<Rightarrow> datetime \<Rightarrow> 'j app_state \<Rightarrow> 'j signal_message + (device \<times> device_credential)" where
  "resolve_device_token E token now st =
     (case find_by_access_hash (hash_token (srv_crypto E) token) (st_repo st) of
        Inl _ \<Rightarrow> Inl (error_msg ''internal'' ''internal error'')
      | Inr None \<Rightarrow> Inl (error_msg ''unauthorized'' ''invalid device_token'')
      | Inr (Some (device, cred)) \<Rightarrow>
          if dc_access_expires_at cred < now then Inl (error_msg ''unauthorized'' ''device_token expired'')
          else Inr (device, cred))"

text \<open>\<open>now\<close> is read for a viewer token, \<open>now'\<close> when a device token is resolved.\<close>

definition authenticate ::
  "'j server_env \<Rightarrow> role \<Rightarrow> hello_auth \<Rightarrow> datetime \<Rightarrow> datetime \<Rightarrow> 'j app_state \<Rightarrow> 'j signal_message + peer_identity" where
  "authenticate E role auth now now' st =
     (let token = trim (device_token auth) in
      case role of
        Host \<Rightarrow>
          if token = [] then Inl (error_msg ''unauthorized'' ''host hello requires device_token'')
          else (case resolve_device_token E token now' st of
              Inl e \<Rightarrow> Inl e
            | Inr (device, _) \<Rightarrow>
                if dv_status device \<noteq> StatusActive then Inl (error_msg ''unauthorized'' ''device is not active'')
                else Inr \<lparr>p_role = role, p_device_public_id = Some (dv_public_id device),
                  p_device_id = Some (dv_id device), p_anonymous = False\<rparr>)
      | Viewer \<Rightarrow>
          if token = [] then
            Inr \<lparr>p_role = role, p_device_public_id = None, p_device_id = None, p_anonymous = True\<rparr>
          else if validate_viewer_token (hash_token (srv_crypto E)) token now (st_sessions st) then
            Inr \<lparr>p_role = role, p_device_public_id = None, p_device_id = None, p_anonymous = False\<rparr>
          else (case resolve_device_token E token now' st of
              Inr (device, _) \<Rightarrow>
                if dv_status device = StatusActive
                then Inr \<lparr>p_role = role, p_device_public_id = Some (dv_public_id device),
                  p_device_id = Some (dv_id device), p_anonymous = False\<rparr>
                else Inl (error_msg ''unauthorized'' ''invalid viewer device_token'')
            | Inl _ \<Rightarrow> Inl (error_msg ''unauthorized'' ''invalid viewer device_token'')))"

fun is_unauthorized :: "'j signal_message \<Rightarrow> bool" where
  "is_unauthorized (Error code _) = (code = ''unauthorized'')"
| "is_unauthorized _ = False"

text \<open>\<open>now'\<close> is the reading of the system clock the TURN credential is minted with.\<close>

definition hello_ok :: "'j server_env \<Rightarrow> datetime \<Rightarrow> datetime \<Rightarrow> 'j signal_message" where
  "hello_ok E now now' =
     (let J = srv_json E in
      HelloOk (srv_rfc3339 E now)
        (json_object J
           [(''max_protocol_version'', json_int J (uint PROTOCOL_VERSION)),
            (''sdp_relay'', json_bool J True),
            (''ice_servers'', feature_flag_value J (srv_turn_mac E) (of_int (max 0 (timestamp now'))) (srv_ice E))]))"

text \<open>The failed hello: counted and logged when the credentials were refused.\<close>

definition hello_refused ::
  "'j server_env \<Rightarrow> readings \<Rightarrow> string \<Rightarrow> role \<Rightarrow> 'j signal_message \<Rightarrow> 'j app_state \<Rightarrow> 'j app_state" where
  "hello_refused E T client_ip role e st =
     (if is_unauthorized e then
        let J = srv_json E;
            st1 = st\<lparr>st_attempts := snd (record_failure (key_ip client_ip) (mono_clock T 1) (st_attempts st))\<rparr>
        in log_event None None EvLoginFail
             (json_object J [(''ip'', json_str J client_ip), (''role'', json_str J (debug_role role)),
                (''via'', json_str J ''ws_hello'')]) (utc T 2) st1
      else st)"

definition expect_hello ::
  "'j server_env \<Rightarrow> readings \<Rightarrow> conn_id \<Rightarrow> string \<Rightarrow> ws_event option \<Rightarrow> 'j app_state
     \<Rightarrow> ('j signal_message + peer_identity) \<times> 'j app_state" where
  "expect_hello E T conn client_ip frame st =
     (case frame of
        None \<Rightarrow> (Inl (error_msg ''protocol_error'' ''connection closed before hello''), st)
      | Some WsReadError \<Rightarrow> (Inl (error_msg ''protocol_error'' ''connection closed before hello''), st)
      | Some (WsFrame WsClose) \<Rightarrow> (Inl (error_msg ''protocol_error'' ''connection closed before hello''), st)
      | Some (WsFrame (WsText text)) \<Rightarrow>
        (case decode_message (srv_json E) text of
           Inl e \<Rightarrow> (Inl (error_msg ''protocol_error'' (''invalid hello: '' @ show_protocol_error e)), st)
         | Inr (Hello role version auth) \<Rightarrow>
             if version = 0 \<or> version > PROTOCOL_VERSION then
               (Inl (error_msg ''protocol_version'' (''unsupported protocol_version '' @ show_word version @
                  '' (server max '' @ show_word PROTOCOL_VERSION @ '')'')), st)
             else
               (case attempt_check (key_ip client_ip) (mono_clock T 0) (st_attempts st) of
                  (Inl lock, t) \<Rightarrow> (Inl (error_msg ''rate_limited'' (show_lockout_active lock)), st\<lparr>st_attempts := t\<rparr>)
                | (Inr _, t) \<Rightarrow>
                    let st1 = st\<lparr>st_attempts := t\<rparr> in
                    (case authenticate E role auth (utc T 0) (utc T 1) st1 of
                       Inl e \<Rightarrow> (Inl e, hello_refused E T client_ip role e st1)
                     | Inr identity \<Rightarrow>
                         let st2 = st1\<lparr>st_attempts := record_success (key_ip client_ip) (st_attempts st1)\<rparr>;
                             st3 = st2\<lparr>st_sessions := bind_peer conn identity (st_sessions st2)\<rparr>;
                             (delivered, g) = send_to conn (hello_ok E (utc T 3) (utc T 5)) (st_sessions st3);
                             st4 = st3\<lparr>st_sessions := g\<rparr>
                         in if \<not> delivered then (Inl (error_msg ''internal'' ''failed to send hello_ok''), st4)
                            else
                              let st5 = (case (role, p_device_id identity) of
                                    (Host, Some device_id) \<Rightarrow>
                                      st4\<lparr>st_repo := snd (touch_last_seen (save_outcome T 0) device_id (utc T 4) (st_repo st4))\<rparr>
                                  | _ \<Rightarrow> st4)
                              in (Inr identity, st5)))
         | Inr _ \<Rightarrow> (Inl (error_msg ''protocol_error'' ''first message must be hello''), st))
      | Some _ \<Rightarrow> (Inl (error_msg ''protocol_error'' ''first message must be text hello''), st))"

section \<open>Session intents\<close>

text \<open>Charging one token of the session-intent budget to a key.\<close>

definition charge_intent ::
  "string \<Rightarrow> instant \<Rightarrow> 'j app_state \<Rightarrow> (rate_limit_exceeded + unit) \<times> 'j app_state" where
  "charge_intent key now st =
     (case rate_check key now (lim_session_intent (st_limits st)) of
        (r, l) \<Rightarrow> (r, st\<lparr>st_limits := (st_limits st)\<lparr>lim_session_intent := l\<rparr>\<rparr>))"

definition intent_subjects ::
  "crypto \<Rightarrow> string \<Rightarrow> peer_identity \<Rightarrow> (block_subject_type \<times> string) list" where
  "intent_subjects K client_ip identity =
     (SubjectIp, hash_subject K client_ip) #
     (case p_device_public_id identity of
        None \<Rightarrow> []
      | Some pid \<Rightarrow> [(SubjectDevice, hash_subject K pid), (SubjectViewerFingerprint, hash_subject K pid)])"

text \<open>The code a viewer presents: the trimmed text under \<open>otp\<close>, unless there is none.\<close>

definition presented_code :: "'j json_api \<Rightarrow> 'j \<Rightarrow> string option" where
  "presented_code J prefilter =
     (case json_get J prefilter ''otp'' of
        None \<Rightarrow> None
      | Some v \<Rightarrow> (case json_as_str J v of
          None \<Rightarrow> None
        | Some s \<Rightarrow> let code = trim s in if code = [] then None else Some code))"

fun prefilter_result_str :: "otp_prefilter_result \<Rightarrow> string" where
  "prefilter_result_str OtpOk = ''ok''"
| "prefilter_result_str NoActiveOtp = ''no_active''"
| "prefilter_result_str OtpReject = ''reject''"

text \<open>Step 2b: a host with an active code admits a Mode A intent only with a code that verifies.\<close>

definition otp_gate ::
  "'j server_env \<Rightarrow> readings \<Rightarrow> string \<Rightarrow> string \<Rightarrow> session_mode \<Rightarrow> 'j \<Rightarrow> device \<Rightarrow> 'j app_state
     \<Rightarrow> ('j signal_message + unit) \<times> 'j app_state" where
  "otp_gate E T client_ip session_id mode prefilter host_device st =
     (if mode \<noteq> Otp then (Inr (), st)
      else case presented_code (srv_json E) prefilter of
        Some code \<Rightarrow>
          let now = utc T 1 in
          (case active_for_host (dv_id host_device) now (st_otp st) of
             None \<Rightarrow> (Inr (), st)
           | Some _ \<Rightarrow>
               let (result, s) = prefilter_bind (srv_crypto E) (dv_id host_device) code (srv_pepper E)
                     session_id now (st_otp st);
                   J = srv_json E;
                   st1 = log_event (Some (dv_id host_device)) (Some session_id) EvOtpPrefilter
                     (json_object J [(''result'', json_str J (prefilter_result_str result)),
                        (''viewer_ip'', json_str J client_ip)]) (utc T 2) (st\<lparr>st_otp := s\<rparr>)
               in if result \<noteq> OtpOk then (Inl (error_msg ''auth'' ''OTP prefilter failed''), st1)
                  else (Inr (), st1))
      | None \<Rightarrow>
          (case active_for_host (dv_id host_device) (utc T 1) (st_otp st) of
             None \<Rightarrow> (Inr (), st)
           | Some _ \<Rightarrow> (Inl (error_msg ''auth'' ''OTP required for this host''), st)))"

definition handle_session_intent ::
  "'j server_env \<Rightarrow> readings \<Rightarrow> conn_id \<Rightarrow> peer_identity \<Rightarrow> string \<Rightarrow> string \<Rightarrow> u64 \<Rightarrow> string \<Rightarrow> session_mode \<Rightarrow> 'j
     \<Rightarrow> 'j app_state \<Rightarrow> ('j signal_message + unit) \<times> 'j app_state" where
  "handle_session_intent E T conn identity client_ip session_id signal_seq host_public_id mode prefilter st =
     (let J = srv_json E in
      if p_role identity \<noteq> Viewer then (Inl (error_msg ''unauthorized'' ''only viewers may send session_intent''), st)
      else if session_id = [] then (Inl (error_msg ''bad_request'' ''session_id is required''), st)
      else if host_public_id = [] then (Inl (error_msg ''bad_request'' ''host_public_id is required''), st)
      else case charge_intent (''session_intent:ip:'' @ client_ip) (mono_clock T 0) st of
        (Inl e, st1) \<Rightarrow> (Inl (error_msg ''rate_limited'' (show_rate_limit_exceeded e)), st1)
      | (Inr _, st1) \<Rightarrow>
        (case get_by_public_id host_public_id (st_repo st1) of
           None \<Rightarrow> (Inl (error_msg ''not_found'' ''unknown host_public_id''), st1)
         | Some host_device \<Rightarrow>
           if dv_status host_device \<noteq> StatusActive then (Inl (error_msg ''not_found'' ''host is not available''), st1)
           else (case any_blocked (dv_id host_device) (intent_subjects (srv_crypto E) client_ip identity) (st_blocklist st1) of
              Some (ty, _) \<Rightarrow>
                (Inl (error_msg ''blocked'' ''viewer is blocked by the host''),
                 log_event (Some (dv_id host_device)) (Some session_id) EvSessionIntent
                   (json_object J [(''result'', json_str J ''blocked''), (''subject_type'', json_str J (subject_as_str ty)),
                      (''viewer_ip'', json_str J client_ip)]) (utc T 0) st1)
            | None \<Rightarrow>
              (case otp_gate E T client_ip session_id mode prefilter host_device st1 of
                 (Inl e, st2) \<Rightarrow> (Inl e, st2)
               | (Inr _, st2) \<Rightarrow>
                 (case charge_intent (''session_intent:host:'' @ host_public_id) (mono_clock T 1) st2 of
                    (Inl e, st3) \<Rightarrow> (Inl (error_msg ''rate_limited'' (show_rate_limit_exceeded e)), st3)
                  | (Inr _, st3) \<Rightarrow>
                    let (result, g) = create_pending_session
                          \<lparr>cp_viewer_conn = conn, cp_session_id = session_id, cp_host_public_id = host_public_id,
                           cp_host_device_id = dv_id host_device, cp_mode = mode, cp_signal_seq = signal_seq,
                           cp_viewer_info = default_viewer_info J identity\<rparr> (utc T 3) (st_sessions st3);
                        st4 = st3\<lparr>st_sessions := g\<rparr>
                    in (result,
                        if result = Inr () then
                          log_event (Some (dv_id host_device)) (Some session_id) EvSessionIntent
                            (json_object J [(''result'', json_str J ''pending''), (''viewer_ip'', json_str J client_ip),
                               (''viewer_device'', json_opt J (p_device_public_id identity)),
                               (''mode'', json_str J (debug_session_mode mode))]) (utc T 4) st4
                        else st4))))))"

section \<open>Messages after the hello\<close>

text \<open>The text has an arrow between the words, which is three bytes of UTF-8.\<close>

definition SERVER_ONLY_TEXT :: string where
  "SERVER_ONLY_TEXT = ''message type is server'' @ [CHR 0xE2, CHR 0x86, CHR 0x92] @ ''client only''"

definition handle_message ::
  "'j server_env \<Rightarrow> readings \<Rightarrow> conn_id \<Rightarrow> peer_identity \<Rightarrow> string \<Rightarrow> 'j signal_message
     \<Rightarrow> 'j app_state \<Rightarrow> ('j signal_message + unit) \<times> 'j app_state" where
  "handle_message E T conn identity client_ip msg st =
     (let J = srv_json E; K = srv_crypto E in
      case msg of
        Hello _ _ _ \<Rightarrow> (Inl (error_msg ''protocol_error'' ''hello already completed for this connection''), st)
      | SessionIntent session_id signal_seq host_public_id mode prefilter \<Rightarrow>
          handle_session_intent E T conn identity client_ip session_id signal_seq host_public_id mode prefilter st
      | SessionAccept session_id signal_seq \<Rightarrow>
          if p_role identity \<noteq> Host then (Inl (error_msg ''unauthorized'' ''only hosts may send session_accept''), st)
          else
            let (result, g) = accept_session conn session_id signal_seq (utc T 0) (st_sessions st);
                st1 = st\<lparr>st_sessions := g\<rparr>
            in (result,
                if result = Inr () then
                  let st2 = (case p_device_id identity of
                        None \<Rightarrow> st1
                      | Some device_id \<Rightarrow>
                          st1\<lparr>st_otp := snd (consume_for_session device_id session_id (utc T 1) (st_otp st1))\<rparr>)
                  in log_event (p_device_id identity) (Some session_id) EvSessionAccept (json_object J []) (utc T 2) st2
                else st1)
      | SessionReject session_id signal_seq reason \<Rightarrow>
          if p_role identity \<noteq> Host then (Inl (error_msg ''unauthorized'' ''only hosts may send session_reject''), st)
          else
            let (result, g) = reject_session conn session_id signal_seq reason (utc T 0) (st_sessions st);
                st1 = st\<lparr>st_sessions := g\<rparr>
            in (result,
                if result = Inr () then
                  log_event (p_device_id identity) (Some session_id) EvSessionReject
                    (json_object J [(''reason'', json_str J (debug_reject_reason reason))]) (utc T 1) st1
                else st1)
      | SessionEnd session_id signal_seq reason \<Rightarrow>
          let (result, g) = end_session conn session_id signal_seq reason (utc T 0) (st_sessions st);
              st1 = st\<lparr>st_sessions := g\<rparr>
          in (result,
              if result = Inr () then
                log_event (p_device_id identity) (Some session_id) EvSessionEnd (json_object J []) (utc T 1) st1
              else st1)
      | HelloOk _ _ \<Rightarrow> (Inl (error_msg ''protocol_error'' SERVER_ONLY_TEXT), st)
      | SessionIncoming _ _ _ _ _ \<Rightarrow> (Inl (error_msg ''protocol_error'' SERVER_ONLY_TEXT), st)
      | Error _ _ \<Rightarrow> (Inl (error_msg ''protocol_error'' SERVER_ONLY_TEXT), st)
      | _ \<Rightarrow>
          let (result, g) = relay_media_signal J conn msg (utc T 0) (st_sessions st)
          in (result, st\<lparr>st_sessions := g\<rparr>))"

definition handle_text ::
  "'j server_env \<Rightarrow> readings \<Rightarrow> conn_id \<Rightarrow> peer_identity \<Rightarrow> string \<Rightarrow> string
     \<Rightarrow> 'j app_state \<Rightarrow> ('j signal_message + unit) \<times> 'j app_state" where
  "handle_text E T conn identity text client_ip st =
     (case decode_message (srv_json E) text of
        Inl e \<Rightarrow> (Inl (error_msg ''protocol_error'' (''invalid message: '' @ show_protocol_error e)), st)
      | Inr msg \<Rightarrow> handle_message E T conn identity client_ip msg st)"

section \<open>A connection\<close>

definition send_reply :: "conn_id \<Rightarrow> 'j signal_message \<Rightarrow> 'j app_state \<Rightarrow> 'j app_state" where
  "send_reply conn msg st = st\<lparr>st_sessions := snd (send_to conn msg (st_sessions st))\<rparr>"

text \<open>
  The body of the read loop for one event; the flag says whether the loop goes on.
\<close>

definition socket_event ::
  "'j server_env \<Rightarrow> readings \<Rightarrow> conn_id \<Rightarrow> peer_identity \<Rightarrow> string \<Rightarrow> ws_event \<Rightarrow> 'j app_state \<Rightarrow> bool \<times> 'j app_state" where
  "socket_event E T conn identity client_ip ev st =
     (case ev of
        WsReadError \<Rightarrow> (False, st)
      | WsFrame (WsText text) \<Rightarrow>
          (case handle_text E T conn identity text client_ip st of
             (Inl e, st1) \<Rightarrow> (True, send_reply conn e st1)
           | (Inr _, st1) \<Rightarrow> (True, st1))
      | WsFrame (WsBinary _) \<Rightarrow>
          (True, send_reply conn (error_msg ''protocol_error'' ''binary frames are not supported'') st)
      | WsFrame WsPing \<Rightarrow> (True, st)
      | WsFrame WsPong \<Rightarrow> (True, st)
      | WsFrame WsClose \<Rightarrow> (False, st))"

fun socket_loop ::
  "'j server_env \<Rightarrow> (nat \<Rightarrow> readings) \<Rightarrow> conn_id \<Rightarrow> peer_identity \<Rightarrow> string \<Rightarrow> ws_event list \<Rightarrow> 'j app_state \<Rightarrow> 'j app_state" where
  "socket_loop E T conn identity client_ip [] st = st"
| "socket_loop E T conn identity client_ip (ev # evs) st =
     (case socket_event E (T 0) conn identity client_ip ev st of
        (False, st1) \<Rightarrow> st1
      | (True, st1) \<Rightarrow> socket_loop E (\<lambda>i. T (Suc i)) conn identity client_ip evs st1)"

text \<open>
  The end of the task: the connection is unregistered, and aborting the writer drops the receiver of
  its channel \<open>tx\<close>.
\<close>

definition close_socket :: "conn_id \<Rightarrow> nat \<Rightarrow> 'j app_state \<Rightarrow> 'j app_state" where
  "close_socket conn tx st = st\<lparr>st_sessions := drop_receiver tx (unregister_conn conn (st_sessions st))\<rparr>"

definition handle_socket ::
  "'j server_env \<Rightarrow> (nat \<Rightarrow> readings) \<Rightarrow> string \<Rightarrow> ws_event list \<Rightarrow> 'j app_state \<Rightarrow> 'j app_state" where
  "handle_socket E T client_ip events st =
     (let tx = length (chans (st_sessions st));
          (conn, g) = register_conn (st_sessions st);
          st1 = st\<lparr>st_sessions := g\<rparr>
      in case expect_hello E (T 0) conn client_ip (case events of [] \<Rightarrow> None | ev # _ \<Rightarrow> Some ev) st1 of
           (Inl e, st2) \<Rightarrow> close_socket conn tx (send_reply conn e st2)
         | (Inr identity, st2) \<Rightarrow>
             close_socket conn tx (socket_loop E (\<lambda>i. T (Suc i)) conn identity client_ip (tl events) st2))"

definition ws_handler ::
  "'j server_env \<Rightarrow> (nat \<Rightarrow> readings) \<Rightarrow> header_map \<Rightarrow> ip_addr option \<Rightarrow> ws_event list \<Rightarrow> 'j app_state \<Rightarrow> 'j app_state" where
  "ws_handler E T headers peer_addr events st =
     handle_socket E T (resolve_client_ip (srv_ip E) headers peer_addr (srv_trust_proxy E)) events st"

end
