(* ===== verification/Server_Gates.thy ===== *)
theory Server_Gates
  imports Server_Ws
begin

text \<open>
  What the signaling endpoint guarantees across its components: which messages can create or activate
  a session, who can be published as a host, and that every handler is made of component
  operations only.
\<close>

section \<open>Handlers are sequences of component operations\<close>

definition ops :: "'j server_env \<Rightarrow> 'j app_state \<Rightarrow> 'j app_state \<Rightarrow> bool" where
  "ops E st st' \<longleftrightarrow> (server_op E)\<^sup>*\<^sup>* st st'"

lemma ops_refl [simp, intro]: "ops E st st"
  by (simp add: ops_def)

lemma ops_trans [trans]: "ops E st st1 \<Longrightarrow> ops E st1 st2 \<Longrightarrow> ops E st st2"
  unfolding ops_def by (rule rtranclp_trans)

lemma ops_step: "ops E st st1 \<Longrightarrow> server_op E st1 st2 \<Longrightarrow> ops E st st2"
  unfolding ops_def by (rule rtranclp.rtrancl_into_rtrancl)

lemma ops_reachable: "server_reachable E st \<Longrightarrow> ops E st st' \<Longrightarrow> server_reachable E st'"
  unfolding server_reachable_def ops_def by (rule rtranclp_trans)

named_theorems ops_intro \<open>updates that are one more operation\<close>

lemma ops_log [ops_intro]: "ops E st st1 \<Longrightarrow> ops E st (log_event d s ty m now st1)"
  unfolding log_event_def by (erule ops_step) (rule op_audit)

lemma ops_limits [ops_intro]: "ops E st st1 \<Longrightarrow> ops E st (st1\<lparr>st_limits := l\<rparr>)"
  by (erule ops_step) (rule op_limits)

lemma ops_attempts [ops_intro]: "ops E st st1 \<Longrightarrow> ops E st (st1\<lparr>st_attempts := t\<rparr>)"
  by (erule ops_step) (rule op_attempts)

lemma ops_sessions:
  "ops E st st1 \<Longrightarrow> reg_step (srv_json E) (hash_token (srv_crypto E)) (st_sessions st1) g \<Longrightarrow>
    ops E st (st1\<lparr>st_sessions := g\<rparr>)"
  by (erule ops_step) (rule op_sessions)

lemma ops_repo: "ops E st st1 \<Longrightarrow> repo_step save (st_repo st1) r \<Longrightarrow> ops E st (st1\<lparr>st_repo := r\<rparr>)"
  by (erule ops_step) (rule op_repo)

lemma ops_otp: "ops E st st1 \<Longrightarrow> otp_step (srv_crypto E) (st_otp st1) s \<Longrightarrow> ops E st (st1\<lparr>st_otp := s\<rparr>)"
  by (erule ops_step) (rule op_otp)

lemmas ops_intros = ops_refl ops_intro ops_sessions ops_repo ops_otp
  reg_step.intros repo_step.intros otp_step.intros

lemma reg_step_eq: "reg_step J h g g' \<Longrightarrow> g' = g'' \<Longrightarrow> reg_step J h g g''"
  by simp

lemma charge_intent_ops: "charge_intent key now st = (r, st') \<Longrightarrow> ops E st st'"
  by (auto simp: charge_intent_def split: prod.splits intro: ops_intros)

lemma otp_gate_ops: "otp_gate E T ip sid mode pre d st = (r, st') \<Longrightarrow> ops E st st'"
proof -
  assume g: "otp_gate E T ip sid mode pre d st = (r, st')"
  have "otp_step (srv_crypto E) (st_otp st) s"
    if "prefilter_bind (srv_crypto E) h code (srv_pepper E) sid now (st_otp st) = (res, s)" for res s h code now
    using otp_step.step_prefilter [of "srv_crypto E" "st_otp st" h code "srv_pepper E" sid now] that by simp
  with g show ?thesis
    by (auto simp: otp_gate_def Let_def split: if_splits option.splits prod.splits intro!: ops_log ops_otp)
qed

lemma intent_ops:
  assumes "handle_session_intent E T c idn ip sid q host mode pre st = (r, st')"
  shows "ops E st st'"
proof -
  have new: "reg_step (srv_json E) (hash_token (srv_crypto E)) g g'"
    if "create_pending_session req now g = (res, g')" for req now g res g'
    using reg_step.step_create [of "srv_json E" "hash_token (srv_crypto E)" g req now] that by simp
  show ?thesis using assms
    by (auto simp: handle_session_intent_def Let_def split: if_splits sum.splits prod.splits option.splits
        intro!: ops_log ops_sessions dest!: charge_intent_ops [of _ _ _ _ _ E] otp_gate_ops intro: ops_trans new)
qed

lemma pair_steps:
  "accept_session c sid q now g = (r, g') \<Longrightarrow> reg_step J h g g'"
  "reject_session c sid q rr now g = (r, g') \<Longrightarrow> reg_step J h g g'"
  "end_session c sid q why now g = (r, g') \<Longrightarrow> reg_step J h g g'"
  "relay_media_signal J c msg now g = (r, g') \<Longrightarrow> reg_step J h g g'"
  "send_to c msg g = (b, g') \<Longrightarrow> reg_step J h g g'"
  "register_conn g = (c, g') \<Longrightarrow> reg_step J h g g'"
  using reg_step.step_accept [of J h g c sid q now] reg_step.step_reject [of J h g c sid q rr now]
    reg_step.step_end [of J h g c sid q why now] reg_step.step_relay [of J h g c msg now]
    reg_step.step_send [of J h g c msg] reg_step.step_register [of J h g] by simp_all

lemma handle_message_ops:
  assumes "handle_message E T c idn ip msg st = (r, st')"
  shows "ops E st st'"
proof (cases msg)
  case (SessionIntent sid q host mode pre)
  with assms show ?thesis by (auto simp: handle_message_def intro: intent_ops)
next
  case (SessionAccept sid q)
  with assms show ?thesis
    by (auto simp: handle_message_def Let_def split: if_splits prod.splits option.splits
        intro!: ops_log ops_otp ops_sessions otp_step.intros intro: pair_steps)
qed (use assms in \<open>auto simp: handle_message_def Let_def split: if_splits prod.splits
        intro!: ops_log ops_sessions intro: pair_steps\<close>)

lemma handle_text_ops: "handle_text E T c idn text ip st = (r, st') \<Longrightarrow> ops E st st'"
  by (auto simp: handle_text_def split: sum.splits intro: handle_message_ops)

lemma hello_refused_ops: "ops E st st1 \<Longrightarrow> ops E st (hello_refused E T ip role e st1)"
  by (auto simp: hello_refused_def Let_def intro: ops_intros)

lemma send_reply_ops: "ops E st st1 \<Longrightarrow> ops E st (send_reply c msg st1)"
  unfolding send_reply_def by (erule ops_sessions) (rule reg_step.step_send)

lemma expect_hello_ops:
  assumes "expect_hello E T c ip frame st = (r, st')"
  shows "ops E st st'"
proof -
  have start: "ops E st (st\<lparr>st_attempts := t\<rparr>)" for t by (rule ops_attempts) (rule ops_refl)
  have touch: "ops E st (st1\<lparr>st_repo := snd (touch_last_seen save d now (st_repo st1))\<rparr>)" if "ops E st st1" for st1 save d now
    using that by (rule ops_repo) (rule repo_step.step_touch)
  have bind: "ops E st (st1\<lparr>st_sessions := bind_peer c idn (st_sessions st1)\<rparr>)" if "ops E st st1" for st1 idn
    using that by (rule ops_sessions) (rule reg_step.step_bind)
  have bound: "ops E st (st\<lparr>st_attempts := t, st_sessions := g\<rparr>)"
    if "send_to c m (bind_peer c idn (st_sessions st)) = (b, g)" for t m idn b g
    using ops_sessions [OF bind [OF start [of t], of idn], of g] pair_steps(5) [OF that] by simp
  show ?thesis using assms
    by (auto simp: expect_hello_def Let_def start bound hello_refused_ops split: option.splits ws_event.splits ws_frame.splits
        sum.splits signal_message.splits if_splits prod.splits role.splits dest: touch [OF bound])
qed

lemma socket_event_ops: "socket_event E T c idn ip ev st = (b, st') \<Longrightarrow> ops E st st'"
  by (auto simp: socket_event_def split: ws_event.splits ws_frame.splits prod.splits sum.splits
      intro: send_reply_ops handle_text_ops)

lemma socket_loop_ops: "ops E st (socket_loop E T c idn ip evs st)"
proof (induction evs arbitrary: T st)
  case (Cons ev evs)
  obtain b st1 where e: "socket_event E (T 0) c idn ip ev st = (b, st1)" by fastforce
  from socket_event_ops [OF e] Cons.IH [where st = st1] show ?case
    by (cases b) (auto simp: e intro: ops_trans)
qed simp

lemma close_socket_ops: "ops E st st1 \<Longrightarrow> ops E st (close_socket c tx st1)"
proof -
  assume "ops E st st1"
  then have "ops E st (st1\<lparr>st_sessions := unregister_conn c (st_sessions st1)\<rparr>)"
    by (rule ops_sessions) (rule reg_step.step_unregister)
  from ops_sessions [OF this, of "drop_receiver tx (unregister_conn c (st_sessions st1))"] show ?thesis
    by (simp add: close_socket_def reg_step.step_drop)
qed

lemma handle_socket_ops: "ops E st (handle_socket E T ip evs st)"
proof -
  obtain c g where r: "register_conn (st_sessions st) = (c, g)" by fastforce
  obtain res st2 where h: "expect_hello E (T 0) c ip (case evs of [] \<Rightarrow> None | ev # _ \<Rightarrow> Some ev) (st\<lparr>st_sessions := g\<rparr>) = (res, st2)"
    by fastforce
  have "ops E st (st\<lparr>st_sessions := g\<rparr>)" by (rule ops_sessions [OF ops_refl]) (rule pair_steps(6) [OF r])
  with expect_hello_ops [OF h] have 2: "ops E st st2" by (blast intro: ops_trans)
  show ?thesis
  proof (cases res)
    case (Inl e)
    with 2 show ?thesis by (simp add: handle_socket_def r h Let_def close_socket_ops send_reply_ops)
  next
    case (Inr idn)
    have "ops E st (socket_loop E (\<lambda>i. T (Suc i)) c idn ip (tl evs) st2)" using 2 socket_loop_ops by (rule ops_trans)
    with Inr show ?thesis by (simp add: handle_socket_def r h Let_def close_socket_ops)
  qed
qed

section \<open>How sessions come to be\<close>

text \<open>No operation but a granted intent stores a session under a new id, and only an accept activates one.\<close>

lemma reap_known: "hwf (sessions g) \<Longrightarrow> hget (sessions (reap now g)) sid = Some s \<Longrightarrow> hget (sessions g) sid = Some s"
  by (auto simp: sessions_reap split: option.splits if_splits)

lemma accept_known:
  assumes "hwf (sessions g)" and "hget (sessions (snd (accept_session c sid q now g))) sid' = Some s"
  shows "\<exists>s0. hget (sessions g) sid' = Some s0 \<and>
    (s = s0 \<or> sid' = sid \<and> s_state s0 = Pending \<and> s_host_conn s0 = c \<and> s_state s = Active \<and>
      fst (accept_session c sid q now g) = Inr ())"
  using assms(2) reap_known [OF assms(1)]
  by (fastforce simp: accept_session_def Let_def split: option.splits if_splits)

lemma reject_known:
  "hwf (sessions g) \<Longrightarrow> hget (sessions (snd (reject_session c sid q r now g))) sid' = Some s \<Longrightarrow> hget (sessions g) sid' = Some s"
  using reap_known [of g now sid' s]
  by (auto simp: reject_session_def Let_def split: option.splits if_splits)

lemma end_known:
  "hwf (sessions g) \<Longrightarrow> hget (sessions (snd (end_session c sid q why now g))) sid' = Some s \<Longrightarrow> hget (sessions g) sid' = Some s"
  using reap_known [of g now sid' s]
  by (auto simp: end_session_def Let_def split: option.splits if_splits)

lemma relay_known:
  assumes "hwf (sessions g)" and "hget (sessions (snd (relay_media_signal J c msg now g))) sid = Some s"
  shows "\<exists>s0. hget (sessions g) sid = Some s0 \<and> s_state s = s_state s0"
  using sessions_relay [of J c msg now g sid]
proof (elim disjE exE conjE)
  fix q s0
  assume "hget (sessions (reap now g)) sid = Some s0"
    and "hget (sessions (snd (relay_media_signal J c msg now g))) sid = Some (s0\<lparr>s_next_signal_seq := sat_add q 1\<rparr>)"
  with assms(2) reap_known [OF assms(1), of now sid s0] show ?thesis by auto
qed (use assms(2) reap_known [OF assms(1), of now sid s] in metis)+

lemma send_to_known:
  "send_to c m g = (b, g') \<Longrightarrow> sessions g' = sessions g \<and> host_by_public_id g' = host_by_public_id g"
  using send_to_frame [of c m g] by simp

lemma create_known:
  assumes "reg_inv g" and "hget (sessions (snd (create_pending_session req now g))) sid = Some s"
  shows "hget (sessions g) sid = Some s \<or>
    fst (create_pending_session req now g) = Inr () \<and> sid = cp_session_id req \<and> s_session_id s = sid \<and> s_state s = Pending \<and>
    s_host_public_id s = cp_host_public_id req \<and> s_viewer_conn s = cp_viewer_conn req \<and> s_mode s = cp_mode req \<and>
    hget (host_by_public_id g) (cp_host_public_id req) = Some (s_host_conn s)"
proof -
  have wf: "hwf (sessions g)" by (rule reg_invD(1) [OF assms(1)])
  let ?g = "reap now g" and ?sid = "cp_session_id req" and ?host = "cp_host_public_id req" and ?q = "cp_signal_seq req"
  consider (refused) "sessions (snd (create_pending_session req now g)) = sessions ?g"
    | (stored) hc n g1 m g2 where "hget (host_by_public_id g) ?host = Some hc" "send_to hc m g1 = (True, g2)"
        "create_pending_session req now g = (Inr (), g2)"
        "sessions g1 = hput ?sid \<lparr>s_session_id = ?sid, s_host_public_id = ?host, s_host_device_id = cp_host_device_id req,
           s_host_conn = hc, s_viewer_conn = cp_viewer_conn req, s_mode = cp_mode req, s_state = Pending,
           s_next_signal_seq = n, s_created_at = now, s_expires_at = now + pending_ttl g\<rparr> (sessions ?g)"
    | (undone) "\<And>s. hget (sessions (snd (create_pending_session req now g))) sid = Some s \<Longrightarrow> hget (sessions ?g) sid = Some s"
  proof (cases "hget (sessions ?g) ?sid \<noteq> None \<or> hget (host_busy ?g) ?host \<noteq> None \<or> hget (host_by_public_id g) ?host = None \<or>
      checked_add ?q 1 = None \<or> checked_add (the (checked_add ?q 1)) 1 = None")
    case True
    then have "sessions (snd (create_pending_session req now g)) = sessions ?g"
      by (auto simp: create_pending_session_def Let_def split: option.split)
    then show thesis by (rule refused)
  next
    case False
    then obtain hc q n where
      f: "hget (sessions ?g) ?sid = None" "hget (host_busy ?g) ?host = None" "hget (host_by_public_id g) ?host = Some hc"
        "checked_add ?q 1 = Some q" "checked_add q 1 = Some n"
      by auto
    let ?g1 = "?g\<lparr>host_busy := hput ?host ?sid (host_busy ?g),
        sessions := hput ?sid \<lparr>s_session_id = ?sid, s_host_public_id = ?host, s_host_device_id = cp_host_device_id req,
           s_host_conn = hc, s_viewer_conn = cp_viewer_conn req, s_mode = cp_mode req, s_state = Pending,
           s_next_signal_seq = n, s_created_at = now, s_expires_at = now + pending_ttl g\<rparr> (sessions ?g)\<rparr>"
    let ?m = "SessionIncoming ?sid q (cp_viewer_info req) (cp_mode req) PrefilterSkipped"
    obtain b g2 where send: "send_to hc ?m ?g1 = (b, g2)" by fastforce
    show thesis
    proof (cases b)
      case True
      show thesis
        by (rule stored [OF f(3), of ?m ?g1 g2]) (use send True f in \<open>simp_all add: create_pending_session_def Let_def\<close>)
    next
      case False
      have "sessions g2 = sessions ?g1" using send_to_known [OF send] by simp
      with send False f show thesis
        by (intro undone) (auto simp: create_pending_session_def Let_def split: if_splits)
    qed
  qed
  then show ?thesis
  proof cases
    case stored
    with assms(2) send_to_known [OF stored(2)] reap_known [OF wf, of now sid s] show ?thesis
      by (auto split: if_splits)
  qed (use assms(2) reap_known [OF wf, of now sid s] in auto)
qed

section \<open>The gates of a session intent\<close>

lemma charge_frame:
  "charge_intent key now st = (r, st') \<Longrightarrow> st_sessions st' = st_sessions st \<and> st_repo st' = st_repo st \<and>
    st_otp st' = st_otp st \<and> st_blocklist st' = st_blocklist st"
  by (auto simp: charge_intent_def split: prod.splits)

lemma log_event_frame [simp]:
  "st_sessions (log_event d s ty m now st) = st_sessions st" "st_repo (log_event d s ty m now st) = st_repo st"
  "st_otp (log_event d s ty m now st) = st_otp st" "st_blocklist (log_event d s ty m now st) = st_blocklist st"
  "st_attempts (log_event d s ty m now st) = st_attempts st"
  by (simp_all add: log_event_def)

lemma otp_gate_frame:
  "otp_gate E T ip sid mode pre d st = (r, st') \<Longrightarrow>
    st_sessions st' = st_sessions st \<and> st_repo st' = st_repo st \<and> st_blocklist st' = st_blocklist st"
  by (auto simp: otp_gate_def Let_def split: if_splits option.splits prod.splits)

lemma active_for_host_row:
  assumes "otp_inv g"
  shows "active_for_host host now g = Some row \<longleftrightarrow>
    (\<exists>i. host_row g host = Some (i, row) \<and> so_consumed_at row = None \<and> now < so_expires_at row)"
  by (cases rule: host_row_cases [OF assms, of host]) (auto simp: active_for_host_def)

lemma active_for_host_eq:
  assumes "otp_inv g" and "host_row g host = Some (i, row)"
  shows "active_for_host host now g = (if so_consumed_at row = None \<and> now < so_expires_at row then Some row else None)"
  using assms(2) by (cases rule: host_row_cases [OF assms(1), of host]) (auto simp: active_for_host_def)

lemma prefilter_ok_row:
  assumes "otp_inv g" and "host_row g host = Some (i, row)" and "prefilter_bind K host code pepper sid now g = (OtpOk, g')"
  shows "verify_otp K code pepper (so_hash row) = Inr () \<and> host_row g' host = Some (i, row\<lparr>so_session_intent_id := Some sid\<rparr>)"
  using prefilter_bind_row [OF assms(1,2), of K code pepper sid now] assms(3)
  by (auto simp: prefilter_spec_def split: if_splits)

definition otp_gate_passed ::
  "'j server_env \<Rightarrow> readings \<Rightarrow> string \<Rightarrow> 'j \<Rightarrow> int \<Rightarrow> otp_store \<Rightarrow> otp_store \<Rightarrow> bool" where
  "otp_gate_passed E T sid pre host s s' \<longleftrightarrow>
     (active_for_host host (utc T 1) s \<noteq> None \<longrightarrow>
      (\<exists>code i row. presented_code (srv_json E) pre = Some code \<and> host_row s host = Some (i, row) \<and>
        verify_otp (srv_crypto E) code (srv_pepper E) (so_hash row) = Inr () \<and>
        host_row s' host = Some (i, row\<lparr>so_session_intent_id := Some sid\<rparr>)))"

lemma otp_gate_ok:
  assumes "otp_gate E T ip sid Otp pre d st = (Inr (), st')" and "otp_inv (st_otp st)"
  shows "otp_gate_passed E T sid pre (dv_id d) (st_otp st) (st_otp st')"
proof (cases "active_for_host (dv_id d) (utc T 1) (st_otp st)")
  case (Some row)
  then obtain i where row: "host_row (st_otp st) (dv_id d) = Some (i, row)" using active_for_host_row [OF assms(2)] by blast
  from assms(1) Some obtain code where code: "presented_code (srv_json E) pre = Some code"
    by (auto simp: otp_gate_def split: option.splits)
  obtain res s where pb: "prefilter_bind (srv_crypto E) (dv_id d) code (srv_pepper E) sid (utc T 1) (st_otp st) = (res, s)"
    by fastforce
  from assms(1) Some code pb have "res = OtpOk" "st_otp st' = s"
    by (auto simp: otp_gate_def Let_def split: if_splits)
  with prefilter_ok_row [OF assms(2) row] pb code row show ?thesis by (auto simp: otp_gate_passed_def)
qed (simp add: otp_gate_passed_def)

definition gates_passed ::
  "'j server_env \<Rightarrow> readings \<Rightarrow> peer_identity \<Rightarrow> string \<Rightarrow> string \<Rightarrow> string \<Rightarrow> session_mode \<Rightarrow> 'j \<Rightarrow> 'j app_state \<Rightarrow> 'j app_state \<Rightarrow> bool" where
  "gates_passed E T idn ip sid host mode pre st st' \<longleftrightarrow>
     p_role idn = Viewer \<and>
     (\<exists>dev. get_by_public_id host (st_repo st) = Some dev \<and> dv_status dev = StatusActive \<and>
        (\<forall>(ty, h) \<in> set (intent_subjects (srv_crypto E) ip idn). \<not> is_blocked (dv_id dev) ty h (st_blocklist st)) \<and>
        (mode = Otp \<longrightarrow> otp_gate_passed E T sid pre (dv_id dev) (st_otp st) (st_otp st')))"

abbreviation intent_request ::
  "'j json_api \<Rightarrow> conn_id \<Rightarrow> peer_identity \<Rightarrow> string \<Rightarrow> u64 \<Rightarrow> string \<Rightarrow> int \<Rightarrow> session_mode \<Rightarrow> 'j create_pending" where
  "intent_request J c idn sid q host device mode \<equiv> \<lparr>cp_viewer_conn = c, cp_session_id = sid, cp_host_public_id = host,
     cp_host_device_id = device, cp_mode = mode, cp_signal_seq = q, cp_viewer_info = default_viewer_info J idn\<rparr>"

text \<open>An intent is refused with an error, sessions untouched, or has passed every gate and goes to the registry.\<close>

lemma intent_cases:
  assumes h: "handle_session_intent E T c idn ip sid q host mode pre st = (r, st')"
  obtains (refused) code m where "r = Inl (Error code m)" "st_sessions st' = st_sessions st"
    | (passed) dev st1 st2 where "p_role idn = Viewer" "get_by_public_id host (st_repo st) = Some dev"
        "dv_status dev = StatusActive" "any_blocked (dv_id dev) (intent_subjects (srv_crypto E) ip idn) (st_blocklist st) = None"
        "otp_gate E T ip sid mode pre dev st1 = (Inr (), st2)" "st_otp st1 = st_otp st" "st_otp st' = st_otp st2"
        "create_pending_session (intent_request (srv_json E) c idn sid q host (dv_id dev) mode) (utc T 3) (st_sessions st) =
           (r, st_sessions st')"
proof -
  obtain r1 st1 where c1: "charge_intent (''session_intent:ip:'' @ ip) (mono_clock T 0) st = (r1, st1)" by fastforce
  note f1 = charge_frame [OF c1]
  have "(\<exists>code m. r = Inl (Error code m) \<and> st_sessions st' = st_sessions st) \<or>
      p_role idn = Viewer \<and> sid \<noteq> [] \<and> host \<noteq> [] \<and> r1 = Inr () \<and>
      (\<exists>dev. get_by_public_id host (st_repo st) = Some dev \<and> dv_status dev = StatusActive \<and>
        any_blocked (dv_id dev) (intent_subjects (srv_crypto E) ip idn) (st_blocklist st) = None)"
    using h f1 c1
    by (auto simp: handle_session_intent_def Let_def error_msg_def split: if_splits sum.splits option.splits prod.splits)
  then consider (early) code m where "r = Inl (Error code m)" "st_sessions st' = st_sessions st"
    | (pass) dev where "p_role idn = Viewer" "sid \<noteq> []" "host \<noteq> []" "r1 = Inr ()"
      "get_by_public_id host (st_repo st) = Some dev" "dv_status dev = StatusActive"
      "any_blocked (dv_id dev) (intent_subjects (srv_crypto E) ip idn) (st_blocklist st) = None"
    by blast
  then show thesis
  proof cases
    case early
    then show thesis by (rule refused)
  next
    case pass
    obtain r2 st2 where g: "otp_gate E T ip sid mode pre dev st1 = (r2, st2)" by fastforce
    note f2 = otp_gate_frame [OF g]
    obtain r3 st3 where c3: "charge_intent (''session_intent:host:'' @ host) (mono_clock T 1) st2 = (r3, st3)" by fastforce
    note f3 = charge_frame [OF c3]
    obtain res g' where cp: "create_pending_session (intent_request (srv_json E) c idn sid q host (dv_id dev) mode)
        (utc T 3) (st_sessions st) = (res, g')" by fastforce
    have eq: "handle_session_intent E T c idn ip sid q host mode pre st =
        (case r2 of Inl e \<Rightarrow> (Inl e, st2)
         | Inr _ \<Rightarrow> (case r3 of Inl e \<Rightarrow> (Inl (error_msg ''rate_limited'' (show_rate_limit_exceeded e)), st3)
           | Inr _ \<Rightarrow> (res, if res = Inr () then
                 log_event (Some (dv_id dev)) (Some sid) EvSessionIntent
                   (json_object (srv_json E) [(''result'', json_str (srv_json E) ''pending''), (''viewer_ip'', json_str (srv_json E) ip),
                     (''viewer_device'', json_opt (srv_json E) (p_device_public_id idn)),
                     (''mode'', json_str (srv_json E) (debug_session_mode mode))]) (utc T 4) (st3\<lparr>st_sessions := g'\<rparr>)
               else st3\<lparr>st_sessions := g'\<rparr>)))"
      using f1 f2 f3 pass
      by (simp add: handle_session_intent_def Let_def c1 g c3 cp del: append_Cons One_nat_def split: sum.split)
    show thesis
    proof (cases "r2 = Inr () \<and> r3 = Inr ()")
      case True
      with h eq have r: "r = res" "st_sessions st' = g'" "st_otp st' = st_otp st2" using f3 by (auto split: if_splits)
      show thesis
        by (rule passed [OF pass(1,5-7), of st1 st2]) (use True g f1 r cp in simp_all)
    next
      case False
      have "\<exists>code m. e = Error code m" if "r2 = Inl e" for e
        using g that by (auto simp: otp_gate_def Let_def error_msg_def split: if_splits option.splits prod.splits)
      with False h [unfolded eq] f1 f2 f3 show thesis
        by (cases r2; cases r3) (auto simp: error_msg_def intro: refused)
    qed
  qed
qed

lemma intent_gates:
  assumes "handle_session_intent E T c idn ip sid q host mode pre st = (r, st')" and "reg_inv (st_sessions st)"
    and "otp_inv (st_otp st)" and "hget (sessions (st_sessions st)) x = None" and "hget (sessions (st_sessions st')) x = Some s"
  shows "r = Inr () \<and> x = sid \<and> gates_passed E T idn ip sid host mode pre st st' \<and> s_session_id s = sid \<and> s_state s = Pending \<and>
    s_host_public_id s = host \<and> s_viewer_conn s = c \<and> s_mode s = mode \<and>
    hget (host_by_public_id (st_sessions st)) host = Some (s_host_conn s)"
  using assms(1)
proof (cases rule: intent_cases)
  case (passed dev st1 st2)
  from create_known [OF assms(2), of "intent_request (srv_json E) c idn sid q host (dv_id dev) mode" "utc T 3" x s] assms(4,5) passed(8)
  have new: "r = Inr () \<and> x = sid \<and> s_session_id s = sid \<and> s_state s = Pending \<and> s_host_public_id s = host \<and>
      s_viewer_conn s = c \<and> s_mode s = mode \<and> hget (host_by_public_id (st_sessions st)) host = Some (s_host_conn s)"
    by simp
  have "otp_gate_passed E T sid pre (dv_id dev) (st_otp st) (st_otp st')" if "mode = Otp"
    using otp_gate_ok [of E T ip sid pre dev st1 st2] passed(5-7) that assms(3) by simp
  with new passed(1-4) show ?thesis by (auto simp: gates_passed_def any_blocked_None)
qed (use assms(4,5) in simp)

lemma message_new_session:
  assumes "handle_message E T c idn ip msg st = (r, st')" and "reg_inv (st_sessions st)"
    and "hget (sessions (st_sessions st)) x = None" and "hget (sessions (st_sessions st')) x = Some s"
  shows "\<exists>sid q host mode pre. msg = SessionIntent sid q host mode pre \<and> handle_session_intent E T c idn ip sid q host mode pre st = (r, st')"
proof (cases msg)
  case (SessionAccept sid q)
  have "hget (sessions (snd (accept_session c sid q (utc T 0) (st_sessions st)))) x = None"
    using accept_known [OF reg_invD(1) [OF assms(2)], of c sid q "utc T 0" x] assms(3)
    by (cases "hget (sessions (snd (accept_session c sid q (utc T 0) (st_sessions st)))) x") auto
  with SessionAccept assms show ?thesis
    by (auto simp: handle_message_def Let_def split: if_splits prod.splits option.splits)
next
  case (SessionReject sid q w)
  have "hget (sessions (snd (reject_session c sid q w (utc T 0) (st_sessions st)))) x = None"
    using reject_known [OF reg_invD(1) [OF assms(2)], of c sid q w "utc T 0" x] assms(3)
    by (cases "hget (sessions (snd (reject_session c sid q w (utc T 0) (st_sessions st)))) x") auto
  with SessionReject assms show ?thesis
    by (auto simp: handle_message_def Let_def split: if_splits prod.splits option.splits)
next
  case (SessionEnd sid q w)
  have "hget (sessions (snd (end_session c sid q w (utc T 0) (st_sessions st)))) x = None"
    using end_known [OF reg_invD(1) [OF assms(2)], of c sid q w "utc T 0" x] assms(3)
    by (cases "hget (sessions (snd (end_session c sid q w (utc T 0) (st_sessions st)))) x") auto
  with SessionEnd assms show ?thesis
    by (auto simp: handle_message_def Let_def split: if_splits prod.splits option.splits)
qed (use assms relay_known [OF reg_invD(1) [OF assms(2)], of "srv_json E" c msg "utc T 0" x] in
    \<open>auto simp: handle_message_def Let_def split: prod.splits\<close>)

end
