(* ===== verification/Server_Http.thy ===== *)
theory Server_Http
  imports Server_State Device_Id Challenge
begin

text \<open>
  The device endpoints of the server (\<open>apps/server/src/routes/devices.rs\<close>) and the HTTP errors
  (\<open>apps/server/src/error.rs\<close>): enrollment, token refresh with its lockouts, minting of one-time codes and
  deletion. A request is what the router extracted: the path id, the header map, the peer address and the
  deserialized body. The base64 decoders and the Ed25519 library are the fields of \<open>http_api\<close>.
\<close>

section \<open>Errors\<close>

datatype app_error =
    AppBadRequest string
  | AppUnauthorized
  | AppNotFound
  | AppConflict string
  | AppForbidden string
  | AppRateLimited string nat
  | AppInternal string

definition app_rate_limited :: "string \<Rightarrow> duration \<Rightarrow> app_error" where
  "app_rate_limited message retry_after = AppRateLimited message (max (as_secs retry_after) 1)"

fun show_app_error :: "app_error \<Rightarrow> string" where
  "show_app_error (AppBadRequest e) = ''bad request: '' @ e"
| "show_app_error AppUnauthorized = ''unauthorized''"
| "show_app_error AppNotFound = ''not found''"
| "show_app_error (AppConflict e) = ''conflict: '' @ e"
| "show_app_error (AppForbidden e) = ''forbidden: '' @ e"
| "show_app_error (AppRateLimited message _) = message"
| "show_app_error (AppInternal e) = ''internal error: '' @ e"

fun code_and_status :: "app_error \<Rightarrow> string \<times> nat" where
  "code_and_status (AppBadRequest _) = (''bad_request'', 400)"
| "code_and_status AppUnauthorized = (''unauthorized'', 401)"
| "code_and_status AppNotFound = (''not_found'', 404)"
| "code_and_status (AppConflict _) = (''conflict'', 409)"
| "code_and_status (AppForbidden _) = (''forbidden'', 403)"
| "code_and_status (AppRateLimited _ _) = (''rate_limited'', 429)"
| "code_and_status (AppInternal _) = (''internal'', 500)"

fun client_message :: "app_error \<Rightarrow> string" where
  "client_message (AppInternal _) = ''internal error''"
| "client_message e = show_app_error e"

record error_response =
  er_status :: nat
  er_error :: string
  er_message :: string
  er_retry_after :: "string option"

definition into_response :: "app_error \<Rightarrow> error_response" where
  "into_response e =
     (let (code, status) = code_and_status e in
      \<lparr>er_status = status, er_error = code, er_message = client_message e,
       er_retry_after = (case e of AppRateLimited _ s \<Rightarrow> Some (show_nat s) | _ \<Rightarrow> None)\<rparr>)"

fun app_error_of_repo :: "repo_error \<Rightarrow> app_error" where
  "app_error_of_repo RepoNotFound = AppNotFound"
| "app_error_of_repo (Conflict msg) = AppConflict msg"
| "app_error_of_repo StaleCredential = AppUnauthorized"
| "app_error_of_repo (Internal msg) = AppInternal msg"

fun app_error_of_blocklist :: "blocklist_error \<Rightarrow> app_error" where
  "app_error_of_blocklist BlNotFound = AppNotFound"
| "app_error_of_blocklist (BlConflict msg) = AppConflict msg"
| "app_error_of_blocklist (BlInternal msg) = AppInternal msg"

section \<open>Requests\<close>

record http_api =
  http_ed :: ed25519
  b64_standard :: "string \<Rightarrow> bytes option"
  b64_url_safe_no_pad :: "string \<Rightarrow> bytes option"
  b64_url_safe :: "string \<Rightarrow> bytes option"
  b64_standard_no_pad :: "string \<Rightarrow> bytes option"

record register_request =
  rr_public_key :: string
  rr_display_name :: "string option"
  rr_protocol_version :: "u32 option"

record token_response =
  tr_access_token :: string
  tr_refresh_token :: string
  tr_expires_at :: string
  tr_token_type :: string

record register_response =
  rg_public_id :: string
  rg_display_name :: "string option"
  rg_protocol_version :: u32
  rg_tokens :: token_response

record otp_mint_response =
  om_expires_at :: string
  om_otp_id :: int

definition token_response_of :: "(datetime \<Rightarrow> string) \<Rightarrow> issued_tokens \<Rightarrow> token_response" where
  "token_response_of rfc3339 issued =
     \<lparr>tr_access_token = access_token issued, tr_refresh_token = refresh_token issued,
      tr_expires_at = rfc3339 (it_expires_at issued), tr_token_type = ''Bearer''\<rparr>"

definition http_client_ip :: "'j server_env \<Rightarrow> header_map \<Rightarrow> ip_addr option \<Rightarrow> string" where
  "http_client_ip E headers peer_addr = resolve_client_ip (srv_ip E) headers peer_addr (srv_trust_proxy E)"

definition parse_public_id_path :: "string \<Rightarrow> app_error + string" where
  "parse_public_id_path raw =
     (case parse_device_id raw of
        Inl e \<Rightarrow> Inl (AppBadRequest (''invalid device id: '' @ show_auth_error e)) | Inr d \<Rightarrow> Inr d)"

definition strip_bearer :: "string \<Rightarrow> string option" where
  "strip_bearer s = (case strip_prefix ''Bearer '' s of Some r \<Rightarrow> Some r | None \<Rightarrow> strip_prefix ''bearer '' s)"

definition bearer_token :: "header_map \<Rightarrow> app_error + string" where
  "bearer_token headers =
     (case header ''authorization'' headers of
        None \<Rightarrow> Inl AppUnauthorized
      | Some v \<Rightarrow> (case strip_bearer v of
          None \<Rightarrow> Inl AppUnauthorized
        | Some rest \<Rightarrow> if rest = [] then Inl AppUnauthorized else Inr rest))"

definition decode_public_key :: "http_api \<Rightarrow> string \<Rightarrow> app_error + bytes" where
  "decode_public_key A encoded =
     (let trimmed = trim encoded in
      if trimmed = [] then Inl (AppBadRequest ''public_key is required'')
      else
        case (case b64_standard A trimmed of Some b \<Rightarrow> Some b | None \<Rightarrow>
               (case b64_url_safe_no_pad A trimmed of Some b \<Rightarrow> Some b | None \<Rightarrow>
                 (case b64_url_safe A trimmed of Some b \<Rightarrow> Some b | None \<Rightarrow> b64_standard_no_pad A trimmed))) of
          None \<Rightarrow> Inl (AppBadRequest ''public_key must be base64-encoded'')
        | Some bs \<Rightarrow>
            if length bs \<noteq> 32 then
              Inl (AppBadRequest (''public_key must decode to 32 bytes, got '' @ show_nat (length bs)))
            else Inr bs)"

definition normalize_display_name :: "string option \<Rightarrow> app_error + string option" where
  "normalize_display_name name =
     (case name of
        None \<Rightarrow> Inr None
      | Some s \<Rightarrow>
          let t = trim s in
          if t = [] then Inr None
          else if length t > 128 then Inl (AppBadRequest ''display_name must be at most 128 characters'')
          else Inr (Some t))"

section \<open>Failed authentication\<close>

datatype auth_failure_scope = IpOnly | CredentialBound

text \<open>The keys of a lockout check or a failure, each with the clock reading it is made at.\<close>

fun check_lockouts :: "(string \<times> instant) list \<Rightarrow> attempt_tracker \<Rightarrow> (app_error + unit) \<times> attempt_tracker" where
  "check_lockouts [] t = (Inr (), t)"
| "check_lockouts ((key, now) # keys) t =
     (case attempt_check key now t of
        (Inl lock, t1) \<Rightarrow> (Inl (app_rate_limited (show_lockout_active lock) (la_retry_after lock)), t1)
      | (Inr _, t1) \<Rightarrow> check_lockouts keys t1)"

definition check_auth_lockout ::
  "readings \<Rightarrow> string \<Rightarrow> string \<Rightarrow> 'j app_state \<Rightarrow> (app_error + unit) \<times> 'j app_state" where
  "check_auth_lockout T public_id ip st =
     (case check_lockouts [(key_ip ip, mono_clock T 2), (key_device_ip public_id ip, mono_clock T 3),
             (key_device public_id, mono_clock T 4)] (st_attempts st) of
        (r, t) \<Rightarrow> (r, st\<lparr>st_attempts := t\<rparr>))"

fun record_failures :: "(string \<times> instant) list \<Rightarrow> attempt_tracker \<Rightarrow> attempt_tracker" where
  "record_failures [] t = t"
| "record_failures ((key, now) # keys) t = record_failures keys (snd (record_failure key now t))"

fun failure_keys :: "auth_failure_scope \<Rightarrow> readings \<Rightarrow> string \<Rightarrow> string \<Rightarrow> (string \<times> instant) list" where
  "failure_keys IpOnly T public_id ip = [(key_ip ip, mono_clock T 5), (key_device_ip public_id ip, mono_clock T 6)]"
| "failure_keys CredentialBound T public_id ip =
     [(key_ip ip, mono_clock T 5), (key_device public_id, mono_clock T 6), (key_device_ip public_id ip, mono_clock T 7)]"

fun scope_str :: "auth_failure_scope \<Rightarrow> string" where
  "scope_str IpOnly = ''ip_only''"
| "scope_str CredentialBound = ''credential_bound''"

definition record_auth_failure ::
  "'j server_env \<Rightarrow> readings \<Rightarrow> string \<Rightarrow> string \<Rightarrow> string \<Rightarrow> auth_failure_scope \<Rightarrow> 'j app_state \<Rightarrow> 'j app_state" where
  "record_auth_failure E T public_id ip reason scope st =
     (let J = srv_json E;
          st1 = st\<lparr>st_attempts := record_failures (failure_keys scope T public_id ip) (st_attempts st)\<rparr>;
          device_id = (case get_by_public_id public_id (st_repo st1) of Some d \<Rightarrow> Some (dv_id d) | None \<Rightarrow> None)
      in log_event device_id None EvLoginFail
           (json_object J [(''public_id'', json_str J public_id), (''ip'', json_str J ip),
              (''reason'', json_str J reason), (''scope'', json_str J (scope_str scope))]) (utc T 2) st1)"

definition clear_auth_failures :: "string \<Rightarrow> string \<Rightarrow> 'j app_state \<Rightarrow> 'j app_state" where
  "clear_auth_failures public_id ip st =
     st\<lparr>st_attempts := record_success (key_device_ip public_id ip)
          (record_success (key_device public_id) (record_success (key_ip ip) (st_attempts st)))\<rparr>"

section \<open>Enrollment\<close>

definition charge_register :: "string \<Rightarrow> instant \<Rightarrow> 'j app_state \<Rightarrow> (rate_limit_exceeded + unit) \<times> 'j app_state" where
  "charge_register key now st =
     (case rate_check key now (lim_register (st_limits st)) of
        (r, l) \<Rightarrow> (r, st\<lparr>st_limits := (st_limits st)\<lparr>lim_register := l\<rparr>\<rparr>))"

text \<open>
  The loop over fresh public ids: attempt \<open>k\<close> draws its digits with \<open>draws k\<close>, and only a collision
  moves on to the next attempt.
\<close>

fun allocate_device ::
  "readings \<Rightarrow> (nat \<Rightarrow> nat \<Rightarrow> nat) \<Rightarrow> string option \<Rightarrow> bytes \<Rightarrow> u32 \<Rightarrow> nat list \<Rightarrow> device_store
     \<Rightarrow> (repo_error + device option) \<times> device_store" where
  "allocate_device T draws display_name public_key version [] g = (Inr None, g)"
| "allocate_device T draws display_name public_key version (k # ks) g =
     (case create_device (save_outcome T k)
           \<lparr>nd_public_id = generate_with_rng (draws k), nd_display_name = display_name, nd_public_key = public_key,
            nd_protocol_version_last = Some (uint version)\<rparr> (utc T k) g of
        (Inr d, g1) \<Rightarrow> (Inr (Some d), g1)
      | (Inl (Conflict _), g1) \<Rightarrow> allocate_device T draws display_name public_key version ks g1
      | (Inl e, g1) \<Rightarrow> (Inl e, g1))"

definition register_device ::
  "'j server_env \<Rightarrow> http_api \<Rightarrow> readings \<Rightarrow> (nat \<Rightarrow> nat \<Rightarrow> nat) \<Rightarrow> header_map \<Rightarrow> ip_addr option \<Rightarrow> register_request
     \<Rightarrow> 'j app_state \<Rightarrow> (app_error + nat \<times> register_response) \<times> 'j app_state" where
  "register_device E A T draws headers peer_addr body st =
     (let ip = http_client_ip E headers peer_addr; J = srv_json E in
      case charge_register (''register:'' @ ip) (mono_clock T 0) st of
        (Inl e, st1) \<Rightarrow> (Inl (app_rate_limited (show_rate_limit_exceeded e) (rl_retry_after e)), st1)
      | (Inr _, st1) \<Rightarrow>
        (case decode_public_key A (rr_public_key body) of
           Inl e \<Rightarrow> (Inl e, st1)
         | Inr public_key \<Rightarrow>
           (case verifying_key_from_bytes (http_ed A) public_key of
              Inl e \<Rightarrow> (Inl (AppBadRequest (show_auth_error e)), st1)
            | Inr _ \<Rightarrow>
              let version = (case rr_protocol_version body of None \<Rightarrow> PROTOCOL_VERSION | Some v \<Rightarrow> v) in
              if version = 0 \<or> version > PROTOCOL_VERSION then
                (Inl (AppBadRequest (''unsupported protocol_version '' @ show_word version @
                   '' (server max '' @ show_word PROTOCOL_VERSION @ '')'')), st1)
              else (case normalize_display_name (rr_display_name body) of
                 Inl e \<Rightarrow> (Inl e, st1)
               | Inr display_name \<Rightarrow>
                 (case allocate_device T draws display_name public_key version [0 ..< 5] (st_repo st1) of
                    (Inl e, g) \<Rightarrow> (Inl (app_error_of_repo e), st1\<lparr>st_repo := g\<rparr>)
                  | (Inr None, g) \<Rightarrow>
                      (Inl (AppInternal ''failed to allocate unique public_id after retries''), st1\<lparr>st_repo := g\<rparr>)
                  | (Inr (Some dev), g) \<Rightarrow>
                      let now = utc T 5; issued = mint_tokens (random_body T 0) (random_body T 1) now in
                      (case insert_credential (save_outcome T 5)
                             (new_credential_from_issued (srv_crypto E) (dv_id dev) issued now) (utc T 6) g of
                         (Inl e, g2) \<Rightarrow> (Inl (app_error_of_repo e), st1\<lparr>st_repo := g2\<rparr>)
                       | (Inr _, g2) \<Rightarrow>
                           (Inr (201, \<lparr>rg_public_id = dv_public_id dev, rg_display_name = dv_display_name dev,
                              rg_protocol_version = version, rg_tokens = token_response_of (srv_rfc3339 E) issued\<rparr>),
                            log_event (Some (dv_id dev)) None EvRegister
                              (json_object J [(''public_id'', json_str J (dv_public_id dev)), (''ip'', json_str J ip)])
                              (utc T 7) (st1\<lparr>st_repo := g2\<rparr>))))))))"

section \<open>Refreshing the tokens\<close>

definition charge_refresh :: "string \<Rightarrow> instant \<Rightarrow> 'j app_state \<Rightarrow> (rate_limit_exceeded + unit) \<times> 'j app_state" where
  "charge_refresh key now st =
     (case rate_check key now (lim_refresh (st_limits st)) of
        (r, l) \<Rightarrow> (r, st\<lparr>st_limits := (st_limits st)\<lparr>lim_refresh := l\<rparr>\<rparr>))"

text \<open>What follows a known refresh token of the path's own device: rotate, or refuse.\<close>

definition refresh_known ::
  "'j server_env \<Rightarrow> readings \<Rightarrow> string \<Rightarrow> string \<Rightarrow> string \<Rightarrow> device \<Rightarrow> device_credential
     \<Rightarrow> 'j app_state \<Rightarrow> (app_error + token_response) \<times> 'j app_state" where
  "refresh_known E T public_id ip refresh_hash dev cred st =
     (let J = srv_json E in
      if dv_public_id dev \<noteq> public_id then
        (Inl AppUnauthorized, record_auth_failure E T public_id ip ''device_mismatch'' IpOnly st)
      else if dv_status dev \<noteq> StatusActive then
        (Inl AppUnauthorized, record_auth_failure E T public_id ip ''device_inactive'' CredentialBound st)
      else
        let now = utc T 0 in
        if dc_expires_at cred < now then
          (Inl AppUnauthorized, record_auth_failure E T public_id ip ''refresh_expired'' CredentialBound st)
        else
          let issued = mint_tokens (random_body T 0) (random_body T 1) now in
          (case rotate_refresh (save_outcome T 0) refresh_hash
                 (new_credential_from_issued (srv_crypto E) (dv_id dev) issued now) now (st_repo st) of
             (Inr _, g) \<Rightarrow>
               (Inr (token_response_of (srv_rfc3339 E) issued),
                log_event (Some (dv_id dev)) None EvLoginSuccess
                  (json_object J [(''ip'', json_str J ip), (''via'', json_str J ''refresh'')]) (utc T 1)
                  (clear_auth_failures public_id ip (st\<lparr>st_repo := g\<rparr>)))
           | (Inl StaleCredential, g) \<Rightarrow>
               (Inl AppUnauthorized,
                record_auth_failure E T public_id ip ''stale_credential'' CredentialBound (st\<lparr>st_repo := g\<rparr>))
           | (Inl e, g) \<Rightarrow> (Inl (app_error_of_repo e), st\<lparr>st_repo := g\<rparr>)))"

definition refresh_device_token ::
  "'j server_env \<Rightarrow> readings \<Rightarrow> string \<Rightarrow> header_map \<Rightarrow> ip_addr option \<Rightarrow> string
     \<Rightarrow> 'j app_state \<Rightarrow> (app_error + token_response) \<times> 'j app_state" where
  "refresh_device_token E T raw_id headers peer_addr presented st =
     (case parse_public_id_path raw_id of
        Inl e \<Rightarrow> (Inl e, st)
      | Inr public_id \<Rightarrow>
        let ip = http_client_ip E headers peer_addr in
        case charge_refresh (''refresh:ip:'' @ ip) (mono_clock T 0) st of
          (Inl e, st1) \<Rightarrow> (Inl (app_rate_limited (show_rate_limit_exceeded e) (rl_retry_after e)), st1)
        | (Inr _, st1) \<Rightarrow>
          (case charge_refresh (''refresh:device:'' @ public_id) (mono_clock T 1) st1 of
             (Inl e, st2) \<Rightarrow> (Inl (app_rate_limited (show_rate_limit_exceeded e) (rl_retry_after e)), st2)
           | (Inr _, st2) \<Rightarrow>
             (case check_auth_lockout T public_id ip st2 of
                (Inl e, st3) \<Rightarrow> (Inl e, st3)
              | (Inr _, st3) \<Rightarrow>
                if presented = [] then (Inl (AppBadRequest ''refresh_token is required''), st3)
                else
                  let refresh_hash = hash_token (srv_crypto E) presented in
                  (case find_by_refresh_hash refresh_hash (st_repo st3) of
                     Inl e \<Rightarrow> (Inl (app_error_of_repo e), st3)
                   | Inr (Some (dev, cred)) \<Rightarrow> refresh_known E T public_id ip refresh_hash dev cred st3
                   | Inr None \<Rightarrow>
                       (Inl AppUnauthorized, record_auth_failure E T public_id ip ''unknown_refresh'' IpOnly st3)))))"

section \<open>Minting a code and deleting the device\<close>

text \<open>The device a bearer token stands for: the lookup each owner endpoint starts with.\<close>

definition bearer_device ::
  "'j server_env \<Rightarrow> header_map \<Rightarrow> 'j app_state \<Rightarrow> app_error + (device \<times> device_credential)" where
  "bearer_device E headers st =
     (case bearer_token headers of
        Inl e \<Rightarrow> Inl e
      | Inr token \<Rightarrow>
        (case find_by_access_hash (hash_token (srv_crypto E) token) (st_repo st) of
           Inl e \<Rightarrow> Inl (app_error_of_repo e)
         | Inr None \<Rightarrow> Inl AppUnauthorized
         | Inr (Some dc) \<Rightarrow> Inr dc))"

definition mint_otp_route ::
  "'j server_env \<Rightarrow> readings \<Rightarrow> string \<Rightarrow> header_map \<Rightarrow> ip_addr option \<Rightarrow> otp_mint_request
     \<Rightarrow> 'j app_state \<Rightarrow> (app_error + nat \<times> otp_mint_response) \<times> 'j app_state" where
  "mint_otp_route E T raw_id headers peer_addr body st =
     (case parse_public_id_path raw_id of
        Inl e \<Rightarrow> (Inl e, st)
      | Inr public_id \<Rightarrow>
        (case bearer_device E headers st of
           Inl e \<Rightarrow> (Inl e, st)
         | Inr (dev, cred) \<Rightarrow>
           if dv_public_id dev \<noteq> public_id then (Inl AppUnauthorized, st)
           else
             let now = utc T 0 in
             if dc_access_expires_at cred < now then (Inl AppUnauthorized, st)
             else if dv_status dev \<noteq> StatusActive then (Inl AppUnauthorized, st)
             else (case parse_hash (srv_crypto E) body of
                Inl e \<Rightarrow> (Inl (AppBadRequest (show_otp_store_error e)), st)
              | Inr h \<Rightarrow>
                (case ttl_secs body of
                   Inl e \<Rightarrow> (Inl (AppBadRequest (show_otp_store_error e)), st)
                 | Inr ttl \<Rightarrow>
                     let expires_at = now + sint ttl * 1000000000;
                         (row, s) = store_hash (dv_id dev) h expires_at now (st_otp st);
                         ip = http_client_ip E headers peer_addr; J = srv_json E
                     in (Inr (201, \<lparr>om_expires_at = srv_rfc3339 E expires_at, om_otp_id = so_id row\<rparr>),
                         log_event (Some (dv_id dev)) None EvOtpMint
                           (json_object J [(''otp_id'', json_int J (so_id row)),
                              (''expires_at'', json_str J (srv_rfc3339 E expires_at)), (''ip'', json_str J ip)])
                           (utc T 1) (st\<lparr>st_otp := s\<rparr>))))))"

definition delete_device ::
  "'j server_env \<Rightarrow> readings \<Rightarrow> string \<Rightarrow> header_map \<Rightarrow> ip_addr option
     \<Rightarrow> 'j app_state \<Rightarrow> (app_error + nat) \<times> 'j app_state" where
  "delete_device E T raw_id headers peer_addr st =
     (case parse_public_id_path raw_id of
        Inl e \<Rightarrow> (Inl e, st)
      | Inr public_id \<Rightarrow>
        (case bearer_device E headers st of
           Inl e \<Rightarrow> (Inl e, st)
         | Inr (dev, cred) \<Rightarrow>
           if dv_public_id dev \<noteq> public_id then (Inl AppUnauthorized, st)
           else
             let now = utc T 0 in
             if dc_access_expires_at cred < now then (Inl AppUnauthorized, st)
             else if dv_status dev = StatusDeleted then (Inr 204, st)
             else (case revoke_all_for_device (save_outcome T 0) (dv_id dev) now (st_repo st) of
                (Inl e, g) \<Rightarrow> (Inl (app_error_of_repo e), st\<lparr>st_repo := g\<rparr>)
              | (Inr _, g) \<Rightarrow>
                (case soft_delete (save_outcome T 1) public_id now g of
                   (Inl e, g2) \<Rightarrow> (Inl (app_error_of_repo e), st\<lparr>st_repo := g2\<rparr>)
                 | (Inr deleted, g2) \<Rightarrow>
                   if \<not> deleted then (Inl AppNotFound, st\<lparr>st_repo := g2\<rparr>)
                   else
                     let ip = http_client_ip E headers peer_addr; J = srv_json E
                     in (Inr 204,
                         log_event (Some (dv_id dev)) None EvDelete
                           (json_object J [(''public_id'', json_str J public_id), (''ip'', json_str J ip)])
                           (utc T 1) (st\<lparr>st_repo := g2\<rparr>))))))"

end
