(* ===== verification/Server_Admin.thy ===== *)
theory Server_Admin
  imports Server_Http
begin

text \<open>
  The owner's blocklist and audit endpoints (\<open>apps/server/src/routes/blocklist.rs\<close>), the operator's
  force-disconnect (\<open>apps/server/src/routes/admin.rs\<close>) and the probes (\<open>routes/health.rs\<close>).
\<close>

unbundle bit_operations_syntax

section \<open>The owner's endpoints\<close>

record blocklist_entry_dto =
  bd_id :: int
  bd_subject_type :: string
  bd_subject_hash :: string
  bd_created_at :: string

definition entry_dto :: "(datetime \<Rightarrow> string) \<Rightarrow> blocklist_entry \<Rightarrow> blocklist_entry_dto" where
  "entry_dto rfc3339 e = \<lparr>bd_id = bl_id e, bd_subject_type = subject_as_str (bl_subject_type e),
     bd_subject_hash = bl_subject_hash e, bd_created_at = rfc3339 (bl_created_at e)\<rparr>"

record blocklist_check_response =
  bc_blocked :: bool
  bc_subject_type :: string
  bc_subject_hash :: string

record 'j audit_event_dto =
  ad_id :: int
  ad_event_type :: string
  ad_session_id :: "string option"
  ad_meta :: 'j
  ad_created_at :: string

definition audit_dto :: "(datetime \<Rightarrow> string) \<Rightarrow> 'j audit_event \<Rightarrow> 'j audit_event_dto" where
  "audit_dto rfc3339 e = \<lparr>ad_id = ev_id e, ad_event_type = event_as_str (ev_type e),
     ad_session_id = ev_session_id e, ad_meta = ev_meta e, ad_created_at = rfc3339 (ev_created_at e)\<rparr>"

definition authorize_device_owner ::
  "'j server_env \<Rightarrow> datetime \<Rightarrow> string \<Rightarrow> header_map \<Rightarrow> 'j app_state \<Rightarrow> app_error + device" where
  "authorize_device_owner E now raw_id headers st =
     (case parse_public_id_path raw_id of
        Inl e \<Rightarrow> Inl e
      | Inr public_id \<Rightarrow>
        (case bearer_device E headers st of
           Inl e \<Rightarrow> Inl e
         | Inr (dev, cred) \<Rightarrow>
           if dv_public_id dev \<noteq> public_id then Inl AppUnauthorized
           else if dv_status dev \<noteq> StatusActive then Inl AppUnauthorized
           else if dc_access_expires_at cred < now then Inl AppUnauthorized
           else Inr dev))"

definition parse_subject_type :: "string \<Rightarrow> app_error + block_subject_type" where
  "parse_subject_type raw =
     (case subject_parse (trim raw) of
        None \<Rightarrow> Inl (AppBadRequest ''subject_type must be one of: ip, viewer_fingerprint, device'')
      | Some ty \<Rightarrow> Inr ty)"

definition add_blocklist ::
  "'j server_env \<Rightarrow> readings \<Rightarrow> string \<Rightarrow> header_map \<Rightarrow> string \<Rightarrow> string
     \<Rightarrow> 'j app_state \<Rightarrow> (app_error + nat \<times> blocklist_entry_dto) \<times> 'j app_state" where
  "add_blocklist E T raw_id headers subject_type raw_subject st =
     (case authorize_device_owner E (utc T 0) raw_id headers st of
        Inl e \<Rightarrow> (Inl e, st)
      | Inr dev \<Rightarrow>
        (case parse_subject_type subject_type of
           Inl e \<Rightarrow> (Inl e, st)
         | Inr ty \<Rightarrow>
           let subject = trim raw_subject; J = srv_json E in
           if subject = [] then (Inl (AppBadRequest ''subject is required''), st)
           else if length subject > 512 then (Inl (AppBadRequest ''subject must be at most 512 characters''), st)
           else
             let h = hash_subject (srv_crypto E) subject in
             (case blocklist_add \<lparr>nb_host_device_id = dv_id dev, nb_subject_type = ty, nb_subject_hash = h\<rparr>
                    (utc T 1) (st_blocklist st) of
                (Inl e, b) \<Rightarrow> (Inl (app_error_of_blocklist e), st\<lparr>st_blocklist := b\<rparr>)
              | (Inr entry, b) \<Rightarrow>
                  (Inr (201, entry_dto (srv_rfc3339 E) entry),
                   log_event (Some (dv_id dev)) None EvBlocklistAdd
                     (json_object J [(''subject_type'', json_str J (subject_as_str ty)),
                        (''subject_hash'', json_str J h), (''entry_id'', json_int J (bl_id entry))])
                     (utc T 2) (st\<lparr>st_blocklist := b\<rparr>)))))"

definition list_blocklist ::
  "'j server_env \<Rightarrow> readings \<Rightarrow> string \<Rightarrow> header_map \<Rightarrow> 'j app_state \<Rightarrow> app_error + blocklist_entry_dto list" where
  "list_blocklist E T raw_id headers st =
     (case authorize_device_owner E (utc T 0) raw_id headers st of
        Inl e \<Rightarrow> Inl e
      | Inr dev \<Rightarrow> Inr (map (entry_dto (srv_rfc3339 E)) (list_for_host (dv_id dev) (st_blocklist st))))"

definition check_blocklist ::
  "'j server_env \<Rightarrow> readings \<Rightarrow> string \<Rightarrow> header_map \<Rightarrow> string \<Rightarrow> string \<Rightarrow> 'j app_state
     \<Rightarrow> app_error + blocklist_check_response" where
  "check_blocklist E T raw_id headers subject_type raw_subject st =
     (case authorize_device_owner E (utc T 0) raw_id headers st of
        Inl e \<Rightarrow> Inl e
      | Inr dev \<Rightarrow>
        (case parse_subject_type subject_type of
           Inl e \<Rightarrow> Inl e
         | Inr ty \<Rightarrow>
           let subject = trim raw_subject in
           if subject = [] then Inl (AppBadRequest ''subject is required'')
           else
             let h = hash_subject (srv_crypto E) subject in
             Inr \<lparr>bc_blocked = is_blocked (dv_id dev) ty h (st_blocklist st),
                  bc_subject_type = subject_as_str ty, bc_subject_hash = h\<rparr>))"

definition remove_blocklist ::
  "'j server_env \<Rightarrow> readings \<Rightarrow> string \<Rightarrow> int \<Rightarrow> header_map
     \<Rightarrow> 'j app_state \<Rightarrow> (app_error + nat) \<times> 'j app_state" where
  "remove_blocklist E T raw_id entry_id headers st =
     (case authorize_device_owner E (utc T 0) raw_id headers st of
        Inl e \<Rightarrow> (Inl e, st)
      | Inr dev \<Rightarrow>
        (case blocklist_remove (dv_id dev) entry_id (st_blocklist st) of
           (Inl e, b) \<Rightarrow> (Inl (app_error_of_blocklist e), st\<lparr>st_blocklist := b\<rparr>)
         | (Inr _, b) \<Rightarrow>
             (Inr 204,
              log_event (Some (dv_id dev)) None EvBlocklistRemove
                (json_object (srv_json E) [(''entry_id'', json_int (srv_json E) entry_id)])
                (utc T 1) (st\<lparr>st_blocklist := b\<rparr>))))"

definition list_audit ::
  "'j server_env \<Rightarrow> readings \<Rightarrow> string \<Rightarrow> header_map \<Rightarrow> 'j app_state \<Rightarrow> app_error + 'j audit_event_dto list" where
  "list_audit E T raw_id headers st =
     (case authorize_device_owner E (utc T 0) raw_id headers st of
        Inl e \<Rightarrow> Inl e
      | Inr dev \<Rightarrow> Inr (map (audit_dto (srv_rfc3339 E)) (audit_list_for_device (dv_id dev) 100 (st_audit st))))"

section \<open>The operator's endpoint\<close>

definition extract_admin_token :: "header_map \<Rightarrow> string option" where
  "extract_admin_token headers =
     (case (case header ''x-admin-token'' headers of
              None \<Rightarrow> None | Some v \<Rightarrow> let t = trim v in if t = [] then None else Some t) of
        Some t \<Rightarrow> Some t
      | None \<Rightarrow>
        (case header ''authorization'' headers of
           None \<Rightarrow> None
         | Some auth \<Rightarrow> (case strip_bearer auth of
             None \<Rightarrow> None
           | Some rest \<Rightarrow> let t = trim rest in if t = [] then None else Some t)))"

definition subtle_eq :: "bytes \<Rightarrow> bytes \<Rightarrow> bool" where
  "subtle_eq a b =
     (if length a \<noteq> length b then False
      else foldl (\<lambda>diff (x, y). diff OR (x XOR y)) 0 (zip a b) = 0)"

definition admin_key :: "string \<Rightarrow> string" where
  "admin_key ip = key_ip (''admin:'' @ ip)"

definition record_admin_auth_failure ::
  "'j server_env \<Rightarrow> readings \<Rightarrow> string \<Rightarrow> string \<Rightarrow> 'j app_state \<Rightarrow> 'j app_state" where
  "record_admin_auth_failure E T ip reason st =
     (let J = srv_json E in
      log_event None None EvLoginFail
        (json_object J [(''via'', json_str J ''admin''), (''ip'', json_str J ip), (''reason'', json_str J reason)])
        (utc T 0) (st\<lparr>st_attempts := snd (record_failure (admin_key ip) (mono_clock T 2) (st_attempts st))\<rparr>))"

definition authorize_admin ::
  "'j server_env \<Rightarrow> readings \<Rightarrow> header_map \<Rightarrow> string \<Rightarrow> 'j app_state \<Rightarrow> (app_error + unit) \<times> 'j app_state" where
  "authorize_admin E T headers ip st =
     (case attempt_check (admin_key ip) (mono_clock T 1) (st_attempts st) of
        (Inl lock, t) \<Rightarrow> (Inl (app_rate_limited (show_lockout_active lock) (la_retry_after lock)), st\<lparr>st_attempts := t\<rparr>)
      | (Inr _, t) \<Rightarrow>
        let st1 = st\<lparr>st_attempts := t\<rparr> in
        case srv_admin_token E of
          None \<Rightarrow> (Inl AppUnauthorized, record_admin_auth_failure E T ip ''admin_token_unset'' st1)
        | Some expected \<Rightarrow>
          if expected = [] then (Inl AppUnauthorized, record_admin_auth_failure E T ip ''admin_token_empty'' st1)
          else case extract_admin_token headers of
            Some got \<Rightarrow>
              if subtle_eq (utf8_bytes got) (utf8_bytes expected)
              then (Inr (), st1\<lparr>st_attempts := record_success (admin_key ip) (st_attempts st1)\<rparr>)
              else (Inl AppUnauthorized, record_admin_auth_failure E T ip ''bad_token'' st1)
          | None \<Rightarrow> (Inl AppUnauthorized, record_admin_auth_failure E T ip ''missing_token'' st1))"

definition charge_admin :: "string \<Rightarrow> instant \<Rightarrow> 'j app_state \<Rightarrow> (rate_limit_exceeded + unit) \<times> 'j app_state" where
  "charge_admin key now st =
     (case rate_check key now (lim_admin (st_limits st)) of
        (r, l) \<Rightarrow> (r, st\<lparr>st_limits := (st_limits st)\<lparr>lim_admin := l\<rparr>\<rparr>))"

record force_disconnect_response =
  fd_session_id :: string
  fd_status :: string
  fd_reason :: string

definition force_disconnect_route ::
  "'j server_env \<Rightarrow> readings \<Rightarrow> string \<Rightarrow> header_map \<Rightarrow> ip_addr option
     \<Rightarrow> 'j app_state \<Rightarrow> (app_error + nat \<times> force_disconnect_response) \<times> 'j app_state" where
  "force_disconnect_route E T session_id headers peer_addr st =
     (let ip = http_client_ip E headers peer_addr; J = srv_json E in
      case charge_admin (''admin:'' @ ip) (mono_clock T 0) st of
        (Inl e, st1) \<Rightarrow> (Inl (app_rate_limited (show_rate_limit_exceeded e) (rl_retry_after e)), st1)
      | (Inr _, st1) \<Rightarrow>
        (case authorize_admin E T headers ip st1 of
           (Inl e, st2) \<Rightarrow> (Inl e, st2)
         | (Inr _, st2) \<Rightarrow>
           let sid = trim session_id in
           if sid = [] then (Inl (AppBadRequest ''session_id is required''), st2)
           else if length sid > 128 then (Inl (AppBadRequest ''session_id must be at most 128 characters''), st2)
           else
             let (closed, g) = force_disconnect sid ''security'' (utc T 1) (st_sessions st2);
                 st3 = st2\<lparr>st_sessions := g\<rparr>
             in if \<not> closed then (Inl AppNotFound, st3)
                else
                  (Inr (200, \<lparr>fd_session_id = sid, fd_status = ''disconnected'', fd_reason = ''security''\<rparr>),
                   log_event None (Some sid) EvSessionEnd
                     (json_object J [(''reason'', json_str J ''security''),
                        (''source'', json_str J ''admin_force_disconnect''), (''ip'', json_str J ip)])
                     (utc T 2) st3)))"

section \<open>Probes\<close>

definition healthz :: string where "healthz = ''ok''"

text \<open>The in-memory store always answers \<open>ping\<close>.\<close>

definition repo_ping :: "device_store \<Rightarrow> repo_error + unit" where "repo_ping g = Inr ()"

definition readyz :: "'j app_state \<Rightarrow> nat + string" where
  "readyz st = (case repo_ping (st_repo st) of Inl _ \<Rightarrow> Inl 503 | Inr _ \<Rightarrow> Inr ''ready'')"

end
