(* ===== verification/Server_Props.thy ===== *)
theory Server_Props
  imports Server_Gates Server_Admin
begin

text \<open>
  What the server promises across its components, for every state that operations of its handlers can
  reach under any interleaving: how a session comes to exist and to be accepted, who is published as a host,
  what a closed socket leaves behind. A worked server (one enrolled host that is connected and has a live
  one-time code, one connected viewer) is evaluated first and used by the examples.
\<close>

section \<open>A worked server\<close>

definition demo_json :: "string json_api" where
  "demo_json = text_json\<lparr>msg_from_str := (\<lambda>s. Inr (Hello (if s = [] then Viewer else Host) 1 \<lparr>device_token = s\<rparr>)),
     json_get := (\<lambda>v _. Some v)\<rparr>"

definition demo_srv :: "string server_env" where
  "demo_srv = \<lparr>srv_json = demo_json, srv_crypto = toy_crypto, srv_rfc3339 = (\<lambda>_. ''t''),
     srv_ip = \<lparr>parse_ip = (\<lambda>_. None), show_ip = (\<lambda>_. ''ip'')\<rparr>, srv_turn_mac = (\<lambda>k m. m), srv_pepper = [1],
     srv_trust_proxy = False, srv_admin_token = Some ''0123456789abcdef'',
     srv_ice = \<lparr>stun_urls = [], turn_urls = [], turn_secret = None\<rparr>\<rparr>"

definition demo_clock :: readings where
  "demo_clock = \<lparr>utc = (\<lambda>_. 0), mono_clock = (\<lambda>_. 0), random_body = (\<lambda>_. ''x''), save_outcome = (\<lambda>_. demo_save)\<rparr>"

definition host_identity :: peer_identity where
  "host_identity = \<lparr>p_role = Host, p_device_public_id = Some ''1234567897'', p_device_id = Some 1, p_anonymous = False\<rparr>"

definition viewer_identity :: peer_identity where
  "viewer_identity = \<lparr>p_role = Viewer, p_device_public_id = None, p_device_id = None, p_anonymous = True\<rparr>"

definition demo_sessions :: "string registry" where
  "demo_sessions = snd (register_conn (bind_peer (ConnId 1) host_identity (snd (register_conn new_registry))))"

definition demo_otp :: otp_store where
  "demo_otp = snd (store_hash 1 demo_hash 300000000000 0 new_otp_store)"

definition demo_server :: "string app_state" where
  "demo_server = (new_app_state new_device_store)\<lparr>st_repo := demo_devices, st_sessions := demo_sessions, st_otp := demo_otp\<rparr>"

lemma ops_reachable_new: "ops E (new_app_state new_device_store) st \<Longrightarrow> server_reachable E st"
  by (simp add: ops_def server_reachable_def)

lemma demo_server_reachable: "server_reachable demo_srv demo_server"
proof (rule ops_reachable_new)
  let ?init = "new_app_state new_device_store :: string app_state"
  let ?d1 = "snd (create_device demo_save demo_device 0 new_device_store)"
  let ?g1 = "snd (register_conn new_registry) :: string registry"
  let ?g2 = "bind_peer (ConnId 1) host_identity ?g1"
  have "ops demo_srv ?init (?init\<lparr>st_repo := ?d1\<rparr>)"
    by (rule ops_repo [OF ops_refl, where save = demo_save]) (simp add: new_app_state_def repo_step.step_create)
  then have "ops demo_srv ?init (?init\<lparr>st_repo := ?d1, st_repo := demo_devices\<rparr>)"
    by (rule ops_repo [where save = demo_save]) (simp add: demo_devices_def repo_step.step_insert)
  then have "ops demo_srv ?init (?init\<lparr>st_repo := demo_devices\<rparr>)" by simp
  then have "ops demo_srv ?init (?init\<lparr>st_repo := demo_devices, st_sessions := ?g1\<rparr>)"
    by (rule ops_sessions) (simp add: new_app_state_def reg_step.step_register)
  then have "ops demo_srv ?init (?init\<lparr>st_repo := demo_devices, st_sessions := ?g1, st_sessions := ?g2\<rparr>)"
    by (rule ops_sessions) (simp add: reg_step.step_bind)
  then have "ops demo_srv ?init (?init\<lparr>st_repo := demo_devices, st_sessions := ?g1, st_sessions := ?g2, st_sessions := demo_sessions\<rparr>)"
    by (rule ops_sessions) (simp add: demo_sessions_def reg_step.step_register)
  then have "ops demo_srv ?init (?init\<lparr>st_repo := demo_devices, st_sessions := demo_sessions\<rparr>)" by simp
  then have "ops demo_srv ?init (?init\<lparr>st_repo := demo_devices, st_sessions := demo_sessions, st_otp := demo_otp\<rparr>)"
    by (rule ops_otp) (simp add: demo_otp_def new_app_state_def otp_step.step_store)
  then show "ops demo_srv ?init demo_server" by (simp add: demo_server_def)
qed

lemma demo_sessions_eq: "demo_sessions =
  \<lparr>conns = [(ConnId 1, 0), (ConnId 2, 1)], host_by_public_id = [(''1234567897'', ConnId 1)],
   peers = [(ConnId 1, host_identity)], sessions = [], host_busy = [], viewer_tokens = [],
   pending_ttl = 120000000000, active_ttl = 28800000000000, next_conn = 3,
   chans = [(0, \<lparr>rx_alive = True, sent = []\<rparr>), (1, \<lparr>rx_alive = True, sent = []\<rparr>)]\<rparr>"
  by (simp add: demo_sessions_def host_identity_def eval_registry)

lemma demo_otp_eq: "demo_otp = \<lparr>by_id = [(1, \<lparr>so_id = 1, so_host_device_id = 1, so_hash = demo_hash,
    so_expires_at = 300000000000, so_consumed_at = None, so_session_intent_id = None, so_attempts = 0,
    so_created_at = 0\<rparr>)], by_host = [(1, [1])], next_id = 1\<rparr>"
  by (simp add: demo_otp_def store_hash_def new_otp_store_def hdel_all_def Let_def)

text \<open>The first charge of a key against a fresh limiter succeeds.\<close>

lemma charge_fresh:
  assumes "hget (rl_buckets (lim_session_intent (st_limits st))) key = None"
    and "1 \<le> rl_capacity (rl_config (lim_session_intent (st_limits st)))"
  obtains l where "charge_intent key now st = (Inr (), st\<lparr>st_limits := l\<rparr>)"
    and "rl_config (lim_session_intent l) = rl_config (lim_session_intent (st_limits st))"
    and "\<And>k. k \<noteq> key \<Longrightarrow> hget (rl_buckets (lim_session_intent l)) k = hget (rl_buckets (lim_session_intent (st_limits st))) k"
proof -
  obtain r l where c: "rate_check key now (lim_session_intent (st_limits st)) = (r, l)" by fastforce
  from c assms have "r = Inr ()" "rl_config l = rl_config (lim_session_intent (st_limits st))"
    "k \<noteq> key \<Longrightarrow> hget (rl_buckets l) k = hget (rl_buckets (lim_session_intent (st_limits st))) k" for k
    by (auto simp: rate_check_def refill_def as_secs_f64_def as_secs_def Let_def split: if_splits)
  with that [of "(st_limits st)\<lparr>lim_session_intent := l\<rparr>"] c show thesis by (simp add: charge_intent_def)
qed

lemma demo_session_capacity: "1 \<le> rl_capacity (rl_config (lim_session_intent (st_limits demo_server)))"
  by (simp add: demo_server_def new_app_state_def new_rate_limiters_def with_configs_def new_rate_limiter_def
      default_session_intent_config_def per_window_def)

abbreviation demo_request_for :: "string \<Rightarrow> string create_pending" where
  "demo_request_for sid \<equiv> intent_request demo_json (ConnId 2) viewer_identity sid 1 ''1234567897'' 1 Otp"

text \<open>An intent of the viewer with the right code, while the limiters are fresh, reaches the registry.\<close>

lemma demo_gate:
  assumes st: "st_limits st = st_limits demo_server" "st_repo st = demo_devices" "st_blocklist st = new_blocklist"
    and active: "active_for_host 1 0 (st_otp st) \<noteq> None"
    and pb: "prefilter_bind toy_crypto 1 ''123456'' [1] sid 0 (st_otp st) = (OtpOk, s1)" and sid: "sid \<noteq> []"
  obtains st' where
    "handle_message demo_srv demo_clock (ConnId 2) viewer_identity ''ip'' (SessionIntent sid 1 ''1234567897'' Otp ''123456'') st =
       (fst (create_pending_session (demo_request_for sid) 0 (st_sessions st)), st')"
    "st_sessions st' = snd (create_pending_session (demo_request_for sid) 0 (st_sessions st))" "st_otp st' = s1"
proof -
  let ?k1 = "''session_intent:ip:'' @ ''ip''" and ?k2 = "''session_intent:host:'' @ ''1234567897''"
  have no: "rl_buckets (lim_session_intent (st_limits st)) = []"
    by (simp add: st demo_server_def new_app_state_def new_rate_limiters_def with_configs_def new_rate_limiter_def)
  have "hget (rl_buckets (lim_session_intent (st_limits st))) ?k1 = None" by (simp only: no map_of.simps)
  then obtain l where c1: "charge_intent ?k1 0 st = (Inr (), st\<lparr>st_limits := l\<rparr>)"
    and cap: "rl_config (lim_session_intent l) = rl_config (lim_session_intent (st_limits st))"
    and l: "\<And>k. k \<noteq> ?k1 \<Longrightarrow> hget (rl_buckets (lim_session_intent l)) k = hget (rl_buckets (lim_session_intent (st_limits st))) k"
    using charge_fresh demo_session_capacity [folded st(1)] by blast
  let ?s1 = "st\<lparr>st_limits := l\<rparr>"
  have code: "presented_code demo_json ''123456'' = Some ''123456''"
    by (simp add: presented_code_def demo_json_def text_json_def Let_def trim_visible visible_def)
  obtain host where host: "get_by_public_id ''1234567897'' demo_devices = Some host" "dv_id host = 1" "dv_status host = StatusActive"
    by (simp add: get_by_public_id_def demo_devices_eq)
  note env = demo_srv_def demo_clock_def
  obtain st2 where gate: "otp_gate demo_srv demo_clock ''ip'' sid Otp ''123456'' host ?s1 = (Inr (), st2)"
      "st_limits st2 = l" "st_sessions st2 = st_sessions st" "st_otp st2 = s1"
    using active code pb host(2) by (fastforce simp: otp_gate_def env Let_def log_event_def)
  have "?k2 \<noteq> ?k1" by simp
  then have "hget (rl_buckets (lim_session_intent (st_limits st2))) ?k2 = None"
    unfolding gate(2) by (simp only: l no map_of.simps not_False_eq_True)
  moreover have "1 \<le> rl_capacity (rl_config (lim_session_intent (st_limits st2)))"
    unfolding gate(2) cap st(1) by (rule demo_session_capacity)
  ultimately obtain l2 where c2: "charge_intent ?k2 0 st2 = (Inr (), st2\<lparr>st_limits := l2\<rparr>)"
    using charge_fresh by blast
  have idn: "p_role viewer_identity = Viewer" "p_device_public_id viewer_identity = None" by (simp_all add: viewer_identity_def)
  have free: "any_blocked 1 xs new_blocklist = None" for xs by (simp add: any_blocked_None is_blocked_def new_blocklist_def)
  obtain st' where
    "handle_session_intent demo_srv demo_clock (ConnId 2) viewer_identity ''ip'' sid 1 ''1234567897'' Otp ''123456'' st =
       (fst (create_pending_session (demo_request_for sid) 0 (st_sessions st)), st')"
    "st_sessions st' = snd (create_pending_session (demo_request_for sid) 0 (st_sessions st))" "st_otp st' = s1"
    using c1 c2 host gate idn free st sid
    by (simp add: handle_session_intent_def Let_def env prod.case_eq_if del: append_Cons One_nat_def)
  then show thesis by (intro that) (simp_all add: handle_message_def)
qed

lemma demo_prefilter:
  "prefilter_bind toy_crypto 1 ''123456'' [1] sid 0 (set_row 1 (\<lparr>so_id = 1, so_host_device_id = 1, so_hash = demo_hash,
      so_expires_at = 300000000000, so_consumed_at = None, so_session_intent_id = b, so_attempts = 0, so_created_at = 0\<rparr>) demo_otp) =
    (OtpOk, set_row 1 (\<lparr>so_id = 1, so_host_device_id = 1, so_hash = demo_hash,
      so_expires_at = 300000000000, so_consumed_at = None, so_session_intent_id = Some sid, so_attempts = 0, so_created_at = 0\<rparr>) demo_otp)"
proof -
  have "verify_otp toy_crypto ''123456'' [1] demo_hash = Inr ()"
    by (simp add: demo_verify well_formed_code_def is_ascii_digit_def)
  then show ?thesis
    by (simp add: prefilter_bind_def demo_otp_eq set_row_def MAX_OTP_ATTEMPTS_def timestamp_def Let_def sat_add_def sat_sub_def)
qed

text \<open>The host's row of the worked server, bound to a session or to none.\<close>

definition demo_row_bound :: "string option \<Rightarrow> otp_store" where
  "demo_row_bound b = set_row 1 (\<lparr>so_id = 1, so_host_device_id = 1, so_hash = demo_hash,
     so_expires_at = 300000000000, so_consumed_at = None, so_session_intent_id = b, so_attempts = 0, so_created_at = 0\<rparr>) demo_otp"

lemma demo_row_bound_None: "demo_row_bound None = demo_otp"
  by (simp add: demo_row_bound_def set_row_def demo_otp_eq)

lemma demo_row_bound_row: "\<exists>row. host_row (demo_row_bound b) 1 = Some (1, row) \<and> so_session_intent_id row = b \<and>
    active_for_host 1 0 (demo_row_bound b) = Some row"
  by (simp add: demo_row_bound_def set_row_def demo_otp_eq host_row_def active_for_host_def)

text \<open>The worked server after the viewer asked for session \<open>S\<close>.\<close>

definition demo_offered :: "string app_state" where
  "demo_offered = demo_server\<lparr>st_otp := demo_row_bound (Some ''S''),
     st_sessions := snd (create_pending_session (demo_request_for ''S'') 0 demo_sessions)\<rparr>"

lemma demo_offered_reachable: "server_reachable demo_srv demo_offered"
proof -
  have bound: "otp_step toy_crypto (st_otp demo_server) (demo_row_bound (Some ''S''))"
    using otp_step.step_prefilter [of toy_crypto "demo_row_bound None" 1 "''123456''" "[1]" "''S''" 0]
      demo_prefilter [of "''S''" None] demo_row_bound_None
    by (simp add: demo_server_def new_app_state_def demo_row_bound_def)
  have "ops demo_srv demo_server (demo_server\<lparr>st_otp := demo_row_bound (Some ''S'')\<rparr>)"
    by (rule ops_otp [OF ops_refl]) (use bound in \<open>simp add: demo_srv_def\<close>)
  then have "ops demo_srv demo_server demo_offered" unfolding demo_offered_def
    by (rule ops_sessions) (simp add: demo_server_def reg_step.step_create)
  then show ?thesis by (rule ops_reachable [OF demo_server_reachable])
qed

section \<open>How a session comes to be\<close>

text \<open>
  C1. No session without passing every gate. In every reachable state, when the handling of one message makes a
  session id appear in the registry, that message is a session intent under this id, answered with success:
  the sender is a viewer; the host it names is an active device, connected, which has not blocked the
  viewer's address, device or fingerprint; in Mode A, if the host has an active code, the viewer presented a
  code that verifies against it and the code is now bound to this session; and the session is pending,
  between that host's connection and the viewer's.
\<close>

theorem new_session_passed_gates:
  assumes "server_reachable E st" and "handle_message E T conn idn ip msg st = (r, st')"
    and "hget (sessions (st_sessions st)) sid = None" and "hget (sessions (st_sessions st')) sid = Some s"
  shows "\<exists>q host mode pre. msg = SessionIntent sid q host mode pre \<and> r = Inr () \<and>
    gates_passed E T idn ip sid host mode pre st st' \<and>
    s_state s = Pending \<and> s_session_id s = sid \<and> s_host_public_id s = host \<and> s_viewer_conn s = conn \<and> s_mode s = mode \<and>
    hget (host_by_public_id (st_sessions st)) host = Some (s_host_conn s)"
proof -
  from server_reachable_components [OF assms(1)]
  have inv: "reg_inv (st_sessions st)" "otp_inv (st_otp st)"
    using reg_reachable_inv otp_reachable_inv by blast+
  from message_new_session [OF assms(2) inv(1) assms(3,4)] obtain sid' q host mode pre where
    msg: "msg = SessionIntent sid' q host mode pre" and h: "handle_session_intent E T conn idn ip sid' q host mode pre st = (r, st')"
    by blast
  from intent_gates [OF h inv assms(3,4)] msg show ?thesis by blast
qed

theorem new_session_passed_gates_witness:
  "\<exists>r st' s. handle_message demo_srv demo_clock (ConnId 2) viewer_identity ''ip''
       (SessionIntent ''S'' 1 ''1234567897'' Otp ''123456'') demo_server = (r, st') \<and>
     hget (sessions (st_sessions st')) ''S'' = Some s \<and> r = Inr () \<and> s_state s = Pending"
proof -
  have st: "st_limits demo_server = st_limits demo_server" "st_repo demo_server = demo_devices" "st_blocklist demo_server = new_blocklist"
      "st_otp demo_server = demo_row_bound None" "st_sessions demo_server = demo_sessions"
    by (simp_all add: demo_server_def new_app_state_def demo_row_bound_None)
  have "active_for_host 1 0 (st_otp demo_server) \<noteq> None" using demo_row_bound_row [of None] by (auto simp: st)
  moreover have "prefilter_bind toy_crypto 1 ''123456'' [1] ''S'' 0 (st_otp demo_server) = (OtpOk, demo_row_bound (Some ''S''))"
    unfolding st demo_row_bound_def by (rule demo_prefilter)
  ultimately obtain st' where
    d: "handle_message demo_srv demo_clock (ConnId 2) viewer_identity ''ip'' (SessionIntent ''S'' 1 ''1234567897'' Otp ''123456'') demo_server =
        (fst (create_pending_session (demo_request_for ''S'') 0 demo_sessions), st')"
      "st_sessions st' = snd (create_pending_session (demo_request_for ''S'') 0 demo_sessions)"
    using demo_gate [OF st(1-3), where sid = "''S''"] st(5) by (metis list.simps(3))
  have "hget (sessions (snd (create_pending_session (demo_request_for ''S'') 0 demo_sessions))) ''S'' \<noteq> None"
    by (simp add: demo_sessions_eq eval_registry)
  with d(2) obtain s where s: "hget (sessions (st_sessions st')) ''S'' = Some s" by auto
  have "hget (sessions (st_sessions demo_server)) ''S'' = None" by (simp add: st demo_sessions_eq)
  from new_session_passed_gates [OF demo_server_reachable d(1) this s] d(1) s show ?thesis by blast
qed

lemma accept_cases:
  assumes "handle_message E T c idn ip (SessionAccept sid q) st = (Inr (), st')"
  shows "p_role idn = Host \<and> accept_session c sid q (utc T 0) (st_sessions st) = (Inr (), st_sessions st') \<and>
    st_otp st' = (case p_device_id idn of None \<Rightarrow> st_otp st | Some d \<Rightarrow> snd (consume_for_session d sid (utc T 1) (st_otp st)))"
  using assms by (auto simp: handle_message_def Let_def split: if_splits prod.splits option.splits)

lemma accept_success:
  assumes "accept_session c sid q now g = (Inr (), g')"
  shows "\<exists>s s'. hget (sessions (reap now g)) sid = Some s \<and> s_state s = Pending \<and> s_host_conn s = c \<and>
    hget (sessions g') sid = Some s' \<and> s_state s' = Active"
  using assms by (auto simp: accept_session_def Let_def split: option.splits if_splits)


lemma demo_accept:
  assumes "st_sessions st = snd (create_pending_session (demo_request_for ''S'') 0 demo_sessions)"
  obtains st' where "handle_message demo_srv demo_clock (ConnId 1) host_identity ''ip'' (SessionAccept ''S'' 3) st = (Inr (), st')"
proof -
  have "fst (accept_session (ConnId 1) ''S'' 3 0 (st_sessions st)) = Inr ()"
    unfolding assms demo_sessions_eq by (simp add: eval_registry)
  with that show thesis
    by (cases "accept_session (ConnId 1) ''S'' 3 0 (st_sessions st)")
      (simp add: handle_message_def demo_clock_def host_identity_def Let_def)
qed


text \<open>
  A refused intent rebinds the code. The code is bound before the host's lock is looked at: an intent
  with the right code that is refused because the host is busy leaves the code active and bound to the refused
  session, and the host's accept of any other session then does not use the code up.
\<close>

theorem busy_intent_keeps_code:
  assumes "server_reachable E st"
    and "handle_message E T conn idn ip (SessionIntent sid q host Otp pre) st = (Inl (SessionReject sid q' Busy), st1)"
    and "get_by_public_id host (st_repo st) = Some dev" and "active_for_host (dv_id dev) (utc T 1) (st_otp st) \<noteq> None"
    and "handle_message E T' conn' idn' ip' (SessionAccept sid' q'') st1 = (Inr (), st2)"
    and "p_device_id idn' = Some (dv_id dev)" and "sid' \<noteq> sid"
  shows "st_otp st2 = st_otp st1 \<and>
    (\<exists>row. active_for_host (dv_id dev) (utc T 1) (st_otp st2) = Some row \<and> so_session_intent_id row = Some sid)"
proof -
  from server_reachable_components [OF assms(1)] have inv: "otp_inv (st_otp st)" using otp_reachable_inv by blast
  from assms(2) have h: "handle_session_intent E T conn idn ip sid q host Otp pre st = (Inl (SessionReject sid q' Busy), st1)"
    by (simp add: handle_message_def)
  have reach1: "server_reachable E st1" by (rule ops_reachable [OF assms(1) handle_message_ops [OF assms(2)]])
  from server_reachable_components [OF this] have inv1: "otp_inv (st_otp st1)" using otp_reachable_inv by blast
  from h obtain i row where row: "host_row (st_otp st1) (dv_id dev) = Some (i, row)" "so_session_intent_id row = Some sid"
      "so_consumed_at row = None" "utc T 1 < so_expires_at row"
  proof (cases rule: intent_cases)
    case (passed dev' s1 s2)
    with assms(3) have "otp_gate_passed E T sid pre (dv_id dev) (st_otp st) (st_otp st1)"
      using otp_gate_ok [of E T ip sid pre dev s1 s2] inv by simp
    with assms(4) obtain i r where r: "host_row (st_otp st) (dv_id dev) = Some (i, r)"
      "host_row (st_otp st1) (dv_id dev) = Some (i, r\<lparr>so_session_intent_id := Some sid\<rparr>)" by (auto simp: otp_gate_passed_def)
    from assms(4) r(1) have "so_consumed_at r = None" "utc T 1 < so_expires_at r"
      using active_for_host_row [OF inv] by auto
    with r(2) that show thesis by simp
  qed simp
  have "st_otp st2 = st_otp st1"
    using accept_cases [OF assms(5)] assms(6,7) row(1,2) by (simp add: consume_for_session_spec [OF inv1])
  with row active_for_host_row [OF inv1, of "dv_id dev" "utc T 1" row] show ?thesis by auto
qed

theorem busy_intent_keeps_code_witness:
  "\<exists>r st1 st2. handle_message demo_srv demo_clock (ConnId 2) viewer_identity ''ip''
        (SessionIntent ''S2'' 1 ''1234567897'' Otp ''123456'') demo_offered = (Inl r, st1) \<and>
     handle_message demo_srv demo_clock (ConnId 1) host_identity ''ip'' (SessionAccept ''S'' 3) st1 = (Inr (), st2) \<and>
     active_for_host 1 0 (st_otp st2) \<noteq> None"
proof -
  have st: "st_limits demo_offered = st_limits demo_server" "st_repo demo_offered = demo_devices" "st_blocklist demo_offered = new_blocklist"
      "st_otp demo_offered = demo_row_bound (Some ''S'')"
      "st_sessions demo_offered = snd (create_pending_session (demo_request_for ''S'') 0 demo_sessions)"
    by (simp_all add: demo_offered_def demo_server_def new_app_state_def)
  have active: "active_for_host 1 0 (st_otp demo_offered) \<noteq> None" using demo_row_bound_row [of "Some ''S''"] by (auto simp: st)
  moreover have "prefilter_bind toy_crypto 1 ''123456'' [1] ''S2'' 0 (st_otp demo_offered) = (OtpOk, demo_row_bound (Some ''S2''))"
    unfolding st demo_row_bound_def by (rule demo_prefilter)
  ultimately obtain st1 where
    d: "handle_message demo_srv demo_clock (ConnId 2) viewer_identity ''ip'' (SessionIntent ''S2'' 1 ''1234567897'' Otp ''123456'') demo_offered =
        (fst (create_pending_session (demo_request_for ''S2'') 0 (st_sessions demo_offered)), st1)"
      "st_sessions st1 = snd (create_pending_session (demo_request_for ''S2'') 0 (st_sessions demo_offered))"
    using demo_gate [OF st(1-3), where sid = "''S2''"] by (metis list.simps(3))
  have busy: "create_pending_session (demo_request_for ''S2'') 0 (st_sessions demo_offered) =
      (Inl (SessionReject ''S2'' 2 Busy), st_sessions demo_offered)"
    unfolding st demo_sessions_eq by (simp add: eval_registry)
  have "st_sessions st1 = st_sessions demo_offered" unfolding d(2) busy by simp
  then obtain st2 where a: "handle_message demo_srv demo_clock (ConnId 1) host_identity ''ip'' (SessionAccept ''S'' 3) st1 = (Inr (), st2)"
    using demo_accept [of st1] st(5) by metis
  obtain dev where dev: "get_by_public_id ''1234567897'' (st_repo demo_offered) = Some dev" "dv_id dev = 1"
    by (simp add: get_by_public_id_def demo_devices_eq st)
  from busy_intent_keeps_code [OF demo_offered_reachable d(1) [unfolded busy fst_conv] dev(1) _ a] dev(2) active
  have "active_for_host 1 0 (st_otp st2) \<noteq> None" by (auto simp: host_identity_def demo_clock_def)
  with d(1) busy a show ?thesis by auto
qed

section \<open>Who is published as a host\<close>

lemma resolve_device_token_Inr:
  assumes "repo_inv (st_repo st)" and "resolve_device_token E token now st = Inr (dev, cred)"
  shows "\<exists>i. hget (credentials (st_repo st)) i = Some cred \<and> dc_revoked_at cred = None \<and>
    dc_token_hash cred = hash_token (srv_crypto E) token \<and> now \<le> dc_access_expires_at cred \<and>
    get_by_id (dc_device_id cred) (st_repo st) = Some dev"
proof -
  from assms(2) have "find_credential (\<lambda>c. token_hash_eq (dc_token_hash c) (hash_token (srv_crypto E) token)) (st_repo st) = Some cred"
    and "get_by_id (dc_device_id cred) (st_repo st) = Some dev" and "now \<le> dc_access_expires_at cred"
    by (auto simp: resolve_device_token_def find_by_access_hash_def with_device_def get_by_id_def split: sum.splits option.splits if_splits)
  with find_credential_Some [OF assms(1)] show ?thesis by fastforce
qed

text \<open>The credential a host's hello has to present.\<close>

definition host_credential :: "'j server_env \<Rightarrow> hello_auth \<Rightarrow> datetime \<Rightarrow> string \<Rightarrow> device_store \<Rightarrow> bool" where
  "host_credential E auth now pid repo \<longleftrightarrow>
     (\<exists>i cred dev. hget (credentials repo) i = Some cred \<and> dc_revoked_at cred = None \<and>
        dc_token_hash cred = hash_token (srv_crypto E) (trim (device_token auth)) \<and> now \<le> dc_access_expires_at cred \<and>
        get_by_id (dc_device_id cred) repo = Some dev \<and> dv_status dev = StatusActive \<and> dv_public_id dev = pid)"

lemma authenticate_host:
  assumes "repo_inv (st_repo st)" and "authenticate E Host auth now now' st = Inr idn"
  shows "p_role idn = Host \<and> (\<exists>pid. p_device_public_id idn = Some pid \<and> host_credential E auth now' pid (st_repo st))"
proof -
  from assms(2) obtain dev cred where r: "resolve_device_token E (trim (device_token auth)) now' st = Inr (dev, cred)"
    and d: "dv_status dev = StatusActive" "p_role idn = Host" "p_device_public_id idn = Some (dv_public_id dev)"
    by (auto simp: authenticate_def Let_def split: if_splits sum.splits)
  from resolve_device_token_Inr [OF assms(1) r] d show ?thesis unfolding host_credential_def by blast
qed

lemma authenticate_viewer: "authenticate E Viewer auth now now' st = Inr idn \<Longrightarrow> p_role idn = Viewer"
  by (auto simp: authenticate_def Let_def split: if_splits sum.splits prod.splits)

lemma bind_presence:
  "hget (host_by_public_id (bind_peer conn idn g)) pid = Some c \<Longrightarrow>
    hget (host_by_public_id g) pid = Some c \<or> c = conn \<and> p_role idn = Host \<and> p_device_public_id idn = Some pid"
  by (auto simp: bind_peer_def publish_host_def Let_def split: option.splits if_splits)

lemma hello_refused_frame [simp]:
  "st_sessions (hello_refused E T ip role e st) = st_sessions st" "st_repo (hello_refused E T ip role e st) = st_repo st"
  by (simp_all add: hello_refused_def Let_def)

text \<open>A hello changes nobody's presence unless it authenticates, and then only through \<open>bind_peer\<close>.\<close>

lemma expect_hello_presence:
  assumes "expect_hello E T conn ip frame st = (r, st')"
  shows "host_by_public_id (st_sessions st') = host_by_public_id (st_sessions st) \<or>
    (\<exists>text role version auth idn t. frame = Some (WsFrame (WsText text)) \<and>
       decode_message (srv_json E) text = Inr (Hello role version auth) \<and>
       authenticate E role auth (utc T 0) (utc T 1) (st\<lparr>st_attempts := t\<rparr>) = Inr idn \<and>
       host_by_public_id (st_sessions st') = host_by_public_id (bind_peer conn idn (st_sessions st)))"
  using assms
  by (auto simp: expect_hello_def Let_def split: option.splits ws_event.splits ws_frame.splits
      sum.splits signal_message.splits if_splits prod.splits role.splits dest!: send_to_known) metis+

text \<open>
  C7. Presence needs a live credential. In every reachable state, when a hello makes a host's public id point
  to a connection it did not point to before, that connection is the one that said hello, as a host, with a
  token that is the access token of an unrevoked, unexpired credential of the active device with exactly
  that public id.
\<close>

theorem presence_needs_credential:
  assumes "server_reachable E st" and "expect_hello E T conn ip frame st = (r, st')"
    and "hget (host_by_public_id (st_sessions st')) pid = Some c" and "hget (host_by_public_id (st_sessions st)) pid \<noteq> Some c"
  shows "c = conn \<and> (\<exists>text version auth. frame = Some (WsFrame (WsText text)) \<and>
    decode_message (srv_json E) text = Inr (Hello Host version auth) \<and> host_credential E auth (utc T 1) pid (st_repo st))"
proof -
  have inv: "repo_inv (st_repo st)"
    using server_reachable_components [OF assms(1)] repo_reachable_inv by blast
  from expect_hello_presence [OF assms(2)] assms(3,4) obtain body role version auth idn t where
    h: "frame = Some (WsFrame (WsText body))" "decode_message (srv_json E) body = Inr (Hello role version auth)"
      "authenticate E role auth (utc T 0) (utc T 1) (st\<lparr>st_attempts := t\<rparr>) = Inr idn"
      "hget (host_by_public_id (bind_peer conn idn (st_sessions st))) pid = Some c"
    by auto
  from bind_presence [OF h(4)] assms(4) have b: "c = conn" "p_role idn = Host" "p_device_public_id idn = Some pid" by auto
  have role: "role = Host" using authenticate_viewer [of E auth] h(3) b(2) by (cases role) fastforce+
  with authenticate_host [of "st\<lparr>st_attempts := t\<rparr>"] h(3) inv b(3)
  have "host_credential E auth (utc T 1) pid (st_repo st)" by fastforce
  with b h role show ?thesis by blast
qed

definition demo_hello :: "ws_event option" where
  "demo_hello = Some (WsFrame (WsText ''a''))"

text \<open>The worked server just before its host said hello.\<close>

definition demo_before_hello :: "string app_state" where
  "demo_before_hello = (new_app_state new_device_store)\<lparr>st_repo := demo_devices, st_sessions := snd (register_conn new_registry)\<rparr>"

lemma demo_before_hello_reachable: "server_reachable demo_srv demo_before_hello"
proof (rule ops_reachable_new)
  let ?init = "new_app_state new_device_store :: string app_state"
  let ?d1 = "snd (create_device demo_save demo_device 0 new_device_store)"
  have "ops demo_srv ?init (?init\<lparr>st_repo := ?d1\<rparr>)"
    by (rule ops_repo [OF ops_refl, where save = demo_save]) (simp add: new_app_state_def repo_step.step_create)
  then have "ops demo_srv ?init (?init\<lparr>st_repo := ?d1, st_repo := demo_devices\<rparr>)"
    by (rule ops_repo [where save = demo_save]) (simp add: demo_devices_def repo_step.step_insert)
  then have "ops demo_srv ?init (?init\<lparr>st_repo := demo_devices\<rparr>)" by simp
  then show "ops demo_srv ?init demo_before_hello" unfolding demo_before_hello_def
    by (rule ops_sessions) (simp add: new_app_state_def reg_step.step_register)
qed

lemma expect_hello_ok:
  assumes "decode_message (srv_json E) body = Inr (Hello role version auth)" and "version \<noteq> 0" "version \<le> PROTOCOL_VERSION"
    and "attempt_check (key_ip ip) (mono_clock T 0) (st_attempts st) = (Inr (), t)"
    and "authenticate E role auth (utc T 0) (utc T 1) (st\<lparr>st_attempts := t\<rparr>) = Inr idn"
  shows "host_by_public_id (st_sessions (snd (expect_hello E T conn ip (Some (WsFrame (WsText body))) st))) =
      host_by_public_id (bind_peer conn idn (st_sessions st))"
    and "st_attempts (snd (expect_hello E T conn ip (Some (WsFrame (WsText body))) st)) = record_success (key_ip ip) t"
  using assms
  by (auto simp: expect_hello_def Let_def not_less [symmetric] prod.case_eq_if split: option.split role.split)

lemma demo_decode: "decode_message demo_json s = Inr (Hello (if s = [] then Viewer else Host) 1 \<lparr>device_token = s\<rparr>)"
  by (simp add: decode_message_def demo_json_def)

lemma demo_token_hash: "hash_token toy_crypto s = s"
  by (simp add: hash_token_def toy_crypto_def utf8_bytes_def unat_of_char comp_def)

lemma demo_authenticate:
  "authenticate demo_srv Host \<lparr>device_token = ''a''\<rparr> 0 0 (demo_before_hello\<lparr>st_attempts := t\<rparr>) = Inr host_identity"
  by (simp add: authenticate_def Let_def trim_visible visible_def resolve_device_token_def demo_srv_def demo_token_hash
      find_by_access_hash_def find_credential_def with_device_def demo_before_hello_def demo_devices_eq host_identity_def)

theorem presence_needs_credential_witness:
  "\<exists>r st'. expect_hello demo_srv demo_clock (ConnId 1) ''ip'' demo_hello demo_before_hello = (r, st') \<and>
     hget (host_by_public_id (st_sessions st')) ''1234567897'' = Some (ConnId 1) \<and>
     (\<exists>auth. host_credential demo_srv auth 0 ''1234567897'' (st_repo demo_before_hello))"
proof -
  obtain r st' where h: "expect_hello demo_srv demo_clock (ConnId 1) ''ip'' demo_hello demo_before_hello = (r, st')" by fastforce
  have chk: "attempt_check (key_ip ''ip'') 0 (st_attempts demo_before_hello) = (Inr (), st_attempts demo_before_hello)"
    by (simp add: attempt_check_def demo_before_hello_def new_app_state_def new_tracker_def)
  have env: "srv_json demo_srv = demo_json" "mono_clock demo_clock n = 0" "utc demo_clock n = 0" for n
    by (simp_all add: demo_srv_def demo_clock_def)
  from expect_hello_ok(1) [where E = demo_srv and T = demo_clock and body = "''a''" and ip = "''ip''" and conn = "ConnId 1"
      and st = demo_before_hello, unfolded env, OF demo_decode [of "''a''", simplified] _ _ chk demo_authenticate] h
  have new: "hget (host_by_public_id (st_sessions st')) ''1234567897'' = Some (ConnId 1)"
    by (simp add: demo_hello_def PROTOCOL_VERSION_def host_identity_def bind_host)
  have "hget (host_by_public_id (st_sessions demo_before_hello)) ''1234567897'' \<noteq> Some (ConnId 1)"
    by (simp add: demo_before_hello_def register_conn_def new_registry_def with_ttls_def Let_def)
  from presence_needs_credential [OF demo_before_hello_reachable h new this] h new show ?thesis
    by (auto simp: demo_clock_def)
qed

section \<open>The lockout of failed hellos\<close>

abbreviation hello_frame :: "string \<Rightarrow> ws_event option" where
  "hello_frame body \<equiv> Some (WsFrame (WsText body))"

text \<open>A hello of a host whose token no credential has.\<close>

definition bad_hello :: "'j server_env \<Rightarrow> device_store \<Rightarrow> string \<Rightarrow> bool" where
  "bad_hello E repo body \<longleftrightarrow> (\<exists>auth. decode_message (srv_json E) body = Inr (Hello Host PROTOCOL_VERSION auth) \<and>
     trim (device_token auth) \<noteq> [] \<and> find_by_access_hash (hash_token (srv_crypto E) (trim (device_token auth))) repo = Inr None)"

definition anonymous_hello :: "'j server_env \<Rightarrow> string \<Rightarrow> bool" where
  "anonymous_hello E body \<longleftrightarrow> (\<exists>auth. decode_message (srv_json E) body = Inr (Hello Viewer PROTOCOL_VERSION auth) \<and>
     trim (device_token auth) = [])"

abbreviation invalid_token :: "'j signal_message" where
  "invalid_token \<equiv> error_msg ''unauthorized'' ''invalid device_token''"

lemma protocol_version_bounds: "PROTOCOL_VERSION \<noteq> 0" "\<not> PROTOCOL_VERSION < PROTOCOL_VERSION"
  by (simp_all add: PROTOCOL_VERSION_def)

lemma bad_hello_step:
  assumes "bad_hello E (st_repo st) body" and "attempt_check (key_ip ip) (mono_clock T 0) (st_attempts st) = (Inr (), t)"
  shows "fst (expect_hello E T conn ip (hello_frame body) st) = Inl invalid_token"
    and "st_attempts (snd (expect_hello E T conn ip (hello_frame body) st)) = snd (record_failure (key_ip ip) (mono_clock T 1) t)"
    and "st_repo (snd (expect_hello E T conn ip (hello_frame body) st)) = st_repo st"
  using assms protocol_version_bounds
  by (auto simp: bad_hello_def expect_hello_def authenticate_def resolve_device_token_def hello_refused_def error_msg_def Let_def)

lemma anonymous_hello_step:
  assumes "anonymous_hello E body" and "attempt_check (key_ip ip) (mono_clock T 0) (st_attempts st) = (Inr (), t)"
  shows "st_attempts (snd (expect_hello E T conn ip (hello_frame body) st)) = record_success (key_ip ip) t"
    and "st_repo (snd (expect_hello E T conn ip (hello_frame body) st)) = st_repo st"
  using assms protocol_version_bounds
  by (auto simp: anonymous_hello_def expect_hello_def authenticate_def Let_def prod.case_eq_if)

lemma attempt_check_open:
  assumes "\<And>r. hget (at_records t) key = Some r \<Longrightarrow> ar_locked_until r = None"
  shows "fst (attempt_check key now t) = Inr ()"
  using assms by (auto simp: attempt_check_def split: option.split)

lemma first_failure:
  assumes "hget (at_records t) key = None" and "2 \<le> max_failures_before_lockout (at_config t)"
  shows "\<exists>r. hget (at_records (snd (record_failure key now t))) key = Some r \<and> ar_locked_until r = None"
proof -
  have "\<not> max_failures_before_lockout (at_config t) \<le> 1" using assms(2) by (simp add: word_le_nat_alt)
  with assms(1) show ?thesis by (simp add: record_failure_def Let_def sat_add_def)
qed

text \<open>One round of an attacker: a failing host hello, then an anonymous viewer hello, on any connections, at any times.\<close>

definition evasion_round ::
  "'j server_env \<Rightarrow> string \<Rightarrow> string \<Rightarrow> string \<Rightarrow> (readings \<times> conn_id \<times> readings \<times> conn_id) \<Rightarrow> 'j app_state \<Rightarrow> 'j app_state" where
  "evasion_round E ip bad anon rnd st = (case rnd of (T, c, T', c') \<Rightarrow>
     snd (expect_hello E T' c' ip (hello_frame anon) (snd (expect_hello E T c ip (hello_frame bad) st))))"

lemma evasion_round_keeps:
  assumes "bad_hello E (st_repo st) bad" and "anonymous_hello E anon"
    and "hget (at_records (st_attempts st)) (key_ip ip) = None" and "2 \<le> max_failures_before_lockout (at_config (st_attempts st))"
  shows "st_repo (evasion_round E ip bad anon rnd st) = st_repo st \<and>
    hget (at_records (st_attempts (evasion_round E ip bad anon rnd st))) (key_ip ip) = None \<and>
    at_config (st_attempts (evasion_round E ip bad anon rnd st)) = at_config (st_attempts st)"
proof -
  obtain T c T' c' where rnd: "rnd = (T, c, T', c')" by (cases rnd) auto
  let ?st1 = "snd (expect_hello E T c ip (hello_frame bad) st)"
  have chk: "attempt_check (key_ip ip) (mono_clock T 0) (st_attempts st) = (Inr (), st_attempts st)"
    using assms(3) by (simp add: attempt_check_def)
  note b = bad_hello_step [OF assms(1) chk, where conn = c]
  from first_failure [OF assms(3,4), of "mono_clock T 1"] b(2)
  have "fst (attempt_check (key_ip ip) (mono_clock T' 0) (st_attempts ?st1)) = Inr ()"
    by (intro attempt_check_open) auto
  then obtain t where t: "attempt_check (key_ip ip) (mono_clock T' 0) (st_attempts ?st1) = (Inr (), t)"
    by (cases "attempt_check (key_ip ip) (mono_clock T' 0) (st_attempts ?st1)") auto
  have "at_config t = at_config (snd (attempt_check (key_ip ip) (mono_clock T' 0) (st_attempts ?st1)))"
    by (simp only: t snd_conv)
  also have "\<dots> = at_config (st_attempts st)" by (simp add: b(2))
  finally have "at_config t = at_config (st_attempts st)" .
  with anonymous_hello_step [OF assms(2) t, where conn = c'] b(3) show ?thesis
    by (simp add: rnd evasion_round_def record_success_def)
qed

lemma demo_bad_hello: "bad_hello demo_srv (st_repo demo_before_hello) ''b''"
  unfolding bad_hello_def
  by (intro exI [of _ "\<lparr>device_token = ''b''\<rparr>"])
    (simp add: demo_srv_def demo_decode PROTOCOL_VERSION_def trim_visible visible_def demo_token_hash
      find_by_access_hash_def find_credential_def with_device_def demo_before_hello_def demo_devices_eq)

lemma demo_anonymous_hello: "anonymous_hello demo_srv []"
  unfolding anonymous_hello_def
  by (intro exI [of _ "\<lparr>device_token = []\<rparr>"]) (simp add: demo_srv_def demo_decode PROTOCOL_VERSION_def)

lemma demo_no_failures:
  "hget (at_records (st_attempts demo_before_hello)) k = None" "at_config (st_attempts demo_before_hello) = default_attempt_config"
  by (simp_all add: demo_before_hello_def new_app_state_def new_tracker_def)

text \<open>
  The lockout of an address can be kept from ever engaging. An anonymous viewer hello counts as a success
  and clears the failures of its address: an attacker that sends one after each failing host hello can try any number
  of tokens from one address, and the next failing hello is still answered by \<open>unauthorized\<close>, never by
  \<open>rate_limited\<close>.
\<close>

theorem anonymous_hello_evades_lockout:
  assumes "bad_hello E (st_repo st) bad" and "anonymous_hello E anon"
    and "hget (at_records (st_attempts st)) (key_ip ip) = None" and "2 \<le> max_failures_before_lockout (at_config (st_attempts st))"
  shows "fst (expect_hello E T conn ip (hello_frame bad) (foldl (\<lambda>st r. evasion_round E ip bad anon r st) st rounds)) = Inl invalid_token"
  using assms
proof (induction rounds arbitrary: st)
  case Nil
  then have "attempt_check (key_ip ip) (mono_clock T 0) (st_attempts st) = (Inr (), st_attempts st)"
    by (simp add: attempt_check_def)
  with Nil bad_hello_step(1) show ?case by fastforce
next
  case (Cons r rounds)
  from evasion_round_keeps [OF Cons.prems, of r] Cons.prems Cons.IH [of "evasion_round E ip bad anon r st"]
  show ?case by simp
qed

theorem anonymous_hello_evades_lockout_witness:
  "fst (expect_hello demo_srv demo_clock (ConnId 1) ''ip'' (hello_frame ''b'')
     (foldl (\<lambda>st r. evasion_round demo_srv ''ip'' ''b'' [] r st) demo_before_hello
       (replicate 1000 (demo_clock, ConnId 1, demo_clock, ConnId 1)))) = Inl invalid_token"
  by (rule anonymous_hello_evades_lockout [OF demo_bad_hello demo_anonymous_hello])
    (simp_all add: demo_no_failures default_attempt_config_def)

text \<open>
  Failing hellos with no success between them. \<open>failing t0 i t\<close> says that the address has failed \<open>i\<close> times since \<open>t0\<close>,
  within one failure window.
\<close>

definition failing :: "string \<Rightarrow> instant \<Rightarrow> nat \<Rightarrow> attempt_tracker \<Rightarrow> bool" where
  "failing key t0 i t \<longleftrightarrow> at_config t = default_attempt_config \<and>
     (if i = 0 then hget (at_records t) key = None
      else \<exists>r. hget (at_records t) key = Some r \<and> unat (ar_failures r) = i \<and> ar_locked_until r = None \<and>
        t0 \<le> ar_last_failure r)"

lemma failing_check:
  assumes "failing key t0 i t" and "now \<le> t0 + secs 900"
  shows "attempt_check key now t = (Inr (), t)"
  using assms
  by (auto simp: failing_def attempt_check_def default_attempt_config_def split: if_splits option.splits)

lemma failing_step:
  assumes "failing key t0 i t" and "t0 \<le> now" and "now \<le> t0 + secs 900"
  shows "i < 4 \<Longrightarrow> failing key t0 (Suc i) (snd (record_failure key now t))"
    and "i = 4 \<Longrightarrow> \<exists>r. hget (at_records (snd (record_failure key now t))) key = Some r \<and> ar_locked_until r = Some (now + secs 2)"
proof -
  let ?r0 = "case hget (at_records t) key of None \<Rightarrow> \<lparr>ar_failures = 0, ar_last_failure = now, ar_locked_until = None\<rparr> | Some r \<Rightarrow> r"
  have r0: "unat (ar_failures ?r0) = i" "ar_locked_until ?r0 = None" "\<not> secs 900 < now - ar_last_failure ?r0"
    using assms by (auto simp: failing_def split: if_splits)
  have cfg: "at_config t = default_attempt_config" using assms(1) by (simp add: failing_def)
  have count: "unat (sat_add (ar_failures ?r0) 1) = Suc i" if "i \<le> 4" using r0(1) that by (simp add: unat_sat_add)
  have ge: "5 \<le> sat_add (ar_failures ?r0) 1 \<longleftrightarrow> 4 \<le> i" if "i \<le> 4"
    using count [OF that] by (auto simp: word_le_nat_alt)
  show "failing key t0 (Suc i) (snd (record_failure key now t))" if "i < 4"
    using r0 count ge that assms(2) cfg
    by (simp add: failing_def record_failure_def Let_def default_attempt_config_def)
  show "\<exists>r. hget (at_records (snd (record_failure key now t))) key = Some r \<and> ar_locked_until r = Some (now + secs 2)" if "i = 4"
  proof -
    have "sat_sub (sat_add (ar_failures ?r0) 1) 5 = 0"
      using count that by (simp add: word_unat_eq_iff unat_sat_sub)
    moreover have "compute_lockout (secs 2) (secs 3600) 0 = secs 2" using default_lockout [of 0] by simp
    ultimately show ?thesis using r0 ge that cfg
      by (simp add: record_failure_def Let_def default_attempt_config_def)
  qed
qed

primrec bad_hellos :: "'j server_env \<Rightarrow> string \<Rightarrow> string \<Rightarrow> (readings \<times> conn_id) list \<Rightarrow> 'j app_state \<Rightarrow> 'j app_state" where
  "bad_hellos E ip bad [] st = st"
| "bad_hellos E ip bad (call # calls) st =
     bad_hellos E ip bad calls (snd (expect_hello E (fst call) (snd call) ip (hello_frame bad) st))"

definition within_window :: "instant \<Rightarrow> readings \<times> conn_id \<Rightarrow> bool" where
  "within_window t0 call \<longleftrightarrow> mono_clock (fst call) 0 \<le> t0 + secs 900 \<and>
     t0 \<le> mono_clock (fst call) 1 \<and> mono_clock (fst call) 1 \<le> t0 + secs 900"

lemma bad_hellos_failing:
  assumes "bad_hello E (st_repo st) bad" and "failing (key_ip ip) t0 i (st_attempts st)"
    and "list_all (within_window t0) calls" and "i + length calls \<le> 4"
  shows "failing (key_ip ip) t0 (i + length calls) (st_attempts (bad_hellos E ip bad calls st)) \<and>
    st_repo (bad_hellos E ip bad calls st) = st_repo st"
  using assms
proof (induction calls arbitrary: st i)
  case (Cons call calls)
  obtain T c where call: "call = (T, c)" by fastforce
  from Cons.prems have w: "mono_clock T 0 \<le> t0 + secs 900" "t0 \<le> mono_clock T 1" "mono_clock T 1 \<le> t0 + secs 900"
    by (auto simp: call within_window_def)
  note b = bad_hello_step [OF Cons.prems(1) failing_check [OF Cons.prems(2) w(1)], where conn = c]
  from failing_step(1) [OF Cons.prems(2) w(2,3)] Cons.prems(4)
  have "failing (key_ip ip) t0 (Suc i) (snd (record_failure (key_ip ip) (mono_clock T 1) (st_attempts st)))" by simp
  with b Cons.IH [of "snd (expect_hello E T c ip (hello_frame bad) st)" "Suc i"] Cons.prems show ?case
    by (simp add: call)
qed simp

text \<open>
  Five failing hellos lock an address. Under the default configuration, when five hellos of hosts with
  unknown tokens come from an address with no failures on record, within fifteen minutes and with no success in
  between, then every hello from that address in the next two seconds is refused as rate limited, whoever says
  it and whatever token it carries, and changes nothing but the attempt records.
\<close>

theorem five_bad_hellos_lock_address:
  assumes "bad_hello E (st_repo st) bad" and "at_config (st_attempts st) = default_attempt_config"
    and "hget (at_records (st_attempts st)) (key_ip ip) = None"
    and "list_all (within_window t0) calls" and "length calls = 5"
    and "mono_clock T 0 < mono_clock (fst (last calls)) 1 + secs 2"
    and "decode_message (srv_json E) body = Inr (Hello role PROTOCOL_VERSION auth)"
  shows "\<exists>m st'. expect_hello E T conn ip (hello_frame body) (bad_hellos E ip bad calls st) = (Inl (Error ''rate_limited'' m), st') \<and>
    st' = (bad_hellos E ip bad calls st)\<lparr>st_attempts := st_attempts st'\<rparr>"
proof -
  obtain calls' call where calls: "calls = calls' @ [call]" "length calls' = 4"
    using assms(5) by (cases calls rule: rev_cases) auto
  obtain T5 c5 where call: "call = (T5, c5)" by fastforce
  let ?st4 = "bad_hellos E ip bad calls' st"
  have app: "bad_hellos E ip bad (xs @ [x]) s = snd (expect_hello E (fst x) (snd x) ip (hello_frame bad) (bad_hellos E ip bad xs s))"
    for xs x and s :: "'a app_state" by (induction xs arbitrary: s) simp_all
  from bad_hellos_failing [OF assms(1), of ip t0 0 calls'] assms(2,3,4) calls
  have four: "failing (key_ip ip) t0 4 (st_attempts ?st4)" "st_repo ?st4 = st_repo st" by (simp_all add: failing_def)
  from assms(4) have w: "mono_clock T5 0 \<le> t0 + secs 900" "t0 \<le> mono_clock T5 1" "mono_clock T5 1 \<le> t0 + secs 900"
    by (auto simp: calls call within_window_def)
  have bad4: "bad_hello E (st_repo ?st4) bad" using assms(1) four(2) by simp
  note b = bad_hello_step [OF bad4 failing_check [OF four(1) w(1)], where conn = c5]
  from failing_step(2) [OF four(1) w(2,3) refl] b(2) obtain r where
    r: "hget (at_records (st_attempts (bad_hellos E ip bad calls st))) (key_ip ip) = Some r"
      "ar_locked_until r = Some (mono_clock T5 1 + secs 2)"
    by (auto simp: calls app call)
  have "mono_clock T 0 < mono_clock T5 1 + secs 2" using assms(6) by (simp add: calls call)
  with r obtain lock where "attempt_check (key_ip ip) (mono_clock T 0) (st_attempts (bad_hellos E ip bad calls st)) =
      (Inl lock, st_attempts (bad_hellos E ip bad calls st))"
    by (simp add: attempt_check_def)
  with assms(7) protocol_version_bounds show ?thesis by (simp add: expect_hello_def error_msg_def)
qed

theorem five_bad_hellos_lock_address_witness:
  "\<exists>m st'. expect_hello demo_srv demo_clock (ConnId 1) ''ip'' (hello_frame ''a'')
     (bad_hellos demo_srv ''ip'' ''b'' (replicate 5 (demo_clock, ConnId 1)) demo_before_hello) = (Inl (Error ''rate_limited'' m), st')"
proof -
  have calls: "list_all (within_window 0) (replicate 5 (demo_clock, ConnId 1))" "length (replicate 5 (demo_clock, ConnId 1)) = 5"
      "mono_clock demo_clock 0 < mono_clock (fst (last (replicate 5 (demo_clock, ConnId 1)))) 1 + secs 2"
    by (simp_all add: within_window_def demo_clock_def list_all_iff)
  have "decode_message (srv_json demo_srv) ''a'' = Inr (Hello Host PROTOCOL_VERSION \<lparr>device_token = ''a''\<rparr>)"
    by (simp add: demo_srv_def demo_decode PROTOCOL_VERSION_def)
  from five_bad_hellos_lock_address [OF demo_bad_hello demo_no_failures(2) demo_no_failures(1) calls this] show ?thesis by blast
qed

section \<open>What a closed socket leaves behind\<close>

lemma drop_receiver_frame [simp]:
  "conns (drop_receiver tx g) = conns g" "peers (drop_receiver tx g) = peers g" "sessions (drop_receiver tx g) = sessions g"
  "host_by_public_id (drop_receiver tx g) = host_by_public_id g" "host_busy (drop_receiver tx g) = host_busy g"
  by (simp_all add: drop_receiver_def split: option.split)

text \<open>A connection that is registered nowhere: no channel, no identity, no presence, no session, no lock of one.\<close>

definition forgotten :: "conn_id \<Rightarrow> 'j registry \<Rightarrow> bool" where
  "forgotten c g \<longleftrightarrow> hget (conns g) c = None \<and> peer c g = None \<and> (\<forall>pid. hget (host_by_public_id g) pid \<noteq> Some c) \<and>
     (\<forall>sid s. hget (sessions g) sid = Some s \<longrightarrow> \<not> party c s)"

lemma close_socket_forgets:
  assumes "reg_inv (st_sessions st)"
  shows "forgotten c (st_sessions (close_socket c tx st))"
  using assms
  by (auto simp: forgotten_def close_socket_def peer_def unregister_maps sessions_unregister reg_inv_def
      hget_hdel_all_where split: option.splits)

lemma handle_socket_close:
  "\<exists>st2. ops E st st2 \<and> handle_socket E T ip evs st = close_socket (ConnId (next_conn (st_sessions st))) (length (chans (st_sessions st))) st2"
proof -
  obtain c g where r: "register_conn (st_sessions st) = (c, g)" by fastforce
  then have c: "c = ConnId (next_conn (st_sessions st))" by (simp add: register_conn_def Let_def)
  obtain res st2 where h: "expect_hello E (T 0) c ip (case evs of [] \<Rightarrow> None | ev # _ \<Rightarrow> Some ev) (st\<lparr>st_sessions := g\<rparr>) = (res, st2)"
    by fastforce
  have "ops E st (st\<lparr>st_sessions := g\<rparr>)" by (rule ops_sessions [OF ops_refl]) (rule pair_steps(6) [OF r])
  with expect_hello_ops [OF h] have 2: "ops E st st2" by (blast intro: ops_trans)
  show ?thesis
  proof (cases res)
    case (Inl e)
    with send_reply_ops [OF 2] show ?thesis by (auto simp: handle_socket_def r h Let_def simp flip: c)
  next
    case (Inr idn)
    have "ops E st (socket_loop E (\<lambda>i. T (Suc i)) c idn ip (tl evs) st2)" using 2 socket_loop_ops by (rule ops_trans)
    with Inr show ?thesis by (auto simp: handle_socket_def r h Let_def simp flip: c)
  qed
qed

text \<open>
  A socket leaves nothing behind. Whatever a peer sends over a socket and however it ends (a failed
  hello, a close frame, a read error, the end of the stream), when its handler returns the server is in a reachable
  state in which the connection is not registered, has no identity, is nobody's presence, and is a party of no
  session; every remaining session still holds its host's lock and every lock is held by a stored session.
\<close>

theorem socket_leaves_nothing:
  assumes "server_reachable E st"
  shows "server_reachable E (handle_socket E T ip evs st) \<and>
    forgotten (ConnId (next_conn (st_sessions st))) (st_sessions (handle_socket E T ip evs st)) \<and>
    (hget (host_busy (st_sessions (handle_socket E T ip evs st))) h = Some sid \<longleftrightarrow>
      host_of_session (st_sessions (handle_socket E T ip evs st)) sid = Some h)"
proof -
  obtain st2 where st2: "ops E st st2" "handle_socket E T ip evs st =
      close_socket (ConnId (next_conn (st_sessions st))) (length (chans (st_sessions st))) st2"
    using handle_socket_close [of E st T ip evs] by blast
  have inv: "reg_inv (st_sessions st')" if "server_reachable E st'" for st'
    using server_reachable_components [OF that] reg_reachable_inv by blast
  have reach: "server_reachable E (handle_socket E T ip evs st)" by (rule ops_reachable [OF assms handle_socket_ops])
  have "reg_inv (st_sessions st2)" by (rule inv [OF ops_reachable [OF assms st2(1)]])
  then have "forgotten (ConnId (next_conn (st_sessions st))) (st_sessions (handle_socket E T ip evs st))"
    unfolding st2(2) by (rule close_socket_forgets)
  with reach reg_lock.agree [OF inv [OF reach]] show ?thesis by blast
qed

theorem socket_leaves_nothing_witness:
  "forgotten (ConnId 3) (st_sessions (handle_socket demo_srv (\<lambda>_. demo_clock) ''ip'' [WsFrame (WsText ''a''), WsReadError] demo_server))"
proof -
  have "next_conn (st_sessions demo_server) = 3" by (simp add: demo_server_def demo_sessions_eq)
  with socket_leaves_nothing [OF demo_server_reachable, of "\<lambda>_. demo_clock" "''ip''" "[WsFrame (WsText ''a''), WsReadError]"]
  show ?thesis by simp
qed

end
