(* ===== verification/Ws_Host_Props.thy ===== *)
theory Ws_Host_Props
  imports Ws_Host Server_Props
begin

text \<open>
  What a host that serves its own sessions promises to a viewer and to the server: numbering of its
  messages, the order of the negotiation, and who gets to send input. The last part composes
  the server's gate of a session intent (\<open>otp_gate\<close>) with the host's authorization.
\<close>

section \<open>Authorization and the input gate\<close>

text \<open>Whether the host could authorize the viewer: the first branch of \<open>authorize_viewer\<close>.\<close>

definition viewer_authorized ::
  "('p, 'i) host_env \<Rightarrow> u64 \<Rightarrow> bytes \<Rightarrow> session_mode \<Rightarrow> host_auth \<Rightarrow> ('p, 'i) session_manager \<Rightarrow> bool" where
  "viewer_authorized E now nonce mode hub mgr \<longleftrightarrow>
     (if mode = Unattended then fst (hub_authorize_unattended E nonce hub mgr) = Inr ()
      else fst (hub_authorize_live E now nonce hub mgr) = Inr ())"

lemma bind_polls_run: "bind_polls E clock n m = Some m' \<Longrightarrow> \<exists>tr. mgr_run E m tr m'"
proof (induction n arbitrary: m)
  case 0
  then show ?case using mgr_run.none by auto
next
  case (Suc n)
  from Suc.prems obtain r m1 where p: "poll_inbound E (clock n) m = Some (r, m1)"
      "(if identity_bound (hm_identity m1) then Some m1 else bind_polls E clock n m1) = Some m'"
    by (auto split: option.splits)
  obtain tr1 where "mgr_run E m tr1 m1" using poll_inbound_run [OF p(1)] by blast
  moreover have "\<exists>tr2. mgr_run E m1 tr2 m'" using Suc.IH [of m1] p(2) mgr_run.none by (auto split: if_splits)
  ultimately show ?case using mgr_run_append by blast
qed

lemma open_gate_run: "open_gate E nonce m = (Inr (), m') \<Longrightarrow> \<exists>tr. mgr_run E m tr m'"
  using mgr_run_append [OF one_step [OF mgr_step.policy] one_step [OF mgr_step.challenge], of E nonce True m m']
  by (auto simp: open_gate_def split: prod.splits sum.splits)

lemma session_mode_a_Inr:
  assumes "authorize_session_mode_a E code now hub m = (Inr (), h, m1)"
  shows "\<exists>(w :: active_otp_window) r key. manager_authorize_mode_a E code (ha_otp_pepper hub) now (aw_record w) m = (Inr (), r, m1) \<and>
    hm_bind_key m1 = Some key"
proof (cases "ha_active_otp hub")
  case None
  with assms show ?thesis by (simp add: authorize_session_mode_a_def)
next
  case (Some w)
  obtain q r m2 where q: "manager_authorize_mode_a E code (ha_otp_pepper hub) now (aw_record w) m = (q, r, m2)"
    by (metis prod_cases3)
  with assms Some have "q = Inr ()" "m2 = m1" by (cases q; simp add: authorize_session_mode_a_def)+
  moreover from this q have "\<exists>key. hm_bind_key m1 = Some key"
    by (auto simp: manager_authorize_mode_a_def install_key_def split: prod.splits sum.splits)
  ultimately show ?thesis using q by metis
qed

lemma authorized_run:
  "hub_authorize_unattended E nonce hub m = (Inr (), m') \<Longrightarrow> \<exists>tr. mgr_run E m tr m'"
  "hub_authorize_live E now nonce hub m = (Inr (), h, m') \<Longrightarrow> \<exists>tr. mgr_run E m tr m'"
proof -
  assume "hub_authorize_unattended E nonce hub m = (Inr (), m')"
  then obtain secret m1 where a: "authorize_unattended_secret secret m = (Inr (), m1)" "open_gate E nonce m1 = (Inr (), m')"
    by (auto simp: hub_authorize_unattended_def split: option.splits prod.splits sum.splits)
  then have "mgr_step E m (Authorized (from_mode_b_secret secret)) m1"
    by (intro mgr_step.secret) (auto simp: authorize_unattended_secret_def install_key_def split: if_splits)
  with open_gate_run [OF a(2)] show "\<exists>tr. mgr_run E m tr m'" using mgr_run_append [OF one_step] by blast
next
  assume "hub_authorize_live E now nonce hub m = (Inr (), h, m')"
  then obtain code m1 where a: "authorize_session_mode_a E code now hub m = (Inr (), h, m1)" "open_gate E nonce m1 = (Inr (), m')"
    by (auto simp: hub_authorize_live_def split: option.splits prod.splits sum.splits)
  from session_mode_a_Inr [OF a(1)] obtain w :: active_otp_window and r key where
    b: "manager_authorize_mode_a E code (ha_otp_pepper hub) now (aw_record w) m = (Inr (), r, m1)" "hm_bind_key m1 = Some key" by blast
  with open_gate_run [OF a(2)] show "\<exists>tr. mgr_run E m tr m'"
    using mgr_run_append [OF one_step [OF mgr_step.mode_a]] by blast
qed

lemma gate_needs_proof:
  assumes "mgr_run E (manager_with_peer p i) tr m" and "injection_allowed m"
  shows "\<exists>sid. hm_session_id m = Some sid \<and> session_of tr = Some sid \<and> proved E sid (since_attach tr)"
  using gate_inv_run [OF assms(1) refl] assms(2) by (auto simp: gate_inv_def injection_allowed_def input_allowed_def)

text \<open>
  C14. An authorized viewer still has to prove itself. When the host could authorize the viewer, what it does then
  (the challenge and up to forty polls) is a run of the session manager, and input is let through at its end only if
  in that run an answer of the viewer proved the key, the nonce and the fingerprints of this session.
\<close>

theorem authorized_viewer_proves_itself:
  assumes "mgr_run E (manager_with_peer p i) tr mgr" and "viewer_authorized E now nonce mode hub mgr"
    and "authorize_viewer E clock now nonce mode hub mgr = Some (h, m)"
  shows "\<exists>tr'. mgr_run E (manager_with_peer p i) tr' m \<and>
    (injection_allowed m \<longrightarrow> (\<exists>sid. hm_session_id m = Some sid \<and> session_of tr' = Some sid \<and> proved E sid (since_attach tr')))"
proof -
  obtain m1 where m1: "bind_polls E clock 40 m1 = Some m" "\<exists>tr1. mgr_run E mgr tr1 m1"
  proof (cases "mode = Unattended")
    case True
    with assms(2) obtain m1 where "hub_authorize_unattended E nonce hub mgr = (Inr (), m1)"
      by (cases "hub_authorize_unattended E nonce hub mgr") (auto simp: viewer_authorized_def)
    moreover from this True assms(3) have "bind_polls E clock 40 m1 = Some m" by (auto simp: authorize_viewer_def)
    ultimately show ?thesis using that authorized_run(1) by blast
  next
    case False
    with assms(2) obtain h1 m1 where "hub_authorize_live E now nonce hub mgr = (Inr (), h1, m1)"
      by (cases "hub_authorize_live E now nonce hub mgr") (auto simp: viewer_authorized_def)
    moreover from this False assms(3) have "bind_polls E clock 40 m1 = Some m" by (auto simp: authorize_viewer_def)
    ultimately show ?thesis using that authorized_run(2) by blast
  qed
  obtain tr1 where "mgr_run E mgr tr1 m1" using m1(2) by blast
  moreover obtain tr2 where "mgr_run E m1 tr2 m" using bind_polls_run [OF m1(1)] by blast
  ultimately have run: "mgr_run E (manager_with_peer p i) (tr @ tr1 @ tr2) m" using assms(1) mgr_run_append by blast
  show ?thesis using run gate_needs_proof [OF run] by (intro exI [of _ "tr @ tr1 @ tr2"]) blast
qed

text \<open>A host with a Mode B secret whose viewer stays silent: the challenge is out, and input stays closed.\<close>

lemma demo_bind_polls:
  "hm_data m = [] \<Longrightarrow> \<not> identity_bound (hm_identity m) \<Longrightarrow> bind_polls demo_env clock n m = Some m"
  by (induction n arbitrary: m) (simp_all add: poll_inbound_def on_peer_def demo_env_def)

theorem authorized_viewer_proves_itself_witness:
  "\<exists>h m tr'. authorize_viewer demo_env (\<lambda>_ _. (0, 0)) 100 [7] Unattended (set_host_secret (HostSecret [1]) new_live_hub)
      (manager_attach ''s'' demo_injector (manager_with_peer () demo_injector)) = Some (h, m) \<and>
    mgr_run demo_env (manager_with_peer () demo_injector) tr' m \<and> hm_challenge m = Some [7] \<and> \<not> injection_allowed m"
proof -
  let ?hub = "set_host_secret (HostSecret [1]) new_live_hub"
  let ?mgr = "manager_attach ''s'' demo_injector (manager_with_peer () demo_injector)"
  define m where "m = (set_input_policy_enabled True (install_key (from_mode_b_secret (HostSecret [1])) ?mgr))\<lparr>hm_challenge := Some [7]\<rparr>"
  have auth: "hub_authorize_unattended demo_env [7] ?hub ?mgr = (Inr (), m)"
    by (simp add: hub_authorize_unattended_def set_host_secret_def open_gate_def authorize_unattended_secret_def
        start_identity_challenge_def on_peer_def demo_env_def manager_attach_def install_key_def mark_authorized_def
        set_input_policy_enabled_def manager_with_peer_def m_def)
  have m: "hm_data m = []" "\<not> identity_bound (hm_identity m)" "hm_challenge m = Some [7]"
    by (simp_all add: m_def set_input_policy_enabled_def install_key_def manager_attach_def manager_with_peer_def
        mark_authorized_def new_identity_def)
  have a: "authorize_viewer demo_env (\<lambda>_ _. (0, 0)) 100 [7] Unattended ?hub ?mgr = Some (?hub, m)"
    using demo_bind_polls [OF m(1,2)] by (simp add: authorize_viewer_def auth)
  have "mgr_run demo_env (manager_with_peer () demo_injector) [Attached ''s''] ?mgr" by (rule one_step, rule mgr_step.attach)
  moreover have "viewer_authorized demo_env 100 [7] Unattended ?hub ?mgr" by (simp add: viewer_authorized_def auth)
  ultimately obtain tr' where "mgr_run demo_env (manager_with_peer () demo_injector) tr' m"
    using authorized_viewer_proves_itself [OF _ _ a] by blast
  with a m show ?thesis by (auto simp: injection_allowed_def input_allowed_def)
qed

lemma gate_forced: "injection_allowed (set_input_policy_enabled True (force_identity_bound_for_tests m))"
  by (simp add: injection_allowed_def input_allowed_def set_input_policy_enabled_def force_identity_bound_for_tests_def
      mark_identity_bound_def mark_authorized_def)

text \<open>A Mode A window that cannot authorize anybody: never minted, already used, or past its lifetime.\<close>

definition window_dead :: "u64 \<Rightarrow> host_auth \<Rightarrow> bool" where
  "window_dead now hub \<longleftrightarrow>
     ha_last_otp_code hub = None \<or>
     (case ha_active_otp hub of None \<Rightarrow> True | Some w \<Rightarrow> or_consumed (aw_record w) \<or> window_is_expired w now)"

lemma window_dead_fails:
  assumes "window_dead now hub"
  shows "\<exists>e h. hub_authorize_live E now nonce hub m = (Inl e, h, m)"
proof (cases "ha_last_otp_code hub")
  case None
  then show ?thesis by (simp add: hub_authorize_live_def)
next
  case code: (Some code)
  show ?thesis
  proof (cases "ha_active_otp hub")
    case None
    with code show ?thesis by (simp add: hub_authorize_live_def authorize_session_mode_a_def)
  next
    case (Some w)
    with assms code have "\<exists>e. verify_record (crypto_of E) (aw_record w) code (ha_otp_pepper hub) now = Inl e"
      by (auto simp: window_dead_def window_is_expired_def verify_record_def)
    with code Some show ?thesis
      by (auto simp: hub_authorize_live_def authorize_session_mode_a_def manager_authorize_mode_a_def authorize_mode_a_def
          verify_and_consume_def)
  qed
qed

text \<open>
  C11. A viewer without any credential takes control of the host. When the host has no Mode B secret, or its
  one-time code has run out or was used, authorization fails, and the host then marks the session as authorized and
  bound and lets input through: no key was agreed, no challenge sent. The server does not stop such a viewer either: an
  unattended request, and any request to a host whose code has run out, passes its code gate with no code.
\<close>

theorem failed_authorization_opens_input:
  assumes "if mode = Unattended then ha_host_secret hub = None else window_dead now hub"
    and "mode \<noteq> Unattended \<longrightarrow> active_for_host (dv_id dev) (utc T 1) (st_otp st) = None"
  shows "fst (otp_gate S T ip session_id mode prefilter dev st) = Inr () \<and>
    (\<exists>h m. authorize_viewer E clock now nonce mode hub mgr = Some (h, m) \<and> injection_allowed m \<and>
       hm_bind_key m = hm_bind_key mgr \<and> hm_challenge m = hm_challenge mgr)"
proof
  show "fst (otp_gate S T ip session_id mode prefilter dev st) = Inr ()"
    using assms(2) by (cases mode) (simp_all add: otp_gate_def Let_def split: option.split)
  have opened: "hm_bind_key (set_input_policy_enabled True (force_identity_bound_for_tests mgr)) = hm_bind_key mgr"
    "hm_challenge (set_input_policy_enabled True (force_identity_bound_for_tests mgr)) = hm_challenge mgr"
    by (simp_all add: set_input_policy_enabled_def force_identity_bound_for_tests_def)
  have "\<exists>h. authorize_viewer E clock now nonce mode hub mgr =
      Some (h, set_input_policy_enabled True (force_identity_bound_for_tests mgr))"
  proof (cases "mode = Unattended")
    case True
    with assms(1) show ?thesis by (simp add: authorize_viewer_def hub_authorize_unattended_def)
  next
    case False
    with assms(1) window_dead_fails [of now hub E nonce mgr] show ?thesis by (auto simp: authorize_viewer_def)
  qed
  with opened gate_forced show "\<exists>h m. authorize_viewer E clock now nonce mode hub mgr = Some (h, m) \<and> injection_allowed m \<and>
       hm_bind_key m = hm_bind_key mgr \<and> hm_challenge m = hm_challenge mgr" by metis
qed

text \<open>The worked server whose code has run out, an anonymous viewer without a code, and a host that never minted one.\<close>

theorem failed_authorization_opens_input_witness:
  "fst (otp_gate demo_srv (demo_clock\<lparr>utc := \<lambda>_. 10 ^ 12\<rparr>) ''ip'' ''S'' Otp ''{}'' (snd (hd (devices demo_devices))) demo_server) = Inr () \<and>
   (\<exists>h m. authorize_viewer demo_env (\<lambda>_ _. (0, 0)) 100 [7] Otp new_live_hub (manager_with_peer () demo_injector) = Some (h, m) \<and>
      injection_allowed m \<and> hm_bind_key m = None \<and> hm_challenge m = None)"
  using failed_authorization_opens_input [where mode = Otp and hub = new_live_hub and now = 100 and E = demo_env and
      mgr = "manager_with_peer () demo_injector" and st = demo_server and T = "demo_clock\<lparr>utc := \<lambda>_. 10 ^ 12\<rparr>"
      and dev = "snd (hd (devices demo_devices))" and nonce = "[7]" and S = demo_srv and clock = "\<lambda>_ _. (0, 0)"
      and ip = "''ip''" and session_id = "''S''" and prefilter = "''{}''"]
  by (simp add: window_dead_def new_live_hub_def new_host_auth_def manager_with_peer_def demo_server_def demo_otp_eq
      active_for_host_def)

section \<open>Candidates gathered after the answer\<close>

text \<open>The text frames a client has sent; answers to pings are not signaling messages.\<close>

fun text_of :: "client_frame \<Rightarrow> string list" where
  "text_of (CfText t) = [t]"
| "text_of _ = []"

definition texts :: "signaling_client \<Rightarrow> string list" where
  "texts c = concat (map text_of (cl_sent c))"

lemma texts_ws_send:
  "ws_send f c = (r, c') \<Longrightarrow> texts c' = texts c @ (if r = Inr () then text_of f else []) \<and> cl_arrivals c' = cl_arrivals c
     \<and> next_seq c' = next_seq c"
  by (auto simp: ws_send_def texts_def split: list.splits option.splits)

lemma texts_update [simp]: "texts (c\<lparr>cl_arrivals := a\<rparr>) = texts c" "texts (c\<lparr>next_seq := n\<rparr>) = texts c"
  by (simp_all add: texts_def)

lemma texts_observe [simp]: "texts (observe_message msg c) = texts c"
  by (simp add: observe_message_def observe_seq_def Let_def split: option.split)

lemma texts_recv_loop: "texts (snd (recv_loop J as c)) = texts c"
proof (induction J as c rule: recv_loop.induct)
  case (5 J t as c)
  then show ?case by (auto simp: Let_def split: sum.split signal_message.split)
next
  case (6 J p as c)
  obtain r c1 where s: "ws_send (CfPong p) c = (r, c1)" by fastforce
  with texts_ws_send [OF s] 6 show ?case by (cases r) auto
qed auto

lemma texts_recv_timeout: "texts (snd (recv_timeout J c)) = texts c"
  using texts_recv_loop [of J "cl_arrivals c" c] by (auto simp: recv_timeout_def split: prod.splits option.splits)

lemma apply_ice_outbound:
  assumes "apply_text E ICE_CANDIDATE what payload m = Some (r, m')"
  shows "hm_outbound m' = hm_outbound m"
proof -
  have k: "ICE_CANDIDATE \<noteq> SESSION_OFFER" "ICE_CANDIDATE \<noteq> SESSION_ANSWER"
    by (simp_all add: ICE_CANDIDATE_def SESSION_OFFER_def SESSION_ANSWER_def)
  have p: "hm_outbound m2 = hm_outbound m1" if "on_peer f m1 = (r1, m2)" for f r1 m1 m2
    using that by (auto simp: on_peer_def split: prod.splits)
  show ?thesis
    using assms k
    by (auto simp: apply_text_def apply_signal_def split: sum.splits option.splits prod.splits dest!: p)
qed

text \<open>
  Candidates gathered after the answer are never sent. While the host trickles candidates it forwards what
  is queued on the manager, but polling the peer only collects new candidates there without queueing them: whatever
  the peer reports and however long it runs, the loop sends no message at all.
\<close>

theorem late_candidates_are_not_sent:
  assumes "trickle_loop J E ends session_id n sig mgr = Some (r, sig', mgr')" and "hm_outbound mgr = []"
  shows "texts sig' = texts sig"
  using assms
proof (induction n arbitrary: sig mgr)
  case 0
  then show ?case by simp
next
  case (Suc n)
  let ?m = "poll_peer E mgr" and ?s = "snd (recv_timeout J sig)"
  have out: "hm_outbound ?m = []"
    using Suc.prems(2) by (auto simp: poll_peer_def on_peer_def split: prod.splits)
  show ?case
  proof (cases "ends n")
    case True
    with Suc.prems show ?thesis by simp
  next
    case False
    define step where "step = (case recv_timeout J sig of
        (Inr (IceCandidate _ _ c), s1) \<Rightarrow>
          map_option (\<lambda>(r, m1). (r, s1, m1)) (apply_text E ICE_CANDIDATE ''apply ice: '' (json_ice_to_string E c) (?m\<lparr>hm_outbound := []\<rparr>))
      | (_, s1) \<Rightarrow> Some (Inr (), s1, ?m\<lparr>hm_outbound := []\<rparr>))"
    from False Suc.prems(1) out have t: "(case step of None \<Rightarrow> None
        | Some (Inl e, s1, m1) \<Rightarrow> Some (Inl e, s1, m1)
        | Some (Inr _, s1, m1) \<Rightarrow> if peer_state E (hm_peer m1) = CsConnected then Some (Inr (), s1, m1)
            else trickle_loop J E ends session_id n s1 m1) = Some (r, sig', mgr')"
      by (simp add: take_outbound_signals_def step_def)
    then obtain r1 s1 m1 where s: "step = Some (r1, s1, m1)" by (cases step) auto
    then have "s1 = ?s" "hm_outbound m1 = []"
      by (auto simp: step_def split: prod.splits sum.splits signal_message.splits option.splits dest!: apply_ice_outbound)
    with t s Suc.IH [of s1 m1] texts_recv_timeout [of J sig] show ?thesis
      by (auto split: sum.splits if_splits)
  qed
qed

theorem late_candidates_are_not_sent_witness:
  "\<exists>sig' m'. trickle_loop demo_json
     (demo_env\<lparr>peer_state := \<lambda>_. CsConnecting, peer_poll := \<lambda>p. (Inr (),
        \<lparr>ev_ice = [\<lparr>candidate = ''candidate:1'', sdp_mid = None, sdp_m_line_index = None, username_fragment = None\<rparr>],
         ev_data = []\<rparr>, p)\<rparr>)
     (\<lambda>_. False) ''s'' 2 (client_connected [] []) (manager_with_peer () demo_injector) = Some (Inr (), sig', m') \<and>
     texts sig' = [] \<and> length (hm_ice m') = 2"
proof -
  let ?E = "demo_env\<lparr>peer_state := \<lambda>_. CsConnecting, peer_poll := \<lambda>p. (Inr (),
        \<lparr>ev_ice = [\<lparr>candidate = ''candidate:1'', sdp_mid = None, sdp_m_line_index = None, username_fragment = None\<rparr>],
         ev_data = []\<rparr>, p)\<rparr>"
  obtain sig' m' where t: "trickle_loop demo_json ?E (\<lambda>_. False) ''s'' 2 (client_connected [] []) (manager_with_peer () demo_injector) =
      Some (Inr (), sig', m')" "length (hm_ice m') = 2"
    by (simp add: numeral_2_eq_2 poll_peer_def on_peer_def take_outbound_signals_def recv_timeout_def client_connected_def
        manager_with_peer_def)
  with late_candidates_are_not_sent [OF t(1)] show ?thesis
    by (auto simp: manager_with_peer_def client_connected_def texts_def)
qed

section \<open>The handshake of an incoming session\<close>

lemma recv_until_first:
  assumes "clock 1 < clock 0 + wait" and "cl_arrivals c = Arrives (CfText t) # rest"
    and "decode_message J t = Inr msg" and "\<And>code m. msg \<noteq> Error code m" and "pred msg"
  shows "recv_until J clock wait pred c = (Inr msg, observe_message msg (c\<lparr>cl_arrivals := rest\<rparr>))"
proof -
  have "recv_timeout J c = (Inr msg, observe_message msg (c\<lparr>cl_arrivals := rest\<rparr>))"
    using assms(2,3,4) by (auto simp: recv_timeout_def Let_def split: signal_message.split)
  with assms(1,5) show ?thesis by (simp add: recv_until_def recv_until_loop.simps [where i = "Suc 0"])
qed

lemma client_send_ok:
  assumes "cl_send_outcomes c = []" and "encode_message J msg = Inr u"
  shows "client_send J msg c = (Inr (), c\<lparr>cl_sent := cl_sent c @ [CfText u]\<rparr>)"
  using assms by (simp add: client_send_def ws_send_def)

lemma sat_add_exact: "unat a = n \<Longrightarrow> n + 1 < 2 ^ 64 \<Longrightarrow> unat (sat_add (a :: u64) 1) = n + 1"
  by (simp add: sat_add_def unat_word_ariths)



end
