(* ===== verification/Ws_Loop_Props.thy ===== *)
theory Ws_Loop_Props
  imports Ws_Loop Ws_Host_Props Host_Pump_Props
begin

text \<open>
  What the host service guarantees over any number of sessions and connections, and what it does not: how many sessions it serves, when it makes
  a new code, what a failed session leaves behind, and what becomes of a host whose token is refused.
\<close>

section \<open>What a session leaves of the service\<close>

text \<open>The code a tray shows with its expiry.\<close>

definition tray_code :: "tray_state \<Rightarrow> string option \<times> string option" where
  "tray_code t = (ts_otp_code t, ts_otp_expires_at t)"

definition shown_code :: "'w service \<Rightarrow> (string option \<times> string option) option" where
  "shown_code sv = map_option tray_code (sv_tray sv)"

lemma tray_code_ops [simp]:
  "tray_code (tray_begin_session i l t) = tray_code t" "tray_code (tray_mark_session_active t) = tray_code t"
  "tray_code (tray_end_session t) = tray_code t" "tray_code (tray_apply_kill t) = tray_code t"
  by (simp_all add: tray_code_def tray_begin_session_def tray_mark_session_active_def tray_end_session_def tray_apply_kill_def tray_publish_def)

lemma finish_session_code:
  assumes "finish_session L R pid mode vf sid im sig tray hub c mgr = Some (r, s, tray', hub')"
  shows "map_option tray_code tray' = map_option tray_code tray"
  using assms by (auto simp: finish_session_def option.map_comp o_def Let_def split: option.splits sum.splits prod.splits if_splits)

lemma connect_session_code:
  assumes "connect_session L R ice tc vf sid sig tray = Some (r, s, tray')"
  shows "map_option tray_code tray' = map_option tray_code tray"
  using assms by (auto simp: connect_session_def option.map_comp o_def Let_def split: option.splits sum.splits prod.splits if_splits)

lemma local_session_code:
  assumes "handle_one_session_local L R ice pid mode tc vf wait sig tray hub = Some (r, s, tray', hub')"
  shows "map_option tray_code tray' = map_option tray_code tray"
  using assms by (auto simp: handle_one_session_local_def option.map_comp o_def split: option.splits sum.splits prod.splits
      dest!: connect_session_code finish_session_code)

lemma agent_media_code:
  assumes "agent_media G R pid mode vf sid early held sig agent tray = Some (r, s, a, tray')"
  shows "map_option tray_code tray' = map_option tray_code tray"
  using assms by (auto simp: agent_media_def option.map_comp o_def Let_def split: option.splits sum.splits prod.splits if_splits bool.splits)

lemma agent_session_code:
  assumes "handle_one_session_agent G R pid mode vf wait sig agent tray = Some (r, s, a, tray')"
  shows "map_option tray_code tray' = map_option tray_code tray"
  using assms by (auto simp: handle_one_session_agent_def option.map_comp o_def Let_def split: option.splits sum.splits prod.splits bool.splits
      dest!: agent_media_code)

text \<open>A session touches the hub, the tray and the agent's connection, and not the code that is shown.\<close>

lemma serve_one_keeps:
  assumes "serve_one A cfg R pid mode sig sv = Some (r, s, sv1)"
  shows "sv_world sv1 = sv_world sv" "sv_completed sv1 = sv_completed sv" "sv_sleeps sv1 = sv_sleeps sv" "shown_code sv1 = shown_code sv"
  using assms
  by (auto simp: serve_one_def shown_code_def split: option.splits dest!: local_session_code agent_session_code)

lemma remint_keeps [simp]: "sv_completed (remint A cfg en dr sv) = sv_completed sv" "sv_sleeps (remint A cfg en dr sv) = sv_sleeps sv"
  by (simp_all add: remint_def split: prod.split sum.split option.split)

lemma finish_completed_keeps [simp]:
  "sv_completed (finish_completed t sv) = sat_add (sv_completed sv) 1" "sv_sleeps (finish_completed t sv) = sv_sleeps sv"
  by (simp_all add: finish_completed_def)

section \<open>What a session says before it is over\<close>

fun negotiates :: "'j signal_message \<Rightarrow> bool" where
  "negotiates (SessionAccept _ _) = True"
| "negotiates (SessionOffer _ _ _ _) = True"
| "negotiates (IceCandidate _ _ _) = True"
| "negotiates _ = False"

definition negotiation_frame :: "'j json_api \<Rightarrow> client_frame \<Rightarrow> bool" where
  "negotiation_frame J f \<longleftrightarrow> (case f of CfText t \<Rightarrow> \<exists>m. negotiates m \<and> encode_message J m = Inr t | CfPong _ \<Rightarrow> True | _ \<Rightarrow> False)"

text \<open>Between \<open>c\<close> and \<open>c'\<close> the socket has sent only negotiation messages and answers to pings: no end of a session, and no close.\<close>

definition only_negotiates :: "'j json_api \<Rightarrow> signaling_client \<Rightarrow> signaling_client \<Rightarrow> bool" where
  "only_negotiates J c c' \<longleftrightarrow> (\<exists>fs. cl_sent c' = cl_sent c @ fs \<and> (\<forall>f \<in> set fs. negotiation_frame J f))"

lemma only_negotiates_refl [simp, intro]: "only_negotiates J c c"
  by (simp add: only_negotiates_def)

lemma only_negotiates_trans [trans]: "only_negotiates J c c1 \<Longrightarrow> only_negotiates J c1 c2 \<Longrightarrow> only_negotiates J c c2"
  by (fastforce simp: only_negotiates_def)

lemma only_negotiates_sent: "cl_sent c1 = cl_sent c2 \<Longrightarrow> only_negotiates J c c1 = only_negotiates J c c2"
  by (simp add: only_negotiates_def)

lemma only_negotiates_sent_left: "cl_sent c1 = cl_sent c2 \<Longrightarrow> only_negotiates J c1 c = only_negotiates J c2 c"
  by (simp add: only_negotiates_def)

lemma ws_send_negotiates:
  "ws_send f c = (r, c') \<Longrightarrow> negotiation_frame J f \<Longrightarrow> only_negotiates J c c'"
  by (auto simp: ws_send_def only_negotiates_def split: list.splits option.splits)

lemma client_send_negotiates:
  assumes "client_send J msg c = (r, c')" and "negotiates msg"
  shows "only_negotiates J c c'"
proof (cases "encode_message J msg")
  case (Inr t)
  with assms(2) have "negotiation_frame J (CfText t)" by (auto simp: negotiation_frame_def)
  with Inr assms(1) show ?thesis by (auto simp: client_send_def intro: ws_send_negotiates)
qed (use assms in \<open>simp add: client_send_def\<close>)

lemma take_seq_negotiates: "take_seq c = (n, c') \<Longrightarrow> only_negotiates J c c'"
  by (auto simp: take_seq_def only_negotiates_def)

lemma observe_sent [simp]: "cl_sent (observe_message msg c) = cl_sent c"
  by (simp add: observe_message_def observe_seq_def Let_def split: option.split)

lemma recv_loop_negotiates: "only_negotiates J c (snd (recv_loop J as c))"
proof (induction J as c rule: recv_loop.induct)
  case (5 J t as c)
  then show ?case by (auto simp: Let_def only_negotiates_def split: sum.split signal_message.split)
next
  case (6 J p as c)
  obtain r c1 where s: "ws_send (CfPong p) c = (r, c1)" by fastforce
  then have n: "only_negotiates J c c1" by (rule ws_send_negotiates) (simp add: negotiation_frame_def)
  with s 6 show ?case by (cases r) (auto intro: only_negotiates_trans simp: only_negotiates_sent [of "c1\<lparr>cl_arrivals := as\<rparr>" c1])
qed (auto simp: only_negotiates_def)

lemma recv_timeout_negotiates: "recv_timeout J c = (r, c') \<Longrightarrow> only_negotiates J c c'"
  using recv_loop_negotiates [of J c "cl_arrivals c"] by (auto simp: recv_timeout_def split: prod.splits option.splits)

lemma recv_until_loop_negotiates: "recv_until_loop J clock d P i c = (r, c') \<Longrightarrow> only_negotiates J c c'"
proof (induction J clock d P i c rule: recv_until_loop.induct)
  case (1 J clock d P i c)
  show ?case
  proof (cases "d \<le> clock i")
    case False
    obtain r1 c1 where r: "recv_timeout J c = (r1, c1)" by fastforce
    with 1 False show ?thesis
      by (cases r1) (auto simp: recv_until_loop.simps [of J clock d P i c] dest: recv_timeout_negotiates split: if_splits intro: only_negotiates_trans)
  qed (use 1 in \<open>simp add: recv_until_loop.simps\<close>)
qed

lemma accept_negotiates:
  assumes "accept_incoming_session J clock wait c = (r, c')"
  shows "only_negotiates J c c'"
proof -
  obtain r1 c1 where u: "recv_until J clock wait is_incoming c = (r1, c1)" by fastforce
  then have n: "only_negotiates J c c1" unfolding recv_until_def by (rule recv_until_loop_negotiates)
  have s: "only_negotiates J c c2" if "client_send J (SessionAccept i q) (c1\<lparr>next_seq := x\<rparr>) = (r2, c2)" for i q r2 c2 x
    using client_send_negotiates [OF that] n by (simp add: only_negotiates_def only_negotiates_sent_left [of "c1\<lparr>next_seq := x\<rparr>" c1]) fastforce
  show ?thesis using assms u n s
    by (fastforce simp: accept_incoming_session_def take_seq_def split: sum.splits signal_message.splits prod.splits)
qed

lemmas negotiation_steps = client_send_negotiates take_seq_negotiates recv_timeout_negotiates

lemma send_candidate_negotiates:
  assumes "send_candidate J E sid ice c = Some (r, c')"
  shows "only_negotiates J c c'"
  using assms
  by (auto simp: send_candidate_def split: option.splits sum.splits prod.splits dest!: negotiation_steps intro: only_negotiates_trans)

lemma send_candidates_negotiate:
  assumes "send_candidates J E sid ices c = Some (r, c')"
  shows "only_negotiates J c c'"
  using assms
  by (induction J E sid ices c rule: send_candidates.induct)
    (auto split: option.splits sum.splits prod.splits dest!: send_candidate_negotiates intro: only_negotiates_trans)

lemma answer_loop_negotiates: "answer_loop J E n c m = Some (r, c', m') \<Longrightarrow> only_negotiates J c c'"
proof (induction n arbitrary: c m)
  case (Suc n)
  obtain r1 c1 where v: "recv_timeout J c = (r1, c1)" by fastforce
  then have "only_negotiates J c c1" by (rule recv_timeout_negotiates)
  with Suc v show ?case
    by (auto split: sum.splits signaling_error.splits signal_message.splits option.splits intro: only_negotiates_trans)
qed auto

lemma trickle_loop_negotiates: "trickle_loop J E ends sid n c m = Some (r, c', m') \<Longrightarrow> only_negotiates J c c'"
proof (induction n arbitrary: c m)
  case (Suc n)
  obtain out m1 where t: "take_outbound_signals (poll_peer E m) = (out, m1)" by fastforce
  show ?case
  proof (cases "send_candidates J E sid (filter is_ice_forward out) c")
    case None
    with Suc.prems t show ?thesis by (auto split: if_splits)
  next
    case (Some rc)
    then obtain r1 c1 where s: "send_candidates J E sid (filter is_ice_forward out) c = Some (r1, c1)" by (cases rc) auto
    obtain r2 c2 where v: "recv_timeout J c1 = (r2, c2)" by fastforce
    have n: "only_negotiates J c c1" "only_negotiates J c1 c2" using s v by (auto intro: send_candidates_negotiate recv_timeout_negotiates)
    with Suc t s v show ?thesis
      by (auto split: if_splits sum.splits signal_message.splits option.splits intro: only_negotiates_trans)
  qed
qed auto

lemma relay_negotiates:
  assumes "relay_offer_answer_ice_local J E ends k n sid offer held c m = Some (r, c', m')"
  shows "only_negotiates J c c'"
  using assms
  by (auto simp: relay_offer_answer_ice_local_def split: prod.splits sum.splits option.splits bool.splits
      dest!: client_send_negotiates take_seq_negotiates [where J = J] answer_loop_negotiates send_candidates_negotiate trickle_loop_negotiates intro: only_negotiates_trans)
    (meson only_negotiates_trans)+

lemma connect_session_negotiates:
  assumes "connect_session L R ice tc vf sid c tray = Some (r, c', tray')"
  shows "only_negotiates (lh_json L) c c'"
  using assms
  by (auto simp: connect_session_def Let_def split: prod.splits sum.splits option.splits dest!: relay_negotiates)

lemma drive_live_negotiates:
  "drive_live L clock ends n totals sig c m = Some (r, t, sig', c', m') \<Longrightarrow> only_negotiates (lh_json L) sig sig'"
proof (induction n arbitrary: totals sig c m)
  case (Suc n)
  obtain r1 s1 where v: "recv_timeout (lh_json L) sig = (r1, s1)" by fastforce
  then have "only_negotiates (lh_json L) sig s1" by (rule recv_timeout_negotiates)
  with Suc v show ?case
    by (auto simp: Let_def split: if_splits sum.splits signaling_error.splits signal_message.splits option.splits prod.splits
        intro: only_negotiates_trans)
qed auto

lemma failed_finish_negotiates:
  assumes "finish_session L R pid mode vf sid im sig tray hub c mgr = Some (Some (Inl e), s, tray', hub')"
  shows "only_negotiates (lh_json L) sig s"
  using assms
  by (auto simp: finish_session_def drive_local_media_def Let_def split: option.splits sum.splits prod.splits if_splits
      dest!: drive_live_negotiates)

lemma failed_local_session_negotiates:
  assumes "handle_one_session_local L R ice pid mode tc vf wait sig tray hub = Some (Some (Inl e), s, tray', hub')"
  shows "only_negotiates (lh_json L) sig s"
  using assms
  by (auto simp: handle_one_session_local_def split: option.splits sum.splits prod.splits
      dest!: accept_negotiates connect_session_negotiates failed_finish_negotiates intro: only_negotiates_trans)

lemma forward_negotiates: "forward_agent_ice_to_wss G sid msgs c = Some (r, c') \<Longrightarrow> only_negotiates (gh_json G) c c'"
proof (induction msgs arbitrary: c)
  case (Cons msg msgs)
  then show ?case
    by (auto split: control_message.splits if_splits option.splits sum.splits prod.splits
        dest!: client_send_negotiates take_seq_negotiates [where J = "gh_json G"] intro: only_negotiates_trans)
qed simp

lemma viewer_ice_negotiates:
  assumes "viewer_ice_to_agent G sid cand c a = Some (r, c', a')"
  shows "only_negotiates (gh_json G) c c'"
  using assms
  by (auto simp: viewer_ice_to_agent_def split: sum.splits prod.splits if_splits dest!: forward_negotiates)

lemma viewer_ices_negotiate: "viewer_ices_to_agent G sid cands c a = Some (r, c', a') \<Longrightarrow> only_negotiates (gh_json G) c c'"
  by (induction G sid cands c a rule: viewer_ices_to_agent.induct)
    (auto split: option.splits sum.splits prod.splits dest!: viewer_ice_negotiates intro: only_negotiates_trans)

lemma agent_answer_negotiates:
  "agent_answer_loop G sid n early c a = (r, c', a') \<Longrightarrow> only_negotiates (gh_json G) c c'"
proof (induction n arbitrary: early c)
  case (Suc n)
  obtain r1 c1 where v: "recv_timeout (gh_json G) c = (r1, c1)" by fastforce
  then have "only_negotiates (gh_json G) c c1" by (rule recv_timeout_negotiates)
  with Suc v show ?case
    by (auto split: sum.splits signaling_error.splits signal_message.splits prod.splits if_splits intro: only_negotiates_trans)
qed auto

lemma agent_media_loop_negotiates:
  "agent_media_loop G ends sid n conn video c a = Some (r, c', a') \<Longrightarrow> only_negotiates (gh_json G) c c'"
proof (induction n arbitrary: conn video c a)
  case (Suc n)
  obtain r1 c1 where v: "recv_timeout (gh_json G) c = (r1, c1)" by fastforce
  then have "only_negotiates (gh_json G) c c1" by (rule recv_timeout_negotiates)
  with Suc v show ?case
    by (auto simp: Let_def split: if_splits sum.splits signal_message.splits prod.splits option.splits
        dest!: viewer_ice_negotiates forward_negotiates intro: only_negotiates_trans)
      (meson only_negotiates_trans)+
qed auto

lemma drive_agent_negotiates:
  "drive_agent_live G ends sid n c a = Some (r, c', a') \<Longrightarrow> only_negotiates (gh_json G) c c'"
proof (induction n arbitrary: c a)
  case (Suc n)
  obtain r1 c1 where v: "recv_timeout (gh_json G) c = (r1, c1)" by fastforce
  then have "only_negotiates (gh_json G) c c1" by (rule recv_timeout_negotiates)
  with Suc v show ?case
    by (auto simp: Let_def split: if_splits sum.splits signaling_error.splits signal_message.splits prod.splits option.splits
        dest!: forward_negotiates intro: only_negotiates_trans)
qed auto

lemma failed_agent_media_negotiates:
  assumes "agent_media G R pid mode vf sid early held c a tray = Some (Some (Inl e), c', a', tray')"
  shows "only_negotiates (gh_json G) c c'"
  using assms
  by (auto simp: agent_media_def Let_def split: option.splits sum.splits prod.splits if_splits bool.splits
      dest!: send_candidates_negotiate viewer_ices_negotiate agent_media_loop_negotiates drive_agent_negotiates intro: only_negotiates_trans)

lemma failed_agent_session_negotiates:
  assumes "handle_one_session_agent G R pid mode vf wait c a tray = Some (Some (Inl e), c', a', tray')"
  shows "only_negotiates (gh_json G) c c'"
  using assms
  by (auto simp: handle_one_session_agent_def Let_def split: option.splits sum.splits prod.splits bool.splits
      dest!: accept_negotiates client_send_negotiates take_seq_negotiates [where J = "gh_json G"] agent_answer_negotiates
        failed_agent_media_negotiates intro: only_negotiates_trans)
    (meson only_negotiates_trans)+

text \<open>The JSON library of a service's sessions.\<close>

definition session_json :: "('j, 'u, 'p, 'i, 's, 'm, 'w) host_app \<Rightarrow> 'w service \<Rightarrow> 'j json_api" where
  "session_json A sv = (case sv_agent sv of None \<Rightarrow> ho_json A | Some _ \<Rightarrow> gh_json (ho_agent A))"

lemma failed_session_negotiates:
  assumes "serve_one A cfg R pid mode c sv = Some (Some (Inl e), c', sv')"
  shows "only_negotiates (session_json A sv) c c'"
  using assms
  by (auto simp: serve_one_def session_json_def split: option.splits dest: failed_local_session_negotiates failed_agent_session_negotiates)


section \<open>How many sessions, and when a new code\<close>

lemma sat_succ:
  fixes c m :: u32
  shows "c \<le> sat_add c 1" and "c \<noteq> - 1 \<Longrightarrow> c < sat_add c 1" and "c < m \<Longrightarrow> sat_add c 1 \<le> m"
proof -
  have n: "unat (sat_add c 1) = min (Suc (unat c)) (2 ^ 32 - 1)" by (simp add: unat_sat_add)
  have c: "unat c < 2 ^ 32" "unat m < 2 ^ 32" by (rule order_less_le_trans [OF unsigned_less], simp)+
  then show "c \<le> sat_add c 1" "c < m \<Longrightarrow> sat_add c 1 \<le> m" using n by (auto simp: word_le_nat_alt word_less_nat_alt)
  assume "c \<noteq> - 1"
  then have "unat c \<noteq> 2 ^ 32 - 1" by (simp add: word_unat_eq_iff unsigned_minus_1_eq_mask mask_eq_exp_minus_1)
  with n c(1) show "c < sat_add c 1" by (simp add: word_less_nat_alt)
qed

text \<open>What a part of a service's life may change: more completed sessions, never past the number wanted, and the code only together with them.\<close>

definition serves_on :: "ws_host_config \<Rightarrow> 'w service \<Rightarrow> 'w service \<Rightarrow> bool" where
  "serves_on cfg sv sv' \<longleftrightarrow> sv_completed sv \<le> sv_completed sv' \<and>
     (\<not> unlimited cfg \<and> sv_completed sv \<le> wh_max_sessions cfg \<longrightarrow> sv_completed sv' \<le> wh_max_sessions cfg) \<and>
     (sv_completed sv' = sv_completed sv \<and> sv_completed sv \<noteq> - 1 \<longrightarrow> sv_world sv' = sv_world sv \<and> shown_code sv' = shown_code sv)"

lemma serves_on_trans:
  assumes "serves_on cfg a b" "serves_on cfg b c"
  shows "serves_on cfg a c"
proof -
  have le: "sv_completed a \<le> sv_completed b" "sv_completed b \<le> sv_completed c" using assms by (simp_all add: serves_on_def)
  moreover have "sv_completed b = sv_completed a" if "sv_completed c = sv_completed a" using le that by (intro order_antisym) simp_all
  ultimately show ?thesis using assms order_trans [OF le] by (simp add: serves_on_def)
qed

lemma serves_on_failed:
  "serve_one A cfg R pid mode c sv = Some (r, c', sv1) \<Longrightarrow> serves_on cfg sv sv1"
  by (simp add: serves_on_def serve_one_keeps)

lemma serves_on_completed:
  assumes "serve_one A cfg R pid mode c sv = Some (r, c', sv1)" "\<not> sessions_done cfg sv" "sv_completed sv2 = sat_add (sv_completed sv1) 1"
  shows "serves_on cfg sv sv2"
  using assms(2,3) serve_one_keeps [OF assms(1)] sat_succ [of "sv_completed sv"] by (auto simp: serves_on_def sessions_done_def not_le)

lemma serve_serves_on:
  "serve A cfg H enrolled mode k n j c sv = Some (r, c', sv') \<Longrightarrow> serves_on cfg sv sv' \<and> sv_sleeps sv' = sv_sleeps sv"
proof (induction n arbitrary: j c sv)
  case 0
  then show ?case by (simp add: serves_on_def)
next
  case (Suc n)
  show ?case
  proof (cases "sessions_done cfg sv")
    case True
    with Suc.prems show ?thesis by (simp add: serves_on_def)
  next
    case False
    then obtain q s sv1 where one: "serve_one A cfg (hr_session H k j) (eh_public_id enrolled) mode c sv = Some (q, s, sv1)"
      using Suc.prems by (auto split: option.splits)
    note kept = serves_on_failed [OF one] serve_one_keeps(3) [OF one]
    note fin = serves_on_completed [OF one False]
    have "\<exists>sv2. serves_on cfg sv sv2 \<and> sv_sleeps sv2 = sv_sleeps sv \<and>
        (sv' = sv2 \<or> serve A cfg H enrolled mode k n (Suc j) s sv2 = Some (r, c', sv'))"
    proof (cases q)
      case None
      with Suc.prems False one kept show ?thesis by auto
    next
      case (Some x)
      show ?thesis
      proof (cases x)
        case (Inl e)
        with Some Suc.prems False one kept show ?thesis
          by (intro exI [of _ sv1]) (auto simp: Let_def split: error_course.splits)
      next
        case (Inr t)
        let ?sv3 = "if remint_after cfg (Inr t) then remint A cfg enrolled (hr_mint H k j) (finish_completed t sv1) else finish_completed t sv1"
        have "serves_on cfg sv ?sv3" by (rule fin) simp
        moreover from Inr Some Suc.prems False one
        have "sv' = ?sv3 \<or> serve A cfg H enrolled mode k n (Suc j) s ?sv3 = Some (r, c', sv')"
          by (simp only: serve.simps if_False option.case prod.case sum.case Let_def split: if_splits) auto
        ultimately show ?thesis using kept by (intro exI [of _ ?sv3]) simp
      qed
    qed
    with Suc.IH show ?thesis by (metis serves_on_trans)
  qed
qed

lemma connect_serves_on:
  "connect_and_serve A cfg H enrolled mode url rounds k sv = Some (r, sv') \<Longrightarrow> serves_on cfg sv sv' \<and> sv_sleeps sv' = sv_sleeps sv"
  by (auto simp: connect_and_serve_def serves_on_def shown_code_def split: sum.splits prod.splits dest!: serve_serves_on)

lemma next_backoff_cap: "next_backoff b = Some b' \<Longrightarrow> b' \<le> BACKOFF_CAP"
  by (auto simp: next_backoff_def split: if_splits)

lemma loop_serves_on:
  "service_loop A cfg H enrolled mode url rounds n k b sv = Some (r, sv') \<Longrightarrow> serves_on cfg sv sv' \<and>
     (\<exists>ds. sv_sleeps sv' = sv_sleeps sv @ ds \<and> (\<forall>d \<in> set ds. d \<le> max b BACKOFF_CAP))"
proof (induction n arbitrary: k b sv)
  case 0
  then show ?case by (simp add: serves_on_def)
next
  case (Suc n)
  show ?case
  proof (cases "sessions_done cfg sv")
    case True
    with Suc.prems show ?thesis by (simp add: serves_on_def)
  next
    case False
    then obtain q sv1 where one: "connect_and_serve A cfg H enrolled mode url rounds k sv = Some (q, sv1)"
      using Suc.prems by (auto split: option.splits)
    note kept = connect_serves_on [OF one]
    show ?thesis
    proof (cases "\<exists>e. q = Some (Inl e) \<and> wh_reconnect cfg")
      case True
      with Suc.prems False one obtain b' where b': "next_backoff b = Some b'"
        "service_loop A cfg H enrolled mode url rounds n (Suc k) b' (sv1\<lparr>sv_sleeps := sv_sleeps sv1 @ [b]\<rparr>) = Some (r, sv')"
        by (auto split: option.splits)
      from Suc.IH [OF b'(2)] obtain ds where ih: "serves_on cfg (sv1\<lparr>sv_sleeps := sv_sleeps sv1 @ [b]\<rparr>) sv'"
        "sv_sleeps sv' = (sv_sleeps sv1 @ [b]) @ ds" "\<forall>d \<in> set ds. d \<le> max b' BACKOFF_CAP" by auto
      have "serves_on cfg sv1 (sv1\<lparr>sv_sleeps := sv_sleeps sv1 @ [b]\<rparr>)" by (simp add: serves_on_def shown_code_def)
      with kept ih(1) have "serves_on cfg sv sv'" by (blast intro: serves_on_trans)
      moreover have "d \<le> max b BACKOFF_CAP" if "d \<in> set (b # ds)" for d
        using that ih(3) next_backoff_cap [OF b'(1)] by (auto simp: max_def split: if_splits)
      ultimately show ?thesis using ih(2) kept by (intro conjI exI [of _ "b # ds"]) auto
    next
      case no: False
      with Suc.prems False one have "sv' = sv1" by (auto split: option.splits sum.splits if_splits)
      with kept show ?thesis by simp
    qed
  qed
qed

text \<open>
  C36. The host serves no more sessions than it was asked for, however often it reconnects, and no pause between two connections is longer than a
  minute, or than the first pause it was set to.
\<close>

theorem served_sessions_bounded:
  assumes "service_loop A cfg H enrolled mode url rounds n k b sv = Some (r, sv')"
    and "\<not> unlimited cfg" and "sv_completed sv \<le> wh_max_sessions cfg"
  shows "sv_completed sv' \<le> wh_max_sessions cfg \<and>
    (\<exists>ds. sv_sleeps sv' = sv_sleeps sv @ ds \<and> (\<forall>d \<in> set ds. d \<le> max b BACKOFF_CAP))"
  using loop_serves_on [OF assms(1)] assms(2,3) by (auto simp: serves_on_def)

text \<open>
  The host makes a new one-time code only after a session that was served to its end. Over any number of connections and failed sessions that
  complete none, it calls neither the server nor its file system, and the code it shows is the one it showed before: a viewer that reads a code there which
  the server has used up for a failed session is refused, until the service is started again.
\<close>

theorem new_code_needs_finished_session:
  assumes "service_loop A cfg H enrolled mode url rounds n k b sv = Some (r, sv')"
    and "sv_completed sv' = sv_completed sv" and "sv_completed sv \<noteq> - 1"
  shows "sv_world sv' = sv_world sv \<and> shown_code sv' = shown_code sv"
  using loop_serves_on [OF assms(1)] assms(2,3) by (simp add: serves_on_def)

section \<open>A token that is refused\<close>

definition hello_refused :: "('j, 'u, 'p, 'i, 's, 'm, 'w) host_app \<Rightarrow> enrolled_host \<Rightarrow> signaling_error + signaling_client \<Rightarrow> bool" where
  "hello_refused A enrolled con \<longleftrightarrow>
     (case con of Inl _ \<Rightarrow> True | Inr sig \<Rightarrow> (case fst (hello_host (ho_json A) (ho_debug A) (eh_access_token enrolled) sig) of Inl _ \<Rightarrow> True | Inr _ \<Rightarrow> False))"

lemma refused_connection:
  assumes "hello_refused A enrolled (hr_connect H url k)"
  shows "\<exists>e. connect_and_serve A cfg H enrolled mode url rounds k sv = Some (Some (Inl e), sv)"
  using assms by (auto simp: hello_refused_def connect_and_serve_def split: sum.splits prod.splits)

lemma refused_loop:
  assumes "wh_reconnect cfg" and "\<not> sessions_done cfg sv" and "b \<le> BACKOFF_CAP"
    and "\<forall>i \<in> {k ..< k + n}. hello_refused A enrolled (hr_connect H url i)"
  shows "service_loop A cfg H enrolled mode url rounds n k b sv =
    Some (None, sv\<lparr>sv_sleeps := sv_sleeps sv @ map (\<lambda>i. min (2 ^ i * b) BACKOFF_CAP) [0..<n]\<rparr>)"
  using assms(2-4)
proof (induction n arbitrary: k b sv)
  case (Suc n)
  from Suc.prems(3) have "hello_refused A enrolled (hr_connect H url k)" by simp
  then obtain e where c: "connect_and_serve A cfg H enrolled mode url rounds k sv = Some (Some (Inl e), sv)"
    using refused_connection by blast
  let ?b = "min (2 * b) BACKOFF_CAP" and ?sv = "sv\<lparr>sv_sleeps := sv_sleeps sv @ [b]\<rparr>"
  have nb: "next_backoff b = Some ?b" using Suc.prems(2) by (simp add: next_backoff_def BACKOFF_CAP_def)
  have pow: "min (2 ^ i * ?b) BACKOFF_CAP = min (2 ^ Suc i * b) BACKOFF_CAP" for i :: nat
  proof (cases "2 * b \<le> BACKOFF_CAP")
    case False
    have "2 * b \<le> 2 ^ Suc i * b" using power_increasing [of 1 "Suc i" "2 :: nat"] by (intro mult_right_mono) simp_all
    with False have "BACKOFF_CAP \<le> 2 ^ Suc i * b" by linarith
    moreover have "BACKOFF_CAP \<le> 2 ^ i * BACKOFF_CAP" by simp
    ultimately show ?thesis using False by (simp only: min_absorb2 nat_le_linear)
  qed (simp add: min_def mult.assoc mult.left_commute)
  have "service_loop A cfg H enrolled mode url rounds n (Suc k) ?b ?sv =
      Some (None, ?sv\<lparr>sv_sleeps := sv_sleeps ?sv @ map (\<lambda>i. min (2 ^ i * ?b) BACKOFF_CAP) [0..<n]\<rparr>)"
    using Suc.prems by (intro Suc.IH) (auto simp: sessions_done_def)
  moreover have "map (\<lambda>i. min (2 ^ i * ?b) BACKOFF_CAP) [0..<n] = map (\<lambda>i. min (2 ^ i * b) BACKOFF_CAP) [1..<Suc n]"
    by (simp only: pow map_Suc_upt [symmetric] map_map o_def One_nat_def)
  moreover have "map (\<lambda>i. min (2 ^ i * b) BACKOFF_CAP) [0..<Suc n] = b # map (\<lambda>i. min (2 ^ i * b) BACKOFF_CAP) [1..<Suc n]"
    using Suc.prems(2) by (simp add: upt_conv_Cons del: upt_Suc)
  ultimately show ?case using c nb assms(1) Suc.prems(1) by simp
qed simp

text \<open>
  C26. A host whose access token the server does not take (any more) connects for ever with that token. Its refresh token would get it a new one,
  but it is never used: for every number of attempts, the service still runs, has changed nothing, and has only slept, twice as long each time up to a minute.
\<close>

theorem refused_token_is_kept:
  assumes "wh_reconnect cfg" and "\<not> sessions_done cfg sv" and "b \<le> BACKOFF_CAP"
    and "\<forall>i \<in> {k ..< k + n}. hello_refused A enrolled (hr_connect H url i)"
  shows "service_loop A cfg H enrolled mode url rounds n k b sv =
    Some (None, sv\<lparr>sv_sleeps := sv_sleeps sv @ map (\<lambda>i. min (2 ^ i * b) BACKOFF_CAP) [0..<n]\<rparr>)"
  by (rule refused_loop [OF assms])

section \<open>Worked instances\<close>

text \<open>A host whose sockets carry the given message, whose transport cannot be made, and which has neither a web server nor a disk.\<close>

definition demo_app :: "string json_api \<Rightarrow> (string, unit, mock_end, stub_injector, video_frame list, unit, unit) host_app" where
  "demo_app J =
     \<lparr>ho_local = \<lparr>lh_json = J, lh_env = loop_host_env, lh_pump = listed_source, lh_create = \<lambda>_ _. Inl (NeInternal ''timeout''),
        lh_injector = \<lambda>_. demo_injector, lh_sources = \<lambda>_. Inl ''no source''\<rparr>,
      ho_agent = \<lparr>gh_json = J, gh_env = loop_host_env, gh_ipc = table_json [], gh_debug = \<lambda>_. []\<rparr>,
      ho_http = \<lparr>hc_build = Inr (), hc_post = \<lambda>_ _ _ w. (Inl ''offline'', w), hc_parse_registration = \<lambda>_. Inl [], hc_parse_tokens = \<lambda>_. Inl [],
        hc_parse_otp = \<lambda>_. Inl [], hc_base64 = \<lambda>_. []\<rparr>,
      ho_files = \<lparr>fs_exists = \<lambda>_ _. False, fs_read = \<lambda>_ _. Inl [], fs_create_dir_all = \<lambda>_ w. (Inl [], w), fs_write = \<lambda>_ _ w. (Inl [], w),
        fs_rename = \<lambda>_ _ w. (Inl [], w), path_parent = \<lambda>_. None, path_tmp = id, path_display = id, creds_parse = \<lambda>_. Inl [], creds_print = \<lambda>_. Inl []\<rparr>,
      ho_crypto = tag_crypto,
      ho_url = \<lparr>url_parse = \<lambda>_. Inl [], url_scheme = \<lambda>_. [], url_set_scheme = \<lambda>_ _. None, url_set_path = \<lambda>_. id, url_drop_query = id,
        url_drop_fragment = id, url_text = \<lambda>_. []\<rparr>,
      ho_features = \<lparr>feat_mock = True, feat_live = True, feat_webrtc = True\<rparr>, ho_debug = \<lambda>_. [], ho_as_array = \<lambda>_. None,
      ho_dial_agent = \<lambda>_. Inl TeUnsupported\<rparr>"

definition demo_reads :: "signaling_client \<Rightarrow> host_readings" where
  "demo_reads c =
     \<lparr>hr_public_key = [], hr_first_mint = \<lparr>md_now = 0, md_digits = \<lambda>_. 0, md_salt = []\<rparr>, hr_connect = \<lambda>_ _. Inr c,
      hr_session = \<lambda>_ _. \<lparr>sr_accept_clock = \<lambda>_. 0, sr_relay_ends = \<lambda>_. False, sr_media_ends = \<lambda>_. False, sr_answer_ticks = 3, sr_ice_ticks = 3,
        sr_ready_ticks = 3, sr_media_ticks = 3, sr_bind_clock = \<lambda>_ _. (0, 0), sr_media_clock = \<lambda>_ _. (0, 0), sr_now = 0, sr_nonce = []\<rparr>,
      hr_exit = \<lambda>_ _. False, hr_mint = \<lambda>_ _. \<lparr>md_now = 0, md_digits = \<lambda>_. 0, md_salt = []\<rparr>\<rparr>"

definition demo_service :: "unit service" where
  "demo_service = \<lparr>sv_hub = new_live_hub, sv_tray = None, sv_agent = None, sv_completed = 0, sv_summary = [],
     sv_ice = \<lparr>webrtc_stun = None, webrtc_turn_user = None, webrtc_turn_pass = None\<rparr>, sv_sleeps = [], sv_world = ()\<rparr>"

definition demo_enrolled :: enrolled_host where
  "demo_enrolled = \<lparr>eh_public_id = ''h'', eh_access_token = ''old'', eh_refresh_token = Some ''r''\<rparr>"

definition demo_cfg :: "u32 \<Rightarrow> ws_host_config" where
  "demo_cfg n = (default_ws_host_config False)\<lparr>wh_max_sessions := n, wh_reconnect := True\<rparr>"

definition demo_says :: "string signal_message \<Rightarrow> string json_api" where
  "demo_says m = text_json\<lparr>msg_from_str := \<lambda>_. Inr m\<rparr>"

definition demo_socket :: signaling_client where
  "demo_socket = client_connected [Arrives (CfText ''t'')] []"

lemma demo_accepts:
  "\<exists>c'. accept_incoming_session (demo_says (SessionIncoming ''S'' 2 ''v'' Otp PrefilterSkipped)) (\<lambda>_. 0) 120000000000 demo_socket = (Inr (''S'', Otp), c') \<and>
     length (cl_sent c') = 1"
proof -
  let ?m = "SessionIncoming ''S'' 2 ''v'' Otp PrefilterSkipped :: string signal_message" and ?J = "demo_says (SessionIncoming ''S'' 2 ''v'' Otp PrefilterSkipped)"
  have d: "decode_message ?J ''t'' = Inr ?m"
    by (simp add: demo_says_def decode_message_def text_json_def check_json_value_def check_str_def MAX_OPAQUE_PAYLOAD_BYTES_def)
  have "recv_until ?J (\<lambda>_. 0) 120000000000 is_incoming demo_socket = (Inr ?m, observe_message ?m (demo_socket\<lparr>cl_arrivals := []\<rparr>))"
    by (rule recv_until_first [OF _ _ d]) (simp_all add: demo_socket_def client_connected_def)
  moreover have "\<exists>u. encode_message ?J (SessionAccept ''S'' a) = Inr u" for a by (simp add: demo_says_def encode_message_def text_json_def)
  then obtain u where "encode_message ?J (SessionAccept ''S'' 3) = Inr u" by blast
  ultimately show ?thesis
    by (simp add: accept_incoming_session_def take_seq_def client_send_ok sat_add_def observe_message_def observe_seq_def demo_socket_def client_connected_def)
qed


lemma demo_refused:
  "hello_refused (demo_app (demo_says (Error ''unauthorized'' ''expired''))) demo_enrolled (hr_connect (demo_reads demo_socket) url k)"
proof -
  let ?J = "demo_says (Error ''unauthorized'' ''expired'')"
  have "decode_message ?J ''t'' = Inr (Error ''unauthorized'' ''expired'')" by (simp add: demo_says_def decode_message_def text_json_def)
  moreover have "\<exists>u. encode_message ?J (Hello Host PROTOCOL_VERSION a) = Inr u" for a by (simp add: demo_says_def encode_message_def text_json_def)
  then obtain u where "encode_message ?J (Hello Host PROTOCOL_VERSION \<lparr>device_token = ''old''\<rparr>) = Inr u" by blast
  ultimately show ?thesis
    by (simp add: hello_refused_def demo_reads_def hello_host_def client_hello_def demo_app_def demo_enrolled_def demo_socket_def client_send_ok
        client_connected_def recv_timeout_def)
qed

lemma demo_cfg_facts: "wh_reconnect (demo_cfg n)" "unlimited (demo_cfg n) \<longleftrightarrow> n = 0" "wh_max_sessions (demo_cfg n) = n"
  by (simp_all add: demo_cfg_def unlimited_def default_ws_host_config_def)

text \<open>Two refused connections with two seconds before the next: the pauses are two and four seconds.\<close>

lemma demo_refused_loop:
  "service_loop (demo_app (demo_says (Error ''unauthorized'' ''expired''))) (demo_cfg 3) (demo_reads demo_socket) demo_enrolled ModeLive [] 5 2 0
     2000000000 demo_service = Some (None, demo_service\<lparr>sv_sleeps := [2000000000, 4000000000]\<rparr>)"
proof -
  have "\<not> sessions_done (demo_cfg 3) demo_service" by (simp add: sessions_done_def demo_cfg_facts demo_service_def)
  moreover have "2000000000 \<le> BACKOFF_CAP" by (simp add: BACKOFF_CAP_def)
  moreover have "\<forall>i \<in> {0 ..< 0 + 2}. hello_refused (demo_app (demo_says (Error ''unauthorized'' ''expired''))) demo_enrolled (hr_connect (demo_reads demo_socket) [] i)"
    by (simp add: demo_refused)
  ultimately show ?thesis
    using refused_loop [OF demo_cfg_facts(1), of 3 demo_service 2000000000 0 2] by (simp add: BACKOFF_CAP_def upt_rec demo_service_def)
qed

theorem refused_token_is_kept_witness:
  "service_loop (demo_app (demo_says (Error ''unauthorized'' ''expired''))) (demo_cfg 3) (demo_reads demo_socket) demo_enrolled ModeLive [] 5 2 0
     2000000000 demo_service = Some (None, demo_service\<lparr>sv_sleeps := [2000000000, 4000000000]\<rparr>)"
proof -
  have "\<not> sessions_done (demo_cfg 3) demo_service" by (simp add: sessions_done_def demo_cfg_facts demo_service_def)
  moreover have "2000000000 \<le> BACKOFF_CAP" by (simp add: BACKOFF_CAP_def)
  moreover have "\<forall>i \<in> {0 ..< 0 + 2}. hello_refused (demo_app (demo_says (Error ''unauthorized'' ''expired''))) demo_enrolled (hr_connect (demo_reads demo_socket) [] i)"
    by (simp add: demo_refused)
  ultimately show ?thesis
    using refused_token_is_kept [OF demo_cfg_facts(1), of 3 demo_service 2000000000 0 2] by (simp add: BACKOFF_CAP_def upt_rec demo_service_def)
qed

theorem served_sessions_bounded_witness:
  "\<exists>sv'. service_loop (demo_app (demo_says (Error ''unauthorized'' ''expired''))) (demo_cfg 3) (demo_reads demo_socket) demo_enrolled ModeLive [] 5 2 0
     2000000000 demo_service = Some (None, sv') \<and> sv_completed sv' \<le> 3 \<and> (\<forall>d \<in> set (sv_sleeps sv'). d \<le> BACKOFF_CAP)"
  using served_sessions_bounded [OF demo_refused_loop] demo_refused_loop
  by (auto simp: demo_cfg_facts demo_service_def BACKOFF_CAP_def max_def)

theorem new_code_needs_finished_session_witness:
  "\<exists>sv'. service_loop (demo_app (demo_says (Error ''unauthorized'' ''expired''))) (demo_cfg 3) (demo_reads demo_socket) demo_enrolled ModeLive [] 5 2 0
     2000000000 demo_service = Some (None, sv') \<and> shown_code sv' = shown_code demo_service"
  using new_code_needs_finished_session [OF demo_refused_loop] demo_refused_loop
  by (auto simp: demo_service_def)

end
