(* ===== verification/Ws_Enrol.thy ===== *)
theory Ws_Enrol
  imports Ws_Service
begin

text \<open>
  A host that is restarted: \<open>enroll_or_reuse\<close> over any number of starts with one credential file. What the server and the disk promise are
  hypotheses; the server takes a refresh token once, so a start works only with the token that the start before it has saved.
\<close>

section \<open>Starts\<close>

fun starts ::
  "'j json_api \<Rightarrow> ('j, 'w) http_client \<Rightarrow> 'w file_system \<Rightarrow> ws_host_config \<Rightarrow> bytes list \<Rightarrow> 'w \<Rightarrow> (string + enrolled_host) list" where
  "starts J H FS cfg [] w = []"
| "starts J H FS cfg (pk # pks) w = (case enroll_or_reuse J H FS pk cfg w of (r, w1) \<Rightarrow> r # starts J H FS cfg pks w1)"

text \<open>
  \<open>live i t w\<close>: in the world \<open>w\<close>, \<open>t\<close> is the refresh token that the server at \<open>base\<close> takes from the device \<open>i\<close>. The server promises that the
  token of a registration is, and that one which is yields another that is then; requests leave the files alone.
\<close>

definition honest_server ::
  "'j json_api \<Rightarrow> ('j, 'w) http_client \<Rightarrow> 'w file_system \<Rightarrow> string \<Rightarrow> string \<Rightarrow> (string \<Rightarrow> string \<Rightarrow> 'w \<Rightarrow> bool) \<Rightarrow> bool" where
  "honest_server J H FS base path live \<longleftrightarrow>
     (\<forall>server pk name w reg w'. trim_slashes server = base \<longrightarrow> client_register_device J H server pk name w = (Inr reg, w') \<longrightarrow>
        live (dr_public_id reg) (dr_refresh_token reg) w') \<and>
     (\<forall>server i t w. trim_slashes server = base \<longrightarrow> live i t w \<longrightarrow> (\<exists>tokens w'. client_refresh_device_token J H server i t w = (Inr tokens, w') \<and>
        live i (tr_refresh_token tokens) w' \<and> fs_exists FS path w' = fs_exists FS path w \<and> fs_read FS path w' = fs_read FS path w)) \<and>
     (\<forall>i t w. live i t w \<longrightarrow> t \<noteq> [])"

text \<open>The disk promises that a save succeeds, that the file is there then, and that the server does not notice.\<close>

definition working_disk :: "'w file_system \<Rightarrow> string \<Rightarrow> (string \<Rightarrow> string \<Rightarrow> 'w \<Rightarrow> bool) \<Rightarrow> bool" where
  "working_disk FS path live \<longleftrightarrow>
     (\<forall>c w. \<exists>w'. creds_save FS path c w = (Inr (), w') \<and> fs_exists FS path w' \<and> (\<forall>i t. live i t w' = live i t w))"

text \<open>The file holds the device and a token the server takes.\<close>

definition remembered ::
  "'w file_system \<Rightarrow> ws_host_config \<Rightarrow> string \<Rightarrow> (string \<Rightarrow> string \<Rightarrow> 'w \<Rightarrow> bool) \<Rightarrow> string \<Rightarrow> 'w \<Rightarrow> bool" where
  "remembered FS cfg base live i w \<longleftrightarrow> fs_exists FS (wh_creds_path cfg) w \<and>
     (\<exists>file. creds_load FS (wh_creds_path cfg) w = Inr file \<and> hf_public_id file = i \<and> live i (hf_refresh_token file) w \<and>
        trim_slashes (hf_server file) = base)"

lemma dropWhile_idem: "dropWhile P (dropWhile P xs) = dropWhile P xs"
  by (induction xs) auto

lemma trim_slashes_idem: "trim_slashes (trim_slashes s) = trim_slashes s"
  by (simp add: trim_slashes_def dropWhile_idem)

lemma enrolment_remembers:
  assumes "file_laws FS" and "honest_server J H FS base (wh_creds_path cfg) live" and "working_disk FS (wh_creds_path cfg) live"
    and base: "trim_slashes (wh_server cfg) = base" and "wh_save_creds cfg"
    and "enroll_new J H FS pk cfg w = (Inr h, w')"
  shows "remembered FS cfg base live (eh_public_id h) w'"
proof -
  obtain reg w1 where reg: "client_register_device J H (wh_server cfg) pk (Some (wh_display_name cfg)) w = (Inr reg, w1)"
    using assms(6) by (auto simp: enroll_new_def split: prod.splits sum.splits)
  let ?file = "creds_from_registration (wh_server cfg) reg"
  from assms(3) obtain w2 where save: "creds_save FS (wh_creds_path cfg) ?file w1 = (Inr (), w2)" "fs_exists FS (wh_creds_path cfg) w2"
    "\<And>i t. live i t w2 = live i t w1" unfolding working_disk_def by blast
  have live: "live (dr_public_id reg) (dr_refresh_token reg) w1" using assms(2) base reg unfolding honest_server_def by blast
  have "w' = w2" "eh_public_id h = dr_public_id reg" using assms(5,6) reg save(1) by (auto simp: enroll_new_def Let_def)
  with creds_save_load [OF assms(1) save(1)] save(2,3) live trim_slashes_idem [of "wh_server cfg"] base show ?thesis
    by (simp add: remembered_def creds_from_registration_def)
qed

lemma creds_server_base:
  "trim_slashes (wh_server cfg) = base \<Longrightarrow> trim_slashes (hf_server file) = base \<Longrightarrow> trim_slashes (creds_server cfg file) = base"
  by (simp add: creds_server_def)

lemma start_remembers:
  assumes "file_laws FS" and "honest_server J H FS base (wh_creds_path cfg) live" and "working_disk FS (wh_creds_path cfg) live"
    and base: "trim_slashes (wh_server cfg) = base" and cfg: "wh_existing cfg = None" "wh_load_creds cfg" "wh_save_creds cfg"
    and "remembered FS cfg base live i w"
  shows "\<exists>h w'. enroll_or_reuse J H FS pk cfg w = (Inr h, w') \<and> eh_public_id h = i \<and> remembered FS cfg base live i w'"
proof -
  from assms(8) obtain c where c: "fs_exists FS (wh_creds_path cfg) w" "creds_load FS (wh_creds_path cfg) w = Inr c"
    "hf_public_id c = i" "live i (hf_refresh_token c) w" "trim_slashes (hf_server c) = base" by (auto simp: remembered_def)
  let ?server = "creds_server cfg c"
  have server: "trim_slashes ?server = base" using base c(5) by (rule creds_server_base)
  from assms(2) server c(4) obtain tokens w1 where refresh:
    "client_refresh_device_token J H ?server i (hf_refresh_token c) w = (Inr tokens, w1)" "live i (tr_refresh_token tokens) w1"
    unfolding honest_server_def by blast
  have token: "hf_refresh_token c \<noteq> []" using assms(2) c(4) unfolding honest_server_def by blast
  let ?file = "c\<lparr>hf_access_token := tr_access_token tokens, hf_refresh_token := tr_refresh_token tokens,
      hf_expires_at := Some (tr_expires_at tokens), hf_server := ?server\<rparr>"
  from assms(3) obtain w2 where save: "creds_save FS (wh_creds_path cfg) ?file w1 = (Inr (), w2)" "fs_exists FS (wh_creds_path cfg) w2"
    "\<And>i t. live i t w2 = live i t w1" unfolding working_disk_def by blast
  have "enroll_or_reuse J H FS pk cfg w = (Inr (host_of_file ?file), w2)"
    using cfg c(1-3) token refresh(1) save(1) by (simp add: enroll_or_reuse_def Let_def)
  moreover have "remembered FS cfg base live i w2"
    using creds_save_load [OF assms(1) save(1)] save(2,3) refresh(2) c(3) server by (simp add: remembered_def)
  ultimately show ?thesis using c(3) by (simp add: host_of_file_def)
qed


section \<open>A worked server and disk\<close>

text \<open>Texts one after the other, each preceded by its length in unary.\<close>

definition framed :: "string \<Rightarrow> string" where
  "framed s = replicate (length s) (CHR ''x'') @ CHR '','' # s"

definition unframed :: "string \<Rightarrow> string \<times> string" where
  "unframed t = (let n = length (takeWhile ((=) (CHR ''x'')) t); b = drop (Suc n) t in (take n b, drop n b))"

lemma unframed_framed [simp]: "unframed (framed s @ r) = (s, r)"
proof -
  have "takeWhile ((=) (CHR ''x'')) (framed s @ r) = replicate (length s) (CHR ''x'')"
    unfolding framed_def append_assoc by (subst takeWhile_append2) auto
  then show ?thesis by (simp add: unframed_def framed_def)
qed

definition framed_opt :: "string option \<Rightarrow> string" where
  "framed_opt v = framed (case v of None \<Rightarrow> [] | Some s \<Rightarrow> CHR ''+'' # s)"

definition opt_of :: "string \<Rightarrow> string option" where
  "opt_of s = (case s of [] \<Rightarrow> None | _ # t \<Rightarrow> Some t)"

lemma unframed_opt [simp]: "unframed (framed_opt v @ r) = (case v of None \<Rightarrow> [] | Some s \<Rightarrow> CHR ''+'' # s, r)"
  by (simp add: framed_opt_def)

lemma opt_of_text [simp]: "opt_of (case v of None \<Rightarrow> [] | Some s \<Rightarrow> c # s) = v"
  by (simp add: opt_of_def split: option.split)

definition demo_print :: "host_credential_file \<Rightarrow> string" where
  "demo_print c = framed (replicate (unat (hf_schema c)) (CHR ''x'')) @ framed (hf_server c) @ framed (hf_public_id c) @ framed_opt (hf_display_name c) @
     framed (hf_access_token c) @ framed (hf_refresh_token c) @ framed_opt (hf_expires_at c) @ []"

definition demo_read :: "string \<Rightarrow> host_credential_file" where
  "demo_read t =
     (let (schema, t1) = unframed t; (server, t2) = unframed t1; (i, t3) = unframed t2; (name, t4) = unframed t3; (access, t5) = unframed t4;
          (refresh, t6) = unframed t5; (expires, t7) = unframed t6
      in \<lparr>hf_schema = of_nat (length schema), hf_server = server, hf_public_id = i, hf_display_name = opt_of name, hf_access_token = access,
          hf_refresh_token = refresh, hf_expires_at = opt_of expires\<rparr>)"

lemma demo_read_print: "demo_read (demo_print c) = c"
  by (simp add: demo_read_def demo_print_def Let_def del: append_Nil2)

text \<open>A disk with every file in a map, beside a server that has given out \<open>n\<close> refresh tokens to one device, the last of which is good.\<close>

type_synonym demo_world = "(string \<Rightarrow> string option) \<times> nat"

definition demo_disk :: "demo_world file_system" where
  "demo_disk =
     \<lparr>fs_exists = \<lambda>p w. fst w p \<noteq> None, fs_read = \<lambda>p w. (case fst w p of Some t \<Rightarrow> Inr t | None \<Rightarrow> Inl ''no such file''),
      fs_create_dir_all = \<lambda>_ w. (Inr (), w), fs_write = \<lambda>p t w. (Inr (), (fst w)(p \<mapsto> t), snd w),
      fs_rename = \<lambda>p q w. (case fst w p of None \<Rightarrow> (Inl ''no such file'', w) | Some t \<Rightarrow> (Inr (), (fst w)(p := None, q \<mapsto> t), snd w)),
      path_parent = \<lambda>_. None, path_tmp = \<lambda>p. p @ ''.tmp'', path_display = id, creds_parse = \<lambda>t. Inr (demo_read t), creds_print = \<lambda>c. Inr (demo_print c)\<rparr>"

definition demo_token :: "nat \<Rightarrow> string" where
  "demo_token n = replicate (Suc n) (CHR ''r'')"

definition body_json :: "string json_api" where
  "body_json = text_json\<lparr>json_object := \<lambda>fs. concat (map snd fs)\<rparr>"

definition demo_web :: "(string, demo_world) http_client" where
  "demo_web =
     \<lparr>hc_build = Inr (),
      hc_post = \<lambda>url auth body w.
        if url = ''http://s/v1/devices/register'' \<or> url = ''http://s/v1/devices/d/token/refresh'' \<and> body = demo_token (snd w)
        then (Inr (200, Inr (demo_token (Suc (snd w)))), fst w, Suc (snd w)) else (Inr (401, Inr ''unauthorized''), w),
      hc_parse_registration = \<lambda>t. Inr \<lparr>dr_public_id = ''d'', dr_display_name = None, dr_access_token = ''a'', dr_refresh_token = t, dr_expires_at = ''later''\<rparr>,
      hc_parse_tokens = \<lambda>t. Inr \<lparr>tr_access_token = ''a'', tr_refresh_token = t, tr_expires_at = ''later'', tr_token_type = None\<rparr>,
      hc_parse_otp = \<lambda>_. Inl [], hc_base64 = \<lambda>_. []\<rparr>"

definition token_taken :: "string \<Rightarrow> string \<Rightarrow> demo_world \<Rightarrow> bool" where
  "token_taken i t w \<longleftrightarrow> i = ''d'' \<and> t = demo_token (snd w)"

lemma demo_file_laws: "file_laws demo_disk"
  by (auto simp: file_laws_def demo_disk_def demo_read_print split: option.splits if_splits)

lemma demo_working_disk: "working_disk demo_disk path token_taken"
  by (auto simp: working_disk_def creds_save_def demo_disk_def token_taken_def)

lemma demo_honest_server: "honest_server body_json demo_web demo_disk ''http://s'' path token_taken"
proof -
  show ?thesis
    by (auto simp: honest_server_def client_register_device_def client_refresh_device_token_def post_json_def demo_web_def token_taken_def demo_disk_def
        body_json_def text_json_def demo_token_def)
qed

definition demo_home :: ws_host_config where
  "demo_home = (default_ws_host_config False)\<lparr>wh_server := ''http://s/''\<rparr>"

lemma demo_home_facts:
  "trim_slashes (wh_server demo_home) = ''http://s''" "wh_existing demo_home = None" "wh_load_creds demo_home" "wh_save_creds demo_home"
  by (simp_all add: demo_home_def default_ws_host_config_def trim_slashes_def)


end
