(* ===== verification/Server_Http_Props.thy ===== *)
theory Server_Http_Props
  imports Server_Props
begin

text \<open>
  What the HTTP endpoints promise: each is a sequence of component operations, enrollment and refresh
  hand out working tokens, a spent refresh token is dead, garbage tokens cannot lock a device out, a deleted device and a
  blocked viewer get no session, only the owner mints codes, only the operator's token disconnects.
\<close>

section \<open>Endpoints are sequences of component operations\<close>

lemma ops_block: "ops E st st1 \<Longrightarrow> block_step (st_blocklist st1) b \<Longrightarrow> ops E st (st1\<lparr>st_blocklist := b\<rparr>)"
  by (erule ops_step) (rule op_block)

lemma charge_ops:
  "charge_register key now st = (r, st') \<Longrightarrow> ops E st st'"
  "charge_refresh key now st = (r, st') \<Longrightarrow> ops E st st'"
  "charge_admin key now st = (r, st') \<Longrightarrow> ops E st st'"
  by (auto simp: charge_register_def charge_refresh_def charge_admin_def split: prod.splits intro: ops_intros)

lemma charge_frames:
  "charge_register key now st = (r, st') \<Longrightarrow> st' = st\<lparr>st_limits := st_limits st'\<rparr>"
  "charge_refresh key now st = (r, st') \<Longrightarrow> st' = st\<lparr>st_limits := st_limits st'\<rparr>"
  "charge_admin key now st = (r, st') \<Longrightarrow> st' = st\<lparr>st_limits := st_limits st'\<rparr>"
  by (auto simp: charge_register_def charge_refresh_def charge_admin_def split: prod.splits)

lemma record_auth_failure_ops: "ops E st st1 \<Longrightarrow> ops E st (record_auth_failure E T p ip why scope st1)"
  by (auto simp: record_auth_failure_def Let_def intro: ops_intros)

lemma check_auth_lockout_ops: "check_auth_lockout T p ip st = (r, st') \<Longrightarrow> ops E st st'"
  by (auto simp: check_auth_lockout_def split: prod.splits intro: ops_intros)

text \<open>The repository after the enrollment loop is reached by \<open>create_device\<close> calls.\<close>

lemma allocate_device_ops:
  assumes "allocate_device T draws dn pk v ks (st_repo st1) = (r, g)" and "ops E st st1"
  shows "ops E st (st1\<lparr>st_repo := g\<rparr>)"
  using assms
proof (induction ks arbitrary: st1)
  case (Cons k ks)
  let ?new = "\<lparr>nd_public_id = generate_with_rng (draws k), nd_display_name = dn, nd_public_key = pk,
      nd_protocol_version_last = Some (uint v)\<rparr>"
  obtain r1 g1 where c: "create_device (save_outcome T k) ?new (utc T k) (st_repo st1) = (r1, g1)" by fastforce
  have 1: "ops E st (st1\<lparr>st_repo := g1\<rparr>)"
    using repo_step.step_create [of "save_outcome T k" "st_repo st1" ?new "utc T k"] c
    by (intro ops_repo [OF Cons.prems(2)]) simp
  show ?case
  proof (cases "\<exists>m. r1 = Inl (Conflict m)")
    case True
    with Cons.prems(1) c Cons.IH [of "st1\<lparr>st_repo := g1\<rparr>"] 1 show ?thesis by auto
  next
    case False
    with Cons.prems(1) c 1 show ?thesis by (auto split: sum.splits repo_error.splits)
  qed
qed auto

lemma repo_steps:
  "insert_credential save nc now g = (r, g') \<Longrightarrow> repo_step save g g'"
  "rotate_refresh save h nc now g = (r2, g') \<Longrightarrow> repo_step save g g'"
  "revoke_all_for_device save i now g = (r3, g') \<Longrightarrow> repo_step save g g'"
  "soft_delete save p now g = (r4, g') \<Longrightarrow> repo_step save g g'"
  using repo_step.step_insert [of save g nc now] repo_step.step_rotate [of save g h nc now]
    repo_step.step_revoke_all [of save g i now] repo_step.step_delete [of save g p now] by simp_all

lemma register_device_ops:
  assumes "register_device E A T draws hs p body st = (r, st')"
  shows "ops E st st'"
proof -
  obtain r1 st1 where c: "charge_register (''register:'' @ http_client_ip E hs p) (mono_clock T 0) st = (r1, st1)" by fastforce
  have 1: "ops E st st1" by (rule charge_ops(1) [OF c])
  have alloc: "ops E st (st1\<lparr>st_repo := g\<rparr>)" if "allocate_device T draws dn pk v ks (st_repo st1) = (r, g)" for dn pk v ks r g
    using allocate_device_ops [OF that 1] .
  have insert: "ops E st (st1\<lparr>st_repo := g2\<rparr>)"
    if "allocate_device T draws dn pk v ks (st_repo st1) = (r, g)" "insert_credential save nc now g = (r', g2)"
    for dn pk v ks r g save nc now r' g2
    using ops_repo [OF alloc [OF that(1)], of save g2] repo_steps(1) [OF that(2)] by simp
  show ?thesis
  proof (cases r1)
    case Inl
    with assms 1 show ?thesis by (simp add: register_device_def Let_def c del: append_Cons)
  next
    case Inr
    with assms 1 alloc insert show ?thesis
      by (auto simp: register_device_def Let_def c simp del: append_Cons split: prod.splits sum.splits if_splits option.splits
          intro!: ops_log)
  qed
qed

lemma refresh_known_ops:
  assumes "refresh_known E T pid ip h dev cred st1 = (r, st')" and "ops E st st1"
  shows "ops E st st'"
proof -
  have rot: "ops E st (st1\<lparr>st_repo := g\<rparr>)" if "rotate_refresh save h nc now (st_repo st1) = (r, g)" for save nc now r g
    by (rule ops_repo [OF assms(2) repo_steps(2) [OF that]])
  show ?thesis using assms(1)
    by (auto simp: refresh_known_def Let_def clear_auth_failures_def
        split: if_splits prod.splits sum.splits repo_error.splits
        intro!: record_auth_failure_ops ops_log ops_attempts assms(2) rot)
qed

lemma refresh_device_token_ops:
  assumes "refresh_device_token E T raw hs p presented st = (r, st')"
  shows "ops E st st'"
proof (cases "parse_public_id_path raw")
  case (Inr pid)
  let ?ip = "http_client_ip E hs p"
  obtain r1 st1 where c1: "charge_refresh (''refresh:ip:'' @ ?ip) (mono_clock T 0) st = (r1, st1)" by fastforce
  obtain r2 st2 where c2: "charge_refresh (''refresh:device:'' @ pid) (mono_clock T 1) st1 = (r2, st2)" by fastforce
  obtain r3 st3 where c3: "check_auth_lockout T pid ?ip st2 = (r3, st3)" by fastforce
  have 1: "ops E st st1" by (rule charge_ops(2) [OF c1])
  have 2: "ops E st st2" by (rule ops_trans [OF 1 charge_ops(2) [OF c2]])
  have 3: "ops E st st3" by (rule ops_trans [OF 2 check_auth_lockout_ops [OF c3]])
  show ?thesis using assms 1 2 3
    by (auto simp: refresh_device_token_def Let_def Inr c1 c2 c3 simp del: append_Cons One_nat_def
        split: sum.splits if_splits option.splits intro: record_auth_failure_ops refresh_known_ops)
qed (use assms in \<open>simp add: refresh_device_token_def\<close>)

lemma mint_otp_route_ops:
  assumes "mint_otp_route E T raw hs p body st = (r, st')"
  shows "ops E st st'"
proof -
  have store: "ops E st (st\<lparr>st_otp := s\<rparr>)" if "store_hash d h e now (st_otp st) = (row, s)" for d h e now row s
    using otp_step.step_store [of "srv_crypto E" "st_otp st" d h e now] that by (intro ops_otp [OF ops_refl]) simp
  show ?thesis using assms
    by (auto simp: mint_otp_route_def Let_def split: sum.splits if_splits prod.splits intro!: ops_log store)
qed

lemma delete_device_ops:
  assumes "delete_device E T raw hs p st = (r, st')"
  shows "ops E st st'"
proof -
  have revoke: "ops E st (st\<lparr>st_repo := g\<rparr>)" if "revoke_all_for_device save d now (st_repo st) = (r, g)" for save d now r g
    by (rule ops_repo [OF ops_refl repo_steps(3) [OF that]])
  have delete: "ops E st (st\<lparr>st_repo := g2\<rparr>)"
    if "revoke_all_for_device save d now (st_repo st) = (r, g)" "soft_delete save' pid now' g = (r', g2)"
    for save d now r g save' pid now' r' g2
    using ops_repo [OF revoke [OF that(1)], of save' g2] repo_steps(4) [OF that(2)] by simp
  show ?thesis using assms
    by (auto simp: delete_device_def Let_def split: sum.splits if_splits prod.splits intro!: ops_log intro: revoke delete)
qed

lemma add_blocklist_ops:
  assumes "add_blocklist E T raw hs ty subject st = (r, st')"
  shows "ops E st st'"
proof -
  have add: "ops E st (st\<lparr>st_blocklist := b\<rparr>)" if "blocklist_add new now (st_blocklist st) = (r, b)" for new now r b
    using block_step.add [of "st_blocklist st" new now] that by (intro ops_block [OF ops_refl]) simp
  show ?thesis using assms
    by (auto simp: add_blocklist_def Let_def split: sum.splits if_splits prod.splits intro!: ops_log intro: add)
qed

lemma remove_blocklist_ops:
  assumes "remove_blocklist E T raw i hs st = (r, st')"
  shows "ops E st st'"
proof -
  have remove: "ops E st (st\<lparr>st_blocklist := b\<rparr>)" if "blocklist_remove host i (st_blocklist st) = (r, b)" for host r b
    using block_step.remove [of "st_blocklist st" host i] that by (intro ops_block [OF ops_refl]) simp
  show ?thesis using assms
    by (auto simp: remove_blocklist_def Let_def split: sum.splits if_splits prod.splits intro!: ops_log intro: remove)
qed

lemma authorize_admin_ops: "authorize_admin E T hs ip st = (r, st') \<Longrightarrow> ops E st st'"
  by (auto simp: authorize_admin_def record_admin_auth_failure_def Let_def split: prod.splits sum.splits option.splits if_splits
      intro!: ops_log intro: ops_intros)

lemma force_disconnect_route_ops:
  assumes "force_disconnect_route E T raw hs p st = (r, st')"
  shows "ops E st st'"
proof -
  let ?ip = "http_client_ip E hs p"
  obtain r1 st1 where c1: "charge_admin (''admin:'' @ ?ip) (mono_clock T 0) st = (r1, st1)" by fastforce
  obtain r2 st2 where c2: "authorize_admin E T hs ?ip st1 = (r2, st2)" by fastforce
  have 1: "ops E st st1" by (rule charge_ops(3) [OF c1])
  have 2: "ops E st st2" by (rule ops_trans [OF 1 authorize_admin_ops [OF c2]])
  have force: "ops E st (st2\<lparr>st_sessions := g\<rparr>)" if "force_disconnect sid why now (st_sessions st2) = (b, g)" for sid why now b g
    using reg_step.step_force [of "srv_json E" "hash_token (srv_crypto E)" "st_sessions st2" sid why now] that
    by (intro ops_sessions [OF 2]) simp
  show ?thesis using assms 1 2
    by (auto simp: force_disconnect_route_def Let_def c1 c2 simp del: append_Cons
        split: sum.splits if_splits prod.splits intro!: ops_log force)
qed



section \<open>Enrollment and refresh\<close>

lemma create_device_Inr:
  assumes "create_device save nd now g = (Inr d, g')"
  shows "g' = g\<lparr>next_device_id := next_device_id g + 1, by_public_id := hput (nd_public_id nd) (dv_id d) (by_public_id g),
      devices := hput (dv_id d) d (devices g)\<rparr> \<and> dv_status d = StatusActive \<and> dv_public_id d = nd_public_id nd"
  using assms by (auto simp: create_device_def saved_def Let_def split: if_splits sum.splits)

lemma create_device_credentials:
  "create_device save nd now g = (r, g') \<Longrightarrow> credentials g' = credentials g \<and> next_cred_id g' = next_cred_id g"
  by (auto simp: create_device_def saved_def Let_def split: if_splits sum.splits)

lemma allocate_device_Some:
  assumes "allocate_device T draws dn pk v ks g = (Inr (Some d), g')"
  shows "dv_status d = StatusActive \<and> hget (devices g') (dv_id d) = Some d \<and> credentials g' = credentials g \<and>
    next_cred_id g' = next_cred_id g \<and> (\<exists>k \<in> set ks. dv_public_id d = generate_with_rng (draws k))"
  using assms
proof (induction ks arbitrary: g)
  case (Cons k ks)
  obtain r1 g1 where c: "create_device (save_outcome T k) \<lparr>nd_public_id = generate_with_rng (draws k), nd_display_name = dn,
      nd_public_key = pk, nd_protocol_version_last = Some (uint v)\<rparr> (utc T k) g = (r1, g1)" by fastforce
  show ?case
  proof (cases "\<exists>m. r1 = Inl (Conflict m)")
    case True
    with c Cons.prems Cons.IH [of g1] create_device_credentials [OF c] show ?thesis by auto
  next
    case False
    with Cons.prems c have "r1 = Inr d" "g1 = g'" by (auto split: sum.splits repo_error.splits)
    with create_device_Inr [OF c [unfolded this]] show ?thesis by simp
  qed
qed simp

lemma insert_credential_Inr:
  assumes "insert_credential save nc now g = (Inr cred, g')"
  shows "dc_id cred = next_cred_id g + 1 \<and> dc_device_id cred = nc_device_id nc \<and> dc_token_hash cred = nc_token_hash nc \<and>
    dc_refresh_token_hash cred = nc_refresh_token_hash nc \<and> dc_access_expires_at cred = nc_access_expires_at nc \<and>
    dc_revoked_at cred = None \<and>
    g' = g\<lparr>next_cred_id := next_cred_id g + 1, credentials := hput (next_cred_id g + 1) cred (credentials g)\<rparr>"
  using assms by (auto simp: insert_credential_def insert_credential_locked_def saved_def Let_def split: if_splits sum.splits)

text \<open>The only live row with a token hash is the one a lookup finds.\<close>

lemma find_by_access_hash_unique:
  assumes "repo_inv g" and "hget (credentials g) i = Some c" and "dc_revoked_at c = None" and "dc_token_hash c = h"
    and "hget (devices g) (dc_device_id c) = Some d"
    and "\<And>j c'. hget (credentials g) j = Some c' \<Longrightarrow> dc_revoked_at c' = None \<Longrightarrow> dc_token_hash c' = h \<Longrightarrow> j = i"
  shows "find_by_access_hash h g = Inr (Some (d, c))"
proof (cases "find_credential (\<lambda>c. token_hash_eq (dc_token_hash c) h) g")
  case None
  from find_credential_None [OF assms(1) None assms(2)] assms(3,4) show ?thesis by simp
next
  case (Some c')
  from find_credential_Some [OF assms(1) Some] assms(6) [of "dc_id c'" c'] assms(2) have "c' = c" by auto
  with Some assms(5) show ?thesis by (simp add: find_by_access_hash_def with_device_def)
qed

lemma register_device_Inr:
  assumes "register_device E A T draws hs p body st = (Inr (code, resp), st')"
  obtains st1 dn pk v d g cred where "st1 = st\<lparr>st_limits := st_limits st1\<rparr>"
    "allocate_device T draws dn pk v [0 ..< 5] (st_repo st) = (Inr (Some d), g)"
    "insert_credential (save_outcome T 5) (new_credential_from_issued (srv_crypto E) (dv_id d)
       (mint_tokens (random_body T 0) (random_body T 1) (utc T 5)) (utc T 5)) (utc T 6) g = (Inr cred, st_repo st')"
    "rg_public_id resp = dv_public_id d"
    "rg_tokens resp = token_response_of (srv_rfc3339 E) (mint_tokens (random_body T 0) (random_body T 1) (utc T 5))"
    "st_sessions st' = st_sessions st" "code = 201"
proof -
  obtain r1 st1 where c: "charge_register (''register:'' @ http_client_ip E hs p) (mono_clock T 0) st = (r1, st1)" by fastforce
  note f = charge_frames(1) [OF c]
  from f have same: "st_repo st1 = st_repo st" "st_sessions st1 = st_sessions st" by (metis app_state.select_convs app_state.surjective app_state.update_convs(3))+
  from assms show thesis
    by (auto simp: register_device_def Let_def c same simp del: append_Cons split: sum.splits if_splits option.splits prod.splits
        intro!: that [OF f])
qed


definition demo_http :: http_api where
  "demo_http = \<lparr>http_ed = \<lparr>ed_public = (\<lambda>s. s), ed_sign = (\<lambda>s m. m), ed_verify = (\<lambda>k m s. True), ed_public_from_bytes = Inr\<rparr>,
     b64_standard = (\<lambda>_. Some (replicate 32 0)), b64_url_safe_no_pad = (\<lambda>_. None), b64_url_safe = (\<lambda>_. None),
     b64_standard_no_pad = (\<lambda>_. None)\<rparr>"

definition empty_server :: "string app_state" where
  "empty_server = new_app_state new_device_store"

lemma empty_server_reachable: "server_reachable E empty_server"
  by (simp add: empty_server_def server_reachable_def)

lemma rate_check_fresh:
  assumes "hget (rl_buckets l) key = None" and "1 \<le> rl_capacity (rl_config l)"
  shows "fst (rate_check key now l) = Inr ()"
  using assms by (simp add: rate_check_def refill_def as_secs_f64_def as_secs_def Let_def)

lemma demo_register:
  obtains resp st' where "register_device demo_srv demo_http demo_clock (\<lambda>_ _. 3) [] None
    \<lparr>rr_public_key = ''k'', rr_display_name = None, rr_protocol_version = None\<rparr> empty_server = (Inr (201, resp), st')"
proof -
  have "fst (rate_check key now (lim_register (st_limits empty_server))) = Inr ()" for key now
    by (rule rate_check_fresh)
      (simp_all add: empty_server_def new_app_state_def new_rate_limiters_def with_configs_def new_rate_limiter_def
        default_register_config_def per_window_def)
  then obtain l where l: "rate_check (''register:'' @ ''unknown'') 0 (lim_register (st_limits empty_server)) = (Inr (), l)"
    by (metis prod.collapse)
  then have c: "charge_register (''register:'' @ ''unknown'') 0 empty_server =
      (Inr (), empty_server\<lparr>st_limits := (st_limits empty_server)\<lparr>lim_register := l\<rparr>\<rparr>)"
    by (simp add: charge_register_def)
  have ip: "http_client_ip demo_srv [] None = ''unknown''"
    by (simp add: http_client_ip_def resolve_client_ip_def demo_srv_def)
  have key: "decode_public_key demo_http ''k'' = Inr (replicate 32 0)"
    by (simp add: decode_public_key_def trim_visible visible_def demo_http_def Let_def)
  have vk: "verifying_key_from_bytes (http_ed demo_http) (replicate 32 0) = Inr (replicate 32 0)"
    by (simp add: verifying_key_from_bytes_def demo_http_def)
  have repo: "st_repo empty_server = new_device_store" by (simp add: empty_server_def new_app_state_def)
  have clock: "mono_clock demo_clock n = 0" "utc demo_clock n = 0" "save_outcome demo_clock n = demo_save" for n
    by (simp_all add: demo_clock_def)
  have tries: "[0 ..< 5] = [0, 1, 2, 3, 4 :: nat]" by (simp add: upt_rec)
  have "\<exists>resp st'. register_device demo_srv demo_http demo_clock (\<lambda>_ _. 3) [] None
      \<lparr>rr_public_key = ''k'', rr_display_name = None, rr_protocol_version = None\<rparr> empty_server = (Inr (201, resp), st')"
    by (simp add: register_device_def ip c clock repo key vk Let_def protocol_version_bounds normalize_display_name_def tries
        create_device_def saved_def demo_save_def insert_credential_def insert_credential_locked_def
        new_credential_from_issued_def new_device_store_def del: append_Cons)
  with that show thesis by blast
qed


lemma check_auth_lockout_frame: "check_auth_lockout T p ip st = (r, st') \<Longrightarrow> st' = st\<lparr>st_attempts := st_attempts st'\<rparr>"
  by (auto simp: check_auth_lockout_def split: prod.splits)

lemma record_auth_failure_frame [simp]:
  "st_repo (record_auth_failure E T p ip why scope st) = st_repo st" "st_sessions (record_auth_failure E T p ip why scope st) = st_sessions st"
  "st_attempts (record_auth_failure E T p ip why scope st) = record_failures (failure_keys scope T p ip) (st_attempts st)"
  by (simp_all add: record_auth_failure_def Let_def)

text \<open>A refresh is refused early, or goes on from a state that differs in limiters and attempt records only.\<close>

lemma refresh_cases:
  fixes st :: "'j app_state"
  assumes "refresh_device_token E T raw hs p presented st = (r, st')"
  obtains (refused) e where "r = Inl e" "st_repo st' = st_repo st" "st_attempts st' = st_attempts st"
    | (locked) e pid ip and st2 :: "'j app_state" where "r = Inl e" "st_repo st' = st_repo st" "st_attempts st2 = st_attempts st"
        "st_attempts st' = st_attempts (snd (check_auth_lockout T pid ip st2))"
    | (looked_up) pid ip st2 st3 where "st_attempts st2 = st_attempts st" "check_auth_lockout T pid ip st2 = (Inr (), st3)"
        "st_repo st3 = st_repo st" "presented \<noteq> []"
        "(r, st') = (case find_by_refresh_hash (hash_token (srv_crypto E) presented) (st_repo st) of
           Inl e \<Rightarrow> (Inl (app_error_of_repo e), st3)
         | Inr (Some (dev, cred)) \<Rightarrow> refresh_known E T pid ip (hash_token (srv_crypto E) presented) dev cred st3
         | Inr None \<Rightarrow> (Inl AppUnauthorized, record_auth_failure E T pid ip ''unknown_refresh'' IpOnly st3))"
proof (cases "parse_public_id_path raw")
  case (Inl e)
  with assms refused show thesis by (auto simp: refresh_device_token_def)
next
  case (Inr pid)
  let ?ip = "http_client_ip E hs p"
  obtain r1 st1 where c1: "charge_refresh (''refresh:ip:'' @ ?ip) (mono_clock T 0) st = (r1, st1)" by fastforce
  obtain r2 st2 where c2: "charge_refresh (''refresh:device:'' @ pid) (mono_clock T 1) st1 = (r2, st2)" by fastforce
  obtain r3 st3 where c3: "check_auth_lockout T pid ?ip st2 = (r3, st3)" by fastforce
  have f1: "st_repo st1 = st_repo st" "st_attempts st1 = st_attempts st"
    using charge_frames(2) [OF c1] by (metis app_state.select_convs app_state.surjective app_state.update_convs(3))+
  have f2: "st_repo st2 = st_repo st" "st_attempts st2 = st_attempts st"
    using charge_frames(2) [OF c2] f1 by (metis app_state.select_convs app_state.surjective app_state.update_convs(3))+
  have f3: "st_repo st3 = st_repo st"
    using check_auth_lockout_frame [OF c3] f2 by (metis app_state.select_convs(1) app_state.surjective app_state.update_convs(4))
  have eq: "refresh_device_token E T raw hs p presented st =
      (case r1 of Inl e \<Rightarrow> (Inl (app_rate_limited (show_rate_limit_exceeded e) (rl_retry_after e)), st1)
       | Inr _ \<Rightarrow> (case r2 of Inl e \<Rightarrow> (Inl (app_rate_limited (show_rate_limit_exceeded e) (rl_retry_after e)), st2)
         | Inr _ \<Rightarrow> (case r3 of Inl e \<Rightarrow> (Inl e, st3)
           | Inr _ \<Rightarrow> if presented = [] then (Inl (AppBadRequest ''refresh_token is required''), st3)
             else (case find_by_refresh_hash (hash_token (srv_crypto E) presented) (st_repo st) of
                Inl e \<Rightarrow> (Inl (app_error_of_repo e), st3)
              | Inr (Some (dev, cred)) \<Rightarrow> refresh_known E T pid ?ip (hash_token (srv_crypto E) presented) dev cred st3
              | Inr None \<Rightarrow> (Inl AppUnauthorized, record_auth_failure E T pid ?ip ''unknown_refresh'' IpOnly st3)))))"
    by (simp add: refresh_device_token_def Inr Let_def c1 c2 c3 f3 del: append_Cons One_nat_def split: sum.split)
  consider "r1 \<noteq> Inr ()" | "r1 = Inr ()" "r2 \<noteq> Inr ()" | "r1 = Inr ()" "r2 = Inr ()" "r3 \<noteq> Inr () \<or> presented = []"
    | "r1 = Inr ()" "r2 = Inr ()" "r3 = Inr ()" "presented \<noteq> []"
    by blast
  then show thesis
  proof cases
    case 1
    with assms eq f1 refused show thesis by (cases r1) auto
  next
    case 2
    with assms eq f2 refused show thesis by (cases r2) auto
  next
    case 3
    with assms eq f2 f3 c3 locked [of _ st2 pid ?ip] show thesis by (cases r3) auto
  next
    case 4
    show thesis by (rule looked_up [of st2 pid ?ip st3]) (use assms eq f2 f3 c3 4 in simp_all)
  qed
qed

text \<open>
  An attempt record got no worse: the failures counted and the lock are not new.
\<close>

definition milder :: "string \<Rightarrow> attempt_tracker \<Rightarrow> attempt_tracker \<Rightarrow> bool" where
  "milder key t t' \<longleftrightarrow> at_config t' = at_config t \<and>
     (case hget (at_records t') key of None \<Rightarrow> True
      | Some r' \<Rightarrow> (\<exists>r. hget (at_records t) key = Some r \<and> ar_failures r' = ar_failures r \<and>
          ar_last_failure r' = ar_last_failure r \<and> (ar_locked_until r' = ar_locked_until r \<or> ar_locked_until r' = None)))"

lemma milder_refl [simp]: "milder key t t"
  by (auto simp: milder_def split: option.split)

lemma milder_trans: "milder key t t' \<Longrightarrow> milder key t' t'' \<Longrightarrow> milder key t t''"
  by (auto simp: milder_def split: option.splits)

lemma milder_check: "milder key t (snd (attempt_check key' now t))"
  by (cases "key = key'") (auto simp: milder_def attempt_check_def split: option.split)

lemma milder_checks: "milder key t (snd (check_lockouts keys t))"
proof (induction keys arbitrary: t)
  case (Cons k keys)
  obtain key' now where k: "k = (key', now)" by fastforce
  from milder_check [of key t key' now] Cons.IH [of "snd (attempt_check key' now t)"] show ?case
    by (auto simp: k prod.case_eq_if split: sum.split intro: milder_trans)
qed simp

lemma milder_failures:
  assumes "\<And>k now. (k, now) \<in> set keys \<Longrightarrow> k \<noteq> key"
  shows "milder key t (record_failures keys t)"
  using assms
proof (induction keys arbitrary: t)
  case (Cons k keys)
  obtain key' now where k: "k = (key', now)" by fastforce
  from Cons.prems [of key' now] k have "key' \<noteq> key" by simp
  then have "milder key t (snd (record_failure key' now t))"
    using other_key(2) [of key' key now t] by (auto simp: milder_def split: option.split)
  with Cons.IH [of "snd (record_failure key' now t)"] Cons.prems show ?case
    by (auto simp: k intro: milder_trans)
qed simp

lemma milder_consequences:
  assumes "milder key t t'"
  shows "attempt_failures key t' \<le> attempt_failures key t"
    and "fst (attempt_check key now t) = Inr () \<Longrightarrow> fst (attempt_check key now t') = Inr ()"
  using assms by (auto simp: milder_def attempt_failures_def attempt_check_def split: option.splits if_splits)

text \<open>
  Garbage tokens cannot lock a device out. A refresh with a token no live credential has is refused,
  leaves the repository as it is, and worsens no device-wide attempt record: no device's failures grow, and
  whatever lockout check a device would have passed it still passes.
\<close>

theorem garbage_refresh_spares_devices:
  assumes "refresh_device_token E T raw_id hs peer_addr presented st = (r, st')"
    and "find_by_refresh_hash (hash_token (srv_crypto E) presented) (st_repo st) = Inr None"
  shows "(\<exists>e. r = Inl e) \<and> st_repo st' = st_repo st \<and>
    attempt_failures (key_device pid) (st_attempts st') \<le> attempt_failures (key_device pid) (st_attempts st) \<and>
    (fst (attempt_check (key_device pid) now (st_attempts st)) = Inr () \<longrightarrow>
      fst (attempt_check (key_device pid) now (st_attempts st')) = Inr ())"
proof -
  have checks: "milder (key_device pid) (st_attempts s) (st_attempts (snd (check_auth_lockout T p ip s)))" for p ip and s :: "'a app_state"
    by (simp add: check_auth_lockout_def prod.case_eq_if milder_checks del: check_lockouts.simps)
  have "(\<exists>e. r = Inl e) \<and> st_repo st' = st_repo st \<and> milder (key_device pid) (st_attempts st) (st_attempts st')"
    using assms(1)
  proof (cases rule: refresh_cases)
    case refused
    then show ?thesis by simp
  next
    case (locked e p ip st2)
    with checks [of st2 p ip] show ?thesis by simp
  next
    case (looked_up p ip st2 st3)
    then have r: "r = Inl AppUnauthorized" "st' = record_auth_failure E T p ip ''unknown_refresh'' IpOnly st3"
      using assms(2) by simp_all
    have "milder (key_device pid) (st_attempts st3) (record_failures (failure_keys IpOnly T p ip) (st_attempts st3))"
      by (rule milder_failures) (auto simp: key_ip_def key_device_def key_device_ip_def)
    moreover have "milder (key_device pid) (st_attempts st) (st_attempts st3)"
      using checks [of st2 p ip] looked_up(1,2) by simp
    ultimately show ?thesis using r looked_up(3) by (auto intro: milder_trans)
  qed
  with milder_consequences show ?thesis by blast
qed

theorem garbage_refresh_spares_devices_witness:
  "\<exists>r st'. refresh_device_token demo_srv demo_clock ''1234567897'' [] None ''zz'' demo_server = (Inl r, st') \<and>
     st_repo st' = st_repo demo_server \<and> attempt_failures (key_device ''1234567897'') (st_attempts st') = 0"
proof -
  obtain r st' where r: "refresh_device_token demo_srv demo_clock ''1234567897'' [] None ''zz'' demo_server = (r, st')" by fastforce
  have "find_by_refresh_hash (hash_token (srv_crypto demo_srv) ''zz'') (st_repo demo_server) = Inr None"
    by (simp add: demo_srv_def demo_token_hash find_by_refresh_hash_def find_credential_def with_device_def demo_server_def demo_devices_eq)
  from garbage_refresh_spares_devices [OF r this, of "''1234567897''"] r show ?thesis
    by (auto simp: attempt_failures_def demo_server_def new_app_state_def new_tracker_def)
qed

text \<open>The rotation a successful refresh performs.\<close>

lemma refresh_known_Inr:
  assumes "refresh_known E T pid ip h dev cred st = (Inr resp, st')"
  shows "\<exists>x. rotate_refresh (save_outcome T 0) h (new_credential_from_issued (srv_crypto E) (dv_id dev)
      (mint_tokens (random_body T 0) (random_body T 1) (utc T 0)) (utc T 0)) (utc T 0) (st_repo st) = (Inr x, st_repo st')"
  using assms by (auto simp: refresh_known_def clear_auth_failures_def Let_def split: if_splits prod.splits sum.splits repo_error.splits)

lemma no_live_refresh:
  assumes "repo_inv g" and "live_count g h = 0"
  shows "find_by_refresh_hash h g = Inr None"
proof -
  have empty: "live_ids h g = {}" using assms(2) finite_live_ids by (simp add: live_count_def)
  have "find_credential (\<lambda>c. token_hash_eq (dc_refresh_token_hash c) h) g = None"
  proof (rule ccontr)
    assume "find_credential (\<lambda>c. token_hash_eq (dc_refresh_token_hash c) h) g \<noteq> None"
    then obtain c where "find_credential (\<lambda>c. token_hash_eq (dc_refresh_token_hash c) h) g = Some c" by blast
    from find_credential_Some [OF assms(1) this] have "dc_id c \<in> live_ids h g" by (simp add: live_ids_def)
    with empty show False by simp
  qed
  then show ?thesis by (simp add: find_by_refresh_hash_def with_device_def)
qed

text \<open>
  A refresh token works once. In a reachable server, when a refresh succeeds with a token that only one
  live credential has, and the new refresh token hashes differently, then no request whatever (any path, address,
  time) can refresh with the spent token again.
\<close>

theorem spent_refresh_token_is_dead:
  assumes "server_reachable E st" and "refresh_device_token E T raw_id hs peer_addr presented st = (Inr resp, st')"
    and "live_count (st_repo st) (hash_token (srv_crypto E) presented) = 1"
    and "hash_token (srv_crypto E) (''rl_rt_'' @ random_body T 1) \<noteq> hash_token (srv_crypto E) presented"
  shows "\<exists>e. fst (refresh_device_token E T' raw_id' hs' peer_addr' presented st') = Inl e"
  using assms(2)
proof (cases rule: refresh_cases)
  case (looked_up pid ip st2 st3)
  let ?h = "hash_token (srv_crypto E) presented"
  from looked_up(5) obtain dev cred where "refresh_known E T pid ip ?h dev cred st3 = (Inr resp, st')"
    by (auto split: sum.splits option.splits prod.splits)
  from refresh_known_Inr [OF this] looked_up(3) obtain x nc where
    rot: "rotate_refresh (save_outcome T 0) ?h nc (utc T 0) (st_repo st) = (Inr x, st_repo st')"
      and nc: "nc_refresh_token_hash nc = hash_token (srv_crypto E) (''rl_rt_'' @ random_body T 1)"
    by (auto simp: new_credential_from_issued_def mint_tokens_def)
  have inv: "repo_inv (st_repo s)" if "server_reachable E s" for s
    using server_reachable_components [OF that] repo_reachable_inv by blast
  from rotate_live_count [OF inv [OF assms(1)], of nc ?h "save_outcome T 0" "utc T 0"] rot nc assms(3,4)
  have zero: "live_count (st_repo st') ?h = 0" by simp
  have "server_reachable E st'" by (rule ops_reachable [OF assms(1) refresh_device_token_ops [OF assms(2)]])
  from no_live_refresh [OF inv [OF this] zero] have none: "find_by_refresh_hash ?h (st_repo st') = Inr None" .
  obtain r st'' where again: "refresh_device_token E T' raw_id' hs' peer_addr' presented st' = (r, st'')" by fastforce
  then have "\<exists>e. r = Inl e" by (cases rule: refresh_cases) (auto simp: none)
  with again show ?thesis by simp
qed simp_all

section \<open>The owner\<close>

text \<open>The bearer of a live access token, as the owner endpoints establish it.\<close>

lemma bearer_device_Inr:
  assumes "repo_inv (st_repo st)" and "bearer_device E hs st = Inr (dev, cred)"
  shows "\<exists>token i. bearer_token hs = Inr token \<and> hget (credentials (st_repo st)) i = Some cred \<and> dc_revoked_at cred = None \<and>
    dc_token_hash cred = hash_token (srv_crypto E) token \<and> get_by_id (dc_device_id cred) (st_repo st) = Some dev"
proof -
  from assms(2) obtain token where t: "bearer_token hs = Inr token"
    "find_credential (\<lambda>c. token_hash_eq (dc_token_hash c) (hash_token (srv_crypto E) token)) (st_repo st) = Some cred"
    "get_by_id (dc_device_id cred) (st_repo st) = Some dev"
    by (auto simp: bearer_device_def find_by_access_hash_def with_device_def get_by_id_def split: sum.splits option.splits)
  with find_credential_Some [OF assms(1) t(2)] show ?thesis by auto
qed

lemma get_by_public_id_of:
  assumes "repo_inv g" and "get_by_id i g = Some dev"
  shows "get_by_public_id (dv_public_id dev) g = Some dev \<and> dv_id dev = i"
  using assms(2) repo_invD(4,5) [OF assms(1), of i dev] by (simp add: get_by_id_def get_by_public_id_def)

lemma parse_path_Inr: "parse_public_id_path raw = Inr pid \<longleftrightarrow> parse_device_id raw = Inr pid"
  by (simp add: parse_public_id_path_def split: sum.split)

text \<open>What a delete that answers 204 leaves: the device is marked deleted.\<close>

lemma delete_device_Inr:
  assumes "repo_inv (st_repo st)" and "delete_device E T raw hs p st = (Inr code, st')" and "parse_device_id raw = Inr pid"
  shows "code = 204 \<and> (\<exists>dev. get_by_public_id pid (st_repo st') = Some dev \<and> dv_status dev = StatusDeleted)"
proof -
  from assms(2,3) obtain dev cred where b: "bearer_device E hs st = Inr (dev, cred)" "dv_public_id dev = pid"
    by (auto simp: delete_device_def parse_path_Inr [symmetric] split: sum.splits if_splits)
  from bearer_device_Inr [OF assms(1) b(1)] have dev: "get_by_public_id pid (st_repo st) = Some dev"
    using get_by_public_id_of [OF assms(1)] b(2) by blast
  show ?thesis
  proof (cases "dv_status dev = StatusDeleted")
    case True
    with assms(2,3) b dev show ?thesis by (auto simp: delete_device_def parse_path_Inr [symmetric] Let_def split: if_splits)
  next
    case False
    let ?g = "snd (revoke_all_for_device (save_outcome T 0) (dv_id dev) (utc T 0) (st_repo st))"
    have same: "devices ?g = devices (st_repo st)" "by_public_id ?g = by_public_id (st_repo st)"
      by (simp_all add: revoke_all_for_device_def)
    from dev obtain did where did: "hget (by_public_id ?g) pid = Some did" "hget (devices ?g) did = Some dev"
      by (auto simp: get_by_public_id_def same split: option.splits)
    from assms(2,3) b False have del: "code = 204" "soft_delete (save_outcome T 1) pid (utc T 0) ?g = (Inr True, st_repo st')"
      by (auto simp: delete_device_def parse_path_Inr [symmetric] Let_def split: if_splits sum.splits prod.splits)
    from del(2) did False have "st_repo st' = ?g\<lparr>devices :=
        hput did (dev\<lparr>dv_status := StatusDeleted, dv_deleted_at := Some (utc T 0)\<rparr>) (devices ?g)\<rparr>"
      by (auto simp: soft_delete_def saved_def split: sum.splits)
    with did(1) del(1) show ?thesis by (simp add: get_by_public_id_def)
  qed
qed

text \<open>
  A deleted device is gone. In a reachable server, when a delete of a device answers success, no hello
  can present a credential for its public id any more, whatever the token and the time; and every session intent that names
  it is refused.
\<close>

theorem deleted_device_is_gone:
  assumes "server_reachable E st" and "delete_device E T raw_id hs peer_addr st = (Inr code, st')"
    and "parse_device_id raw_id = Inr pid"
  shows "\<not> host_credential E auth now pid (st_repo st') \<and>
    fst (handle_message E T' conn idn ip (SessionIntent sid q pid mode pre) st') \<noteq> Inr ()"
proof -
  have inv: "repo_inv (st_repo s)" if "server_reachable E s" for s
    using server_reachable_components [OF that] repo_reachable_inv by blast
  have inv': "repo_inv (st_repo st')" by (rule inv [OF ops_reachable [OF assms(1) delete_device_ops [OF assms(2)]]])
  from delete_device_Inr [OF inv [OF assms(1)] assms(2,3)] obtain dev where
    dev: "get_by_public_id pid (st_repo st') = Some dev" "dv_status dev = StatusDeleted" by blast
  have "\<not> host_credential E auth now pid (st_repo st')"
    using get_by_public_id_of [OF inv'] dev by (auto simp: host_credential_def)
  moreover have "fst (handle_session_intent E T' conn idn ip sid q pid mode pre st') \<noteq> Inr ()"
  proof -
    obtain r st'' where h: "handle_session_intent E T' conn idn ip sid q pid mode pre st' = (r, st'')" by fastforce
    then have "r \<noteq> Inr ()" by (cases rule: intent_cases) (use dev in auto)
    with h show ?thesis by simp
  qed
  ultimately show ?thesis by (simp add: handle_message_def)
qed

text \<open>Minting touches the row of one host only.\<close>

lemma host_row_store:
  assumes inv: "otp_inv g" and st: "store_hash host h expires now g = (row, g')"
  shows "host_row g' host = Some (so_id row, row)" and "other \<noteq> host \<Longrightarrow> host_row g' other = host_row g other"
proof -
  let ?n = "next_id g + 1"
  let ?old = "case hget (by_host g) host of None \<Rightarrow> [] | Some ids \<Rightarrow> ids"
  from st have row: "row = \<lparr>so_id = ?n, so_host_device_id = host, so_hash = h, so_expires_at = expires,
      so_consumed_at = None, so_session_intent_id = None, so_attempts = 0, so_created_at = now\<rparr>"
    and g': "g' = g\<lparr>next_id := ?n, by_host := hput host [?n] (hdel host (by_host g)), by_id := hput ?n row (hdel_all ?old (by_id g))\<rparr>"
    by (auto simp: store_hash_def Let_def)
  show "host_row g' host = Some (so_id row, row)" by (simp add: host_row_def g') (simp add: row)
  show "host_row g' other = host_row g other" if other: "other \<noteq> host"
  proof (cases rule: host_row_cases [OF inv, of other])
    case 1
    with other show ?thesis by (simp add: host_row_def g')
  next
    case (2 i r)
    have "i \<noteq> ?n" using otp_invD(3) [OF inv 2(2)] by simp
    moreover have "i \<notin> set ?old"
    proof
      assume "i \<in> set ?old"
      then obtain ids where ids: "hget (by_host g) host = Some ids" "i \<in> set ids" by (cases "hget (by_host g) host") auto
      from otp_invD(1) [OF inv ids(1)] ids(2) 2(2,3) other show False by auto
    qed
    ultimately have "hget (by_id g') i = Some r" using 2(2) by (auto simp: g' hget_hdel_all)
    moreover have "hget (by_host g') other = Some [i]" using 2(1) other by (simp add: g')
    ultimately show ?thesis using 2(4) by (simp add: host_row_def)
  qed
qed

lemma ttl_secs_Inr:
  assumes "ttl_secs req = Inr ttl"
  shows "0 < sint ttl \<and> sint ttl \<le> 3600"
proof -
  from assms have ttl: "ttl \<noteq> 0" "ttl \<le> 3600"
    by (auto simp: ttl_secs_def MAX_OTP_TTL_SECS_def Let_def not_less split: if_splits)
  then have u: "0 < uint ttl" "uint ttl \<le> 3600" by (simp_all add: word_le_def uint_0_iff [symmetric] less_le)
  then have "signed_take_bit (LENGTH(64) - Suc 0) (uint ttl) = uint ttl" by (intro signed_take_bit_int_eq_self) simp_all
  then have "sint ttl = uint ttl" by (simp add: sint_uint)
  with u show ?thesis by simp
qed

text \<open>
  Only the owner mints. In a reachable server, a mint that succeeds was made with the
  access token of a live, unexpired credential of the active device its path names; afterwards that device has a fresh code that
  expires within the hour, every other host's code is as it was, and a refused mint changes nothing.
\<close>

theorem only_owner_mints:
  assumes "server_reachable E st" and "mint_otp_route E T raw_id hs peer_addr body st = (r, st')"
  shows "(\<forall>e. r = Inl e \<longrightarrow> st' = st) \<and>
    (\<forall>resp. r = Inr resp \<longrightarrow>
      (\<exists>pid token i cred dev row. parse_device_id raw_id = Inr pid \<and> bearer_token hs = Inr token \<and>
        hget (credentials (st_repo st)) i = Some cred \<and> dc_revoked_at cred = None \<and>
        dc_token_hash cred = hash_token (srv_crypto E) token \<and> utc T 0 \<le> dc_access_expires_at cred \<and>
        get_by_id (dc_device_id cred) (st_repo st) = Some dev \<and> dv_status dev = StatusActive \<and> dv_public_id dev = pid \<and>
        host_row (st_otp st') (dv_id dev) = Some (so_id row, row) \<and> so_consumed_at row = None \<and> so_attempts row = 0 \<and>
        utc T 0 < so_expires_at row \<and> so_expires_at row \<le> utc T 0 + 3600 * 1000000000 \<and>
        (\<forall>other. other \<noteq> dv_id dev \<longrightarrow> host_row (st_otp st') other = host_row (st_otp st) other)))"
proof -
  from server_reachable_components [OF assms(1)]
  have inv: "repo_inv (st_repo st)" "otp_inv (st_otp st)" using repo_reachable_inv otp_reachable_inv by blast+
  show ?thesis
  proof (cases r)
    case (Inl e)
    with assms(2) show ?thesis
      by (auto simp: mint_otp_route_def Let_def split: sum.splits if_splits prod.splits)
  next
    case (Inr resp)
    with assms(2) obtain pid dev cred h ttl row where m: "parse_device_id raw_id = Inr pid" "bearer_device E hs st = Inr (dev, cred)"
        "dv_public_id dev = pid" "utc T 0 \<le> dc_access_expires_at cred" "dv_status dev = StatusActive"
        "ttl_secs body = Inr ttl" "store_hash (dv_id dev) h (utc T 0 + sint ttl * 1000000000) (utc T 0) (st_otp st) = (row, st_otp st')"
      by (auto simp: mint_otp_route_def Let_def parse_path_Inr split: sum.splits if_splits prod.splits)
    from m(7) have row: "so_consumed_at row = None" "so_attempts row = 0" "so_expires_at row = utc T 0 + sint ttl * 1000000000"
      by (auto simp: store_hash_def Let_def)
    from bearer_device_Inr [OF inv(1) m(2)] host_row_store [OF inv(2) m(7)] row m ttl_secs_Inr [OF m(6)] Inr
    show ?thesis by fastforce
  qed
qed

lemma demo_path: "parse_device_id ''1234567897'' = Inr ''1234567897''"
proof (rule parse_device_id_digits)
  have digits: "list_all is_ascii_digit ''1234567897''" by (simp add: is_ascii_digit_def)
  then show "device_id ''1234567897''"
    by (simp add: device_id_def validate_luhn_def luhn_term_def digit_value_def)
  show "strip_separators ''1234567897'' = ''1234567897''"
    using strip_separators_digits [OF digits, of "[]"] by simp
qed

lemma demo_fields:
  "srv_json demo_srv = demo_json" "srv_crypto demo_srv = toy_crypto" "srv_admin_token demo_srv = Some ''0123456789abcdef''"
  "mono_clock demo_clock n = 0" "utc demo_clock n = 0" "save_outcome demo_clock n = demo_save" "random_body demo_clock n = ''x''"
  by (simp_all add: demo_srv_def demo_clock_def)

lemma demo_client_ip: "http_client_ip demo_srv [] None = ''unknown''"
  by (simp add: http_client_ip_def resolve_client_ip_def demo_srv_def)

definition demo_bearer :: header_map where
  "demo_bearer = [(''authorization'', ''Bearer a'')]"

lemma demo_bearer_token: "bearer_token demo_bearer = Inr ''a''"
  by (simp add: bearer_token_def demo_bearer_def header_def header_to_str_def strip_bearer_def strip_prefix_def starts_with_def)

lemma demo_server_fields:
  "st_repo demo_server = demo_devices" "st_otp demo_server = demo_otp" "st_sessions demo_server = demo_sessions"
  "st_blocklist demo_server = new_blocklist" "st_attempts demo_server = new_tracker default_attempt_config"
  by (simp_all add: demo_server_def new_app_state_def)

lemma demo_bearer_device:
  obtains dev cred where "bearer_device demo_srv demo_bearer demo_server = Inr (dev, cred)" "dv_public_id dev = ''1234567897''"
    "dv_id dev = 1" "dv_status dev = StatusActive" "dc_access_expires_at cred = 10"
  by (rule that [of "snd (hd (devices demo_devices))" "snd (hd (credentials demo_devices))"])
    (simp_all add: bearer_device_def demo_bearer_token demo_srv_def demo_token_hash find_by_access_hash_def find_credential_def
      with_device_def demo_server_fields demo_devices_eq)

theorem deleted_device_is_gone_witness:
  "\<exists>st'. delete_device demo_srv demo_clock ''1234567897'' demo_bearer None demo_server = (Inr 204, st') \<and>
     \<not> host_credential demo_srv \<lparr>device_token = ''a''\<rparr> 0 ''1234567897'' (st_repo st') \<and>
     fst (handle_message demo_srv demo_clock (ConnId 2) viewer_identity ''ip'' (SessionIntent ''S'' 1 ''1234567897'' Otp ''123456'') st') \<noteq> Inr ()"
proof -
  obtain dev cred where b: "bearer_device demo_srv demo_bearer demo_server = Inr (dev, cred)" "dv_public_id dev = ''1234567897''"
    "dv_id dev = 1" "dv_status dev = StatusActive" "dc_access_expires_at cred = 10" by (rule demo_bearer_device)
  have "\<exists>st'. delete_device demo_srv demo_clock ''1234567897'' demo_bearer None demo_server = (Inr 204, st')"
    using b by (simp add: delete_device_def parse_public_id_path_def demo_path Let_def demo_clock_def demo_server_fields
        revoke_all_for_device_def saved_def demo_save_def hmap_values_def soft_delete_def demo_devices_eq)
  then obtain st' where d: "delete_device demo_srv demo_clock ''1234567897'' demo_bearer None demo_server = (Inr 204, st')" by blast
  from deleted_device_is_gone [OF demo_server_reachable d demo_path] d show ?thesis by blast
qed

definition demo_mint :: otp_mint_request where
  "demo_mint = \<lparr>digest_hex = replicate 32 CHR ''d'', salt_hex = replicate 16 CHR ''s'', req_keyed = True, expires_in_secs = None\<rparr>"

theorem only_owner_mints_witness:
  "\<exists>resp st' row. mint_otp_route demo_srv demo_clock ''1234567897'' demo_bearer None demo_mint demo_server = (Inr resp, st') \<and>
     host_row (st_otp st') 1 = Some (so_id row, row) \<and> so_expires_at row \<le> 3600 * 1000000000"
proof -
  obtain dev cred where b: "bearer_device demo_srv demo_bearer demo_server = Inr (dev, cred)" "dv_public_id dev = ''1234567897''"
    "dv_id dev = 1" "dv_status dev = StatusActive" "dc_access_expires_at cred = 10" by (rule demo_bearer_device)
  have trims: "trim (replicate 32 CHR ''d'') = replicate 32 CHR ''d''" "trim (replicate 16 CHR ''s'') = replicate 16 CHR ''s''"
    by (intro trim_visible; simp add: visible_def)+
  have ttl: "ttl_secs demo_mint = Inr 900" by (simp add: ttl_secs_def demo_mint_def DEFAULT_OTP_TTL_SECS_def MAX_OTP_TTL_SECS_def)
  obtain h where h: "parse_hash toy_crypto demo_mint = Inr h"
    using trims by (simp add: parse_hash_def parse_hex_exact_def demo_mint_def toy_crypto_def OTP_SALT_LEN_def)
  have "\<exists>resp st'. mint_otp_route demo_srv demo_clock ''1234567897'' demo_bearer None demo_mint demo_server = (Inr resp, st')"
    using b h ttl by (simp add: mint_otp_route_def parse_public_id_path_def demo_path Let_def demo_fields prod.case_eq_if)
  then obtain resp st' where m: "mint_otp_route demo_srv demo_clock ''1234567897'' demo_bearer None demo_mint demo_server = (Inr resp, st')"
    by blast
  have only: "dv_id d = 1" if "get_by_id i (st_repo demo_server) = Some d" for i d
    using that by (auto simp: get_by_id_def demo_server_fields demo_devices_eq split: if_splits)
  from only_owner_mints [OF demo_server_reachable m] obtain row d i where "get_by_id i (st_repo demo_server) = Some d"
    "host_row (st_otp st') (dv_id d) = Some (so_id row, row)" "so_expires_at row \<le> utc demo_clock 0 + 3600 * 1000000000" by blast
  with only m show ?thesis by (auto simp: demo_clock_def)
qed

theorem spent_refresh_token_is_dead_witness:
  "\<exists>resp st' e. refresh_device_token demo_srv demo_clock ''1234567897'' [] None ''r'' demo_server = (Inr resp, st') \<and>
     fst (refresh_device_token demo_srv demo_clock ''1234567897'' [] None ''r'' st') = Inl e"
proof -
  let ?k1 = "''refresh:ip:'' @ ''unknown''" and ?k2 = "''refresh:device:'' @ ''1234567897''"
  have lim: "rl_buckets (lim_refresh (st_limits demo_server)) = []" "1 \<le> rl_capacity (rl_config (lim_refresh (st_limits demo_server)))"
    by (simp_all add: demo_server_def new_app_state_def new_rate_limiters_def with_configs_def new_rate_limiter_def
        default_refresh_config_def per_window_def)
  obtain l where l: "rate_check ?k1 0 (lim_refresh (st_limits demo_server)) = (Inr (), l)"
    using rate_check_fresh [of "lim_refresh (st_limits demo_server)" ?k1 0] lim by (cases "rate_check ?k1 0 (lim_refresh (st_limits demo_server))") simp
  have l': "rl_config l = rl_config (lim_refresh (st_limits demo_server))" "hget (rl_buckets l) ?k2 = None"
    using l lim(1) by (auto simp: rate_check_def Let_def split: if_splits)
  obtain l2 where l2: "rate_check ?k2 0 l = (Inr (), l2)"
    using rate_check_fresh [of l ?k2 0] lim l' by (cases "rate_check ?k2 0 l") simp
  have "\<exists>resp st'. refresh_device_token demo_srv demo_clock ''1234567897'' [] None ''r'' demo_server = (Inr resp, st')"
    by (simp add: refresh_device_token_def parse_public_id_path_def demo_path demo_client_ip charge_refresh_def demo_fields l l2 Let_def
        check_auth_lockout_def attempt_check_def demo_server_fields new_tracker_def demo_token_hash
        find_by_refresh_hash_def find_credential_def with_device_def refresh_known_def rotate_refresh_def demo_devices_eq
        insert_credential_locked_def new_credential_from_issued_def saved_def demo_save_def del: append_Cons One_nat_def)
  then obtain resp st' where r: "refresh_device_token demo_srv demo_clock ''1234567897'' [] None ''r'' demo_server = (Inr resp, st')" by blast
  have "live_count (st_repo demo_server) (hash_token (srv_crypto demo_srv) ''r'') = 1"
    by (simp add: demo_server_fields demo_fields demo_token_hash demo_live)
  moreover have "hash_token (srv_crypto demo_srv) (''rl_rt_'' @ random_body demo_clock 1) \<noteq> hash_token (srv_crypto demo_srv) ''r''"
    by (simp add: demo_fields demo_token_hash)
  ultimately show ?thesis using spent_refresh_token_is_dead [OF demo_server_reachable r] r by blast
qed

lemma authorize_device_owner_Inr:
  assumes "repo_inv (st_repo st)" and "authorize_device_owner E now raw hs st = Inr dev"
  shows "\<exists>pid. parse_device_id raw = Inr pid \<and> get_by_public_id pid (st_repo st) = Some dev"
proof -
  from assms(2) obtain cred where b: "bearer_device E hs st = Inr (dev, cred)" "parse_device_id raw = Inr (dv_public_id dev)"
    by (auto simp: authorize_device_owner_def parse_path_Inr split: sum.splits if_splits)
  from bearer_device_Inr [OF assms(1) b(1)] get_by_public_id_of [OF assms(1)] b(2) show ?thesis by blast
qed

lemma blocklist_add_blocks:
  "blocklist_add new now g = (Inr e, b) \<Longrightarrow> is_blocked (nb_host_device_id new) (nb_subject_type new) (nb_subject_hash new) b"
  by (auto simp: blocklist_add_def is_blocked_def Let_def split: if_splits)

lemma add_blocklist_Inr:
  assumes "add_blocklist E T raw hs ty subject st = (Inr resp, st')"
  obtains dev sty where "authorize_device_owner E (utc T 0) raw hs st = Inr dev" "subject_parse (trim ty) = Some sty"
    "is_blocked (dv_id dev) sty (hash_subject (srv_crypto E) (trim subject)) (st_blocklist st')" "st_repo st' = st_repo st"
proof -
  from assms obtain dev sty where d: "authorize_device_owner E (utc T 0) raw hs st = Inr dev" "subject_parse (trim ty) = Some sty"
    by (auto simp: add_blocklist_def parse_subject_type_def split: sum.splits option.splits)
  let ?h = "hash_subject (srv_crypto E) (trim subject)"
  obtain r b where a: "blocklist_add \<lparr>nb_host_device_id = dv_id dev, nb_subject_type = sty, nb_subject_hash = ?h\<rparr> (utc T 1) (st_blocklist st) = (r, b)"
    by fastforce
  from assms d a have "\<exists>e. r = Inr e" "st_blocklist st' = b" "st_repo st' = st_repo st"
    by (auto simp: add_blocklist_def parse_subject_type_def Let_def split: sum.splits if_splits)
  moreover from a this(1) have "is_blocked (dv_id dev) sty ?h b" by (auto dest: blocklist_add_blocks)
  ultimately show thesis using that [OF d] by simp
qed

text \<open>
  Blocking works. In a reachable server, when the owner of a host blocks a subject, every session intent to
  that host from a viewer with that subject (the address, the device id or the fingerprint, hashed the
  same way) is refused, whatever its session id, mode and code.
\<close>

theorem blocked_viewer_gets_no_session:
  assumes "server_reachable E st" and "add_blocklist E T raw_id hs subject_type subject st = (Inr resp, st')"
    and "parse_device_id raw_id = Inr pid" and "subject_parse (trim subject_type) = Some ty"
    and "(ty, hash_subject (srv_crypto E) (trim subject)) \<in> set (intent_subjects (srv_crypto E) ip idn)"
  shows "fst (handle_message E T' conn idn ip (SessionIntent sid q pid mode pre) st') \<noteq> Inr ()"
proof -
  have inv: "repo_inv (st_repo st)" using server_reachable_components [OF assms(1)] repo_reachable_inv by blast
  from assms(2) obtain dev where d: "authorize_device_owner E (utc T 0) raw_id hs st = Inr dev"
    "is_blocked (dv_id dev) ty (hash_subject (srv_crypto E) (trim subject)) (st_blocklist st')" "st_repo st' = st_repo st"
    using assms(4) by (elim add_blocklist_Inr) auto
  from authorize_device_owner_Inr [OF inv d(1)] assms(3) have dev: "get_by_public_id pid (st_repo st') = Some dev"
    by (auto simp: d(3))
  obtain r st'' where h: "handle_session_intent E T' conn idn ip sid q pid mode pre st' = (r, st'')" by fastforce
  then have "r \<noteq> Inr ()"
  proof (cases rule: intent_cases)
    case (passed dev' s1 s2)
    with dev d(2) assms(5) show ?thesis by (auto simp: any_blocked_None)
  qed simp
  with h show ?thesis by (simp add: handle_message_def)
qed

lemma demo_owner: "authorize_device_owner demo_srv 0 ''1234567897'' demo_bearer demo_server = Inr (snd (hd (devices demo_devices)))"
  by (simp add: authorize_device_owner_def parse_public_id_path_def demo_path bearer_device_def demo_bearer_token demo_fields
      demo_token_hash find_by_access_hash_def find_credential_def with_device_def demo_server_fields demo_devices_eq)

theorem blocked_viewer_gets_no_session_witness:
  "\<exists>resp st'. add_blocklist demo_srv demo_clock ''1234567897'' demo_bearer ''ip'' ''203.0.113.9'' demo_server = (Inr resp, st') \<and>
     fst (handle_message demo_srv demo_clock (ConnId 2) viewer_identity ''203.0.113.9'' (SessionIntent ''S'' 1 ''1234567897'' Otp ''123456'') st') \<noteq> Inr ()"
proof -
  have trims: "trim ''203.0.113.9'' = ''203.0.113.9''" "trim ''ip'' = ''ip''" by (simp_all add: trim_visible visible_def)
  have "\<exists>resp st'. add_blocklist demo_srv demo_clock ''1234567897'' demo_bearer ''ip'' ''203.0.113.9'' demo_server = (Inr resp, st')"
    by (simp add: add_blocklist_def demo_fields demo_owner parse_subject_type_def trims subject_parse_def blocklist_add_def
        demo_server_fields new_blocklist_def Let_def)
  then obtain resp st' where a: "add_blocklist demo_srv demo_clock ''1234567897'' demo_bearer ''ip'' ''203.0.113.9'' demo_server = (Inr resp, st')"
    by blast
  have ty: "subject_parse (trim ''ip'') = Some SubjectIp" by (simp add: trims subject_parse_def)
  have subject: "(SubjectIp, hash_subject (srv_crypto demo_srv) (trim ''203.0.113.9'')) \<in>
      set (intent_subjects (srv_crypto demo_srv) ''203.0.113.9'' viewer_identity)"
    by (simp add: trims intent_subjects_def)
  from blocked_viewer_gets_no_session [OF demo_server_reachable a demo_path ty subject] a show ?thesis by blast
qed

section \<open>The operator\<close>

lemma subtle_eq_iff [simp]: "subtle_eq a b \<longleftrightarrow> a = b"
  by (auto simp: subtle_eq_def or_fold_zero zip_eq)

lemma authorize_admin_Inr:
  "authorize_admin E T hs ip st = (Inr u, st') \<Longrightarrow>
     (\<exists>t. srv_admin_token E = Some t \<and> t \<noteq> [] \<and> extract_admin_token hs = Some t) \<and> st_sessions st' = st_sessions st"
  by (auto simp: authorize_admin_def Let_def split: prod.splits sum.splits option.splits if_splits)

lemma authorize_admin_Inl: "authorize_admin E T hs ip st = (Inl e, st') \<Longrightarrow> st_sessions st' = st_sessions st"
  by (auto simp: authorize_admin_def record_admin_auth_failure_def Let_def split: prod.splits sum.splits option.splits if_splits)

lemma force_disconnect_closes:
  assumes "reg_inv g" and "force_disconnect sid why now g = (True, g')"
  shows "hget (sessions g') sid = None \<and> (\<exists>s. hget (sessions g) sid = Some s \<and> hget (host_busy g') (s_host_public_id s) = None)"
proof -
  have inv: "reg_inv (reap now g)" by (rule reg_inv_reap [OF assms(1)])
  from assms(2) obtain s where s: "hget (sessions (reap now g)) sid = Some s" and g': "g' = close_session_locked why (reap now g) sid"
    by (auto simp: force_disconnect_def Let_def split: option.splits if_splits)
  have gone: "hget (sessions g') sid = None" by (simp add: g')
  have "hget (host_busy g') (s_host_public_id s) = None"
  proof (rule busy_free)
    show "reg_inv g'" unfolding g' by (rule reg_inv_close [OF inv])
    fix k t assume t: "hget (sessions g') k = Some t"
    then have "hget (sessions (reap now g)) k = Some t" "k \<noteq> sid" by (auto simp: g' split: if_splits)
    with reg_lock.one_per_resource [OF inv, of k "s_host_public_id s" sid] s
    show "s_host_public_id t \<noteq> s_host_public_id s" by (auto simp: host_of_session_def)
  qed
  with gone reap_known [OF reg_invD(1) [OF assms(1)] s] show ?thesis by blast
qed

text \<open>
  Only the operator's token disconnects. In a reachable server, the force-disconnect endpoint changes the session
  registry only for a request that carries exactly the configured, non-empty admin token; and when it answers
  success, the named session existed, it is gone, and its host is free.
\<close>

theorem disconnect_needs_admin_token:
  assumes "server_reachable E st" and "force_disconnect_route E T raw_id hs peer_addr st = (r, st')"
  shows "(st_sessions st' \<noteq> st_sessions st \<longrightarrow>
      (\<exists>t. srv_admin_token E = Some t \<and> t \<noteq> [] \<and> extract_admin_token hs = Some t)) \<and>
    (\<forall>resp. r = Inr resp \<longrightarrow> hget (sessions (st_sessions st')) (trim raw_id) = None \<and>
      (\<exists>s. hget (sessions (st_sessions st)) (trim raw_id) = Some s \<and> hget (host_busy (st_sessions st')) (s_host_public_id s) = None))"
proof -
  let ?ip = "http_client_ip E hs peer_addr"
  obtain r1 st1 where c1: "charge_admin (''admin:'' @ ?ip) (mono_clock T 0) st = (r1, st1)" by fastforce
  obtain r2 st2 where c2: "authorize_admin E T hs ?ip st1 = (r2, st2)" by fastforce
  have f1: "st_sessions st1 = st_sessions st"
    using charge_frames(3) [OF c1] by (metis app_state.select_convs(2) app_state.surjective app_state.update_convs(3))
  have inv: "reg_inv (st_sessions st)" using server_reachable_components [OF assms(1)] reg_reachable_inv by blast
  show ?thesis
  proof (cases "r1 = Inr () \<and> r2 = Inr ()")
    case True
    then have admin: "\<exists>t. srv_admin_token E = Some t \<and> t \<noteq> [] \<and> extract_admin_token hs = Some t" "st_sessions st2 = st_sessions st"
      using authorize_admin_Inr [of E T hs ?ip st1] c2 f1 by auto
    obtain b g where fd: "force_disconnect (trim raw_id) ''security'' (utc T 1) (st_sessions st) = (b, g)" by fastforce
    have "r = Inr resp \<Longrightarrow> b \<and> st_sessions st' = g" for resp
      using assms(2) True admin(2) fd
      by (auto simp: force_disconnect_route_def Let_def c1 c2 simp del: append_Cons split: if_splits)
    with admin(1) force_disconnect_closes [OF inv, of "trim raw_id" "''security''" "utc T 1" g] fd show ?thesis by auto
  next
    case False
    have "st_sessions st2 = st_sessions st" using authorize_admin_Inl [of E T hs ?ip st1] authorize_admin_Inr [of E T hs ?ip st1] c2 f1
      by (cases r2) auto
    with False assms(2) f1 show ?thesis
      by (cases r1; cases r2) (auto simp: force_disconnect_route_def Let_def c1 c2 simp del: append_Cons)
  qed
qed

theorem disconnect_needs_admin_token_witness:
  "\<exists>resp st'. force_disconnect_route demo_srv demo_clock ''S'' [(''x-admin-token'', ''0123456789abcdef'')] None demo_offered = (Inr resp, st') \<and>
     hget (sessions (st_sessions st')) ''S'' = None"
proof -
  let ?hs = "[(''x-admin-token'', ''0123456789abcdef'')]"
  have trims: "trim ''S'' = ''S''" "trim ''0123456789abcdef'' = ''0123456789abcdef''" by (simp_all add: trim_visible visible_def)
  have ip: "http_client_ip demo_srv ?hs None = ''unknown''"
    by (simp add: http_client_ip_def resolve_client_ip_def demo_srv_def)
  have lim: "rl_buckets (lim_admin (st_limits demo_offered)) = []" "1 \<le> rl_capacity (rl_config (lim_admin (st_limits demo_offered)))"
    by (simp_all add: demo_offered_def demo_server_def new_app_state_def new_rate_limiters_def with_configs_def new_rate_limiter_def
        default_admin_config_def per_window_def)
  obtain l where l: "rate_check (''admin:'' @ ''unknown'') 0 (lim_admin (st_limits demo_offered)) = (Inr (), l)"
    using rate_check_fresh [of "lim_admin (st_limits demo_offered)" "''admin:'' @ ''unknown''" 0] lim
    by (cases "rate_check (''admin:'' @ ''unknown'') 0 (lim_admin (st_limits demo_offered))") simp
  have token: "extract_admin_token ?hs = Some ''0123456789abcdef''"
    by (simp add: extract_admin_token_def header_def header_to_str_def trims Let_def)
  have att: "st_attempts demo_offered = new_tracker default_attempt_config" by (simp add: demo_offered_def demo_server_fields)
  have "fst (force_disconnect ''S'' ''security'' 0 (st_sessions demo_offered))"
    unfolding demo_offered_def by (simp add: demo_sessions_eq eval_registry force_disconnect_def)
  then have "\<exists>resp st'. force_disconnect_route demo_srv demo_clock ''S'' ?hs None demo_offered = (Inr resp, st')"
    by (simp add: force_disconnect_route_def ip charge_admin_def demo_fields l authorize_admin_def attempt_check_def new_tracker_def
        att token trims prod.case_eq_if Let_def del: append_Cons One_nat_def)
  then obtain resp st' where f: "force_disconnect_route demo_srv demo_clock ''S'' ?hs None demo_offered = (Inr resp, st')" by blast
  from disconnect_needs_admin_token [OF demo_offered_reachable f] f show ?thesis by (auto simp: trims)
qed

end
