(* ===== verification/Update_Manifest.thy ===== *)
theory Update_Manifest
  imports Challenge
begin

text \<open>
  Signed update manifests (\<open>packages/common/src/update_manifest.rs\<close>): validation, the signed message, signing, and
  verification with the channel the client was installed for. The Ed25519 library is the record of
  Challenge; \<open>serde_json\<close> and \<open>base64\<close> are the record below.
\<close>

section \<open>Data\<close>

definition MANIFEST_DOMAIN :: bytes where
  "MANIFEST_DOMAIN = utf8_bytes ''remotelink-update-manifest-v1''"

definition MANIFEST_SCHEMA_VERSION :: u32 where
  "MANIFEST_SCHEMA_VERSION = 1"

datatype manifest_error =
  MJson string | MInvalidSignature | MCrypto string | MInvalid string | MBase64 string

fun show_manifest_error :: "manifest_error \<Rightarrow> string" where
  "show_manifest_error (MJson e) = ''manifest json: '' @ e"
| "show_manifest_error MInvalidSignature = ''invalid update manifest signature''"
| "show_manifest_error (MCrypto e) = ''crypto: '' @ e"
| "show_manifest_error (MInvalid e) = ''invalid manifest: '' @ e"
| "show_manifest_error (MBase64 e) = ''base64: '' @ e"

datatype update_channel = Beta | Stable

fun channel_str :: "update_channel \<Rightarrow> string" where
  "channel_str Beta = ''beta''"
| "channel_str Stable = ''stable''"

definition parse_channel :: "string \<Rightarrow> update_channel option" where
  "parse_channel s =
     (let t = ascii_lower (trim s) in
      if t = ''beta'' then Some Beta else if t = ''stable'' then Some Stable else None)"

record manifest_artifact =
  ma_name :: string
  ma_platform :: string
  ma_url :: string
  ma_sha256 :: string
  ma_size_bytes :: u64
  ma_package :: "string option"

record update_manifest =
  um_schema_version :: u32
  um_channel :: update_channel
  um_version :: string
  um_released_at :: string
  um_min_protocol_version :: u32
  um_force_update_below :: "string option"
  um_artifacts :: "manifest_artifact list"
  um_notes :: "string option"

record signed_update_manifest =
  sm_manifest :: update_manifest
  sm_signature_b64 :: string
  sm_key_id :: "string option"

record manifest_codecs =
  json_body :: "update_manifest \<Rightarrow> string + bytes"
  json_envelope :: "signed_update_manifest \<Rightarrow> string + bytes"
  json_parse_envelope :: "bytes \<Rightarrow> string + signed_update_manifest"
  b64_encode :: "bytes \<Rightarrow> string"
  b64_decode :: "string \<Rightarrow> string + bytes"

section \<open>Validation and the signed message\<close>

fun validate_artifacts :: "nat \<Rightarrow> manifest_artifact list \<Rightarrow> manifest_error + unit" where
  "validate_artifacts i [] = Inr ()"
| "validate_artifacts i (a # as) =
     (if trim (ma_name a) = [] then Inl (MInvalid (''artifact['' @ show_nat i @ ''].name is required''))
      else if length (ma_sha256 a) \<noteq> 64 \<or> \<not> list_all is_ascii_hexdigit (ma_sha256 a) then
        Inl (MInvalid (''artifact['' @ show_nat i @ ''].sha256 must be 64 hex chars''))
      else validate_artifacts (Suc i) as)"

definition validate_manifest :: "update_manifest \<Rightarrow> manifest_error + unit" where
  "validate_manifest m =
     (if um_schema_version m \<noteq> MANIFEST_SCHEMA_VERSION then
        Inl (MInvalid (''unsupported schema_version '' @ show_nat (unat (um_schema_version m)) @ '' (expected '' @
          show_nat (unat MANIFEST_SCHEMA_VERSION) @ '')''))
      else if trim (um_version m) = [] then Inl (MInvalid ''version is required'')
      else if trim (um_released_at m) = [] then Inl (MInvalid ''released_at is required'')
      else if um_artifacts m = [] then Inl (MInvalid ''at least one artifact is required'')
      else validate_artifacts 0 (um_artifacts m))"

definition canonical_bytes :: "manifest_codecs \<Rightarrow> update_manifest \<Rightarrow> manifest_error + bytes" where
  "canonical_bytes J m = (case json_body J m of Inl e \<Rightarrow> Inl (MJson e) | Inr b \<Rightarrow> Inr b)"

definition be_bytes_64 :: "u64 \<Rightarrow> bytes" where
  "be_bytes_64 w = map (\<lambda>i. ucast (drop_bit (8 * i) w)) [7, 6, 5, 4, 3, 2, 1, 0]"

definition encode_manifest_message :: "bytes \<Rightarrow> bytes" where
  "encode_manifest_message canonical_json =
     MANIFEST_DOMAIN @ be_bytes_64 (of_nat (length canonical_json)) @ canonical_json"

section \<open>Keys, signing and verification\<close>

text \<open>\<open>SigningKey::generate\<close> draws 32 random bytes: the argument.\<close>

definition generate_manifest_keypair :: "ed25519 \<Rightarrow> bytes \<Rightarrow> bytes \<times> bytes" where
  "generate_manifest_keypair E seed = (seed, ed_public E seed)"

definition manifest_verifying_key :: "ed25519 \<Rightarrow> bytes \<Rightarrow> manifest_error + bytes" where
  "manifest_verifying_key E bs =
     (if length bs \<noteq> 32 then Inl (MCrypto ''verifying key must be 32 bytes'')
      else case ed_public_from_bytes E bs of Inl e \<Rightarrow> Inl (MCrypto e) | Inr k \<Rightarrow> Inr k)"

definition manifest_signing_key :: "bytes \<Rightarrow> manifest_error + bytes" where
  "manifest_signing_key bs =
     (if length bs \<noteq> 32 then Inl (MCrypto ''signing key must be 32 bytes'') else Inr bs)"

definition base64_decode :: "manifest_codecs \<Rightarrow> string \<Rightarrow> manifest_error + bytes" where
  "base64_decode J s = (case b64_decode J (trim s) of Inl e \<Rightarrow> Inl (MBase64 e) | Inr b \<Rightarrow> Inr b)"

definition sign_manifest ::
  "ed25519 \<Rightarrow> manifest_codecs \<Rightarrow> bytes \<Rightarrow> update_manifest \<Rightarrow> string option \<Rightarrow> manifest_error + signed_update_manifest" where
  "sign_manifest E J signing_key m key_id =
     (case validate_manifest m of Inl e \<Rightarrow> Inl e
      | Inr _ \<Rightarrow>
          (case canonical_bytes J m of Inl e \<Rightarrow> Inl e
           | Inr canonical \<Rightarrow>
               Inr \<lparr>sm_manifest = m,
                 sm_signature_b64 = b64_encode J (ed_sign E signing_key (encode_manifest_message canonical)),
                 sm_key_id = key_id\<rparr>))"

definition verify_manifest ::
  "ed25519 \<Rightarrow> manifest_codecs \<Rightarrow> bytes \<Rightarrow> signed_update_manifest \<Rightarrow> manifest_error + unit" where
  "verify_manifest E J verifying_key s =
     (case validate_manifest (sm_manifest s) of Inl e \<Rightarrow> Inl e
      | Inr _ \<Rightarrow>
          (case canonical_bytes J (sm_manifest s) of Inl e \<Rightarrow> Inl e
           | Inr canonical \<Rightarrow>
               (case base64_decode J (sm_signature_b64 s) of Inl e \<Rightarrow> Inl e
                | Inr sig \<Rightarrow>
                    if length sig \<noteq> 64 then Inl MInvalidSignature
                    else if ed_verify E verifying_key (encode_manifest_message canonical) sig then Inr ()
                    else Inl MInvalidSignature)))"

definition verify_manifest_for_channel ::
  "ed25519 \<Rightarrow> manifest_codecs \<Rightarrow> bytes \<Rightarrow> signed_update_manifest \<Rightarrow> update_channel \<Rightarrow> manifest_error + unit" where
  "verify_manifest_for_channel E J verifying_key s expected =
     (case verify_manifest E J verifying_key s of Inl e \<Rightarrow> Inl e
      | Inr _ \<Rightarrow>
          if um_channel (sm_manifest s) \<noteq> expected then
            Inl (MInvalid (''channel pin mismatch: manifest is '' @ channel_str (um_channel (sm_manifest s)) @
              '', expected '' @ channel_str expected))
          else Inr ())"

definition parse_signed_manifest :: "manifest_codecs \<Rightarrow> bytes \<Rightarrow> manifest_error + signed_update_manifest" where
  "parse_signed_manifest J json = (case json_parse_envelope J json of Inl e \<Rightarrow> Inl (MJson e) | Inr s \<Rightarrow> Inr s)"

definition signed_manifest_to_json :: "manifest_codecs \<Rightarrow> signed_update_manifest \<Rightarrow> manifest_error + bytes" where
  "signed_manifest_to_json J s = (case json_envelope J s of Inl e \<Rightarrow> Inl (MJson e) | Inr b \<Rightarrow> Inr b)"

section \<open>Lemmas\<close>

lemma length_be_bytes_64 [simp]: "length (be_bytes_64 w) = 8"
  by (simp add: be_bytes_64_def)

lemma encode_manifest_message_inject [simp]:
  "encode_manifest_message a = encode_manifest_message b \<longleftrightarrow> a = b"
  by (auto simp: encode_manifest_message_def)

lemma validate_artifacts_ok:
  "validate_artifacts i as = Inr () \<longleftrightarrow>
     list_all (\<lambda>a. trim (ma_name a) \<noteq> [] \<and> length (ma_sha256 a) = 64 \<and> list_all is_ascii_hexdigit (ma_sha256 a)) as"
  by (induction as arbitrary: i) auto

lemma validate_manifest_ok:
  "validate_manifest m = Inr () \<longleftrightarrow>
     um_schema_version m = MANIFEST_SCHEMA_VERSION \<and> trim (um_version m) \<noteq> [] \<and> trim (um_released_at m) \<noteq> [] \<and>
     um_artifacts m \<noteq> [] \<and>
     list_all (\<lambda>a. trim (ma_name a) \<noteq> [] \<and> length (ma_sha256 a) = 64 \<and> list_all is_ascii_hexdigit (ma_sha256 a)) (um_artifacts m)"
  by (simp add: validate_manifest_def validate_artifacts_ok)

lemma verify_manifest_ok:
  "verify_manifest E J pk s = Inr () \<longleftrightarrow>
     validate_manifest (sm_manifest s) = Inr () \<and>
     (\<exists>canonical sig. json_body J (sm_manifest s) = Inr canonical \<and> b64_decode J (trim (sm_signature_b64 s)) = Inr sig \<and>
        length sig = 64 \<and> ed_verify E pk (encode_manifest_message canonical) sig)"
  by (auto simp: verify_manifest_def canonical_bytes_def base64_decode_def split: sum.splits)

lemma verify_for_channel_ok:
  "verify_manifest_for_channel E J pk s c = Inr () \<longleftrightarrow>
     verify_manifest E J pk s = Inr () \<and> um_channel (sm_manifest s) = c"
  by (auto simp: verify_manifest_for_channel_def split: sum.splits)

text \<open>An upper-case digest passes although the field is documented as lower case.\<close>

lemma upper_case_digest_accepted:
  "validate_artifacts 0 [\<lparr>ma_name = ''h'', ma_platform = '''', ma_url = '''', ma_sha256 = replicate 64 CHR ''A'',
     ma_size_bytes = 0, ma_package = None\<rparr>] = Inr ()"
  by code_simp

section \<open>Properties\<close>

text \<open>
  C38. A client installs only what the release key signed, and only from its own channel. Say every
  message the release key verifies was signed for one of the released manifests, and the JSON encoding
  tells manifests apart. Then a manifest that passes the pinned check is one
  of the released ones, it is for the pinned channel, and it names at least one artifact, each with a digest of 64 hex digits;
  the envelope's key id, its signature text and a signed manifest of the other channel
  make no difference to that.
\<close>

theorem pinned_updates_are_released:
  assumes unforged: "\<And>msg sig. ed_verify E pk msg sig \<Longrightarrow>
      \<exists>m \<in> released. \<exists>b. json_body J m = Inr b \<and> msg = encode_manifest_message b"
    and json: "\<And>m m' b. json_body J m = Inr b \<Longrightarrow> json_body J m' = Inr b \<Longrightarrow> m = m'"
    and accepted: "verify_manifest_for_channel E J pk s channel = Inr ()"
  shows "sm_manifest s \<in> released \<and> um_channel (sm_manifest s) = channel \<and> um_artifacts (sm_manifest s) \<noteq> [] \<and>
    list_all (\<lambda>a. length (ma_sha256 a) = 64 \<and> list_all is_ascii_hexdigit (ma_sha256 a)) (um_artifacts (sm_manifest s))"
proof -
  from accepted have ok: "validate_manifest (sm_manifest s) = Inr ()" and channel: "um_channel (sm_manifest s) = channel"
    by (simp_all add: verify_for_channel_ok verify_manifest_ok)
  from accepted obtain canonical sig where c: "json_body J (sm_manifest s) = Inr canonical"
    and v: "ed_verify E pk (encode_manifest_message canonical) sig"
    by (auto simp: verify_for_channel_ok verify_manifest_ok)
  from unforged [OF v] obtain m where "m \<in> released" "json_body J m = Inr canonical" by auto
  moreover from this json c have "m = sm_manifest s" by blast
  ultimately show ?thesis using ok channel by (auto simp: validate_manifest_ok list_all_iff)
qed

text \<open>
  What the release tool signs, its clients accept. With a signature scheme that accepts its own
  64-byte signatures and a base64 text that decodes back and has no blanks at its ends, every manifest
  the tool agrees to sign passes the check of the same channel and fails that of the other one with the
  mismatch message; and the tool agrees to sign exactly the valid manifests that have an encoding.
\<close>

theorem signed_updates_are_accepted:
  assumes ed: "\<And>sk msg. ed_verify E (ed_public E sk) msg (ed_sign E sk msg)" "\<And>sk msg. length (ed_sign E sk msg) = 64"
    and b64: "\<And>b. b64_decode J (b64_encode J b) = Inr b" "\<And>b. trim (b64_encode J b) = b64_encode J b"
  shows "((\<exists>s. sign_manifest E J sk m kid = Inr s) \<longleftrightarrow>
        validate_manifest m = Inr () \<and> (\<exists>b. json_body J m = Inr b)) \<and>
    (\<forall>s. sign_manifest E J sk m kid = Inr s \<longrightarrow> sm_manifest s = m \<and>
       verify_manifest_for_channel E J (ed_public E sk) s (um_channel m) = Inr () \<and>
       (\<forall>c. c \<noteq> um_channel m \<longrightarrow> verify_manifest_for_channel E J (ed_public E sk) s c =
          Inl (MInvalid (''channel pin mismatch: manifest is '' @ channel_str (um_channel m) @ '', expected '' @ channel_str c))))"
proof (intro conjI allI impI)
  show "(\<exists>s. sign_manifest E J sk m kid = Inr s) \<longleftrightarrow> validate_manifest m = Inr () \<and> (\<exists>b. json_body J m = Inr b)"
    by (auto simp: sign_manifest_def canonical_bytes_def split: sum.splits)
next
  fix s assume s: "sign_manifest E J sk m kid = Inr s"
  then obtain b where "validate_manifest m = Inr ()" "json_body J m = Inr b" "sm_manifest s = m"
    "sm_signature_b64 s = b64_encode J (ed_sign E sk (encode_manifest_message b))"
    by (auto simp: sign_manifest_def canonical_bytes_def split: sum.splits)
  then have v: "verify_manifest E J (ed_public E sk) s = Inr ()" and m: "sm_manifest s = m"
    using ed b64 by (auto simp: verify_manifest_ok)
  then show "sm_manifest s = m" "verify_manifest_for_channel E J (ed_public E sk) s (um_channel m) = Inr ()"
    by (simp_all add: verify_for_channel_ok)
  fix c assume "c \<noteq> um_channel m"
  with v m show "verify_manifest_for_channel E J (ed_public E sk) s c =
      Inl (MInvalid (''channel pin mismatch: manifest is '' @ channel_str (um_channel m) @ '', expected '' @ channel_str c))"
    by (simp add: verify_manifest_for_channel_def)
qed

subsection \<open>A concrete release\<close>

definition demo_manifest :: "update_channel \<Rightarrow> update_manifest" where
  "demo_manifest c = \<lparr>um_schema_version = 1, um_channel = c, um_version = ''1'', um_released_at = ''now'',
     um_min_protocol_version = 1, um_force_update_below = None,
     um_artifacts = [\<lparr>ma_name = ''h'', ma_platform = '''', ma_url = '''', ma_sha256 = replicate 64 CHR ''a'',
       ma_size_bytes = 0, ma_package = None\<rparr>], um_notes = None\<rparr>"

text \<open>Only the two demo manifests have an encoding; bytes are written as letters a to p, two for each.\<close>

definition demo_text :: "bytes \<Rightarrow> string" where
  "demo_text b = concat (map (\<lambda>x. [char_of (97 + unat x div 16), char_of (97 + unat x mod 16)]) b)"

fun demo_untext :: "string \<Rightarrow> bytes" where
  "demo_untext (c # d # s) = of_nat ((of_char c - 97) * 16 + (of_char d - 97)) # demo_untext s"
| "demo_untext _ = []"

definition demo_codecs :: manifest_codecs where
  "demo_codecs = \<lparr>json_body = (\<lambda>m. if m = demo_manifest Beta then Inr [1] else if m = demo_manifest Stable then Inr [2] else Inl ''no''),
     json_envelope = (\<lambda>_. Inl ''no''), json_parse_envelope = (\<lambda>_. Inl ''no''),
     b64_encode = demo_text, b64_decode = (\<lambda>s. Inr (demo_untext s))\<rparr>"

lemma unat_u8: "unat (x :: u8) < 256"
  by (rule order_less_le_trans [OF unsigned_less]) simp

lemma demo_text_code: "demo_untext (demo_text b) = b"
proof (induction b)
  case (Cons x b)
  have x: "unat x < 256" by (rule unat_u8)
  have "(of_char (char_of (97 + unat x div 16) :: char) :: nat) = 97 + unat x div 16"
    and "(of_char (char_of (97 + unat x mod 16) :: char) :: nat) = 97 + unat x mod 16"
    using x by (simp_all add: take_bit_eq_mod)
  moreover have "demo_text (x # b) = char_of (97 + unat x div 16) # char_of (97 + unat x mod 16) # demo_text b"
    by (simp add: demo_text_def)
  ultimately show ?case using Cons.IH div_mult_mod_eq [of "unat x" 16] by simp
qed (simp add: demo_text_def)

lemma demo_text_visible: "list_all visible (demo_text b)"
proof -
  have "visible (char_of (97 + k))" if "k < 16" for k :: nat
  proof -
    have "(of_char (char_of (97 + k) :: char) :: nat) = 97 + k" using that by (simp add: take_bit_eq_mod)
    then show ?thesis using that by (simp add: visible_def)
  qed
  moreover have "unat x div 16 < 16" for x :: u8 using unat_u8 [of x] by (simp add: less_mult_imp_div_less)
  ultimately show ?thesis by (auto simp: demo_text_def list_all_iff)
qed

lemma demo_manifest_valid: "validate_manifest (demo_manifest c) = Inr ()"
proof -
  have "trim ''1'' = ''1''" "trim ''now'' = ''now''" "trim ''h'' = ''h''"
    by (rule trim_all_visible, simp add: visible_def)+
  then show ?thesis
    by (simp add: validate_manifest_def demo_manifest_def MANIFEST_SCHEMA_VERSION_def is_ascii_hexdigit_def list_all_iff)
qed

definition fixed_ed25519 :: ed25519 where
  "fixed_ed25519 = \<lparr>ed_public = (\<lambda>sk. sk), ed_sign = (\<lambda>sk m. replicate 64 0),
     ed_verify = (\<lambda>pk m s. m = encode_manifest_message [2]), ed_public_from_bytes = Inr\<rparr>"

theorem pinned_updates_are_released_witness:
  "\<exists>s. verify_manifest_for_channel fixed_ed25519 demo_codecs [] s Stable = Inr () \<and> sm_manifest s \<in> {demo_manifest Stable}"
proof -
  define s where "s = \<lparr>sm_manifest = demo_manifest Stable, sm_signature_b64 = demo_text (replicate 64 0), sm_key_id = None\<rparr>"
  have ne: "demo_manifest Stable \<noteq> demo_manifest Beta" by (simp add: demo_manifest_def)
  have "um_channel (demo_manifest Stable) = Stable" by (simp add: demo_manifest_def)
  then have ok: "verify_manifest_for_channel fixed_ed25519 demo_codecs [] s Stable = Inr ()"
    using demo_manifest_valid ne by (simp add: verify_for_channel_ok verify_manifest_ok s_def demo_codecs_def fixed_ed25519_def
        trim_all_visible demo_text_visible demo_text_code)
  have "sm_manifest s \<in> {demo_manifest Stable} \<and> um_channel (sm_manifest s) = Stable \<and> um_artifacts (sm_manifest s) \<noteq> [] \<and>
    list_all (\<lambda>a. length (ma_sha256 a) = 64 \<and> list_all is_ascii_hexdigit (ma_sha256 a)) (um_artifacts (sm_manifest s))"
    by (rule pinned_updates_are_released [OF _ _ ok])
       (use ne in \<open>auto simp: fixed_ed25519_def demo_codecs_def split: if_splits\<close>)
  then show ?thesis using ok by blast
qed

theorem signed_updates_are_accepted_witness:
  "\<exists>s. sign_manifest toy_ed25519 demo_codecs [9] (demo_manifest Beta) None = Inr s \<and>
     verify_manifest_for_channel toy_ed25519 demo_codecs (ed_public toy_ed25519 [9]) s Beta = Inr ()"
proof -
  have c: "um_channel (demo_manifest Beta) = Beta" by (simp add: demo_manifest_def)
  have ed: "ed_verify toy_ed25519 (ed_public toy_ed25519 sk) msg (ed_sign toy_ed25519 sk msg)"
    "length (ed_sign toy_ed25519 sk msg) = 64" for sk msg
    by (simp_all add: toy_ed25519_def)
  have b64: "b64_decode demo_codecs (b64_encode demo_codecs b) = Inr b"
    "trim (b64_encode demo_codecs b) = b64_encode demo_codecs b" for b
    by (simp_all add: demo_codecs_def demo_text_code trim_all_visible demo_text_visible)
  have "\<exists>b. json_body demo_codecs (demo_manifest Beta) = Inr b" by (simp add: demo_codecs_def)
  then show ?thesis
    using signed_updates_are_accepted [OF ed b64, where sk = "[9]" and m = "demo_manifest Beta" and kid = None] demo_manifest_valid c by metis
qed

end
