(* ===== verification/Viewer_Ws.thy ===== *)
theory Viewer_Ws
  imports Viewer_Props Net_Factory Signaling_Http
begin

text \<open>
  The viewer application behind the signaling socket: the one-shot command of \<open>apps/viewer/src/ws_connect.rs\<close> and the
  long-lived session of \<open>live.rs\<close> that the desktop shell shows. Both say hello, send the intent, wait for the host's decision, and then answer
  the offer and exchange candidates; they are written twice in the source and share their definitions here where they
  agree. A bounded wait is given the number of iterations its deadline allows, as is the streaming loop, whose
  result \<open>None\<close> says that it still runs. The text of the heads-up display and what is printed are left out. A panic is \<open>None\<close>.
\<close>

section \<open>Configuration\<close>

record ws_viewer_config =
  wv_server :: string
  wv_host_public_id :: string
  wv_otp :: string
  wv_transport :: transport_mode
  wv_media_timeout :: duration
  wv_unattended :: bool

definition default_ws_viewer_config :: ws_viewer_config where
  "default_ws_viewer_config = \<lparr>wv_server = ''http://127.0.0.1:18080'', wv_host_public_id = [], wv_otp = ''123456'',
     wv_transport = ModeLive, wv_media_timeout = 30000000000, wv_unattended = False\<rparr>"

text \<open>\<open>va_connect\<close> opens the socket; \<open>va_create\<close> creates the answering peer under the ICE variables; \<open>va_debug\<close> is the derived \<open>Debug\<close> text.\<close>

record ('j, 'u, 'p, 'v, 's) viewer_app =
  va_features :: net_features
  va_url :: "'u url_api"
  va_connect :: "string \<Rightarrow> signaling_error + signaling_client"
  va_json :: "'j json_api"
  va_as_array :: "'j \<Rightarrow> 'j list option"
  va_debug :: "'j signal_message \<Rightarrow> string"
  va_create :: "ice_env \<Rightarrow> transport_config \<Rightarrow> net_error + 'p"
  va_session :: "('p, 'v, 's) viewer_env"

definition viewer_request :: "ws_viewer_config \<Rightarrow> connect_request" where
  "viewer_request cfg =
     (if wv_unattended cfg then unattended_request (wv_host_public_id cfg) (wv_otp cfg)
      else otp_request (wv_host_public_id cfg) (wv_otp cfg))"

fun show_hex :: "nat \<Rightarrow> string" where
  "show_hex n = (if n < 16 then [hex_char (of_nat n)] else show_hex (n div 16) @ [hex_char (of_nat (n mod 16))])"

text \<open>The session ids, from the milliseconds of the wall clock.\<close>

definition ws_session_id :: "nat \<Rightarrow> string" where
  "ws_session_id millis_now = ''viewer-'' @ show_hex millis_now"

definition live_session_id :: "nat \<Rightarrow> string" where
  "live_session_id millis_now = ''viewer-'' @ show_nat millis_now"

section \<open>Up to the host's decision\<close>

fun is_decision :: "'j signal_message \<Rightarrow> bool" where
  "is_decision (SessionAccept _ _) = True"
| "is_decision (SessionReject _ _ _) = True"
| "is_decision _ = False"

text \<open>The texts of a failed wait.\<close>

definition ws_wait_error :: "signaling_error \<Rightarrow> string" where
  "ws_wait_error e = ''wait accept: '' @ show_signaling_error e"

definition live_wait_error :: "signaling_error \<Rightarrow> string" where
  "live_wait_error e =
     (let msg = show_signaling_error e in
      if contains ''OTP prefilter'' msg \<or> contains ''OTP required'' msg then
        ''OTP rejected. Copy the current OTP from the other PC (codes expire and are replaced when that app restarts). '' @ msg
      else ''wait accept: '' @ msg)"

definition negotiate_intent ::
  "('j, 'u, 'p, 'v, 's) viewer_app \<Rightarrow> string \<Rightarrow> (signaling_error \<Rightarrow> string) \<Rightarrow> (nat \<Rightarrow> instant) \<Rightarrow> string \<Rightarrow> ws_viewer_config \<Rightarrow> ice_env
     \<Rightarrow> string + ice_env \<times> signaling_client" where
  "negotiate_intent A missing wait_error clock session_id cfg env =
     (if wv_host_public_id cfg = [] then Inl missing
      else case http_to_ws_url (va_url A) (wv_server cfg) of
        Inl e \<Rightarrow> Inl (''ws url: '' @ show_register_error e)
      | Inr ws_url \<Rightarrow>
      (case va_connect A ws_url of
        Inl e \<Rightarrow> Inl (''ws connect: '' @ show_signaling_error e)
      | Inr sig \<Rightarrow>
      (case hello_viewer_anonymous (va_json A) (va_debug A) sig of
        (Inl e, s) \<Rightarrow> Inl (''hello: '' @ show_signaling_error e)
      | (Inr hello, s) \<Rightarrow>
      (case take_seq s of (intent_seq, s1) \<Rightarrow>
      (case session_intent_message (va_json A) session_id intent_seq (viewer_request cfg) of
        Inl e \<Rightarrow> Inl (''intent: '' @ show_viewer_error e)
      | Inr intent \<Rightarrow>
      (case client_send (va_json A) intent s1 of
        (Inl e, s2) \<Rightarrow> Inl (''send intent: '' @ show_signaling_error e)
      | (Inr _, s2) \<Rightarrow>
      (case recv_until (va_json A) clock 60000000000 is_decision s2 of
        (Inl e, s3) \<Rightarrow> Inl (wait_error e)
      | (Inr (SessionReject _ _ reason), s3) \<Rightarrow> Inl (''session rejected: '' @ debug_reject_reason reason)
      | (Inr _, s3) \<Rightarrow> Inr (apply_ice_servers_from_hello (va_json A) (va_as_array A) hello env, s3))))))))"

section \<open>Answering and candidates\<close>

type_synonym poll_readings = "(nat \<Rightarrow> instant \<times> instant) \<times> instant"

definition poll_quietly ::
  "('p, 'v, 's) viewer_env \<Rightarrow> poll_readings \<Rightarrow> ('p, 'v, 's) viewer_session \<Rightarrow> ('p, 'v, 's) viewer_session option" where
  "poll_quietly V rd v = map_option snd (vs_poll V (fst rd) (snd rd) v)"

definition viewer_transport_state :: "('p, 'v, 's) viewer_env \<Rightarrow> ('p, 'v, 's) viewer_session \<Rightarrow> connection_state option" where
  "viewer_transport_state V v = map_option (vp_state V) (vs_transport v)"

fun send_ices :: "'j json_api \<Rightarrow> string \<Rightarrow> ice_candidate list \<Rightarrow> signaling_client \<Rightarrow> (string + unit) \<times> signaling_client" where
  "send_ices J session_id [] sig = (Inr (), sig)"
| "send_ices J session_id (ice # rest) sig =
     (case take_seq sig of (ice_seq, s) \<Rightarrow>
      case client_send J (IceCandidate session_id ice_seq ice) s of
        (Inl e, s1) \<Rightarrow> (Inl (''send ice: '' @ show_signaling_error e), s1)
      | (Inr _, s1) \<Rightarrow> send_ices J session_id rest s1)"

fun send_ices_quietly :: "'j json_api \<Rightarrow> string \<Rightarrow> ice_candidate list \<Rightarrow> signaling_client \<Rightarrow> signaling_client" where
  "send_ices_quietly J session_id [] sig = sig"
| "send_ices_quietly J session_id (ice # rest) sig =
     (case take_seq sig of (ice_seq, s) \<Rightarrow>
      send_ices_quietly J session_id rest (snd (client_send J (IceCandidate session_id ice_seq ice) s)))"

definition answer_offer ::
  "'j json_api \<Rightarrow> ('p, 'v, 's) viewer_env \<Rightarrow> (nat \<Rightarrow> instant \<times> instant) \<Rightarrow> string \<Rightarrow> string \<Rightarrow> string
     \<Rightarrow> signaling_client \<Rightarrow> ('p, 'v, 's) viewer_session \<Rightarrow> ((string + unit) \<times> signaling_client \<times> ('p, 'v, 's) viewer_session) option" where
  "answer_offer J V clk session_id offer_sdp fsig sig v =
     (case accept_offer_with_sig V clk \<lparr>sdp_type_of = SdpOffer, sdp_text = offer_sdp\<rparr> (if fsig = [] then None else Some fsig) v of
        None \<Rightarrow> None
      | Some (Inl e, v1) \<Rightarrow> Some (Inl (''accept_offer: '' @ show_viewer_error e), sig, v1)
      | Some (Inr answer, v1) \<Rightarrow>
          (case take_seq sig of (ans_seq, s) \<Rightarrow>
           case client_send J (SessionAnswer session_id ans_seq (sdp_text answer)) s of
             (Inl e, s1) \<Rightarrow> Some (Inl (''send answer: '' @ show_signaling_error e), s1, v1)
           | (Inr _, s1) \<Rightarrow>
               (case take_pending_local_ice v1 of (ices, v2) \<Rightarrow>
                case send_ices J session_id ices s1 of (r, s2) \<Rightarrow> Some (r, s2, v2))))"

section \<open>The one-shot viewer\<close>

text \<open>One message while waiting for the connection; the result tells whether it was an offer. \<open>rd k\<close> are the clock readings of the \<open>k\<close>-th call.\<close>

definition ws_handle ::
  "'j json_api \<Rightarrow> ('p, 'v, 's) viewer_env \<Rightarrow> (nat \<Rightarrow> poll_readings) \<Rightarrow> string \<Rightarrow> 'j signal_message \<Rightarrow> signaling_client \<Rightarrow> ('p, 'v, 's) viewer_session
     \<Rightarrow> ((string + bool) \<times> signaling_client \<times> ('p, 'v, 's) viewer_session) option" where
  "ws_handle J V rd session_id msg sig v =
     (case msg of
        SessionOffer _ _ offer_sdp fsig \<Rightarrow>
          map_option (\<lambda>(r, s, v1). (map_sum id (\<lambda>_. True) r, s, v1)) (answer_offer J V (fst (rd 0)) session_id offer_sdp fsig sig v)
      | IceCandidate _ _ c \<Rightarrow>
          (case add_remote_ice V (fst (rd 1)) c v of
             None \<Rightarrow> None
           | Some (Inl e, v1) \<Rightarrow> Some (Inl (''add ice: '' @ show_viewer_error e), sig, v1)
           | Some (Inr _, v1) \<Rightarrow>
               (case poll_quietly V (rd 2) v1 of
                  None \<Rightarrow> None
                | Some v2 \<Rightarrow>
                    (case take_pending_local_ice v2 of (ices, v3) \<Rightarrow>
                     case send_ices J session_id ices sig of (r, s) \<Rightarrow> Some (map_sum id (\<lambda>_. False) r, s, v3))))
      | _ \<Rightarrow> Some (Inr False, sig, v))"

text \<open>The result of the loop tells whether an offer came.\<close>

fun ws_offer_loop ::
  "'j json_api \<Rightarrow> ('p, 'v, 's) viewer_env \<Rightarrow> (nat \<Rightarrow> nat \<Rightarrow> poll_readings) \<Rightarrow> string \<Rightarrow> nat \<Rightarrow> bool \<Rightarrow> signaling_client \<Rightarrow> ('p, 'v, 's) viewer_session
     \<Rightarrow> ((string + bool) \<times> signaling_client \<times> ('p, 'v, 's) viewer_session) option" where
  "ws_offer_loop J V rd session_id 0 got sig v = Some (Inr got, sig, v)"
| "ws_offer_loop J V rd session_id (Suc n) got sig v =
     (case recv_timeout J sig of
        (Inl (SgTimeout _), s) \<Rightarrow>
          (case poll_quietly V (rd n 3) v of None \<Rightarrow> None | Some v1 \<Rightarrow> ws_offer_loop J V rd session_id n got s v1)
      | (Inl e, s) \<Rightarrow> Some (Inl (''recv: '' @ show_signaling_error e), s, v)
      | (Inr msg, s) \<Rightarrow>
          (case ws_handle J V (rd n) session_id msg s v of
             None \<Rightarrow> None
           | Some (Inl e, s1, v1) \<Rightarrow> Some (Inl e, s1, v1)
           | Some (Inr offered, s1, v1) \<Rightarrow>
               (case poll_quietly V (rd n 3) v1 of
                  None \<Rightarrow> None
                | Some v2 \<Rightarrow>
                    if (got \<or> offered) \<and> viewer_transport_state V v2 = Some CsConnected then Some (Inr True, s1, v2)
                    else ws_offer_loop J V rd session_id n (got \<or> offered) s1 v2)))"

fun ws_media_loop ::
  "'j json_api \<Rightarrow> ('p, 'v, 's) viewer_env \<Rightarrow> (nat \<Rightarrow> nat \<Rightarrow> poll_readings) \<Rightarrow> nat \<Rightarrow> signaling_client \<Rightarrow> ('p, 'v, 's) viewer_session
     \<Rightarrow> (signaling_client \<times> ('p, 'v, 's) viewer_session) option" where
  "ws_media_loop J V rd 0 sig v = Some (sig, v)"
| "ws_media_loop J V rd (Suc n) sig v =
     (case poll_quietly V (rd n 0) v of
        None \<Rightarrow> None
      | Some v1 \<Rightarrow>
          if vs_recorded_video v1 \<noteq> [] \<and> vs_recorded_audio v1 \<noteq> [] then Some (sig, v1)
          else (case recv_timeout J sig of
              (Inr (IceCandidate _ _ c), s) \<Rightarrow>
                (case add_remote_ice V (fst (rd n 1)) c v1 of None \<Rightarrow> None | Some (_, v2) \<Rightarrow> ws_media_loop J V rd n s v2)
            | (_, s) \<Rightarrow> ws_media_loop J V rd n s v1))"

text \<open>The derived \<open>Debug\<close> text of an optional state.\<close>

fun debug_connection_state :: "connection_state \<Rightarrow> string" where
  "debug_connection_state CsNew = ''New''"
| "debug_connection_state CsConnecting = ''Connecting''"
| "debug_connection_state CsConnected = ''Connected''"
| "debug_connection_state CsDisconnected = ''Disconnected''"
| "debug_connection_state CsFailed = ''Failed''"
| "debug_connection_state CsClosed = ''Closed''"

definition debug_opt_state :: "connection_state option \<Rightarrow> string" where
  "debug_opt_state st = (case st of None \<Rightarrow> ''None'' | Some c \<Rightarrow> ''Some('' @ debug_connection_state c @ '')'')"

text \<open>\<open>offer_ticks\<close> and \<open>media_ticks\<close> are the iterations that 45 seconds and the media timeout allow; \<open>v0\<close> is \<open>ViewerSession::new()\<close>.\<close>

definition ws_after_accept ::
  "('j, 'u, 'p, 'v, 's) viewer_app \<Rightarrow> (nat \<Rightarrow> nat \<Rightarrow> poll_readings) \<Rightarrow> (nat \<Rightarrow> nat \<Rightarrow> poll_readings) \<Rightarrow> nat \<Rightarrow> nat \<Rightarrow> string \<Rightarrow> ws_viewer_config
     \<Rightarrow> 'p \<Rightarrow> signaling_client \<Rightarrow> ('p, 'v, 's) viewer_session \<Rightarrow> ((string + string) \<times> signaling_client \<times> ('p, 'v, 's) viewer_session) option" where
  "ws_after_accept A rd rd2 offer_ticks media_ticks session_id cfg answerer sig v0 =
     (case vs_begin_connect (viewer_request cfg) v0 of
        None \<Rightarrow> None
      | Some (Inl e, v1) \<Rightarrow> Some (Inl (''begin_connect: '' @ show_viewer_error e), sig, v1)
      | Some (Inr _, v1) \<Rightarrow>
      (case ws_offer_loop (va_json A) (va_session A) rd session_id offer_ticks False sig (attach_transport answerer v1) of
        None \<Rightarrow> None
      | Some (Inl e, s, v2) \<Rightarrow> Some (Inl e, s, v2)
      | Some (Inr False, s, v2) \<Rightarrow> Some (Inl ''timeout waiting for session_offer'', s, v2)
      | Some (Inr True, s, v2) \<Rightarrow>
      (case ws_media_loop (va_json A) (va_session A) rd2 media_ticks s v2 of
        None \<Rightarrow> None
      | Some (s1, v3) \<Rightarrow>
          let n = length (vs_recorded_video v3); a = length (vs_recorded_audio v3) in
          if n = 0 then
            Some (Inl (''no video received (audio='' @ show_nat a @ '' state='' @ debug_opt_state (viewer_transport_state (va_session A) v3) @ '')''), s1, v3)
          else
            Some (Inr (''ws-viewer ok host='' @ wv_host_public_id cfg @ '' session='' @ session_id @ '' transport='' @
                transport_mode_str (for_multi_process (va_features A) (wv_transport cfg)) @ '' video_rx='' @ show_nat n @ '' audio_rx='' @ show_nat a),
              client_close s1, v3))))"

definition run_ws_viewer ::
  "('j, 'u, 'p, 'v, 's) viewer_app \<Rightarrow> (nat \<Rightarrow> instant) \<Rightarrow> (nat \<Rightarrow> nat \<Rightarrow> poll_readings) \<Rightarrow> (nat \<Rightarrow> nat \<Rightarrow> poll_readings) \<Rightarrow> nat \<Rightarrow> nat \<Rightarrow> nat \<Rightarrow> ws_viewer_config
     \<Rightarrow> ice_env \<Rightarrow> 'v \<Rightarrow> 's \<Rightarrow> (string + string) option" where
  "run_ws_viewer A clock rd rd2 offer_ticks media_ticks millis_now cfg env video sink =
     (let session_id = ws_session_id millis_now in
      case negotiate_intent A ''--host PUBLIC_ID is required for --ws-connect'' ws_wait_error clock session_id cfg env of
        Inl e \<Rightarrow> Some (Inl e)
      | Inr (env1, sig) \<Rightarrow>
          (case va_create A env1 \<lparr>tc_mode = for_multi_process (va_features A) (wv_transport cfg)\<rparr> of
             Inl e \<Rightarrow> Some (Inl (''create answerer: '' @ show_net_error e))
           | Inr answerer \<Rightarrow>
               (case vs_new video sink of
                  None \<Rightarrow> None
                | Some v0 \<Rightarrow>
                    map_option fst (ws_after_accept A rd rd2 offer_ticks media_ticks session_id cfg answerer sig v0))))"

section \<open>The live viewer\<close>

text \<open>The picture as tightly packed RGBA; the buffer cannot have more than \<open>isize::MAX\<close> bytes.\<close>

fun rgba_chunks :: "pixel_format \<Rightarrow> bytes \<Rightarrow> bytes" where
  "rgba_chunks Bgra8 (b # g # r # a # src) = r # g # b # a # rgba_chunks Bgra8 src"
| "rgba_chunks Rgb24 (r # g # b # src) = r # g # b # 255 # rgba_chunks Rgb24 src"
| "rgba_chunks Gray8 (g # src) = g # g # g # 255 # rgba_chunks Gray8 src"
| "rgba_chunks Rgba8 src = src"
| "rgba_chunks _ _ = []"

text \<open>Writing from the start of the buffer: what does not fit is dropped, what is missing stays 0.\<close>

definition overlay :: "nat \<Rightarrow> bytes \<Rightarrow> bytes" where
  "overlay n src = take n src @ replicate (n - length src) 0"

definition frame_to_rgba :: "video_frame \<Rightarrow> bytes option" where
  "frame_to_rgba f =
     (let total = sat_usize (sat_usize (unat (vf_width f) * unat (vf_height f)) * 4) in
      if total \<ge> 2 ^ 63 then None else Some (overlay total (rgba_chunks (vf_format f) (vf_data f))))"

record live_snapshot =
  sn_status :: string
  sn_phase :: string
  sn_video_rx :: u64
  sn_audio_rx :: u64
  sn_width :: u32
  sn_height :: u32
  sn_rgba :: "bytes option"
  sn_identity_bound :: bool
  sn_error :: "string option"
  sn_ended :: bool

definition ellipsis :: string where
  "ellipsis = [CHR 0xE2, CHR 0x80, CHR 0xA6]"

definition live_snapshot_start :: live_snapshot where
  "live_snapshot_start = \<lparr>sn_status = ''Connecting'' @ ellipsis, sn_phase = phase_str VConnecting, sn_video_rx = 0, sn_audio_rx = 0,
     sn_width = 0, sn_height = 0, sn_rgba = None, sn_identity_bound = False, sn_error = None, sn_ended = False\<rparr>"

text \<open>The session as it is set up before the connect: the key from the code or the secret, when it has the right form.\<close>

definition live_bind_key :: "crypto \<Rightarrow> ws_viewer_config \<Rightarrow> session_bind_key option" where
  "live_bind_key K cfg =
     (if wv_unattended cfg then
        (case host_secret_try_new (utf8_bytes (wv_otp cfg)) of Inl _ \<Rightarrow> None | Inr secret \<Rightarrow> Some (from_mode_b_secret secret))
      else (case from_mode_a_otp K (wv_otp cfg) of Inl _ \<Rightarrow> None | Inr key \<Rightarrow> Some key))"

definition live_prepare :: "crypto \<Rightarrow> ws_viewer_config \<Rightarrow> ('p, 'v, 's) viewer_session \<Rightarrow> ('p, 'v, 's) viewer_session" where
  "live_prepare K cfg v0 =
     (let v = vs_set_always_capture True (vs_set_focused True (set_record_limit (Some 4) v0)) in
      case live_bind_key K cfg of
        Some key \<Rightarrow> mark_session_authorized (set_require_identity_for_input True (set_bind_key key v))
      | None \<Rightarrow> v)"

definition live_connect ::
  "crypto \<Rightarrow> ws_viewer_config \<Rightarrow> 'p \<Rightarrow> ('p, 'v, 's) viewer_session \<Rightarrow> ('p, 'v, 's, unit) session_result" where
  "live_connect K cfg answerer v0 =
     (case vs_begin_connect (viewer_request cfg) (live_prepare K cfg v0) of
        None \<Rightarrow> None
      | Some (Inl e, v) \<Rightarrow> Some (Inl e, v)
      | Some (Inr _, v) \<Rightarrow> Some (Inr (), attach_transport answerer v))"

definition add_ice_quietly ::
  "('p, 'v, 's) viewer_env \<Rightarrow> poll_readings \<Rightarrow> ice_candidate \<Rightarrow> ('p, 'v, 's) viewer_session \<Rightarrow> ('p, 'v, 's) viewer_session option" where
  "add_ice_quietly V rd c v = map_option snd (add_remote_ice V (fst rd) c v)"

text \<open>How the wait ends: with an error, with a return of the whole run, or with the mark whether an offer came.\<close>

datatype live_wait = WaitFails string | WaitReturns string | WaitDone bool

definition live_handle ::
  "'j json_api \<Rightarrow> ('p, 'v, 's) viewer_env \<Rightarrow> (nat \<Rightarrow> poll_readings) \<Rightarrow> string \<Rightarrow> 'j signal_message \<Rightarrow> signaling_client \<Rightarrow> ('p, 'v, 's) viewer_session
     \<Rightarrow> (live_wait \<times> signaling_client \<times> ('p, 'v, 's) viewer_session) option" where
  "live_handle J V rd session_id msg sig v =
     (case msg of
        SessionOffer _ _ offer_sdp fsig \<Rightarrow>
          map_option (\<lambda>(r, s, v1). (case r of Inl e \<Rightarrow> WaitFails e | Inr _ \<Rightarrow> WaitDone True, s, v1))
            (answer_offer J V (fst (rd 0)) session_id offer_sdp fsig sig v)
      | IceCandidate _ _ c \<Rightarrow>
          (case add_ice_quietly V (rd 1) c v of
             None \<Rightarrow> None
           | Some v1 \<Rightarrow>
               (case poll_quietly V (rd 2) v1 of
                  None \<Rightarrow> None
                | Some v2 \<Rightarrow>
                    (case take_pending_local_ice v2 of (ices, v3) \<Rightarrow> Some (WaitDone False, send_ices_quietly J session_id ices sig, v3))))
      | SessionEnd _ _ reason \<Rightarrow> Some (WaitReturns reason, sig, v)
      | _ \<Rightarrow> Some (WaitDone False, sig, v))"

fun live_offer_loop ::
  "'j json_api \<Rightarrow> ('p, 'v, 's) viewer_env \<Rightarrow> (nat \<Rightarrow> nat \<Rightarrow> poll_readings) \<Rightarrow> (nat \<Rightarrow> bool) \<Rightarrow> string \<Rightarrow> nat \<Rightarrow> bool \<Rightarrow> signaling_client
     \<Rightarrow> ('p, 'v, 's) viewer_session \<Rightarrow> (live_wait \<times> signaling_client \<times> ('p, 'v, 's) viewer_session) option" where
  "live_offer_loop J V rd stop session_id 0 got sig v = Some (WaitDone got, sig, v)"
| "live_offer_loop J V rd stop session_id (Suc n) got sig v =
     (if stop n then Some (WaitReturns ''cancelled'', client_close sig, v)
      else case recv_timeout J sig of
        (Inl (SgTimeout _), s) \<Rightarrow>
          (case poll_quietly V (rd n 3) v of None \<Rightarrow> None | Some v1 \<Rightarrow> live_offer_loop J V rd stop session_id n got s v1)
      | (Inl e, s) \<Rightarrow> Some (WaitFails (''recv: '' @ show_signaling_error e), s, v)
      | (Inr msg, s) \<Rightarrow>
          (case live_handle J V (rd n) session_id msg s v of
             None \<Rightarrow> None
           | Some (WaitDone offered, s1, v1) \<Rightarrow>
               (case poll_quietly V (rd n 3) v1 of
                  None \<Rightarrow> None
                | Some v2 \<Rightarrow>
                    if (got \<or> offered) \<and> viewer_transport_state V v2 = Some CsConnected then Some (WaitDone True, s1, v2)
                    else live_offer_loop J V rd stop session_id n (got \<or> offered) s1 v2)
           | Some (other, s1, v1) \<Rightarrow> Some (other, s1, v1)))"

text \<open>What the input channel holds, pushed into the capture stage; errors are dropped.\<close>

fun push_raws ::
  "('p, 'v, 's) viewer_env \<Rightarrow> (nat \<Rightarrow> u64) \<Rightarrow> instant \<Rightarrow> raw_input list \<Rightarrow> ('p, 'v, 's) viewer_session \<Rightarrow> ('p, 'v, 's) viewer_session" where
  "push_raws V ts now [] v = v"
| "push_raws V ts now (raw # raws) v = push_raws V ts now raws (snd (push_raw_input V ts now raw v))"

definition publish_tick ::
  "decoded_video_frame list \<Rightarrow> ('p, 'v, 's) viewer_session \<Rightarrow> live_snapshot \<Rightarrow> live_snapshot option" where
  "publish_tick frames v snap =
     (let base = snap\<lparr>sn_phase := phase_str (cm_phase (vs_machine v)), sn_video_rx := st_video_frames (vs_stats v),
                sn_audio_rx := st_audio_packets (vs_stats v), sn_identity_bound := st_identity_bound (vs_stats v)\<rparr>
      in if frames = [] then Some base
         else map_option (\<lambda>rgba. base\<lparr>sn_status := ''In session'', sn_width := vf_width (dv_frame (last frames)),
                sn_height := vf_height (dv_frame (last frames)), sn_rgba := Some rgba\<rparr>) (frame_to_rgba (dv_frame (last frames))))"

text \<open>The second half of an iteration: poll, input, frames.\<close>

definition live_tick ::
  "('p, 'v, 's) viewer_env \<Rightarrow> (nat \<Rightarrow> poll_readings) \<Rightarrow> (nat \<Rightarrow> u64) \<Rightarrow> raw_input list \<Rightarrow> live_snapshot \<Rightarrow> ('p, 'v, 's) viewer_session
     \<Rightarrow> (live_snapshot \<times> ('p, 'v, 's) viewer_session) option" where
  "live_tick V rd ts raws snap v =
     (case poll_quietly V (rd 1) v of
        None \<Rightarrow> None
      | Some v1 \<Rightarrow>
          (let v2 = push_raws V ts (snd (rd 2)) raws v1;
               v3 = snd (poll_input_capture V ts (snd (rd 3)) v2)
           in case drain_video_frames v3 of
                (frames, v4) \<Rightarrow> map_option (\<lambda>sn. (sn, v4)) (publish_tick frames v4 snap)))"

text \<open>The reason why the streaming loop ended, if it did within \<open>n\<close> iterations.\<close>

fun live_stream ::
  "'j json_api \<Rightarrow> ('p, 'v, 's) viewer_env \<Rightarrow> (nat \<Rightarrow> nat \<Rightarrow> poll_readings) \<Rightarrow> (nat \<Rightarrow> bool) \<Rightarrow> (nat \<Rightarrow> raw_input list) \<Rightarrow> (nat \<Rightarrow> nat \<Rightarrow> u64) \<Rightarrow> nat
     \<Rightarrow> live_snapshot \<Rightarrow> signaling_client \<Rightarrow> ('p, 'v, 's) viewer_session
     \<Rightarrow> (string option \<times> live_snapshot \<times> signaling_client \<times> ('p, 'v, 's) viewer_session) option" where
  "live_stream J V rd stop raws ts 0 snap sig v = Some (None, snap, sig, v)"
| "live_stream J V rd stop raws ts (Suc n) snap sig v =
     (if stop n then Some (Some ''viewer_disconnect'', snap, sig, v)
      else if viewer_transport_state V v \<in> {Some CsFailed, Some CsClosed} then Some (Some ''peer_disconnected'', snap, sig, v)
      else
        (let go = (\<lambda>s v1. case live_tick V (rd n) (ts n) (raws n) snap v1 of
               None \<Rightarrow> None | Some (snap1, v2) \<Rightarrow> live_stream J V rd stop raws ts n snap1 s v2)
         in case recv_timeout J sig of
              (Inr (IceCandidate _ _ c), s) \<Rightarrow>
                (case add_ice_quietly V (rd n 0) c v of None \<Rightarrow> None | Some v1 \<Rightarrow> go s v1)
            | (Inr (SessionEnd _ _ reason), s) \<Rightarrow> Some (Some (if reason = [] then ''host_session_end'' else reason), snap, s, v)
            | (Inr _, s) \<Rightarrow> go s v
            | (Inl (SgTimeout _), s) \<Rightarrow> go s v
            | (Inl e, s) \<Rightarrow>
                if is_stale_signal_seq e then go s v
                else Some (Some (''signaling:'' @ show_signaling_error e), snap, s, v)))"

text \<open>The end of a session: its last message, and the peer and the socket closed.\<close>

definition live_finish ::
  "'j json_api \<Rightarrow> ('p, 'v, 's) viewer_env \<Rightarrow> string \<Rightarrow> string \<Rightarrow> signaling_client \<Rightarrow> ('p, 'v, 's) viewer_session
     \<Rightarrow> signaling_client \<times> ('p, 'v, 's) viewer_session" where
  "live_finish J V session_id end_reason sig v =
     (case take_seq sig of (end_seq, s) \<Rightarrow>
        (client_close (snd (client_send J (SessionEnd session_id end_seq end_reason) s)), vs_close V v))"

definition live_session ::
  "'j json_api \<Rightarrow> ('p, 'v, 's) viewer_env \<Rightarrow> (nat \<Rightarrow> nat \<Rightarrow> poll_readings) \<Rightarrow> (nat \<Rightarrow> nat \<Rightarrow> poll_readings) \<Rightarrow> (nat \<Rightarrow> bool) \<Rightarrow> (nat \<Rightarrow> bool)
     \<Rightarrow> (nat \<Rightarrow> raw_input list) \<Rightarrow> (nat \<Rightarrow> nat \<Rightarrow> u64) \<Rightarrow> nat \<Rightarrow> nat \<Rightarrow> string \<Rightarrow> live_snapshot \<Rightarrow> signaling_client \<Rightarrow> ('p, 'v, 's) viewer_session
     \<Rightarrow> ((string + string) option \<times> live_snapshot \<times> signaling_client \<times> ('p, 'v, 's) viewer_session) option" where
  "live_session J V rd rd2 stop stop2 raws ts offer_ticks stream_ticks session_id snap sig v =
     (case live_offer_loop J V rd stop session_id offer_ticks False sig v of
        None \<Rightarrow> None
      | Some (WaitFails e, s, v1) \<Rightarrow> Some (Some (Inl e), snap, s, v1)
      | Some (WaitReturns reason, s, v1) \<Rightarrow> Some (Some (Inr reason), snap, s, v1)
      | Some (WaitDone False, s, v1) \<Rightarrow> Some (Some (Inl ''timeout waiting for session_offer''), snap, s, v1)
      | Some (WaitDone True, s, v1) \<Rightarrow>
          (case live_stream J V rd2 stop2 raws ts stream_ticks (snap\<lparr>sn_status := ''Streaming''\<rparr>) s v1 of
             None \<Rightarrow> None
           | Some (None, snap1, s1, v2) \<Rightarrow> Some (None, snap1, s1, v2)
           | Some (Some reason, snap1, s1, v2) \<Rightarrow>
               (case live_finish J V session_id reason s1 v2 of (s2, v3) \<Rightarrow> Some (Some (Inr reason), snap1, s2, v3))))"

text \<open>What the worker thread leaves in the snapshot when \<open>run_live\<close> has returned.\<close>

definition live_publish_result :: "string + string \<Rightarrow> live_snapshot \<Rightarrow> live_snapshot" where
  "live_publish_result r snap =
     (case r of
        Inr reason \<Rightarrow>
          (let g = snap\<lparr>sn_ended := True\<rparr> in
           if sn_error g = None then g\<lparr>sn_status := ''Session ended ('' @ reason @ '')''\<rparr> else g)
      | Inl e \<Rightarrow> snap\<lparr>sn_ended := True, sn_error := Some e, sn_status := ''Connect failed: '' @ e\<rparr>)"

text \<open>The whole run, and the snapshot the shell shows: the statuses of a negotiation that fails are overwritten at the end.\<close>

definition run_live ::
  "('j, 'u, 'p, 'v, 's) viewer_app \<Rightarrow> (nat \<Rightarrow> instant) \<Rightarrow> (nat \<Rightarrow> nat \<Rightarrow> poll_readings) \<Rightarrow> (nat \<Rightarrow> nat \<Rightarrow> poll_readings) \<Rightarrow> (nat \<Rightarrow> bool) \<Rightarrow> (nat \<Rightarrow> bool)
     \<Rightarrow> (nat \<Rightarrow> raw_input list) \<Rightarrow> (nat \<Rightarrow> nat \<Rightarrow> u64) \<Rightarrow> nat \<Rightarrow> nat \<Rightarrow> nat \<Rightarrow> ws_viewer_config \<Rightarrow> ice_env \<Rightarrow> 'v \<Rightarrow> 's
     \<Rightarrow> ((string + string) option \<times> live_snapshot) option" where
  "run_live A clock rd rd2 stop stop2 raws ts offer_ticks stream_ticks millis_now cfg env video sink =
     (let session_id = live_session_id millis_now in
      case negotiate_intent A ''remote ID is required'' live_wait_error clock session_id cfg env of
        Inl e \<Rightarrow> Some (Some (Inl e), live_snapshot_start)
      | Inr (env1, sig) \<Rightarrow>
          (let snap = live_snapshot_start\<lparr>sn_status := ''Accepted '' @ [CHR 0xE2, CHR 0x80, CHR 0x94] @ '' negotiating'' @ ellipsis\<rparr> in
           case va_create A env1 \<lparr>tc_mode = for_multi_process (va_features A) (wv_transport cfg)\<rparr> of
             Inl e \<Rightarrow> Some (Some (Inl (''create answerer: '' @ show_net_error e)), snap)
           | Inr answerer \<Rightarrow>
               (case vs_new video sink of
                  None \<Rightarrow> None
                | Some v0 \<Rightarrow>
                    (case live_connect (vp_crypto (va_session A)) cfg answerer v0 of
                       None \<Rightarrow> None
                     | Some (Inl e, v) \<Rightarrow> Some (Some (Inl (''begin_connect: '' @ show_viewer_error e)), snap)
                     | Some (Inr _, v) \<Rightarrow>
                         map_option (\<lambda>(r, sn, _). (r, sn))
                           (live_session (va_json A) (va_session A) rd rd2 stop stop2 raws ts offer_ticks stream_ticks session_id snap sig v)))))"

definition live_worker where
  "live_worker A clock rd rd2 stop stop2 raws ts offer_ticks stream_ticks millis_now cfg env video sink =
     map_option (\<lambda>(r, sn). case r of None \<Rightarrow> sn | Some x \<Rightarrow> live_publish_result x sn)
       (run_live A clock rd rd2 stop stop2 raws ts offer_ticks stream_ticks millis_now cfg env video sink)"

definition named_key_from_name :: "string \<Rightarrow> named_key option" where
  "named_key_from_name name = map_of
     [(''A'', KeyA), (''B'', KeyB), (''C'', KeyC), (''D'', KeyD), (''E'', KeyE), (''F'', KeyF), (''G'', KeyG), (''H'', KeyH), (''I'', KeyI),
      (''J'', KeyJ), (''K'', KeyK), (''L'', KeyL), (''M'', KeyM), (''N'', KeyN), (''O'', KeyO), (''P'', KeyP), (''Q'', KeyQ), (''R'', KeyR),
      (''S'', KeyS), (''T'', KeyT), (''U'', KeyU), (''V'', KeyV), (''W'', KeyW), (''X'', KeyX), (''Y'', KeyY), (''Z'', KeyZ),
      (''Enter'', KeyEnter), (''Escape'', KeyEscape), (''Backspace'', KeyBackspace), (''Tab'', KeyTab), (''Space'', KeySpace),
      (''ArrowLeft'', KeyArrowLeft), (''ArrowRight'', KeyArrowRight), (''ArrowUp'', KeyArrowUp), (''ArrowDown'', KeyArrowDown), (''Delete'', KeyDelete)] name"

end
