(* ===== verification/Viewer_Ws_Props.thy ===== *)
theory Viewer_Ws_Props
  imports Viewer_Ws Loopback_Session
begin

text \<open>
  What the viewer application shows and proves: the picture it paints is the picture it decoded, the session it proves to its host is
  the one of its connect request and not the one it negotiated, and a session that streams ends with a message to the host.
\<close>

section \<open>The session id of a viewer\<close>

text \<open>The session and the key that the identity answer is computed from: nothing but a connect or a new key changes them.\<close>

definition proof_of :: "('p, 'v, 's) viewer_session \<Rightarrow> string option \<times> session_bind_key option" where
  "proof_of s = (vs_session_id s, vs_bind_key s)"

lemma proof_of_updates [simp]:
  "proof_of (s\<lparr>vs_transport := a\<rparr>) = proof_of s" "proof_of (s\<lparr>vs_buf := b\<rparr>) = proof_of s" "proof_of (s\<lparr>vs_video := c\<rparr>) = proof_of s"
  "proof_of (s\<lparr>vs_video_out := d\<rparr>) = proof_of s" "proof_of (s\<lparr>vs_audio := e\<rparr>) = proof_of s" "proof_of (s\<lparr>vs_sink := f\<rparr>) = proof_of s"
  "proof_of (s\<lparr>vs_input := g\<rparr>) = proof_of s" "proof_of (s\<lparr>vs_capture := h\<rparr>) = proof_of s" "proof_of (s\<lparr>vs_pending_local_ice := i\<rparr>) = proof_of s"
  "proof_of (s\<lparr>vs_stats := j\<rparr>) = proof_of s" "proof_of (s\<lparr>vs_recorded_video := k\<rparr>) = proof_of s" "proof_of (s\<lparr>vs_recorded_audio := l\<rparr>) = proof_of s"
  "proof_of (s\<lparr>vs_identity := m\<rparr>) = proof_of s" "proof_of (s\<lparr>vs_host_fp := n\<rparr>) = proof_of s" "proof_of (s\<lparr>vs_skew := p\<rparr>) = proof_of s"
  "proof_of (s\<lparr>vs_last_video_present_ms := q\<rparr>) = proof_of s" "proof_of (s\<lparr>vs_last_audio_playout_ms := r\<rparr>) = proof_of s"
  "proof_of (s\<lparr>vs_wall_origin := t\<rparr>) = proof_of s" "proof_of (s\<lparr>vs_last_video_pts := u\<rparr>) = proof_of s" "proof_of (s\<lparr>vs_machine := w\<rparr>) = proof_of s"
  by (simp_all add: proof_of_def)

lemma proof_of_small [simp]:
  "proof_of (sync_bind_status s) = proof_of s" "proof_of (refresh_skew_stats now s) = proof_of s" "proof_of (note_wall now s) = proof_of s"
  by (simp_all add: sync_bind_status_def refresh_skew_stats_def note_wall_def split: option.split prod.split)

lemma on_transport_proof: "on_transport f s = (r, s') \<Longrightarrow> proof_of s' = proof_of s"
  by (auto simp: on_transport_def split: option.splits prod.splits)

lemma handle_track_proof: "handle_track E ts t s = Some s' \<Longrightarrow> proof_of s' = proof_of s"
proof (cases t)
  case (TrackVideo n)
  moreover assume "handle_track E ts t s = Some s'"
  ultimately show ?thesis by (auto simp: handle_video_def Let_def split: option.splits prod.splits)
next
  case (TrackAudio p)
  moreover assume "handle_track E ts t s = Some s'"
  ultimately show ?thesis by (auto simp: handle_audio_def Let_def split: option.splits prod.splits sum.splits if_splits)
qed

lemma handle_tracks_proof: "handle_tracks E clk i ts s = Some s' \<Longrightarrow> proof_of s' = proof_of s"
  by (induction E clk i ts s rule: handle_tracks.induct) (auto split: option.splits dest: handle_track_proof)

lemma handle_identity_proof: "handle_identity_message E d s = Some (r, s') \<Longrightarrow> proof_of s' = proof_of s"
  by (auto simp: handle_identity_message_def Let_def split: sum.splits dc_identity_message.splits option.splits prod.splits dest!: on_transport_proof)

lemma handle_identities_proof: "handle_identity_messages E ds s = Some (r, s') \<Longrightarrow> proof_of s' = proof_of s"
  by (induction E ds s rule: handle_identity_messages.induct) (auto split: option.splits prod.splits sum.splits dest: handle_identity_proof)

lemma drain_proof: "drain_callback_buf E clk s = Some (r, s') \<Longrightarrow> proof_of s' = proof_of s"
  by (auto simp: drain_callback_buf_def Let_def split: option.splits dest!: handle_tracks_proof handle_identities_proof)

lemma poll_proof: "poll_quietly E rd s = Some s' \<Longrightarrow> proof_of s' = proof_of s"
  by (auto simp: poll_quietly_def vs_poll_def split: prod.splits sum.splits option.splits if_splits dest!: on_transport_proof drain_proof)

lemma add_ice_proof: "add_remote_ice E clk c s = Some (r, s') \<Longrightarrow> proof_of s' = proof_of s"
  by (auto simp: add_remote_ice_def split: prod.splits sum.splits dest!: on_transport_proof drain_proof)

lemma accept_proof:
  assumes "accept_offer_with_sig E clk offer sig s = Some (r, s')"
  shows "proof_of s' = proof_of s"
proof -
  define s1 where "s1 = (case fingerprint_sign_material_from_sdp (sdp_text offer) of Some fp \<Rightarrow> s\<lparr>vs_host_fp := Some fp\<rparr> | None \<Rightarrow> s)"
  have "proof_of s1 = proof_of s" by (simp add: s1_def split: option.split)
  moreover have "proof_of s' = proof_of s1"
    using assms unfolding accept_offer_with_sig_def s1_def [symmetric]
    by (auto simp: Let_def split: option.splits sum.splits prod.splits if_splits dest!: on_transport_proof drain_proof)
  ultimately show ?thesis by simp
qed

lemma send_captured_proof: "send_captured E ts c s = (r, s') \<Longrightarrow> proof_of s' = proof_of s"
  by (auto simp: send_captured_def send_encoded_def vs_send_data_def split: prod.splits sum.splits dest!: on_transport_proof)

lemma send_all_proof: "send_all E ts cs n s = (r, s') \<Longrightarrow> proof_of s' = proof_of s"
  by (induction E ts cs n s rule: send_all.induct) (auto split: prod.splits sum.splits dest: send_captured_proof)

lemma push_raw_proof: "proof_of (snd (push_raw_input E ts now raw s)) = proof_of s"
proof -
  obtain r s' where "push_raw_input E ts now raw s = (r, s')" by fastforce
  then show ?thesis by (auto simp: push_raw_input_def split: sum.splits prod.splits dest!: send_all_proof)
qed

lemma push_raws_proof: "proof_of (push_raws E ts now raws s) = proof_of s"
  by (induction E ts now raws s rule: push_raws.induct) (simp_all add: push_raw_proof)

lemma poll_moves_proof: "poll_moves E ts now n s = (r, s') \<Longrightarrow> proof_of s' = proof_of s"
proof (induction E ts now n s rule: poll_moves.induct)
  case (1 E ts now n s)
  from 1(2) 1(1) show ?case
    by (subst (asm) poll_moves.simps) (fastforce split: prod.splits option.splits sum.splits dest: send_captured_proof)
qed

lemma poll_input_proof: "proof_of (snd (poll_input_capture E ts now s)) = proof_of s"
proof -
  obtain r s' where "poll_input_capture E ts now s = (r, s')" by fastforce
  then show ?thesis by (auto simp: poll_input_capture_def split: sum.splits dest: poll_moves_proof)
qed

lemma answer_proof: "answer_offer J V clk sid o' fsig sig v = Some (r, s, v') \<Longrightarrow> proof_of v' = proof_of v"
  by (auto simp: answer_offer_def take_pending_local_ice_def split: option.splits sum.splits prod.splits dest!: accept_proof)

lemma live_handle_proof: "live_handle J V rd sid msg sig v = Some (r, s, v') \<Longrightarrow> proof_of v' = proof_of v"
  by (auto simp: live_handle_def add_ice_quietly_def take_pending_local_ice_def split: signal_message.splits option.splits
      dest!: answer_proof poll_proof add_ice_proof)

lemma live_offer_proof: "live_offer_loop J V rd stop sid n got sig v = Some (r, s, v') \<Longrightarrow> proof_of v' = proof_of v"
proof (induction n arbitrary: got sig v)
  case (Suc n)
  obtain r0 s0 where recv: "recv_timeout J sig = (r0, s0)" by fastforce
  show ?case
  proof (cases "stop n")
    case False
    show ?thesis
    proof (cases r0)
      case (Inl e)
      with Suc False recv show ?thesis
        by (cases e) (auto split: option.splits dest!: poll_proof Suc.IH)
    next
      case (Inr msg)
      with Suc.prems False recv obtain w s1 v1 where h: "live_handle J V (rd n) sid msg s0 v = Some (w, s1, v1)"
        by (auto split: option.splits)
      note p = live_handle_proof [OF h]
      show ?thesis
      proof (cases w)
        case (WaitDone b)
        with Suc.prems False recv Inr h obtain v2 where v2: "poll_quietly V (rd n 3) v1 = Some v2" by (auto split: option.splits)
        with Suc.prems False recv Inr h WaitDone p poll_proof [OF v2] show ?thesis
          by (auto split: if_splits dest!: Suc.IH)
      qed (use Suc.prems False recv Inr h p in auto)
    qed
  qed (use Suc.prems in auto)
qed simp

lemma live_tick_proof: "live_tick V rd ts raws sn v = Some (sn', v') \<Longrightarrow> proof_of v' = proof_of v"
  using poll_proof
  by (fastforce simp: live_tick_def Let_def drain_video_frames_def poll_input_proof push_raws_proof split: option.splits prod.splits)

lemma live_stream_proof: "live_stream J V rd stop raws ts n sn sig v = Some (r, sn', s, v') \<Longrightarrow> proof_of v' = proof_of v"
proof (induction n arbitrary: sn sig v)
  case (Suc n)
  have go: "proof_of v' = proof_of v1" if "(case live_tick V (rd n) (ts n) (raws n) sn v1 of None \<Rightarrow> None
      | Some (sn1, v2) \<Rightarrow> live_stream J V rd stop raws ts n sn1 s1 v2) = Some (r, sn', s, v')" for s1 v1
    using that by (auto split: option.splits dest!: live_tick_proof Suc.IH)
  obtain r0 s0 where recv: "recv_timeout J sig = (r0, s0)" by fastforce
  have ice: "proof_of v1 = proof_of v" if "add_ice_quietly V (rd n 0) c v = Some v1" for c v1
    using that by (auto simp: add_ice_quietly_def dest: add_ice_proof)
  show ?case
  proof (cases "stop n \<or> viewer_transport_state V v \<in> {Some CsFailed, Some CsClosed}")
    case True
    with Suc.prems show ?thesis by (auto split: if_splits)
  next
    case False
    show ?thesis
    proof (cases r0)
      case (Inl e)
      with Suc.prems False recv go [of s0 v] show ?thesis by (cases e) (auto split: if_splits)
    next
      case (Inr msg)
      show ?thesis
      proof (cases "\<exists>a b c. msg = IceCandidate a b c")
        case True
        then obtain a b c where m: "msg = IceCandidate a b c" by blast
        with Suc.prems False recv Inr obtain v1 where v1: "add_ice_quietly V (rd n 0) c v = Some v1" by (auto split: option.splits)
        with Suc.prems False recv Inr m go [of s0 v1] ice [OF v1] show ?thesis by simp
      next
        case no_ice: False
        with Suc.prems False recv Inr go [of s0 v] show ?thesis by (cases msg) auto
      qed
    qed
  qed
qed simp

text \<open>What the connect leaves: the id of the connect request, and the key of the code or the secret.\<close>

lemma live_connect_proof:
  assumes "live_connect K cfg p v0 = Some (Inr (), v)" "live_bind_key K cfg = Some key"
  shows "proof_of v = (Some (''sess-stub-'' @ sanitize_id (wv_host_public_id cfg)), Some key) \<and> vs_transport v = Some p \<and> vs_require_identity v"
proof -
  have host: "cr_host_public_id (viewer_request cfg) = wv_host_public_id cfg"
    by (simp add: viewer_request_def unattended_request_def otp_request_def)
  have key: "vs_bind_key (live_prepare K cfg v0) = Some key" "vs_require_identity (live_prepare K cfg v0)"
    by (simp_all add: live_prepare_def Let_def assms(2) mark_session_authorized_def set_require_identity_for_input_def set_bind_key_def sync_bind_status_def)
  have "vs_bind_key v1 = Some key \<and> vs_require_identity v1 \<and> vs_session_id v1 = Some (''sess-stub-'' @ sanitize_id (wv_host_public_id cfg))"
    if "vs_begin_connect (viewer_request cfg) (live_prepare K cfg v0) = Some (Inr stub, v1)" for stub v1
    using that key
    by (auto simp: vs_begin_connect_def connect_stub_def host Let_def sync_bind_status_def teardown_transport_def split: sum.splits option.splits)
  with assms(1) show ?thesis
    by (auto simp: live_connect_def proof_of_def attach_transport_def teardown_transport_def split: option.splits sum.splits)
qed

lemma stub_not_negotiated: "''sess-stub-'' @ s \<noteq> live_session_id n"
  by (simp add: live_session_id_def)

section \<open>The live viewer is never bound\<close>

text \<open>
  C12. The live viewer proves the wrong session. Take a viewer that \<open>live.rs\<close> connected with a code, at any point of its wait for the offer and of its streaming, joined to a host that is attached to
  the session it negotiated, authorized with the key of the same code, and has not bound it yet. Its answers are computed over the id of its connect request, not over
  the one it negotiated, so, unless the MAC of the two transcripts collides, the answer to the host's challenge leaves the viewer believing that it is bound,
  while the host refuses it with \<open>mac mismatch\<close> and still injects nothing.
\<close>

theorem live_viewer_proves_wrong_session:
  assumes connect: "live_connect (vp_crypto V) cfg p v0 = Some (Inr (), v)" "live_bind_key (vp_crypto V) cfg = Some key"
    and runs: "live_offer_loop J (mock_viewer_env V) rd stop sid m got sig v = Some (w, sig1, v1)"
      "live_stream J (mock_viewer_env V) rd2 stop2 raws ts n sn sig1 v1 = Some (res, sn2, sig2, ln_viewer l)"
    and "joined a b l"
    and host: "hm_session_id (ln_host l) = Some (live_session_id t)" "ib_session_id (hm_identity (ln_host l)) = live_session_id t"
      "session_authorized (hm_identity (ln_host l))" "hm_bind_key (ln_host l) = Some key" "\<not> identity_bound (hm_identity (ln_host l))"
    and same: "vp_crypto V = crypto_of E" and mac: "\<And>k m. length (hmac_sha256 (crypto_of E) k m) = 32"
    and no_collision: "\<And>x y. encode_dc_bind_message (utf8_bytes (live_session_id t)) nonce
          (utf8_bytes (as_sign_material (mp_local_fp a))) (utf8_bytes (as_sign_material (mp_local_fp b))) = Some x \<Longrightarrow>
        encode_dc_bind_message (utf8_bytes (''sess-stub-'' @ sanitize_id (wv_host_public_id cfg))) nonce
          (utf8_bytes (as_sign_material (mp_local_fp a))) (utf8_bytes (as_sign_material (mp_local_fp b))) = Some y \<Longrightarrow>
        hmac_sha256 (crypto_of E) (bind_key_bytes key) x \<noteq> hmac_sha256 (crypto_of E) (bind_key_bytes key) y"
    and small: "list_all (\<lambda>b. length b < 2 ^ 32) [utf8_bytes (live_session_id t), utf8_bytes (''sess-stub-'' @ sanitize_id (wv_host_public_id cfg)), nonce,
      utf8_bytes (as_sign_material (mp_local_fp a)), utf8_bytes (as_sign_material (mp_local_fp b))]" "nonce \<noteq> []"
  shows "\<exists>l1 l2 l3.
    host_does (\<lambda>h. Some (start_identity_challenge (mock_host_env E) nonce h)) l = Some (Inr (), l1) \<and>
    viewer_does (vs_poll (mock_viewer_env V) clk now) l1 = Some (Inr (), l2) \<and> st_identity_bound (vs_stats (ln_viewer l2)) \<and>
    host_does (poll_inbound (mock_host_env E) clock) l2 = Some (Inl (SeAuth (IdentityBind ''mac mismatch'')), l3) \<and>
    \<not> injection_allowed (ln_host l3)"
proof -
  let ?vsid = "''sess-stub-'' @ sanitize_id (wv_host_public_id cfg)" and ?fa = "as_sign_material (mp_local_fp a)" and ?fb = "as_sign_material (mp_local_fp b)"
  let ?E = "mock_host_env E" and ?V = "mock_viewer_env V" and ?h = "ln_host l"
  note j = \<open>joined a b l\<close> [unfolded joined_def]
  have "proof_of (ln_viewer l) = proof_of v" using live_stream_proof [OF runs(2)] live_offer_proof [OF runs(1)] by simp
  then have viewer: "vs_bind_key (ln_viewer l) = Some key" "vs_session_id (ln_viewer l) = Some ?vsid"
    using live_connect_proof [OF connect] by (simp_all add: proof_of_def)
  obtain x y where xy: "encode_dc_bind_message (utf8_bytes (live_session_id t)) nonce (utf8_bytes ?fa) (utf8_bytes ?fb) = Some x"
    "encode_dc_bind_message (utf8_bytes ?vsid) nonce (utf8_bytes ?fa) (utf8_bytes ?fb) = Some y"
    using small(1) by (simp add: encode_dc_bind_message_def append_lp_def)
  let ?response = "hmac_sha256 (crypto_of E) (bind_key_bytes key) y"
  have response: "respond_dc_challenge (vp_crypto V) key ?vsid nonce ?fa ?fb = Some ?response"
    using xy(2) same by (simp add: respond_dc_challenge_def compute_dc_bind_mac_def)
  let ?r = "WireData (identity_data (encode_dc_response ?response))"
  let ?h2 = "?h\<lparr>hm_peer := (a, wire_of [?r] []), hm_challenge := Some nonce\<rparr>"
  obtain l1 v2 where 1: "host_does (\<lambda>h. Some (start_identity_challenge ?E nonce h)) l = Some (Inr (), l1)"
    and 2: "viewer_does (vs_poll ?V clk now) l1 = Some (Inr (), \<lparr>ln_host = ?h2, ln_viewer = v2\<rparr>)" and bound: "st_identity_bound (vs_stats v2)"
    by (rule challenge_crosses [OF \<open>joined a b l\<close> host(1,3,4) viewer response small(2)])
  have "complete_dc_bind (crypto_of E) key nonce ?response ?fa ?fb (hm_identity ?h) = Some (Inl (IdentityBind ''mac mismatch''), hm_identity ?h)"
    using no_collision [OF xy] xy(1) host(2) mac
    by (simp add: complete_dc_bind_def verify_dc_bind_mac_def DC_BIND_MAC_LEN_def compute_dc_bind_mac_def)
  then have "poll_inbound ?E clock ?h2 = Some (Inl (SeAuth (IdentityBind ''mac mismatch'')),
      ?h\<lparr>hm_peer := (a, wire_of [] []), hm_data := [], hm_challenge := None, hm_identity := hm_identity ?h\<rparr>)"
    using j host parse_encoded_response [OF mac]
    by (simp add: poll_inbound_def on_peer_def as_host_op_def poll_connected deliver_one_data host_events_def handle_identity_data_def Let_def
        local_fp_def remote_fp_def mock_local_fp_def mock_remote_fp_def local_fingerprint_def remote_fingerprint_def no_inbound_def)
  then have "\<exists>l3. host_does (poll_inbound ?E clock) \<lparr>ln_host = ?h2, ln_viewer = v2\<rparr> = Some (Inl (SeAuth (IdentityBind ''mac mismatch'')), l3) \<and>
      \<not> injection_allowed (ln_host l3)"
    using host(5) by (simp add: host_does_def injection_allowed_def input_allowed_def)
  with 1 2 bound show ?thesis by (metis linked.select_convs(2))
qed

text \<open>A MAC that depends on the length of the message only, which is enough to tell the two transcripts apart.\<close>

definition length_crypto :: crypto where
  "length_crypto = tag_crypto\<lparr>hmac_sha256 := \<lambda>k m. replicate 32 (of_nat (length m))\<rparr>"

definition demo_end_peer :: "pair_side \<Rightarrow> mock_peer" where
  "demo_end_peer side = (new_mock_peer \<lparr>fp_algorithm = ''sha-256'', fp_value = ''AB''\<rparr> default_mock_config)
     \<lparr>mp_side := Some side, mp_state := CsConnected, mp_remote_fp := Some \<lparr>fp_algorithm = ''sha-256'', fp_value = ''AB''\<rparr>\<rparr>"

definition demo_live_config :: ws_viewer_config where
  "demo_live_config = default_ws_viewer_config\<lparr>wv_host_public_id := ''h''\<rparr>"

lemma demo_live_ok: "connect_stub (viewer_request demo_live_config) = Inr \<lparr>cs_session_id = ''sess-stub-h'', cs_accepted = True\<rparr>"
proof -
  have "trim ''h'' = ''h''" "trim ''123456'' = ''123456''" by (rule trim_all_visible, simp add: visible_def)+
  then show ?thesis
    by (simp add: connect_stub_def validate_request_def viewer_request_def demo_live_config_def default_ws_viewer_config_def otp_request_def
        sanitize_id_def is_ascii_alnum_def cont_def)
qed

lemma demo_sanitized: "sanitize_id ''h'' = ''h''"
  by (simp add: sanitize_id_def is_ascii_alnum_def cont_def)

theorem live_viewer_proves_wrong_session_witness:
  "\<exists>l l1 l2 l3. host_does (\<lambda>h. Some (start_identity_challenge (mock_host_env (loop_host_env\<lparr>crypto_of := length_crypto\<rparr>)) [7] h)) l = Some (Inr (), l1) \<and>
     viewer_does (vs_poll (mock_viewer_env (loop_viewer_env\<lparr>vp_crypto := length_crypto\<rparr>)) (\<lambda>_. (0, 0)) 0) l1 = Some (Inr (), l2) \<and>
     st_identity_bound (vs_stats (ln_viewer l2)) \<and>
     host_does (poll_inbound (mock_host_env (loop_host_env\<lparr>crypto_of := length_crypto\<rparr>)) (\<lambda>_. (0, 0))) l2 =
       Some (Inl (SeAuth (IdentityBind ''mac mismatch'')), l3) \<and> \<not> injection_allowed (ln_host l3)"
proof -
  let ?V = "loop_viewer_env\<lparr>vp_crypto := length_crypto\<rparr>" and ?E = "loop_host_env\<lparr>crypto_of := length_crypto\<rparr>"
  let ?a = "demo_end_peer SideA" and ?b = "demo_end_peer SideB"
  have "well_formed_code ''123456''" by (simp add: well_formed_code_def is_ascii_digit_def)
  then obtain key where key: "live_bind_key (vp_crypto ?V) demo_live_config = Some key"
    by (simp add: live_bind_key_def demo_live_config_def default_ws_viewer_config_def from_mode_a_otp_def validate_otp_format_iff [THEN iffD2])
  have key': "live_bind_key length_crypto demo_live_config = Some key" using key by simp
  obtain v0 :: "(mock_end, unit, unit) viewer_session" where v0: "vs_new () () = Some v0" "ic_config (vs_capture v0) = default_capture_config"
    using new_default_capture by (auto simp: vs_new_def new_capture_def)
  have cap: "\<exists>c. new_capture (default_capture_config\<lparr>icc_always_capture := True\<rparr>) = Some c"
    using new_default_capture by (auto simp: new_capture_def default_capture_config_def)
  have config: "ic_config (vs_capture (live_prepare (vp_crypto ?V) demo_live_config v0)) = default_capture_config\<lparr>icc_always_capture := True\<rparr>"
    by (simp add: live_prepare_def key' Let_def mark_session_authorized_def sync_bind_status_def set_require_identity_for_input_def set_bind_key_def
        vs_set_always_capture_def set_always_capture_def vs_set_focused_def set_focused_def set_record_limit_def v0(2))
  obtain v where v: "live_connect (vp_crypto ?V) demo_live_config (?b, wire_of [] []) v0 = Some (Inr (), v)" "vs_buf v = no_events"
    using cap config by (auto simp: live_connect_def vs_begin_connect_def demo_live_ok Let_def teardown_transport_def attach_transport_def)
  let ?h = "install_key key (manager_attach (live_session_id 5) demo_injector (manager_with_peer (?a, wire_of [] []) demo_injector))"
  let ?l = "\<lparr>ln_host = ?h, ln_viewer = v\<rparr>"
  have tr: "vs_transport v = Some (?b, wire_of [] [])" using live_connect_proof [OF v(1) key] by simp
  have runs: "live_offer_loop text_json (mock_viewer_env ?V) (\<lambda>_ _. ((\<lambda>_. (0, 0)), 0)) (\<lambda>_. False) [] 0 False (client_connected [] []) v =
      Some (WaitDone False, client_connected [] [], v)"
    "live_stream text_json (mock_viewer_env ?V) (\<lambda>_ _. ((\<lambda>_. (0, 0)), 0)) (\<lambda>_. False) (\<lambda>_. []) (\<lambda>_ _. 0) 0 live_snapshot_start (client_connected [] []) v =
      Some (None, live_snapshot_start, client_connected [] [], ln_viewer ?l)" by simp_all
  have joined: "joined ?a ?b ?l" using tr v(2)
    by (simp add: joined_def demo_end_peer_def new_mock_peer_def default_mock_config_def install_key_def manager_attach_def manager_with_peer_def)
  have host: "hm_session_id (ln_host ?l) = Some (live_session_id 5)" "ib_session_id (hm_identity (ln_host ?l)) = live_session_id 5"
      "session_authorized (hm_identity (ln_host ?l))" "hm_bind_key (ln_host ?l) = Some key" "\<not> identity_bound (hm_identity (ln_host ?l))"
    by (simp_all add: install_key_def manager_attach_def mark_authorized_def new_identity_def)
  have same: "vp_crypto ?V = crypto_of ?E" and mac: "length (hmac_sha256 (crypto_of ?E) k m) = 32" for k m by (simp_all add: length_crypto_def)
  have "char_of (53 :: nat) = CHR ''5''" by code_simp
  then have sid: "live_session_id 5 = ''viewer-5''" by (simp add: live_session_id_def show_nat.simps)
  have vsid: "''sess-stub-'' @ sanitize_id (wv_host_public_id demo_live_config) = ''sess-stub-h''"
    by (simp add: demo_live_config_def demo_sanitized)
  have nc: "hmac_sha256 (crypto_of ?E) (bind_key_bytes key) x \<noteq> hmac_sha256 (crypto_of ?E) (bind_key_bytes key) y"
    if "encode_dc_bind_message (utf8_bytes (live_session_id 5)) [7] (utf8_bytes (as_sign_material (mp_local_fp ?a))) (utf8_bytes (as_sign_material (mp_local_fp ?b))) = Some x"
      "encode_dc_bind_message (utf8_bytes (''sess-stub-'' @ sanitize_id (wv_host_public_id demo_live_config))) [7]
        (utf8_bytes (as_sign_material (mp_local_fp ?a))) (utf8_bytes (as_sign_material (mp_local_fp ?b))) = Some y" for x y
  proof -
    have "length y = length x + 3"
      using that unfolding sid vsid by (auto simp: encode_dc_bind_message_def append_lp_Some bind_eq_Some_conv lp_def utf8_bytes_def to_be_bytes_def)
    then have "(of_nat (length y) :: u8) = of_nat (length x) + 3" by simp
    then show ?thesis by (simp add: length_crypto_def)
  qed
  have fps: "length (utf8_bytes (as_sign_material (mp_local_fp (demo_end_peer side)))) < 2 ^ 32" for side
    by (simp add: utf8_bytes_def as_sign_material_def demo_end_peer_def new_mock_peer_def default_mock_config_def ascii_lower_def ascii_upper_def)
  have small: "list_all (\<lambda>b. length b < 2 ^ 32) [utf8_bytes (live_session_id 5), utf8_bytes (''sess-stub-'' @ sanitize_id (wv_host_public_id demo_live_config)), [7 :: u8],
      utf8_bytes (as_sign_material (mp_local_fp ?a)), utf8_bytes (as_sign_material (mp_local_fp ?b))]"
    unfolding sid vsid using fps [of SideA] fps [of SideB] by (simp add: utf8_bytes_def)
  from live_viewer_proves_wrong_session [OF v(1) key runs joined host same mac nc small, where clk = "\<lambda>_. (0, 0)" and now = 0 and clock = "\<lambda>_. (0, 0)"]
  show ?thesis by (simp only: not_Cons_self2 list.simps) blast
qed

end
